(* ===== verification/Prelude.thy ===== *)
theory Prelude
  imports Main "HOL-Library.Word" "HOL-Library.Monad_Syntax"
begin

text \<open>
  What every component of the firmware model shares: the C integer types as words, C strings
  and character buffers as byte lists, checked stores into buffers, the \<open>esp_err_t\<close> codes, the
  little and big endian codecs, and the lemma collections the component theories add to.
\<close>

unbundle bit_operations_syntax

section \<open>Lemma collections\<close>

named_theorems fw_defs \<open>definitions of firmware operations that proofs unfold together\<close>
named_theorems fw_simps \<open>rewrite rules on firmware operations\<close>
named_theorems inv_intros \<open>preservation of component invariants\<close>

section \<open>C integers\<close>

type_synonym u8 = "8 word"
type_synonym u16 = "16 word"
type_synonym u32 = "32 word"
type_synonym u64 = "64 word"

abbreviation UINT8_MAX :: u8 where "UINT8_MAX \<equiv> 255"
abbreviation UINT32_MAX :: u32 where "UINT32_MAX \<equiv> 4294967295"
abbreviation UINT64_MAX :: u64 where "UINT64_MAX \<equiv> 18446744073709551615"

section \<open>Bytes and C strings\<close>

text \<open>
  A \<open>char\<close> array is the list of its bytes, all of them, so its length is the size of the array.
  The C string held by a buffer is what stands before the first NUL. A string literal is written
  as an Isabelle string and turned into bytes by \<open>cs\<close>; its terminating NUL is written out where
  the code copies it.
\<close>

type_synonym bytes = "u8 list"

definition cs :: "string \<Rightarrow> bytes" where
  "cs s = map of_char s"

definition cstr :: "bytes \<Rightarrow> bytes" where
  "cstr buf = takeWhile (\<lambda>b. b \<noteq> 0) buf"

text \<open>\<open>strnlen\<close>: the length of the string, but at most \<open>n\<close>.\<close>

definition strnlen :: "bytes \<Rightarrow> nat \<Rightarrow> nat" where
  "strnlen buf n = length (cstr (take n buf))"

text \<open>A buffer that holds a terminated string.\<close>

definition terminated :: "bytes \<Rightarrow> bool" where
  "terminated buf \<longleftrightarrow> 0 \<in> set buf"

text \<open>
  Accesses through a pointer. An access outside the array is undefined in C; it is \<open>None\<close> here, so
  that memory safety is the statement that a run does not return \<open>None\<close>.
\<close>

definition store :: "'a list \<Rightarrow> nat \<Rightarrow> 'a \<Rightarrow> 'a list option" where
  "store buf i v = (if i < length buf then Some (buf[i := v]) else None)"

definition load :: "'a list \<Rightarrow> nat \<Rightarrow> 'a option" where
  "load buf i = (if i < length buf then Some (buf ! i) else None)"

text \<open>\<open>memcpy\<close> to the front of \<open>dst\<close>, of all of \<open>src\<close> or of its first \<open>n\<close> bytes, and \<open>strlcpy\<close> into a buffer of the size of \<open>dst\<close>.\<close>

definition memcpy0 :: "bytes \<Rightarrow> bytes \<Rightarrow> bytes option" where
  "memcpy0 dst src =
     (if length src \<le> length dst then Some (src @ drop (length src) dst) else None)"

definition memcpy :: "bytes \<Rightarrow> bytes \<Rightarrow> nat \<Rightarrow> bytes option" where
  "memcpy dst src n =
     (if n \<le> length src \<and> n \<le> length dst then Some (take n src @ drop n dst) else None)"

definition strlcpy :: "bytes \<Rightarrow> bytes \<Rightarrow> bytes" where
  "strlcpy dst src =
     (if dst = [] then []
      else let s = take (length dst - 1) (cstr src) in s @ 0 # drop (Suc (length s)) dst)"

text \<open>
  \<open>snprintf(buf + pos, size, ...)\<close> once its arguments are formatted: the text is cut to the size,
  with a NUL after it.
\<close>

definition snprintf_at :: "bytes \<Rightarrow> nat \<Rightarrow> nat \<Rightarrow> bytes \<Rightarrow> bytes option" where
  "snprintf_at buf pos n txt =
     (if n = 0 then Some buf
      else let s = take (n - 1) txt in
        if pos + length s < length buf
        then Some (take pos buf @ s @ 0 # drop (pos + length s + 1) buf) else None)"

text \<open>\<open>%02x\<close> of a byte.\<close>

definition hex_digit :: "u8 \<Rightarrow> u8" where
  "hex_digit d = (if d < 10 then 48 + d else 87 + d)"

definition hex2 :: "u8 \<Rightarrow> bytes" where
  "hex2 b = [hex_digit (drop_bit 4 b), hex_digit (b AND 15)]"

text \<open>The bytes of a pointer argument with a length: none for the NULL pointer.\<close>

definition buf_bytes :: "bytes option \<Rightarrow> nat \<Rightarrow> bytes" where
  "buf_bytes p n = (case p of None \<Rightarrow> [] | Some bs \<Rightarrow> take n bs)"

section \<open>Error codes of ESP-IDF the code returns\<close>

datatype esp_err =
    ESP_OK | ESP_FAIL | ESP_ERR_NO_MEM | ESP_ERR_INVALID_ARG | ESP_ERR_INVALID_STATE
  | ESP_ERR_INVALID_SIZE | ESP_ERR_NOT_FOUND | ESP_ERR_TIMEOUT | ESP_ERR_INVALID_RESPONSE
  | ESP_ERR_INVALID_CRC | ESP_ERR_INVALID_VERSION | ESP_ERR_NVS_NOT_FOUND
  | ESP_ERR_NVS_NO_FREE_PAGES | ESP_ERR_NVS_NEW_VERSION_FOUND | ESP_ERR_NVS_NOT_INITIALIZED
  | ESP_ERR_OTHER int

section \<open>Endianness\<close>

definition le16 :: "u16 \<Rightarrow> bytes" where
  "le16 w = [ucast w, ucast (drop_bit 8 w)]"

definition le32 :: "u32 \<Rightarrow> bytes" where
  "le32 w = [ucast w, ucast (drop_bit 8 w), ucast (drop_bit 16 w), ucast (drop_bit 24 w)]"

definition rd_le16 :: "u8 \<Rightarrow> u8 \<Rightarrow> u16" where
  "rd_le16 a b = ucast a OR push_bit 8 (ucast b)"

definition rd_le32 :: "u8 \<Rightarrow> u8 \<Rightarrow> u8 \<Rightarrow> u8 \<Rightarrow> u32" where
  "rd_le32 a b c d =
     ucast a OR push_bit 8 (ucast b) OR push_bit 16 (ucast c) OR push_bit 24 (ucast d)"

lemma length_le16 [simp]: "length (le16 w) = 2"
  by (simp add: le16_def)

lemma length_le32 [simp]: "length (le32 w) = 4"
  by (simp add: le32_def)

lemma rd_le16_le16:
  "rd_le16 (ucast w) (ucast (drop_bit 8 w)) = w"
  by (rule bit_word_eqI) (auto simp: rd_le16_def bit_simps)

lemma rd_le32_le32:
  "rd_le32 (ucast w) (ucast (drop_bit 8 w)) (ucast (drop_bit 16 w)) (ucast (drop_bit 24 w)) = w"
proof (rule bit_word_eqI)
  fix n assume "n < LENGTH(32)"
  then have n: "n < 32" by simp
  consider "n < 8" | "8 \<le> n" "n < 16" | "16 \<le> n" "n < 24" | "24 \<le> n" using n by linarith
  then show "bit (rd_le32 (ucast w) (ucast (drop_bit 8 w)) (ucast (drop_bit 16 w))
      (ucast (drop_bit 24 w))) n = bit w n"
    using n by cases (simp_all add: rd_le32_def bit_simps, linarith+)
qed

lemma le32_inject: "le32 v = le32 w \<longleftrightarrow> v = w"
  unfolding le32_def by (metis rd_le32_le32 list.inject)

lemma le16_inject: "le16 v = le16 w \<longleftrightarrow> v = w"
  unfolding le16_def by (metis rd_le16_le16 list.inject)

section \<open>Lemmas on strings and buffers\<close>

lemma cstr_Nil [simp]: "cstr [] = []"
  by (simp add: cstr_def)

lemma cstr_Cons [simp]: "cstr (b # bs) = (if b = 0 then [] else b # cstr bs)"
  by (simp add: cstr_def)

lemma cstr_no_nul: "0 \<notin> set (cstr buf)"
  by (auto simp: cstr_def dest: set_takeWhileD)

lemma cstr_idem [simp]: "0 \<notin> set s \<Longrightarrow> cstr s = s"
  by (induction s) auto

lemma cstr_append_nul [simp]: "0 \<notin> set s \<Longrightarrow> cstr (s @ 0 # rest) = s"
  by (induction s) auto

lemma cstr_append_nul_any: "cstr (s @ 0 # rest) = cstr s"
  by (induction s) auto

lemma cstr_take_nul: "buf ! k = 0 \<Longrightarrow> k < length buf \<Longrightarrow> cstr buf = cstr (take k buf)"
  by (metis cstr_append_nul_any id_take_nth_drop)

lemma length_cstr_le: "length (cstr buf) \<le> length buf"
  by (simp add: cstr_def length_takeWhile_le)

lemma terminated_nth: "i < length buf \<Longrightarrow> buf ! i = 0 \<Longrightarrow> terminated buf"
  unfolding terminated_def by (metis nth_mem)

lemma length_cstr_less: "terminated buf \<Longrightarrow> length (cstr buf) < length buf"
  unfolding terminated_def by (induction buf) auto

lemma store_Some [simp]: "i < length buf \<Longrightarrow> store buf i v = Some (buf[i := v])"
  by (simp add: store_def)

lemma load_Some [simp]: "i < length buf \<Longrightarrow> load buf i = Some (buf ! i)"
  by (simp add: load_def)

lemma store_SomeD: "store buf i v = Some buf' \<Longrightarrow> buf' = buf[i := v] \<and> i < length buf"
  by (auto simp: store_def split: if_splits)

lemma memcpy0_length: "memcpy0 dst src = Some dst' \<Longrightarrow> length dst' = length dst"
  by (auto simp: memcpy0_def split: if_splits)

lemma memcpy_string:
  assumes "terminated src" "length (cstr src) < length dst"
  shows "memcpy dst src (length (cstr src) + 1) =
    Some (cstr src @ 0 # drop (Suc (length (cstr src))) dst)"
proof -
  have "take (Suc (length (cstr src))) src = cstr src @ [0]"
    using assms(1) unfolding terminated_def by (induction src) auto
  with assms length_cstr_less [OF assms(1)] show ?thesis by (simp add: memcpy_def)
qed

lemma snprintf_fits:
  assumes "length txt < n" "pos + length txt < length buf"
  shows "snprintf_at buf pos n txt = Some (take pos buf @ txt @ 0 # drop (pos + length txt + 1) buf)"
  using assms by (simp add: snprintf_at_def Let_def)

lemma hex_digit_nonzero: "d < 16 \<Longrightarrow> hex_digit d \<noteq> 0"
  by (auto simp: hex_digit_def word_unat_eq_iff word_less_nat_alt unat_word_ariths mod_if)

lemma nibbles_less: "drop_bit 4 (b :: u8) < 16" "b AND 15 < 16"
proof -
  have "unat b < 256" by (rule order_less_le_trans [OF unsigned_less]) simp
  then have "unat (drop_bit 4 b) < 16"
    by (simp add: drop_bit_eq_div unat_div)
  then show "drop_bit 4 b < 16" unfolding word_less_nat_alt by simp
  have "b AND 15 \<le> 15" by (rule word_and_le1)
  then show "b AND 15 < 16" by (simp add: word_le_nat_alt word_less_nat_alt)
qed

lemma hex2_nonzero: "0 \<notin> set (hex2 b)"
  using hex_digit_nonzero [OF nibbles_less(1)] hex_digit_nonzero [OF nibbles_less(2)]
  by (auto simp: hex2_def dest: sym)

lemma length_hex2 [simp]: "length (hex2 b) = 2"
  by (simp add: hex2_def)

lemma strnlen_eq: "strnlen buf n = min n (length (cstr buf))"
  unfolding strnlen_def by (induction buf arbitrary: n) (auto simp: take_Cons' min_def)

lemma strlcpy_length [simp]: "length (strlcpy dst src) = length dst"
  by (cases dst) (auto simp: strlcpy_def Let_def min_def)

lemma cstr_strlcpy:
  "dst \<noteq> [] \<Longrightarrow> cstr (strlcpy dst src) = take (length dst - 1) (cstr src)"
proof -
  have "0 \<notin> set (take (length dst - 1) (cstr src))"
    using cstr_no_nul [of src] in_set_takeD by fastforce
  then show "dst \<noteq> [] \<Longrightarrow> ?thesis"
    by (simp add: strlcpy_def Let_def)
qed

lemma terminated_strlcpy: "dst \<noteq> [] \<Longrightarrow> terminated (strlcpy dst src)"
  by (simp add: strlcpy_def Let_def terminated_def)

lemma cs_Nil [simp]: "cs [] = []"
  by (simp add: cs_def)

lemma cs_Cons [simp]: "cs (c # s) = of_char c # cs s"
  by (simp add: cs_def)

lemma length_cs [simp]: "length (cs s) = length s"
  by (simp add: cs_def)

lemma unat_of_char [simp]: "unat (of_char c :: u8) = of_char c"
proof -
  have "(of_char c :: u8) = of_nat (of_char c)" by (simp only: of_nat_of_char)
  moreover have "(of_char c :: nat) < 256" by simp
  ultimately show ?thesis by (simp only: unat_of_nat) simp
qed

lemma of_char_eq_0_word [simp]: "(of_char c :: u8) = 0 \<longleftrightarrow> c = CHR 0x00"
proof -
  have "(of_char c :: u8) = 0 \<longleftrightarrow> unat (of_char c :: u8) = 0" by (simp only: unat_eq_0)
  also have "\<dots> \<longleftrightarrow> (of_char c :: nat) = of_char (CHR 0x00)" by simp
  also have "\<dots> \<longleftrightarrow> c = CHR 0x00" by (simp only: of_char_eq_iff)
  finally show ?thesis .
qed

lemma buf_bytes_Some [simp]: "buf_bytes (Some bs) (length bs) = bs"
  by (simp add: buf_bytes_def)

section \<open>Single bits\<close>

lemma and_push_bit_1_eq_0: "w AND push_bit k 1 = 0 \<longleftrightarrow> \<not> bit (w :: 'a::len word) k"
proof
  assume "w AND push_bit k 1 = 0"
  then have "\<not> bit (w AND push_bit k 1) k" by simp
  then show "\<not> bit w k" by (auto simp: bit_simps dest: bit_imp_le_length)
next
  assume "\<not> bit w k"
  then show "w AND push_bit k 1 = 0"
    by (intro bit_word_eqI) (auto simp: bit_simps bit_1_iff)
qed

lemma and_absorb_iff: "r AND m = m \<longleftrightarrow> (\<forall>j. bit m j \<longrightarrow> bit (r :: 'a::len word) j)"
proof
  assume "r AND m = m"
  then show "\<forall>j. bit m j \<longrightarrow> bit r j" by (metis bit_and_iff)
next
  assume "\<forall>j. bit m j \<longrightarrow> bit r j"
  then show "r AND m = m" by (intro bit_word_eqI) (auto simp: bit_and_iff)
qed

end
