(* ===== verification/Interfaces.thy ===== *)
theory Interfaces
  imports Prelude "HOL-Library.Sublist"
begin

text \<open>
  The contracts several components share, each as a locale over the operations it talks about: a
  state machine with an invariant, a parser that is fed one byte at a time, and a bounded first-in
  first-out store. The components interpret them on their own definitions.
\<close>

section \<open>State machines with an invariant\<close>

locale invariant_machine =
  fixes step :: "'s \<Rightarrow> 'e \<Rightarrow> 's"
    and inv :: "'s \<Rightarrow> bool"
  assumes inv_step: "inv s \<Longrightarrow> inv (step s e)"
begin

lemma inv_run: "inv s \<Longrightarrow> inv (foldl step s es)"
  by (induction es arbitrary: s) (auto intro: inv_step)

end

text \<open>A machine some of whose events leave a chosen part of the state alone.\<close>

locale framed_machine =
  fixes step :: "'s \<Rightarrow> 'e \<Rightarrow> 's"
    and view :: "'s \<Rightarrow> 'v"
    and quiet :: "'e \<Rightarrow> bool"
  assumes view_step: "quiet e \<Longrightarrow> view (step s e) = view s"
begin

lemma view_run: "list_all quiet es \<Longrightarrow> view (foldl step s es) = view s"
  by (induction es arbitrary: s) (auto simp: view_step)

end

section \<open>Parsers fed with fragments\<close>

text \<open>
  A parser consumes a fragment byte by byte. A byte leaves it running, ends the message or fails.
  A message that ends before its fragment does is an error of its own. Every call returns \<open>None\<close>
  where the code would leave its buffers.
\<close>

datatype ancs_parser_result = ANCS_PARSER_MORE | ANCS_PARSER_COMPLETE | ANCS_PARSER_ERROR

locale fragment_parser =
  fixes step :: "'p \<Rightarrow> u8 \<Rightarrow> ('p \<times> ancs_parser_result) option"
    and overrun :: "'p \<Rightarrow> 'p"
    and completed :: "'p \<Rightarrow> bool"
    and failed :: "'p \<Rightarrow> bool"
    and loop :: "'p \<Rightarrow> bytes \<Rightarrow> ('p \<times> ancs_parser_result) option"
    and feed :: "'p \<Rightarrow> bytes \<Rightarrow> ('p \<times> ancs_parser_result) option"
  assumes loop_Nil:
      "loop p [] = Some (p, if completed p then ANCS_PARSER_COMPLETE else ANCS_PARSER_MORE)"
    and loop_Cons:
      "loop p (b # bs) =
        (case step p b of
           None \<Rightarrow> None
         | Some (p', ANCS_PARSER_MORE) \<Rightarrow> loop p' bs
         | Some (p', ANCS_PARSER_COMPLETE) \<Rightarrow>
             if bs = [] then Some (p', ANCS_PARSER_COMPLETE)
             else Some (overrun p', ANCS_PARSER_ERROR)
         | Some (p', ANCS_PARSER_ERROR) \<Rightarrow> Some (p', ANCS_PARSER_ERROR))"
    and feed_eq:
      "feed p bs =
        (if failed p then Some (p, ANCS_PARSER_ERROR)
         else if completed p then
           (if bs = [] then Some (p, ANCS_PARSER_COMPLETE)
            else Some (overrun p, ANCS_PARSER_ERROR))
         else loop p bs)"
    and step_more: "\<lbrakk>\<not> completed p; \<not> failed p; step p b = Some (p', ANCS_PARSER_MORE)\<rbrakk>
        \<Longrightarrow> \<not> completed p' \<and> \<not> failed p'"
    and step_complete: "step p b = Some (p', ANCS_PARSER_COMPLETE)
        \<Longrightarrow> completed p' \<and> \<not> failed p'"
    and step_error: "step p b = Some (p', ANCS_PARSER_ERROR) \<Longrightarrow> failed p'"
    and overrun_failed: "failed (overrun p)"
    and failed_not_completed: "failed p \<Longrightarrow> \<not> completed p"
begin

text \<open>
  A property of the parser that every byte keeps holds after every fragment, and the fragment is
  consumed without leaving a buffer.
\<close>

lemma loop_inv:
  assumes step_inv: "\<And>p b. \<lbrakk>I p; \<not> completed p; \<not> failed p\<rbrakk> \<Longrightarrow> \<exists>p' r. step p b = Some (p', r) \<and> I p'"
    and overrun_inv: "\<And>p. I p \<Longrightarrow> I (overrun p)"
    and "I p" "\<not> completed p" "\<not> failed p"
  shows "\<exists>p' r. loop p bs = Some (p', r) \<and> I p' \<and> (r = ANCS_PARSER_COMPLETE \<longleftrightarrow> completed p')"
  using assms(3-)
proof (induction bs arbitrary: p)
  case Nil
  then show ?case by (simp add: loop_Nil)
next
  case (Cons b bs)
  then obtain p1 r1 where s: "step p b = Some (p1, r1)" and I1: "I p1"
    using step_inv by blast
  show ?case
  proof (cases r1)
    case ANCS_PARSER_MORE
    with s Cons.prems have "\<not> completed p1" "\<not> failed p1" using step_more by blast+
    with Cons.IH [OF I1] s ANCS_PARSER_MORE show ?thesis by (simp add: loop_Cons)
  next
    case ANCS_PARSER_COMPLETE
    with s I1 overrun_inv [OF I1] step_complete [of p b p1]
      overrun_failed [of p1] failed_not_completed [of "overrun p1"]
    show ?thesis by (cases "bs = []") (auto simp: loop_Cons)
  next
    case ANCS_PARSER_ERROR
    with s I1 step_error [of p b p1] failed_not_completed [of p1] show ?thesis
      by (simp add: loop_Cons)
  qed
qed

lemma feed_inv:
  assumes step_inv: "\<And>p b. \<lbrakk>I p; \<not> completed p; \<not> failed p\<rbrakk> \<Longrightarrow> \<exists>p' r. step p b = Some (p', r) \<and> I p'"
    and overrun_inv: "\<And>p. I p \<Longrightarrow> I (overrun p)"
    and "I p"
  shows "\<exists>p' r. feed p bs = Some (p', r) \<and> I p' \<and> (r = ANCS_PARSER_COMPLETE \<longleftrightarrow> completed p')"
proof (cases "failed p \<or> completed p")
  case True
  with assms(3) overrun_inv [of p] overrun_failed [of p] failed_not_completed show ?thesis
    by (cases "failed p"; cases "bs = []") (auto simp: feed_eq)
next
  case False
  with loop_inv [OF step_inv overrun_inv assms(3)] show ?thesis by (simp add: feed_eq)
qed

lemma feed_failed: "failed p \<Longrightarrow> feed p bs = Some (p, ANCS_PARSER_ERROR)"
  by (simp add: feed_eq)

lemma feed_running: "\<not> failed p \<Longrightarrow> \<not> completed p \<Longrightarrow> feed p bs = loop p bs"
  by (simp add: feed_eq)

lemma loop_append:
  assumes "\<not> failed p" "\<not> completed p"
  shows "loop p (xs @ ys) =
    (case loop p xs of None \<Rightarrow> None | Some (p', _) \<Rightarrow> feed p' ys)"
  using assms
proof (induction xs arbitrary: p)
  case Nil
  then show ?case by (simp add: loop_Nil feed_eq)
next
  case (Cons b xs)
  show ?case
  proof (cases "step p b")
    case None
    then show ?thesis by (simp add: loop_Cons)
  next
    case (Some pr)
    then obtain p' r where pr: "step p b = Some (p', r)" by (cases pr) auto
    show ?thesis
    proof (cases r)
      case ANCS_PARSER_MORE
      with pr Cons.prems have "\<not> failed p'" "\<not> completed p'" using step_more by blast+
      with Cons.IH pr ANCS_PARSER_MORE show ?thesis by (simp add: loop_Cons)
    next
      case ANCS_PARSER_COMPLETE
      with pr have "completed p'" "\<not> failed p'" using step_complete by blast+
      with pr ANCS_PARSER_COMPLETE show ?thesis
        by (auto simp: loop_Cons feed_eq overrun_failed)
    next
      case ANCS_PARSER_ERROR
      with pr have "failed p'" using step_error by blast
      with pr ANCS_PARSER_ERROR show ?thesis by (simp add: loop_Cons feed_eq)
    qed
  qed
qed

text \<open>Two fragments are as good as one: the parser does not see where a message is cut.\<close>

lemma feed_append:
  "feed p (xs @ ys) = (case feed p xs of None \<Rightarrow> None | Some (p', _) \<Rightarrow> feed p' ys)"
  by (cases "failed p \<or> completed p")
    (auto simp: feed_eq loop_append overrun_failed)

lemma feed_fragments:
  "foldl (\<lambda>s f. case s of None \<Rightarrow> None | Some (p, _) \<Rightarrow> feed p f) (feed p f0) fs =
     feed p (concat (f0 # fs))"
proof (induction fs arbitrary: f0)
  case Nil
  then show ?case by simp
next
  case (Cons f fs)
  have "(case feed p f0 of None \<Rightarrow> None | Some (p, _) \<Rightarrow> feed p f) = feed p (f0 @ f)"
    by (simp add: feed_append)
  then show ?case using Cons.IH [of "f0 @ f"] by simp
qed

end

section \<open>Bounded queues\<close>

text \<open>A queue with a capacity, seen through the list of the elements it holds.\<close>

locale bounded_fifo =
  fixes capacity :: nat
    and contents :: "'q \<Rightarrow> 'a list"
    and ok :: "'q \<Rightarrow> bool"
    and push :: "'q \<Rightarrow> 'a \<Rightarrow> 'q \<times> bool"
    and pop :: "'q \<Rightarrow> 'q \<times> 'a option"
  assumes ok_bound: "ok q \<Longrightarrow> length (contents q) \<le> capacity"
    and ok_push: "ok q \<Longrightarrow> ok (fst (push q x))"
    and ok_pop: "ok q \<Longrightarrow> ok (fst (pop q))"
    and push_accepted: "ok q \<Longrightarrow> snd (push q x) \<longleftrightarrow> length (contents q) < capacity"
    and push_contents: "ok q \<Longrightarrow>
        contents (fst (push q x)) = (if snd (push q x) then contents q @ [x] else contents q)"
    and pop_empty: "\<lbrakk>ok q; contents q = []\<rbrakk> \<Longrightarrow> pop q = (q, None)"
    and pop_nonempty: "\<lbrakk>ok q; contents q = x # xs\<rbrakk> \<Longrightarrow>
        snd (pop q) = Some x \<and> contents (fst (pop q)) = xs"
begin

text \<open>Pushing a list of events into a queue with room for them appends them in order.\<close>

lemma push_list_contents:
  assumes "ok q" "length (contents q) + length xs \<le> capacity"
  shows "contents (foldl (\<lambda>q x. fst (push q x)) q xs) = contents q @ xs
    \<and> ok (foldl (\<lambda>q x. fst (push q x)) q xs)"
  using assms
proof (induction xs arbitrary: q)
  case Nil
  then show ?case by simp
next
  case (Cons x xs)
  then have "snd (push q x)" by (simp add: push_accepted)
  with Cons.prems have c: "contents (fst (push q x)) = contents q @ [x]"
    by (simp add: push_contents)
  with Cons.prems Cons.IH [OF ok_push [OF Cons.prems(1)], of x] show ?case by simp
qed

text \<open>What was pushed comes out again, oldest first.\<close>

lemma pop_after_push:
  assumes "ok q" "contents q = []" "0 < capacity"
  shows "snd (pop (fst (push q x))) = Some x"
  using assms by (simp add: push_accepted push_contents pop_nonempty ok_push)

fun drain :: "nat \<Rightarrow> 'q \<Rightarrow> 'a list" where
  "drain 0 q = []"
| "drain (Suc n) q =
     (case pop q of (q', None) \<Rightarrow> [] | (q', Some x) \<Rightarrow> x # drain n q')"

lemma drain_contents: "ok q \<Longrightarrow> length (contents q) \<le> n \<Longrightarrow> drain n q = contents q"
proof (induction n arbitrary: q)
  case 0
  then show ?case by simp
next
  case (Suc n)
  show ?case
  proof (cases "contents q")
    case Nil
    with Suc.prems show ?thesis by (simp add: pop_empty)
  next
    case (Cons x xs)
    with Suc.prems have p: "snd (pop q) = Some x" "contents (fst (pop q)) = xs" "ok (fst (pop q))"
      by (auto simp: pop_nonempty ok_pop)
    with Suc.IH [of "fst (pop q)"] Suc.prems Cons show ?thesis
      by (simp add: case_prod_beta)
  qed
qed

end

end
