(* ===== verification/Ancs_State.thy ===== *)
theory Ancs_State
  imports Interfaces
begin

text \<open>
  The connection state of the ANCS client, \<^verbatim>\<open>components/ancs_state/ancs_state.c\<close>: the states, the
  signals, the transition function and the printed names. The lemmas say in which order the
  signals must have come for the client to be ready.
\<close>

datatype ancs_client_state =
    ANCS_STATE_BOOT | ANCS_STATE_ADVERTISING | ANCS_STATE_CONNECTED | ANCS_STATE_ENCRYPTING
  | ANCS_STATE_BONDED | ANCS_STATE_DISCOVERING_ANCS | ANCS_STATE_SUBSCRIBING_DATA_SOURCE
  | ANCS_STATE_SUBSCRIBING_NOTIFICATION_SOURCE | ANCS_STATE_ANCS_READY
  | ANCS_STATE_DISCONNECTED | ANCS_STATE_RECOVERING

datatype ancs_client_signal =
    ANCS_SIGNAL_BOOT_COMPLETE | ANCS_SIGNAL_CONNECTED | ANCS_SIGNAL_ENCRYPTION_STARTED
  | ANCS_SIGNAL_BONDED | ANCS_SIGNAL_DISCOVERY_STARTED | ANCS_SIGNAL_DATA_SUBSCRIBE_STARTED
  | ANCS_SIGNAL_DATA_SUBSCRIBED | ANCS_SIGNAL_NOTIFICATION_SUBSCRIBED
  | ANCS_SIGNAL_SERVICE_CHANGED | ANCS_SIGNAL_DISCONNECTED | ANCS_SIGNAL_RECOVER

definition ancs_client_state_after ::
  "ancs_client_state \<Rightarrow> ancs_client_signal \<Rightarrow> ancs_client_state" where
  "ancs_client_state_after current signal =
    (if signal = ANCS_SIGNAL_DISCONNECTED then ANCS_STATE_DISCONNECTED
     else if signal = ANCS_SIGNAL_SERVICE_CHANGED then ANCS_STATE_RECOVERING
     else (case signal of
       ANCS_SIGNAL_BOOT_COMPLETE \<Rightarrow>
         if current = ANCS_STATE_BOOT then ANCS_STATE_ADVERTISING else current
     | ANCS_SIGNAL_CONNECTED \<Rightarrow>
         if current = ANCS_STATE_ADVERTISING then ANCS_STATE_CONNECTED else current
     | ANCS_SIGNAL_ENCRYPTION_STARTED \<Rightarrow>
         if current = ANCS_STATE_CONNECTED then ANCS_STATE_ENCRYPTING else current
     | ANCS_SIGNAL_BONDED \<Rightarrow>
         if current = ANCS_STATE_ENCRYPTING then ANCS_STATE_BONDED else current
     | ANCS_SIGNAL_DISCOVERY_STARTED \<Rightarrow>
         if current = ANCS_STATE_BONDED \<or> current = ANCS_STATE_RECOVERING
         then ANCS_STATE_DISCOVERING_ANCS else current
     | ANCS_SIGNAL_DATA_SUBSCRIBE_STARTED \<Rightarrow>
         if current = ANCS_STATE_DISCOVERING_ANCS
         then ANCS_STATE_SUBSCRIBING_DATA_SOURCE else current
     | ANCS_SIGNAL_DATA_SUBSCRIBED \<Rightarrow>
         if current = ANCS_STATE_SUBSCRIBING_DATA_SOURCE
         then ANCS_STATE_SUBSCRIBING_NOTIFICATION_SOURCE else current
     | ANCS_SIGNAL_NOTIFICATION_SUBSCRIBED \<Rightarrow>
         if current = ANCS_STATE_SUBSCRIBING_NOTIFICATION_SOURCE
         then ANCS_STATE_ANCS_READY else current
     | ANCS_SIGNAL_RECOVER \<Rightarrow>
         if current = ANCS_STATE_DISCONNECTED then ANCS_STATE_ADVERTISING else current
     | _ \<Rightarrow> current))"

fun ancs_client_state_name :: "ancs_client_state \<Rightarrow> bytes" where
  "ancs_client_state_name ANCS_STATE_BOOT = cs ''boot''"
| "ancs_client_state_name ANCS_STATE_ADVERTISING = cs ''advertising''"
| "ancs_client_state_name ANCS_STATE_CONNECTED = cs ''connected''"
| "ancs_client_state_name ANCS_STATE_ENCRYPTING = cs ''encrypting''"
| "ancs_client_state_name ANCS_STATE_BONDED = cs ''bonded''"
| "ancs_client_state_name ANCS_STATE_DISCOVERING_ANCS = cs ''discovering_ancs''"
| "ancs_client_state_name ANCS_STATE_SUBSCRIBING_DATA_SOURCE = cs ''subscribing_data_source''"
| "ancs_client_state_name ANCS_STATE_SUBSCRIBING_NOTIFICATION_SOURCE =
     cs ''subscribing_notification_source''"
| "ancs_client_state_name ANCS_STATE_ANCS_READY = cs ''ancs_ready''"
| "ancs_client_state_name ANCS_STATE_DISCONNECTED = cs ''disconnected''"
| "ancs_client_state_name ANCS_STATE_RECOVERING = cs ''recovering''"

section \<open>The order of the signals\<close>

text \<open>The signals since the last one that restarts the machine.\<close>

definition restarts :: "ancs_client_signal \<Rightarrow> bool" where
  "restarts e \<longleftrightarrow> e = ANCS_SIGNAL_DISCONNECTED \<or> e = ANCS_SIGNAL_SERVICE_CHANGED"

definition since_restart :: "ancs_client_signal list \<Rightarrow> ancs_client_signal list" where
  "since_restart es = rev (takeWhile (\<lambda>e. \<not> restarts e) (rev es))"

text \<open>The signals a state stands for when the service was (left) or was not (right) rediscovered.\<close>

fun discovery_path :: "ancs_client_state \<Rightarrow> ancs_client_signal list" where
  "discovery_path ANCS_STATE_DISCOVERING_ANCS = [ANCS_SIGNAL_DISCOVERY_STARTED]"
| "discovery_path ANCS_STATE_SUBSCRIBING_DATA_SOURCE =
     [ANCS_SIGNAL_DISCOVERY_STARTED, ANCS_SIGNAL_DATA_SUBSCRIBE_STARTED]"
| "discovery_path ANCS_STATE_SUBSCRIBING_NOTIFICATION_SOURCE =
     [ANCS_SIGNAL_DISCOVERY_STARTED, ANCS_SIGNAL_DATA_SUBSCRIBE_STARTED,
      ANCS_SIGNAL_DATA_SUBSCRIBED]"
| "discovery_path ANCS_STATE_ANCS_READY =
     [ANCS_SIGNAL_DISCOVERY_STARTED, ANCS_SIGNAL_DATA_SUBSCRIBE_STARTED,
      ANCS_SIGNAL_DATA_SUBSCRIBED, ANCS_SIGNAL_NOTIFICATION_SUBSCRIBED]"
| "discovery_path _ = []"

fun link_path :: "ancs_client_state \<Rightarrow> ancs_client_signal list" where
  "link_path ANCS_STATE_CONNECTED = [ANCS_SIGNAL_CONNECTED]"
| "link_path ANCS_STATE_ENCRYPTING = [ANCS_SIGNAL_CONNECTED, ANCS_SIGNAL_ENCRYPTION_STARTED]"
| "link_path ANCS_STATE_BOOT = []"
| "link_path ANCS_STATE_ADVERTISING = []"
| "link_path ANCS_STATE_DISCONNECTED = []"
| "link_path ANCS_STATE_RECOVERING = []"
| "link_path _ = [ANCS_SIGNAL_CONNECTED, ANCS_SIGNAL_ENCRYPTION_STARTED, ANCS_SIGNAL_BONDED]"

lemma since_restart_snoc:
  "since_restart (es @ [e]) = (if restarts e then [] else since_restart es @ [e])"
  by (simp add: since_restart_def)

lemma subseq_snoc_right: "subseq xs ys \<Longrightarrow> subseq xs (ys @ [y])"
  by (simp add: subseq_rev_drop_many list_emb_append2)

lemma after_discovery_path:
  "discovery_path (ancs_client_state_after s e) =
     (if restarts e then [] else discovery_path s @
        (if discovery_path (ancs_client_state_after s e) = discovery_path s then [] else [e]))"
  by (cases e; cases s) (simp_all add: ancs_client_state_after_def restarts_def)

lemma after_full_path:
  assumes "e \<noteq> ANCS_SIGNAL_SERVICE_CHANGED" "s \<noteq> ANCS_STATE_RECOVERING"
  shows "ancs_client_state_after s e \<noteq> ANCS_STATE_RECOVERING
    \<and> (ancs_client_state_after s e = s \<and> \<not> restarts e
       \<or> link_path (ancs_client_state_after s e) @ discovery_path (ancs_client_state_after s e) =
         (if restarts e then [] else link_path s @ discovery_path s @ [e])
       \<or> link_path (ancs_client_state_after s e) @ discovery_path (ancs_client_state_after s e) = [])"
  using assms by (cases e; cases s) (simp_all add: ancs_client_state_after_def restarts_def)

lemma run_discovery_path:
  "subseq (discovery_path (foldl ancs_client_state_after ANCS_STATE_BOOT es)) (since_restart es)"
proof (induction es rule: rev_induct)
  case Nil
  then show ?case by (simp add: since_restart_def)
next
  case (snoc e es)
  let ?s = "foldl ancs_client_state_after ANCS_STATE_BOOT es"
  show ?case
    using snoc after_discovery_path [of ?s e]
    by (cases "restarts e"; cases "discovery_path (ancs_client_state_after ?s e) = discovery_path ?s")
      (auto simp: since_restart_snoc intro: subseq_snoc_right list_emb_append_mono)
qed

lemma run_full_path:
  assumes "ANCS_SIGNAL_SERVICE_CHANGED \<notin> set es"
  shows "foldl ancs_client_state_after ANCS_STATE_BOOT es \<noteq> ANCS_STATE_RECOVERING \<and>
    subseq (link_path (foldl ancs_client_state_after ANCS_STATE_BOOT es) @
            discovery_path (foldl ancs_client_state_after ANCS_STATE_BOOT es)) (since_restart es)"
  using assms
proof (induction es rule: rev_induct)
  case Nil
  then show ?case by (simp add: since_restart_def)
next
  case (snoc e es)
  let ?s = "foldl ancs_client_state_after ANCS_STATE_BOOT es"
  have "e \<noteq> ANCS_SIGNAL_SERVICE_CHANGED" "?s \<noteq> ANCS_STATE_RECOVERING"
    using snoc by auto
  from after_full_path [OF this] snoc show ?case
    by (auto simp: since_restart_snoc simp flip: append_assoc
        intro: subseq_snoc_right list_emb_append_mono)
qed

text \<open>
  The client is ready only after, since the last disconnect or service change, the ANCS
  service was discovered, the Data Source was subscribed and confirmed, and the Notification
  Source was subscribed, in this order; and if the service never changed, the link was also
  connected, encrypted and bonded before, in this order.
\<close>

theorem ready_after_handshake:
  assumes "foldl ancs_client_state_after ANCS_STATE_BOOT es = ANCS_STATE_ANCS_READY"
  shows "subseq [ANCS_SIGNAL_DISCOVERY_STARTED, ANCS_SIGNAL_DATA_SUBSCRIBE_STARTED,
      ANCS_SIGNAL_DATA_SUBSCRIBED, ANCS_SIGNAL_NOTIFICATION_SUBSCRIBED] (since_restart es)
    \<and> (ANCS_SIGNAL_SERVICE_CHANGED \<notin> set es \<longrightarrow>
      subseq [ANCS_SIGNAL_CONNECTED, ANCS_SIGNAL_ENCRYPTION_STARTED, ANCS_SIGNAL_BONDED,
        ANCS_SIGNAL_DISCOVERY_STARTED, ANCS_SIGNAL_DATA_SUBSCRIBE_STARTED,
        ANCS_SIGNAL_DATA_SUBSCRIBED, ANCS_SIGNAL_NOTIFICATION_SUBSCRIBED] (since_restart es))"
  using run_discovery_path [of es] run_full_path [of es] assms by simp

theorem ready_after_handshake_witness:
  "ANCS_SIGNAL_SERVICE_CHANGED \<notin> set [ANCS_SIGNAL_BOOT_COMPLETE, ANCS_SIGNAL_CONNECTED,
      ANCS_SIGNAL_ENCRYPTION_STARTED, ANCS_SIGNAL_BONDED, ANCS_SIGNAL_DISCOVERY_STARTED,
      ANCS_SIGNAL_DATA_SUBSCRIBE_STARTED, ANCS_SIGNAL_DATA_SUBSCRIBED,
      ANCS_SIGNAL_NOTIFICATION_SUBSCRIBED] \<and>
   subseq [ANCS_SIGNAL_CONNECTED, ANCS_SIGNAL_ENCRYPTION_STARTED, ANCS_SIGNAL_BONDED,
      ANCS_SIGNAL_DISCOVERY_STARTED, ANCS_SIGNAL_DATA_SUBSCRIBE_STARTED,
      ANCS_SIGNAL_DATA_SUBSCRIBED, ANCS_SIGNAL_NOTIFICATION_SUBSCRIBED]
     (since_restart [ANCS_SIGNAL_BOOT_COMPLETE, ANCS_SIGNAL_CONNECTED,
      ANCS_SIGNAL_ENCRYPTION_STARTED, ANCS_SIGNAL_BONDED, ANCS_SIGNAL_DISCOVERY_STARTED,
      ANCS_SIGNAL_DATA_SUBSCRIBE_STARTED, ANCS_SIGNAL_DATA_SUBSCRIBED,
      ANCS_SIGNAL_NOTIFICATION_SUBSCRIBED])"
  using ready_after_handshake [of "[ANCS_SIGNAL_BOOT_COMPLETE, ANCS_SIGNAL_CONNECTED,
      ANCS_SIGNAL_ENCRYPTION_STARTED, ANCS_SIGNAL_BONDED, ANCS_SIGNAL_DISCOVERY_STARTED,
      ANCS_SIGNAL_DATA_SUBSCRIBE_STARTED, ANCS_SIGNAL_DATA_SUBSCRIBED,
      ANCS_SIGNAL_NOTIFICATION_SUBSCRIBED]"]
  by (simp add: ancs_client_state_after_def)

end
