(* ===== verification/Ancs_Protocol.thy ===== *)
theory Ancs_Protocol
  imports Interfaces
begin

text \<open>
  The ANCS wire protocol, \<^verbatim>\<open>components/ancs_protocol\<close>, without the two response parsers, which have
  theories of their own: the Kconfig limits, the notification event and the notification record,
  the Notification Source parser, the names of events and categories, and the two Control Point
  commands.
\<close>

section \<open>Configuration\<close>

text \<open>
  The limits are build options (\<^verbatim>\<open>components/ancs_protocol/Kconfig\<close>,
  \<^verbatim>\<open>components/ancs_app_resolver/Kconfig\<close>), so every operation takes them as an argument and the
  theorems hold for every setting in the ranges Kconfig allows. \<open>default_config\<close> has the defaults
  of the header.
\<close>

record ancs_config =
  APP_ID_MAX :: nat
  APP_NAME_MAX :: nat
  TITLE_MAX :: nat
  SUBTITLE_MAX :: nat
  MESSAGE_MAX :: nat
  DATE_MAX :: nat
  REQUEST_QUEUE_CAPACITY :: nat
  APP_CACHE_CAPACITY :: nat

definition default_config :: ancs_config where
  "default_config = \<lparr>APP_ID_MAX = 256, APP_NAME_MAX = 256, TITLE_MAX = 512, SUBTITLE_MAX = 512,
     MESSAGE_MAX = 4096, DATE_MAX = 32, REQUEST_QUEUE_CAPACITY = 16, APP_CACHE_CAPACITY = 16\<rparr>"

definition config_ok :: "ancs_config \<Rightarrow> bool" where
  "config_ok cfg \<longleftrightarrow>
     32 \<le> APP_ID_MAX cfg \<and> APP_ID_MAX cfg \<le> 1024 \<and>
     32 \<le> APP_NAME_MAX cfg \<and> APP_NAME_MAX cfg \<le> 1024 \<and>
     32 \<le> TITLE_MAX cfg \<and> TITLE_MAX cfg \<le> 4096 \<and>
     32 \<le> SUBTITLE_MAX cfg \<and> SUBTITLE_MAX cfg \<le> 4096 \<and>
     128 \<le> MESSAGE_MAX cfg \<and> MESSAGE_MAX cfg \<le> 16384 \<and>
     16 \<le> DATE_MAX cfg \<and> DATE_MAX cfg \<le> 128 \<and>
     2 \<le> REQUEST_QUEUE_CAPACITY cfg \<and> REQUEST_QUEUE_CAPACITY cfg \<le> 64 \<and>
     1 \<le> APP_CACHE_CAPACITY cfg \<and> APP_CACHE_CAPACITY cfg \<le> 64"

lemma default_config_ok [simp]: "config_ok default_config"
  by (simp add: config_ok_def default_config_def)

section \<open>Data\<close>

definition ANCS_ATTR_MASK_REQUIRED :: u32 where
  "ANCS_ATTR_MASK_REQUIRED = push_bit 6 1 - 1"

datatype ancs_protocol_error =
    ANCS_PROTOCOL_OK | ANCS_PROTOCOL_ERR_ARGUMENT | ANCS_PROTOCOL_ERR_LENGTH
  | ANCS_PROTOCOL_ERR_EVENT | ANCS_PROTOCOL_ERR_COMMAND | ANCS_PROTOCOL_ERR_UID_MISMATCH
  | ANCS_PROTOCOL_ERR_ATTRIBUTE | ANCS_PROTOCOL_ERR_OVERFLOW | ANCS_PROTOCOL_ERR_SEQUENCE
  | ANCS_PROTOCOL_ERR_CANCELED | ANCS_PROTOCOL_ERR_TIMEOUT | ANCS_PROTOCOL_ERR_APP_ID_MISMATCH

text \<open>The value of the C enumeration; the notification record stores it as an \<open>int\<close>.\<close>

fun error_number :: "ancs_protocol_error \<Rightarrow> int" where
  "error_number ANCS_PROTOCOL_OK = 0"
| "error_number ANCS_PROTOCOL_ERR_ARGUMENT = -1"
| "error_number ANCS_PROTOCOL_ERR_LENGTH = -2"
| "error_number ANCS_PROTOCOL_ERR_EVENT = -3"
| "error_number ANCS_PROTOCOL_ERR_COMMAND = -4"
| "error_number ANCS_PROTOCOL_ERR_UID_MISMATCH = -5"
| "error_number ANCS_PROTOCOL_ERR_ATTRIBUTE = -6"
| "error_number ANCS_PROTOCOL_ERR_OVERFLOW = -7"
| "error_number ANCS_PROTOCOL_ERR_SEQUENCE = -8"
| "error_number ANCS_PROTOCOL_ERR_CANCELED = -9"
| "error_number ANCS_PROTOCOL_ERR_TIMEOUT = -10"
| "error_number ANCS_PROTOCOL_ERR_APP_ID_MISMATCH = -11"

datatype ancs_event_flag =
    ANCS_EVENT_FLAG_SILENT | ANCS_EVENT_FLAG_IMPORTANT | ANCS_EVENT_FLAG_PRE_EXISTING
  | ANCS_EVENT_FLAG_POSITIVE_ACTION | ANCS_EVENT_FLAG_NEGATIVE_ACTION

fun event_flag_value :: "ancs_event_flag \<Rightarrow> u32" where
  "event_flag_value ANCS_EVENT_FLAG_SILENT = push_bit 0 1"
| "event_flag_value ANCS_EVENT_FLAG_IMPORTANT = push_bit 1 1"
| "event_flag_value ANCS_EVENT_FLAG_PRE_EXISTING = push_bit 2 1"
| "event_flag_value ANCS_EVENT_FLAG_POSITIVE_ACTION = push_bit 3 1"
| "event_flag_value ANCS_EVENT_FLAG_NEGATIVE_ACTION = push_bit 4 1"

record ancs_notification_event =
  ev_event_id :: u8
  ev_event_flags :: u8
  ev_category_id :: u8
  ev_category_count :: u8
  ev_uid :: u32

record ancs_notification =
  n_session_id :: u32
  n_uid :: u32
  n_event_id :: u8
  n_event_flags :: u8
  n_category_id :: u8
  n_category_count :: u8
  n_app_id :: bytes
  n_app_name :: bytes
  n_title :: bytes
  n_subtitle :: bytes
  n_message :: bytes
  n_message_size_raw :: bytes
  n_date_raw :: bytes
  n_complete :: bool
  n_app_id_truncated :: bool
  n_app_name_truncated :: bool
  n_title_truncated :: bool
  n_subtitle_truncated :: bool
  n_message_truncated :: bool
  n_error_code :: int
  n_received_at_ms :: int

text \<open>The buffers have the size of their arrays, and their last byte is never written: it is NUL.\<close>

definition nul_buffer :: "nat \<Rightarrow> bytes \<Rightarrow> bool" where
  "nul_buffer n buf \<longleftrightarrow> length buf = Suc n \<and> buf ! n = 0"

definition notification_ok :: "ancs_config \<Rightarrow> ancs_notification \<Rightarrow> bool" where
  "notification_ok cfg n \<longleftrightarrow>
     nul_buffer (APP_ID_MAX cfg) (n_app_id n) \<and> nul_buffer (APP_NAME_MAX cfg) (n_app_name n) \<and>
     nul_buffer (TITLE_MAX cfg) (n_title n) \<and> nul_buffer (SUBTITLE_MAX cfg) (n_subtitle n) \<and>
     nul_buffer (MESSAGE_MAX cfg) (n_message n) \<and> nul_buffer 23 (n_message_size_raw n) \<and>
     nul_buffer (DATE_MAX cfg) (n_date_raw n)"

section \<open>Operations\<close>

definition read_u32_le :: "bytes \<Rightarrow> u32" where
  "read_u32_le bs = ucast (bs ! 0) OR push_bit 8 (ucast (bs ! 1)) OR
     push_bit 16 (ucast (bs ! 2)) OR push_bit 24 (ucast (bs ! 3))"

text \<open>The event is an output parameter: \<open>None\<close> is the NULL pointer, else the struct it points to.\<close>

definition ancs_parse_notification_source ::
  "bytes option \<Rightarrow> nat \<Rightarrow> ancs_notification_event option \<Rightarrow>
   ancs_protocol_error \<times> ancs_notification_event option" where
  "ancs_parse_notification_source frame len event =
    (case (frame, event) of
       (Some f, Some e) \<Rightarrow>
         if len \<noteq> 8 then (ANCS_PROTOCOL_ERR_LENGTH, event)
         else if f ! 0 > 2 then (ANCS_PROTOCOL_ERR_EVENT, event)
         else (ANCS_PROTOCOL_OK,
               Some (e\<lparr>ev_event_id := f ! 0, ev_event_flags := f ! 1, ev_category_id := f ! 2,
                       ev_category_count := f ! 3, ev_uid := read_u32_le (drop 4 f)\<rparr>))
     | _ \<Rightarrow> (ANCS_PROTOCOL_ERR_ARGUMENT, event))"

definition ancs_event_flag_is_set :: "u8 \<Rightarrow> ancs_event_flag \<Rightarrow> bool" where
  "ancs_event_flag_is_set flags flag \<longleftrightarrow> flags AND ucast (event_flag_value flag) \<noteq> 0"

definition ancs_event_name :: "u8 \<Rightarrow> bytes" where
  "ancs_event_name event_id =
    (let names = [cs ''added'', cs ''modified'', cs ''removed'']
     in if unat event_id < length names then names ! unat event_id else cs ''unknown'')"

definition ancs_category_name :: "u8 \<Rightarrow> bytes" where
  "ancs_category_name category_id =
    (let names = [cs ''other'', cs ''incoming_call'', cs ''missed_call'', cs ''voicemail'',
           cs ''social'', cs ''schedule'', cs ''email'', cs ''news'', cs ''health_and_fitness'',
           cs ''business_and_finance'', cs ''location'', cs ''entertainment'']
     in if unat category_id < length names then names ! unat category_id else cs ''reserved'')"

text \<open>The struct after \<open>memset\<close> to zero.\<close>

definition notification_zero :: "ancs_config \<Rightarrow> ancs_notification" where
  "notification_zero cfg =
    \<lparr>n_session_id = 0, n_uid = 0, n_event_id = 0, n_event_flags = 0, n_category_id = 0,
     n_category_count = 0,
     n_app_id = replicate (APP_ID_MAX cfg + 1) 0, n_app_name = replicate (APP_NAME_MAX cfg + 1) 0,
     n_title = replicate (TITLE_MAX cfg + 1) 0, n_subtitle = replicate (SUBTITLE_MAX cfg + 1) 0,
     n_message = replicate (MESSAGE_MAX cfg + 1) 0, n_message_size_raw = replicate 24 0,
     n_date_raw = replicate (DATE_MAX cfg + 1) 0, n_complete = False,
     n_app_id_truncated = False, n_app_name_truncated = False, n_title_truncated = False,
     n_subtitle_truncated = False, n_message_truncated = False,
     n_error_code = 0, n_received_at_ms = 0\<rparr>"

definition ancs_notification_init ::
  "ancs_config \<Rightarrow> ancs_notification option \<Rightarrow> u32 \<Rightarrow> ancs_notification_event option \<Rightarrow> int \<Rightarrow>
   ancs_notification option" where
  "ancs_notification_init cfg notification session event received_at_ms =
    (case notification of
       None \<Rightarrow> None
     | Some _ \<Rightarrow>
         let n = (notification_zero cfg)\<lparr>n_session_id := session,
                    n_received_at_ms := received_at_ms\<rparr>
         in (case event of
               None \<Rightarrow> Some n
             | Some e \<Rightarrow> Some (n\<lparr>n_uid := ev_uid e, n_event_id := ev_event_id e,
                                 n_event_flags := ev_event_flags e,
                                 n_category_id := ev_category_id e,
                                 n_category_count := ev_category_count e\<rparr>)))"

text \<open>
  The builders write the command to an output buffer of the given capacity and its length to a
  second output parameter; both may be NULL. The outer \<open>None\<close> is a store outside the buffer.
\<close>

definition get_notification_attributes_array :: "ancs_config \<Rightarrow> u32 \<Rightarrow> bytes" where
  "get_notification_attributes_array cfg uid =
    (let title_max = (of_nat (TITLE_MAX cfg) :: u16);
         subtitle_max = (of_nat (SUBTITLE_MAX cfg) :: u16);
         message_max = (of_nat (MESSAGE_MAX cfg) :: u16)
     in [0, ucast (uid AND 0xFF), ucast (drop_bit 8 uid AND 0xFF),
         ucast (drop_bit 16 uid AND 0xFF), ucast (drop_bit 24 uid AND 0xFF),
         0,
         1, ucast (title_max AND 0xFF), ucast (drop_bit 8 title_max),
         2, ucast (subtitle_max AND 0xFF), ucast (drop_bit 8 subtitle_max),
         3, ucast (message_max AND 0xFF), ucast (drop_bit 8 message_max),
         4, 5])"

definition ancs_build_get_notification_attributes ::
  "ancs_config \<Rightarrow> u32 \<Rightarrow> bytes option \<Rightarrow> nat \<Rightarrow> nat option \<Rightarrow>
   (ancs_protocol_error \<times> bytes option \<times> nat option) option" where
  "ancs_build_get_notification_attributes cfg uid output capacity output_length =
    (case (output, output_length) of
       (Some out, Some _) \<Rightarrow>
         if capacity < 17 then Some (ANCS_PROTOCOL_ERR_OVERFLOW, output, Some 0)
         else
           let command = get_notification_attributes_array cfg uid
           in do {
             out' \<leftarrow> memcpy0 out command;
             Some (ANCS_PROTOCOL_OK, Some out', Some (length command))
           }
     | _ \<Rightarrow> Some (ANCS_PROTOCOL_ERR_ARGUMENT, output, output_length))"

definition ancs_build_get_app_attributes ::
  "ancs_config \<Rightarrow> bytes option \<Rightarrow> bytes option \<Rightarrow> nat \<Rightarrow> nat option \<Rightarrow>
   (ancs_protocol_error \<times> bytes option \<times> nat option) option" where
  "ancs_build_get_app_attributes cfg app_id output capacity output_length =
    (case (app_id, output, output_length) of
       (Some app, Some out, Some _) \<Rightarrow>
         let app_id_length = strnlen app (APP_ID_MAX cfg + 1);
             required = app_id_length + 3
         in if app_id_length = 0 then Some (ANCS_PROTOCOL_ERR_ARGUMENT, output, Some 0)
            else if app_id_length > APP_ID_MAX cfg
              then Some (ANCS_PROTOCOL_ERR_LENGTH, output, Some 0)
            else if capacity < required then Some (ANCS_PROTOCOL_ERR_LENGTH, output, Some 0)
            else if length app < app_id_length + 1 then None
            else do {
              out' \<leftarrow> memcpy0 out (1 # take (app_id_length + 1) app @ [0]);
              Some (ANCS_PROTOCOL_OK, Some out', Some required)
            }
     | _ \<Rightarrow> Some (ANCS_PROTOCOL_ERR_ARGUMENT, output, output_length))"

section \<open>Lemmas\<close>

lemma nul_buffer_terminated: "nul_buffer n buf \<Longrightarrow> terminated buf"
  by (auto simp: nul_buffer_def intro: terminated_nth)

lemma nul_buffer_replicate [simp]: "nul_buffer n (replicate (Suc n) 0)"
  by (simp add: nul_buffer_def del: replicate_Suc)

lemma nul_buffer_update: "nul_buffer n buf \<Longrightarrow> i < n \<Longrightarrow> nul_buffer n (buf[i := b])"
  by (simp add: nul_buffer_def)

lemma nul_buffer_update_zero: "nul_buffer n buf \<Longrightarrow> nul_buffer n (buf[i := 0])"
  by (cases "i = n") (simp_all add: nul_buffer_def)

lemma notification_zero_ok [simp, inv_intros]: "notification_ok cfg (notification_zero cfg)"
  unfolding notification_ok_def notification_zero_def
  by (simp add: nul_buffer_def nth_Cons')

lemma notification_init_ok [inv_intros]:
  "ancs_notification_init cfg nt s e t = Some n \<Longrightarrow> notification_ok cfg n"
  using notification_zero_ok [of cfg]
  by (auto simp: ancs_notification_init_def Let_def notification_ok_def split: option.splits)

text \<open>The bytes of a Notification Source frame, as the ANCS specification lays them out.\<close>

definition notification_source_frame :: "ancs_notification_event \<Rightarrow> bytes" where
  "notification_source_frame e =
     [ev_event_id e, ev_event_flags e, ev_category_id e, ev_category_count e] @ le32 (ev_uid e)"

lemma read_u32_le_eq:
  "read_u32_le (a # b # c # d # bs) = rd_le32 a b c d"
  by (simp add: read_u32_le_def rd_le32_def numeral_3_eq_3 numeral_2_eq_2)

lemma read_u32_le_le32: "read_u32_le (le32 w @ bs) = w"
  by (simp add: le32_def read_u32_le_eq rd_le32_le32)

lemma ucast_and_255: "(ucast ((w :: 'a::len word) AND 0xFF) :: u8) = ucast w"
proof (rule bit_word_eqI)
  fix n assume n: "n < LENGTH(8)"
  have "bit (0xFF :: 'a word) n \<longleftrightarrow> n < LENGTH('a)"
  proof -
    have m: "mask 8 = (0xFF :: 'a word)" by (simp add: mask_eq_exp_minus_1)
    show ?thesis using n unfolding m [symmetric] by (simp only: bit_mask_iff) auto
  qed
  with n show "bit (ucast (w AND 0xFF) :: u8) n = bit (ucast w :: u8) n"
    by (auto simp: bit_simps dest: bit_imp_le_length)
qed

lemma le32_rd_le32: "le32 (rd_le32 a b c d) = [a, b, c, d]"
proof -
  have "ucast (rd_le32 a b c d) = a"
    by (rule bit_word_eqI) (auto simp: rd_le32_def bit_simps)
  moreover have "ucast (drop_bit 8 (rd_le32 a b c d)) = b"
    by (rule bit_word_eqI) (auto simp: rd_le32_def bit_simps dest: bit_imp_le_length)
  moreover have "ucast (drop_bit 16 (rd_le32 a b c d)) = c"
    by (rule bit_word_eqI) (auto simp: rd_le32_def bit_simps dest: bit_imp_le_length)
  moreover have "ucast (drop_bit 24 (rd_le32 a b c d)) = d"
    by (rule bit_word_eqI) (auto simp: rd_le32_def bit_simps dest: bit_imp_le_length)
  ultimately show ?thesis by (simp add: le32_def)
qed

lemma list_length_8:
  assumes "length f = 8"
  shows "f = [f!0, f!1, f!2, f!3, f!4, f!5, f!6, f!7]"
  by (rule nth_equalityI) (use assms in \<open>auto simp: less_Suc_eq nth_Cons' numeral_eq_Suc\<close>)

text \<open>
  the Notification Source parser accepts a frame exactly when it is the eight byte encoding of
  an event that was added, modified or removed, and it returns that event.
\<close>

theorem parse_notification_source_iff:
  "ancs_parse_notification_source (Some f) (length f) (Some e0) = (ANCS_PROTOCOL_OK, Some e) \<longleftrightarrow>
     f = notification_source_frame e \<and> ev_event_id e \<le> 2"
proof
  assume L: "ancs_parse_notification_source (Some f) (length f) (Some e0) = (ANCS_PROTOCOL_OK, Some e)"
  then have len: "length f = 8"
    by (simp add: ancs_parse_notification_source_def split: if_splits)
  have d: "drop 4 f = [f!4, f!5, f!6, f!7]"
    using arg_cong [OF list_length_8 [OF len], of "drop 4"] by simp
  from L len show "f = notification_source_frame e \<and> ev_event_id e \<le> 2"
    using list_length_8 [OF len]
    by (auto simp: ancs_parse_notification_source_def notification_source_frame_def d
        read_u32_le_eq le32_rd_le32 not_less split: if_splits)
next
  assume R: "f = notification_source_frame e \<and> ev_event_id e \<le> 2"
  then have "drop 4 f = le32 (ev_uid e) @ []" "length f = 8"
    by (simp_all add: notification_source_frame_def)
  with R read_u32_le_le32 [of "ev_uid e" "[]"]
  show "ancs_parse_notification_source (Some f) (length f) (Some e0) = (ANCS_PROTOCOL_OK, Some e)"
    by (simp add: ancs_parse_notification_source_def notification_source_frame_def not_less)
qed

lemma event_name_known: "ancs_event_name i \<noteq> cs ''unknown'' \<longleftrightarrow> i \<le> 2"
proof -
  have "i \<le> 2 \<longleftrightarrow> unat i < 3" by (simp add: word_le_nat_alt) linarith
  then show ?thesis
    by (auto simp: ancs_event_name_def Let_def less_Suc_eq numeral_3_eq_3 numeral_2_eq_2)
qed

text \<open>The attribute identifiers a Get Notification Attributes command asks for, with their limits.\<close>

fun requested_attributes :: "bytes \<Rightarrow> (u8 \<times> nat option) list" where
  "requested_attributes (i # l # h # bs) =
     (if i \<in> {1, 2, 3} then (i, Some (unat (rd_le16 l h))) # requested_attributes bs
      else (i, None) # requested_attributes (l # h # bs))"
| "requested_attributes (i # bs) = (i, None) # requested_attributes bs"
| "requested_attributes [] = []"

lemma unat_of_nat_u16: "n < 65536 \<Longrightarrow> unat (of_nat n :: u16) = n"
  by (simp add: unsigned_of_nat take_bit_nat_eq_self)

lemma get_notification_array:
  assumes "config_ok cfg"
  shows "length (get_notification_attributes_array cfg uid) = 17"
    "take 5 (get_notification_attributes_array cfg uid) = 0 # le32 uid"
    "requested_attributes (drop 5 (get_notification_attributes_array cfg uid)) =
        [(0, None), (1, Some (TITLE_MAX cfg)), (2, Some (SUBTITLE_MAX cfg)),
         (3, Some (MESSAGE_MAX cfg)), (4, None), (5, None)]"
  using assms
  by (simp_all add: get_notification_attributes_array_def Let_def ucast_and_255 le32_def
      rd_le16_le16 unat_of_nat_u16 config_ok_def)

text \<open>
  into a buffer of at least 17 bytes the notification command is built without a store outside
  the buffer; it carries the identifier of the notification in little endian order and asks for
  all six attributes, with exactly the sizes of the buffers that will receive the three long ones.
\<close>

theorem get_notification_attributes_command:
  assumes "config_ok cfg" "17 \<le> capacity" "capacity \<le> length out"
  shows "\<exists>command. ancs_build_get_notification_attributes cfg uid (Some out) capacity (Some l) =
      Some (ANCS_PROTOCOL_OK, Some (command @ drop 17 out), Some 17)
    \<and> take 5 command = 0 # le32 uid
    \<and> requested_attributes (drop 5 command) =
        [(0, None), (1, Some (TITLE_MAX cfg)), (2, Some (SUBTITLE_MAX cfg)),
         (3, Some (MESSAGE_MAX cfg)), (4, None), (5, None)]"
  using assms get_notification_array [of cfg uid]
  by (simp add: ancs_build_get_notification_attributes_def Let_def memcpy0_def)

theorem get_notification_attributes_command_witness:
  "\<exists>command. ancs_build_get_notification_attributes default_config 7 (Some (replicate 20 0)) 20 (Some 0) =
      Some (ANCS_PROTOCOL_OK, Some (command @ drop 17 (replicate 20 0)), Some 17)
    \<and> take 5 command = 0 # le32 7"
  using get_notification_attributes_command [of default_config 20 "replicate 20 0" 7 0] by auto

end
