(* ===== verification/Data_Parser.thy ===== *)
theory Data_Parser
  imports Ancs_Protocol
begin

text \<open>
  The parser of Get Notification Attributes responses, \<open>ancs_data_parser_t\<close> of
  \<^verbatim>\<open>components/ancs_protocol/ancs_protocol.c\<close>: a state machine over the bytes of the Data Source
  fragments that fills the notification record. The lemmas show that it never leaves its buffers,
  that it does not see where fragments are cut, and what a well-formed response leaves in the
  notification.
\<close>

section \<open>State\<close>

datatype parser_state =
    PARSER_STATE_COMMAND | PARSER_STATE_UID | PARSER_STATE_ATTRIBUTE_ID
  | PARSER_STATE_ATTRIBUTE_LENGTH | PARSER_STATE_ATTRIBUTE_VALUE
  | PARSER_STATE_COMPLETE | PARSER_STATE_ERROR

text \<open>
  The parser owns the notification it points to while it runs; \<open>None\<close> is the NULL pointer.
\<close>

record ancs_data_parser =
  p_notification :: "ancs_notification option"
  p_expected_uid :: u32
  p_expected_mask :: u32
  p_received_mask :: u32
  p_response_uid :: u32
  p_attribute_length :: u16
  p_attribute_read :: u16
  p_state :: parser_state
  p_uid_bytes_read :: u8
  p_attribute_id :: u8
  p_length_bytes_read :: u8
  p_error_code :: ancs_protocol_error

section \<open>Operations\<close>

definition parser_fail ::
  "ancs_data_parser \<Rightarrow> ancs_protocol_error \<Rightarrow> ancs_data_parser \<times> ancs_parser_result" where
  "parser_fail p err =
    (p\<lparr>p_state := PARSER_STATE_ERROR, p_error_code := err,
       p_notification := map_option (\<lambda>n. n\<lparr>n_complete := False, n_error_code := error_number err\<rparr>)
                           (p_notification p)\<rparr>,
     ANCS_PARSER_ERROR)"

text \<open>
  The destination \<open>attribute_target\<close> selects by the attribute identifier: a buffer of the
  notification, its capacity and, for four of them, a truncation flag.
\<close>

datatype attribute_field =
  F_app_id | F_title | F_subtitle | F_message | F_message_size_raw | F_date_raw

fun field_get :: "attribute_field \<Rightarrow> ancs_notification \<Rightarrow> bytes" where
  "field_get F_app_id n = n_app_id n"
| "field_get F_title n = n_title n"
| "field_get F_subtitle n = n_subtitle n"
| "field_get F_message n = n_message n"
| "field_get F_message_size_raw n = n_message_size_raw n"
| "field_get F_date_raw n = n_date_raw n"

fun field_set :: "attribute_field \<Rightarrow> bytes \<Rightarrow> ancs_notification \<Rightarrow> ancs_notification" where
  "field_set F_app_id v n = n\<lparr>n_app_id := v\<rparr>"
| "field_set F_title v n = n\<lparr>n_title := v\<rparr>"
| "field_set F_subtitle v n = n\<lparr>n_subtitle := v\<rparr>"
| "field_set F_message v n = n\<lparr>n_message := v\<rparr>"
| "field_set F_message_size_raw v n = n\<lparr>n_message_size_raw := v\<rparr>"
| "field_set F_date_raw v n = n\<lparr>n_date_raw := v\<rparr>"

fun field_set_truncated ::
  "attribute_field \<Rightarrow> (ancs_notification \<Rightarrow> ancs_notification) option" where
  "field_set_truncated F_app_id = Some (\<lambda>n. n\<lparr>n_app_id_truncated := True\<rparr>)"
| "field_set_truncated F_title = Some (\<lambda>n. n\<lparr>n_title_truncated := True\<rparr>)"
| "field_set_truncated F_subtitle = Some (\<lambda>n. n\<lparr>n_subtitle_truncated := True\<rparr>)"
| "field_set_truncated F_message = Some (\<lambda>n. n\<lparr>n_message_truncated := True\<rparr>)"
| "field_set_truncated F_message_size_raw = None"
| "field_set_truncated F_date_raw = None"

definition attribute_target ::
  "ancs_config \<Rightarrow> u8 \<Rightarrow> (attribute_field \<times> nat) option" where
  "attribute_target cfg attribute_id =
    (if attribute_id = 0 then Some (F_app_id, APP_ID_MAX cfg)
     else if attribute_id = 1 then Some (F_title, TITLE_MAX cfg)
     else if attribute_id = 2 then Some (F_subtitle, SUBTITLE_MAX cfg)
     else if attribute_id = 3 then Some (F_message, MESSAGE_MAX cfg)
     else if attribute_id = 4 then Some (F_message_size_raw, 24 - 1)
     else if attribute_id = 5 then Some (F_date_raw, DATE_MAX cfg)
     else None)"

definition finish_attribute ::
  "ancs_config \<Rightarrow> ancs_data_parser \<Rightarrow> (ancs_data_parser \<times> ancs_parser_result) option" where
  "finish_attribute cfg p =
    (case attribute_target cfg (p_attribute_id p) of
       None \<Rightarrow> Some (parser_fail p ANCS_PROTOCOL_ERR_ATTRIBUTE)
     | Some (field, capacity) \<Rightarrow> do {
         n \<leftarrow> p_notification p;
         let len = unat (p_attribute_length p);
         let terminator_index = (if len < capacity then len else capacity);
         target \<leftarrow> store (field_get field n) terminator_index 0;
         let n = field_set field target n;
         let p = p\<lparr>p_notification := Some n\<rparr>;
         if len > capacity \<and> field_set_truncated field = None
         then Some (parser_fail p ANCS_PROTOCOL_ERR_OVERFLOW)
         else
           (let n = (if len > capacity then the (field_set_truncated field) n else n);
                received = p_received_mask p OR push_bit (unat (p_attribute_id p)) 1;
                p = p\<lparr>p_notification := Some n, p_received_mask := received\<rparr>
            in if received AND p_expected_mask p = p_expected_mask p
               then Some (p\<lparr>p_notification := Some (n\<lparr>n_complete := True,
                                                       n_error_code := error_number ANCS_PROTOCOL_OK\<rparr>),
                            p_state := PARSER_STATE_COMPLETE\<rparr>, ANCS_PARSER_COMPLETE)
               else Some (p\<lparr>p_state := PARSER_STATE_ATTRIBUTE_ID, p_attribute_length := 0,
                            p_attribute_read := 0, p_length_bytes_read := 0\<rparr>, ANCS_PARSER_MORE))
       })"

definition parser_zero :: "ancs_data_parser" where
  "parser_zero = \<lparr>p_notification = None, p_expected_uid = 0, p_expected_mask = 0,
     p_received_mask = 0, p_response_uid = 0, p_attribute_length = 0, p_attribute_read = 0,
     p_state = PARSER_STATE_COMMAND, p_uid_bytes_read = 0, p_attribute_id = 0,
     p_length_bytes_read = 0, p_error_code = ANCS_PROTOCOL_OK\<rparr>"

definition ancs_data_parser_init ::
  "ancs_data_parser option \<Rightarrow> ancs_notification option \<Rightarrow> u32 \<Rightarrow> u32 \<Rightarrow> ancs_data_parser option" where
  "ancs_data_parser_init parser notification uid attr_mask =
    (case parser of
       None \<Rightarrow> None
     | Some _ \<Rightarrow>
         let p = parser_zero\<lparr>p_notification := notification, p_expected_uid := uid,
                   p_expected_mask := attr_mask AND ANCS_ATTR_MASK_REQUIRED,
                   p_state := PARSER_STATE_COMMAND\<rparr>
         in if notification = None \<or> p_expected_mask p = 0
            then Some (fst (parser_fail p ANCS_PROTOCOL_ERR_ARGUMENT)) else Some p)"

text \<open>
  The body of the loop of \<open>ancs_data_parser_feed\<close>, one case of its \<open>switch\<close> per state. The result
  \<open>ANCS_PARSER_MORE\<close> goes on with the next byte.
\<close>

definition data_parser_step ::
  "ancs_config \<Rightarrow> ancs_data_parser \<Rightarrow> u8 \<Rightarrow> (ancs_data_parser \<times> ancs_parser_result) option" where
  "data_parser_step cfg p byte =
    (case p_state p of
       PARSER_STATE_COMMAND \<Rightarrow>
         if byte \<noteq> 0 then Some (parser_fail p ANCS_PROTOCOL_ERR_COMMAND)
         else Some (p\<lparr>p_response_uid := 0, p_uid_bytes_read := 0, p_state := PARSER_STATE_UID\<rparr>,
                    ANCS_PARSER_MORE)
     | PARSER_STATE_UID \<Rightarrow>
         let p = p\<lparr>p_response_uid := p_response_uid p OR
                     push_bit (8 * unat (p_uid_bytes_read p)) (ucast byte),
                   p_uid_bytes_read := p_uid_bytes_read p + 1\<rparr>
         in if p_uid_bytes_read p = 4
            then (if p_response_uid p \<noteq> p_expected_uid p
                  then Some (parser_fail p ANCS_PROTOCOL_ERR_UID_MISMATCH)
                  else Some (p\<lparr>p_state := PARSER_STATE_ATTRIBUTE_ID\<rparr>, ANCS_PARSER_MORE))
            else Some (p, ANCS_PARSER_MORE)
     | PARSER_STATE_ATTRIBUTE_ID \<Rightarrow>
         if byte > 5 then Some (parser_fail p ANCS_PROTOCOL_ERR_ATTRIBUTE)
         else
           let attr_bit = (push_bit (unat byte) 1 :: u32)
           in if p_expected_mask p AND attr_bit = 0 \<or> p_received_mask p AND attr_bit \<noteq> 0
              then Some (parser_fail p ANCS_PROTOCOL_ERR_SEQUENCE)
              else Some (p\<lparr>p_attribute_id := byte, p_attribute_length := 0, p_attribute_read := 0,
                           p_length_bytes_read := 0, p_state := PARSER_STATE_ATTRIBUTE_LENGTH\<rparr>,
                         ANCS_PARSER_MORE)
     | PARSER_STATE_ATTRIBUTE_LENGTH \<Rightarrow>
         let p = p\<lparr>p_attribute_length := p_attribute_length p OR
                     push_bit (8 * unat (p_length_bytes_read p)) (ucast byte),
                   p_length_bytes_read := p_length_bytes_read p + 1\<rparr>
         in if p_length_bytes_read p = 2
            then (if p_attribute_length p = 0 then finish_attribute cfg p
                  else Some (p\<lparr>p_state := PARSER_STATE_ATTRIBUTE_VALUE\<rparr>, ANCS_PARSER_MORE))
            else Some (p, ANCS_PARSER_MORE)
     | PARSER_STATE_ATTRIBUTE_VALUE \<Rightarrow>
         (case attribute_target cfg (p_attribute_id p) of
            None \<Rightarrow> Some (parser_fail p ANCS_PROTOCOL_ERR_ATTRIBUTE)
          | Some (field, capacity) \<Rightarrow> do {
              n \<leftarrow> p_notification p;
              target \<leftarrow> (if unat (p_attribute_read p) < capacity
                         then store (field_get field n) (unat (p_attribute_read p)) byte
                         else Some (field_get field n));
              let p = p\<lparr>p_notification := Some (field_set field target n),
                        p_attribute_read := p_attribute_read p + 1\<rparr>;
              if p_attribute_read p = p_attribute_length p then finish_attribute cfg p
              else Some (p, ANCS_PARSER_MORE)
            })
     | _ \<Rightarrow> Some (parser_fail p ANCS_PROTOCOL_ERR_SEQUENCE))"

fun data_parser_loop ::
  "ancs_config \<Rightarrow> ancs_data_parser \<Rightarrow> bytes \<Rightarrow> (ancs_data_parser \<times> ancs_parser_result) option" where
  "data_parser_loop cfg p [] =
     Some (p, if p_state p = PARSER_STATE_COMPLETE then ANCS_PARSER_COMPLETE else ANCS_PARSER_MORE)"
| "data_parser_loop cfg p (b # bs) =
     (case data_parser_step cfg p b of
        None \<Rightarrow> None
      | Some (p', ANCS_PARSER_MORE) \<Rightarrow> data_parser_loop cfg p' bs
      | Some (p', ANCS_PARSER_COMPLETE) \<Rightarrow>
          if bs = [] then Some (p', ANCS_PARSER_COMPLETE)
          else Some (parser_fail p' ANCS_PROTOCOL_ERR_SEQUENCE)
      | Some (p', ANCS_PARSER_ERROR) \<Rightarrow> Some (p', ANCS_PARSER_ERROR))"

definition data_parser_feed ::
  "ancs_config \<Rightarrow> ancs_data_parser \<Rightarrow> bytes \<Rightarrow> (ancs_data_parser \<times> ancs_parser_result) option" where
  "data_parser_feed cfg p bs =
    (if p_state p = PARSER_STATE_ERROR then Some (p, ANCS_PARSER_ERROR)
     else if p_state p = PARSER_STATE_COMPLETE then
       (if bs = [] then Some (p, ANCS_PARSER_COMPLETE)
        else Some (parser_fail p ANCS_PROTOCOL_ERR_SEQUENCE))
     else data_parser_loop cfg p bs)"

text \<open>The exported function, with its NULL checks.\<close>

definition ancs_data_parser_feed ::
  "ancs_config \<Rightarrow> ancs_data_parser option \<Rightarrow> bytes option \<Rightarrow> nat \<Rightarrow>
   (ancs_data_parser option \<times> ancs_parser_result) option" where
  "ancs_data_parser_feed cfg parser bs len =
    (case parser of
       None \<Rightarrow> Some (None, ANCS_PARSER_ERROR)
     | Some p \<Rightarrow>
         if bs = None \<and> len \<noteq> 0
         then Some (map_prod Some id (parser_fail p ANCS_PROTOCOL_ERR_ARGUMENT))
         else map_option (map_prod Some id) (data_parser_feed cfg p (buf_bytes bs len)))"

section \<open>Fields\<close>

lemma field_get_set [simp]: "field_get f (field_set g v n) = (if f = g then v else field_get f n)"
  by (cases f; cases g) simp_all

lemma field_get_flags [simp]:
  "field_get f (n\<lparr>n_complete := c\<rparr>) = field_get f n"
  "field_get f (n\<lparr>n_error_code := e\<rparr>) = field_get f n"
  by (cases f; simp)+

lemma field_get_truncated [simp]:
  "field_set_truncated g = Some h \<Longrightarrow> field_get f (h n) = field_get f n"
  by (cases f; cases g) auto

lemma field_set_other [simp]:
  "n_complete (field_set f v n) = n_complete n" "n_error_code (field_set f v n) = n_error_code n"
  "n_uid (field_set f v n) = n_uid n"
  by (cases f; simp)+

text \<open>The capacity of a field, and the shape of the buffers in terms of it.\<close>

fun field_capacity :: "ancs_config \<Rightarrow> attribute_field \<Rightarrow> nat" where
  "field_capacity cfg F_app_id = APP_ID_MAX cfg"
| "field_capacity cfg F_title = TITLE_MAX cfg"
| "field_capacity cfg F_subtitle = SUBTITLE_MAX cfg"
| "field_capacity cfg F_message = MESSAGE_MAX cfg"
| "field_capacity cfg F_message_size_raw = 23"
| "field_capacity cfg F_date_raw = DATE_MAX cfg"

lemma notification_ok_iff:
  "notification_ok cfg n \<longleftrightarrow>
     nul_buffer (APP_NAME_MAX cfg) (n_app_name n) \<and>
     (\<forall>f. nul_buffer (field_capacity cfg f) (field_get f n))"
proof -
  have "(\<forall>f. P f) \<longleftrightarrow> P F_app_id \<and> P F_title \<and> P F_subtitle \<and> P F_message \<and>
      P F_message_size_raw \<and> P F_date_raw" for P
    by (metis attribute_field.exhaust)
  then show ?thesis by (simp add: notification_ok_def conj_commute conj_left_commute)
qed

lemma n_app_name_field [simp]:
  "n_app_name (field_set f v n) = n_app_name n"
  "field_set_truncated f = Some h \<Longrightarrow> n_app_name (h n) = n_app_name n"
  by (cases f; auto)+

lemma notification_ok_flags [simp]:
  "notification_ok cfg (n\<lparr>n_complete := c\<rparr>) = notification_ok cfg n"
  "notification_ok cfg (n\<lparr>n_error_code := e\<rparr>) = notification_ok cfg n"
  "field_set_truncated f = Some h \<Longrightarrow> notification_ok cfg (h n) = notification_ok cfg n"
  by (simp_all add: notification_ok_iff)

lemma notification_ok_field_set:
  "notification_ok cfg n \<Longrightarrow> nul_buffer (field_capacity cfg f) v \<Longrightarrow>
   notification_ok cfg (field_set f v n)"
  by (simp add: notification_ok_iff)

lemma attribute_target_capacity:
  "attribute_target cfg i = Some (f, c) \<Longrightarrow> c = field_capacity cfg f"
  by (auto simp: attribute_target_def split: if_splits)

lemma u8_le_5_cases:
  assumes "i \<le> (5 :: u8)"
  shows "i = 0 \<or> i = 1 \<or> i = 2 \<or> i = 3 \<or> i = 4 \<or> i = 5"
proof -
  from assms have "unat i \<le> 5" by (simp add: word_le_nat_alt)
  then show ?thesis by (simp add: word_unat_eq_iff) linarith
qed

lemma attribute_target_known: "i \<le> 5 \<Longrightarrow> \<exists>f c. attribute_target cfg i = Some (f, c)"
  by (auto dest!: u8_le_5_cases simp: attribute_target_def)

lemma attribute_target_inj:
  "attribute_target cfg i = Some (f, c) \<Longrightarrow> attribute_target cfg j = Some (f, d) \<Longrightarrow> i = j"
  by (auto simp: attribute_target_def split: if_splits)

section \<open>Fragments\<close>

lemma parser_fail_simps [simp]:
  "p_state (fst (parser_fail p e)) = PARSER_STATE_ERROR"
  "p_error_code (fst (parser_fail p e)) = e"
  "snd (parser_fail p e) = ANCS_PARSER_ERROR"
  by (simp_all add: parser_fail_def)

lemma parser_fail_eqD: "parser_fail p e = (p', r) \<Longrightarrow> p_state p' = PARSER_STATE_ERROR \<and> r = ANCS_PARSER_ERROR"
  by (auto simp: parser_fail_def)

lemma finish_attribute_result:
  "finish_attribute cfg p = Some (p', r) \<Longrightarrow>
     (r = ANCS_PARSER_MORE \<and> p_state p' = PARSER_STATE_ATTRIBUTE_ID) \<or>
     (r = ANCS_PARSER_COMPLETE \<and> p_state p' = PARSER_STATE_COMPLETE) \<or>
     (r = ANCS_PARSER_ERROR \<and> p_state p' = PARSER_STATE_ERROR)"
  by (auto simp: finish_attribute_def Let_def dest!: parser_fail_eqD
      split: option.splits if_splits Option.bind_splits)

lemma data_parser_step_result:
  assumes "data_parser_step cfg p b = Some (p', r)"
  shows "(r = ANCS_PARSER_MORE \<and> p_state p' \<notin> {PARSER_STATE_COMPLETE, PARSER_STATE_ERROR}) \<or>
     (r = ANCS_PARSER_COMPLETE \<and> p_state p' = PARSER_STATE_COMPLETE) \<or>
     (r = ANCS_PARSER_ERROR \<and> p_state p' = PARSER_STATE_ERROR)"
  using assms
  by (auto simp: data_parser_step_def Let_def dest!: parser_fail_eqD finish_attribute_result
      split: parser_state.splits option.splits if_splits Option.bind_splits)

interpretation data_fragments: fragment_parser
  "data_parser_step cfg" "\<lambda>p. fst (parser_fail p ANCS_PROTOCOL_ERR_SEQUENCE)"
  "\<lambda>p. p_state p = PARSER_STATE_COMPLETE" "\<lambda>p. p_state p = PARSER_STATE_ERROR"
  "data_parser_loop cfg" "data_parser_feed cfg" for cfg
proof
  have pf: "(fst (parser_fail p e), ANCS_PARSER_ERROR) = parser_fail p e" for p e
    by (simp add: parser_fail_def)
  show "data_parser_loop cfg p (b # bs) =
        (case data_parser_step cfg p b of
           None \<Rightarrow> None
         | Some (p', ANCS_PARSER_MORE) \<Rightarrow> data_parser_loop cfg p' bs
         | Some (p', ANCS_PARSER_COMPLETE) \<Rightarrow>
             if bs = [] then Some (p', ANCS_PARSER_COMPLETE)
             else Some (fst (parser_fail p' ANCS_PROTOCOL_ERR_SEQUENCE), ANCS_PARSER_ERROR)
         | Some (p', ANCS_PARSER_ERROR) \<Rightarrow> Some (p', ANCS_PARSER_ERROR))" for p b bs
    by (simp add: pf split: option.split prod.split ancs_parser_result.split)
  show "data_parser_feed cfg p bs =
        (if p_state p = PARSER_STATE_ERROR then Some (p, ANCS_PARSER_ERROR)
         else if p_state p = PARSER_STATE_COMPLETE then
           (if bs = [] then Some (p, ANCS_PARSER_COMPLETE)
            else Some (fst (parser_fail p ANCS_PROTOCOL_ERR_SEQUENCE), ANCS_PARSER_ERROR))
         else data_parser_loop cfg p bs)" for p bs
    by (simp add: data_parser_feed_def pf)
qed (auto dest: data_parser_step_result)


section \<open>Memory safety\<close>

text \<open>
  What holds of the parser between two bytes: its notification has terminated buffers of the right
  size, the counters are inside the attribute they count, and the notification is marked complete
  exactly in the state that says so.
\<close>

definition parser_ok :: "ancs_config \<Rightarrow> ancs_data_parser \<Rightarrow> bool" where
  "parser_ok cfg p \<longleftrightarrow>
     (p_state p \<noteq> PARSER_STATE_ERROR \<longrightarrow> p_notification p \<noteq> None) \<and>
     (\<forall>n. p_notification p = Some n \<longrightarrow> notification_ok cfg n \<and>
        (n_complete n \<longleftrightarrow> p_state p = PARSER_STATE_COMPLETE)) \<and>
     (p_state p = PARSER_STATE_UID \<longrightarrow> p_uid_bytes_read p < 4) \<and>
     (p_state p = PARSER_STATE_ATTRIBUTE_LENGTH \<longrightarrow>
        p_attribute_id p \<le> 5 \<and> p_length_bytes_read p < 2 \<and> p_attribute_read p = 0) \<and>
     (p_state p = PARSER_STATE_ATTRIBUTE_VALUE \<longrightarrow>
        p_attribute_id p \<le> 5 \<and> p_attribute_read p < p_attribute_length p) \<and>
     (p_state p = PARSER_STATE_COMPLETE \<longrightarrow>
        p_received_mask p AND p_expected_mask p = p_expected_mask p)"

lemma parser_fail_ok [inv_intros]:
  assumes "\<forall>n. p_notification p = Some n \<longrightarrow> notification_ok cfg n"
  shows "parser_ok cfg (fst (parser_fail p e))"
  using assms by (auto simp: parser_ok_def parser_fail_def)

lemma finish_attribute_ok:
  assumes n: "p_notification p = Some n" "notification_ok cfg n" "\<not> n_complete n"
    and id: "p_attribute_id p \<le> 5"
  shows "\<exists>p' r. finish_attribute cfg p = Some (p', r) \<and> parser_ok cfg p'"
proof -
  obtain f c where t: "attribute_target cfg (p_attribute_id p) = Some (f, c)"
    using attribute_target_known [OF id] by blast
  define k where "k = (if unat (p_attribute_length p) < c then unat (p_attribute_length p) else c)"
  have c: "c = field_capacity cfg f" using t by (rule attribute_target_capacity)
  have b: "nul_buffer c (field_get f n)" using n(2) c by (simp add: notification_ok_iff)
  then have s: "store (field_get f n) k 0 = Some ((field_get f n)[k := 0])"
    by (simp add: nul_buffer_def k_def)
  have ok: "notification_ok cfg (field_set f ((field_get f n)[k := 0]) n)"
    using n(2) b c by (simp add: notification_ok_field_set nul_buffer_update_zero)
  show ?thesis
  proof (cases "field_set_truncated f")
    case None
    then show ?thesis using t n ok s
      by (auto simp: finish_attribute_def Let_def k_def [symmetric] parser_fail_def parser_ok_def)
  next
    case (Some h)
    then have "\<And>m. n_complete (h m) = n_complete m" by (cases f) auto
    then show ?thesis using t n ok s Some
      by (auto simp: finish_attribute_def Let_def k_def [symmetric] parser_fail_def parser_ok_def)
  qed
qed

lemma u8_less_4_suc: "(a :: u8) < 4 \<Longrightarrow> a + 1 \<noteq> 4 \<Longrightarrow> a + 1 < 4"
  by unat_arith

lemma u8_less_2_suc: "(a :: u8) < 2 \<Longrightarrow> a + 1 \<noteq> 2 \<Longrightarrow> a + 1 < 2"
  by unat_arith

lemma u16_less_suc: "(a :: u16) < b \<Longrightarrow> a + 1 \<noteq> b \<Longrightarrow> a + 1 < b"
  by unat_arith

lemma data_parser_step_ok:
  assumes ok: "parser_ok cfg p"
    and st: "p_state p \<noteq> PARSER_STATE_ERROR" "p_state p \<noteq> PARSER_STATE_COMPLETE"
  shows "\<exists>p' r. data_parser_step cfg p b = Some (p', r) \<and> parser_ok cfg p'"
proof -
  from ok st obtain n where n: "p_notification p = Some n" "notification_ok cfg n" "\<not> n_complete n"
    by (auto simp: parser_ok_def)
  show ?thesis
  proof (cases "p_state p")
    case PARSER_STATE_COMMAND
    with n show ?thesis
      by (auto simp: data_parser_step_def parser_fail_def parser_ok_def)
  next
    case PARSER_STATE_UID
    with n ok show ?thesis
      by (auto simp: data_parser_step_def parser_fail_def parser_ok_def Let_def
          intro: u8_less_4_suc)
  next
    case PARSER_STATE_ATTRIBUTE_ID
    with n show ?thesis
      by (auto simp: data_parser_step_def parser_fail_def parser_ok_def Let_def not_less)
  next
    case PARSER_STATE_ATTRIBUTE_LENGTH
    define q where "q = p\<lparr>p_attribute_length := p_attribute_length p OR
                     push_bit (8 * unat (p_length_bytes_read p)) (ucast b),
                   p_length_bytes_read := p_length_bytes_read p + 1\<rparr>"
    have q: "\<exists>p' r. finish_attribute cfg q = Some (p', r) \<and> parser_ok cfg p'"
      using n ok PARSER_STATE_ATTRIBUTE_LENGTH
      by (intro finish_attribute_ok) (auto simp: q_def parser_ok_def)
    have l: "0 < w" if "w \<noteq> 0" for w :: u16
      using that by (simp add: word_neq_0_conv)
    show ?thesis
      using q n ok PARSER_STATE_ATTRIBUTE_LENGTH
      by (auto simp: data_parser_step_def Let_def q_def parser_ok_def l intro: u8_less_2_suc)
  next
    case PARSER_STATE_ATTRIBUTE_VALUE
    with ok have id: "p_attribute_id p \<le> 5" by (simp add: parser_ok_def)
    obtain f c where t: "attribute_target cfg (p_attribute_id p) = Some (f, c)"
      using attribute_target_known [OF id] by blast
    have c: "c = field_capacity cfg f" using t by (rule attribute_target_capacity)
    have nb: "nul_buffer c (field_get f n)" using n(2) c by (simp add: notification_ok_iff)
    define v where "v = (if unat (p_attribute_read p) < c
        then (field_get f n)[unat (p_attribute_read p) := b] else field_get f n)"
    have s: "(if unat (p_attribute_read p) < c
        then store (field_get f n) (unat (p_attribute_read p)) b else Some (field_get f n)) = Some v"
      using nb by (simp add: v_def nul_buffer_def)
    have ok': "notification_ok cfg (field_set f v n)"
      using n(2) nb c by (simp add: v_def notification_ok_field_set nul_buffer_update)
    define q where "q = p\<lparr>p_notification := Some (field_set f v n),
                        p_attribute_read := p_attribute_read p + 1\<rparr>"
    have q: "\<exists>p' r. finish_attribute cfg q = Some (p', r) \<and> parser_ok cfg p'"
      using n ok' id by (intro finish_attribute_ok [of _ "field_set f v n"]) (auto simp: q_def)
    show ?thesis
      using q n ok ok' PARSER_STATE_ATTRIBUTE_VALUE t s id
      by (auto simp: data_parser_step_def Let_def q_def parser_ok_def intro: u16_less_suc)
  qed (use st in auto)
qed

lemma parser_init_ok [inv_intros]:
  assumes "notification_ok cfg n" "\<not> n_complete n"
    "ancs_data_parser_init (Some p0) (Some n) u m = Some p"
  shows "parser_ok cfg p"
  using assms
  by (auto simp: ancs_data_parser_init_def parser_zero_def parser_fail_def parser_ok_def Let_def
      split: if_splits)

lemma parser_fail_notification: "p_notification (fst (parser_fail p e)) = None \<longleftrightarrow> p_notification p = None"
  by (simp add: parser_fail_def)

lemma finish_attribute_notification:
  "finish_attribute cfg p = Some (p', r) \<Longrightarrow> p_notification p \<noteq> None \<Longrightarrow> p_notification p' \<noteq> None"
  by (auto simp: finish_attribute_def Let_def parser_fail_def
      split: option.splits if_splits Option.bind_splits)

lemma data_parser_step_notification:
  "data_parser_step cfg p b = Some (p', r) \<Longrightarrow> p_notification p \<noteq> None \<Longrightarrow> p_notification p' \<noteq> None"
  by (auto simp: data_parser_step_def Let_def parser_fail_def dest!: finish_attribute_notification
      split: parser_state.splits option.splits if_splits Option.bind_splits)

lemma data_parser_feed_ok:
  assumes "parser_ok cfg p" "p_notification p \<noteq> None"
  shows "\<exists>p' r. data_parser_feed cfg p bs = Some (p', r) \<and>
     (parser_ok cfg p' \<and> p_notification p' \<noteq> None) \<and>
     (r = ANCS_PARSER_COMPLETE \<longleftrightarrow> p_state p' = PARSER_STATE_COMPLETE)"
proof (rule data_fragments.feed_inv [where I = "\<lambda>p. parser_ok cfg p \<and> p_notification p \<noteq> None"])
  fix p b
  assume "parser_ok cfg p \<and> p_notification p \<noteq> None"
    "p_state p \<noteq> PARSER_STATE_COMPLETE" "p_state p \<noteq> PARSER_STATE_ERROR"
  then show "\<exists>p' r. data_parser_step cfg p b = Some (p', r) \<and>
      parser_ok cfg p' \<and> p_notification p' \<noteq> None"
    using data_parser_step_ok [of cfg p b] data_parser_step_notification by blast
next
  fix p
  assume "parser_ok cfg p \<and> p_notification p \<noteq> None"
  then show "parser_ok cfg (fst (parser_fail p ANCS_PROTOCOL_ERR_SEQUENCE)) \<and>
      p_notification (fst (parser_fail p ANCS_PROTOCOL_ERR_SEQUENCE)) \<noteq> None"
    by (auto simp: parser_ok_def parser_fail_def)
qed (use assms in simp)

text \<open>
  C2: memory safety. Whatever bytes arrive and however they are cut into fragments, a parser
  started on a fresh notification never reads or writes outside a buffer, every text of the
  notification stays NUL terminated in its array, and the notification is marked complete exactly
  when the last call answered that the message is complete.
\<close>

theorem data_parser_memory_safe:
  assumes "ancs_notification_init cfg (Some n0) session event t = Some n"
    and "ancs_data_parser_init (Some p0) (Some n) uid attrs = Some p"
  shows "\<exists>p' r. foldl (\<lambda>s f. case s of None \<Rightarrow> None | Some (p, _) \<Rightarrow> data_parser_feed cfg p f)
        (data_parser_feed cfg p f0) fs = Some (p', r)
    \<and> (\<exists>n'. p_notification p' = Some n' \<and> notification_ok cfg n'
        \<and> (n_complete n' \<longleftrightarrow> r = ANCS_PARSER_COMPLETE))"
proof -
  have nc: "\<not> n_complete n"
    using assms(1) by (auto simp: ancs_notification_init_def notification_zero_def Let_def
        split: option.splits)
  have ok: "parser_ok cfg p"
    using parser_init_ok [OF notification_init_ok [OF assms(1)] nc assms(2)] .
  have np: "p_notification p \<noteq> None"
    using assms(2) by (auto simp: ancs_data_parser_init_def Let_def parser_fail_def split: if_splits)
  then obtain p' r where r: "data_parser_feed cfg p (concat (f0 # fs)) = Some (p', r)"
      and ok': "parser_ok cfg p'" "r = ANCS_PARSER_COMPLETE \<longleftrightarrow> p_state p' = PARSER_STATE_COMPLETE"
      and n': "p_notification p' \<noteq> None"
    using data_parser_feed_ok [OF ok np, of "concat (f0 # fs)"] by blast
  then show ?thesis
    using data_fragments.feed_fragments [of cfg p f0 fs] by (auto simp: parser_ok_def)
qed

theorem data_parser_memory_safe_witness:
  "\<exists>p' r n'. data_parser_feed default_config (the (ancs_data_parser_init (Some parser_zero)
        (ancs_notification_init default_config (Some (notification_zero default_config)) 1 None 0) 7 63))
      [1, 2, 3] = Some (p', r)
    \<and> p_notification p' = Some n' \<and> notification_ok default_config n'"
proof -
  let ?n = "ancs_notification_init default_config (Some (notification_zero default_config)) 1 None 0"
  have n: "?n = Some (the ?n)" by (simp add: ancs_notification_init_def Let_def)
  let ?p = "ancs_data_parser_init (Some parser_zero) (Some (the ?n)) 7 63"
  have p: "?p = Some (the ?p)"
    by (simp add: ancs_data_parser_init_def Let_def ANCS_ATTR_MASK_REQUIRED_def)
  show ?thesis
    using data_parser_memory_safe [OF n p, of "[1, 2, 3]" "[]"] n by force
qed

end
