(* ===== verification/Data_Parser_Correct.thy ===== *)
theory Data_Parser_Correct
  imports Data_Parser
begin

text \<open>
  What a well-formed Get Notification Attributes response leaves in the notification: the
  serialisation of a response as the ANCS specification lays it out, and the proof that the parser
  of \<open>Data_Parser\<close> inverts it, up to the capacities of the buffers.
\<close>

section \<open>Responses\<close>

definition attribute_bytes :: "u8 \<times> bytes \<Rightarrow> bytes" where
  "attribute_bytes a = fst a # le16 (of_nat (length (snd a))) @ snd a"

definition notification_response :: "u32 \<Rightarrow> (u8 \<times> bytes) list \<Rightarrow> bytes" where
  "notification_response uid attrs = 0 # le32 uid @ concat (map attribute_bytes attrs)"

fun field_truncated :: "attribute_field \<Rightarrow> ancs_notification \<Rightarrow> bool" where
  "field_truncated F_app_id n = n_app_id_truncated n"
| "field_truncated F_title n = n_title_truncated n"
| "field_truncated F_subtitle n = n_subtitle_truncated n"
| "field_truncated F_message n = n_message_truncated n"
| "field_truncated F_message_size_raw n = False"
| "field_truncated F_date_raw n = False"

text \<open>The destination of a known attribute, and what the notification says about it.\<close>

definition attribute_field_of :: "u8 \<Rightarrow> attribute_field" where
  "attribute_field_of i =
     (if i = 0 then F_app_id else if i = 1 then F_title else if i = 2 then F_subtitle
      else if i = 3 then F_message else if i = 4 then F_message_size_raw else F_date_raw)"

definition attribute_text :: "u8 \<Rightarrow> ancs_notification \<Rightarrow> bytes" where
  "attribute_text i n = cstr (field_get (attribute_field_of i) n)"

definition attribute_truncated :: "u8 \<Rightarrow> ancs_notification \<Rightarrow> bool" where
  "attribute_truncated i n = field_truncated (attribute_field_of i) n"

definition attribute_capacity :: "ancs_config \<Rightarrow> u8 \<Rightarrow> nat" where
  "attribute_capacity cfg i = field_capacity cfg (attribute_field_of i)"

lemma attribute_target_of:
  "i \<le> 5 \<Longrightarrow> attribute_target cfg i = Some (attribute_field_of i, attribute_capacity cfg i)"
  by (auto dest!: u8_le_5_cases simp: attribute_target_def attribute_capacity_def attribute_field_of_def)

section \<open>The value of one attribute\<close>

text \<open>The buffer after the bytes from position \<open>k\<close> on were received.\<close>

fun fill :: "nat \<Rightarrow> nat \<Rightarrow> bytes \<Rightarrow> bytes \<Rightarrow> bytes" where
  "fill c k [] buf = buf"
| "fill c k (b # v) buf = fill c (Suc k) v (if k < c then buf[k := b] else buf)"

lemma fill_eq:
  assumes "c < length buf"
  shows "fill c k v buf = take (min k c) buf @ take (c - k) v @ drop (min (k + length v) c) buf"
  using assms
proof (induction v arbitrary: k buf)
  case Nil
  then show ?case by simp
next
  case (Cons b v)
  show ?case
  proof (cases "k < c")
    case True
    then have t: "take (Suc k) (buf[k := b]) = take k buf @ [b]"
      using Cons.prems by (simp add: take_Suc_conv_app_nth)
    have d: "drop j (buf[k := b]) = drop j buf" if "Suc k \<le> j" for j
      using that by simp
    have "c - k = Suc (c - Suc k)" using True by simp
    with True t d Cons show ?thesis by (simp add: min_def)
  next
    case False
    with Cons show ?thesis by simp
  qed
qed

lemma nul_buffer_fill: "nul_buffer c buf \<Longrightarrow> nul_buffer c (fill c k v buf)"
  by (induction v arbitrary: k buf) (auto simp: nul_buffer_update)

lemma cstr_fill:
  assumes "nul_buffer c buf"
  shows "cstr ((fill c 0 v buf)[min (length v) c := 0]) = cstr (take c v)"
proof -
  let ?m = "min (length v) c"
  have c: "c < length buf" using assms by (simp add: nul_buffer_def)
  then have "(fill c 0 v buf)[?m := 0] = take c v @ 0 # drop (Suc ?m) buf"
    using fill_eq [OF c, of 0 v]
    by (simp add: list_update_append min_def drop_update_swap Cons_nth_drop_Suc [symmetric])
  then show ?thesis by (simp add: cstr_append_nul_any)
qed

lemma loop_more:
  "data_parser_step cfg p b = Some (p', ANCS_PARSER_MORE) \<Longrightarrow>
   data_parser_loop cfg p (b # bs) = data_parser_loop cfg p' bs"
  by simp

text \<open>How the loop goes on when an attribute has ended.\<close>

definition resume ::
  "ancs_config \<Rightarrow> ancs_data_parser \<Rightarrow> bytes \<Rightarrow> (ancs_data_parser \<times> ancs_parser_result) option" where
  "resume cfg p bs =
     (case finish_attribute cfg p of
        None \<Rightarrow> None
      | Some (p', ANCS_PARSER_MORE) \<Rightarrow> data_parser_loop cfg p' bs
      | Some (p', ANCS_PARSER_COMPLETE) \<Rightarrow>
          if bs = [] then Some (p', ANCS_PARSER_COMPLETE)
          else Some (parser_fail p' ANCS_PROTOCOL_ERR_SEQUENCE)
      | Some (p', ANCS_PARSER_ERROR) \<Rightarrow> Some (p', ANCS_PARSER_ERROR))"

lemma u16_of_nat_eq:
  "a < 65536 \<Longrightarrow> b < 65536 \<Longrightarrow> (of_nat a :: u16) = of_nat b \<longleftrightarrow> a = b"
  by (metis unat_of_nat_u16)

lemma loop_value:
  assumes "p_state p = PARSER_STATE_ATTRIBUTE_VALUE" "p_notification p = Some n"
    "attribute_target cfg (p_attribute_id p) = Some (f, c)" "nul_buffer c (field_get f n)"
    "p_attribute_read p = of_nat k" "p_attribute_length p = of_nat (k + length v)"
    "v \<noteq> []" "k + length v < 65536"
  shows "data_parser_loop cfg p (v @ rest) =
    resume cfg (p\<lparr>p_notification := Some (field_set f (fill c k v (field_get f n)) n),
                  p_attribute_read := of_nat (k + length v)\<rparr>) rest"
  using assms
proof (induction v arbitrary: p n k)
  case Nil
  then show ?case by simp
next
  case (Cons b v)
  let ?buf = "if k < c then (field_get f n)[k := b] else field_get f n"
  let ?n = "field_set f ?buf n"
  let ?p = "p\<lparr>p_notification := Some ?n, p_attribute_read := of_nat (Suc k)\<rparr>"
  have fs: "field_set f x (field_set f y m) = field_set f x m" for x y m by (cases f) simp_all
  have k: "k < 65536" using Cons.prems(8) by simp
  have step: "data_parser_step cfg p b =
      (if v = [] then finish_attribute cfg ?p else Some (?p, ANCS_PARSER_MORE))"
  proof -
    have len: "(of_nat (Suc k) :: u16) = of_nat (k + length (b # v)) \<longleftrightarrow> v = []"
      using Cons.prems(8) by (subst u16_of_nat_eq) auto
    have st: "k < c \<Longrightarrow> store (field_get f n) k b = Some ((field_get f n)[k := b])"
      using Cons.prems(4) by (simp add: nul_buffer_def)
    show ?thesis
      using Cons.prems len st k
      by (simp add: data_parser_step_def Let_def unat_of_nat_u16 add.commute)
  qed
  show ?case
  proof (cases "v = []")
    case True
    with step show ?thesis by (simp add: resume_def add.commute)
  next
    case False
    have "data_parser_loop cfg ?p (v @ rest) =
      resume cfg (?p\<lparr>p_notification := Some (field_set f (fill c (Suc k) v (field_get f ?n)) ?n),
                  p_attribute_read := of_nat (Suc k + length v)\<rparr>) rest"
      by (rule Cons.IH) (use Cons.prems False in \<open>auto simp: nul_buffer_update\<close>)
    with step False show ?thesis by (simp add: fs)
  qed
qed

section \<open>One attribute\<close>

lemma rd_le16_step:
  "0 OR push_bit (8 * unat (0 :: u8)) (ucast a) OR push_bit (8 * unat (0 + 1 :: u8)) (ucast b) =
     rd_le16 a b"
  by (simp add: rd_le16_def)

lemma loop_attribute:
  assumes st: "p_state p = PARSER_STATE_ATTRIBUTE_ID" "p_notification p = Some n"
    and nok: "notification_ok cfg n"
    and i: "i \<le> 5" "bit (p_expected_mask p) (unat i)" "\<not> bit (p_received_mask p) (unat i)"
    and v: "length v < 65536"
  shows "\<exists>q. data_parser_loop cfg p (attribute_bytes (i, v) @ rest) = resume cfg q rest
    \<and> q = p\<lparr>p_notification := Some (field_set (attribute_field_of i)
               (fill (attribute_capacity cfg i) 0 v (field_get (attribute_field_of i) n)) n),
            p_attribute_id := i, p_attribute_length := of_nat (length v),
            p_attribute_read := of_nat (length v), p_length_bytes_read := 2, p_state := p_state q\<rparr>"
proof -
  let ?f = "attribute_field_of i" and ?c = "attribute_capacity cfg i"
  have t: "attribute_target cfg i = Some (?f, ?c)" using i(1) by (rule attribute_target_of)
  have nb: "nul_buffer ?c (field_get ?f n)"
    using nok by (simp add: notification_ok_iff attribute_capacity_def)
  have bits: "p_expected_mask p AND push_bit (unat i) 1 \<noteq> 0" "p_received_mask p AND push_bit (unat i) 1 = 0"
    using i by (simp_all only: and_push_bit_1_eq_0 not_not simp_thms)
  let ?w = "of_nat (length v) :: u16"
  let ?p1 = "p\<lparr>p_attribute_id := i, p_attribute_length := 0, p_attribute_read := 0,
               p_length_bytes_read := 0, p_state := PARSER_STATE_ATTRIBUTE_LENGTH\<rparr>"
  have s1: "data_parser_step cfg p i = Some (?p1, ANCS_PARSER_MORE)"
    using st bits i(1) linorder_not_less [of 5 i] by (simp add: data_parser_step_def Let_def)
  let ?p2 = "?p1\<lparr>p_attribute_length := ucast (ucast ?w :: u8), p_length_bytes_read := 1\<rparr>"
  have s2: "data_parser_step cfg ?p1 (ucast ?w) = Some (?p2, ANCS_PARSER_MORE)"
    by (simp add: data_parser_step_def Let_def)
  let ?p3 = "?p2\<lparr>p_attribute_length := ?w, p_length_bytes_read := 2\<rparr>"
  have w: "ucast (ucast ?w :: u8) OR push_bit 8 (ucast (ucast (drop_bit 8 ?w) :: u8)) = ?w"
    using rd_le16_le16 [of ?w] by (simp add: rd_le16_def)
  have s3: "data_parser_step cfg ?p2 (ucast (drop_bit 8 ?w)) =
     (if v = [] then finish_attribute cfg ?p3
      else Some (?p3\<lparr>p_state := PARSER_STATE_ATTRIBUTE_VALUE\<rparr>, ANCS_PARSER_MORE))"
    using w v u16_of_nat_eq [of "length v" 0] by (simp add: data_parser_step_def Let_def)
  have bytes: "attribute_bytes (i, v) @ rest = i # ucast ?w # ucast (drop_bit 8 ?w) # v @ rest"
    by (simp add: attribute_bytes_def le16_def)
  show ?thesis
  proof (cases "v = []")
    case True
    have same: "field_set ?f (field_get ?f n) n = n" by (cases ?f) simp_all
    show ?thesis
      unfolding bytes using True s1 s2 s3 st same
      by (intro exI [of _ ?p3]) (simp add: resume_def)
  next
    case False
    let ?p4 = "?p3\<lparr>p_state := PARSER_STATE_ATTRIBUTE_VALUE\<rparr>"
    have "data_parser_loop cfg ?p4 (v @ rest) =
      resume cfg (?p4\<lparr>p_notification := Some (field_set ?f (fill ?c 0 v (field_get ?f n)) n),
                      p_attribute_read := of_nat (0 + length v)\<rparr>) rest"
      by (rule loop_value) (use st t nb False v in auto)
    then show ?thesis
      unfolding bytes using False s1 s2 s3
      by (intro exI [of _ "?p4\<lparr>p_notification := Some (field_set ?f (fill ?c 0 v (field_get ?f n)) n),
                      p_attribute_read := of_nat (length v)\<rparr>"]) simp
  qed
qed


text \<open>What the end of one attribute does to a parser that has read its value.\<close>

lemma finish_after_value:
  assumes "attribute_target cfg (p_attribute_id q) = Some (f, c)" "p_notification q = Some m"
    "nul_buffer c (field_get f m)" "p_attribute_length q = of_nat len" "len < 65536"
    "field_set_truncated f = None \<Longrightarrow> len \<le> c"
  defines "k \<equiv> min len c"
  defines "m1 \<equiv> field_set f ((field_get f m)[k := 0]) m"
  defines "m2 \<equiv> (if len > c then the (field_set_truncated f) m1 else m1)"
  defines "rm \<equiv> p_received_mask q OR push_bit (unat (p_attribute_id q)) 1"
  shows "finish_attribute cfg q =
     (if rm AND p_expected_mask q = p_expected_mask q
      then Some (q\<lparr>p_notification := Some (m2\<lparr>n_complete := True, n_error_code := error_number ANCS_PROTOCOL_OK\<rparr>),
                   p_received_mask := rm, p_state := PARSER_STATE_COMPLETE\<rparr>, ANCS_PARSER_COMPLETE)
      else Some (q\<lparr>p_notification := Some m2, p_received_mask := rm,
                   p_state := PARSER_STATE_ATTRIBUTE_ID, p_attribute_length := 0,
                   p_attribute_read := 0, p_length_bytes_read := 0\<rparr>, ANCS_PARSER_MORE))"
proof -
  have u: "unat (p_attribute_length q) = len" using assms(4,5) by (simp add: unat_of_nat_u16)
  have k: "(if len < c then len else c) = k" by (simp add: k_def min_def)
  have s: "store (field_get f m) k 0 = Some ((field_get f m)[k := 0])"
    using assms(3) by (simp add: nul_buffer_def k_def)
  have no: "\<not> (c < len \<and> field_set_truncated f = None)" using assms(6) by linarith
  show ?thesis
    unfolding finish_attribute_def assms(1) assms(2) option.case prod.case Option.bind.simps Let_def
      u k s m2_def m1_def rm_def
    using no by (cases "c < len"; cases "field_set_truncated f") simp_all
qed

section \<open>The whole response\<close>

text \<open>
  The notification agrees with the attributes received so far: the text up to the capacity of its
  buffer, and the truncation flag.
\<close>

definition holds_attribute :: "ancs_config \<Rightarrow> ancs_notification \<Rightarrow> u8 \<times> bytes \<Rightarrow> bool" where
  "holds_attribute cfg n a \<longleftrightarrow>
     attribute_text (fst a) n = cstr (take (attribute_capacity cfg (fst a)) (snd a)) \<and>
     (attribute_truncated (fst a) n \<longleftrightarrow> attribute_capacity cfg (fst a) < length (snd a))"

definition between_attributes ::
  "ancs_config \<Rightarrow> u32 \<Rightarrow> (u8 \<times> bytes) list \<Rightarrow> ancs_data_parser \<Rightarrow> bool" where
  "between_attributes cfg attr_mask received p \<longleftrightarrow>
     p_state p = PARSER_STATE_ATTRIBUTE_ID \<and> p_expected_mask p = attr_mask \<and>
     (\<forall>j. bit (p_received_mask p) j \<longleftrightarrow> j \<in> unat ` fst ` set received) \<and>
     (\<exists>n. p_notification p = Some n \<and> notification_ok cfg n \<and>
        (\<forall>a\<in>set received. holds_attribute cfg n a) \<and>
        (\<forall>i. i \<le> 5 \<longrightarrow> i \<notin> fst ` set received \<longrightarrow> \<not> attribute_truncated i n))"

lemma attribute_field_of_inj:
  "i \<le> 5 \<Longrightarrow> j \<le> 5 \<Longrightarrow> attribute_field_of i = attribute_field_of j \<Longrightarrow> i = j"
  by (auto dest!: u8_le_5_cases simp: attribute_field_of_def)

lemma field_truncated_set [simp]:
  "field_truncated g (field_set f v n) = field_truncated g n"
  "field_truncated g (n\<lparr>n_complete := b\<rparr>) = field_truncated g n"
  "field_truncated g (n\<lparr>n_error_code := e\<rparr>) = field_truncated g n"
  by (cases g; cases f; simp)+

lemma field_truncated_mark:
  "field_set_truncated f = Some h \<Longrightarrow> field_truncated g (h n) \<longleftrightarrow> g = f \<or> field_truncated g n"
  by (cases f; cases g) auto

lemma holds_attribute_flags [simp]:
  "holds_attribute cfg (n\<lparr>n_complete := b, n_error_code := e\<rparr>) a = holds_attribute cfg n a"
  by (simp add: holds_attribute_def attribute_text_def attribute_truncated_def)

lemma attribute_marked_truncated:
  "attribute_truncated i n \<Longrightarrow> field_set_truncated (attribute_field_of i) \<noteq> None"
  by (cases "attribute_field_of i") (auto simp: attribute_truncated_def)

text \<open>The notification after one more attribute.\<close>

lemma notification_after_attribute:
  assumes nok: "notification_ok cfg n" and i: "i \<le> 5"
    and cap: "field_set_truncated (attribute_field_of i) = None \<longrightarrow> length v \<le> attribute_capacity cfg i"
  defines "f \<equiv> attribute_field_of i" and "c \<equiv> attribute_capacity cfg i"
  defines "m \<equiv> field_set f (fill c 0 v (field_get f n)) n"
  defines "m1 \<equiv> field_set f ((field_get f m)[min (length v) c := 0]) m"
  defines "m2 \<equiv> (if length v > c then the (field_set_truncated f) m1 else m1)"
  shows "notification_ok cfg m2"
    and "\<not> attribute_truncated i n \<Longrightarrow> holds_attribute cfg m2 (i, v)"
    and "\<And>a. fst a \<le> 5 \<Longrightarrow> fst a \<noteq> i \<Longrightarrow> holds_attribute cfg m2 a = holds_attribute cfg n a"
    and "\<And>j. j \<le> 5 \<Longrightarrow> j \<noteq> i \<Longrightarrow> attribute_truncated j m2 = attribute_truncated j n"
proof -
  have c: "c = field_capacity cfg f" by (simp add: c_def f_def attribute_capacity_def)
  have nb: "nul_buffer c (field_get f n)" using nok c by (simp add: notification_ok_iff)
  have fg: "field_get f m1 = (fill c 0 v (field_get f n))[min (length v) c := 0]"
    by (simp add: m1_def m_def)
  have fo: "field_get g m1 = field_get g n" if "g \<noteq> f" for g using that by (simp add: m1_def m_def)
  have ok1: "notification_ok cfg m1"
    using nok nb c
    by (simp add: m1_def m_def notification_ok_field_set nul_buffer_fill nul_buffer_update_zero)
  have tr1: "field_truncated g m1 = field_truncated g n" for g by (simp add: m1_def m_def)
  have "length v \<le> c \<or> (\<exists>h. field_set_truncated f = Some h)"
    using cap by (cases "field_set_truncated f") (auto simp: f_def c_def)
  then obtain h where
    h: "m2 = m1 \<and> length v \<le> c \<or> field_set_truncated f = Some h \<and> m2 = h m1 \<and> c < length v"
    by (cases "c < length v") (auto simp: m2_def)
  have fg2: "field_get g m2 = field_get g m1" for g using h by auto
  have tr2: "field_truncated g m2 \<longleftrightarrow> (c < length v \<and> g = f) \<or> field_truncated g n" for g
    using h by (auto simp: tr1 field_truncated_mark)
  show "notification_ok cfg m2" using ok1 h by auto
  have oth: "attribute_field_of j \<noteq> f" if "j \<le> 5" "j \<noteq> i" for j
    using that i attribute_field_of_inj by (auto simp: f_def)
  show "attribute_truncated j m2 = attribute_truncated j n" if "j \<le> 5" "j \<noteq> i" for j
    using oth [OF that] by (simp add: attribute_truncated_def tr2)
  show "holds_attribute cfg m2 a = holds_attribute cfg n a" if "fst a \<le> 5" "fst a \<noteq> i" for a
    using oth [OF that] by (simp add: holds_attribute_def attribute_text_def attribute_truncated_def
        tr2 fg2 fo)
  show "holds_attribute cfg m2 (i, v)" if "\<not> attribute_truncated i n"
    using that cstr_fill [OF nb, of v]
    by (simp add: holds_attribute_def attribute_text_def attribute_truncated_def tr2 fg2 fg
        flip: f_def c_def)
qed


text \<open>The values a response may carry: the two short attributes fit their buffers.\<close>

definition attributes_fit :: "ancs_config \<Rightarrow> (u8 \<times> bytes) list \<Rightarrow> bool" where
  "attributes_fit cfg attrs \<longleftrightarrow>
     list_all (\<lambda>(i, v). length v < 65536 \<and>
       (field_set_truncated (attribute_field_of i) = None \<longrightarrow> length v \<le> attribute_capacity cfg i)) attrs"

text \<open>The attributes answer a request: each once, and exactly those of the mask.\<close>

definition attributes_answer :: "u32 \<Rightarrow> (u8 \<times> bytes) list \<Rightarrow> bool" where
  "attributes_answer attr_mask attrs \<longleftrightarrow>
     distinct (map fst attrs) \<and> fst ` set attrs = {i. i \<le> 5 \<and> bit attr_mask (unat i)}"

lemma mask_bits_attributes:
  assumes "fst ` set attrs = {i :: u8. i \<le> 5 \<and> bit (M :: u32) (unat i)}" "\<And>j. bit M j \<Longrightarrow> j < 6"
  shows "bit M j \<longleftrightarrow> j \<in> unat ` fst ` set attrs"
proof
  assume b: "bit M j"
  then have "j < 6" by (rule assms(2))
  then have "unat (of_nat j :: u8) = j" by (simp add: unsigned_of_nat take_bit_nat_eq_self)
  with b \<open>j < 6\<close> have "of_nat j \<in> {i :: u8. i \<le> 5 \<and> bit M (unat i)}"
    by (simp add: word_le_nat_alt)
  then show "j \<in> unat ` fst ` set attrs"
    using \<open>unat (of_nat j :: u8) = j\<close> assms(1) by (metis image_eqI)
next
  assume "j \<in> unat ` fst ` set attrs"
  then show "bit M j" unfolding assms(1) by blast
qed

lemma resume_attribute:
  assumes st: "between_attributes cfg M received p"
    and i: "i \<le> 5" "bit M (unat i)" "i \<notin> fst ` set received"
    and v: "length v < 65536"
      "field_set_truncated (attribute_field_of i) = None \<Longrightarrow> length v \<le> attribute_capacity cfg i"
    and rec: "\<forall>a\<in>set received. fst a \<le> 5"
  shows "\<exists>p' m. data_parser_loop cfg p (attribute_bytes (i, v) @ rest) =
       (if \<forall>j. bit M j \<longrightarrow> j \<in> unat ` fst ` set (received @ [(i, v)])
        then (if rest = [] then Some (p', ANCS_PARSER_COMPLETE)
              else Some (parser_fail p' ANCS_PROTOCOL_ERR_SEQUENCE))
        else data_parser_loop cfg p' rest)
    \<and> p_notification p' = Some m
    \<and> (\<forall>a\<in>set (received @ [(i, v)]). holds_attribute cfg m a)
    \<and> (if \<forall>j. bit M j \<longrightarrow> j \<in> unat ` fst ` set (received @ [(i, v)])
       then n_complete m \<and> n_error_code m = error_number ANCS_PROTOCOL_OK
       else between_attributes cfg M (received @ [(i, v)]) p')"
proof -
  let ?f = "attribute_field_of i" and ?c = "attribute_capacity cfg i"
  obtain n where pn: "p_notification p = Some n" and nok: "notification_ok cfg n"
      and hold: "\<forall>a\<in>set received. holds_attribute cfg n a"
      and tr: "\<And>j. j \<le> 5 \<Longrightarrow> j \<notin> fst ` set received \<Longrightarrow> \<not> attribute_truncated j n"
    using st by (auto simp: between_attributes_def)
  have ps: "p_state p = PARSER_STATE_ATTRIBUTE_ID" and em: "p_expected_mask p = M"
      and rm: "\<And>j. bit (p_received_mask p) j \<longleftrightarrow> j \<in> unat ` fst ` set received"
    using st by (auto simp: between_attributes_def)
  have nr: "\<not> bit (p_received_mask p) (unat i)"
    using i(3) by (fastforce simp: rm image_iff word_unat_eq_iff)
  let ?m = "field_set ?f (fill ?c 0 v (field_get ?f n)) n"
  obtain q where lq: "data_parser_loop cfg p (attribute_bytes (i, v) @ rest) = resume cfg q rest"
      and q: "q = p\<lparr>p_notification := Some ?m, p_attribute_id := i,
        p_attribute_length := of_nat (length v), p_attribute_read := of_nat (length v),
        p_length_bytes_read := 2, p_state := p_state q\<rparr>"
    using loop_attribute [OF ps pn nok i(1), of v rest] i(2) nr v(1) em by auto
  define m1 where "m1 = field_set ?f ((field_get ?f ?m)[min (length v) ?c := 0]) ?m"
  define m2 where "m2 = (if length v > ?c then the (field_set_truncated ?f) m1 else m1)"
  define r where "r = p_received_mask q OR push_bit (unat i) 1"
  have nb: "nul_buffer ?c (field_get ?f n)"
    using nok by (simp add: notification_ok_iff attribute_capacity_def)
  have qs: "p_attribute_id q = i" "p_notification q = Some ?m" "p_expected_mask q = M"
      "p_attribute_length q = of_nat (length v)" "p_received_mask q = p_received_mask p"
    by (subst q, simp add: em)+
  have fin: "finish_attribute cfg q =
     (if r AND M = M
      then Some (q\<lparr>p_notification := Some (m2\<lparr>n_complete := True, n_error_code := error_number ANCS_PROTOCOL_OK\<rparr>),
                   p_received_mask := r, p_state := PARSER_STATE_COMPLETE\<rparr>, ANCS_PARSER_COMPLETE)
      else Some (q\<lparr>p_notification := Some m2, p_received_mask := r,
                   p_state := PARSER_STATE_ATTRIBUTE_ID, p_attribute_length := 0,
                   p_attribute_read := 0, p_length_bytes_read := 0\<rparr>, ANCS_PARSER_MORE))"
    using finish_after_value [of cfg q ?f ?c ?m "length v"] attribute_target_of [OF i(1), of cfg]
      nul_buffer_fill [OF nb] v qs
    by (simp add: m2_def m1_def r_def)
  have i5: "unat i < 32" using i(1) by (simp add: word_le_nat_alt)
  have rbit: "bit r j \<longleftrightarrow> j \<in> unat ` fst ` set (received @ [(i, v)])" for j
    using i5 by (auto simp: r_def qs rm bit_simps bit_1_iff)
  have full: "r AND M = M \<longleftrightarrow> (\<forall>j. bit M j \<longrightarrow> j \<in> unat ` fst ` set (received @ [(i, v)]))"
    by (simp only: and_absorb_iff rbit)
  have cap: "field_set_truncated ?f = None \<longrightarrow> length v \<le> ?c" using v(2) by blast
  note after = notification_after_attribute [OF nok i(1) cap, folded m1_def, folded m2_def]
  have all: "\<forall>a\<in>set (received @ [(i, v)]). holds_attribute cfg m2 a"
    using after(2) [OF tr [OF i(1) i(3)]] after(3) hold rec i(3) by force
  show ?thesis
  proof (cases "r AND M = M")
    case True
    with full fin lq all show ?thesis
      by (intro exI [of _ "q\<lparr>p_notification := Some (m2\<lparr>n_complete := True, n_error_code := error_number ANCS_PROTOCOL_OK\<rparr>),
          p_received_mask := r, p_state := PARSER_STATE_COMPLETE\<rparr>"]
          exI [of _ "m2\<lparr>n_complete := True, n_error_code := error_number ANCS_PROTOCOL_OK\<rparr>"]) (simp add: resume_def)
  next
    case False
    let ?p' = "q\<lparr>p_notification := Some m2, p_received_mask := r,
                   p_state := PARSER_STATE_ATTRIBUTE_ID, p_attribute_length := 0,
                   p_attribute_read := 0, p_length_bytes_read := 0\<rparr>"
    have "between_attributes cfg M (received @ [(i, v)]) ?p'"
      unfolding between_attributes_def
      using after(1,4) all tr rbit qs by auto
    moreover have nf: "\<not> (\<forall>j. bit M j \<longrightarrow> j \<in> unat ` fst ` set (received @ [(i, v)]))"
      using False full by blast
    moreover have "resume cfg q rest = data_parser_loop cfg ?p' rest"
      using fin unfolding if_not_P [OF False] by (simp add: resume_def)
    ultimately show ?thesis
      unfolding if_not_P [OF nf] lq using all by (intro exI [of _ ?p'] exI [of _ m2]) simp
  qed
qed

lemma loop_attributes:
  assumes "between_attributes cfg M received p" "todo \<noteq> []"
    "attributes_answer M (received @ todo)" "attributes_fit cfg todo" "\<And>j. bit M j \<Longrightarrow> j < 6"
  shows "\<exists>p' n. data_parser_loop cfg p (concat (map attribute_bytes todo)) = Some (p', ANCS_PARSER_COMPLETE)
    \<and> p_notification p' = Some n \<and> n_complete n \<and> n_error_code n = error_number ANCS_PROTOCOL_OK
    \<and> (\<forall>a\<in>set (received @ todo). holds_attribute cfg n a)"
  using assms(1-4)
proof (induction todo arbitrary: received p)
  case Nil
  then show ?case by simp
next
  case (Cons a todo)
  obtain i v where a: "a = (i, v)" by (cases a)
  have ids: "fst ` set (received @ a # todo) = {i. i \<le> 5 \<and> bit M (unat i)}"
      and dist: "distinct (map fst (received @ a # todo))"
    using Cons.prems(3) by (auto simp: attributes_answer_def)
  have i: "i \<le> 5" "bit M (unat i)" using ids a by auto
  have rec: "\<forall>a\<in>set received. fst a \<le> 5" using ids by auto
  have ni: "i \<notin> fst ` set received" using dist a by auto
  have v: "length v < 65536" "field_set_truncated (attribute_field_of i) = None \<Longrightarrow> length v \<le> attribute_capacity cfg i"
    using Cons.prems(4) a by (auto simp: attributes_fit_def)
  let ?full = "\<forall>j. bit M j \<longrightarrow> j \<in> unat ` fst ` set (received @ [(i, v)])"
  have full: "?full \<longleftrightarrow> todo = []"
  proof
    assume f: ?full
    show "todo = []"
    proof (rule ccontr)
      assume "todo \<noteq> []"
      then obtain b where b: "b \<in> set todo" by (meson hd_in_set)
      then have "bit M (unat (fst b))" using ids by auto
      with f have "fst b \<in> fst ` set (received @ [(i, v)])" by (auto simp: word_unat_eq_iff image_iff)
      with b dist a show False by (auto simp: image_iff)
    qed
  next
    assume "todo = []"
    then show ?full using mask_bits_attributes [OF ids assms(5)] a by simp
  qed
  obtain p' m where step: "data_parser_loop cfg p (attribute_bytes (i, v) @ concat (map attribute_bytes todo)) =
       (if ?full then (if concat (map attribute_bytes todo) = [] then Some (p', ANCS_PARSER_COMPLETE)
              else Some (parser_fail p' ANCS_PROTOCOL_ERR_SEQUENCE))
        else data_parser_loop cfg p' (concat (map attribute_bytes todo)))"
      and m: "p_notification p' = Some m" "\<forall>a\<in>set (received @ [(i, v)]). holds_attribute cfg m a"
        "if ?full then n_complete m \<and> n_error_code m = error_number ANCS_PROTOCOL_OK
         else between_attributes cfg M (received @ [(i, v)]) p'"
    using resume_attribute [OF Cons.prems(1) i ni v rec, of "concat (map attribute_bytes todo)"] by blast
  show ?case
  proof (cases "todo = []")
    case True
    with full have ?full by simp
    with step m True a show ?thesis by auto
  next
    case False
    with full have nf: "\<not> ?full" by simp
    have b: "between_attributes cfg M (received @ [(i, v)]) p'" using m(3) nf by presburger
    have "attributes_answer M ((received @ [(i, v)]) @ todo)" "attributes_fit cfg todo"
      using Cons.prems a by (auto simp: attributes_fit_def)
    note IH = Cons.IH [OF b False this]
    have "data_parser_loop cfg p (concat (map attribute_bytes (a # todo))) =
        data_parser_loop cfg p' (concat (map attribute_bytes todo))"
      using step a by (simp only: if_not_P [OF nf] list.map concat.simps)
    with IH a show ?thesis by simp
  qed
qed


lemma bit_required_mask: "bit ANCS_ATTR_MASK_REQUIRED j \<longleftrightarrow> j < 6"
proof -
  have m: "ANCS_ATTR_MASK_REQUIRED = mask 6"
    by (simp add: ANCS_ATTR_MASK_REQUIRED_def mask_eq_exp_minus_1)
  show ?thesis unfolding m bit_mask_iff by auto
qed

lemma loop_header:
  assumes "p_state p = PARSER_STATE_COMMAND"
  shows "data_parser_loop cfg p (0 # le32 (p_expected_uid p) @ rest) =
    data_parser_loop cfg (p\<lparr>p_response_uid := p_expected_uid p, p_uid_bytes_read := 4,
                            p_state := PARSER_STATE_ATTRIBUTE_ID\<rparr>) rest"
  using assms rd_le32_le32 [of "p_expected_uid p"]
  by (simp add: le32_def data_parser_step_def Let_def rd_le32_def or.assoc)

text \<open>
  C1: round trip. A response that carries, in any order, each requested attribute once, cut into
  fragments anywhere, is parsed completely; afterwards every text of the notification is the one
  of the response up to the capacity of its buffer (and up to a NUL inside it), and the truncation
  flags say exactly which texts were cut.
\<close>

theorem data_parser_roundtrip:
  assumes init: "ancs_notification_init cfg (Some n0) session event t = Some n"
      "ancs_data_parser_init (Some p0) (Some n) uid attr_mask = Some p"
    and answer: "attributes_answer (attr_mask AND ANCS_ATTR_MASK_REQUIRED) attrs"
      "attributes_fit cfg attrs" "attrs \<noteq> []"
    and cut: "concat (f0 # fs) = notification_response uid attrs"
  shows "\<exists>p' n'. foldl (\<lambda>s f. case s of None \<Rightarrow> None | Some (p, _) \<Rightarrow> data_parser_feed cfg p f)
        (data_parser_feed cfg p f0) fs = Some (p', ANCS_PARSER_COMPLETE)
    \<and> p_notification p' = Some n' \<and> n_complete n' \<and> n_error_code n' = error_number ANCS_PROTOCOL_OK
    \<and> (\<forall>(i, v)\<in>set attrs. attribute_text i n' = cstr (take (attribute_capacity cfg i) v)
         \<and> (attribute_truncated i n' \<longleftrightarrow> attribute_capacity cfg i < length v))"
proof -
  let ?M = "attr_mask AND ANCS_ATTR_MASK_REQUIRED"
  have M6: "j < 6" if "bit ?M j" for j
    using that by (simp add: bit_and_iff bit_required_mask)
  obtain a where "a \<in> set attrs" using answer(3) by (meson hd_in_set)
  then have "bit ?M (unat (fst a))" using answer(1) by (auto simp: attributes_answer_def)
  then have M0: "?M \<noteq> 0" by (metis bit_0_eq bot_apply bot_bool_def)
  have p: "p = parser_zero\<lparr>p_notification := Some n, p_expected_uid := uid, p_expected_mask := ?M,
      p_state := PARSER_STATE_COMMAND\<rparr>"
    using init(2) M0 by (simp add: ancs_data_parser_init_def Let_def)
  let ?q = "p\<lparr>p_response_uid := uid, p_uid_bytes_read := 4, p_state := PARSER_STATE_ATTRIBUTE_ID\<rparr>"
  have "field_truncated f n = False" for f
    using init(1) by (cases f)
      (auto simp: ancs_notification_init_def notification_zero_def Let_def split: option.splits)
  then have q: "between_attributes cfg ?M [] ?q"
    using notification_init_ok [OF init(1)]
    by (auto simp: between_attributes_def p parser_zero_def attribute_truncated_def)
  have hd: "data_parser_feed cfg p (concat (f0 # fs)) =
      data_parser_loop cfg ?q (concat (map attribute_bytes attrs))"
    unfolding cut notification_response_def
    using loop_header [of p cfg "concat (map attribute_bytes attrs)"]
    by (simp add: data_parser_feed_def p parser_zero_def)
  show ?thesis
    using loop_attributes [OF q answer(3) _ answer(2) M6] answer(1) hd
      data_fragments.feed_fragments [of cfg p f0 fs]
    by (auto simp: holds_attribute_def case_prod_beta)
qed

theorem data_parser_roundtrip_witness:
  "\<exists>p' n'. data_parser_feed default_config
        (the (ancs_data_parser_init (Some parser_zero)
          (ancs_notification_init default_config (Some (notification_zero default_config)) 1 None 0) 7 3))
        (notification_response 7 [(1, [72, 105]), (0, [97])]) = Some (p', ANCS_PARSER_COMPLETE)
    \<and> p_notification p' = Some n' \<and> attribute_text 1 n' = [72, 105] \<and> attribute_text 0 n' = [97]"
proof -
  let ?n = "ancs_notification_init default_config (Some (notification_zero default_config)) 1 None 0"
  let ?p = "ancs_data_parser_init (Some parser_zero) (Some (the ?n)) 7 3"
  let ?attrs = "[(1, [72, 105]), (0, [97])] :: (u8 \<times> bytes) list"
  have n: "?n = Some (the ?n)" by (simp add: ancs_notification_init_def Let_def)
  have p: "?p = Some (the ?p)"
    by (simp add: ancs_data_parser_init_def Let_def ANCS_ATTR_MASK_REQUIRED_def)
  have bits: "bit (3 :: u32) k \<longleftrightarrow> k = 0 \<or> k = 1" for k
    by (cases k; cases "k - 1") (auto simp: bit_simps bit_numeral_rec)
  have m: "(3 :: u32) AND ANCS_ATTR_MASK_REQUIRED = 3" by (simp add: ANCS_ATTR_MASK_REQUIRED_def)
  have ans: "attributes_answer ((3 :: u32) AND ANCS_ATTR_MASK_REQUIRED) ?attrs"
    unfolding attributes_answer_def m bits
    by (auto simp: word_unat_eq_iff word_le_nat_alt)
  have fit: "attributes_fit default_config ?attrs"
    by (simp add: attributes_fit_def attribute_field_of_def)
  have cap: "attribute_capacity default_config 1 = 512" "attribute_capacity default_config 0 = 256"
    by (simp_all add: attribute_capacity_def attribute_field_of_def default_config_def)
  show ?thesis
    using data_parser_roundtrip [OF n p ans fit, of "notification_response 7 ?attrs" "[]"] n cap
    by auto
qed

end
