(* ===== verification/App_Data_Parser.thy ===== *)
theory App_Data_Parser
  imports Data_Parser_Correct
begin

text \<open>
  The parser of Get App Attributes responses, \<open>ancs_app_data_parser_t\<close> of
  \<^verbatim>\<open>components/ancs_protocol/ancs_protocol.c\<close>: it checks that the response is about the
  application of the notification and stores the display name. It is the second instance of the
  fragment parser contract.
\<close>

section \<open>State and operations\<close>

datatype app_parser_state =
    APP_PARSER_STATE_COMMAND | APP_PARSER_STATE_APP_ID | APP_PARSER_STATE_ATTRIBUTE_ID
  | APP_PARSER_STATE_ATTRIBUTE_LENGTH | APP_PARSER_STATE_ATTRIBUTE_VALUE
  | APP_PARSER_STATE_COMPLETE | APP_PARSER_STATE_ERROR

record ancs_app_data_parser =
  a_notification :: "ancs_notification option"
  a_response_app_id :: bytes
  a_response_app_id_read :: nat
  a_attribute_length :: u16
  a_attribute_read :: u16
  a_state :: app_parser_state
  a_attribute_id :: u8
  a_length_bytes_read :: u8
  a_error_code :: ancs_protocol_error

text \<open>
  The store to \<open>app_name[0]\<close> is inside the array whatever its configured size, so it is a plain
  list update.
\<close>

definition app_parser_fail ::
  "ancs_app_data_parser \<Rightarrow> ancs_protocol_error \<Rightarrow> ancs_app_data_parser \<times> ancs_parser_result" where
  "app_parser_fail p err =
    (p\<lparr>a_state := APP_PARSER_STATE_ERROR, a_error_code := err,
       a_notification := map_option
         (\<lambda>n. n\<lparr>n_app_name := (n_app_name n)[0 := 0], n_app_name_truncated := False\<rparr>)
         (a_notification p)\<rparr>,
     ANCS_PARSER_ERROR)"

definition finish_app_attribute ::
  "ancs_config \<Rightarrow> ancs_app_data_parser \<Rightarrow> (ancs_app_data_parser \<times> ancs_parser_result) option" where
  "finish_app_attribute cfg p =
    (case a_notification p of
       None \<Rightarrow> Some (app_parser_fail p ANCS_PROTOCOL_ERR_ATTRIBUTE)
     | Some n \<Rightarrow>
         if a_attribute_id p \<noteq> 0 then Some (app_parser_fail p ANCS_PROTOCOL_ERR_ATTRIBUTE)
         else do {
           let len = unat (a_attribute_length p);
           let terminator_index = (if len < APP_NAME_MAX cfg then len else APP_NAME_MAX cfg);
           name \<leftarrow> store (n_app_name n) terminator_index 0;
           Some (p\<lparr>a_notification := Some (n\<lparr>n_app_name := name,
                                             n_app_name_truncated := APP_NAME_MAX cfg < len\<rparr>),
                   a_state := APP_PARSER_STATE_COMPLETE, a_error_code := ANCS_PROTOCOL_OK\<rparr>,
                 ANCS_PARSER_COMPLETE)
         })"

definition app_parser_zero :: "ancs_config \<Rightarrow> ancs_app_data_parser" where
  "app_parser_zero cfg = \<lparr>a_notification = None,
     a_response_app_id = replicate (APP_ID_MAX cfg + 1) 0, a_response_app_id_read = 0,
     a_attribute_length = 0, a_attribute_read = 0, a_state = APP_PARSER_STATE_COMMAND,
     a_attribute_id = 0, a_length_bytes_read = 0, a_error_code = ANCS_PROTOCOL_OK\<rparr>"

definition ancs_app_data_parser_init ::
  "ancs_config \<Rightarrow> ancs_app_data_parser option \<Rightarrow> ancs_notification option \<Rightarrow>
   ancs_app_data_parser option" where
  "ancs_app_data_parser_init cfg parser notification =
    (case parser of
       None \<Rightarrow> None
     | Some _ \<Rightarrow>
         let p = (app_parser_zero cfg)\<lparr>a_notification := notification,
                   a_state := APP_PARSER_STATE_COMMAND\<rparr>
         in (case notification of
               None \<Rightarrow> Some (fst (app_parser_fail p ANCS_PROTOCOL_ERR_ARGUMENT))
             | Some n \<Rightarrow>
                 if n_app_id n ! 0 = 0
                 then Some (fst (app_parser_fail p ANCS_PROTOCOL_ERR_ARGUMENT))
                 else Some (p\<lparr>a_notification := Some (n\<lparr>n_app_name := (n_app_name n)[0 := 0],
                                                        n_app_name_truncated := False\<rparr>)\<rparr>)))"

definition app_data_parser_step ::
  "ancs_config \<Rightarrow> ancs_app_data_parser \<Rightarrow> u8 \<Rightarrow> (ancs_app_data_parser \<times> ancs_parser_result) option" where
  "app_data_parser_step cfg p byte =
    (case a_state p of
       APP_PARSER_STATE_COMMAND \<Rightarrow>
         if byte \<noteq> 1 then Some (app_parser_fail p ANCS_PROTOCOL_ERR_COMMAND)
         else Some (p\<lparr>a_state := APP_PARSER_STATE_APP_ID\<rparr>, ANCS_PARSER_MORE)
     | APP_PARSER_STATE_APP_ID \<Rightarrow>
         if byte = 0 then do {
           response \<leftarrow> store (a_response_app_id p) (a_response_app_id_read p) 0;
           n \<leftarrow> a_notification p;
           let p = p\<lparr>a_response_app_id := response\<rparr>;
           if cstr response \<noteq> cstr (n_app_id n)
           then Some (app_parser_fail p ANCS_PROTOCOL_ERR_APP_ID_MISMATCH)
           else Some (p\<lparr>a_state := APP_PARSER_STATE_ATTRIBUTE_ID\<rparr>, ANCS_PARSER_MORE)
         }
         else if a_response_app_id_read p \<ge> APP_ID_MAX cfg
         then Some (app_parser_fail p ANCS_PROTOCOL_ERR_OVERFLOW)
         else do {
           response \<leftarrow> store (a_response_app_id p) (a_response_app_id_read p) byte;
           Some (p\<lparr>a_response_app_id := response,
                   a_response_app_id_read := a_response_app_id_read p + 1\<rparr>, ANCS_PARSER_MORE)
         }
     | APP_PARSER_STATE_ATTRIBUTE_ID \<Rightarrow>
         if byte \<noteq> 0 then Some (app_parser_fail p ANCS_PROTOCOL_ERR_ATTRIBUTE)
         else Some (p\<lparr>a_attribute_id := byte, a_attribute_length := 0, a_attribute_read := 0,
                      a_length_bytes_read := 0, a_state := APP_PARSER_STATE_ATTRIBUTE_LENGTH\<rparr>,
                    ANCS_PARSER_MORE)
     | APP_PARSER_STATE_ATTRIBUTE_LENGTH \<Rightarrow>
         let p = p\<lparr>a_attribute_length := a_attribute_length p OR
                     push_bit (8 * unat (a_length_bytes_read p)) (ucast byte),
                   a_length_bytes_read := a_length_bytes_read p + 1\<rparr>
         in if a_length_bytes_read p = 2
            then (if a_attribute_length p = 0 then finish_app_attribute cfg p
                  else Some (p\<lparr>a_state := APP_PARSER_STATE_ATTRIBUTE_VALUE\<rparr>, ANCS_PARSER_MORE))
            else Some (p, ANCS_PARSER_MORE)
     | APP_PARSER_STATE_ATTRIBUTE_VALUE \<Rightarrow> do {
         n \<leftarrow> a_notification p;
         name \<leftarrow> (if unat (a_attribute_read p) < APP_NAME_MAX cfg
                  then store (n_app_name n) (unat (a_attribute_read p)) byte
                  else Some (n_app_name n));
         let p = p\<lparr>a_notification := Some (n\<lparr>n_app_name := name\<rparr>),
                   a_attribute_read := a_attribute_read p + 1\<rparr>;
         if a_attribute_read p = a_attribute_length p then finish_app_attribute cfg p
         else Some (p, ANCS_PARSER_MORE)
       }
     | _ \<Rightarrow> Some (app_parser_fail p ANCS_PROTOCOL_ERR_SEQUENCE))"

fun app_data_parser_loop ::
  "ancs_config \<Rightarrow> ancs_app_data_parser \<Rightarrow> bytes \<Rightarrow>
   (ancs_app_data_parser \<times> ancs_parser_result) option" where
  "app_data_parser_loop cfg p [] =
     Some (p, if a_state p = APP_PARSER_STATE_COMPLETE
              then ANCS_PARSER_COMPLETE else ANCS_PARSER_MORE)"
| "app_data_parser_loop cfg p (b # bs) =
     (case app_data_parser_step cfg p b of
        None \<Rightarrow> None
      | Some (p', ANCS_PARSER_MORE) \<Rightarrow> app_data_parser_loop cfg p' bs
      | Some (p', ANCS_PARSER_COMPLETE) \<Rightarrow>
          if bs = [] then Some (p', ANCS_PARSER_COMPLETE)
          else Some (app_parser_fail p' ANCS_PROTOCOL_ERR_SEQUENCE)
      | Some (p', ANCS_PARSER_ERROR) \<Rightarrow> Some (p', ANCS_PARSER_ERROR))"

definition app_data_parser_feed ::
  "ancs_config \<Rightarrow> ancs_app_data_parser \<Rightarrow> bytes \<Rightarrow>
   (ancs_app_data_parser \<times> ancs_parser_result) option" where
  "app_data_parser_feed cfg p bs =
    (if a_state p = APP_PARSER_STATE_ERROR then Some (p, ANCS_PARSER_ERROR)
     else if a_state p = APP_PARSER_STATE_COMPLETE then
       (if bs = [] then Some (p, ANCS_PARSER_COMPLETE)
        else Some (app_parser_fail p ANCS_PROTOCOL_ERR_SEQUENCE))
     else app_data_parser_loop cfg p bs)"

definition ancs_app_data_parser_feed ::
  "ancs_config \<Rightarrow> ancs_app_data_parser option \<Rightarrow> bytes option \<Rightarrow> nat \<Rightarrow>
   (ancs_app_data_parser option \<times> ancs_parser_result) option" where
  "ancs_app_data_parser_feed cfg parser bs len =
    (case parser of
       None \<Rightarrow> Some (None, ANCS_PARSER_ERROR)
     | Some p \<Rightarrow>
         if bs = None \<and> len \<noteq> 0
         then Some (map_prod Some id (app_parser_fail p ANCS_PROTOCOL_ERR_ARGUMENT))
         else map_option (map_prod Some id) (app_data_parser_feed cfg p (buf_bytes bs len)))"

section \<open>Fragments\<close>

lemma app_parser_fail_simps [simp]:
  "a_state (fst (app_parser_fail p e)) = APP_PARSER_STATE_ERROR"
  "a_error_code (fst (app_parser_fail p e)) = e"
  "snd (app_parser_fail p e) = ANCS_PARSER_ERROR"
  by (simp_all add: app_parser_fail_def)

lemma app_parser_fail_eqD:
  "app_parser_fail p e = (p', r) \<Longrightarrow> a_state p' = APP_PARSER_STATE_ERROR \<and> r = ANCS_PARSER_ERROR"
  by (auto simp: app_parser_fail_def)

lemma finish_app_attribute_result:
  "finish_app_attribute cfg p = Some (p', r) \<Longrightarrow>
     (r = ANCS_PARSER_COMPLETE \<and> a_state p' = APP_PARSER_STATE_COMPLETE) \<or>
     (r = ANCS_PARSER_ERROR \<and> a_state p' = APP_PARSER_STATE_ERROR)"
  by (auto simp: finish_app_attribute_def Let_def dest!: app_parser_fail_eqD
      split: option.splits if_splits Option.bind_splits)

lemma app_data_parser_step_result:
  assumes "app_data_parser_step cfg p b = Some (p', r)"
  shows "(r = ANCS_PARSER_MORE \<and>
      a_state p' \<notin> {APP_PARSER_STATE_COMPLETE, APP_PARSER_STATE_ERROR}) \<or>
     (r = ANCS_PARSER_COMPLETE \<and> a_state p' = APP_PARSER_STATE_COMPLETE) \<or>
     (r = ANCS_PARSER_ERROR \<and> a_state p' = APP_PARSER_STATE_ERROR)"
  using assms
  by (auto simp: app_data_parser_step_def Let_def
      dest!: app_parser_fail_eqD finish_app_attribute_result
      split: app_parser_state.splits option.splits if_splits Option.bind_splits)

interpretation app_fragments: fragment_parser
  "app_data_parser_step cfg" "\<lambda>p. fst (app_parser_fail p ANCS_PROTOCOL_ERR_SEQUENCE)"
  "\<lambda>p. a_state p = APP_PARSER_STATE_COMPLETE" "\<lambda>p. a_state p = APP_PARSER_STATE_ERROR"
  "app_data_parser_loop cfg" "app_data_parser_feed cfg" for cfg
proof
  have pf: "(fst (app_parser_fail p e), ANCS_PARSER_ERROR) = app_parser_fail p e" for p e
    by (simp add: app_parser_fail_def)
  show "app_data_parser_loop cfg p (b # bs) =
        (case app_data_parser_step cfg p b of
           None \<Rightarrow> None
         | Some (p', ANCS_PARSER_MORE) \<Rightarrow> app_data_parser_loop cfg p' bs
         | Some (p', ANCS_PARSER_COMPLETE) \<Rightarrow>
             if bs = [] then Some (p', ANCS_PARSER_COMPLETE)
             else Some (fst (app_parser_fail p' ANCS_PROTOCOL_ERR_SEQUENCE), ANCS_PARSER_ERROR)
         | Some (p', ANCS_PARSER_ERROR) \<Rightarrow> Some (p', ANCS_PARSER_ERROR))" for p b bs
    by (simp add: pf split: option.split prod.split ancs_parser_result.split)
  show "app_data_parser_feed cfg p bs =
        (if a_state p = APP_PARSER_STATE_ERROR then Some (p, ANCS_PARSER_ERROR)
         else if a_state p = APP_PARSER_STATE_COMPLETE then
           (if bs = [] then Some (p, ANCS_PARSER_COMPLETE)
            else Some (fst (app_parser_fail p ANCS_PROTOCOL_ERR_SEQUENCE), ANCS_PARSER_ERROR))
         else app_data_parser_loop cfg p bs)" for p bs
    by (simp add: app_data_parser_feed_def pf)
qed (auto dest: app_data_parser_step_result)

section \<open>Memory safety\<close>

definition app_parser_ok :: "ancs_config \<Rightarrow> ancs_app_data_parser \<Rightarrow> bool" where
  "app_parser_ok cfg p \<longleftrightarrow>
     (\<exists>n. a_notification p = Some n \<and> notification_ok cfg n) \<and>
     length (a_response_app_id p) = APP_ID_MAX cfg + 1 \<and>
     a_response_app_id_read p \<le> APP_ID_MAX cfg \<and>
     (a_state p = APP_PARSER_STATE_ATTRIBUTE_LENGTH \<longrightarrow> a_length_bytes_read p < 2 \<and> a_attribute_read p = 0) \<and>
     (a_state p = APP_PARSER_STATE_ATTRIBUTE_VALUE \<longrightarrow> a_attribute_read p < a_attribute_length p)"

lemma notification_ok_app_name:
  "notification_ok cfg n \<Longrightarrow> nul_buffer (APP_NAME_MAX cfg) v \<Longrightarrow>
   notification_ok cfg (n\<lparr>n_app_name := v, n_app_name_truncated := t\<rparr>)"
  "notification_ok cfg n \<Longrightarrow> nul_buffer (APP_NAME_MAX cfg) v \<Longrightarrow>
   notification_ok cfg (n\<lparr>n_app_name := v\<rparr>)"
  "notification_ok cfg n \<Longrightarrow> nul_buffer (APP_NAME_MAX cfg) (n_app_name n)"
  by (simp_all add: notification_ok_def)

lemma app_parser_fail_ok: "app_parser_ok cfg p \<Longrightarrow> app_parser_ok cfg (fst (app_parser_fail p e))"
  by (auto simp: app_parser_ok_def app_parser_fail_def
      intro!: notification_ok_app_name nul_buffer_update_zero)

lemma finish_app_attribute_ok:
  assumes "a_notification p = Some n" "notification_ok cfg n"
    "length (a_response_app_id p) = APP_ID_MAX cfg + 1" "a_response_app_id_read p \<le> APP_ID_MAX cfg"
  shows "\<exists>p' r. finish_app_attribute cfg p = Some (p', r) \<and> app_parser_ok cfg p'"
proof -
  have nb: "nul_buffer (APP_NAME_MAX cfg) (n_app_name n)"
    using assms(2) by (simp add: notification_ok_app_name)
  then have "length (n_app_name n) = Suc (APP_NAME_MAX cfg)" by (simp add: nul_buffer_def)
  with assms nb show ?thesis
    by (auto simp: finish_app_attribute_def Let_def app_parser_ok_def app_parser_fail_def
        intro!: notification_ok_app_name nul_buffer_update_zero)
qed

lemma app_data_parser_step_ok:
  assumes ok: "app_parser_ok cfg p"
    and st: "a_state p \<noteq> APP_PARSER_STATE_COMPLETE" "a_state p \<noteq> APP_PARSER_STATE_ERROR"
  shows "\<exists>p' r. app_data_parser_step cfg p b = Some (p', r) \<and> app_parser_ok cfg p'"
proof -
  from ok obtain n where n: "a_notification p = Some n" "notification_ok cfg n"
    by (auto simp: app_parser_ok_def)
  note fail = app_parser_fail_ok [OF ok]
  have f: "\<exists>p' r. app_parser_fail p e = (p', r) \<and> app_parser_ok cfg p'" for e
    using fail [of e] by (cases "app_parser_fail p e") auto
  show ?thesis
  proof (cases "a_state p")
    case APP_PARSER_STATE_COMMAND
    with ok f show ?thesis by (auto simp: app_data_parser_step_def app_parser_ok_def)
  next
    case APP_PARSER_STATE_APP_ID
    have a: "a_response_app_id_read p < length (a_response_app_id p)"
      using ok by (simp add: app_parser_ok_def)
    have "app_parser_ok cfg (p\<lparr>a_response_app_id := (a_response_app_id p)[a_response_app_id_read p := 0]\<rparr>)"
      using ok APP_PARSER_STATE_APP_ID by (simp add: app_parser_ok_def)
    from app_parser_fail_ok [OF this] have m: "\<exists>p' r. app_parser_fail (p\<lparr>a_response_app_id :=
        (a_response_app_id p)[a_response_app_id_read p := 0]\<rparr>) e = (p', r) \<and> app_parser_ok cfg p'" for e
      by (metis prod.collapse)
    show ?thesis
      using ok f m a n APP_PARSER_STATE_APP_ID
      by (auto simp: app_data_parser_step_def app_parser_ok_def Let_def)
  next
    case APP_PARSER_STATE_ATTRIBUTE_ID
    with ok f show ?thesis by (auto simp: app_data_parser_step_def app_parser_ok_def)
  next
    case APP_PARSER_STATE_ATTRIBUTE_LENGTH
    define q where "q = p\<lparr>a_attribute_length := a_attribute_length p OR
                     push_bit (8 * unat (a_length_bytes_read p)) (ucast b),
                   a_length_bytes_read := a_length_bytes_read p + 1\<rparr>"
    have q: "\<exists>p' r. finish_app_attribute cfg q = Some (p', r) \<and> app_parser_ok cfg p'"
      using n ok by (intro finish_app_attribute_ok) (auto simp: q_def app_parser_ok_def)
    have l: "0 < w" if "w \<noteq> 0" for w :: u16
      using that by (simp add: word_neq_0_conv)
    show ?thesis
      using q n ok APP_PARSER_STATE_ATTRIBUTE_LENGTH
      by (auto simp: app_data_parser_step_def Let_def q_def app_parser_ok_def l intro: u8_less_2_suc)
  next
    case APP_PARSER_STATE_ATTRIBUTE_VALUE
    define v where "v = (if unat (a_attribute_read p) < APP_NAME_MAX cfg
        then (n_app_name n)[unat (a_attribute_read p) := b] else n_app_name n)"
    have nb: "nul_buffer (APP_NAME_MAX cfg) (n_app_name n)"
      using n(2) by (simp add: notification_ok_app_name)
    then have s: "(if unat (a_attribute_read p) < APP_NAME_MAX cfg
        then store (n_app_name n) (unat (a_attribute_read p)) b else Some (n_app_name n)) = Some v"
      by (simp add: v_def nul_buffer_def)
    have ok': "notification_ok cfg (n\<lparr>n_app_name := v\<rparr>)"
      using n(2) nb by (simp add: v_def notification_ok_app_name nul_buffer_update)
    define q where "q = p\<lparr>a_notification := Some (n\<lparr>n_app_name := v\<rparr>),
                        a_attribute_read := a_attribute_read p + 1\<rparr>"
    have q: "\<exists>p' r. finish_app_attribute cfg q = Some (p', r) \<and> app_parser_ok cfg p'"
      using n ok' ok
      by (intro finish_app_attribute_ok [of _ "n\<lparr>n_app_name := v\<rparr>"]) (auto simp: q_def app_parser_ok_def)
    show ?thesis
      using q n ok ok' APP_PARSER_STATE_ATTRIBUTE_VALUE s
      by (auto simp: app_data_parser_step_def Let_def q_def app_parser_ok_def intro: u16_less_suc)
  qed (use st in auto)
qed

lemma app_data_parser_feed_ok:
  assumes "app_parser_ok cfg p"
  shows "\<exists>p' r. app_data_parser_feed cfg p bs = Some (p', r) \<and> app_parser_ok cfg p' \<and>
     (r = ANCS_PARSER_COMPLETE \<longleftrightarrow> a_state p' = APP_PARSER_STATE_COMPLETE)"
proof (rule app_fragments.feed_inv [where I = "app_parser_ok cfg"])
  fix p b
  assume "app_parser_ok cfg p" "a_state p \<noteq> APP_PARSER_STATE_COMPLETE"
    "a_state p \<noteq> APP_PARSER_STATE_ERROR"
  then show "\<exists>p' r. app_data_parser_step cfg p b = Some (p', r) \<and> app_parser_ok cfg p'"
    by (rule app_data_parser_step_ok)
qed (use assms in \<open>auto intro: app_parser_fail_ok\<close>)

section \<open>Well-formed responses\<close>

definition app_response :: "bytes \<Rightarrow> bytes \<Rightarrow> bytes" where
  "app_response app name = 1 # app @ 0 # 0 # le16 (of_nat (length name)) @ name"

lemma app_loop_id:
  assumes "a_state p = APP_PARSER_STATE_APP_ID" "0 \<notin> set s"
    "a_response_app_id_read p + length s \<le> APP_ID_MAX cfg"
    "APP_ID_MAX cfg < length (a_response_app_id p)"
  shows "app_data_parser_loop cfg p (s @ rest) = app_data_parser_loop cfg
    (p\<lparr>a_response_app_id := take (a_response_app_id_read p) (a_response_app_id p) @ s @
         drop (a_response_app_id_read p + length s) (a_response_app_id p),
       a_response_app_id_read := a_response_app_id_read p + length s\<rparr>) rest"
  using assms
proof (induction s arbitrary: p)
  case Nil
  then show ?case by simp
next
  case (Cons b s)
  let ?k = "a_response_app_id_read p"
  let ?p = "p\<lparr>a_response_app_id := (a_response_app_id p)[?k := b], a_response_app_id_read := ?k + 1\<rparr>"
  have "app_data_parser_step cfg p b = Some (?p, ANCS_PARSER_MORE)"
    using Cons.prems by (simp add: app_data_parser_step_def)
  moreover have "take (Suc ?k) ((a_response_app_id p)[?k := b]) = take ?k (a_response_app_id p) @ [b]"
    using Cons.prems by (simp add: take_Suc_conv_app_nth)
  ultimately show ?case using Cons.IH [of ?p] Cons.prems by simp
qed

lemma app_loop_last:
  assumes "app_data_parser_step cfg p b = finish_app_attribute cfg q"
  shows "app_data_parser_loop cfg p [b] = finish_app_attribute cfg q"
proof (cases "finish_app_attribute cfg q")
  case (Some x)
  obtain p' r where "x = (p', r)" by (cases x)
  with assms Some finish_app_attribute_result [of cfg q p' r] show ?thesis
    by (cases r) auto
qed (use assms in simp)

lemma app_loop_name:
  assumes "a_state p = APP_PARSER_STATE_ATTRIBUTE_VALUE" "a_notification p = Some n"
    "nul_buffer (APP_NAME_MAX cfg) (n_app_name n)"
    "a_attribute_read p = of_nat k" "a_attribute_length p = of_nat (k + length v)"
    "v \<noteq> []" "k + length v < 65536"
  shows "app_data_parser_loop cfg p v =
    finish_app_attribute cfg (p\<lparr>a_notification := Some (n\<lparr>n_app_name :=
        fill (APP_NAME_MAX cfg) k v (n_app_name n)\<rparr>), a_attribute_read := of_nat (k + length v)\<rparr>)"
  using assms
proof (induction v arbitrary: p n k)
  case Nil
  then show ?case by simp
next
  case (Cons b v)
  let ?c = "APP_NAME_MAX cfg"
  let ?buf = "if k < ?c then (n_app_name n)[k := b] else n_app_name n"
  let ?n = "n\<lparr>n_app_name := ?buf\<rparr>"
  let ?p = "p\<lparr>a_notification := Some ?n, a_attribute_read := of_nat (Suc k)\<rparr>"
  have k: "k < 65536" using Cons.prems(7) by simp
  have len: "(of_nat (Suc k) :: u16) = of_nat (k + length (b # v)) \<longleftrightarrow> v = []"
    using Cons.prems(7) by (subst u16_of_nat_eq) auto
  have st: "k < ?c \<Longrightarrow> store (n_app_name n) k b = Some ((n_app_name n)[k := b])"
    using Cons.prems(3) by (simp add: nul_buffer_def)
  have step: "app_data_parser_step cfg p b =
      (if v = [] then finish_app_attribute cfg ?p else Some (?p, ANCS_PARSER_MORE))"
    using Cons.prems len st k
    by (simp add: app_data_parser_step_def Let_def unat_of_nat_u16 add.commute)
  show ?case
  proof (cases "v = []")
    case True
    then have "app_data_parser_loop cfg p (b # v) = finish_app_attribute cfg ?p"
      using step app_loop_last [of cfg p b ?p] by simp
    with True show ?thesis by (simp add: add.commute)
  next
    case False
    have "app_data_parser_loop cfg ?p v =
      finish_app_attribute cfg (?p\<lparr>a_notification := Some (?n\<lparr>n_app_name :=
        fill ?c (Suc k) v (n_app_name ?n)\<rparr>), a_attribute_read := of_nat (Suc k + length v)\<rparr>)"
      by (rule Cons.IH) (use Cons.prems False in \<open>auto simp: nul_buffer_update\<close>)
    with step False show ?thesis by simp
  qed
qed

lemma finish_app_name:
  assumes "a_notification q = Some m" "a_attribute_id q = 0" "nul_buffer (APP_NAME_MAX cfg) (n_app_name m)"
    "a_attribute_length q = of_nat len" "len < 65536"
  shows "finish_app_attribute cfg q =
    Some (q\<lparr>a_notification := Some (m\<lparr>n_app_name := (n_app_name m)[min len (APP_NAME_MAX cfg) := 0],
                n_app_name_truncated := APP_NAME_MAX cfg < len\<rparr>),
            a_state := APP_PARSER_STATE_COMPLETE, a_error_code := ANCS_PROTOCOL_OK\<rparr>, ANCS_PARSER_COMPLETE)"
proof -
  have "(if len < APP_NAME_MAX cfg then len else APP_NAME_MAX cfg) = min len (APP_NAME_MAX cfg)"
    by (simp add: min_def)
  then show ?thesis
    using assms by (simp add: finish_app_attribute_def Let_def unat_of_nat_u16 nul_buffer_def)
qed

lemma app_loop_after_id:
  assumes "a_state q = APP_PARSER_STATE_ATTRIBUTE_ID" "a_notification q = Some n"
    "nul_buffer (APP_NAME_MAX cfg) (n_app_name n)" "length name < 65536"
  shows "\<exists>q'. app_data_parser_loop cfg q (0 # le16 (of_nat (length name)) @ name) =
      Some (q', ANCS_PARSER_COMPLETE) \<and>
    a_notification q' = Some (n\<lparr>
        n_app_name := (fill (APP_NAME_MAX cfg) 0 name (n_app_name n))
                        [min (length name) (APP_NAME_MAX cfg) := 0],
        n_app_name_truncated := APP_NAME_MAX cfg < length name\<rparr>)"
proof -
  let ?w = "of_nat (length name) :: u16"
  let ?p1 = "q\<lparr>a_attribute_id := 0, a_attribute_length := 0, a_attribute_read := 0,
               a_length_bytes_read := 0, a_state := APP_PARSER_STATE_ATTRIBUTE_LENGTH\<rparr>"
  have s1: "app_data_parser_step cfg q 0 = Some (?p1, ANCS_PARSER_MORE)"
    using assms by (simp add: app_data_parser_step_def)
  let ?p2 = "?p1\<lparr>a_attribute_length := ucast (ucast ?w :: u8), a_length_bytes_read := 1\<rparr>"
  have s2: "app_data_parser_step cfg ?p1 (ucast ?w) = Some (?p2, ANCS_PARSER_MORE)"
    by (simp add: app_data_parser_step_def Let_def)
  let ?p3 = "?p2\<lparr>a_attribute_length := ?w, a_length_bytes_read := 2\<rparr>"
  have w: "ucast (ucast ?w :: u8) OR push_bit 8 (ucast (ucast (drop_bit 8 ?w) :: u8)) = ?w"
    using rd_le16_le16 [of ?w] by (simp add: rd_le16_def)
  have s3: "app_data_parser_step cfg ?p2 (ucast (drop_bit 8 ?w)) =
     (if name = [] then finish_app_attribute cfg ?p3
      else Some (?p3\<lparr>a_state := APP_PARSER_STATE_ATTRIBUTE_VALUE\<rparr>, ANCS_PARSER_MORE))"
    using w assms(4) u16_of_nat_eq [of "length name" 0] by (simp add: app_data_parser_step_def Let_def)
  show ?thesis
  proof (cases "name = []")
    case True
    then have l: "app_data_parser_loop cfg ?p2 [ucast (drop_bit 8 ?w)] = finish_app_attribute cfg ?p3"
      using s3 by (intro app_loop_last) simp
    have f: "finish_app_attribute cfg ?p3 = Some (?p3\<lparr>a_notification := Some (n\<lparr>
        n_app_name := (n_app_name n)[min 0 (APP_NAME_MAX cfg) := 0],
        n_app_name_truncated := APP_NAME_MAX cfg < 0\<rparr>),
        a_state := APP_PARSER_STATE_COMPLETE, a_error_code := ANCS_PROTOCOL_OK\<rparr>, ANCS_PARSER_COMPLETE)"
      by (rule finish_app_name) (use assms True in auto)
    show ?thesis using True s1 s2 l f by (simp add: le16_def)
  next
    case False
    let ?p4 = "?p3\<lparr>a_state := APP_PARSER_STATE_ATTRIBUTE_VALUE\<rparr>"
    have l: "app_data_parser_loop cfg ?p4 name =
      finish_app_attribute cfg (?p4\<lparr>a_notification := Some (n\<lparr>n_app_name :=
        fill (APP_NAME_MAX cfg) 0 name (n_app_name n)\<rparr>), a_attribute_read := of_nat (0 + length name)\<rparr>)"
      (is "_ = finish_app_attribute cfg ?q")
      by (rule app_loop_name) (use assms False in auto)
    have f: "finish_app_attribute cfg ?q = Some (?q\<lparr>a_notification := Some (n\<lparr>
        n_app_name := (fill (APP_NAME_MAX cfg) 0 name (n_app_name n))
                        [min (length name) (APP_NAME_MAX cfg) := 0],
        n_app_name_truncated := APP_NAME_MAX cfg < length name\<rparr>),
        a_state := APP_PARSER_STATE_COMPLETE, a_error_code := ANCS_PROTOCOL_OK\<rparr>, ANCS_PARSER_COMPLETE)"
      using finish_app_name [of ?q "n\<lparr>n_app_name := fill (APP_NAME_MAX cfg) 0 name (n_app_name n)\<rparr>" cfg
          "length name"] assms(3,4) by (simp add: nul_buffer_fill)
    show ?thesis using False s1 s2 s3 l f by (simp add: le16_def)
  qed
qed

lemma app_loop_header:
  assumes "a_state p = APP_PARSER_STATE_COMMAND" "a_response_app_id_read p = 0"
    "length (a_response_app_id p) = APP_ID_MAX cfg + 1" "a_notification p = Some n"
    "0 \<notin> set app" "length app \<le> APP_ID_MAX cfg"
  shows "\<exists>q. a_state q = APP_PARSER_STATE_ATTRIBUTE_ID \<and> a_notification q = Some n \<and>
    app_data_parser_loop cfg p (1 # app @ 0 # rest) =
      (if app = cstr (n_app_id n) then app_data_parser_loop cfg q rest
       else Some (app_parser_fail q ANCS_PROTOCOL_ERR_APP_ID_MISMATCH))"
proof -
  let ?p1 = "p\<lparr>a_state := APP_PARSER_STATE_APP_ID\<rparr>"
  have s1: "app_data_parser_step cfg p 1 = Some (?p1, ANCS_PARSER_MORE)"
    using assms by (simp add: app_data_parser_step_def)
  let ?r = "app @ drop (length app) (a_response_app_id p)"
  let ?p2 = "?p1\<lparr>a_response_app_id := ?r, a_response_app_id_read := length app\<rparr>"
  have l: "app_data_parser_loop cfg ?p1 (app @ 0 # rest) = app_data_parser_loop cfg ?p2 (0 # rest)"
    using app_loop_id [of ?p1 app cfg "0 # rest"] assms by simp
  let ?p3 = "?p2\<lparr>a_response_app_id := ?r[length app := 0], a_state := APP_PARSER_STATE_ATTRIBUTE_ID\<rparr>"
  have len: "length app < length ?r" using assms by simp
  obtain x xs where x: "drop (length app) (a_response_app_id p) = x # xs"
    using assms by (cases "drop (length app) (a_response_app_id p)") auto
  have c: "cstr (?r[length app := 0]) = app" using assms(5) by (simp add: x)
  have f: "app_parser_fail (?p2\<lparr>a_response_app_id := ?r[length app := 0]\<rparr>) e = app_parser_fail ?p3 e" for e
    by (simp add: app_parser_fail_def)
  have s3: "app_data_parser_step cfg ?p2 0 =
      (if app = cstr (n_app_id n) then Some (?p3, ANCS_PARSER_MORE)
       else Some (app_parser_fail ?p3 ANCS_PROTOCOL_ERR_APP_ID_MISMATCH))"
    using assms len c f by (simp add: app_data_parser_step_def)
  show ?thesis
    using s1 l s3 assms(4)
    by (intro exI [of _ ?p3]) (simp add: app_parser_fail_def)
qed

lemma app_parser_started:
  assumes "notification_ok cfg n" "cstr (n_app_id n) \<noteq> []"
    "ancs_app_data_parser_init cfg (Some p0) (Some n) = Some p"
  shows "p = (app_parser_zero cfg)\<lparr>a_notification := Some (n\<lparr>n_app_name := (n_app_name n)[0 := 0],
             n_app_name_truncated := False\<rparr>), a_state := APP_PARSER_STATE_COMMAND\<rparr>"
proof -
  have "n_app_id n \<noteq> []" using assms(1) by (auto simp: notification_ok_def nul_buffer_def)
  then have "n_app_id n ! 0 \<noteq> 0" using assms(2) by (cases "n_app_id n") auto
  then show ?thesis using assms(3)
    by (auto simp: ancs_app_data_parser_init_def Let_def app_parser_zero_def)
qed

lemma app_parser_init_ok:
  assumes "notification_ok cfg n" "cstr (n_app_id n) \<noteq> []"
    "ancs_app_data_parser_init cfg (Some p0) (Some n) = Some p"
  shows "app_parser_ok cfg p"
  unfolding app_parser_started [OF assms]
  using assms(1) by (auto simp: app_parser_ok_def app_parser_zero_def
      intro!: notification_ok_app_name nul_buffer_update_zero)

lemma app_response_from_start:
  assumes "notification_ok cfg n" "cstr (n_app_id n) \<noteq> []"
    "ancs_app_data_parser_init cfg (Some p0) (Some n) = Some p"
    "0 \<notin> set app" "length app \<le> APP_ID_MAX cfg"
  shows "\<exists>q. a_state q = APP_PARSER_STATE_ATTRIBUTE_ID \<and>
    a_notification q = Some (n\<lparr>n_app_name := (n_app_name n)[0 := 0], n_app_name_truncated := False\<rparr>) \<and>
    app_data_parser_feed cfg p (1 # app @ 0 # rest) =
      (if app = cstr (n_app_id n) then app_data_parser_loop cfg q rest
       else Some (app_parser_fail q ANCS_PROTOCOL_ERR_APP_ID_MISMATCH))"
proof -
  have "a_state p = APP_PARSER_STATE_COMMAND" by (simp add: app_parser_started [OF assms(1-3)])
  then show ?thesis
    using app_loop_header [of p cfg "n\<lparr>n_app_name := (n_app_name n)[0 := 0], n_app_name_truncated := False\<rparr>"
        app rest] assms(4,5)
    by (simp add: app_data_parser_feed_def app_parser_started [OF assms(1-3)] app_parser_zero_def)
qed

text \<open>
  C11: a response about the application of the notification, cut into fragments anywhere, is
  parsed completely: the display name is the one of the response up to the capacity of its buffer
  (and up to a NUL inside it), it is marked truncated exactly when it was cut, and nothing else of
  the notification changes.
\<close>

theorem app_data_parser_roundtrip:
  assumes "notification_ok cfg n" "cstr (n_app_id n) \<noteq> []"
    "ancs_app_data_parser_init cfg (Some p0) (Some n) = Some p"
    and "length name < 65536"
    and cut: "concat (f0 # fs) = app_response (cstr (n_app_id n)) name"
  shows "\<exists>p' buf. foldl (\<lambda>s f. case s of None \<Rightarrow> None | Some (p, _) \<Rightarrow> app_data_parser_feed cfg p f)
        (app_data_parser_feed cfg p f0) fs = Some (p', ANCS_PARSER_COMPLETE)
    \<and> a_notification p' = Some (n\<lparr>n_app_name := buf, n_app_name_truncated := APP_NAME_MAX cfg < length name\<rparr>)
    \<and> cstr buf = cstr (take (APP_NAME_MAX cfg) name) \<and> nul_buffer (APP_NAME_MAX cfg) buf"
proof -
  let ?c = "APP_NAME_MAX cfg" and ?buf = "(n_app_name n)[0 := 0]"
  have idok: "length (cstr (n_app_id n)) \<le> APP_ID_MAX cfg"
    using assms(1) length_cstr_less [of "n_app_id n"] nul_buffer_terminated [of "APP_ID_MAX cfg"]
    by (auto simp: notification_ok_def nul_buffer_def)
  have nb: "nul_buffer ?c ?buf"
    using assms(1) by (simp add: notification_ok_def nul_buffer_update_zero)
  obtain q where q: "a_state q = APP_PARSER_STATE_ATTRIBUTE_ID"
      "a_notification q = Some (n\<lparr>n_app_name := ?buf, n_app_name_truncated := False\<rparr>)"
    and feed: "app_data_parser_feed cfg p (concat (f0 # fs)) =
      app_data_parser_loop cfg q (0 # le16 (of_nat (length name)) @ name)"
    using app_response_from_start [OF assms(1-3) cstr_no_nul idok] unfolding cut app_response_def
    by (metis (no_types))
  obtain q' where "app_data_parser_loop cfg q (0 # le16 (of_nat (length name)) @ name) =
      Some (q', ANCS_PARSER_COMPLETE)"
    "a_notification q' = Some (n\<lparr>n_app_name := (fill ?c 0 name ?buf)[min (length name) ?c := 0],
        n_app_name_truncated := ?c < length name\<rparr>)"
    using app_loop_after_id [OF q(1,2), of cfg name] assms(4) nb by auto
  then show ?thesis
    using app_fragments.feed_fragments [of cfg p f0 fs] feed cstr_fill [OF nb] nb
    by (auto simp: nul_buffer_fill nul_buffer_update_zero)
qed

theorem app_data_parser_roundtrip_witness:
  "\<exists>p' buf. app_data_parser_feed default_config
      (the (ancs_app_data_parser_init default_config (Some (app_parser_zero default_config))
        (Some ((notification_zero default_config)\<lparr>n_app_id := 97 # 0 # replicate 255 0\<rparr>))))
      (app_response [97] [72, 105]) = Some (p', ANCS_PARSER_COMPLETE)
    \<and> map_option n_app_name (a_notification p') = Some buf \<and> cstr buf = [72, 105]"
proof -
  let ?n = "(notification_zero default_config)\<lparr>n_app_id := 97 # 0 # replicate 255 0\<rparr>"
  let ?p = "ancs_app_data_parser_init default_config (Some (app_parser_zero default_config)) (Some ?n)"
  have ok: "notification_ok default_config ?n"
    by (simp add: notification_ok_def nul_buffer_def notification_zero_def default_config_def nth_Cons')
  have id: "cstr (n_app_id ?n) = [97]" by simp
  have p: "?p = Some (the ?p)" by (simp add: ancs_app_data_parser_init_def Let_def)
  show ?thesis
    using app_data_parser_roundtrip [OF ok _ p, of "[72, 105]" "app_response [97] [72, 105]" "[]"] id
    by (auto simp: default_config_def)
qed

text \<open>
  A response about another application is refused as soon as its identifier ends, however it
  is cut into fragments and whatever follows: the parser is in its error state, says so, and the
  notification keeps no display name.
\<close>

theorem app_data_parser_rejects_other_app:
  assumes "notification_ok cfg n" "cstr (n_app_id n) \<noteq> []"
    "ancs_app_data_parser_init cfg (Some p0) (Some n) = Some p"
    and "0 \<notin> set app" "length app \<le> APP_ID_MAX cfg" "app \<noteq> cstr (n_app_id n)"
    and cut: "concat (f0 # fs) = 1 # app @ 0 # rest"
  shows "\<exists>p' n'. foldl (\<lambda>s f. case s of None \<Rightarrow> None | Some (p, _) \<Rightarrow> app_data_parser_feed cfg p f)
        (app_data_parser_feed cfg p f0) fs = Some (p', ANCS_PARSER_ERROR)
    \<and> a_state p' = APP_PARSER_STATE_ERROR \<and> a_error_code p' = ANCS_PROTOCOL_ERR_APP_ID_MISMATCH
    \<and> a_notification p' = Some n' \<and> cstr (n_app_name n') = []"
proof -
  obtain q where q: "a_notification q = Some (n\<lparr>n_app_name := (n_app_name n)[0 := 0], n_app_name_truncated := False\<rparr>)"
    and feed: "app_data_parser_feed cfg p (concat (f0 # fs)) =
      Some (app_parser_fail q ANCS_PROTOCOL_ERR_APP_ID_MISMATCH)"
    using app_response_from_start [OF assms(1-5)] assms(6) unfolding cut by (metis (no_types))
  have "cstr ((n_app_name n)[0 := 0]) = []" by (cases "n_app_name n") auto
  then show ?thesis
    using app_fragments.feed_fragments [of cfg p f0 fs] feed q by (auto simp: app_parser_fail_def)
qed

theorem app_data_parser_rejects_other_app_witness:
  "\<exists>p'. app_data_parser_feed default_config
      (the (ancs_app_data_parser_init default_config (Some (app_parser_zero default_config))
        (Some ((notification_zero default_config)\<lparr>n_app_id := 97 # 0 # replicate 255 0\<rparr>))))
      (app_response [98] [72, 105]) = Some (p', ANCS_PARSER_ERROR)
    \<and> a_error_code p' = ANCS_PROTOCOL_ERR_APP_ID_MISMATCH"
proof -
  let ?n = "(notification_zero default_config)\<lparr>n_app_id := 97 # 0 # replicate 255 0\<rparr>"
  let ?p = "ancs_app_data_parser_init default_config (Some (app_parser_zero default_config)) (Some ?n)"
  have ok: "notification_ok default_config ?n"
    by (simp add: notification_ok_def nul_buffer_def notification_zero_def default_config_def nth_Cons')
  have id: "cstr (n_app_id ?n) = [97]" by simp
  have p: "?p = Some (the ?p)" by (simp add: ancs_app_data_parser_init_def Let_def)
  show ?thesis
    using app_data_parser_rejects_other_app [OF ok _ p, of "[98]" "app_response [98] [72, 105]" "[]"] id
    by (auto simp: default_config_def app_response_def)
qed

end
