(* ===== verification/Request_Queue.thy ===== *)
theory Request_Queue
  imports Ancs_Protocol
begin

text \<open>
  The ring buffer of notification events that wait for their attributes,
  \<open>ancs_request_queue_t\<close> of \<^verbatim>\<open>components/ancs_protocol/ancs_protocol.c\<close>: it refines a bounded list
  under any sequence of pushes and pops; canceling the events of a notification is exact while the
  queue does not wrap around its array and is shown to lose events when it does.
\<close>

section \<open>State and operations\<close>

record ancs_request_queue =
  q_items :: "ancs_notification_event list"
  q_head :: nat
  q_count :: nat

definition zero_event :: ancs_notification_event where
  "zero_event = \<lparr>ev_event_id = 0, ev_event_flags = 0, ev_category_id = 0, ev_category_count = 0,
     ev_uid = 0\<rparr>"

definition queue_zero :: "ancs_config \<Rightarrow> ancs_request_queue" where
  "queue_zero cfg = \<lparr>q_items = replicate (REQUEST_QUEUE_CAPACITY cfg) zero_event, q_head = 0, q_count = 0\<rparr>"

definition ancs_request_queue_init ::
  "ancs_config \<Rightarrow> ancs_request_queue option \<Rightarrow> ancs_request_queue option" where
  "ancs_request_queue_init cfg queue = map_option (\<lambda>_. queue_zero cfg) queue"

definition ancs_request_queue_clear ::
  "ancs_config \<Rightarrow> ancs_request_queue option \<Rightarrow> ancs_request_queue option" where
  "ancs_request_queue_clear cfg queue = ancs_request_queue_init cfg queue"

text \<open>An operation is \<open>None\<close> when it would leave the array.\<close>

definition ancs_request_queue_push ::
  "ancs_config \<Rightarrow> ancs_request_queue option \<Rightarrow> ancs_notification_event option \<Rightarrow>
   (ancs_request_queue option \<times> bool) option" where
  "ancs_request_queue_push cfg queue event =
    (case (queue, event) of
       (Some q, Some e) \<Rightarrow>
         if q_count q \<ge> REQUEST_QUEUE_CAPACITY cfg then Some (queue, False)
         else do {
           let tail = (q_head q + q_count q) mod REQUEST_QUEUE_CAPACITY cfg;
           items \<leftarrow> store (q_items q) tail e;
           Some (Some (q\<lparr>q_items := items, q_count := q_count q + 1\<rparr>), True)
         }
     | _ \<Rightarrow> Some (queue, False))"

text \<open>The event argument is the object the caller passes for the result.\<close>

definition ancs_request_queue_pop ::
  "ancs_config \<Rightarrow> ancs_request_queue option \<Rightarrow> ancs_notification_event option \<Rightarrow>
   (ancs_request_queue option \<times> ancs_notification_event option \<times> bool) option" where
  "ancs_request_queue_pop cfg queue event =
    (case (queue, event) of
       (Some q, Some _) \<Rightarrow>
         if q_count q = 0 then Some (queue, event, False)
         else do {
           e \<leftarrow> load (q_items q) (q_head q);
           Some (Some (q\<lparr>q_head := (q_head q + 1) mod REQUEST_QUEUE_CAPACITY cfg,
                        q_count := q_count q - 1\<rparr>), Some e, True)
         }
     | _ \<Rightarrow> Some (queue, event, False))"

text \<open>The loop of the cancellation: items are moved down in place, in the array that is read.\<close>

fun cancel_loop ::
  "ancs_config \<Rightarrow> u32 \<Rightarrow> nat \<Rightarrow> nat list \<Rightarrow> ancs_notification_event list \<Rightarrow> nat \<Rightarrow> bool \<Rightarrow>
   (ancs_notification_event list \<times> nat \<times> bool) option" where
  "cancel_loop cfg uid head [] items write_count removed = Some (items, write_count, removed)"
| "cancel_loop cfg uid head (index # indices) items write_count removed = do {
     e \<leftarrow> load items ((head + index) mod REQUEST_QUEUE_CAPACITY cfg);
     if ev_uid e = uid then cancel_loop cfg uid head indices items write_count True
     else do {
       items' \<leftarrow> store items write_count e;
       cancel_loop cfg uid head indices items' (write_count + 1) removed
     }
   }"

definition ancs_request_queue_cancel_uid ::
  "ancs_config \<Rightarrow> ancs_request_queue option \<Rightarrow> u32 \<Rightarrow> (ancs_request_queue option \<times> bool) option" where
  "ancs_request_queue_cancel_uid cfg queue uid =
    (case queue of
       None \<Rightarrow> Some (None, False)
     | Some q \<Rightarrow>
         if q_count q = 0 then Some (queue, False)
         else do {
           (items, write_count, removed) \<leftarrow>
             cancel_loop cfg uid (q_head q) [0..<q_count q] (q_items q) 0 False;
           Some (Some (q\<lparr>q_items := items, q_head := 0, q_count := write_count\<rparr>), removed)
         })"

section \<open>The abstract queue\<close>

definition queue_ok :: "ancs_config \<Rightarrow> ancs_request_queue \<Rightarrow> bool" where
  "queue_ok cfg q \<longleftrightarrow> 0 < REQUEST_QUEUE_CAPACITY cfg \<and>
     length (q_items q) = REQUEST_QUEUE_CAPACITY cfg \<and> q_head q < REQUEST_QUEUE_CAPACITY cfg \<and>
     q_count q \<le> REQUEST_QUEUE_CAPACITY cfg"

definition queue_contents :: "ancs_config \<Rightarrow> ancs_request_queue \<Rightarrow> ancs_notification_event list" where
  "queue_contents cfg q =
     map (\<lambda>i. q_items q ! ((q_head q + i) mod REQUEST_QUEUE_CAPACITY cfg)) [0..<q_count q]"

text \<open>The operations on a queue that exists, with their results in one value.\<close>

definition push_event :: "ancs_config \<Rightarrow> ancs_request_queue \<Rightarrow> ancs_notification_event \<Rightarrow>
    ancs_request_queue \<times> bool" where
  "push_event cfg q e =
    (case ancs_request_queue_push cfg (Some q) (Some e) of
       Some (Some q', pushed) \<Rightarrow> (q', pushed) | _ \<Rightarrow> (q, False))"

definition pop_event :: "ancs_config \<Rightarrow> ancs_request_queue \<Rightarrow>
    ancs_request_queue \<times> ancs_notification_event option" where
  "pop_event cfg q =
    (case ancs_request_queue_pop cfg (Some q) (Some zero_event) of
       Some (Some q', e, popped) \<Rightarrow> (q', if popped then e else None) | _ \<Rightarrow> (q, None))"

lemma queue_zero_ok [simp]:
  "0 < REQUEST_QUEUE_CAPACITY cfg \<Longrightarrow> queue_ok cfg (queue_zero cfg)"
  "queue_contents cfg (queue_zero cfg) = []"
  by (simp_all add: queue_ok_def queue_contents_def queue_zero_def)

lemma push_event_eq:
  assumes "queue_ok cfg q"
  shows "push_event cfg q e =
    (if q_count q < REQUEST_QUEUE_CAPACITY cfg
     then (q\<lparr>q_items := (q_items q)[(q_head q + q_count q) mod REQUEST_QUEUE_CAPACITY cfg := e],
             q_count := q_count q + 1\<rparr>, True)
     else (q, False))"
  using assms by (simp add: push_event_def ancs_request_queue_push_def queue_ok_def Let_def)

lemma pop_event_eq:
  assumes "queue_ok cfg q"
  shows "pop_event cfg q =
    (if q_count q = 0 then (q, None)
     else (q\<lparr>q_head := (q_head q + 1) mod REQUEST_QUEUE_CAPACITY cfg, q_count := q_count q - 1\<rparr>,
           Some (q_items q ! q_head q)))"
  using assms by (simp add: pop_event_def ancs_request_queue_pop_def queue_ok_def Let_def)

lemma mod_add_inj:
  assumes "(h + i) mod c = (h + j) mod c" "i < c" "j < (c :: nat)"
  shows "i = j"
proof -
  have "i mod c = j mod c"
    using assms(1) unfolding nat_mod_eq_iff by (simp add: add.assoc)
  with assms(2,3) show ?thesis by simp
qed

lemma queue_ok_push: "queue_ok cfg q \<Longrightarrow> queue_ok cfg (fst (push_event cfg q e))"
  by (auto simp: push_event_eq queue_ok_def)

lemma queue_ok_pop: "queue_ok cfg q \<Longrightarrow> queue_ok cfg (fst (pop_event cfg q))"
  by (auto simp: pop_event_eq queue_ok_def)

lemma queue_contents_push:
  assumes ok: "queue_ok cfg q"
  shows "queue_contents cfg (fst (push_event cfg q e)) =
    (if q_count q < REQUEST_QUEUE_CAPACITY cfg then queue_contents cfg q @ [e] else queue_contents cfg q)"
proof (cases "q_count q < REQUEST_QUEUE_CAPACITY cfg")
  case True
  let ?c = "REQUEST_QUEUE_CAPACITY cfg"
  have "(q_items q)[(q_head q + q_count q) mod ?c := e] ! ((q_head q + i) mod ?c) =
      q_items q ! ((q_head q + i) mod ?c)" if "i < q_count q" for i
    using that True mod_add_inj [of "q_head q" "q_count q" ?c i] by (intro nth_list_update_neq) auto
  with ok True show ?thesis
    by (simp add: push_event_eq queue_contents_def queue_ok_def)
qed (use ok in \<open>simp add: push_event_eq\<close>)

lemma queue_contents_pop:
  assumes ok: "queue_ok cfg q" and n: "q_count q = Suc n"
  shows "queue_contents cfg q = q_items q ! q_head q # queue_contents cfg (fst (pop_event cfg q))"
proof -
  have "map (\<lambda>i. q_items q ! ((q_head q + i) mod REQUEST_QUEUE_CAPACITY cfg)) [0..<Suc n] =
    q_items q ! q_head q # map (\<lambda>i. q_items q ! ((q_head q + Suc i) mod REQUEST_QUEUE_CAPACITY cfg)) [0..<n]"
    using ok by (simp add: map_upt_Suc queue_ok_def del: upt_Suc)
  then show ?thesis
    using ok n by (simp add: queue_contents_def pop_event_eq mod_add_left_eq del: upt_Suc)
qed

text \<open>The ring buffer is a bounded first-in first-out queue of its contents.\<close>

interpretation requests: bounded_fifo
  "REQUEST_QUEUE_CAPACITY cfg" "queue_contents cfg" "queue_ok cfg" "push_event cfg" "pop_event cfg" for cfg
proof
  show "length (queue_contents cfg q) \<le> REQUEST_QUEUE_CAPACITY cfg" if "queue_ok cfg q" for q
    using that by (simp add: queue_contents_def queue_ok_def)
  show "queue_ok cfg (fst (push_event cfg q x))" if "queue_ok cfg q" for q x
    using that by (rule queue_ok_push)
  show "queue_ok cfg (fst (pop_event cfg q))" if "queue_ok cfg q" for q
    using that by (rule queue_ok_pop)
  show "snd (push_event cfg q x) \<longleftrightarrow> length (queue_contents cfg q) < REQUEST_QUEUE_CAPACITY cfg"
    if "queue_ok cfg q" for q x
    using that by (simp add: push_event_eq queue_contents_def)
  show "queue_contents cfg (fst (push_event cfg q x)) =
      (if snd (push_event cfg q x) then queue_contents cfg q @ [x] else queue_contents cfg q)"
    if "queue_ok cfg q" for q x
    using that queue_contents_push [OF that] by (simp add: push_event_eq)
  show "pop_event cfg q = (q, None)" if "queue_ok cfg q" "queue_contents cfg q = []" for q
    using that by (simp add: pop_event_eq queue_contents_def)
  show "snd (pop_event cfg q) = Some x \<and> queue_contents cfg (fst (pop_event cfg q)) = xs"
    if "queue_ok cfg q" "queue_contents cfg q = x # xs" for q x xs
  proof -
    have "q_count q \<noteq> 0" using that(2) by (cases "q_count q = 0") (auto simp: queue_contents_def)
    then obtain n where "q_count q = Suc n" by (cases "q_count q") auto
    from queue_contents_pop [OF that(1) this] that this show ?thesis by (simp add: pop_event_eq)
  qed
qed

section \<open>Refinement\<close>

text \<open>
  Operations of the client, their run on the ring buffer with the answers they give, and the run
  of the same operations on a bounded list.
\<close>

datatype queue_op = Push ancs_notification_event | Pop

datatype queue_answer = Pushed bool | Popped "ancs_notification_event option"

fun queue_run :: "ancs_config \<Rightarrow> ancs_request_queue \<Rightarrow> queue_op list \<Rightarrow>
    ancs_request_queue \<times> queue_answer list" where
  "queue_run cfg q [] = (q, [])"
| "queue_run cfg q (Push e # ops) =
    (let (q', pushed) = push_event cfg q e; (q'', answers) = queue_run cfg q' ops
     in (q'', Pushed pushed # answers))"
| "queue_run cfg q (Pop # ops) =
    (let (q', popped) = pop_event cfg q; (q'', answers) = queue_run cfg q' ops
     in (q'', Popped popped # answers))"

fun list_run :: "nat \<Rightarrow> ancs_notification_event list \<Rightarrow> queue_op list \<Rightarrow>
    ancs_notification_event list \<times> queue_answer list" where
  "list_run cap xs [] = (xs, [])"
| "list_run cap xs (Push e # ops) =
    (if length xs < cap then map_prod id (Cons (Pushed True)) (list_run cap (xs @ [e]) ops)
     else map_prod id (Cons (Pushed False)) (list_run cap xs ops))"
| "list_run cap xs (Pop # ops) =
    (case xs of [] \<Rightarrow> map_prod id (Cons (Popped None)) (list_run cap [] ops)
     | x # xs' \<Rightarrow> map_prod id (Cons (Popped (Some x))) (list_run cap xs' ops))"

lemma queue_run_refines:
  assumes "queue_ok cfg q"
  shows "queue_ok cfg (fst (queue_run cfg q ops)) \<and>
    list_run (REQUEST_QUEUE_CAPACITY cfg) (queue_contents cfg q) ops =
      map_prod (queue_contents cfg) id (queue_run cfg q ops)"
  using assms
proof (induction ops arbitrary: q)
  case Nil
  then show ?case by simp
next
  case (Cons op ops)
  show ?case
  proof (cases op)
    case (Push e)
    obtain q' b where p: "push_event cfg q e = (q', b)" by (cases "push_event cfg q e")
    have ok': "queue_ok cfg q'" using requests.ok_push [OF Cons.prems, of e] p by simp
    show ?thesis
      using Cons.IH [OF ok'] Push p requests.push_accepted [OF Cons.prems, of e]
        requests.push_contents [OF Cons.prems, of e]
      by (auto simp: Let_def split: prod.splits)
  next
    case Pop
    obtain q' b where p: "pop_event cfg q = (q', b)" by (cases "pop_event cfg q")
    have ok': "queue_ok cfg q'" using requests.ok_pop [OF Cons.prems] p by simp
    show ?thesis
      using Cons.IH [OF ok'] Pop p requests.pop_empty [OF Cons.prems]
        requests.pop_nonempty [OF Cons.prems]
      by (cases "queue_contents cfg q") (auto simp: Let_def split: prod.splits)
  qed
qed

text \<open>
  C33: the request queue is a bounded queue. Any sequence of pushes and pops on a fresh queue gives
  the answers of a list that takes events at its end while it is shorter than the capacity and
  gives them back from its front; it never leaves its array, and holds what the list holds.
\<close>

theorem request_queue_refines_list:
  assumes "0 < REQUEST_QUEUE_CAPACITY cfg"
  shows "map_prod (queue_contents cfg) id (queue_run cfg (queue_zero cfg) ops) =
    list_run (REQUEST_QUEUE_CAPACITY cfg) [] ops"
  using queue_run_refines [OF queue_zero_ok(1) [OF assms], of ops] by simp

theorem request_queue_refines_list_witness:
  "snd (queue_run default_config (queue_zero default_config) [Push zero_event, Pop, Pop]) =
     [Pushed True, Popped (Some zero_event), Popped None]"
proof -
  have "0 < REQUEST_QUEUE_CAPACITY default_config" by (simp add: default_config_def)
  from request_queue_refines_list [OF this, of "[Push zero_event, Pop, Pop]"]
  show ?thesis by (cases "queue_run default_config (queue_zero default_config) [Push zero_event, Pop, Pop]")
      (simp add: default_config_def)
qed

section \<open>Cancellation\<close>

lemma take_update_Suc:
  "w < length xs \<Longrightarrow> take (Suc w) (xs[w := x]) = take w xs @ [x]"
  by (simp add: take_Suc_conv_app_nth)

text \<open>
  Whatever the position of the queue in its array, the loop stays in the array and leaves only
  events of other notifications.
\<close>

lemma cancel_loop_safe:
  assumes "length items = REQUEST_QUEUE_CAPACITY cfg" "0 < REQUEST_QUEUE_CAPACITY cfg"
    "w + length indices \<le> REQUEST_QUEUE_CAPACITY cfg" "\<forall>e\<in>set (take w items). ev_uid e \<noteq> uid"
  shows "\<exists>items' w' r'. cancel_loop cfg uid head indices items w r = Some (items', w', r') \<and>
    length items' = REQUEST_QUEUE_CAPACITY cfg \<and> w' \<le> w + length indices \<and>
    (\<forall>e\<in>set (take w' items'). ev_uid e \<noteq> uid) \<and> (r \<longrightarrow> r') \<and> (r' \<longleftrightarrow> r \<or> w' < w + length indices)"
  using assms
proof (induction indices arbitrary: items w r)
  case Nil
  then show ?case by simp
next
  case (Cons index indices)
  let ?k = "(head + index) mod REQUEST_QUEUE_CAPACITY cfg"
  have l: "load items ?k = Some (items ! ?k)" using Cons.prems by simp
  show ?case
  proof (cases "ev_uid (items ! ?k) = uid")
    case True
    then show ?thesis
      using l Cons.prems Cons.IH [of items w True] by fastforce
  next
    case False
    have "take (Suc w) (items[w := items ! ?k]) = take w items @ [items ! ?k]"
      using Cons.prems by (intro take_update_Suc) simp
    with False l Cons.prems Cons.IH [of "items[w := items ! ?k]" "Suc w" r] show ?thesis by auto
  qed
qed

text \<open>While the queue does not wrap around its array, the loop filters it.\<close>

lemma cancel_loop_exact:
  assumes "length items = REQUEST_QUEUE_CAPACITY cfg" "i \<le> n"
    "head + n \<le> REQUEST_QUEUE_CAPACITY cfg" "w \<le> i"
  shows "\<exists>items' r'. cancel_loop cfg uid head [i..<n] items w r =
      Some (items', w + length (filter (\<lambda>e. ev_uid e \<noteq> uid) (map (\<lambda>j. items ! (head + j)) [i..<n])), r') \<and>
    take (w + length (filter (\<lambda>e. ev_uid e \<noteq> uid) (map (\<lambda>j. items ! (head + j)) [i..<n]))) items' =
      take w items @ filter (\<lambda>e. ev_uid e \<noteq> uid) (map (\<lambda>j. items ! (head + j)) [i..<n])"
  using assms
proof (induction "n - i" arbitrary: i items w r)
  case 0
  then show ?case by simp
next
  case (Suc k)
  then have i: "i < n" and k: "k = n - Suc i" by simp_all
  have m: "(head + i) mod REQUEST_QUEUE_CAPACITY cfg = head + i" using i Suc.prems by simp
  have l: "load items (head + i) = Some (items ! (head + i))" using i Suc.prems by simp
  note u = upt_conv_Cons [OF i]
  show ?case
  proof (cases "ev_uid (items ! (head + i)) = uid")
    case True
    with Suc.hyps(1) [OF k, of items w True] Suc.prems i show ?thesis by (simp add: u m l)
  next
    case False
    let ?items = "items[w := items ! (head + i)]"
    have t: "take (Suc w) ?items = take w items @ [items ! (head + i)]"
      using Suc.prems i by (intro take_update_Suc) simp
    have same: "map (\<lambda>j. ?items ! (head + j)) [Suc i..<n] = map (\<lambda>j. items ! (head + j)) [Suc i..<n]"
      using Suc.prems by auto
    from Suc.hyps(1) [OF k, of ?items "Suc w" r] Suc.prems i False show ?thesis
      unfolding same t by (simp add: u m l)
  qed
qed

lemma queue_contents_at_0:
  "queue_ok cfg q \<Longrightarrow> q_head q = 0 \<Longrightarrow> queue_contents cfg q = take (q_count q) (q_items q)"
  by (rule nth_equalityI) (auto simp: queue_contents_def queue_ok_def)

text \<open>
  Canceling a notification. From any well-formed queue the call stays in the array, leaves a
  well-formed queue without an event of the notification, and says whether the queue got shorter;
  a queue that does not wrap around its array keeps exactly the other events, in their order.
\<close>

theorem cancel_uid_correct:
  assumes "queue_ok cfg q"
  shows "\<exists>q' removed. ancs_request_queue_cancel_uid cfg (Some q) uid = Some (Some q', removed)
    \<and> queue_ok cfg q' \<and> (\<forall>e\<in>set (queue_contents cfg q'). ev_uid e \<noteq> uid)
    \<and> (removed \<longleftrightarrow> q_count q' < q_count q)
    \<and> (q_head q + q_count q \<le> REQUEST_QUEUE_CAPACITY cfg \<longrightarrow>
        queue_contents cfg q' = filter (\<lambda>e. ev_uid e \<noteq> uid) (queue_contents cfg q))"
proof (cases "q_count q = 0")
  case True
  with assms show ?thesis
    unfolding ancs_request_queue_cancel_uid_def
    by (intro exI [of _ q] exI [of _ False]) (simp add: queue_contents_def)
next
  case False
  let ?c = "REQUEST_QUEUE_CAPACITY cfg"
  obtain items w r where loop: "cancel_loop cfg uid (q_head q) [0..<q_count q] (q_items q) 0 False =
      Some (items, w, r)" "length items = ?c" "w \<le> q_count q"
      "\<forall>e\<in>set (take w items). ev_uid e \<noteq> uid" "r \<longleftrightarrow> w < q_count q"
    using cancel_loop_safe [of "q_items q" cfg 0 "[0..<q_count q]" uid "q_head q" False] assms
    by (auto simp: queue_ok_def)
  let ?q = "q\<lparr>q_items := items, q_head := 0, q_count := w\<rparr>"
  have ok: "queue_ok cfg ?q" using assms loop by (simp add: queue_ok_def)
  have c: "queue_contents cfg ?q = take w items" using queue_contents_at_0 [OF ok] by simp
  have f: "take w items = filter (\<lambda>e. ev_uid e \<noteq> uid) (queue_contents cfg q)"
    if h: "q_head q + q_count q \<le> ?c"
  proof -
    have "queue_contents cfg q = map (\<lambda>j. q_items q ! (q_head q + j)) [0..<q_count q]"
      using h by (auto simp: queue_contents_def)
    moreover have "length (q_items q) = ?c" using assms by (simp add: queue_ok_def)
    ultimately show ?thesis
      using cancel_loop_exact [of "q_items q" cfg 0 "q_count q" "q_head q" 0 uid False] loop(1) h
      by simp
  qed
  have run: "ancs_request_queue_cancel_uid cfg (Some q) uid = Some (Some ?q, r)"
    using False loop(1) by (simp add: ancs_request_queue_cancel_uid_def)
  have n: "q_count ?q = w" by simp
  show ?thesis
    by (rule exI [of _ ?q], rule exI [of _ r], unfold c n)
       (use run ok loop(4,5) f in blast)
qed

theorem cancel_uid_correct_witness:
  "\<exists>q'. ancs_request_queue_cancel_uid default_config (Some (fst (push_event default_config
      (queue_zero default_config) (zero_event\<lparr>ev_uid := 3\<rparr>)))) 3 = Some (Some q', True)
    \<and> queue_contents default_config q' = []"
proof -
  let ?q = "fst (push_event default_config (queue_zero default_config) (zero_event\<lparr>ev_uid := 3\<rparr>))"
  have z: "queue_ok default_config (queue_zero default_config)" by (simp add: default_config_def)
  have cap: "REQUEST_QUEUE_CAPACITY default_config = 16" by (simp add: default_config_def)
  have c: "queue_contents default_config ?q = [zero_event\<lparr>ev_uid := 3\<rparr>]"
    using queue_contents_push [OF z, of "zero_event\<lparr>ev_uid := 3\<rparr>"] by (simp add: cap queue_zero_def queue_contents_def)
  have h: "q_count ?q = 1" "q_head ?q = 0"
    unfolding push_event_eq [OF z] by (simp_all add: queue_zero_def cap)
  from cancel_uid_correct [OF queue_ok_push [OF z], of "zero_event\<lparr>ev_uid := 3\<rparr>" 3] c h cap
  show ?thesis by (auto simp: queue_contents_def)
qed

text \<open>
  In a queue that wraps around its array, the first positions of the array hold the events that are
  read last, and the loop writes there first: when it comes to them it reads back what it wrote.
\<close>

lemma cancel_loop_wraps:
  assumes c: "length items = REQUEST_QUEUE_CAPACITY cfg" "head < REQUEST_QUEUE_CAPACITY cfg"
    and n: "n \<le> REQUEST_QUEUE_CAPACITY cfg"
    and other: "\<forall>i<n. ev_uid (items ! ((head + i) mod REQUEST_QUEUE_CAPACITY cfg)) \<noteq> uid"
    and now: "k \<le> n" "length now = REQUEST_QUEUE_CAPACITY cfg"
    and done_so_far: "\<forall>i<k. now ! i = items ! (head + i mod (REQUEST_QUEUE_CAPACITY cfg - head))"
    and rest: "\<forall>i. k \<le> i \<longrightarrow> i < REQUEST_QUEUE_CAPACITY cfg \<longrightarrow> now ! i = items ! i"
  shows "\<exists>items'. cancel_loop cfg uid head [k..<n] now k r = Some (items', n, r)
    \<and> length items' = REQUEST_QUEUE_CAPACITY cfg
    \<and> (\<forall>i<n. items' ! i = items ! (head + i mod (REQUEST_QUEUE_CAPACITY cfg - head)))"
  using now done_so_far rest
proof (induction "n - k" arbitrary: k now)
  case 0
  then show ?case by simp
next
  case (Suc m)
  let ?c = "REQUEST_QUEUE_CAPACITY cfg"
  let ?e = "items ! (head + k mod (?c - head))"
  from Suc(2) have k: "k < n" by simp
  then have upt: "[k..<n] = k # [Suc k..<n]" by (simp add: upt_rec)
  have read: "now ! ((head + k) mod ?c) = ?e"
  proof (cases "head + k < ?c")
    case True
    with Suc.prems(4) show ?thesis by simp
  next
    case False
    define j where "j = k - (?c - head)"
    have j: "(head + k) mod ?c = j" "j < k" "k = j + (?c - head)"
      using False k n c by (auto simp: j_def mod_if)
    then have "now ! j = items ! (head + j mod (?c - head))" using Suc.prems(3) by blast
    moreover have "k mod (?c - head) = j mod (?c - head)" by (subst j(3)) simp
    ultimately show ?thesis using j(1) by simp
  qed
  have "ev_uid ?e \<noteq> uid"
  proof -
    have "k mod (?c - head) < ?c - head" using c by simp
    then have "(head + k mod (?c - head)) mod ?c = head + k mod (?c - head)" by simp
    moreover have "k mod (?c - head) < n" using k by (meson le_less_trans mod_less_eq_dividend)
    ultimately show ?thesis using other by metis
  qed
  moreover have "\<exists>items'. cancel_loop cfg uid head [Suc k..<n] (now[k := ?e]) (Suc k) r = Some (items', n, r)
      \<and> length items' = ?c \<and> (\<forall>i<n. items' ! i = items ! (head + i mod (?c - head)))"
  proof (rule Suc.hyps(1))
    show "\<forall>i<Suc k. now[k := ?e] ! i = items ! (head + i mod (?c - head))"
      using Suc.prems(2,3) k n by (auto simp: nth_list_update less_Suc_eq)
    show "\<forall>i. Suc k \<le> i \<longrightarrow> i < ?c \<longrightarrow> now[k := ?e] ! i = items ! i"
      using Suc.prems(4) by (auto simp: nth_list_update)
  qed (use Suc(2) Suc.prems(2) k in auto)
  moreover have "(head + k) mod ?c < ?c" using c by simp
  ultimately show ?case using upt read k n Suc.prems(2) by simp
qed

text \<open>
  C34: the behaviour the previous theorem leaves out. In any queue that wraps around its array,
  canceling a notification that has no event in it, which should change nothing, answers that
  nothing was removed and keeps the number of events, but the loop has overwritten events before
  reading them: the events up to the end of the array are repeated in the place of the others, so
  that, where no two events are equal, every event behind the wrap is lost.
\<close>

theorem cancel_uid_loses_events_when_wrapped:
  assumes ok: "queue_ok cfg q"
    and wrapped: "REQUEST_QUEUE_CAPACITY cfg < q_head q + q_count q"
    and other: "\<forall>e\<in>set (queue_contents cfg q). ev_uid e \<noteq> uid"
  shows "\<exists>q'. ancs_request_queue_cancel_uid cfg (Some q) uid = Some (Some q', False)
    \<and> queue_contents cfg q' =
        map (\<lambda>i. queue_contents cfg q ! (i mod (REQUEST_QUEUE_CAPACITY cfg - q_head q))) [0..<q_count q]
    \<and> (distinct (queue_contents cfg q) \<longrightarrow>
        set (drop (REQUEST_QUEUE_CAPACITY cfg - q_head q) (queue_contents cfg q)) \<inter> set (queue_contents cfg q') = {}
        \<and> drop (REQUEST_QUEUE_CAPACITY cfg - q_head q) (queue_contents cfg q) \<noteq> [])"
proof -
  let ?c = "REQUEST_QUEUE_CAPACITY cfg"
  let ?k = "?c - q_head q"
  let ?n = "q_count q"
  let ?xs = "queue_contents cfg q"
  have len: "length (q_items q) = ?c" "q_head q < ?c" "?n \<le> ?c" using ok by (auto simp: queue_ok_def)
  have k: "0 < ?k" "?k < ?n" using len wrapped by auto
  have nth: "?xs ! i = q_items q ! ((q_head q + i) mod ?c)" if "i < ?n" for i
    using that by (simp add: queue_contents_def)
  have n: "length ?xs = ?n" by (simp add: queue_contents_def)
  have uids: "\<forall>i<?n. ev_uid (q_items q ! ((q_head q + i) mod ?c)) \<noteq> uid"
    using other nth n by (metis nth_mem)
  obtain items where loop: "cancel_loop cfg uid (q_head q) [0..<?n] (q_items q) 0 False = Some (items, ?n, False)"
      and items: "length items = ?c" "\<forall>i<?n. items ! i = q_items q ! (q_head q + i mod ?k)"
    using cancel_loop_wraps [OF len uids, of 0 "q_items q" False] len by auto
  let ?q = "q\<lparr>q_items := items, q_head := 0, q_count := ?n\<rparr>"
  have run: "ancs_request_queue_cancel_uid cfg (Some q) uid = Some (Some ?q, False)"
    using loop k by (simp add: ancs_request_queue_cancel_uid_def)
  have first: "q_items q ! (q_head q + i mod ?k) = ?xs ! (i mod ?k)" for i
  proof -
    have "i mod ?k < ?k" using k by simp
    moreover from this have "i mod ?k < ?n" using k by linarith
    moreover have "(q_head q + i mod ?k) mod ?c = q_head q + i mod ?k" using calculation(1) by simp
    ultimately show ?thesis using nth by metis
  qed
  have c: "queue_contents cfg ?q = map (\<lambda>i. ?xs ! (i mod ?k)) [0..<?n]"
    using items(2) len(3) by (auto simp: queue_contents_def first)
  have d: "set (drop ?k ?xs) \<inter> set (queue_contents cfg ?q) = {}" if dist: "distinct ?xs"
  proof -
    have "set (queue_contents cfg ?q) \<subseteq> set (take ?k ?xs)"
    proof
      fix e assume "e \<in> set (queue_contents cfg ?q)"
      then obtain i where "e = ?xs ! (i mod ?k)" unfolding c by auto
      moreover have "i mod ?k < ?k" using k by simp
      moreover have "?k < length ?xs" using k n by simp
      ultimately show "e \<in> set (take ?k ?xs)" by (simp add: in_set_conv_nth) (metis nth_take less_trans min.absorb2 less_imp_le length_take)
    qed
    then show ?thesis using set_take_disj_set_drop_if_distinct [OF dist order_refl, of ?k] by blast
  qed
  have "drop ?k ?xs \<noteq> []" using k n by simp
  with run c d show ?thesis by blast
qed

text \<open>
  With a capacity of four, after two pops the events 3, 4, 5, 6 are queued; canceling notification 9,
  which has no event, leaves 3, 4, 3, 4.
\<close>

definition small_config :: ancs_config where
  "small_config = default_config\<lparr>REQUEST_QUEUE_CAPACITY := 4\<rparr>"

definition wrapped_queue :: ancs_request_queue where
  "wrapped_queue = fst (queue_run small_config (queue_zero small_config)
     (map (\<lambda>uid. Push (zero_event\<lparr>ev_uid := uid\<rparr>)) [1, 2, 3, 4] @ [Pop, Pop] @
      map (\<lambda>uid. Push (zero_event\<lparr>ev_uid := uid\<rparr>)) [5, 6]))"

lemma wrapped_queue_values:
  "REQUEST_QUEUE_CAPACITY small_config = 4" "q_head wrapped_queue = 2" "q_count wrapped_queue = 4"
  "length (q_items wrapped_queue) = 4"
  "map ev_uid (queue_contents small_config wrapped_queue) = [3, 4, 5, 6]"
  by code_simp+

theorem cancel_uid_loses_events_when_wrapped_witness:
  "\<exists>q'. ancs_request_queue_cancel_uid small_config (Some wrapped_queue) 9 = Some (Some q', False)
    \<and> map ev_uid (queue_contents small_config q') = [3, 4, 3, 4]"
proof -
  let ?xs = "queue_contents small_config wrapped_queue"
  note v = wrapped_queue_values
  have ok: "queue_ok small_config wrapped_queue" using v by (simp add: queue_ok_def)
  have len: "length ?xs = 4" using v(3) by (simp add: queue_contents_def)
  have uid: "ev_uid (?xs ! i) = [3, 4, 5, 6] ! i" if "i < 4" for i
    using that len v(5) by (metis nth_map)
  have "ev_uid ` set ?xs = {3, 4, 5, 6}" using arg_cong [OF v(5), of set] by simp
  moreover have "9 \<notin> {3, 4, 5, 6 :: u32}" by simp
  ultimately have other: "\<forall>e\<in>set ?xs. ev_uid e \<noteq> 9" by (metis imageI)
  have wrapped: "REQUEST_QUEUE_CAPACITY small_config < q_head wrapped_queue + q_count wrapped_queue"
    by (simp add: v)
  obtain q' where q': "ancs_request_queue_cancel_uid small_config (Some wrapped_queue) 9 = Some (Some q', False)"
      "queue_contents small_config q' = map (\<lambda>i. ?xs ! (i mod (4 - 2))) [0..<4]"
    using cancel_uid_loses_events_when_wrapped [OF ok wrapped other] unfolding v by blast
  have upt: "[0..<4] = [0, 1, 2, 3 :: nat]" by (simp add: upt_rec)
  have a: "ev_uid (?xs ! 0) = 3" "ev_uid (?xs ! 1) = 4" using uid [of 0] uid [of 1] by simp_all
  have m: "0 mod (4 - 2) = (0 :: nat)" "1 mod (4 - 2) = (1 :: nat)" "2 mod (4 - 2) = (0 :: nat)"
    "3 mod (4 - 2) = (1 :: nat)" by simp_all
  have "map ev_uid (queue_contents small_config q') = [3, 4, 3, 4]"
    by (simp only: q'(2) upt list.map m a)
  with q'(1) show ?thesis by (intro exI [of _ q'] conjI)
qed

end
