(* ===== verification/App_Resolver.thy ===== *)
theory App_Resolver
  imports Ancs_Protocol
begin

text \<open>
  The cache of application names, \<^verbatim>\<open>components/ancs_app_resolver/ancs_app_resolver.c\<close>: a table of
  fixed size with an age counter, and the proof that it is a least-recently-used cache.
\<close>

section \<open>State and operations\<close>

datatype ancs_app_resolution =
    ANCS_APP_RESOLUTION_REQUEST_NATIVE | ANCS_APP_RESOLUTION_USE_NATIVE
  | ANCS_APP_RESOLUTION_USE_FALLBACK

record ancs_app_resolver_entry =
  e_used :: bool
  e_age :: u32
  e_app_id :: bytes
  e_display_name :: bytes

record ancs_app_resolver =
  r_age :: u32
  r_entries :: "ancs_app_resolver_entry list"

text \<open>
  A string argument is a pointer to a buffer; an output argument is a buffer with the capacity the
  caller states. Every access is checked.
\<close>

definition clear_output :: "bytes option \<Rightarrow> nat \<Rightarrow> bytes option option" where
  "clear_output output output_capacity =
    (case output of
       None \<Rightarrow> Some None
     | Some out \<Rightarrow> if output_capacity > 0 then map_option Some (store out 0 0) else Some output)"

definition bounded_text :: "bytes option \<Rightarrow> nat \<Rightarrow> nat option" where
  "bounded_text val maximum =
    (case val of
       None \<Rightarrow> None
     | Some text \<Rightarrow>
         let len = strnlen text (maximum + 1)
         in if 0 < len \<and> len \<le> maximum then Some len else None)"

definition copy_output :: "bytes option \<Rightarrow> bytes option \<Rightarrow> nat \<Rightarrow> (bytes option \<times> bool) option" where
  "copy_output val output output_capacity =
    (case (val, output) of
       (Some text, Some out) \<Rightarrow>
         if output_capacity = 0 then Some (output, False)
         else if length (cstr text) \<ge> output_capacity
         then do { out' \<leftarrow> store out 0 0; Some (Some out', False) }
         else do { out' \<leftarrow> memcpy out text (length (cstr text) + 1); Some (Some out', True) }
     | _ \<Rightarrow> Some (output, False))"

definition find_entry :: "ancs_config \<Rightarrow> ancs_app_resolver \<Rightarrow> bytes \<Rightarrow> nat option" where
  "find_entry cfg resolver app_id =
    List.find (\<lambda>index. e_used (r_entries resolver ! index) \<and>
                 cstr (e_app_id (r_entries resolver ! index)) = cstr app_id)
      [0..<APP_CACHE_CAPACITY cfg]"

definition replacement_entry :: "ancs_config \<Rightarrow> ancs_app_resolver \<Rightarrow> bytes \<Rightarrow> nat" where
  "replacement_entry cfg resolver app_id =
    (case find_entry cfg resolver app_id of
       Some target \<Rightarrow> target
     | None \<Rightarrow>
         (case List.find (\<lambda>index. \<not> e_used (r_entries resolver ! index)) [0..<APP_CACHE_CAPACITY cfg] of
            Some index \<Rightarrow> index
          | None \<Rightarrow>
              foldl (\<lambda>target index.
                  if e_age (r_entries resolver ! index) < e_age (r_entries resolver ! target)
                  then index else target)
                0 [1..<APP_CACHE_CAPACITY cfg]))"

definition resolver_zero :: "ancs_config \<Rightarrow> ancs_app_resolver" where
  "resolver_zero cfg = \<lparr>r_age = 0, r_entries = replicate (APP_CACHE_CAPACITY cfg)
     \<lparr>e_used = False, e_age = 0, e_app_id = replicate (APP_ID_MAX cfg + 1) 0,
      e_display_name = replicate (APP_NAME_MAX cfg + 1) 0\<rparr>\<rparr>"

definition ancs_app_resolver_init ::
  "ancs_config \<Rightarrow> ancs_app_resolver option \<Rightarrow> ancs_app_resolver option" where
  "ancs_app_resolver_init cfg resolver = map_option (\<lambda>_. resolver_zero cfg) resolver"

type_synonym resolver_result = "ancs_app_resolver option \<times> bytes option \<times> ancs_app_resolution"

definition ancs_app_resolver_begin ::
  "ancs_config \<Rightarrow> ancs_app_resolver option \<Rightarrow> bytes option \<Rightarrow> bytes option \<Rightarrow> nat \<Rightarrow>
   resolver_result option" where
  "ancs_app_resolver_begin cfg resolver app_id output output_capacity = do {
     output \<leftarrow> clear_output output output_capacity;
     case (resolver, output, app_id, bounded_text app_id (APP_ID_MAX cfg)) of
       (Some r, Some out, Some app, Some app_id_length) \<Rightarrow>
         if output_capacity = 0 then Some (resolver, output, ANCS_APP_RESOLUTION_USE_FALLBACK)
         else (case find_entry cfg r app of
             None \<Rightarrow> Some (resolver, output, ANCS_APP_RESOLUTION_REQUEST_NATIVE)
           | Some index \<Rightarrow> do {
               entry \<leftarrow> load (r_entries r) index;
               (output, copied) \<leftarrow> copy_output (Some (e_display_name entry)) output output_capacity;
               if \<not> copied then Some (resolver, output, ANCS_APP_RESOLUTION_USE_FALLBACK)
               else Some (Some (r\<lparr>r_age := r_age r + 1,
                                 r_entries := (r_entries r)[index := entry\<lparr>e_age := r_age r + 1\<rparr>]\<rparr>),
                          output, ANCS_APP_RESOLUTION_USE_NATIVE)
             })
     | _ \<Rightarrow> Some (resolver, output, ANCS_APP_RESOLUTION_USE_FALLBACK)
   }"

definition ancs_app_resolver_complete ::
  "ancs_config \<Rightarrow> ancs_app_resolver option \<Rightarrow> bytes option \<Rightarrow> bytes option \<Rightarrow> bytes option \<Rightarrow> nat \<Rightarrow>
   resolver_result option" where
  "ancs_app_resolver_complete cfg resolver app_id display_name output output_capacity = do {
     output \<leftarrow> clear_output output output_capacity;
     case (resolver, output, app_id, bounded_text app_id (APP_ID_MAX cfg),
           display_name, bounded_text display_name (APP_NAME_MAX cfg)) of
       (Some r, Some out, Some app, Some app_id_length, Some name, Some display_name_length) \<Rightarrow>
         if output_capacity = 0 then Some (resolver, output, ANCS_APP_RESOLUTION_USE_FALLBACK)
         else do {
           (output, copied) \<leftarrow> copy_output display_name output output_capacity;
           if \<not> copied then Some (resolver, output, ANCS_APP_RESOLUTION_USE_FALLBACK)
           else do {
             let index = replacement_entry cfg r app;
             entry \<leftarrow> load (r_entries r) index;
             app_buf \<leftarrow> memcpy (e_app_id entry) app (app_id_length + 1);
             name_buf \<leftarrow> memcpy (e_display_name entry) name (display_name_length + 1);
             Some (Some (r\<lparr>r_age := r_age r + 1,
                          r_entries := (r_entries r)[index :=
                            entry\<lparr>e_used := True, e_age := r_age r + 1,
                                  e_app_id := app_buf, e_display_name := name_buf\<rparr>]\<rparr>),
                   output, ANCS_APP_RESOLUTION_USE_NATIVE)
           }
         }
     | _ \<Rightarrow> Some (resolver, output, ANCS_APP_RESOLUTION_USE_FALLBACK)
   }"

definition ancs_app_resolver_fail ::
  "bytes option \<Rightarrow> nat \<Rightarrow> (bytes option \<times> ancs_app_resolution) option" where
  "ancs_app_resolver_fail output output_capacity = do {
     output \<leftarrow> clear_output output output_capacity;
     Some (output, ANCS_APP_RESOLUTION_USE_FALLBACK)
   }"

section \<open>Well-formed tables\<close>

text \<open>
  The names of used entries are distinct, terminated and not empty; the ages of used entries are
  distinct, positive and not above the counter of the table.
\<close>

definition entry_ok :: "ancs_config \<Rightarrow> ancs_app_resolver_entry \<Rightarrow> bool" where
  "entry_ok cfg e \<longleftrightarrow> length (e_app_id e) = APP_ID_MAX cfg + 1 \<and>
     length (e_display_name e) = APP_NAME_MAX cfg + 1 \<and>
     (e_used e \<longrightarrow> terminated (e_display_name e))"

definition resolver_ok :: "ancs_config \<Rightarrow> ancs_app_resolver \<Rightarrow> bool" where
  "resolver_ok cfg r \<longleftrightarrow> 0 < APP_CACHE_CAPACITY cfg \<and> length (r_entries r) = APP_CACHE_CAPACITY cfg \<and>
     (\<forall>e\<in>set (r_entries r). entry_ok cfg e \<and> (e_used e \<longrightarrow> e_age e \<le> r_age r)) \<and>
     (\<forall>i<length (r_entries r). \<forall>j<length (r_entries r). i \<noteq> j \<longrightarrow>
        e_used (r_entries r ! i) \<longrightarrow> e_used (r_entries r ! j) \<longrightarrow>
        cstr (e_app_id (r_entries r ! i)) \<noteq> cstr (e_app_id (r_entries r ! j)) \<and>
        e_age (r_entries r ! i) \<noteq> e_age (r_entries r ! j))"

lemma resolver_zero_ok [simp]: "0 < APP_CACHE_CAPACITY cfg \<Longrightarrow> resolver_ok cfg (resolver_zero cfg)"
  by (auto simp: resolver_ok_def resolver_zero_def entry_ok_def in_set_replicate)

lemma find_entry_SomeD:
  assumes "find_entry cfg r app = Some i" "resolver_ok cfg r"
  shows "i < length (r_entries r)" "e_used (r_entries r ! i)"
    "cstr (e_app_id (r_entries r ! i)) = cstr app"
  using assms by (auto simp: find_entry_def find_Some_iff resolver_ok_def)

lemma find_entry_NoneD:
  assumes "find_entry cfg r app = None" "resolver_ok cfg r" "e \<in> set (r_entries r)" "e_used e"
  shows "cstr (e_app_id e) \<noteq> cstr app"
  using assms by (auto simp: find_entry_def find_None_iff resolver_ok_def in_set_conv_nth)

lemma argmin_fold:
  fixes f :: "nat \<Rightarrow> 'a::linorder"
  shows "foldl (\<lambda>t i. if f i < f t then i else t) 0 [1..<Suc n] \<le> n \<and>
    (\<forall>j\<le>n. f (foldl (\<lambda>t i. if f i < f t then i else t) 0 [1..<Suc n]) \<le> f j)"
proof (induction n)
  case 0
  then show ?case by simp
next
  case (Suc n)
  let ?t = "foldl (\<lambda>t i. if f i < f t then i else t) 0 [1..<Suc n]"
  have "foldl (\<lambda>t i. if f i < f t then i else t) 0 [1..<Suc (Suc n)] =
      (if f (Suc n) < f ?t then Suc n else ?t)" by simp
  with Suc show ?case by (auto simp: le_Suc_eq simp del: upt_Suc dest: less_imp_le intro: order.trans)
qed

lemma replacement_entry_bound:
  assumes "resolver_ok cfg r"
  shows "replacement_entry cfg r app < length (r_entries r)"
proof -
  obtain n where n: "APP_CACHE_CAPACITY cfg = Suc n"
    using assms by (cases "APP_CACHE_CAPACITY cfg") (auto simp: resolver_ok_def)
  show ?thesis
    using assms find_entry_SomeD(1) [OF _ assms] argmin_fold [of "\<lambda>i. e_age (r_entries r ! i)" n] n
    by (auto simp: replacement_entry_def resolver_ok_def find_Some_iff find_None_iff
        simp del: upt_Suc split: option.split)
qed

section \<open>The least-recently-used list\<close>

text \<open>Names with the most recently used first.\<close>

type_synonym lru = "(bytes \<times> bytes) list"

definition lru_touch :: "nat \<Rightarrow> bytes \<Rightarrow> bytes \<Rightarrow> lru \<Rightarrow> lru" where
  "lru_touch cap app name l = take cap ((app, name) # filter (\<lambda>(k, _). k \<noteq> app) l)"

definition entry_pair :: "ancs_app_resolver_entry \<Rightarrow> bytes \<times> bytes" where
  "entry_pair e = (cstr (e_app_id e), cstr (e_display_name e))"

definition recency_order :: "ancs_app_resolver \<Rightarrow> ancs_app_resolver_entry list \<Rightarrow> bool" where
  "recency_order r es \<longleftrightarrow> set es = {e \<in> set (r_entries r). e_used e} \<and>
     sorted_wrt (\<lambda>a b. e_age b < e_age a) es"

definition lru_rel :: "ancs_config \<Rightarrow> ancs_app_resolver \<Rightarrow> lru \<Rightarrow> bool" where
  "lru_rel cfg r l \<longleftrightarrow> resolver_ok cfg r \<and> (\<exists>es. recency_order r es \<and> l = map entry_pair es)"

lemma recency_distinct: "recency_order r es \<Longrightarrow> distinct es"
  unfolding recency_order_def
  by (metis (no_types, lifting) distinct_conv_nth linorder_neqE_nat order_less_irrefl sorted_wrt_iff_nth_less)

lemma distinct_filter_index:
  "(\<And>i j. i < length xs \<Longrightarrow> j < length xs \<Longrightarrow> i \<noteq> j \<Longrightarrow> P (xs ! i) \<Longrightarrow> P (xs ! j) \<Longrightarrow> xs ! i \<noteq> xs ! j)
   \<Longrightarrow> distinct (filter P xs)"
proof (induction xs)
  case Nil
  then show ?case by simp
next
  case (Cons x xs)
  have "distinct (filter P xs)"
    using Cons.prems [of "Suc i" "Suc j" for i j] by (intro Cons.IH) force
  moreover have "x \<notin> set (filter P xs)" if "P x"
    using Cons.prems [of 0 "Suc j" for j] that by (force simp: in_set_conv_nth)
  ultimately show ?case by simp
qed

lemma recency_length:
  assumes "recency_order r es" "resolver_ok cfg r"
  shows "length es = length (filter e_used (r_entries r))"
proof -
  have "distinct (filter e_used (r_entries r))"
    using assms(2) by (intro distinct_filter_index) (force simp: resolver_ok_def)
  then show ?thesis
    using distinct_card [OF recency_distinct [OF assms(1)]] distinct_card assms(1)
    unfolding recency_order_def by fastforce
qed

text \<open>Giving one entry the next age moves it to the front.\<close>

lemma recency_update:
  assumes ok: "resolver_ok cfg r" and rec: "recency_order r es" and i: "i < length (r_entries r)"
    and new: "e_used e'" "e_age e' = a" "\<forall>e\<in>set (r_entries r). e_used e \<longrightarrow> e_age e < a"
  shows "recency_order (r\<lparr>r_age := a, r_entries := (r_entries r)[i := e']\<rparr>)
    (e' # filter (\<lambda>x. x \<noteq> r_entries r ! i) es)"
proof -
  let ?E = "r_entries r" and ?e = "r_entries r ! i"
  have ne: "?E ! j \<noteq> ?e" if "j < length ?E" "j \<noteq> i" "e_used (?E ! j)" for j
    using ok i that unfolding resolver_ok_def by metis
  have "{e \<in> set (?E[i := e']). e_used e} = insert e' ({e \<in> set ?E. e_used e} - {?e})"
  proof (intro set_eqI iffI)
    fix x assume "x \<in> {e \<in> set (?E[i := e']). e_used e}"
    then obtain j where j: "j < length ?E" "x = ?E[i := e'] ! j" "e_used x"
      by (auto simp: in_set_conv_nth)
    show "x \<in> insert e' ({e \<in> set ?E. e_used e} - {?e})"
    proof (cases "j = i")
      case True
      with j i show ?thesis by simp
    next
      case False
      with j have "x = ?E ! j" by simp
      with False j ne [of j] show ?thesis by simp
    qed
  next
    fix x assume "x \<in> insert e' ({e \<in> set ?E. e_used e} - {?e})"
    then consider "x = e'" | "x \<in> set ?E" "e_used x" "x \<noteq> ?e" by auto
    then show "x \<in> {e \<in> set (?E[i := e']). e_used e}"
    proof cases
      case 1
      with i new(1) show ?thesis by (simp add: set_update_memI)
    next
      case 2
      then obtain j where "j < length ?E" "x = ?E ! j" by (auto simp: in_set_conv_nth)
      moreover with 2 have "j \<noteq> i" by auto
      ultimately have "x = ?E[i := e'] ! j" "j < length (?E[i := e'])" by auto
      with 2 show ?thesis by (metis (mono_tags, lifting) mem_Collect_eq nth_mem)
    qed
  qed
  with rec new show ?thesis
    unfolding recency_order_def by (auto intro: sorted_wrt_filter)
qed

lemma resolver_ok_update:
  assumes ok: "resolver_ok cfg r" and i: "i < length (r_entries r)" and e': "entry_ok cfg e'"
    and new: "e_used e'" "e_age e' = r_age r + 1" "r_age r < UINT32_MAX"
    and id: "\<And>j. j < length (r_entries r) \<Longrightarrow> j \<noteq> i \<Longrightarrow> e_used (r_entries r ! j) \<Longrightarrow>
      cstr (e_app_id (r_entries r ! j)) \<noteq> cstr (e_app_id e')"
  shows "resolver_ok cfg (r\<lparr>r_age := r_age r + 1, r_entries := (r_entries r)[i := e']\<rparr>)"
    "\<forall>e\<in>set (r_entries r). e_used e \<longrightarrow> e_age e < r_age r + 1"
proof -
  have w: "a < r_age r + 1" if "a \<le> r_age r" for a
    using that new(3) by (simp add: word_less_nat_alt word_le_nat_alt unat_word_ariths)
  show old: "\<forall>e\<in>set (r_entries r). e_used e \<longrightarrow> e_age e < r_age r + 1"
    using ok w unfolding resolver_ok_def by blast
  let ?E = "r_entries r"
  have "\<forall>e\<in>set (?E[i := e']). entry_ok cfg e \<and> (e_used e \<longrightarrow> e_age e \<le> r_age r + 1)"
  proof
    fix e assume "e \<in> set (?E[i := e'])"
    then have "e = e' \<or> e \<in> set ?E" using set_update_subset_insert [of ?E i e'] by auto
    then show "entry_ok cfg e \<and> (e_used e \<longrightarrow> e_age e \<le> r_age r + 1)"
      using ok e' new old unfolding resolver_ok_def by fastforce
  qed
  moreover have "cstr (e_app_id (?E[i := e'] ! j)) \<noteq> cstr (e_app_id (?E[i := e'] ! k)) \<and>
        e_age (?E[i := e'] ! j) \<noteq> e_age (?E[i := e'] ! k)"
    if "j < length ?E" "k < length ?E" "j \<noteq> k" "e_used (?E[i := e'] ! j)" "e_used (?E[i := e'] ! k)" for j k
  proof -
    have u: "e_age (?E ! x) \<noteq> e_age e'" if "x < length ?E" "e_used (?E ! x)" for x
      using old that new(2) nth_mem [of x ?E] by fastforce
    have "j \<noteq> i \<or> k \<noteq> i" using that(3) by blast
    then consider "j = i" "k \<noteq> i" | "j \<noteq> i" "k = i" | "j \<noteq> i" "k \<noteq> i" by blast
    then show ?thesis
    proof cases
      case 1
      with that i u [of k] id [of k] show ?thesis by fastforce
    next
      case 2
      with that i u [of j] id [of j] show ?thesis by fastforce
    next
      case 3
      with that ok show ?thesis unfolding resolver_ok_def by simp
    qed
  qed
  ultimately show "resolver_ok cfg (r\<lparr>r_age := r_age r + 1, r_entries := ?E[i := e']\<rparr>)"
    using ok by (simp add: resolver_ok_def)
qed

lemma map_filter_other:
  assumes "\<And>x. x \<in> set es \<Longrightarrow> x \<noteq> e \<longleftrightarrow> fst (entry_pair x) \<noteq> app"
  shows "map entry_pair (filter (\<lambda>x. x \<noteq> e) es) = filter (\<lambda>(k, _). k \<noteq> app) (map entry_pair es)"
  using assms by (induction es) (auto simp: entry_pair_def)

lemma recency_hit:
  assumes ok: "resolver_ok cfg r" and rec: "recency_order r es"
    and hit: "find_entry cfg r app = Some i" and x: "x \<in> set es"
  shows "x \<noteq> r_entries r ! i \<longleftrightarrow> fst (entry_pair x) \<noteq> cstr app"
proof -
  note i = find_entry_SomeD [OF hit ok]
  obtain j where j: "j < length (r_entries r)" "x = r_entries r ! j" "e_used x"
    using rec x by (auto simp: recency_order_def in_set_conv_nth)
  show ?thesis
    using i j ok unfolding resolver_ok_def entry_pair_def by (cases "i = j") fastforce+
qed

lemma lru_length:
  assumes "lru_rel cfg r l"
  shows "length l \<le> APP_CACHE_CAPACITY cfg"
  using assms length_filter_le [of e_used "r_entries r"]
  by (auto simp: lru_rel_def resolver_ok_def dest!: recency_length)

text \<open>Where a new name goes, and what its entry displaces.\<close>

lemma recency_replace:
  assumes ok: "resolver_ok cfg r" and rec: "recency_order r es"
  shows "(app', name') # map entry_pair (filter (\<lambda>x. x \<noteq> r_entries r ! replacement_entry cfg r app) es) =
     take (APP_CACHE_CAPACITY cfg) ((app', name') # filter (\<lambda>(k, _). k \<noteq> cstr app) (map entry_pair es))"
proof -
  let ?E = "r_entries r" and ?c = "APP_CACHE_CAPACITY cfg"
  let ?k = "replacement_entry cfg r app"
  have c: "0 < ?c" "length ?E = ?c" using ok by (auto simp: resolver_ok_def)
  have len: "length es = length (filter e_used ?E)" using recency_length [OF rec ok] .
  show ?thesis
  proof (cases "find_entry cfg r app")
    case (Some i)
    then have k: "?k = i" by (simp add: replacement_entry_def)
    have m: "map entry_pair (filter (\<lambda>x. x \<noteq> ?E ! i) es) =
        filter (\<lambda>(k, _). k \<noteq> cstr app) (map entry_pair es)"
      by (rule map_filter_other) (rule recency_hit [OF ok rec Some])
    have "?E ! i \<in> set es"
      using find_entry_SomeD [OF Some ok] rec by (auto simp: recency_order_def)
    then have "length (filter (\<lambda>x. x \<noteq> ?E ! i) es) < length es"
      by (intro length_filter_less) auto
    moreover have "length es \<le> ?c" using len length_filter_le [of e_used ?E] c by simp
    moreover have "length (filter (\<lambda>(k, _). k \<noteq> cstr app) (map entry_pair es)) =
        length (filter (\<lambda>x. x \<noteq> ?E ! i) es)"
      by (metis m length_map)
    ultimately show ?thesis unfolding k m by (cases ?c) auto
  next
    case None
    have other: "fst (entry_pair x) \<noteq> cstr app" if "x \<in> set es" for x
      using that rec find_entry_NoneD [OF None ok] by (auto simp: recency_order_def entry_pair_def)
    then have f: "filter (\<lambda>(k, _). k \<noteq> cstr app) (map entry_pair es) = map entry_pair es"
      by (intro filter_True) (simp add: case_prod_beta)
    show ?thesis
    proof (cases "List.find (\<lambda>index. \<not> e_used (?E ! index)) [0..<?c]")
      case (Some i)
      then have k: "?k = i" using None by (simp add: replacement_entry_def)
      have i: "i < ?c" "\<not> e_used (?E ! i)" using Some by (auto simp: find_Some_iff)
      have "filter (\<lambda>x. x \<noteq> ?E ! i) es = es"
        using rec i by (intro filter_True) (auto simp: recency_order_def)
      moreover have "length es < ?c"
        using len length_filter_less [of "?E ! i" ?E e_used] i c by simp
      ultimately show ?thesis unfolding k f by (cases ?c) auto
    next
      case full: None
      then have used: "\<forall>i<?c. e_used (?E ! i)" by (auto simp: find_None_iff)
      then have "filter e_used ?E = ?E"
        using c by (intro filter_True) (auto simp: in_set_conv_nth)
      with len c have lc: "length es = ?c" by simp
      obtain n where n: "?c = Suc n" using c by (cases ?c) auto
      have min: "e_age (?E ! ?k) \<le> e_age x" if "x \<in> set ?E" for x
        using that None full argmin_fold [of "\<lambda>i. e_age (?E ! i)" n] c n
        by (auto simp: replacement_entry_def in_set_conv_nth less_Suc_eq_le simp del: upt_Suc)
      have "?E ! ?k \<in> set es"
        using rec used replacement_entry_bound [OF ok, of app] c by (auto simp: recency_order_def)
      moreover obtain ys y where es: "es = ys @ [y]" using lc n by (cases es rule: rev_cases) auto
      moreover have "y \<in> set ?E" using rec es by (auto simp: recency_order_def)
      moreover have older: "e_age y < e_age x" if "x \<in> set ys" for x
        using rec that by (simp add: recency_order_def es sorted_wrt_append)
      ultimately have y: "y = ?E ! ?k" using min [of y] leD by fastforce
      then have "filter (\<lambda>x. x \<noteq> ?E ! ?k) es = ys"
        using older by (auto simp: es intro!: filter_True)
      then show ?thesis unfolding f using lc n by (simp add: es)
    qed
  qed
qed

section \<open>The table is a least-recently-used cache\<close>

text \<open>
  Requests of the client, with a result buffer that fits every name, and the answers: the
  resolution and the text in the buffer.
\<close>

datatype resolver_op = Begin bytes | Complete bytes bytes

fun op_terminated :: "resolver_op \<Rightarrow> bool" where
  "op_terminated (Begin app) = terminated app"
| "op_terminated (Complete app name) = (terminated app \<and> terminated name)"

fun resolver_step :: "ancs_config \<Rightarrow> bytes \<Rightarrow> ancs_app_resolver \<Rightarrow> resolver_op \<Rightarrow> resolver_result option" where
  "resolver_step cfg out r (Begin app) =
     ancs_app_resolver_begin cfg (Some r) (Some app) (Some out) (length out)"
| "resolver_step cfg out r (Complete app name) =
     ancs_app_resolver_complete cfg (Some r) (Some app) (Some name) (Some out) (length out)"

fun resolver_run :: "ancs_config \<Rightarrow> bytes \<Rightarrow> ancs_app_resolver \<Rightarrow> resolver_op list \<Rightarrow>
    (ancs_app_resolution \<times> bytes) list option" where
  "resolver_run cfg out r [] = Some []"
| "resolver_run cfg out r (x # ops) =
     (case resolver_step cfg out r x of
        Some (Some r', Some out', resolution) \<Rightarrow>
          map_option (Cons (resolution, cstr out')) (resolver_run cfg out r' ops)
      | _ \<Rightarrow> None)"

definition text_fits :: "bytes \<Rightarrow> nat \<Rightarrow> bool" where
  "text_fits text maximum \<longleftrightarrow> cstr text \<noteq> [] \<and> length (cstr text) \<le> maximum"

fun lru_step :: "ancs_config \<Rightarrow> lru \<Rightarrow> resolver_op \<Rightarrow> lru \<times> ancs_app_resolution \<times> bytes" where
  "lru_step cfg l (Begin app) =
     (if \<not> text_fits app (APP_ID_MAX cfg) then (l, ANCS_APP_RESOLUTION_USE_FALLBACK, [])
      else case map_of l (cstr app) of
          None \<Rightarrow> (l, ANCS_APP_RESOLUTION_REQUEST_NATIVE, [])
        | Some name \<Rightarrow> (lru_touch (APP_CACHE_CAPACITY cfg) (cstr app) name l,
                        ANCS_APP_RESOLUTION_USE_NATIVE, name))"
| "lru_step cfg l (Complete app name) =
     (if text_fits app (APP_ID_MAX cfg) \<and> text_fits name (APP_NAME_MAX cfg)
      then (lru_touch (APP_CACHE_CAPACITY cfg) (cstr app) (cstr name) l,
            ANCS_APP_RESOLUTION_USE_NATIVE, cstr name)
      else (l, ANCS_APP_RESOLUTION_USE_FALLBACK, []))"

fun lru_run :: "ancs_config \<Rightarrow> lru \<Rightarrow> resolver_op list \<Rightarrow> (ancs_app_resolution \<times> bytes) list" where
  "lru_run cfg l [] = []"
| "lru_run cfg l (x # ops) = snd (lru_step cfg l x) # lru_run cfg (fst (lru_step cfg l x)) ops"

lemma bounded_text_eq:
  "bounded_text (Some text) n = (if text_fits text n then Some (length (cstr text)) else None)"
  by (auto simp: bounded_text_def strnlen_eq text_fits_def Let_def min_def)

lemma clear_output_eq: "out \<noteq> [] \<Longrightarrow> clear_output (Some out) (length out) = Some (Some (out[0 := 0]))"
  by (simp add: clear_output_def)

lemma cstr_cleared: "cstr (out[0 := 0]) = []"
  by (cases out) auto

lemma copy_output_fits:
  assumes "terminated text" "length (cstr text) < length out"
  shows "\<exists>out'. copy_output (Some text) (Some out) (length out) = Some (Some out', True) \<and> cstr out' = cstr text"
  using memcpy_string [OF assms] assms(2) cstr_no_nul [of "text"]
  by (auto simp: copy_output_def)

lemma recency_lookup:
  assumes ok: "resolver_ok cfg r" and rec: "recency_order r es"
  shows "map_of (map entry_pair es) (cstr app) =
    map_option (\<lambda>i. cstr (e_display_name (r_entries r ! i))) (find_entry cfg r app)"
proof (cases "find_entry cfg r app")
  case None
  have "cstr app \<notin> fst ` set (map entry_pair es)"
    using find_entry_NoneD [OF None ok] rec
    by (auto simp: recency_order_def entry_pair_def dest: sym)
  then have "map_of (map entry_pair es) (cstr app) = None" by (simp add: map_of_eq_None_iff)
  with None show ?thesis by simp
next
  case (Some i)
  note i = find_entry_SomeD [OF Some ok]
  have "map_of (map entry_pair es) (cstr app) = Some (cstr (e_display_name (r_entries r ! i)))"
    if "\<forall>x\<in>set es. x \<noteq> r_entries r ! i \<longleftrightarrow> fst (entry_pair x) \<noteq> cstr app" "r_entries r ! i \<in> set es"
    using that i by (induction es) (auto simp: entry_pair_def)
  with recency_hit [OF ok rec Some] i rec Some show ?thesis by (auto simp: recency_order_def)
qed

lemma lru_rel_update:
  assumes rel: "lru_rel cfg r l" and i: "i = replacement_entry cfg r app"
    and e': "entry_ok cfg e'" "e_used e'" "e_age e' = r_age r + 1" "cstr (e_app_id e') = cstr app"
    and age: "r_age r < UINT32_MAX"
  shows "lru_rel cfg (r\<lparr>r_age := r_age r + 1, r_entries := (r_entries r)[i := e']\<rparr>)
    (lru_touch (APP_CACHE_CAPACITY cfg) (cstr app) (cstr (e_display_name e')) l)"
proof -
  from rel obtain es where ok: "resolver_ok cfg r" and rec: "recency_order r es"
    and l: "l = map entry_pair es" by (auto simp: lru_rel_def)
  have b: "i < length (r_entries r)" using replacement_entry_bound [OF ok] i by simp
  have id: "cstr (e_app_id (r_entries r ! j)) \<noteq> cstr (e_app_id e')"
    if "j < length (r_entries r)" "j \<noteq> i" "e_used (r_entries r ! j)" for j
  proof (cases "find_entry cfg r app")
    case None
    with find_entry_NoneD [OF None ok] that e' show ?thesis by simp
  next
    case (Some k)
    then have "k = i" using i by (simp add: replacement_entry_def)
    with find_entry_SomeD [OF Some ok] that e' ok show ?thesis unfolding resolver_ok_def by metis
  qed
  note upd = resolver_ok_update [OF ok b e'(1,2,3) age id]
  have "recency_order (r\<lparr>r_age := r_age r + 1, r_entries := (r_entries r)[i := e']\<rparr>)
      (e' # filter (\<lambda>x. x \<noteq> r_entries r ! i) es)"
    by (rule recency_update [OF ok rec b e'(2,3) upd(2)])
  moreover have "map entry_pair (e' # filter (\<lambda>x. x \<noteq> r_entries r ! i) es) =
      lru_touch (APP_CACHE_CAPACITY cfg) (cstr app) (cstr (e_display_name e')) l"
    using recency_replace [OF ok rec, of "cstr app" "cstr (e_display_name e')" app] e'(4)
    by (simp add: lru_touch_def l i entry_pair_def)
  ultimately show ?thesis using upd(1) unfolding lru_rel_def by metis
qed

lemma resolver_step_refines:
  assumes rel: "lru_rel cfg r l" and out: "length out = APP_NAME_MAX cfg + 1"
    and age: "r_age r < UINT32_MAX" and op: "op_terminated op"
  shows "\<exists>r' out'. resolver_step cfg out r op = Some (Some r', Some out', fst (snd (lru_step cfg l op)))
    \<and> cstr out' = snd (snd (lru_step cfg l op)) \<and> lru_rel cfg r' (fst (lru_step cfg l op))
    \<and> unat (r_age r') \<le> unat (r_age r) + 1"
proof -
  from rel obtain es where ok: "resolver_ok cfg r" and rec: "recency_order r es"
    and l: "l = map entry_pair es" by (auto simp: lru_rel_def)
  have ne: "out \<noteq> []" using out by auto
  have grow: "unat (r_age r + 1) \<le> unat (r_age r) + 1" by unat_arith
  have len: "length (out[0 := 0]) = length out" by simp
  show ?thesis
  proof (cases op)
    case (Begin app)
    show ?thesis
    proof (cases "text_fits app (APP_ID_MAX cfg)")
      case False
      with Begin rel ne show ?thesis
        by (simp add: ancs_app_resolver_begin_def clear_output_eq bounded_text_eq cstr_cleared)
    next
      case fits: True
      note look = recency_lookup [OF ok rec, of app]
      show ?thesis
      proof (cases "find_entry cfg r app")
        case None
        with Begin rel ne fits look show ?thesis
          by (simp add: ancs_app_resolver_begin_def clear_output_eq bounded_text_eq cstr_cleared l)
      next
        case (Some i)
        let ?e = "r_entries r ! i" and ?e' = "(r_entries r ! i)\<lparr>e_age := r_age r + 1\<rparr>"
        note i = find_entry_SomeD [OF Some ok]
        have eok: "entry_ok cfg ?e" using ok i by (simp add: resolver_ok_def)
        then have t: "terminated (e_display_name ?e)" "length (cstr (e_display_name ?e)) < length (out[0 := 0])"
          using i out length_cstr_less [of "e_display_name ?e"] by (auto simp: entry_ok_def)
        obtain out' where copy: "copy_output (Some (e_display_name ?e)) (Some (out[0 := 0])) (length out) =
            Some (Some out', True)" "cstr out' = cstr (e_display_name ?e)"
          using copy_output_fits [OF t] unfolding len by blast
        have rel': "lru_rel cfg (r\<lparr>r_age := r_age r + 1, r_entries := (r_entries r)[i := ?e']\<rparr>)
            (lru_touch (APP_CACHE_CAPACITY cfg) (cstr app) (cstr (e_display_name ?e')) l)"
          by (rule lru_rel_update [OF rel _ _ _ _ _ age])
             (use Some i eok in \<open>auto simp: replacement_entry_def entry_ok_def\<close>)
        show ?thesis
          using Begin ne fits look Some i copy rel' grow
          by (simp add: ancs_app_resolver_begin_def clear_output_eq bounded_text_eq l)
      qed
    qed
  next
    case (Complete app name)
    show ?thesis
    proof (cases "text_fits app (APP_ID_MAX cfg) \<and> text_fits name (APP_NAME_MAX cfg)")
      case False
      with Complete rel ne show ?thesis
        by (auto simp: ancs_app_resolver_complete_def clear_output_eq bounded_text_eq cstr_cleared)
    next
      case True
      let ?i = "replacement_entry cfg r app"
      let ?e = "r_entries r ! ?i"
      have i: "?i < length (r_entries r)" by (rule replacement_entry_bound [OF ok])
      then have eok: "entry_ok cfg ?e" using ok by (simp add: resolver_ok_def)
      have ta: "terminated app" "terminated name" using op Complete by simp_all
      have fit: "length (cstr app) < length (e_app_id ?e)" "length (cstr name) < length (e_display_name ?e)"
        "length (cstr name) < length (out[0 := 0])"
        using True eok out by (auto simp: text_fits_def entry_ok_def)
      obtain out' where copy: "copy_output (Some name) (Some (out[0 := 0])) (length out) =
          Some (Some out', True)" "cstr out' = cstr name"
        using copy_output_fits [OF ta(2) fit(3)] unfolding len by blast
      obtain ab where ab: "memcpy (e_app_id ?e) app (length (cstr app) + 1) = Some ab"
          "cstr ab = cstr app" "length ab = length (e_app_id ?e)"
        using memcpy_string [OF ta(1) fit(1)] cstr_no_nul [of app] fit(1) by auto
      obtain nb where nb: "memcpy (e_display_name ?e) name (length (cstr name) + 1) = Some nb"
          "cstr nb = cstr name" "length nb = length (e_display_name ?e)" "terminated nb"
        using memcpy_string [OF ta(2) fit(2)] cstr_no_nul [of name] fit(2) by (auto simp: terminated_def)
      let ?e' = "?e\<lparr>e_used := True, e_age := r_age r + 1, e_app_id := ab, e_display_name := nb\<rparr>"
      have rel': "lru_rel cfg (r\<lparr>r_age := r_age r + 1, r_entries := (r_entries r)[?i := ?e']\<rparr>)
          (lru_touch (APP_CACHE_CAPACITY cfg) (cstr app) (cstr (e_display_name ?e')) l)"
        by (rule lru_rel_update [OF rel refl _ _ _ _ age])
           (use eok ab nb in \<open>auto simp: entry_ok_def\<close>)
      show ?thesis
        using Complete ne True i copy ab nb rel' grow
        by (simp add: ancs_app_resolver_complete_def clear_output_eq bounded_text_eq Let_def)
    qed
  qed
qed

lemma resolver_run_refines:
  assumes "lru_rel cfg r l" "length out = APP_NAME_MAX cfg + 1"
    "unat (r_age r) + length ops < 2 ^ 32" "list_all op_terminated ops"
  shows "resolver_run cfg out r ops = Some (lru_run cfg l ops)"
  using assms
proof (induction ops arbitrary: r l)
  case Nil
  then show ?case by simp
next
  case (Cons x ops)
  have "r_age r < UINT32_MAX" using Cons.prems(3) by (simp add: word_less_nat_alt)
  from resolver_step_refines [OF Cons.prems(1,2) this, of x] Cons.prems(4)
  obtain r' out' where s: "resolver_step cfg out r x = Some (Some r', Some out', fst (snd (lru_step cfg l x)))"
      "cstr out' = snd (snd (lru_step cfg l x))" "lru_rel cfg r' (fst (lru_step cfg l x))"
      "unat (r_age r') \<le> unat (r_age r) + 1" by auto
  with Cons.IH [OF s(3) Cons.prems(2)] Cons.prems(3,4) show ?case by simp
qed

text \<open>
  C32: the name cache. Any sequence of requests and answers, fewer than 2 to the 32 of them so that
  the age counter does not wrap, gives exactly the resolutions and texts of a list of at most
  \<open>APP_CACHE_CAPACITY\<close> names with the least recently used one dropped first; identifiers and names
  that are empty or too long use the fallback and change nothing; no access leaves a buffer.
\<close>

theorem app_resolver_is_lru_cache:
  assumes "0 < APP_CACHE_CAPACITY cfg" "length out = APP_NAME_MAX cfg + 1"
    "length ops < 2 ^ 32" "list_all op_terminated ops"
  shows "resolver_run cfg out (resolver_zero cfg) ops = Some (lru_run cfg [] ops)"
proof -
  have "recency_order (resolver_zero cfg) []"
    by (auto simp: recency_order_def resolver_zero_def in_set_replicate)
  then have "lru_rel cfg (resolver_zero cfg) []"
    using resolver_zero_ok [OF assms(1)] by (auto simp: lru_rel_def)
  from resolver_run_refines [OF this assms(2)] assms(3,4) show ?thesis
    by (simp add: resolver_zero_def)
qed

theorem app_resolver_is_lru_cache_witness:
  "resolver_run default_config (replicate 257 0) (resolver_zero default_config)
     [Begin [97, 0], Complete [97, 0] [65, 0], Begin [97, 0], Begin [0]] =
   Some [(ANCS_APP_RESOLUTION_REQUEST_NATIVE, []), (ANCS_APP_RESOLUTION_USE_NATIVE, [65]),
     (ANCS_APP_RESOLUTION_USE_NATIVE, [65]), (ANCS_APP_RESOLUTION_USE_FALLBACK, [])]"
proof -
  let ?ops = "[Begin [97, 0], Complete [97, 0] [65, 0], Begin [97, 0], Begin [0]]"
  have c: "APP_CACHE_CAPACITY default_config = 16" "APP_NAME_MAX default_config = 256"
    "APP_ID_MAX default_config = 256" by (simp_all add: default_config_def)
  have "resolver_run default_config (replicate 257 0) (resolver_zero default_config) ?ops =
      Some (lru_run default_config [] ?ops)"
    by (rule app_resolver_is_lru_cache) (simp_all add: c terminated_def)
  also have "lru_run default_config [] ?ops = [(ANCS_APP_RESOLUTION_REQUEST_NATIVE, []),
      (ANCS_APP_RESOLUTION_USE_NATIVE, [65]), (ANCS_APP_RESOLUTION_USE_NATIVE, [65]),
      (ANCS_APP_RESOLUTION_USE_FALLBACK, [])]"
    by (simp add: text_fits_def lru_touch_def c)
  finally show ?thesis .
qed

end
