(* ===== verification/Sha256.thy ===== *)
theory Sha256
  imports Prelude
begin

text \<open>
  The streaming SHA-256 of \<^verbatim>\<open>components/relay_policy/relay_policy.c\<close>, as the code has it (a message
  schedule in an array, eight working variables, a buffer of 64 bytes filled by \<open>memcpy\<close>, padding
  byte by byte), and the proof that any way of feeding a message gives the digest of the message
  as FIPS 180-4 defines it.
\<close>

section \<open>The implementation\<close>

record sha256_context =
  sha_state :: "u32 list"
  sha_bit_count :: u64
  sha_buffer :: bytes
  sha_buffer_len :: nat

text \<open>
  The round constants of the code, in decimal; \<open>sha256_constants\<close> below checks them against their
  definition in the standard.
\<close>

definition SHA256_K :: "u32 list" where
  "SHA256_K = [
    1116352408, 1899447441, 3049323471, 3921009573, 961987163, 1508970993, 2453635748, 2870763221,
    3624381080, 310598401, 607225278, 1426881987, 1925078388, 2162078206, 2614888103, 3248222580,
    3835390401, 4022224774, 264347078, 604807628, 770255983, 1249150122, 1555081692, 1996064986,
    2554220882, 2821834349, 2952996808, 3210313671, 3336571891, 3584528711, 113926993, 338241895,
    666307205, 773529912, 1294757372, 1396182291, 1695183700, 1986661051, 2177026350, 2456956037,
    2730485921, 2820302411, 3259730800, 3345764771, 3516065817, 3600352804, 4094571909, 275423344,
    430227734, 506948616, 659060556, 883997877, 958139571, 1322822218, 1537002063, 1747873779,
    1955562222, 2024104815, 2227730452, 2361852424, 2428436474, 2756734187, 3204031479, 3329325298]"

definition rotr32 :: "u32 \<Rightarrow> nat \<Rightarrow> u32" where
  "rotr32 val bits = drop_bit bits val OR push_bit (32 - bits) val"

definition load_be32 :: "bytes \<Rightarrow> u32" where
  "load_be32 bs = push_bit 24 (ucast (bs ! 0)) OR push_bit 16 (ucast (bs ! 1)) OR
     push_bit 8 (ucast (bs ! 2)) OR ucast (bs ! 3)"

definition store_be32 :: "u32 \<Rightarrow> bytes" where
  "store_be32 val = [ucast (drop_bit 24 val), ucast (drop_bit 16 val), ucast (drop_bit 8 val), ucast val]"

text \<open>The message schedule: the two loops that fill \<open>w[64]\<close>.\<close>

definition schedule_load :: "bytes \<Rightarrow> u32 list \<Rightarrow> nat \<Rightarrow> u32 list" where
  "schedule_load block w index = w[index := load_be32 (drop (index * 4) block)]"

definition schedule_step :: "u32 list \<Rightarrow> nat \<Rightarrow> u32 list" where
  "schedule_step w index =
    (let s0 = rotr32 (w ! (index - 15)) 7 XOR rotr32 (w ! (index - 15)) 18 XOR drop_bit 3 (w ! (index - 15));
         s1 = rotr32 (w ! (index - 2)) 17 XOR rotr32 (w ! (index - 2)) 19 XOR drop_bit 10 (w ! (index - 2))
     in w[index := w ! (index - 16) + s0 + w ! (index - 7) + s1])"

definition message_schedule :: "bytes \<Rightarrow> u32 list" where
  "message_schedule block =
     foldl schedule_step (foldl (schedule_load block) (replicate 64 0) [0..<16]) [16..<64]"

type_synonym working = "u32 \<times> u32 \<times> u32 \<times> u32 \<times> u32 \<times> u32 \<times> u32 \<times> u32"

definition sha256_round :: "u32 list \<Rightarrow> working \<Rightarrow> nat \<Rightarrow> working" where
  "sha256_round w v index =
    (case v of (a, b, c, d, e, f, g, h) \<Rightarrow>
      let s1 = rotr32 e 6 XOR rotr32 e 11 XOR rotr32 e 25;
          ch = (e AND f) XOR (NOT e AND g);
          temp1 = h + s1 + ch + SHA256_K ! index + w ! index;
          s0 = rotr32 a 2 XOR rotr32 a 13 XOR rotr32 a 22;
          maj = (a AND b) XOR (a AND c) XOR (b AND c);
          temp2 = s0 + maj
      in (temp1 + temp2, a, b, c, d + temp1, e, f, g))"

definition sha256_compress :: "u32 list \<Rightarrow> bytes \<Rightarrow> u32 list" where
  "sha256_compress st block =
    (case foldl (sha256_round (message_schedule block))
            (st ! 0, st ! 1, st ! 2, st ! 3, st ! 4, st ! 5, st ! 6, st ! 7) [0..<64] of
       (a, b, c, d, e, f, g, h) \<Rightarrow>
         [st ! 0 + a, st ! 1 + b, st ! 2 + c, st ! 3 + d, st ! 4 + e, st ! 5 + f, st ! 6 + g, st ! 7 + h])"

definition sha256_transform :: "sha256_context \<Rightarrow> bytes \<Rightarrow> sha256_context" where
  "sha256_transform ctx block = ctx\<lparr>sha_state := sha256_compress (sha_state ctx) block\<rparr>"

definition sha256_init :: "sha256_context \<Rightarrow> sha256_context" where
  "sha256_init ctx = ctx\<lparr>sha_state := [0x6a09e667, 0xbb67ae85, 0x3c6ef372, 0xa54ff53a,
      0x510e527f, 0x9b05688c, 0x1f83d9ab, 0x5be0cd19], sha_bit_count := 0, sha_buffer_len := 0\<rparr>"

text \<open>
  One pass of the loop copies what fits into the buffer. A pass that copies nothing would never
  end, so it is \<open>None\<close>, as is a buffer already over its size.
\<close>

function sha256_update_loop :: "sha256_context \<Rightarrow> bytes \<Rightarrow> sha256_context option" where
  "sha256_update_loop ctx data =
    (if data = [] then Some ctx
     else
       let space = 64 - sha_buffer_len ctx;
           copy_len = (if length data < space then length data else space);
           ctx1 = ctx\<lparr>sha_buffer := take (sha_buffer_len ctx) (sha_buffer ctx) @ take copy_len data @
                        drop (sha_buffer_len ctx + copy_len) (sha_buffer ctx),
                      sha_buffer_len := sha_buffer_len ctx + copy_len\<rparr>;
           ctx2 = (if sha_buffer_len ctx1 = 64
                   then (sha256_transform ctx1 (sha_buffer ctx1))\<lparr>sha_buffer_len := 0\<rparr> else ctx1)
       in if copy_len = 0 then None
          else sha256_update_loop ctx2 (drop copy_len data))"
  by pat_completeness auto
termination
  by (relation "measure (\<lambda>(_, data). length data)") auto

declare sha256_update_loop.simps [simp del]

definition sha256_update :: "sha256_context \<Rightarrow> bytes \<Rightarrow> sha256_context option" where
  "sha256_update ctx data =
    (if data = [] then Some ctx
     else sha256_update_loop
       (ctx\<lparr>sha_bit_count := sha_bit_count ctx + of_nat (length data) * 8\<rparr>) data)"

text \<open>The padding loop of \<open>sha256_finish\<close>, which has no bound in the code.\<close>

partial_function (option) sha256_pad_loop :: "sha256_context \<Rightarrow> sha256_context option" where
  "sha256_pad_loop ctx =
    (if sha_buffer_len ctx = 56 then Some ctx
     else do { ctx' \<leftarrow> sha256_update ctx [0]; sha256_pad_loop ctx' })"

declare sha256_pad_loop.simps [code]

definition length_bytes :: "u64 \<Rightarrow> bytes" where
  "length_bytes n = rev (map (\<lambda>index. ucast (drop_bit (index * 8) n)) [0..<8])"

definition sha256_finish :: "sha256_context \<Rightarrow> bytes option" where
  "sha256_finish ctx = do {
     let len = length_bytes (sha_bit_count ctx);
     ctx \<leftarrow> sha256_update ctx [0x80];
     ctx \<leftarrow> sha256_pad_loop ctx;
     ctx \<leftarrow> sha256_update ctx len;
     Some (concat (map (\<lambda>index. store_be32 (sha_state ctx ! index)) [0..<8]))
   }"

section \<open>The standard\<close>

text \<open>
  FIPS 180-4: the functions of section 4.1.2, the padding of section 5.1.1 and the hash
  computation of section 6.2 with its recursive message schedule.
\<close>

definition small_sigma0 :: "u32 \<Rightarrow> u32" where
  "small_sigma0 x = word_rotr 7 x XOR word_rotr 18 x XOR drop_bit 3 x"

definition small_sigma1 :: "u32 \<Rightarrow> u32" where
  "small_sigma1 x = word_rotr 17 x XOR word_rotr 19 x XOR drop_bit 10 x"

definition big_sigma0 :: "u32 \<Rightarrow> u32" where
  "big_sigma0 x = word_rotr 2 x XOR word_rotr 13 x XOR word_rotr 22 x"

definition big_sigma1 :: "u32 \<Rightarrow> u32" where
  "big_sigma1 x = word_rotr 6 x XOR word_rotr 11 x XOR word_rotr 25 x"

definition Ch :: "u32 \<Rightarrow> u32 \<Rightarrow> u32 \<Rightarrow> u32" where
  "Ch x y z = (x AND y) XOR (NOT x AND z)"

definition Maj :: "u32 \<Rightarrow> u32 \<Rightarrow> u32 \<Rightarrow> u32" where
  "Maj x y z = (x AND y) XOR (x AND z) XOR (y AND z)"

fun schedule_word :: "bytes \<Rightarrow> nat \<Rightarrow> u32" where
  "schedule_word block t =
    (if t < 16 then load_be32 (drop (4 * t) block)
     else small_sigma1 (schedule_word block (t - 2)) + schedule_word block (t - 7) +
          small_sigma0 (schedule_word block (t - 15)) + schedule_word block (t - 16))"

declare schedule_word.simps [simp del]

definition fips_round :: "bytes \<Rightarrow> nat \<Rightarrow> working \<Rightarrow> working" where
  "fips_round block t v =
    (case v of (a, b, c, d, e, f, g, h) \<Rightarrow>
      let T1 = h + big_sigma1 e + Ch e f g + SHA256_K ! t + schedule_word block t;
          T2 = big_sigma0 a + Maj a b c
      in (T1 + T2, a, b, c, d + T1, e, f, g))"

definition fips_compress :: "working \<Rightarrow> bytes \<Rightarrow> working" where
  "fips_compress H block =
    (case (H, fold (fips_round block) [0..<64] H) of
       ((h0, h1, h2, h3, h4, h5, h6, h7), (a, b, c, d, e, f, g, h)) \<Rightarrow>
         (a + h0, b + h1, c + h2, d + h3, e + h4, f + h5, g + h6, h + h7))"

definition fips_pad :: "bytes \<Rightarrow> bytes" where
  "fips_pad msg = msg @ 0x80 # replicate ((119 - length msg mod 64) mod 64) 0 @
     length_bytes (of_nat (8 * length msg))"

function blocks64 :: "bytes \<Rightarrow> bytes list" where
  "blocks64 bs = (if length bs < 64 then [] else take 64 bs # blocks64 (drop 64 bs))"
  by pat_completeness auto
termination
  by (relation "measure length") auto

declare blocks64.simps [simp del]

definition fips_initial :: working where
  "fips_initial = (0x6a09e667, 0xbb67ae85, 0x3c6ef372, 0xa54ff53a,
     0x510e527f, 0x9b05688c, 0x1f83d9ab, 0x5be0cd19)"

definition working_list :: "working \<Rightarrow> u32 list" where
  "working_list v = (case v of (a, b, c, d, e, f, g, h) \<Rightarrow> [a, b, c, d, e, f, g, h])"

definition fips_sha256 :: "bytes \<Rightarrow> bytes" where
  "fips_sha256 msg =
     concat (map store_be32 (working_list (foldl fips_compress fips_initial (blocks64 (fips_pad msg)))))"

section \<open>The compression function\<close>

lemma rotr32_eq: "0 < n \<Longrightarrow> n < 32 \<Longrightarrow> rotr32 v n = word_rotr n v"
proof (rule bit_word_eqI)
  fix k assume n: "0 < n" "n < 32" and "k < LENGTH(32)"
  then have k: "k < 32" by simp
  show "bit (rotr32 v n) k = bit (word_rotr n v) k"
  proof (cases "k + n < 32")
    case True
    then have "\<not> 32 - n \<le> k" by linarith
    with True n k show ?thesis by (simp add: rotr32_def bit_simps add.commute bit_word_rotr_iff)
  next
    case False
    then have "(k + n) mod 32 = k - (32 - n)" using n k by (simp add: mod_if)
    moreover have "\<not> bit v (k + n)" using False bit_imp_le_length [of v] by force
    moreover have "32 - n \<le> k" using False by linarith
    ultimately show ?thesis
      using n k False by (simp add: rotr32_def bit_simps bit_word_rotr_iff add.commute)
  qed
qed

lemma schedule_loads:
  assumes "n \<le> 16" "length w = 64"
  shows "length (foldl (schedule_load block) w [0..<n]) = 64 \<and>
    (\<forall>t<n. foldl (schedule_load block) w [0..<n] ! t = schedule_word block t)"
  using assms
proof (induction n)
  case 0
  then show ?case by simp
next
  case (Suc n)
  then show ?case
    by (auto simp: schedule_load_def schedule_word.simps [of block n] nth_list_update less_Suc_eq mult.commute)
qed

lemma schedule_steps:
  assumes "16 + n \<le> 64" "length w = 64" "\<forall>t<16. w ! t = schedule_word block t"
  shows "length (foldl schedule_step w [16..<16 + n]) = 64 \<and>
    (\<forall>t<16 + n. foldl schedule_step w [16..<16 + n] ! t = schedule_word block t)"
  using assms
proof (induction n)
  case 0
  then show ?case by simp
next
  case (Suc n)
  let ?w = "foldl schedule_step w [16..<16 + n]"
  have w: "length ?w = 64" "\<And>t. t < 16 + n \<Longrightarrow> ?w ! t = schedule_word block t"
    using Suc by auto
  have "schedule_word block (16 + n) = schedule_word block n + small_sigma0 (schedule_word block (Suc n)) +
      schedule_word block (9 + n) + small_sigma1 (schedule_word block (14 + n))"
    by (subst schedule_word.simps) simp
  then have "schedule_step ?w (16 + n) = ?w[16 + n := schedule_word block (16 + n)]"
    using w by (simp add: schedule_step_def Let_def small_sigma0_def small_sigma1_def rotr32_eq)
  moreover have "[16..<16 + Suc n] = [16..<16 + n] @ [16 + n]"
    using upt_Suc_append [of 16 "16 + n"] by simp
  ultimately show ?case using w Suc.prems by (auto simp: nth_list_update less_Suc_eq simp del: upt_Suc)
qed

lemma message_schedule_nth:
  assumes "t < 64"
  shows "message_schedule block ! t = schedule_word block t"
proof -
  have "length (foldl (schedule_load block) (replicate 64 0) [0..<16]) = 64 \<and>
    (\<forall>t<16. foldl (schedule_load block) (replicate 64 0) [0..<16] ! t = schedule_word block t)"
    by (rule schedule_loads) simp_all
  with schedule_steps [of 48 "foldl (schedule_load block) (replicate 64 0) [0..<16]" block] assms
  show ?thesis by (simp add: message_schedule_def)
qed

lemma sha256_round_fips:
  "t < 64 \<Longrightarrow> sha256_round (message_schedule block) v t = fips_round block t v"
  by (cases v) (simp add: sha256_round_def fips_round_def Let_def message_schedule_nth rotr32_eq
      big_sigma0_def big_sigma1_def Ch_def Maj_def)

lemma rounds_fips:
  "n \<le> 64 \<Longrightarrow> foldl (sha256_round (message_schedule block)) v [0..<n] = fold (fips_round block) [0..<n] v"
  by (induction n) (simp_all add: sha256_round_fips)

lemma sha256_compress_fips:
  "sha256_compress (working_list H) block = working_list (fips_compress H block)"
  by (cases H) (simp add: sha256_compress_def fips_compress_def working_list_def rounds_fips
      add.commute split: prod.split)

lemma foldl_compress_fips:
  "foldl sha256_compress (working_list H) bs = working_list (foldl fips_compress H bs)"
  by (induction bs arbitrary: H) (simp_all add: sha256_compress_fips)

section \<open>Streaming\<close>

lemma blocks64_append: "length a = 64 * n \<Longrightarrow> blocks64 (a @ b) = blocks64 a @ blocks64 b"
proof (induction n arbitrary: a)
  case 0
  then show ?case by (simp add: blocks64.simps [of "[]"])
next
  case (Suc n)
  then have "blocks64 (drop 64 a @ b) = blocks64 (drop 64 a) @ blocks64 b" by simp
  with Suc.prems show ?case
    by (simp add: blocks64.simps [of "a @ b"] blocks64.simps [of a])
qed

lemma blocks64_one: "length a = 64 \<Longrightarrow> blocks64 a = [a]"
  by (simp add: blocks64.simps [of a] blocks64.simps [of "[]"])

text \<open>A context that has taken in the message \<open>m\<close>.\<close>

definition has_taken :: "sha256_context \<Rightarrow> bytes \<Rightarrow> bool" where
  "has_taken ctx m \<longleftrightarrow> length (sha_buffer ctx) = 64 \<and> sha_buffer_len ctx < 64 \<and>
     (\<exists>full. 64 dvd length full \<and>
        m = full @ take (sha_buffer_len ctx) (sha_buffer ctx) \<and>
        sha_state ctx = foldl sha256_compress (working_list fips_initial) (blocks64 full))"

lemma has_taken_length: "has_taken ctx m \<Longrightarrow> length m mod 64 = sha_buffer_len ctx"
  by (auto simp: has_taken_def min_def elim!: dvdE)

lemma has_taken_state:
  assumes "has_taken ctx m" "sha_buffer_len ctx = 0"
  shows "sha_state ctx = foldl sha256_compress (working_list fips_initial) (blocks64 m)"
  using assms by (auto simp: has_taken_def)

lemma update_loop_taken:
  assumes "has_taken ctx m"
  shows "\<exists>ctx'. sha256_update_loop ctx data = Some ctx' \<and> has_taken ctx' (m @ data) \<and>
    sha_bit_count ctx' = sha_bit_count ctx"
  using assms
proof (induction "length data" arbitrary: ctx m data rule: less_induct)
  case less
  show ?case
  proof (cases "data = []")
    case True
    with less.prems show ?thesis by (simp add: sha256_update_loop.simps)
  next
    case False
    from less.prems obtain full where b: "length (sha_buffer ctx) = 64" "sha_buffer_len ctx < 64"
      and full: "64 dvd length full"
        "m = full @ take (sha_buffer_len ctx) (sha_buffer ctx)"
        "sha_state ctx = foldl sha256_compress (working_list fips_initial) (blocks64 full)"
      by (auto simp: has_taken_def)
    define n where "n = sha_buffer_len ctx"
    define k where "k = (if length data < 64 - n then length data else 64 - n)"
    have k: "0 < k" "k \<le> length data" "n + k \<le> 64" using False b by (auto simp: k_def n_def)
    define buf where "buf = take n (sha_buffer ctx) @ take k data @ drop (n + k) (sha_buffer ctx)"
    define c2 where "c2 = (if n + k = 64
      then (sha256_transform (ctx\<lparr>sha_buffer := buf, sha_buffer_len := n + k\<rparr>) buf)\<lparr>sha_buffer_len := 0\<rparr>
      else ctx\<lparr>sha_buffer := buf, sha_buffer_len := n + k\<rparr>)"
    have buf: "length buf = 64" "take (n + k) buf = take n (sha_buffer ctx) @ take k data"
      using b(1) k by (auto simp: buf_def min_def)
    have eq: "m @ take k data = full @ take (n + k) buf" using full(2) buf(2) by (simp add: n_def)
    have taken: "has_taken c2 (m @ take k data)"
    proof (cases "n + k = 64")
      case True
      have "blocks64 (full @ buf) = blocks64 full @ [buf]"
        using full(1) blocks64_append [of full _ buf] blocks64_one [OF buf(1)] by (elim dvdE) simp
      then have "64 dvd length (full @ buf)"
        "foldl sha256_compress (working_list fips_initial) (blocks64 (full @ buf)) =
          sha256_compress (sha_state ctx) buf"
        using full(1,3) buf(1) by simp_all
      moreover have "m @ take k data = full @ buf" using eq True buf(1) by simp
      ultimately show ?thesis
        using True buf(1) unfolding has_taken_def c2_def sha256_transform_def
        by (intro conjI exI [of _ "full @ buf"]) simp_all
    next
      case False
      then show ?thesis
        using k(3) full(1,3) buf(1) eq unfolding has_taken_def c2_def
        by (intro conjI exI [of _ full]) simp_all
    qed
    have bits: "sha_bit_count c2 = sha_bit_count ctx" by (simp add: c2_def sha256_transform_def)
    have step: "sha256_update_loop ctx data = sha256_update_loop c2 (drop k data)"
      using False k(1) by (subst sha256_update_loop.simps)
        (simp add: Let_def k_def [symmetric] n_def [symmetric] buf_def c2_def)
    have "length (drop k data) < length data" using k(1,2) by simp
    from less.hyps [OF this taken] bits show ?thesis unfolding step by simp
  qed
qed

lemma sha256_update_taken:
  assumes "has_taken ctx m"
  shows "\<exists>ctx'. sha256_update ctx data = Some ctx' \<and> has_taken ctx' (m @ data) \<and>
    sha_bit_count ctx' = sha_bit_count ctx + of_nat (length data) * 8"
proof (cases "data = []")
  case True
  with assms show ?thesis by (simp add: sha256_update_def)
next
  case False
  have "has_taken (ctx\<lparr>sha_bit_count := c\<rparr>) m" for c using assms by (simp add: has_taken_def)
  from update_loop_taken [OF this, of _ data] False show ?thesis
    by (simp add: sha256_update_def)
qed

text \<open>The padding loop ends after as many zeros as the standard asks for.\<close>

lemma pad_loop_taken:
  assumes "has_taken ctx m" "sha_buffer_len ctx + k = 56 \<or> sha_buffer_len ctx + k = 120 \<and> 56 < sha_buffer_len ctx"
  shows "\<exists>ctx'. sha256_pad_loop ctx = Some ctx' \<and> has_taken ctx' (m @ replicate k 0) \<and> sha_buffer_len ctx' = 56"
  using assms
proof (induction k arbitrary: ctx m)
  case 0
  then show ?case by (subst sha256_pad_loop.simps) (auto simp: has_taken_def)
next
  case (Suc k)
  obtain c1 where c1: "sha256_update ctx [0] = Some c1" "has_taken c1 (m @ [0])"
    using sha256_update_taken [OF Suc.prems(1), of "[0]"] by blast
  have n: "sha_buffer_len c1 = (sha_buffer_len ctx + 1) mod 64"
    using has_taken_length [OF c1(2)] has_taken_length [OF Suc.prems(1)]
    by (metis One_nat_def Suc_eq_plus1 length_append list.size(3,4) mod_Suc_eq plus_nat.add_0)
  have lt: "sha_buffer_len ctx < 64" using Suc.prems(1) by (simp add: has_taken_def)
  have "sha_buffer_len c1 + k = 56 \<or> sha_buffer_len c1 + k = 120 \<and> 56 < sha_buffer_len c1"
    using Suc.prems(2) lt by (cases "sha_buffer_len ctx = 63") (auto simp: n)
  from Suc.IH [OF c1(2) this] obtain c2 where
    c2: "sha256_pad_loop c1 = Some c2" "has_taken c2 ((m @ [0]) @ replicate k 0)" "sha_buffer_len c2 = 56"
    by blast
  have "sha_buffer_len ctx \<noteq> 56" using Suc.prems(2) by linarith
  then have "sha256_pad_loop ctx = Some c2"
    by (subst sha256_pad_loop.simps) (simp add: c1(1) c2(1))
  with c2(2,3) show ?case by simp
qed

lemma sha256_finish_taken:
  assumes "has_taken ctx m" "sha_bit_count ctx = of_nat (8 * length m)"
  shows "sha256_finish ctx = Some (fips_sha256 m)"
proof -
  obtain c1 where c1: "sha256_update ctx [0x80] = Some c1" "has_taken c1 (m @ [0x80])"
    using sha256_update_taken [OF assms(1), of "[0x80]"] by blast
  define k where "k = (119 - length m mod 64) mod 64"
  define r where "r = length m mod 64"
  have n1: "sha_buffer_len c1 = Suc r mod 64" "r < 64"
    using has_taken_length [OF c1(2)] by (simp_all add: mod_Suc_eq r_def)
  consider "r < 55" | "r = 55" | "55 < r" "r < 63" | "r = 63"
    using n1(2) by linarith
  then have "sha_buffer_len c1 + k = 56 \<or> sha_buffer_len c1 + k = 120 \<and> 56 < sha_buffer_len c1"
    unfolding n1(1) k_def r_def [symmetric] by cases (simp_all add: mod_if [of "119 - r"])
  from pad_loop_taken [OF c1(2) this] obtain c2 where
    c2: "sha256_pad_loop c1 = Some c2" "has_taken c2 ((m @ [0x80]) @ replicate k 0)" "sha_buffer_len c2 = 56"
    by blast
  have pad: "((m @ [0x80]) @ replicate k 0) @ length_bytes (sha_bit_count ctx) = fips_pad m"
    using assms(2) by (simp add: fips_pad_def k_def)
  obtain c3 where c3: "sha256_update c2 (length_bytes (sha_bit_count ctx)) = Some c3"
      "has_taken c3 (fips_pad m)"
    using sha256_update_taken [OF c2(2), of "length_bytes (sha_bit_count ctx)"] unfolding pad by blast
  have "length (fips_pad m) = length ((m @ [0x80]) @ replicate k 0) + 8"
    by (simp add: pad [symmetric] length_bytes_def)
  then have "length (fips_pad m) mod 64 = (length ((m @ [0x80]) @ replicate k 0) mod 64 + 8) mod 64"
    by (simp only: mod_add_left_eq)
  then have "sha_buffer_len c3 = 0"
    unfolding has_taken_length [OF c3(2)] has_taken_length [OF c2(2)] c2(3) by simp
  from has_taken_state [OF c3(2) this]
  have "sha_state c3 = working_list (foldl fips_compress fips_initial (blocks64 (fips_pad m)))"
    by (simp add: foldl_compress_fips)
  then have "concat (map (\<lambda>index. store_be32 (sha_state c3 ! index)) [0..<8]) = fips_sha256 m"
    by (simp add: fips_sha256_def working_list_def upt_rec split: prod.split)
  with c1 c2 c3 show ?thesis by (simp add: sha256_finish_def Let_def)
qed

section \<open>Results\<close>

text \<open>
  The round constants, by the rule of FIPS 180-4, section 4.2.2: the first 32 bits of the
  fractional parts of the cube roots of the first sixty-four primes.
\<close>

definition first_primes :: "nat list" where
  "first_primes = [2, 3, 5, 7, 11, 13, 17, 19, 23, 29, 31, 37, 41, 43, 47, 53, 59, 61, 67, 71, 73, 79,
     83, 89, 97, 101, 103, 107, 109, 113, 127, 131, 137, 139, 149, 151, 157, 163, 167, 173, 179, 181,
     191, 193, 197, 199, 211, 223, 227, 229, 233, 239, 241, 251, 257, 263, 269, 271, 277, 281, 283,
     293, 307, 311]"

definition cube_root_floor :: "nat \<Rightarrow> nat" where
  "cube_root_floor p = (if p < 8 then 1 else if p < 27 then 2 else if p < 64 then 3
     else if p < 125 then 4 else if p < 216 then 5 else 6)"

definition cube_root_fraction :: "nat \<Rightarrow> u32 \<Rightarrow> bool" where
  "cube_root_fraction p w \<longleftrightarrow>
     (let root = cube_root_floor p * 2 ^ 32 + unat w
      in root ^ 3 \<le> p * 2 ^ 96 \<and> p * 2 ^ 96 < (root + 1) ^ 3)"

text \<open>
  The table \<open>SHA256_K\<close> holds the constants of the standard: entry by entry it is the first 32
  bits of the fractional part of the cube root of the corresponding prime.
\<close>

theorem sha256_constants: "list_all2 cube_root_fraction first_primes SHA256_K"
  unfolding first_primes_def SHA256_K_def list_all2_Cons list.rel_inject
  by (simp add: cube_root_fraction_def cube_root_floor_def Let_def)

lemma sha256_feed_taken:
  assumes "has_taken c m" "sha_bit_count c = of_nat (8 * length m)"
  shows "\<exists>c'. foldl (\<lambda>c chunk. c \<bind> (\<lambda>ctx. sha256_update ctx chunk)) (Some c) chunks = Some c' \<and>
    has_taken c' (m @ concat chunks) \<and> sha_bit_count c' = of_nat (8 * length (m @ concat chunks))"
  using assms
proof (induction chunks arbitrary: c m)
  case Nil
  then show ?case by simp
next
  case (Cons chunk chunks)
  obtain c1 where "sha256_update c chunk = Some c1" "has_taken c1 (m @ chunk)"
    "sha_bit_count c1 = of_nat (8 * length (m @ chunk))"
    using sha256_update_taken [OF Cons.prems(1), of chunk] Cons.prems(2) by (auto simp: algebra_simps)
  with Cons.IH [of c1 "m @ chunk"] show ?case by simp
qed

lemma sha256_init_taken:
  assumes "length (sha_buffer ctx) = 64"
  shows "has_taken (sha256_init ctx) []" "sha_bit_count (sha256_init ctx) = of_nat (8 * length ([] :: bytes))"
  using assms unfolding has_taken_def
  by (intro conjI exI [of _ "[]"]) (simp_all add: sha256_init_def blocks64.simps [of "[]"]
      working_list_def fips_initial_def)

text \<open>
  C31: streaming. However a message is cut into the calls of \<open>sha256_update\<close>, from a context with
  any content in its buffer, the calls and the padding loop end and \<open>sha256_finish\<close> gives the
  SHA-256 of the whole message as the standard defines it.
\<close>

theorem sha256_streaming:
  assumes "length (sha_buffer ctx) = 64"
  shows "foldl (\<lambda>c chunk. c \<bind> (\<lambda>ctx. sha256_update ctx chunk)) (Some (sha256_init ctx)) chunks
    \<bind> sha256_finish = Some (fips_sha256 (concat chunks))"
  using sha256_feed_taken [OF sha256_init_taken [OF assms], of chunks] sha256_finish_taken by fastforce

definition sha256_fresh :: sha256_context where
  "sha256_fresh = \<lparr>sha_state = replicate 8 0, sha_bit_count = 0, sha_buffer = replicate 64 0,
     sha_buffer_len = 0\<rparr>"

theorem sha256_streaming_witness:
  "(do { c \<leftarrow> sha256_update (sha256_init sha256_fresh) [97];
         c \<leftarrow> sha256_update c [98, 99];
         sha256_finish c }) = Some (fips_sha256 [97, 98, 99])"
  using sha256_streaming [of sha256_fresh "[[97], [98, 99]]"]
  by (simp add: sha256_fresh_def)

end
