(* ===== verification/Relay_Policy.thy ===== *)
theory Relay_Policy
  imports Ancs_Protocol Sha256
begin

text \<open>
  The publication policy, \<^verbatim>\<open>components/relay_policy/relay_policy.c\<close>: the identifier of a relayed
  notification, the ring of recently published identifiers, the decision and its counters.
\<close>

section \<open>Identifiers\<close>

definition hash_byte :: "sha256_context \<Rightarrow> u8 \<Rightarrow> sha256_context option" where
  "hash_byte hash val = sha256_update hash [val]"

text \<open>\<open>strlen\<close> of a buffer without a NUL leaves the buffer.\<close>

definition hash_cstr :: "sha256_context \<Rightarrow> bytes option \<Rightarrow> sha256_context option" where
  "hash_cstr hash val =
    (let safe_value = (case val of Some v \<Rightarrow> v | None \<Rightarrow> [0])
     in if terminated safe_value then sha256_update hash (take (length (cstr safe_value) + 1) safe_value)
        else None)"

definition hash_u32 :: "sha256_context \<Rightarrow> u32 \<Rightarrow> sha256_context option" where
  "hash_u32 hash val = do {
     hash \<leftarrow> hash_byte hash (ucast (val AND 0xFF));
     hash \<leftarrow> hash_byte hash (ucast (drop_bit 8 val AND 0xFF));
     hash \<leftarrow> hash_byte hash (ucast (drop_bit 16 val AND 0xFF));
     hash_byte hash (ucast (drop_bit 24 val AND 0xFF))
   }"

definition RELAY_POLICY_ID_MAX :: nat where "RELAY_POLICY_ID_MAX = 33"

text \<open>The loop that prints the digest, two characters and a NUL at a time.\<close>

fun print_digest :: "bytes \<Rightarrow> nat \<Rightarrow> nat list \<Rightarrow> bytes \<Rightarrow> bytes option" where
  "print_digest digest out_size [] out = Some out"
| "print_digest digest out_size (index # indices) out = do {
     out \<leftarrow> snprintf_at out (index * 2) (out_size - index * 2) (hex2 (digest ! index));
     print_digest digest out_size indices out
   }"

text \<open>
  The hash context is an uninitialised local of the code; \<open>sha256_fresh\<close> stands for it, since
  \<open>sha256_init\<close> sets all the digest depends on.
\<close>

definition relay_policy_build_id ::
  "ancs_notification option \<Rightarrow> u32 \<Rightarrow> bytes option \<Rightarrow> nat \<Rightarrow> (bytes option \<times> esp_err) option" where
  "relay_policy_build_id notification boot_nonce out out_size =
    (case (notification, out) of
       (Some n, Some buf) \<Rightarrow>
         if out_size < RELAY_POLICY_ID_MAX then Some (out, ESP_ERR_INVALID_ARG)
         else do {
           let hash = sha256_init sha256_fresh;
           hash \<leftarrow> hash_u32 hash boot_nonce;
           hash \<leftarrow> hash_u32 hash (n_session_id n);
           hash \<leftarrow> hash_u32 hash (n_uid n);
           hash \<leftarrow> hash_u32 hash (ucast (n_event_id n));
           hash \<leftarrow> hash_cstr hash (Some (n_app_id n));
           hash \<leftarrow> hash_cstr hash (Some (n_title n));
           hash \<leftarrow> hash_cstr hash (Some (n_subtitle n));
           hash \<leftarrow> hash_cstr hash (Some (n_message n));
           hash \<leftarrow> hash_cstr hash (Some (n_date_raw n));
           digest \<leftarrow> sha256_finish hash;
           buf \<leftarrow> print_digest digest out_size [0..<16] buf;
           buf \<leftarrow> store buf 32 0;
           Some (Some buf, ESP_OK)
         }
     | _ \<Rightarrow> Some (out, ESP_ERR_INVALID_ARG))"

section \<open>The recent identifiers\<close>

definition RELAY_POLICY_RECENT_CAPACITY :: nat where "RELAY_POLICY_RECENT_CAPACITY = 8"

record relay_recent_cache =
  rc_relay_ids :: "bytes list"
  rc_next_index :: nat
  rc_count :: nat

definition recent_cache_zero :: relay_recent_cache where
  "recent_cache_zero = \<lparr>rc_relay_ids = replicate RELAY_POLICY_RECENT_CAPACITY (replicate RELAY_POLICY_ID_MAX 0),
     rc_next_index = 0, rc_count = 0\<rparr>"

definition relay_policy_recent_cache_init :: "relay_recent_cache option \<Rightarrow> relay_recent_cache option" where
  "relay_policy_recent_cache_init cache = map_option (\<lambda>_. recent_cache_zero) cache"

fun contains_loop :: "bytes list \<Rightarrow> bytes \<Rightarrow> nat list \<Rightarrow> bool option" where
  "contains_loop ids relay_id [] = Some False"
| "contains_loop ids relay_id (index # indices) = do {
     entry \<leftarrow> load ids index;
     if cstr entry = cstr relay_id then Some True else contains_loop ids relay_id indices
   }"

definition recent_cache_contains :: "relay_recent_cache option \<Rightarrow> bytes option \<Rightarrow> bool option" where
  "recent_cache_contains cache relay_id =
    (case (cache, relay_id) of
       (Some c, Some rid) \<Rightarrow> contains_loop (rc_relay_ids c) rid [0..<rc_count c]
     | _ \<Rightarrow> Some False)"

definition recent_cache_store ::
  "relay_recent_cache option \<Rightarrow> bytes option \<Rightarrow> relay_recent_cache option option" where
  "recent_cache_store cache relay_id =
    (case (cache, relay_id) of
       (Some c, Some rid) \<Rightarrow> do {
         let index = rc_next_index c mod RELAY_POLICY_RECENT_CAPACITY;
         entry \<leftarrow> load (rc_relay_ids c) index;
         ids \<leftarrow> store (rc_relay_ids c) index (strlcpy entry rid);
         Some (Some (c\<lparr>rc_relay_ids := ids,
                      rc_next_index := (index + 1) mod RELAY_POLICY_RECENT_CAPACITY,
                      rc_count := if rc_count c < RELAY_POLICY_RECENT_CAPACITY
                                  then rc_count c + 1 else rc_count c\<rparr>))
       }
     | _ \<Rightarrow> Some cache)"

definition relay_policy_mark_recent ::
  "relay_recent_cache option \<Rightarrow> bytes option \<Rightarrow> relay_recent_cache option option" where
  "relay_policy_mark_recent cache relay_id = recent_cache_store cache relay_id"

section \<open>Decisions\<close>

datatype relay_decision =
    RELAY_PUBLISH | RELAY_DROP_PRE_EXISTING | RELAY_DROP_OFFLINE | RELAY_DROP_ECHO
  | RELAY_DROP_DUPLICATE | RELAY_DROP_INCOMPLETE | RELAY_DROP_INVALID | RELAY_DROP_EVENT

record relay_connectivity =
  c_wifi_connected :: bool
  c_mqtt_connected :: bool
  c_boot_nonce :: u32

definition HA_APP_ID :: bytes where
  "HA_APP_ID = cs ''io.robbie.HomeAssistant''"

definition is_home_assistant_notification :: "ancs_notification \<Rightarrow> bool" where
  "is_home_assistant_notification n \<longleftrightarrow> cstr (n_app_id n) = HA_APP_ID"

definition relay_policy_decide ::
  "ancs_notification option \<Rightarrow> relay_connectivity \<Rightarrow> relay_recent_cache option \<Rightarrow> relay_decision option" where
  "relay_policy_decide notification connectivity cache =
    (case notification of
       None \<Rightarrow> Some RELAY_DROP_INVALID
     | Some n \<Rightarrow>
         if n_app_id n ! 0 = 0 then Some RELAY_DROP_INVALID
         else if n_event_id n \<noteq> 0 \<and> n_event_id n \<noteq> 1 then Some RELAY_DROP_EVENT
         else if \<not> n_complete n then Some RELAY_DROP_INCOMPLETE
         else if ancs_event_flag_is_set (n_event_flags n) ANCS_EVENT_FLAG_PRE_EXISTING
         then Some RELAY_DROP_PRE_EXISTING
         else if \<not> c_wifi_connected connectivity \<or> \<not> c_mqtt_connected connectivity
         then Some RELAY_DROP_OFFLINE
         else if is_home_assistant_notification n then Some RELAY_DROP_ECHO
         else (case cache of
             None \<Rightarrow> Some RELAY_PUBLISH
           | Some c \<Rightarrow> do {
               (relay_id, err) \<leftarrow> relay_policy_build_id notification (c_boot_nonce connectivity)
                                   (Some (replicate RELAY_POLICY_ID_MAX 0)) RELAY_POLICY_ID_MAX;
               if err \<noteq> ESP_OK then Some RELAY_DROP_INVALID
               else do {
                 recent \<leftarrow> recent_cache_contains cache relay_id;
                 Some (if recent then RELAY_DROP_DUPLICATE else RELAY_PUBLISH)
               }
             }))"

section \<open>Counters and names\<close>

record relay_policy_counters =
  k_published :: u32
  k_drop_pre_existing :: u32
  k_drop_offline :: u32
  k_drop_echo :: u32
  k_drop_duplicate :: u32
  k_drop_incomplete :: u32
  k_drop_invalid :: u32
  k_drop_event :: u32

definition counters_zero :: relay_policy_counters where
  "counters_zero = \<lparr>k_published = 0, k_drop_pre_existing = 0, k_drop_offline = 0, k_drop_echo = 0,
     k_drop_duplicate = 0, k_drop_incomplete = 0, k_drop_invalid = 0, k_drop_event = 0\<rparr>"

definition relay_policy_counters_init :: "relay_policy_counters option \<Rightarrow> relay_policy_counters option" where
  "relay_policy_counters_init counters = map_option (\<lambda>_. counters_zero) counters"

fun counters_record :: "relay_policy_counters \<Rightarrow> relay_decision \<Rightarrow> relay_policy_counters" where
  "counters_record k RELAY_PUBLISH = k\<lparr>k_published := k_published k + 1\<rparr>"
| "counters_record k RELAY_DROP_PRE_EXISTING = k\<lparr>k_drop_pre_existing := k_drop_pre_existing k + 1\<rparr>"
| "counters_record k RELAY_DROP_OFFLINE = k\<lparr>k_drop_offline := k_drop_offline k + 1\<rparr>"
| "counters_record k RELAY_DROP_ECHO = k\<lparr>k_drop_echo := k_drop_echo k + 1\<rparr>"
| "counters_record k RELAY_DROP_DUPLICATE = k\<lparr>k_drop_duplicate := k_drop_duplicate k + 1\<rparr>"
| "counters_record k RELAY_DROP_INCOMPLETE = k\<lparr>k_drop_incomplete := k_drop_incomplete k + 1\<rparr>"
| "counters_record k RELAY_DROP_INVALID = k\<lparr>k_drop_invalid := k_drop_invalid k + 1\<rparr>"
| "counters_record k RELAY_DROP_EVENT = k\<lparr>k_drop_event := k_drop_event k + 1\<rparr>"

definition relay_policy_counters_record ::
  "relay_policy_counters option \<Rightarrow> relay_decision \<Rightarrow> relay_policy_counters option" where
  "relay_policy_counters_record counters decision = map_option (\<lambda>k. counters_record k decision) counters"

fun relay_policy_decision_name :: "relay_decision \<Rightarrow> string" where
  "relay_policy_decision_name RELAY_PUBLISH = ''publish''"
| "relay_policy_decision_name RELAY_DROP_PRE_EXISTING = ''drop_pre_existing''"
| "relay_policy_decision_name RELAY_DROP_OFFLINE = ''drop_offline''"
| "relay_policy_decision_name RELAY_DROP_ECHO = ''drop_echo''"
| "relay_policy_decision_name RELAY_DROP_DUPLICATE = ''drop_duplicate''"
| "relay_policy_decision_name RELAY_DROP_INCOMPLETE = ''drop_incomplete''"
| "relay_policy_decision_name RELAY_DROP_INVALID = ''drop_invalid''"
| "relay_policy_decision_name RELAY_DROP_EVENT = ''drop_event''"

section \<open>What an identifier is made from\<close>

definition id_message :: "u32 \<Rightarrow> ancs_notification \<Rightarrow> bytes" where
  "id_message boot_nonce n =
     le32 boot_nonce @ le32 (n_session_id n) @ le32 (n_uid n) @ le32 (ucast (n_event_id n)) @
     concat (map (\<lambda>t. cstr t @ [0])
       [n_app_id n, n_title n, n_subtitle n, n_message n, n_date_raw n])"

definition id_text :: "u32 \<Rightarrow> ancs_notification \<Rightarrow> bytes" where
  "id_text boot_nonce n = concat (map hex2 (take 16 (fips_sha256 (id_message boot_nonce n))))"

text \<open>Feeding a context that has taken a message, as one step of a sequence.\<close>

definition counts :: "sha256_context \<Rightarrow> bytes \<Rightarrow> bool" where
  "counts h m \<longleftrightarrow> has_taken h m \<and> sha_bit_count h = of_nat (8 * length m)"

lemma update_counts:
  "counts h m \<Longrightarrow> \<exists>h'. sha256_update h data = Some h' \<and> counts h' (m @ data)"
  using sha256_update_taken [of h m data] by (auto simp: counts_def algebra_simps)

lemma hash_u32_counts:
  assumes "counts h m"
  shows "\<exists>h'. hash_u32 h v = Some h' \<and> counts h' (m @ le32 v)"
proof -
  obtain h1 where 1: "sha256_update h [ucast v] = Some h1" "counts h1 (m @ [ucast v])"
    using update_counts [OF assms] by blast
  obtain h2 where 2: "sha256_update h1 [ucast (drop_bit 8 v)] = Some h2"
      "counts h2 ((m @ [ucast v]) @ [ucast (drop_bit 8 v)])"
    using update_counts [OF 1(2)] by blast
  obtain h3 where 3: "sha256_update h2 [ucast (drop_bit 16 v)] = Some h3"
      "counts h3 (((m @ [ucast v]) @ [ucast (drop_bit 8 v)]) @ [ucast (drop_bit 16 v)])"
    using update_counts [OF 2(2)] by blast
  obtain h4 where 4: "sha256_update h3 [ucast (drop_bit 24 v)] = Some h4"
      "counts h4 ((((m @ [ucast v]) @ [ucast (drop_bit 8 v)]) @ [ucast (drop_bit 16 v)]) @ [ucast (drop_bit 24 v)])"
    using update_counts [OF 3(2)] by blast
  show ?thesis
    using 1(1) 2(1) 3(1) 4 by (simp add: hash_u32_def hash_byte_def ucast_and_255 le32_def)
qed

lemma take_string: "terminated v \<Longrightarrow> take (Suc (length (cstr v))) v = cstr v @ [0]"
  unfolding terminated_def by (induction v) auto

lemma hash_cstr_counts:
  assumes "counts h m" "terminated v"
  shows "\<exists>h'. hash_cstr h (Some v) = Some h' \<and> counts h' (m @ cstr v @ [0])"
  using update_counts [OF assms(1), of "cstr v @ [0]"] assms(2)
  by (simp add: hash_cstr_def take_string)

lemma length_fips_sha256: "length (fips_sha256 m) = 32"
  by (simp add: fips_sha256_def working_list_def store_be32_def split: prod.split)

lemma print_digest_from:
  assumes "k \<le> 16" "indices = [k..<16]" "33 \<le> out_size" "out_size \<le> length out"
    "length digest = 32"
  shows "\<exists>out'. print_digest digest out_size indices out = Some out' \<and> length out' = length out \<and>
    take 32 out' = take (2 * k) out @ concat (map hex2 (map ((!) digest) indices))"
  using assms
proof (induction indices arbitrary: k out)
  case Nil
  then have "k = 16" using upt_eq_Nil_conv [of k 16] by simp
  then show ?case by simp
next
  case (Cons index indices)
  then have "[k..<16] = index # indices" by simp
  then have k: "index = k" "k < 16" "indices = [Suc k..<16]"
    by (auto simp: upt_eq_Cons_conv)
  let ?out = "take (2 * k) out @ hex2 (digest ! k) @ 0 # drop (2 * k + 3) out"
  have s: "snprintf_at out (index * 2) (out_size - index * 2) (hex2 (digest ! index)) = Some ?out"
    using Cons.prems k by (subst snprintf_fits) (auto simp: mult.commute numeral_eq_Suc)
  have len: "length ?out = length out" using Cons.prems k by simp
  have t: "take (2 * Suc k) ?out = take (2 * k) out @ hex2 (digest ! k)" using Cons.prems k by simp
  have "\<exists>out'. print_digest digest out_size indices ?out = Some out' \<and> length out' = length ?out \<and>
      take 32 out' = take (2 * Suc k) ?out @ concat (map hex2 (map ((!) digest) indices))"
    by (rule Cons.IH) (use Cons.prems(3-5) k len in auto)
  then show ?case unfolding t len using s k(1) by auto
qed

lemma cstr_hex: "0 \<notin> set (concat (map hex2 ds))"
  using hex2_nonzero by auto

lemma relay_policy_build_id_eq:
  assumes "notification_ok cfg n" "33 \<le> out_size" "length out = out_size"
  shows "\<exists>out'. relay_policy_build_id (Some n) nonce (Some out) out_size = Some (Some out', ESP_OK)
    \<and> cstr out' = id_text nonce n \<and> length out' = out_size"
proof -
  have t: "terminated (n_app_id n)" "terminated (n_title n)" "terminated (n_subtitle n)"
    "terminated (n_message n)" "terminated (n_date_raw n)"
    using assms(1) by (auto simp: notification_ok_def intro: nul_buffer_terminated)
  have c0: "counts (sha256_init sha256_fresh) []"
    unfolding counts_def by (intro conjI sha256_init_taken) (simp_all add: sha256_fresh_def)
  obtain h1 where 1: "hash_u32 (sha256_init sha256_fresh) nonce = Some h1" "counts h1 ([] @ le32 nonce)"
    using hash_u32_counts [OF c0] by blast
  obtain h2 where 2: "hash_u32 h1 (n_session_id n) = Some h2" "counts h2 (([] @ le32 nonce) @ le32 (n_session_id n))"
    using hash_u32_counts [OF 1(2)] by blast
  obtain h3 where 3: "hash_u32 h2 (n_uid n) = Some h3" "counts h3 ((([] @ le32 nonce) @ le32 (n_session_id n)) @ le32 (n_uid n))"
    using hash_u32_counts [OF 2(2)] by blast
  obtain h4 where 4: "hash_u32 h3 (ucast (n_event_id n)) = Some h4"
      "counts h4 (((([] @ le32 nonce) @ le32 (n_session_id n)) @ le32 (n_uid n)) @ le32 (ucast (n_event_id n)))"
    using hash_u32_counts [OF 3(2)] by blast
  obtain h5 where 5: "hash_cstr h4 (Some (n_app_id n)) = Some h5" "counts h5 ((((([] @ le32 nonce) @ le32 (n_session_id n)) @ le32 (n_uid n)) @ le32 (ucast (n_event_id n))) @ cstr (n_app_id n) @ [0])"
    using hash_cstr_counts [OF 4(2) t(1)] by blast
  obtain h6 where 6: "hash_cstr h5 (Some (n_title n)) = Some h6" "counts h6 (((((([] @ le32 nonce) @ le32 (n_session_id n)) @ le32 (n_uid n)) @ le32 (ucast (n_event_id n))) @ cstr (n_app_id n) @ [0]) @ cstr (n_title n) @ [0])"
    using hash_cstr_counts [OF 5(2) t(2)] by blast
  obtain h7 where 7: "hash_cstr h6 (Some (n_subtitle n)) = Some h7" "counts h7 ((((((([] @ le32 nonce) @ le32 (n_session_id n)) @ le32 (n_uid n)) @ le32 (ucast (n_event_id n))) @ cstr (n_app_id n) @ [0]) @ cstr (n_title n) @ [0]) @ cstr (n_subtitle n) @ [0])"
    using hash_cstr_counts [OF 6(2) t(3)] by blast
  obtain h8 where 8: "hash_cstr h7 (Some (n_message n)) = Some h8" "counts h8 (((((((([] @ le32 nonce) @ le32 (n_session_id n)) @ le32 (n_uid n)) @ le32 (ucast (n_event_id n))) @ cstr (n_app_id n) @ [0]) @ cstr (n_title n) @ [0]) @ cstr (n_subtitle n) @ [0]) @ cstr (n_message n) @ [0])"
    using hash_cstr_counts [OF 7(2) t(4)] by blast
  obtain h9 where 9: "hash_cstr h8 (Some (n_date_raw n)) = Some h9" "counts h9 (id_message nonce n)"
    using hash_cstr_counts [OF 8(2) t(5)] by (auto simp: id_message_def)
  then have fin: "sha256_finish h9 = Some (fips_sha256 (id_message nonce n))"
    by (simp add: counts_def sha256_finish_taken)
  let ?d = "fips_sha256 (id_message nonce n)"
  have d16: "map ((!) ?d) [0..<16] = take 16 ?d"
    by (rule nth_equalityI) (simp_all add: length_fips_sha256)
  obtain out' where p: "print_digest ?d out_size [0..<16] out = Some out'" "length out' = out_size"
      "take 32 out' = id_text nonce n"
    using print_digest_from [of 0 "[0..<16]" out_size out ?d] assms(2,3) d16
    by (auto simp: length_fips_sha256 id_text_def)
  have "cstr (out'[32 := 0]) = cstr (take 32 (out'[32 := 0]))"
    using p(2) assms(2) by (intro cstr_take_nul) simp_all
  then have "cstr (out'[32 := 0]) = id_text nonce n"
    using p(3) cstr_hex [of "take 16 ?d"] by (simp add: id_text_def)
  then show ?thesis
    using 1(1) 2(1) 3(1) 4(1) 5(1) 6(1) 7(1) 8(1) 9(1) fin p assms(2)
    by (simp add: relay_policy_build_id_def RELAY_POLICY_ID_MAX_def Let_def)
qed

lemma string_split:
  assumes "s @ 0 # r = t @ 0 # r'" "0 \<notin> set s" "0 \<notin> set (t :: bytes)"
  shows "s = t \<and> r = r'"
  using assms
proof (induction s arbitrary: t)
  case Nil
  then show ?case by (cases t) auto
next
  case (Cons b s)
  then show ?case by (cases t) auto
qed

lemma cstr_split: "cstr a @ 0 # r = cstr b @ 0 # r' \<longleftrightarrow> cstr a = cstr b \<and> r = r'"
  using string_split [OF _ cstr_no_nul cstr_no_nul] by blast

text \<open>
  an identifier is the first 32 hexadecimal digits of the SHA-256 of a message that names the
  notification without ambiguity: two messages are equal only for the same boot, session,
  notification, event and five texts.
\<close>

theorem relay_id_message_injective:
  "id_message b1 n1 = id_message b2 n2 \<longleftrightarrow>
     b1 = b2 \<and> n_session_id n1 = n_session_id n2 \<and> n_uid n1 = n_uid n2 \<and>
     n_event_id n1 = n_event_id n2 \<and> cstr (n_app_id n1) = cstr (n_app_id n2) \<and>
     cstr (n_title n1) = cstr (n_title n2) \<and> cstr (n_subtitle n1) = cstr (n_subtitle n2) \<and>
     cstr (n_message n1) = cstr (n_message n2) \<and> cstr (n_date_raw n1) = cstr (n_date_raw n2)"
proof -
  have "ucast (ucast a :: u32) = a" for a :: u8
    by (rule bit_word_eqI) (simp add: bit_simps)
  then have u: "(ucast a :: u32) = ucast b \<longleftrightarrow> a = b" for a b :: u8 by metis
  have "id_message b1 n1 = id_message b2 n2 \<longleftrightarrow>
    le32 b1 = le32 b2 \<and> le32 (n_session_id n1) = le32 (n_session_id n2) \<and>
    le32 (n_uid n1) = le32 (n_uid n2) \<and>
    le32 (ucast (n_event_id n1)) = le32 (ucast (n_event_id n2)) \<and>
    cstr (n_app_id n1) = cstr (n_app_id n2) \<and>
    cstr (n_title n1) = cstr (n_title n2) \<and> cstr (n_subtitle n1) = cstr (n_subtitle n2) \<and>
    cstr (n_message n1) = cstr (n_message n2) \<and> cstr (n_date_raw n1) = cstr (n_date_raw n2)"
    by (simp add: id_message_def cstr_split del: le32_inject)
  then show ?thesis by (simp only: le32_inject u)
qed

text \<open>
  Building an identifier never fails for a well-formed notification and a buffer of the right
  size: it writes \<open>id_text\<close>, which is 32 lower case hexadecimal digits, with a NUL after it.
\<close>

theorem relay_policy_build_id_text:
  assumes "notification_ok cfg n" "33 \<le> length out"
  shows "\<exists>out'. relay_policy_build_id (Some n) nonce (Some out) (length out) = Some (Some out', ESP_OK)
    \<and> cstr out' = id_text nonce n \<and> length (id_text nonce n) = 32
    \<and> set (id_text nonce n) \<subseteq> set (cs ''0123456789abcdef'')"
proof -
  have len: "length (concat (map hex2 ds)) = 2 * length ds" for ds
    by (induction ds) auto
  have dig: "hex_digit d \<in> set (cs ''0123456789abcdef'')" if "d < 16" for d
  proof -
    have "unat d \<in> set [0..<16]" using that by (simp add: word_less_nat_alt)
    then show ?thesis
      by (auto simp: hex_digit_def word_unat_eq_iff word_less_nat_alt unat_word_ariths)
  qed
  have "set (hex2 b) \<subseteq> set (cs ''0123456789abcdef'')" for b
    using dig [OF nibbles_less(1)] dig [OF nibbles_less(2)] by (simp add: hex2_def)
  then have "set (id_text nonce n) \<subseteq> set (cs ''0123456789abcdef'')"
    unfolding id_text_def by fastforce
  then show ?thesis
    using relay_policy_build_id_eq [OF assms refl, of nonce] len
    by (auto simp: id_text_def length_fips_sha256)
qed

theorem relay_policy_build_id_text_witness:
  "\<exists>out'. relay_policy_build_id (Some (notification_zero default_config)) 7
      (Some (replicate 33 0)) 33 = Some (Some out', ESP_OK) \<and> length (cstr out') = 32"
proof -
  have "notification_ok default_config (notification_zero default_config)"
    by (simp add: notification_ok_def nul_buffer_def notification_zero_def default_config_def nth_Cons')
  from relay_policy_build_id_text [OF this, of "replicate 33 0" 7] show ?thesis by auto
qed

section \<open>The ring of recent identifiers\<close>

definition cache_ok :: "relay_recent_cache \<Rightarrow> bool" where
  "cache_ok c \<longleftrightarrow> length (rc_relay_ids c) = 8 \<and> (\<forall>e\<in>set (rc_relay_ids c). length e = 33) \<and>
     rc_count c \<le> 8 \<and> rc_next_index c < 8 \<and> (rc_count c < 8 \<longrightarrow> rc_next_index c = rc_count c)"

text \<open>The ring as a list, oldest first.\<close>

definition recent_list :: "relay_recent_cache \<Rightarrow> bytes list" where
  "recent_list c = map cstr
     (if rc_count c < 8 then take (rc_count c) (rc_relay_ids c)
      else drop (rc_next_index c) (rc_relay_ids c) @ take (rc_next_index c) (rc_relay_ids c))"

definition last8 :: "'a list \<Rightarrow> 'a list" where
  "last8 l = drop (length l - 8) l"

definition mark_id :: "relay_recent_cache \<Rightarrow> bytes \<Rightarrow> relay_recent_cache" where
  "mark_id c rid = (case relay_policy_mark_recent (Some c) (Some rid) of Some (Some c') \<Rightarrow> c' | _ \<Rightarrow> c)"

lemma recent_cache_zero_ok [simp]: "cache_ok recent_cache_zero" "recent_list recent_cache_zero = []"
  by (simp_all add: cache_ok_def recent_list_def recent_cache_zero_def RELAY_POLICY_RECENT_CAPACITY_def
      RELAY_POLICY_ID_MAX_def)

lemma mark_id_eq:
  assumes "cache_ok c"
  shows "relay_policy_mark_recent (Some c) (Some rid) = Some (Some (mark_id c rid))"
    "mark_id c rid = c\<lparr>rc_relay_ids := (rc_relay_ids c)[rc_next_index c :=
         strlcpy (rc_relay_ids c ! rc_next_index c) rid],
       rc_next_index := (rc_next_index c + 1) mod 8,
       rc_count := if rc_count c < 8 then rc_count c + 1 else rc_count c\<rparr>"
  using assms by (simp_all add: mark_id_def relay_policy_mark_recent_def recent_cache_store_def
      cache_ok_def RELAY_POLICY_RECENT_CAPACITY_def Let_def)

lemma mark_id_ok: "cache_ok c \<Longrightarrow> cache_ok (mark_id c rid)"
  by (auto simp: mark_id_eq cache_ok_def dest!: set_update_subset_insert [THEN subsetD])

lemma recent_list_mark:
  assumes ok: "cache_ok c"
  shows "recent_list (mark_id c rid) = last8 (recent_list c @ [take 32 (cstr rid)])"
proof -
  let ?L = "rc_relay_ids c" and ?i = "rc_next_index c"
  let ?x = "strlcpy (?L ! ?i) rid"
  have len: "length ?L = 8" "?i < 8" using ok by (simp_all add: cache_ok_def)
  then have "length (?L ! ?i) = 33" using ok by (simp add: cache_ok_def)
  then have x: "cstr ?x = take 32 (cstr rid)" by (subst cstr_strlcpy) auto
  have t: "take (Suc ?i) (?L[?i := ?x]) = take ?i ?L @ [?x]"
    using len by (simp add: take_Suc_conv_app_nth)
  consider "rc_count c < 7" | "rc_count c = 7" | "rc_count c = 8"
    using ok unfolding cache_ok_def by linarith
  then show ?thesis
  proof cases
    case 1
    with ok have "?i = rc_count c" by (simp add: cache_ok_def)
    with 1 ok t x len show ?thesis
      by (simp add: mark_id_eq recent_list_def last8_def)
  next
    case 2
    with ok have i: "?i = 7" by (simp add: cache_ok_def)
    have "take (Suc ?i) (?L[?i := ?x]) = ?L[?i := ?x]" using i len by simp
    with 2 i ok t x len show ?thesis
      by (simp add: mark_id_eq recent_list_def last8_def)
  next
    case 3
    show ?thesis
    proof (cases "?i = 7")
      case True
      have "take (Suc ?i) (?L[?i := ?x]) = ?L[?i := ?x]" using True len by simp
      moreover have "drop 7 ?L = [?L ! 7]" using len by (simp add: Cons_nth_drop_Suc [symmetric])
      ultimately show ?thesis using 3 True ok t x len
        by (simp add: mark_id_eq recent_list_def last8_def)
    next
      case False
      then have m: "(?i + 1) mod 8 = Suc ?i" using len by simp
      have d: "drop ?i ?L = ?L ! ?i # drop (Suc ?i) ?L" using len by (simp add: Cons_nth_drop_Suc)
      show ?thesis using 3 ok t x len m d
        by (simp add: mark_id_eq recent_list_def last8_def drop_update_cancel)
    qed
  qed
qed

text \<open>Marking keeps the ring well-formed.\<close>

interpretation recents: invariant_machine mark_id cache_ok
  by unfold_locales (rule mark_id_ok)

lemma last8_last8: "last8 (last8 a @ b) = last8 (a @ b)"
  by (cases "length a \<le> 8") (auto simp: last8_def add.commute)

lemma recent_list_marks:
  "cache_ok c \<Longrightarrow> recent_list (foldl mark_id c rids) = last8 (recent_list c @ map (\<lambda>r. take 32 (cstr r)) rids)"
proof (induction rids arbitrary: c)
  case Nil
  have "length (recent_list c) \<le> 8" using Nil by (auto simp: recent_list_def cache_ok_def)
  then show ?case by (simp add: last8_def)
next
  case (Cons r rids)
  from Cons.IH [OF mark_id_ok [OF Cons.prems]] show ?case
    by (simp add: recent_list_mark [OF Cons.prems] last8_last8)
qed

lemma contains_loop_eq:
  "k \<le> n \<Longrightarrow> n \<le> length ids \<Longrightarrow>
   contains_loop ids rid [k..<n] = Some (\<exists>j\<in>{k..<n}. cstr (ids ! j) = cstr rid)"
proof (induction "n - k" arbitrary: k)
  case 0
  then show ?case by simp
next
  case (Suc m)
  then have k: "k < n" "m = n - Suc k" "Suc k \<le> n" by simp_all
  have "{k..<n} = insert k {Suc k..<n}" using k by auto
  with Suc.hyps(1) [OF k(2,3) Suc.prems(2)] k Suc.prems show ?case
    by (simp add: upt_conv_Cons)
qed

lemma set_recent_list:
  assumes "cache_ok c"
  shows "set (recent_list c) = cstr ` set (take (rc_count c) (rc_relay_ids c))"
proof (cases "rc_count c < 8")
  case False
  with assms have "take (rc_count c) (rc_relay_ids c) = rc_relay_ids c" by (simp add: cache_ok_def)
  with False show ?thesis
    by (simp add: recent_list_def) (metis Un_commute append_take_drop_id image_Un set_append)
qed (simp add: recent_list_def)

lemma recent_cache_contains_eq:
  assumes "cache_ok c"
  shows "recent_cache_contains (Some c) (Some rid) = Some (cstr rid \<in> set (recent_list c))"
proof -
  have "rc_count c \<le> length (rc_relay_ids c)" using assms by (simp add: cache_ok_def)
  then show ?thesis
    using contains_loop_eq [of 0 "rc_count c" "rc_relay_ids c" rid]
    by (simp add: recent_cache_contains_def set_recent_list [OF assms] nth_image [symmetric] image_iff
        eq_commute [of "cstr rid"])
qed

section \<open>Results on decisions\<close>

lemma app_id_empty: "notification_ok cfg n \<Longrightarrow> n_app_id n ! 0 = 0 \<longleftrightarrow> cstr (n_app_id n) = []"
  by (cases "n_app_id n") (auto simp: notification_ok_def nul_buffer_def)

lemma pre_existing_flag:
  "ancs_event_flag_is_set flags ANCS_EVENT_FLAG_PRE_EXISTING \<longleftrightarrow> bit flags 2"
proof -
  have "ucast (push_bit 2 1 :: u32) = (push_bit 2 1 :: u8)" by simp
  then show ?thesis
    using and_push_bit_1_eq_0 [of flags 2] by (simp only: ancs_event_flag_is_set_def event_flag_value.simps) simp
qed

text \<open>All reasons against a notification but the identifier, in the order the code looks at them.\<close>

definition drop_reason :: "ancs_notification \<Rightarrow> relay_connectivity \<Rightarrow> relay_decision option" where
  "drop_reason n conn =
    (if cstr (n_app_id n) = [] then Some RELAY_DROP_INVALID
     else if n_event_id n \<notin> {0, 1} then Some RELAY_DROP_EVENT
     else if \<not> n_complete n then Some RELAY_DROP_INCOMPLETE
     else if bit (n_event_flags n) 2 then Some RELAY_DROP_PRE_EXISTING
     else if \<not> (c_wifi_connected conn \<and> c_mqtt_connected conn) then Some RELAY_DROP_OFFLINE
     else if cstr (n_app_id n) = cs ''io.robbie.HomeAssistant'' then Some RELAY_DROP_ECHO
     else None)"

lemma relay_policy_decide_eq:
  assumes "notification_ok cfg n" "cache_ok c"
  shows "relay_policy_decide (Some n) conn (Some c) = Some
    (case drop_reason n conn of
       Some reason \<Rightarrow> reason
     | None \<Rightarrow> if id_text (c_boot_nonce conn) n \<in> set (recent_list c)
             then RELAY_DROP_DUPLICATE else RELAY_PUBLISH)"
proof -
  obtain out where "relay_policy_build_id (Some n) (c_boot_nonce conn) (Some (replicate RELAY_POLICY_ID_MAX 0))
      RELAY_POLICY_ID_MAX = Some (Some out, ESP_OK)" "cstr out = id_text (c_boot_nonce conn) n"
    using relay_policy_build_id_eq [OF assms(1), of 33 "replicate 33 0" "c_boot_nonce conn"]
    by (auto simp: RELAY_POLICY_ID_MAX_def)
  then show ?thesis
    using recent_cache_contains_eq [OF assms(2), of out]
    by (simp add: relay_policy_decide_def drop_reason_def app_id_empty [OF assms(1)] pre_existing_flag
        is_home_assistant_notification_def HA_APP_ID_def)
qed

text \<open>
  C13: what is published. A well-formed notification is published exactly when it has an
  application other than Home Assistant itself, was added or modified, is complete and new, the
  gateway is online, and its identifier is not in the recent ones; the decision is always reached
  without an access outside a buffer.
\<close>

theorem relay_publish_iff:
  assumes "notification_ok cfg n" "cache_ok c"
  shows "relay_policy_decide (Some n) conn (Some c) \<noteq> None \<and>
    (relay_policy_decide (Some n) conn (Some c) = Some RELAY_PUBLISH \<longleftrightarrow>
       cstr (n_app_id n) \<noteq> [] \<and> cstr (n_app_id n) \<noteq> cs ''io.robbie.HomeAssistant'' \<and>
       (n_event_id n = 0 \<or> n_event_id n = 1) \<and> n_complete n \<and> \<not> bit (n_event_flags n) 2 \<and>
       c_wifi_connected conn \<and> c_mqtt_connected conn \<and>
       id_text (c_boot_nonce conn) n \<notin> set (recent_list c))"
  unfolding relay_policy_decide_eq [OF assms] by (auto simp: drop_reason_def)

definition sample_notification :: ancs_notification where
  "sample_notification = (notification_zero default_config)\<lparr>n_app_id := 97 # 0 # replicate 255 0, n_complete := True\<rparr>"

lemma sample_notification_ok: "notification_ok default_config sample_notification"
  by (simp add: sample_notification_def notification_ok_def nul_buffer_def notification_zero_def
      default_config_def nth_Cons')

theorem relay_publish_iff_witness:
  "relay_policy_decide (Some sample_notification) \<lparr>c_wifi_connected = True, c_mqtt_connected = True, c_boot_nonce = 7\<rparr>
     (Some recent_cache_zero) = Some RELAY_PUBLISH"
  using relay_publish_iff [OF sample_notification_ok, of recent_cache_zero
      "\<lparr>c_wifi_connected = True, c_mqtt_connected = True, c_boot_nonce = 7\<rparr>"]
  by (simp add: sample_notification_def notification_zero_def)

text \<open>
  C12: no duplicates. Once the identifier of a notification has been marked, the notification is
  not published again in the same boot before eight more identifiers have been marked.
\<close>

theorem no_duplicate_publish:
  assumes "notification_ok cfg n" "cache_ok c" "length later < 8"
    and "c_boot_nonce conn = nonce" "cstr rid = id_text nonce n"
  shows "\<exists>d. relay_policy_decide (Some n) conn (Some (foldl mark_id (mark_id c rid) later)) = Some d
    \<and> d \<noteq> RELAY_PUBLISH"
proof -
  have ok: "cache_ok (foldl mark_id (mark_id c rid) later)"
    by (rule recents.inv_run [OF mark_id_ok [OF assms(2)]])
  have "length (concat (map hex2 ds)) = 2 * length ds" for ds by (induction ds) auto
  then have "length (id_text nonce n) = 32" by (simp add: id_text_def length_fips_sha256)
  then have "take 32 (cstr rid) = id_text nonce n" using assms(5) by simp
  then have "recent_list (foldl mark_id (mark_id c rid) later) =
      last8 ((recent_list c @ [id_text nonce n]) @ map (\<lambda>r. take 32 (cstr r)) later)"
    using recent_list_marks [OF assms(2), of "rid # later"] by simp
  then have "id_text nonce n \<in> set (recent_list (foldl mark_id (mark_id c rid) later))"
    using assms(3) by (simp add: last8_def)
  then show ?thesis
    unfolding relay_policy_decide_eq [OF assms(1) ok] using assms(4)
    by (auto simp: drop_reason_def)
qed

theorem no_duplicate_publish_witness:
  "\<exists>d. relay_policy_decide (Some sample_notification)
     \<lparr>c_wifi_connected = True, c_mqtt_connected = True, c_boot_nonce = 7\<rparr>
     (Some (foldl mark_id (mark_id recent_cache_zero (id_text 7 sample_notification)) [[0], [1, 0]])) = Some d
   \<and> d \<noteq> RELAY_PUBLISH"
proof -
  have "cstr (id_text 7 sample_notification) = id_text 7 sample_notification"
    unfolding id_text_def by (intro cstr_idem cstr_hex)
  from no_duplicate_publish [OF sample_notification_ok recent_cache_zero_ok(1) _ _ this,
      of "[[0], [1, 0]]" "\<lparr>c_wifi_connected = True, c_mqtt_connected = True, c_boot_nonce = 7\<rparr>"]
  show ?thesis by simp
qed

fun counter_of :: "relay_decision \<Rightarrow> relay_policy_counters \<Rightarrow> u32" where
  "counter_of RELAY_PUBLISH k = k_published k"
| "counter_of RELAY_DROP_PRE_EXISTING k = k_drop_pre_existing k"
| "counter_of RELAY_DROP_OFFLINE k = k_drop_offline k"
| "counter_of RELAY_DROP_ECHO k = k_drop_echo k"
| "counter_of RELAY_DROP_DUPLICATE k = k_drop_duplicate k"
| "counter_of RELAY_DROP_INCOMPLETE k = k_drop_incomplete k"
| "counter_of RELAY_DROP_INVALID k = k_drop_invalid k"
| "counter_of RELAY_DROP_EVENT k = k_drop_event k"

lemma counter_record: "counter_of d (counters_record k d') = counter_of d k + (if d = d' then 1 else 0)"
  by (cases d; cases d') simp_all

text \<open>
  The counters: after any sequence of decisions each counter is the number of its decisions,
  modulo 2 to the 32.
\<close>

theorem counters_count_decisions:
  "counter_of d (foldl counters_record counters_zero ds) = of_nat (length (filter ((=) d) ds))"
proof -
  have "counter_of d (foldl counters_record k ds) = counter_of d k + of_nat (length (filter ((=) d) ds))" for k
    by (induction ds arbitrary: k) (auto simp: counter_record)
  moreover have "counter_of d counters_zero = 0" by (cases d) (simp_all add: counters_zero_def)
  ultimately show ?thesis by simp
qed

end
