(* ===== verification/Provision_Config.thy ===== *)
theory Provision_Config
  imports Prelude
begin

text \<open>
  The gateway settings and the rules on them: \<^verbatim>\<open>provision_config_validate\<close>, the merge that keeps
  stored secrets and the redacted status of \<^verbatim>\<open>components/provision_store/provision_store.c\<close>, the
  fingerprint and the password rule of \<^verbatim>\<open>provision_policy.c\<close>.
\<close>

section \<open>The settings\<close>

definition PROVISION_CONFIG_SCHEMA_VERSION :: u32 where "PROVISION_CONFIG_SCHEMA_VERSION = 1"
definition PROVISION_WIFI_SSID_MAX :: nat where "PROVISION_WIFI_SSID_MAX = 32"
definition PROVISION_WIFI_PASSWORD_MAX :: nat where "PROVISION_WIFI_PASSWORD_MAX = 64"
definition PROVISION_MQTT_HOST_MAX :: nat where "PROVISION_MQTT_HOST_MAX = 128"
definition PROVISION_MQTT_USERNAME_MAX :: nat where "PROVISION_MQTT_USERNAME_MAX = 128"
definition PROVISION_MQTT_PASSWORD_MAX :: nat where "PROVISION_MQTT_PASSWORD_MAX = 256"
definition PROVISION_MQTT_CLIENT_ID_MAX :: nat where "PROVISION_MQTT_CLIENT_ID_MAX = 64"
definition PROVISION_MQTT_BASE_TOPIC_MAX :: nat where "PROVISION_MQTT_BASE_TOPIC_MAX = 128"
definition PROVISION_MQTT_CA_MAX :: nat where "PROVISION_MQTT_CA_MAX = 4096"

lemmas provision_limits =
  PROVISION_WIFI_SSID_MAX_def PROVISION_WIFI_PASSWORD_MAX_def PROVISION_MQTT_HOST_MAX_def
  PROVISION_MQTT_USERNAME_MAX_def PROVISION_MQTT_PASSWORD_MAX_def PROVISION_MQTT_CLIENT_ID_MAX_def
  PROVISION_MQTT_BASE_TOPIC_MAX_def PROVISION_MQTT_CA_MAX_def

datatype provision_config_result =
    PROVISION_CONFIG_OK
  | PROVISION_CONFIG_INVALID_ARGUMENT
  | PROVISION_CONFIG_UNSUPPORTED_SCHEMA
  | PROVISION_CONFIG_MISSING_WIFI
  | PROVISION_CONFIG_MISSING_MQTT_HOST
  | PROVISION_CONFIG_INVALID_MQTT_PORT
  | PROVISION_CONFIG_MISSING_MQTT_CLIENT_ID
  | PROVISION_CONFIG_MISSING_MQTT_BASE_TOPIC
  | PROVISION_CONFIG_TLS_CA_REQUIRED

record provision_config =
  schema_version :: u32
  wifi_ssid :: bytes
  wifi_password :: bytes
  mqtt_host :: bytes
  mqtt_port :: u16
  mqtt_username :: bytes
  mqtt_password :: bytes
  mqtt_tls :: bool
  mqtt_ca :: bytes
  mqtt_client_id :: bytes
  mqtt_base_topic :: bytes

record provision_config_status =
  st_wifi_ssid :: bytes
  st_wifi_password_configured :: bool
  st_mqtt_host :: bytes
  st_mqtt_port :: u16
  st_mqtt_username :: bytes
  st_mqtt_password_configured :: bool
  st_mqtt_tls :: bool
  st_mqtt_ca_configured :: bool
  st_mqtt_client_id :: bytes
  st_mqtt_base_topic :: bytes

text \<open>The sizes of the arrays; the C types guarantee them.\<close>

definition config_sizes :: "provision_config \<Rightarrow> bool" where
  "config_sizes c \<longleftrightarrow>
     length (wifi_ssid c) = 33 \<and> length (wifi_password c) = 65 \<and> length (mqtt_host c) = 129 \<and>
     length (mqtt_username c) = 129 \<and> length (mqtt_password c) = 257 \<and> length (mqtt_ca c) = 4097 \<and>
     length (mqtt_client_id c) = 65 \<and> length (mqtt_base_topic c) = 129"

section \<open>Validation\<close>

definition bounded_strlen :: "bytes \<Rightarrow> nat \<Rightarrow> nat" where
  "bounded_strlen v max_len = strnlen v (max_len + 1)"

definition string_field_valid :: "bytes \<Rightarrow> nat \<Rightarrow> bool" where
  "string_field_valid v max_len \<longleftrightarrow> bounded_strlen v max_len \<le> max_len"

text \<open>\<open>value[0] != '\0'\<close>: the text is not empty.\<close>

definition nonempty :: "bytes \<Rightarrow> bool" where
  "nonempty v \<longleftrightarrow> v ! 0 \<noteq> 0"

definition string_field_present :: "bytes \<Rightarrow> nat \<Rightarrow> bool" where
  "string_field_present v max_len \<longleftrightarrow> string_field_valid v max_len \<and> nonempty v"

definition provision_config_validate :: "provision_config option \<Rightarrow> provision_config_result" where
  "provision_config_validate config =
     (case config of None \<Rightarrow> PROVISION_CONFIG_INVALID_ARGUMENT
      | Some c \<Rightarrow>
        if schema_version c \<noteq> 0 \<and> schema_version c \<noteq> PROVISION_CONFIG_SCHEMA_VERSION
        then PROVISION_CONFIG_UNSUPPORTED_SCHEMA
        else if \<not> string_field_present (wifi_ssid c) PROVISION_WIFI_SSID_MAX
        then PROVISION_CONFIG_MISSING_WIFI
        else if \<not> string_field_valid (wifi_password c) PROVISION_WIFI_PASSWORD_MAX \<or>
          \<not> string_field_valid (mqtt_username c) PROVISION_MQTT_USERNAME_MAX \<or>
          \<not> string_field_valid (mqtt_password c) PROVISION_MQTT_PASSWORD_MAX \<or>
          \<not> string_field_valid (mqtt_ca c) PROVISION_MQTT_CA_MAX
        then PROVISION_CONFIG_INVALID_ARGUMENT
        else if \<not> string_field_present (mqtt_host c) PROVISION_MQTT_HOST_MAX
        then PROVISION_CONFIG_MISSING_MQTT_HOST
        else if mqtt_port c = 0 then PROVISION_CONFIG_INVALID_MQTT_PORT
        else if mqtt_tls c \<and> \<not> string_field_present (mqtt_ca c) PROVISION_MQTT_CA_MAX
        then PROVISION_CONFIG_TLS_CA_REQUIRED
        else if \<not> string_field_present (mqtt_client_id c) PROVISION_MQTT_CLIENT_ID_MAX
        then PROVISION_CONFIG_MISSING_MQTT_CLIENT_ID
        else if \<not> string_field_present (mqtt_base_topic c) PROVISION_MQTT_BASE_TOPIC_MAX
        then PROVISION_CONFIG_MISSING_MQTT_BASE_TOPIC
        else PROVISION_CONFIG_OK)"

section \<open>Merging an update into the stored settings\<close>

text \<open>
  The result comes with the new contents of \<open>*out\<close>. The portal passes the same object as \<open>update\<close>
  and \<open>out\<close>; the first assignment then changes nothing, and \<open>update\<close> is not read again.
\<close>

definition merge_secrets :: "provision_config \<Rightarrow> provision_config \<Rightarrow> provision_config" where
  "merge_secrets existing update =
    (let out = update;
         out = (if schema_version out = 0
                then out\<lparr>schema_version := PROVISION_CONFIG_SCHEMA_VERSION\<rparr> else out);
         out = (if \<not> nonempty (wifi_password out)
                then out\<lparr>wifi_password := strlcpy (wifi_password out) (wifi_password existing)\<rparr> else out);
         out = (if \<not> nonempty (mqtt_password out)
                then out\<lparr>mqtt_password := strlcpy (mqtt_password out) (mqtt_password existing)\<rparr> else out);
         out = (if \<not> nonempty (mqtt_ca out) \<and> nonempty (mqtt_ca existing)
                then out\<lparr>mqtt_ca := strlcpy (mqtt_ca out) (mqtt_ca existing)\<rparr> else out)
     in out)"

definition provision_config_merge_preserving_secrets ::
  "provision_config option \<Rightarrow> provision_config option \<Rightarrow> provision_config option \<Rightarrow>
   esp_err \<times> provision_config option" where
  "provision_config_merge_preserving_secrets existing update out =
     (case (existing, update, out) of
        (Some e, Some u, Some _) \<Rightarrow>
          let m = merge_secrets e u in
          (if provision_config_validate (Some m) = PROVISION_CONFIG_OK then ESP_OK
           else ESP_ERR_INVALID_ARG, Some m)
      | _ \<Rightarrow> (ESP_ERR_INVALID_ARG, out))"

section \<open>The redacted status\<close>

definition status_zero :: provision_config_status where
  "status_zero = \<lparr>st_wifi_ssid = replicate 33 0, st_wifi_password_configured = False,
     st_mqtt_host = replicate 129 0, st_mqtt_port = 0, st_mqtt_username = replicate 129 0,
     st_mqtt_password_configured = False, st_mqtt_tls = False, st_mqtt_ca_configured = False,
     st_mqtt_client_id = replicate 65 0, st_mqtt_base_topic = replicate 129 0\<rparr>"

definition provision_config_redact_status ::
  "provision_config option \<Rightarrow> provision_config_status option \<Rightarrow>
   esp_err \<times> provision_config_status option" where
  "provision_config_redact_status config out =
     (case (config, out) of
        (Some c, Some _) \<Rightarrow>
          (ESP_OK, Some (status_zero\<lparr>
             st_wifi_ssid := strlcpy (st_wifi_ssid status_zero) (wifi_ssid c),
             st_wifi_password_configured := nonempty (wifi_password c),
             st_mqtt_host := strlcpy (st_mqtt_host status_zero) (mqtt_host c),
             st_mqtt_port := mqtt_port c,
             st_mqtt_username := strlcpy (st_mqtt_username status_zero) (mqtt_username c),
             st_mqtt_password_configured := nonempty (mqtt_password c),
             st_mqtt_tls := mqtt_tls c,
             st_mqtt_ca_configured := nonempty (mqtt_ca c),
             st_mqtt_client_id := strlcpy (st_mqtt_client_id status_zero) (mqtt_client_id c),
             st_mqtt_base_topic := strlcpy (st_mqtt_base_topic status_zero) (mqtt_base_topic c)\<rparr>))
      | _ \<Rightarrow> (ESP_ERR_INVALID_ARG, out))"

section \<open>The fingerprint of the broker settings\<close>

definition FNV1A_OFFSET :: u32 where "FNV1A_OFFSET = 2166136261"
definition FNV1A_PRIME :: u32 where "FNV1A_PRIME = 16777619"

fun fnv1a :: "u32 \<Rightarrow> bytes \<Rightarrow> u32" where
  "fnv1a hash [] = hash"
| "fnv1a hash (b # data) = fnv1a ((hash XOR ucast b) * FNV1A_PRIME) data"

definition hash_text :: "u32 \<Rightarrow> bytes \<Rightarrow> nat \<Rightarrow> u32" where
  "hash_text hash txt capacity =
     (let len = strnlen txt capacity;
          hash = fnv1a hash (le32 (of_nat len))
      in fnv1a hash (take len txt))"

definition mqtt_fingerprint :: "provision_config \<Rightarrow> u32" where
  "mqtt_fingerprint c =
     (let hash = FNV1A_OFFSET;
          hash = hash_text hash (mqtt_host c) (length (mqtt_host c));
          hash = fnv1a hash (le16 (mqtt_port c));
          hash = fnv1a hash [if mqtt_tls c then 1 else 0];
          hash = hash_text hash (mqtt_ca c) (length (mqtt_ca c));
          hash = hash_text hash (mqtt_username c) (length (mqtt_username c));
          hash = hash_text hash (mqtt_password c) (length (mqtt_password c));
          hash = hash_text hash (mqtt_client_id c) (length (mqtt_client_id c))
      in if hash = 0 then 1 else hash)"

definition provision_config_mqtt_fingerprint :: "provision_config option \<Rightarrow> u32" where
  "provision_config_mqtt_fingerprint config =
     (case config of None \<Rightarrow> 0 | Some c \<Rightarrow> mqtt_fingerprint c)"

section \<open>When a blank password may reuse the stored one\<close>

datatype provision_mqtt_password_rule =
  PROVISION_MQTT_PASSWORD_KEEP | PROVISION_MQTT_PASSWORD_REQUIRED | PROVISION_MQTT_PASSWORD_DROP

text \<open>\<open>strncmp\<close> of two buffers compares their texts, cut to \<open>n\<close>.\<close>

definition strncmp_equal :: "bytes \<Rightarrow> bytes \<Rightarrow> nat \<Rightarrow> bool" where
  "strncmp_equal s t n \<longleftrightarrow> cstr (take n s) = cstr (take n t)"

definition provision_config_mqtt_server_changed ::
  "provision_config option \<Rightarrow> provision_config option \<Rightarrow> bool" where
  "provision_config_mqtt_server_changed existing update =
     (case (existing, update) of
        (Some e, Some u) \<Rightarrow>
          mqtt_port e \<noteq> mqtt_port u \<or> \<not> strncmp_equal (mqtt_host e) (mqtt_host u) (length (mqtt_host e))
      | _ \<Rightarrow> True)"

definition provision_config_mqtt_password_rule ::
  "provision_config option \<Rightarrow> provision_config option \<Rightarrow> bool \<Rightarrow> provision_mqtt_password_rule" where
  "provision_config_mqtt_password_rule existing update existing_verified =
     (case (existing, update) of
        (Some e, Some u) \<Rightarrow>
          if \<not> existing_verified \<or> nonempty (mqtt_password u) \<or> \<not> nonempty (mqtt_password e) \<or>
             \<not> provision_config_mqtt_server_changed existing update
          then PROVISION_MQTT_PASSWORD_KEEP
          else if nonempty (mqtt_username u) then PROVISION_MQTT_PASSWORD_REQUIRED
          else PROVISION_MQTT_PASSWORD_DROP
      | _ \<Rightarrow> PROVISION_MQTT_PASSWORD_KEEP)"

section \<open>Validity\<close>

text \<open>What a valid configuration is, as a predicate on its texts.\<close>

definition config_valid :: "provision_config \<Rightarrow> bool" where
  "config_valid c \<longleftrightarrow>
     schema_version c \<in> {0, 1} \<and>
     terminated (wifi_ssid c) \<and> terminated (wifi_password c) \<and> terminated (mqtt_host c) \<and>
     terminated (mqtt_username c) \<and> terminated (mqtt_password c) \<and> terminated (mqtt_ca c) \<and>
     terminated (mqtt_client_id c) \<and> terminated (mqtt_base_topic c) \<and>
     cstr (wifi_ssid c) \<noteq> [] \<and> cstr (mqtt_host c) \<noteq> [] \<and> mqtt_port c \<noteq> 0 \<and>
     (mqtt_tls c \<longrightarrow> cstr (mqtt_ca c) \<noteq> []) \<and> cstr (mqtt_client_id c) \<noteq> [] \<and>
     cstr (mqtt_base_topic c) \<noteq> []"

lemma nonempty_iff: "v \<noteq> [] \<Longrightarrow> nonempty v \<longleftrightarrow> cstr v \<noteq> []"
  by (cases v) (auto simp: nonempty_def)

lemma terminated_iff: "terminated v \<longleftrightarrow> length (cstr v) < length v"
  unfolding terminated_def by (induction v) auto

lemma string_field_valid_iff:
  "length v = max_len + 1 \<Longrightarrow> string_field_valid v max_len \<longleftrightarrow> terminated v"
  using length_cstr_le [of v] by (auto simp: string_field_valid_def bounded_strlen_def strnlen_eq terminated_iff)

lemma string_field_present_iff:
  "length v = max_len + 1 \<Longrightarrow> string_field_present v max_len \<longleftrightarrow> terminated v \<and> cstr v \<noteq> []"
  using nonempty_iff [of v] by (cases v) (auto simp: string_field_present_def string_field_valid_iff)

lemma validate_OK_iff:
  assumes "config_sizes c"
  shows "provision_config_validate (Some c) = PROVISION_CONFIG_OK \<longleftrightarrow> config_valid c"
proof -
  note len = assms [unfolded config_sizes_def]
  have "string_field_present (wifi_ssid c) 32 \<longleftrightarrow> terminated (wifi_ssid c) \<and> cstr (wifi_ssid c) \<noteq> []"
    "string_field_present (mqtt_host c) 128 \<longleftrightarrow> terminated (mqtt_host c) \<and> cstr (mqtt_host c) \<noteq> []"
    "string_field_present (mqtt_ca c) 4096 \<longleftrightarrow> terminated (mqtt_ca c) \<and> cstr (mqtt_ca c) \<noteq> []"
    "string_field_present (mqtt_client_id c) 64 \<longleftrightarrow> terminated (mqtt_client_id c) \<and> cstr (mqtt_client_id c) \<noteq> []"
    "string_field_present (mqtt_base_topic c) 128 \<longleftrightarrow> terminated (mqtt_base_topic c) \<and> cstr (mqtt_base_topic c) \<noteq> []"
    using len by (simp_all add: string_field_present_iff)
  moreover have "string_field_valid (wifi_password c) 64 \<longleftrightarrow> terminated (wifi_password c)"
    "string_field_valid (mqtt_username c) 128 \<longleftrightarrow> terminated (mqtt_username c)"
    "string_field_valid (mqtt_password c) 256 \<longleftrightarrow> terminated (mqtt_password c)"
    "string_field_valid (mqtt_ca c) 4096 \<longleftrightarrow> terminated (mqtt_ca c)"
    using len by (simp_all add: string_field_valid_iff)
  ultimately show ?thesis
    by (auto simp: provision_config_validate_def config_valid_def provision_limits
        PROVISION_CONFIG_SCHEMA_VERSION_def)
qed

section \<open>The merge\<close>

text \<open>A text kept from the stored settings, or the submitted one.\<close>

definition kept :: "bytes \<Rightarrow> bytes \<Rightarrow> bytes" where
  "kept old new = (if new = [] then old else new)"

lemma cstr_strlcpy_fits:
  assumes "terminated src" "length src = length dst"
  shows "cstr (strlcpy dst src) = cstr src"
proof (cases "dst = []")
  case False
  have "length (cstr src) \<le> length dst - 1"
    using length_cstr_less [OF assms(1)] assms(2) by simp
  with False show ?thesis by (simp add: cstr_strlcpy)
qed (use assms in \<open>simp add: terminated_def\<close>)

lemma merge_secrets_sizes:
  assumes "config_sizes u" shows "config_sizes (merge_secrets e u)"
  using assms by (simp add: config_sizes_def merge_secrets_def Let_def)

lemma merge_secrets_texts:
  assumes "config_sizes e" "config_sizes u" "terminated (wifi_password e)" "terminated (mqtt_password e)"
    "terminated (mqtt_ca e)"
  shows "cstr (wifi_password (merge_secrets e u)) = kept (cstr (wifi_password e)) (cstr (wifi_password u))"
    "cstr (mqtt_password (merge_secrets e u)) = kept (cstr (mqtt_password e)) (cstr (mqtt_password u))"
    "cstr (mqtt_ca (merge_secrets e u)) = kept (cstr (mqtt_ca e)) (cstr (mqtt_ca u))"
proof -
  note sz = assms(1,2) [unfolded config_sizes_def]
  have ne: "wifi_password u \<noteq> []" "mqtt_password u \<noteq> []" "mqtt_ca u \<noteq> []" "mqtt_ca e \<noteq> []"
    using sz by auto
  show "cstr (wifi_password (merge_secrets e u)) = kept (cstr (wifi_password e)) (cstr (wifi_password u))"
    "cstr (mqtt_password (merge_secrets e u)) = kept (cstr (mqtt_password e)) (cstr (mqtt_password u))"
    "cstr (mqtt_ca (merge_secrets e u)) = kept (cstr (mqtt_ca e)) (cstr (mqtt_ca u))"
    using sz assms(3-5) nonempty_iff [OF ne(1)] nonempty_iff [OF ne(2)] nonempty_iff [OF ne(3)]
      nonempty_iff [OF ne(4)]
    by (auto simp: merge_secrets_def Let_def kept_def cstr_strlcpy_fits)
qed

lemma merge_secrets_terminated:
  assumes "config_sizes u"
  shows "terminated (wifi_password (merge_secrets e u)) \<longleftrightarrow> terminated (wifi_password u)"
    "terminated (mqtt_password (merge_secrets e u)) \<longleftrightarrow> terminated (mqtt_password u)"
    "terminated (mqtt_ca (merge_secrets e u)) \<longleftrightarrow> terminated (mqtt_ca u)"
proof -
  have blank: "terminated v" if "\<not> nonempty v" "v \<noteq> []" for v
    using that by (intro terminated_nth [of 0]) (simp_all add: nonempty_def)
  have "wifi_password u \<noteq> []" "mqtt_password u \<noteq> []" "mqtt_ca u \<noteq> []"
    using assms by (auto simp: config_sizes_def)
  then show "terminated (wifi_password (merge_secrets e u)) \<longleftrightarrow> terminated (wifi_password u)"
    "terminated (mqtt_password (merge_secrets e u)) \<longleftrightarrow> terminated (mqtt_password u)"
    "terminated (mqtt_ca (merge_secrets e u)) \<longleftrightarrow> terminated (mqtt_ca u)"
    using blank by (auto simp: merge_secrets_def Let_def terminated_strlcpy)
qed

lemma merge_secrets_rest:
  "schema_version (merge_secrets e u) = (if schema_version u = 0 then 1 else schema_version u)"
  "wifi_ssid (merge_secrets e u) = wifi_ssid u" "mqtt_host (merge_secrets e u) = mqtt_host u"
  "mqtt_port (merge_secrets e u) = mqtt_port u" "mqtt_username (merge_secrets e u) = mqtt_username u"
  "mqtt_tls (merge_secrets e u) = mqtt_tls u" "mqtt_client_id (merge_secrets e u) = mqtt_client_id u"
  "mqtt_base_topic (merge_secrets e u) = mqtt_base_topic u"
  by (simp_all add: merge_secrets_def Let_def PROVISION_CONFIG_SCHEMA_VERSION_def)

text \<open>
  Merging an update into valid settings. The merge succeeds exactly when the update is valid
  once a stored certificate stands in for a missing one; the result is then valid, a blank secret
  of the update is the stored one, a given one replaces it, and everything else is the update.
\<close>

theorem merge_preserving_secrets_correct:
  assumes "config_sizes e" "config_valid e" "config_sizes u"
    and "mergeable = config_valid (if cstr (mqtt_ca u) = [] then u\<lparr>mqtt_ca := mqtt_ca e\<rparr> else u)"
  shows "\<exists>m. provision_config_merge_preserving_secrets (Some e) (Some u) (Some out) =
      (if mergeable then ESP_OK else ESP_ERR_INVALID_ARG, Some m) \<and>
    (mergeable \<longrightarrow> config_valid m) \<and>
    cstr (wifi_password m) = kept (cstr (wifi_password e)) (cstr (wifi_password u)) \<and>
    cstr (mqtt_password m) = kept (cstr (mqtt_password e)) (cstr (mqtt_password u)) \<and>
    cstr (mqtt_ca m) = kept (cstr (mqtt_ca e)) (cstr (mqtt_ca u)) \<and>
    u\<lparr>schema_version := schema_version m, wifi_password := wifi_password m,
      mqtt_password := mqtt_password m, mqtt_ca := mqtt_ca m\<rparr> = m"
proof (intro exI conjI)
  let ?m = "merge_secrets e u"
  have t: "terminated (wifi_password e)" "terminated (mqtt_password e)" "terminated (mqtt_ca e)"
    using assms(2) by (simp_all add: config_valid_def)
  note texts = merge_secrets_texts [OF assms(1,3) t]
  have blank: "terminated (mqtt_ca u)" if "cstr (mqtt_ca u) = []"
    using that assms(3) by (simp add: terminated_iff config_sizes_def)
  have v: "config_valid ?m \<longleftrightarrow> mergeable"
    using merge_secrets_terminated [OF assms(3), of e] texts(3) t(3) blank
    by (auto simp: assms(4) config_valid_def merge_secrets_rest kept_def split: if_splits)
  show "provision_config_merge_preserving_secrets (Some e) (Some u) (Some out) =
      (if mergeable then ESP_OK else ESP_ERR_INVALID_ARG, Some ?m)"
    using validate_OK_iff [OF merge_secrets_sizes [OF assms(3)], of e] v
    by (auto simp: provision_config_merge_preserving_secrets_def)
  show "mergeable \<longrightarrow> config_valid ?m"
    using v by simp
  show "cstr (wifi_password ?m) = kept (cstr (wifi_password e)) (cstr (wifi_password u))"
    "cstr (mqtt_password ?m) = kept (cstr (mqtt_password e)) (cstr (mqtt_password u))"
    "cstr (mqtt_ca ?m) = kept (cstr (mqtt_ca e)) (cstr (mqtt_ca u))"
    by (fact texts)+
  show "u\<lparr>schema_version := schema_version ?m, wifi_password := wifi_password ?m,
      mqtt_password := mqtt_password ?m, mqtt_ca := mqtt_ca ?m\<rparr> = ?m"
    by (simp add: merge_secrets_def Let_def)
qed

definition text_field :: "nat \<Rightarrow> bytes \<Rightarrow> bytes" where
  "text_field n s = take n (s @ replicate n 0)"

definition sample_config :: provision_config where
  "sample_config = \<lparr>schema_version = 1, wifi_ssid = text_field 33 (cs ''home''),
     wifi_password = text_field 65 (cs ''secret''), mqtt_host = text_field 129 (cs ''broker''),
     mqtt_port = 1883, mqtt_username = text_field 129 (cs ''ha''),
     mqtt_password = text_field 257 (cs ''pw''), mqtt_tls = False, mqtt_ca = text_field 4097 [],
     mqtt_client_id = text_field 65 (cs ''esp32-1''), mqtt_base_topic = text_field 129 (cs ''ancs'')\<rparr>"

lemma length_text_field [simp]: "length (text_field n s) = n"
  by (simp add: text_field_def)

lemma cstr_text_field: "0 \<notin> set s \<Longrightarrow> length s < n \<Longrightarrow> cstr (text_field n s) = s"
  by (cases "n - length s") (simp_all add: text_field_def)

lemma terminated_text_field: "length s < n \<Longrightarrow> terminated (text_field n s)"
  by (cases "n - length s") (simp_all add: text_field_def terminated_def)

lemma nonempty_text_field: "s \<noteq> [] \<Longrightarrow> n \<noteq> 0 \<Longrightarrow> nonempty (text_field n s) \<longleftrightarrow> s ! 0 \<noteq> 0"
  by (simp add: nonempty_def text_field_def nth_append)

lemma sample_config_sizes [simp]: "config_sizes sample_config"
  by (simp add: config_sizes_def sample_config_def)

lemma sample_config_valid [simp]: "config_valid sample_config"
  by (simp add: config_valid_def sample_config_def terminated_text_field cstr_text_field)

theorem merge_preserving_secrets_correct_witness:
  "\<exists>m. provision_config_merge_preserving_secrets (Some sample_config)
      (Some (sample_config\<lparr>mqtt_password := text_field 257 []\<rparr>)) (Some sample_config) = (ESP_OK, Some m) \<and>
    cstr (mqtt_password m) = cs ''pw''"
proof -
  let ?u = "sample_config\<lparr>mqtt_password := text_field 257 []\<rparr>"
  have "config_sizes ?u" by (simp add: config_sizes_def sample_config_def)
  moreover have "True = config_valid (if cstr (mqtt_ca ?u) = [] then ?u\<lparr>mqtt_ca := mqtt_ca sample_config\<rparr> else ?u)"
    by (simp add: config_valid_def sample_config_def terminated_text_field cstr_text_field)
  ultimately show ?thesis
    using merge_preserving_secrets_correct [of sample_config ?u True sample_config]
    by (simp add: sample_config_def [THEN arg_cong, of mqtt_password] cstr_text_field kept_def) metis
qed

section \<open>What the status tells\<close>

lemma strlcpy_zeros_inject:
  assumes "terminated s" "length s = n" "terminated t" "length t = n"
  shows "strlcpy (replicate n 0) s = strlcpy (replicate n 0) t \<longleftrightarrow> cstr s = cstr t"
proof
  assume "strlcpy (replicate n 0) s = strlcpy (replicate n 0) t"
  then have "cstr (strlcpy (replicate n 0) s) = cstr (strlcpy (replicate n 0) t)" by simp
  with assms show "cstr s = cstr t" by (simp add: cstr_strlcpy_fits)
qed (simp add: strlcpy_def)

text \<open>
  The status page learns nothing of the secrets but whether they are set. The statuses of two
  valid configurations are equal exactly when their public settings are and the same secrets are
  set, whatever the Wi-Fi password, the MQTT password and the certificate are.
\<close>

theorem redact_status_hides_secrets:
  assumes "config_sizes c" "config_valid c" "config_sizes d" "config_valid d"
  shows "provision_config_redact_status (Some c) (Some st) = provision_config_redact_status (Some d) (Some st') \<longleftrightarrow>
    cstr (wifi_ssid c) = cstr (wifi_ssid d) \<and> cstr (mqtt_host c) = cstr (mqtt_host d) \<and>
    mqtt_port c = mqtt_port d \<and> cstr (mqtt_username c) = cstr (mqtt_username d) \<and>
    mqtt_tls c = mqtt_tls d \<and> cstr (mqtt_client_id c) = cstr (mqtt_client_id d) \<and>
    cstr (mqtt_base_topic c) = cstr (mqtt_base_topic d) \<and>
    (cstr (wifi_password c) = [] \<longleftrightarrow> cstr (wifi_password d) = []) \<and>
    (cstr (mqtt_password c) = [] \<longleftrightarrow> cstr (mqtt_password d) = []) \<and>
    (cstr (mqtt_ca c) = [] \<longleftrightarrow> cstr (mqtt_ca d) = [])"
proof -
  have ne: "nonempty (wifi_password c) \<longleftrightarrow> cstr (wifi_password c) \<noteq> []"
    "nonempty (mqtt_password c) \<longleftrightarrow> cstr (mqtt_password c) \<noteq> []"
    "nonempty (mqtt_ca c) \<longleftrightarrow> cstr (mqtt_ca c) \<noteq> []" if "config_sizes c" for c
    using that by (auto intro!: nonempty_iff simp: config_sizes_def)
  show ?thesis
    using assms(2,4) assms(1,3) [unfolded config_sizes_def] ne [OF assms(1)] ne [OF assms(3)]
    by (auto simp: provision_config_redact_status_def status_zero_def config_valid_def strlcpy_zeros_inject)
qed

theorem redact_status_hides_secrets_witness:
  "provision_config_redact_status (Some sample_config) (Some status_zero) =
   provision_config_redact_status (Some (sample_config\<lparr>mqtt_password := text_field 257 (cs ''other'')\<rparr>)) (Some status_zero)"
proof (rule redact_status_hides_secrets [THEN iffD2])
  show "config_sizes (sample_config\<lparr>mqtt_password := text_field 257 (cs ''other'')\<rparr>)"
    by (simp add: config_sizes_def sample_config_def)
  show "config_valid (sample_config\<lparr>mqtt_password := text_field 257 (cs ''other'')\<rparr>)"
    by (simp add: config_valid_def sample_config_def terminated_text_field cstr_text_field)
qed (rule sample_config_sizes sample_config_valid | simp add: sample_config_def cstr_text_field)+

section \<open>The fingerprint\<close>

text \<open>The bytes the fingerprint is the hash of.\<close>

definition length_prefixed :: "bytes \<Rightarrow> bytes" where
  "length_prefixed s = le32 (of_nat (length s)) @ s"

definition fingerprint_input :: "provision_config \<Rightarrow> bytes" where
  "fingerprint_input c =
     length_prefixed (cstr (mqtt_host c)) @ le16 (mqtt_port c) @ [if mqtt_tls c then 1 else 0] @
     length_prefixed (cstr (mqtt_ca c)) @ length_prefixed (cstr (mqtt_username c)) @
     length_prefixed (cstr (mqtt_password c)) @ length_prefixed (cstr (mqtt_client_id c))"

lemma fnv1a_append: "fnv1a h (a @ b) = fnv1a (fnv1a h a) b"
  by (induction a arbitrary: h) simp_all

lemma take_strnlen: "take (strnlen v n) v = cstr (take n v)"
  by (induction v arbitrary: n) (auto simp: strnlen_def take_Cons')

lemma take_length_cstr: "take (length (cstr v)) v = cstr v"
  by (induction v) auto

lemma hash_text_eq: "hash_text h v (length v) = fnv1a h (length_prefixed (cstr v))"
  by (simp add: hash_text_def Let_def take_length_cstr length_prefixed_def fnv1a_append strnlen_eq
      min_absorb2 length_cstr_le)

lemma len32: "LENGTH(32) = 32" by simp

lemma length_prefixed_inject:
  assumes "length s < 2 ^ 32" "length t < 2 ^ 32"
  shows "length_prefixed s @ a = length_prefixed t @ b \<longleftrightarrow> s = t \<and> a = b"
proof
  assume eq: "length_prefixed s @ a = length_prefixed t @ b"
  then have "le32 (of_nat (length s)) = le32 (of_nat (length t))" and r: "s @ a = t @ b"
    by (simp_all add: length_prefixed_def)
  then have "(of_nat (length s) :: u32) = of_nat (length t)" by (simp add: le32_inject)
  with assms have "length s = length t"
    by (metis of_nat_inverse len32)
  with r show "s = t \<and> a = b" by simp
qed simp

lemma fingerprint_input_inject:
  assumes "config_sizes c" "config_sizes d"
  shows "fingerprint_input c = fingerprint_input d \<longleftrightarrow>
    cstr (mqtt_host c) = cstr (mqtt_host d) \<and> mqtt_port c = mqtt_port d \<and> mqtt_tls c = mqtt_tls d \<and>
    cstr (mqtt_ca c) = cstr (mqtt_ca d) \<and> cstr (mqtt_username c) = cstr (mqtt_username d) \<and>
    cstr (mqtt_password c) = cstr (mqtt_password d) \<and> cstr (mqtt_client_id c) = cstr (mqtt_client_id d)"
proof -
  have short: "length (cstr v) < 2 ^ 32" if "length v \<le> 4097" for v
    using length_cstr_le [of v] that by simp
  note sz = assms [unfolded config_sizes_def]
  have lens: "length (cstr (mqtt_host x)) < 2 ^ 32" "length (cstr (mqtt_ca x)) < 2 ^ 32"
    "length (cstr (mqtt_username x)) < 2 ^ 32" "length (cstr (mqtt_password x)) < 2 ^ 32"
    "length (cstr (mqtt_client_id x)) < 2 ^ 32" if "x = c \<or> x = d" for x
    using that sz by (intro short; auto)+
  note inj = length_prefixed_inject [OF lens(1) lens(1)] length_prefixed_inject [OF lens(2) lens(2)]
    length_prefixed_inject [OF lens(3) lens(3)] length_prefixed_inject [OF lens(4) lens(4)]
    length_prefixed_inject [OF lens(5) lens(5), of _ _ "[]" "[]", unfolded append_Nil2]
  show ?thesis
    unfolding fingerprint_input_def by (auto simp: inj le16_inject split: if_splits)
qed

text \<open>
  the fingerprint is never 0 and is the FNV-1a hash of a text in which every broker setting can
  be read off again: two configurations hash the same text exactly when host, port, TLS mode,
  certificate, user, password and client are the same, so no setting flows into another.
\<close>

theorem fingerprint_input_determines_settings:
  assumes "config_sizes c" "config_sizes d"
  shows "provision_config_mqtt_fingerprint (Some c) \<noteq> 0 \<and>
    provision_config_mqtt_fingerprint (Some c) =
      (let h = fnv1a FNV1A_OFFSET (fingerprint_input c) in if h = 0 then 1 else h) \<and>
    (fingerprint_input c = fingerprint_input d \<longleftrightarrow>
      cstr (mqtt_host c) = cstr (mqtt_host d) \<and> mqtt_port c = mqtt_port d \<and> mqtt_tls c = mqtt_tls d \<and>
      cstr (mqtt_ca c) = cstr (mqtt_ca d) \<and> cstr (mqtt_username c) = cstr (mqtt_username d) \<and>
      cstr (mqtt_password c) = cstr (mqtt_password d) \<and> cstr (mqtt_client_id c) = cstr (mqtt_client_id d))"
proof -
  have "provision_config_mqtt_fingerprint (Some x) =
      (let h = fnv1a FNV1A_OFFSET (fingerprint_input x) in if h = 0 then 1 else h)" for x
    by (simp add: provision_config_mqtt_fingerprint_def mqtt_fingerprint_def hash_text_eq
        fingerprint_input_def fnv1a_append Let_def)
  with fingerprint_input_inject [OF assms] show ?thesis by (simp add: Let_def)
qed

theorem fingerprint_input_determines_settings_witness:
  "fingerprint_input sample_config \<noteq> fingerprint_input (sample_config\<lparr>mqtt_port := 8883\<rparr>) \<and>
   provision_config_mqtt_fingerprint (Some sample_config) \<noteq> 0"
proof -
  have "config_sizes (sample_config\<lparr>mqtt_port := 8883\<rparr>)"
    using sample_config_sizes by (simp add: config_sizes_def)
  moreover have "mqtt_port sample_config \<noteq> 8883" by (simp add: sample_config_def)
  ultimately show ?thesis
    using fingerprint_input_determines_settings [OF sample_config_sizes, of "sample_config\<lparr>mqtt_port := 8883\<rparr>"]
    by (metis (no_types, lifting) provision_config.select_convs(5) provision_config.surjective
        provision_config.update_convs(5))
qed

end
