(* ===== verification/Provision_Blob.thy ===== *)
theory Provision_Blob
  imports Provision_Config
begin

text \<open>
  The image of the settings in flash: the CRC-32 of \<^verbatim>\<open>provision_store.c\<close>, the slot record with its
  layout in memory, and the encoder and decoder of a slot.
\<close>

section \<open>CRC-32\<close>

definition crc_bit :: "u32 \<Rightarrow> u32" where
  "crc_bit crc = drop_bit 1 crc XOR (0xEDB88320 AND (0 - (crc AND 1)))"

definition crc_byte :: "u32 \<Rightarrow> u8 \<Rightarrow> u32" where
  "crc_byte crc b = (crc_bit ^^ 8) (crc XOR ucast b)"

definition crc32_update :: "u32 \<Rightarrow> bytes \<Rightarrow> u32" where
  "crc32_update crc data = NOT (foldl crc_byte (NOT crc) data)"

section \<open>The slot record\<close>

record provision_store_slot_blob =
  blob_schema_version :: u32
  blob_generation :: u32
  blob_crc32 :: u32
  blob_config :: provision_config

text \<open>
  The structures in memory, as the compiler lays them out: little endian words, one byte of padding
  before the port (zero, the records are allocated cleared), a \<open>bool\<close> as a byte.
\<close>

definition config_bytes :: "provision_config \<Rightarrow> bytes" where
  "config_bytes c =
     le32 (schema_version c) @ wifi_ssid c @ wifi_password c @ mqtt_host c @ [0] @ le16 (mqtt_port c) @
     mqtt_username c @ mqtt_password c @ [if mqtt_tls c then 1 else 0] @ mqtt_ca c @
     mqtt_client_id c @ mqtt_base_topic c"

definition blob_bytes :: "provision_store_slot_blob \<Rightarrow> bytes" where
  "blob_bytes b =
     le32 (blob_schema_version b) @ le32 (blob_generation b) @ le32 (blob_crc32 b) @
     config_bytes (blob_config b)"

definition slice :: "bytes \<Rightarrow> nat \<Rightarrow> nat \<Rightarrow> bytes" where
  "slice bs i n = take n (drop i bs)"

definition word_at :: "bytes \<Rightarrow> nat \<Rightarrow> u32" where
  "word_at bs i = rd_le32 (bs ! i) (bs ! (i + 1)) (bs ! (i + 2)) (bs ! (i + 3))"

definition config_of_bytes :: "bytes \<Rightarrow> provision_config" where
  "config_of_bytes bs = \<lparr>
     schema_version = word_at bs 0,
     wifi_ssid = slice bs 4 33,
     wifi_password = slice bs 37 65,
     mqtt_host = slice bs 102 129,
     mqtt_port = rd_le16 (bs ! 232) (bs ! 233),
     mqtt_username = slice bs 234 129,
     mqtt_password = slice bs 363 257,
     mqtt_tls = (bs ! 620 \<noteq> 0),
     mqtt_ca = slice bs 621 4097,
     mqtt_client_id = slice bs 4718 65,
     mqtt_base_topic = slice bs 4783 129\<rparr>"

definition blob_of_bytes :: "bytes \<Rightarrow> provision_store_slot_blob" where
  "blob_of_bytes bs = \<lparr>
     blob_schema_version = word_at bs 0,
     blob_generation = word_at bs 4,
     blob_crc32 = word_at bs 8,
     blob_config = config_of_bytes (drop 12 bs)\<rparr>"

definition SLOT_BLOB_SIZE :: nat where "SLOT_BLOB_SIZE = 4924"

section \<open>Encoding and decoding\<close>

text \<open>\<open>blob\<close> is the record to fill, absent for the NULL pointer.\<close>

definition encode_blob ::
  "provision_config option \<Rightarrow> u32 \<Rightarrow> provision_store_slot_blob option \<Rightarrow>
   esp_err \<times> provision_store_slot_blob option" where
  "encode_blob config generation blob =
     (case (config, blob) of
        (Some c, Some _) \<Rightarrow>
          if provision_config_validate config \<noteq> PROVISION_CONFIG_OK then (ESP_ERR_INVALID_ARG, blob)
          else
            let b = \<lparr>blob_schema_version = PROVISION_CONFIG_SCHEMA_VERSION, blob_generation = generation,
                     blob_crc32 = 0,
                     blob_config = c\<lparr>schema_version := PROVISION_CONFIG_SCHEMA_VERSION\<rparr>\<rparr>
            in (ESP_OK, Some (b\<lparr>blob_crc32 := crc32_update 0 (blob_bytes b)\<rparr>))
      | _ \<Rightarrow> (ESP_ERR_INVALID_ARG, blob))"

text \<open>The image after \<open>blob->crc32 = 0\<close>.\<close>

definition clear_crc :: "bytes \<Rightarrow> bytes" where
  "clear_crc data = take 8 data @ [0, 0, 0, 0] @ drop 12 data"

text \<open>
  \<open>alloc\<close> tells whether the workspace could be allocated. The result comes with the new contents of
  \<open>*out\<close> and \<open>*generation_out\<close>.
\<close>

definition provision_store_decode ::
  "bool \<Rightarrow> bytes option \<Rightarrow> provision_config option \<Rightarrow> u32 option \<Rightarrow>
   esp_err \<times> provision_config option \<times> u32 option" where
  "provision_store_decode alloc data out generation_out =
     (case (data, out) of
        (Some bs, Some _) \<Rightarrow>
          if length bs \<noteq> SLOT_BLOB_SIZE then (ESP_ERR_INVALID_ARG, out, generation_out)
          else if \<not> alloc then (ESP_ERR_NO_MEM, out, generation_out)
          else
            let blob = blob_of_bytes bs;
                expected_crc = blob_crc32 blob;
                actual_crc = crc32_update 0 (clear_crc bs)
            in if actual_crc \<noteq> expected_crc then (ESP_ERR_INVALID_CRC, out, generation_out)
               else if blob_schema_version blob \<noteq> PROVISION_CONFIG_SCHEMA_VERSION \<or>
                 schema_version (blob_config blob) \<noteq> PROVISION_CONFIG_SCHEMA_VERSION
               then (ESP_ERR_INVALID_VERSION, out, generation_out)
               else if provision_config_validate (Some (blob_config blob)) \<noteq> PROVISION_CONFIG_OK
               then (ESP_ERR_INVALID_ARG, out, generation_out)
               else (ESP_OK, Some (blob_config blob),
                     map_option (\<lambda>_. blob_generation blob) generation_out)
      | _ \<Rightarrow> (ESP_ERR_INVALID_ARG, out, generation_out))"

definition provision_store_encode_for_test ::
  "bool \<Rightarrow> provision_config option \<Rightarrow> u32 \<Rightarrow> bytes option \<Rightarrow> nat option \<Rightarrow>
   esp_err \<times> bytes option \<times> nat option" where
  "provision_store_encode_for_test alloc config generation out inout_len =
     (case (out, inout_len) of
        (Some buf, Some len) \<Rightarrow>
          if len < SLOT_BLOB_SIZE then (ESP_ERR_INVALID_ARG, out, inout_len)
          else if \<not> alloc then (ESP_ERR_NO_MEM, out, inout_len)
          else (case encode_blob config generation (Some (blob_of_bytes (replicate SLOT_BLOB_SIZE 0))) of
                  (ESP_OK, Some blob) \<Rightarrow>
                    (ESP_OK, Some (blob_bytes blob @ drop SLOT_BLOB_SIZE buf), Some SLOT_BLOB_SIZE)
                | (err, _) \<Rightarrow> (err, out, inout_len))
      | _ \<Rightarrow> (ESP_ERR_INVALID_ARG, out, inout_len))"

section \<open>The layout\<close>

lemma length_config_bytes: "config_sizes c \<Longrightarrow> length (config_bytes c) = 4912"
  by (simp add: config_bytes_def config_sizes_def)

lemma length_blob_bytes: "config_sizes (blob_config b) \<Longrightarrow> length (blob_bytes b) = SLOT_BLOB_SIZE"
  by (simp add: blob_bytes_def length_config_bytes SLOT_BLOB_SIZE_def)

lemma word_at_le32: "i = length pre \<Longrightarrow> word_at (pre @ le32 w @ post) i = w"
  using rd_le32_le32 [of w] by (simp add: word_at_def le32_def nth_append)

lemma halfword_at_le16:
  "i = length pre \<Longrightarrow> j = Suc i \<Longrightarrow>
    rd_le16 ((pre @ le16 w @ post) ! i) ((pre @ le16 w @ post) ! j) = w"
  using rd_le16_le16 [of w] by (simp add: le16_def nth_append)

lemma nth_mid: "i = length pre \<Longrightarrow> (pre @ x # post) ! i = x"
  by simp

lemma slice_field: "bs = pre @ s @ post \<Longrightarrow> length pre = i \<Longrightarrow> length s = n \<Longrightarrow> slice bs i n = s"
  by (simp add: slice_def)

lemma config_of_bytes_config_bytes:
  assumes "config_sizes c" shows "config_of_bytes (config_bytes c) = c"
proof -
  note sz = assms [unfolded config_sizes_def]
  let ?b0 = "le32 (schema_version c)" and ?b1 = "wifi_ssid c" and ?b2 = "wifi_password c"
    and ?b3 = "mqtt_host c" and ?b4 = "le16 (mqtt_port c)" and ?b5 = "mqtt_username c"
    and ?b6 = "mqtt_password c" and ?b7 = "[if mqtt_tls c then 1 else 0 :: u8]" and ?b8 = "mqtt_ca c"
    and ?b9 = "mqtt_client_id c" and ?b10 = "mqtt_base_topic c"
  let ?bs = "config_bytes c"
  have bs: "?bs = ?b0 @ ?b1 @ ?b2 @ ?b3 @ [0] @ ?b4 @ ?b5 @ ?b6 @ ?b7 @ ?b8 @ ?b9 @ ?b10"
    by (rule config_bytes_def)
  have "word_at ?bs 0 = schema_version c"
    using word_at_le32 [of 0 "[]"] unfolding bs by simp
  moreover have "slice ?bs 4 33 = ?b1"
    unfolding bs
    by (rule slice_field [of _ "?b0" _ "?b2 @ ?b3 @ [0] @ ?b4 @ ?b5 @ ?b6 @ ?b7 @ ?b8 @ ?b9 @ ?b10"]) (simp_all add: sz)
  moreover have "slice ?bs 37 65 = ?b2"
    unfolding bs
    by (rule slice_field [of _ "?b0 @ ?b1" _ "?b3 @ [0] @ ?b4 @ ?b5 @ ?b6 @ ?b7 @ ?b8 @ ?b9 @ ?b10"]) (simp_all add: sz)
  moreover have "slice ?bs 102 129 = ?b3"
    unfolding bs
    by (rule slice_field [of _ "?b0 @ ?b1 @ ?b2" _ "[0] @ ?b4 @ ?b5 @ ?b6 @ ?b7 @ ?b8 @ ?b9 @ ?b10"]) (simp_all add: sz)
  moreover have "slice ?bs 234 129 = ?b5"
    unfolding bs
    by (rule slice_field [of _ "?b0 @ ?b1 @ ?b2 @ ?b3 @ [0] @ ?b4" _ "?b6 @ ?b7 @ ?b8 @ ?b9 @ ?b10"]) (simp_all add: sz)
  moreover have "slice ?bs 363 257 = ?b6"
    unfolding bs
    by (rule slice_field [of _ "?b0 @ ?b1 @ ?b2 @ ?b3 @ [0] @ ?b4 @ ?b5" _ "?b7 @ ?b8 @ ?b9 @ ?b10"]) (simp_all add: sz)
  moreover have "slice ?bs 621 4097 = ?b8"
    unfolding bs
    by (rule slice_field [of _ "?b0 @ ?b1 @ ?b2 @ ?b3 @ [0] @ ?b4 @ ?b5 @ ?b6 @ ?b7" _ "?b9 @ ?b10"]) (simp_all add: sz)
  moreover have "slice ?bs 4718 65 = ?b9"
    unfolding bs
    by (rule slice_field [of _ "?b0 @ ?b1 @ ?b2 @ ?b3 @ [0] @ ?b4 @ ?b5 @ ?b6 @ ?b7 @ ?b8" _ "?b10"]) (simp_all add: sz)
  moreover have "slice ?bs 4783 129 = ?b10"
    unfolding bs
    by (rule slice_field [of _ "?b0 @ ?b1 @ ?b2 @ ?b3 @ [0] @ ?b4 @ ?b5 @ ?b6 @ ?b7 @ ?b8 @ ?b9" _ "[]"]) (simp_all add: sz)
  moreover have "rd_le16 (?bs ! 232) (?bs ! 233) = mqtt_port c"
    unfolding bs
    using halfword_at_le16 [of 232 "?b0 @ ?b1 @ ?b2 @ ?b3 @ [0]" 233 "mqtt_port c"] sz
    by (simp only: append_assoc) simp
  moreover have "(?bs ! 620 \<noteq> 0) = mqtt_tls c"
    unfolding bs
    using nth_mid [of 620 "?b0 @ ?b1 @ ?b2 @ ?b3 @ [0] @ ?b4 @ ?b5 @ ?b6" "if mqtt_tls c then 1 else 0"] sz
    by (simp only: append_assoc) simp
  ultimately show ?thesis by (simp add: config_of_bytes_def)
qed

lemma blob_of_bytes_blob_bytes:
  assumes "config_sizes (blob_config b)" shows "blob_of_bytes (blob_bytes b) = b"
proof -
  have "word_at (blob_bytes b) 0 = blob_schema_version b"
    using word_at_le32 [of 0 "[]"] by (simp add: blob_bytes_def)
  moreover have "word_at (blob_bytes b) 4 = blob_generation b"
    using word_at_le32 [of 4 "le32 (blob_schema_version b)"] by (simp add: blob_bytes_def)
  moreover have "word_at (blob_bytes b) 8 = blob_crc32 b"
    using word_at_le32 [of 8 "le32 (blob_schema_version b) @ le32 (blob_generation b)"]
    by (simp add: blob_bytes_def)
  moreover have "drop 12 (blob_bytes b) = config_bytes (blob_config b)"
    by (simp add: blob_bytes_def)
  ultimately show ?thesis
    using config_of_bytes_config_bytes [OF assms] by (simp add: blob_of_bytes_def)
qed

lemma clear_crc_blob_bytes: "clear_crc (blob_bytes b) = blob_bytes (b\<lparr>blob_crc32 := 0\<rparr>)"
  by (simp add: clear_crc_def blob_bytes_def) (simp add: le32_def)

section \<open>Error detection\<close>

lemma crc_bit_alt: "crc_bit x = drop_bit 1 x XOR (if bit x 0 then 0xEDB88320 else 0)"
proof (cases "bit x 0")
  case True
  then have "x AND 1 = 1" by (intro bit_word_eqI) (auto simp: bit_simps bit_1_iff)
  with True show ?thesis by (simp add: crc_bit_def)
next
  case False
  then have "x AND 1 = 0" by (intro bit_word_eqI) (auto simp: bit_simps bit_1_iff intro: gr0I)
  with False show ?thesis by (simp add: crc_bit_def)
qed

lemma crc_bit_xor: "crc_bit (x XOR y) = crc_bit x XOR crc_bit y"
  unfolding crc_bit_alt
  by (rule bit_word_eqI) (auto simp: bit_simps)

lemma crc_bit_eq_0: "crc_bit x = 0 \<Longrightarrow> x = 0"
proof -
  assume 0: "crc_bit x = 0"
  have "\<not> bit (crc_bit x) 31" by (simp add: 0)
  then have even: "\<not> bit x 0"
    by (auto simp: crc_bit_alt bit_simps split: if_splits dest: bit_imp_le_length)
  show "x = 0"
  proof (rule bit_word_eqI)
    fix n assume n: "n < LENGTH(32)"
    show "bit x n = bit 0 n"
    proof (cases n)
      case (Suc m)
      have "bit (crc_bit x) m = bit x (Suc m)"
        using even by (simp add: crc_bit_alt bit_simps)
      with 0 Suc show ?thesis by simp
    qed (use even in simp)
  qed
qed

lemma crc_bits_xor: "(crc_bit ^^ n) (x XOR y) = (crc_bit ^^ n) x XOR (crc_bit ^^ n) y"
  by (induction n) (simp_all add: crc_bit_xor)

lemma crc_bits_inject: "(crc_bit ^^ n) x = (crc_bit ^^ n) y \<longleftrightarrow> x = y"
proof (induction n)
  case (Suc n)
  have "a = b" if "crc_bit a = crc_bit b" for a b
  proof -
    have "a XOR b = 0" using that by (simp add: crc_bit_eq_0 crc_bit_xor)
    moreover have "(a XOR b) XOR b = a" by (simp only: xor.assoc xor_self_eq xor.right_neutral)
    ultimately show ?thesis by (metis xor.left_neutral)
  qed
  then have "crc_bit a = crc_bit b \<longleftrightarrow> a = b" for a b by blast
  with Suc show ?case by simp
qed simp

text \<open>A byte that is still to come only moves down while the bits before it are worked off.\<close>

lemma crc_bit_push: "k < 24 \<Longrightarrow> crc_bit (push_bit (Suc k) (ucast (b :: u8))) = push_bit k (ucast b)"
  unfolding crc_bit_alt
  by (rule bit_word_eqI) (auto simp: bit_simps Suc_diff_le simp del: push_bit_Suc dest: bit_imp_le_length)

lemma crc_bits_push: "n \<le> 24 \<Longrightarrow> (crc_bit ^^ n) (push_bit n (ucast (b :: u8))) = ucast b"
proof (induction n)
  case (Suc n)
  have "(crc_bit ^^ Suc n) (push_bit (Suc n) (ucast b)) =
      (crc_bit ^^ n) (crc_bit (push_bit (Suc n) (ucast b)))"
    by (simp only: funpow_Suc_right comp_apply)
  with Suc show ?case by (simp only: crc_bit_push)
qed simp

lemma crc_bits_ahead: "n \<le> 24 \<Longrightarrow> (crc_bit ^^ n) x XOR ucast (b :: u8) = (crc_bit ^^ n) (x XOR push_bit n (ucast b))"
  by (simp only: crc_bits_xor crc_bits_push)

lemma crc_four_bytes:
  "foldl crc_byte s [a, b, c, d] = (crc_bit ^^ 32) (s XOR rd_le32 a b c d)"
proof -
  have f: "(crc_bit ^^ 8) ((crc_bit ^^ n) x) = (crc_bit ^^ (n + 8)) x" for n x
    by (metis funpow_add comp_apply add.commute)
  have e: "s XOR ucast a XOR push_bit 8 (ucast b) XOR push_bit 16 (ucast c) XOR push_bit 24 (ucast d) =
      s XOR rd_le32 a b c d"
    unfolding rd_le32_def
    by (rule bit_word_eqI) (auto simp: bit_simps dest: bit_imp_le_length)
  show ?thesis
    by (simp only: foldl_Cons foldl_Nil crc_byte_def crc_bits_ahead f arith_simps)
      (simp only: xor.assoc e)
qed

lemma crc_byte_inject: "crc_byte s b = crc_byte t b \<longleftrightarrow> s = t"
proof -
  have "x = y" if "x XOR z = y XOR z" for x y z :: u32
    using that by (metis xor.assoc xor_self_eq xor.right_neutral)
  then show ?thesis by (auto simp: crc_byte_def crc_bits_inject)
qed

lemma crc_bytes_inject: "foldl crc_byte s bs = foldl crc_byte t bs \<longleftrightarrow> s = t"
  by (induction bs arbitrary: s t) (simp_all add: crc_byte_inject)

lemma rd_le32_inject: "rd_le32 a b c d = rd_le32 a' b' c' d' \<longleftrightarrow> [a, b, c, d] = [a', b', c', d']"
proof
  have bytes: "a = ucast w \<and> b = ucast (drop_bit 8 w) \<and> c = ucast (drop_bit 16 w) \<and> d = ucast (drop_bit 24 w)"
    if "w = rd_le32 a b c d" for a b c d w
    unfolding that rd_le32_def
    by (intro conjI bit_word_eqI) (auto simp: bit_simps dest: bit_imp_le_length)
  assume "rd_le32 a b c d = rd_le32 a' b' c' d'"
  then show "[a, b, c, d] = [a', b', c', d']"
    using bytes [OF refl, of a b c d] bytes [OF refl, of a' b' c' d'] by simp
qed simp

lemma length4E: "length v = 4 \<Longrightarrow> \<exists>a b c d. v = [a, b, c, d]"
  by (auto simp: numeral_eq_Suc length_Suc_conv)

lemma crc_burst:
  assumes "length w = length w'" "length w \<le> 4" "w \<noteq> w'"
  shows "crc32_update crc (pre @ w @ post) \<noteq> crc32_update crc (pre @ w' @ post)"
proof -
  define s where "s = foldl crc_byte (NOT crc) pre"
  let ?z = "replicate (4 - length w) (0 :: u8)"
  have four: "\<exists>a b c d. v @ ?z = [a, b, c, d]" if "length v = length w" for v
    using that assms(2) by (intro length4E) simp
  obtain a b c d where v: "w @ ?z = [a, b, c, d]" using four by blast
  obtain a' b' c' d' where v': "w' @ ?z = [a', b', c', d']" using four assms(1) by metis
  have "x = y" if "s XOR x = s XOR y" for x y :: u32
    using that by (metis xor.assoc xor_self_eq xor.left_neutral)
  moreover have "[a, b, c, d] \<noteq> [a', b', c', d']"
    using v v' assms(3) by (metis append_same_eq)
  ultimately have "foldl crc_byte s (w @ ?z) \<noteq> foldl crc_byte s (w' @ ?z)"
    unfolding v v' crc_four_bytes crc_bits_inject using rd_le32_inject by blast
  then have "foldl crc_byte s w \<noteq> foldl crc_byte s w'" by (auto simp: foldl_append)
  then have "foldl crc_byte s (w @ post) \<noteq> foldl crc_byte s (w' @ post)"
    by (simp add: crc_bytes_inject)
  then have "NOT (foldl crc_byte s (w @ post)) \<noteq> NOT (foldl crc_byte s (w' @ post))"
    by (metis bit.double_compl)
  then show ?thesis by (simp add: crc32_update_def s_def)
qed

lemma rd_le32_word_at:
  "8 + 4 \<le> length bs \<Longrightarrow> word_at bs 8 = rd_le32 (bs ! 8) (bs ! 9) (bs ! 10) (bs ! 11)"
  by (simp add: word_at_def)

text \<open>The checksum test of the decoder.\<close>

definition crc_matches :: "bytes \<Rightarrow> bool" where
  "crc_matches bs \<longleftrightarrow> crc32_update 0 (clear_crc bs) = word_at bs 8"

lemma decode_bad_crc:
  assumes "length bs = SLOT_BLOB_SIZE" "\<not> crc_matches bs"
  shows "provision_store_decode True (Some bs) (Some out) gen = (ESP_ERR_INVALID_CRC, Some out, gen)"
  using assms by (simp add: provision_store_decode_def crc_matches_def blob_of_bytes_def Let_def)

lemma decode_OK_crc:
  "provision_store_decode alloc (Some bs) out gen = (ESP_OK, r) \<Longrightarrow> crc_matches bs \<and> length bs = SLOT_BLOB_SIZE"
  by (auto simp: provision_store_decode_def crc_matches_def blob_of_bytes_def Let_def split: option.splits if_splits)

lemma burst_breaks_crc:
  assumes m: "crc_matches (pre @ w @ post)" and w: "length w = length w'" "length w \<le> 4" "w \<noteq> w'"
    and total: "length (pre @ w @ post) = SLOT_BLOB_SIZE"
    and place: "length pre + length w \<le> 8 \<or> 12 \<le> length pre \<or> 8 \<le> length pre \<and> length pre + length w \<le> 12"
  shows "\<not> crc_matches (pre @ w' @ post)"
proof -
  let ?d = "pre @ w @ post" and ?d' = "pre @ w' @ post"
  have len: "4924 = length pre + (length w + length post)" using total by (simp add: SLOT_BLOB_SIZE_def)
  consider (data) "length pre + length w \<le> 8 \<or> 12 \<le> length pre"
    | (crc) "8 \<le> length pre" "length pre + length w \<le> 12"
    using place by blast
  then show ?thesis
  proof cases
    case data
    then have "crc32_update 0 (clear_crc ?d) \<noteq> crc32_update 0 (clear_crc ?d')"
    proof
      assume a: "length pre + length w \<le> 8"
      let ?post = "take (8 - length pre - length w) post @ [0, 0, 0, 0] @ drop (12 - length pre - length w) post"
      have "clear_crc (pre @ v @ post) = pre @ v @ ?post" if "length v = length w" for v
        using a that by (simp add: clear_crc_def diff_diff_left)
      with crc_burst [OF w, of 0 pre ?post] w(1) show ?thesis by simp
    next
      assume a: "12 \<le> length pre"
      let ?pre = "take 8 pre @ [0, 0, 0, 0] @ drop 12 pre"
      have "clear_crc (pre @ v @ post) = ?pre @ v @ post" for v
        using a by (simp add: clear_crc_def)
      with crc_burst [OF w, of 0 ?pre post] show ?thesis by simp
    qed
    moreover have "word_at ?d 8 = word_at ?d' 8"
      using data w(1) len by (auto simp: word_at_def nth_append)
    ultimately show ?thesis using m unfolding crc_matches_def by metis
  next
    case crc
    have same: "clear_crc ?d = clear_crc ?d'"
      using crc w(1) by (simp add: clear_crc_def)
    have "word_at ?d 8 \<noteq> word_at ?d' 8"
    proof
      assume "word_at ?d 8 = word_at ?d' 8"
      then have "[?d ! 8, ?d ! 9, ?d ! 10, ?d ! 11] = [?d' ! 8, ?d' ! 9, ?d' ! 10, ?d' ! 11]"
        unfolding word_at_def rd_le32_inject by simp
      then have eq: "\<forall>k \<in> {8, 9, 10, 11}. ?d ! k = ?d' ! k" by simp
      have "w ! j = w' ! j" if j: "j < length w" for j
      proof -
        have "length pre + j \<in> {8, 9, 10, 11}" using j crc by auto
        with eq have "?d ! (length pre + j) = ?d' ! (length pre + j)" by blast
        with j w(1) show ?thesis by (simp add: nth_append)
      qed
      with w show False by (metis nth_equalityI)
    qed
    with m same show ?thesis unfolding crc_matches_def by metis
  qed
qed

lemma encode_decode:
  assumes "config_sizes c" "config_valid c"
  shows "\<exists>blob. encode_blob (Some c) gen (Some b0) = (ESP_OK, Some blob) \<and>
    length (blob_bytes blob) = SLOT_BLOB_SIZE \<and>
    provision_store_decode True (Some (blob_bytes blob)) (Some out) (Some g0) =
      (ESP_OK, Some (c\<lparr>schema_version := 1\<rparr>), Some gen)"
proof -
  let ?c = "c\<lparr>schema_version := 1\<rparr>"
  let ?b = "\<lparr>blob_schema_version = 1, blob_generation = gen, blob_crc32 = 0, blob_config = ?c\<rparr>"
  define blob where "blob = ?b\<lparr>blob_crc32 := crc32_update 0 (blob_bytes ?b)\<rparr>"
  have sz: "config_sizes ?c" and v: "config_valid ?c"
    using assms by (simp_all add: config_sizes_def config_valid_def)
  have fields: "blob_schema_version blob = 1" "blob_generation blob = gen" "blob_config blob = ?c"
    "blob_crc32 blob = crc32_update 0 (blob_bytes ?b)"
    by (simp_all add: blob_def)
  have enc: "encode_blob (Some c) gen (Some b0) = (ESP_OK, Some blob)"
    using assms by (simp add: encode_blob_def Let_def validate_OK_iff PROVISION_CONFIG_SCHEMA_VERSION_def blob_def)
  have rd: "blob_of_bytes (blob_bytes blob) = blob"
    using sz fields by (intro blob_of_bytes_blob_bytes) simp
  have clr: "clear_crc (blob_bytes blob) = blob_bytes ?b"
    by (simp add: clear_crc_blob_bytes blob_def)
  have len: "length (blob_bytes blob) = SLOT_BLOB_SIZE"
    using sz fields by (intro length_blob_bytes) simp
  have "provision_store_decode True (Some (blob_bytes blob)) (Some out) (Some g0) = (ESP_OK, Some ?c, Some gen)"
    using len sz v
    by (simp add: provision_store_decode_def Let_def rd clr fields validate_OK_iff PROVISION_CONFIG_SCHEMA_VERSION_def)
  with enc len show ?thesis by blast
qed

text \<open>
  a stored slot is read back. What the encoder writes for valid settings is read by the decoder
  as the same settings, with the current schema, and the generation.
\<close>

theorem slot_blob_roundtrip:
  assumes "config_sizes c" "config_valid c"
  shows "\<exists>blob. encode_blob (Some c) gen (Some b0) = (ESP_OK, Some blob) \<and>
    length (blob_bytes blob) = SLOT_BLOB_SIZE \<and>
    provision_store_decode True (Some (blob_bytes blob)) (Some out) (Some g0) =
      (ESP_OK, Some (c\<lparr>schema_version := 1\<rparr>), Some gen)"
  using encode_decode [OF assms] .

theorem slot_blob_roundtrip_witness:
  "\<exists>blob. provision_store_decode True (Some (blob_bytes blob)) (Some sample_config) (Some 0) =
    (ESP_OK, Some (sample_config\<lparr>schema_version := 1\<rparr>), Some 7)"
  using slot_blob_roundtrip [OF sample_config_sizes sample_config_valid, of 7 undefined sample_config 0]
  by blast

text \<open>
  A damaged slot is not read. If the decoder accepts an image, then no image that differs from it
  within four consecutive bytes (all in the checksum or none) is accepted: the checksum error is
  reported, and neither the settings nor the generation of the caller change.
\<close>

theorem corrupted_slot_rejected:
  assumes "provision_store_decode alloc (Some (pre @ w @ post)) out0 gen0 = (ESP_OK, r)"
    "length w = length w'" "length w \<le> 4" "w \<noteq> w'"
    "length pre + length w \<le> 8 \<or> 12 \<le> length pre \<or> 8 \<le> length pre \<and> length pre + length w \<le> 12"
  shows "provision_store_decode True (Some (pre @ w' @ post)) (Some out) gen = (ESP_ERR_INVALID_CRC, Some out, gen)"
proof (rule decode_bad_crc)
  have "crc_matches (pre @ w @ post)" and total: "length (pre @ w @ post) = SLOT_BLOB_SIZE"
    using decode_OK_crc [OF assms(1)] by auto
  then show "\<not> crc_matches (pre @ w' @ post)"
    using burst_breaks_crc assms(2-5) by blast
  show "length (pre @ w' @ post) = SLOT_BLOB_SIZE" using total assms(2) by simp
qed

theorem corrupted_slot_rejected_witness:
  "\<exists>image. crc_matches image \<and>
    (\<exists>b post. image = b # post \<and>
      provision_store_decode True (Some ((b + 1) # post)) (Some sample_config) None =
        (ESP_ERR_INVALID_CRC, Some sample_config, None))"
proof -
  obtain blob where len: "length (blob_bytes blob) = SLOT_BLOB_SIZE"
    and d: "provision_store_decode True (Some (blob_bytes blob)) (Some sample_config) (Some 0) =
      (ESP_OK, Some (sample_config\<lparr>schema_version := 1\<rparr>), Some 7)"
    using encode_decode [OF sample_config_sizes sample_config_valid] by blast
  obtain b post where bp: "blob_bytes blob = b # post"
    using len by (cases "blob_bytes blob") (auto simp: SLOT_BLOB_SIZE_def)
  have "provision_store_decode True (Some ([] @ [b] @ post)) (Some sample_config) (Some 0) =
      (ESP_OK, Some (sample_config\<lparr>schema_version := 1\<rparr>), Some 7)"
    using d bp by simp
  from corrupted_slot_rejected [OF this, of "[b + 1]" sample_config None]
  have "provision_store_decode True (Some ((b + 1) # post)) (Some sample_config) None =
      (ESP_ERR_INVALID_CRC, Some sample_config, None)"
    by simp
  with bp decode_OK_crc [OF d] show ?thesis by metis
qed

end
