(* ===== verification/Provision_Store.thy ===== *)
theory Provision_Store
  imports Provision_Blob
begin

text \<open>
  The two slot store of the settings, \<^verbatim>\<open>components/provision_store/provision_store.c\<close>: which slot is
  live, loading, the save that writes the other slot, reads it back and only then switches, the
  reset and the marker of proven broker settings, over flash and over the test backend.

  The flash key value store of ESP-IDF is a parameter: a record of its operations on a state \<open>'n\<close>,
  all on the one partition and namespace the code uses. What is relied on of it is \<open>nvs_spec\<close> below.
  A call takes \<open>mem\<close>, which tells of each allocation it makes, in order, whether it succeeds.
\<close>

section \<open>The flash interface\<close>

record 'n nvs_api =
  nvs_flash_init_partition :: "'n \<Rightarrow> esp_err \<times> 'n"
  nvs_flash_erase_partition :: "'n \<Rightarrow> esp_err \<times> 'n"
  nvs_flash_deinit_partition :: "'n \<Rightarrow> esp_err \<times> 'n"
  nvs_open_from_partition :: "bool \<Rightarrow> 'n \<Rightarrow> esp_err \<times> 'n"
  nvs_get_u8 :: "string \<Rightarrow> 'n \<Rightarrow> esp_err \<times> u8"
  nvs_set_u8 :: "string \<Rightarrow> u8 \<Rightarrow> 'n \<Rightarrow> esp_err \<times> 'n"
  nvs_get_u32 :: "string \<Rightarrow> 'n \<Rightarrow> esp_err \<times> u32"
  nvs_set_u32 :: "string \<Rightarrow> u32 \<Rightarrow> 'n \<Rightarrow> esp_err \<times> 'n"
  nvs_get_blob :: "string \<Rightarrow> nat \<Rightarrow> 'n \<Rightarrow> esp_err \<times> bytes"
  nvs_set_blob :: "string \<Rightarrow> bytes \<Rightarrow> 'n \<Rightarrow> esp_err \<times> 'n"
  nvs_commit :: "'n \<Rightarrow> esp_err \<times> 'n"

definition PROVISION_SLOT_A :: string where "PROVISION_SLOT_A = ''slot_a''"
definition PROVISION_SLOT_B :: string where "PROVISION_SLOT_B = ''slot_b''"
definition PROVISION_ACTIVE_KEY :: string where "PROVISION_ACTIVE_KEY = ''active''"
definition PROVISION_MQTT_VERIFIED_KEY :: string where "PROVISION_MQTT_VERIFIED_KEY = ''mqtt_ok''"
definition PROVISION_ACTIVE_A :: u8 where "PROVISION_ACTIVE_A = 0"
definition PROVISION_ACTIVE_B :: u8 where "PROVISION_ACTIVE_B = 1"

lemmas provision_keys = PROVISION_SLOT_A_def PROVISION_SLOT_B_def PROVISION_ACTIVE_KEY_def
  PROVISION_MQTT_VERIFIED_KEY_def PROVISION_ACTIVE_A_def PROVISION_ACTIVE_B_def

section \<open>The state\<close>

text \<open>The static variables of the file, with those of the test backend, and the flash.\<close>

record 'n store_state =
  s_initialized :: bool
  flash :: 'n
  s_test_backend :: bool
  s_last_erased_partition :: string
  s_test_slots :: "provision_store_slot_blob list"
  s_test_slot_valid :: "bool list"
  s_test_active :: u8
  s_test_active_valid :: bool
  s_test_fail_next_commit :: bool
  s_test_fail_next_readback :: bool
  s_test_fail_next_active_commit :: bool
  s_test_mqtt_verified :: u32
  s_test_mqtt_verified_valid :: bool

record provision_best_slot =
  found :: bool
  active_known :: bool
  active_valid :: bool
  active_slot :: u8
  active_generation :: u32
  active_config :: provision_config
  best_slot :: u8
  generation :: u32
  config :: provision_config

record provision_live_slot =
  live_found :: bool
  live_slot :: u8
  live_generation :: u32
  live_config :: provision_config

definition config_zero :: provision_config where
  "config_zero = \<lparr>schema_version = 0, wifi_ssid = replicate 33 0, wifi_password = replicate 65 0,
     mqtt_host = replicate 129 0, mqtt_port = 0, mqtt_username = replicate 129 0,
     mqtt_password = replicate 257 0, mqtt_tls = False, mqtt_ca = replicate 4097 0,
     mqtt_client_id = replicate 65 0, mqtt_base_topic = replicate 129 0\<rparr>"

definition best_zero :: provision_best_slot where
  "best_zero = \<lparr>found = False, active_known = False, active_valid = False, active_slot = 0,
     active_generation = 0, active_config = config_zero, best_slot = 0, generation = 0,
     config = config_zero\<rparr>"

definition live_zero :: provision_live_slot where
  "live_zero = \<lparr>live_found = False, live_slot = 0, live_generation = 0, live_config = config_zero\<rparr>"

definition blob_zero :: provision_store_slot_blob where
  "blob_zero = \<lparr>blob_schema_version = 0, blob_generation = 0, blob_crc32 = 0, blob_config = config_zero\<rparr>"

section \<open>Opening\<close>

definition provision_store_init :: "'n nvs_api \<Rightarrow> 'n store_state \<Rightarrow> esp_err \<times> 'n store_state" where
  "provision_store_init api s =
    (let (err, n) = nvs_flash_init_partition api (flash s); s = s\<lparr>flash := n\<rparr>
     in if err = ESP_ERR_NVS_NO_FREE_PAGES \<or> err = ESP_ERR_NVS_NEW_VERSION_FOUND
        then let (err, n) = nvs_flash_erase_partition api (flash s); s = s\<lparr>flash := n\<rparr>
             in if err \<noteq> ESP_OK then (err, s)
                else let (err, n) = nvs_flash_init_partition api (flash s); s = s\<lparr>flash := n\<rparr>
                     in (err, if err = ESP_OK then s\<lparr>s_initialized := True\<rparr> else s)
        else (err, if err = ESP_OK then s\<lparr>s_initialized := True\<rparr> else s))"

definition open_namespace :: "'n nvs_api \<Rightarrow> bool \<Rightarrow> 'n store_state \<Rightarrow> esp_err \<times> 'n store_state" where
  "open_namespace api readwrite s =
    (let (err, s) = (if s_initialized s then (ESP_OK, s) else provision_store_init api s)
     in if err \<noteq> ESP_OK then (err, s)
        else let (err, n) = nvs_open_from_partition api readwrite (flash s) in (err, s\<lparr>flash := n\<rparr>))"

section \<open>Reading the slots\<close>

text \<open>The result comes with the contents of \<open>*config\<close> and \<open>*generation\<close>.\<close>

definition read_slot ::
  "'n nvs_api \<Rightarrow> (nat \<Rightarrow> bool) \<Rightarrow> 'n \<Rightarrow> string \<Rightarrow> provision_config \<Rightarrow> u32 \<Rightarrow>
   esp_err \<times> provision_config \<times> u32" where
  "read_slot api mem n key cfg gen =
    (if \<not> mem 0 then (ESP_ERR_NO_MEM, cfg, gen)
     else let (err, bs) = nvs_get_blob api key SLOT_BLOB_SIZE n
          in if err \<noteq> ESP_OK then (err, cfg, gen)
             else let (err, out, g) = provision_store_decode (mem 1) (Some bs) (Some cfg) (Some gen)
                  in (err, the out, the g))"

definition generation_at_least :: "u32 \<Rightarrow> u32 \<Rightarrow> bool" where
  "generation_at_least left right \<longleftrightarrow> left \<ge> right"

definition consider_best_slot ::
  "provision_best_slot \<Rightarrow> u8 \<Rightarrow> provision_config \<Rightarrow> u32 \<Rightarrow> provision_best_slot" where
  "consider_best_slot best slot cfg gen =
    (if \<not> found best \<or> generation_at_least gen (generation best)
     then best\<lparr>found := True, best_slot := slot, generation := gen, config := cfg\<rparr> else best)"

text \<open>What both slots do when they could be read.\<close>

definition note_slot :: "provision_best_slot \<Rightarrow> u8 \<Rightarrow> provision_config \<Rightarrow> u32 \<Rightarrow> provision_best_slot" where
  "note_slot best slot cfg gen =
    (let best = (if active_known best \<and> active_slot best = slot
                 then best\<lparr>active_valid := True, active_config := cfg, active_generation := gen\<rparr>
                 else best)
     in consider_best_slot best slot cfg gen)"

definition select_live_slot :: "provision_best_slot \<Rightarrow> esp_err \<times> provision_live_slot" where
  "select_live_slot best =
    (if \<not> found best then (ESP_ERR_NVS_NOT_FOUND, live_zero)
     else if active_known best \<and> active_valid best
     then (ESP_OK, \<lparr>live_found = True, live_slot = active_slot best,
                    live_generation = active_generation best, live_config = active_config best\<rparr>)
     else (ESP_OK, \<lparr>live_found = True, live_slot = best_slot best,
                    live_generation = generation best, live_config = config best\<rparr>))"

text \<open>The marker of the active slot, and one slot of the scan.\<close>

definition read_active_marker :: "'n nvs_api \<Rightarrow> 'n \<Rightarrow> provision_best_slot" where
  "read_active_marker api n =
    (let (err, active) = nvs_get_u8 api PROVISION_ACTIVE_KEY n
     in if err = ESP_OK
        then best_zero\<lparr>active_known := True,
          active_slot := if active = PROVISION_ACTIVE_B then PROVISION_ACTIVE_B else PROVISION_ACTIVE_A\<rparr>
        else best_zero)"

definition note_read ::
  "esp_err \<times> provision_config \<times> u32 \<Rightarrow> u8 \<Rightarrow> provision_best_slot \<Rightarrow> provision_best_slot" where
  "note_read r slot best =
    (let (err, cfg, gen) = r in if err = ESP_OK then note_slot best slot cfg gen else best)"

definition read_best_nvs_slot ::
  "'n nvs_api \<Rightarrow> (nat \<Rightarrow> bool) \<Rightarrow> 'n \<Rightarrow> esp_err \<times> provision_best_slot" where
  "read_best_nvs_slot api mem n =
    (let best = read_active_marker api n;
         best = note_read (read_slot api mem n PROVISION_SLOT_A config_zero 0) PROVISION_ACTIVE_A best;
         best = note_read (read_slot api (\<lambda>k. mem (k + 2)) n PROVISION_SLOT_B config_zero 0)
                  PROVISION_ACTIVE_B best
     in (if found best then ESP_OK else ESP_ERR_NVS_NOT_FOUND, best))"

text \<open>The loop over the two slots of the test backend, one turn and both.\<close>

definition read_test_slot ::
  "(nat \<Rightarrow> bool) \<Rightarrow> 'n store_state \<Rightarrow> nat \<Rightarrow> provision_best_slot \<Rightarrow> provision_best_slot" where
  "read_test_slot mem s slot best =
    (if \<not> s_test_slot_valid s ! slot then best
     else let (err, out, g) = provision_store_decode (mem slot) (Some (blob_bytes (s_test_slots s ! slot)))
                                (Some config_zero) (Some 0)
          in if err \<noteq> ESP_OK then best else note_slot best (of_nat slot) (the out) (the g))"

definition read_best_test_slot ::
  "(nat \<Rightarrow> bool) \<Rightarrow> 'n store_state \<Rightarrow> esp_err \<times> provision_best_slot" where
  "read_best_test_slot mem s =
    (let best = best_zero\<lparr>active_known := s_test_active_valid s, active_slot := s_test_active s\<rparr>;
         best = read_test_slot mem s 0 best;
         best = read_test_slot mem s 1 best
     in (if found best then ESP_OK else ESP_ERR_NVS_NOT_FOUND, best))"

section \<open>Loading\<close>

definition provision_store_load ::
  "'n nvs_api \<Rightarrow> (nat \<Rightarrow> bool) \<Rightarrow> 'n store_state \<Rightarrow> provision_config option \<Rightarrow>
   esp_err \<times> provision_config option \<times> 'n store_state" where
  "provision_store_load api mem s out =
    (if out = None then (ESP_ERR_INVALID_ARG, out, s)
     else if \<not> mem 0 then (ESP_ERR_NO_MEM, out, s)
     else if s_test_backend s
     then let (err, best) = read_best_test_slot (\<lambda>k. mem (k + 1)) s;
              (err, live) = (if err = ESP_OK then select_live_slot best else (err, live_zero))
          in (err, if err = ESP_OK then Some (live_config live) else out, s)
     else let (err, s) = open_namespace api False s
          in if err \<noteq> ESP_OK then (err, out, s)
             else let (err, best) = read_best_nvs_slot api (\<lambda>k. mem (k + 1)) (flash s);
                      (err, live) = (if err = ESP_OK then select_live_slot best else (err, live_zero))
                  in (err, if err = ESP_OK then Some (live_config live) else out, s))"

section \<open>Saving\<close>

text \<open>
  Whether the slot of the highest generation has to be made the active one first, the live slot
  after that, the slot to write and the generation to write.
\<close>

definition needs_repair :: "provision_best_slot \<Rightarrow> bool" where
  "needs_repair best \<longleftrightarrow>
     found best \<and> (\<not> active_known best \<or> \<not> active_valid best \<or> active_slot best \<noteq> best_slot best)"

definition live_of_best :: "provision_best_slot \<Rightarrow> provision_live_slot" where
  "live_of_best best = \<lparr>live_found = True, live_slot = best_slot best,
     live_generation = generation best, live_config = config best\<rparr>"

definition inactive_slot :: "provision_live_slot \<Rightarrow> u8" where
  "inactive_slot live =
    (if live_found live
     then (if live_slot live = PROVISION_ACTIVE_B then PROVISION_ACTIVE_A else PROVISION_ACTIVE_B)
     else PROVISION_ACTIVE_A)"

definition next_generation :: "provision_live_slot \<Rightarrow> u32" where
  "next_generation live = (if live_found live then live_generation live + 1 else 1)"

definition save_test_atomic ::
  "(nat \<Rightarrow> bool) \<Rightarrow> 'n store_state \<Rightarrow> provision_config \<Rightarrow> esp_err \<times> 'n store_state" where
  "save_test_atomic mem s cfg =
    (let (best_err, best) = read_best_test_slot mem s
     in if best_err \<noteq> ESP_OK \<and> best_err \<noteq> ESP_ERR_NVS_NOT_FOUND then (best_err, s) else
     let (live_err, live) = select_live_slot best
     in if live_err \<noteq> ESP_OK \<and> live_err \<noteq> ESP_ERR_NVS_NOT_FOUND then (live_err, s)
        else if live_found live \<and> live_generation live = UINT32_MAX then (ESP_ERR_INVALID_STATE, s) else
     let (s, live) = (if needs_repair best
           then (s\<lparr>s_test_active := best_slot best, s_test_active_valid := True\<rparr>, live_of_best best)
           else (s, live));
         inactive = inactive_slot live;
         (err, blob) = encode_blob (Some cfg) (next_generation live) (Some blob_zero)
     in if err \<noteq> ESP_OK then (err, s) else
     let s = s\<lparr>s_test_slots := (s_test_slots s)[unat inactive := the blob],
               s_test_slot_valid := (s_test_slot_valid s)[unat inactive := True]\<rparr>
     in if s_test_fail_next_commit s then (ESP_FAIL, s\<lparr>s_test_fail_next_commit := False\<rparr>)
        else if s_test_fail_next_readback s
        then (ESP_ERR_INVALID_CRC, s\<lparr>s_test_fail_next_readback := False\<rparr>) else
     let (err, _, readback_generation) = provision_store_decode (mem 2)
           (Some (blob_bytes (s_test_slots s ! unat inactive))) (Some config_zero) (Some 0)
     in if err \<noteq> ESP_OK \<or> readback_generation \<noteq> Some (next_generation live)
        then (if err = ESP_OK then ESP_ERR_INVALID_RESPONSE else err, s)
        else if s_test_fail_next_active_commit s
        then (ESP_FAIL, s\<lparr>s_test_fail_next_active_commit := False\<rparr>)
        else (ESP_OK, s\<lparr>s_test_active := inactive, s_test_active_valid := True\<rparr>))"

text \<open>
  The flash version. A step of the second half is taken while the error is still \<open>ESP_OK\<close>;
  \<open>and_then\<close> is that pattern. The steps: set and commit a value of one byte, and write, commit and
  read back a slot.
\<close>

definition and_then :: "esp_err \<times> 'n \<Rightarrow> ('n \<Rightarrow> esp_err \<times> 'n) \<Rightarrow> esp_err \<times> 'n" where
  "and_then r f = (case r of (err, n) \<Rightarrow> if err = ESP_OK then f n else (err, n))"

definition set_active :: "'n nvs_api \<Rightarrow> u8 \<Rightarrow> 'n \<Rightarrow> esp_err \<times> 'n" where
  "set_active api slot n =
     and_then (nvs_set_u8 api PROVISION_ACTIVE_KEY slot n) (nvs_commit api)"

definition slot_key :: "u8 \<Rightarrow> string" where
  "slot_key slot = (if slot = PROVISION_ACTIVE_B then PROVISION_SLOT_B else PROVISION_SLOT_A)"

definition readback ::
  "'n nvs_api \<Rightarrow> (nat \<Rightarrow> bool) \<Rightarrow> string \<Rightarrow> u32 \<Rightarrow> 'n \<Rightarrow> esp_err \<times> 'n" where
  "readback api mem key gen n =
    (let (err, _, g) = read_slot api mem n key config_zero 0
     in (if err = ESP_OK \<and> g \<noteq> gen then ESP_ERR_INVALID_RESPONSE else err, n))"

definition write_slot ::
  "'n nvs_api \<Rightarrow> (nat \<Rightarrow> bool) \<Rightarrow> provision_live_slot \<Rightarrow> provision_config \<Rightarrow> 'n \<Rightarrow> esp_err \<times> 'n" where
  "write_slot api mem live cfg n =
    (let inactive = inactive_slot live; key = slot_key inactive; gen = next_generation live;
         (err, blob) = encode_blob (Some cfg) gen (Some blob_zero);
         r = and_then (err, n) (nvs_set_blob api key (blob_bytes (the blob)));
         r = and_then r (nvs_commit api);
         r = and_then r (readback api mem key gen);
         r = and_then r (nvs_set_u8 api PROVISION_ACTIVE_KEY inactive)
     in and_then r (nvs_commit api))"

definition save_nvs_atomic ::
  "'n nvs_api \<Rightarrow> (nat \<Rightarrow> bool) \<Rightarrow> 'n store_state \<Rightarrow> provision_config \<Rightarrow> esp_err \<times> 'n store_state" where
  "save_nvs_atomic api mem s cfg =
    (let (err, s) = open_namespace api True s
     in if err \<noteq> ESP_OK then (err, s) else
     let (best_err, best) = read_best_nvs_slot api mem (flash s)
     in if best_err \<noteq> ESP_OK \<and> best_err \<noteq> ESP_ERR_NVS_NOT_FOUND then (best_err, s) else
     let (live_err, live) = select_live_slot best
     in if live_err \<noteq> ESP_OK \<and> live_err \<noteq> ESP_ERR_NVS_NOT_FOUND then (live_err, s)
        else if live_found live \<and> live_generation live = UINT32_MAX then (ESP_ERR_INVALID_STATE, s) else
     let (err, n) = (if needs_repair best then set_active api (best_slot best) (flash s)
                     else (ESP_OK, flash s));
         live = (if needs_repair best then live_of_best best else live);
         (err, n) = and_then (err, n) (write_slot api (\<lambda>k. mem (k + 4)) live cfg)
     in (err, s\<lparr>flash := n\<rparr>))"

definition provision_store_save_atomic ::
  "'n nvs_api \<Rightarrow> (nat \<Rightarrow> bool) \<Rightarrow> 'n store_state \<Rightarrow> provision_config option \<Rightarrow> esp_err \<times> 'n store_state" where
  "provision_store_save_atomic api mem s cfg =
     (case cfg of None \<Rightarrow> (ESP_ERR_INVALID_ARG, s)
      | Some c \<Rightarrow>
        if \<not> mem 0 then (ESP_ERR_NO_MEM, s)
        else if s_test_backend s then save_test_atomic (\<lambda>k. mem (k + 1)) s c
        else save_nvs_atomic api (\<lambda>k. mem (k + 1)) s c)"

section \<open>Reset and the marker of proven settings\<close>

definition provision_store_reset :: "'n nvs_api \<Rightarrow> 'n store_state \<Rightarrow> esp_err \<times> 'n store_state" where
  "provision_store_reset api s =
    (let s = s\<lparr>s_last_erased_partition := ''provision''\<rparr>
     in if s_test_backend s
        then (ESP_OK, s\<lparr>s_test_slots := [blob_zero, blob_zero], s_test_slot_valid := [False, False],
                        s_test_active := PROVISION_ACTIVE_A, s_test_active_valid := False,
                        s_test_mqtt_verified := 0, s_test_mqtt_verified_valid := False\<rparr>)
        else
     let (err, n) = (if s_initialized s then nvs_flash_deinit_partition api (flash s) else (ESP_OK, flash s));
         s = s\<lparr>flash := n\<rparr>
     in if s_initialized s \<and> err \<noteq> ESP_OK \<and> err \<noteq> ESP_ERR_NVS_NOT_INITIALIZED then (err, s)
        else let (err, n) = nvs_flash_erase_partition api (flash s)
             in (err, s\<lparr>s_initialized := False, flash := n\<rparr>))"

definition provision_store_load_mqtt_verified ::
  "'n nvs_api \<Rightarrow> 'n store_state \<Rightarrow> u32 option \<Rightarrow> esp_err \<times> u32 option \<times> 'n store_state" where
  "provision_store_load_mqtt_verified api s fingerprint =
    (if fingerprint = None then (ESP_ERR_INVALID_ARG, fingerprint, s)
     else if s_test_backend s
     then (if \<not> s_test_mqtt_verified_valid s then (ESP_ERR_NVS_NOT_FOUND, Some 0, s)
           else (ESP_OK, Some (s_test_mqtt_verified s), s))
     else let (err, s) = open_namespace api False s
          in if err \<noteq> ESP_OK then (err, Some 0, s)
             else let (err, stored) = nvs_get_u32 api PROVISION_MQTT_VERIFIED_KEY (flash s)
                  in (err, Some (if err = ESP_OK then stored else 0), s))"

definition provision_store_save_mqtt_verified ::
  "'n nvs_api \<Rightarrow> 'n store_state \<Rightarrow> u32 \<Rightarrow> esp_err \<times> 'n store_state" where
  "provision_store_save_mqtt_verified api s fingerprint =
    (if s_test_backend s
     then (ESP_OK, s\<lparr>s_test_mqtt_verified := fingerprint, s_test_mqtt_verified_valid := True\<rparr>)
     else let (err, s) = open_namespace api True s
          in if err \<noteq> ESP_OK then (err, s)
             else let (err, n) = and_then (nvs_set_u32 api PROVISION_MQTT_VERIFIED_KEY fingerprint (flash s))
                                   (nvs_commit api)
                  in (err, s\<lparr>flash := n\<rparr>))"

section \<open>The test backend\<close>

definition provision_store_test_reset_backend_state :: "'n store_state \<Rightarrow> 'n store_state" where
  "provision_store_test_reset_backend_state s =
     s\<lparr>s_test_backend := True, s_last_erased_partition := [],
       s_test_slots := [blob_zero, blob_zero], s_test_slot_valid := [False, False],
       s_test_active := PROVISION_ACTIVE_A, s_test_active_valid := False,
       s_test_fail_next_commit := False, s_test_fail_next_readback := False,
       s_test_fail_next_active_commit := False, s_test_mqtt_verified := 0,
       s_test_mqtt_verified_valid := False\<rparr>"

definition provision_store_test_fail_next_commit :: "'n store_state \<Rightarrow> 'n store_state" where
  "provision_store_test_fail_next_commit s = s\<lparr>s_test_backend := True, s_test_fail_next_commit := True\<rparr>"

definition provision_store_test_fail_next_readback :: "'n store_state \<Rightarrow> 'n store_state" where
  "provision_store_test_fail_next_readback s = s\<lparr>s_test_backend := True, s_test_fail_next_readback := True\<rparr>"

definition provision_store_test_fail_next_active_commit :: "'n store_state \<Rightarrow> 'n store_state" where
  "provision_store_test_fail_next_active_commit s =
     s\<lparr>s_test_backend := True, s_test_fail_next_active_commit := True\<rparr>"

definition flip_crc :: "u32 \<Rightarrow> provision_store_slot_blob \<Rightarrow> provision_store_slot_blob" where
  "flip_crc bits b = b\<lparr>blob_crc32 := blob_crc32 b XOR bits\<rparr>"

definition provision_store_test_corrupt_active_slot :: "'n store_state \<Rightarrow> 'n store_state" where
  "provision_store_test_corrupt_active_slot s =
    (let s = s\<lparr>s_test_backend := True\<rparr>; i = unat (s_test_active s)
     in if s_test_active_valid s \<and> s_test_slot_valid s ! i
        then s\<lparr>s_test_slots := (s_test_slots s)[i := flip_crc 0x12345678 (s_test_slots s ! i)]\<rparr> else s)"

definition provision_store_test_seed_slot ::
  "'n store_state \<Rightarrow> int \<Rightarrow> provision_config option \<Rightarrow> u32 \<Rightarrow> bool \<Rightarrow> bool \<Rightarrow> esp_err \<times> 'n store_state" where
  "provision_store_test_seed_slot s slot cfg gen active corrupt =
    (if slot < 0 \<or> slot > 1 then (ESP_ERR_INVALID_ARG, s)
     else
       let s = s\<lparr>s_test_backend := True\<rparr>; i = nat slot;
           (err, blob) = encode_blob cfg gen (Some (s_test_slots s ! i))
       in if err \<noteq> ESP_OK then (err, s)
          else
            let b = (if corrupt then flip_crc 0x87654321 (the blob) else the blob);
                s = s\<lparr>s_test_slots := (s_test_slots s)[i := b],
                      s_test_slot_valid := (s_test_slot_valid s)[i := True]\<rparr>
            in (ESP_OK, if active then s\<lparr>s_test_active := of_int slot, s_test_active_valid := True\<rparr> else s))"

definition provision_store_test_active_generation ::
  "bool \<Rightarrow> bool \<Rightarrow> 'n store_state \<Rightarrow> u32 option \<Rightarrow> esp_err \<times> u32 option" where
  "provision_store_test_active_generation alloc alloc_decode s generation_out =
    (if generation_out = None \<or> \<not> s_test_backend s \<or> \<not> s_test_active_valid s \<or>
        \<not> s_test_slot_valid s ! unat (s_test_active s)
     then (ESP_ERR_INVALID_STATE, generation_out)
     else if \<not> alloc then (ESP_ERR_NO_MEM, generation_out)
     else let (err, _, g) = provision_store_decode alloc_decode
                (Some (blob_bytes (s_test_slots s ! unat (s_test_active s)))) (Some config_zero) generation_out
          in (err, g))"

section \<open>What a load returns\<close>

text \<open>What is relied on of the flash: a key value store whose writes take place or do not.\<close>

datatype nvs_value = Nvs_u8 u8 | Nvs_u32 u32 | Nvs_blob bytes

definition written :: "('n \<Rightarrow> string \<Rightarrow> nvs_value option) \<Rightarrow> string \<Rightarrow> nvs_value \<Rightarrow> 'n \<Rightarrow> esp_err \<times> 'n \<Rightarrow> bool" where
  "written kv k v n r \<longleftrightarrow> (case r of (err, n') \<Rightarrow>
     kv n' = (kv n)(k \<mapsto> v) \<or> err \<noteq> ESP_OK \<and> kv n' = kv n)"

definition nvs_spec :: "'n nvs_api \<Rightarrow> ('n \<Rightarrow> string \<Rightarrow> nvs_value option) \<Rightarrow> bool" where
  "nvs_spec api kv \<longleftrightarrow>
     (\<forall>rw n. kv (snd (nvs_open_from_partition api rw n)) = kv n) \<and>
     (\<forall>n. kv (snd (nvs_commit api n)) = kv n) \<and>
     (\<forall>k v n. written kv k (Nvs_u8 v) n (nvs_set_u8 api k v n)) \<and>
     (\<forall>k v n. written kv k (Nvs_u32 v) n (nvs_set_u32 api k v n)) \<and>
     (\<forall>k v n. written kv k (Nvs_blob v) n (nvs_set_blob api k v n)) \<and>
     (\<forall>k n. case kv n k of Some (Nvs_u8 v) \<Rightarrow> nvs_get_u8 api k n = (ESP_OK, v)
                        | _ \<Rightarrow> fst (nvs_get_u8 api k n) \<noteq> ESP_OK) \<and>
     (\<forall>k n. case kv n k of Some (Nvs_u32 v) \<Rightarrow> nvs_get_u32 api k n = (ESP_OK, v)
                        | _ \<Rightarrow> fst (nvs_get_u32 api k n) \<noteq> ESP_OK) \<and>
     (\<forall>k len n. case kv n k of
         Some (Nvs_blob bs) \<Rightarrow> if length bs \<le> len then nvs_get_blob api k len n = (ESP_OK, bs)
                               else fst (nvs_get_blob api k len n) \<noteq> ESP_OK
       | _ \<Rightarrow> fst (nvs_get_blob api k len n) \<noteq> ESP_OK)"

text \<open>
  The settings in a slot, and which of the two slots holds the live settings: the active one when it
  is readable, else the one of the higher generation.
\<close>

definition slot_read :: "bytes \<Rightarrow> (provision_config \<times> u32) option" where
  "slot_read bs =
     (case provision_store_decode True (Some bs) (Some config_zero) (Some 0) of
        (ESP_OK, Some c, Some g) \<Rightarrow> Some (c, g) | _ \<Rightarrow> None)"

type_synonym slot = "(provision_config \<times> u32) option"

definition best_of :: "slot \<Rightarrow> slot \<Rightarrow> (u8 \<times> provision_config \<times> u32) option" where
  "best_of a b = (case (a, b) of
      (None, None) \<Rightarrow> None
    | (Some x, None) \<Rightarrow> Some (0, x)
    | (None, Some y) \<Rightarrow> Some (1, y)
    | (Some x, Some y) \<Rightarrow> Some (if snd y \<ge> snd x then (1, y) else (0, x)))"

definition live_of :: "u8 option \<Rightarrow> slot \<Rightarrow> slot \<Rightarrow> (u8 \<times> provision_config \<times> u32) option" where
  "live_of act a b = (case act of
      None \<Rightarrow> best_of a b
    | Some k \<Rightarrow> (case (if k = 1 then b else a) of
        None \<Rightarrow> best_of a b
      | Some x \<Rightarrow> Some (k, x)))"

text \<open>What the scan of the slots finds.\<close>

definition scan :: "bool \<Rightarrow> u8 \<Rightarrow> slot \<Rightarrow> slot \<Rightarrow> provision_best_slot" where
  "scan known k a b =
    (let best = best_zero\<lparr>active_known := known, active_slot := k\<rparr>;
         best = (case a of Some (c, g) \<Rightarrow> note_slot best 0 c g | None \<Rightarrow> best)
     in (case b of Some (c, g) \<Rightarrow> note_slot best 1 c g | None \<Rightarrow> best))"

lemma note_slot_fields:
  "found (note_slot best slot c g)"
  "active_known (note_slot best slot c g) = active_known best"
  "active_slot (note_slot best slot c g) = active_slot best"
  "active_valid (note_slot best slot c g) \<longleftrightarrow> active_known best \<and> active_slot best = slot \<or> active_valid best"
  "active_config (note_slot best slot c g) =
     (if active_known best \<and> active_slot best = slot then c else active_config best)"
  "active_generation (note_slot best slot c g) =
     (if active_known best \<and> active_slot best = slot then g else active_generation best)"
  "best_slot (note_slot best slot c g) = (if \<not> found best \<or> g \<ge> generation best then slot else best_slot best)"
  "generation (note_slot best slot c g) = (if \<not> found best \<or> g \<ge> generation best then g else generation best)"
  "config (note_slot best slot c g) = (if \<not> found best \<or> g \<ge> generation best then c else config best)"
  by (simp_all add: note_slot_def consider_best_slot_def generation_at_least_def Let_def) auto

lemma best_start_fields:
  "found (best_zero\<lparr>active_known := known, active_slot := k\<rparr>) = False"
  "active_known (best_zero\<lparr>active_known := known, active_slot := k\<rparr>) = known"
  "active_slot (best_zero\<lparr>active_known := known, active_slot := k\<rparr>) = k"
  "active_valid (best_zero\<lparr>active_known := known, active_slot := k\<rparr>) = False"
  by (simp_all add: best_zero_def)

lemmas scan_fields = scan_def note_slot_fields best_start_fields

definition live_answer :: "(u8 \<times> provision_config \<times> u32) option \<Rightarrow> esp_err \<times> provision_live_slot" where
  "live_answer l = (case l of
      None \<Rightarrow> (ESP_ERR_NVS_NOT_FOUND, live_zero)
    | Some (k, c, g) \<Rightarrow> (ESP_OK, \<lparr>live_found = True, live_slot = k, live_generation = g, live_config = c\<rparr>))"

lemma scan_select:
  assumes "k = 0 \<or> k = 1"
  shows "select_live_slot (scan known k a b) = live_answer (live_of (if known then Some k else None) a b)"
  using assms
  by (cases a; cases b; cases known)
    (auto simp: select_live_slot_def scan_fields live_of_def best_of_def live_answer_def Let_def)

lemma scan_found: "found (scan known k a b) \<longleftrightarrow> a \<noteq> None \<or> b \<noteq> None"
  by (cases a; cases b) (auto simp: scan_fields Let_def)

lemma scan_best:
  "best_of a b = Some (j, c, g) \<Longrightarrow>
    best_slot (scan known k a b) = j \<and> generation (scan known k a b) = g \<and> config (scan known k a b) = c"
  by (cases a; cases b) (auto simp: scan_fields best_of_def Let_def split: if_splits)

lemma scan_active:
  assumes "k = 0 \<or> k = 1"
  shows "active_known (scan known k a b) = known"
    "active_slot (scan known k a b) = k"
    "active_valid (scan known k a b) \<longleftrightarrow> known \<and> (if k = 1 then b else a) \<noteq> None"
  using assms by (cases a; cases b; auto simp: scan_fields Let_def)+

lemma best_of_cases:
  obtains "a = None" "b = None" "best_of a b = None"
  | x where "a = Some x" "best_of a b = Some (0, x)"
  | y where "b = Some y" "best_of a b = Some (1, y)"
proof (cases a; cases b)
  fix x y assume "a = Some x" "b = Some y"
  with that(2) [of x] that(3) [of y] show thesis
    by (cases "snd y \<ge> snd x") (simp_all add: best_of_def)
qed (auto simp: best_of_def intro: that)

lemma scan_repair:
  assumes "k = 0 \<or> k = 1"
  shows "needs_repair (scan known k a b) \<longleftrightarrow>
    (case best_of a b of None \<Rightarrow> False
     | Some (j, _) \<Rightarrow> \<not> (known \<and> k = j))"
proof (cases "best_of a b")
  case None
  then show ?thesis by (cases a; cases b) (auto simp: needs_repair_def scan_found best_of_def split: if_splits)
next
  case (Some x)
  obtain j c g where x: "x = (j, c, g)" by (cases x)
  with Some have b: "best_of a b = Some (j, c, g)" by simp
  have "(if j = 1 then b else a) \<noteq> None" "a \<noteq> None \<or> b \<noteq> None"
    using b by (cases rule: best_of_cases [of a b]; simp)+
  then show ?thesis
    using b scan_best [OF b, of known k] assms
    by (auto simp: needs_repair_def scan_found scan_active)
qed

lemma decode_slot_read:
  "case slot_read bs of
     Some (c, g) \<Rightarrow> provision_store_decode True (Some bs) (Some c0) (Some g0) = (ESP_OK, Some c, Some g)
   | None \<Rightarrow> fst (provision_store_decode True (Some bs) (Some c0) (Some g0)) \<noteq> ESP_OK"
  by (auto simp: slot_read_def provision_store_decode_def Let_def split: option.splits esp_err.splits)

lemma slot_read_encoded:
  assumes "config_sizes c"
  shows "config_valid c \<Longrightarrow> \<exists>blob. encode_blob (Some c) gen (Some b0) = (ESP_OK, Some blob) \<and>
      length (blob_bytes blob) = SLOT_BLOB_SIZE \<and>
      slot_read (blob_bytes blob) = Some (c\<lparr>schema_version := 1\<rparr>, gen)"
    "\<not> config_valid c \<Longrightarrow> encode_blob (Some c) gen (Some b0) = (ESP_ERR_INVALID_ARG, Some b0)"
  using encode_decode [OF assms, of gen b0 config_zero 0] validate_OK_iff [OF assms]
  by (auto simp: slot_read_def encode_blob_def)

text \<open>The store as a key value map.\<close>

type_synonym key_values = "string \<Rightarrow> nvs_value option"

definition kv_slot :: "key_values \<Rightarrow> u8 \<Rightarrow> slot" where
  "kv_slot m i = (case m (slot_key i) of
      Some (Nvs_blob bs) \<Rightarrow> if length bs \<le> SLOT_BLOB_SIZE then slot_read bs else None
    | _ \<Rightarrow> None)"

definition kv_active :: "key_values \<Rightarrow> u8 option" where
  "kv_active m = (case m PROVISION_ACTIVE_KEY of
      Some (Nvs_u8 v) \<Rightarrow> Some (if v = 1 then 1 else 0) | _ \<Rightarrow> None)"

definition stored :: "key_values \<Rightarrow> (u8 \<times> provision_config \<times> u32) option" where
  "stored m = live_of (kv_active m) (kv_slot m 0) (kv_slot m 1)"

definition stored_best :: "key_values \<Rightarrow> (u8 \<times> provision_config \<times> u32) option" where
  "stored_best m = best_of (kv_slot m 0) (kv_slot m 1)"

lemma nvs_spec_simps:
  assumes "nvs_spec api kv"
  shows "kv (snd (nvs_open_from_partition api rw n)) = kv n"
    "kv (snd (nvs_commit api n)) = kv n"
    "written kv k (Nvs_u8 v) n (nvs_set_u8 api k v n)"
    "written kv k (Nvs_u32 w) n (nvs_set_u32 api k w n)"
    "written kv k (Nvs_blob bs) n (nvs_set_blob api k bs n)"
  using assms unfolding nvs_spec_def by blast+

lemma nvs_spec_gets:
  assumes "nvs_spec api kv"
  shows "case kv n k of Some (Nvs_u8 v) \<Rightarrow> nvs_get_u8 api k n = (ESP_OK, v)
            | _ \<Rightarrow> fst (nvs_get_u8 api k n) \<noteq> ESP_OK"
    "case kv n k of Some (Nvs_u32 v) \<Rightarrow> nvs_get_u32 api k n = (ESP_OK, v)
            | _ \<Rightarrow> fst (nvs_get_u32 api k n) \<noteq> ESP_OK"
    "case kv n k of
         Some (Nvs_blob bs) \<Rightarrow> if length bs \<le> len then nvs_get_blob api k len n = (ESP_OK, bs)
                               else fst (nvs_get_blob api k len n) \<noteq> ESP_OK
       | _ \<Rightarrow> fst (nvs_get_blob api k len n) \<noteq> ESP_OK"
  using assms unfolding nvs_spec_def by blast+

lemma read_slot_spec:
  assumes "nvs_spec api kv" "mem 0" "mem 1"
  shows "case kv_slot (kv n) i of
      Some (c, g) \<Rightarrow> read_slot api mem n (slot_key i) c0 g0 = (ESP_OK, c, g)
    | None \<Rightarrow> fst (read_slot api mem n (slot_key i) c0 g0) \<noteq> ESP_OK"
proof (cases "\<exists>bs. kv n (slot_key i) = Some (Nvs_blob bs) \<and> length bs \<le> SLOT_BLOB_SIZE")
  case True
  then obtain bs where m: "kv n (slot_key i) = Some (Nvs_blob bs)" and l: "length bs \<le> SLOT_BLOB_SIZE" by blast
  have "nvs_get_blob api (slot_key i) SLOT_BLOB_SIZE n = (ESP_OK, bs)"
    using nvs_spec_gets(3) [OF assms(1), where n = n and k = "slot_key i" and len = SLOT_BLOB_SIZE] m l by simp
  then show ?thesis
    using m l assms(2,3) decode_slot_read [of bs c0 g0]
    by (auto simp: read_slot_def kv_slot_def Let_def split: option.splits prod.splits)
next
  case False
  then have "fst (nvs_get_blob api (slot_key i) SLOT_BLOB_SIZE n) \<noteq> ESP_OK"
    using nvs_spec_gets(3) [OF assms(1), where n = n and k = "slot_key i" and len = SLOT_BLOB_SIZE]
    by (auto split: option.splits nvs_value.splits if_splits)
  moreover have "kv_slot (kv n) i = None"
    using False by (auto simp: kv_slot_def split: option.splits nvs_value.splits)
  ultimately show ?thesis
    using assms(2) by (auto simp: read_slot_def Let_def split: prod.splits)
qed

lemma slot_key_simps: "slot_key 0 = PROVISION_SLOT_A" "slot_key 1 = PROVISION_SLOT_B"
  by (simp_all add: slot_key_def PROVISION_ACTIVE_B_def)

lemma note_read_spec:
  assumes "case a of Some (c, g) \<Rightarrow> r = (ESP_OK, c, g) | None \<Rightarrow> fst r \<noteq> ESP_OK"
  shows "note_read r slot best = (case a of Some (c, g) \<Rightarrow> note_slot best slot c g | None \<Rightarrow> best)"
  using assms by (cases r) (auto simp: note_read_def split: option.splits)

lemma read_best_spec:
  fixes n :: 'n
  assumes "nvs_spec api kv" "\<And>k. k < 4 \<Longrightarrow> mem k"
  defines "act \<equiv> kv_active (kv n)" and "a \<equiv> kv_slot (kv n) 0" and "b \<equiv> kv_slot (kv n) 1"
  shows "read_best_nvs_slot api mem n =
    (if a \<noteq> None \<or> b \<noteq> None then ESP_OK else ESP_ERR_NVS_NOT_FOUND,
     scan (act \<noteq> None) (case act of None \<Rightarrow> 0 | Some k \<Rightarrow> k) a b)"
proof -
  have mem: "mem 0" "mem 1" "mem 2" "mem 3" using assms(2) by simp_all
  have ra: "case a of Some (c, g) \<Rightarrow> read_slot api mem n PROVISION_SLOT_A config_zero 0 = (ESP_OK, c, g)
      | None \<Rightarrow> fst (read_slot api mem n PROVISION_SLOT_A config_zero 0) \<noteq> ESP_OK"
    using read_slot_spec [OF assms(1) mem(1,2), of n 0 config_zero 0] unfolding a_def slot_key_simps .
  have rb: "case b of Some (c, g) \<Rightarrow> read_slot api (\<lambda>k. mem (k + 2)) n PROVISION_SLOT_B config_zero 0 = (ESP_OK, c, g)
      | None \<Rightarrow> fst (read_slot api (\<lambda>k. mem (k + 2)) n PROVISION_SLOT_B config_zero 0) \<noteq> ESP_OK"
    using read_slot_spec [OF assms(1), of "\<lambda>k. mem (k + 2)" n 1 config_zero 0] mem(3,4)
    unfolding b_def slot_key_simps by (simp add: numeral_eq_Suc)
  let ?s = "scan (act \<noteq> None) (case act of None \<Rightarrow> 0 | Some k \<Rightarrow> k) a b"
  have start: "read_active_marker api n = best_zero\<lparr>active_known := act \<noteq> None, active_slot := case act of None \<Rightarrow> 0 | Some k \<Rightarrow> k\<rparr>"
  proof (cases "\<exists>v. kv n PROVISION_ACTIVE_KEY = Some (Nvs_u8 v)")
    case True
    then obtain v where v: "kv n PROVISION_ACTIVE_KEY = Some (Nvs_u8 v)" by blast
    then have "nvs_get_u8 api PROVISION_ACTIVE_KEY n = (ESP_OK, v)"
      using nvs_spec_gets(1) [OF assms(1), where n = n and k = PROVISION_ACTIVE_KEY] by simp
    with v show ?thesis
      by (simp add: act_def kv_active_def read_active_marker_def PROVISION_ACTIVE_A_def PROVISION_ACTIVE_B_def)
  next
    case False
    then have "fst (nvs_get_u8 api PROVISION_ACTIVE_KEY n) \<noteq> ESP_OK"
      using nvs_spec_gets(1) [OF assms(1), where n = n and k = PROVISION_ACTIVE_KEY]
      by (auto split: option.splits nvs_value.splits)
    moreover have "act = None"
      using False by (auto simp: act_def kv_active_def split: option.splits nvs_value.splits)
    moreover have "best_zero\<lparr>active_known := False, active_slot := 0\<rparr> = best_zero"
      by (simp add: best_zero_def)
    ultimately show ?thesis
      by (cases "nvs_get_u8 api PROVISION_ACTIVE_KEY n") (simp add: read_active_marker_def)
  qed
  have "(if a \<noteq> None \<or> b \<noteq> None then ESP_OK else ESP_ERR_NVS_NOT_FOUND) =
      (if found (scan (act \<noteq> None) (case act of None \<Rightarrow> 0 | Some k \<Rightarrow> k) a b) then ESP_OK
       else ESP_ERR_NVS_NOT_FOUND)"
    by (simp only: scan_found)
  then show ?thesis
    unfolding read_best_nvs_slot_def start note_read_spec [OF ra] note_read_spec [OF rb]
    by (simp only: scan_def Let_def PROVISION_ACTIVE_A_def PROVISION_ACTIVE_B_def)
qed

text \<open>A load returns the live settings.\<close>

lemma kv_active_cases: "kv_active m = None \<or> kv_active m = Some 0 \<or> kv_active m = Some 1"
  by (auto simp: kv_active_def split: option.splits nvs_value.splits)

lemma best_spec:
  fixes n :: 'n
  assumes "nvs_spec api kv" "\<And>k. k < 4 \<Longrightarrow> mem k"
  obtains best where
    "read_best_nvs_slot api mem n =
       (if stored_best (kv n) = None then ESP_ERR_NVS_NOT_FOUND else ESP_OK, best)"
    "select_live_slot best = live_answer (stored (kv n))"
    "needs_repair best \<longleftrightarrow> (case stored_best (kv n) of None \<Rightarrow> False
       | Some (j, _) \<Rightarrow> kv_active (kv n) \<noteq> Some j)"
    "\<And>j c g. stored_best (kv n) = Some (j, c, g) \<Longrightarrow> live_of_best best = snd (live_answer (Some (j, c, g)))"
proof -
  let ?act = "kv_active (kv n)" and ?a = "kv_slot (kv n) 0" and ?b = "kv_slot (kv n) 1"
  let ?k = "case ?act of None \<Rightarrow> 0 | Some k \<Rightarrow> k"
  let ?best = "scan (?act \<noteq> None) ?k ?a ?b"
  have k: "?k = 0 \<or> ?k = 1" "(if ?act \<noteq> None then Some ?k else None) = ?act"
    using kv_active_cases [of "kv n"] by auto
  have none: "stored_best (kv n) = None \<longleftrightarrow> ?a = None \<and> ?b = None"
    by (auto simp: stored_best_def best_of_def split: option.splits if_splits)
  show thesis
  proof (rule that [of ?best])
    show "read_best_nvs_slot api mem n =
       (if stored_best (kv n) = None then ESP_ERR_NVS_NOT_FOUND else ESP_OK, ?best)"
      using read_best_spec [OF assms] none by auto
    show "select_live_slot ?best = live_answer (stored (kv n))"
      using scan_select [OF k(1), of "?act \<noteq> None" ?a ?b] unfolding k(2) stored_def .
    show "needs_repair ?best \<longleftrightarrow> (case stored_best (kv n) of None \<Rightarrow> False | Some (j, _) \<Rightarrow> ?act \<noteq> Some j)"
      using scan_repair [OF k(1), of "?act \<noteq> None" ?a ?b] unfolding stored_best_def
      by (auto split: option.splits)
    show "live_of_best ?best = snd (live_answer (Some (j, c, g)))" if "stored_best (kv n) = Some (j, c, g)" for j c g
      using scan_best [of ?a ?b j c g "?act \<noteq> None" ?k] that
      by (simp add: stored_best_def live_of_best_def live_answer_def)
  qed
qed

lemma stored_none: "stored m = None \<longleftrightarrow> stored_best m = None"
  by (auto simp: stored_def stored_best_def live_of_def best_of_def split: option.splits if_splits)

text \<open>What a load answers, with enough memory.\<close>

definition loads :: "'n nvs_api \<Rightarrow> 'n store_state \<Rightarrow> provision_config option" where
  "loads api s = (case provision_store_load api (\<lambda>_. True) s (Some config_zero) of
     (err, out, _) \<Rightarrow> if err = ESP_OK then out else None)"

definition opens :: "'n nvs_api \<Rightarrow> bool" where
  "opens api \<longleftrightarrow> (\<forall>n. fst (nvs_open_from_partition api False n) = ESP_OK)"

lemma loads_stored:
  assumes "nvs_spec api kv" "opens api" "s_initialized s" "\<not> s_test_backend s"
  shows "loads api s = map_option (\<lambda>(_, c, _). c) (stored (kv (flash s)))"
proof -
  obtain n' where open': "nvs_open_from_partition api False (flash s) = (ESP_OK, n')"
    using assms(2) by (metis opens_def prod.collapse)
  have kv: "kv n' = kv (flash s)"
    using nvs_spec_simps(1) [OF assms(1), of False "flash s"] open' by simp
  obtain best where b: "read_best_nvs_slot api (\<lambda>_. True) n' =
       (if stored_best (kv n') = None then ESP_ERR_NVS_NOT_FOUND else ESP_OK, best)"
    "select_live_slot best = live_answer (stored (kv n'))"
    using best_spec [OF assms(1), of "\<lambda>_. True" n'] by metis
  show ?thesis
    using assms(3,4) open' kv b stored_none [of "kv n'"]
    by (auto simp: loads_def provision_store_load_def open_namespace_def live_answer_def Let_def
        split: option.splits)
qed

end
