(* ===== verification/Provision_Store_Correct.thy ===== *)
theory Provision_Store_Correct
  imports Provision_Store
begin

text \<open>
  What the two slot store guarantees: a save that reports success is what the next load returns, a
  save whose writes fail anywhere leaves the old or the new settings, and the one exception, a save
  after a failed save, shown on any flash and on the test backend.
\<close>

section \<open>What a save leaves behind\<close>

lemma writtenD:
  "written kv k v n (err, n') \<Longrightarrow> kv n' = (kv n)(k \<mapsto> v) \<or> err \<noteq> ESP_OK \<and> kv n' = kv n"
  by (simp add: written_def)

lemma kv_slot_upd:
  assumes "i = 0 \<or> i = 1"
  shows "j = 0 \<or> j = 1 \<Longrightarrow> kv_slot (m(slot_key i \<mapsto> v)) j =
      (if i = j then (case v of Nvs_blob bs \<Rightarrow> if length bs \<le> SLOT_BLOB_SIZE then slot_read bs else None | _ \<Rightarrow> None)
       else kv_slot m j)"
    "kv_active (m(slot_key i \<mapsto> v)) = kv_active m"
  using assms by (auto simp: kv_slot_def kv_active_def slot_key_def provision_keys)

lemma kv_active_upd [simp]:
  "kv_slot (m(PROVISION_ACTIVE_KEY \<mapsto> v)) j = kv_slot m j"
  "kv_active (m(PROVISION_ACTIVE_KEY \<mapsto> Nvs_u8 w)) = Some (if w = 1 then 1 else 0)"
  by (auto simp: kv_slot_def kv_active_def slot_key_def provision_keys)

text \<open>Setting the active marker and writing a slot, as effects on the stored values.\<close>

lemma set_active_kv:
  assumes "nvs_spec api kv" "set_active api k n = (err, n')"
  shows "kv n' = (kv n)(PROVISION_ACTIVE_KEY \<mapsto> Nvs_u8 k) \<or> err \<noteq> ESP_OK \<and> kv n' = kv n"
proof -
  obtain e1 n1 where 1: "nvs_set_u8 api PROVISION_ACTIVE_KEY k n = (e1, n1)" by fastforce
  have w: "kv n1 = (kv n)(PROVISION_ACTIVE_KEY \<mapsto> Nvs_u8 k) \<or> e1 \<noteq> ESP_OK \<and> kv n1 = kv n"
    using nvs_spec_simps(3) [OF assms(1), of PROVISION_ACTIVE_KEY k n] unfolding 1 by (rule writtenD)
  show ?thesis
    using assms(2) w nvs_spec_simps(2) [OF assms(1), of n1]
    by (auto simp: set_active_def and_then_def 1 split: if_splits)
qed

lemma and_then_OK: "and_then r f = (ESP_OK, n) \<Longrightarrow> \<exists>n1. r = (ESP_OK, n1) \<and> f n1 = (ESP_OK, n)"
  by (cases r) (auto simp: and_then_def split: if_splits)

lemma and_then_cases:
  assumes "and_then r f = (err, n)"
  obtains "fst r \<noteq> ESP_OK" "r = (err, n)" | n1 where "r = (ESP_OK, n1)" "f n1 = (err, n)"
  using assms by (cases r) (auto simp: and_then_def split: if_splits)

lemma commit_kv:
  assumes "nvs_spec api kv" "and_then r (nvs_commit api) = (err, n)"
  shows "kv n = kv (snd r)" "err = ESP_OK \<Longrightarrow> fst r = ESP_OK"
  using assms nvs_spec_simps(2) [OF assms(1)]
  by (cases r; auto simp: and_then_def split: if_splits; metis snd_conv)+

lemma readback_kv: "and_then r (readback api mem key gen) = (err, n) \<Longrightarrow> n = snd r"
  by (cases r) (auto simp: and_then_def readback_def Let_def split: if_splits prod.splits)

lemma write_slot_kv:
  assumes "nvs_spec api kv" "config_sizes c" "write_slot api mem live c n = (err, n')"
  defines "i \<equiv> inactive_slot live"
  obtains (none) "kv n' = kv n" "err \<noteq> ESP_OK"
  | (slot) bs where "config_valid c" "length bs = SLOT_BLOB_SIZE"
      "slot_read bs = Some (c\<lparr>schema_version := 1\<rparr>, next_generation live)"
      "kv n' = (kv n)(slot_key i \<mapsto> Nvs_blob bs)" "err \<noteq> ESP_OK"
  | (switched) bs where "config_valid c" "length bs = SLOT_BLOB_SIZE"
      "slot_read bs = Some (c\<lparr>schema_version := 1\<rparr>, next_generation live)"
      "kv n' = (kv n)(slot_key i \<mapsto> Nvs_blob bs, PROVISION_ACTIVE_KEY \<mapsto> Nvs_u8 i)"
proof (cases "config_valid c")
  case False
  then have "encode_blob (Some c) (next_generation live) (Some blob_zero) = (ESP_ERR_INVALID_ARG, Some blob_zero)"
    using slot_read_encoded(2) [OF assms(2)] by blast
  then show ?thesis using assms(3) none by (auto simp: write_slot_def and_then_def Let_def)
next
  case True
  obtain blob where enc: "encode_blob (Some c) (next_generation live) (Some blob_zero) = (ESP_OK, Some blob)"
    and len: "length (blob_bytes blob) = SLOT_BLOB_SIZE"
    and rd: "slot_read (blob_bytes blob) = Some (c\<lparr>schema_version := 1\<rparr>, next_generation live)"
    using slot_read_encoded(1) [OF assms(2) True] by blast
  let ?bs = "blob_bytes blob"
  define r1 where "r1 = nvs_set_blob api (slot_key i) ?bs n"
  define r2 where "r2 = and_then r1 (nvs_commit api)"
  define r3 where "r3 = and_then r2 (readback api mem (slot_key i) (next_generation live))"
  define r4 where "r4 = and_then r3 (nvs_set_u8 api PROVISION_ACTIVE_KEY i)"
  have w: "and_then r4 (nvs_commit api) = (err, n')"
    using assms(3) enc
    by (simp add: write_slot_def Let_def r1_def r2_def r3_def r4_def and_then_def i_def)
  have k1: "kv (snd r1) = (kv n)(slot_key i \<mapsto> Nvs_blob ?bs) \<or> fst r1 \<noteq> ESP_OK \<and> kv (snd r1) = kv n"
    using nvs_spec_simps(5) [OF assms(1), of "slot_key i" ?bs n]
    by (cases r1) (auto simp: r1_def dest: writtenD)
  have k2: "kv (snd r2) = kv (snd r1)" "fst r2 = ESP_OK \<Longrightarrow> fst r1 = ESP_OK"
    using commit_kv [OF assms(1), of r1, folded r2_def, OF prod.collapse [symmetric]] by auto
  have k3: "snd r3 = snd r2" "fst r3 = ESP_OK \<Longrightarrow> fst r2 = ESP_OK"
    using readback_kv [of r2 api mem "slot_key i" "next_generation live" "fst r3" "snd r3"]
    by (cases r2; simp add: r3_def and_then_def split: if_splits)+
  have k5: "kv n' = kv (snd r4)" "err = ESP_OK \<Longrightarrow> fst r4 = ESP_OK"
    using commit_kv [OF assms(1) w] by auto
  show ?thesis
  proof (cases "fst r3 = ESP_OK")
    case ok: True
    have k4: "kv (snd r4) = (kv (snd r3))(PROVISION_ACTIVE_KEY \<mapsto> Nvs_u8 i) \<or>
        fst r4 \<noteq> ESP_OK \<and> kv (snd r4) = kv (snd r3)"
      using nvs_spec_simps(3) [OF assms(1), of PROVISION_ACTIVE_KEY i "snd r3"] ok
      by (cases r3; cases "nvs_set_u8 api PROVISION_ACTIVE_KEY i (snd r3)")
        (auto simp: r4_def and_then_def dest: writtenD)
    have s: "kv (snd r3) = (kv n)(slot_key i \<mapsto> Nvs_blob ?bs)"
      using ok k1 k2 k3 by auto
    from k4 show ?thesis
    proof
      assume "kv (snd r4) = (kv (snd r3))(PROVISION_ACTIVE_KEY \<mapsto> Nvs_u8 i)"
      then show ?thesis using switched [OF True len rd] k5(1) s by simp
    next
      assume "fst r4 \<noteq> ESP_OK \<and> kv (snd r4) = kv (snd r3)"
      then show ?thesis using slot [OF True len rd] k5 s by auto
    qed
  next
    case bad: False
    then have r4: "r4 = r3" by (cases r3) (simp add: r4_def and_then_def)
    with bad k5 have err: "err \<noteq> ESP_OK" "kv n' = kv (snd r1)" using k2 k3 by auto
    with k1 slot [OF True len rd] none show ?thesis by auto
  qed
qed

definition stored_config :: "key_values \<Rightarrow> provision_config option" where
  "stored_config m = map_option (\<lambda>(_, c, _). c) (stored m)"

definition best_config :: "key_values \<Rightarrow> provision_config option" where
  "best_config m = map_option (\<lambda>(_, c, _). c) (stored_best m)"

lemma stored_best_slot:
  "stored_best m = Some (j, c, g) \<Longrightarrow> (j = 0 \<or> j = 1) \<and> kv_slot m j = Some (c, g)"
  unfolding stored_best_def by (cases rule: best_of_cases [of "kv_slot m 0" "kv_slot m 1"]) auto

lemma stored_active: "kv_active m = Some j \<Longrightarrow> j = 0 \<or> j = 1 \<Longrightarrow> kv_slot m j = Some (c, g) \<Longrightarrow> stored m = Some (j, c, g)"
  by (auto simp: stored_def live_of_def)

text \<open>Writing the slot that is not live, and switching to it, as the save does.\<close>

lemma save_effect:
  assumes live: "stored_best m = None \<and> live = live_zero \<or>
      (\<exists>j c g. kv_active m = Some j \<and> (j = 0 \<or> j = 1) \<and> kv_slot m j = Some (c, g) \<and>
        live = snd (live_answer (Some (j, c, g))))"
    and new: "length bs = SLOT_BLOB_SIZE" "slot_read bs = Some (d, g')"
  defines "m1 \<equiv> m(slot_key (inactive_slot live) \<mapsto> Nvs_blob bs)"
  defines "m2 \<equiv> m1(PROVISION_ACTIVE_KEY \<mapsto> Nvs_u8 (inactive_slot live))"
  shows "stored_config m1 = Some d \<or> stored_config m1 = stored_config m" "stored_config m2 = Some d"
proof -
  let ?i = "inactive_slot live"
  have i: "?i = 0 \<or> ?i = 1"
    by (auto simp: inactive_slot_def PROVISION_ACTIVE_A_def PROVISION_ACTIVE_B_def)
  have s1: "kv_slot m1 ?i = Some (d, g')" using i new by (simp add: m1_def kv_slot_upd)
  then have s2: "kv_slot m2 ?i = Some (d, g')" using i by (simp add: m2_def kv_slot_upd)
  moreover have "kv_active m2 = Some ?i" using i by (auto simp: m2_def kv_slot_upd)
  ultimately show "stored_config m2 = Some d"
    using stored_active [of m2 ?i d g'] i by (simp add: stored_config_def)
  show "stored_config m1 = Some d \<or> stored_config m1 = stored_config m"
    using live
  proof
    assume n: "stored_best m = None \<and> live = live_zero"
    then have none: "kv_slot m 0 = None" "kv_slot m 1 = None"
      by (auto simp: stored_best_def best_of_def split: option.splits if_splits)
    have i0: "?i = 0" using n by (simp add: inactive_slot_def live_zero_def PROVISION_ACTIVE_A_def)
    have "kv_slot m1 0 = Some (d, g')" using s1 i0 by simp
    moreover have "kv_slot m1 1 = None" using none(2) i0 by (simp add: m1_def kv_slot_upd)
    ultimately have "stored_config m1 = Some d"
      using kv_active_cases [of m1]
      by (auto simp: stored_config_def stored_def live_of_def best_of_def)
    then show ?thesis by simp
  next
    assume "\<exists>j c g. kv_active m = Some j \<and> (j = 0 \<or> j = 1) \<and> kv_slot m j = Some (c, g) \<and>
        live = snd (live_answer (Some (j, c, g)))"
    then obtain j c g where j: "kv_active m = Some j" "j = 0 \<or> j = 1" "kv_slot m j = Some (c, g)"
      "live = snd (live_answer (Some (j, c, g)))" by blast
    have "?i \<noteq> j"
      using j(2,4) by (auto simp: inactive_slot_def live_answer_def PROVISION_ACTIVE_A_def PROVISION_ACTIVE_B_def)
    then have "kv_slot m1 j = Some (c, g)" "kv_active m1 = Some j"
      using i j(1-3) by (simp_all add: m1_def kv_slot_upd)
    then show ?thesis
      using stored_active [of m1 j c g] stored_active [of m j c g] j by (simp add: stored_config_def)
  qed
qed

lemma save_nvs_stored:
  assumes spec: "nvs_spec api kv" and init: "s_initialized s" and sz: "config_sizes c"
    and mem: "\<And>k. k < 4 \<Longrightarrow> mem k"
    and save: "save_nvs_atomic api mem s c = (err, s')"
  shows "s_initialized s' \<and> s_test_backend s' = s_test_backend s"
    and "stored_config (kv (flash s')) \<in> {stored_config (kv (flash s)), best_config (kv (flash s))} \<or>
      config_valid c \<and> stored_config (kv (flash s')) = Some (c\<lparr>schema_version := 1\<rparr>)"
    and "err = ESP_OK \<Longrightarrow> config_valid c \<and> stored_config (kv (flash s')) = Some (c\<lparr>schema_version := 1\<rparr>)"
proof -
  obtain e0 n0 where op: "nvs_open_from_partition api True (flash s) = (e0, n0)" by fastforce
  have kv0: "kv n0 = kv (flash s)" using nvs_spec_simps(1) [OF spec, of True "flash s"] op by simp
  let ?m = "kv (flash s)" and ?d = "c\<lparr>schema_version := 1\<rparr>"
  obtain best where best: "read_best_nvs_slot api mem n0 =
       (if stored_best ?m = None then ESP_ERR_NVS_NOT_FOUND else ESP_OK, best)"
    "select_live_slot best = live_answer (stored ?m)"
    "needs_repair best \<longleftrightarrow> (case stored_best ?m of None \<Rightarrow> False
       | Some (j, _) \<Rightarrow> kv_active ?m \<noteq> Some j)"
    "\<And>j c g. stored_best ?m = Some (j, c, g) \<Longrightarrow> live_of_best best = snd (live_answer (Some (j, c, g)))"
    by (rule best_spec [where mem = mem and n = n0, OF spec, unfolded kv0]) (use mem in blast)+
  let ?goal = "s_initialized s' \<and> s_test_backend s' = s_test_backend s \<and>
    (stored_config (kv (flash s')) \<in> {stored_config ?m, best_config ?m} \<or>
      config_valid c \<and> stored_config (kv (flash s')) = Some ?d) \<and>
    (err = ESP_OK \<longrightarrow> config_valid c \<and> stored_config (kv (flash s')) = Some ?d)"
  define live where "live = snd (live_answer (stored ?m))"
  define r1 where "r1 = (if needs_repair best then set_active api (best_slot best) n0 else (ESP_OK, n0))"
  define live1 where "live1 = (if needs_repair best then live_of_best best else live)"
  define r2 where "r2 = and_then r1 (write_slot api (\<lambda>k. mem (k + 4)) live1 c)"
  consider (unopened) "e0 \<noteq> ESP_OK" "err \<noteq> ESP_OK" "s' = s\<lparr>flash := n0\<rparr>"
    | (full) "e0 = ESP_OK" "err = ESP_ERR_INVALID_STATE" "s' = s\<lparr>flash := n0\<rparr>"
    | (go) "e0 = ESP_OK" "err = fst r2" "s' = s\<lparr>flash := snd r2\<rparr>"
    using save init op best(1,2)
    by (auto simp: save_nvs_atomic_def open_namespace_def Let_def r1_def r2_def live1_def live_def
        live_answer_def split: option.splits if_splits prod.splits)
  then have ?goal
  proof cases
    case go
    let ?ready = "\<lambda>m. stored_best m = None \<and> live1 = live_zero \<or>
      (\<exists>j c g. kv_active m = Some j \<and> (j = 0 \<or> j = 1) \<and> kv_slot m j = Some (c, g) \<and>
        live1 = snd (live_answer (Some (j, c, g))))"
    obtain e1 n1 where r1: "r1 = (e1, n1)" by fastforce
    have first: "stored_config (kv n1) \<in> {stored_config ?m, best_config ?m} \<and> (e1 = ESP_OK \<longrightarrow> ?ready (kv n1))"
    proof (cases "stored_best ?m")
      case None
      with best(3) stored_none [of ?m] r1 kv0 show ?thesis
        by (simp add: r1_def live1_def live_def live_answer_def)
    next
      case (Some b)
      then obtain j cb g where sb: "stored_best ?m = Some (j, cb, g)" by (cases b) auto
      note slot = stored_best_slot [OF sb]
      have lb: "live_of_best best = snd (live_answer (Some (j, cb, g)))" by (rule best(4) [OF sb])
      have bc: "best_config ?m = Some cb" by (simp add: best_config_def sb)
      show ?thesis
      proof (cases "kv_active ?m = Some j")
        case True
        then have "stored ?m = Some (j, cb, g)" using slot stored_active by blast
        then show ?thesis
          using True slot best(3) sb r1 kv0 by (simp add: r1_def live1_def live_def)
      next
        case False
        have bs: "best_slot best = j" using lb by (simp add: live_of_best_def live_answer_def)
        have "kv n1 = ?m(PROVISION_ACTIVE_KEY \<mapsto> Nvs_u8 j) \<or> e1 \<noteq> ESP_OK \<and> kv n1 = ?m"
          using set_active_kv [OF spec, of j n0 e1 n1] r1 False best(3) sb bs kv0 by (simp add: r1_def)
        then show ?thesis
        proof
          assume upd: "kv n1 = ?m(PROVISION_ACTIVE_KEY \<mapsto> Nvs_u8 j)"
          then have "kv_active (kv n1) = Some j" "kv_slot (kv n1) j = Some (cb, g)"
            using slot by (auto simp: kv_slot_upd)
          moreover from this have "stored_config (kv n1) = Some cb"
            using stored_active slot by (simp add: stored_config_def)
          ultimately show ?thesis
            using slot lb bc False best(3) sb by (simp add: live1_def)
        qed simp
      qed
    qed
    show ?thesis
    proof (cases "e1 = ESP_OK")
      case False
      then have "r2 = (e1, n1)" by (simp add: r2_def r1 and_then_def)
      with False go first init show ?thesis by simp
    next
      case True
      obtain e2 n2 where r2: "r2 = (e2, n2)" by fastforce
      then have ws: "write_slot api (\<lambda>k. mem (k + 4)) live1 c n1 = (e2, n2)"
        using True by (simp add: r2_def r1 and_then_def)
      show ?thesis
        using spec sz ws
      proof (cases rule: write_slot_kv)
        case none
        with go first init r2 show ?thesis by simp
      next
        case (slot bs)
        have "stored_config (kv n2) = Some ?d \<or> stored_config (kv n2) = stored_config (kv n1)"
          using save_effect(1) [OF _ slot(2,3), of "kv n1"] first True slot(4) by simp
        with go first init r2 slot show ?thesis by auto
      next
        case (switched bs)
        have "stored_config (kv n2) = Some ?d"
          using save_effect(2) [OF _ switched(2,3), of "kv n1"] first True switched(4) by simp
        with go init r2 switched show ?thesis by simp
      qed
    qed
  qed (use init kv0 in \<open>auto simp: stored_config_def\<close>)
  then show "s_initialized s' \<and> s_test_backend s' = s_test_backend s"
    and "stored_config (kv (flash s')) \<in> {stored_config (kv (flash s)), best_config (kv (flash s))} \<or>
      config_valid c \<and> stored_config (kv (flash s')) = Some (c\<lparr>schema_version := 1\<rparr>)"
    and "err = ESP_OK \<Longrightarrow> config_valid c \<and> stored_config (kv (flash s')) = Some (c\<lparr>schema_version := 1\<rparr>)"
    by blast+
qed

section \<open>The store on a flash without errors\<close>

definition reliable :: "'n nvs_api \<Rightarrow> bool" where
  "reliable api \<longleftrightarrow>
     (\<forall>rw n. fst (nvs_open_from_partition api rw n) = ESP_OK) \<and> (\<forall>n. fst (nvs_commit api n) = ESP_OK) \<and>
     (\<forall>k v n. fst (nvs_set_u8 api k v n) = ESP_OK) \<and> (\<forall>k v n. fst (nvs_set_blob api k v n) = ESP_OK)"

lemma reliable_step:
  assumes "reliable api"
  shows "nvs_commit api n = (ESP_OK, snd (nvs_commit api n))"
    "nvs_set_u8 api k v n = (ESP_OK, snd (nvs_set_u8 api k v n))"
    "nvs_set_blob api k bs n = (ESP_OK, snd (nvs_set_blob api k bs n))"
    "nvs_open_from_partition api rw n = (ESP_OK, snd (nvs_open_from_partition api rw n))"
  using assms by (simp_all add: reliable_def prod_eq_iff)

lemma write_slot_to_marker:
  assumes spec: "nvs_spec api kv" and c: "config_sizes c" "config_valid c" and mem: "mem 0" "mem 1"
    and ok: "\<And>n. fst (nvs_commit api n) = ESP_OK" "\<And>k v n. fst (nvs_set_blob api k v n) = ESP_OK"
  obtains bs n2 where "length bs = SLOT_BLOB_SIZE"
    "slot_read bs = Some (c\<lparr>schema_version := 1\<rparr>, next_generation live)"
    "kv n2 = (kv n)(slot_key (inactive_slot live) \<mapsto> Nvs_blob bs)"
    "write_slot api mem live c n =
      and_then (nvs_set_u8 api PROVISION_ACTIVE_KEY (inactive_slot live) n2) (nvs_commit api)"
proof -
  let ?i = "inactive_slot live" and ?gen = "next_generation live"
  obtain blob where enc: "encode_blob (Some c) ?gen (Some blob_zero) = (ESP_OK, Some blob)"
    and len: "length (blob_bytes blob) = SLOT_BLOB_SIZE"
    and rd: "slot_read (blob_bytes blob) = Some (c\<lparr>schema_version := 1\<rparr>, ?gen)"
    using slot_read_encoded(1) [OF c] by blast
  define n1 where "n1 = snd (nvs_set_blob api (slot_key ?i) (blob_bytes blob) n)"
  define n2 where "n2 = snd (nvs_commit api n1)"
  have st: "nvs_set_blob api (slot_key ?i) (blob_bytes blob) n = (ESP_OK, n1)"
    "nvs_commit api n1 = (ESP_OK, n2)"
    unfolding n1_def n2_def by (simp_all add: prod_eq_iff ok)
  have "kv n1 = (kv n)(slot_key ?i \<mapsto> Nvs_blob (blob_bytes blob))"
    using nvs_spec_simps(5) [OF spec, of "slot_key ?i" "blob_bytes blob" n] unfolding st
    by (auto dest: writtenD)
  then have kv2: "kv n2 = (kv n)(slot_key ?i \<mapsto> Nvs_blob (blob_bytes blob))"
    using nvs_spec_simps(2) [OF spec, of n1] by (simp add: n2_def)
  moreover have "?i = 0 \<or> ?i = 1"
    by (auto simp: inactive_slot_def PROVISION_ACTIVE_A_def PROVISION_ACTIVE_B_def)
  ultimately have "kv_slot (kv n2) ?i = Some (c\<lparr>schema_version := 1\<rparr>, ?gen)"
    using len rd by (simp add: kv_slot_upd)
  with read_slot_spec [where n = n2 and i = ?i and ?c0.0 = config_zero and ?g0.0 = 0, OF spec mem]
  have rb: "readback api mem (slot_key ?i) ?gen n2 = (ESP_OK, n2)"
    by (simp add: readback_def)
  with enc st have "write_slot api mem live c n =
      and_then (nvs_set_u8 api PROVISION_ACTIVE_KEY ?i n2) (nvs_commit api)"
    by (simp add: write_slot_def Let_def and_then_def)
  with len rd kv2 that show thesis by blast
qed

lemma write_slot_reliable:
  assumes spec: "nvs_spec api kv" and rel: "reliable api" and c: "config_sizes c" "config_valid c"
    and mem: "mem 0" "mem 1"
  shows "fst (write_slot api mem live c n) = ESP_OK"
proof -
  from rel have ok: "\<And>n. fst (nvs_commit api n) = ESP_OK" "\<And>k v n. fst (nvs_set_blob api k v n) = ESP_OK"
    by (simp_all add: reliable_def)
  obtain n2 where w: "write_slot api mem live c n =
      and_then (nvs_set_u8 api PROVISION_ACTIVE_KEY (inactive_slot live) n2) (nvs_commit api)"
    by (rule write_slot_to_marker [where mem = mem and live = live and n = n, OF spec c mem ok]) blast+
  obtain n3 where "nvs_set_u8 api PROVISION_ACTIVE_KEY (inactive_slot live) n2 = (ESP_OK, n3)"
    using reliable_step [OF rel] by blast
  with w ok(1) [of n3] show ?thesis by (simp add: and_then_def)
qed

lemma save_nvs_reliable:
  assumes spec: "nvs_spec api kv" and rel: "reliable api" and init: "s_initialized s"
    and c: "config_sizes c" "config_valid c" and mem: "\<And>k. mem k"
    and gen: "\<And>j d. stored (kv (flash s)) \<noteq> Some (j, d, UINT32_MAX)"
  shows "fst (save_nvs_atomic api mem s c) = ESP_OK"
proof -
  let ?m = "kv (flash s)"
  obtain n0 where op: "nvs_open_from_partition api True (flash s) = (ESP_OK, n0)"
    using reliable_step [OF rel] by blast
  have kv0: "kv n0 = ?m" using nvs_spec_simps(1) [OF spec, of True "flash s"] op by simp
  obtain best where best: "read_best_nvs_slot api mem n0 =
       (if stored_best ?m = None then ESP_ERR_NVS_NOT_FOUND else ESP_OK, best)"
    "select_live_slot best = live_answer (stored ?m)"
    by (rule best_spec [where mem = mem and n = n0, OF spec, unfolded kv0]) (use mem in blast)+
  have "\<exists>n1. set_active api k n0 = (ESP_OK, n1)" for k
  proof -
    obtain n2 n3 where "nvs_set_u8 api PROVISION_ACTIVE_KEY k n0 = (ESP_OK, n2)" "nvs_commit api n2 = (ESP_OK, n3)"
      using reliable_step [OF rel] by blast
    then show ?thesis by (simp add: set_active_def and_then_def)
  qed
  then obtain n1 where rep: "(if needs_repair best then set_active api (best_slot best) n0 else (ESP_OK, n0)) = (ESP_OK, n1)"
    by (cases "needs_repair best") auto
  define live where "live = snd (live_answer (stored ?m))"
  have "\<exists>n2. write_slot api (\<lambda>k. mem (k + 4)) l c n1 = (ESP_OK, n2)" for l
    using write_slot_reliable [OF spec rel c, of "\<lambda>k. mem (k + 4)" l n1] mem
    by (cases "write_slot api (\<lambda>k. mem (k + 4)) l c n1") simp
  then obtain n2 where w: "write_slot api (\<lambda>k. mem (k + 4)) (if needs_repair best then live_of_best best else live) c n1 = (ESP_OK, n2)"
    by blast
  obtain le where la: "live_answer (stored ?m) = (le, live)" "le = ESP_OK \<or> le = ESP_ERR_NVS_NOT_FOUND"
    by (cases "stored ?m") (auto simp: live_def live_answer_def)
  have "\<not> (live_found live \<and> live_generation live = UINT32_MAX)"
    using gen by (auto simp: live_def live_answer_def live_zero_def split: option.splits)
  then show ?thesis
    using init op best rep w la
    by (cases "needs_repair best") (auto simp: save_nvs_atomic_def open_namespace_def Let_def and_then_def)
qed

lemma save_runs_nvs:
  assumes "s_test_backend s = False" "\<And>k. mem k"
  shows "provision_store_save_atomic api mem s (Some c) = save_nvs_atomic api (\<lambda>k. mem (k + 1)) s c"
  using assms by (simp add: provision_store_save_atomic_def)

text \<open>
  A save is durable. On a flash without errors, while the live generation is not the last one,
  saving valid settings succeeds, and the next load returns them, with the current schema, whatever
  the two slots and the marker held before.
\<close>

theorem save_then_load:
  assumes "nvs_spec api kv" "reliable api" "s_initialized s" "\<not> s_test_backend s"
    "config_sizes c" "config_valid c" "\<And>k. mem k"
    "\<And>j d. stored (kv (flash s)) \<noteq> Some (j, d, UINT32_MAX)"
  shows "\<exists>s'. provision_store_save_atomic api mem s (Some c) = (ESP_OK, s') \<and>
    loads api s' = Some (c\<lparr>schema_version := 1\<rparr>)"
proof -
  obtain e s' where save: "save_nvs_atomic api (\<lambda>k. mem (k + 1)) s c = (e, s')" by fastforce
  have e: "e = ESP_OK"
    using save_nvs_reliable [OF assms(1-3,5,6), of "\<lambda>k. mem (k + 1)"] assms(7,8) save by simp
  note st = save_nvs_stored [OF assms(1,3,5) _ save]
  have "loads api s' = stored_config (kv (flash s'))"
    using loads_stored [OF assms(1), of s'] st(1) assms(2,4,7)
    by (simp add: opens_def reliable_def stored_config_def)
  also have "\<dots> = Some (c\<lparr>schema_version := 1\<rparr>)" using st(3) e assms(7) by blast
  finally show ?thesis using save e save_runs_nvs [of s mem api c] assms(4,7) by simp
qed

text \<open>The active slot is the one of the highest generation, or both slots are empty.\<close>

definition settled :: "'n nvs_api \<Rightarrow> 'n store_state \<Rightarrow> bool" where
  "settled api s \<longleftrightarrow> \<not> needs_repair (snd (read_best_nvs_slot api (\<lambda>_. True) (flash s)))"

lemma settled_best:
  assumes "nvs_spec api kv" "settled api s"
  shows "best_config (kv (flash s)) = stored_config (kv (flash s))"
proof -
  let ?m = "kv (flash s)"
  obtain best where b: "read_best_nvs_slot api (\<lambda>_. True) (flash s) =
       (if stored_best ?m = None then ESP_ERR_NVS_NOT_FOUND else ESP_OK, best)"
    "needs_repair best \<longleftrightarrow> (case stored_best ?m of None \<Rightarrow> False | Some (j, _) \<Rightarrow> kv_active ?m \<noteq> Some j)"
    by (rule best_spec [where mem = "\<lambda>_. True" and n = "flash s", OF assms(1)]) blast+
  show ?thesis
  proof (cases "stored_best ?m")
    case None
    with stored_none [of ?m] show ?thesis by (simp add: best_config_def stored_config_def)
  next
    case (Some x)
    obtain j c g where x: "x = (j, c, g)" by (cases x)
    with Some b assms(2) have "kv_active ?m = Some j" by (simp add: settled_def)
    with stored_best_slot [of ?m j c g] Some x stored_active show ?thesis
      by (auto simp: best_config_def stored_config_def)
  qed
qed

text \<open>
  C35: a save is atomic. Whatever write, commit or opening for writing fails, at any point, and even where a
  failed write took place: when the newest slot was active, stored values can be read (\<open>nvs_spec\<close>,
  \<open>opens\<close>) and memory is available, the next load returns the new settings or what it returned before
  the save. It never returns a mixture, an unfinished slot or nothing instead
  of the old settings, and it returns the new ones when the save reported success.
\<close>

theorem save_is_atomic:
  assumes "nvs_spec api kv" "opens api" "s_initialized s" "\<not> s_test_backend s"
    "config_sizes c" "\<And>k. mem k" "settled api s"
    "provision_store_save_atomic api mem s (Some c) = (err, s')"
  shows "(loads api s' = loads api s \<or> config_valid c \<and> loads api s' = Some (c\<lparr>schema_version := 1\<rparr>)) \<and>
    (err = ESP_OK \<longrightarrow> config_valid c \<and> loads api s' = Some (c\<lparr>schema_version := 1\<rparr>))"
proof -
  have save: "save_nvs_atomic api (\<lambda>k. mem (k + 1)) s c = (err, s')"
    using assms(8) save_runs_nvs [of s mem api c] assms(4,6) by simp
  note st = save_nvs_stored [OF assms(1,3,5) _ save]
  have "loads api s' = stored_config (kv (flash s'))" "loads api s = stored_config (kv (flash s))"
    using loads_stored [OF assms(1)] st(1) assms(2,3,4,6) by (simp_all add: stored_config_def)
  with st(2,3) settled_best [OF assms(1,7)] assms(6) show ?thesis by auto
qed

text \<open>A key value map is such a flash.\<close>

definition map_nvs :: "key_values nvs_api" where
  "map_nvs = \<lparr>
     nvs_flash_init_partition = (\<lambda>m. (ESP_OK, m)),
     nvs_flash_erase_partition = (\<lambda>_. (ESP_OK, Map.empty)),
     nvs_flash_deinit_partition = (\<lambda>m. (ESP_OK, m)),
     nvs_open_from_partition = (\<lambda>_ m. (ESP_OK, m)),
     nvs_get_u8 = (\<lambda>k m. case m k of Some (Nvs_u8 v) \<Rightarrow> (ESP_OK, v) | _ \<Rightarrow> (ESP_ERR_NVS_NOT_FOUND, 0)),
     nvs_set_u8 = (\<lambda>k v m. (ESP_OK, m(k \<mapsto> Nvs_u8 v))),
     nvs_get_u32 = (\<lambda>k m. case m k of Some (Nvs_u32 v) \<Rightarrow> (ESP_OK, v) | _ \<Rightarrow> (ESP_ERR_NVS_NOT_FOUND, 0)),
     nvs_set_u32 = (\<lambda>k v m. (ESP_OK, m(k \<mapsto> Nvs_u32 v))),
     nvs_get_blob = (\<lambda>k len m. case m k of
         Some (Nvs_blob bs) \<Rightarrow> if length bs \<le> len then (ESP_OK, bs) else (ESP_ERR_INVALID_SIZE, [])
       | _ \<Rightarrow> (ESP_ERR_NVS_NOT_FOUND, [])),
     nvs_set_blob = (\<lambda>k bs m. (ESP_OK, m(k \<mapsto> Nvs_blob bs))),
     nvs_commit = (\<lambda>m. (ESP_OK, m))\<rparr>"

definition store_start :: "'n \<Rightarrow> 'n store_state" where
  "store_start n = \<lparr>s_initialized = True, flash = n, s_test_backend = False,
     s_last_erased_partition = [], s_test_slots = [blob_zero, blob_zero],
     s_test_slot_valid = [False, False], s_test_active = 0, s_test_active_valid = False,
     s_test_fail_next_commit = False, s_test_fail_next_readback = False,
     s_test_fail_next_active_commit = False, s_test_mqtt_verified = 0, s_test_mqtt_verified_valid = False\<rparr>"

lemma map_nvs_spec_commit:
  assumes "\<And>m. snd (c m) = m"
  shows "nvs_spec (map_nvs\<lparr>nvs_commit := c\<rparr>) (\<lambda>m. m)"
  using assms by (auto simp: nvs_spec_def map_nvs_def written_def split: option.splits nvs_value.splits)

lemma map_nvs_spec: "nvs_spec map_nvs (\<lambda>m. m)"
  using map_nvs_spec_commit [of "nvs_commit map_nvs"] by (simp add: map_nvs_def)

lemma map_nvs_ok: "reliable map_nvs" "opens map_nvs"
  by (simp_all add: reliable_def opens_def map_nvs_def)

lemma empty_store: "stored Map.empty = None"
  by (simp add: stored_def live_of_def best_of_def kv_active_def kv_slot_def)

theorem save_then_load_witness:
  "\<exists>s'. provision_store_save_atomic map_nvs (\<lambda>_. True) (store_start Map.empty) (Some sample_config) = (ESP_OK, s') \<and>
    loads map_nvs s' = Some (sample_config\<lparr>schema_version := 1\<rparr>)"
  by (rule save_then_load [OF map_nvs_spec map_nvs_ok(1)]) (simp_all add: store_start_def empty_store)

text \<open>The same flash when every commit fails.\<close>

definition no_commit_nvs :: "key_values nvs_api" where
  "no_commit_nvs = map_nvs\<lparr>nvs_commit := \<lambda>m. (ESP_FAIL, m)\<rparr>"

theorem save_is_atomic_witness:
  "case provision_store_save_atomic no_commit_nvs (\<lambda>_. True) (store_start Map.empty) (Some sample_config) of (err, s') \<Rightarrow>
    loads no_commit_nvs s' = loads no_commit_nvs (store_start Map.empty) \<or>
    loads no_commit_nvs s' = Some (sample_config\<lparr>schema_version := 1\<rparr>)"
proof -
  have spec: "nvs_spec no_commit_nvs (\<lambda>m. m)" "opens no_commit_nvs"
    using map_nvs_spec_commit [of "\<lambda>m. (ESP_FAIL, m)"]
    by (simp_all add: no_commit_nvs_def opens_def map_nvs_def)
  obtain err s' where save: "provision_store_save_atomic no_commit_nvs (\<lambda>_. True) (store_start Map.empty)
      (Some sample_config) = (err, s')"
    by fastforce
  have settled: "settled no_commit_nvs (store_start Map.empty)"
  proof -
    obtain best where "read_best_nvs_slot no_commit_nvs (\<lambda>_. True) Map.empty =
       (if stored_best Map.empty = None then ESP_ERR_NVS_NOT_FOUND else ESP_OK, best)"
      "needs_repair best \<longleftrightarrow> (case stored_best Map.empty of None \<Rightarrow> False | Some (j, _) \<Rightarrow> kv_active Map.empty \<noteq> Some j)"
      by (rule best_spec [where mem = "\<lambda>_. True" and n = Map.empty, OF spec(1)]) blast+
    then show ?thesis
      using empty_store stored_none [of Map.empty] by (simp add: settled_def store_start_def)
  qed
  have "s_initialized (store_start Map.empty)" "\<not> s_test_backend (store_start Map.empty)"
    by (simp_all add: store_start_def)
  from save_is_atomic [OF spec this sample_config_sizes _ settled save] show ?thesis
    unfolding save by auto
qed

section \<open>A refused configuration can become live\<close>

text \<open>A settled store, in terms of the stored values.\<close>

lemma settled_iff:
  assumes "nvs_spec api kv"
  shows "settled api s \<longleftrightarrow> (case stored_best (kv (flash s)) of None \<Rightarrow> True
    | Some (j, _) \<Rightarrow> kv_active (kv (flash s)) = Some j)"
proof -
  obtain best where "read_best_nvs_slot api (\<lambda>_. True) (flash s) =
       (if stored_best (kv (flash s)) = None then ESP_ERR_NVS_NOT_FOUND else ESP_OK, best)"
    "needs_repair best \<longleftrightarrow> (case stored_best (kv (flash s)) of None \<Rightarrow> False
       | Some (j, _) \<Rightarrow> kv_active (kv (flash s)) \<noteq> Some j)"
    by (rule best_spec [where mem = "\<lambda>_. True" and n = "flash s", OF assms]) blast+
  then show ?thesis by (simp add: settled_def split: option.splits prod.splits)
qed

text \<open>What a save does in a settled store with live settings.\<close>

lemma settled_save_run:
  fixes c :: provision_config
  assumes spec: "nvs_spec api kv" and s: "s_initialized s" "\<not> s_test_backend s"
    and settled: "settled api s" and live: "stored (kv (flash s)) = Some (j, c0, g)"
    and op0: "nvs_open_from_partition api True (flash s) = (e0, n0)"
  defines "w \<equiv> write_slot api (\<lambda>_. True) (snd (live_answer (Some (j, c0, g)))) c n0"
  shows "provision_store_save_atomic api (\<lambda>_. True) s (Some c) =
      (if e0 \<noteq> ESP_OK then (e0, s\<lparr>flash := n0\<rparr>)
       else if g = UINT32_MAX then (ESP_ERR_INVALID_STATE, s\<lparr>flash := n0\<rparr>)
       else (fst w, s\<lparr>flash := snd w\<rparr>))"
    "kv_active (kv (flash s)) = Some j" "j = 0 \<or> j = 1" "kv_slot (kv (flash s)) j = Some (c0, g)"
proof -
  let ?m = "kv (flash s)"
  obtain bb where sb: "stored_best ?m = Some bb" using live stored_none [of ?m] by auto
  obtain jb cb gb where bb: "bb = (jb, cb, gb)" by (cases bb)
  have act: "kv_active ?m = Some jb" using settled settled_iff [OF spec] sb bb by simp
  note slot = stored_best_slot [OF sb [unfolded bb]]
  have "stored ?m = Some (jb, cb, gb)" using stored_active [OF act] slot by simp
  with live have j: "jb = j" "cb = c0" "gb = g" by simp_all
  from act slot show "kv_active ?m = Some j" "j = 0 \<or> j = 1" "kv_slot ?m j = Some (c0, g)"
    by (simp_all add: j)
  have kv0: "kv n0 = ?m" using nvs_spec_simps(1) [OF spec, of True "flash s"] op0 by simp
  obtain best where best: "read_best_nvs_slot api (\<lambda>_. True) n0 =
       (if stored_best ?m = None then ESP_ERR_NVS_NOT_FOUND else ESP_OK, best)"
    "select_live_slot best = live_answer (stored ?m)"
    "needs_repair best \<longleftrightarrow> (case stored_best ?m of None \<Rightarrow> False
       | Some (j, _) \<Rightarrow> kv_active ?m \<noteq> Some j)"
    by (rule best_spec [where mem = "\<lambda>_. True" and n = n0, OF spec, unfolded kv0]) blast+
  have nr: "\<not> needs_repair best" using best(3) sb bb act j by simp
  show "provision_store_save_atomic api (\<lambda>_. True) s (Some c) =
      (if e0 \<noteq> ESP_OK then (e0, s\<lparr>flash := n0\<rparr>)
       else if g = UINT32_MAX then (ESP_ERR_INVALID_STATE, s\<lparr>flash := n0\<rparr>)
       else (fst w, s\<lparr>flash := snd w\<rparr>))"
    using s op0 best(1,2) nr live sb unfolding w_def
    by (auto simp: provision_store_save_atomic_def save_nvs_atomic_def open_namespace_def Let_def
        live_answer_def and_then_def split: prod.splits if_splits)
qed

text \<open>
  A failed save that leaves the store unsettled: the new settings are in the slot that is not
  active, with the next generation.
\<close>

lemma unsettled_save:
  assumes spec: "nvs_spec api kv" and op: "opens api"
    and s: "s_initialized s" "\<not> s_test_backend s" and sz: "config_sizes c" and mem: "\<And>k. mem k"
    and settled: "settled api s" and live: "stored (kv (flash s)) = Some (j, c0, g)"
    and save: "provision_store_save_atomic api mem s (Some c) = (err, s')"
    and unsettled: "\<not> settled api s'"
  shows "config_valid c" "err \<noteq> ESP_OK" "s_initialized s'" "\<not> s_test_backend s'" "g \<noteq> UINT32_MAX"
    "stored (kv (flash s')) = Some (j, c0, g)" "kv_active (kv (flash s')) = Some j"
    "\<exists>i. stored_best (kv (flash s')) = Some (i, c\<lparr>schema_version := 1\<rparr>, g + 1) \<and> i \<noteq> j"
proof -
  let ?m = "kv (flash s)" and ?d = "c\<lparr>schema_version := 1\<rparr>"
  obtain e0 n0 where op0: "nvs_open_from_partition api True (flash s) = (e0, n0)" by fastforce
  have kv0: "kv n0 = ?m" using nvs_spec_simps(1) [OF spec, of True "flash s"] op0 by simp
  have m: "mem = (\<lambda>_. True)" using mem by auto
  note run = settled_save_run [OF spec s settled live op0]
  have act: "kv_active ?m = Some j" and slot: "(j = 0 \<or> j = 1) \<and> kv_slot ?m j = Some (c0, g)"
    using run(2-4) by auto
  let ?live = "snd (live_answer (Some (j, c0, g)))"
  let ?w = "write_slot api (\<lambda>_. True) ?live c n0"
  have keep: "kv (flash s') \<noteq> ?m"
  proof
    assume same: "kv (flash s') = ?m"
    show False using unsettled settled unfolding settled_iff [OF spec] same by simp
  qed
  have "(err, s') = (if e0 \<noteq> ESP_OK then (e0, s\<lparr>flash := n0\<rparr>)
      else if g = UINT32_MAX then (ESP_ERR_INVALID_STATE, s\<lparr>flash := n0\<rparr>)
      else (fst ?w, s\<lparr>flash := snd ?w\<rparr>))"
    using save run(1) [where c = c] by (simp add: m)
  then have go: "e0 = ESP_OK" "g \<noteq> UINT32_MAX" "err = fst ?w" "s' = s\<lparr>flash := snd ?w\<rparr>"
    using keep kv0 by (auto split: if_splits)
  let ?i = "inactive_slot ?live"
  have i: "?i \<noteq> j" "?i = 0 \<or> ?i = 1"
    using slot by (auto simp: inactive_slot_def live_answer_def PROVISION_ACTIVE_A_def PROVISION_ACTIVE_B_def)
  have gen: "next_generation ?live = g + 1" by (simp add: next_generation_def live_answer_def)
  have minus_one_u32: "- 1 = (UINT32_MAX :: u32)" by simp
  have gt: "g < g + 1" using go(2) 
    using inc_less_eq_triv_imp [of g] minus_one_u32 by (auto simp: not_le [symmetric])
  have best': "stored_best M = Some (?i, ?d, g + 1)"
    if "kv_slot M ?i = Some (?d, g + 1)" "kv_slot M j = Some (c0, g)" for M
    using that i slot gt by (auto simp: stored_best_def best_of_def not_le)
  have "write_slot api (\<lambda>_. True) ?live c n0 = (fst ?w, snd ?w)" by simp
  from spec sz this have "config_valid c \<and> err \<noteq> ESP_OK \<and> kv_active (kv (flash s')) = Some j \<and>
    kv_slot (kv (flash s')) j = Some (c0, g) \<and> stored_best (kv (flash s')) = Some (?i, ?d, g + 1)"
  proof (cases rule: write_slot_kv)
    case none
    with keep kv0 go(4) show ?thesis by simp
  next
    case (slot bs)
    then have "kv_slot (kv (flash s')) ?i = Some (?d, g + 1)" "kv_slot (kv (flash s')) j = Some (c0, g)"
      "kv_active (kv (flash s')) = Some j"
      using i act gen go(4) kv0 \<open>(j = 0 \<or> j = 1) \<and> kv_slot ?m j = Some (c0, g)\<close> by (auto simp: kv_slot_upd)
    with slot go(3) best' show ?thesis by simp
  next
    case (switched bs)
    then have "kv_slot (kv (flash s')) ?i = Some (?d, g + 1)" "kv_slot (kv (flash s')) j = Some (c0, g)"
      "kv_active (kv (flash s')) = Some ?i"
      using i gen go(4) kv0 \<open>(j = 0 \<or> j = 1) \<and> kv_slot ?m j = Some (c0, g)\<close> by (auto simp: kv_slot_upd)
    with best' unsettled show ?thesis by (simp add: settled_iff [OF spec])
  qed
  with go s i slot stored_active [of "kv (flash s')" j c0 g]
  show "config_valid c" "err \<noteq> ESP_OK" "s_initialized s'" "\<not> s_test_backend s'" "g \<noteq> UINT32_MAX"
    "stored (kv (flash s')) = Some (j, c0, g)" "kv_active (kv (flash s')) = Some j"
    "\<exists>i. stored_best (kv (flash s')) = Some (i, ?d, g + 1) \<and> i \<noteq> j"
    by auto
qed

text \<open>A flash that takes the marker but no slot, as one that is full.\<close>

definition full_flash :: "'n nvs_api \<Rightarrow> bool" where
  "full_flash api \<longleftrightarrow>
     (\<forall>rw n. fst (nvs_open_from_partition api rw n) = ESP_OK) \<and> (\<forall>n. fst (nvs_commit api n) = ESP_OK) \<and>
     (\<forall>k v n. fst (nvs_set_u8 api k v n) = ESP_OK) \<and> (\<forall>k v n. fst (nvs_set_blob api k v n) \<noteq> ESP_OK)"

lemma write_slot_full:
  assumes spec: "nvs_spec api kv" and full: "full_flash api" and sz: "config_sizes c"
  shows "fst (write_slot api mem live c n) \<noteq> ESP_OK \<and>
    (kv (snd (write_slot api mem live c n)) = kv n \<or>
     (\<exists>v. kv (snd (write_slot api mem live c n)) = (kv n)(slot_key (inactive_slot live) \<mapsto> v)))"
proof (cases "config_valid c")
  case False
  then have "encode_blob (Some c) (next_generation live) (Some blob_zero) = (ESP_ERR_INVALID_ARG, Some blob_zero)"
    using slot_read_encoded(2) [OF sz] by blast
  then show ?thesis by (simp add: write_slot_def and_then_def Let_def)
next
  case True
  obtain blob where enc: "encode_blob (Some c) (next_generation live) (Some blob_zero) = (ESP_OK, Some blob)"
    using slot_read_encoded(1) [OF sz True] by blast
  obtain e n1 where w: "nvs_set_blob api (slot_key (inactive_slot live)) (blob_bytes blob) n = (e, n1)" by fastforce
  have e: "e \<noteq> ESP_OK" using full w by (metis full_flash_def fst_conv)
  have "kv n1 = (kv n)(slot_key (inactive_slot live) \<mapsto> Nvs_blob (blob_bytes blob)) \<or> kv n1 = kv n"
    using nvs_spec_simps(5) [OF spec, of "slot_key (inactive_slot live)" "blob_bytes blob" n] unfolding w
    by (auto dest: writtenD)
  with enc w e show ?thesis by (auto simp: write_slot_def Let_def and_then_def)
qed

text \<open>
  C36: a save that failed can become live later. The store is settled and holds live settings; a save
  of \<open>c\<close> fails, at whatever operation, and leaves its slot newer than the active one, so that loads
  still return the old settings. Let any other settings be saved next while the flash takes the
  marker but refuses the slot: this save fails too, yet from then on loads return \<open>c\<close>, because the
  second save first made the slot of the failed one active.
\<close>

theorem refused_config_becomes_live:
  assumes spec: "nvs_spec api kv" "nvs_spec api' kv" and op: "opens api" "full_flash api'"
    and s: "s_initialized s" "\<not> s_test_backend s" and mem: "\<And>k. mem k"
    and live: "settled api s" "loads api s = Some old"
    and c: "config_sizes c" and other: "config_sizes c'"
    and first: "provision_store_save_atomic api mem s (Some c) = (err, s1)" "\<not> settled api s1"
    and second: "provision_store_save_atomic api' mem s1 (Some c') = (err', s2)"
  shows "err \<noteq> ESP_OK \<and> loads api s1 = Some old \<and>
    err' \<noteq> ESP_OK \<and> loads api' s2 = Some (c\<lparr>schema_version := 1\<rparr>)"
proof -
  let ?d = "c\<lparr>schema_version := 1\<rparr>" and ?m = "kv (flash s1)"
  obtain j g where j: "stored (kv (flash s)) = Some (j, old, g)"
    using live(2) loads_stored [OF spec(1) op(1) s] by auto
  note u = unsettled_save [OF spec(1) op(1) s c mem live(1) j first]
  obtain i where i: "stored_best ?m = Some (i, ?d, g + 1)" "i \<noteq> j" using u(8) by blast
  note slot = stored_best_slot [OF i(1)]
  obtain n0 where op0: "nvs_open_from_partition api' True (flash s1) = (ESP_OK, n0)"
    using op(2) by (metis full_flash_def prod.collapse)
  have kv0: "kv n0 = ?m" using nvs_spec_simps(1) [OF spec(2), of True "flash s1"] op0 by simp
  have m: "mem = (\<lambda>_. True)" using mem by auto
  obtain best where best: "read_best_nvs_slot api' (\<lambda>_. True) n0 =
       (if stored_best ?m = None then ESP_ERR_NVS_NOT_FOUND else ESP_OK, best)"
    "select_live_slot best = live_answer (stored ?m)"
    "needs_repair best \<longleftrightarrow> (case stored_best ?m of None \<Rightarrow> False
       | Some (j, _) \<Rightarrow> kv_active ?m \<noteq> Some j)"
    "\<And>j c g. stored_best ?m = Some (j, c, g) \<Longrightarrow> live_of_best best = snd (live_answer (Some (j, c, g)))"
    by (rule best_spec [where mem = "\<lambda>_. True" and n = n0, OF spec(2), unfolded kv0]) blast+
  note lb = best(4) [OF i(1)]
  have bs: "best_slot best = i" using lb by (simp add: live_of_best_def live_answer_def)
  have nr: "needs_repair best" using best(3) i u(7) by simp
  obtain e1 n1 where act: "set_active api' i n0 = (e1, n1)" by fastforce
  have e1: "e1 = ESP_OK"
  proof -
    obtain n2 n3 where "nvs_set_u8 api' PROVISION_ACTIVE_KEY i n0 = (ESP_OK, n2)" "nvs_commit api' n2 = (ESP_OK, n3)"
      using op(2) by (metis full_flash_def prod.collapse)
    with act show ?thesis by (simp add: set_active_def and_then_def)
  qed
  have kv1: "kv n1 = ?m(PROVISION_ACTIVE_KEY \<mapsto> Nvs_u8 i)" using set_active_kv [OF spec(2) act] e1 kv0 by simp
  let ?w = "write_slot api' (\<lambda>_. True) (snd (live_answer (Some (i, ?d, g + 1)))) c' n1"
  have run: "err' = fst ?w" "s2 = s1\<lparr>flash := snd ?w\<rparr>"
    using second u(3,4,5,6) op0 best(1,2) nr i act e1 bs lb
    by (auto simp: provision_store_save_atomic_def save_nvs_atomic_def open_namespace_def Let_def m
        live_answer_def and_then_def split: prod.splits if_splits)
  let ?k = "inactive_slot (snd (live_answer (Some (i, ?d, g + 1))))"
  have k: "?k \<noteq> i" "?k = 0 \<or> ?k = 1"
    using slot by (auto simp: inactive_slot_def live_answer_def PROVISION_ACTIVE_A_def PROVISION_ACTIVE_B_def)
  note w = write_slot_full [OF spec(2) op(2) other, of "\<lambda>_. True" "snd (live_answer (Some (i, ?d, g + 1)))" n1]
  have "kv_active (kv (flash s2)) = Some i" "kv_slot (kv (flash s2)) i = Some (?d, g + 1)"
    using w kv1 k slot run(2) by (auto simp: kv_slot_upd)
  then have "stored (kv (flash s2)) = Some (i, ?d, g + 1)" using stored_active slot by blast
  moreover have "opens api'" using op(2) by (simp add: full_flash_def opens_def)
  ultimately have "loads api' s2 = Some ?d"
    using loads_stored [OF spec(2), of s2] run(2) u(3,4) by simp
  moreover have "loads api s1 = Some old" using loads_stored [OF spec(1) op(1) u(3,4)] u(6) by simp
  ultimately show ?thesis using u(2) w run(1) by simp
qed

text \<open>
  The key value map where the marker is refused, where slots are refused, and with one slot that
  holds settings.
\<close>

definition no_marker_nvs :: "key_values nvs_api" where
  "no_marker_nvs = map_nvs\<lparr>nvs_set_u8 := \<lambda>k v m. (ESP_FAIL, m)\<rparr>"

definition no_slot_nvs :: "key_values nvs_api" where
  "no_slot_nvs = map_nvs\<lparr>nvs_set_blob := \<lambda>k bs m. (ESP_FAIL, m)\<rparr>"

lemma no_marker_nvs_spec: "nvs_spec no_marker_nvs (\<lambda>m. m)" "opens no_marker_nvs"
  by (auto simp: nvs_spec_def opens_def no_marker_nvs_def map_nvs_def written_def split: option.splits nvs_value.splits)

lemma no_slot_nvs_spec: "nvs_spec no_slot_nvs (\<lambda>m. m)" "full_flash no_slot_nvs"
  by (auto simp: nvs_spec_def full_flash_def no_slot_nvs_def map_nvs_def written_def split: option.splits nvs_value.splits)

lemma one_slot_store:
  assumes "nvs_spec api (\<lambda>m. m)"
  obtains m where "settled api (store_start m)" "stored m = Some (0, sample_config\<lparr>schema_version := 1\<rparr>, 1)"
    "kv_slot m 0 = Some (sample_config\<lparr>schema_version := 1\<rparr>, 1)" "kv_active m = Some 0"
proof -
  obtain blob where len: "length (blob_bytes blob) = SLOT_BLOB_SIZE"
    and rd: "slot_read (blob_bytes blob) = Some (sample_config\<lparr>schema_version := 1\<rparr>, 1)"
    using slot_read_encoded(1) [OF sample_config_sizes sample_config_valid, of 1] by blast
  let ?m = "(\<lambda>_. None)(slot_key 0 \<mapsto> Nvs_blob (blob_bytes blob), PROVISION_ACTIVE_KEY \<mapsto> Nvs_u8 0) :: key_values"
  have m: "kv_slot ?m 0 = Some (sample_config\<lparr>schema_version := 1\<rparr>, 1)" "kv_active ?m = Some 0"
    "kv_slot ?m 1 = None"
    using len rd by (simp_all add: kv_slot_upd) (simp add: kv_slot_def)
  then have st: "stored ?m = Some (0, sample_config\<lparr>schema_version := 1\<rparr>, 1)"
    "stored_best ?m = Some (0, sample_config\<lparr>schema_version := 1\<rparr>, 1)"
    by (simp_all add: stored_def stored_best_def live_of_def best_of_def)
  have "settled api (store_start ?m)" using st m settled_iff [OF assms, of "store_start ?m"] by (simp add: store_start_def)
  with that st m show thesis by blast
qed

theorem refused_config_becomes_live_witness:
  "\<exists>s e1 s1 e2 s2.
    provision_store_save_atomic no_marker_nvs (\<lambda>_. True) s (Some (sample_config\<lparr>mqtt_port := 8883\<rparr>)) = (e1, s1) \<and>
    provision_store_save_atomic no_slot_nvs (\<lambda>_. True) s1 (Some sample_config) = (e2, s2) \<and>
    e1 \<noteq> ESP_OK \<and> e2 \<noteq> ESP_OK \<and>
    loads no_marker_nvs s1 = Some (sample_config\<lparr>schema_version := 1\<rparr>) \<and>
    loads no_slot_nvs s2 = Some (sample_config\<lparr>mqtt_port := 8883, schema_version := 1\<rparr>)"
proof -
  let ?c = "sample_config\<lparr>mqtt_port := 8883\<rparr>" and ?d0 = "sample_config\<lparr>schema_version := 1\<rparr>"
  have c: "config_sizes ?c" "config_valid ?c"
    using sample_config_sizes sample_config_valid by (simp_all add: config_sizes_def config_valid_def)
  note spec = no_marker_nvs_spec(1)
  obtain m where m: "settled no_marker_nvs (store_start m)" "stored m = Some (0, ?d0, 1)"
      "kv_slot m 0 = Some (?d0, 1)" "kv_active m = Some 0"
    by (rule one_slot_store [OF spec])
  let ?s = "store_start m" and ?live = "snd (live_answer (Some (0, ?d0, 1)))"
  have s: "s_initialized ?s" "\<not> s_test_backend ?s" "flash ?s = m" by (simp_all add: store_start_def)
  have op: "nvs_open_from_partition no_marker_nvs True (flash ?s) = (ESP_OK, m)"
    by (simp add: s no_marker_nvs_def map_nvs_def)
  have ok: "fst (nvs_commit no_marker_nvs n) = ESP_OK" "fst (nvs_set_blob no_marker_nvs k v n) = ESP_OK" for k v n
    by (simp_all add: no_marker_nvs_def map_nvs_def)
  have live: "inactive_slot ?live = 1" "next_generation ?live = 2"
    by (simp_all add: live_answer_def inactive_slot_def next_generation_def PROVISION_ACTIVE_A_def PROVISION_ACTIVE_B_def)
  obtain bs n2 where w: "length bs = SLOT_BLOB_SIZE" "slot_read bs = Some (?c\<lparr>schema_version := 1\<rparr>, 2)"
      "n2 = m(slot_key 1 \<mapsto> Nvs_blob bs)"
      "write_slot no_marker_nvs (\<lambda>_. True) ?live ?c m =
        and_then (nvs_set_u8 no_marker_nvs PROVISION_ACTIVE_KEY 1 n2) (nvs_commit no_marker_nvs)"
    by (rule write_slot_to_marker [where mem = "\<lambda>_. True" and live = ?live and n = m, OF spec c _ _ ok,
          unfolded live]) blast+
  have ws: "write_slot no_marker_nvs (\<lambda>_. True) ?live ?c m = (ESP_FAIL, n2)"
    using w(4) by (simp add: no_marker_nvs_def and_then_def)
  let ?s1 = "?s\<lparr>flash := n2\<rparr>"
  have first: "provision_store_save_atomic no_marker_nvs (\<lambda>_. True) ?s (Some ?c) = (ESP_FAIL, ?s1)"
    using settled_save_run(1) [OF spec s(1,2) m(1) _ op, where j = 0 and ?c0.0 = ?d0 and g = 1 and c = ?c] m(2) s(3) ws by simp
  have "stored_best n2 = Some (1, ?c\<lparr>schema_version := 1\<rparr>, 2)" "kv_active n2 = Some 0"
    using w m by (simp_all add: kv_slot_upd stored_best_def best_of_def)
  then have unsettled: "\<not> settled no_marker_nvs ?s1" by (simp add: settled_iff [OF spec])
  have old: "loads no_marker_nvs ?s = Some ?d0"
    using loads_stored [OF no_marker_nvs_spec s(1,2)] m(2) s(3) by simp
  obtain e2 s2 where second: "provision_store_save_atomic no_slot_nvs (\<lambda>_. True) ?s1 (Some sample_config) = (e2, s2)"
    by fastforce
  have "ESP_FAIL \<noteq> ESP_OK \<and> loads no_marker_nvs ?s1 = Some ?d0 \<and>
    e2 \<noteq> ESP_OK \<and> loads no_slot_nvs s2 = Some (?c\<lparr>schema_version := 1\<rparr>)"
    by (rule refused_config_becomes_live [OF spec no_slot_nvs_spec(1) no_marker_nvs_spec(2) no_slot_nvs_spec(2)
          s(1,2) _ m(1) old c(1) sample_config_sizes first unsettled second]) simp
  with first second show ?thesis by (intro exI conjI) auto
qed

section \<open>The same on the test backend\<close>

text \<open>The slots of the test backend.\<close>

definition test_slot :: "'n store_state \<Rightarrow> nat \<Rightarrow> slot" where
  "test_slot s i = (if s_test_slot_valid s ! i then slot_read (blob_bytes (s_test_slots s ! i)) else None)"

lemma read_test_slot_eq:
  "mem i \<Longrightarrow> read_test_slot mem s i best =
    (case test_slot s i of Some (c, g) \<Rightarrow> note_slot best (of_nat i) c g | None \<Rightarrow> best)"
  using decode_slot_read [of "blob_bytes (s_test_slots s ! i)" config_zero 0]
  by (auto simp: read_test_slot_def test_slot_def Let_def split: option.splits prod.splits)

lemma read_best_test_slot_eq:
  assumes "mem 0" "mem 1"
  shows "read_best_test_slot mem s =
    (let best = scan (s_test_active_valid s) (s_test_active s) (test_slot s 0) (test_slot s 1)
     in (if found best then ESP_OK else ESP_ERR_NVS_NOT_FOUND, best))"
  using assms
  by (cases "test_slot s 0"; cases "test_slot s 1")
    (simp_all add: read_best_test_slot_def read_test_slot_eq scan_def split: prod.splits)

definition put_slot :: "u8 \<Rightarrow> provision_store_slot_blob \<Rightarrow> 'n store_state \<Rightarrow> 'n store_state" where
  "put_slot i blob s = s\<lparr>s_test_slots := (s_test_slots s)[unat i := blob],
     s_test_slot_valid := (s_test_slot_valid s)[unat i := True]\<rparr>"

definition put_active :: "u8 \<Rightarrow> 'n store_state \<Rightarrow> 'n store_state" where
  "put_active i s = s\<lparr>s_test_active := i, s_test_active_valid := True\<rparr>"

lemma save_test_eq:
  assumes c: "config_sizes c" "config_valid c" and mem: "\<And>k. mem k"
    and s: "length (s_test_slots s) = 2" "s_test_active s = 0 \<or> s_test_active s = 1"
  defines "best \<equiv> scan (s_test_active_valid s) (s_test_active s) (test_slot s 0) (test_slot s 1)"
  defines "live \<equiv> snd (select_live_slot best)"
  defines "live1 \<equiv> if needs_repair best then live_of_best best else live"
  defines "s1 \<equiv> if needs_repair best then put_active (best_slot best) s else s"
  assumes gen: "\<not> (live_found live \<and> live_generation live = UINT32_MAX)"
    and faults: "\<not> s_test_fail_next_readback s"
  obtains blob where "slot_read (blob_bytes blob) = Some (c\<lparr>schema_version := 1\<rparr>, next_generation live1)"
    "save_test_atomic mem s c =
      (let s2 = put_slot (inactive_slot live1) blob s1
       in if s_test_fail_next_commit s then (ESP_FAIL, s2\<lparr>s_test_fail_next_commit := False\<rparr>)
          else if s_test_fail_next_active_commit s
          then (ESP_FAIL, s2\<lparr>s_test_fail_next_active_commit := False\<rparr>)
          else (ESP_OK, put_active (inactive_slot live1) s2))"
proof -
  obtain blob where enc: "encode_blob (Some c) (next_generation live1) (Some blob_zero) = (ESP_OK, Some blob)"
    and rd: "slot_read (blob_bytes blob) = Some (c\<lparr>schema_version := 1\<rparr>, next_generation live1)"
    using slot_read_encoded(1) [OF c] by blast
  have dec: "provision_store_decode True (Some (blob_bytes blob)) (Some config_zero) (Some 0) =
      (ESP_OK, Some (c\<lparr>schema_version := 1\<rparr>), Some (next_generation live1))"
    using decode_slot_read [of "blob_bytes blob" config_zero 0] rd by simp
  have i: "unat (inactive_slot live1) < 2"
    by (auto simp: inactive_slot_def PROVISION_ACTIVE_A_def PROVISION_ACTIVE_B_def)
  have "fst (select_live_slot best) = ESP_OK \<or> fst (select_live_slot best) = ESP_ERR_NVS_NOT_FOUND"
    by (simp add: select_live_slot_def)
  then obtain le where la: "select_live_slot best = (le, live)" "le = ESP_OK \<or> le = ESP_ERR_NVS_NOT_FOUND"
    by (metis live_def prod.collapse)
  have rb: "read_best_test_slot mem s = (if found best then ESP_OK else ESP_ERR_NVS_NOT_FOUND, best)"
    using read_best_test_slot_eq [of mem s] mem by (simp add: best_def)
  have m: "mem = (\<lambda>_. True)" using mem by auto
  have "save_test_atomic mem s c =
      (let s2 = put_slot (inactive_slot live1) blob s1
       in if s_test_fail_next_commit s then (ESP_FAIL, s2\<lparr>s_test_fail_next_commit := False\<rparr>)
          else if s_test_fail_next_active_commit s
          then (ESP_FAIL, s2\<lparr>s_test_fail_next_active_commit := False\<rparr>)
          else (ESP_OK, put_active (inactive_slot live1) s2))"
    unfolding save_test_atomic_def rb
    using la gen faults enc dec i s
    by (cases "needs_repair best")
      (auto simp: live1_def s1_def put_slot_def put_active_def Let_def m)
  with rd that show thesis by blast
qed

lemma test_slot_put:
  assumes "length (s_test_slots s) = 2" "length (s_test_slot_valid s) = 2" "i = 0 \<or> i = 1" "j < 2"
  shows "test_slot (put_slot i blob s) j = (if unat i = j then slot_read (blob_bytes blob) else test_slot s j)"
  using assms by (auto simp: test_slot_def put_slot_def)

lemma test_slot_frame [simp]:
  "test_slot (put_active i s) j = test_slot s j"
  "test_slot (s\<lparr>s_test_fail_next_commit := x\<rparr>) j = test_slot s j"
  "test_slot (s\<lparr>s_test_fail_next_active_commit := x\<rparr>) j = test_slot s j"
  "test_slot (s\<lparr>s_test_backend := y, s_test_fail_next_commit := x\<rparr>) j = test_slot s j"
  "test_slot (s\<lparr>s_test_backend := y, s_test_fail_next_active_commit := x\<rparr>) j = test_slot s j"
  by (simp_all add: test_slot_def put_active_def)

text \<open>Two saves in a row, the slots as the first one finds them.\<close>

lemma scan_one_slot:
  "snd (select_live_slot (scan True 0 (Some (d, g)) None)) =
     \<lparr>live_found = True, live_slot = 0, live_generation = g, live_config = d\<rparr>"
  "\<not> needs_repair (scan True 0 (Some (d, g)) None)"
  using scan_select [of 0 True "Some (d, g)" None] scan_repair [of 0 True "Some (d, g)" None]
  by (simp_all add: live_of_def live_answer_def best_of_def)

lemma scan_newer_slot:
  assumes "g < g'"
  shows "snd (select_live_slot (scan True 0 (Some (d, g)) (Some (d', g')))) =
     \<lparr>live_found = True, live_slot = 0, live_generation = g, live_config = d\<rparr>"
    "needs_repair (scan True 0 (Some (d, g)) (Some (d', g')))"
    "best_slot (scan True 0 (Some (d, g)) (Some (d', g'))) = 1"
    "live_of_best (scan True 0 (Some (d, g)) (Some (d', g'))) =
     \<lparr>live_found = True, live_slot = 1, live_generation = g', live_config = d'\<rparr>"
  using scan_select [of 0 True "Some (d, g)" "Some (d', g')"]
    scan_repair [of 0 True "Some (d, g)" "Some (d', g')"]
    scan_best [of "Some (d, g)" "Some (d', g')" 1 d' g' True 0] assms
  by (simp_all add: live_of_def live_answer_def best_of_def live_of_best_def)

lemma loads_test:
  assumes "s_test_backend s" "s_test_active s = 0 \<or> s_test_active s = 1"
  shows "loads api s = map_option (\<lambda>(_, c, _). c)
    (live_of (if s_test_active_valid s then Some (s_test_active s) else None) (test_slot s 0) (test_slot s 1))"
proof -
  let ?best = "scan (s_test_active_valid s) (s_test_active s) (test_slot s 0) (test_slot s 1)"
  let ?l = "live_of (if s_test_active_valid s then Some (s_test_active s) else None) (test_slot s 0) (test_slot s 1)"
  have sel: "select_live_slot ?best = live_answer ?l" using scan_select [OF assms(2)] .
  have "found ?best \<longleftrightarrow> ?l \<noteq> None"
    using sel by (auto simp: select_live_slot_def live_answer_def split: if_splits option.splits)
  then show ?thesis
    using sel assms(1) read_best_test_slot_eq [of "\<lambda>_. True" s]
    by (auto simp: loads_def provision_store_load_def Let_def live_answer_def split: option.splits)
qed

text \<open>
  With the failures the test backend offers. From an empty store, save \<open>c1\<close>; the save of \<open>c2\<close> fails
  when it switches the active slot, and loads still return \<open>c1\<close>; the save of \<open>c3\<close> then fails when it
  commits its slot. Both failures are reported, yet from then on loads return \<open>c2\<close>, because the
  second save first made the slot of the failed one active.
\<close>

theorem test_backend_refused_config:
  assumes c: "config_sizes c1" "config_valid c1" "config_sizes c2" "config_valid c2"
    "config_sizes c3" "config_valid c3"
    and s1: "provision_store_save_atomic api (\<lambda>_. True) (provision_store_test_reset_backend_state s) (Some c1) = (e1, s1)"
    and s2: "provision_store_save_atomic api (\<lambda>_. True) (provision_store_test_fail_next_active_commit s1) (Some c2) = (e2, s2)"
    and s3: "provision_store_save_atomic api (\<lambda>_. True) (provision_store_test_fail_next_commit s2) (Some c3) = (e3, s3)"
  shows "e1 = ESP_OK \<and> loads api s1 = Some (c1\<lparr>schema_version := 1\<rparr>) \<and>
    e2 = ESP_FAIL \<and> loads api s2 = Some (c1\<lparr>schema_version := 1\<rparr>) \<and>
    e3 = ESP_FAIL \<and> loads api s3 = Some (c2\<lparr>schema_version := 1\<rparr>)"
proof -
  let ?d1 = "c1\<lparr>schema_version := 1\<rparr>" and ?d2 = "c2\<lparr>schema_version := 1\<rparr>"
  let ?t0 = "provision_store_test_reset_backend_state s"
  have k: "save_test_atomic (\<lambda>_. True) t c = r" if "provision_store_save_atomic api (\<lambda>_. True) t (Some c) = r" "s_test_backend t" for t c r
    using that by (simp add: provision_store_save_atomic_def)
  note tb = provision_store_test_reset_backend_state_def provision_store_test_fail_next_active_commit_def
    provision_store_test_fail_next_commit_def
  have t0: "test_slot ?t0 0 = None" "test_slot ?t0 1 = None"
    by (simp_all add: test_slot_def tb)
  have b0: "found (scan v k None None) = False" for v k by (simp add: scan_found)
  have l0: "select_live_slot (scan v k None None) = (ESP_ERR_NVS_NOT_FOUND, live_zero)"
      "needs_repair (scan v k None None) = False" for v k
    by (simp_all add: select_live_slot_def needs_repair_def scan_found)
  obtain blob1 where b1: "slot_read (blob_bytes blob1) = Some (?d1, 1)"
    and r1: "save_test_atomic (\<lambda>_. True) ?t0 c1 = (ESP_OK, put_active 0 (put_slot 0 blob1 ?t0))"
    using save_test_eq [OF c(1,2), of "\<lambda>_. True" ?t0] t0
    by (auto simp: l0 live_zero_def inactive_slot_def next_generation_def PROVISION_ACTIVE_A_def tb Let_def)
  have e1: "e1 = ESP_OK" "s1 = put_active 0 (put_slot 0 blob1 ?t0)"
    using k [OF s1] r1 by (simp_all add: tb)
  let ?t1 = "provision_store_test_fail_next_active_commit s1"
  have t1: "test_slot ?t1 0 = Some (?d1, 1)" "test_slot ?t1 1 = None" "s_test_active ?t1 = 0"
    "s_test_active_valid ?t1" "length (s_test_slots ?t1) = 2" "length (s_test_slot_valid ?t1) = 2"
    using b1 t0 unfolding e1 by (simp_all add: tb put_active_def put_slot_def test_slot_def)
  have f1: "\<not> s_test_fail_next_readback ?t1" "\<not> s_test_fail_next_commit ?t1" "s_test_fail_next_active_commit ?t1"
    "s_test_backend ?t1"
    unfolding e1 by (simp_all add: tb put_active_def put_slot_def)
  obtain blob2 where b2: "slot_read (blob_bytes blob2) = Some (?d2, 2)"
    and r2: "save_test_atomic (\<lambda>_. True) ?t1 c2 =
      (ESP_FAIL, (put_slot 1 blob2 ?t1)\<lparr>s_test_fail_next_active_commit := False\<rparr>)"
    using save_test_eq [OF c(3,4), of "\<lambda>_. True" ?t1] t1 f1
    by (auto simp: scan_one_slot inactive_slot_def next_generation_def PROVISION_ACTIVE_A_def
        PROVISION_ACTIVE_B_def Let_def)
  have e2: "e2 = ESP_FAIL" "s2 = (put_slot 1 blob2 ?t1)\<lparr>s_test_fail_next_active_commit := False\<rparr>"
    using k [OF s2] r2 f1(4) by simp_all
  let ?t2 = "provision_store_test_fail_next_commit s2"
  have t2: "test_slot s2 0 = Some (?d1, 1)" "test_slot s2 1 = Some (?d2, 2)" "s_test_active s2 = 0"
    "s_test_active_valid s2" "length (s_test_slots s2) = 2" "length (s_test_slot_valid s2) = 2" "s_test_backend s2"
    using b2 t1 f1(4) unfolding e2 by (simp_all add: test_slot_put) (simp_all add: put_slot_def)
  have f2: "\<not> s_test_fail_next_readback s2"
    using f1(1) unfolding e2 by (simp add: put_slot_def)
  have t2': "test_slot ?t2 0 = Some (?d1, 1)" "test_slot ?t2 1 = Some (?d2, 2)" "s_test_active ?t2 = 0"
    "s_test_active_valid ?t2" "length (s_test_slots ?t2) = 2" "s_test_fail_next_commit ?t2"
    "\<not> s_test_fail_next_readback ?t2"
    using t2 f2 unfolding provision_store_test_fail_next_commit_def
    by (simp_all add: test_slot_def split: if_splits)
  obtain blob3 where
    r3: "save_test_atomic (\<lambda>_. True) ?t2 c3 =
      (ESP_FAIL, (put_slot 0 blob3 (put_active 1 ?t2))\<lparr>s_test_fail_next_commit := False\<rparr>)"
    using save_test_eq [OF c(5,6), of "\<lambda>_. True" ?t2] t2'
    by (auto simp: scan_newer_slot inactive_slot_def PROVISION_ACTIVE_A_def PROVISION_ACTIVE_B_def Let_def)
  have e3: "e3 = ESP_FAIL" "s3 = (put_slot 0 blob3 (put_active 1 ?t2))\<lparr>s_test_fail_next_commit := False\<rparr>"
    using k [OF s3] r3 by (simp_all add: provision_store_test_fail_next_commit_def)
  have t3: "test_slot s3 1 = Some (?d2, 2)" "s_test_active s3 = 1" "s_test_active_valid s3" "s_test_backend s3"
    using t2 unfolding e3
    by (simp_all add: test_slot_put provision_store_test_fail_next_commit_def put_active_def)
      (simp_all add: put_slot_def test_slot_def split: if_splits)
  have "s_test_backend s1" "test_slot s1 0 = Some (?d1, 1)" "s_test_active s1 = 0" "s_test_active_valid s1"
    using b1 t0 unfolding e1 by (simp_all add: tb put_active_def put_slot_def test_slot_def)
  then have "loads api s1 = Some ?d1" by (simp add: loads_test live_of_def)
  moreover have "loads api s2 = Some ?d1" using t2 by (simp add: loads_test live_of_def)
  moreover have "loads api s3 = Some ?d2" using t3 by (simp add: loads_test live_of_def)
  ultimately show ?thesis using e1(1) e2(1) e3(1) by simp
qed

theorem test_backend_refused_config_witness:
  "\<exists>s1 s2 s3.
    provision_store_save_atomic map_nvs (\<lambda>_. True)
      (provision_store_test_reset_backend_state (store_start Map.empty)) (Some sample_config) = (ESP_OK, s1) \<and>
    provision_store_save_atomic map_nvs (\<lambda>_. True)
      (provision_store_test_fail_next_active_commit s1) (Some (sample_config\<lparr>mqtt_port := 8883\<rparr>)) = (ESP_FAIL, s2) \<and>
    provision_store_save_atomic map_nvs (\<lambda>_. True)
      (provision_store_test_fail_next_commit s2) (Some sample_config) = (ESP_FAIL, s3) \<and>
    loads map_nvs s2 = Some (sample_config\<lparr>schema_version := 1\<rparr>) \<and>
    loads map_nvs s3 = Some (sample_config\<lparr>mqtt_port := 8883, schema_version := 1\<rparr>)"
proof -
  let ?c2 = "sample_config\<lparr>mqtt_port := 8883\<rparr>"
  have c2: "config_sizes ?c2" "config_valid ?c2"
    using sample_config_sizes sample_config_valid by (simp_all add: config_sizes_def config_valid_def)
  obtain e1 s1 where 1: "provision_store_save_atomic map_nvs (\<lambda>_. True)
      (provision_store_test_reset_backend_state (store_start Map.empty)) (Some sample_config) = (e1, s1)" by fastforce
  obtain e2 s2 where 2: "provision_store_save_atomic map_nvs (\<lambda>_. True)
      (provision_store_test_fail_next_active_commit s1) (Some ?c2) = (e2, s2)" by fastforce
  obtain e3 s3 where 3: "provision_store_save_atomic map_nvs (\<lambda>_. True)
      (provision_store_test_fail_next_commit s2) (Some sample_config) = (e3, s3)" by fastforce
  show ?thesis
    using test_backend_refused_config [OF sample_config_sizes sample_config_valid c2
        sample_config_sizes sample_config_valid 1 2 3] 1 2 3 by auto
qed
end
