(* ===== verification/Ble_Enroll.thy ===== *)
theory Ble_Enroll
  imports Interfaces
begin

text \<open>
  Enrollment of the phone, \<^verbatim>\<open>components/ble_enroll/ble_enroll.c\<close>: the pairing window, the single
  bond and the debounced BOOT button. Times are the milliseconds of a monotonic 64-bit timer and
  are integers here: the sums the code forms, a time plus at most 2 to the 32, do not overflow
  within the life of the device.
\<close>

section \<open>State and operations\<close>

record ble_enroll_config =
  cfg_window_ms :: u32
  cfg_boot_hold_ms :: u32
  cfg_button_debounce_ms :: u32

record ble_enroll_state =
  es_config :: ble_enroll_config
  es_has_bond :: bool
  es_bonded_addr :: bytes
  es_window_open :: bool
  es_window_deadline_ms :: int

record ble_enroll_button =
  bt_config :: ble_enroll_config
  bt_stable_pressed :: bool
  bt_last_sample_pressed :: bool
  bt_fired :: bool
  bt_last_change_ms :: int
  bt_pressed_since_ms :: int

definition enroll_window_ms :: "ble_enroll_config \<Rightarrow> u32" where
  "enroll_window_ms config = (if cfg_window_ms config = 0 then 120000 else cfg_window_ms config)"

definition boot_hold_ms :: "ble_enroll_config \<Rightarrow> u32" where
  "boot_hold_ms config = (if cfg_boot_hold_ms config = 0 then 3000 else cfg_boot_hold_ms config)"

definition debounce_ms :: "ble_enroll_config \<Rightarrow> u32" where
  "debounce_ms config = (if cfg_button_debounce_ms config = 0 then 20 else cfg_button_debounce_ms config)"

definition BLE_ENROLL_ADDR_LEN :: nat where "BLE_ENROLL_ADDR_LEN = 6"

definition ble_enroll_init :: "ble_enroll_state option \<Rightarrow> ble_enroll_config \<Rightarrow> ble_enroll_state option" where
  "ble_enroll_init state config = map_option (\<lambda>_.
     \<lparr>es_config = config, es_has_bond = False, es_bonded_addr = replicate BLE_ENROLL_ADDR_LEN 0,
      es_window_open = False, es_window_deadline_ms = 0\<rparr>) state"

definition ble_enroll_close_window :: "ble_enroll_state option \<Rightarrow> ble_enroll_state option" where
  "ble_enroll_close_window state =
     map_option (\<lambda>s. s\<lparr>es_window_open := False, es_window_deadline_ms := 0\<rparr>) state"

definition ble_enroll_open_window ::
  "ble_enroll_state option \<Rightarrow> int \<Rightarrow> ble_enroll_state option \<times> esp_err" where
  "ble_enroll_open_window state now_ms =
    (case state of
       None \<Rightarrow> (None, ESP_ERR_INVALID_ARG)
     | Some s \<Rightarrow>
         if es_has_bond s then (ble_enroll_close_window state, ESP_ERR_INVALID_STATE)
         else (Some (s\<lparr>es_window_open := True,
                       es_window_deadline_ms := now_ms + uint (enroll_window_ms (es_config s))\<rparr>), ESP_OK))"

definition ble_enroll_window_active :: "ble_enroll_state option \<Rightarrow> int \<Rightarrow> bool" where
  "ble_enroll_window_active state now_ms =
    (case state of None \<Rightarrow> False | Some s \<Rightarrow> es_window_open s \<and> now_ms < es_window_deadline_ms s)"

definition ble_enroll_should_advertise :: "ble_enroll_state option \<Rightarrow> int \<Rightarrow> bool" where
  "ble_enroll_should_advertise state now_ms =
    (case state of None \<Rightarrow> False
     | Some s \<Rightarrow> es_has_bond s \<or> ble_enroll_window_active state now_ms)"

text \<open>An address argument is an array of six bytes.\<close>

definition ble_enroll_pairing_allowed ::
  "ble_enroll_state option \<Rightarrow> bytes option \<Rightarrow> int \<Rightarrow> bool" where
  "ble_enroll_pairing_allowed state peer_addr now_ms =
    (case (state, peer_addr) of
       (Some s, Some peer) \<Rightarrow>
         if ble_enroll_window_active state now_ms then True
         else es_has_bond s \<and> es_bonded_addr s = peer
     | _ \<Rightarrow> False)"

definition ble_enroll_note_bonded ::
  "ble_enroll_state option \<Rightarrow> bytes option \<Rightarrow> ble_enroll_state option" where
  "ble_enroll_note_bonded state peer_addr =
    (case (state, peer_addr) of
       (Some s, Some peer) \<Rightarrow>
         ble_enroll_close_window (Some (s\<lparr>es_bonded_addr := peer, es_has_bond := True\<rparr>))
     | _ \<Rightarrow> state)"

definition ble_enroll_clear_bond :: "ble_enroll_state option \<Rightarrow> ble_enroll_state option" where
  "ble_enroll_clear_bond state =
     map_option (\<lambda>s. s\<lparr>es_bonded_addr := replicate BLE_ENROLL_ADDR_LEN 0, es_has_bond := False\<rparr>) state"

definition ble_enroll_has_bond :: "ble_enroll_state option \<Rightarrow> bool" where
  "ble_enroll_has_bond state = (case state of None \<Rightarrow> False | Some s \<Rightarrow> es_has_bond s)"

definition ble_enroll_request_replace ::
  "ble_enroll_state option \<Rightarrow> bool \<Rightarrow> int \<Rightarrow> ble_enroll_state option \<times> esp_err" where
  "ble_enroll_request_replace state confirmed now_ms =
    (case state of
       None \<Rightarrow> (None, ESP_ERR_INVALID_ARG)
     | Some s \<Rightarrow>
         if \<not> confirmed then (state, ESP_ERR_INVALID_STATE)
         else ble_enroll_open_window (ble_enroll_clear_bond state) now_ms)"

definition ble_enroll_button_init ::
  "ble_enroll_button option \<Rightarrow> ble_enroll_config \<Rightarrow> ble_enroll_button option" where
  "ble_enroll_button_init button config = map_option (\<lambda>_.
     \<lparr>bt_config = config, bt_stable_pressed = False, bt_last_sample_pressed = False, bt_fired = False,
      bt_last_change_ms = 0, bt_pressed_since_ms = 0\<rparr>) button"

definition button_update :: "ble_enroll_button \<Rightarrow> bool \<Rightarrow> int \<Rightarrow> ble_enroll_button \<times> bool" where
  "button_update b pressed now_ms =
    (let b = (if pressed \<noteq> bt_last_sample_pressed b
              then b\<lparr>bt_last_sample_pressed := pressed, bt_last_change_ms := now_ms\<rparr> else b)
     in if now_ms - bt_last_change_ms b < uint (debounce_ms (bt_config b)) then (b, False)
        else
          let b = (if bt_stable_pressed b \<noteq> pressed
                   then b\<lparr>bt_stable_pressed := pressed, bt_fired := False,
                          bt_pressed_since_ms := if pressed then now_ms else 0\<rparr> else b)
          in if \<not> bt_stable_pressed b \<or> bt_fired b then (b, False)
             else if now_ms - bt_pressed_since_ms b \<ge> uint (boot_hold_ms (bt_config b))
             then (b\<lparr>bt_fired := True\<rparr>, True)
             else (b, False))"

definition ble_enroll_button_update ::
  "ble_enroll_button option \<Rightarrow> bool \<Rightarrow> int \<Rightarrow> ble_enroll_button option \<times> bool" where
  "ble_enroll_button_update button pressed now_ms =
    (case button of None \<Rightarrow> (None, False)
     | Some b \<Rightarrow> map_prod Some id (button_update b pressed now_ms))"

section \<open>Who may pair\<close>

text \<open>The calls that change the state, with the time of those that look at the clock.\<close>

datatype enroll_call =
    Open_window int | Close_window | Note_bonded bytes | Clear_bond | Request_replace bool int

fun enroll_step :: "ble_enroll_state \<Rightarrow> enroll_call \<Rightarrow> ble_enroll_state" where
  "enroll_step s (Open_window t) = the (fst (ble_enroll_open_window (Some s) t))"
| "enroll_step s Close_window = the (ble_enroll_close_window (Some s))"
| "enroll_step s (Note_bonded peer) = the (ble_enroll_note_bonded (Some s) (Some peer))"
| "enroll_step s Clear_bond = the (ble_enroll_clear_bond (Some s))"
| "enroll_step s (Request_replace confirmed t) = the (fst (ble_enroll_request_replace (Some s) confirmed t))"

definition enroll_start :: "ble_enroll_config \<Rightarrow> ble_enroll_state" where
  "enroll_start config = \<lparr>es_config = config, es_has_bond = False,
     es_bonded_addr = replicate BLE_ENROLL_ADDR_LEN 0, es_window_open = False, es_window_deadline_ms = 0\<rparr>"

definition enroll_ok :: "ble_enroll_config \<Rightarrow> ble_enroll_state \<Rightarrow> bool" where
  "enroll_ok config s \<longleftrightarrow> es_config s = config \<and> (es_window_open s \<longrightarrow> \<not> es_has_bond s)"

lemmas enroll_defs = ble_enroll_open_window_def ble_enroll_close_window_def ble_enroll_note_bonded_def
  ble_enroll_clear_bond_def ble_enroll_request_replace_def

interpretation enroll: invariant_machine enroll_step "enroll_ok config" for config
proof
  show "enroll_ok config s \<Longrightarrow> enroll_ok config (enroll_step s e)" for s e
    by (cases e) (auto simp: enroll_ok_def enroll_defs)
qed

text \<open>Calls after which a window that was open still is, and those that open one.\<close>

fun opens_at :: "enroll_call \<Rightarrow> int option" where
  "opens_at (Open_window t) = Some t"
| "opens_at (Request_replace True t) = Some t"
| "opens_at _ = None"

fun shuts :: "enroll_call \<Rightarrow> bool" where
  "shuts Close_window = True"
| "shuts (Note_bonded _) = True"
| "shuts _ = False"

lemma enroll_start_ok: "enroll_ok config (enroll_start config)"
  by (simp add: enroll_ok_def enroll_start_def)

lemma window_step:
  assumes "enroll_ok config s" "es_window_open (enroll_step s e)"
  shows "\<not> shuts e \<and>
    (\<exists>t. opens_at e = Some t \<and> es_window_deadline_ms (enroll_step s e) = t + uint (enroll_window_ms config)
     \<or> opens_at e = None \<and> es_window_open s \<and> es_window_deadline_ms (enroll_step s e) = es_window_deadline_ms s)"
  using assms by (cases e) (auto simp: enroll_ok_def enroll_defs split: if_splits)

lemma window_run:
  assumes "es_window_open (foldl enroll_step (enroll_start config) calls)"
  shows "\<exists>before c after t. calls = before @ c # after \<and> opens_at c = Some t \<and>
    es_window_deadline_ms (foldl enroll_step (enroll_start config) calls) = t + uint (enroll_window_ms config) \<and>
    (\<forall>d\<in>set after. \<not> shuts d \<and> opens_at d = None)"
  using assms
proof (induction calls rule: rev_induct)
  case Nil
  then show ?case by (simp add: enroll_start_def)
next
  case (snoc c calls)
  let ?s = "foldl enroll_step (enroll_start config) calls"
  have ok: "enroll_ok config ?s" by (rule enroll.inv_run [OF enroll_start_ok])
  from window_step [OF ok, of c] snoc.prems
  consider t where "opens_at c = Some t"
      "es_window_deadline_ms (enroll_step ?s c) = t + uint (enroll_window_ms config)"
    | "opens_at c = None" "\<not> shuts c" "es_window_open ?s"
      "es_window_deadline_ms (enroll_step ?s c) = es_window_deadline_ms ?s"
    by auto
  then show ?case
  proof cases
    case 1
    then show ?thesis by (intro exI [of _ calls] exI [of _ c] exI [of _ "[]"] exI [of _ t]) simp
  next
    case 2
    from snoc.IH [OF 2(3)] obtain before d after t where
      "calls = before @ d # after" "opens_at d = Some t"
      "es_window_deadline_ms ?s = t + uint (enroll_window_ms config)"
      "\<forall>d\<in>set after. \<not> shuts d \<and> opens_at d = None" by blast
    with 2 show ?thesis
      by (intro exI [of _ before] exI [of _ d] exI [of _ "after @ [c]"] exI [of _ t]) auto
  qed
qed

text \<open>
  Who may pair. After any calls, a peer may pair only if it is the bonded one, or if there is
  no bond and a call opened the window less than its length ago and none closed it or recorded a
  bond since.
\<close>

theorem pairing_only_when_enrolling:
  assumes "ble_enroll_pairing_allowed (Some (foldl enroll_step (enroll_start config) calls)) (Some peer) now"
  shows "(let s = foldl enroll_step (enroll_start config) calls in
      es_has_bond s \<and> es_bonded_addr s = peer \<or>
      \<not> es_has_bond s \<and> (\<exists>before c after t. calls = before @ c # after \<and> opens_at c = Some t \<and>
        now < t + uint (enroll_window_ms config) \<and> (\<forall>d\<in>set after. \<not> shuts d \<and> opens_at d = None)))"
proof -
  let ?s = "foldl enroll_step (enroll_start config) calls"
  have ok: "enroll_ok config ?s" by (rule enroll.inv_run [OF enroll_start_ok])
  show ?thesis
  proof (cases "ble_enroll_window_active (Some ?s) now")
    case True
    then have w: "es_window_open ?s" "now < es_window_deadline_ms ?s"
      by (auto simp: ble_enroll_window_active_def)
    from window_run [OF w(1)] obtain before c after t where c: "calls = before @ c # after"
      "opens_at c = Some t" "es_window_deadline_ms ?s = t + uint (enroll_window_ms config)"
      "\<forall>d\<in>set after. \<not> shuts d \<and> opens_at d = None" by blast
    have "\<not> es_has_bond ?s" using ok w(1) by (simp add: enroll_ok_def)
    moreover have "now < t + uint (enroll_window_ms config)" using w(2) c(3) by simp
    ultimately show ?thesis unfolding Let_def using c(1,2,4) by blast
  next
    case False
    with assms show ?thesis by (simp add: ble_enroll_pairing_allowed_def)
  qed
qed

theorem pairing_only_when_enrolling_witness:
  "ble_enroll_pairing_allowed (Some (foldl enroll_step
      (enroll_start \<lparr>cfg_window_ms = 0, cfg_boot_hold_ms = 0, cfg_button_debounce_ms = 0\<rparr>)
      [Open_window 5])) (Some [1, 2, 3, 4, 5, 6]) 7 \<and>
   (\<exists>before c after t. [Open_window 5] = before @ c # after \<and> opens_at c = Some t)"
proof -
  let ?c = "\<lparr>cfg_window_ms = 0, cfg_boot_hold_ms = 0, cfg_button_debounce_ms = 0\<rparr>"
  have a: "ble_enroll_pairing_allowed (Some (foldl enroll_step (enroll_start ?c) [Open_window 5]))
      (Some [1, 2, 3, 4, 5, 6]) 7"
    by (simp add: ble_enroll_pairing_allowed_def ble_enroll_window_active_def ble_enroll_open_window_def
        enroll_start_def enroll_window_ms_def)
  have "\<not> es_has_bond (foldl enroll_step (enroll_start ?c) [Open_window 5])"
    by (simp add: ble_enroll_open_window_def enroll_start_def)
  with pairing_only_when_enrolling [OF a] a show ?thesis by (auto simp: Let_def)
qed

section \<open>The button\<close>

definition button_run :: "ble_enroll_button \<Rightarrow> (bool \<times> int) list \<Rightarrow> ble_enroll_button" where
  "button_run b samples = foldl (\<lambda>b (pressed, t). fst (button_update b pressed t)) b samples"

text \<open>
  What holds between the sample that fired at \<open>t0\<close> and the next one that fires, with the time of
  the last sample and whether one of them was released.
\<close>

definition since_fire :: "ble_enroll_config \<Rightarrow> int \<Rightarrow> int \<Rightarrow> bool \<Rightarrow> ble_enroll_button \<Rightarrow> bool" where
  "since_fire config t0 prev released b \<longleftrightarrow> bt_config b = config \<and> t0 \<le> prev \<and>
     (bt_stable_pressed b \<and> bt_fired b \<and>
        (\<not> bt_last_sample_pressed b \<longrightarrow> released \<and> t0 \<le> bt_last_change_ms b)
      \<or> \<not> bt_stable_pressed b \<and> released \<and> t0 + uint (debounce_ms config) \<le> prev \<and>
        (bt_last_sample_pressed b \<longrightarrow> t0 + uint (debounce_ms config) \<le> bt_last_change_ms b)
      \<or> bt_stable_pressed b \<and> released \<and> \<not> bt_fired b \<and>
        t0 + 2 * uint (debounce_ms config) \<le> bt_pressed_since_ms b \<and> bt_pressed_since_ms b \<le> prev)"

lemma uint_debounce_nonneg: "0 \<le> uint (debounce_ms config)"
  by simp

lemma since_fire_step:
  assumes "since_fire config t0 prev released b" "prev \<le> t" "\<not> snd (button_update b pressed t)"
  shows "since_fire config t0 t (released \<or> \<not> pressed) (fst (button_update b pressed t))"
proof -
  have "t0 \<le> t" using assms(1,2) by (simp add: since_fire_def)
  with assms uint_debounce_nonneg [of config] show ?thesis unfolding since_fire_def
  by (cases pressed; cases "bt_last_sample_pressed b"; cases "bt_stable_pressed b")
     (auto simp: button_update_def Let_def split: if_splits)
qed

lemma since_fire_fires:
  assumes "since_fire config t0 prev released b" "prev \<le> t" "snd (button_update b pressed t)"
  shows "(released \<or> \<not> pressed) \<and> t0 + 2 * uint (debounce_ms config) + uint (boot_hold_ms config) \<le> t"
  using assms unfolding since_fire_def
  by (auto simp: button_update_def Let_def split: if_splits)

lemma since_fire_start:
  "snd (button_update b pressed t) \<Longrightarrow>
   since_fire (bt_config b) t t False (fst (button_update b pressed t))"
  by (auto simp: button_update_def since_fire_def Let_def split: if_splits)

text \<open>Whether some sample of a sequence fires.\<close>

fun fires :: "ble_enroll_button \<Rightarrow> (bool \<times> int) list \<Rightarrow> bool" where
  "fires b [] = False"
| "fires b ((pressed, t) # samples) =
     (snd (button_update b pressed t) \<or> fires (fst (button_update b pressed t)) samples)"

lemma quiet_run:
  assumes "since_fire config t0 prev released b" "sorted (prev # map snd samples)" "\<not> fires b samples"
  shows "since_fire config t0 (last (prev # map snd samples))
    (released \<or> (\<exists>p\<in>fst ` set samples. \<not> p)) (button_run b samples)"
  using assms
proof (induction samples arbitrary: prev released b)
  case Nil
  then show ?case by (simp add: button_run_def)
next
  case (Cons sample samples)
  obtain p t where st: "sample = (p, t)" by (cases sample)
  have "since_fire config t0 t (released \<or> \<not> p) (fst (button_update b p t))"
    using Cons.prems st by (intro since_fire_step) auto
  from Cons.IH [OF this] Cons.prems st show ?case
    by (auto simp: button_run_def disj_assoc)
qed

text \<open>
  the button fires once per press. After it fired, it fires again only if it was seen released
  in between and only after two debounce times and a hold time, whatever the samples are.
\<close>

theorem button_fires_once_per_press:
  assumes "snd (button_update b p1 t1)" "sorted (t1 # map snd samples @ [t2])"
    and "\<not> fires (fst (button_update b p1 t1)) samples"
    and "snd (button_update (button_run (fst (button_update b p1 t1)) samples) p2 t2)"
  shows "(\<exists>sample\<in>set (samples @ [(p2, t2)]). \<not> fst sample) \<and>
    t1 + 2 * uint (debounce_ms (bt_config b)) + uint (boot_hold_ms (bt_config b)) \<le> t2"
proof -
  let ?b = "fst (button_update b p1 t1)"
  have so: "sorted (t1 # map snd samples)" using assms(2) by (simp add: sorted_append)
  have "\<forall>x\<in>set (t1 # map snd samples). x \<le> t2" using assms(2) by (auto simp: sorted_append)
  then have l: "last (t1 # map snd samples) \<le> t2" 
    using last_in_set [of "t1 # map snd samples"] by blast
  from since_fire_fires [OF quiet_run [OF since_fire_start [OF assms(1)] so assms(3)] l assms(4)]
  show ?thesis by auto
qed

theorem button_fires_once_per_press_witness:
  "(100 :: int) + 2 * 20 + 3000 \<le> 7000 \<and>
   (let config = \<lparr>cfg_window_ms = 0, cfg_boot_hold_ms = 0, cfg_button_debounce_ms = 0\<rparr>;
        b = \<lparr>bt_config = config, bt_stable_pressed = True, bt_last_sample_pressed = True,
             bt_fired = False, bt_last_change_ms = -4000, bt_pressed_since_ms = -3000\<rparr>
    in \<exists>sample\<in>set ([(False, 200), (False, 300), (True, 400), (True, 500)] @ [(True, 7000)]). \<not> fst sample)"
proof -
  let ?c = "\<lparr>cfg_window_ms = 0, cfg_boot_hold_ms = 0, cfg_button_debounce_ms = 0\<rparr> :: ble_enroll_config"
  let ?b = "\<lparr>bt_config = ?c, bt_stable_pressed = True, bt_last_sample_pressed = True,
             bt_fired = False, bt_last_change_ms = -4000, bt_pressed_since_ms = -3000\<rparr> :: ble_enroll_button"
  have d: "debounce_ms ?c = 20" "boot_hold_ms ?c = 3000"
    by (simp_all add: debounce_ms_def boot_hold_ms_def)
  show ?thesis
    using button_fires_once_per_press [of ?b True 100 "[(False, 200), (False, 300), (True, 400), (True, 500)]" 7000 True]
    by (simp add: button_update_def button_run_def Let_def d)
qed

end
