(* ===== verification/Captive_Dns.thy ===== *)
theory Captive_Dns
  imports Prelude
begin

text \<open>
  The reply of the captive portal name server, \<open>build_wildcard_reply\<close> of
  \<^verbatim>\<open>components/provisioning/captive_dns.c\<close>: it works in place on the reply buffer, whose accesses
  are checked here, and answers every A question with the address of the gateway.
\<close>

section \<open>The implementation\<close>

definition be16 :: "u16 \<Rightarrow> bytes" where
  "be16 w = [ucast (drop_bit 8 w), ucast w]"

definition rd_be16 :: "u8 \<Rightarrow> u8 \<Rightarrow> u16" where
  "rd_be16 a b = push_bit 8 (ucast a) OR ucast b"

text \<open>\<open>ntohs\<close> of a field of the packet, and \<open>htons\<close> into one.\<close>

definition get16 :: "bytes \<Rightarrow> nat \<Rightarrow> u16 option" where
  "get16 buf i = do { a \<leftarrow> load buf i; b \<leftarrow> load buf (i + 1); Some (rd_be16 a b) }"

definition put_bytes :: "bytes \<Rightarrow> nat \<Rightarrow> bytes \<Rightarrow> bytes option" where
  "put_bytes buf i bs =
     (if i + length bs \<le> length buf then Some (take i buf @ bs @ drop (i + length bs) buf) else None)"

definition DNS_HEADER_LEN :: nat where "DNS_HEADER_LEN = 12"
definition DNS_ANSWER_LEN :: nat where "DNS_ANSWER_LEN = 16"
definition DNS_QR_FLAG :: u16 where "DNS_QR_FLAG = 0x8000"
definition DNS_OPCODE_MASK :: u16 where "DNS_OPCODE_MASK = 0x7800"
definition DNS_REPLY_TTL :: bytes where "DNS_REPLY_TTL = be16 0 @ be16 300"

text \<open>
  Pointers into the packet are offsets. The outer option is memory safety, the inner one the NULL
  the code returns.
\<close>

function skip_dns_name :: "bytes \<Rightarrow> nat \<Rightarrow> nat \<Rightarrow> nat option option" where
  "skip_dns_name packet label end_off =
    (if label < end_off
     then do {
       b \<leftarrow> load packet label;
       if b = 0 then Some (Some (label + 1))
       else
         let label_len = unat b
         in if b AND 0xC0 \<noteq> 0 \<or> label + label_len + 1 \<ge> end_off then Some None
            else skip_dns_name packet (label + label_len + 1) end_off
     }
     else Some None)"
  by pat_completeness auto
termination
  by (relation "measure (\<lambda>(_, label, end_off). end_off - label)") auto

declare skip_dns_name.simps [simp del]

definition dns_answer :: "nat \<Rightarrow> bytes \<Rightarrow> bytes" where
  "dns_answer question_start ip =
     be16 (0xC000 OR of_nat question_start) @ be16 1 @ be16 1 @ DNS_REPLY_TTL @ be16 4 @ ip"

definition build_wildcard_reply :: "bytes \<Rightarrow> nat \<Rightarrow> bytes \<Rightarrow> (int \<times> bytes) option" where
  "build_wildcard_reply request reply_len ap_ip =
    (let request_len = length request; reply0 = replicate reply_len 0
     in if request_len < DNS_HEADER_LEN \<or> request_len > reply_len then Some (-1, reply0)
        else do {
          reply \<leftarrow> memcpy reply0 request request_len;
          flags \<leftarrow> get16 reply 2;
          if flags AND DNS_OPCODE_MASK \<noteq> 0 then Some (0, reply)
          else do {
            qd_count \<leftarrow> get16 reply 4;
            if qd_count \<noteq> 1 then Some (0, reply)
            else do {
              let question_start = DNS_HEADER_LEN;
              question_end \<leftarrow> skip_dns_name reply question_start request_len;
              case question_end of
                None \<Rightarrow> Some (-1, reply)
              | Some qe \<Rightarrow>
                  if qe + 4 > request_len then Some (-1, reply)
                  else do {
                    qtype \<leftarrow> get16 reply qe;
                    qclass \<leftarrow> get16 reply (qe + 2);
                    if qtype \<noteq> 1 \<or> qclass \<noteq> 1 then Some (0, reply)
                    else
                      let question_len = qe + 4; total_len = question_len + DNS_ANSWER_LEN
                      in if total_len > reply_len then Some (-1, reply)
                         else do {
                           reply \<leftarrow> put_bytes reply 2 (be16 (flags OR DNS_QR_FLAG));
                           reply \<leftarrow> put_bytes reply 4 (be16 1 @ be16 1 @ be16 0 @ be16 0);
                           reply \<leftarrow> put_bytes reply question_len (dns_answer question_start ap_ip);
                           Some (int total_len, reply)
                         }
                  }
            }
          }
        })"

section \<open>Safety\<close>

lemma put_bytes_Some [simp]:
  "i + length bs \<le> length buf \<Longrightarrow> put_bytes buf i bs = Some (take i buf @ bs @ drop (i + length bs) buf)"
  by (simp add: put_bytes_def)

lemma get16_Some: "i + 1 < length buf \<Longrightarrow> get16 buf i = Some (rd_be16 (buf ! i) (buf ! (i + 1)))"
  by (simp add: get16_def)

lemma length_be16 [simp]: "length (be16 w) = 2"
  by (simp add: be16_def)

lemma length_dns_answer [simp]: "length ip = 4 \<Longrightarrow> length (dns_answer q ip) = 16"
  by (simp add: dns_answer_def DNS_REPLY_TTL_def)

lemma skip_dns_name_safe:
  assumes "end_off \<le> length packet"
  shows "\<exists>r. skip_dns_name packet label end_off = Some r \<and> (\<forall>e. r = Some e \<longrightarrow> label < e \<and> e \<le> end_off)"
  using assms
proof (induction packet label end_off rule: skip_dns_name.induct)
  case (1 packet label end_off)
  show ?case
  proof (cases "label < end_off \<and> packet ! label \<noteq> 0 \<and>
      \<not> (packet ! label AND 0xC0 \<noteq> 0 \<or> label + unat (packet ! label) + 1 \<ge> end_off)")
    case True
    with 1(1) [of "packet ! label" "unat (packet ! label)"] 1(2)
    show ?thesis by (subst skip_dns_name.simps) (auto simp: Let_def)
  next
    case False
    with 1(2) show ?thesis by (subst skip_dns_name.simps) (auto simp: Let_def)
  qed
qed

text \<open>
  memory safety. For any request and any size of the reply buffer the reply is built without
  an access outside it; the answer is an error, nothing, or the size of a reply that fits.
\<close>

theorem build_wildcard_reply_safe:
  assumes "length ap_ip = 4"
  shows "\<exists>n reply. build_wildcard_reply request reply_len ap_ip = Some (n, reply) \<and>
    length reply = reply_len \<and> (n = -1 \<or> n = 0 \<or> 33 \<le> n \<and> n \<le> int reply_len \<and> n \<le> int (length request) + 16)"
proof (cases "length request < DNS_HEADER_LEN \<or> length request > reply_len")
  case True
  then show ?thesis by (simp add: build_wildcard_reply_def)
next
  case False
  let ?reply = "request @ drop (length request) (replicate reply_len 0)"
  have len: "length ?reply = reply_len" "12 \<le> length request" "length request \<le> reply_len"
    using False by (auto simp: DNS_HEADER_LEN_def)
  have cp: "memcpy (replicate reply_len 0) request (length request) = Some ?reply"
    using False by (simp add: memcpy_def)
  obtain r where skip: "skip_dns_name ?reply 12 (length request) = Some r"
      "\<forall>e. r = Some e \<longrightarrow> 12 < e \<and> e \<le> length request"
    using skip_dns_name_safe [of "length request" ?reply 12] by auto
  have g: "i + 1 < reply_len \<Longrightarrow> get16 ?reply i = Some (rd_be16 (?reply ! i) (?reply ! (i + 1)))" for i
    using get16_Some [of i ?reply] len(1) by simp
  note g2 = g [of 2] and g4 = g [of 4]
  show ?thesis
  proof (cases r)
    case None
    with skip cp g2 g4 False len show ?thesis
      by (auto simp: build_wildcard_reply_def Let_def DNS_HEADER_LEN_def simp del: drop_replicate)
  next
    case (Some e)
    with skip have e: "12 < e" "e \<le> length request" by auto
    have ge: "e + 4 \<le> length request \<Longrightarrow> get16 ?reply e = Some (rd_be16 (?reply ! e) (?reply ! (e + 1)))"
      "e + 4 \<le> length request \<Longrightarrow>
        get16 ?reply (e + 2) = Some (rd_be16 (?reply ! (e + 2)) (?reply ! (e + 2 + 1)))"
      using g [of e] g [of "e + 2"] len by auto
    show ?thesis
      using Some skip(1) cp g2 g4 ge e False len assms
      by (auto simp: build_wildcard_reply_def Let_def DNS_HEADER_LEN_def DNS_ANSWER_LEN_def
          simp del: drop_replicate)
  qed
qed

theorem build_wildcard_reply_safe_witness:
  "\<exists>n reply. build_wildcard_reply [1, 2, 3] 256 [192, 168, 4, 1] = Some (n, reply) \<and> length reply = 256"
  using build_wildcard_reply_safe [of "[192, 168, 4, 1]" "[1, 2, 3]" 256] by auto

section \<open>The reply to a question\<close>

text \<open>
  What a query looks like on the wire: the header, the name as length prefixed labels up to the
  empty one, then type and class.
\<close>

definition encode_name :: "bytes list \<Rightarrow> bytes" where
  "encode_name labels = concat (map (\<lambda>l. of_nat (length l) # l) labels) @ [0]"

definition a_query :: "u16 \<Rightarrow> u16 \<Rightarrow> bytes \<Rightarrow> bytes list \<Rightarrow> bytes \<Rightarrow> bytes" where
  "a_query qid flags counts labels extra =
     be16 qid @ be16 flags @ be16 1 @ counts @ encode_name labels @ be16 1 @ be16 1 @ extra"

definition a_reply :: "u16 \<Rightarrow> u16 \<Rightarrow> bytes list \<Rightarrow> bytes \<Rightarrow> bytes" where
  "a_reply qid flags labels ip =
     be16 qid @ be16 (flags OR 0x8000) @ be16 1 @ be16 1 @ be16 0 @ be16 0 @
     encode_name labels @ be16 1 @ be16 1 @
     be16 0xC00C @ be16 1 @ be16 1 @ be16 0 @ be16 300 @ be16 4 @ ip"

definition labels_ok :: "bytes list \<Rightarrow> bool" where
  "labels_ok labels \<longleftrightarrow> (\<forall>l \<in> set labels. 0 < length l \<and> length l < 64)"

lemma rd_be16_be16: "rd_be16 (ucast (drop_bit 8 w)) (ucast w) = w"
  by (rule bit_word_eqI) (auto simp: rd_be16_def bit_simps)

lemma get16_be16:
  "i = length pre \<Longrightarrow> get16 (pre @ be16 w @ post) i = Some w"
  using rd_be16_be16 [of w] by (simp add: get16_def load_def nth_append be16_def)

lemma put_bytes_mid:
  "i = length pre \<Longrightarrow> length old = length bs \<Longrightarrow>
    put_bytes (pre @ old @ post) i bs = Some (pre @ bs @ post)"
  by simp

lemma label_length_byte:
  assumes "0 < n" "n < 64"
  shows "(of_nat n :: u8) \<noteq> 0" "(of_nat n :: u8) AND 0xC0 = 0" "unat (of_nat n :: u8) = n"
proof -
  show u: "unat (of_nat n :: u8) = n"
    using assms by (simp add: unat_of_nat)
  then show "(of_nat n :: u8) \<noteq> 0" using assms by (metis less_irrefl unat_0)
  show "(of_nat n :: u8) AND 0xC0 = 0"
  proof (rule bit_word_eqI)
    fix k assume "k < LENGTH(8)"
    then have k: "k < 8" by simp
    have n0: "n div 2 ^ k = 0" if "6 \<le> k"
      using assms(2) power_increasing [OF that, of "2 :: nat"] by simp
    have "(0xC0 :: u8) = push_bit 6 3" by simp
    then have "bit (0xC0 :: u8) k \<Longrightarrow> 6 \<le> k"
      by (simp only: bit_push_bit_iff)
    moreover have "6 \<le> k \<Longrightarrow> \<not> bit (of_nat n :: u8) k"
      using n0 by (simp only: bit_of_nat_iff) (simp add: bit_iff_odd)
    ultimately show "bit ((of_nat n :: u8) AND 0xC0) k = bit 0 k"
      by (auto simp: bit_and_iff)
  qed
qed

lemma skip_dns_name_encoded:
  assumes "labels_ok labels" "packet = pre @ encode_name labels @ post" "label = length pre"
    "label + length (encode_name labels) \<le> end_off" "end_off \<le> length packet"
  shows "skip_dns_name packet label end_off = Some (Some (label + length (encode_name labels)))"
  using assms
proof (induction labels arbitrary: pre label)
  case Nil
  then show ?case
    by (subst skip_dns_name.simps) (simp add: encode_name_def load_def nth_append)
next
  case (Cons l labels)
  let ?b = "of_nat (length l) :: u8"
  have l: "0 < length l" "length l < 64" and ok: "labels_ok labels"
    using Cons.prems(1) by (auto simp: labels_ok_def)
  have enc: "encode_name (l # labels) = ?b # l @ encode_name labels"
    by (simp add: encode_name_def)
  have pos: "0 < length (encode_name labels)" by (simp add: encode_name_def)
  have ld: "load packet label = Some ?b"
    using Cons.prems(2,3) by (simp add: enc load_def nth_append)
  have "skip_dns_name packet (label + length l + 1) end_off =
      Some (Some (label + length l + 1 + length (encode_name labels)))"
    using Cons.prems(2-) by (intro Cons.IH [OF ok, of "pre @ ?b # l"]) (simp_all add: enc)
  moreover have "\<not> end_off \<le> Suc (label + length l)"
    using pos Cons.prems(4) unfolding enc by (simp del: length_greater_0_conv)
  ultimately show ?case
    using ld label_length_byte [OF l] by (subst skip_dns_name.simps) (simp add: enc Let_def)
qed

text \<open>
  A well-formed query for an address is answered: when the answer fits the reply buffer, the
  reply is the question with the answer flag and the counts of one question and one answer, the
  name unchanged, and one answer record that points to the name and holds the address of the
  gateway for 300 seconds, whatever counts and additional records the query had.
\<close>

theorem build_wildcard_reply_answers:
  assumes "labels_ok labels" "flags AND DNS_OPCODE_MASK = 0" "length counts = 6" "length ip = 4"
    "length (a_query qid flags counts labels extra) \<le> reply_len"
    "length (a_reply qid flags labels ip) \<le> reply_len"
  shows "\<exists>rest. build_wildcard_reply (a_query qid flags counts labels extra) reply_len ip =
    Some (int (length (a_reply qid flags labels ip)), a_reply qid flags labels ip @ rest)"
proof -
  let ?q = "a_query qid flags counts labels extra"
  let ?name = "encode_name labels"
  let ?tail = "extra @ replicate (reply_len - length ?q) 0"
  let ?reply = "?q @ replicate (reply_len - length ?q) 0"
  let ?qe = "12 + length ?name"
  have lens: "length ?q = 16 + length ?name + length extra"
    "length (a_reply qid flags labels ip) = 32 + length ?name"
    using assms(3,4) by (simp_all add: a_query_def a_reply_def)
  have cp: "memcpy (replicate reply_len 0) ?q (length ?q) = Some ?reply"
    using assms(5) by (simp add: memcpy_def)
  define old where "old = take 16 ?tail"
  define rest where "rest = drop 16 ?tail"
  have tail: "?tail = old @ rest" "length old = 16"
    using assms(5,6) lens by (simp_all add: old_def rest_def del: take_append drop_append)
  have reply: "?reply = be16 qid @ be16 flags @ be16 1 @ counts @ ?name @ be16 1 @ be16 1 @ old @ rest"
    using tail(1) by (simp add: a_query_def)
  have f: "get16 ?reply 2 = Some flags"
    using get16_be16 [of 2 "be16 qid" flags] by (simp add: reply)
  have qd: "get16 ?reply 4 = Some 1"
    using get16_be16 [of 4 "be16 qid @ be16 flags" 1] by (simp add: reply)
  have sk: "skip_dns_name ?reply 12 (length ?q) = Some (Some ?qe)"
    using assms(1,3) lens(1) arg_cong [OF tail(1), of length] unfolding reply
    by (intro skip_dns_name_encoded [where pre = "be16 qid @ be16 flags @ be16 1 @ counts"]) auto
  have ty: "get16 ?reply ?qe = Some 1"
    using get16_be16 [of ?qe "be16 qid @ be16 flags @ be16 1 @ counts @ ?name" 1] assms(3)
    by (simp add: reply)
  have cl: "get16 ?reply (?qe + 2) = Some 1"
    using get16_be16 [of "?qe + 2" "be16 qid @ be16 flags @ be16 1 @ counts @ ?name @ be16 1" 1] assms(3)
    by (simp add: reply)
  let ?r1 = "be16 qid @ be16 (flags OR 0x8000) @ be16 1 @ counts @ ?name @ be16 1 @ be16 1 @ old @ rest"
  have p1: "put_bytes ?reply 2 (be16 (flags OR 0x8000)) = Some ?r1"
    using put_bytes_mid [of 2 "be16 qid" "be16 flags"] by (simp add: reply del: put_bytes_Some)
  let ?r2 = "be16 qid @ be16 (flags OR 0x8000) @ (be16 1 @ be16 1 @ be16 0 @ be16 0) @
    ?name @ be16 1 @ be16 1 @ old @ rest"
  have p2: "put_bytes ?r1 4 (be16 1 @ be16 1 @ be16 0 @ be16 0) = Some ?r2"
    using put_bytes_mid [of 4 "be16 qid @ be16 (flags OR 0x8000)" "be16 1 @ counts"] assms(3)
    by (simp del: put_bytes_Some)
  have p3: "put_bytes ?r2 (?qe + 4) (dns_answer 12 ip) = Some (a_reply qid flags labels ip @ rest)"
    using put_bytes_mid [of "?qe + 4" "be16 qid @ be16 (flags OR 0x8000) @ (be16 1 @ be16 1 @ be16 0 @ be16 0) @
      ?name @ be16 1 @ be16 1" old "dns_answer 12 ip"] tail(2) assms(4)
    by (simp add: a_reply_def dns_answer_def DNS_REPLY_TTL_def del: put_bytes_Some)
  have "build_wildcard_reply ?q reply_len ip =
      Some (int (?qe + 4 + 16), a_reply qid flags labels ip @ rest)"
    unfolding build_wildcard_reply_def Let_def DNS_HEADER_LEN_def DNS_ANSWER_LEN_def DNS_QR_FLAG_def
    using cp f qd sk ty cl p1 p2 p3 assms(2,5,6) lens by simp
  with lens show ?thesis by auto
qed

theorem build_wildcard_reply_answers_witness:
  "\<exists>rest. build_wildcard_reply (a_query 7 0x100 [0, 0, 0, 0, 0, 1] [[97], [98, 99]] [0, 0, 41]) 256 [192, 168, 4, 1] =
    Some (38, a_reply 7 0x100 [[97], [98, 99]] [192, 168, 4, 1] @ rest)"
  using build_wildcard_reply_answers [of "[[97], [98, 99]]" "0x100" "[0, 0, 0, 0, 0, 1]" "[192, 168, 4, 1]" 7
      "[0, 0, 41]" 256]
  by (simp add: labels_ok_def DNS_OPCODE_MASK_def a_query_def a_reply_def be16_def encode_name_def)

end
