(* ===== verification/Provisioning_State.thy ===== *)
theory Provisioning_State
  imports Interfaces
begin

text \<open>
  The provisioning reducer, \<^verbatim>\<open>components/provisioning/provisioning_state.c\<close>: which events turn the
  setup access point on and off. Times are unsigned 64-bit milliseconds, with the comparisons the
  code makes before it subtracts.
\<close>

section \<open>State and events\<close>

datatype provisioning_event =
    PROVISION_EVENT_BOOT_NO_CONFIG | PROVISION_EVENT_BOOT_VALID_CONFIG
  | PROVISION_EVENT_WIFI_CONNECTED | PROVISION_EVENT_WIFI_TIMEOUT
  | PROVISION_EVENT_MQTT_CONNECTED | PROVISION_EVENT_MQTT_FAILED
  | PROVISION_EVENT_BOND_PRESENT | PROVISION_EVENT_BOND_REMOVED
  | PROVISION_EVENT_BOOT_HELD_3S | PROVISION_EVENT_PORTAL_IDLE_TIMEOUT
  | PROVISION_EVENT_WIFI_DISCONNECTED | PROVISION_EVENT_MQTT_REJECTED
  | PROVISION_EVENT_MQTT_SETTINGS_VERIFIED

record provisioning_state =
  valid_config :: bool
  wifi_connected :: bool
  mqtt_connected :: bool
  has_bond :: bool
  recovery_required :: bool
  recovery_window :: bool
  ap_required :: bool
  sta_required :: bool
  mqtt_settings_verified :: bool
  mqtt_rejecting :: bool
  mqtt_refusal_recovery :: bool
  recovery_deadline_ms :: u64
  mqtt_rejected_since_ms :: u64
  mqtt_last_rejected_ms :: u64

definition PROVISION_RECOVERY_WINDOW_MS :: u64 where "PROVISION_RECOVERY_WINDOW_MS = 600000"
definition PROVISION_MQTT_REJECTED_RECOVERY_MS :: u64 where "PROVISION_MQTT_REJECTED_RECOVERY_MS = 600000"
definition PROVISION_MQTT_REFUSAL_PAIR_MS :: u64 where "PROVISION_MQTT_REFUSAL_PAIR_MS = 3000"

definition reconcile_requirements :: "provisioning_state \<Rightarrow> provisioning_state" where
  "reconcile_requirements s = s\<lparr>sta_required := valid_config s,
     ap_required := \<not> valid_config s \<or> recovery_required s \<or> recovery_window s\<rparr>"

definition forget_mqtt_refusal :: "provisioning_state \<Rightarrow> provisioning_state" where
  "forget_mqtt_refusal s = s\<lparr>mqtt_rejecting := False, mqtt_refusal_recovery := False,
     mqtt_rejected_since_ms := 0, mqtt_last_rejected_ms := 0\<rparr>"

definition forget_mqtt_settings :: "provisioning_state \<Rightarrow> provisioning_state" where
  "forget_mqtt_settings s = forget_mqtt_refusal (s\<lparr>mqtt_settings_verified := False\<rparr>)"

definition ends_refused_attempt :: "provisioning_state \<Rightarrow> u64 \<Rightarrow> bool" where
  "ends_refused_attempt s now_ms \<longleftrightarrow> mqtt_rejecting s \<and> now_ms \<ge> mqtt_last_rejected_ms s \<and>
     now_ms - mqtt_last_rejected_ms s \<le> PROVISION_MQTT_REFUSAL_PAIR_MS"

definition provisioning_initial :: provisioning_state where
  "provisioning_initial = \<lparr>valid_config = False, wifi_connected = False, mqtt_connected = False,
     has_bond = False, recovery_required = False, recovery_window = False, ap_required = False,
     sta_required = False, mqtt_settings_verified = False, mqtt_rejecting = False,
     mqtt_refusal_recovery = False, recovery_deadline_ms = 0, mqtt_rejected_since_ms = 0,
     mqtt_last_rejected_ms = 0\<rparr>"

fun reduce_event :: "provisioning_state \<Rightarrow> provisioning_event \<Rightarrow> u64 \<Rightarrow> provisioning_state" where
  "reduce_event s PROVISION_EVENT_BOOT_NO_CONFIG now_ms =
     forget_mqtt_settings (s\<lparr>valid_config := False, wifi_connected := False, mqtt_connected := False,
       recovery_required := False, recovery_window := False, recovery_deadline_ms := 0\<rparr>)"
| "reduce_event s PROVISION_EVENT_BOOT_VALID_CONFIG now_ms =
     forget_mqtt_settings (s\<lparr>valid_config := True, wifi_connected := False, mqtt_connected := False,
       recovery_required := False, recovery_window := False, recovery_deadline_ms := 0\<rparr>)"
| "reduce_event s PROVISION_EVENT_WIFI_CONNECTED now_ms = s\<lparr>wifi_connected := True\<rparr>"
| "reduce_event s PROVISION_EVENT_WIFI_DISCONNECTED now_ms =
     s\<lparr>wifi_connected := False, mqtt_connected := False\<rparr>"
| "reduce_event s PROVISION_EVENT_WIFI_TIMEOUT now_ms =
     s\<lparr>wifi_connected := False, mqtt_connected := False, recovery_required := True\<rparr>"
| "reduce_event s PROVISION_EVENT_MQTT_CONNECTED now_ms =
     (let s = s\<lparr>mqtt_connected := wifi_connected s\<rparr>
      in if mqtt_connected s
         then forget_mqtt_refusal (s\<lparr>recovery_required := False, mqtt_settings_verified := True\<rparr>)
         else s)"
| "reduce_event s PROVISION_EVENT_MQTT_FAILED now_ms =
     (let s = s\<lparr>mqtt_connected := False\<rparr>
      in if \<not> mqtt_settings_verified s then s\<lparr>recovery_required := True\<rparr>
         else if \<not> wifi_connected s \<or> ends_refused_attempt s now_ms then s
         else
           let s = (if \<not> mqtt_refusal_recovery s then forget_mqtt_refusal s else s)
           in s\<lparr>recovery_required := mqtt_refusal_recovery s\<rparr>)"
| "reduce_event s PROVISION_EVENT_MQTT_REJECTED now_ms =
     (let s = s\<lparr>mqtt_connected := False\<rparr>
      in if \<not> mqtt_settings_verified s then s\<lparr>recovery_required := True\<rparr>
         else
           let s = (if \<not> mqtt_rejecting s
                    then s\<lparr>mqtt_rejecting := True, mqtt_rejected_since_ms := now_ms\<rparr> else s);
               s = s\<lparr>mqtt_last_rejected_ms := now_ms\<rparr>;
               s = (if now_ms \<ge> mqtt_rejected_since_ms s \<and>
                       now_ms - mqtt_rejected_since_ms s \<ge> PROVISION_MQTT_REJECTED_RECOVERY_MS
                    then s\<lparr>mqtt_refusal_recovery := True\<rparr> else s)
           in if wifi_connected s then s\<lparr>recovery_required := mqtt_refusal_recovery s\<rparr> else s)"
| "reduce_event s PROVISION_EVENT_MQTT_SETTINGS_VERIFIED now_ms =
     s\<lparr>mqtt_settings_verified := valid_config s\<rparr>"
| "reduce_event s PROVISION_EVENT_BOND_PRESENT now_ms = s\<lparr>has_bond := True\<rparr>"
| "reduce_event s PROVISION_EVENT_BOND_REMOVED now_ms = s\<lparr>has_bond := False\<rparr>"
| "reduce_event s PROVISION_EVENT_BOOT_HELD_3S now_ms =
     s\<lparr>recovery_window := True,
       recovery_deadline_ms := if now_ms > UINT64_MAX - PROVISION_RECOVERY_WINDOW_MS then UINT64_MAX
                               else now_ms + PROVISION_RECOVERY_WINDOW_MS\<rparr>"
| "reduce_event s PROVISION_EVENT_PORTAL_IDLE_TIMEOUT now_ms =
     (if recovery_window s \<and> now_ms \<ge> recovery_deadline_ms s
      then s\<lparr>recovery_window := False, recovery_deadline_ms := 0\<rparr> else s)"

definition provisioning_reduce ::
  "provisioning_state \<Rightarrow> provisioning_event \<Rightarrow> u64 \<Rightarrow> provisioning_state" where
  "provisioning_reduce current event now_ms = reconcile_requirements (reduce_event current event now_ms)"

section \<open>Runs\<close>

type_synonym timed_event = "provisioning_event \<times> u64"

definition prov_step :: "provisioning_state \<Rightarrow> timed_event \<Rightarrow> provisioning_state" where
  "prov_step s e = provisioning_reduce s (fst e) (snd e)"

lemmas prov_defs = prov_step_def provisioning_reduce_def reconcile_requirements_def
  forget_mqtt_refusal_def forget_mqtt_settings_def ends_refused_attempt_def

text \<open>
  Between two events the requirements follow from the rest of the state, MQTT is connected only
  over Wi-Fi and with no refusal pending, and a refusal that opened the access point is pending.
\<close>

definition prov_ok :: "provisioning_state \<Rightarrow> bool" where
  "prov_ok s \<longleftrightarrow> sta_required s = valid_config s \<and>
     ap_required s = (\<not> valid_config s \<or> recovery_required s \<or> recovery_window s) \<and>
     (mqtt_connected s \<longrightarrow> wifi_connected s \<and> \<not> mqtt_rejecting s) \<and>
     (mqtt_refusal_recovery s \<longrightarrow> mqtt_rejecting s)"

definition linked :: "provisioning_state \<Rightarrow> bool" where
  "linked s \<longleftrightarrow> (mqtt_connected s \<longrightarrow> wifi_connected s \<and> \<not> mqtt_rejecting s) \<and>
     (mqtt_refusal_recovery s \<longrightarrow> mqtt_rejecting s)"

lemma linked_step: "linked s \<Longrightarrow> prov_ok (prov_step s e)"
  by (cases "fst e") (auto simp: prov_ok_def linked_def prov_defs Let_def)

lemma prov_ok_linked: "prov_ok s \<Longrightarrow> linked s"
  by (simp add: prov_ok_def linked_def)

interpretation prov: invariant_machine prov_step prov_ok
  by unfold_locales (rule linked_step [OF prov_ok_linked])

text \<open>Only the two boot events change whether there is a configuration.\<close>

definition boots :: "timed_event \<Rightarrow> bool" where
  "boots e \<longleftrightarrow> fst e \<in> {PROVISION_EVENT_BOOT_NO_CONFIG, PROVISION_EVENT_BOOT_VALID_CONFIG}"

interpretation settings: framed_machine prov_step valid_config "\<lambda>e. \<not> boots e"
proof
  show "\<not> boots e \<Longrightarrow> valid_config (prov_step s e) = valid_config s" for s e
    by (cases "fst e") (auto simp: boots_def prov_defs Let_def)
qed

text \<open>
  After any events the firmware asks for the station exactly with a configuration and for the
  access point exactly without one, in recovery or in a recovery window; MQTT counts as connected
  only over Wi-Fi and with no refusal pending.
\<close>

theorem provisioning_requirements:
  "events \<noteq> [] \<longrightarrow> (let s = foldl prov_step provisioning_initial events in
     sta_required s = valid_config s \<and>
     ap_required s = (\<not> valid_config s \<or> recovery_required s \<or> recovery_window s) \<and>
     (mqtt_connected s \<longrightarrow> wifi_connected s \<and> \<not> mqtt_rejecting s))"
proof (cases events)
  case (Cons e es)
  have "linked provisioning_initial" by (simp add: linked_def provisioning_initial_def)
  then have "prov_ok (foldl prov_step (prov_step provisioning_initial e) es)"
    by (intro prov.inv_run linked_step)
  with Cons show ?thesis by (simp add: prov_ok_def Let_def)
qed simp

theorem provisioning_requirements_witness:
  "ap_required (foldl prov_step provisioning_initial [(PROVISION_EVENT_BOOT_NO_CONFIG, 0)])"
  using provisioning_requirements [of "[(PROVISION_EVENT_BOOT_NO_CONFIG, 0)]"]
  by (simp add: Let_def prov_defs)

section \<open>Proven settings keep the access point off\<close>

text \<open>Events that are not a reboot, a Wi-Fi timeout or the button.\<close>

definition harmless :: "provisioning_event \<Rightarrow> bool" where
  "harmless e \<longleftrightarrow> e \<notin> {PROVISION_EVENT_BOOT_NO_CONFIG, PROVISION_EVENT_BOOT_VALID_CONFIG,
     PROVISION_EVENT_WIFI_TIMEOUT, PROVISION_EVENT_BOOT_HELD_3S}"

definition proven :: "provisioning_state \<Rightarrow> bool" where
  "proven s \<longleftrightarrow> valid_config s \<and> mqtt_settings_verified s \<and> \<not> recovery_required s \<and>
     \<not> recovery_window s \<and> \<not> mqtt_refusal_recovery s"

definition proven_since :: "u64 \<Rightarrow> provisioning_state \<Rightarrow> bool" where
  "proven_since t0 s \<longleftrightarrow> proven s \<and>
     (mqtt_rejecting s \<longrightarrow> t0 \<le> mqtt_rejected_since_ms s \<and>
        mqtt_rejected_since_ms s - t0 < PROVISION_MQTT_REJECTED_RECOVERY_MS)"

lemma word_gap_less:
  assumes "t0 \<le> a" "a \<le> b" "b - t0 < (d :: u64)"
  shows "b - a < d"
proof -
  have "t0 \<le> b" using assms(1,2) by simp
  with assms show ?thesis by (simp add: word_less_nat_alt unat_sub word_le_nat_alt)
qed

lemma proven_step:
  assumes "proven_since t0 s" "harmless e" "t0 \<le> t" "t - t0 < PROVISION_MQTT_REJECTED_RECOVERY_MS"
  shows "proven_since t0 (prov_step s (e, t)) \<and> \<not> ap_required (prov_step s (e, t))"
proof -
  have gap: "t - a < PROVISION_MQTT_REJECTED_RECOVERY_MS" if "t0 \<le> a" "a \<le> t" for a
    using word_gap_less [OF that assms(4)] .
  show ?thesis
    using assms gap [of "mqtt_rejected_since_ms s"] gap [OF assms(3) order_refl]
    by (cases e) (auto simp: proven_since_def proven_def harmless_def prov_defs Let_def not_le [symmetric]
      PROVISION_MQTT_REJECTED_RECOVERY_MS_def)
qed

text \<open>
  An outage never opens the access point. From a state whose settings are proven, with no
  refusal pending, no sequence of events of any other kind than a reboot, a Wi-Fi timeout and the
  button, in any order and within ten minutes (refusals may last no longer), asks for it; MQTT may
  fail and be refused any number of times.
\<close>

theorem proven_settings_keep_ap_off:
  assumes "valid_config s" "mqtt_settings_verified s" "\<not> ap_required s" "prov_ok s" "\<not> mqtt_rejecting s"
    and "\<forall>(e, t)\<in>set events. harmless e \<and> t0 \<le> t \<and> t - t0 < PROVISION_MQTT_REJECTED_RECOVERY_MS"
  shows "\<not> ap_required (foldl prov_step s events)"
proof -
  have "proven_since t0 s"
    using assms(1-5) by (auto simp: proven_since_def proven_def prov_ok_def)
  with assms(3,6) have "proven_since t0 (foldl prov_step s events) \<and> \<not> ap_required (foldl prov_step s events)"
  proof (induction events arbitrary: s)
    case Nil
    then show ?case by simp
  next
    case (Cons ev events)
    obtain e t where ev: "ev = (e, t)" by (cases ev)
    with Cons.prems have "harmless e" "t0 \<le> t" "t - t0 < PROVISION_MQTT_REJECTED_RECOVERY_MS" by auto
    from proven_step [OF Cons.prems(3) this] Cons.IH [of "prov_step s (e, t)"] Cons.prems(2) ev
    show ?case by simp
  qed
  then show ?thesis by simp
qed

definition online_state :: provisioning_state where
  "online_state = foldl prov_step provisioning_initial
     [(PROVISION_EVENT_BOOT_VALID_CONFIG, 0), (PROVISION_EVENT_WIFI_CONNECTED, 1000),
      (PROVISION_EVENT_MQTT_CONNECTED, 2000)]"

lemma online_state_eq:
  "online_state = provisioning_initial\<lparr>valid_config := True, wifi_connected := True, mqtt_connected := True,
     sta_required := True, mqtt_settings_verified := True\<rparr>"
  by (simp add: online_state_def prov_defs provisioning_initial_def Let_def)

theorem proven_settings_keep_ap_off_witness:
  "\<not> ap_required (foldl prov_step online_state
     [(PROVISION_EVENT_MQTT_REJECTED, 3000), (PROVISION_EVENT_MQTT_FAILED, 3100),
      (PROVISION_EVENT_MQTT_FAILED, 90000), (PROVISION_EVENT_MQTT_REJECTED, 600000)])"
  using proven_settings_keep_ap_off [of online_state "[(PROVISION_EVENT_MQTT_REJECTED, 3000),
      (PROVISION_EVENT_MQTT_FAILED, 3100), (PROVISION_EVENT_MQTT_FAILED, 90000),
      (PROVISION_EVENT_MQTT_REJECTED, 600000)]" 3000]
  by (simp add: online_state_eq provisioning_initial_def prov_ok_def harmless_def
      PROVISION_MQTT_REJECTED_RECOVERY_MS_def)

section \<open>Lasting refusals\<close>

definition refusal_latched :: "provisioning_state \<Rightarrow> bool" where
  "refusal_latched s \<longleftrightarrow> mqtt_refusal_recovery s \<and> mqtt_rejecting s \<and> recovery_required s \<and> ap_required s"

lemma refusal_latched_step:
  "refusal_latched s \<Longrightarrow> \<not> boots e \<Longrightarrow> fst e \<noteq> PROVISION_EVENT_MQTT_CONNECTED \<Longrightarrow>
   refusal_latched (prov_step s e)"
  by (cases "fst e") (auto simp: refusal_latched_def boots_def prov_defs Let_def)

lemma refusal_latched_run:
  "refusal_latched s \<Longrightarrow> \<forall>e\<in>set es. \<not> boots e \<and> fst e \<noteq> PROVISION_EVENT_MQTT_CONNECTED \<Longrightarrow>
   refusal_latched (foldl prov_step s es)"
  by (induction es arbitrary: s) (auto intro: refusal_latched_step)

text \<open>
  Ten minutes of refusals open the access point, and it stays. When the broker refuses proven
  settings over Wi-Fi at least ten minutes after the streak began, the access point is asked for,
  and it still is after any further events except a reboot and a connection; the configuration is
  kept meanwhile.
\<close>

theorem lasting_refusal_opens_ap:
  assumes "mqtt_settings_verified s" "wifi_connected s" "mqtt_rejecting s"
    and "mqtt_rejected_since_ms s \<le> t" "600000 \<le> t - mqtt_rejected_since_ms s"
    and "\<forall>e\<in>set later. \<not> boots e \<and> fst e \<noteq> PROVISION_EVENT_MQTT_CONNECTED"
  shows "ap_required (foldl prov_step s ((PROVISION_EVENT_MQTT_REJECTED, t) # later)) \<and>
    valid_config (foldl prov_step s ((PROVISION_EVENT_MQTT_REJECTED, t) # later)) = valid_config s"
proof -
  have "refusal_latched (prov_step s (PROVISION_EVENT_MQTT_REJECTED, t))"
    using assms(1-5)
    by (simp add: refusal_latched_def prov_defs Let_def PROVISION_MQTT_REJECTED_RECOVERY_MS_def)
  from refusal_latched_run [OF this assms(6)]
  have "ap_required (foldl prov_step s ((PROVISION_EVENT_MQTT_REJECTED, t) # later))"
    by (simp add: refusal_latched_def)
  moreover have "list_all (\<lambda>e. \<not> boots e) ((PROVISION_EVENT_MQTT_REJECTED, t) # later)"
    using assms(6) by (simp add: boots_def list_all_iff)
  ultimately show ?thesis using settings.view_run by blast
qed

theorem lasting_refusal_opens_ap_witness:
  "ap_required (foldl prov_step (prov_step online_state (PROVISION_EVENT_MQTT_REJECTED, 3000))
     [(PROVISION_EVENT_MQTT_REJECTED, 700000), (PROVISION_EVENT_MQTT_FAILED, 800000),
      (PROVISION_EVENT_PORTAL_IDLE_TIMEOUT, 900000)])"
  using lasting_refusal_opens_ap [of "prov_step online_state (PROVISION_EVENT_MQTT_REJECTED, 3000)" 700000
      "[(PROVISION_EVENT_MQTT_FAILED, 800000), (PROVISION_EVENT_PORTAL_IDLE_TIMEOUT, 900000)]"]
  by (simp add: online_state_eq provisioning_initial_def prov_defs Let_def boots_def
      PROVISION_MQTT_REJECTED_RECOVERY_MS_def)

section \<open>The recovery window\<close>

lemma window_kept:
  assumes "recovery_window s" "ap_required s" "recovery_deadline_ms s = d"
    "\<not> boots e" "fst e \<noteq> PROVISION_EVENT_BOOT_HELD_3S"
    "fst e = PROVISION_EVENT_PORTAL_IDLE_TIMEOUT \<longrightarrow> snd e < d"
  shows "recovery_window (prov_step s e) \<and> ap_required (prov_step s e) \<and> recovery_deadline_ms (prov_step s e) = d"
  using assms by (cases "fst e") (auto simp: boots_def prov_defs Let_def)

lemma window_kept_run:
  assumes "recovery_window s" "ap_required s" "recovery_deadline_ms s = d"
    "\<forall>e\<in>set es. \<not> boots e \<and> fst e \<noteq> PROVISION_EVENT_BOOT_HELD_3S \<and>
       (fst e = PROVISION_EVENT_PORTAL_IDLE_TIMEOUT \<longrightarrow> snd e < d)"
  shows "recovery_window (foldl prov_step s es) \<and> ap_required (foldl prov_step s es) \<and>
    recovery_deadline_ms (foldl prov_step s es) = d"
  using assms
proof (induction es arbitrary: s)
  case (Cons e es)
  with window_kept [of s d e] show ?case by simp
qed simp

text \<open>
  the recovery window. Holding BOOT at \<open>t\<close> opens the access point; idle checks before ten
  minutes have passed (or before the end of time, when the sum would overflow) and any events but
  a reboot or another hold leave it open, and the first idle check from then on closes the window.
\<close>

theorem boot_hold_opens_ap_for_ten_minutes:
  assumes "d = (if t > UINT64_MAX - 600000 then UINT64_MAX else t + 600000)"
    and "\<forall>e\<in>set es. \<not> boots e \<and> fst e \<noteq> PROVISION_EVENT_BOOT_HELD_3S \<and>
       (fst e = PROVISION_EVENT_PORTAL_IDLE_TIMEOUT \<longrightarrow> snd e < d)"
    and "d \<le> t'"
  shows "ap_required (foldl prov_step s ((PROVISION_EVENT_BOOT_HELD_3S, t) # es)) \<and>
    \<not> recovery_window (foldl prov_step s ((PROVISION_EVENT_BOOT_HELD_3S, t) # es @
        [(PROVISION_EVENT_PORTAL_IDLE_TIMEOUT, t')]))"
proof -
  let ?s = "prov_step s (PROVISION_EVENT_BOOT_HELD_3S, t)"
  have "recovery_window ?s" "ap_required ?s" "recovery_deadline_ms ?s = d"
    using assms(1) by (simp_all add: prov_defs PROVISION_RECOVERY_WINDOW_MS_def)
  from window_kept_run [OF this assms(2)] assms(3) show ?thesis
    by (simp add: prov_step_def provisioning_reduce_def reconcile_requirements_def)
qed

theorem boot_hold_opens_ap_for_ten_minutes_witness:
  "ap_required (foldl prov_step online_state [(PROVISION_EVENT_BOOT_HELD_3S, 5),
     (PROVISION_EVENT_PORTAL_IDLE_TIMEOUT, 7), (PROVISION_EVENT_MQTT_CONNECTED, 8)])"
  using boot_hold_opens_ap_for_ten_minutes [of 600005 5
      "[(PROVISION_EVENT_PORTAL_IDLE_TIMEOUT, 7), (PROVISION_EVENT_MQTT_CONNECTED, 8)]" 600005 online_state]
  by (simp add: boots_def)

end
