(* ===== verification/Provisioning_Retry.thy ===== *)
theory Provisioning_Retry
  imports Interfaces
begin

text \<open>
  The retry policy, \<^verbatim>\<open>components/provisioning/provisioning_retry.c\<close>: when the station is asked to
  connect, when an attempt is given up and when the access point opens. The clock and the random
  value are arguments, and every sum saturates as in the code.
\<close>

section \<open>State and operations\<close>

record provisioning_retry =
  rt_generation :: u32
  rt_enabled :: bool
  rt_paused :: bool
  rt_online :: bool
  rt_in_flight :: bool
  rt_recovery_announced :: bool
  rt_backoff :: u8
  rt_auth_failures :: u8
  rt_attempts :: u32
  rt_outage_since_ms :: u64
  rt_stable_since_ms :: u64
  rt_next_attempt_ms :: u64
  rt_attempt_deadline_ms :: u64

definition PROVISION_RETRY_ATTEMPT_MS :: u64 where "PROVISION_RETRY_ATTEMPT_MS = 20000"
definition PROVISION_RETRY_RECOVERY_MS :: u64 where "PROVISION_RETRY_RECOVERY_MS = 45000"
definition PROVISION_RETRY_STABLE_MS :: u64 where "PROVISION_RETRY_STABLE_MS = 30000"
definition PROVISION_RETRY_AUTH_MS :: u32 where "PROVISION_RETRY_AUTH_MS = 300000"

definition PROVISION_RETRY_CONNECT :: u32 where "PROVISION_RETRY_CONNECT = 1"
definition PROVISION_RETRY_ABORT :: u32 where "PROVISION_RETRY_ABORT = 2"
definition PROVISION_RETRY_OPEN_AP :: u32 where "PROVISION_RETRY_OPEN_AP = 4"

definition saturated_after :: "u64 \<Rightarrow> u64 \<Rightarrow> u64" where
  "saturated_after now_ms delay_ms = (if now_ms > UINT64_MAX - delay_ms then UINT64_MAX else now_ms + delay_ms)"

definition retry_zero :: provisioning_retry where
  "retry_zero = \<lparr>rt_generation = 0, rt_enabled = False, rt_paused = False, rt_online = False,
     rt_in_flight = False, rt_recovery_announced = False, rt_backoff = 0, rt_auth_failures = 0,
     rt_attempts = 0, rt_outage_since_ms = 0, rt_stable_since_ms = 0, rt_next_attempt_ms = 0,
     rt_attempt_deadline_ms = 0\<rparr>"

definition provisioning_retry_start :: "u32 \<Rightarrow> u64 \<Rightarrow> provisioning_retry" where
  "provisioning_retry_start generation now_ms = retry_zero\<lparr>rt_generation := generation,
     rt_enabled := generation \<noteq> 0, rt_outage_since_ms := now_ms, rt_next_attempt_ms := now_ms\<rparr>"

definition provisioning_retry_stop :: provisioning_retry where
  "provisioning_retry_stop = retry_zero"

definition provisioning_retry_pause :: "provisioning_retry \<Rightarrow> provisioning_retry" where
  "provisioning_retry_pause r = r\<lparr>rt_paused := True, rt_next_attempt_ms := 0\<rparr>"

definition provisioning_retry_matches :: "provisioning_retry \<Rightarrow> u32 \<Rightarrow> bool" where
  "provisioning_retry_matches r generation \<longleftrightarrow>
     rt_enabled r \<and> \<not> rt_paused r \<and> generation \<noteq> 0 \<and> rt_generation r = generation"

definition provisioning_retry_connected :: "provisioning_retry \<Rightarrow> u64 \<Rightarrow> provisioning_retry" where
  "provisioning_retry_connected r now_ms =
    (if \<not> rt_enabled r \<or> rt_paused r then r
     else r\<lparr>rt_online := True, rt_in_flight := False, rt_attempt_deadline_ms := 0,
            rt_next_attempt_ms := 0, rt_stable_since_ms := now_ms, rt_recovery_announced := False\<rparr>)"

definition retry_delays :: "u32 list" where
  "retry_delays = [5000, 15000, 30000, 60000]"

definition provisioning_retry_failed ::
  "provisioning_retry \<Rightarrow> u64 \<Rightarrow> bool \<Rightarrow> u32 \<Rightarrow> provisioning_retry" where
  "provisioning_retry_failed r now_ms authentication_failure random_value =
    (if \<not> rt_enabled r \<or> rt_paused r \<or> (\<not> rt_in_flight r \<and> \<not> rt_online r) then r
     else if rt_online r
     then r\<lparr>rt_online := False, rt_in_flight := False, rt_outage_since_ms := now_ms,
            rt_stable_since_ms := 0, rt_recovery_announced := False, rt_next_attempt_ms := now_ms\<rparr>
     else
       let r = r\<lparr>rt_in_flight := False, rt_attempt_deadline_ms := 0\<rparr>;
           r = r\<lparr>rt_auth_failures := if authentication_failure
                  then (if rt_auth_failures r < UINT8_MAX then rt_auth_failures r + 1 else rt_auth_failures r)
                  else 0\<rparr>;
           delay_ms = retry_delays ! (if rt_backoff r < 3 then unat (rt_backoff r) else 3);
           r = r\<lparr>rt_backoff := if rt_backoff r < 3 then rt_backoff r + 1 else rt_backoff r\<rparr>;
           delay_ms = (if rt_auth_failures r \<ge> 3 then PROVISION_RETRY_AUTH_MS else delay_ms);
           jitter_max = (if delay_ms div 10 < 5000 then delay_ms div 10 else 5000)
       in r\<lparr>rt_next_attempt_ms := saturated_after now_ms (ucast (delay_ms + random_value mod (jitter_max + 1)))\<rparr>)"

text \<open>
  The poll of a station that is enabled and offline has three parts, each with the action bit it
  adds: it announces the outage, gives up an attempt that took too long, and starts the next one.
\<close>

definition poll_announce :: "provisioning_retry \<Rightarrow> u64 \<Rightarrow> provisioning_retry \<times> u32" where
  "poll_announce r now_ms =
     (if \<not> rt_recovery_announced r \<and> now_ms \<ge> rt_outage_since_ms r \<and>
         now_ms - rt_outage_since_ms r \<ge> PROVISION_RETRY_RECOVERY_MS
      then (r\<lparr>rt_recovery_announced := True\<rparr>, PROVISION_RETRY_OPEN_AP) else (r, 0))"

definition poll_expire :: "provisioning_retry \<Rightarrow> u64 \<Rightarrow> u32 \<Rightarrow> provisioning_retry \<times> u32" where
  "poll_expire r now_ms random_value =
     (if rt_in_flight r \<and> now_ms \<ge> rt_attempt_deadline_ms r
      then (provisioning_retry_failed r now_ms False random_value, PROVISION_RETRY_ABORT) else (r, 0))"

definition poll_launch :: "provisioning_retry \<Rightarrow> u64 \<Rightarrow> provisioning_retry \<times> u32" where
  "poll_launch r now_ms =
     (if \<not> rt_in_flight r \<and> now_ms \<ge> rt_next_attempt_ms r
      then (r\<lparr>rt_in_flight := True,
              rt_attempt_deadline_ms := saturated_after now_ms PROVISION_RETRY_ATTEMPT_MS,
              rt_next_attempt_ms := 0,
              rt_attempts := if rt_attempts r < UINT32_MAX then rt_attempts r + 1 else rt_attempts r\<rparr>,
            PROVISION_RETRY_CONNECT)
      else (r, 0))"

definition provisioning_retry_poll ::
  "provisioning_retry \<Rightarrow> u64 \<Rightarrow> u32 \<Rightarrow> provisioning_retry \<times> u32" where
  "provisioning_retry_poll r now_ms random_value =
    (if \<not> rt_enabled r \<or> rt_paused r then (r, 0)
     else if rt_online r
     then (if now_ms \<ge> rt_stable_since_ms r \<and> now_ms - rt_stable_since_ms r \<ge> PROVISION_RETRY_STABLE_MS
           then r\<lparr>rt_backoff := 0, rt_auth_failures := 0\<rparr> else r, 0)
     else
       let (r1, announced) = poll_announce r now_ms;
           (r2, expired) = poll_expire r1 now_ms random_value;
           (r3, launched) = poll_launch r2 now_ms
       in (r3, announced OR expired OR launched))"

definition provisioning_retry_remaining_ms :: "provisioning_retry \<Rightarrow> u64 \<Rightarrow> u32" where
  "provisioning_retry_remaining_ms r now_ms =
    (if \<not> rt_enabled r \<or> rt_paused r \<or> rt_online r \<or> rt_in_flight r \<or> now_ms \<ge> rt_next_attempt_ms r then 0
     else let remaining = rt_next_attempt_ms r - now_ms
          in if remaining > ucast (UINT32_MAX :: u32) then UINT32_MAX else ucast remaining)"

section \<open>Delays\<close>

text \<open>The delay after a failed attempt, with its jitter.\<close>

definition failed_delay :: "u8 \<Rightarrow> u8 \<Rightarrow> u32" where
  "failed_delay backoff auth =
    (if auth \<ge> 3 then PROVISION_RETRY_AUTH_MS
     else retry_delays ! (if backoff < 3 then unat backoff else 3))"

definition failed_jitter :: "u32 \<Rightarrow> u32" where
  "failed_jitter delay = (if delay div 10 < 5000 then delay div 10 else 5000)"

lemma failed_delay_cases: "failed_delay b a \<in> {5000, 15000, 30000, 60000, 300000}"
proof -
  have "b = 0 \<or> b = 1 \<or> b = 2" if "b < 3"
    using that by (simp add: word_less_nat_alt word_unat_eq_iff) linarith
  then show ?thesis
    by (auto simp: failed_delay_def retry_delays_def PROVISION_RETRY_AUTH_MS_def)
qed

lemma delay_with_jitter:
  assumes "d \<in> {5000, 15000, 30000, 60000, 300000 :: u32}"
  shows "unat d \<le> unat (d + x mod (failed_jitter d + 1)) \<and>
    unat (d + x mod (failed_jitter d + 1)) \<le> unat d + unat (failed_jitter d) \<and>
    unat (failed_jitter d) \<le> 5000"
proof -
  have j: "unat (failed_jitter d) \<le> 5000" "failed_jitter d + 1 \<noteq> 0"
    using assms by (auto simp: failed_jitter_def)
  have m: "unat (x mod (failed_jitter d + 1)) \<le> unat (failed_jitter d)"
  proof -
    have "unat (failed_jitter d + 1) = unat (failed_jitter d) + 1"
      using assms by (auto simp: failed_jitter_def)
    then show ?thesis
      using mod_less_divisor [of "unat (failed_jitter d + 1)" "unat x"] by (simp add: unat_mod)
  qed
  have "unat d + unat (x mod (failed_jitter d + 1)) < 2 ^ 32"
    using m j assms by auto
  then have "unat (d + x mod (failed_jitter d + 1)) = unat d + unat (x mod (failed_jitter d + 1))"
    by (simp add: unat_word_ariths)
  with m j show ?thesis by simp
qed

lemma unat_u64_less: "unat (w :: u64) < 2 ^ 64"
  by (rule order_less_le_trans [OF unsigned_less]) simp

lemma saturated_after_unat: "unat (saturated_after now d) = min (unat now + unat d) (2 ^ 64 - 1)"
proof -
  have "unat (UINT64_MAX - d) = 2 ^ 64 - 1 - unat d"
    using unat_u64_less [of d] by (simp add: unat_sub word_le_nat_alt)
  then have c: "now > UINT64_MAX - d \<longleftrightarrow> 2 ^ 64 - 1 < unat now + unat d"
    using unat_u64_less [of d] by (simp add: word_less_nat_alt) linarith
  show ?thesis
    using c unat_u64_less [of now] by (auto simp: saturated_after_def unat_word_ariths)
qed

lemma retry_failed_attempt:
  fixes auth :: bool
  assumes "rt_enabled r" "\<not> rt_paused r" "rt_in_flight r" "\<not> rt_online r"
  defines "auth' \<equiv> (if auth then if rt_auth_failures r < UINT8_MAX then rt_auth_failures r + 1
                       else rt_auth_failures r else 0)"
  defines "d \<equiv> failed_delay (rt_backoff r) auth'"
  shows "provisioning_retry_failed r now auth x =
    r\<lparr>rt_in_flight := False, rt_attempt_deadline_ms := 0, rt_auth_failures := auth',
      rt_backoff := if rt_backoff r < 3 then rt_backoff r + 1 else rt_backoff r,
      rt_next_attempt_ms := saturated_after now (ucast (d + x mod (failed_jitter d + 1)))\<rparr>"
  using assms(1-4)
  by (simp add: provisioning_retry_failed_def Let_def d_def auth'_def failed_delay_def failed_jitter_def)

lemma next_attempt_bounds:
  assumes "d \<in> {5000, 15000, 30000, 60000, 300000 :: u32}"
  shows "min (unat now + unat d) (2 ^ 64 - 1) \<le>
      unat (saturated_after now (ucast (d + x mod (failed_jitter d + 1)))) \<and>
    unat (saturated_after now (ucast (d + x mod (failed_jitter d + 1)))) \<le> unat now + unat d + 5000"
proof -
  have u: "unat (ucast w :: u64) = unat w" for w :: u32
    by (simp add: unsigned_ucast_eq take_bit_nat_eq_self_iff)
      (rule order_less_le_trans [OF unsigned_less], simp)
  show ?thesis
    using delay_with_jitter [OF assms, of x] by (simp add: saturated_after_unat u) linarith
qed

text \<open>
  the delay after a failed attempt. It is 5, 15, 30 and then 60 seconds by the number of
  failures, 300 seconds from the third refused login in a row on, plus a jitter of at most a tenth
  and at most 5 seconds, and saturates at the end of time; the attempt is over.
\<close>

theorem retry_delay_schedule:
  assumes "rt_enabled r" "\<not> rt_paused r" "rt_in_flight r" "\<not> rt_online r"
    and "r' = provisioning_retry_failed r now auth x"
  shows "\<not> rt_in_flight r' \<and>
    (let d = (if auth \<and> rt_auth_failures r \<ge> 2 then 300000
              else if rt_backoff r = 0 then 5000 else if rt_backoff r = 1 then 15000
              else if rt_backoff r = 2 then 30000 else 60000 :: nat)
     in min (unat now + d) (2 ^ 64 - 1) \<le> unat (rt_next_attempt_ms r') \<and>
        unat (rt_next_attempt_ms r') \<le> unat now + d + min (d div 10) 5000)"
proof -
  define a where "a = (if auth then if rt_auth_failures r < UINT8_MAX then rt_auth_failures r + 1
                       else rt_auth_failures r else 0)"
  have a3: "a \<ge> 3 \<longleftrightarrow> auth \<and> rt_auth_failures r \<ge> 2"
    by (auto simp: a_def word_le_nat_alt word_less_nat_alt unat_word_ariths)
  define d where "d = failed_delay (rt_backoff r) a"
  have b3: "rt_backoff r < 3 \<longleftrightarrow> rt_backoff r = 0 \<or> rt_backoff r = 1 \<or> rt_backoff r = 2"
    by (simp add: word_less_nat_alt word_unat_eq_iff) linarith
  have d: "unat d = (if auth \<and> rt_auth_failures r \<ge> 2 then 300000
              else if rt_backoff r = 0 then 5000 else if rt_backoff r = 1 then 15000
              else if rt_backoff r = 2 then 30000 else 60000)"
    using a3 b3 by (auto simp: d_def failed_delay_def retry_delays_def PROVISION_RETRY_AUTH_MS_def)
  have dc: "d \<in> {5000, 15000, 30000, 60000, 300000}" unfolding d_def by (rule failed_delay_cases)
  then have j: "unat (failed_jitter d) = min (unat d div 10) 5000"
    by (auto simp: failed_jitter_def)
  have u: "unat (ucast w :: u64) = unat w" for w :: u32
    by (simp add: unsigned_ucast_eq take_bit_nat_eq_self_iff)
      (rule order_less_le_trans [OF unsigned_less], simp)
  have "rt_next_attempt_ms r' = saturated_after now (ucast (d + x mod (failed_jitter d + 1)))"
    "\<not> rt_in_flight r'"
    unfolding assms(5) retry_failed_attempt [OF assms(1-4)] by (simp_all add: d_def a_def)
  then show ?thesis
    using delay_with_jitter [OF dc, of x] by (simp add: saturated_after_unat u j Let_def flip: d) linarith
qed

theorem retry_delay_schedule_witness:
  "unat (rt_next_attempt_ms (provisioning_retry_failed
      ((provisioning_retry_start 1 0)\<lparr>rt_in_flight := True\<rparr>) 1000 False 77)) \<in> {6000..6500}"
  using retry_delay_schedule [of "(provisioning_retry_start 1 0)\<lparr>rt_in_flight := True\<rparr>" _ 1000 False 77]
  by (simp add: provisioning_retry_start_def retry_zero_def Let_def)

section \<open>Runs\<close>

datatype retry_event = Connected u64 | Failed u64 bool u32 | Poll u64 u32 | Pause

fun retry_step :: "provisioning_retry \<Rightarrow> retry_event \<Rightarrow> provisioning_retry" where
  "retry_step r (Connected t) = provisioning_retry_connected r t"
| "retry_step r (Failed t auth x) = provisioning_retry_failed r t auth x"
| "retry_step r (Poll t x) = fst (provisioning_retry_poll r t x)"
| "retry_step r Pause = provisioning_retry_pause r"

fun not_before :: "u64 \<Rightarrow> retry_event \<Rightarrow> bool" where
  "not_before t0 (Connected t) = False"
| "not_before t0 (Failed t auth x) = (t0 \<le> t)"
| "not_before t0 (Poll t x) = (t0 \<le> t)"
| "not_before t0 Pause = True"

definition connects :: "u32 \<Rightarrow> bool" where
  "connects actions \<longleftrightarrow> actions AND PROVISION_RETRY_CONNECT \<noteq> 0"

definition opens_ap :: "u32 \<Rightarrow> bool" where
  "opens_ap actions \<longleftrightarrow> actions AND PROVISION_RETRY_OPEN_AP \<noteq> 0"

lemmas action_defs = PROVISION_RETRY_CONNECT_def PROVISION_RETRY_ABORT_def PROVISION_RETRY_OPEN_AP_def
  connects_def opens_ap_def

text \<open>The state does not retry before five seconds after \<open>t0\<close>.\<close>

definition spaced :: "u64 \<Rightarrow> provisioning_retry \<Rightarrow> bool" where
  "spaced t0 r \<longleftrightarrow> rt_paused r \<or> \<not> rt_online r \<and>
     (rt_in_flight r \<or> min (unat t0 + 5000) (2 ^ 64 - 1) \<le> unat (rt_next_attempt_ms r))"

lemma failed_spaced:
  assumes "spaced t0 r" "t0 \<le> t"
  shows "spaced t0 (provisioning_retry_failed r t auth x)"
proof (cases "rt_enabled r \<and> \<not> rt_paused r \<and> rt_in_flight r \<and> \<not> rt_online r")
  case True
  then have c: "rt_enabled r" "\<not> rt_paused r" "rt_in_flight r" "\<not> rt_online r" by simp_all
  have t: "unat t0 \<le> unat t" using assms(2) by (simp add: word_le_nat_alt)
  have "min (unat t0 + 5000) (2 ^ 64 - 1) \<le>
      unat (saturated_after t (ucast (failed_delay b a + x mod (failed_jitter (failed_delay b a) + 1))))" for b a
  proof -
    have "5000 \<le> unat (failed_delay b a)" using failed_delay_cases [of b a] by auto
    with next_attempt_bounds [OF failed_delay_cases, of t b a x] t show ?thesis by linarith
  qed
  then show ?thesis
    unfolding retry_failed_attempt [OF c] using c by (simp add: spaced_def)
next
  case False
  then show ?thesis
    using assms(1) by (auto simp: provisioning_retry_failed_def spaced_def)
qed

lemma spaced_cong:
  assumes "spaced t0 r" "rt_paused r' = rt_paused r" "rt_online r' = rt_online r"
    "rt_in_flight r' = rt_in_flight r" "rt_next_attempt_ms r' = rt_next_attempt_ms r"
  shows "spaced t0 r'"
  using assms by (simp add: spaced_def)

lemma failed_flags:
  "rt_paused (provisioning_retry_failed r t auth x) = rt_paused r"
  "rt_enabled (provisioning_retry_failed r t auth x) = rt_enabled r"
  "\<not> rt_online r \<Longrightarrow> rt_recovery_announced (provisioning_retry_failed r t auth x) = rt_recovery_announced r"
  "\<not> rt_online r \<Longrightarrow> \<not> rt_online (provisioning_retry_failed r t auth x)"
  by (simp_all add: provisioning_retry_failed_def Let_def)

text \<open>What a poll of a station that is enabled and offline does.\<close>

lemma poll_announce_flags:
  "rt_paused (fst (poll_announce r t)) = rt_paused r" "rt_online (fst (poll_announce r t)) = rt_online r"
  "rt_in_flight (fst (poll_announce r t)) = rt_in_flight r"
  "rt_next_attempt_ms (fst (poll_announce r t)) = rt_next_attempt_ms r"
  "snd (poll_announce r t) \<in> {0, 4}"
  by (simp_all add: poll_announce_def action_defs)

lemma poll_expire_flags:
  "rt_paused (fst (poll_expire r t x)) = rt_paused r"
  "\<not> rt_online r \<Longrightarrow> \<not> rt_online (fst (poll_expire r t x))"
  "\<not> rt_online r \<Longrightarrow> rt_recovery_announced (fst (poll_expire r t x)) = rt_recovery_announced r"
  "snd (poll_expire r t x) \<in> {0, 2}"
  by (simp_all add: poll_expire_def action_defs failed_flags)

lemma poll_launch_flags:
  "rt_paused (fst (poll_launch q t)) = rt_paused q" "rt_online (fst (poll_launch q t)) = rt_online q"
  "rt_recovery_announced (fst (poll_launch q t)) = rt_recovery_announced q"
  "snd (poll_launch q t) \<in> {0, 1}"
  "snd (poll_launch q t) \<noteq> 0 \<Longrightarrow> rt_in_flight (fst (poll_launch q t))"
  by (simp_all add: poll_launch_def action_defs split: if_splits)

lemma poll_active:
  fixes t :: u64 and x :: u32
  assumes "rt_enabled r" "\<not> rt_paused r" "\<not> rt_online r"
  defines "r1 \<equiv> fst (poll_announce r t)"
  defines "r2 \<equiv> fst (poll_expire r1 t x)"
  shows "provisioning_retry_poll r t x = (fst (poll_launch r2 t),
      snd (poll_announce r t) OR snd (poll_expire r1 t x) OR snd (poll_launch r2 t))"
  using assms(1-3) by (simp add: provisioning_retry_poll_def r1_def r2_def Let_def case_prod_beta)

lemma action_bits:
  assumes "a \<in> {0, 4}" "b \<in> {0, 2}" "c \<in> {0, 1 :: u32}"
  shows "connects (a OR b OR c) \<longleftrightarrow> c \<noteq> 0" "opens_ap (a OR b OR c) \<longleftrightarrow> a \<noteq> 0"
  using assms by (auto simp: action_defs)

lemma poll_parts:
  fixes t :: u64 and x :: u32
  assumes "rt_enabled r" "\<not> rt_paused r" "\<not> rt_online r"
  defines "r2 \<equiv> fst (poll_expire (fst (poll_announce r t)) t x)"
  shows "connects (snd (provisioning_retry_poll r t x)) \<longleftrightarrow> snd (poll_launch r2 t) \<noteq> 0"
    "opens_ap (snd (provisioning_retry_poll r t x)) \<longleftrightarrow> snd (poll_announce r t) \<noteq> 0"
    "fst (provisioning_retry_poll r t x) = fst (poll_launch r2 t)"
  unfolding poll_active [OF assms(1-3)] fst_conv snd_conv r2_def
  by (simp_all only: action_bits poll_announce_flags poll_expire_flags poll_launch_flags)

lemma poll_idle:
  assumes "\<not> rt_enabled r \<or> rt_paused r \<or> rt_online r"
  shows "snd (provisioning_retry_poll r t x) = 0"
    "rt_next_attempt_ms (fst (provisioning_retry_poll r t x)) = rt_next_attempt_ms r"
    "rt_in_flight (fst (provisioning_retry_poll r t x)) = rt_in_flight r"
    "rt_online (fst (provisioning_retry_poll r t x)) = rt_online r"
    "rt_paused (fst (provisioning_retry_poll r t x)) = rt_paused r"
    "rt_recovery_announced (fst (provisioning_retry_poll r t x)) = rt_recovery_announced r"
  using assms
  by (cases "\<not> rt_enabled r \<or> rt_paused r"; cases "rt_online r"; simp add: provisioning_retry_poll_def)+

lemma announce_spaced: "spaced t0 r \<Longrightarrow> spaced t0 (fst (poll_announce r t))"
  by (simp add: spaced_def poll_announce_flags)

lemma expire_spaced: "spaced t0 r \<Longrightarrow> t0 \<le> t \<Longrightarrow> spaced t0 (fst (poll_expire r t x))"
  by (simp add: poll_expire_def failed_spaced)

lemma launch_spaced: "spaced t0 q \<Longrightarrow> spaced t0 (fst (poll_launch q t))"
  by (auto simp: spaced_def poll_launch_def)

lemma poll_spaced:
  assumes "spaced t0 r" "t0 \<le> t"
  shows "spaced t0 (fst (provisioning_retry_poll r t x))"
proof (cases "\<not> rt_enabled r \<or> rt_paused r \<or> rt_online r")
  case True
  then show ?thesis using assms(1) by (intro spaced_cong [OF assms(1)]) (simp_all add: poll_idle)
next
  case False
  then have c: "rt_enabled r" "\<not> rt_paused r" "\<not> rt_online r" by simp_all
  show ?thesis unfolding poll_parts(3) [OF c]
    by (intro launch_spaced expire_spaced announce_spaced assms)
qed

lemma pause_spaced: "spaced t0 (provisioning_retry_pause r)"
  by (simp add: provisioning_retry_pause_def spaced_def)

lemma step_spaced: "spaced t0 r \<Longrightarrow> not_before t0 e \<Longrightarrow> spaced t0 (retry_step r e)"
  by (cases e) (simp_all add: failed_spaced poll_spaced pause_spaced)

lemma run_spaced: "spaced t0 r \<Longrightarrow> \<forall>e\<in>set es. not_before t0 e \<Longrightarrow> spaced t0 (foldl retry_step r es)"
  by (induction es arbitrary: r) (auto intro: step_spaced)

lemma connects_not_idle:
  assumes "connects (snd (provisioning_retry_poll r t x))"
  shows "rt_enabled r \<and> \<not> rt_paused r \<and> \<not> rt_online r"
proof (rule ccontr)
  assume "\<not> ?thesis"
  then have "snd (provisioning_retry_poll r t x) = 0" by (intro poll_idle) blast
  with assms show False by (simp add: action_defs)
qed

lemma opens_not_idle:
  assumes "opens_ap (snd (provisioning_retry_poll r t x))"
  shows "rt_enabled r \<and> \<not> rt_paused r \<and> \<not> rt_online r"
proof (rule ccontr)
  assume "\<not> ?thesis"
  then have "snd (provisioning_retry_poll r t x) = 0" by (intro poll_idle) blast
  with assms show False by (simp add: action_defs)
qed

lemma connect_starts_attempt:
  assumes "connects (snd (provisioning_retry_poll r t x))"
  shows "rt_in_flight (fst (provisioning_retry_poll r t x)) \<and> \<not> rt_online (fst (provisioning_retry_poll r t x))"
proof -
  have c: "rt_enabled r" "\<not> rt_paused r" "\<not> rt_online r" using connects_not_idle [OF assms] by simp_all
  then show ?thesis using assms unfolding poll_parts(1,3) [OF c]
    by (simp add: poll_launch_flags poll_expire_flags poll_announce_flags)
qed

text \<open>
  No reconnect storm. Two polls that ask for a connection, with failures, timeouts and further
  polls but no successful connection in between, are at least five seconds apart, whatever the
  random values are (before the clock ends).
\<close>

theorem attempts_five_seconds_apart:
  assumes "connects (snd (provisioning_retry_poll r t1 x1))"
    and "\<forall>e\<in>set between. not_before t1 e"
    and "r' = foldl retry_step (fst (provisioning_retry_poll r t1 x1)) between"
    and "connects (snd (provisioning_retry_poll r' t2 x2))" "t1 \<le> t2" "t2 < UINT64_MAX"
  shows "unat t1 + 5000 \<le> unat t2"
proof -
  have "spaced t1 (fst (provisioning_retry_poll r t1 x1))"
    using connect_starts_attempt [OF assms(1)] by (simp add: spaced_def)
  from run_spaced [OF this assms(2)] have "spaced t1 r'" by (simp add: assms(3))
  then have s: "spaced t1 (fst (poll_expire (fst (poll_announce r' t2)) t2 x2))"
    by (intro expire_spaced announce_spaced assms(5))
  have c: "rt_enabled r'" "\<not> rt_paused r'" "\<not> rt_online r'" using connects_not_idle [OF assms(4)] by simp_all
  have "\<not> rt_paused (fst (poll_expire (fst (poll_announce r' t2)) t2 x2))"
    using c(2) by (simp add: poll_expire_flags poll_announce_flags)
  with s assms(4) have "min (unat t1 + 5000) (2 ^ 64 - 1) \<le> unat t2"
    unfolding poll_parts(1) [OF c] by (auto simp: spaced_def word_le_nat_alt poll_launch_def split: if_splits)
  with assms(6) show ?thesis by (simp add: word_less_nat_alt)
qed

theorem attempts_five_seconds_apart_witness:
  "(0 :: nat) + 5000 \<le> 6000 \<and>
   connects (snd (provisioning_retry_poll (foldl retry_step
     (fst (provisioning_retry_poll (provisioning_retry_start 1 0) 0 0)) [Failed 100 False 7]) 6000 0))"
proof -
  let ?r = "provisioning_retry_start 1 0"
  let ?r' = "foldl retry_step (fst (provisioning_retry_poll ?r 0 0)) [Failed 100 False 7]"
  have a: "connects (snd (provisioning_retry_poll ?r 0 0))"
    by (simp add: provisioning_retry_poll_def provisioning_retry_start_def retry_zero_def action_defs
        poll_announce_def poll_expire_def poll_launch_def PROVISION_RETRY_RECOVERY_MS_def)
  have b: "connects (snd (provisioning_retry_poll ?r' 6000 0))"
    by (simp add: provisioning_retry_poll_def provisioning_retry_start_def retry_zero_def action_defs
        poll_announce_def poll_expire_def poll_launch_def PROVISION_RETRY_RECOVERY_MS_def provisioning_retry_failed_def retry_delays_def saturated_after_def
        PROVISION_RETRY_ATTEMPT_MS_def Let_def)
  from attempts_five_seconds_apart [OF a _ refl b] b show ?thesis by simp
qed

section \<open>The access point\<close>

lemma announced_poll:
  assumes "rt_recovery_announced r \<or> opens_ap (snd (provisioning_retry_poll r t x))" "\<not> rt_online r"
  shows "rt_recovery_announced (fst (provisioning_retry_poll r t x)) \<and>
    \<not> rt_online (fst (provisioning_retry_poll r t x))"
proof (cases "\<not> rt_enabled r \<or> rt_paused r")
  case True
  then have i: "\<not> rt_enabled r \<or> rt_paused r \<or> rt_online r" by blast
  have "rt_recovery_announced r" using assms(1) opens_not_idle [of r t x] True by blast
  with assms(2) show ?thesis by (simp only: poll_idle [OF i] simp_thms)
next
  case False
  then have c: "rt_enabled r" "\<not> rt_paused r" "\<not> rt_online r" using assms(2) by simp_all
  have "rt_recovery_announced (fst (poll_announce r t))"
  proof (cases "rt_recovery_announced r")
    case True
    then show ?thesis by (simp add: poll_announce_def)
  next
    case False
    with assms(1) have "snd (poll_announce r t) \<noteq> 0" by (simp only: poll_parts(2) [OF c] simp_thms)
    then show ?thesis by (simp add: poll_announce_def split: if_splits)
  qed
  with c(3) show ?thesis unfolding poll_parts(3) [OF c]
    by (simp add: poll_launch_flags poll_expire_flags poll_announce_flags)
qed

lemma announced_step:
  assumes "rt_recovery_announced r" "\<not> rt_online r" "not_before t0 e"
  shows "rt_recovery_announced (retry_step r e) \<and> \<not> rt_online (retry_step r e)"
proof (cases e)
  case (Poll t x)
  with announced_poll [OF disjI1 [OF assms(1)] assms(2), of t x] show ?thesis
    by (simp only: retry_step.simps simp_thms)
qed (use assms in \<open>simp_all add: failed_flags provisioning_retry_pause_def\<close>)

lemma announced_run:
  "rt_recovery_announced r \<Longrightarrow> \<not> rt_online r \<Longrightarrow> \<forall>e\<in>set es. not_before t0 e \<Longrightarrow>
   rt_recovery_announced (foldl retry_step r es)"
  by (induction es arbitrary: r) (auto dest: announced_step)

text \<open>
  The access point is asked for once per outage, and only after 45 seconds of it. A poll asks
  for it exactly when the station was enabled and offline for at least that long and no poll of
  the outage asked before; afterwards no poll does until the station was connected.
\<close>

theorem access_point_once_per_outage:
  assumes "opens_ap (snd (provisioning_retry_poll r t x))" "\<forall>e\<in>set later. not_before t e"
  shows "rt_outage_since_ms r \<le> t \<and> 45000 \<le> t - rt_outage_since_ms r \<and>
    \<not> opens_ap (snd (provisioning_retry_poll
        (foldl retry_step (fst (provisioning_retry_poll r t x)) later) t' x'))"
proof -
  have c: "rt_enabled r" "\<not> rt_paused r" "\<not> rt_online r" using opens_not_idle [OF assms(1)] by simp_all
  have o: "rt_outage_since_ms r \<le> t" "45000 \<le> t - rt_outage_since_ms r"
    using assms(1) unfolding poll_parts(2) [OF c]
    by (simp_all add: poll_announce_def PROVISION_RETRY_RECOVERY_MS_def split: if_splits)
  have "rt_recovery_announced (fst (provisioning_retry_poll r t x)) \<and>
      \<not> rt_online (fst (provisioning_retry_poll r t x))"
    using announced_poll assms(1) c(3) by blast
  then have a: "rt_recovery_announced (foldl retry_step (fst (provisioning_retry_poll r t x)) later)"
    using announced_run [OF _ _ assms(2)] by (simp only: simp_thms)
  have "\<not> opens_ap (snd (provisioning_retry_poll q t' x'))" if "rt_recovery_announced q" for q
  proof
    assume "opens_ap (snd (provisioning_retry_poll q t' x'))"
    moreover from opens_not_idle [OF this] have "rt_enabled q" "\<not> rt_paused q" "\<not> rt_online q" by simp_all
    ultimately show False using that by (simp add: poll_parts(2)) (simp add: poll_announce_def)
  qed
  with o a show ?thesis by blast
qed

theorem access_point_once_per_outage_witness:
  "opens_ap (snd (provisioning_retry_poll (provisioning_retry_start 1 0) 45000 0)) \<and>
   \<not> opens_ap (snd (provisioning_retry_poll (foldl retry_step
       (fst (provisioning_retry_poll (provisioning_retry_start 1 0) 45000 0)) [Failed 46000 True 3]) 99000 0))"
proof -
  have a: "opens_ap (snd (provisioning_retry_poll (provisioning_retry_start 1 0) 45000 0))"
    by (simp add: provisioning_retry_poll_def provisioning_retry_start_def retry_zero_def action_defs
        poll_announce_def poll_expire_def poll_launch_def PROVISION_RETRY_RECOVERY_MS_def)
  from access_point_once_per_outage [OF a, of "[Failed 46000 True 3]" 99000 0] a show ?thesis by simp
qed

end
