(* ===== verification/Text_Sink.thy ===== *)
theory Text_Sink
  imports Prelude
begin

text \<open>
  The interface both JSON writers of the firmware offer: pieces of text are appended to a buffer of
  limited room, and once a piece did not fit nothing more is written.
\<close>

text \<open>Several pieces in a row. \<open>None\<close> is an access outside the buffer.\<close>

fun puts :: "('p \<Rightarrow> 'w \<Rightarrow> 'w option) \<Rightarrow> 'p list \<Rightarrow> 'w \<Rightarrow> 'w option" where
  "puts put [] w = Some w"
| "puts put (t # ts) w = (case put t w of None \<Rightarrow> None | Some w1 \<Rightarrow> puts put ts w1)"

lemma puts_append: "puts put (ts @ us) w = (case puts put ts w of None \<Rightarrow> None | Some w1 \<Rightarrow> puts put us w1)"
  by (induction ts arbitrary: w) (auto split: option.splits)

locale text_sink =
  fixes put :: "'p \<Rightarrow> 'w \<Rightarrow> 'w option"
    and piece :: "'p \<Rightarrow> bytes"
    and ok :: "'w \<Rightarrow> bool"
    and failed :: "'w \<Rightarrow> bool"
    and written :: "'w \<Rightarrow> bytes"
    and room :: "'w \<Rightarrow> nat"
  assumes put_fits: "ok w \<Longrightarrow> \<not> failed w \<Longrightarrow> length (piece t) < room w \<Longrightarrow>
      \<exists>w1. put t w = Some w1 \<and> ok w1 \<and> \<not> failed w1 \<and> written w1 = written w @ piece t \<and> room w1 = room w - length (piece t)"
    and put_full: "ok w \<Longrightarrow> \<not> failed w \<Longrightarrow> room w \<le> length (piece t) \<Longrightarrow> \<exists>w1. put t w = Some w1 \<and> ok w1 \<and> failed w1"
    and put_failed: "ok w \<Longrightarrow> failed w \<Longrightarrow> put t w = Some w"
    and room_left: "ok w \<Longrightarrow> \<not> failed w \<Longrightarrow> 0 < room w"
begin

lemma puts_failed: "ok w \<Longrightarrow> failed w \<Longrightarrow> puts put ts w = Some w"
  by (induction ts) (simp_all add: put_failed)

lemma puts_fits:
  assumes "ok w" "\<not> failed w" "length (concat (map piece ts)) < room w"
  shows "\<exists>w1. puts put ts w = Some w1 \<and> ok w1 \<and> \<not> failed w1 \<and> written w1 = written w @ concat (map piece ts) \<and>
    room w1 = room w - length (concat (map piece ts))"
  using assms
proof (induction ts arbitrary: w)
  case (Cons t ts)
  obtain w1 where w1: "put t w = Some w1" "ok w1" "\<not> failed w1" "written w1 = written w @ piece t"
      "room w1 = room w - length (piece t)"
    using put_fits [OF Cons.prems(1,2), of t] Cons.prems(3) by auto
  have "length (concat (map piece ts)) < room w1" using Cons.prems(3) w1(5) by simp
  from Cons.IH [OF w1(2,3) this] w1 show ?case by auto
qed simp

lemma puts_full:
  assumes "ok w" "\<not> failed w" "room w \<le> length (concat (map piece ts))"
  shows "\<exists>w1. puts put ts w = Some w1 \<and> ok w1 \<and> failed w1"
  using assms
proof (induction ts arbitrary: w)
  case Nil
  then show ?case using room_left [of w] by simp
next
  case (Cons t ts)
  show ?case
  proof (cases "length (piece t) < room w")
    case True
    obtain w1 where w1: "put t w = Some w1" "ok w1" "\<not> failed w1" "room w1 = room w - length (piece t)"
      using put_fits [OF Cons.prems(1,2) True] by auto
    have "room w1 \<le> length (concat (map piece ts))" using Cons.prems(3) w1(4) by simp
    from Cons.IH [OF w1(2,3) this] w1(1) show ?thesis by simp
  next
    case False
    then obtain w1 where w1: "put t w = Some w1" "ok w1" "failed w1"
      using put_full [OF Cons.prems(1,2), of t] by auto
    with puts_failed [OF w1(2,3), of ts] show ?thesis by simp
  qed
qed

text \<open>Writing is total and keeps the buffer safe, whatever is written.\<close>

lemma puts_ok: "ok w \<Longrightarrow> \<exists>w1. puts put ts w = Some w1 \<and> ok w1"
  using puts_failed [of w ts] puts_fits [of w ts] puts_full [of w ts]
  by (cases "failed w"; cases "length (concat (map piece ts)) < room w") auto

end

end
