(* ===== verification/Json.thy ===== *)
theory Json
  imports Prelude
begin

text \<open>
  What the JSON texts of the firmware are checked against: the decimal numbers and escapes that
  \<open>printf\<close> writes, the values of JSON, and a strict reader of JSON without white space. A writer of the
  firmware is correct when the reader gets the intended value back from its text.
\<close>

section \<open>Numbers in text\<close>

text \<open>\<open>%u\<close>, \<open>%d\<close> and their 64 bit variants.\<close>

fun dec :: "nat \<Rightarrow> bytes" where
  "dec n = (if n < 10 then [48 + of_nat n] else dec (n div 10) @ [48 + of_nat (n mod 10)])"

declare dec.simps [simp del]

definition dec_int :: "int \<Rightarrow> bytes" where
  "dec_int i = (if i < 0 then 45 # dec (nat (- i)) else dec (nat i))"

definition digit :: "u8 \<Rightarrow> bool" where
  "digit b \<longleftrightarrow> 48 \<le> b \<and> b \<le> 57"

definition digits_value :: "bytes \<Rightarrow> nat" where
  "digits_value ds = foldl (\<lambda>v d. 10 * v + (unat d - 48)) 0 ds"

lemma unat_digit: "n < 10 \<Longrightarrow> unat (48 + of_nat n :: u8) = 48 + n"
  by (simp add: unat_word_ariths unat_of_nat)

lemma digit_of_nat: "n < 10 \<Longrightarrow> digit (48 + of_nat n)"
  using unat_digit [of n] by (simp add: digit_def word_le_nat_alt)

lemma dec_digits: "\<forall>b \<in> set (dec n). digit b"
  by (induction n rule: dec.induct) (subst dec.simps, auto simp: digit_of_nat)

lemma dec_nonempty: "dec n \<noteq> []"
  by (subst dec.simps) simp

lemma digits_value_dec: "digits_value (dec n) = n"
proof (induction n rule: dec.induct)
  case (1 n)
  show ?case
  proof (cases "n < 10")
    case True
    then show ?thesis by (subst dec.simps) (simp add: digits_value_def unat_digit)
  next
    case False
    with 1 show ?thesis by (subst dec.simps) (simp add: digits_value_def unat_digit)
  qed
qed

lemma length_dec: "n < 10 ^ k \<Longrightarrow> 0 < k \<Longrightarrow> length (dec n) \<le> k"
proof (induction n arbitrary: k rule: dec.induct)
  case (1 n)
  show ?case
  proof (cases "n < 10")
    case True
    with 1(3) show ?thesis by (subst dec.simps) simp
  next
    case False
    with 1(2,3) obtain j where k: "k = Suc j" "0 < j"
      by (cases k; cases "k - 1") auto
    have "n div 10 < 10 ^ j" using 1(2) k(1) by (simp add: less_mult_imp_div_less mult.commute)
    with 1(1) [OF False _ k(2)] False k show ?thesis by (subst dec.simps) simp
  qed
qed

lemma length_dec_int: "\<bar>i\<bar> < 10 ^ k \<Longrightarrow> 0 < k \<Longrightarrow> length (dec_int i) \<le> Suc k"
proof -
  assume a: "\<bar>i\<bar> < 10 ^ k" "0 < k"
  have "nat \<bar>i\<bar> < nat (10 ^ k)" using a(1) by (simp add: nat_less_eq_zless)
  then have "nat \<bar>i\<bar> < 10 ^ k" by (simp add: nat_power_eq)
  then have "length (dec (nat \<bar>i\<bar>)) \<le> k" using a(2) by (rule length_dec)
  then show ?thesis by (cases "i < 0") (simp_all add: dec_int_def)
qed

section \<open>Values and the reader\<close>

datatype json =
    JNull
  | JBool bool
  | JNum int
  | JStr bytes
  | JArr "json list"
  | JObj "(bytes \<times> json) list"

text \<open>The text of a \<open>\u\<close> escape, up to the last code point below the surrogates.\<close>

definition hex_value :: "u8 \<Rightarrow> nat option" where
  "hex_value b = (if 48 \<le> b \<and> b \<le> 57 then Some (unat b - 48)
     else if 97 \<le> b \<and> b \<le> 102 then Some (unat b - 87)
     else if 65 \<le> b \<and> b \<le> 70 then Some (unat b - 55) else None)"

text \<open>UTF-8 of a Unicode scalar value.\<close>

definition scalar_value :: "nat \<Rightarrow> bool" where
  "scalar_value cp \<longleftrightarrow> cp < 0xD800 \<or> 0xE000 \<le> cp \<and> cp < 0x110000"

definition utf8 :: "nat \<Rightarrow> bytes" where
  "utf8 cp =
    (if cp < 0x80 then [of_nat cp]
     else if cp < 0x800 then [of_nat (0xC0 + cp div 64), of_nat (0x80 + cp mod 64)]
     else if cp < 0x10000
     then [of_nat (0xE0 + cp div 4096), of_nat (0x80 + cp div 64 mod 64), of_nat (0x80 + cp mod 64)]
     else [of_nat (0xF0 + cp div 262144), of_nat (0x80 + cp div 4096 mod 64),
           of_nat (0x80 + cp div 64 mod 64), of_nat (0x80 + cp mod 64)])"

definition unicode_escape :: "u8 \<Rightarrow> u8 \<Rightarrow> u8 \<Rightarrow> u8 \<Rightarrow> bytes option" where
  "unicode_escape a b c d =
    (case (hex_value a, hex_value b, hex_value c, hex_value d) of
       (Some h1, Some h2, Some h3, Some h4) \<Rightarrow>
         (let cp = ((h1 * 16 + h2) * 16 + h3) * 16 + h4
          in if scalar_value cp then Some (utf8 cp) else None)
     | _ \<Rightarrow> None)"

definition simple_escape :: "u8 \<Rightarrow> u8 option" where
  "simple_escape e = (if e = 34 then Some 34 else if e = 92 then Some 92 else if e = 47 then Some 47
     else if e = 98 then Some 8 else if e = 102 then Some 12 else if e = 110 then Some 10
     else if e = 114 then Some 13 else if e = 116 then Some 9 else None)"

text \<open>The rest of a string, after its first quote, and what follows it.\<close>

definition before :: "bytes \<Rightarrow> (bytes \<times> bytes) option \<Rightarrow> (bytes \<times> bytes) option" where
  "before s r = map_option (\<lambda>(t, rest). (s @ t, rest)) r"

fun parse_string :: "bytes \<Rightarrow> (bytes \<times> bytes) option" where
  "parse_string [] = None"
| "parse_string (b # r) =
    (if b = 34 then Some ([], r)
     else if b < 32 then None
     else if b \<noteq> 92 then before [b] (parse_string r)
     else case r of
       [] \<Rightarrow> None
     | e # r1 \<Rightarrow>
         if e = 117
         then (case r1 of h1 # h2 # h3 # h4 # r2 \<Rightarrow>
                 (case unicode_escape h1 h2 h3 h4 of None \<Rightarrow> None | Some s \<Rightarrow> before s (parse_string r2))
               | _ \<Rightarrow> None)
         else (case simple_escape e of None \<Rightarrow> None | Some c \<Rightarrow> before [c] (parse_string r1)))"

definition parse_number :: "bytes \<Rightarrow> (json \<times> bytes) option" where
  "parse_number bs =
    (let neg = (bs \<noteq> [] \<and> hd bs = 45); ds = (if neg then tl bs else bs);
         v = takeWhile digit ds; rest = dropWhile digit ds
     in if v = [] then None
        else Some (JNum (if neg then - int (digits_value v) else int (digits_value v)), rest))"

definition strip_prefix :: "bytes \<Rightarrow> bytes \<Rightarrow> bytes option" where
  "strip_prefix p bs = (if take (length p) bs = p then Some (drop (length p) bs) else None)"

text \<open>The depth of the recursion is bounded by \<open>n\<close>; the length of the text is enough.\<close>

fun parse_value :: "nat \<Rightarrow> bytes \<Rightarrow> (json \<times> bytes) option"
and parse_members :: "nat \<Rightarrow> bytes \<Rightarrow> ((bytes \<times> json) list \<times> bytes) option"
and parse_elements :: "nat \<Rightarrow> bytes \<Rightarrow> (json list \<times> bytes) option" where
  "parse_value 0 bs = None"
| "parse_value (Suc n) bs =
    (case bs of
       [] \<Rightarrow> None
     | b # r \<Rightarrow>
         if b = 34 then map_option (\<lambda>(s, rest). (JStr s, rest)) (parse_string r)
         else if b = 123
         then (if r \<noteq> [] \<and> hd r = 125 then Some (JObj [], tl r)
               else map_option (\<lambda>(ms, rest). (JObj ms, rest)) (parse_members n r))
         else if b = 91
         then (if r \<noteq> [] \<and> hd r = 93 then Some (JArr [], tl r)
               else map_option (\<lambda>(vs, rest). (JArr vs, rest)) (parse_elements n r))
         else if b = 116 then map_option (\<lambda>rest. (JBool True, rest)) (strip_prefix (cs ''true'') bs)
         else if b = 102 then map_option (\<lambda>rest. (JBool False, rest)) (strip_prefix (cs ''false'') bs)
         else if b = 110 then map_option (\<lambda>rest. (JNull, rest)) (strip_prefix (cs ''null'') bs)
         else parse_number bs)"
| "parse_members 0 bs = None"
| "parse_members (Suc n) bs =
    (if bs = [] \<or> hd bs \<noteq> 34 then None
     else case parse_string (tl bs) of
       None \<Rightarrow> None
     | Some (k, r) \<Rightarrow>
         if r = [] \<or> hd r \<noteq> 58 then None
         else case parse_value n (tl r) of
           None \<Rightarrow> None
         | Some (v, r) \<Rightarrow>
             if r \<noteq> [] \<and> hd r = 125 then Some ([(k, v)], tl r)
             else if r \<noteq> [] \<and> hd r = 44
             then map_option (\<lambda>(ms, rest). ((k, v) # ms, rest)) (parse_members n (tl r))
             else None)"
| "parse_elements 0 bs = None"
| "parse_elements (Suc n) bs =
    (case parse_value n bs of
       None \<Rightarrow> None
     | Some (v, r) \<Rightarrow>
         if r \<noteq> [] \<and> hd r = 93 then Some ([v], tl r)
         else if r \<noteq> [] \<and> hd r = 44
         then map_option (\<lambda>(vs, rest). (v # vs, rest)) (parse_elements n (tl r))
         else None)"

declare parse_value.simps(2) [simp del] parse_members.simps(2) [simp del] parse_elements.simps(2) [simp del]

definition parse_json :: "bytes \<Rightarrow> json option" where
  "parse_json bs = (case parse_value (length bs) bs of Some (j, []) \<Rightarrow> Some j | _ \<Rightarrow> None)"

section \<open>Texts that are read back\<close>

definition quoted :: "bytes \<Rightarrow> bytes" where
  "quoted body = 34 # body @ [34]"

definition plain :: "bytes \<Rightarrow> bool" where
  "plain s \<longleftrightarrow> (\<forall>b \<in> set s. 32 \<le> b \<and> b \<noteq> 34 \<and> b \<noteq> 92)"

definition member_text :: "bytes \<times> bytes \<Rightarrow> bytes" where
  "member_text m = (case m of (k, t) \<Rightarrow> quoted k @ 58 # t)"

fun joined :: "bytes list \<Rightarrow> bytes" where
  "joined [] = []"
| "joined [t] = t"
| "joined (t # ts) = t @ 44 # joined ts"

definition object_text :: "(bytes \<times> bytes) list \<Rightarrow> bytes" where
  "object_text ms = 123 # joined (map member_text ms) @ [125]"

definition array_text :: "bytes list \<Rightarrow> bytes" where
  "array_text ts = 91 # joined ts @ [93]"

definition bool_text :: "bool \<Rightarrow> bytes" where
  "bool_text b = (if b then cs ''true'' else cs ''false'')"

definition null_text :: bytes where
  "null_text = cs ''null''"

text \<open>A text is the value, whatever follows it in a larger text.\<close>

definition no_digit :: "bytes \<Rightarrow> bool" where
  "no_digit rest \<longleftrightarrow> rest = [] \<or> \<not> digit (hd rest)"

definition reads :: "json \<Rightarrow> bytes \<Rightarrow> bool" where
  "reads j t \<longleftrightarrow> (\<forall>n rest. length t \<le> n \<longrightarrow> no_digit rest \<longrightarrow> parse_value n (t @ rest) = Some (j, rest))"

definition reads_string :: "bytes \<Rightarrow> bytes \<Rightarrow> bool" where
  "reads_string s body \<longleftrightarrow> (\<forall>rest. parse_string (body @ 34 # rest) = Some (s, rest))"

lemma reads_jsonI: "reads j t \<Longrightarrow> parse_json t = Some j"
  unfolding reads_def parse_json_def no_digit_def
  by (metis (no_types, lifting) append_Nil2 list.simps(4) option.simps(5) order_refl prod.simps(2))

lemma parse_string_plain: "plain s \<Longrightarrow> parse_string (s @ 34 # rest) = Some (s, rest)"
  by (induction s) (auto simp: plain_def before_def)

lemma reads_string_plain: "plain s \<Longrightarrow> reads_string s s"
  by (simp add: reads_string_def parse_string_plain)

lemma reads_quoted: "reads_string s body \<Longrightarrow> reads (JStr s) (quoted body)"
  unfolding reads_def reads_string_def quoted_def
proof (intro allI impI)
  fix n rest
  assume s: "\<forall>rest. parse_string (body @ 34 # rest) = Some (s, rest)" and n: "length (34 # body @ [34]) \<le> n"
  from n obtain m where "n = Suc m" by (cases n) auto
  with s show "parse_value n ((34 # body @ [34]) @ rest) = Some (JStr s, rest)"
    by (simp add: parse_value.simps(2))
qed

lemma digit_not: "digit b \<Longrightarrow> b \<noteq> 34 \<and> b \<noteq> 123 \<and> b \<noteq> 91 \<and> b \<noteq> 116 \<and> b \<noteq> 102 \<and> b \<noteq> 110 \<and> b \<noteq> 45"
  by (auto simp: digit_def word_le_nat_alt)

lemma parse_number_dec:
  assumes "no_digit rest"
  shows "parse_number (dec_int i @ rest) = Some (JNum i, rest)"
proof -
  have tw: "takeWhile digit (dec n @ rest) = dec n" "dropWhile digit (dec n @ rest) = rest" for n
    using assms dec_digits [of n] by (cases rest; simp add: no_digit_def takeWhile_append dropWhile_append)+
  have hd: "dec n @ rest \<noteq> []" "hd (dec n @ rest) \<noteq> 45" for n
    using dec_nonempty [of n] dec_digits [of n] digit_not by (cases "dec n"; auto)+
  show ?thesis
    using tw hd dec_nonempty by (simp add: parse_number_def dec_int_def Let_def digits_value_dec)
qed

lemma reads_dec_int: "reads (JNum i) (dec_int i)"
  unfolding reads_def
proof (intro allI impI)
  fix n rest
  assume n: "length (dec_int i) \<le> n" and rest: "no_digit rest"
  obtain b r where b: "dec_int i = b # r" "digit b \<or> b = 45"
    using dec_nonempty dec_digits unfolding dec_int_def
    by (metis list.exhaust list.set_intros(1))
  from n b obtain m where "n = Suc m" by (cases n) auto
  moreover have "b \<noteq> 34 \<and> b \<noteq> 123 \<and> b \<noteq> 91 \<and> b \<noteq> 116 \<and> b \<noteq> 102 \<and> b \<noteq> 110"
    using b(2) digit_not [of b] by auto
  ultimately show "parse_value n (dec_int i @ rest) = Some (JNum i, rest)"
    using parse_number_dec [OF rest, of i] b(1) by (simp add: parse_value.simps(2))
qed

lemma reads_dec: "reads (JNum (int n)) (dec n)"
  using reads_dec_int [of "int n"] by (simp add: dec_int_def)

lemma reads_bool: "reads (JBool b) (bool_text b)"
  unfolding reads_def
proof (intro allI impI)
  fix n rest
  assume n: "length (bool_text b) \<le> n"
  then obtain m where "n = Suc m" by (cases n; cases b) (auto simp: bool_text_def)
  then show "parse_value n (bool_text b @ rest) = Some (JBool b, rest)"
    by (cases b) (simp_all add: parse_value.simps(2) bool_text_def strip_prefix_def)
qed

lemma reads_null: "reads JNull null_text"
  unfolding reads_def
proof (intro allI impI)
  fix n rest
  assume n: "length null_text \<le> n"
  then obtain m where "n = Suc m" by (cases n) (auto simp: null_text_def)
  then show "parse_value n (null_text @ rest) = Some (JNull, rest)"
    by (simp add: parse_value.simps(2) null_text_def strip_prefix_def)
qed

lemma no_digit_delimiter: "no_digit (44 # r)" "no_digit (125 # r)" "no_digit (93 # r)"
  by (simp_all add: no_digit_def digit_def word_le_nat_alt)

definition reads_member :: "bytes \<times> json \<Rightarrow> bytes \<times> bytes \<Rightarrow> bool" where
  "reads_member v m \<longleftrightarrow> fst v = fst m \<and> plain (fst m) \<and> reads (snd v) (snd m)"

lemma parse_members_joined:
  assumes "list_all2 reads_member vs ms" "ms \<noteq> []" "length (joined (map member_text ms)) \<le> n"
  shows "parse_members n (joined (map member_text ms) @ 125 # rest) = Some (vs, rest)"
  using assms
proof (induction ms arbitrary: vs n rule: list.induct)
  case (Cons m ms)
  obtain k t where m: "m = (k, t)" by (cases m)
  from Cons.prems(1) obtain v vs' where vs: "vs = (k, v) # vs'" "plain k" "reads v t"
    and rest: "list_all2 reads_member vs' ms"
    by (auto simp: list_all2_Cons2 m) (auto simp: reads_member_def)
  have s: "parse_string (k @ 34 # x) = Some (k, x)" for x using vs(2) by (rule parse_string_plain)
  show ?case
  proof (cases "ms = []")
    case True
    with rest have "vs' = []" by simp
    from Cons.prems(3) obtain n' where n: "n = Suc n'" "length t \<le> n'"
      using True by (cases n) (auto simp: m member_text_def quoted_def)
    have "parse_value n' (t @ 125 # rest) = Some (v, 125 # rest)"
      using vs(3) n(2) no_digit_delimiter unfolding reads_def by blast
    then show ?thesis
      using True n(1) vs(1) \<open>vs' = []\<close> s
      by (simp add: m member_text_def quoted_def parse_members.simps(2))
  next
    case False
    then obtain m' ms' where ms: "ms = m' # ms'" by (cases ms) auto
    let ?u = "joined (map member_text ms)"
    have text': "joined (map member_text (m # ms)) = 34 # k @ 34 # 58 # t @ 44 # ?u"
      by (simp add: ms m member_text_def quoted_def)
    from Cons.prems(3) obtain n' where n: "n = Suc n'" "length t \<le> n'" "length ?u \<le> n'"
      unfolding text' by (cases n) auto
    have "parse_value n' (t @ 44 # ?u @ 125 # rest) = Some (v, 44 # ?u @ 125 # rest)"
      using vs(3) n(2) no_digit_delimiter unfolding reads_def by blast
    moreover have "parse_members n' (?u @ 125 # rest) = Some (vs', rest)"
      using Cons.IH [OF rest False n(3)] .
    ultimately show ?thesis
      using n(1) vs(1) s unfolding text' by (simp add: parse_members.simps(2))
  qed
qed simp

lemma reads_object:
  assumes "list_all2 reads_member vs ms" "ms \<noteq> []"
  shows "reads (JObj vs) (object_text ms)"
  unfolding reads_def
proof (intro allI impI)
  fix n rest
  let ?u = "joined (map member_text ms)"
  assume n: "length (object_text ms) \<le> n"
  then obtain n' where n': "n = Suc n'" "length ?u \<le> n'" by (cases n) (auto simp: object_text_def)
  have u: "\<exists>r. ?u = 34 # r"
    using assms(2) by (cases ms; cases "tl ms") (auto simp: member_text_def quoted_def split: prod.splits)
  then obtain r where r: "?u = 34 # r" by blast
  have "parse_members n' (?u @ 125 # rest) = Some (vs, rest)"
    using parse_members_joined [OF assms n'(2)] .
  then show "parse_value n (object_text ms @ rest) = Some (JObj vs, rest)"
    using n'(1) r by (simp add: object_text_def parse_value.simps(2))
qed

lemma reads_array1:
  assumes "reads v t" "t \<noteq> []" "hd t \<noteq> 93"
  shows "reads (JArr [v]) (array_text [t])"
  unfolding reads_def
proof (intro allI impI)
  fix n rest
  assume n: "length (array_text [t]) \<le> n"
  then obtain n' where n': "n = Suc (Suc n')" "length t \<le> n'"
    by (cases n; cases "n - 1") (auto simp: array_text_def)
  have "parse_value n' (t @ 93 # rest) = Some (v, 93 # rest)"
    using assms(1) n'(2) no_digit_delimiter unfolding reads_def by blast
  with assms(2,3) n'(1) show "parse_value n (array_text [t] @ rest) = Some (JArr [v], rest)"
    by (simp add: array_text_def parse_value.simps(2) parse_elements.simps(2))
qed

lemma plain_cs: "plain (cs s) \<longleftrightarrow> (\<forall>c \<in> set s. 32 \<le> (of_char c :: nat) \<and> of_char c \<noteq> (34 :: nat) \<and> of_char c \<noteq> (92 :: nat))"
proof -
  have "32 \<le> (of_char c :: u8) \<longleftrightarrow> 32 \<le> (of_char c :: nat)" for c
    unfolding word_le_nat_alt by simp
  moreover have "(of_char c :: u8) = 34 \<longleftrightarrow> of_char c = (34 :: nat)" "(of_char c :: u8) = 92 \<longleftrightarrow> of_char c = (92 :: nat)" for c
    unfolding word_unat_eq_iff by simp_all
  ultimately show ?thesis by (simp add: plain_def cs_def)
qed

section \<open>Members and lengths\<close>

lemma reads_one: "reads (JNum 1) (dec (Suc 0))"
  using reads_dec [of 1] by simp

lemma reads_plain: "plain s \<Longrightarrow> reads (JStr s) (quoted s)"
  by (intro reads_quoted reads_string_plain)

lemma reads_unat: "reads (JNum (uint w)) (dec (unat w))"
  using reads_dec [of "unat w"] by simp

lemma dec_nonzero: "0 \<notin> set (dec n)" "0 \<notin> set (dec_int i)"
proof -
  show z: "0 \<notin> set (dec n)" for n using dec_digits [of n] by (auto simp: digit_def)
  show "0 \<notin> set (dec_int i)" by (simp add: dec_int_def z)
qed

lemma joined_append:
  "ms \<noteq> [] \<Longrightarrow> joined (map member_text (ms @ ns)) =
     joined (map member_text ms) @ concat (map (\<lambda>m. 44 # member_text m) ns)"
proof (induction ms rule: list_nonempty_induct)
  case (single m)
  show ?case
  proof (induction ns arbitrary: m)
    case (Cons n ns)
    then show ?case by simp
  qed simp
next
  case (cons m ms)
  then show ?case by (cases ms) auto
qed

lemma length_dec_unat: "length (dec (unat (w :: u32))) \<le> 10" "length (dec (unat (x :: u64))) \<le> 20"
proof -
  have "unat w < 10 ^ 10" by (rule order_less_le_trans [OF unsigned_less]) simp
  from length_dec [OF this] show "length (dec (unat w)) \<le> 10" by simp
  have "unat x < 10 ^ 20" by (rule order_less_le_trans [OF unsigned_less]) simp
  from length_dec [OF this] show "length (dec (unat x)) \<le> 20" by simp
qed

lemma length_bool_text: "length (bool_text b) \<le> 5"
  by (simp add: bool_text_def)

text \<open>The room the members of an object take, each with its separator.\<close>

definition member_room :: "(bytes \<times> bytes) list \<Rightarrow> nat" where
  "member_room ms = sum_list (map (\<lambda>m. length (member_text m) + 1) ms)"

lemma length_joined: "ms \<noteq> [] \<Longrightarrow> length (object_text ms) = member_room ms + 1"
proof -
  have "ms \<noteq> [] \<Longrightarrow> Suc (length (joined (map member_text ms))) = member_room ms"
    by (induction ms rule: list_nonempty_induct)
      (auto simp: member_room_def neq_Nil_conv)
  then show "ms \<noteq> [] \<Longrightarrow> ?thesis" by (simp add: object_text_def)
qed

lemma member_room_simps:
  "member_room [] = 0" "member_room (m # ms) = length (member_text m) + 1 + member_room ms"
  "member_room (ms @ ns) = member_room ms + member_room ns"
  by (simp_all add: member_room_def)

lemma length_member: "length (member_text (cs k, t)) = length k + length t + 3"
  by (simp add: member_text_def quoted_def)

end
