(* ===== verification/Mqtt_Json.thy ===== *)
theory Mqtt_Json
  imports Text_Sink Json
begin

text \<open>
  The JSON writer of \<^verbatim>\<open>components/mqtt_relay/mqtt_relay.c\<close>: \<open>json_write_string\<close> and
  \<open>json_write_literal\<close> print into the rest of a buffer and advance the cursor. A payload is a
  sequence of such writes, each done while the error is still \<open>ESP_OK\<close>; the error is part of the state
  here.
\<close>

section \<open>The implementation\<close>

record json_out =
  jo_err :: esp_err
  jo_buf :: bytes
  jo_cursor :: nat
  jo_remaining :: nat

text \<open>\<open>snprintf\<close> into the rest of the buffer, the check of its result, and the advance.\<close>

definition json_print :: "bytes \<Rightarrow> json_out \<Rightarrow> json_out option" where
  "json_print txt w =
    (if jo_err w \<noteq> ESP_OK then Some w
     else do {
       buf \<leftarrow> snprintf_at (jo_buf w) (jo_cursor w) (jo_remaining w) txt;
       if length txt \<ge> jo_remaining w
       then Some (w\<lparr>jo_buf := buf, jo_err := ESP_ERR_INVALID_SIZE\<rparr>)
       else Some (w\<lparr>jo_buf := buf, jo_cursor := jo_cursor w + length txt,
                    jo_remaining := jo_remaining w - length txt\<rparr>)
     })"

definition json_escape :: "u8 \<Rightarrow> bytes" where
  "json_escape p =
    (if p = 34 then [92, 34]
     else if p = 92 then [92, 92]
     else if p = 8 then [92, 98]
     else if p = 12 then [92, 102]
     else if p = 10 then [92, 110]
     else if p = 13 then [92, 114]
     else if p = 9 then [92, 116]
     else if p < 32 then [92, 117, 48, 48] @ hex2 p
     else [p])"

definition json_write_literal :: "bytes option \<Rightarrow> json_out \<Rightarrow> json_out option" where
  "json_write_literal literal w =
    (case literal of
       None \<Rightarrow> Some (if jo_err w = ESP_OK then w\<lparr>jo_err := ESP_ERR_INVALID_ARG\<rparr> else w)
     | Some l \<Rightarrow>
         if jo_err w = ESP_OK \<and> jo_remaining w = 0 then Some (w\<lparr>jo_err := ESP_ERR_INVALID_ARG\<rparr>)
         else json_print l w)"

definition json_write_string :: "bytes option \<Rightarrow> json_out \<Rightarrow> json_out option" where
  "json_write_string value w =
    (if jo_err w = ESP_OK \<and> jo_remaining w = 0 then Some (w\<lparr>jo_err := ESP_ERR_INVALID_ARG\<rparr>)
     else
       let txt = (case value of None \<Rightarrow> [] | Some v \<Rightarrow> cstr v)
       in puts json_print ([34] # map json_escape txt @ [[34]]) w)"

text \<open>
  The writes of a payload, in order: \<open>Lit\<close> for \<open>json_write_literal\<close> and for the \<open>snprintf\<close> of a constant
  with its check, which the code also has as macros, \<open>Str\<close> for \<open>json_write_string\<close>.
\<close>

datatype fragment = Lit bytes | Str bytes

fun write_fragments :: "fragment list \<Rightarrow> json_out \<Rightarrow> json_out option" where
  "write_fragments [] w = Some w"
| "write_fragments (Lit l # fs) w = do { w \<leftarrow> json_write_literal (Some l) w; write_fragments fs w }"
| "write_fragments (Str s # fs) w = do { w \<leftarrow> json_write_string (Some s) w; write_fragments fs w }"

text \<open>A builder of a payload: its result and the buffer it leaves.\<close>

definition write_payload :: "fragment list \<Rightarrow> bytes \<Rightarrow> nat \<Rightarrow> (esp_err \<times> bytes) option" where
  "write_payload fs out out_size = do {
     w \<leftarrow> write_fragments fs \<lparr>jo_err = ESP_OK, jo_buf = out, jo_cursor = 0, jo_remaining = out_size\<rparr>;
     Some (jo_err w, jo_buf w)
   }"

section \<open>The writer is a text sink\<close>

definition jo_ok :: "json_out \<Rightarrow> bool" where
  "jo_ok w \<longleftrightarrow> jo_cursor w + jo_remaining w \<le> length (jo_buf w) \<and>
     (jo_err w = ESP_OK \<or> jo_err w = ESP_ERR_INVALID_SIZE) \<and>
     (jo_err w = ESP_OK \<longrightarrow> 0 < jo_remaining w \<and> (jo_cursor w = 0 \<or> jo_buf w ! jo_cursor w = 0))"

definition jo_failed :: "json_out \<Rightarrow> bool" where
  "jo_failed w \<longleftrightarrow> jo_err w \<noteq> ESP_OK"

definition jo_written :: "json_out \<Rightarrow> bytes" where
  "jo_written w = take (jo_cursor w) (jo_buf w)"

lemma snprintf_at_length: "snprintf_at buf pos n txt = Some buf' \<Longrightarrow> length buf' = length buf"
  by (auto simp: snprintf_at_def Let_def split: if_splits)

interpretation jw: text_sink json_print "\<lambda>t. t" jo_ok jo_failed jo_written jo_remaining
proof
  fix w :: json_out and t :: bytes
  assume w: "jo_ok w" "\<not> jo_failed w" and t: "length t < jo_remaining w"
  then have b: "jo_err w = ESP_OK" "jo_cursor w + length t < length (jo_buf w)"
    by (simp_all add: jo_ok_def jo_failed_def)
  then have suc: "Suc (length (jo_buf w) - Suc 0) = length (jo_buf w)" by simp
  show "\<exists>w1. json_print t w = Some w1 \<and> jo_ok w1 \<and> \<not> jo_failed w1 \<and> jo_written w1 = jo_written w @ t \<and>
      jo_remaining w1 = jo_remaining w - length t"
    using w t b(1) snprintf_fits [OF t b(2)] suc
    by (simp add: json_print_def jo_ok_def jo_failed_def jo_written_def nth_append)
next
  fix w :: json_out and t :: bytes
  assume w: "jo_ok w" "\<not> jo_failed w" and t: "jo_remaining w \<le> length t"
  then have n: "jo_remaining w \<noteq> 0" "jo_cursor w + (jo_remaining w - 1) < length (jo_buf w)"
    by (auto simp: jo_ok_def jo_failed_def)
  obtain buf where s: "snprintf_at (jo_buf w) (jo_cursor w) (jo_remaining w) t = Some buf"
    using n t by (auto simp: snprintf_at_def Let_def)
  then show "\<exists>w1. json_print t w = Some w1 \<and> jo_ok w1 \<and> jo_failed w1"
    using w t snprintf_at_length [OF s] by (simp add: json_print_def jo_ok_def jo_failed_def)
qed (auto simp: json_print_def jo_failed_def jo_ok_def)

section \<open>Payloads\<close>

definition escaped :: "bytes \<Rightarrow> bytes" where
  "escaped s = concat (map json_escape s)"

fun fragment_text :: "fragment \<Rightarrow> bytes" where
  "fragment_text (Lit l) = l"
| "fragment_text (Str s) = quoted (escaped (cstr s))"

fun pieces :: "fragment \<Rightarrow> bytes list" where
  "pieces (Lit l) = [l]"
| "pieces (Str s) = [34] # map json_escape (cstr s) @ [[34]]"

definition payload_text :: "fragment list \<Rightarrow> bytes" where
  "payload_text fs = concat (map fragment_text fs)"

lemma payload_text_simps [simp]:
  "payload_text [] = []"
  "payload_text (Lit l # fs) = l @ payload_text fs"
  "payload_text (Str s # fs) = quoted (escaped (cstr s)) @ payload_text fs"
  "payload_text (fs @ gs) = payload_text fs @ payload_text gs"
  by (simp_all add: payload_text_def)

lemma concat_pieces: "concat (concat (map pieces fs)) = payload_text fs"
proof (induction fs)
  case (Cons f fs)
  then show ?case by (cases f) (simp_all add: quoted_def escaped_def)
qed simp

lemma write_fragments_puts:
  assumes "jo_ok w" shows "write_fragments fs w = puts json_print (concat (map pieces fs)) w"
  using assms
proof (induction fs arbitrary: w)
  case (Cons f fs)
  have room: "\<not> (jo_err w = ESP_OK \<and> jo_remaining w = 0)" using Cons.prems by (auto simp: jo_ok_def)
  have "\<exists>w1. puts json_print (pieces f) w = Some w1 \<and> jo_ok w1"
    using jw.puts_ok [OF Cons.prems] .
  then obtain w1 where w1: "puts json_print (pieces f) w = Some w1" "jo_ok w1" by blast
  have "write_fragments (f # fs) w = write_fragments fs w1"
    using w1(1) room
    by (cases f) (auto simp: json_write_literal_def json_write_string_def split: option.splits)
  then show ?case
    using Cons.IH [OF w1(2)] w1(1) by (simp add: puts_append)
qed simp

lemma write_payload_spec:
  assumes "0 < out_size" "out_size \<le> length out" "payload_text fs \<noteq> []"
  shows "\<exists>out'. write_payload fs out out_size =
      Some (if length (payload_text fs) < out_size then ESP_OK else ESP_ERR_INVALID_SIZE, out') \<and>
    (length (payload_text fs) < out_size \<longrightarrow>
      take (length (payload_text fs) + 1) out' = payload_text fs @ [0])"
proof -
  let ?w = "\<lparr>jo_err = ESP_OK, jo_buf = out, jo_cursor = 0, jo_remaining = out_size\<rparr>"
  let ?t = "payload_text fs"
  have ok: "jo_ok ?w" "\<not> jo_failed ?w" "jo_written ?w = []" using assms by (simp_all add: jo_ok_def jo_failed_def jo_written_def)
  note run = write_fragments_puts [OF ok(1), of fs]
  show ?thesis
  proof (cases "length ?t < out_size")
    case True
    then obtain w1 where w1: "write_fragments fs ?w = Some w1" "jo_ok w1" "\<not> jo_failed w1" "jo_written w1 = ?t"
      using jw.puts_fits [OF ok(1,2), of "concat (map pieces fs)"] ok(3) run by (auto simp: concat_pieces)
    then have c: "jo_err w1 = ESP_OK" "take (jo_cursor w1) (jo_buf w1) = ?t" "jo_cursor w1 < length (jo_buf w1)"
      by (auto simp: jo_ok_def jo_failed_def jo_written_def)
    then have l: "jo_cursor w1 = length ?t" by (metis length_take min.absorb4)
    have "jo_buf w1 ! jo_cursor w1 = 0" using w1(2) c l assms(3) by (auto simp: jo_ok_def)
    then have "take (length ?t + 1) (jo_buf w1) = ?t @ [0]"
      using c l by (simp add: take_Suc_conv_app_nth)
    then show ?thesis using True w1(1) c(1) by (simp add: write_payload_def)
  next
    case False
    then obtain w1 where "write_fragments fs ?w = Some w1" "jo_ok w1" "jo_failed w1"
      using jw.puts_full [OF ok(1,2), of "concat (map pieces fs)"] run by (auto simp: concat_pieces)
    then show ?thesis using False by (auto simp: write_payload_def jo_ok_def jo_failed_def)
  qed
qed

section \<open>Escaping\<close>

lemma byte_cases: "\<exists>n < 256. b = (of_nat n :: u8)"
  by (intro exI [of _ "unat b"]) (auto intro: order_less_le_trans [OF unsigned_less])

lemma hex_value_digit: "d < 16 \<Longrightarrow> hex_value (hex_digit d) = Some (unat d)"
proof -
  assume d: "d < 16"
  then have u: "unat d < 16" by (simp add: word_less_nat_alt)
  have h: "unat (hex_digit d) = (if unat d < 10 then 48 + unat d else 87 + unat d)"
    using u by (simp add: hex_digit_def word_less_nat_alt unat_word_ariths mod_if)
  show ?thesis
    using u h by (simp add: hex_value_def word_le_nat_alt)
qed

lemma control_escape:
  assumes "p < 32"
  shows "\<exists>a b. hex2 p = [a, b] \<and> unicode_escape 48 48 a b = Some [p]"
proof -
  let ?h = "drop_bit 4 p" and ?l = "p AND 15"
  have "unat ?h = unat p div 16" by (simp add: drop_bit_eq_div unat_div)
  moreover have "unat ?l = unat p mod 16"
  proof -
    have "?l = take_bit 4 p" by (simp add: take_bit_eq_mask mask_eq_exp_minus_1)
    then show ?thesis by (simp add: take_bit_eq_mod unat_mod)
  qed
  ultimately have v: "unat ?h * 16 + unat ?l = unat p" by simp
  have "unat p < 32" using assms by (simp add: word_less_nat_alt)
  then have "utf8 (unat p) = [p]" "scalar_value (unat p)" by (simp_all add: utf8_def scalar_value_def)
  with v show ?thesis
    using hex_value_digit [OF nibbles_less(1)] hex_value_digit [OF nibbles_less(2)]
    by (simp add: hex2_def unicode_escape_def hex_value_def Let_def)
qed

lemma parse_escape: "p \<noteq> 0 \<Longrightarrow> parse_string (json_escape p @ r) = before [p] (parse_string r)"
proof -
  assume "p \<noteq> 0"
  show ?thesis
  proof (cases "p = 34 \<or> p = 92 \<or> p = 8 \<or> p = 12 \<or> p = 10 \<or> p = 13 \<or> p = 9 \<or> 32 \<le> p")
    case True
    then show ?thesis by (auto simp: json_escape_def simple_escape_def)
  next
    case False
    then have "p < 32" by (simp add: not_le)
    then obtain a b where "hex2 p = [a, b]" "unicode_escape 48 48 a b = Some [p]"
      using control_escape by blast
    with False show ?thesis by (auto simp: json_escape_def not_le)
  qed
qed

lemma escaped_Cons: "escaped (p # s) = json_escape p @ escaped s"
  by (simp add: escaped_def)

lemma reads_escaped: "0 \<notin> set s \<Longrightarrow> reads_string s (escaped s)"
  unfolding reads_string_def
proof (induction s)
  case (Cons p s)
  then show ?case using parse_escape [of p] by (simp add: escaped_Cons before_def)
qed (simp add: escaped_def)

lemma reads_field: "reads (JStr (cstr s)) (quoted (escaped (cstr s)))"
  by (intro reads_quoted reads_escaped cstr_no_nul)

lemma json_escape_nonzero: "0 \<notin> set (json_escape p) \<or> p = 0"
  using hex2_nonzero [of p] by (auto simp: json_escape_def)

lemma escaped_nonzero: "0 \<notin> set s \<Longrightarrow> 0 \<notin> set (escaped s)"
proof (induction s)
  case (Cons p s)
  then show ?case using json_escape_nonzero [of p] by (auto simp: escaped_Cons)
qed (simp add: escaped_def)

end
