(* ===== verification/Mqtt_Discovery.thy ===== *)
theory Mqtt_Discovery
  imports Mqtt_Json Provision_Config
begin

text \<open>
  The topics and the Home Assistant discovery payloads of
  \<^verbatim>\<open>components/mqtt_relay/mqtt_relay.c\<close>, the check of incoming commands and the settings handed to
  the MQTT client. A pointer that the code compares with NULL is an option; a buffer to fill comes
  with its size, and the result with the buffer after the call. The outer option is memory safety.
\<close>

section \<open>Data\<close>

record mqtt_relay_device_info =
  di_manufacturer :: bytes
  di_model :: bytes
  di_sw_version :: bytes
  di_hw_version :: bytes

definition device_sizes :: "mqtt_relay_device_info \<Rightarrow> bool" where
  "device_sizes d \<longleftrightarrow> length (di_manufacturer d) = 32 \<and> length (di_model d) = 24 \<and>
     length (di_sw_version d) = 32 \<and> length (di_hw_version d) = 24"

definition MQTT_RELAY_TOPIC_MAX :: nat where
  "MQTT_RELAY_TOPIC_MAX = PROVISION_MQTT_BASE_TOPIC_MAX + 32"

definition MQTT_RELAY_DISCOVERY_TOPIC_MAX :: nat where
  "MQTT_RELAY_DISCOVERY_TOPIC_MAX = PROVISION_MQTT_CLIENT_ID_MAX + 64"

section \<open>Checks\<close>

definition topic_has_publish_wildcard :: "bytes option \<Rightarrow> bool" where
  "topic_has_publish_wildcard topic =
     (case topic of None \<Rightarrow> True | Some t \<Rightarrow> 43 \<in> set (cstr t) \<or> 35 \<in> set (cstr t))"

definition isalnum :: "u8 \<Rightarrow> bool" where
  "isalnum b \<longleftrightarrow> 48 \<le> b \<and> b \<le> 57 \<or> 65 \<le> b \<and> b \<le> 90 \<or> 97 \<le> b \<and> b \<le> 122"

definition discovery_id_is_safe :: "bytes option \<Rightarrow> bool" where
  "discovery_id_is_safe i =
     (case i of None \<Rightarrow> False
      | Some t \<Rightarrow> cstr t \<noteq> [] \<and> list_all (\<lambda>b. isalnum b \<or> b = 95 \<or> b = 45) (cstr t))"

definition bounded_required_text :: "bytes \<Rightarrow> nat \<Rightarrow> bool" where
  "bounded_required_text v capacity \<longleftrightarrow> nonempty v \<and> strnlen v capacity < capacity"

definition device_info_is_valid :: "mqtt_relay_device_info option \<Rightarrow> bool" where
  "device_info_is_valid device_info =
     (case device_info of None \<Rightarrow> False
      | Some d \<Rightarrow>
        bounded_required_text (di_manufacturer d) (length (di_manufacturer d)) \<and>
        bounded_required_text (di_model d) (length (di_model d)) \<and>
        bounded_required_text (di_sw_version d) (length (di_sw_version d)) \<and>
        bounded_required_text (di_hw_version d) (length (di_hw_version d)))"

section \<open>Topics\<close>

text \<open>\<open>snprintf\<close> to the front of a buffer, with the check of its result.\<close>

definition print_to :: "bytes \<Rightarrow> nat \<Rightarrow> bytes \<Rightarrow> (esp_err \<times> bytes) option" where
  "print_to out out_size txt = do {
     out \<leftarrow> snprintf_at out 0 out_size txt;
     Some (if length txt \<ge> out_size then ESP_ERR_INVALID_SIZE else ESP_OK, out)
   }"

definition append_topic :: "bytes \<Rightarrow> bytes \<Rightarrow> bytes \<Rightarrow> nat \<Rightarrow> (esp_err \<times> bytes) option" where
  "append_topic base suffix out out_size =
     (if out_size = 0 \<or> \<not> nonempty base \<or> topic_has_publish_wildcard (Some base)
      then Some (ESP_ERR_INVALID_ARG, out)
      else print_to out out_size (cstr base @ 47 # suffix))"

text \<open>A buffer argument is the buffer and its size.\<close>

type_synonym out_buf = "bytes \<times> nat"

definition mqtt_relay_build_topics ::
  "provision_config option \<Rightarrow> out_buf option \<Rightarrow> out_buf option \<Rightarrow> out_buf option \<Rightarrow> out_buf option \<Rightarrow>
   (esp_err \<times> bytes list) option" where
  "mqtt_relay_build_topics config notification availability state discovery =
     (case (config, notification, availability, state, discovery) of
        (Some c, Some (n, nz), Some (a, az), Some (s, sz), Some (d, dz)) \<Rightarrow>
          if \<not> discovery_id_is_safe (Some (mqtt_client_id c)) then Some (ESP_ERR_INVALID_ARG, [n, a, s, d])
          else do {
            (err, n) \<leftarrow> append_topic (mqtt_base_topic c) (cs ''notification'') n nz;
            if err \<noteq> ESP_OK then Some (err, [n, a, s, d])
            else do {
              (err, a) \<leftarrow> append_topic (mqtt_base_topic c) (cs ''availability'') a az;
              if err \<noteq> ESP_OK then Some (err, [n, a, s, d])
              else do {
                (err, s) \<leftarrow> append_topic (mqtt_base_topic c) (cs ''state'') s sz;
                if err \<noteq> ESP_OK then Some (err, [n, a, s, d])
                else do {
                  (err, d) \<leftarrow> print_to d dz (cs ''homeassistant/sensor/'' @ cstr (mqtt_client_id c) @
                                 cs ''/last_notification/config'');
                  Some (err, [n, a, s, d])
                }
              }
            }
          }
      | _ \<Rightarrow> Some (ESP_ERR_INVALID_ARG, []))"

definition build_command_topic ::
  "bytes \<Rightarrow> provision_config option \<Rightarrow> out_buf option \<Rightarrow> (esp_err \<times> bytes) option" where
  "build_command_topic suffix config out =
     (case (config, out) of
        (Some c, Some (b, n)) \<Rightarrow>
          if n = 0 then Some (ESP_ERR_INVALID_ARG, b) else append_topic (mqtt_base_topic c) suffix b n
      | _ \<Rightarrow> Some (ESP_ERR_INVALID_ARG, []))"

definition mqtt_relay_build_enroll_command_topic ::
  "provision_config option \<Rightarrow> out_buf option \<Rightarrow> (esp_err \<times> bytes) option" where
  "mqtt_relay_build_enroll_command_topic = build_command_topic (cs ''command/enroll'')"

definition mqtt_relay_build_restart_command_topic ::
  "provision_config option \<Rightarrow> out_buf option \<Rightarrow> (esp_err \<times> bytes) option" where
  "mqtt_relay_build_restart_command_topic = build_command_topic (cs ''command/restart'')"

definition build_discovery_topic ::
  "bytes \<Rightarrow> bytes \<Rightarrow> provision_config option \<Rightarrow> out_buf option \<Rightarrow> (esp_err \<times> bytes) option" where
  "build_discovery_topic pre post config out =
     (case (config, out) of
        (Some c, Some (b, n)) \<Rightarrow>
          if n = 0 \<or> \<not> discovery_id_is_safe (Some (mqtt_client_id c)) then Some (ESP_ERR_INVALID_ARG, b)
          else print_to b n (pre @ cstr (mqtt_client_id c) @ post)
      | _ \<Rightarrow> Some (ESP_ERR_INVALID_ARG, []))"

definition mqtt_relay_build_enroll_discovery_topic ::
  "provision_config option \<Rightarrow> out_buf option \<Rightarrow> (esp_err \<times> bytes) option" where
  "mqtt_relay_build_enroll_discovery_topic =
     build_discovery_topic (cs ''homeassistant/button/'') (cs ''/enroll/config'')"

definition mqtt_relay_build_restart_discovery_topic ::
  "provision_config option \<Rightarrow> out_buf option \<Rightarrow> (esp_err \<times> bytes) option" where
  "mqtt_relay_build_restart_discovery_topic =
     build_discovery_topic (cs ''homeassistant/button/'') (cs ''/restart/config'')"

definition mqtt_relay_build_status_discovery_topic ::
  "provision_config option \<Rightarrow> out_buf option \<Rightarrow> (esp_err \<times> bytes) option" where
  "mqtt_relay_build_status_discovery_topic =
     build_discovery_topic (cs ''homeassistant/binary_sensor/'') (cs ''/device_status/config'')"

section \<open>The sensors\<close>

record mqtt_relay_discovery_field =
  df_key :: bytes
  df_name :: bytes
  df_value_template :: bytes

text \<open>The Korean names are UTF-8.\<close>

definition s_focused_sensors :: "mqtt_relay_discovery_field list" where
  "s_focused_sensors = [
     \<lparr>df_key = cs ''notification_title'',
      df_name = [236, 149, 140, 235, 166, 188, 32, 236, 160, 156, 235, 170, 169],
      df_value_template = cs ''{{ (value_json.title | default('' @ [39, 39] @ cs '', true))[:255] }}''\<rparr>,
     \<lparr>df_key = cs ''notification_message'',
      df_name = [236, 149, 140, 235, 166, 188, 32, 235, 130, 180, 236, 154, 169],
      df_value_template = cs ''{{ (value_json.message | default('' @ [39, 39] @ cs '', true))[:255] }}''\<rparr>,
     \<lparr>df_key = cs ''app_name'',
      df_name = [236, 149, 177, 32, 236, 157, 180, 235, 166, 132],
      df_value_template =
        cs ''{{ (value_json.app_name | default(value_json.app_id, true))[:255] }}''\<rparr>]"

definition s_legacy_discovery_keys :: "bytes list" where
  "s_legacy_discovery_keys = map cs [
     ''schema_version'', ''target'', ''device_name'', ''session_id'', ''event'',
     ''event_id'', ''uid'', ''event_flags'', ''silent'', ''important'',
     ''pre_existing'', ''positive_action_available'', ''negative_action_available'',
     ''category_id'', ''category'', ''category_count'', ''app_id'', ''title'',
     ''subtitle'', ''message'', ''message_size'', ''date'', ''complete'', ''truncated'',
     ''error'', ''received_at_ms'', ''relay_id'', ''source'', ''published_at_ms'',
     ''truncated_app_id'', ''truncated_title'', ''truncated_subtitle'',
     ''truncated_message'', ''wifi_ssid'', ''wifi_ip'', ''wifi_rssi'']"

definition mqtt_relay_focused_sensor_count :: nat where
  "mqtt_relay_focused_sensor_count = length s_focused_sensors"

definition mqtt_relay_focused_sensor_key :: "nat \<Rightarrow> bytes option" where
  "mqtt_relay_focused_sensor_key i =
     (if i \<ge> mqtt_relay_focused_sensor_count then None else Some (df_key (s_focused_sensors ! i)))"

definition mqtt_relay_legacy_discovery_count :: nat where
  "mqtt_relay_legacy_discovery_count = length s_legacy_discovery_keys"

definition mqtt_relay_legacy_discovery_key :: "nat \<Rightarrow> bytes option" where
  "mqtt_relay_legacy_discovery_key i =
     (if i \<ge> mqtt_relay_legacy_discovery_count then None else Some (s_legacy_discovery_keys ! i))"

definition mqtt_relay_build_focused_discovery_topic ::
  "provision_config option \<Rightarrow> nat \<Rightarrow> out_buf option \<Rightarrow> (esp_err \<times> bytes) option" where
  "mqtt_relay_build_focused_discovery_topic config i out =
     (if i \<ge> mqtt_relay_focused_sensor_count
      then Some (ESP_ERR_INVALID_ARG, case out of Some (b, _) \<Rightarrow> b | None \<Rightarrow> [])
      else build_discovery_topic (cs ''homeassistant/sensor/'')
             (47 # df_key (s_focused_sensors ! i) @ cs ''/config'') config out)"

definition mqtt_relay_build_legacy_discovery_topic ::
  "provision_config option \<Rightarrow> nat \<Rightarrow> out_buf option \<Rightarrow> (esp_err \<times> bytes) option" where
  "mqtt_relay_build_legacy_discovery_topic config i out =
     (if i \<ge> mqtt_relay_legacy_discovery_count
      then Some (ESP_ERR_INVALID_ARG, case out of Some (b, _) \<Rightarrow> b | None \<Rightarrow> [])
      else build_discovery_topic (cs ''homeassistant/sensor/'')
             (47 # s_legacy_discovery_keys ! i @ cs ''/config'') config out)"

section \<open>Commands\<close>

definition mqtt_relay_is_exact_command ::
  "bytes option \<Rightarrow> bytes \<Rightarrow> bytes option \<Rightarrow> nat \<Rightarrow> bytes option \<Rightarrow> nat \<Rightarrow> nat \<Rightarrow> nat \<Rightarrow> bool \<Rightarrow> bool" where
  "mqtt_relay_is_exact_command expected_topic expected_payload topic topic_len payload payload_len
     total_payload_len current_data_offset retained =
     (case (expected_topic, topic, payload) of
        (Some e, Some t, Some p) \<Rightarrow>
          \<not> retained \<and> current_data_offset = 0 \<and> payload_len = total_payload_len \<and>
          payload_len = length expected_payload \<and>
          topic_len = length (cstr e) \<and> take topic_len t = cstr e \<and>
          take payload_len p = expected_payload
      | _ \<Rightarrow> False)"

definition mqtt_relay_is_enroll_command ::
  "bytes option \<Rightarrow> bytes option \<Rightarrow> nat \<Rightarrow> bytes option \<Rightarrow> nat \<Rightarrow> nat \<Rightarrow> nat \<Rightarrow> bool \<Rightarrow> bool" where
  "mqtt_relay_is_enroll_command e = mqtt_relay_is_exact_command e (cs ''ENROLL'')"

definition mqtt_relay_is_restart_command ::
  "bytes option \<Rightarrow> bytes option \<Rightarrow> nat \<Rightarrow> bytes option \<Rightarrow> nat \<Rightarrow> nat \<Rightarrow> nat \<Rightarrow> bool \<Rightarrow> bool" where
  "mqtt_relay_is_restart_command e = mqtt_relay_is_exact_command e (cs ''RESTART'')"

section \<open>The settings of the MQTT client\<close>

datatype mqtt_transport = MQTT_TRANSPORT_OVER_TCP | MQTT_TRANSPORT_OVER_SSL

text \<open>The fields of \<open>esp_mqtt_client_config_t\<close> the code sets.\<close>

record esp_mqtt_client_config =
  broker_hostname :: bytes
  broker_port :: u16
  broker_transport :: mqtt_transport
  credentials_username :: bytes
  credentials_password :: bytes
  credentials_client_id :: bytes
  verification_certificate :: "bytes option"
  disable_auto_reconnect :: bool
  buffer_size :: nat
  buffer_out_size :: nat
  last_will_topic :: bytes
  last_will_msg :: bytes
  last_will_qos :: nat
  last_will_retain :: bool

definition mqtt_relay_build_client_config ::
  "provision_config option \<Rightarrow> bytes option \<Rightarrow> esp_mqtt_client_config option \<Rightarrow>
   esp_err \<times> esp_mqtt_client_config option" where
  "mqtt_relay_build_client_config config availability_topic out =
     (case (config, availability_topic, out) of
        (Some c, Some topic, Some _) \<Rightarrow>
          if provision_config_validate config = PROVISION_CONFIG_TLS_CA_REQUIRED then (ESP_ERR_INVALID_ARG, out)
          else if provision_config_validate config \<noteq> PROVISION_CONFIG_OK \<or>
            topic_has_publish_wildcard availability_topic
          then (ESP_ERR_INVALID_ARG, out)
          else (ESP_OK, Some \<lparr>
            broker_hostname = mqtt_host c,
            broker_port = mqtt_port c,
            broker_transport = (if mqtt_tls c then MQTT_TRANSPORT_OVER_SSL else MQTT_TRANSPORT_OVER_TCP),
            credentials_username = mqtt_username c,
            credentials_password = mqtt_password c,
            credentials_client_id = mqtt_client_id c,
            verification_certificate = (if mqtt_tls c then Some (mqtt_ca c) else None),
            disable_auto_reconnect = True,
            buffer_size = 2048,
            buffer_out_size = 2048,
            last_will_topic = topic,
            last_will_msg = cs ''offline'',
            last_will_qos = 1,
            last_will_retain = True\<rparr>)
      | _ \<Rightarrow> (ESP_ERR_INVALID_ARG, out))"

end
