(* ===== verification/Mqtt_Payloads.thy ===== *)
theory Mqtt_Payloads
  imports Mqtt_Discovery
begin

text \<open>
  The Home Assistant discovery payloads of \<^verbatim>\<open>components/mqtt_relay/mqtt_relay.c\<close>, and that each of
  them is the JSON object Home Assistant expects whatever the settings contain. The code writes a
  payload piece by piece and stops at the first error; here the pieces are the fragments of
  \<open>Mqtt_Json\<close>.
\<close>

section \<open>Pieces shared by the payloads\<close>

text \<open>The buffer is written from its start.\<close>

definition json_start :: "bytes \<Rightarrow> nat \<Rightarrow> json_out" where
  "json_start out out_size = \<lparr>jo_err = ESP_OK, jo_buf = out, jo_cursor = 0, jo_remaining = out_size\<rparr>"

text \<open>
  \<open>snprintf\<close> into a local buffer of a size, with the check of its result. Only the text of the buffer
  is used later.
\<close>

definition print_local :: "nat \<Rightarrow> bytes \<Rightarrow> bytes option" where
  "print_local capacity txt = (if length txt \<ge> capacity then None else Some txt)"

definition device_fragments :: "provision_config \<Rightarrow> mqtt_relay_device_info \<Rightarrow> fragment list" where
  "device_fragments c d = [
     Lit (cs '',\"device\":{\"identifiers\":[''), Str (mqtt_client_id c),
     Lit (cs ''],\"name\":''), Str (mqtt_client_id c),
     Lit (cs '',\"manufacturer\":''), Str (di_manufacturer d),
     Lit (cs '',\"model\":''), Str (di_model d),
     Lit (cs '',\"sw_version\":''), Str (di_sw_version d),
     Lit (cs '',\"hw_version\":''), Str (di_hw_version d),
     Lit (cs ''}'')]"

definition append_device_json ::
  "provision_config option \<Rightarrow> mqtt_relay_device_info option \<Rightarrow> json_out \<Rightarrow> json_out option" where
  "append_device_json config device_info w =
    (if jo_err w \<noteq> ESP_OK then Some w
     else case (config, device_info) of
       (Some c, Some d) \<Rightarrow>
         if \<not> discovery_id_is_safe (Some (mqtt_client_id c)) \<or> \<not> device_info_is_valid device_info
         then Some (w\<lparr>jo_err := ESP_ERR_INVALID_ARG\<rparr>)
         else write_fragments (device_fragments c d) w
     | _ \<Rightarrow> Some (w\<lparr>jo_err := ESP_ERR_INVALID_ARG\<rparr>))"

text \<open>A payload: its own members, the device, the closing brace.\<close>

definition write_entity ::
  "fragment list \<Rightarrow> provision_config \<Rightarrow> mqtt_relay_device_info \<Rightarrow> out_buf \<Rightarrow> (esp_err \<times> bytes) option" where
  "write_entity head c d out = do {
     w \<leftarrow> write_fragments head (json_start (fst out) (snd out));
     w \<leftarrow> append_device_json (Some c) (Some d) w;
     w \<leftarrow> write_fragments [Lit (cs ''}'')] w;
     Some (jo_err w, jo_buf w)
   }"

text \<open>The check of the arguments all payloads start with.\<close>

definition payload_arguments_valid ::
  "provision_config option \<Rightarrow> mqtt_relay_device_info option \<Rightarrow> bytes option \<Rightarrow> bytes option \<Rightarrow>
   out_buf option \<Rightarrow> bool" where
  "payload_arguments_valid config device_info topic availability_topic out =
    (case (config, topic, availability_topic, out) of
       (Some c, Some _, Some _, Some (_, n)) \<Rightarrow>
         n \<noteq> 0 \<and> discovery_id_is_safe (Some (mqtt_client_id c)) \<and> device_info_is_valid device_info \<and>
         \<not> topic_has_publish_wildcard topic \<and> \<not> topic_has_publish_wildcard availability_topic
     | _ \<Rightarrow> False)"

section \<open>Buttons\<close>

text \<open>\<open>iPhone\<close> enrollment and restart, the names in Korean.\<close>

definition ENROLL_NAME :: bytes where
  "ENROLL_NAME = cs ''iPhone '' @
     [235, 147, 177, 235, 161, 157, 32, 236, 139, 156, 236, 158, 145]"

definition RESTART_NAME :: bytes where
  "RESTART_NAME = [236, 158, 165, 236, 185, 152, 32, 236, 158, 172, 236, 139, 156, 236, 158, 145]"

definition button_fragments ::
  "bytes \<Rightarrow> bytes \<Rightarrow> bytes \<Rightarrow> bytes \<Rightarrow> bytes \<Rightarrow> bytes \<Rightarrow> bytes \<Rightarrow> fragment list" where
  "button_fragments name unique_id default_entity_id command_topic press availability_topic icon = [
     Lit (cs ''{\"name\":''), Str name,
     Lit (cs '',\"unique_id\":''), Str unique_id,
     Lit (cs '',\"default_entity_id\":''), Str default_entity_id,
     Lit (cs '',\"command_topic\":''), Str command_topic,
     Lit (cs '',\"payload_press\":\"'' @ press @ cs ''\",\"availability_topic\":''), Str availability_topic,
     Lit (cs '',\"payload_available\":\"online\",\"payload_not_available\":\"offline\"'' @
          cs '',\"qos\":1,\"retain\":false,\"entity_category\":\"config\"'' @
          cs '',\"icon\":\"'' @ icon @ cs ''\"'')]"

definition mqtt_relay_build_enroll_discovery_payload ::
  "provision_config option \<Rightarrow> mqtt_relay_device_info option \<Rightarrow> bytes option \<Rightarrow> bytes option \<Rightarrow>
   out_buf option \<Rightarrow> (esp_err \<times> bytes) option" where
  "mqtt_relay_build_enroll_discovery_payload config device_info command_topic availability_topic out =
    (case (config, device_info, command_topic, availability_topic, out) of
       (Some c, Some d, Some command, Some availability, Some b) \<Rightarrow>
         if \<not> payload_arguments_valid config device_info command_topic availability_topic out
         then Some (ESP_ERR_INVALID_ARG, fst b)
         else (case print_local (PROVISION_MQTT_CLIENT_ID_MAX + 16) (cstr (mqtt_client_id c) @ cs ''_enroll'') of
           None \<Rightarrow> Some (ESP_ERR_INVALID_SIZE, fst b)
         | Some unique_id \<Rightarrow>
             (case print_local (PROVISION_MQTT_CLIENT_ID_MAX + 24) (cs ''button.'' @ unique_id) of
               None \<Rightarrow> Some (ESP_ERR_INVALID_SIZE, fst b)
             | Some default_entity_id \<Rightarrow>
                 write_entity (button_fragments ENROLL_NAME unique_id default_entity_id command (cs ''ENROLL'')
                   availability (cs ''mdi:bluetooth-connect'')) c d b))
     | _ \<Rightarrow> Some (ESP_ERR_INVALID_ARG, case out of Some b \<Rightarrow> fst b | None \<Rightarrow> []))"

definition mqtt_relay_build_restart_discovery_payload ::
  "provision_config option \<Rightarrow> mqtt_relay_device_info option \<Rightarrow> bytes option \<Rightarrow> bytes option \<Rightarrow>
   out_buf option \<Rightarrow> (esp_err \<times> bytes) option" where
  "mqtt_relay_build_restart_discovery_payload config device_info command_topic availability_topic out =
    (case (config, device_info, command_topic, availability_topic, out) of
       (Some c, Some d, Some command, Some availability, Some b) \<Rightarrow>
         if \<not> payload_arguments_valid config device_info command_topic availability_topic out
         then Some (ESP_ERR_INVALID_ARG, fst b)
         else (case print_local (PROVISION_MQTT_CLIENT_ID_MAX + 16) (cstr (mqtt_client_id c) @ cs ''_restart'') of
           None \<Rightarrow> Some (ESP_ERR_INVALID_SIZE, fst b)
         | Some unique_id \<Rightarrow>
             (case print_local (PROVISION_MQTT_CLIENT_ID_MAX + 24) (cs ''button.'' @ unique_id) of
               None \<Rightarrow> Some (ESP_ERR_INVALID_SIZE, fst b)
             | Some default_entity_id \<Rightarrow>
                 write_entity (button_fragments RESTART_NAME unique_id default_entity_id command (cs ''RESTART'')
                   availability (cs ''mdi:restart'')) c d b))
     | _ \<Rightarrow> Some (ESP_ERR_INVALID_ARG, case out of Some b \<Rightarrow> fst b | None \<Rightarrow> []))"

section \<open>Sensors\<close>

definition LAST_NOTIFICATION_NAME :: bytes where
  "LAST_NOTIFICATION_NAME = [236, 181, 156, 234, 183, 188, 32, 236, 149, 140, 235, 166, 188]"

definition STATUS_NAME :: bytes where
  "STATUS_NAME = [236, 158, 165, 236, 185, 152, 32, 236, 131, 129, 237, 131, 156]"

definition last_notification_fragments :: "bytes \<Rightarrow> bytes \<Rightarrow> bytes \<Rightarrow> fragment list" where
  "last_notification_fragments unique_id notification_topic availability_topic = [
     Lit (cs ''{\"name\":''), Str LAST_NOTIFICATION_NAME,
     Lit (cs '',\"unique_id\":''), Str unique_id,
     Lit (cs '',\"object_id\":''), Str unique_id,
     Lit (cs '',\"state_topic\":''), Str notification_topic,
     Lit (cs '',\"value_template\":\"{{ value_json.relay_id }}\"'' @ cs '',\"json_attributes_topic\":''),
     Str notification_topic,
     Lit (cs '',\"availability_topic\":''), Str availability_topic,
     Lit (cs '',\"payload_available\":\"online\",\"payload_not_available\":\"offline\"'')]"

definition mqtt_relay_build_discovery_payload ::
  "provision_config option \<Rightarrow> mqtt_relay_device_info option \<Rightarrow> bytes option \<Rightarrow> bytes option \<Rightarrow>
   out_buf option \<Rightarrow> (esp_err \<times> bytes) option" where
  "mqtt_relay_build_discovery_payload config device_info notification_topic availability_topic out =
    (case (config, device_info, notification_topic, availability_topic, out) of
       (Some c, Some d, Some notification, Some availability, Some b) \<Rightarrow>
         if \<not> payload_arguments_valid config device_info notification_topic availability_topic out
         then Some (ESP_ERR_INVALID_ARG, fst b)
         else (case print_local (PROVISION_MQTT_CLIENT_ID_MAX + 32)
                 (cstr (mqtt_client_id c) @ cs ''_last_notification'') of
           None \<Rightarrow> Some (ESP_ERR_INVALID_SIZE, fst b)
         | Some unique_id \<Rightarrow> write_entity (last_notification_fragments unique_id notification availability) c d b)
     | _ \<Rightarrow> Some (ESP_ERR_INVALID_ARG, case out of Some b \<Rightarrow> fst b | None \<Rightarrow> []))"

definition focused_fragments ::
  "mqtt_relay_discovery_field \<Rightarrow> bytes \<Rightarrow> bytes \<Rightarrow> bytes \<Rightarrow> fragment list" where
  "focused_fragments field unique_id notification_topic availability_topic = [
     Lit (cs ''{\"name\":''), Str (df_name field),
     Lit (cs '',\"unique_id\":''), Str unique_id,
     Lit (cs '',\"object_id\":''), Str unique_id,
     Lit (cs '',\"state_topic\":''), Str notification_topic,
     Lit (cs '',\"value_template\":''), Str (df_value_template field),
     Lit (cs '',\"availability_topic\":''), Str availability_topic,
     Lit (cs '',\"payload_available\":\"online\",\"payload_not_available\":\"offline\"'')]"

definition mqtt_relay_build_focused_discovery_payload ::
  "provision_config option \<Rightarrow> mqtt_relay_device_info option \<Rightarrow> bytes option \<Rightarrow> bytes option \<Rightarrow> nat \<Rightarrow>
   out_buf option \<Rightarrow> (esp_err \<times> bytes) option" where
  "mqtt_relay_build_focused_discovery_payload config device_info notification_topic availability_topic i out =
    (case (config, device_info, notification_topic, availability_topic, out) of
       (Some c, Some d, Some notification, Some availability, Some b) \<Rightarrow>
         if i \<ge> mqtt_relay_focused_sensor_count \<or>
           \<not> payload_arguments_valid config device_info notification_topic availability_topic out
         then Some (ESP_ERR_INVALID_ARG, fst b)
         else let field = s_focused_sensors ! i in
           (case print_local (PROVISION_MQTT_CLIENT_ID_MAX + 32)
                   (cstr (mqtt_client_id c) @ 95 # df_key field) of
             None \<Rightarrow> Some (ESP_ERR_INVALID_SIZE, fst b)
           | Some unique_id \<Rightarrow> write_entity (focused_fragments field unique_id notification availability) c d b)
     | _ \<Rightarrow> Some (ESP_ERR_INVALID_ARG, case out of Some b \<Rightarrow> fst b | None \<Rightarrow> []))"

definition status_fragments :: "bytes \<Rightarrow> bytes \<Rightarrow> bytes \<Rightarrow> fragment list" where
  "status_fragments unique_id state_topic availability_topic = [
     Lit (cs ''{\"name\":''), Str STATUS_NAME,
     Lit (cs '',\"unique_id\":''), Str unique_id,
     Lit (cs '',\"object_id\":''), Str unique_id,
     Lit (cs '',\"state_topic\":''), Str state_topic,
     Lit (cs '',\"value_template\":\"{{ '' @ 39 # cs ''ON'' @ 39 # cs '' if value_json.ready else '' @
          39 # cs ''OFF'' @ 39 # cs '' }}\"'' @ cs '',\"json_attributes_topic\":''),
     Str state_topic,
     Lit (cs '',\"availability_topic\":''), Str availability_topic,
     Lit (cs '',\"payload_available\":\"online\",\"payload_not_available\":\"offline\"'' @
          cs '',\"device_class\":\"connectivity\"'' @ cs '',\"entity_category\":\"diagnostic\"'')]"

definition mqtt_relay_build_status_discovery_payload ::
  "provision_config option \<Rightarrow> mqtt_relay_device_info option \<Rightarrow> bytes option \<Rightarrow> bytes option \<Rightarrow>
   out_buf option \<Rightarrow> (esp_err \<times> bytes) option" where
  "mqtt_relay_build_status_discovery_payload config device_info state_topic availability_topic out =
    (case (config, device_info, state_topic, availability_topic, out) of
       (Some c, Some d, Some state, Some availability, Some b) \<Rightarrow>
         if \<not> payload_arguments_valid config device_info state_topic availability_topic out
         then Some (ESP_ERR_INVALID_ARG, fst b)
         else (case print_local (PROVISION_MQTT_CLIENT_ID_MAX + 32)
                 (cstr (mqtt_client_id c) @ cs ''_device_status'') of
           None \<Rightarrow> Some (ESP_ERR_INVALID_SIZE, fst b)
         | Some unique_id \<Rightarrow> write_entity (status_fragments unique_id state availability) c d b)
     | _ \<Rightarrow> Some (ESP_ERR_INVALID_ARG, case out of Some b \<Rightarrow> fst b | None \<Rightarrow> []))"

section \<open>What is written\<close>

lemma write_fragments_failed: "jo_err w \<noteq> ESP_OK \<Longrightarrow> write_fragments fs w = Some w"
proof (induction fs)
  case (Cons f fs)
  have "puts json_print ts w = Some w" for ts
    using Cons.prems by (induction ts) (simp_all add: json_print_def)
  with Cons show ?case
    by (cases f) (simp_all add: json_write_literal_def json_write_string_def json_print_def Let_def)
qed simp

lemma write_fragments_append:
  "write_fragments (fs @ gs) w = do { w \<leftarrow> write_fragments fs w; write_fragments gs w }"
proof (induction fs arbitrary: w)
  case (Cons f fs)
  then show ?case by (cases f) (auto split: bind_splits)
qed simp

definition entity_text :: "fragment list \<Rightarrow> provision_config \<Rightarrow> mqtt_relay_device_info \<Rightarrow> bytes" where
  "entity_text head c d = payload_text (head @ device_fragments c d @ [Lit (cs ''}'')])"

lemma write_entity_spec:
  assumes "discovery_id_is_safe (Some (mqtt_client_id c))" "device_info_is_valid (Some d)"
    "0 < n" "n \<le> length out"
  shows "\<exists>out'. write_entity head c d (out, n) =
      Some (if length (entity_text head c d) < n then ESP_OK else ESP_ERR_INVALID_SIZE, out') \<and>
    (length (entity_text head c d) < n \<longrightarrow>
      take (length (entity_text head c d) + 1) out' = entity_text head c d @ [0])"
proof -
  have "append_device_json (Some c) (Some d) w = write_fragments (device_fragments c d) w" for w
    using assms(1,2) write_fragments_failed by (simp add: append_device_json_def)
  then have "write_entity head c d (out, n) =
      write_payload (head @ device_fragments c d @ [Lit (cs ''}'')]) out n"
    by (simp add: write_entity_def write_payload_def json_start_def write_fragments_append bind_assoc)
  moreover have "entity_text head c d \<noteq> []" by (simp add: entity_text_def)
  ultimately show ?thesis
    using write_payload_spec [OF assms(3,4)] unfolding entity_text_def by metis
qed

text \<open>The object a payload stands for.\<close>

definition device_json :: "provision_config \<Rightarrow> mqtt_relay_device_info \<Rightarrow> json" where
  "device_json c d = JObj [
     (cs ''identifiers'', JArr [JStr (cstr (mqtt_client_id c))]),
     (cs ''name'', JStr (cstr (mqtt_client_id c))),
     (cs ''manufacturer'', JStr (cstr (di_manufacturer d))),
     (cs ''model'', JStr (cstr (di_model d))),
     (cs ''sw_version'', JStr (cstr (di_sw_version d))),
     (cs ''hw_version'', JStr (cstr (di_hw_version d)))]"

definition device_text :: "provision_config \<Rightarrow> mqtt_relay_device_info \<Rightarrow> bytes" where
  "device_text c d = object_text [
     (cs ''identifiers'', array_text [quoted (escaped (cstr (mqtt_client_id c)))]),
     (cs ''name'', quoted (escaped (cstr (mqtt_client_id c)))),
     (cs ''manufacturer'', quoted (escaped (cstr (di_manufacturer d)))),
     (cs ''model'', quoted (escaped (cstr (di_model d)))),
     (cs ''sw_version'', quoted (escaped (cstr (di_sw_version d)))),
     (cs ''hw_version'', quoted (escaped (cstr (di_hw_version d))))]"

lemma device_fragments_text:
  "payload_text (device_fragments c d) = cs '',\"device\":'' @ device_text c d"
  by (simp add: device_fragments_def device_text_def object_text_def member_text_def array_text_def quoted_def)

lemma reads_identifiers: "reads (JArr [JStr (cstr s)]) (array_text [quoted (escaped (cstr s))])"
  by (intro reads_array1 reads_field) (simp_all add: quoted_def)

lemma reads_device: "reads (device_json c d) (device_text c d)"
  unfolding device_json_def device_text_def
  by (intro reads_object) (simp_all add: reads_member_def plain_def reads_identifiers reads_field)

abbreviation field_text :: "string \<Rightarrow> bytes \<Rightarrow> bytes \<times> bytes" where
  "field_text k s \<equiv> (cs k, quoted (escaped (cstr s)))"

abbreviation string_member :: "string \<Rightarrow> bytes \<Rightarrow> bytes \<times> json" where
  "string_member k s \<equiv> (cs k, JStr (cstr s))"

definition button_json ::
  "bytes \<Rightarrow> bytes \<Rightarrow> bytes \<Rightarrow> bytes \<Rightarrow> bytes \<Rightarrow> bytes \<Rightarrow> bytes \<Rightarrow> json \<Rightarrow> json" where
  "button_json name unique_id default_entity_id command_topic press availability_topic icon device = JObj [
     string_member ''name'' name, string_member ''unique_id'' unique_id,
     string_member ''default_entity_id'' default_entity_id, string_member ''command_topic'' command_topic,
     (cs ''payload_press'', JStr press), string_member ''availability_topic'' availability_topic,
     (cs ''payload_available'', JStr (cs ''online'')), (cs ''payload_not_available'', JStr (cs ''offline'')),
     (cs ''qos'', JNum 1), (cs ''retain'', JBool False), (cs ''entity_category'', JStr (cs ''config'')),
     (cs ''icon'', JStr icon), (cs ''device'', device)]"

definition button_text ::
  "bytes \<Rightarrow> bytes \<Rightarrow> bytes \<Rightarrow> bytes \<Rightarrow> bytes \<Rightarrow> bytes \<Rightarrow> bytes \<Rightarrow> bytes \<Rightarrow> bytes" where
  "button_text name unique_id default_entity_id command_topic press availability_topic icon device = object_text [
     field_text ''name'' name, field_text ''unique_id'' unique_id,
     field_text ''default_entity_id'' default_entity_id, field_text ''command_topic'' command_topic,
     (cs ''payload_press'', quoted press), field_text ''availability_topic'' availability_topic,
     (cs ''payload_available'', quoted (cs ''online'')), (cs ''payload_not_available'', quoted (cs ''offline'')),
     (cs ''qos'', dec 1), (cs ''retain'', bool_text False), (cs ''entity_category'', quoted (cs ''config'')),
     (cs ''icon'', quoted icon), (cs ''device'', device)]"

lemma button_fragments_text:
  "entity_text (button_fragments name u e command press availability icon) c d =
     button_text name u e command press availability icon (device_text c d)"
  by (simp add: entity_text_def device_fragments_text button_fragments_def button_text_def object_text_def
      member_text_def quoted_def dec.simps bool_text_def)

lemma reads_button:
  assumes "plain press" "plain icon" "reads dj dt"
  shows "reads (button_json name u e command press availability icon dj)
    (button_text name u e command press availability icon dt)"
  unfolding button_json_def button_text_def
  using assms
  by (intro reads_object)
    (simp_all add: reads_member_def plain_def reads_plain reads_field reads_one reads_bool)

definition sensor_json ::
  "bytes \<Rightarrow> bytes \<Rightarrow> bytes \<Rightarrow> bytes \<Rightarrow> bool \<Rightarrow> bytes \<Rightarrow> (bytes \<times> bytes) list \<Rightarrow> json \<Rightarrow> json" where
  "sensor_json name unique_id state_topic template attributes availability_topic extra device = JObj (
     [string_member ''name'' name, string_member ''unique_id'' unique_id, string_member ''object_id'' unique_id,
      string_member ''state_topic'' state_topic, (cs ''value_template'', JStr template)] @
     (if attributes then [string_member ''json_attributes_topic'' state_topic] else []) @
     [string_member ''availability_topic'' availability_topic,
      (cs ''payload_available'', JStr (cs ''online'')), (cs ''payload_not_available'', JStr (cs ''offline''))] @
     map (\<lambda>(k, v). (k, JStr v)) extra @ [(cs ''device'', device)])"

definition sensor_text ::
  "bytes \<Rightarrow> bytes \<Rightarrow> bytes \<Rightarrow> bytes \<Rightarrow> bool \<Rightarrow> bytes \<Rightarrow> (bytes \<times> bytes) list \<Rightarrow> bytes \<Rightarrow> bytes" where
  "sensor_text name unique_id state_topic template attributes availability_topic extra device = object_text (
     [field_text ''name'' name, field_text ''unique_id'' unique_id, field_text ''object_id'' unique_id,
      field_text ''state_topic'' state_topic, (cs ''value_template'', quoted template)] @
     (if attributes then [field_text ''json_attributes_topic'' state_topic] else []) @
     [field_text ''availability_topic'' availability_topic,
      (cs ''payload_available'', quoted (cs ''online'')), (cs ''payload_not_available'', quoted (cs ''offline''))] @
     map (\<lambda>(k, v). (k, quoted v)) extra @ [(cs ''device'', device)])"

lemma reads_sensor:
  assumes "reads_string template template_text" "reads dj dt" "list_all (\<lambda>(k, v). plain k \<and> plain v) extra"
  shows "reads (sensor_json name u state template attributes availability extra dj)
    (sensor_text name u state template_text attributes availability extra dt)"
proof -
  have "list_all2 reads_member (map (\<lambda>(k, v). (k, JStr v)) extra) (map (\<lambda>(k, v). (k, quoted v)) extra)"
    using assms(3) by (induction extra) (auto simp: reads_member_def reads_plain)
  with assms(1,2) show ?thesis
    unfolding sensor_json_def sensor_text_def
    by (intro reads_object)
      (simp_all add: list_all2_appendI reads_member_def plain_def reads_plain reads_field reads_quoted)
qed

definition RELAY_ID_TEMPLATE :: bytes where
  "RELAY_ID_TEMPLATE = cs ''{{ value_json.relay_id }}''"

definition READY_TEMPLATE :: bytes where
  "READY_TEMPLATE = cs ''{{ '' @ 39 # cs ''ON'' @ 39 # cs '' if value_json.ready else '' @
     39 # cs ''OFF'' @ 39 # cs '' }}''"

definition status_extra :: "(bytes \<times> bytes) list" where
  "status_extra = [(cs ''device_class'', cs ''connectivity''), (cs ''entity_category'', cs ''diagnostic'')]"

lemma last_notification_text:
  "entity_text (last_notification_fragments u state availability) c d =
     sensor_text LAST_NOTIFICATION_NAME u state RELAY_ID_TEMPLATE True availability [] (device_text c d)"
  by (simp add: entity_text_def device_fragments_text last_notification_fragments_def sensor_text_def
      object_text_def member_text_def quoted_def RELAY_ID_TEMPLATE_def)

lemma focused_text:
  "entity_text (focused_fragments f u state availability) c d =
     sensor_text (df_name f) u state (escaped (cstr (df_value_template f))) False availability [] (device_text c d)"
  by (simp add: entity_text_def device_fragments_text focused_fragments_def sensor_text_def
      object_text_def member_text_def quoted_def)

lemma status_text:
  "entity_text (status_fragments u state availability) c d =
     sensor_text STATUS_NAME u state READY_TEMPLATE True availability status_extra (device_text c d)"
  by (simp add: entity_text_def device_fragments_text status_fragments_def sensor_text_def
      object_text_def member_text_def quoted_def READY_TEMPLATE_def status_extra_def)

text \<open>A text without NUL is what the terminated buffer holds.\<close>

definition literals_nonzero :: "fragment list \<Rightarrow> bool" where
  "literals_nonzero fs \<longleftrightarrow> list_all (\<lambda>f. case f of Lit l \<Rightarrow> 0 \<notin> set l | Str s \<Rightarrow> True) fs"

lemma literals_nonzero_simps [simp]:
  "literals_nonzero []"
  "literals_nonzero (Lit l # fs) \<longleftrightarrow> 0 \<notin> set l \<and> literals_nonzero fs"
  "literals_nonzero (Str s # fs) \<longleftrightarrow> literals_nonzero fs"
  "literals_nonzero (fs @ gs) \<longleftrightarrow> literals_nonzero fs \<and> literals_nonzero gs"
  by (simp_all add: literals_nonzero_def)

lemma payload_text_nonzero:
  "literals_nonzero fs \<Longrightarrow> 0 \<notin> set (payload_text fs)"
proof (induction fs)
  case (Cons f fs)
  then show ?case
    using escaped_nonzero [OF cstr_no_nul] by (cases f) (auto simp: quoted_def)
qed simp

lemma cstr_of_payload: "take (length t + 1) out = t @ [0] \<Longrightarrow> 0 \<notin> set t \<Longrightarrow> cstr out = t"
  by (metis append.assoc append_Cons append_take_drop_id cstr_append_nul)

text \<open>A builder delivers a value: its text is left in the buffer when there is room for it.\<close>

definition delivers :: "(esp_err \<times> bytes) option \<Rightarrow> nat \<Rightarrow> json \<Rightarrow> bool" where
  "delivers r n j \<longleftrightarrow> (\<exists>t out. parse_json t = Some j \<and>
     r = Some (if length t < n then ESP_OK else ESP_ERR_INVALID_SIZE, out) \<and>
     (length t < n \<longrightarrow> cstr out = t))"

lemma write_entity_delivers:
  assumes "discovery_id_is_safe (Some (mqtt_client_id c))" "device_info_is_valid (Some d)"
    "0 < n" "n \<le> length out" "reads j (entity_text head c d)"
    "literals_nonzero head"
  shows "delivers (write_entity head c d (out, n)) n j"
proof -
  have "0 \<notin> set (entity_text head c d)"
    unfolding entity_text_def using assms(6)
    by (intro payload_text_nonzero) (simp add: device_fragments_def)
  then show ?thesis
    using write_entity_spec [OF assms(1-4), of head] reads_jsonI [OF assms(5)] cstr_of_payload
    unfolding delivers_def by (metis (no_types, lifting))
qed

section \<open>Properties\<close>

lemma discovery_id_chars:
  assumes "discovery_id_is_safe (Some v)"
  shows "plain (cstr v)" "cstr v \<noteq> []"
  using assms by (auto simp: discovery_id_is_safe_def plain_def list_all_iff isalnum_def word_le_nat_alt)

lemma print_local_fits: "length txt < capacity \<Longrightarrow> print_local capacity txt = Some txt"
  by (simp add: print_local_def)

text \<open>What the builders need: a usable client id, device information and topics, and the buffer.\<close>

definition discovery_ready ::
  "provision_config \<Rightarrow> mqtt_relay_device_info \<Rightarrow> bytes \<Rightarrow> bytes \<Rightarrow> bytes \<Rightarrow> nat \<Rightarrow> bool" where
  "discovery_ready c d topic availability out n \<longleftrightarrow>
     payload_arguments_valid (Some c) (Some d) (Some topic) (Some availability) (Some (out, n)) \<and>
     string_field_valid (mqtt_client_id c) PROVISION_MQTT_CLIENT_ID_MAX \<and> n \<le> length out"

lemma discovery_readyD:
  assumes "discovery_ready c d topic availability out n"
  shows "discovery_id_is_safe (Some (mqtt_client_id c))" "device_info_is_valid (Some d)" "0 < n"
    "n \<le> length out" "length (cstr (mqtt_client_id c)) \<le> 64"
    "payload_arguments_valid (Some c) (Some d) (Some topic) (Some availability) (Some (out, n))"
  using assms
  by (simp_all add: discovery_ready_def payload_arguments_valid_def string_field_valid_def bounded_strlen_def
      strnlen_eq PROVISION_MQTT_CLIENT_ID_MAX_def min_le_iff_disj)

lemma enroll_payload_delivers:
  assumes "discovery_ready c d topic availability out n"
  shows "mqtt_relay_build_enroll_discovery_payload (Some c) (Some d) (Some topic) (Some availability) (Some (out, n)) =
    write_entity (button_fragments ENROLL_NAME (cstr (mqtt_client_id c) @ cs ''_enroll'')
      (cs ''button.'' @ cstr (mqtt_client_id c) @ cs ''_enroll'') topic (cs ''ENROLL'') availability
      (cs ''mdi:bluetooth-connect'')) c d (out, n)"
  using discovery_readyD [OF assms]
  by (simp add: mqtt_relay_build_enroll_discovery_payload_def print_local_fits PROVISION_MQTT_CLIENT_ID_MAX_def)

lemma restart_payload_delivers:
  assumes "discovery_ready c d topic availability out n"
  shows "mqtt_relay_build_restart_discovery_payload (Some c) (Some d) (Some topic) (Some availability) (Some (out, n)) =
    write_entity (button_fragments RESTART_NAME (cstr (mqtt_client_id c) @ cs ''_restart'')
      (cs ''button.'' @ cstr (mqtt_client_id c) @ cs ''_restart'') topic (cs ''RESTART'') availability
      (cs ''mdi:restart'')) c d (out, n)"
  using discovery_readyD [OF assms]
  by (simp add: mqtt_relay_build_restart_discovery_payload_def print_local_fits PROVISION_MQTT_CLIENT_ID_MAX_def)

lemma last_notification_payload_delivers:
  assumes "discovery_ready c d topic availability out n"
  shows "mqtt_relay_build_discovery_payload (Some c) (Some d) (Some topic) (Some availability) (Some (out, n)) =
    write_entity (last_notification_fragments (cstr (mqtt_client_id c) @ cs ''_last_notification'')
      topic availability) c d (out, n)"
  using discovery_readyD [OF assms]
  by (simp add: mqtt_relay_build_discovery_payload_def print_local_fits PROVISION_MQTT_CLIENT_ID_MAX_def)

lemma status_payload_delivers:
  assumes "discovery_ready c d topic availability out n"
  shows "mqtt_relay_build_status_discovery_payload (Some c) (Some d) (Some topic) (Some availability) (Some (out, n)) =
    write_entity (status_fragments (cstr (mqtt_client_id c) @ cs ''_device_status'')
      topic availability) c d (out, n)"
  using discovery_readyD [OF assms]
  by (simp add: mqtt_relay_build_status_discovery_payload_def print_local_fits PROVISION_MQTT_CLIENT_ID_MAX_def)

lemma focused_sensors_cases:
  "i < mqtt_relay_focused_sensor_count \<Longrightarrow> i = 0 \<or> i = 1 \<or> i = 2"
  by (auto simp: mqtt_relay_focused_sensor_count_def s_focused_sensors_def)

lemma focused_sensor_sizes:
  assumes "i < mqtt_relay_focused_sensor_count"
  shows "length (df_key (s_focused_sensors ! i)) \<le> 20" "length (df_name (s_focused_sensors ! i)) \<le> 13"
    "length (cstr (df_value_template (s_focused_sensors ! i))) \<le> 70"
    "plain (cstr (df_value_template (s_focused_sensors ! i)))" "plain (cstr (df_name (s_focused_sensors ! i)))"
    "0 \<notin> set (df_key (s_focused_sensors ! i))"
  using focused_sensors_cases [OF assms] by (auto simp: s_focused_sensors_def plain_def)

lemma focused_payload_delivers:
  assumes "discovery_ready c d topic availability out n" "i < mqtt_relay_focused_sensor_count"
  shows "mqtt_relay_build_focused_discovery_payload (Some c) (Some d) (Some topic) (Some availability) i
      (Some (out, n)) =
    write_entity (focused_fragments (s_focused_sensors ! i)
      (cstr (mqtt_client_id c) @ 95 # df_key (s_focused_sensors ! i)) topic availability) c d (out, n)"
  using discovery_readyD [OF assms(1)] assms(2) focused_sensor_sizes(1) [OF assms(2)]
  by (simp add: mqtt_relay_build_focused_discovery_payload_def print_local_fits PROVISION_MQTT_CLIENT_ID_MAX_def
      Let_def)

text \<open>The payloads as values.\<close>

lemma cs_nonzero: "0 \<notin> set (cs s) \<longleftrightarrow> CHR 0x00 \<notin> set s"
  by (induction s) auto

lemma reads_last_notification:
  "reads (sensor_json LAST_NOTIFICATION_NAME u s RELAY_ID_TEMPLATE True a [] (device_json c d))
     (entity_text (last_notification_fragments u s a) c d)"
  unfolding last_notification_text
  by (intro reads_sensor reads_device reads_string_plain) (simp_all add: plain_def RELAY_ID_TEMPLATE_def)

lemma reads_status:
  "reads (sensor_json STATUS_NAME u s READY_TEMPLATE True a status_extra (device_json c d))
     (entity_text (status_fragments u s a) c d)"
  unfolding status_text
  by (intro reads_sensor reads_device reads_string_plain)
    (simp_all add: plain_def READY_TEMPLATE_def status_extra_def)

lemma reads_focused:
  "reads (sensor_json (df_name f) u s (cstr (df_value_template f)) False a [] (device_json c d))
     (entity_text (focused_fragments f u s a) c d)"
  unfolding focused_text by (intro reads_sensor reads_device reads_escaped) (simp_all add: cstr_no_nul)

lemma reads_button_entity:
  assumes "plain press" "plain icon"
  shows "reads (button_json name u e s press a icon (device_json c d))
     (entity_text (button_fragments name u e s press a icon) c d)"
  unfolding button_fragments_text using assms by (intro reads_button reads_device)

lemma heads_nonzero:
  "literals_nonzero (last_notification_fragments u s a)"
  "literals_nonzero (status_fragments u s a)"
  "literals_nonzero (focused_fragments f u s a)"
  "0 \<notin> set press \<Longrightarrow> 0 \<notin> set icon \<Longrightarrow> literals_nonzero (button_fragments name u e s press a icon)"
  by (simp_all add: last_notification_fragments_def status_fragments_def focused_fragments_def
      button_fragments_def)

text \<open>The five builders, with what a reader makes of their texts.\<close>

lemma payloads_deliver:
  assumes ready: "discovery_ready c d topic availability out n" and i: "i < mqtt_relay_focused_sensor_count"
  shows
    "delivers (mqtt_relay_build_discovery_payload (Some c) (Some d) (Some topic) (Some availability) (Some (out, n))) n
       (sensor_json LAST_NOTIFICATION_NAME (cstr (mqtt_client_id c) @ cs ''_last_notification'') topic
         RELAY_ID_TEMPLATE True availability [] (device_json c d)) \<and>
     delivers (mqtt_relay_build_status_discovery_payload (Some c) (Some d) (Some topic) (Some availability)
         (Some (out, n))) n
       (sensor_json STATUS_NAME (cstr (mqtt_client_id c) @ cs ''_device_status'') topic
         READY_TEMPLATE True availability status_extra (device_json c d)) \<and>
     delivers (mqtt_relay_build_focused_discovery_payload (Some c) (Some d) (Some topic) (Some availability) i
         (Some (out, n))) n
       (sensor_json (df_name (s_focused_sensors ! i))
         (cstr (mqtt_client_id c) @ 95 # df_key (s_focused_sensors ! i)) topic
         (df_value_template (s_focused_sensors ! i)) False availability [] (device_json c d)) \<and>
     delivers (mqtt_relay_build_enroll_discovery_payload (Some c) (Some d) (Some topic) (Some availability)
         (Some (out, n))) n
       (button_json ENROLL_NAME (cstr (mqtt_client_id c) @ cs ''_enroll'')
         (cs ''button.'' @ cstr (mqtt_client_id c) @ cs ''_enroll'') topic (cs ''ENROLL'') availability
         (cs ''mdi:bluetooth-connect'') (device_json c d)) \<and>
     delivers (mqtt_relay_build_restart_discovery_payload (Some c) (Some d) (Some topic) (Some availability)
         (Some (out, n))) n
       (button_json RESTART_NAME (cstr (mqtt_client_id c) @ cs ''_restart'')
         (cs ''button.'' @ cstr (mqtt_client_id c) @ cs ''_restart'') topic (cs ''RESTART'') availability
         (cs ''mdi:restart'') (device_json c d))"
proof -
  note wr = write_entity_delivers [OF discovery_readyD(1-4) [OF ready]]
  have "cstr (df_value_template (s_focused_sensors ! i)) = df_value_template (s_focused_sensors ! i)"
    using focused_sensors_cases [OF i] by (auto simp: s_focused_sensors_def)
  note focused = wr [OF reads_focused [where f = "s_focused_sensors ! i", unfolded this] heads_nonzero(3)]
  have "plain (cs ''ENROLL'')" "plain (cs ''mdi:bluetooth-connect'')"
    "plain (cs ''RESTART'')" "plain (cs ''mdi:restart'')" by (simp_all add: plain_def)
  note button = wr [OF reads_button_entity heads_nonzero(4)] this
  show ?thesis
    unfolding last_notification_payload_delivers [OF ready] status_payload_delivers [OF ready]
      focused_payload_delivers [OF ready i] enroll_payload_delivers [OF ready] restart_payload_delivers [OF ready]
    using wr [OF reads_last_notification heads_nonzero(1)] wr [OF reads_status heads_nonzero(2)]
      focused button by (simp del: cs_Cons add: cs_nonzero)
qed

text \<open>
  C39: Every discovery payload is the JSON object that Home Assistant is to read: for a client id that
  passed the check, valid device information and topics without wildcards, whatever other bytes the
  topics and texts hold, each of the builders leaves in the buffer a NUL terminated text that a JSON
  reader reads back as the intended object, with every name, topic and identifier unchanged; when the
  text does not fit, the builder reports it. The hypothesis \<open>discovery_ready\<close> names what the builders
  check and otherwise refuse; the reader passes bytes from 128 on through and does not check that they
  are UTF-8.
\<close>

theorem discovery_payloads_are_json:
  assumes ready: "discovery_ready c d topic availability out n" and i: "i < mqtt_relay_focused_sensor_count"
  shows
    "delivers (mqtt_relay_build_discovery_payload (Some c) (Some d) (Some topic) (Some availability) (Some (out, n))) n
       (sensor_json LAST_NOTIFICATION_NAME (cstr (mqtt_client_id c) @ cs ''_last_notification'') topic
         RELAY_ID_TEMPLATE True availability [] (device_json c d)) \<and>
     delivers (mqtt_relay_build_status_discovery_payload (Some c) (Some d) (Some topic) (Some availability)
         (Some (out, n))) n
       (sensor_json STATUS_NAME (cstr (mqtt_client_id c) @ cs ''_device_status'') topic
         READY_TEMPLATE True availability status_extra (device_json c d)) \<and>
     delivers (mqtt_relay_build_focused_discovery_payload (Some c) (Some d) (Some topic) (Some availability) i
         (Some (out, n))) n
       (sensor_json (df_name (s_focused_sensors ! i))
         (cstr (mqtt_client_id c) @ 95 # df_key (s_focused_sensors ! i)) topic
         (df_value_template (s_focused_sensors ! i)) False availability [] (device_json c d)) \<and>
     delivers (mqtt_relay_build_enroll_discovery_payload (Some c) (Some d) (Some topic) (Some availability)
         (Some (out, n))) n
       (button_json ENROLL_NAME (cstr (mqtt_client_id c) @ cs ''_enroll'')
         (cs ''button.'' @ cstr (mqtt_client_id c) @ cs ''_enroll'') topic (cs ''ENROLL'') availability
         (cs ''mdi:bluetooth-connect'') (device_json c d)) \<and>
     delivers (mqtt_relay_build_restart_discovery_payload (Some c) (Some d) (Some topic) (Some availability)
         (Some (out, n))) n
       (button_json RESTART_NAME (cstr (mqtt_client_id c) @ cs ''_restart'')
         (cs ''button.'' @ cstr (mqtt_client_id c) @ cs ''_restart'') topic (cs ''RESTART'') availability
         (cs ''mdi:restart'') (device_json c d))"
  by (rule payloads_deliver [OF assms])

definition sample_device :: mqtt_relay_device_info where
  "sample_device = \<lparr>di_manufacturer = text_field 32 (cs ''Espressif''), di_model = text_field 24 (cs ''ESP32''),
     di_sw_version = text_field 32 (cs ''1.0''), di_hw_version = text_field 24 (cs ''r1'')\<rparr>"

lemma sample_client_id: "cstr (mqtt_client_id sample_config) = cs ''esp32-1''"
  by (simp add: sample_config_def cstr_text_field)

lemma sample_device_texts:
  "cstr (di_manufacturer sample_device) = cs ''Espressif''" "cstr (di_model sample_device) = cs ''ESP32''"
  "cstr (di_sw_version sample_device) = cs ''1.0''" "cstr (di_hw_version sample_device) = cs ''r1''"
  by (simp_all add: sample_device_def cstr_text_field)

lemma sample_device_sizes: "device_sizes sample_device"
  by (simp add: device_sizes_def sample_device_def)

lemma device_info_is_valid_iff:
  "device_sizes d \<Longrightarrow> device_info_is_valid (Some d) \<longleftrightarrow>
     nonempty (di_manufacturer d) \<and> length (cstr (di_manufacturer d)) < 32 \<and>
     nonempty (di_model d) \<and> length (cstr (di_model d)) < 24 \<and>
     nonempty (di_sw_version d) \<and> length (cstr (di_sw_version d)) < 32 \<and>
     nonempty (di_hw_version d) \<and> length (cstr (di_hw_version d)) < 24"
  by (simp add: device_sizes_def device_info_is_valid_def bounded_required_text_def strnlen_eq min_less_iff_disj)

lemma sample_device_valid: "device_info_is_valid (Some sample_device)"
  unfolding device_info_is_valid_iff [OF sample_device_sizes] sample_device_texts
  by (simp add: sample_device_def text_field_def nonempty_def)

lemma discovery_ready_sample:
  "discovery_ready sample_config sample_device (cs ''ancs/notification'') (cs ''ancs/availability'')
     (replicate 1536 0) 1536"
  by (simp add: discovery_ready_def payload_arguments_valid_def discovery_id_is_safe_def sample_device_valid
      topic_has_publish_wildcard_def string_field_valid_def bounded_strlen_def strnlen_eq sample_client_id
      isalnum_def PROVISION_MQTT_CLIENT_ID_MAX_def)

theorem discovery_payloads_are_json_witness:
  "delivers (mqtt_relay_build_enroll_discovery_payload (Some sample_config) (Some sample_device)
      (Some (cs ''ancs/notification'')) (Some (cs ''ancs/availability'')) (Some (replicate 1536 0, 1536))) 1536
    (button_json ENROLL_NAME (cs ''esp32-1'' @ cs ''_enroll'') (cs ''button.'' @ cs ''esp32-1'' @ cs ''_enroll'')
      (cs ''ancs/notification'') (cs ''ENROLL'') (cs ''ancs/availability'') (cs ''mdi:bluetooth-connect'')
      (device_json sample_config sample_device))"
proof -
  have "0 < mqtt_relay_focused_sensor_count" by (simp add: mqtt_relay_focused_sensor_count_def s_focused_sensors_def)
  from discovery_payloads_are_json [OF discovery_ready_sample this] show ?thesis
    unfolding sample_client_id by blast
qed

end
