(* ===== verification/Mqtt_Topics.thy ===== *)
theory Mqtt_Topics
  imports Mqtt_Payloads
begin

text \<open>
  That the topics \<^verbatim>\<open>components/mqtt_relay/mqtt_relay.c\<close> builds from valid settings fit their buffers,
  can be published to and are told apart.
\<close>

lemma print_to_fits:
  assumes "length txt < n" "n \<le> length out" "0 \<notin> set txt"
  shows "\<exists>out'. print_to out n txt = Some (ESP_OK, out') \<and> cstr out' = txt"
  using assms snprintf_fits [of "txt" n 0 out] by (simp add: print_to_def)

text \<open>The topics below the base topic and their texts.\<close>

lemma append_topic_fits:
  assumes "nonempty base" "\<not> topic_has_publish_wildcard (Some base)"
    "length (cstr base) + length suffix + 1 < n" "n \<le> length out" "0 \<notin> set suffix"
  shows "\<exists>out'. append_topic base suffix out n = Some (ESP_OK, out') \<and> cstr out' = cstr base @ 47 # suffix"
  using assms print_to_fits [of "cstr base @ 47 # suffix" n out]
  by (simp add: append_topic_def cstr_no_nul)

lemma no_wildcard_append:
  "0 \<notin> set t \<Longrightarrow> topic_has_publish_wildcard (Some t) \<longleftrightarrow> 43 \<in> set t \<or> 35 \<in> set t"
  by (simp add: topic_has_publish_wildcard_def)

lemma config_valid_topic:
  assumes "config_valid c" "config_sizes c"
  shows "nonempty (mqtt_base_topic c)" "length (cstr (mqtt_base_topic c)) \<le> 128"
    "length (cstr (mqtt_client_id c)) \<le> 64"
proof -
  have t: "cstr (mqtt_base_topic c) \<noteq> []" "terminated (mqtt_base_topic c)" "terminated (mqtt_client_id c)"
    using assms(1) by (simp_all add: config_valid_def)
  then show "nonempty (mqtt_base_topic c)" by (cases "mqtt_base_topic c") (auto simp: nonempty_def split: if_splits)
  show "length (cstr (mqtt_base_topic c)) \<le> 128" "length (cstr (mqtt_client_id c)) \<le> 64"
    using length_cstr_less [OF t(2)] length_cstr_less [OF t(3)] assms(2) by (simp_all add: config_sizes_def)
qed

definition topic_usable :: "bytes \<Rightarrow> bytes \<Rightarrow> bool" where
  "topic_usable buf t \<longleftrightarrow> cstr buf = t \<and> \<not> topic_has_publish_wildcard (Some buf)"

text \<open>
  From valid settings with a safe client id and a base topic without wildcards every topic is built
  into a buffer of the size the code reserves, holds the intended text, can be published to, and the six
  topics differ, so that no message for one of them is taken for another; no message is both commands.
\<close>

theorem topics_usable:
  assumes c: "config_valid c" "config_sizes c" and i: "discovery_id_is_safe (Some (mqtt_client_id c))"
    and base: "\<not> topic_has_publish_wildcard (Some (mqtt_base_topic c))"
    and bufs: "length nb = MQTT_RELAY_TOPIC_MAX" "length ab = MQTT_RELAY_TOPIC_MAX"
      "length sb = MQTT_RELAY_TOPIC_MAX" "length db = MQTT_RELAY_DISCOVERY_TOPIC_MAX"
      "length eb = MQTT_RELAY_TOPIC_MAX" "length rb = MQTT_RELAY_TOPIC_MAX"
  shows "\<exists>n a s d e r.
    mqtt_relay_build_topics (Some c) (Some (nb, MQTT_RELAY_TOPIC_MAX)) (Some (ab, MQTT_RELAY_TOPIC_MAX))
      (Some (sb, MQTT_RELAY_TOPIC_MAX)) (Some (db, MQTT_RELAY_DISCOVERY_TOPIC_MAX)) =
      Some (ESP_OK, [n, a, s, d]) \<and>
    mqtt_relay_build_enroll_command_topic (Some c) (Some (eb, MQTT_RELAY_TOPIC_MAX)) = Some (ESP_OK, e) \<and>
    mqtt_relay_build_restart_command_topic (Some c) (Some (rb, MQTT_RELAY_TOPIC_MAX)) = Some (ESP_OK, r) \<and>
    topic_usable n (cstr (mqtt_base_topic c) @ cs ''/notification'') \<and>
    topic_usable a (cstr (mqtt_base_topic c) @ cs ''/availability'') \<and>
    topic_usable s (cstr (mqtt_base_topic c) @ cs ''/state'') \<and>
    topic_usable d (cs ''homeassistant/sensor/'' @ cstr (mqtt_client_id c) @ cs ''/last_notification/config'') \<and>
    topic_usable e (cstr (mqtt_base_topic c) @ cs ''/command/enroll'') \<and>
    topic_usable r (cstr (mqtt_base_topic c) @ cs ''/command/restart'') \<and>
    distinct (map cstr [n, a, s, d, e, r]) \<and>
    (\<forall>t tl p pl total offset retained.
       \<not> (mqtt_relay_is_enroll_command (Some e) t tl p pl total offset retained \<and>
          mqtt_relay_is_restart_command (Some r) t tl p pl total offset retained))"
proof -
  let ?b = "cstr (mqtt_base_topic c)" and ?i = "cstr (mqtt_client_id c)"
  have b: "43 \<notin> set ?b" "35 \<notin> set ?b" "0 \<notin> set ?b" using base by (simp_all add: topic_has_publish_wildcard_def cstr_no_nul)
  have idc: "43 \<notin> set ?i" "35 \<notin> set ?i" "0 \<notin> set ?i"
    using i by (auto simp: discovery_id_is_safe_def list_all_iff isalnum_def cstr_no_nul word_le_nat_alt)
  have topic: "\<exists>t. append_topic (mqtt_base_topic c) s buf MQTT_RELAY_TOPIC_MAX = Some (ESP_OK, t) \<and>
      topic_usable t (?b @ 47 # s)"
    if "length buf = MQTT_RELAY_TOPIC_MAX" "length s \<le> 20" "0 \<notin> set s" "43 \<notin> set s" "35 \<notin> set s" for s buf
    using append_topic_fits [OF config_valid_topic(1) [OF c] base, of s MQTT_RELAY_TOPIC_MAX buf]
      config_valid_topic(2) [OF c] that b
    by (auto simp: MQTT_RELAY_TOPIC_MAX_def PROVISION_MQTT_BASE_TOPIC_MAX_def topic_usable_def
        topic_has_publish_wildcard_def)
  let ?d = "cs ''homeassistant/sensor/'' @ ?i @ cs ''/last_notification/config''"
  obtain n where n: "append_topic (mqtt_base_topic c) (cs ''notification'') nb MQTT_RELAY_TOPIC_MAX = Some (ESP_OK, n)"
      "topic_usable n (?b @ 47 # cs ''notification'')"
    using topic [OF bufs(1), of "cs ''notification''"] by (auto)
  obtain a where a: "append_topic (mqtt_base_topic c) (cs ''availability'') ab MQTT_RELAY_TOPIC_MAX = Some (ESP_OK, a)"
      "topic_usable a (?b @ 47 # cs ''availability'')"
    using topic [OF bufs(2), of "cs ''availability''"] by auto
  obtain s where s: "append_topic (mqtt_base_topic c) (cs ''state'') sb MQTT_RELAY_TOPIC_MAX = Some (ESP_OK, s)"
      "topic_usable s (?b @ 47 # cs ''state'')"
    using topic [OF bufs(3), of "cs ''state''"] by auto
  obtain e where e: "append_topic (mqtt_base_topic c) (cs ''command/enroll'') eb MQTT_RELAY_TOPIC_MAX = Some (ESP_OK, e)"
      "topic_usable e (?b @ 47 # cs ''command/enroll'')"
    using topic [OF bufs(5), of "cs ''command/enroll''"] by auto
  obtain r where r: "append_topic (mqtt_base_topic c) (cs ''command/restart'') rb MQTT_RELAY_TOPIC_MAX = Some (ESP_OK, r)"
      "topic_usable r (?b @ 47 # cs ''command/restart'')"
    using topic [OF bufs(6), of "cs ''command/restart''"] by auto
  obtain d where d: "print_to db MQTT_RELAY_DISCOVERY_TOPIC_MAX ?d = Some (ESP_OK, d)" "cstr d = ?d"
    using print_to_fits [of ?d MQTT_RELAY_DISCOVERY_TOPIC_MAX db] config_valid_topic(3) [OF c] idc(3) bufs(4)
    by (auto simp: MQTT_RELAY_DISCOVERY_TOPIC_MAX_def PROVISION_MQTT_CLIENT_ID_MAX_def)
  then have du: "topic_usable d ?d" using idc by (simp add: topic_usable_def topic_has_publish_wildcard_def)
  have sz: "MQTT_RELAY_TOPIC_MAX \<noteq> 0" by (simp add: MQTT_RELAY_TOPIC_MAX_def)
  have "mqtt_relay_build_topics (Some c) (Some (nb, MQTT_RELAY_TOPIC_MAX)) (Some (ab, MQTT_RELAY_TOPIC_MAX))
      (Some (sb, MQTT_RELAY_TOPIC_MAX)) (Some (db, MQTT_RELAY_DISCOVERY_TOPIC_MAX)) = Some (ESP_OK, [n, a, s, d])"
    using i n(1) a(1) s(1) d(1) by (simp add: mqtt_relay_build_topics_def del: cs_Cons)
  moreover have "mqtt_relay_build_enroll_command_topic (Some c) (Some (eb, MQTT_RELAY_TOPIC_MAX)) = Some (ESP_OK, e)"
      "mqtt_relay_build_restart_command_topic (Some c) (Some (rb, MQTT_RELAY_TOPIC_MAX)) = Some (ESP_OK, r)"
    using e(1) r(1) sz by (simp_all add: mqtt_relay_build_enroll_command_topic_def
        mqtt_relay_build_restart_command_topic_def build_command_topic_def del: cs_Cons)
  moreover have "map (\<lambda>t. last (cstr t)) [n, a, s, d, e, r] = [110, 121, 101, 103, 108, 116]"
    using n(2) a(2) s(2) du e(2) r(2) by (simp add: topic_usable_def)
  then have "distinct (map last (map cstr [n, a, s, d, e, r]))" by simp
  then have "distinct (map cstr [n, a, s, d, e, r])" by (metis distinct_map)
  moreover have "\<not> (mqtt_relay_is_enroll_command (Some e) t tl p pl total offset retained \<and>
          mqtt_relay_is_restart_command (Some r) t tl p pl total offset retained)" for t tl p pl total offset retained
    by (auto simp: mqtt_relay_is_enroll_command_def mqtt_relay_is_restart_command_def
        mqtt_relay_is_exact_command_def split: option.splits)
  ultimately show ?thesis
    using n(2) a(2) s(2) du e(2) r(2) by simp
qed

theorem topics_usable_witness:
  "\<exists>e. mqtt_relay_build_enroll_command_topic (Some sample_config) (Some (replicate 160 1, MQTT_RELAY_TOPIC_MAX)) =
      Some (ESP_OK, e) \<and> topic_usable e (cs ''ancs'' @ cs ''/command/enroll'')"
proof -
  have t: "cstr (mqtt_base_topic sample_config) = cs ''ancs''" by (simp add: sample_config_def cstr_text_field)
  have b: "length (replicate 160 (1 :: u8)) = MQTT_RELAY_TOPIC_MAX"
      "length (replicate 128 (1 :: u8)) = MQTT_RELAY_DISCOVERY_TOPIC_MAX"
    by (simp_all add: MQTT_RELAY_TOPIC_MAX_def MQTT_RELAY_DISCOVERY_TOPIC_MAX_def
        PROVISION_MQTT_BASE_TOPIC_MAX_def PROVISION_MQTT_CLIENT_ID_MAX_def)
  have "\<not> topic_has_publish_wildcard (Some (mqtt_base_topic sample_config))"
    by (simp add: topic_has_publish_wildcard_def t)
  then show ?thesis
    using topics_usable [OF sample_config_valid sample_config_sizes discovery_readyD(1) [OF discovery_ready_sample] _
        b(1) b(1) b(1) b(2) b(1) b(1)] t by (simp del: cs_Cons) metis
qed

end
