(* ===== verification/Mqtt_State.thy ===== *)
theory Mqtt_State
  imports Mqtt_Payloads
begin

text \<open>
  The status message of \<^verbatim>\<open>components/mqtt_relay/mqtt_relay.c\<close>: the uptime text, the diagnostic members and
  \<^verbatim>\<open>mqtt_relay_build_state_payload\<close>, and that the message is the JSON object of the status.
\<close>

section \<open>Data\<close>

type_synonym c_int = "32 word"

record mqtt_relay_counters =
  rc_accepted :: u32
  rc_published_ack :: u32
  rc_dropped_offline :: u32
  rc_dropped_enqueue :: u32
  rc_dropped_policy :: u32
  rc_freed :: u32

record mqtt_relay_wifi_status =
  ws_connected :: bool
  ws_ssid :: bytes
  ws_ip :: bytes
  ws_rssi :: c_int

record mqtt_relay_diagnostics =
  dg_valid :: bool
  dg_wifi_retry_attempts :: u32
  dg_wifi_retry_in_ms :: u32
  dg_wifi_generation :: u32
  dg_wifi_disconnect_reason :: c_int
  dg_wifi_connect_error :: c_int
  dg_automatic_recovery_ap :: bool
  dg_wifi_retry_paused :: bool
  dg_bond_store_known :: bool
  dg_stored_peer_count :: c_int
  dg_bond_store_error :: c_int
  dg_boot_peer_count :: c_int
  dg_session_authenticated :: bool
  dg_link_encrypted :: bool
  dg_ancs_service_found :: bool
  dg_data_source_subscribed :: bool
  dg_notification_source_subscribed :: bool
  dg_ancs_ready :: bool
  dg_enrollment_active :: bool
  dg_enrollment_remaining_seconds :: u32
  dg_authentication_protection :: bool
  dg_auth_failure_count :: u32
  dg_auth_error :: c_int
  dg_last_auth_error :: c_int
  dg_last_auth_error_at_ms :: u64
  dg_ble_stage_error :: c_int
  dg_ble_disconnect_reason :: c_int
  dg_ble_generation :: u32
  dg_mqtt_error_type :: c_int
  dg_mqtt_esp_error :: c_int
  dg_mqtt_tls_error :: c_int
  dg_mqtt_socket_errno :: c_int
  dg_mqtt_connect_return_code :: c_int
  dg_last_mqtt_error_type :: c_int
  dg_last_mqtt_esp_error :: c_int
  dg_last_mqtt_tls_error :: c_int
  dg_last_mqtt_socket_errno :: c_int
  dg_last_mqtt_connect_return_code :: c_int
  dg_last_mqtt_error_at_ms :: u64
  dg_mqtt_retry_in_ms :: u32
  dg_reset_reason :: c_int
  dg_firmware_elf_sha256 :: bytes

record mqtt_relay_runtime_status =
  rs_wifi :: mqtt_relay_wifi_status
  rs_mqtt_connected :: bool
  rs_ble_connected :: bool
  rs_ble_bonded :: bool
  rs_uptime_seconds :: u64
  rs_last_notification_uptime_ms :: u64
  rs_diagnostics :: mqtt_relay_diagnostics

section \<open>The uptime text\<close>

text \<open>Days, hours, minutes and seconds with their Korean units.\<close>

definition uptime_text :: "u64 \<Rightarrow> bytes" where
  "uptime_text s =
    (let days = s div 86400; hours = (s mod 86400) div 3600; minutes = (s mod 3600) div 60;
         remaining_seconds = s mod 60;
         secs = dec (unat remaining_seconds) @ [236, 180, 136];
         mins = dec (unat minutes) @ [235, 182, 132, 32];
         hrs = dec (unat hours) @ [236, 139, 156, 234, 176, 132, 32]
     in if days > 0 then dec (unat days) @ [236, 157, 188, 32] @ hrs @ mins @ secs
        else if hours > 0 then hrs @ mins @ secs
        else if minutes > 0 then mins @ secs
        else secs)"

definition mqtt_relay_format_uptime :: "u64 \<Rightarrow> out_buf option \<Rightarrow> (esp_err \<times> bytes) option" where
  "mqtt_relay_format_uptime seconds out =
    (case out of
       None \<Rightarrow> Some (ESP_ERR_INVALID_ARG, [])
     | Some (b, n) \<Rightarrow> if n = 0 then Some (ESP_ERR_INVALID_ARG, b) else print_to b n (uptime_text seconds))"

section \<open>The diagnostic members\<close>

text \<open>The two macros: a member with a boolean and one with a number.\<close>

datatype diag_value = DIAG_BOOL bool | DIAG_INT int

fun diag_text :: "diag_value \<Rightarrow> bytes" where
  "diag_text (DIAG_BOOL v) = bool_text v"
| "diag_text (DIAG_INT v) = dec_int v"

definition diag_fragment :: "string \<times> diag_value \<Rightarrow> fragment" where
  "diag_fragment m = Lit (cs '',\"'' @ cs (fst m) @ cs ''\":'' @ diag_text (snd m))"

text \<open>A value converted to \<open>int64_t\<close>: of an unsigned 32 bit, a signed 32 bit or an unsigned 64 bit field.\<close>

definition from_u32 :: "u32 \<Rightarrow> int" where "from_u32 w = uint w"
definition from_int :: "c_int \<Rightarrow> int" where "from_int w = sint w"
definition from_u64 :: "u64 \<Rightarrow> int" where "from_u64 w = sint w"

definition diagnostics_values :: "mqtt_relay_runtime_status \<Rightarrow> (string \<times> diag_value) list" where
  "diagnostics_values r = (let d = rs_diagnostics r in [
     (''wifi_retry_attempts'', DIAG_INT (from_u32 (dg_wifi_retry_attempts d))),
     (''wifi_retry_in_ms'', DIAG_INT (from_u32 (dg_wifi_retry_in_ms d))),
     (''wifi_generation'', DIAG_INT (from_u32 (dg_wifi_generation d))),
     (''wifi_disconnect_reason'', DIAG_INT (from_int (dg_wifi_disconnect_reason d))),
     (''wifi_connect_error'', DIAG_INT (from_int (dg_wifi_connect_error d))),
     (''automatic_recovery_ap'', DIAG_BOOL (dg_automatic_recovery_ap d)),
     (''wifi_retry_paused'', DIAG_BOOL (dg_wifi_retry_paused d)),
     (''bond_store_known'', DIAG_BOOL (dg_bond_store_known d)),
     (''stored_peer_count'', DIAG_INT (from_int (dg_stored_peer_count d))),
     (''bond_store_error'', DIAG_INT (from_int (dg_bond_store_error d))),
     (''boot_peer_count'', DIAG_INT (from_int (dg_boot_peer_count d))),
     (''session_authenticated'', DIAG_BOOL (dg_session_authenticated d)),
     (''link_encrypted'', DIAG_BOOL (dg_link_encrypted d)),
     (''ancs_service_found'', DIAG_BOOL (dg_ancs_service_found d)),
     (''data_source_subscribed'', DIAG_BOOL (dg_data_source_subscribed d)),
     (''notification_source_subscribed'', DIAG_BOOL (dg_notification_source_subscribed d)),
     (''ancs_ready'', DIAG_BOOL (dg_ancs_ready d)),
     (''enrollment_active'', DIAG_BOOL (dg_enrollment_active d)),
     (''enrollment_remaining_seconds'', DIAG_INT (from_u32 (dg_enrollment_remaining_seconds d))),
     (''authentication_protection'', DIAG_BOOL (dg_authentication_protection d)),
     (''auth_failure_count'', DIAG_INT (from_u32 (dg_auth_failure_count d))),
     (''auth_error'', DIAG_INT (from_int (dg_auth_error d))),
     (''last_auth_error'', DIAG_INT (from_int (dg_last_auth_error d))),
     (''last_auth_error_at_ms'', DIAG_INT (from_u64 (dg_last_auth_error_at_ms d))),
     (''ble_stage_error'', DIAG_INT (from_int (dg_ble_stage_error d))),
     (''ble_disconnect_reason'', DIAG_INT (from_int (dg_ble_disconnect_reason d))),
     (''ble_generation'', DIAG_INT (from_u32 (dg_ble_generation d))),
     (''mqtt_error_type'', DIAG_INT (from_int (dg_mqtt_error_type d))),
     (''mqtt_esp_error'', DIAG_INT (from_int (dg_mqtt_esp_error d))),
     (''mqtt_tls_error'', DIAG_INT (from_int (dg_mqtt_tls_error d))),
     (''mqtt_socket_errno'', DIAG_INT (from_int (dg_mqtt_socket_errno d))),
     (''mqtt_connect_return_code'', DIAG_INT (from_int (dg_mqtt_connect_return_code d))),
     (''last_mqtt_error_type'', DIAG_INT (from_int (dg_last_mqtt_error_type d))),
     (''last_mqtt_esp_error'', DIAG_INT (from_int (dg_last_mqtt_esp_error d))),
     (''last_mqtt_tls_error'', DIAG_INT (from_int (dg_last_mqtt_tls_error d))),
     (''last_mqtt_socket_errno'', DIAG_INT (from_int (dg_last_mqtt_socket_errno d))),
     (''last_mqtt_connect_return_code'', DIAG_INT (from_int (dg_last_mqtt_connect_return_code d))),
     (''last_mqtt_error_at_ms'', DIAG_INT (from_u64 (dg_last_mqtt_error_at_ms d))),
     (''mqtt_retry_in_ms'', DIAG_INT (from_u32 (dg_mqtt_retry_in_ms d))),
     (''reset_reason'', DIAG_INT (from_int (dg_reset_reason d))),
     (''notification_ready'', DIAG_BOOL (ws_connected (rs_wifi r) \<and> rs_mqtt_connected r \<and> dg_ancs_ready d)),
     (''last_notification_uptime_ms'', DIAG_INT (from_u64 (rs_last_notification_uptime_ms r)))])"

definition diagnostics_fragments :: "mqtt_relay_runtime_status \<Rightarrow> fragment list" where
  "diagnostics_fragments r =
     Lit (cs '',\"diagnostics_version\":1'') # map diag_fragment (diagnostics_values r) @
     [Lit (cs '',\"firmware_elf_sha256\":''), Str (dg_firmware_elf_sha256 (rs_diagnostics r))]"

definition append_diagnostics :: "mqtt_relay_runtime_status \<Rightarrow> json_out \<Rightarrow> json_out option" where
  "append_diagnostics r w =
    (if jo_err w \<noteq> ESP_OK then Some w
     else if \<not> dg_valid (rs_diagnostics r) then Some w
     else write_fragments (diagnostics_fragments r) w)"

section \<open>The message\<close>

definition wifi_status_is_valid :: "mqtt_relay_wifi_status option \<Rightarrow> bool" where
  "wifi_status_is_valid status =
    (case status of None \<Rightarrow> False
     | Some s \<Rightarrow> \<not> ws_connected s \<or>
         bounded_required_text (ws_ssid s) (length (ws_ssid s)) \<and>
         bounded_required_text (ws_ip s) (length (ws_ip s)))"

definition state_head ::
  "mqtt_relay_counters \<Rightarrow> mqtt_relay_runtime_status \<Rightarrow> mqtt_relay_device_info \<Rightarrow> bytes \<Rightarrow> fragment list" where
  "state_head n r d uptime =
    (let w = rs_wifi r;
         ready = (ws_connected w \<and> rs_mqtt_connected r \<and> rs_ble_connected r) in [
     Lit (cs ''{\"ready\":'' @ bool_text ready @ cs '',\"connected\":'' @ bool_text (rs_mqtt_connected r) @
       cs '',\"wifi_connected\":'' @ bool_text (ws_connected w) @
       cs '',\"mqtt_connected\":'' @ bool_text (rs_mqtt_connected r) @
       cs '',\"ble_connected\":'' @ bool_text (rs_ble_connected r) @
       cs '',\"ble_bonded\":'' @ bool_text (rs_ble_bonded r) @
       cs '',\"uptime_seconds\":'' @ dec (unat (rs_uptime_seconds r)) @ cs '',\"uptime\":''),
     Str uptime,
     Lit (cs '',\"accepted\":'' @ dec (unat (rc_accepted n)) @
       cs '',\"published_ack\":'' @ dec (unat (rc_published_ack n)) @
       cs '',\"dropped_offline\":'' @ dec (unat (rc_dropped_offline n)) @
       cs '',\"dropped_enqueue\":'' @ dec (unat (rc_dropped_enqueue n)) @
       cs '',\"dropped_policy\":'' @ dec (unat (rc_dropped_policy n)) @ cs '',\"wifi_ssid\":''),
     Str (if ws_connected w then ws_ssid w else []),
     Lit (cs '',\"wifi_ip\":''), Str (if ws_connected w then ws_ip w else []),
     Lit (cs '',\"wifi_rssi\":'' @ (if ws_connected w then dec_int (sint (ws_rssi w)) else cs ''null'')),
     Lit (cs '',\"manufacturer\":''), Str (di_manufacturer d),
     Lit (cs '',\"model\":''), Str (di_model d),
     Lit (cs '',\"sw_version\":''), Str (di_sw_version d),
     Lit (cs '',\"hw_version\":''), Str (di_hw_version d)])"

text \<open>The local buffer of the uptime is 64 bytes; only its text is used.\<close>

definition mqtt_relay_build_state_payload ::
  "mqtt_relay_counters option \<Rightarrow> mqtt_relay_runtime_status option \<Rightarrow> mqtt_relay_device_info option \<Rightarrow>
   out_buf option \<Rightarrow> (esp_err \<times> bytes) option" where
  "mqtt_relay_build_state_payload counters runtime device_info out =
    (case (counters, runtime, device_info, out) of
       (Some n, Some r, Some d, Some (b, cap)) \<Rightarrow>
         if \<not> wifi_status_is_valid (Some (rs_wifi r)) \<or> \<not> device_info_is_valid device_info \<or> cap = 0
         then Some (ESP_ERR_INVALID_ARG, b)
         else do {
           (err, uptime) \<leftarrow> mqtt_relay_format_uptime (rs_uptime_seconds r) (Some (replicate 64 0, 64));
           if err \<noteq> ESP_OK then Some (err, b)
           else do {
             w \<leftarrow> write_fragments (state_head n r d uptime) (json_start b cap);
             w \<leftarrow> append_diagnostics r w;
             w \<leftarrow> write_fragments [Lit (cs ''}'')] w;
             Some (jo_err w, jo_buf w)
           }
         }
     | _ \<Rightarrow> Some (ESP_ERR_INVALID_ARG, case out of Some (b, _) \<Rightarrow> b | None \<Rightarrow> []))"

section \<open>The status as a JSON value\<close>

fun diag_json :: "diag_value \<Rightarrow> json" where
  "diag_json (DIAG_BOOL v) = JBool v"
| "diag_json (DIAG_INT v) = JNum v"

lemma reads_diag: "reads (diag_json v) (diag_text v)"
  by (cases v) (simp_all add: reads_bool reads_dec_int)

definition diagnostics_json :: "mqtt_relay_runtime_status \<Rightarrow> (bytes \<times> json) list" where
  "diagnostics_json r =
     (cs ''diagnostics_version'', JNum 1) #
     map (\<lambda>(k, v). (cs k, diag_json v)) (diagnostics_values r) @
     [string_member ''firmware_elf_sha256'' (dg_firmware_elf_sha256 (rs_diagnostics r))]"

definition diagnostics_members :: "mqtt_relay_runtime_status \<Rightarrow> (bytes \<times> bytes) list" where
  "diagnostics_members r =
     (cs ''diagnostics_version'', dec (Suc 0)) #
     map (\<lambda>(k, v). (cs k, diag_text v)) (diagnostics_values r) @
     [field_text ''firmware_elf_sha256'' (dg_firmware_elf_sha256 (rs_diagnostics r))]"

definition status_json ::
  "mqtt_relay_counters \<Rightarrow> mqtt_relay_runtime_status \<Rightarrow> mqtt_relay_device_info \<Rightarrow> (bytes \<times> json) list" where
  "status_json n r d = (let w = rs_wifi r in [
     (cs ''ready'', JBool (ws_connected w \<and> rs_mqtt_connected r \<and> rs_ble_connected r)),
     (cs ''connected'', JBool (rs_mqtt_connected r)), (cs ''wifi_connected'', JBool (ws_connected w)),
     (cs ''mqtt_connected'', JBool (rs_mqtt_connected r)), (cs ''ble_connected'', JBool (rs_ble_connected r)),
     (cs ''ble_bonded'', JBool (rs_ble_bonded r)),
     (cs ''uptime_seconds'', JNum (uint (rs_uptime_seconds r))),
     string_member ''uptime'' (uptime_text (rs_uptime_seconds r)),
     (cs ''accepted'', JNum (uint (rc_accepted n))),
     (cs ''published_ack'', JNum (uint (rc_published_ack n))),
     (cs ''dropped_offline'', JNum (uint (rc_dropped_offline n))),
     (cs ''dropped_enqueue'', JNum (uint (rc_dropped_enqueue n))),
     (cs ''dropped_policy'', JNum (uint (rc_dropped_policy n))),
     string_member ''wifi_ssid'' (if ws_connected w then ws_ssid w else []),
     string_member ''wifi_ip'' (if ws_connected w then ws_ip w else []),
     (cs ''wifi_rssi'', if ws_connected w then JNum (sint (ws_rssi w)) else JNull),
     string_member ''manufacturer'' (di_manufacturer d), string_member ''model'' (di_model d),
     string_member ''sw_version'' (di_sw_version d), string_member ''hw_version'' (di_hw_version d)])"

definition status_members ::
  "mqtt_relay_counters \<Rightarrow> mqtt_relay_runtime_status \<Rightarrow> mqtt_relay_device_info \<Rightarrow> (bytes \<times> bytes) list" where
  "status_members n r d = (let w = rs_wifi r in [
     (cs ''ready'', bool_text (ws_connected w \<and> rs_mqtt_connected r \<and> rs_ble_connected r)),
     (cs ''connected'', bool_text (rs_mqtt_connected r)), (cs ''wifi_connected'', bool_text (ws_connected w)),
     (cs ''mqtt_connected'', bool_text (rs_mqtt_connected r)), (cs ''ble_connected'', bool_text (rs_ble_connected r)),
     (cs ''ble_bonded'', bool_text (rs_ble_bonded r)),
     (cs ''uptime_seconds'', dec (unat (rs_uptime_seconds r))),
     field_text ''uptime'' (uptime_text (rs_uptime_seconds r)),
     (cs ''accepted'', dec (unat (rc_accepted n))),
     (cs ''published_ack'', dec (unat (rc_published_ack n))),
     (cs ''dropped_offline'', dec (unat (rc_dropped_offline n))),
     (cs ''dropped_enqueue'', dec (unat (rc_dropped_enqueue n))),
     (cs ''dropped_policy'', dec (unat (rc_dropped_policy n))),
     field_text ''wifi_ssid'' (if ws_connected w then ws_ssid w else []),
     field_text ''wifi_ip'' (if ws_connected w then ws_ip w else []),
     (cs ''wifi_rssi'', if ws_connected w then dec_int (sint (ws_rssi w)) else null_text),
     field_text ''manufacturer'' (di_manufacturer d), field_text ''model'' (di_model d),
     field_text ''sw_version'' (di_sw_version d), field_text ''hw_version'' (di_hw_version d)])"

definition state_json ::
  "mqtt_relay_counters \<Rightarrow> mqtt_relay_runtime_status \<Rightarrow> mqtt_relay_device_info \<Rightarrow> json" where
  "state_json n r d =
     JObj (status_json n r d @ (if dg_valid (rs_diagnostics r) then diagnostics_json r else []))"

definition state_text ::
  "mqtt_relay_counters \<Rightarrow> mqtt_relay_runtime_status \<Rightarrow> mqtt_relay_device_info \<Rightarrow> bytes" where
  "state_text n r d =
     object_text (status_members n r d @ (if dg_valid (rs_diagnostics r) then diagnostics_members r else []))"

lemma reads_status_members: "list_all2 reads_member (status_json n r d) (status_members n r d)"
  by (simp add: status_json_def status_members_def Let_def reads_member_def plain_def reads_bool reads_unat
      reads_dec_int reads_null reads_field)

lemma plain_diag_keys: "list_all (\<lambda>(k, v). plain (cs k)) (diagnostics_values r)"
  by (simp add: diagnostics_values_def Let_def plain_def)

lemma reads_diagnostics_members: "list_all2 reads_member (diagnostics_json r) (diagnostics_members r)"
proof -
  have "list_all2 reads_member (map (\<lambda>(k, v). (cs k, diag_json v)) ms) (map (\<lambda>(k, v). (cs k, diag_text v)) ms)"
    if "list_all (\<lambda>(k, v). plain (cs k)) ms" for ms
    using that by (induction ms) (auto simp: reads_member_def reads_diag)
  from this [OF plain_diag_keys] show ?thesis
    unfolding diagnostics_json_def diagnostics_members_def
    by (auto simp: list_all2_appendI reads_member_def plain_def reads_one reads_field)
qed

lemma reads_state: "reads (state_json n r d) (state_text n r d)"
  unfolding state_json_def state_text_def
proof (rule reads_object)
  show "list_all2 reads_member (status_json n r d @ (if dg_valid (rs_diagnostics r) then diagnostics_json r else []))
      (status_members n r d @ (if dg_valid (rs_diagnostics r) then diagnostics_members r else []))"
    using reads_status_members reads_diagnostics_members by (auto intro: list_all2_appendI)
qed (simp add: status_members_def Let_def)

section \<open>The text that is written\<close>

lemma diag_fragments_text:
  "payload_text (map diag_fragment ms) = concat (map (\<lambda>m. 44 # member_text m) (map (\<lambda>(k, v). (cs k, diag_text v)) ms))"
  by (induction ms) (auto simp: diag_fragment_def member_text_def quoted_def)

lemma diagnostics_text:
  "payload_text (diagnostics_fragments r) = concat (map (\<lambda>m. 44 # member_text m) (diagnostics_members r))"
  by (simp add: diagnostics_fragments_def diagnostics_members_def diag_fragments_text member_text_def quoted_def
      dec.simps)

lemma state_head_text:
  "payload_text (state_head n r d (uptime_text (rs_uptime_seconds r))) =
     123 # joined (map member_text (status_members n r d))"
  by (simp add: state_head_def status_members_def Let_def member_text_def quoted_def null_text_def)

lemma uptime_text_nonzero: "0 \<notin> set (uptime_text s)"
  by (simp add: uptime_text_def Let_def dec_nonzero)

lemma state_head_nonzero: "literals_nonzero (state_head n r d u)"
  by (simp add: state_head_def Let_def bool_text_def dec_nonzero)

lemma diag_fragments_nonzero: "list_all (\<lambda>(k, v). CHR 0x00 \<notin> set k) ms \<Longrightarrow> literals_nonzero (map diag_fragment ms)"
proof (induction ms)
  case (Cons m ms)
  obtain k v where m: "m = (k, v)" by (cases m)
  have "0 \<notin> set (diag_text v)" by (cases v) (simp_all add: bool_text_def dec_nonzero)
  with Cons m show ?case by (simp add: diag_fragment_def cs_nonzero)
qed simp

lemma diagnostics_nonzero: "literals_nonzero (diagnostics_fragments r)"
proof -
  have "list_all (\<lambda>(k, v). CHR 0x00 \<notin> set k) (diagnostics_values r)"
    by (simp add: diagnostics_values_def Let_def)
  from diag_fragments_nonzero [OF this] show ?thesis by (simp add: diagnostics_fragments_def)
qed

text \<open>The uptime always fits its buffer of 64 bytes.\<close>

lemma uptime_text_length: "length (uptime_text s) < 64"
proof -
  have w: "unat w < 10 ^ 20" for w :: u64
    by (rule order_less_le_trans [OF unsigned_less]) simp
  have p: "length (dec (unat w)) \<le> 2" if "w < 60" for w :: u64
    using that length_dec [of "unat w" 2] by (simp add: word_less_nat_alt)
  have d: "length (dec (unat (s div 86400))) \<le> 20" using length_dec [OF w] by simp
  have "s mod 60 < 60" by (simp add: word_less_nat_alt unat_mod)
  note seconds = p [OF this]
  have "(s mod 3600) div 60 < 60" by (simp add: word_less_nat_alt unat_mod unat_div less_mult_imp_div_less)
  note minutes = p [OF this]
  have "(s mod 86400) div 3600 < 24" by (simp add: word_less_nat_alt unat_mod unat_div less_mult_imp_div_less)
  then have "(s mod 86400) div 3600 < 60" by (simp add: word_less_nat_alt)
  note hours = p [OF this]
  show ?thesis
    unfolding uptime_text_def Let_def using d seconds minutes hours by (auto simp del: One_nat_def)
qed

section \<open>The message is the status\<close>

lemma uptime_written:
  "\<exists>out. mqtt_relay_format_uptime s (Some (replicate 64 0, 64)) = Some (ESP_OK, out) \<and> cstr out = uptime_text s"
  using uptime_text_length [of s] snprintf_fits [of "uptime_text s" 64 0 "replicate 64 0"]
  by (simp add: mqtt_relay_format_uptime_def print_to_def uptime_text_nonzero)

lemma state_head_cstr: "cstr u = cstr v \<Longrightarrow> payload_text (state_head n r d u) = payload_text (state_head n r d v)"
  by (simp add: state_head_def Let_def)

lemma state_written:
  assumes "wifi_status_is_valid (Some (rs_wifi r))" "device_info_is_valid (Some d)" "0 < cap" "cap \<le> length b"
  shows "\<exists>out. mqtt_relay_build_state_payload (Some n) (Some r) (Some d) (Some (b, cap)) =
      Some (if length (state_text n r d) < cap then ESP_OK else ESP_ERR_INVALID_SIZE, out) \<and>
    (length (state_text n r d) < cap \<longrightarrow> cstr out = state_text n r d)"
proof -
  obtain u where u: "mqtt_relay_format_uptime (rs_uptime_seconds r) (Some (replicate 64 0, 64)) = Some (ESP_OK, u)"
      "cstr u = uptime_text (rs_uptime_seconds r)" using uptime_written by blast
  let ?ds = "if dg_valid (rs_diagnostics r) then diagnostics_fragments r else []"
  let ?fs = "state_head n r d u @ ?ds @ [Lit (cs ''}'')]"
  have ds: "append_diagnostics r w = write_fragments ?ds w" for w
    using write_fragments_failed by (simp add: append_diagnostics_def)
  have run: "mqtt_relay_build_state_payload (Some n) (Some r) (Some d) (Some (b, cap)) = write_payload ?fs b cap"
    using assms(1-3) u(1)
    by (simp add: mqtt_relay_build_state_payload_def write_payload_def json_start_def write_fragments_append
        bind_assoc ds)
  have head: "payload_text (state_head n r d u) = 123 # joined (map member_text (status_members n r d))"
    using u(2) state_head_cstr [of u "uptime_text (rs_uptime_seconds r)"] state_head_text
    by (simp add: uptime_text_nonzero)
  have t: "payload_text ?fs = state_text n r d"
    using joined_append [of "status_members n r d" "diagnostics_members r"]
    by (simp add: head state_text_def object_text_def diagnostics_text)
      (simp add: status_members_def Let_def)
  have "literals_nonzero ?fs" by (simp add: state_head_nonzero diagnostics_nonzero)
  then have z: "0 \<notin> set (payload_text ?fs)"
    unfolding literals_nonzero_def by (intro payload_text_nonzero) (simp add: literals_nonzero_def)
  have "payload_text ?fs \<noteq> []" by (simp add: head)
  from write_payload_spec [OF assms(3,4) this] show ?thesis
    unfolding run t using cstr_of_payload z unfolding t by metis
qed

end
