(* ===== verification/Mqtt_Payload_Bounds.thy ===== *)
theory Mqtt_Payload_Bounds
  imports Mqtt_Payloads
begin

text \<open>
  That the buffer of \<^verbatim>\<open>components/mqtt_relay/mqtt_relay.c\<close> for the discovery payloads is large enough.
\<close>

section \<open>The payload buffer is large enough\<close>

definition MQTT_RELAY_DISCOVERY_PAYLOAD_MAX :: nat where
  "MQTT_RELAY_DISCOVERY_PAYLOAD_MAX = 1536"

lemma escaped_plain: "plain s \<Longrightarrow> escaped s = s"
  by (induction s) (auto simp: escaped_def plain_def json_escape_def word_less_nat_alt word_le_nat_alt)

definition device_plain :: "mqtt_relay_device_info \<Rightarrow> bool" where
  "device_plain d \<longleftrightarrow> plain (cstr (di_manufacturer d)) \<and> plain (cstr (di_model d)) \<and>
     plain (cstr (di_sw_version d)) \<and> plain (cstr (di_hw_version d))"

lemma device_text_length:
  assumes "discovery_id_is_safe (Some (mqtt_client_id c))" "device_info_is_valid (Some d)" "device_sizes d"
    "device_plain d" "length (cstr (mqtt_client_id c)) \<le> 64"
  shows "length (device_text c d) \<le> 330"
proof -
  show ?thesis
    using assms(2,4,5) discovery_id_chars(1) [OF assms(1)]
    by (simp add: device_text_def device_plain_def object_text_def member_text_def array_text_def quoted_def
        escaped_plain device_info_is_valid_iff [OF assms(3)])
qed

lemma sensor_text_length:
  assumes "plain (cstr u)" "plain (cstr s)" "plain (cstr a)" "plain (cstr name)" "length (cstr name) \<le> 20"
    "length (cstr u) \<le> 85" "length (cstr s) \<le> 159" "length (cstr a) \<le> 159" "length tt \<le> 70"
    "length dt \<le> 330" "extra = [] \<or> extra = status_extra"
  shows "length (sensor_text name u s tt attributes a extra dt) < 1500"
  using assms
  by (auto simp add: sensor_text_def object_text_def member_text_def quoted_def escaped_plain status_extra_def)

lemma button_text_length:
  assumes "plain (cstr name)" "plain (cstr u)" "plain (cstr e)" "plain (cstr s)" "plain (cstr a)"
    "length (cstr name) \<le> 20" "length (cstr u) \<le> 85" "length (cstr e) \<le> 84" "length (cstr s) \<le> 159"
    "length (cstr a) \<le> 159" "length press \<le> 10" "length icon \<le> 30" "length dt \<le> 330"
  shows "length (button_text name u e s press a icon dt) < 1500"
  using assms
  by (simp add: button_text_def object_text_def member_text_def quoted_def escaped_plain dec.simps bool_text_def)

lemma write_entity_fits:
  assumes "discovery_ready c d topic availability out MQTT_RELAY_DISCOVERY_PAYLOAD_MAX"
    "length (entity_text head c d) < 1500"
  shows "\<exists>out'. write_entity head c d (out, MQTT_RELAY_DISCOVERY_PAYLOAD_MAX) = Some (ESP_OK, out')"
  using write_entity_spec [OF discovery_readyD(1-4) [OF assms(1)], of head] assms(2)
  by (simp add: MQTT_RELAY_DISCOVERY_PAYLOAD_MAX_def) blast

lemma plain_cstr: "plain s \<Longrightarrow> cstr s = s"
  by (intro cstr_idem) (auto simp: plain_def)

lemma plain_append: "plain (s @ t) \<longleftrightarrow> plain s \<and> plain t"
  by (auto simp: plain_def)

text \<open>Every builder finds room.\<close>

lemma payloads_fit:
  assumes ready: "discovery_ready c d topic availability out MQTT_RELAY_DISCOVERY_PAYLOAD_MAX"
    and i: "i < mqtt_relay_focused_sensor_count"
    and device: "device_sizes d" "device_plain d"
    and topics: "plain (cstr topic)" "plain (cstr availability)" "length (cstr topic) < MQTT_RELAY_TOPIC_MAX"
      "length (cstr availability) < MQTT_RELAY_TOPIC_MAX"
  shows
    "(\<exists>out'. mqtt_relay_build_discovery_payload (Some c) (Some d) (Some topic) (Some availability)
        (Some (out, MQTT_RELAY_DISCOVERY_PAYLOAD_MAX)) = Some (ESP_OK, out')) \<and>
     (\<exists>out'. mqtt_relay_build_status_discovery_payload (Some c) (Some d) (Some topic) (Some availability)
        (Some (out, MQTT_RELAY_DISCOVERY_PAYLOAD_MAX)) = Some (ESP_OK, out')) \<and>
     (\<exists>out'. mqtt_relay_build_focused_discovery_payload (Some c) (Some d) (Some topic) (Some availability) i
        (Some (out, MQTT_RELAY_DISCOVERY_PAYLOAD_MAX)) = Some (ESP_OK, out')) \<and>
     (\<exists>out'. mqtt_relay_build_enroll_discovery_payload (Some c) (Some d) (Some topic) (Some availability)
        (Some (out, MQTT_RELAY_DISCOVERY_PAYLOAD_MAX)) = Some (ESP_OK, out')) \<and>
     (\<exists>out'. mqtt_relay_build_restart_discovery_payload (Some c) (Some d) (Some topic) (Some availability)
        (Some (out, MQTT_RELAY_DISCOVERY_PAYLOAD_MAX)) = Some (ESP_OK, out'))"
proof -
  let ?id = "cstr (mqtt_client_id c)"
  note dt = device_text_length [OF discovery_readyD(1,2) [OF ready] device discovery_readyD(5) [OF ready]]
  have t: "length (cstr topic) \<le> 159" "length (cstr availability) \<le> 159"
    using topics(3,4) by (simp_all add: MQTT_RELAY_TOPIC_MAX_def PROVISION_MQTT_BASE_TOPIC_MAX_def)
  have pid: "plain ?id" by (rule discovery_id_chars(1) [OF discovery_readyD(1) [OF ready]])
  note lid = discovery_readyD(5) [OF ready]
  have u: "plain (cstr (?id @ s))" "length (cstr (?id @ s)) \<le> 85" if "plain s" "length s \<le> 21" for s
    using that pid lid by (simp_all add: plain_cstr plain_append)
  have e: "plain (cstr (cs ''button.'' @ ?id @ s))" "length (cstr (cs ''button.'' @ ?id @ s)) \<le> 84"
    if "plain s" "length s \<le> 13" for s
  proof -
    have "plain (cs ''button.'')" by (simp add: plain_def)
    with that pid have p: "plain (cs ''button.'' @ ?id @ s)" by (simp only: plain_append)
    show "plain (cstr (cs ''button.'' @ ?id @ s))" using p by (simp only: plain_cstr [OF p])
    show "length (cstr (cs ''button.'' @ ?id @ s)) \<le> 84" using that(2) lid by (simp only: plain_cstr [OF p]) simp
  qed
  have names: "plain (cstr ENROLL_NAME)" "plain (cstr RESTART_NAME)" "plain (cstr LAST_NOTIFICATION_NAME)"
      "plain (cstr STATUS_NAME)" "length (cstr ENROLL_NAME) \<le> 20" "length (cstr RESTART_NAME) \<le> 20"
      "length (cstr LAST_NOTIFICATION_NAME) \<le> 20" "length (cstr STATUS_NAME) \<le> 20"
    by (simp_all add: ENROLL_NAME_def RESTART_NAME_def LAST_NOTIFICATION_NAME_def STATUS_NAME_def plain_def)
  have suffixes: "plain (cs ''_enroll'')" "plain (cs ''_restart'')" "plain (cs ''_last_notification'')"
      "plain (cs ''_device_status'')" by (simp_all add: plain_def)
  have key: "plain (95 # df_key (s_focused_sensors ! i))" "length (95 # df_key (s_focused_sensors ! i)) \<le> 21"
    using focused_sensors_cases [OF i] by (auto simp: s_focused_sensors_def plain_def)
  have field: "plain (cstr (df_name (s_focused_sensors ! i)))" "length (cstr (df_name (s_focused_sensors ! i))) \<le> 20"
      "length (escaped (cstr (df_value_template (s_focused_sensors ! i)))) \<le> 70"
    using focused_sensor_sizes [OF i] length_cstr_le [of "df_name (s_focused_sensors ! i)"]
    by (simp_all add: escaped_plain)
  show ?thesis
    unfolding last_notification_payload_delivers [OF ready] status_payload_delivers [OF ready]
      focused_payload_delivers [OF ready i] enroll_payload_delivers [OF ready] restart_payload_delivers [OF ready]
  proof (intro conjI write_entity_fits [OF ready])
    show "length (entity_text (last_notification_fragments (?id @ cs ''_last_notification'') topic availability) c d)
        < 1500"
      unfolding last_notification_text
      by (intro sensor_text_length u suffixes names topics t dt) (simp_all add: RELAY_ID_TEMPLATE_def)
    show "length (entity_text (status_fragments (?id @ cs ''_device_status'') topic availability) c d) < 1500"
      unfolding status_text
      by (intro sensor_text_length u suffixes names topics t dt) (simp_all add: READY_TEMPLATE_def)
    show "length (entity_text (focused_fragments (s_focused_sensors ! i) (?id @ 95 # df_key (s_focused_sensors ! i))
        topic availability) c d) < 1500"
      unfolding focused_text
      by (intro sensor_text_length u key field topics t dt) simp
    show "length (entity_text (button_fragments ENROLL_NAME (?id @ cs ''_enroll'')
        (cs ''button.'' @ ?id @ cs ''_enroll'') topic (cs ''ENROLL'') availability
        (cs ''mdi:bluetooth-connect'')) c d) < 1500"
      unfolding button_fragments_text
      by (intro button_text_length u e suffixes names topics t dt) simp_all
    show "length (entity_text (button_fragments RESTART_NAME (?id @ cs ''_restart'')
        (cs ''button.'' @ ?id @ cs ''_restart'') topic (cs ''RESTART'') availability
        (cs ''mdi:restart'')) c d) < 1500"
      unfolding button_fragments_text
      by (intro button_text_length u e suffixes names topics t dt) simp_all
  qed
qed

text \<open>
  C40: The payload buffer of 1536 bytes is always large enough: for a valid client id, device
  information of the sizes the type allows and topics that fit the topic buffers, all without characters
  that need escaping, every discovery payload is built without an error.
\<close>

theorem discovery_payloads_fit:
  assumes ready: "discovery_ready c d topic availability out MQTT_RELAY_DISCOVERY_PAYLOAD_MAX"
    and i: "i < mqtt_relay_focused_sensor_count"
    and device: "device_sizes d" "device_plain d"
    and topics: "plain (cstr topic)" "plain (cstr availability)" "length (cstr topic) < MQTT_RELAY_TOPIC_MAX"
      "length (cstr availability) < MQTT_RELAY_TOPIC_MAX"
  shows
    "(\<exists>out'. mqtt_relay_build_discovery_payload (Some c) (Some d) (Some topic) (Some availability)
        (Some (out, MQTT_RELAY_DISCOVERY_PAYLOAD_MAX)) = Some (ESP_OK, out')) \<and>
     (\<exists>out'. mqtt_relay_build_status_discovery_payload (Some c) (Some d) (Some topic) (Some availability)
        (Some (out, MQTT_RELAY_DISCOVERY_PAYLOAD_MAX)) = Some (ESP_OK, out')) \<and>
     (\<exists>out'. mqtt_relay_build_focused_discovery_payload (Some c) (Some d) (Some topic) (Some availability) i
        (Some (out, MQTT_RELAY_DISCOVERY_PAYLOAD_MAX)) = Some (ESP_OK, out')) \<and>
     (\<exists>out'. mqtt_relay_build_enroll_discovery_payload (Some c) (Some d) (Some topic) (Some availability)
        (Some (out, MQTT_RELAY_DISCOVERY_PAYLOAD_MAX)) = Some (ESP_OK, out')) \<and>
     (\<exists>out'. mqtt_relay_build_restart_discovery_payload (Some c) (Some d) (Some topic) (Some availability)
        (Some (out, MQTT_RELAY_DISCOVERY_PAYLOAD_MAX)) = Some (ESP_OK, out'))"
  by (rule payloads_fit [OF assms])

lemma sample_device_plain: "device_plain sample_device"
  by (simp add: device_plain_def sample_device_texts plain_def)

theorem discovery_payloads_fit_witness:
  "\<exists>out'. mqtt_relay_build_discovery_payload (Some sample_config) (Some sample_device)
      (Some (cs ''ancs/notification'')) (Some (cs ''ancs/availability''))
      (Some (replicate 1536 0, MQTT_RELAY_DISCOVERY_PAYLOAD_MAX)) = Some (ESP_OK, out')"
proof -
  have n: "1536 = MQTT_RELAY_DISCOVERY_PAYLOAD_MAX" by (simp add: MQTT_RELAY_DISCOVERY_PAYLOAD_MAX_def)
  have i: "0 < mqtt_relay_focused_sensor_count" by (simp add: mqtt_relay_focused_sensor_count_def s_focused_sensors_def)
  from discovery_ready_sample
  have r: "discovery_ready sample_config sample_device (cs ''ancs/notification'') (cs ''ancs/availability'')
      (replicate 1536 0) MQTT_RELAY_DISCOVERY_PAYLOAD_MAX"
    unfolding MQTT_RELAY_DISCOVERY_PAYLOAD_MAX_def .
  have t: "plain (cstr (cs ''ancs/notification''))" "plain (cstr (cs ''ancs/availability''))"
      "length (cstr (cs ''ancs/notification'')) < MQTT_RELAY_TOPIC_MAX"
      "length (cstr (cs ''ancs/availability'')) < MQTT_RELAY_TOPIC_MAX"
    by (simp_all add: plain_def MQTT_RELAY_TOPIC_MAX_def PROVISION_MQTT_BASE_TOPIC_MAX_def)
  show ?thesis
    using discovery_payloads_fit [OF r i sample_device_sizes sample_device_plain t] by blast
qed

end
