(* ===== verification/Mqtt_State_Correct.thy ===== *)
theory Mqtt_State_Correct
  imports Mqtt_State Mqtt_Payload_Bounds
begin

text \<open>
  The status message of \<^verbatim>\<open>components/mqtt_relay/mqtt_relay.c\<close> is the JSON object of the status, and its
  buffer is large enough.
\<close>

definition MQTT_RELAY_STATE_PAYLOAD_MAX :: nat where
  "MQTT_RELAY_STATE_PAYLOAD_MAX = 3072"

section \<open>Lengths\<close>

lemma length_escaped: "length (escaped s) \<le> 6 * length s"
proof (induction s)
  case (Cons p s)
  have "length (json_escape p) \<le> 6" by (simp add: json_escape_def)
  with Cons show ?case by (simp add: escaped_Cons)
qed (simp add: escaped_def)

lemma length_from:
  "length (dec_int (from_u32 w)) \<le> 11" "length (dec_int (from_int w)) \<le> 11" "length (dec_int (from_u64 x)) \<le> 20"
proof -
  have "\<bar>uint w\<bar> < 10 ^ 10"
    by (rule order_less_trans [of _ "2 ^ 32"]) (use uint_lt2p [of w] in simp_all)
  from length_dec_int [OF this] show "length (dec_int (from_u32 w)) \<le> 11" by (simp add: from_u32_def)
  have "\<bar>sint w\<bar> < 10 ^ 10"
    using sint_ge [of w] sint_lt [of w] by simp
  from length_dec_int [OF this] show "length (dec_int (from_int w)) \<le> 11" by (simp add: from_int_def)
  have "\<bar>sint x\<bar> < 10 ^ 19"
    using sint_ge [of x] sint_lt [of x] by simp
  from length_dec_int [OF this] show "length (dec_int (from_u64 x)) \<le> 20" by (simp add: from_u64_def)
qed

lemma room_of_diags:
  "list_all (\<lambda>(k, v). length (diag_text v) \<le> 20) ms \<Longrightarrow>
     member_room (map (\<lambda>(k, v). (cs k, diag_text v)) ms) \<le> sum_list (map (\<lambda>m. length (fst m) + 24) ms)"
  by (induction ms) (auto simp: member_room_simps length_member)

lemma diag_values_short: "list_all (\<lambda>(k, v). length (diag_text v) \<le> 20) (diagnostics_values r)"
proof -
  have "length (dec_int (from_u32 w)) \<le> 20" "length (dec_int (from_int w)) \<le> 20" "length (bool_text b) \<le> 20" for w b
    using length_from(1,2) [of w] length_bool_text [of b] by simp_all
  then show ?thesis by (simp add: diagnostics_values_def Let_def length_from(3))
qed

lemma diag_keys_room: "sum_list (map (\<lambda>m. length (fst m) + 24) (diagnostics_values r)) \<le> 2000"
  by (simp add: diagnostics_values_def Let_def)

lemma diagnostics_room:
  assumes "plain (cstr (dg_firmware_elf_sha256 (rs_diagnostics r)))"
    "length (cstr (dg_firmware_elf_sha256 (rs_diagnostics r))) \<le> 64"
  shows "member_room (diagnostics_members r) \<le> 2120"
proof -
  have "member_room (map (\<lambda>(k, v). (cs k, diag_text v)) (diagnostics_values r)) \<le> 2000"
    using room_of_diags [OF diag_values_short] diag_keys_room by (rule order_trans)
  with assms show ?thesis
    by (simp add: diagnostics_members_def member_room_simps length_member quoted_def escaped_plain dec.simps
        del: cs_Cons)
qed

text \<open>The other members: a Wi-Fi name may need escaping, the other texts may not.\<close>

definition state_texts_plain :: "mqtt_relay_runtime_status \<Rightarrow> mqtt_relay_device_info \<Rightarrow> bool" where
  "state_texts_plain r d \<longleftrightarrow> device_plain d \<and> plain (cstr (ws_ip (rs_wifi r))) \<and>
     plain (cstr (dg_firmware_elf_sha256 (rs_diagnostics r)))"

definition runtime_sizes :: "mqtt_relay_runtime_status \<Rightarrow> bool" where
  "runtime_sizes r \<longleftrightarrow> length (ws_ssid (rs_wifi r)) = 33 \<and> length (ws_ip (rs_wifi r)) = 16 \<and>
     length (dg_firmware_elf_sha256 (rs_diagnostics r)) = 65 \<and>
     terminated (dg_firmware_elf_sha256 (rs_diagnostics r))"

lemma plain_parts: "plain []" "plain (b # s) \<longleftrightarrow> 32 \<le> b \<and> b \<noteq> 34 \<and> b \<noteq> 92 \<and> plain s" "plain (dec n)"
  using dec_digits [of n] by (auto simp: plain_def digit_def word_le_nat_alt)

lemma plain_uptime: "plain (uptime_text s)"
  by (simp add: uptime_text_def Let_def plain_append plain_parts)

lemma status_room:
  assumes "wifi_status_is_valid (Some (rs_wifi r))" "device_info_is_valid (Some d)" "device_sizes d"
    "runtime_sizes r" "state_texts_plain r d"
  shows "member_room (status_members n r d) \<le> 950"
proof -
  let ?w = "rs_wifi r"
  define ssid where "ssid = (if ws_connected ?w then ws_ssid ?w else [])"
  define ip where "ip = (if ws_connected ?w then ws_ip ?w else [])"
  define rssi where "rssi = (if ws_connected ?w then dec_int (sint (ws_rssi ?w)) else null_text)"
  have "length (cstr ssid) \<le> 32" "length (cstr ip) \<le> 15" "plain (cstr ip)"
    using assms(1,4,5) by (auto simp: ssid_def ip_def wifi_status_is_valid_def bounded_required_text_def strnlen_eq
        runtime_sizes_def state_texts_plain_def plain_def)
  then have texts: "length (escaped (cstr ssid)) \<le> 192" "length (escaped (cstr ip)) \<le> 15"
    using length_escaped [of "cstr ssid"] by (simp_all add: escaped_plain)
  have rssi: "length rssi \<le> 11"
    using length_from(2) [of "ws_rssi ?w"] by (simp add: rssi_def from_int_def null_text_def)
  have up: "length (escaped (cstr (uptime_text (rs_uptime_seconds r)))) < 64"
    using uptime_text_length by (simp add: plain_cstr plain_uptime escaped_plain)
  have dev: "length (escaped (cstr (di_manufacturer d))) < 32" "length (escaped (cstr (di_model d))) < 24"
      "length (escaped (cstr (di_sw_version d))) < 32" "length (escaped (cstr (di_hw_version d))) < 24"
    using assms(2,5) by (simp_all add: device_info_is_valid_iff [OF assms(3)] state_texts_plain_def device_plain_def
        escaped_plain)
  show ?thesis
    using texts rssi up dev length_dec_unat(2) [of "rs_uptime_seconds r"] length_dec_unat(1)
      [of "rc_accepted n"] length_dec_unat(1) [of "rc_published_ack n"] length_dec_unat(1) [of "rc_dropped_offline n"]
      length_dec_unat(1) [of "rc_dropped_enqueue n"] length_dec_unat(1) [of "rc_dropped_policy n"]
      length_bool_text [of "ws_connected ?w \<and> rs_mqtt_connected r \<and> rs_ble_connected r"]
      length_bool_text [of "ws_connected ?w"] length_bool_text [of "rs_mqtt_connected r"]
      length_bool_text [of "rs_ble_connected r"] length_bool_text [of "rs_ble_bonded r"]
    unfolding status_members_def Let_def ssid_def [symmetric] ip_def [symmetric] rssi_def [symmetric]
    by (simp add: member_room_simps length_member quoted_def del: cs_Cons)
qed

text \<open>
  The status message is the JSON object of the status whatever bytes the Wi-Fi name and the other
  texts hold: every number, flag and text is read back unchanged, the diagnostics are left out when they
  are unknown, and a text that does not fit is reported. With texts of the sizes their types allow, of
  which only the Wi-Fi name needs escaping, the buffer of 3072 bytes is always large enough.
\<close>

theorem state_payload_is_json:
  assumes "wifi_status_is_valid (Some (rs_wifi r))" "device_info_is_valid (Some d)" "0 < cap" "cap \<le> length b"
  shows "delivers (mqtt_relay_build_state_payload (Some n) (Some r) (Some d) (Some (b, cap))) cap (state_json n r d) \<and>
    (device_sizes d \<and> runtime_sizes r \<and> state_texts_plain r d \<and> cap = MQTT_RELAY_STATE_PAYLOAD_MAX \<longrightarrow>
      (\<exists>out. mqtt_relay_build_state_payload (Some n) (Some r) (Some d) (Some (b, cap)) = Some (ESP_OK, out)))"
proof (intro conjI impI)
  show "delivers (mqtt_relay_build_state_payload (Some n) (Some r) (Some d) (Some (b, cap))) cap (state_json n r d)"
    using state_written [OF assms] reads_jsonI [OF reads_state] unfolding delivers_def by blast
next
  assume a: "device_sizes d \<and> runtime_sizes r \<and> state_texts_plain r d \<and> cap = MQTT_RELAY_STATE_PAYLOAD_MAX"
  have "length (cstr (dg_firmware_elf_sha256 (rs_diagnostics r))) \<le> 64"
    using a length_cstr_less [of "dg_firmware_elf_sha256 (rs_diagnostics r)"] by (simp add: runtime_sizes_def)
  with a have "member_room (diagnostics_members r) \<le> 2120"
    by (intro diagnostics_room) (simp_all add: state_texts_plain_def)
  moreover have "member_room (status_members n r d) \<le> 950" using status_room [OF assms(1,2)] a by blast
  moreover have "length (state_text n r d) = member_room (status_members n r d @
      (if dg_valid (rs_diagnostics r) then diagnostics_members r else [])) + 1"
    unfolding state_text_def by (rule length_joined) (simp add: status_members_def Let_def)
  ultimately have "length (state_text n r d) < cap"
    using a by (auto simp: member_room_simps MQTT_RELAY_STATE_PAYLOAD_MAX_def)
  then show "\<exists>out. mqtt_relay_build_state_payload (Some n) (Some r) (Some d) (Some (b, cap)) = Some (ESP_OK, out)"
    using state_written [OF assms, of n] by auto
qed

definition sample_diagnostics :: mqtt_relay_diagnostics where
  "sample_diagnostics = \<lparr>
     dg_valid = True, dg_wifi_retry_attempts = 1, dg_wifi_retry_in_ms = 1, dg_wifi_generation = 1,
     dg_wifi_disconnect_reason = -1, dg_wifi_connect_error = -1, dg_automatic_recovery_ap = True,
     dg_wifi_retry_paused = True, dg_bond_store_known = True, dg_stored_peer_count = -1,
     dg_bond_store_error = -1, dg_boot_peer_count = -1, dg_session_authenticated = True,
     dg_link_encrypted = True, dg_ancs_service_found = True, dg_data_source_subscribed = True,
     dg_notification_source_subscribed = True, dg_ancs_ready = True, dg_enrollment_active = True,
     dg_enrollment_remaining_seconds = 1, dg_authentication_protection = True, dg_auth_failure_count = 1,
     dg_auth_error = -1, dg_last_auth_error = -1, dg_last_auth_error_at_ms = 7, dg_ble_stage_error = -1,
     dg_ble_disconnect_reason = -1, dg_ble_generation = 1, dg_mqtt_error_type = -1,
     dg_mqtt_esp_error = -1, dg_mqtt_tls_error = -1, dg_mqtt_socket_errno = -1,
     dg_mqtt_connect_return_code = -1, dg_last_mqtt_error_type = -1, dg_last_mqtt_esp_error = -1,
     dg_last_mqtt_tls_error = -1, dg_last_mqtt_socket_errno = -1, dg_last_mqtt_connect_return_code = -1,
     dg_last_mqtt_error_at_ms = 7, dg_mqtt_retry_in_ms = 1, dg_reset_reason = -1,
     dg_firmware_elf_sha256 = text_field 65 (cs ''0a1b'')\<rparr>"

definition sample_runtime :: mqtt_relay_runtime_status where
  "sample_runtime = \<lparr>rs_wifi = \<lparr>ws_connected = True, ws_ssid = text_field 33 [34, 92, 7, 200],
       ws_ip = text_field 16 (cs ''10.0.0.2''), ws_rssi = -60\<rparr>,
     rs_mqtt_connected = True, rs_ble_connected = False, rs_ble_bonded = True, rs_uptime_seconds = 100000,
     rs_last_notification_uptime_ms = 5, rs_diagnostics = sample_diagnostics\<rparr>"

definition sample_counters :: mqtt_relay_counters where
  "sample_counters = \<lparr>rc_accepted = 3, rc_published_ack = 2, rc_dropped_offline = 0, rc_dropped_enqueue = 0,
     rc_dropped_policy = 1, rc_freed = 2\<rparr>"

theorem state_payload_is_json_witness:
  "\<exists>out. mqtt_relay_build_state_payload (Some sample_counters) (Some sample_runtime) (Some sample_device)
      (Some (replicate 3072 0, 3072)) = Some (ESP_OK, out) \<and>
    parse_json (cstr out) = Some (state_json sample_counters sample_runtime sample_device)"
proof -
  have w: "wifi_status_is_valid (Some (rs_wifi sample_runtime))"
    by (simp add: sample_runtime_def wifi_status_is_valid_def bounded_required_text_def strnlen_eq cstr_text_field)
      (simp add: nonempty_def text_field_def)
  have sz: "runtime_sizes sample_runtime" "state_texts_plain sample_runtime sample_device"
    by (simp_all add: runtime_sizes_def state_texts_plain_def sample_runtime_def sample_diagnostics_def
        sample_device_plain terminated_text_field cstr_text_field plain_def)
  show ?thesis
    using state_payload_is_json [OF w sample_device_valid, of 3072 "replicate 3072 0" sample_counters] sz
      sample_device_sizes
    unfolding delivers_def by (auto simp: MQTT_RELAY_STATE_PAYLOAD_MAX_def split: if_splits)
qed

end
