(* ===== verification/Mqtt_App_Name.thy ===== *)
theory Mqtt_App_Name
  imports Prelude
begin

text \<open>
  The display names of well-known applications, \<^verbatim>\<open>components/mqtt_relay/mqtt_app_name.c\<close>. The Korean
  names are UTF-8.
\<close>

definition APP_NAMES :: "(bytes \<times> bytes) list" where
  "APP_NAMES = [
     (cs ''com.apple.MobileSMS'', [235, 169, 148, 236, 139, 156, 236, 167, 128]),
     (cs ''com.apple.Maps'', [236, 167, 128, 235, 143, 132]),
     (cs ''com.apple.Music'', cs ''Apple Music''),
     (cs ''com.iwilab.KakaoTalk'', [236, 185, 180, 236, 185, 180, 236, 152, 164, 237, 134, 161]),
     (cs ''com.nhncorp.NaverSearch'', [235, 132, 164, 236, 157, 180, 235, 178, 132]),
     (cs ''com.nhncorp.NaverMap'', [235, 132, 164, 236, 157, 180, 235, 178, 132] @ cs '' '' @ [236, 167, 128, 235, 143, 132]),
     (cs ''com.nhncorp.NaverWebtoon'', [235, 132, 164, 236, 157, 180, 235, 178, 132] @ cs '' '' @ [236, 155, 185, 237, 136, 176]),
     (cs ''net.daum.maps'', [236, 185, 180, 236, 185, 180, 236, 152, 164, 235, 167, 181]),
     (cs ''com.google.Gmail'', cs ''Gmail''),
     (cs ''com.google.GoogleMobile'', cs ''Google''),
     (cs ''com.google.Maps'', cs ''Google '' @ [236, 167, 128, 235, 143, 132]),
     (cs ''com.google.ios.youtube'', cs ''YouTube''),
     (cs ''com.google.ios.youtubemusic'', cs ''YouTube Music''),
     (cs ''com.google.chrome.ios'', cs ''Chrome''),
     (cs ''net.whatsapp.WhatsApp'', cs ''WhatsApp''),
     (cs ''net.whatsapp.WhatsAppSMB'', cs ''WhatsApp Business''),
     (cs ''com.facebook.Facebook'', cs ''Facebook''),
     (cs ''com.facebook.Messenger'', cs ''Messenger''),
     (cs ''com.burbn.instagram'', cs ''Instagram''),
     (cs ''ph.telegra.Telegraph'', cs ''Telegram''),
     (cs ''com.atebits.Tweetie2'', cs ''X''),
     (cs ''com.spotify.client'', cs ''Spotify''),
     (cs ''com.netflix.Netflix'', cs ''Netflix''),
     (cs ''com.hammerandchisel.discord'', cs ''Discord''),
     (cs ''com.microsoft.Office.Outlook'', cs ''Outlook''),
     (cs ''com.microsoft.skype.teams'', cs ''Microsoft Teams''),
     (cs ''com.microsoft.azureauthenticator'', cs ''Microsoft Authenticator''),
     (cs ''com.tinyspeck.chatlyio'', cs ''Slack''),
     (cs ''com.slack.slackintune'', cs ''Slack for Intune''),
     (cs ''notion.id'', cs ''Notion''),
     (cs ''com.cron.calendar'', cs ''Notion '' @ [236, 186, 152, 235, 166, 176, 235, 141, 148]),
     (cs ''com.openai.chat'', cs ''ChatGPT''),
     (cs ''com.tving.iphone001'', cs ''TVING''),
     (cs ''com.jawebs.baedal'', [235, 176, 176, 235, 139, 172, 236, 157, 152, 235, 175, 188, 236, 161, 177]),
     (cs ''com.coupang.Coupang'', [236, 191, 160, 237, 140, 161]),
     (cs ''com.coupang.coupang-eats'', [236, 191, 160, 237, 140, 161, 236, 157, 180, 236, 184, 160]),
     (cs ''com.vivarepublica.cash'', [237, 134, 160, 236, 138, 164]),
     (cs ''com.kakaobank.channel'', [236, 185, 180, 236, 185, 180, 236, 152, 164, 235, 177, 133, 237, 129, 172]),
     (cs ''com.kakaopay.payapp.store'', [236, 185, 180, 236, 185, 180, 236, 152, 164, 237, 142, 152, 236, 157, 180]),
     (cs ''com.kbstar.kbbank'', cs ''KB'' @ [236, 138, 164, 237, 131, 128, 235, 177, 133, 237, 130, 185]),
     (cs ''com.kbcard.cxh.appcard'', cs ''KB Pay''),
     (cs ''com.shinhan.sbank'', [236, 139, 160, 237, 149, 156] @ cs '' '' @ [236, 138, 136, 237, 141, 188] @ cs ''SOL''),
     (cs ''com.shinhan.sbank2015'', [234, 181, 172] @ cs '' '' @ [236, 139, 160, 237, 149, 156] @ cs '' SOL'' @ [235, 177, 133, 237, 129, 172]),
     (cs ''com.wooribank.smart.npib'', [236, 154, 176, 235, 166, 172] @ cs ''WON'' @ [235, 177, 133, 237, 130, 185]),
     (cs ''com.wooricard.wcard'', [236, 154, 176, 235, 166, 172] @ cs ''WON'' @ [236, 185, 180, 235, 147, 156]),
     (cs ''com.hanabank.oqf'', [237, 149, 152, 235, 130, 152, 236, 155, 144, 237, 129, 144]),
     (cs ''com.kebhana.hanapush'', [234, 181, 172] @ cs '' '' @ [237, 149, 152, 235, 130, 152, 236, 155, 144, 237, 129, 144]),
     (cs ''com.samsungCard.samsungCard'', [235, 170, 168, 235, 139, 136, 235, 170, 168]),
     (cs ''com.shinhancard.MobilePay'', [236, 139, 160, 237, 149, 156] @ cs '' SOL'' @ [237, 142, 152, 236, 157, 180]),
     (cs ''com.hyundaicard.hcappcard'', [237, 152, 132, 235, 140, 128, 236, 185, 180, 235, 147, 156]),
     (cs ''com.nonghyup.card.NHAllonePay'', cs ''NH pay''),
     (cs ''com.nonghyup.newsmartbanking'', cs ''NH'' @ [236, 138, 164, 235, 167, 136, 237, 138, 184, 235, 177, 133, 237, 130, 185]),
     (cs ''com.naverfin.payapp'', [235, 132, 164, 236, 157, 180, 235, 178, 132, 237, 142, 152, 236, 157, 180]),
     (cs ''com.nhncorp.NaverShopping'', [235, 132, 164, 236, 157, 180, 235, 178, 132, 237, 148, 140, 235, 159, 172, 236, 138, 164] @ cs '' '' @ [236, 138, 164, 237, 134, 160, 236, 150, 180]),
     (cs ''com.towneers.www'', [235, 139, 185, 234, 183, 188]),
     (cs ''net.quicket.app'', [235, 178, 136, 234, 176, 156, 236, 158, 165, 237, 132, 176]),
     (cs ''net.bucketplacet.ohouse'', [236, 152, 164, 235, 138, 152, 236, 157, 152, 236, 167, 145]),
     (cs ''jp.naver.line'', cs ''LINE''),
     (cs ''com.ss.iphone.ugc.Ame'', cs ''TikTok''),
     (cs ''com.ss.iphone.ugc.tiktok.lite'', cs ''TikTok Lite''),
     (cs ''us.zoom.videomeetings'', cs ''Zoom Workplace''),
     (cs ''us.zoom.videomeetings4intune'', cs ''Zoom Workplace for Intune''),
     (cs ''com.google.Drive'', cs ''Google '' @ [235, 147, 156, 235, 157, 188, 236, 157, 180, 235, 184, 140]),
     (cs ''com.google.photos'', cs ''Google '' @ [237, 143, 172, 237, 134, 160]),
     (cs ''com.google.calendar'', cs ''Google '' @ [236, 186, 152, 235, 166, 176, 235, 141, 148]),
     (cs ''com.microsoft.skydrive'', cs ''OneDrive''),
     (cs ''com.microsoft.msedge'', cs ''Microsoft Edge''),
     (cs ''com.getdropbox.Dropbox'', cs ''Dropbox''),
     (cs ''com.reddit.Reddit'', cs ''Reddit''),
     (cs ''com.linkedin.LinkedIn'', cs ''LinkedIn''),
     (cs ''org.whispersystems.signal'', cs ''Signal''),
     (cs ''com.tencent.xin'', cs ''WeChat''),
     (cs ''com.alipay.iphoneclient'', cs ''Alipay''),
     (cs ''com.ubercab.UberClient'', cs ''Uber''),
     (cs ''com.ubercab.UberEats'', cs ''Uber Eats''),
     (cs ''com.airbnb.app'', cs ''Airbnb''),
     (cs ''kr.co.withweb.aboutyeogi'', [236, 151, 172, 234, 184, 176, 236, 150, 180, 235, 149, 140]),
     (cs ''kr.co.rememberapp'', [235, 166, 172, 235, 169, 164, 235, 178, 132]),
     (cs ''com.github.stormbreaker.prod'', cs ''GitHub''),
     (cs ''com.anthropic.claude'', cs ''Claude'')]"

text \<open>\<open>strcasecmp\<close> in the C locale.\<close>

definition tolower :: "u8 \<Rightarrow> u8" where
  "tolower b = (if 65 \<le> b \<and> b \<le> 90 then b + 32 else b)"

definition strcasecmp_equal :: "bytes \<Rightarrow> bytes \<Rightarrow> bool" where
  "strcasecmp_equal s t \<longleftrightarrow> map tolower (cstr s) = map tolower (cstr t)"

fun lookup_loop :: "(bytes \<times> bytes) list \<Rightarrow> bytes \<Rightarrow> bytes" where
  "lookup_loop [] app_id = app_id"
| "lookup_loop ((a, display_name) # rest) app_id =
    (if strcasecmp_equal app_id a then display_name else lookup_loop rest app_id)"

definition mqtt_app_name_lookup :: "bytes option \<Rightarrow> bytes" where
  "mqtt_app_name_lookup app_id =
    (case app_id of None \<Rightarrow> []
     | Some i \<Rightarrow> if cstr i = [] then [] else lookup_loop APP_NAMES i)"

section \<open>Lemmas\<close>

text \<open>The names of the table are short and do not contain NUL.\<close>

lemma app_names_short: "list_all (\<lambda>(a, d). length d \<le> 32 \<and> 0 \<notin> set d \<and> d \<noteq> []) APP_NAMES"
  by (simp add: APP_NAMES_def)

lemma lookup_cases:
  "list_all (\<lambda>(a, d). P d) table \<Longrightarrow> P (lookup_loop table i) \<or> lookup_loop table i = i"
  by (induction table) auto

lemma lookup_result:
  "length (cstr (mqtt_app_name_lookup (Some i))) \<le> max 32 (length (cstr i))"
proof -
  let ?P = "\<lambda>d. length d \<le> 32 \<and> 0 \<notin> set d \<and> d \<noteq> []"
  have "?P (lookup_loop APP_NAMES i) \<or> lookup_loop APP_NAMES i = i"
    using app_names_short by (rule lookup_cases)
  then show ?thesis by (auto simp: mqtt_app_name_lookup_def)
qed

end
