(* ===== verification/Notification_Sink.thy ===== *)
theory Notification_Sink
  imports Text_Sink Json Ancs_Protocol
begin

text \<open>
  The notification sink, \<^verbatim>\<open>components/notification_sink/notification_sink_serial.c\<close>: the bounded JSON
  writer with its UTF-8 check, the notification and state messages, and their publication. The name of
  the target chip, \<open>CONFIG_IDF_TARGET\<close>, is an argument.
\<close>

section \<open>The writer\<close>

record json_writer =
  jw_buffer :: bytes
  jw_capacity :: nat
  jw_length :: nat
  jw_failed :: bool

text \<open>\<open>memcpy\<close> behind the text written so far and the NUL after it; \<open>None\<close> is a write outside the buffer.\<close>

definition writer_append :: "bytes \<Rightarrow> json_writer \<Rightarrow> json_writer option" where
  "writer_append t w =
    (if jw_failed w then Some w
     else if length t \<ge> jw_capacity w - jw_length w then Some (w\<lparr>jw_failed := True\<rparr>)
     else if jw_length w + length t < length (jw_buffer w)
     then Some (w\<lparr>jw_buffer := take (jw_length w) (jw_buffer w) @ t @ 0 #
                    drop (jw_length w + length t + 1) (jw_buffer w),
                  jw_length := jw_length w + length t\<rparr>)
     else None)"

definition writer_raw :: "bytes option \<Rightarrow> json_writer \<Rightarrow> json_writer option" where
  "writer_raw text w = (case text of None \<Rightarrow> Some w | Some t \<Rightarrow> writer_append (cstr t) w)"

definition writer_bytes :: "bytes \<Rightarrow> nat \<Rightarrow> json_writer \<Rightarrow> json_writer option" where
  "writer_bytes bs n w = writer_append (take n bs) w"

text \<open>\<open>vsnprintf\<close> of a formatted text; a text that does not fit leaves its front in the buffer.\<close>

definition writer_format :: "bytes \<Rightarrow> json_writer \<Rightarrow> json_writer option" where
  "writer_format formatted w =
    (if jw_failed w then Some w
     else do {
       buf \<leftarrow> snprintf_at (jw_buffer w) (jw_length w) (jw_capacity w - jw_length w) formatted;
       if length formatted \<ge> jw_capacity w - jw_length w
       then Some (w\<lparr>jw_buffer := buf, jw_failed := True\<rparr>)
       else Some (w\<lparr>jw_buffer := buf, jw_length := jw_length w + length formatted\<rparr>)
     })"

section \<open>UTF-8\<close>

definition continuation :: "u8 \<Rightarrow> bool" where
  "continuation b \<longleftrightarrow> b AND 0xC0 = 0x80"

text \<open>The argument is the rest of the text; its length is \<open>remaining\<close>.\<close>

definition valid_utf8_sequence :: "bytes \<Rightarrow> nat" where
  "valid_utf8_sequence bs =
    (let first = bs ! 0; remaining = length bs in
     if first < 0x80 then 1
     else if first \<ge> 0xC2 \<and> first \<le> 0xDF \<and> remaining \<ge> 2 \<and> continuation (bs ! 1) then 2
     else if (remaining \<ge> 3 \<and> continuation (bs ! 1) \<and> continuation (bs ! 2)) \<and>
       (first = 0xE0 \<and> bs ! 1 \<ge> 0xA0 \<and> bs ! 1 \<le> 0xBF \<or>
        (first \<ge> 0xE1 \<and> first \<le> 0xEC \<or> first \<ge> 0xEE \<and> first \<le> 0xEF) \<or>
        first = 0xED \<and> bs ! 1 \<ge> 0x80 \<and> bs ! 1 \<le> 0x9F) then 3
     else if (remaining \<ge> 4 \<and> continuation (bs ! 1) \<and> continuation (bs ! 2) \<and> continuation (bs ! 3)) \<and>
       (first = 0xF0 \<and> bs ! 1 \<ge> 0x90 \<and> bs ! 1 \<le> 0xBF \<or>
        first \<ge> 0xF1 \<and> first \<le> 0xF3 \<or>
        first = 0xF4 \<and> bs ! 1 \<ge> 0x80 \<and> bs ! 1 \<le> 0x8F) then 4
     else 0)"

section \<open>Strings\<close>

text \<open>\<open>%04X\<close> of a byte.\<close>

definition hex_digit_upper :: "u8 \<Rightarrow> u8" where
  "hex_digit_upper d = (if d < 10 then 48 + d else 55 + d)"

definition hex4 :: "u8 \<Rightarrow> bytes" where
  "hex4 b = [48, 48, hex_digit_upper (drop_bit 4 b), hex_digit_upper (b AND 15)]"

definition writer_escape :: "u8 \<Rightarrow> bytes option" where
  "writer_escape b =
    (if b = 34 then Some [92, 34]
     else if b = 92 then Some [92, 92]
     else if b = 8 then Some [92, 98]
     else if b = 12 then Some [92, 102]
     else if b = 10 then Some [92, 110]
     else if b = 13 then Some [92, 114]
     else if b = 9 then Some [92, 116]
     else None)"

text \<open>The loop over the bytes of the text; it stops when the writer has failed.\<close>

function writer_string_loop :: "bytes \<Rightarrow> json_writer \<Rightarrow> json_writer option" where
  "writer_string_loop [] w = Some w"
| "writer_string_loop (b # r) w =
    (if jw_failed w then Some w
     else case writer_escape b of
       Some e \<Rightarrow> do { w \<leftarrow> writer_raw (Some e) w; writer_string_loop r w }
     | None \<Rightarrow>
         if b < 0x20 then do { w \<leftarrow> writer_format ([92, 117] @ hex4 b) w; writer_string_loop r w }
         else if valid_utf8_sequence (b # r) = 0
         then do { w \<leftarrow> writer_raw (Some (92 # cs ''uFFFD'')) w; writer_string_loop r w }
         else do {
           w \<leftarrow> writer_bytes (b # r) (valid_utf8_sequence (b # r)) w;
           writer_string_loop (drop (valid_utf8_sequence (b # r)) (b # r)) w
         })"
  by pat_completeness auto
termination by (relation "measure (\<lambda>(bs, w). length bs)") auto

definition writer_string :: "bytes option \<Rightarrow> json_writer \<Rightarrow> json_writer option" where
  "writer_string text w = do {
     w \<leftarrow> writer_raw (Some [34]) w;
     w \<leftarrow> writer_string_loop (case text of None \<Rightarrow> [] | Some t \<Rightarrow> cstr t) w;
     writer_raw (Some [34]) w
   }"

section \<open>Messages\<close>

definition error_name :: "int \<Rightarrow> bytes" where
  "error_name error_code =
    (if error_code = error_number ANCS_PROTOCOL_ERR_ARGUMENT then cs ''invalid_argument''
     else if error_code = error_number ANCS_PROTOCOL_ERR_LENGTH then cs ''invalid_length''
     else if error_code = error_number ANCS_PROTOCOL_ERR_EVENT then cs ''invalid_event''
     else if error_code = error_number ANCS_PROTOCOL_ERR_COMMAND then cs ''invalid_command''
     else if error_code = error_number ANCS_PROTOCOL_ERR_UID_MISMATCH then cs ''uid_mismatch''
     else if error_code = error_number ANCS_PROTOCOL_ERR_ATTRIBUTE then cs ''invalid_attribute''
     else if error_code = error_number ANCS_PROTOCOL_ERR_OVERFLOW then cs ''overflow''
     else if error_code = error_number ANCS_PROTOCOL_ERR_SEQUENCE then cs ''invalid_sequence''
     else if error_code = error_number ANCS_PROTOCOL_ERR_CANCELED then cs ''canceled''
     else if error_code = error_number ANCS_PROTOCOL_ERR_TIMEOUT then cs ''timeout''
     else if error_code = 0xA0 then cs ''unknown_command''
     else if error_code = 0xA1 then cs ''invalid_ancs_command''
     else if error_code = 0xA2 then cs ''invalid_parameter''
     else if error_code = 0xA3 then cs ''action_failed''
     else cs ''unknown'')"

definition json_bool :: "bool \<Rightarrow> bytes" where
  "json_bool v = (if v then cs ''true'' else cs ''false'')"

text \<open>The calls of the writer a message is made of: \<open>writer_raw\<close>, \<open>writer_format\<close> and \<open>writer_string\<close>.\<close>

datatype writer_call = Raw bytes | Format bytes | String bytes

fun writer_calls :: "writer_call list \<Rightarrow> json_writer \<Rightarrow> json_writer option" where
  "writer_calls [] w = Some w"
| "writer_calls (Raw t # calls) w = do { w \<leftarrow> writer_raw (Some t) w; writer_calls calls w }"
| "writer_calls (Format t # calls) w = do { w \<leftarrow> writer_format t w; writer_calls calls w }"
| "writer_calls (String t # calls) w = do { w \<leftarrow> writer_string (Some t) w; writer_calls calls w }"

text \<open>The result is 0, or -2 when the text did not fit, with the buffer.\<close>

definition run_writer :: "writer_call list \<Rightarrow> bytes \<Rightarrow> nat \<Rightarrow> (int \<times> bytes) option" where
  "run_writer calls output capacity = do {
     output \<leftarrow> store output 0 0;
     w \<leftarrow> writer_calls calls \<lparr>jw_buffer = output, jw_capacity = capacity, jw_length = 0, jw_failed = False\<rparr>;
     Some (if jw_failed w then -2 else 0, jw_buffer w)
   }"

definition notification_calls :: "bytes \<Rightarrow> ancs_notification \<Rightarrow> bytes \<Rightarrow> writer_call list" where
  "notification_calls target n device_name = [
     Raw (cs ''{\"schema_version\":1,\"target\":\"'' @ target @ cs ''\",\"device_name\":''),
     String device_name,
     Format (cs '',\"session_id\":'' @ dec (unat (n_session_id n)) @ cs '',\"event\":''),
     String (ancs_event_name (n_event_id n)),
     Format (cs '',\"event_id\":'' @ dec (unat (n_event_id n)) @ cs '',\"uid\":'' @ dec (unat (n_uid n)) @
       cs '',\"event_flags\":'' @ dec (unat (n_event_flags n)) @
       cs '',\"silent\":'' @ json_bool (ancs_event_flag_is_set (n_event_flags n) ANCS_EVENT_FLAG_SILENT) @
       cs '',\"important\":'' @ json_bool (ancs_event_flag_is_set (n_event_flags n) ANCS_EVENT_FLAG_IMPORTANT) @
       cs '',\"pre_existing\":'' @ json_bool (ancs_event_flag_is_set (n_event_flags n) ANCS_EVENT_FLAG_PRE_EXISTING) @
       cs '',\"positive_action_available\":'' @
         json_bool (ancs_event_flag_is_set (n_event_flags n) ANCS_EVENT_FLAG_POSITIVE_ACTION) @
       cs '',\"negative_action_available\":'' @
         json_bool (ancs_event_flag_is_set (n_event_flags n) ANCS_EVENT_FLAG_NEGATIVE_ACTION) @
       cs '',\"category_id\":'' @ dec (unat (n_category_id n)) @ cs '',\"category\":''),
     String (ancs_category_name (n_category_id n)),
     Format (cs '',\"category_count\":'' @ dec (unat (n_category_count n)) @ cs '',\"app_id\":''),
     String (n_app_id n),
     Raw (cs '',\"app_name\":''), String (n_app_name n),
     Raw (cs '',\"title\":''), String (n_title n),
     Raw (cs '',\"subtitle\":''), String (n_subtitle n),
     Raw (cs '',\"message\":''), String (n_message n),
     Raw (cs '',\"message_size\":''), String (n_message_size_raw n),
     Raw (cs '',\"date\":''), String (n_date_raw n),
     Format (cs '',\"complete\":'' @ json_bool (n_complete n) @
       cs '',\"truncated\":{\"app_id\":'' @ json_bool (n_app_id_truncated n) @
       cs '',\"app_name\":'' @ json_bool (n_app_name_truncated n) @
       cs '',\"title\":'' @ json_bool (n_title_truncated n) @
       cs '',\"subtitle\":'' @ json_bool (n_subtitle_truncated n) @
       cs '',\"message\":'' @ json_bool (n_message_truncated n) @ cs ''},\"error\":'')] @
     (if n_complete n \<and> n_error_code n = 0 then [Raw (cs ''null'')]
      else [Format (cs ''{\"code\":'' @ dec_int (n_error_code n) @ cs '',\"name\":''),
            String (error_name (n_error_code n)), Raw (cs ''}'')]) @
     [Format (cs '',\"received_at_ms\":'' @ dec_int (n_received_at_ms n) @ cs ''}'')]"

definition notification_sink_format_json ::
  "bytes \<Rightarrow> ancs_notification option \<Rightarrow> bytes option \<Rightarrow> bytes option \<Rightarrow> nat \<Rightarrow> (int \<times> bytes) option" where
  "notification_sink_format_json target notification device_name output capacity =
    (case (notification, device_name, output) of
       (Some n, Some d, Some out) \<Rightarrow>
         if capacity = 0 then Some (-1, out) else run_writer (notification_calls target n d) out capacity
     | _ \<Rightarrow> Some (-1, case output of None \<Rightarrow> [] | Some out \<Rightarrow> out))"

definition state_calls :: "bytes \<Rightarrow> bytes \<Rightarrow> u32 \<Rightarrow> bool \<Rightarrow> bool \<Rightarrow> bool \<Rightarrow> int \<Rightarrow> writer_call list" where
  "state_calls target state session_id bonded data_source_subscribed notification_source_subscribed auth_error = [
     Raw (cs ''{\"target\":\"'' @ target @ cs ''\",\"state\":''), String state,
     Format (cs '',\"session_id\":'' @ dec (unat session_id) @ cs '',\"bonded\":'' @ json_bool bonded @
       cs '',\"data_source_subscribed\":'' @ json_bool data_source_subscribed @
       cs '',\"notification_source_subscribed\":'' @ json_bool notification_source_subscribed @
       cs '',\"auth_error\":'' @ dec_int auth_error @ cs ''}'')]"

definition notification_sink_format_state_json ::
  "bytes \<Rightarrow> bytes option \<Rightarrow> u32 \<Rightarrow> bool \<Rightarrow> bool \<Rightarrow> bool \<Rightarrow> int \<Rightarrow> bytes option \<Rightarrow> nat \<Rightarrow> (int \<times> bytes) option" where
  "notification_sink_format_state_json target state session_id bonded data_source_subscribed
     notification_source_subscribed auth_error output capacity =
    (case (state, output) of
       (Some s, Some out) \<Rightarrow>
         if capacity = 0 then Some (-1, out)
         else run_writer (state_calls target s session_id bonded data_source_subscribed
                notification_source_subscribed auth_error) out capacity
     | _ \<Rightarrow> Some (-1, case output of None \<Rightarrow> [] | Some out \<Rightarrow> out))"

section \<open>Publication\<close>

text \<open>
  \<open>malloc\<close> is a parameter: the block it returns, or none. The result comes with the line printed on the
  console and with whether the observer was called with the notification.
\<close>

definition SIZE_MAX :: nat where "SIZE_MAX = 2 ^ 32 - 1"

definition text_length :: "ancs_notification \<Rightarrow> bytes \<Rightarrow> nat" where
  "text_length n device_name = length (cstr (n_app_id n)) + length (cstr (n_app_name n)) + length (cstr (n_title n)) +
     length (cstr (n_subtitle n)) + length (cstr (n_message n)) + length (cstr (n_message_size_raw n)) +
     length (cstr (n_date_raw n)) + length (cstr device_name)"

definition notification_sink_publish ::
  "(nat \<Rightarrow> bytes option) \<Rightarrow> bool \<Rightarrow> bytes \<Rightarrow> ancs_notification option \<Rightarrow> bytes option \<Rightarrow>
   (int \<times> bytes option \<times> bool) option" where
  "notification_sink_publish malloc observer target notification device_name =
    (case (notification, device_name) of
       (Some n, Some d) \<Rightarrow>
         if text_length n d > (SIZE_MAX - 2048) div 6 then Some (-1, None, False)
         else let capacity = 2048 + text_length n d * 6 in
           (case malloc capacity of
              None \<Rightarrow> Some (-1, None, False)
            | Some json \<Rightarrow> do {
                (result, json) \<leftarrow> notification_sink_format_json target notification device_name (Some json) capacity;
                if result = 0
                then Some (result, Some (cs ''ANCS_NOTIFICATION_JSON '' @ cstr json @ [10]), observer)
                else Some (result, None, False)
              })
     | _ \<Rightarrow> Some (-1, None, False))"

definition notification_sink_publish_state ::
  "bytes \<Rightarrow> bytes \<Rightarrow> bytes option \<Rightarrow> u32 \<Rightarrow> bool \<Rightarrow> bool \<Rightarrow> bool \<Rightarrow> int \<Rightarrow> (int \<times> bytes option) option" where
  "notification_sink_publish_state json target state session_id bonded data_source_subscribed
     notification_source_subscribed auth_error = do {
     (result, json) \<leftarrow> notification_sink_format_state_json target state session_id bonded data_source_subscribed
       notification_source_subscribed auth_error (Some json) 768;
     Some (result, if result = 0 then Some (cs ''ANCS_STATE_JSON '' @ cstr json @ [10]) else None)
   }"

end
