(* ===== verification/Utf8.thy ===== *)
theory Utf8
  imports Notification_Sink
begin

text \<open>
  The UTF-8 check of \<^verbatim>\<open>notification_sink_serial.c\<close> against the definition of UTF-8, and the texts its string
  writer produces.
\<close>

section \<open>Well-formed sequences\<close>

lemma byte_range: "\<exists>n < 256. b = (of_nat n :: u8)"
  by (intro exI [of _ "unat b"]) (auto intro: order_less_le_trans [OF unsigned_less])

lemma unat_byte: "n < 256 \<Longrightarrow> unat (of_nat n :: u8) = n"
  by (simp add: unat_of_nat)

lemma continuation_table: "list_all (\<lambda>n. continuation (of_nat n) \<longleftrightarrow> 128 \<le> n \<and> n < 192) [0..<256]"
  unfolding continuation_def by code_simp

lemma continuation_iff: "continuation b \<longleftrightarrow> 128 \<le> unat b \<and> unat b < 192"
  using byte_range [of b] continuation_table by (auto simp: list_all_iff unat_byte)

lemma unat_consts:
  "unat (0x80 :: u8) = 128"
  "unat (0xC2 :: u8) = 194"
  "unat (0xDF :: u8) = 223"
  "unat (0xE0 :: u8) = 224"
  "unat (0xA0 :: u8) = 160"
  "unat (0xBF :: u8) = 191"
  "unat (0xE1 :: u8) = 225"
  "unat (0xEC :: u8) = 236"
  "unat (0xEE :: u8) = 238"
  "unat (0xEF :: u8) = 239"
  "unat (0xED :: u8) = 237"
  "unat (0x9F :: u8) = 159"
  "unat (0xF0 :: u8) = 240"
  "unat (0x90 :: u8) = 144"
  "unat (0xF1 :: u8) = 241"
  "unat (0xF3 :: u8) = 243"
  "unat (0xF4 :: u8) = 244"
  "unat (0x8F :: u8) = 143"
  by simp_all

lemma valid_utf8_sequence_nat:
  "valid_utf8_sequence bs =
    (let f = unat (bs ! 0); s = unat (bs ! 1); cont = (\<lambda>i. 128 \<le> unat (bs ! i) \<and> unat (bs ! i) < 192) in
     if f < 128 then 1
     else if 194 \<le> f \<and> f \<le> 223 \<and> 2 \<le> length bs \<and> cont 1 then 2
     else if (3 \<le> length bs \<and> cont 1 \<and> cont 2) \<and>
       (f = 224 \<and> 160 \<le> s \<and> s \<le> 191 \<or> (225 \<le> f \<and> f \<le> 236 \<or> 238 \<le> f \<and> f \<le> 239) \<or>
        f = 237 \<and> 128 \<le> s \<and> s \<le> 159) then 3
     else if (4 \<le> length bs \<and> cont 1 \<and> cont 2 \<and> cont 3) \<and>
       (f = 240 \<and> 144 \<le> s \<and> s \<le> 191 \<or> 241 \<le> f \<and> f \<le> 243 \<or> f = 244 \<and> 128 \<le> s \<and> s \<le> 143) then 4
     else 0)"
  unfolding valid_utf8_sequence_def Let_def continuation_iff word_le_nat_alt word_less_nat_alt word_unat_eq_iff unat_consts
  by (rule refl)

section \<open>Completeness and soundness\<close>

lemma utf8_cases:
  assumes "scalar_value cp"
  obtains
    (one) "cp < 128" "utf8 cp = [of_nat cp]"
  | (two) q r where "2 \<le> q" "q < 32" "r < 64" "cp = 64 * q + r" "utf8 cp = [of_nat (192 + q), of_nat (128 + r)]"
  | (three) p q r where "p < 16" "q < 64" "r < 64" "cp = 4096 * p + 64 * q + r"
      "p = 0 \<longrightarrow> 32 \<le> q" "p = 13 \<longrightarrow> q < 32"
      "utf8 cp = [of_nat (224 + p), of_nat (128 + q), of_nat (128 + r)]"
  | (four) m p q r where "m \<le> 4" "p < 64" "q < 64" "r < 64" "cp = 262144 * m + 4096 * p + 64 * q + r"
      "m = 0 \<longrightarrow> 16 \<le> p" "m = 4 \<longrightarrow> p < 16"
      "utf8 cp = [of_nat (240 + m), of_nat (128 + p), of_nat (128 + q), of_nat (128 + r)]"
proof -
  define r where "r = cp mod 64"
  define q where "q = cp div 64 mod 64"
  define p where "p = cp div 4096 mod 64"
  define m where "m = cp div 262144"
  have e1: "cp = 64 * (cp div 64) + r" unfolding r_def by simp
  have e2: "cp div 64 = 64 * (cp div 4096) + q"
    unfolding q_def using div_mult2_eq [of cp 64 64] by simp
  have e3: "cp div 4096 = 64 * m + p"
    unfolding p_def m_def using div_mult2_eq [of cp 4096 64] by simp
  have l: "r < 64" "q < 64" "p < 64" by (simp_all add: r_def q_def p_def)
  have eq: "cp = 262144 * m + 4096 * p + 64 * q + r" using e1 e2 e3 by linarith
  note parts = r_def [symmetric] q_def [symmetric] p_def [symmetric] m_def [symmetric]
  consider "cp < 128" | "128 \<le> cp" "cp < 2048" | "2048 \<le> cp" "cp < 65536" | "65536 \<le> cp" by linarith
  then show thesis
  proof cases
    case 1
    then show thesis by (intro one) (simp_all add: utf8_def)
  next
    case 2
    then have z: "m = 0" "p = 0" using eq by linarith+
    then have z3: "cp div 64 = q" using e1 eq by linarith
    have "utf8 cp = [of_nat (192 + q), of_nat (128 + r)]"
      using 2 z3 unfolding utf8_def by (simp add: r_def)
    then show thesis using 2 eq l z by (intro two [of q r]) simp_all
  next
    case 3
    then have "m = 0" "p < 16" using eq by linarith+
    then have z: "m = 0" "cp div 4096 = p" "p < 16" using e3 by linarith+
    have "utf8 cp = [of_nat (224 + p), of_nat (128 + q), of_nat (128 + r)]"
      using 3 z(2) unfolding utf8_def by (simp add: r_def q_def)
    moreover have "p = 0 \<longrightarrow> 32 \<le> q" "p = 13 \<longrightarrow> q < 32"
      using 3 eq z l assms unfolding scalar_value_def by linarith+
    ultimately show thesis using eq l z by (intro three [of p q r]) simp_all
  next
    case 4
    have b: "m \<le> 4" "m = 0 \<longrightarrow> 16 \<le> p" "m = 4 \<longrightarrow> p < 16"
      using 4 eq l assms unfolding scalar_value_def by linarith+
    have "utf8 cp = [of_nat (240 + m), of_nat (128 + p), of_nat (128 + q), of_nat (128 + r)]"
      using 4 unfolding utf8_def parts by simp
    then show thesis using eq l b by (intro four [of m p q r]) simp_all
  qed
qed

lemma valid_utf8_sequence_complete:
  assumes "scalar_value cp" shows "valid_utf8_sequence (utf8 cp @ rest) = length (utf8 cp)"
  using assms
proof (cases rule: utf8_cases)
  case one
  then show ?thesis by (simp add: valid_utf8_sequence_nat Let_def unat_byte)
next
  case (two q r)
  then have "unat (of_nat (192 + q) :: u8) = 192 + q" "unat (of_nat (128 + r) :: u8) = 128 + r"
    by (intro unat_byte; linarith)+
  with two(1-3) show ?thesis unfolding valid_utf8_sequence_nat two(5) Let_def
    by (simp del: of_nat_add)
next
  case (three p q r)
  then have "unat (of_nat (224 + p) :: u8) = 224 + p" "unat (of_nat (128 + q) :: u8) = 128 + q"
      "unat (of_nat (128 + r) :: u8) = 128 + r"
    by (intro unat_byte; linarith)+
  with three(1-3,5,6) show ?thesis unfolding valid_utf8_sequence_nat three(7) Let_def
    by (simp del: of_nat_add) presburger
next
  case (four m p q r)
  then have "unat (of_nat (240 + m) :: u8) = 240 + m" "unat (of_nat (128 + p) :: u8) = 128 + p"
      "unat (of_nat (128 + q) :: u8) = 128 + q" "unat (of_nat (128 + r) :: u8) = 128 + r"
    by (intro unat_byte; linarith)+
  with four(1-4,6,7) show ?thesis unfolding valid_utf8_sequence_nat four(8) Let_def
    by (simp del: of_nat_add) presburger
qed

lemma low_six: "r < 64 \<Longrightarrow> (64 * a + r) div 64 = a" "r < 64 \<Longrightarrow> (64 * a + r) mod 64 = (r :: nat)"
  by simp_all

lemma utf8_intros:
  "cp < 128 \<Longrightarrow> utf8 cp = [of_nat cp]"
  "2 \<le> q \<Longrightarrow> q < 32 \<Longrightarrow> r < 64 \<Longrightarrow> utf8 (64 * q + r) = [of_nat (192 + q), of_nat (128 + r)]"
  "p < 16 \<Longrightarrow> q < 64 \<Longrightarrow> r < 64 \<Longrightarrow> (p = 0 \<longrightarrow> 32 \<le> q) \<Longrightarrow>
     utf8 (4096 * p + 64 * q + r) = [of_nat (224 + p), of_nat (128 + q), of_nat (128 + r)]"
  "p < 64 \<Longrightarrow> q < 64 \<Longrightarrow> r < 64 \<Longrightarrow> (m = 0 \<longrightarrow> 16 \<le> p) \<Longrightarrow>
     utf8 (262144 * m + 4096 * p + 64 * q + r) =
       [of_nat (240 + m), of_nat (128 + p), of_nat (128 + q), of_nat (128 + r)]"
proof -
  show "cp < 128 \<Longrightarrow> utf8 cp = [of_nat cp]" by (simp add: utf8_def)
  show "2 \<le> q \<Longrightarrow> q < 32 \<Longrightarrow> r < 64 \<Longrightarrow> utf8 (64 * q + r) = [of_nat (192 + q), of_nat (128 + r)]"
  proof -
    assume a: "2 \<le> q" "q < 32" "r < 64"
    have "(64 * q + r) div 64 = q" "(64 * q + r) mod 64 = r" using a(3) by simp_all
    with a show ?thesis by (simp add: utf8_def)
  qed
  show "utf8 (4096 * p + 64 * q + r) = [of_nat (224 + p), of_nat (128 + q), of_nat (128 + r)]"
    if a: "p < 16" "q < 64" "r < 64" "p = 0 \<longrightarrow> 32 \<le> q"
  proof -
    have e: "4096 * p + 64 * q + r = 64 * (64 * p + q) + r" by simp
    have d: "(4096 * p + 64 * q + r) div 64 = 64 * p + q" "(4096 * p + 64 * q + r) mod 64 = r"
      unfolding e using low_six [OF a(3)] by blast+
    have "(4096 * p + 64 * q + r) div 4096 = p"
      using div_mult2_eq [of "4096 * p + 64 * q + r" 64 64] d(1) a(2) by simp
    moreover have "2048 \<le> 4096 * p + 64 * q + r" "4096 * p + 64 * q + r < 65536" using a by (cases "p = 0"; simp)+
    ultimately show ?thesis using d a(2) unfolding utf8_def by simp
  qed
  show "utf8 (262144 * m + 4096 * p + 64 * q + r) =
       [of_nat (240 + m), of_nat (128 + p), of_nat (128 + q), of_nat (128 + r)]"
    if a: "p < 64" "q < 64" "r < 64" "m = 0 \<longrightarrow> 16 \<le> p"
  proof -
    let ?c = "262144 * m + 4096 * p + 64 * q + r"
    have d0: "?c = 64 * (4096 * m + 64 * p + q) + r" by simp
    have d: "?c div 64 = 4096 * m + 64 * p + q" "?c mod 64 = r"
      unfolding d0 using low_six [OF a(3)] by blast+
    have e0: "4096 * m + 64 * p + q = 64 * (64 * m + p) + q" by simp
    have e: "(4096 * m + 64 * p + q) div 64 = 64 * m + p" "(4096 * m + 64 * p + q) mod 64 = q"
      unfolding e0 using low_six [OF a(2)] by blast+
    have c: "?c div 4096 = 64 * m + p" using div_mult2_eq [of ?c 64 64] d(1) e(1) by simp
    have "?c div 262144 = m" using div_mult2_eq [of ?c 4096 64] c a(1) by simp
    moreover have "65536 \<le> ?c" using a by (cases "m = 0") simp_all
    ultimately show ?thesis using d e c a(1) unfolding utf8_def by simp
  qed
qed

lemma byte_of_unat: "unat (b :: u8) = k + n \<Longrightarrow> of_nat (k + n) = b"
  by (drule sym) (simp del: of_nat_add)

lemma take_nths:
  "2 \<le> length bs \<Longrightarrow> take 2 bs = [bs ! 0, bs ! 1]"
  "3 \<le> length bs \<Longrightarrow> take 3 bs = [bs ! 0, bs ! 1, bs ! 2]"
  "4 \<le> length bs \<Longrightarrow> take 4 bs = [bs ! 0, bs ! 1, bs ! 2, bs ! 3]"
  by (rule nth_equalityI; auto simp: less_Suc_eq nth_Cons' numeral_eq_Suc)+

lemma valid_utf8_sequence_sound:
  assumes "bs \<noteq> []" "valid_utf8_sequence bs \<noteq> 0"
  shows "\<exists>cp. scalar_value cp \<and> take (valid_utf8_sequence bs) bs = utf8 cp"
proof -
  define f where "f = unat (bs ! 0)"
  define cont where "cont i \<longleftrightarrow> 128 \<le> unat (bs ! i) \<and> unat (bs ! i) < 192" for i
  have part: "\<exists>k < 64. bs ! i = of_nat (128 + k) \<and> unat (bs ! i) = 128 + k" if "cont i" for i
    using that byte_of_unat [of "bs ! i" 128 "unat (bs ! i) - 128"]
    by (intro exI [of _ "unat (bs ! i) - 128"]) (auto simp add: cont_def simp del: of_nat_add)
  note rules = valid_utf8_sequence_nat [of bs, unfolded Let_def, folded f_def, folded cont_def]
  consider (one) "f < 128" "valid_utf8_sequence bs = 1"
    | (two) "194 \<le> f" "f \<le> 223" "2 \<le> length bs" "cont 1" "valid_utf8_sequence bs = 2"
    | (three) "224 \<le> f" "f \<le> 239" "3 \<le> length bs" "cont 1" "cont 2" "f = 224 \<longrightarrow> 160 \<le> unat (bs ! 1)"
        "f = 237 \<longrightarrow> unat (bs ! 1) \<le> 159" "valid_utf8_sequence bs = 3"
    | (four) "240 \<le> f" "f \<le> 244" "4 \<le> length bs" "cont 1" "cont 2" "cont 3" "f = 240 \<longrightarrow> 144 \<le> unat (bs ! 1)"
        "f = 244 \<longrightarrow> unat (bs ! 1) \<le> 143" "valid_utf8_sequence bs = 4"
    using assms(2) unfolding rules by (auto split: if_splits)
  then show ?thesis
  proof cases
    case one
    have "take 1 bs = [bs ! 0]" using assms(1) by (cases bs) auto
    moreover have "bs ! 0 = of_nat f" by (simp add: f_def)
    ultimately have "take (valid_utf8_sequence bs) bs = utf8 f" using one by (simp only: utf8_intros(1))
    then show ?thesis using one by (intro exI [of _ f]) (simp add: scalar_value_def)
  next
    case two
    obtain r where r: "r < 64" "bs ! 1 = of_nat (128 + r)" using part [OF two(4)] by blast
    have b: "bs ! 0 = of_nat (192 + (f - 192))" using two(1) by (simp add: f_def del: of_nat_add)
    have "scalar_value (64 * (f - 192) + r)"
      using two(1,2) r(1) unfolding scalar_value_def by linarith
    then show ?thesis
      using two r utf8_intros(2) [of "f - 192" r] take_nths(1) [of bs] b
      by (intro exI [of _ "64 * (f - 192) + r"]) (simp del: of_nat_add)
  next
    case three
    obtain q where q: "q < 64" "bs ! 1 = of_nat (128 + q)" "unat (bs ! 1) = 128 + q" using part [OF three(4)] by blast
    obtain r where r: "r < 64" "bs ! 2 = of_nat (128 + r)" using part [OF three(5)] by blast
    have b: "bs ! 0 = of_nat (224 + (f - 224))" using three(1) by (simp add: f_def del: of_nat_add)
    have "scalar_value (4096 * (f - 224) + 64 * q + r)"
    proof -
      have m: "f - 224 \<le> 15" "f \<noteq> 237 \<Longrightarrow> f - 224 \<le> 12 \<or> 14 \<le> f - 224" using three(1,2) by linarith+
      show ?thesis
      proof (cases "f = 237")
        case True
        with three(7) q(3) r(1) show ?thesis by (simp add: scalar_value_def)
      next
        case False
        with m q(1) r(1) show ?thesis unfolding scalar_value_def by linarith
      qed
    qed
    moreover have "f - 224 = 0 \<longrightarrow> 32 \<le> q" using three(1,6) q(3) by linarith
    ultimately show ?thesis
      using three q r utf8_intros(3) [of "f - 224" q r] take_nths(2) [of bs] b
      by (intro exI [of _ "4096 * (f - 224) + 64 * q + r"]) (simp del: of_nat_add)
  next
    case four
    obtain p where p: "p < 64" "bs ! 1 = of_nat (128 + p)" "unat (bs ! 1) = 128 + p" using part [OF four(4)] by blast
    obtain q where q: "q < 64" "bs ! 2 = of_nat (128 + q)" using part [OF four(5)] by blast
    obtain r where r: "r < 64" "bs ! 3 = of_nat (128 + r)" using part [OF four(6)] by blast
    have b: "bs ! 0 = of_nat (240 + (f - 240))" using four(1) by (simp add: f_def del: of_nat_add)
    have "scalar_value (262144 * (f - 240) + 4096 * p + 64 * q + r)"
    proof -
      have "65536 \<le> 262144 * (f - 240) + 4096 * p"
        using four(1,7) p(3) by (cases "f = 240") auto
      moreover have "262144 * (f - 240) + 4096 * p \<le> 262144 * 4 + 4096 * 15"
        using four(2,8) p(1,3) by (cases "f = 244") auto
      ultimately show ?thesis using q(1) r(1) unfolding scalar_value_def by linarith
    qed
    moreover have "f - 240 = 0 \<longrightarrow> 16 \<le> p" using four(1,7) p(3) by linarith
    ultimately show ?thesis
      using four p q r utf8_intros(4) [of p q r "f - 240"] take_nths(3) [of bs] b
      by (intro exI [of _ "262144 * (f - 240) + 4096 * p + 64 * q + r"]) (simp del: of_nat_add)
  qed
qed

lemma valid_utf8_sequence_length: "bs \<noteq> [] \<Longrightarrow> valid_utf8_sequence bs \<le> length bs"
  by (cases "bs = []") (auto simp: valid_utf8_sequence_nat Let_def Suc_le_eq)

lemma valid_utf8_sequence_ascii: "b < 0x80 \<Longrightarrow> valid_utf8_sequence (b # r) = 1"
  by (simp add: valid_utf8_sequence_def)

section \<open>Valid texts and the replacement of invalid bytes\<close>

definition valid_utf8 :: "bytes \<Rightarrow> bool" where
  "valid_utf8 bs \<longleftrightarrow> (\<exists>cps. list_all scalar_value cps \<and> bs = concat (map utf8 cps))"

lemma valid_utf8_Nil [simp]: "valid_utf8 []"
  unfolding valid_utf8_def by (intro exI [of _ "[]"]) simp

lemma valid_utf8_append: "valid_utf8 s \<Longrightarrow> valid_utf8 t \<Longrightarrow> valid_utf8 (s @ t)"
  unfolding valid_utf8_def by (metis concat_append list_all_append map_append)

lemma valid_utf8_one: "scalar_value cp \<Longrightarrow> valid_utf8 (utf8 cp)"
  unfolding valid_utf8_def by (intro exI [of _ "[cp]"]) simp

lemma valid_utf8_ascii: "\<forall>b \<in> set s. b < 0x80 \<Longrightarrow> valid_utf8 s"
proof (induction s)
  case (Cons b s)
  then have "unat b < 128" by (simp add: word_less_nat_alt)
  then have "valid_utf8 [b]"
    using valid_utf8_one [of "unat b"] by (simp add: scalar_value_def utf8_def)
  with Cons valid_utf8_append [of "[b]" s] show ?case by simp
qed simp

lemma utf8_nonempty: "utf8 cp \<noteq> []"
  by (simp add: utf8_def)

text \<open>Every byte that starts no well-formed sequence becomes U+FFFD.\<close>

function sanitize :: "bytes \<Rightarrow> bytes" where
  "sanitize [] = []"
| "sanitize (b # r) =
    (if valid_utf8_sequence (b # r) = 0 then utf8 0xFFFD @ sanitize r
     else take (valid_utf8_sequence (b # r)) (b # r) @ sanitize (drop (valid_utf8_sequence (b # r)) (b # r)))"
  by pat_completeness auto
termination by (relation "measure length") auto

declare sanitize.simps(2) [simp del]

lemma sanitize_valid: "valid_utf8 (sanitize s)"
proof (induction s rule: sanitize.induct)
  case (2 b r)
  show ?case
  proof (cases "valid_utf8_sequence (b # r) = 0")
    case True
    with 2(1) show ?thesis
      by (simp add: sanitize.simps(2) valid_utf8_append valid_utf8_one scalar_value_def)
  next
    case False
    then obtain cp where "scalar_value cp" "take (valid_utf8_sequence (b # r)) (b # r) = utf8 cp"
      using valid_utf8_sequence_sound [of "b # r"] by auto
    with 2(2) [OF False] False show ?thesis
      by (simp add: sanitize.simps(2) valid_utf8_append valid_utf8_one)
  qed
qed simp

lemma sanitize_utf8: "scalar_value cp \<Longrightarrow> sanitize (utf8 cp @ rest) = utf8 cp @ sanitize rest"
proof -
  assume cp: "scalar_value cp"
  obtain b r where b: "utf8 cp @ rest = b # r" using utf8_nonempty [of cp] by (cases "utf8 cp") auto
  note seq = valid_utf8_sequence_complete [OF cp, of rest, unfolded b]
  have "take (length (utf8 cp)) (b # r) = utf8 cp" "drop (length (utf8 cp)) (b # r) = rest"
    unfolding b [symmetric] by simp_all
  then show ?thesis
    using utf8_nonempty [of cp] unfolding b sanitize.simps(2) seq by simp
qed

lemma sanitize_id: "valid_utf8 s \<Longrightarrow> sanitize s = s"
proof -
  have "list_all scalar_value cps \<Longrightarrow> sanitize (concat (map utf8 cps)) = concat (map utf8 cps)" for cps
    by (induction cps) (auto simp: sanitize_utf8)
  then show "valid_utf8 s \<Longrightarrow> ?thesis" unfolding valid_utf8_def by blast
qed

text \<open>
  C38: The UTF-8 check is exact: it accepts the front of a text with a length exactly when that front is
  the encoding of one Unicode scalar value, so overlong forms, surrogates, code points beyond the last
  plane, stray and missing continuation bytes are all refused.
\<close>

theorem valid_utf8_sequence_exact:
  assumes "bs \<noteq> []"
  shows "(valid_utf8_sequence bs = n \<and> n \<noteq> 0) \<longleftrightarrow> (\<exists>cp rest. scalar_value cp \<and> bs = utf8 cp @ rest \<and> n = length (utf8 cp))"
proof
  assume n: "valid_utf8_sequence bs = n \<and> n \<noteq> 0"
  then obtain cp where cp: "scalar_value cp" "take n bs = utf8 cp"
    using valid_utf8_sequence_sound [OF assms] by auto
  have "n \<le> length bs" using valid_utf8_sequence_length [OF assms] n by simp
  with cp(2) have "n = length (utf8 cp)" by (metis length_take min.absorb2)
  then show "\<exists>cp rest. scalar_value cp \<and> bs = utf8 cp @ rest \<and> n = length (utf8 cp)"
    using cp by (metis append_take_drop_id)
next
  assume "\<exists>cp rest. scalar_value cp \<and> bs = utf8 cp @ rest \<and> n = length (utf8 cp)"
  then show "valid_utf8_sequence bs = n \<and> n \<noteq> 0"
    using valid_utf8_sequence_complete utf8_nonempty by auto
qed

theorem valid_utf8_sequence_exact_witness:
  "\<exists>cp rest. scalar_value cp \<and> [0xEA, 0xB0, 0x80, 0x41 :: u8] = utf8 cp @ rest \<and> 3 = length (utf8 cp)"
  using valid_utf8_sequence_exact [of "[0xEA, 0xB0, 0x80, 0x41]" 3]
  by (simp add: valid_utf8_sequence_nat Let_def)

end
