(* ===== verification/Notification_Sink_Correct.thy ===== *)
theory Notification_Sink_Correct
  imports Utf8
begin

text \<open>
  The messages of \<^verbatim>\<open>notification_sink_serial.c\<close> are valid UTF-8 and valid JSON for every notification, and
  their buffer is large enough.
\<close>

section \<open>The writer is a text sink\<close>

text \<open>A piece is copied (\<open>writer_raw\<close>, \<open>writer_bytes\<close>) or formatted.\<close>

datatype writer_piece = Copied bytes | Formatted bytes

fun put_piece :: "writer_piece \<Rightarrow> json_writer \<Rightarrow> json_writer option" where
  "put_piece (Copied t) w = writer_append t w"
| "put_piece (Formatted t) w = writer_format t w"

fun piece_text :: "writer_piece \<Rightarrow> bytes" where
  "piece_text (Copied t) = t"
| "piece_text (Formatted t) = t"

definition jw_ok :: "json_writer \<Rightarrow> bool" where
  "jw_ok w \<longleftrightarrow> jw_capacity w \<le> length (jw_buffer w) \<and> jw_length w < jw_capacity w \<and>
     (\<not> jw_failed w \<longrightarrow> jw_buffer w ! jw_length w = 0)"

definition jw_written :: "json_writer \<Rightarrow> bytes" where
  "jw_written w = take (jw_length w) (jw_buffer w)"

definition jw_room :: "json_writer \<Rightarrow> nat" where
  "jw_room w = jw_capacity w - jw_length w"

lemma snprintf_length: "snprintf_at buf pos n t = Some buf' \<Longrightarrow> length buf' = length buf"
  by (auto simp: snprintf_at_def Let_def split: if_splits)

interpretation nw: text_sink put_piece piece_text jw_ok jw_failed jw_written jw_room
proof
  fix w :: json_writer and t
  assume w: "jw_ok w" "\<not> jw_failed w" and l: "length (piece_text t) < jw_room w"
  have b: "jw_length w + length (piece_text t) < length (jw_buffer w)"
    using w l unfolding jw_ok_def jw_room_def by linarith
  then have suc: "Suc (length (jw_buffer w) - Suc 0) = length (jw_buffer w)" by simp
  show "\<exists>w1. put_piece t w = Some w1 \<and> jw_ok w1 \<and> \<not> jw_failed w1 \<and>
      jw_written w1 = jw_written w @ piece_text t \<and> jw_room w1 = jw_room w - length (piece_text t)"
    using w l b suc snprintf_fits [of "piece_text t" "jw_capacity w - jw_length w" "jw_length w" "jw_buffer w"]
    by (cases t) (auto simp: writer_append_def writer_format_def jw_ok_def jw_room_def jw_written_def nth_append)
next
  fix w :: json_writer and t
  assume w: "jw_ok w" "\<not> jw_failed w" and l: "jw_room w \<le> length (piece_text t)"
  show "\<exists>w1. put_piece t w = Some w1 \<and> jw_ok w1 \<and> jw_failed w1"
  proof (cases t)
    case (Copied s)
    with w l show ?thesis by (simp add: writer_append_def jw_room_def jw_ok_def)
  next
    case (Formatted s)
    have "\<exists>buf. snprintf_at (jw_buffer w) (jw_length w) (jw_room w) s = Some buf"
      using w l Formatted by (auto simp: snprintf_at_def Let_def jw_room_def jw_ok_def)
    then obtain buf where "snprintf_at (jw_buffer w) (jw_length w) (jw_room w) s = Some buf" by blast
    with snprintf_length [OF this] w l Formatted show ?thesis
      by (simp add: writer_format_def jw_room_def jw_ok_def)
  qed
next
  fix w :: json_writer and t
  assume "jw_ok w" "jw_failed w"
  then show "put_piece t w = Some w" by (cases t) (simp_all add: writer_append_def writer_format_def)
qed (auto simp: jw_ok_def jw_room_def)

section \<open>Strings\<close>

function string_pieces :: "bytes \<Rightarrow> writer_piece list" where
  "string_pieces [] = []"
| "string_pieces (b # r) =
    (case writer_escape b of
       Some e \<Rightarrow> Copied e # string_pieces r
     | None \<Rightarrow>
         if b < 0x20 then Formatted ([92, 117] @ hex4 b) # string_pieces r
         else if valid_utf8_sequence (b # r) = 0 then Copied (92 # cs ''uFFFD'') # string_pieces r
         else Copied (take (valid_utf8_sequence (b # r)) (b # r)) #
           string_pieces (drop (valid_utf8_sequence (b # r)) (b # r)))"
  by pat_completeness auto
termination by (relation "measure length") auto

declare string_pieces.simps(2) [simp del] writer_string_loop.simps(2) [simp del]

lemma writer_escape_cstr: "writer_escape b = Some e \<Longrightarrow> cstr e = e"
  by (auto simp: writer_escape_def split: if_splits)

lemma writer_string_loop_puts:
  "jw_ok w \<Longrightarrow> writer_string_loop s w = puts put_piece (string_pieces s) w"
proof (induction s arbitrary: w rule: string_pieces.induct)
  case (2 b r)
  let ?n = "valid_utf8_sequence (b # r)"
  have step: "\<exists>w1. put_piece p w = Some w1 \<and> jw_ok w1" for p
    using nw.puts_ok [OF 2(5), of "[p]"] by (cases "put_piece p w") auto
  show ?case
  proof (cases "jw_failed w")
    case True
    then show ?thesis using nw.puts_failed [OF 2(5)] by (simp add: writer_string_loop.simps(2))
  next
    case running: False
    show ?thesis
    proof (cases "writer_escape b")
      case (Some e)
      obtain w1 where "put_piece (Copied e) w = Some w1" "jw_ok w1" using step by blast
      with Some running 2(4) [OF Some] show ?thesis
        by (simp add: writer_string_loop.simps(2) string_pieces.simps(2) writer_raw_def writer_escape_cstr)
    next
      case None
      consider (ctl) "b < 0x20" | (bad) "\<not> b < 0x20" "?n = 0" | (seq) "\<not> b < 0x20" "?n \<noteq> 0" by blast
      then show ?thesis
      proof cases
        case ctl
        obtain w1 where "put_piece (Formatted ([92, 117] @ hex4 b)) w = Some w1" "jw_ok w1" using step by blast
        with None running ctl 2(1) [OF None ctl] show ?thesis
          by (simp add: writer_string_loop.simps(2) string_pieces.simps(2))
      next
        case bad
        obtain w1 where "put_piece (Copied (92 # cs ''uFFFD'')) w = Some w1" "jw_ok w1" using step by blast
        with None running bad 2(2) [OF None bad] show ?thesis
          by (simp add: writer_string_loop.simps(2) string_pieces.simps(2) writer_raw_def)
      next
        case seq
        obtain w1 where "put_piece (Copied (take ?n (b # r))) w = Some w1" "jw_ok w1" using step by blast
        with None running seq 2(3) [OF None seq] show ?thesis
          by (simp add: writer_string_loop.simps(2) string_pieces.simps(2) writer_bytes_def)
      qed
    qed
  qed
qed simp

definition string_body :: "bytes \<Rightarrow> bytes" where
  "string_body s = concat (map piece_text (string_pieces s))"

lemma string_body_Nil [simp]: "string_body [] = []"
  by (simp add: string_body_def)

lemma string_body_Cons:
  "string_body (b # r) =
    (case writer_escape b of
       Some e \<Rightarrow> e @ string_body r
     | None \<Rightarrow>
         if b < 0x20 then [92, 117] @ hex4 b @ string_body r
         else if valid_utf8_sequence (b # r) = 0 then 92 # cs ''uFFFD'' @ string_body r
         else take (valid_utf8_sequence (b # r)) (b # r) @
           string_body (drop (valid_utf8_sequence (b # r)) (b # r)))"
  by (simp add: string_body_def string_pieces.simps(2) split: option.splits)

lemma hex_value_upper: "d < 16 \<Longrightarrow> hex_value (hex_digit_upper d) = Some (unat d)"
proof -
  assume d: "d < 16"
  then have u: "unat d < 16" by (simp add: word_less_nat_alt)
  have h: "unat (hex_digit_upper d) = (if unat d < 10 then 48 + unat d else 55 + unat d)"
    using u by (simp add: hex_digit_upper_def word_less_nat_alt unat_word_ariths mod_if)
  show ?thesis using u h by (simp add: hex_value_def word_le_nat_alt)
qed

lemma nibbles_value: "unat (drop_bit 4 (b :: u8)) * 16 + unat (b AND 15) = unat b"
proof -
  have "b AND 15 = take_bit 4 b" by (simp add: take_bit_eq_mask mask_eq_exp_minus_1)
  then have "unat (b AND 15) = unat b mod 16" by (simp add: take_bit_eq_mod unat_mod)
  moreover have "unat (drop_bit 4 b) = unat b div 16" by (simp add: drop_bit_eq_div unat_div)
  ultimately show ?thesis by simp
qed

lemma hex_digit_upper_range:
  assumes "d < 16" shows "48 \<le> unat (hex_digit_upper d)" "unat (hex_digit_upper d) \<le> 70"
proof -
  from assms have u: "unat d < 16" by (simp add: word_less_nat_alt)
  have h: "unat (hex_digit_upper d) = (if unat d < 10 then 48 + unat d else 55 + unat d)"
    using u by (simp add: hex_digit_upper_def word_less_nat_alt unat_word_ariths mod_if)
  then show "48 \<le> unat (hex_digit_upper d)" "unat (hex_digit_upper d) \<le> 70" using u by simp_all
qed

lemma control_hex4:
  assumes "b < 0x20"
  shows "\<exists>h l. hex4 b = [48, 48, h, l] \<and> unicode_escape 48 48 h l = Some [b]"
proof -
  have "unat b < 32" using assms by (simp add: word_less_nat_alt)
  then have "utf8 (unat b) = [b]" "scalar_value (unat b)" by (simp_all add: utf8_def scalar_value_def)
  then show ?thesis
    using hex_value_upper [OF nibbles_less(1)] hex_value_upper [OF nibbles_less(2)] nibbles_value [of b]
    by (simp add: hex4_def unicode_escape_def hex_value_def Let_def)
qed

lemma parse_string_plain_part: "plain s \<Longrightarrow> parse_string (s @ rest) = before s (parse_string rest)"
  by (cases "parse_string rest"; induction s) (auto simp: plain_def before_def)

lemma parse_u_fffd: "parse_string (92 # cs ''uFFFD'' @ rest) = before (utf8 0xFFFD) (parse_string rest)"
  by (simp add: unicode_escape_def hex_value_def scalar_value_def)

text \<open>A sequence of more than one byte has none below 0x80.\<close>

lemma utf8_high:
  assumes "scalar_value cp" "length (utf8 cp) \<noteq> 1" "b \<in> set (utf8 cp)"
  shows "128 \<le> unat b"
  using assms(1)
proof (cases rule: utf8_cases)
  case one
  with assms(2) show ?thesis by simp
next
  case (two q r)
  then have "unat (of_nat (192 + q) :: u8) = 192 + q" "unat (of_nat (128 + r) :: u8) = 128 + r"
    by (intro unat_byte; linarith)+
  with two(5) assms(3) show ?thesis by (auto simp del: of_nat_add)
next
  case (three p q r)
  then have "unat (of_nat (224 + p) :: u8) = 224 + p" "unat (of_nat (128 + q) :: u8) = 128 + q"
      "unat (of_nat (128 + r) :: u8) = 128 + r"
    by (intro unat_byte; linarith)+
  with three(7) assms(3) show ?thesis by (auto simp del: of_nat_add)
next
  case (four m p q r)
  then have "unat (of_nat (240 + m) :: u8) = 240 + m" "unat (of_nat (128 + p) :: u8) = 128 + p"
      "unat (of_nat (128 + q) :: u8) = 128 + q" "unat (of_nat (128 + r) :: u8) = 128 + r"
    by (intro unat_byte; linarith)+
  with four(8) assms(3) show ?thesis by (auto simp del: of_nat_add)
qed

lemma sequence_plain:
  assumes "writer_escape b = None" "\<not> b < 0x20" "valid_utf8_sequence (b # r) \<noteq> 0"
  shows "plain (take (valid_utf8_sequence (b # r)) (b # r))"
proof -
  obtain cp where cp: "scalar_value cp" "take (valid_utf8_sequence (b # r)) (b # r) = utf8 cp"
    using valid_utf8_sequence_sound [of "b # r"] assms(3) by auto
  have p: "plain [b]" using assms(1,2) by (auto simp: writer_escape_def plain_def not_less split: if_splits)
  show ?thesis
  proof (cases "length (utf8 cp) = 1")
    case True
    then have "utf8 cp = [b]"
      using cp(2) assms(3) by (cases "valid_utf8_sequence (b # r)"; cases "utf8 cp") auto
    with p cp(2) show ?thesis by simp
  next
    case False
    have "plain (utf8 cp)"
      unfolding plain_def
    proof
      fix c assume "c \<in> set (utf8 cp)"
      from utf8_high [OF cp(1) False this] show "32 \<le> c \<and> c \<noteq> 34 \<and> c \<noteq> 92"
        by (auto simp: word_le_nat_alt)
    qed
    with cp(2) show ?thesis by simp
  qed
qed

lemma before_Some: "before s (Some (t, rest)) = Some (s @ t, rest)"
  by (simp add: before_def)

lemma writer_escape_parse: "writer_escape b = Some e \<Longrightarrow> parse_string (e @ rest) = before [b] (parse_string rest)"
  by (auto simp: writer_escape_def simple_escape_def split: if_splits)

lemma low_sanitize: "b < 0x80 \<Longrightarrow> sanitize (b # r) = b # sanitize r"
  by (simp add: sanitize.simps(2) valid_utf8_sequence_ascii)

lemma writer_escape_ascii: "writer_escape b = Some e \<Longrightarrow> b < 0x80"
  by (auto simp: writer_escape_def split: if_splits)

lemma reads_string_body: "reads_string (sanitize s) (string_body s)"
  unfolding reads_string_def
proof (induction s rule: string_pieces.induct)
  case (2 b r)
  let ?n = "valid_utf8_sequence (b # r)"
  show ?case
  proof (cases "writer_escape b")
    case (Some e)
    with 2(4) [OF Some] show ?thesis
      by (simp add: string_body_Cons writer_escape_parse low_sanitize [OF writer_escape_ascii [OF Some]] before_Some)
  next
    case None
    consider (ctl) "b < 0x20" | (bad) "\<not> b < 0x20" "?n = 0" | (seq) "\<not> b < 0x20" "?n \<noteq> 0" by blast
    then show ?thesis
    proof cases
      case ctl
      then have "b < 0x80" by (simp add: word_less_nat_alt)
      obtain h l where "hex4 b = [48, 48, h, l]" "unicode_escape 48 48 h l = Some [b]"
        using control_hex4 [OF ctl] by blast
      with None ctl 2(1) [OF None ctl] low_sanitize [OF \<open>b < 0x80\<close>] show ?thesis
        by (simp add: string_body_Cons before_Some)
    next
      case bad
      then have "string_body (b # r) = 92 # cs ''uFFFD'' @ string_body r" "sanitize (b # r) = utf8 0xFFFD @ sanitize r"
        using None by (simp_all add: string_body_Cons sanitize.simps(2))
      with 2(2) [OF None bad] show ?thesis
        by (simp only: append_Cons append_assoc parse_u_fffd before_Some simp_thms)
    next
      case seq
      then have "string_body (b # r) = take ?n (b # r) @ string_body (drop ?n (b # r))"
          "sanitize (b # r) = take ?n (b # r) @ sanitize (drop ?n (b # r))"
        using None by (simp_all add: string_body_Cons sanitize.simps(2))
      with 2(3) [OF None seq] sequence_plain [OF None seq] show ?thesis
        by (simp only: append_assoc parse_string_plain_part before_Some simp_thms)
    qed
  qed
qed simp

lemma hex4_ascii: "c \<in> set (hex4 b) \<Longrightarrow> c < 0x80"
  using hex_digit_upper_range [OF nibbles_less(1), of b] hex_digit_upper_range [OF nibbles_less(2), of b]
  by (auto simp: hex4_def word_less_nat_alt)

lemma string_body_valid: "valid_utf8 (string_body s)"
proof (induction s rule: string_pieces.induct)
  case (2 b r)
  let ?n = "valid_utf8_sequence (b # r)"
  show ?case
  proof (cases "writer_escape b")
    case (Some e)
    then have "valid_utf8 e" by (auto simp: writer_escape_def intro!: valid_utf8_ascii split: if_splits)
    with Some 2(4) [OF Some] show ?thesis by (simp add: string_body_Cons valid_utf8_append)
  next
    case None
    consider (ctl) "b < 0x20" | (bad) "\<not> b < 0x20" "?n = 0" | (seq) "\<not> b < 0x20" "?n \<noteq> 0" by blast
    then show ?thesis
    proof cases
      case ctl
      have "valid_utf8 ([92, 117] @ hex4 b)" by (intro valid_utf8_ascii) (auto dest: hex4_ascii)
      from valid_utf8_append [OF this 2(1) [OF None ctl]] None ctl show ?thesis
        by (simp add: string_body_Cons)
    next
      case bad
      have "valid_utf8 (92 # cs ''uFFFD'')" by (intro valid_utf8_ascii) simp
      from valid_utf8_append [OF this 2(2) [OF None bad]] None bad show ?thesis
        by (simp add: string_body_Cons)
    next
      case seq
      then obtain cp where "scalar_value cp" "take ?n (b # r) = utf8 cp"
        using valid_utf8_sequence_sound [of "b # r"] by auto
      with valid_utf8_append [OF valid_utf8_one 2(3) [OF None seq]] None seq show ?thesis
        by (simp add: string_body_Cons)
    qed
  qed
qed simp

text \<open>No byte takes more than six.\<close>

lemma string_body_length: "length (string_body s) \<le> 6 * length s"
proof (induction s rule: string_pieces.induct)
  case (2 b r)
  let ?n = "valid_utf8_sequence (b # r)"
  show ?case
  proof (cases "writer_escape b")
    case (Some e)
    then have "length e \<le> 6" by (auto simp: writer_escape_def split: if_splits)
    with Some 2(4) [OF Some] show ?thesis by (simp add: string_body_Cons)
  next
    case None
    consider (ctl) "b < 0x20" | (bad) "\<not> b < 0x20" "?n = 0" | (seq) "\<not> b < 0x20" "?n \<noteq> 0" by blast
    then show ?thesis
    proof cases
      case ctl
      with None 2(1) [OF None ctl] show ?thesis by (simp add: string_body_Cons hex4_def)
    next
      case bad
      with None 2(2) [OF None bad] show ?thesis by (simp add: string_body_Cons)
    next
      case seq
      have "?n \<le> length (b # r)" by (rule valid_utf8_sequence_length) simp
      with None seq 2(3) [OF None seq] show ?thesis by (simp add: string_body_Cons)
    qed
  qed
qed simp

lemma string_body_nonzero: "0 \<notin> set s \<Longrightarrow> 0 \<notin> set (string_body s)"
proof (induction s rule: string_pieces.induct)
  case (2 b r)
  let ?n = "valid_utf8_sequence (b # r)"
  show ?case
  proof (cases "writer_escape b")
    case (Some e)
    then have "0 \<notin> set e" by (auto simp: writer_escape_def split: if_splits)
    with Some 2(4) [OF Some] 2(5) show ?thesis by (simp add: string_body_Cons)
  next
    case None
    consider (ctl) "b < 0x20" | (bad) "\<not> b < 0x20" "?n = 0" | (seq) "\<not> b < 0x20" "?n \<noteq> 0" by blast
    then show ?thesis
    proof cases
      case ctl
      have "0 \<notin> set (hex4 b)"
        using hex_digit_upper_range(1) [OF nibbles_less(1), of b] hex_digit_upper_range(1) [OF nibbles_less(2), of b]
        by (auto simp: hex4_def dest: sym)
      with None ctl 2(1) [OF None ctl] 2(5) show ?thesis by (simp add: string_body_Cons)
    next
      case bad
      with None 2(2) [OF None bad] 2(5) show ?thesis by (simp add: string_body_Cons)
    next
      case seq
      have "0 \<notin> set (take ?n (b # r))" "0 \<notin> set (drop ?n (b # r))"
        using 2(5) in_set_takeD [of 0 ?n "b # r"] in_set_dropD [of 0 ?n "b # r"] by blast+
      with None seq 2(3) [OF None seq] show ?thesis by (simp add: string_body_Cons)
    qed
  qed
qed simp

section \<open>Messages\<close>

fun call_pieces :: "writer_call \<Rightarrow> writer_piece list" where
  "call_pieces (Raw t) = [Copied (cstr t)]"
| "call_pieces (Format t) = [Formatted t]"
| "call_pieces (String t) = Copied [34] # string_pieces (cstr t) @ [Copied [34]]"

fun call_text :: "writer_call \<Rightarrow> bytes" where
  "call_text (Raw t) = cstr t"
| "call_text (Format t) = t"
| "call_text (String t) = quoted (string_body (cstr t))"

definition calls_text :: "writer_call list \<Rightarrow> bytes" where
  "calls_text calls = concat (map call_text calls)"

lemma calls_text_simps [simp]:
  "calls_text [] = []"
  "calls_text (c # calls) = call_text c @ calls_text calls"
  "calls_text (calls @ calls') = calls_text calls @ calls_text calls'"
  by (simp_all add: calls_text_def)

lemma call_pieces_text: "concat (map piece_text (concat (map call_pieces calls))) = calls_text calls"
proof (induction calls)
  case (Cons c calls)
  then show ?case by (cases c) (simp_all add: quoted_def string_body_def)
qed simp

lemma writer_calls_puts:
  "jw_ok w \<Longrightarrow> writer_calls calls w = puts put_piece (concat (map call_pieces calls)) w"
proof (induction calls arbitrary: w)
  case (Cons c calls)
  obtain w1 where w1: "puts put_piece (call_pieces c) w = Some w1" "jw_ok w1"
    using nw.puts_ok [OF Cons.prems] by blast
  have "writer_calls (c # calls) w = writer_calls calls w1"
  proof (cases c)
    case (String t)
    obtain w2 where w2: "writer_append [34] w = Some w2" "jw_ok w2"
      using nw.puts_ok [OF Cons.prems, of "[Copied [34]]"] by (auto split: option.splits)
    have "writer_string (Some t) w = puts put_piece (call_pieces c) w"
      using w2 writer_string_loop_puts [OF w2(2)]
      by (simp add: String writer_string_def writer_raw_def puts_append split: option.splits bind_splits)
    with w1(1) String show ?thesis by simp
  qed (use w1(1) in \<open>auto simp: writer_raw_def split: option.splits\<close>)
  with Cons.IH [OF w1(2)] w1(1) show ?case by (simp add: puts_append)
qed simp

lemma run_writer_spec:
  assumes "0 < capacity" "capacity \<le> length output" "0 \<notin> set (calls_text calls)"
  shows "\<exists>out. run_writer calls output capacity =
      Some (if length (calls_text calls) < capacity then 0 else -2, out) \<and>
    (length (calls_text calls) < capacity \<longrightarrow> cstr out = calls_text calls)"
proof -
  let ?w = "\<lparr>jw_buffer = output[0 := 0], jw_capacity = capacity, jw_length = 0, jw_failed = False\<rparr>"
  have ok: "jw_ok ?w" "\<not> jw_failed ?w" "jw_written ?w = []" "jw_room ?w = capacity"
    using assms(1,2) by (cases "output"; simp add: jw_ok_def jw_written_def jw_room_def)+
  have s: "store output 0 0 = Some (output[0 := 0])" using assms(1,2) by (intro store_Some) linarith
  note run = writer_calls_puts [OF ok(1), of calls]
  show ?thesis
  proof (cases "length (calls_text calls) < capacity")
    case True
    then obtain w1 where w1: "writer_calls calls ?w = Some w1" "jw_ok w1" "\<not> jw_failed w1"
        "jw_written w1 = calls_text calls"
      using nw.puts_fits [OF ok(1,2), of "concat (map call_pieces calls)"] ok(3,4) run
      by (auto simp: call_pieces_text)
    have "jw_length w1 < length (jw_buffer w1)" "jw_buffer w1 ! jw_length w1 = 0"
      using w1(2,3) by (auto simp: jw_ok_def)
    then have "cstr (jw_buffer w1) = cstr (calls_text calls)"
      using cstr_take_nul w1(4) by (simp add: jw_written_def)
    with w1 True s assms(3) show ?thesis by (simp add: run_writer_def)
  next
    case False
    then obtain w1 where "writer_calls calls ?w = Some w1" "jw_failed w1"
      using nw.puts_full [OF ok(1,2), of "concat (map call_pieces calls)"] ok(4) run
      by (auto simp: call_pieces_text)
    with False s show ?thesis by (simp add: run_writer_def)
  qed
qed

end
