(* ===== verification/Notification_Messages.thy ===== *)
theory Notification_Messages
  imports Notification_Sink_Correct
begin

text \<open>
  The notification and state messages of \<^verbatim>\<open>notification_sink_serial.c\<close> as JSON values: that they are read
  back, are valid UTF-8 and fit their buffers.
\<close>

section \<open>The messages as JSON values\<close>

text \<open>What the name of a chip looks like.\<close>

definition chip_name :: "bytes \<Rightarrow> bool" where
  "chip_name t \<longleftrightarrow> list_all (\<lambda>b. 48 \<le> b \<and> b \<le> 57 \<or> 97 \<le> b \<and> b \<le> 122) t \<and> length t \<le> 16"

lemma chip_name_bytes:
  assumes "chip_name t"
  shows "plain t" "0 \<notin> set t" "\<forall>b \<in> set t. b < 0x80"
  using assms by (auto simp: chip_name_def list_all_iff plain_def word_le_nat_alt word_less_nat_alt)

text \<open>The value of a text of the notification: with invalid bytes replaced.\<close>

definition text_json :: "bytes \<Rightarrow> json" where
  "text_json s = JStr (sanitize (cstr s))"

definition error_json :: "ancs_notification \<Rightarrow> json" where
  "error_json n = (if n_complete n \<and> n_error_code n = 0 then JNull
     else JObj [(cs ''code'', JNum (n_error_code n)), (cs ''name'', text_json (error_name (n_error_code n)))])"

definition notification_json :: "bytes \<Rightarrow> ancs_notification \<Rightarrow> bytes \<Rightarrow> (bytes \<times> json) list" where
  "notification_json target n device_name = [
     (cs ''schema_version'', JNum 1), (cs ''target'', JStr target), (cs ''device_name'', text_json device_name),
     (cs ''session_id'', JNum (uint (n_session_id n))), (cs ''event'', text_json (ancs_event_name (n_event_id n))),
     (cs ''event_id'', JNum (uint (n_event_id n))), (cs ''uid'', JNum (uint (n_uid n))),
     (cs ''event_flags'', JNum (uint (n_event_flags n))),
     (cs ''silent'', JBool (ancs_event_flag_is_set (n_event_flags n) ANCS_EVENT_FLAG_SILENT)),
     (cs ''important'', JBool (ancs_event_flag_is_set (n_event_flags n) ANCS_EVENT_FLAG_IMPORTANT)),
     (cs ''pre_existing'', JBool (ancs_event_flag_is_set (n_event_flags n) ANCS_EVENT_FLAG_PRE_EXISTING)),
     (cs ''positive_action_available'',
       JBool (ancs_event_flag_is_set (n_event_flags n) ANCS_EVENT_FLAG_POSITIVE_ACTION)),
     (cs ''negative_action_available'',
       JBool (ancs_event_flag_is_set (n_event_flags n) ANCS_EVENT_FLAG_NEGATIVE_ACTION)),
     (cs ''category_id'', JNum (uint (n_category_id n))),
     (cs ''category'', text_json (ancs_category_name (n_category_id n))),
     (cs ''category_count'', JNum (uint (n_category_count n))),
     (cs ''app_id'', text_json (n_app_id n)), (cs ''app_name'', text_json (n_app_name n)),
     (cs ''title'', text_json (n_title n)), (cs ''subtitle'', text_json (n_subtitle n)),
     (cs ''message'', text_json (n_message n)), (cs ''message_size'', text_json (n_message_size_raw n)),
     (cs ''date'', text_json (n_date_raw n)), (cs ''complete'', JBool (n_complete n)),
     (cs ''truncated'', JObj [
       (cs ''app_id'', JBool (n_app_id_truncated n)), (cs ''app_name'', JBool (n_app_name_truncated n)),
       (cs ''title'', JBool (n_title_truncated n)), (cs ''subtitle'', JBool (n_subtitle_truncated n)),
       (cs ''message'', JBool (n_message_truncated n))]),
     (cs ''error'', error_json n), (cs ''received_at_ms'', JNum (n_received_at_ms n))]"

definition string_text :: "bytes \<Rightarrow> bytes" where
  "string_text s = quoted (string_body (cstr s))"

definition error_text :: "ancs_notification \<Rightarrow> bytes" where
  "error_text n = (if n_complete n \<and> n_error_code n = 0 then null_text
     else object_text [(cs ''code'', dec_int (n_error_code n)), (cs ''name'', string_text (error_name (n_error_code n)))])"

definition truncated_text :: "ancs_notification \<Rightarrow> bytes" where
  "truncated_text n = object_text [
       (cs ''app_id'', bool_text (n_app_id_truncated n)), (cs ''app_name'', bool_text (n_app_name_truncated n)),
       (cs ''title'', bool_text (n_title_truncated n)), (cs ''subtitle'', bool_text (n_subtitle_truncated n)),
       (cs ''message'', bool_text (n_message_truncated n))]"

definition notification_members :: "bytes \<Rightarrow> ancs_notification \<Rightarrow> bytes \<Rightarrow> (bytes \<times> bytes) list" where
  "notification_members target n device_name = [
     (cs ''schema_version'', dec (Suc 0)), (cs ''target'', quoted target), (cs ''device_name'', string_text device_name),
     (cs ''session_id'', dec (unat (n_session_id n))), (cs ''event'', string_text (ancs_event_name (n_event_id n))),
     (cs ''event_id'', dec (unat (n_event_id n))), (cs ''uid'', dec (unat (n_uid n))),
     (cs ''event_flags'', dec (unat (n_event_flags n))),
     (cs ''silent'', bool_text (ancs_event_flag_is_set (n_event_flags n) ANCS_EVENT_FLAG_SILENT)),
     (cs ''important'', bool_text (ancs_event_flag_is_set (n_event_flags n) ANCS_EVENT_FLAG_IMPORTANT)),
     (cs ''pre_existing'', bool_text (ancs_event_flag_is_set (n_event_flags n) ANCS_EVENT_FLAG_PRE_EXISTING)),
     (cs ''positive_action_available'',
       bool_text (ancs_event_flag_is_set (n_event_flags n) ANCS_EVENT_FLAG_POSITIVE_ACTION)),
     (cs ''negative_action_available'',
       bool_text (ancs_event_flag_is_set (n_event_flags n) ANCS_EVENT_FLAG_NEGATIVE_ACTION)),
     (cs ''category_id'', dec (unat (n_category_id n))),
     (cs ''category'', string_text (ancs_category_name (n_category_id n))),
     (cs ''category_count'', dec (unat (n_category_count n))),
     (cs ''app_id'', string_text (n_app_id n)), (cs ''app_name'', string_text (n_app_name n)),
     (cs ''title'', string_text (n_title n)), (cs ''subtitle'', string_text (n_subtitle n)),
     (cs ''message'', string_text (n_message n)), (cs ''message_size'', string_text (n_message_size_raw n)),
     (cs ''date'', string_text (n_date_raw n)), (cs ''complete'', bool_text (n_complete n)),
     (cs ''truncated'', truncated_text n), (cs ''error'', error_text n),
     (cs ''received_at_ms'', dec_int (n_received_at_ms n))]"

lemma reads_string_text: "reads (text_json s) (string_text s)"
  unfolding text_json_def string_text_def by (intro reads_quoted reads_string_body)

lemma reads_error: "reads (error_json n) (error_text n)"
  unfolding error_json_def error_text_def
  by (auto intro!: reads_object reads_null simp: reads_member_def plain_def reads_dec_int reads_string_text)

lemma reads_truncated:
  "reads (JObj [
       (cs ''app_id'', JBool (n_app_id_truncated n)), (cs ''app_name'', JBool (n_app_name_truncated n)),
       (cs ''title'', JBool (n_title_truncated n)), (cs ''subtitle'', JBool (n_subtitle_truncated n)),
       (cs ''message'', JBool (n_message_truncated n))]) (truncated_text n)"
  unfolding truncated_text_def
  by (intro reads_object) (simp_all add: reads_member_def plain_def reads_bool)

lemma plain_members: "list_all (\<lambda>m. plain (fst m)) (notification_members target n d)"
  by (simp add: notification_members_def plain_def)

lemma reads_notification_members:
  assumes "chip_name target"
  shows "list_all2 reads_member (notification_json target n d) (notification_members target n d)"
  using chip_name_bytes(1) [OF assms] plain_members [of target n d] reads_truncated [of n]
  unfolding notification_json_def notification_members_def
  by (simp add: reads_member_def reads_plain reads_one reads_unat reads_bool reads_dec_int reads_string_text
      reads_error del: cs_Cons)

section \<open>The text of a notification\<close>

lemma json_bool_text: "json_bool b = bool_text b"
  by (simp add: json_bool_def bool_text_def)

lemma cstr_raw: "0 \<notin> set t \<Longrightarrow> call_text (Raw t) = t"
  by simp

lemma notification_text:
  assumes "0 \<notin> set target"
  shows "calls_text (notification_calls target n d) = object_text (notification_members target n d)"
proof -
  have e: "calls_text (if n_complete n \<and> n_error_code n = 0 then [Raw (cs ''null'')]
      else [Format (cs ''{\"code\":'' @ dec_int (n_error_code n) @ cs '',\"name\":''),
            String (error_name (n_error_code n)), Raw (cs ''}'')]) = error_text n"
    by (simp add: error_text_def null_text_def object_text_def member_text_def quoted_def string_text_def)
  have tr: "truncated_text n = cs ''{\"app_id\":'' @ bool_text (n_app_id_truncated n) @
       cs '',\"app_name\":'' @ bool_text (n_app_name_truncated n) @
       cs '',\"title\":'' @ bool_text (n_title_truncated n) @
       cs '',\"subtitle\":'' @ bool_text (n_subtitle_truncated n) @
       cs '',\"message\":'' @ bool_text (n_message_truncated n) @ cs ''}''"
    by (simp add: truncated_text_def object_text_def member_text_def quoted_def)
  have r: "cstr (cs ''{\"schema_version\":1,\"target\":\"'' @ target @ cs ''\",\"device_name\":'') =
      cs ''{\"schema_version\":1,\"target\":\"'' @ target @ cs ''\",\"device_name\":''"
    using assms by (intro cstr_idem) simp
  show ?thesis
    unfolding notification_calls_def notification_members_def calls_text_simps e
    using tr r
    by (simp add: object_text_def member_text_def quoted_def json_bool_text string_text_def dec.simps del: cstr_idem)
qed

section \<open>The encoding of the messages\<close>

definition ascii :: "bytes \<Rightarrow> bool" where
  "ascii s \<longleftrightarrow> (\<forall>b \<in> set s. 0 < b \<and> b < 0x80)"

lemma ascii_simps [simp]:
  "ascii []" "ascii (b # s) \<longleftrightarrow> 0 < b \<and> b < 0x80 \<and> ascii s" "ascii (s @ t) \<longleftrightarrow> ascii s \<and> ascii t"
  by (auto simp: ascii_def)

lemma ascii_numbers [simp]: "ascii (dec n)" "ascii (dec_int i)" "ascii (json_bool b)"
proof -
  show d: "ascii (dec n)" for n
    using dec_digits [of n] by (auto simp: ascii_def digit_def word_le_nat_alt word_less_nat_alt)
  show "ascii (dec_int i)" by (simp add: dec_int_def d)
  show "ascii (json_bool b)" by (simp add: json_bool_def)
qed

fun call_ascii :: "writer_call \<Rightarrow> bool" where
  "call_ascii (Raw t) = ascii t"
| "call_ascii (Format t) = ascii t"
| "call_ascii (String t) = True"

lemma ascii_nonzero: "ascii s \<Longrightarrow> 0 \<notin> set s"
  by (auto simp: ascii_def)

lemma valid_utf8_ascii_text: "ascii s \<Longrightarrow> valid_utf8 s"
  by (intro valid_utf8_ascii) (simp add: ascii_def)

lemma calls_text_encoding:
  "list_all call_ascii calls \<Longrightarrow> valid_utf8 (calls_text calls) \<and> 0 \<notin> set (calls_text calls)"
proof (induction calls)
  case (Cons c calls)
  have "valid_utf8 (call_text c) \<and> 0 \<notin> set (call_text c)"
  proof (cases c)
    case (String t)
    have "valid_utf8 ([34] @ string_body (cstr t) @ [34])"
      by (intro valid_utf8_append string_body_valid) (simp_all add: valid_utf8_ascii)
    with String string_body_nonzero [OF cstr_no_nul] show ?thesis by (simp add: quoted_def)
  qed (use Cons.prems in \<open>auto simp: ascii_nonzero valid_utf8_ascii_text\<close>)
  with Cons show ?case by (simp add: valid_utf8_append)
qed simp

lemma chip_name_ascii: "chip_name t \<Longrightarrow> ascii t"
  using chip_name_bytes [of t] by (auto simp: ascii_def word_neq_0_conv [symmetric])

lemma notification_calls_ascii: "chip_name target \<Longrightarrow> list_all call_ascii (notification_calls target n d)"
  by (simp add: notification_calls_def chip_name_ascii)

lemma state_calls_ascii: "chip_name target \<Longrightarrow> list_all call_ascii (state_calls target s i b x y e)"
  by (simp add: state_calls_def chip_name_ascii)

section \<open>The length of a notification\<close>

text \<open>The values C gives the two signed numbers.\<close>

definition notification_numbers :: "ancs_notification \<Rightarrow> bool" where
  "notification_numbers n \<longleftrightarrow> \<bar>n_error_code n\<bar> < 10 ^ 10 \<and> \<bar>n_received_at_ms n\<bar> < 10 ^ 19"

lemma string_text_length: "length (string_text s) \<le> 6 * length (cstr s) + 2"
  using string_body_length [of "cstr s"] by (simp add: string_text_def quoted_def)

lemma names_length:
  "length (cstr (ancs_event_name i)) \<le> 8" "length (cstr (ancs_category_name i)) \<le> 20"
  "length (cstr (error_name e)) \<le> 20"
proof -
  show "length (cstr (ancs_event_name i)) \<le> 8"
    by (rule order_trans [OF length_cstr_le])
      (auto simp: ancs_event_name_def Let_def less_Suc_eq numeral_eq_Suc)
  show "length (cstr (ancs_category_name i)) \<le> 20"
    by (rule order_trans [OF length_cstr_le])
      (auto simp: ancs_category_name_def Let_def less_Suc_eq)
  show "length (cstr (error_name e)) \<le> 20"
    by (rule order_trans [OF length_cstr_le]) (simp add: error_name_def)
qed

lemma length_dec_byte: "length (dec (unat (b :: u8))) \<le> 3"
proof -
  have "unat b < 10 ^ 3" by (rule order_less_le_trans [OF unsigned_less]) simp
  from length_dec [OF this] show ?thesis by simp
qed

lemma error_text_length: "notification_numbers n \<Longrightarrow> length (error_text n) \<le> 160"
  using length_dec_int [of "n_error_code n" 10] string_text_length [of "error_name (n_error_code n)"]
    names_length(3) [of "n_error_code n"]
  by (simp add: notification_numbers_def error_text_def null_text_def length_joined member_room_simps length_member
      del: cs_Cons)

lemma truncated_text_length: "length (truncated_text n) \<le> 100"
  using length_bool_text [of "n_app_id_truncated n"] length_bool_text [of "n_app_name_truncated n"]
    length_bool_text [of "n_title_truncated n"] length_bool_text [of "n_subtitle_truncated n"]
    length_bool_text [of "n_message_truncated n"]
  by (simp add: truncated_text_def length_joined member_room_simps length_member del: cs_Cons)

lemma notification_room:
  assumes "notification_numbers n" "chip_name target"
  shows "member_room (notification_members target n d) + 100 \<le> 2048 + 6 * text_length n d"
proof -
  have r: "length (dec_int (n_received_at_ms n)) \<le> 20"
    using length_dec_int [of "n_received_at_ms n" 19] assms(1) by (simp add: notification_numbers_def)
  have c: "length target \<le> 16" using assms(2) by (simp add: chip_name_def)
  have b: "length (bool_text (ancs_event_flag_is_set (n_event_flags n) f)) \<le> 5" for f by (rule length_bool_text)
  have e: "length (string_text (ancs_event_name (n_event_id n))) \<le> 50"
      "length (string_text (ancs_category_name (n_category_id n))) \<le> 122"
    using string_text_length [of "ancs_event_name (n_event_id n)"] names_length(1) [of "n_event_id n"]
      string_text_length [of "ancs_category_name (n_category_id n)"] names_length(2) [of "n_category_id n"]
    by linarith+
  show ?thesis
    unfolding notification_members_def text_length_def
    using r c e b [of ANCS_EVENT_FLAG_SILENT] b [of ANCS_EVENT_FLAG_IMPORTANT] b [of ANCS_EVENT_FLAG_PRE_EXISTING]
      b [of ANCS_EVENT_FLAG_POSITIVE_ACTION] b [of ANCS_EVENT_FLAG_NEGATIVE_ACTION] length_bool_text [of "n_complete n"]
      error_text_length [OF assms(1)] truncated_text_length [of n] length_dec_byte [of "n_event_id n"]
      length_dec_byte [of "n_event_flags n"] length_dec_byte [of "n_category_id n"]
      length_dec_byte [of "n_category_count n"] length_dec_unat(1) [of "n_session_id n"] length_dec_unat(1) [of "n_uid n"]
      string_text_length [of d] string_text_length [of "n_app_id n"] string_text_length [of "n_app_name n"]
      string_text_length [of "n_title n"] string_text_length [of "n_subtitle n"] string_text_length [of "n_message n"]
      string_text_length [of "n_message_size_raw n"] string_text_length [of "n_date_raw n"]
    by (simp add: member_room_simps length_member quoted_def dec.simps del: cs_Cons)
qed

section \<open>Properties\<close>

lemma format_json_spec:
  assumes "chip_name target" "0 < capacity" "capacity \<le> length out"
  shows "\<exists>out'. notification_sink_format_json target (Some n) (Some d) (Some out) capacity =
      Some (if length (object_text (notification_members target n d)) < capacity then 0 else -2, out') \<and>
    (length (object_text (notification_members target n d)) < capacity \<longrightarrow>
      cstr out' = object_text (notification_members target n d))"
  using run_writer_spec [OF assms(2,3), of "notification_calls target n d"]
    calls_text_encoding [OF notification_calls_ascii [OF assms(1)]] assms(2)
  by (simp add: notification_sink_format_json_def notification_text [OF chip_name_bytes(2) [OF assms(1)]])

lemma notification_message:
  assumes "chip_name target"
  shows "valid_utf8 (object_text (notification_members target n d))"
    "parse_json (object_text (notification_members target n d)) = Some (JObj (notification_json target n d))"
proof -
  show "valid_utf8 (object_text (notification_members target n d))"
    using calls_text_encoding [OF notification_calls_ascii [OF assms]]
    unfolding notification_text [OF chip_name_bytes(2) [OF assms]] by blast
  show "parse_json (object_text (notification_members target n d)) = Some (JObj (notification_json target n d))"
    by (intro reads_jsonI reads_object reads_notification_members assms) (simp add: notification_members_def)
qed

lemma notification_text_length:
  assumes "chip_name target" "notification_numbers n"
  shows "length (object_text (notification_members target n d)) < 2048 + text_length n d * 6"
proof -
  have "notification_members target n d \<noteq> []" by (simp add: notification_members_def)
  from length_joined [OF this] notification_room [OF assms(2,1), of d] show ?thesis by simp
qed

text \<open>
  C37: Publishing a notification always succeeds when memory is available, whatever bytes its texts hold:
  the buffer is large enough, and the line printed is a valid UTF-8 text that a JSON reader reads back as
  the notification, with every number, flag and text in place; bytes that are not UTF-8 have become
  U+FFFD, and texts that are valid UTF-8 are unchanged. The observer is called exactly then.
\<close>

theorem notification_publish_correct:
  assumes "chip_name target" "notification_numbers n"
    and "text_length n d \<le> (SIZE_MAX - 2048) div 6"
    and "malloc (2048 + text_length n d * 6) = Some block" "2048 + text_length n d * 6 \<le> length block"
  shows "\<exists>t. notification_sink_publish malloc observer target (Some n) (Some d) =
      Some (0, Some (cs ''ANCS_NOTIFICATION_JSON '' @ t @ [10]), observer) \<and>
    valid_utf8 t \<and> parse_json t = Some (JObj (notification_json target n d)) \<and>
    (\<forall>s. valid_utf8 (cstr s) \<longrightarrow> text_json s = JStr (cstr s))"
proof -
  obtain out' where out': "notification_sink_format_json target (Some n) (Some d) (Some block)
      (2048 + text_length n d * 6) = Some (0, out')" "cstr out' = object_text (notification_members target n d)"
    using format_json_spec [OF assms(1) _ assms(5), of n d] notification_text_length [OF assms(1,2), of d] by auto
  have "notification_sink_publish malloc observer target (Some n) (Some d) =
      Some (0, Some (cs ''ANCS_NOTIFICATION_JSON '' @ cstr out' @ [10]), observer)"
    using assms(3,4) out'(1) by (simp add: notification_sink_publish_def Let_def not_less del: cs_Cons)
  with notification_message [OF assms(1), of n d] out'(2) show ?thesis
    by (auto simp: text_json_def sanitize_id)
qed

definition sample_notification :: ancs_notification where
  "sample_notification = (notification_zero default_config)\<lparr>n_uid := 7, n_error_code := -8,
     n_title := 0xEA # 0x41 # 9 # replicate 510 0\<rparr>"

definition sample_malloc :: "nat \<Rightarrow> bytes option" where
  "sample_malloc n = Some (replicate n 0)"

theorem notification_publish_correct_witness:
  "\<exists>t. notification_sink_publish sample_malloc True (cs ''esp32s3'') (Some sample_notification)
      (Some (cs ''iPhone'' @ [0])) = Some (0, Some (cs ''ANCS_NOTIFICATION_JSON '' @ t @ [10]), True) \<and>
    parse_json t = Some (JObj (notification_json (cs ''esp32s3'') sample_notification (cs ''iPhone'' @ [0])))"
proof -
  have c: "chip_name (cs ''esp32s3'')" by (simp add: chip_name_def)
  have n: "notification_numbers sample_notification"
    by (simp add: notification_numbers_def sample_notification_def notification_zero_def)
  have z: "cstr (replicate k 0) = []" for k by (cases k) simp_all
  have l: "text_length sample_notification (cs ''iPhone'' @ [0]) \<le> (SIZE_MAX - 2048) div 6"
    by (simp add: text_length_def sample_notification_def notification_zero_def z SIZE_MAX_def del: replicate_Suc)
  let ?k = "2048 + text_length sample_notification (cs ''iPhone'' @ [0]) * 6"
  have m: "sample_malloc ?k = Some (replicate ?k 0)" by (simp only: sample_malloc_def)
  have b: "?k \<le> length (replicate ?k (0 :: u8))" by (simp only: length_replicate)
  from notification_publish_correct [OF c n l, of sample_malloc, OF m b, of True] show ?thesis by blast
qed

text \<open>The state message: its buffer of 768 bytes is enough for every state name of up to 80 bytes.\<close>

definition connection_json :: "bytes \<Rightarrow> bytes \<Rightarrow> u32 \<Rightarrow> bool \<Rightarrow> bool \<Rightarrow> bool \<Rightarrow> int \<Rightarrow> json" where
  "connection_json target state session_id bonded data_source notification_source auth_error = JObj [
     (cs ''target'', JStr target), (cs ''state'', text_json state), (cs ''session_id'', JNum (uint session_id)),
     (cs ''bonded'', JBool bonded), (cs ''data_source_subscribed'', JBool data_source),
     (cs ''notification_source_subscribed'', JBool notification_source), (cs ''auth_error'', JNum auth_error)]"

definition connection_members :: "bytes \<Rightarrow> bytes \<Rightarrow> u32 \<Rightarrow> bool \<Rightarrow> bool \<Rightarrow> bool \<Rightarrow> int \<Rightarrow> (bytes \<times> bytes) list" where
  "connection_members target state session_id bonded data_source notification_source auth_error = [
     (cs ''target'', quoted target), (cs ''state'', string_text state), (cs ''session_id'', dec (unat session_id)),
     (cs ''bonded'', bool_text bonded), (cs ''data_source_subscribed'', bool_text data_source),
     (cs ''notification_source_subscribed'', bool_text notification_source), (cs ''auth_error'', dec_int auth_error)]"

lemma connection_text:
  assumes "0 \<notin> set target"
  shows "calls_text (state_calls target s i b x y e) = object_text (connection_members target s i b x y e)"
proof -
  have "cstr (cs ''{\"target\":\"'' @ target @ cs ''\",\"state\":'') = cs ''{\"target\":\"'' @ target @ cs ''\",\"state\":''"
    using assms by (intro cstr_idem) simp
  then show ?thesis
    unfolding state_calls_def connection_members_def
    by (simp add: object_text_def member_text_def quoted_def json_bool_text string_text_def del: cstr_idem)
qed

lemma reads_connection:
  assumes "chip_name target"
  shows "reads (connection_json target s i b x y e) (object_text (connection_members target s i b x y e))"
  unfolding connection_json_def connection_members_def
  using chip_name_bytes(1) [OF assms]
  by (intro reads_object) (simp_all add: reads_member_def reads_plain reads_unat reads_bool reads_dec_int
      reads_string_text plain_def)

lemma connection_length:
  assumes "chip_name target" "length (cstr s) \<le> 80" "\<bar>e\<bar> < 10 ^ 10"
  shows "length (object_text (connection_members target s i b x y e)) < 768"
proof -
  have "length target \<le> 16" using assms(1) by (simp add: chip_name_def)
  with string_text_length [of s] assms(2) length_dec_int [OF assms(3)] length_bool_text [of b] length_bool_text [of x]
    length_bool_text [of y] length_dec_unat(1) [of i]
  show ?thesis
    by (simp add: connection_members_def length_joined member_room_simps length_member quoted_def del: cs_Cons)
qed

lemma state_message_correct:
  assumes "chip_name target" "length (cstr s) \<le> 80" "\<bar>e\<bar> < 10 ^ 10" "length block = 768"
  shows "\<exists>t. notification_sink_publish_state block target (Some s) i b x y e =
      Some (0, Some (cs ''ANCS_STATE_JSON '' @ t @ [10])) \<and>
    valid_utf8 t \<and> parse_json t = Some (connection_json target s i b x y e)"
proof -
  let ?t = "object_text (connection_members target s i b x y e)"
  note written = connection_text [OF chip_name_bytes(2) [OF assms(1)], of s i b x y e]
  note enc = calls_text_encoding [OF state_calls_ascii [OF assms(1)], of s i b x y e, unfolded written]
  obtain out' where "run_writer (state_calls target s i b x y e) block 768 = Some (0, out')" "cstr out' = ?t"
    using run_writer_spec [of 768 block "state_calls target s i b x y e"] enc assms(4)
      connection_length [OF assms(1-3), of i b x y] unfolding written by auto
  then have "notification_sink_publish_state block target (Some s) i b x y e =
      Some (0, Some (cs ''ANCS_STATE_JSON '' @ ?t @ [10]))"
    by (simp add: notification_sink_publish_state_def notification_sink_format_state_json_def del: cs_Cons)
  with enc reads_jsonI [OF reads_connection [OF assms(1)]] show ?thesis by blast
qed

end
