(* ===== verification/Mqtt_Context.thy ===== *)
theory Mqtt_Context
  imports Relay_Policy Mqtt_State_Correct
begin

text \<open>
  The state of the relay in \<^verbatim>\<open>components/mqtt_relay/mqtt_relay.c\<close>, \<open>s_ctx\<close>, and the operations its tasks
  perform on it while they hold the lock: the life of the queued messages, the acknowledgements and
  the record of errors.
\<close>

section \<open>Data\<close>

text \<open>A message in flight. The address is the one \<open>calloc\<close> gave.\<close>

record mqtt_payload_item =
  it_address :: nat
  it_topic :: bytes
  it_payload :: bytes
  it_payload_length :: nat
  it_msg_id :: int

datatype mqtt_relay_event =
    MQTT_RELAY_EVENT_CONNECTED | MQTT_RELAY_EVENT_DISCONNECTED | MQTT_RELAY_EVENT_FAILED
  | MQTT_RELAY_EVENT_ENROLL_REQUEST | MQTT_RELAY_EVENT_RESTART_REQUEST

text \<open>The numbers of the MQTT library are kept apart from the -1 the relay uses for its own errors.\<close>

datatype mqtt_error_type = MQTT_ERROR_TYPE_NONE | LOCAL_ERROR | MQTT_ERROR_TYPE int

datatype mqtt_return_code = MQTT_CONNECTION_ACCEPTED | MQTT_CONNECTION_REFUSE int

record mqtt_error =
  me_error_type :: mqtt_error_type
  me_esp_error :: esp_err
  me_tls_error :: int
  me_socket_errno :: int
  me_connect_return_code :: mqtt_return_code
  me_error_at_ms :: nat

text \<open>\<open>esp_mqtt_error_codes_t\<close>, the fields the code reads.\<close>

record esp_mqtt_error_codes =
  ec_error_type :: mqtt_error_type
  ec_esp_tls_last_esp_err :: esp_err
  ec_esp_tls_stack_err :: int
  ec_esp_transport_sock_errno :: int
  ec_connect_return_code :: mqtt_return_code

record relay_topics =
  tp_notification :: bytes
  tp_availability :: bytes
  tp_state :: bytes
  tp_discovery :: bytes
  tp_enroll_command :: bytes
  tp_enroll_discovery :: bytes
  tp_restart_command :: bytes
  tp_restart_discovery :: bytes

text \<open>What the relay does to the world outside its state, the newest first.\<close>

datatype relay_effect =
    Free nat
  | Callback nat mqtt_relay_event
  | Notify nat
  | Enqueue nat bytes bytes nat bool
  | Publish nat bytes bytes nat bool
  | Subscribe nat bytes nat
  | ClientInit esp_mqtt_client_config
  | ClientRegister nat
  | ClientStart nat
  | ClientReconnect nat
  | ClientStop nat
  | ClientDestroy nat
  | QueueDelete

text \<open>
  \<open>mqtt_relay_context_t\<close>. Handles are numbers and \<open>None\<close> is NULL; the queue is its list of messages, the
  next one first, and the chained list of pending messages starts with the last one added. A mutex is
  there or not. The last field is not in the code: it records the effects.
\<close>

record mqtt_relay_context =
  cx_config :: provision_config
  cx_device_info :: mqtt_relay_device_info
  cx_wifi_status :: mqtt_relay_wifi_status
  cx_diagnostics :: mqtt_relay_diagnostics
  cx_last_notification_uptime_ms :: u64
  cx_client :: "nat option"
  cx_queue :: "mqtt_payload_item list option"
  cx_lock :: bool
  cx_lifecycle_lock :: bool
  cx_worker_task :: "nat option"
  cx_worker_running :: bool
  cx_worker_busy :: bool
  cx_accepting_observers :: bool
  cx_publish_allowed :: bool
  cx_publish_in_flight :: u32
  cx_retained_refresh_pending :: bool
  cx_discovery_attempted_this_boot :: bool
  cx_retained_waiting :: bool
  cx_retained_ack_received :: bool
  cx_retained_msg_id :: int
  cx_retained_early_ack_ids :: "int list"
  cx_retained_early_ack_count :: nat
  cx_wifi_connected :: bool
  cx_mqtt_connected :: bool
  cx_mqtt_connecting :: bool
  cx_mqtt_error :: mqtt_error
  cx_last_mqtt_error :: mqtt_error
  cx_test_sequence :: u32
  cx_ble_connected :: bool
  cx_ble_bonded :: bool
  cx_event_callback :: "nat option"
  cx_boot_nonce :: u32
  cx_recent :: relay_recent_cache
  cx_counters :: mqtt_relay_counters
  cx_pending :: "mqtt_payload_item list"
  cx_topics :: relay_topics
  cx_effects :: "relay_effect list"

definition MQTT_RELAY_QUEUE_CAPACITY :: nat where "MQTT_RELAY_QUEUE_CAPACITY = 8"
definition MQTT_RELAY_EARLY_PUBACK_CAPACITY :: nat where "MQTT_RELAY_EARLY_PUBACK_CAPACITY = 4"

definition perform :: "relay_effect \<Rightarrow> mqtt_relay_context \<Rightarrow> mqtt_relay_context" where
  "perform e cx = cx\<lparr>cx_effects := e # cx_effects cx\<rparr>"

section \<open>Errors and events\<close>

definition no_mqtt_error :: mqtt_error where
  "no_mqtt_error = \<lparr>me_error_type = MQTT_ERROR_TYPE_NONE, me_esp_error = ESP_OK, me_tls_error = 0,
     me_socket_errno = 0, me_connect_return_code = MQTT_CONNECTION_ACCEPTED, me_error_at_ms = 0\<rparr>"

definition mqtt_relay_clear_error_locked :: "mqtt_relay_context \<Rightarrow> mqtt_relay_context" where
  "mqtt_relay_clear_error_locked cx = cx\<lparr>cx_mqtt_error := no_mqtt_error\<rparr>"

text \<open>The time is \<open>esp_timer_get_time\<close>, in microseconds since the boot.\<close>

definition mqtt_relay_note_local_error_locked :: "esp_err \<Rightarrow> nat \<Rightarrow> mqtt_relay_context \<Rightarrow> mqtt_relay_context" where
  "mqtt_relay_note_local_error_locked error now cx =
    (let e = \<lparr>me_error_type = LOCAL_ERROR, me_esp_error = error, me_tls_error = 0, me_socket_errno = 0,
              me_connect_return_code = MQTT_CONNECTION_ACCEPTED, me_error_at_ms = now div 1000\<rparr>
     in cx\<lparr>cx_mqtt_error := e, cx_last_mqtt_error := e\<rparr>)"

definition mqtt_relay_capture_error_locked ::
  "esp_mqtt_error_codes option \<Rightarrow> nat \<Rightarrow> mqtt_relay_context \<Rightarrow> mqtt_relay_context" where
  "mqtt_relay_capture_error_locked error now cx =
    (case error of
       None \<Rightarrow> mqtt_relay_note_local_error_locked ESP_FAIL now cx
     | Some c \<Rightarrow>
         let e = \<lparr>me_error_type = ec_error_type c, me_esp_error = ec_esp_tls_last_esp_err c,
                  me_tls_error = ec_esp_tls_stack_err c, me_socket_errno = ec_esp_transport_sock_errno c,
                  me_connect_return_code = ec_connect_return_code c, me_error_at_ms = now div 1000\<rparr>
         in cx\<lparr>cx_mqtt_error := e, cx_last_mqtt_error := e\<rparr>)"

definition mqtt_relay_emit_event :: "mqtt_relay_event \<Rightarrow> mqtt_relay_context \<Rightarrow> mqtt_relay_context" where
  "mqtt_relay_emit_event event cx =
    (case cx_event_callback cx of None \<Rightarrow> cx | Some callback \<Rightarrow> perform (Callback callback event) cx)"

definition mqtt_relay_notify_worker :: "mqtt_relay_context \<Rightarrow> mqtt_relay_context" where
  "mqtt_relay_notify_worker cx =
    (case cx_worker_task cx of None \<Rightarrow> cx | Some worker \<Rightarrow> perform (Notify worker) cx)"

section \<open>The life of a message\<close>

definition mqtt_relay_free_item :: "mqtt_payload_item \<Rightarrow> mqtt_relay_context \<Rightarrow> mqtt_relay_context" where
  "mqtt_relay_free_item item cx =
    (let cx = perform (Free (it_address item)) cx
     in cx\<lparr>cx_counters := (cx_counters cx)\<lparr>rc_freed := rc_freed (cx_counters cx) + 1\<rparr>\<rparr>)"

fun free_items :: "mqtt_payload_item list \<Rightarrow> mqtt_relay_context \<Rightarrow> mqtt_relay_context" where
  "free_items [] cx = cx"
| "free_items (item # items) cx = free_items items (mqtt_relay_free_item item cx)"

definition mqtt_relay_free_pending_locked :: "mqtt_relay_context \<Rightarrow> mqtt_relay_context" where
  "mqtt_relay_free_pending_locked cx = free_items (cx_pending cx) (cx\<lparr>cx_pending := []\<rparr>)"

definition mqtt_relay_free_queue_locked :: "mqtt_relay_context \<Rightarrow> mqtt_relay_context" where
  "mqtt_relay_free_queue_locked cx =
    (case cx_queue cx of
       None \<Rightarrow> cx
     | Some items \<Rightarrow> free_items items (cx\<lparr>cx_queue := Some []\<rparr>))"

definition mqtt_relay_cleanup_runtime_locked :: "mqtt_relay_context \<Rightarrow> mqtt_relay_context" where
  "mqtt_relay_cleanup_runtime_locked cx =
    (let cx = mqtt_relay_free_pending_locked (mqtt_relay_free_queue_locked cx);
         cx = (if cx_queue cx \<noteq> None then (perform QueueDelete cx)\<lparr>cx_queue := None\<rparr> else cx)
     in cx\<lparr>cx_lock := False, cx_lifecycle_lock := False\<rparr>)"

definition mqtt_relay_track_pending_locked ::
  "mqtt_payload_item \<Rightarrow> int \<Rightarrow> mqtt_relay_context \<Rightarrow> mqtt_relay_context" where
  "mqtt_relay_track_pending_locked item msg_id cx =
     cx\<lparr>cx_pending := item\<lparr>it_msg_id := msg_id\<rparr> # cx_pending cx\<rparr>"

fun take_item :: "int \<Rightarrow> mqtt_payload_item list \<Rightarrow> (mqtt_payload_item \<times> mqtt_payload_item list) option" where
  "take_item msg_id [] = None"
| "take_item msg_id (item # items) =
    (if it_msg_id item = msg_id then Some (item, items)
     else map_option (\<lambda>(found, rest). (found, item # rest)) (take_item msg_id items))"

definition mqtt_relay_take_pending_locked ::
  "int \<Rightarrow> mqtt_relay_context \<Rightarrow> mqtt_payload_item option \<times> mqtt_relay_context" where
  "mqtt_relay_take_pending_locked msg_id cx =
    (case take_item msg_id (cx_pending cx) of
       None \<Rightarrow> (None, cx)
     | Some (item, rest) \<Rightarrow> (Some item, cx\<lparr>cx_pending := rest\<rparr>))"

definition mqtt_relay_clear_retained_wait_locked :: "mqtt_relay_context \<Rightarrow> mqtt_relay_context" where
  "mqtt_relay_clear_retained_wait_locked cx =
     cx\<lparr>cx_retained_waiting := False, cx_retained_ack_received := False, cx_retained_msg_id := -1,
        cx_retained_early_ack_count := 0\<rparr>"

text \<open>The part about a retained message: the acknowledgement may come before its number is known.\<close>

definition note_retained_ack :: "int \<Rightarrow> mqtt_relay_context \<Rightarrow> mqtt_relay_context option" where
  "note_retained_ack msg_id cx =
    (if \<not> cx_retained_waiting cx then Some cx
     else if cx_retained_msg_id cx > 0
     then Some (if cx_retained_msg_id cx = msg_id then cx\<lparr>cx_retained_ack_received := True\<rparr> else cx)
     else if msg_id \<in> set (take (cx_retained_early_ack_count cx) (cx_retained_early_ack_ids cx)) then Some cx
     else if cx_retained_early_ack_count cx < MQTT_RELAY_EARLY_PUBACK_CAPACITY
     then do {
       ids \<leftarrow> store (cx_retained_early_ack_ids cx) (cx_retained_early_ack_count cx) msg_id;
       Some (cx\<lparr>cx_retained_early_ack_ids := ids,
                cx_retained_early_ack_count := cx_retained_early_ack_count cx + 1\<rparr>)
     }
     else Some cx)"

definition mqtt_relay_handle_published_locked :: "int \<Rightarrow> mqtt_relay_context \<Rightarrow> mqtt_relay_context option" where
  "mqtt_relay_handle_published_locked msg_id cx =
    (let (item, cx) = mqtt_relay_take_pending_locked msg_id cx;
         cx = (case item of
                 None \<Rightarrow> cx
               | Some i \<Rightarrow> mqtt_relay_free_item i
                   (cx\<lparr>cx_counters := (cx_counters cx)\<lparr>rc_published_ack := rc_published_ack (cx_counters cx) + 1\<rparr>\<rparr>))
     in note_retained_ack msg_id cx)"

definition mqtt_relay_handle_disconnect_locked :: "mqtt_relay_context \<Rightarrow> mqtt_relay_context" where
  "mqtt_relay_handle_disconnect_locked cx =
     mqtt_relay_free_pending_locked (mqtt_relay_free_queue_locked (mqtt_relay_clear_retained_wait_locked
       (cx\<lparr>cx_mqtt_connected := False, cx_mqtt_connecting := False, cx_retained_refresh_pending := False\<rparr>)))"

section \<open>Permission to use the client\<close>

text \<open>
  \<open>mqtt_relay_publish_raw\<close> and \<open>mqtt_relay_enqueue_raw\<close> note a call in flight before they leave the lock,
  and take it back after the call.
\<close>

definition begin_publish :: "mqtt_relay_context \<Rightarrow> (nat \<times> mqtt_relay_context) option" where
  "begin_publish cx =
    (case cx_client cx of
       None \<Rightarrow> None
     | Some client \<Rightarrow>
         if \<not> cx_publish_allowed cx then None
         else Some (client, cx\<lparr>cx_publish_in_flight := cx_publish_in_flight cx + 1\<rparr>))"

definition begin_enqueue :: "mqtt_relay_context \<Rightarrow> (nat \<times> mqtt_relay_context) option" where
  "begin_enqueue cx = (if cx_mqtt_connected cx then begin_publish cx else None)"

definition end_publish :: "mqtt_relay_context \<Rightarrow> mqtt_relay_context" where
  "end_publish cx =
    (if cx_publish_in_flight cx > 0 then cx\<lparr>cx_publish_in_flight := cx_publish_in_flight cx - 1\<rparr> else cx)"

end
