(* ===== verification/Mqtt_Notification.thy ===== *)
theory Mqtt_Notification
  imports Notification_Messages Mqtt_App_Name
begin

text \<open>
  The MQTT message of a notification, \<^verbatim>\<open>components/mqtt_relay/mqtt_payload.c\<close>: the JSON text of the
  notification sink with the display name of the application filled in and three more members.
  The name of the target chip and \<open>malloc\<close> are arguments.
\<close>

section \<open>Operation\<close>

text \<open>The name the notification brought, or else the one of the table.\<close>

definition shown_app_name :: "ancs_notification \<Rightarrow> bytes" where
  "shown_app_name n = (if n_app_name n ! 0 \<noteq> 0 then n_app_name n else mqtt_app_name_lookup (Some (n_app_id n)))"

definition payload_text_length :: "ancs_notification \<Rightarrow> bytes \<Rightarrow> bytes \<Rightarrow> nat" where
  "payload_text_length n device_name relay_id =
     length (cstr (n_app_id n)) + length (cstr (shown_app_name n)) + length (cstr (n_title n)) +
     length (cstr (n_subtitle n)) + length (cstr (n_message n)) + length (cstr (n_message_size_raw n)) +
     length (cstr (n_date_raw n)) + length (cstr device_name) + length (cstr relay_id)"

definition payload_tail :: "bytes \<Rightarrow> bytes \<Rightarrow> nat \<Rightarrow> bytes" where
  "payload_tail target relay_id uptime_ms =
     cs '',\"relay_id\":\"'' @ cstr relay_id @ cs ''\",\"source\":\"'' @ target @ cs ''_ancs'' @
     cs ''\",\"published_at_ms\":'' @ dec uptime_ms @ cs ''}''"

text \<open>
  The two output parameters are one: \<open>None\<close> when one of the pointers is NULL, else the payload and its
  length. The result \<open>None\<close> is an access outside a buffer.
\<close>

definition mqtt_payload_build_notification ::
  "(nat \<Rightarrow> bytes option) \<Rightarrow> bytes \<Rightarrow> ancs_config \<Rightarrow> ancs_notification option \<Rightarrow> bytes option \<Rightarrow> bytes option \<Rightarrow>
   nat \<Rightarrow> (bytes option \<times> nat) option \<Rightarrow> (esp_err \<times> (bytes option \<times> nat) option) option" where
  "mqtt_payload_build_notification malloc target cfg notification device_name relay_id uptime_ms out =
    (case (notification, device_name, relay_id, out) of
       (Some n, Some d, Some r, Some _) \<Rightarrow>
         if payload_text_length n d r > (SIZE_MAX - 2304) div 6
         then Some (ESP_ERR_INVALID_SIZE, Some (None, 0))
         else let capacity = 2304 + payload_text_length n d r * 6; name = cstr (shown_app_name n) in
           (case malloc capacity of
              None \<Rightarrow> Some (ESP_ERR_NO_MEM, Some (None, 0))
            | Some payload \<Rightarrow>
                if length name > APP_NAME_MAX cfg then Some (ESP_ERR_INVALID_SIZE, Some (None, 0))
                else do {
                  app_name \<leftarrow> memcpy0 (n_app_name n) (name @ [0]);
                  (serial_result, payload) \<leftarrow> notification_sink_format_json target
                    (Some (n\<lparr>n_app_name := app_name\<rparr>)) device_name (Some payload) capacity;
                  if serial_result \<noteq> 0 then Some (ESP_ERR_INVALID_SIZE, Some (None, 0))
                  else let len = length (cstr payload) in
                    if len = 0 \<or> payload ! (len - 1) \<noteq> 125 then Some (ESP_ERR_INVALID_RESPONSE, Some (None, 0))
                    else do {
                      payload \<leftarrow> store payload (len - 1) 0;
                      payload \<leftarrow> snprintf_at payload (len - 1) (capacity - len + 1) (payload_tail target r uptime_ms);
                      if length (payload_tail target r uptime_ms) \<ge> capacity - len + 1
                      then Some (ESP_ERR_INVALID_SIZE, Some (None, 0))
                      else Some (ESP_OK, Some (Some payload, length (cstr payload)))
                    }
                })
     | _ \<Rightarrow> Some (ESP_ERR_INVALID_ARG, out))"

section \<open>The message as a JSON value\<close>

text \<open>The notification with the display name.\<close>

definition named :: "ancs_notification \<Rightarrow> ancs_notification" where
  "named n = n\<lparr>n_app_name := cstr (shown_app_name n) @ 0 # drop (Suc (length (cstr (shown_app_name n)))) (n_app_name n)\<rparr>"

definition relayed_json :: "bytes \<Rightarrow> bytes \<Rightarrow> nat \<Rightarrow> (bytes \<times> json) list" where
  "relayed_json target relay_id uptime_ms = [
     (cs ''relay_id'', JStr (cstr relay_id)), (cs ''source'', JStr (target @ cs ''_ancs'')),
     (cs ''published_at_ms'', JNum (int uptime_ms))]"

definition relayed_members :: "bytes \<Rightarrow> bytes \<Rightarrow> nat \<Rightarrow> (bytes \<times> bytes) list" where
  "relayed_members target relay_id uptime_ms = [
     (cs ''relay_id'', quoted (cstr relay_id)), (cs ''source'', quoted (target @ cs ''_ancs'')),
     (cs ''published_at_ms'', dec uptime_ms)]"

lemma named_text_length: "text_length (named n) d + length (cstr r) = payload_text_length n d r"
  by (simp add: text_length_def payload_text_length_def named_def cstr_no_nul)

lemma named_numbers: "notification_numbers (named n) = notification_numbers n"
  by (simp add: notification_numbers_def named_def)

lemma payload_tail_text:
  "ms \<noteq> [] \<Longrightarrow> butlast (object_text ms) @ payload_tail target r u = object_text (ms @ relayed_members target r u)"
  by (simp add: object_text_def joined_append butlast_append payload_tail_def relayed_members_def member_text_def
      quoted_def del: map_append)

lemma reads_relayed:
  assumes "chip_name target" "plain (cstr r)"
  shows "list_all2 reads_member (relayed_json target r u) (relayed_members target r u)"
proof -
  have "plain (target @ cs ''_ancs'')" using chip_name_bytes(1) [OF assms(1)] by (auto simp: plain_def)
  with assms(2) show ?thesis
    by (simp add: relayed_json_def relayed_members_def reads_member_def reads_plain reads_dec plain_def)
qed

lemma payload_tail_length:
  "chip_name target \<Longrightarrow> u < 2 ^ 64 \<Longrightarrow> length (payload_tail target r u) < 200 + length (cstr r)"
  using length_dec [of u 20] by (simp add: payload_tail_def chip_name_def)

lemma payload_tail_encoding:
  "chip_name target \<Longrightarrow> ascii (cstr r) \<Longrightarrow> valid_utf8 (payload_tail target r u) \<and> 0 \<notin> set (payload_tail target r u)"
  by (intro conjI valid_utf8_ascii_text ascii_nonzero) (simp_all add: payload_tail_def chip_name_ascii)

section \<open>The writer keeps the size of the buffer\<close>

lemma put_piece_length: "put_piece t w = Some w1 \<Longrightarrow> length (jw_buffer w1) = length (jw_buffer w)"
  by (cases t) (auto simp: writer_append_def writer_format_def dest: snprintf_length split: if_splits bind_splits)

lemma puts_length: "puts put_piece ts w = Some w1 \<Longrightarrow> length (jw_buffer w1) = length (jw_buffer w)"
  by (induction ts arbitrary: w) (auto dest: put_piece_length split: option.splits)

lemma run_writer_length:
  assumes "run_writer calls output capacity = Some (r, out)" "0 < capacity" "capacity \<le> length output"
  shows "length out = length output"
proof -
  let ?w = "\<lparr>jw_buffer = output[0 := 0], jw_capacity = capacity, jw_length = 0, jw_failed = False\<rparr>"
  have ok: "jw_ok ?w" using assms(2,3) by (cases "output") (simp_all add: jw_ok_def)
  have s: "store output 0 0 = Some (output[0 := 0])" using assms(2,3) by (intro store_Some) linarith
  obtain w1 where "puts put_piece (concat (map call_pieces calls)) ?w = Some w1" "out = jw_buffer w1"
    using assms(1) writer_calls_puts [OF ok, of calls] s by (auto simp: run_writer_def split: bind_splits)
  with puts_length show ?thesis by fastforce
qed

section \<open>Property\<close>

lemma named_memcpy:
  assumes "length (cstr (shown_app_name n)) < length (n_app_name n)"
  shows "memcpy0 (n_app_name n) (cstr (shown_app_name n) @ [0]) = Some (n_app_name (named n))"
  using assms by (simp add: memcpy0_def named_def)

text \<open>The replacement of the last byte of a text that fills the front of a buffer.\<close>

lemma append_tail:
  assumes "cstr out = t @ [c]" "length t + length tail < length out" "length tail < n"
    "0 \<notin> set tail" "c \<noteq> 0"
  shows "\<exists>out'. (do { p \<leftarrow> store out (length t) 0; snprintf_at p (length t) n tail }) = Some out' \<and>
    cstr out' = t @ tail \<and> out ! length t = c"
proof -
  have l: "length (t @ [c]) \<le> length out" using length_cstr_le [of out] assms(1) by simp
  obtain rest where r: "out = t @ c # rest"
    using assms(1) unfolding cstr_def by (metis append.assoc append_Cons append_Nil takeWhile_dropWhile_id)
  have z: "0 \<notin> set t" using cstr_no_nul [of out] assms(1) by auto
  have "store out (length t) 0 = Some (t @ 0 # rest)" by (simp add: r)
  moreover have "snprintf_at (t @ 0 # rest) (length t) n tail =
      Some (t @ tail @ 0 # drop (length t + length tail + 1) (t @ 0 # rest))"
    using snprintf_fits [OF assms(3), of "length t" "t @ 0 # rest"] assms(2) r by simp
  moreover have "cstr (t @ tail @ 0 # drop (length t + length tail + 1) (t @ 0 # rest)) = t @ tail"
    using cstr_append_nul [of "t @ tail"] z assms(4) by simp
  ultimately show ?thesis using r by simp
qed

lemma shown_name_length:
  assumes "config_ok cfg" "notification_ok cfg n" "APP_ID_MAX cfg \<le> APP_NAME_MAX cfg"
  shows "length (cstr (shown_app_name n)) \<le> APP_NAME_MAX cfg"
proof -
  have t: "terminated (n_app_id n)" "terminated (n_app_name n)"
    using assms(2) by (auto simp: notification_ok_def intro: nul_buffer_terminated)
  have l: "length (n_app_id n) = Suc (APP_ID_MAX cfg)" "length (n_app_name n) = Suc (APP_NAME_MAX cfg)"
    using assms(2) by (simp_all add: notification_ok_def nul_buffer_def)
  show ?thesis
    using length_cstr_less [OF t(1)] length_cstr_less [OF t(2)] l lookup_result [of "n_app_id n"] assms(1,3)
    by (auto simp: shown_app_name_def config_ok_def)
qed

lemma payload_text_bound:
  assumes "config_ok cfg" "notification_ok cfg n" "length (cstr d) \<le> 65535" "length (cstr r) \<le> 64"
  shows "payload_text_length n d r \<le> (SIZE_MAX - 2304) div 6"
proof -
  have t: "length (cstr (n_app_id n)) \<le> 1025" "length (cstr (n_app_name n)) \<le> 1025" "length (cstr (n_title n)) \<le> 4097"
    "length (cstr (n_subtitle n)) \<le> 4097" "length (cstr (n_message n)) \<le> 16385"
    "length (cstr (n_message_size_raw n)) \<le> 24" "length (cstr (n_date_raw n)) \<le> 129"
    using assms(1,2) length_cstr_le [of "n_app_id n"] length_cstr_le [of "n_app_name n"] length_cstr_le [of "n_title n"]
      length_cstr_le [of "n_subtitle n"] length_cstr_le [of "n_message n"] length_cstr_le [of "n_message_size_raw n"]
      length_cstr_le [of "n_date_raw n"] unfolding notification_ok_def nul_buffer_def config_ok_def by linarith+
  have "length (cstr (shown_app_name n)) \<le> 1025"
    using lookup_result [of "n_app_id n"] t(1,2) by (auto simp: shown_app_name_def)
  with t assms(3,4) show ?thesis by (simp add: payload_text_length_def SIZE_MAX_def)
qed

lemma relayed_message:
  assumes "chip_name target" "plain (cstr r)"
  shows "parse_json (object_text (notification_members target n d @ relayed_members target r u)) =
    Some (JObj (notification_json target n d @ relayed_json target r u))"
  by (intro reads_jsonI reads_object list_all2_appendI reads_notification_members reads_relayed assms)
    (simp add: notification_members_def)

text \<open>An ASCII byte can be taken from the end of a valid text.\<close>

lemma valid_utf8_butlast:
  assumes "valid_utf8 (s @ [b])" "b < 0x80" shows "valid_utf8 s"
proof -
  obtain cps where cps: "list_all scalar_value cps" "s @ [b] = concat (map utf8 cps)"
    using assms(1) unfolding valid_utf8_def by blast
  then obtain cs' c where c: "cps = cs' @ [c]" by (cases cps rule: rev_cases) auto
  have high: "b \<noteq> of_nat (128 + c mod 64)"
  proof
    assume "b = of_nat (128 + c mod 64)"
    moreover have "128 + c mod 64 < 256" by linarith
    ultimately have "unat b = 128 + c mod 64" by (simp only: unat_byte)
    with assms(2) show False by (simp add: word_less_nat_alt)
  qed
  have "utf8 c = butlast (utf8 c) @ [last (utf8 c)]" using utf8_nonempty [of c] by simp
  then have "s @ [b] = (concat (map utf8 cs') @ butlast (utf8 c)) @ [last (utf8 c)]" using cps(2) c by simp
  then have e: "s = concat (map utf8 cs') @ butlast (utf8 c)" "b = last (utf8 c)" by (simp_all only: append1_eq_conv)
  then have "butlast (utf8 c) = []" using high by (auto simp: utf8_def split: if_splits)
  with e(1) cps(1) c show ?thesis unfolding valid_utf8_def by auto
qed

lemma relayed_encoding:
  assumes "chip_name target" "ascii (cstr r)"
  shows "valid_utf8 (object_text (notification_members target n d @ relayed_members target r u))"
proof -
  let ?t = "object_text (notification_members target n d)"
  have ne: "notification_members target n d \<noteq> []" by (simp add: notification_members_def)
  have "?t = butlast ?t @ [125]" by (simp add: object_text_def)
  then have "valid_utf8 (butlast ?t)"
    using notification_message(1) [OF assms(1), of n d] valid_utf8_butlast [of "butlast ?t" 125] by simp
  with payload_tail_encoding [OF assms] payload_tail_text [OF ne, symmetric] show ?thesis
    by (metis valid_utf8_append)
qed

lemma payload_build:
  assumes target: "chip_name target" and num: "notification_numbers n"
    and name: "length (cstr (shown_app_name n)) \<le> APP_NAME_MAX cfg" "length (n_app_name n) = Suc (APP_NAME_MAX cfg)"
    and len: "payload_text_length n d r \<le> (SIZE_MAX - 2304) div 6" and r: "ascii (cstr r)" and u: "u < 2 ^ 64"
    and block: "malloc (2304 + payload_text_length n d r * 6) = Some block"
      "2304 + payload_text_length n d r * 6 \<le> length block"
  shows "\<exists>p. mqtt_payload_build_notification malloc target cfg (Some n) (Some d) (Some r) u (Some out) =
      Some (ESP_OK, Some (Some p, length (cstr p))) \<and>
    cstr p = object_text (notification_members target (named n) d @ relayed_members target r u)"
proof -
  let ?cap = "2304 + payload_text_length n d r * 6"
  let ?ms = "notification_members target (named n) d" and ?tail = "payload_tail target r u"
  let ?t = "butlast (object_text ?ms)"
  have ne: "?ms \<noteq> []" by (simp add: notification_members_def)
  have t: "object_text ?ms = ?t @ [125]" by (simp add: object_text_def)
  have fits: "length (object_text ?ms) + 6 * length (cstr r) < 2048 + payload_text_length n d r * 6"
    using notification_text_length [OF target, of "named n" d] num named_text_length [of n d r]
    by (simp add: named_numbers)
  have tl: "length ?tail < 200 + length (cstr r)" by (rule payload_tail_length [OF target u])
  have c: "0 < ?cap" by simp
  from format_json_spec [OF target c block(2), of "named n" d] fits obtain out' where
    o: "notification_sink_format_json target (Some (named n)) (Some d) (Some block) ?cap = Some (0, out')"
      "cstr out' = object_text ?ms" by auto
  have l: "length out' = length block"
    using o(1) run_writer_length [OF _ c block(2)] by (auto simp: notification_sink_format_json_def)
  have tb: "length (object_text ?ms) = Suc (length ?t)" using arg_cong [OF t, of length] by simp
  have room: "length ?t + length ?tail < length out'" "length ?tail < ?cap - length (cstr out') + 1"
    using l fits tl block(2) tb arg_cong [OF o(2), of length] by linarith+
  obtain p where p: "(do { p \<leftarrow> store out' (length ?t) 0; snprintf_at p (length ?t) (?cap - length (cstr out') + 1) ?tail }) = Some p"
      "cstr p = ?t @ ?tail" "out' ! length ?t = 125"
    using append_tail [OF trans [OF o(2) t] room] payload_tail_encoding [OF target r] by fastforce
  from p(1) obtain q where q: "store out' (length ?t) 0 = Some q"
      "snprintf_at q (length ?t) (?cap - length (cstr out') + 1) ?tail = Some p"
    by (auto simp del: length_butlast split: bind_splits)
  have memcpy: "memcpy0 (n_app_name n) (cstr (shown_app_name n) @ [0]) = Some (n_app_name (named n))"
    using name by (intro named_memcpy) simp
  have shape: "n\<lparr>n_app_name := n_app_name (named n)\<rparr> = named n" by (simp add: named_def)
  have nonempty: "object_text ?ms \<noteq> []" by (simp add: object_text_def)
  have "mqtt_payload_build_notification malloc target cfg (Some n) (Some d) (Some r) u (Some out) =
      Some (ESP_OK, Some (Some p, length (cstr p)))"
    using len block(1) name memcpy shape q p(3) room(2) o(2) nonempty
    unfolding mqtt_payload_build_notification_def Let_def
    by (simp add: o(1) del: cs_Cons)
  with p(2) payload_tail_text [OF ne] show ?thesis by auto
qed

text \<open>
  C18: The MQTT message of a notification is built whenever memory is available and the display name
  fits its field, and it always fits when application identifiers are not longer than names; the
  buffer is large enough for every well-formed notification. The message is a valid UTF-8 text that
  reads back as the notification with the display name, followed by the identifier, the source and
  the time of publication. A longer name is reported as an invalid size and nothing is returned.
\<close>

theorem mqtt_payload_correct:
  assumes "config_ok cfg" "notification_ok cfg n" "notification_numbers n" "chip_name target"
    and "length (cstr d) \<le> 65535" "length (cstr r) \<le> 64" "plain (cstr r)" "ascii (cstr r)" "u < 2 ^ 64"
    and "malloc (2304 + payload_text_length n d r * 6) = Some block"
    and "2304 + payload_text_length n d r * 6 \<le> length block"
  shows "(if length (cstr (shown_app_name n)) \<le> APP_NAME_MAX cfg
    then \<exists>p. mqtt_payload_build_notification malloc target cfg (Some n) (Some d) (Some r) u (Some out) =
        Some (ESP_OK, Some (Some p, length (cstr p))) \<and>
      valid_utf8 (cstr p) \<and>
      parse_json (cstr p) = Some (JObj (notification_json target (named n) d @ relayed_json target r u))
    else mqtt_payload_build_notification malloc target cfg (Some n) (Some d) (Some r) u (Some out) =
      Some (ESP_ERR_INVALID_SIZE, Some (None, 0))) \<and>
    (APP_ID_MAX cfg \<le> APP_NAME_MAX cfg \<longrightarrow> length (cstr (shown_app_name n)) \<le> APP_NAME_MAX cfg)"
proof (rule conjI)
  note len = payload_text_bound [OF assms(1,2,5,6)]
  have name: "length (n_app_name n) = Suc (APP_NAME_MAX cfg)"
    using assms(2) by (simp add: notification_ok_def nul_buffer_def)
  show "if length (cstr (shown_app_name n)) \<le> APP_NAME_MAX cfg
    then \<exists>p. mqtt_payload_build_notification malloc target cfg (Some n) (Some d) (Some r) u (Some out) =
        Some (ESP_OK, Some (Some p, length (cstr p))) \<and>
      valid_utf8 (cstr p) \<and>
      parse_json (cstr p) = Some (JObj (notification_json target (named n) d @ relayed_json target r u))
    else mqtt_payload_build_notification malloc target cfg (Some n) (Some d) (Some r) u (Some out) =
      Some (ESP_ERR_INVALID_SIZE, Some (None, 0))"
  proof (cases "length (cstr (shown_app_name n)) \<le> APP_NAME_MAX cfg")
    case True
    from payload_build [of target n cfg d r u malloc block out, OF assms(4,3) True name len assms(8-11)] relayed_message [OF assms(4,7)]
      relayed_encoding [OF assms(4,8)] True show ?thesis by metis
  next
    case False
    with len assms(10) show ?thesis by (simp add: mqtt_payload_build_notification_def Let_def)
  qed
  show "APP_ID_MAX cfg \<le> APP_NAME_MAX cfg \<longrightarrow> length (cstr (shown_app_name n)) \<le> APP_NAME_MAX cfg"
    using shown_name_length [OF assms(1,2)] by blast
qed

theorem mqtt_payload_correct_witness:
  "\<exists>p. mqtt_payload_build_notification sample_malloc (cs ''esp32c3'') default_config
      (Some (notification_zero default_config)) (Some (cs ''iPhone'' @ [0])) (Some (cs ''0a1b'' @ [0])) 5
      (Some (None, 0)) = Some (ESP_OK, Some (Some p, length (cstr p))) \<and> valid_utf8 (cstr p)"
proof -
  let ?n = "notification_zero default_config"
  let ?k = "2304 + payload_text_length ?n (cs ''iPhone'' @ [0]) (cs ''0a1b'' @ [0]) * 6"
  have n: "notification_ok default_config ?n"
    by (rule notification_zero_ok)
  have num: "notification_numbers ?n" by (simp add: notification_numbers_def notification_zero_def)
  have m: "sample_malloc ?k = Some (replicate ?k 0)" by (simp only: sample_malloc_def)
  have b: "?k \<le> length (replicate ?k (0 :: u8))" by (simp only: length_replicate)
  have c: "chip_name (cs ''esp32c3'')" by (simp add: chip_name_def)
  have r: "plain (cstr (cs ''0a1b'' @ [0]))" "ascii (cstr (cs ''0a1b'' @ [0]))" by (simp_all add: plain_def)
  have l: "length (cstr (cs ''iPhone'' @ [0])) \<le> 65535" "length (cstr (cs ''0a1b'' @ [0])) \<le> 64" by simp_all
  have u: "(5 :: nat) < 2 ^ 64" by simp
  have a: "APP_ID_MAX default_config \<le> APP_NAME_MAX default_config" by (simp add: default_config_def)
  from mqtt_payload_correct [of default_config ?n "cs ''esp32c3''" "cs ''iPhone'' @ [0]" "cs ''0a1b'' @ [0]" 5
      sample_malloc "replicate ?k 0" "(None, 0)", OF default_config_ok n num c l r u m b] a show ?thesis by (auto split: if_splits)
qed
end
