(* ===== verification/Mqtt_Publish.thy ===== *)
theory Mqtt_Publish
  imports Mqtt_Context Mqtt_Notification Mqtt_Payload_Bounds Provision_Store
begin

text \<open>
  The tasks of the relay in \<^verbatim>\<open>components/mqtt_relay/mqtt_relay.c\<close>: publishing through the MQTT client, the
  observer of notifications, the worker, and the status and discovery messages.
\<close>

section \<open>The world\<close>

text \<open>
  What the relay relies on: the heap, the timer, the MQTT client and the operating system. A call that
  may block returns the state as the other tasks left it meanwhile, and \<open>rw_others\<close> is what they do while
  a task waits or is between two locked sections. \<open>rw_hook\<close> is the function tests put in place of the
  client, \<open>s_publish_for_test\<close>. The length of a message is passed as 0 everywhere, which is the length of
  its C string.
\<close>

record relay_world =
  rw_others :: "mqtt_relay_context \<Rightarrow> mqtt_relay_context"
  rw_now :: "mqtt_relay_context \<Rightarrow> nat"
  rw_malloc :: "mqtt_relay_context \<Rightarrow> nat \<Rightarrow> bytes option"
  rw_new_config :: "mqtt_relay_context \<Rightarrow> bool"
  rw_new_item :: "mqtt_relay_context \<Rightarrow> nat option"
  rw_strdup :: "mqtt_relay_context \<Rightarrow> bool"
  rw_hook :: "(bytes \<Rightarrow> bytes \<Rightarrow> nat \<Rightarrow> bool \<Rightarrow> int) option"
  rw_publish :: "nat \<Rightarrow> bytes \<Rightarrow> bytes \<Rightarrow> nat \<Rightarrow> bool \<Rightarrow> mqtt_relay_context \<Rightarrow> int \<times> mqtt_relay_context"
  rw_enqueue :: "nat \<Rightarrow> bytes \<Rightarrow> bytes \<Rightarrow> nat \<Rightarrow> bool \<Rightarrow> mqtt_relay_context \<Rightarrow> int \<times> mqtt_relay_context"
  rw_outbox_size :: "nat \<Rightarrow> mqtt_relay_context \<Rightarrow> int"
  rw_subscribe :: "nat \<Rightarrow> bytes \<Rightarrow> nat \<Rightarrow> mqtt_relay_context \<Rightarrow> int \<times> mqtt_relay_context"
  rw_client_init :: "esp_mqtt_client_config \<Rightarrow> mqtt_relay_context \<Rightarrow> nat option"
  rw_client_register :: "nat \<Rightarrow> mqtt_relay_context \<Rightarrow> esp_err"
  rw_client_start :: "nat \<Rightarrow> mqtt_relay_context \<Rightarrow> esp_err \<times> mqtt_relay_context"
  rw_client_reconnect :: "nat \<Rightarrow> mqtt_relay_context \<Rightarrow> esp_err \<times> mqtt_relay_context"
  rw_client_stop :: "nat \<Rightarrow> mqtt_relay_context \<Rightarrow> esp_err \<times> mqtt_relay_context"
  rw_client_destroy :: "nat \<Rightarrow> mqtt_relay_context \<Rightarrow> mqtt_relay_context"
  rw_new_task :: "mqtt_relay_context \<Rightarrow> nat option"
  rw_new_queue :: "mqtt_relay_context \<Rightarrow> bool"
  rw_new_mutex :: "mqtt_relay_context \<Rightarrow> bool"
  rw_new_lifecycle_mutex :: "mqtt_relay_context \<Rightarrow> bool"

definition MQTT_RELAY_NOTIFICATION_QOS :: nat where "MQTT_RELAY_NOTIFICATION_QOS = 1"
definition MQTT_RELAY_NOTIFICATION_RETAIN :: bool where "MQTT_RELAY_NOTIFICATION_RETAIN = False"
definition MQTT_RELAY_RETAINED_QOS :: nat where "MQTT_RELAY_RETAINED_QOS = 0"
definition MQTT_RELAY_RETAINED_RETAIN :: bool where "MQTT_RELAY_RETAINED_RETAIN = True"
definition MQTT_RELAY_DISCOVERY_QOS :: nat where "MQTT_RELAY_DISCOVERY_QOS = 0"
definition MQTT_RELAY_RETAINED_ACK_TIMEOUT_MS :: nat where "MQTT_RELAY_RETAINED_ACK_TIMEOUT_MS = 30000"
definition MQTT_RELAY_RETAINED_ACK_POLL_MS :: nat where "MQTT_RELAY_RETAINED_ACK_POLL_MS = 10"
definition MQTT_RELAY_DISCOVERY_DRAIN_TIMEOUT_MS :: nat where "MQTT_RELAY_DISCOVERY_DRAIN_TIMEOUT_MS = 30000"
definition MQTT_RELAY_DISCOVERY_DRAIN_POLL_MS :: nat where "MQTT_RELAY_DISCOVERY_DRAIN_POLL_MS = 10"

text \<open>A local copy of a topic, by \<open>strlcpy\<close>.\<close>

definition local_copy :: "nat \<Rightarrow> bytes \<Rightarrow> bytes" where
  "local_copy n topic = strlcpy (replicate n 0) topic"

section \<open>Calls of the client\<close>

definition mqtt_relay_publish_raw ::
  "relay_world \<Rightarrow> bytes \<Rightarrow> bytes \<Rightarrow> nat \<Rightarrow> bool \<Rightarrow> mqtt_relay_context \<Rightarrow> int \<times> mqtt_relay_context" where
  "mqtt_relay_publish_raw w topic payload qos retain cx =
    (case rw_hook w of
       Some publish \<Rightarrow> (publish (cstr topic) (cstr payload) qos retain, cx)
     | None \<Rightarrow>
         (case begin_publish cx of
            None \<Rightarrow> (-1, cx)
          | Some (client, cx) \<Rightarrow>
              let (result, cx) = rw_publish w client (cstr topic) (cstr payload) qos retain
                    (perform (Publish client (cstr topic) (cstr payload) qos retain) cx)
              in (result, end_publish cx)))"

definition mqtt_relay_enqueue_raw ::
  "relay_world \<Rightarrow> bytes \<Rightarrow> bytes \<Rightarrow> nat \<Rightarrow> bool \<Rightarrow> mqtt_relay_context \<Rightarrow> int \<times> mqtt_relay_context" where
  "mqtt_relay_enqueue_raw w topic payload qos retain cx =
    (case rw_hook w of
       Some publish \<Rightarrow> (publish (cstr topic) (cstr payload) qos retain, cx)
     | None \<Rightarrow>
         (case begin_enqueue cx of
            None \<Rightarrow> (-1, cx)
          | Some (client, cx) \<Rightarrow>
              let (result, cx) = rw_enqueue w client (cstr topic) (cstr payload) qos retain
                    (perform (Enqueue client (cstr topic) (cstr payload) qos retain) cx)
              in (result, end_publish cx)))"

section \<open>Waiting\<close>

text \<open>A loop that looks at the state under the lock and sleeps until it is as awaited; it may never end.\<close>

partial_function (option) wait_until ::
  "(mqtt_relay_context \<Rightarrow> bool) \<Rightarrow> (mqtt_relay_context \<Rightarrow> mqtt_relay_context) \<Rightarrow> mqtt_relay_context \<Rightarrow>
   mqtt_relay_context option" where
  "wait_until done others cx = (if done cx then Some cx else wait_until done others (others cx))"

definition mqtt_relay_wait_publish_idle :: "relay_world \<Rightarrow> mqtt_relay_context \<Rightarrow> mqtt_relay_context option" where
  "mqtt_relay_wait_publish_idle w = wait_until (\<lambda>cx. cx_publish_in_flight cx = 0) (rw_others w)"

definition mqtt_relay_wait_worker_idle :: "relay_world \<Rightarrow> mqtt_relay_context \<Rightarrow> mqtt_relay_context option" where
  "mqtt_relay_wait_worker_idle w =
     wait_until (\<lambda>cx. \<not> (cx_worker_busy cx \<or> cx_publish_in_flight cx > 0)) (rw_others w)"

definition mqtt_relay_stop_worker_for_teardown ::
  "relay_world \<Rightarrow> mqtt_relay_context \<Rightarrow> mqtt_relay_context option" where
  "mqtt_relay_stop_worker_for_teardown w cx =
     wait_until (\<lambda>cx. cx_worker_task cx = None \<and> \<not> cx_worker_busy cx) (rw_others w)
       (mqtt_relay_notify_worker (cx\<lparr>cx_worker_running := False\<rparr>))"

function outbox_loop :: "relay_world \<Rightarrow> nat \<Rightarrow> mqtt_relay_context \<Rightarrow> bool \<times> mqtt_relay_context" where
  "outbox_loop w elapsed_ms cx =
    (if elapsed_ms < MQTT_RELAY_DISCOVERY_DRAIN_TIMEOUT_MS
     then (case cx_client cx of
             None \<Rightarrow> (False, cx)
           | Some client \<Rightarrow>
               if \<not> (cx_mqtt_connected cx \<and> cx_publish_allowed cx) then (False, cx)
               else if rw_outbox_size w client cx = 0 then (True, cx)
               else outbox_loop w (elapsed_ms + MQTT_RELAY_DISCOVERY_DRAIN_POLL_MS) (rw_others w cx))
     else (False, cx))"
  by auto
termination
  by (relation "measure (\<lambda>(w, elapsed, cx). MQTT_RELAY_DISCOVERY_DRAIN_TIMEOUT_MS - elapsed)")
    (auto simp: MQTT_RELAY_DISCOVERY_DRAIN_POLL_MS_def)

declare outbox_loop.simps [simp del]

definition mqtt_relay_wait_outbox_empty :: "relay_world \<Rightarrow> mqtt_relay_context \<Rightarrow> bool \<times> mqtt_relay_context" where
  "mqtt_relay_wait_outbox_empty w cx = (if rw_hook w \<noteq> None then (True, cx) else outbox_loop w 0 cx)"

function retained_ack_loop :: "relay_world \<Rightarrow> nat \<Rightarrow> mqtt_relay_context \<Rightarrow> bool \<times> mqtt_relay_context" where
  "retained_ack_loop w elapsed_ms cx =
    (if elapsed_ms < MQTT_RELAY_RETAINED_ACK_TIMEOUT_MS
     then let acknowledged = cx_retained_ack_received cx;
              connected = (cx_mqtt_connected cx \<and> cx_publish_allowed cx)
          in if acknowledged \<or> \<not> connected then (acknowledged, mqtt_relay_clear_retained_wait_locked cx)
             else retained_ack_loop w (elapsed_ms + MQTT_RELAY_RETAINED_ACK_POLL_MS) (rw_others w cx)
     else (False, mqtt_relay_clear_retained_wait_locked cx))"
  by auto
termination
  by (relation "measure (\<lambda>(w, elapsed, cx). MQTT_RELAY_RETAINED_ACK_TIMEOUT_MS - elapsed)")
    (auto simp: MQTT_RELAY_RETAINED_ACK_POLL_MS_def)

declare retained_ack_loop.simps [simp del]

definition mqtt_relay_publish_retained_once ::
  "relay_world \<Rightarrow> bytes \<Rightarrow> bytes \<Rightarrow> mqtt_relay_context \<Rightarrow> bool \<times> mqtt_relay_context" where
  "mqtt_relay_publish_retained_once w topic payload cx =
    (if MQTT_RELAY_RETAINED_QOS = 0
     then let (result, cx) = mqtt_relay_enqueue_raw w topic payload MQTT_RELAY_RETAINED_QOS
                MQTT_RELAY_RETAINED_RETAIN cx
          in if result \<ge> 0 then mqtt_relay_wait_outbox_empty w cx else (False, cx)
     else let cx = (mqtt_relay_clear_retained_wait_locked cx)\<lparr>cx_retained_waiting := True\<rparr>;
              (result, cx) = mqtt_relay_enqueue_raw w topic payload MQTT_RELAY_RETAINED_QOS
                MQTT_RELAY_RETAINED_RETAIN cx
          in if result \<le> 0 then (False, mqtt_relay_clear_retained_wait_locked cx)
             else let cx = cx\<lparr>cx_retained_msg_id := result\<rparr>;
                      cx = (if result \<in> set (take (cx_retained_early_ack_count cx) (cx_retained_early_ack_ids cx))
                            then cx\<lparr>cx_retained_ack_received := True\<rparr> else cx)
                  in retained_ack_loop w 0 cx)"

definition mqtt_relay_publish_discovery_once ::
  "relay_world \<Rightarrow> bytes \<Rightarrow> bytes \<Rightarrow> mqtt_relay_context \<Rightarrow> bool \<times> mqtt_relay_context" where
  "mqtt_relay_publish_discovery_once w topic payload cx =
    (let (result, cx) = mqtt_relay_enqueue_raw w topic payload MQTT_RELAY_DISCOVERY_QOS
           MQTT_RELAY_RETAINED_RETAIN cx
     in if result < 0 then (False, cx) else mqtt_relay_wait_outbox_empty w cx)"

section \<open>The status message\<close>

text \<open>The runtime status, copied under the lock; the uptime is read after it.\<close>

definition runtime_snapshot :: "relay_world \<Rightarrow> mqtt_relay_context \<Rightarrow> mqtt_relay_runtime_status" where
  "runtime_snapshot w cx =
     \<lparr>rs_wifi = cx_wifi_status cx, rs_mqtt_connected = cx_mqtt_connected cx,
      rs_ble_connected = cx_ble_connected cx, rs_ble_bonded = cx_ble_bonded cx,
      rs_uptime_seconds = of_nat (rw_now w cx div 1000000),
      rs_last_notification_uptime_ms = cx_last_notification_uptime_ms cx,
      rs_diagnostics = cx_diagnostics cx\<rparr>"

definition mqtt_relay_publish_state_snapshot ::
  "relay_world \<Rightarrow> mqtt_relay_context \<Rightarrow> (esp_err \<times> mqtt_relay_context) option" where
  "mqtt_relay_publish_state_snapshot w cx =
    (let runtime = runtime_snapshot w cx;
         state_topic = local_copy MQTT_RELAY_TOPIC_MAX (tp_state (cx_topics cx))
     in if \<not> cx_mqtt_connected cx then Some (ESP_OK, cx)
        else (case rw_malloc w cx MQTT_RELAY_STATE_PAYLOAD_MAX of
          None \<Rightarrow> Some (ESP_ERR_NO_MEM, cx)
        | Some block \<Rightarrow> do {
            (err, state) \<leftarrow> mqtt_relay_build_state_payload (Some (cx_counters cx)) (Some runtime)
              (Some (cx_device_info cx)) (Some (block, MQTT_RELAY_STATE_PAYLOAD_MAX));
            if err = ESP_OK
            then let (result, cx) = mqtt_relay_enqueue_raw w state_topic state MQTT_RELAY_RETAINED_QOS
                       MQTT_RELAY_RETAINED_RETAIN cx
                 in Some (if result \<ge> 0 then ESP_OK else ESP_FAIL, cx)
            else Some (err, cx)
          }))"

end
