(* ===== verification/Mqtt_Worker.thy ===== *)
theory Mqtt_Worker
  imports Mqtt_Publish
begin

text \<open>
  The worker task and the observer of notifications in \<^verbatim>\<open>components/mqtt_relay/mqtt_relay.c\<close>: the retained
  messages after a connection, the queue of notifications, and the test notification.
\<close>

section \<open>The retained messages\<close>

text \<open>A sequence of messages that ends at the first one that fails, the jump to the cleanup.\<close>

type_synonym publishing = "mqtt_relay_context \<Rightarrow> (bool \<times> mqtt_relay_context) option"

definition then_publish :: "publishing \<Rightarrow> publishing \<Rightarrow> publishing" where
  "then_publish a b cx = do { (ok, cx) \<leftarrow> a cx; if ok then b cx else Some (False, cx) }"

fun publish_each :: "publishing list \<Rightarrow> publishing" where
  "publish_each [] cx = Some (True, cx)"
| "publish_each (a # as) cx = then_publish a (publish_each as) cx"

text \<open>One discovery message: its topic and its text are built first, and a failure of either ends the sequence.\<close>

definition send_discovery ::
  "relay_world \<Rightarrow> (esp_err \<times> bytes) option \<Rightarrow> (esp_err \<times> bytes) option \<Rightarrow> publishing" where
  "send_discovery w topic payload cx = do {
     (err, topic) \<leftarrow> topic;
     if err \<noteq> ESP_OK then Some (False, cx)
     else do {
       (err, payload) \<leftarrow> payload;
       if err \<noteq> ESP_OK then Some (False, cx) else Some (mqtt_relay_publish_discovery_once w topic payload cx)
     }
   }"

text \<open>The buffers \<open>discovery\<close> and \<open>discovery_topic\<close>; every text is written from their start.\<close>

definition discovery_buffer :: out_buf where
  "discovery_buffer = (replicate MQTT_RELAY_DISCOVERY_PAYLOAD_MAX 0, MQTT_RELAY_DISCOVERY_PAYLOAD_MAX)"

definition topic_buffer :: out_buf where
  "topic_buffer = (replicate MQTT_RELAY_DISCOVERY_TOPIC_MAX 0, MQTT_RELAY_DISCOVERY_TOPIC_MAX)"

text \<open>The topics and texts of the discovery messages, in their order, and the topics of earlier releases to clear.\<close>

type_synonym planned = "(esp_err \<times> bytes) option \<times> (esp_err \<times> bytes) option"

definition discovery_plan :: "provision_config \<Rightarrow> mqtt_relay_device_info \<Rightarrow> relay_topics \<Rightarrow> planned list" where
  "discovery_plan discovery_config device_info t =
    (let notification = local_copy MQTT_RELAY_TOPIC_MAX (tp_notification t);
         availability = local_copy MQTT_RELAY_TOPIC_MAX (tp_availability t);
         state = local_copy MQTT_RELAY_TOPIC_MAX (tp_state t);
         aggregate = local_copy MQTT_RELAY_DISCOVERY_TOPIC_MAX (tp_discovery t);
         enroll_command = local_copy MQTT_RELAY_TOPIC_MAX (tp_enroll_command t);
         enroll_discovery = local_copy MQTT_RELAY_DISCOVERY_TOPIC_MAX (tp_enroll_discovery t);
         restart_command = local_copy MQTT_RELAY_TOPIC_MAX (tp_restart_command t);
         restart_discovery = local_copy MQTT_RELAY_DISCOVERY_TOPIC_MAX (tp_restart_discovery t)
     in [(Some (ESP_OK, aggregate),
          mqtt_relay_build_discovery_payload (Some discovery_config) (Some device_info) (Some notification)
            (Some availability) (Some discovery_buffer))] @
        map (\<lambda>i. (mqtt_relay_build_focused_discovery_topic (Some discovery_config) i (Some topic_buffer),
               mqtt_relay_build_focused_discovery_payload (Some discovery_config) (Some device_info)
                 (Some notification) (Some availability) i (Some discovery_buffer)))
          [0..<mqtt_relay_focused_sensor_count] @
        [(mqtt_relay_build_status_discovery_topic (Some discovery_config) (Some topic_buffer),
          mqtt_relay_build_status_discovery_payload (Some discovery_config) (Some device_info) (Some state)
            (Some availability) (Some discovery_buffer)),
         (Some (ESP_OK, enroll_discovery),
          mqtt_relay_build_enroll_discovery_payload (Some discovery_config) (Some device_info) (Some enroll_command)
            (Some availability) (Some discovery_buffer)),
         (Some (ESP_OK, restart_discovery),
          mqtt_relay_build_restart_discovery_payload (Some discovery_config) (Some device_info) (Some restart_command)
            (Some availability) (Some discovery_buffer))])"

definition legacy_plan :: "provision_config \<Rightarrow> planned list" where
  "legacy_plan discovery_config =
     map (\<lambda>i. (mqtt_relay_build_legacy_discovery_topic (Some discovery_config) i (Some topic_buffer), Some (ESP_OK, [0])))
       [0..<mqtt_relay_legacy_discovery_count]"

definition publish_plan :: "relay_world \<Rightarrow> planned list \<Rightarrow> publishing" where
  "publish_plan w plan = publish_each (map (\<lambda>(topic, payload). send_discovery w topic payload) plan)"

text \<open>The status message is left out, and the sequence goes on, when it cannot be built.\<close>

definition send_status :: "relay_world \<Rightarrow> bytes \<Rightarrow> (esp_err \<times> bytes) option \<Rightarrow> publishing" where
  "send_status w state_topic payload cx = do {
     (err, state) \<leftarrow> payload;
     Some (if err = ESP_OK then mqtt_relay_publish_retained_once w state_topic state cx else (True, cx))
   }"

definition mqtt_relay_publish_retained_status ::
  "relay_world \<Rightarrow> mqtt_relay_context \<Rightarrow> mqtt_relay_context option" where
  "mqtt_relay_publish_retained_status w cx =
    (case (rw_new_config w cx, rw_malloc w cx MQTT_RELAY_DISCOVERY_PAYLOAD_MAX, rw_malloc w cx MQTT_RELAY_STATE_PAYLOAD_MAX) of
       (True, Some _, Some block) \<Rightarrow>
         let discovery_config = config_zero\<lparr>mqtt_client_id :=
               strlcpy (mqtt_client_id config_zero) (mqtt_client_id (cx_config cx))\<rparr>;
             device_info = cx_device_info cx;
             t = cx_topics cx;
             state = mqtt_relay_build_state_payload (Some (cx_counters cx)) (Some (runtime_snapshot w cx))
               (Some device_info) (Some (block, MQTT_RELAY_STATE_PAYLOAD_MAX))
         in do {
           (ok, cx) \<leftarrow> then_publish
             (\<lambda>cx. Some (mqtt_relay_publish_retained_once w (local_copy MQTT_RELAY_TOPIC_MAX (tp_availability t))
                (cs ''online'') cx))
             (send_status w (local_copy MQTT_RELAY_TOPIC_MAX (tp_state t)) state) cx;
           if \<not> ok \<or> cx_discovery_attempted_this_boot cx then Some cx
           else do {
             (ok, cx) \<leftarrow> publish_plan w (discovery_plan discovery_config device_info t) cx;
             if \<not> ok then Some cx
             else do {
               (_, cx) \<leftarrow> publish_plan w (legacy_plan discovery_config) (cx\<lparr>cx_discovery_attempted_this_boot := True\<rparr>);
               Some cx
             }
           }
         }
     | _ \<Rightarrow> Some cx)"

section \<open>The worker\<close>

text \<open>
  The two locked sections of \<open>mqtt_relay_drain_queue\<close>: to take the next message, and to settle the one
  that was handed to the client.
\<close>

definition drain_take :: "mqtt_relay_context \<Rightarrow> (mqtt_payload_item \<times> mqtt_relay_context) option" where
  "drain_take cx =
    (case cx_queue cx of
       Some (item # items) \<Rightarrow>
         if \<not> cx_mqtt_connected cx then None
         else Some (item, cx\<lparr>cx_queue := Some items, cx_worker_busy := True\<rparr>)
     | _ \<Rightarrow> None)"

definition drain_settle :: "mqtt_payload_item \<Rightarrow> int \<Rightarrow> mqtt_relay_context \<Rightarrow> mqtt_relay_context" where
  "drain_settle item msg_id cx =
    (let cx = cx\<lparr>cx_worker_busy := False\<rparr>
     in if msg_id \<le> 0 \<or> \<not> cx_mqtt_connected cx then mqtt_relay_free_item item cx
        else mqtt_relay_track_pending_locked item msg_id cx)"

text \<open>One turn of the loop: nothing when there is nothing to send.\<close>

definition drain_turn :: "relay_world \<Rightarrow> mqtt_relay_context \<Rightarrow> mqtt_relay_context option" where
  "drain_turn w cx =
    (case drain_take cx of
       None \<Rightarrow> None
     | Some (item, cx) \<Rightarrow>
         let (msg_id, cx) = mqtt_relay_enqueue_raw w (it_topic item) (it_payload item)
               MQTT_RELAY_NOTIFICATION_QOS MQTT_RELAY_NOTIFICATION_RETAIN cx
         in Some (drain_settle item msg_id cx))"

partial_function (option) mqtt_relay_drain_queue ::
  "relay_world \<Rightarrow> mqtt_relay_context \<Rightarrow> mqtt_relay_context option" where
  "mqtt_relay_drain_queue w cx =
    (case drain_turn w cx of None \<Rightarrow> Some cx | Some cx \<Rightarrow> mqtt_relay_drain_queue w cx)"

text \<open>What the worker does after a notification; the task ends when the result is \<open>False\<close>.\<close>

definition mqtt_relay_worker_turn ::
  "relay_world \<Rightarrow> mqtt_relay_context \<Rightarrow> (bool \<times> mqtt_relay_context) option" where
  "mqtt_relay_worker_turn w cx =
    (if \<not> cx_worker_running cx then Some (False, cx\<lparr>cx_worker_task := None\<rparr>)
     else let publish_retained = (cx_retained_refresh_pending cx \<and> cx_mqtt_connected cx)
       in do {
         cx \<leftarrow> (if publish_retained
                then map_option (\<lambda>cx. cx\<lparr>cx_worker_busy := False\<rparr>) (mqtt_relay_publish_retained_status w
                       (cx\<lparr>cx_retained_refresh_pending := False, cx_worker_busy := True\<rparr>))
                else Some cx);
         cx \<leftarrow> mqtt_relay_drain_queue w cx;
         Some (True, cx)
       })"

definition mqtt_relay_ensure_worker :: "relay_world \<Rightarrow> mqtt_relay_context \<Rightarrow> esp_err \<times> mqtt_relay_context" where
  "mqtt_relay_ensure_worker w cx =
    (let cx = cx\<lparr>cx_worker_running := True\<rparr>
     in if cx_worker_task cx \<noteq> None then (ESP_OK, cx)
        else case rw_new_task w cx of
          None \<Rightarrow> (ESP_ERR_NO_MEM, cx\<lparr>cx_worker_running := False\<rparr>)
        | Some worker \<Rightarrow> (ESP_OK, cx\<lparr>cx_worker_task := Some worker\<rparr>))"

section \<open>The observer of notifications\<close>

definition online :: "mqtt_relay_context \<Rightarrow> bool" where
  "online cx \<longleftrightarrow> cx_accepting_observers cx \<and> cx_wifi_connected cx \<and> cx_mqtt_connected cx"

definition connectivity_of :: "mqtt_relay_context \<Rightarrow> relay_connectivity" where
  "connectivity_of cx = \<lparr>c_wifi_connected = cx_wifi_connected cx, c_mqtt_connected = cx_mqtt_connected cx,
     c_boot_nonce = cx_boot_nonce cx\<rparr>"

definition drop_offline :: "mqtt_relay_context \<Rightarrow> mqtt_relay_context" where
  "drop_offline cx = cx\<lparr>cx_counters := (cx_counters cx)\<lparr>rc_dropped_offline := rc_dropped_offline (cx_counters cx) + 1\<rparr>\<rparr>"

definition drop_policy :: "mqtt_relay_context \<Rightarrow> mqtt_relay_context" where
  "drop_policy cx = cx\<lparr>cx_counters := (cx_counters cx)\<lparr>rc_dropped_policy := rc_dropped_policy (cx_counters cx) + 1\<rparr>\<rparr>"

definition drop_enqueue :: "mqtt_relay_context \<Rightarrow> mqtt_relay_context" where
  "drop_enqueue cx = cx\<lparr>cx_counters := (cx_counters cx)\<lparr>rc_dropped_enqueue := rc_dropped_enqueue (cx_counters cx) + 1\<rparr>\<rparr>"

text \<open>The first locked section: the identifier and the topic of a notification to be sent.\<close>

definition observe_admit ::
  "ancs_notification \<Rightarrow> mqtt_relay_context \<Rightarrow> ((bytes \<times> bytes) option \<times> mqtt_relay_context) option" where
  "observe_admit n cx =
    (if \<not> online cx then Some (None, drop_offline cx)
     else do {
       decision \<leftarrow> relay_policy_decide (Some n) (connectivity_of cx) (Some (cx_recent cx));
       if decision \<noteq> RELAY_PUBLISH then Some (None, drop_policy cx)
       else do {
         (relay_id, err) \<leftarrow> relay_policy_build_id (Some n) (cx_boot_nonce cx)
           (Some (replicate RELAY_POLICY_ID_MAX 0)) RELAY_POLICY_ID_MAX;
         case (relay_id, err) of
           (Some i, ESP_OK) \<Rightarrow> Some (Some (i, local_copy MQTT_RELAY_TOPIC_MAX (tp_notification (cx_topics cx))), cx)
         | _ \<Rightarrow> Some (None, drop_policy cx)
       }
     })"

text \<open>The second locked section: the message enters the queue, or it is freed.\<close>

definition observe_commit ::
  "ancs_notification \<Rightarrow> bytes \<Rightarrow> mqtt_payload_item \<Rightarrow> nat \<Rightarrow> mqtt_relay_context \<Rightarrow>
   (bool \<times> mqtt_relay_context) option" where
  "observe_commit n relay_id item now cx =
    (if \<not> online cx then Some (False, mqtt_relay_free_item item (drop_offline cx))
     else do {
       decision \<leftarrow> relay_policy_decide (Some n) (connectivity_of cx) (Some (cx_recent cx));
       if decision \<noteq> RELAY_PUBLISH then Some (False, mqtt_relay_free_item item (drop_policy cx))
       else (case cx_queue cx of
           None \<Rightarrow> None
         | Some items \<Rightarrow>
             if length items \<ge> MQTT_RELAY_QUEUE_CAPACITY
             then Some (False, mqtt_relay_free_item item (drop_enqueue cx))
             else do {
               recent \<leftarrow> relay_policy_mark_recent (Some (cx_recent cx)) (Some relay_id);
               let cx = cx\<lparr>cx_queue := Some (items @ [item]),
                           cx_recent := (case recent of None \<Rightarrow> cx_recent cx | Some r \<Rightarrow> r),
                           cx_counters := (cx_counters cx)\<lparr>rc_accepted := rc_accepted (cx_counters cx) + 1\<rparr>\<rparr>;
               Some (True,
                 if n_complete n \<and> n_session_id n \<noteq> 0 \<and> n_event_id n \<le> 1 \<and> n_event_flags n AND 4 = 0
                 then cx\<lparr>cx_last_notification_uptime_ms := of_nat (now div 1000)\<rparr> else cx)
             })
     })"

definition mqtt_relay_observe_notification ::
  "relay_world \<Rightarrow> bytes \<Rightarrow> ancs_config \<Rightarrow> ancs_notification option \<Rightarrow> bytes option \<Rightarrow> mqtt_relay_context \<Rightarrow>
   mqtt_relay_context option" where
  "mqtt_relay_observe_notification w target cfg notification device_name cx =
    (case (notification, device_name) of
       (Some n, Some d) \<Rightarrow> do {
         (admitted, cx) \<leftarrow> observe_admit n cx;
         case admitted of
           None \<Rightarrow> Some cx
         | Some (relay_id, topic) \<Rightarrow>
             let cx = rw_others w cx
             in do {
               (err, out) \<leftarrow> mqtt_payload_build_notification (rw_malloc w cx) target cfg notification device_name
                 (Some relay_id) (rw_now w cx div 1000) (Some (None, 0));
               case (err, out) of
                 (ESP_OK, Some (Some payload, payload_length)) \<Rightarrow>
                   (case (rw_new_item w cx, rw_strdup w cx) of
                      (Some address, True) \<Rightarrow>
                        let item = \<lparr>it_address = address, it_topic = cstr topic @ [0], it_payload = payload,
                              it_payload_length = payload_length, it_msg_id = 0\<rparr>;
                            cx = rw_others w cx
                        in do {
                          (accepted, cx) \<leftarrow> observe_commit n relay_id item (rw_now w cx) cx;
                          Some (if accepted then mqtt_relay_notify_worker cx else cx)
                        }
                    | _ \<Rightarrow> Some (drop_enqueue (rw_others w cx)))
               | _ \<Rightarrow> Some (drop_enqueue (rw_others w cx))
             }
       }
     | _ \<Rightarrow> Some cx)"

end
