(* ===== verification/Mqtt_Lifecycle.thy ===== *)
theory Mqtt_Lifecycle
  imports Mqtt_Worker Mqtt_Topics
begin

text \<open>
  The events of the MQTT client and the life cycle of the relay in
  \<^verbatim>\<open>components/mqtt_relay/mqtt_relay.c\<close>: the start, a reconnection, the stop, new settings and the end, and
  the status the other components report to it.
\<close>

section \<open>Events of the client\<close>

datatype esp_mqtt_event_id =
    MQTT_EVENT_BEFORE_CONNECT | MQTT_EVENT_CONNECTED | MQTT_EVENT_DATA | MQTT_EVENT_PUBLISHED
  | MQTT_EVENT_DISCONNECTED | MQTT_EVENT_ERROR | MQTT_EVENT_OTHER int

record esp_mqtt_event =
  mv_client :: "nat option"
  mv_topic :: "bytes option"
  mv_topic_len :: int
  mv_data :: "bytes option"
  mv_data_len :: int
  mv_total_data_len :: int
  mv_current_data_offset :: int
  mv_retain :: bool
  mv_msg_id :: int
  mv_error_handle :: "esp_mqtt_error_codes option"

definition MQTT_RELAY_ENROLL_COMMAND_QOS :: nat where "MQTT_RELAY_ENROLL_COMMAND_QOS = 1"
definition MQTT_RELAY_RESTART_COMMAND_QOS :: nat where "MQTT_RELAY_RESTART_COMMAND_QOS = 1"

definition mqtt_relay_event_is_current ::
  "esp_mqtt_event option \<Rightarrow> esp_mqtt_event_id \<Rightarrow> mqtt_relay_context \<Rightarrow> bool" where
  "mqtt_relay_event_is_current event event_id cx =
    (case event of
       None \<Rightarrow> False
     | Some e \<Rightarrow>
         mv_client e \<noteq> None \<and> mv_client e = cx_client cx \<and>
         (case event_id of
            MQTT_EVENT_BEFORE_CONNECT \<Rightarrow> cx_accepting_observers cx \<and> cx_publish_allowed cx
          | MQTT_EVENT_CONNECTED \<Rightarrow> cx_accepting_observers cx \<and> cx_publish_allowed cx
          | MQTT_EVENT_DATA \<Rightarrow> cx_accepting_observers cx \<and> cx_publish_allowed cx
          | MQTT_EVENT_PUBLISHED \<Rightarrow> cx_accepting_observers cx \<and> cx_publish_allowed cx
          | MQTT_EVENT_DISCONNECTED \<Rightarrow> cx_accepting_observers cx
          | MQTT_EVENT_ERROR \<Rightarrow> cx_accepting_observers cx
          | MQTT_EVENT_OTHER _ \<Rightarrow> True))"

text \<open>A new connection: the locked section, then the two subscriptions.\<close>

definition connection_up :: "mqtt_relay_context \<Rightarrow> mqtt_relay_context" where
  "connection_up cx = (mqtt_relay_clear_error_locked (cx\<lparr>cx_mqtt_connected := True, cx_mqtt_connecting := False\<rparr>))
     \<lparr>cx_retained_refresh_pending := True\<rparr>"

definition subscribe_to ::
  "relay_world \<Rightarrow> nat \<Rightarrow> bytes \<Rightarrow> nat \<Rightarrow> mqtt_relay_context \<Rightarrow> bool \<times> mqtt_relay_context" where
  "subscribe_to w client topic qos cx =
    (let (subscription_id, cx) = rw_subscribe w client (cstr topic) qos (perform (Subscribe client (cstr topic) qos) cx)
     in if subscription_id < 0
        then (False, mqtt_relay_emit_event MQTT_RELAY_EVENT_FAILED (cx\<lparr>cx_mqtt_connected := False\<rparr>))
        else (True, cx))"

definition handle_connected :: "relay_world \<Rightarrow> nat \<Rightarrow> mqtt_relay_context \<Rightarrow> mqtt_relay_context" where
  "handle_connected w client cx =
    (let cx = connection_up cx;
         enroll_command_topic = local_copy MQTT_RELAY_TOPIC_MAX (tp_enroll_command (cx_topics cx));
         restart_command_topic = local_copy MQTT_RELAY_TOPIC_MAX (tp_restart_command (cx_topics cx));
         (ok, cx) = subscribe_to w client enroll_command_topic MQTT_RELAY_ENROLL_COMMAND_QOS cx
     in if \<not> ok then cx
        else let (ok, cx) = subscribe_to w client restart_command_topic MQTT_RELAY_RESTART_COMMAND_QOS cx
          in if \<not> ok then cx
             else mqtt_relay_emit_event MQTT_RELAY_EVENT_CONNECTED (mqtt_relay_notify_worker cx))"

definition handle_data :: "esp_mqtt_event \<Rightarrow> mqtt_relay_context \<Rightarrow> mqtt_relay_context" where
  "handle_data e cx =
    (if mv_topic_len e < 0 \<or> mv_data_len e < 0 \<or> mv_total_data_len e < 0 \<or> mv_current_data_offset e < 0 then cx
     else if mqtt_relay_is_enroll_command
       (Some (local_copy MQTT_RELAY_TOPIC_MAX (tp_enroll_command (cx_topics cx))))
       (mv_topic e) (nat (mv_topic_len e)) (mv_data e) (nat (mv_data_len e)) (nat (mv_total_data_len e))
       (nat (mv_current_data_offset e)) (mv_retain e)
     then mqtt_relay_emit_event MQTT_RELAY_EVENT_ENROLL_REQUEST cx
     else if mqtt_relay_is_restart_command
       (Some (local_copy MQTT_RELAY_TOPIC_MAX (tp_restart_command (cx_topics cx))))
       (mv_topic e) (nat (mv_topic_len e)) (mv_data e) (nat (mv_data_len e)) (nat (mv_total_data_len e))
       (nat (mv_current_data_offset e)) (mv_retain e)
     then mqtt_relay_emit_event MQTT_RELAY_EVENT_RESTART_REQUEST cx
     else cx)"

definition mqtt_relay_event_handler ::
  "relay_world \<Rightarrow> esp_mqtt_event_id \<Rightarrow> esp_mqtt_event option \<Rightarrow> mqtt_relay_context \<Rightarrow>
   mqtt_relay_context option" where
  "mqtt_relay_event_handler w event_id event cx =
    (case event of
       None \<Rightarrow> Some cx
     | Some e \<Rightarrow>
         if \<not> mqtt_relay_event_is_current event event_id cx then Some cx
         else (case event_id of
             MQTT_EVENT_BEFORE_CONNECT \<Rightarrow> Some (cx\<lparr>cx_mqtt_connecting := True\<rparr>)
           | MQTT_EVENT_CONNECTED \<Rightarrow>
               Some (case mv_client e of None \<Rightarrow> cx | Some client \<Rightarrow> handle_connected w client cx)
           | MQTT_EVENT_DATA \<Rightarrow> Some (handle_data e cx)
           | MQTT_EVENT_PUBLISHED \<Rightarrow> mqtt_relay_handle_published_locked (mv_msg_id e) cx
           | MQTT_EVENT_DISCONNECTED \<Rightarrow>
               Some (mqtt_relay_emit_event MQTT_RELAY_EVENT_DISCONNECTED (mqtt_relay_handle_disconnect_locked cx))
           | MQTT_EVENT_ERROR \<Rightarrow>
               Some (mqtt_relay_emit_event MQTT_RELAY_EVENT_FAILED (mqtt_relay_handle_disconnect_locked
                 (mqtt_relay_capture_error_locked (mv_error_handle e) (rw_now w cx) cx)))
           | MQTT_EVENT_OTHER _ \<Rightarrow> Some cx))"

section \<open>Preparation\<close>

text \<open>
  The eight topics into the buffers of \<open>t\<close>, one builder after the other up to the first error; the
  buffers written so far keep their text. The same sequence is in \<open>mqtt_relay_prepare_context\<close>, on the
  topics of the state, and in \<open>mqtt_relay_reconfigure\<close>, on local buffers.
\<close>

definition build_topics :: "provision_config option \<Rightarrow> relay_topics \<Rightarrow> (esp_err \<times> relay_topics) option" where
  "build_topics settings t = do {
     (err, bs) \<leftarrow> mqtt_relay_build_topics settings (Some (tp_notification t, MQTT_RELAY_TOPIC_MAX))
       (Some (tp_availability t, MQTT_RELAY_TOPIC_MAX)) (Some (tp_state t, MQTT_RELAY_TOPIC_MAX))
       (Some (tp_discovery t, MQTT_RELAY_DISCOVERY_TOPIC_MAX));
     let t = (case bs of [n, a, s, d] \<Rightarrow>
                t\<lparr>tp_notification := n, tp_availability := a, tp_state := s, tp_discovery := d\<rparr> | _ \<Rightarrow> t);
     if err \<noteq> ESP_OK then Some (err, t)
     else do {
       (err, b) \<leftarrow> mqtt_relay_build_enroll_command_topic settings (Some (tp_enroll_command t, MQTT_RELAY_TOPIC_MAX));
       let t = t\<lparr>tp_enroll_command := b\<rparr>;
       if err \<noteq> ESP_OK then Some (err, t)
       else do {
         (err, b) \<leftarrow> mqtt_relay_build_enroll_discovery_topic settings
           (Some (tp_enroll_discovery t, MQTT_RELAY_DISCOVERY_TOPIC_MAX));
         let t = t\<lparr>tp_enroll_discovery := b\<rparr>;
         if err \<noteq> ESP_OK then Some (err, t)
         else do {
           (err, b) \<leftarrow> mqtt_relay_build_restart_command_topic settings
             (Some (tp_restart_command t, MQTT_RELAY_TOPIC_MAX));
           let t = t\<lparr>tp_restart_command := b\<rparr>;
           if err \<noteq> ESP_OK then Some (err, t)
           else do {
             (err, b) \<leftarrow> mqtt_relay_build_restart_discovery_topic settings
               (Some (tp_restart_discovery t, MQTT_RELAY_DISCOVERY_TOPIC_MAX));
             Some (err, t\<lparr>tp_restart_discovery := b\<rparr>)
           }
         }
       }
     }
   }"

definition mqtt_relay_prepare_context ::
  "relay_world \<Rightarrow> provision_config option \<Rightarrow> mqtt_relay_device_info option \<Rightarrow> mqtt_relay_context \<Rightarrow>
   (esp_err \<times> mqtt_relay_context) option" where
  "mqtt_relay_prepare_context w settings device_info cx =
    (case (settings, device_info) of
       (Some c, Some d) \<Rightarrow>
         if \<not> device_info_is_valid device_info then Some (ESP_ERR_INVALID_ARG, cx)
         else do {
           (err, t) \<leftarrow> build_topics settings (cx_topics cx);
           let cx = cx\<lparr>cx_topics := t\<rparr>;
           if err \<noteq> ESP_OK then Some (err, cx)
           else let cx = cx\<lparr>cx_config := c, cx_device_info := d\<rparr>;
                    cx = cx\<lparr>cx_queue := (if rw_new_queue w cx then Some [] else None),
                            cx_lock := rw_new_mutex w cx, cx_lifecycle_lock := rw_new_lifecycle_mutex w cx\<rparr>
             in if cx_queue cx = None \<or> \<not> cx_lock cx \<or> \<not> cx_lifecycle_lock cx
                then Some (ESP_ERR_NO_MEM, mqtt_relay_cleanup_runtime_locked cx)
                else Some (ESP_OK, cx\<lparr>cx_boot_nonce := of_nat (rw_now w cx),
                       cx_recent := (case relay_policy_recent_cache_init (Some (cx_recent cx)) of
                                       None \<Rightarrow> cx_recent cx | Some r \<Rightarrow> r)\<rparr>)
         }
     | _ \<Rightarrow> Some (ESP_ERR_INVALID_ARG, cx))"

text \<open>\<open>esp_mqtt_client_config_t\<close> zeroed, the output parameter of \<open>mqtt_relay_build_client_config\<close>.\<close>

definition client_config_zero :: esp_mqtt_client_config where
  "client_config_zero = \<lparr>broker_hostname = [], broker_port = 0, broker_transport = MQTT_TRANSPORT_OVER_TCP,
     credentials_username = [], credentials_password = [], credentials_client_id = [],
     verification_certificate = None, disable_auto_reconnect = False, buffer_size = 0, buffer_out_size = 0,
     last_will_topic = [], last_will_msg = [], last_will_qos = 0, last_will_retain = False\<rparr>"

definition mqtt_relay_init ::
  "relay_world \<Rightarrow> provision_config option \<Rightarrow> mqtt_relay_device_info option \<Rightarrow> mqtt_relay_context \<Rightarrow>
   (esp_err \<times> mqtt_relay_context) option" where
  "mqtt_relay_init w settings device_info cx =
    (if cx_client cx \<noteq> None \<or> cx_queue cx \<noteq> None then Some (ESP_ERR_INVALID_STATE, cx)
     else do {
       (err, cx) \<leftarrow> mqtt_relay_prepare_context w settings device_info cx;
       if err \<noteq> ESP_OK then Some (err, cx)
       else (case mqtt_relay_build_client_config settings (Some (tp_availability (cx_topics cx))) (Some client_config_zero) of
           (ESP_OK, Some mqtt_config) \<Rightarrow>
             (case rw_client_init w mqtt_config cx of
                None \<Rightarrow> Some (ESP_ERR_NO_MEM, mqtt_relay_cleanup_runtime_locked (perform (ClientInit mqtt_config) cx))
              | Some client \<Rightarrow>
                  let cx = (perform (ClientInit mqtt_config) cx)\<lparr>cx_client := Some client\<rparr>;
                      err = rw_client_register w client cx;
                      cx = perform (ClientRegister client) cx
                  in if err \<noteq> ESP_OK
                     then Some (err, mqtt_relay_cleanup_runtime_locked
                       ((rw_client_destroy w client (perform (ClientDestroy client) cx))\<lparr>cx_client := None\<rparr>))
                     else Some (ESP_OK, cx\<lparr>cx_accepting_observers := True, cx_publish_allowed := True\<rparr>))
         | (err, _) \<Rightarrow> Some (err, mqtt_relay_cleanup_runtime_locked cx))
     })"

section \<open>Start and stop\<close>

text \<open>The start, or the reconnection, of a client that is there.\<close>

definition run_client ::
  "relay_world \<Rightarrow> (nat \<Rightarrow> relay_effect) \<Rightarrow> (nat \<Rightarrow> mqtt_relay_context \<Rightarrow> esp_err \<times> mqtt_relay_context) \<Rightarrow>
   mqtt_relay_context \<Rightarrow> esp_err \<times> mqtt_relay_context" where
  "run_client w request call cx =
    (case cx_client cx of
       None \<Rightarrow> (ESP_ERR_INVALID_STATE, cx)
     | Some client \<Rightarrow>
         let (err, cx) = mqtt_relay_ensure_worker w cx
         in if err \<noteq> ESP_OK then (err, cx)
            else let cx = cx\<lparr>cx_publish_allowed := True, cx_mqtt_connecting := True\<rparr>;
                     (err, cx) = call client (perform (request client) cx)
              in if err \<noteq> ESP_OK
                 then (err, mqtt_relay_note_local_error_locked err (rw_now w cx) (cx\<lparr>cx_mqtt_connecting := False\<rparr>))
                 else (ESP_OK, cx))"

definition mqtt_relay_start :: "relay_world \<Rightarrow> mqtt_relay_context \<Rightarrow> esp_err \<times> mqtt_relay_context" where
  "mqtt_relay_start w = run_client w ClientStart (rw_client_start w)"

definition mqtt_relay_reconnect :: "relay_world \<Rightarrow> mqtt_relay_context \<Rightarrow> esp_err \<times> mqtt_relay_context" where
  "mqtt_relay_reconnect w = run_client w ClientReconnect (rw_client_reconnect w)"

definition mqtt_relay_stop :: "relay_world \<Rightarrow> mqtt_relay_context \<Rightarrow> (esp_err \<times> mqtt_relay_context) option" where
  "mqtt_relay_stop w cx =
    (let publish_offline = cx_mqtt_connected cx;
         availability_topic = local_copy MQTT_RELAY_TOPIC_MAX (tp_availability (cx_topics cx));
         cx = mqtt_relay_handle_disconnect_locked cx
     in do {
       cx \<leftarrow> mqtt_relay_wait_worker_idle w cx;
       let cx = (if publish_offline
                 then snd (mqtt_relay_publish_raw w availability_topic (cs ''offline'') MQTT_RELAY_RETAINED_QOS
                   MQTT_RELAY_RETAINED_RETAIN cx)
                 else cx);
       let cx = cx\<lparr>cx_publish_allowed := False\<rparr>;
       cx \<leftarrow> mqtt_relay_wait_publish_idle w cx;
       Some (case cx_client cx of
               None \<Rightarrow> (ESP_OK, cx)
             | Some client \<Rightarrow> rw_client_stop w client (perform (ClientStop client) cx))
     })"

section \<open>The end\<close>

text \<open>The state after \<open>memset(&s_ctx, 0, sizeof(s_ctx))\<close>; the effects stay.\<close>

definition diagnostics_zero :: mqtt_relay_diagnostics where
  "diagnostics_zero = \<lparr>dg_valid = False, dg_wifi_retry_attempts = 0, dg_wifi_retry_in_ms = 0, dg_wifi_generation = 0,
     dg_wifi_disconnect_reason = 0, dg_wifi_connect_error = 0, dg_automatic_recovery_ap = False,
     dg_wifi_retry_paused = False, dg_bond_store_known = False, dg_stored_peer_count = 0,
     dg_bond_store_error = 0, dg_boot_peer_count = 0, dg_session_authenticated = False,
     dg_link_encrypted = False, dg_ancs_service_found = False, dg_data_source_subscribed = False,
     dg_notification_source_subscribed = False, dg_ancs_ready = False, dg_enrollment_active = False,
     dg_enrollment_remaining_seconds = 0, dg_authentication_protection = False, dg_auth_failure_count = 0,
     dg_auth_error = 0, dg_last_auth_error = 0, dg_last_auth_error_at_ms = 0, dg_ble_stage_error = 0,
     dg_ble_disconnect_reason = 0, dg_ble_generation = 0, dg_mqtt_error_type = 0, dg_mqtt_esp_error = 0,
     dg_mqtt_tls_error = 0, dg_mqtt_socket_errno = 0, dg_mqtt_connect_return_code = 0,
     dg_last_mqtt_error_type = 0, dg_last_mqtt_esp_error = 0, dg_last_mqtt_tls_error = 0,
     dg_last_mqtt_socket_errno = 0, dg_last_mqtt_connect_return_code = 0, dg_last_mqtt_error_at_ms = 0,
     dg_mqtt_retry_in_ms = 0, dg_reset_reason = 0, dg_firmware_elf_sha256 = replicate 65 0\<rparr>"

definition topics_zero :: relay_topics where
  "topics_zero = \<lparr>tp_notification = replicate MQTT_RELAY_TOPIC_MAX 0, tp_availability = replicate MQTT_RELAY_TOPIC_MAX 0,
     tp_state = replicate MQTT_RELAY_TOPIC_MAX 0, tp_discovery = replicate MQTT_RELAY_DISCOVERY_TOPIC_MAX 0,
     tp_enroll_command = replicate MQTT_RELAY_TOPIC_MAX 0,
     tp_enroll_discovery = replicate MQTT_RELAY_DISCOVERY_TOPIC_MAX 0,
     tp_restart_command = replicate MQTT_RELAY_TOPIC_MAX 0,
     tp_restart_discovery = replicate MQTT_RELAY_DISCOVERY_TOPIC_MAX 0\<rparr>"

definition counters_zero :: mqtt_relay_counters where
  "counters_zero = \<lparr>rc_accepted = 0, rc_published_ack = 0, rc_dropped_offline = 0, rc_dropped_enqueue = 0,
     rc_dropped_policy = 0, rc_freed = 0\<rparr>"

definition context_zero :: mqtt_relay_context where
  "context_zero = \<lparr>cx_config = config_zero,
     cx_device_info = \<lparr>di_manufacturer = replicate 32 0, di_model = replicate 24 0, di_sw_version = replicate 32 0,
       di_hw_version = replicate 24 0\<rparr>,
     cx_wifi_status = \<lparr>ws_connected = False, ws_ssid = replicate 33 0, ws_ip = replicate 16 0, ws_rssi = 0\<rparr>,
     cx_diagnostics = diagnostics_zero, cx_last_notification_uptime_ms = 0, cx_client = None, cx_queue = None,
     cx_lock = False, cx_lifecycle_lock = False, cx_worker_task = None, cx_worker_running = False,
     cx_worker_busy = False, cx_accepting_observers = False, cx_publish_allowed = False, cx_publish_in_flight = 0,
     cx_retained_refresh_pending = False, cx_discovery_attempted_this_boot = False, cx_retained_waiting = False,
     cx_retained_ack_received = False, cx_retained_msg_id = 0, cx_retained_early_ack_ids = replicate 4 0,
     cx_retained_early_ack_count = 0, cx_wifi_connected = False, cx_mqtt_connected = False,
     cx_mqtt_connecting = False, cx_mqtt_error = no_mqtt_error, cx_last_mqtt_error = no_mqtt_error,
     cx_test_sequence = 0, cx_ble_connected = False, cx_ble_bonded = False, cx_event_callback = None,
     cx_boot_nonce = 0, cx_recent = recent_cache_zero, cx_counters = counters_zero, cx_pending = [],
     cx_topics = topics_zero, cx_effects = []\<rparr>"

text \<open>A client that is there is stopped and destroyed.\<close>

definition retire_client :: "relay_world \<Rightarrow> mqtt_relay_context \<Rightarrow> mqtt_relay_context option" where
  "retire_client w cx =
    (case cx_client cx of
       None \<Rightarrow> Some cx
     | Some client \<Rightarrow> do {
         (_, cx) \<leftarrow> mqtt_relay_stop w cx;
         cx \<leftarrow> mqtt_relay_wait_publish_idle w cx;
         Some (rw_client_destroy w client (perform (ClientDestroy client) cx))
       })"

definition mqtt_relay_deinit :: "relay_world \<Rightarrow> mqtt_relay_context \<Rightarrow> (esp_err \<times> mqtt_relay_context) option" where
  "mqtt_relay_deinit w cx = do {
     cx \<leftarrow> retire_client w cx;
     cx \<leftarrow> mqtt_relay_stop_worker_for_teardown w cx;
     let cx = mqtt_relay_free_pending_locked (mqtt_relay_free_queue_locked
           (cx\<lparr>cx_client := None, cx_worker_running := False, cx_worker_task := None,
               cx_accepting_observers := False, cx_publish_allowed := False\<rparr>));
     let cx = (if cx_queue cx \<noteq> None then perform QueueDelete cx else cx);
     Some (ESP_OK, context_zero\<lparr>cx_effects := cx_effects cx\<rparr>)
   }"

section \<open>New settings\<close>

definition mqtt_relay_terminal_reconfigure_failure_cleanup ::
  "relay_world \<Rightarrow> mqtt_relay_context \<Rightarrow> mqtt_relay_context option" where
  "mqtt_relay_terminal_reconfigure_failure_cleanup w cx =
    (let cx = mqtt_relay_free_pending_locked (mqtt_relay_free_queue_locked
           (cx\<lparr>cx_client := None, cx_accepting_observers := False, cx_publish_allowed := False,
               cx_mqtt_connected := False, cx_mqtt_connecting := False\<rparr>))
     in do {
       cx \<leftarrow> mqtt_relay_wait_publish_idle w cx;
       cx \<leftarrow> mqtt_relay_stop_worker_for_teardown w cx;
       Some (if cx_queue cx \<noteq> None then (perform QueueDelete cx)\<lparr>cx_queue := None\<rparr> else cx)
     })"

definition fail_reconfigure ::
  "relay_world \<Rightarrow> esp_err \<Rightarrow> mqtt_relay_context \<Rightarrow> (esp_err \<times> mqtt_relay_context) option" where
  "fail_reconfigure w err cx = do {
     cx \<leftarrow> mqtt_relay_terminal_reconfigure_failure_cleanup w cx;
     Some (err, cx)
   }"

text \<open>The settings are replaced.\<close>

definition copy_topics :: "relay_topics \<Rightarrow> relay_topics \<Rightarrow> relay_topics" where
  "copy_topics old new = \<lparr>tp_notification = strlcpy (tp_notification old) (tp_notification new),
     tp_availability = strlcpy (tp_availability old) (tp_availability new),
     tp_state = strlcpy (tp_state old) (tp_state new),
     tp_discovery = strlcpy (tp_discovery old) (tp_discovery new),
     tp_enroll_command = strlcpy (tp_enroll_command old) (tp_enroll_command new),
     tp_enroll_discovery = strlcpy (tp_enroll_discovery old) (tp_enroll_discovery new),
     tp_restart_command = strlcpy (tp_restart_command old) (tp_restart_command new),
     tp_restart_discovery = strlcpy (tp_restart_discovery old) (tp_restart_discovery new)\<rparr>"

definition adopt_settings :: "provision_config \<Rightarrow> relay_topics \<Rightarrow> mqtt_relay_context \<Rightarrow> mqtt_relay_context" where
  "adopt_settings c t cx =
    (let cx = mqtt_relay_free_pending_locked (mqtt_relay_free_queue_locked
           (cx\<lparr>cx_client := None, cx_mqtt_connected := False\<rparr>))
     in mqtt_relay_clear_error_locked (cx\<lparr>cx_topics := copy_topics (cx_topics cx) t, cx_config := c,
          cx_discovery_attempted_this_boot := False, cx_mqtt_connecting := False\<rparr>))"

text \<open>The new client, started when the Wi-Fi was connected at the beginning.\<close>

definition install_client ::
  "relay_world \<Rightarrow> bool \<Rightarrow> esp_mqtt_client_config \<Rightarrow> mqtt_relay_context \<Rightarrow> (esp_err \<times> mqtt_relay_context) option" where
  "install_client w should_start mqtt_config cx =
    (case rw_client_init w mqtt_config cx of
       None \<Rightarrow> fail_reconfigure w ESP_ERR_NO_MEM (perform (ClientInit mqtt_config) cx)
     | Some client \<Rightarrow>
         let cx = perform (ClientInit mqtt_config) cx;
             err = rw_client_register w client cx;
             cx = perform (ClientRegister client) cx
         in if err \<noteq> ESP_OK
            then fail_reconfigure w err (rw_client_destroy w client (perform (ClientDestroy client) cx))
            else let cx = cx\<lparr>cx_client := Some client,
                       cx_recent := (case relay_policy_recent_cache_init (Some (cx_recent cx)) of
                                       None \<Rightarrow> cx_recent cx | Some r \<Rightarrow> r),
                       cx_accepting_observers := True, cx_publish_allowed := True\<rparr>
              in if \<not> should_start then Some (ESP_OK, cx)
                 else let (err, cx) = mqtt_relay_start w cx
                   in if err = ESP_OK then Some (ESP_OK, cx)
                      else do {
                        (_, cx) \<leftarrow> mqtt_relay_stop w cx;
                        cx \<leftarrow> mqtt_relay_wait_publish_idle w cx;
                        fail_reconfigure w err (rw_client_destroy w client (perform (ClientDestroy client) cx))
                      })"

definition mqtt_relay_reconfigure ::
  "relay_world \<Rightarrow> provision_config option \<Rightarrow> mqtt_relay_context \<Rightarrow> (esp_err \<times> mqtt_relay_context) option" where
  "mqtt_relay_reconfigure w settings cx =
    (case settings of
       None \<Rightarrow> Some (ESP_ERR_INVALID_ARG, cx)
     | Some c \<Rightarrow> do {
         (err, t) \<leftarrow> build_topics settings topics_zero;
         if err \<noteq> ESP_OK then Some (err, cx)
         else if fst (mqtt_relay_build_client_config settings (Some (tp_availability t)) (Some client_config_zero)) \<noteq> ESP_OK
         then Some (fst (mqtt_relay_build_client_config settings (Some (tp_availability t)) (Some client_config_zero)), cx)
         else let cx = cx\<lparr>cx_accepting_observers := False, cx_publish_allowed := False\<rparr>;
                  should_start = cx_wifi_connected cx
           in do {
             cx \<leftarrow> retire_client w cx;
             let cx = adopt_settings c t cx;
             case mqtt_relay_build_client_config (Some (cx_config cx)) (Some (tp_availability (cx_topics cx)))
               (Some client_config_zero) of
               (ESP_OK, Some mqtt_config) \<Rightarrow> install_client w should_start mqtt_config cx
             | (err, _) \<Rightarrow> fail_reconfigure w err cx
           }
       })"

section \<open>Reports of the other components\<close>

definition mqtt_relay_register_event_callback :: "nat option \<Rightarrow> mqtt_relay_context \<Rightarrow> esp_err \<times> mqtt_relay_context" where
  "mqtt_relay_register_event_callback callback cx = (ESP_OK, cx\<lparr>cx_event_callback := callback\<rparr>)"

definition mqtt_relay_update_wifi_status ::
  "relay_world \<Rightarrow> mqtt_relay_wifi_status option \<Rightarrow> mqtt_relay_context \<Rightarrow> (esp_err \<times> mqtt_relay_context) option" where
  "mqtt_relay_update_wifi_status w status cx =
    (case status of
       Some s \<Rightarrow> if \<not> wifi_status_is_valid status then Some (ESP_ERR_INVALID_ARG, cx)
         else mqtt_relay_publish_state_snapshot w (cx\<lparr>cx_wifi_status := s\<rparr>)
     | None \<Rightarrow> Some (ESP_ERR_INVALID_ARG, cx))"

definition mqtt_relay_update_ble_status ::
  "relay_world \<Rightarrow> bool \<Rightarrow> bool \<Rightarrow> mqtt_relay_context \<Rightarrow> (esp_err \<times> mqtt_relay_context) option" where
  "mqtt_relay_update_ble_status w connected bonded cx =
    (let changed = (cx_ble_connected cx \<noteq> connected \<or> cx_ble_bonded cx \<noteq> bonded);
         cx = cx\<lparr>cx_ble_connected := connected, cx_ble_bonded := bonded\<rparr>
     in if \<not> changed then Some (ESP_OK, cx) else mqtt_relay_publish_state_snapshot w cx)"

definition mqtt_relay_update_diagnostics ::
  "relay_world \<Rightarrow> mqtt_relay_diagnostics option \<Rightarrow> mqtt_relay_context \<Rightarrow> (esp_err \<times> mqtt_relay_context) option" where
  "mqtt_relay_update_diagnostics w status cx =
    (case status of
       None \<Rightarrow> Some (ESP_ERR_INVALID_ARG, cx)
     | Some s \<Rightarrow>
         if 0 \<notin> set (dg_firmware_elf_sha256 s) then Some (ESP_ERR_INVALID_ARG, cx)
         else if cx_diagnostics cx \<noteq> s
         then mqtt_relay_publish_state_snapshot w (cx\<lparr>cx_diagnostics := s\<rparr>)
         else Some (ESP_OK, cx\<lparr>cx_diagnostics := s\<rparr>))"

definition mqtt_relay_refresh_state :: "relay_world \<Rightarrow> mqtt_relay_context \<Rightarrow> (esp_err \<times> mqtt_relay_context) option" where
  "mqtt_relay_refresh_state w cx = mqtt_relay_publish_state_snapshot w cx"

definition mqtt_relay_set_wifi_connected :: "bool \<Rightarrow> mqtt_relay_context \<Rightarrow> mqtt_relay_context" where
  "mqtt_relay_set_wifi_connected connected cx = cx\<lparr>cx_wifi_connected := connected\<rparr>"

definition mqtt_relay_get_counters :: "mqtt_relay_context \<Rightarrow> mqtt_relay_counters" where
  "mqtt_relay_get_counters cx = cx_counters cx"

record mqtt_relay_connection_status =
  cs_connected :: bool
  cs_connecting :: bool
  cs_error :: mqtt_error
  cs_last_mqtt_error :: mqtt_error

definition mqtt_relay_get_connection_status :: "mqtt_relay_context \<Rightarrow> mqtt_relay_connection_status" where
  "mqtt_relay_get_connection_status cx = \<lparr>cs_connected = cx_mqtt_connected cx, cs_connecting = cx_mqtt_connecting cx,
     cs_error = cx_mqtt_error cx, cs_last_mqtt_error = cx_last_mqtt_error cx\<rparr>"

section \<open>The test notification\<close>

text \<open>The Korean texts of the test notification.\<close>

definition TEST_APP_NAME :: bytes where
  "TEST_APP_NAME =
     [105, 79, 83, 32, 65, 78, 67, 83, 32, 237, 133, 140, 236, 138, 164, 237, 138, 184]"

definition TEST_TITLE :: bytes where
  "TEST_TITLE =
     [237, 133, 140, 236, 138, 164, 237, 138, 184, 32, 236, 149, 140, 235, 166, 188]"

definition TEST_MESSAGE :: bytes where
  "TEST_MESSAGE =
     [69, 83, 80, 51, 50, 32, 237, 133, 140, 236, 138, 164, 237, 138, 184, 32, 236, 149, 140, 235, 166,
      188, 236, 158, 133, 235, 139, 136, 235, 139, 164, 46, 32, 72, 111, 109, 101, 32, 65, 115, 115, 105,
      115, 116, 97, 110, 116, 236, 151, 144, 236, 132, 156, 32, 236, 136, 152, 236, 139, 160, 32, 236, 151,
      172, 235, 182, 128, 235, 165, 188, 32, 237, 153, 149, 236, 157, 184, 237, 149, 152, 236, 132, 184,
      236, 154, 148, 46]"

definition test_notification :: "ancs_config \<Rightarrow> nat \<Rightarrow> u32 \<Rightarrow> ancs_notification option" where
  "test_notification cfg now sequence =
    (let n = notification_zero cfg;
         message = strlcpy (n_message n) (TEST_MESSAGE @ [0])
     in do {
       message_size_raw \<leftarrow> snprintf_at (n_message_size_raw n) 0 (length (n_message_size_raw n)) (dec (length (cstr message)));
       Some (n\<lparr>n_session_id := 0, n_uid := of_nat now XOR sequence, n_event_id := 0, n_category_id := 0,
              n_category_count := 1, n_app_id := strlcpy (n_app_id n) (cs ''local.ios_ancs.test'' @ [0]),
              n_app_name := strlcpy (n_app_name n) (TEST_APP_NAME @ [0]),
              n_title := strlcpy (n_title n) (TEST_TITLE @ [0]), n_message := message,
              n_message_size_raw := message_size_raw, n_complete := True, n_received_at_ms := int (now div 1000)\<rparr>)
     })"

definition mqtt_relay_publish_test_notification ::
  "relay_world \<Rightarrow> bytes \<Rightarrow> ancs_config \<Rightarrow> bytes option \<Rightarrow> mqtt_relay_context \<Rightarrow>
   (esp_err \<times> mqtt_relay_context) option" where
  "mqtt_relay_publish_test_notification w target cfg device_name cx =
    (case device_name of
       None \<Rightarrow> Some (ESP_ERR_INVALID_ARG, cx)
     | Some d \<Rightarrow>
         if d ! 0 = 0 then Some (ESP_ERR_INVALID_ARG, cx)
         else let connected = online cx;
                  sequence = cx_test_sequence cx + 1;
                  cx = cx\<lparr>cx_test_sequence := sequence\<rparr>
           in if \<not> connected then Some (ESP_ERR_INVALID_STATE, cx)
              else do {
                n \<leftarrow> test_notification cfg (rw_now w cx) sequence;
                let before = mqtt_relay_get_counters cx;
                cx \<leftarrow> mqtt_relay_observe_notification w target cfg (Some n) device_name cx;
                let after = mqtt_relay_get_counters cx;
                Some (if rc_accepted after > rc_accepted before then ESP_OK
                      else if rc_dropped_offline after > rc_dropped_offline before then ESP_ERR_INVALID_STATE
                      else ESP_FAIL, cx)
              })"

end
