(* ===== verification/Mqtt_Delivery.thy ===== *)
theory Mqtt_Delivery
  imports Mqtt_Lifecycle "HOL-Library.Multiset"
begin

text \<open>
  The life of the messages of the relay over all its tasks: every message that was allocated is at one
  place, or was freed once.
\<close>

section \<open>What the locked sections do to messages\<close>

definition queued :: "mqtt_relay_context \<Rightarrow> mqtt_payload_item list" where
  "queued cx = (case cx_queue cx of None \<Rightarrow> [] | Some items \<Rightarrow> items)"

fun freed_address :: "relay_effect \<Rightarrow> nat list" where
  "freed_address (Free a) = [a]"
| "freed_address _ = []"

definition freed :: "mqtt_relay_context \<Rightarrow> nat list" where
  "freed cx = concat (map freed_address (cx_effects cx))"

definition addresses :: "mqtt_payload_item list \<Rightarrow> nat multiset" where
  "addresses items = mset (map it_address items)"

text \<open>The addresses the state holds and those it has freed.\<close>

definition held :: "mqtt_relay_context \<Rightarrow> nat multiset" where
  "held cx = addresses (queued cx) + addresses (cx_pending cx)"

definition accounted :: "mqtt_relay_context \<Rightarrow> nat multiset" where
  "accounted cx = held cx + mset (freed cx)"

lemma addresses_simps [simp]:
  "addresses [] = {#}" "addresses (i # is) = add_mset (it_address i) (addresses is)"
  "addresses (is @ js) = addresses is + addresses js"
  by (simp_all add: addresses_def)

lemma addresses_remove1: "i \<in> set is \<Longrightarrow> addresses is = add_mset (it_address i) (addresses (remove1 i is))"
  by (induction "is") auto

lemma free_items_eq:
  "free_items items cx = cx\<lparr>cx_effects := rev (map (\<lambda>i. Free (it_address i)) items) @ cx_effects cx,
     cx_counters := (cx_counters cx)\<lparr>rc_freed := rc_freed (cx_counters cx) + of_nat (length items)\<rparr>\<rparr>"
  by (induction items arbitrary: cx) (simp_all add: mqtt_relay_free_item_def perform_def Let_def)

lemma freed_frees: "concat (map freed_address (rev (map (\<lambda>i. Free (it_address i)) items))) = rev (map it_address items)"
  by (induction items) simp_all

lemma freed_free_items: "freed (free_items items cx) = rev (map it_address items) @ freed cx"
  using freed_frees [of items] by (simp add: freed_def free_items_eq)

lemma take_item_Some:
  "take_item msg_id items = Some (item, rest) \<Longrightarrow> addresses items = add_mset (it_address item) (addresses rest) \<and>
     it_msg_id item = msg_id \<and> length items = Suc (length rest) \<and> set rest \<subseteq> set items \<and> item \<in> set items"
  by (induction items arbitrary: rest) (auto split: if_splits)

lemma take_item_None: "take_item msg_id items = None \<longleftrightarrow> (\<forall>i \<in> set items. it_msg_id i \<noteq> msg_id)"
  by (induction items) auto

text \<open>Messages are moved or freed, never lost.\<close>

lemma accounted_frame:
  "cx_queue cx' = cx_queue cx \<Longrightarrow> cx_pending cx' = cx_pending cx \<Longrightarrow> freed cx' = freed cx \<Longrightarrow> accounted cx' = accounted cx"
  by (simp add: accounted_def held_def queued_def)

lemma accounted_free_item: "accounted (mqtt_relay_free_item i cx) = add_mset (it_address i) (accounted cx)"
  by (simp add: accounted_def held_def queued_def freed_def mqtt_relay_free_item_def perform_def Let_def)

lemma accounted_free_queue: "accounted (mqtt_relay_free_queue_locked cx) = accounted cx"
  by (auto simp: mqtt_relay_free_queue_locked_def accounted_def held_def queued_def freed_free_items addresses_def
      free_items_eq freed_def freed_frees split: option.splits)

lemma accounted_free_pending: "accounted (mqtt_relay_free_pending_locked cx) = accounted cx"
  by (auto simp: mqtt_relay_free_pending_locked_def accounted_def held_def queued_def addresses_def
      free_items_eq freed_def freed_frees)

lemma disconnect_empties:
  "cx_pending (mqtt_relay_handle_disconnect_locked cx) = []" "queued (mqtt_relay_handle_disconnect_locked cx) = []"
  by (simp_all add: mqtt_relay_handle_disconnect_locked_def mqtt_relay_free_pending_locked_def
      mqtt_relay_free_queue_locked_def free_items_eq queued_def mqtt_relay_clear_retained_wait_locked_def
      split: option.splits)

lemma accounted_disconnect: "accounted (mqtt_relay_handle_disconnect_locked cx) = accounted cx"
  unfolding mqtt_relay_handle_disconnect_locked_def accounted_free_pending accounted_free_queue
  by (rule accounted_frame) (simp_all add: mqtt_relay_clear_retained_wait_locked_def freed_def)

lemma note_ack_frame:
  "note_retained_ack msg_id cx = Some cx' \<Longrightarrow> cx_queue cx' = cx_queue cx \<and> cx_pending cx' = cx_pending cx \<and>
     cx_effects cx' = cx_effects cx \<and> cx_counters cx' = cx_counters cx"
  by (auto simp: note_retained_ack_def split: if_splits bind_splits)

lemma accounted_published:
  assumes "mqtt_relay_handle_published_locked msg_id cx = Some cx'" shows "accounted cx' = accounted cx"
proof -
  have n: "accounted cx' = accounted c" if "note_retained_ack msg_id c = Some cx'" for c
    using note_ack_frame [OF that] by (intro accounted_frame) (simp_all add: freed_def)
  show ?thesis
  proof (cases "take_item msg_id (cx_pending cx)")
    case None
    with assms n show ?thesis by (simp add: mqtt_relay_handle_published_locked_def mqtt_relay_take_pending_locked_def)
  next
    case (Some p)
    obtain item rest where p: "p = (item, rest)" by (cases p)
    have "accounted cx = accounted (mqtt_relay_free_item item (cx\<lparr>cx_pending := rest,
        cx_counters := (cx_counters cx)\<lparr>rc_published_ack := rc_published_ack (cx_counters cx) + 1\<rparr>\<rparr>))"
      using take_item_Some [OF Some [unfolded p]] unfolding accounted_free_item
      by (simp add: accounted_def held_def queued_def freed_def)
    with assms n Some p show ?thesis
      by (simp add: mqtt_relay_handle_published_locked_def mqtt_relay_take_pending_locked_def)
  qed
qed

lemma accounted_take:
  "drain_take cx = Some (item, cx') \<Longrightarrow> accounted cx = add_mset (it_address item) (accounted cx')"
  by (auto simp: drain_take_def accounted_def held_def queued_def freed_def split: option.splits list.splits if_splits)

lemma accounted_settle:
  "accounted (drain_settle item msg_id cx) = add_mset (it_address item) (accounted cx)"
  by (simp add: drain_settle_def Let_def accounted_free_item mqtt_relay_track_pending_locked_def accounted_def
      held_def queued_def freed_def mqtt_relay_free_item_def perform_def)

text \<open>How the second section of the observer ends.\<close>

definition accept_message ::
  "mqtt_payload_item \<Rightarrow> relay_recent_cache \<Rightarrow> u64 \<Rightarrow> mqtt_relay_context \<Rightarrow> mqtt_relay_context" where
  "accept_message item recent uptime cx = cx\<lparr>cx_queue := Some (queued cx @ [item]), cx_recent := recent,
     cx_counters := (cx_counters cx)\<lparr>rc_accepted := rc_accepted (cx_counters cx) + 1\<rparr>,
     cx_last_notification_uptime_ms := uptime\<rparr>"

lemma commit_cases:
  assumes "observe_commit n relay_id item now cx = Some (ok, cx')"
  obtains (offline) "\<not> ok" "\<not> online cx" "cx' = mqtt_relay_free_item item (drop_offline cx)"
  | (policy) d where "\<not> ok" "online cx" "cx' = mqtt_relay_free_item item (drop_policy cx)" "d \<noteq> RELAY_PUBLISH"
      "relay_policy_decide (Some n) (connectivity_of cx) (Some (cx_recent cx)) = Some d"
  | (full) "\<not> ok" "online cx" "cx' = mqtt_relay_free_item item (drop_enqueue cx)"
      "MQTT_RELAY_QUEUE_CAPACITY \<le> length (queued cx)"
      "relay_policy_decide (Some n) (connectivity_of cx) (Some (cx_recent cx)) = Some RELAY_PUBLISH"
  | (accepted) recent uptime where "ok" "online cx" "cx' = accept_message item recent uptime cx"
      "relay_policy_decide (Some n) (connectivity_of cx) (Some (cx_recent cx)) = Some RELAY_PUBLISH"
      "length (queued cx) < MQTT_RELAY_QUEUE_CAPACITY" "cx_queue cx \<noteq> None"
      "relay_policy_mark_recent (Some (cx_recent cx)) (Some relay_id) = Some (Some recent)"
proof (cases "online cx")
  case False
  with assms show ?thesis by (intro offline) (auto simp: observe_commit_def)
next
  case True
  with assms obtain d where d: "relay_policy_decide (Some n) (connectivity_of cx) (Some (cx_recent cx)) = Some d"
    by (auto simp: observe_commit_def split: bind_splits)
  show ?thesis
  proof (cases "d = RELAY_PUBLISH")
    case False
    with assms True d show ?thesis by (intro policy [of d]) (auto simp: observe_commit_def)
  next
    case publish: True
    with assms True d obtain items where items: "cx_queue cx = Some items" by (auto simp: observe_commit_def split: option.splits)
    show ?thesis
    proof (cases "MQTT_RELAY_QUEUE_CAPACITY \<le> length items")
      case True
      with assms \<open>online cx\<close> d publish items show ?thesis by (intro full) (auto simp: observe_commit_def queued_def)
    next
      case False
      with assms True d publish items obtain m where m: "relay_policy_mark_recent (Some (cx_recent cx)) (Some relay_id) = Some m"
        by (auto simp: observe_commit_def split: bind_splits)
      then obtain recent where r: "m = Some recent"
        by (auto simp: relay_policy_mark_recent_def recent_cache_store_def Let_def split: bind_splits)
      let ?cx = "cx\<lparr>cx_queue := Some (items @ [item]), cx_recent := recent,
        cx_counters := (cx_counters cx)\<lparr>rc_accepted := rc_accepted (cx_counters cx) + 1\<rparr>\<rparr>"
      have "ok \<and> (cx' = ?cx \<or> cx' = ?cx\<lparr>cx_last_notification_uptime_ms := of_nat (now div 1000)\<rparr>)"
        using assms True d publish items False m r by (auto simp: observe_commit_def Let_def)
      moreover have "?cx = accept_message item recent (cx_last_notification_uptime_ms cx) cx"
        "?cx\<lparr>cx_last_notification_uptime_ms := u\<rparr> = accept_message item recent u cx" for u
        by (simp_all add: accept_message_def queued_def items)
      ultimately obtain u where "ok" "cx' = accept_message item recent u cx" by blast
      with True d publish items False m r show ?thesis
        by (intro accepted [of recent u]) (simp_all add: queued_def)
    qed
  qed
qed

lemma accounted_commit:
  assumes "observe_commit n relay_id item now cx = Some (ok, cx')"
  shows "accounted cx' = add_mset (it_address item) (accounted cx)"
proof -
  have d: "accounted (drop_offline cx) = accounted cx" "accounted (drop_policy cx) = accounted cx"
    "accounted (drop_enqueue cx) = accounted cx"
    by (rule accounted_frame; simp add: drop_offline_def drop_policy_def drop_enqueue_def freed_def)+
  have a: "accounted (accept_message item r u cx) = add_mset (it_address item) (accounted cx)" for r u
    by (simp add: accept_message_def accounted_def held_def queued_def freed_def)
  show ?thesis using assms by (cases rule: commit_cases) (simp_all add: accounted_free_item d a)
qed

lemma accounted_admit:
  assumes "observe_admit n cx = Some (r, cx')" shows "accounted cx' = accounted cx"
  using assms by (intro accounted_frame)
    (auto simp: observe_admit_def drop_offline_def drop_policy_def freed_def
      split: if_splits option.splits bind_splits esp_err.splits)

text \<open>
  What every locked section keeps: messages that come in and go out are balanced, frees are only added,
  the queue is not longer than its capacity and the counter of frees is right.
\<close>

definition tidy :: "mqtt_relay_context \<Rightarrow> bool" where
  "tidy cx \<longleftrightarrow> length (queued cx) \<le> MQTT_RELAY_QUEUE_CAPACITY \<and> rc_freed (cx_counters cx) = of_nat (length (freed cx))"

definition conserves :: "mqtt_relay_context \<Rightarrow> nat multiset \<Rightarrow> mqtt_relay_context \<Rightarrow> nat multiset \<Rightarrow> bool" where
  "conserves cx inflow cx' outflow \<longleftrightarrow> accounted cx + inflow = accounted cx' + outflow \<and>
     (\<exists>xs. freed cx' = xs @ freed cx) \<and> (tidy cx \<longrightarrow> tidy cx')"

lemma conserves_trans:
  "conserves a i b o1 \<Longrightarrow> conserves b j c o2 \<Longrightarrow> conserves a (i + j) c (o1 + o2)"
proof -
  assume a: "conserves a i b o1" and b: "conserves b j c o2"
  have "accounted a + (i + j) = accounted b + o1 + j" using a by (simp add: conserves_def flip: union_assoc)
  also have "\<dots> = accounted b + j + o1" by (simp add: ac_simps)
  also have "\<dots> = accounted c + (o1 + o2)" using b by (simp add: conserves_def ac_simps)
  finally have "accounted a + (i + j) = accounted c + (o1 + o2)" .
  moreover obtain xs ys where "freed b = xs @ freed a" "freed c = ys @ freed b" using a b by (auto simp: conserves_def)
  then have "freed c = (ys @ xs) @ freed a" by simp
  ultimately show ?thesis using a b unfolding conserves_def by blast
qed

lemma conserves_then: "conserves a {#} b {#} \<Longrightarrow> conserves b {#} c {#} \<Longrightarrow> conserves a {#} c {#}"
  using conserves_trans [of a "{#}" b "{#}" "{#}" c "{#}"] by simp

lemma conserves_frame:
  "cx_queue cx' = cx_queue cx \<Longrightarrow> cx_pending cx' = cx_pending cx \<Longrightarrow> freed cx' = freed cx \<Longrightarrow>
     rc_freed (cx_counters cx') = rc_freed (cx_counters cx) \<Longrightarrow> conserves cx {#} cx' {#}"
  unfolding conserves_def using accounted_frame [of cx' cx] by (auto simp: tidy_def queued_def)

lemma conserves_free_item: "conserves cx {#it_address i#} (mqtt_relay_free_item i cx) {#}"
  unfolding conserves_def accounted_free_item
  by (simp add: tidy_def mqtt_relay_free_item_def perform_def Let_def freed_def queued_def)

lemma conserves_free_pending: "conserves cx {#} (mqtt_relay_free_pending_locked cx) {#}"
  unfolding conserves_def accounted_free_pending
  by (simp add: tidy_def mqtt_relay_free_pending_locked_def freed_free_items queued_def)
    (simp add: free_items_eq freed_def)

lemma conserves_free_queue: "conserves cx {#} (mqtt_relay_free_queue_locked cx) {#}"
  unfolding conserves_def accounted_free_queue
  by (cases "cx_queue cx") (simp_all add: tidy_def mqtt_relay_free_queue_locked_def freed_free_items queued_def,
    simp add: free_items_eq freed_def)

lemma conserves_disconnect: "conserves cx {#} (mqtt_relay_handle_disconnect_locked cx) {#}"
  unfolding mqtt_relay_handle_disconnect_locked_def
  by (rule conserves_then [OF conserves_then [OF conserves_frame conserves_free_queue] conserves_free_pending])
    (simp_all add: mqtt_relay_clear_retained_wait_locked_def freed_def)

lemma conserves_published:
  assumes "mqtt_relay_handle_published_locked msg_id cx = Some cx'" shows "conserves cx {#} cx' {#}"
proof -
  have n: "freed cx' = freed c \<and> (tidy c \<longrightarrow> tidy cx')" if "note_retained_ack msg_id c = Some cx'" for c
    using note_ack_frame [OF that] by (simp add: freed_def tidy_def queued_def)
  have "(\<exists>xs. freed cx' = xs @ freed cx) \<and> (tidy cx \<longrightarrow> tidy cx')"
    using assms n
    by (cases "take_item msg_id (cx_pending cx)")
      (fastforce simp: mqtt_relay_handle_published_locked_def mqtt_relay_take_pending_locked_def
        mqtt_relay_free_item_def perform_def Let_def freed_def tidy_def queued_def)+
  with accounted_published [OF assms] show ?thesis by (simp add: conserves_def)
qed

lemma conserves_take: "drain_take cx = Some (item, cx') \<Longrightarrow> conserves cx {#} cx' {#it_address item#}"
  unfolding conserves_def using accounted_take [of cx item cx']
  by (auto simp: drain_take_def tidy_def queued_def freed_def split: option.splits list.splits if_splits)

lemma conserves_settle: "conserves cx {#it_address item#} (drain_settle item msg_id cx) {#}"
  unfolding conserves_def accounted_settle
  by (simp add: drain_settle_def Let_def mqtt_relay_free_item_def perform_def mqtt_relay_track_pending_locked_def
      tidy_def queued_def freed_def)

lemma conserves_commit:
  assumes "observe_commit n relay_id item now cx = Some (ok, cx')"
  shows "conserves cx {#it_address item#} cx' {#}"
  using assms unfolding conserves_def accounted_commit [OF assms]
  by (cases rule: commit_cases)
    (auto simp: accept_message_def mqtt_relay_free_item_def perform_def Let_def tidy_def queued_def freed_def
      drop_offline_def drop_policy_def drop_enqueue_def)

lemma conserves_admit:
  assumes "observe_admit n cx = Some (r, cx')" shows "conserves cx {#} cx' {#}"
  using assms by (intro conserves_frame)
    (auto simp: observe_admit_def drop_offline_def drop_policy_def freed_def
      split: if_splits option.splits bind_splits esp_err.splits)

lemma conserves_adopt: "conserves cx {#} (adopt_settings c t cx) {#}"
proof -
  have "conserves cx {#} (mqtt_relay_free_pending_locked (mqtt_relay_free_queue_locked
      (cx\<lparr>cx_client := None, cx_mqtt_connected := False\<rparr>))) {#}"
    by (rule conserves_then [OF conserves_then [OF conserves_frame conserves_free_queue] conserves_free_pending])
      (simp_all add: freed_def)
  then show ?thesis unfolding adopt_settings_def Let_def
    by (rule conserves_then [OF _ conserves_frame]) (simp_all add: mqtt_relay_clear_error_locked_def freed_def)
qed

section \<open>All tasks together\<close>

text \<open>
  The messages that tasks have in their hands: the worker, between taking a message and settling it, and
  the observers, between allocating one and committing it. \<open>sy_created\<close> are the allocations so far.
\<close>

record relay_system =
  sy_context :: mqtt_relay_context
  sy_worker :: "mqtt_payload_item option"
  sy_observers :: "mqtt_payload_item list"
  sy_created :: "nat list"

definition in_hand :: "relay_system \<Rightarrow> nat multiset" where
  "in_hand s = addresses (case sy_worker s of None \<Rightarrow> [] | Some i \<Rightarrow> [i]) + addresses (sy_observers s)"

definition live :: "relay_system \<Rightarrow> nat multiset" where
  "live s = held (sy_context s) + in_hand s"

text \<open>
  The interleavings of the locked sections. \<open>calloc\<close> gives an address that is not in use. What does not
  touch messages, such as a report of another component or a call of the client, is \<open>other\<close>.
\<close>

inductive relay_step :: "relay_system \<Rightarrow> relay_system \<Rightarrow> bool" where
  admit: "observe_admit n (sy_context s) = Some (r, cx) \<Longrightarrow> relay_step s (s\<lparr>sy_context := cx\<rparr>)"
| create: "it_address item \<notin># live s \<Longrightarrow>
    relay_step s (s\<lparr>sy_observers := item # sy_observers s, sy_created := it_address item # sy_created s\<rparr>)"
| refuse: "relay_step s (s\<lparr>sy_context := drop_enqueue (sy_context s)\<rparr>)"
| commit: "item \<in> set (sy_observers s) \<Longrightarrow> observe_commit n relay_id item now (sy_context s) = Some (ok, cx) \<Longrightarrow>
    relay_step s (s\<lparr>sy_context := cx, sy_observers := remove1 item (sy_observers s)\<rparr>)"
| take: "sy_worker s = None \<Longrightarrow> drain_take (sy_context s) = Some (item, cx) \<Longrightarrow>
    relay_step s (s\<lparr>sy_context := cx, sy_worker := Some item\<rparr>)"
| settle: "sy_worker s = Some item \<Longrightarrow>
    relay_step s (s\<lparr>sy_context := drain_settle item msg_id (sy_context s), sy_worker := None\<rparr>)"
| published: "mqtt_relay_handle_published_locked msg_id (sy_context s) = Some cx \<Longrightarrow> relay_step s (s\<lparr>sy_context := cx\<rparr>)"
| disconnected: "relay_step s (s\<lparr>sy_context := mqtt_relay_handle_disconnect_locked (sy_context s)\<rparr>)"
| settings: "relay_step s (s\<lparr>sy_context := adopt_settings c t (sy_context s)\<rparr>)"
| other: "cx_queue cx = cx_queue (sy_context s) \<Longrightarrow> cx_pending cx = cx_pending (sy_context s) \<Longrightarrow>
    freed cx = freed (sy_context s) \<Longrightarrow> cx_counters cx = cx_counters (sy_context s) \<Longrightarrow>
    relay_step s (s\<lparr>sy_context := cx\<rparr>)"

inductive relay_reachable :: "relay_system \<Rightarrow> bool" where
  start: "queued cx = [] \<Longrightarrow> cx_pending cx = [] \<Longrightarrow> freed cx = [] \<Longrightarrow> rc_freed (cx_counters cx) = 0 \<Longrightarrow>
    relay_reachable \<lparr>sy_context = cx, sy_worker = None, sy_observers = [], sy_created = []\<rparr>"
| step: "relay_reachable s \<Longrightarrow> relay_step s s' \<Longrightarrow> relay_reachable s'"

text \<open>A step balances the messages of the whole system, and an address enters only when it is not in use.\<close>

lemma step_balance:
  assumes "relay_step s s'"
  obtains (balance) new where "live s' + mset (freed (sy_context s')) = live s + mset (freed (sy_context s)) + new"
    "mset (sy_created s') = mset (sy_created s) + new" "\<exists>xs. freed (sy_context s') = xs @ freed (sy_context s)"
    "tidy (sy_context s) \<longrightarrow> tidy (sy_context s')" "new = {#} \<or> (\<exists>a. new = {#a#} \<and> a \<notin># live s \<and> freed (sy_context s') = freed (sy_context s))"
proof -
  have moved: thesis if c: "conserves (sy_context s) i (sy_context s') o1" and h: "in_hand s' + i = in_hand s + o1"
    and n: "sy_created s' = sy_created s" for i o1
  proof (rule balance [of "{#}"])
    have "accounted (sy_context s) + i = accounted (sy_context s') + o1" using c by (simp add: conserves_def)
    with h have "accounted (sy_context s') + in_hand s' + (i + o1) = accounted (sy_context s) + in_hand s + (i + o1)"
      by (metis (no_types, lifting) union_assoc union_commute union_lcomm)
    then show "live s' + mset (freed (sy_context s')) = live s + mset (freed (sy_context s)) + {#}"
      by (simp add: accounted_def live_def ac_simps)
  qed (use c n in \<open>auto simp: conserves_def\<close>)
  from assms show thesis
  proof cases
    case (admit n r cx)
    then show ?thesis by (intro moved [OF conserves_admit]) (simp_all add: in_hand_def)
  next
    case (create item)
    then show ?thesis by (intro balance [of "{#it_address item#}"]) (simp_all add: live_def in_hand_def)
  next
    case refuse
    then show ?thesis
      by (intro moved [OF conserves_frame]) (simp_all add: in_hand_def drop_enqueue_def freed_def)
  next
    case (commit item n relay_id now ok cx)
    have "addresses (sy_observers s) = add_mset (it_address item) (addresses (remove1 item (sy_observers s)))"
      using commit(2) by (rule addresses_remove1)
    with commit show ?thesis by (intro moved [OF conserves_commit]) (simp_all add: in_hand_def)
  next
    case (take item cx)
    then show ?thesis by (intro moved [OF conserves_take]) (simp_all add: in_hand_def)
  next
    case (settle item msg_id)
    then show ?thesis using conserves_settle [of "sy_context s" item msg_id]
      by (intro moved [of "{#it_address item#}" "{#}"]) (simp_all add: in_hand_def)
  next
    case (published msg_id cx)
    then show ?thesis by (intro moved [OF conserves_published]) (simp_all add: in_hand_def)
  next
    case disconnected
    then show ?thesis using conserves_disconnect by (intro moved) (auto simp: in_hand_def)
  next
    case (settings c t)
    then show ?thesis using conserves_adopt by (intro moved) (auto simp: in_hand_def)
  next
    case (other cx)
    then show ?thesis by (intro moved [OF conserves_frame]) (simp_all add: in_hand_def)
  qed
qed

lemma reachable_invariant:
  assumes "relay_reachable s"
  shows "mset (sy_created s) = live s + mset (freed (sy_context s)) \<and> (\<forall>a. count (live s) a \<le> 1) \<and> tidy (sy_context s)"
  using assms
proof (induction rule: relay_reachable.induct)
  case (start cx)
  then show ?case by (simp add: live_def held_def in_hand_def tidy_def)
next
  case (step s s')
  from step(2) show ?case
  proof (cases rule: step_balance)
    case (balance new)
    from balance(1,2) step.IH have "mset (sy_created s') = live s' + mset (freed (sy_context s'))"
      by (simp add: ac_simps)
    moreover have "count (live s') a \<le> 1" for a
    proof -
      obtain xs where "freed (sy_context s') = xs @ freed (sy_context s)" using balance(3) by blast
      with balance(1) have "live s' + mset xs = live s + new" by (simp add: ac_simps)
      then have "count (live s') a + count (mset xs) a = count (live s) a + count new a" by (metis count_union)
      moreover have "count (live s) a \<le> 1" using step.IH by blast
      ultimately show ?thesis using balance(5) by (auto simp: not_in_iff split: if_splits)
    qed
    ultimately show ?thesis using balance(4) step.IH by blast
  qed
qed

text \<open>
  C14: The life of every message. In every interleaving of the observers, the worker, the acknowledgements,
  disconnections and changes of the settings, the allocated messages are those in the queue, pending or in
  the hands of a task, and those that were freed; no message is in two places; the queue holds at most
  8; the counter of frees is right; and a step frees only messages that were live, so none is freed twice
  and none is lost.
\<close>

theorem messages_accounted:
  assumes "relay_reachable s"
  shows "mset (sy_created s) = live s + mset (freed (sy_context s)) \<and>
    (\<forall>a. count (live s) a \<le> 1) \<and>
    length (queued (sy_context s)) \<le> 8 \<and>
    rc_freed (cx_counters (sy_context s)) = of_nat (length (freed (sy_context s))) \<and>
    (\<forall>s'. relay_step s s' \<longrightarrow>
      (\<exists>xs. freed (sy_context s') = xs @ freed (sy_context s) \<and> mset xs \<subseteq># live s \<and> distinct xs))"
proof -
  note inv = reachable_invariant [OF assms]
  have "\<exists>xs. freed (sy_context s') = xs @ freed (sy_context s) \<and> mset xs \<subseteq># live s \<and> distinct xs"
    if "relay_step s s'" for s'
    using that
  proof (cases rule: step_balance)
    case (balance new)
    obtain xs where xs: "freed (sy_context s') = xs @ freed (sy_context s)" using balance(3) by blast
    with balance(1) have "live s' + mset xs = live s + new" by (simp add: ac_simps)
    then have sub: "mset xs \<subseteq># live s"
      using balance(5) xs by (auto simp: subset_mset.le_iff_add ac_simps) (metis union_commute)+
    have "count (mset xs) a \<le> 1" for a
      using mset_subset_eq_count [OF sub, of a] inv order_trans by blast
    then have "distinct xs" by (metis count_mset distinct_count_atmost_1 le_eq_less_or_eq less_one not_one_le_zero linorder_not_le count_eq_zero_iff set_mset_mset)
    with xs sub show ?thesis by blast
  qed
  with inv show ?thesis by (auto simp: tidy_def MQTT_RELAY_QUEUE_CAPACITY_def)
qed

definition idle_system :: relay_system where
  "idle_system = \<lparr>sy_context = context_zero\<lparr>cx_queue := Some []\<rparr>, sy_worker = None, sy_observers = [], sy_created = []\<rparr>"

definition sample_item :: mqtt_payload_item where
  "sample_item = \<lparr>it_address = 64, it_topic = cs ''t'' @ [0], it_payload = cs ''p'' @ [0], it_payload_length = 1, it_msg_id = 0\<rparr>"

definition building_system :: relay_system where
  "building_system = idle_system\<lparr>sy_observers := [sample_item], sy_created := [64]\<rparr>"

theorem messages_accounted_witness:
  "relay_reachable building_system \<and> mset (sy_created building_system) = live building_system \<and> live building_system = {#64#}"
proof -
  have "relay_reachable idle_system"
    unfolding idle_system_def
    by (rule relay_reachable.start) (simp_all add: context_zero_def queued_def freed_def counters_zero_def)
  moreover have "relay_step idle_system building_system"
    using relay_step.create [of sample_item idle_system]
    by (simp add: building_system_def idle_system_def sample_item_def live_def held_def in_hand_def queued_def context_zero_def)
  ultimately have r: "relay_reachable building_system" by (rule relay_reachable.step)
  from messages_accounted [OF r] r show ?thesis
    by (auto simp: building_system_def idle_system_def sample_item_def live_def held_def in_hand_def queued_def
        context_zero_def freed_def)
qed

end
