(* ===== verification/Mqtt_Observer.thy ===== *)
theory Mqtt_Observer
  imports Mqtt_Delivery
begin

text \<open>
  What becomes of a notification the relay observes: the decision, the identifier and the message
  together with the queue, and that the same notification is not accepted twice.
\<close>

section \<open>The first section\<close>

lemma id_text_hex:
  assumes "notification_ok cfg n"
  shows "length (id_text nonce n) = 32" "plain (id_text nonce n)" "ascii (id_text nonce n)"
proof -
  from assms have "\<exists>out'. relay_policy_build_id (Some n) nonce (Some (replicate 33 0)) (length (replicate 33 (0 :: u8))) =
      Some (Some out', ESP_OK) \<and> cstr out' = id_text nonce n \<and> length (id_text nonce n) = 32 \<and>
      set (id_text nonce n) \<subseteq> set (cs ''0123456789abcdef'')"
    by (rule relay_policy_build_id_text) simp
  then have h: "length (id_text nonce n) = 32" "set (id_text nonce n) \<subseteq> set (cs ''0123456789abcdef'')" by blast+
  have "plain (cs ''0123456789abcdef'')" "ascii (cs ''0123456789abcdef'')" by (simp_all add: plain_def)
  with h show "length (id_text nonce n) = 32" "plain (id_text nonce n)" "ascii (id_text nonce n)"
    unfolding plain_def ascii_def by blast+
qed

definition admitted :: "ancs_notification \<Rightarrow> mqtt_relay_context \<Rightarrow> bool" where
  "admitted n cx \<longleftrightarrow> drop_reason n (connectivity_of cx) = None \<and> id_text (cx_boot_nonce cx) n \<notin> set (recent_list (cx_recent cx))"

lemma decide_admitted:
  assumes "notification_ok cfg n" "cache_ok (cx_recent cx)"
  shows "\<exists>d. relay_policy_decide (Some n) (connectivity_of cx) (Some (cx_recent cx)) = Some d \<and>
    (d = RELAY_PUBLISH \<longleftrightarrow> admitted n cx)"
proof -
  have "drop_reason n (connectivity_of cx) \<noteq> Some RELAY_PUBLISH" by (simp add: drop_reason_def)
  then show ?thesis
    unfolding relay_policy_decide_eq [OF assms] admitted_def
    by (auto simp: connectivity_of_def split: option.splits)
qed

lemma observe_admit_eq:
  assumes "notification_ok cfg n" "cache_ok (cx_recent cx)"
  shows "if \<not> online cx then observe_admit n cx = Some (None, drop_offline cx)
    else if \<not> admitted n cx then observe_admit n cx = Some (None, drop_policy cx)
    else \<exists>rid. observe_admit n cx = Some (Some (rid, local_copy MQTT_RELAY_TOPIC_MAX (tp_notification (cx_topics cx))), cx) \<and>
      cstr rid = id_text (cx_boot_nonce cx) n"
proof -
  obtain d where d: "relay_policy_decide (Some n) (connectivity_of cx) (Some (cx_recent cx)) = Some d"
    "d = RELAY_PUBLISH \<longleftrightarrow> admitted n cx" using decide_admitted [OF assms] by blast
  obtain rid where "relay_policy_build_id (Some n) (cx_boot_nonce cx) (Some (replicate RELAY_POLICY_ID_MAX 0))
      RELAY_POLICY_ID_MAX = Some (Some rid, ESP_OK)" "cstr rid = id_text (cx_boot_nonce cx) n"
    using relay_policy_build_id_eq [OF assms(1), of 33 "replicate 33 0"] by (auto simp: RELAY_POLICY_ID_MAX_def)
  with d show ?thesis by (simp add: observe_admit_def)
qed

lemma observe_commit_eq:
  assumes "notification_ok cfg n" "cache_ok (cx_recent cx)" "online cx" "admitted n cx" "cx_queue cx = Some q"
  shows "\<exists>u. observe_commit n rid item now cx =
    Some (if 8 \<le> length q then (False, mqtt_relay_free_item item (drop_enqueue cx))
          else (True, accept_message item (mark_id (cx_recent cx) rid) u cx))"
proof -
  have d: "relay_policy_decide (Some n) (connectivity_of cx) (Some (cx_recent cx)) = Some RELAY_PUBLISH"
    using decide_admitted [OF assms(1,2)] assms(4) by auto
  show ?thesis
  proof (cases "8 \<le> length q")
    case True
    with d assms(3,5) show ?thesis by (simp add: observe_commit_def MQTT_RELAY_QUEUE_CAPACITY_def)
  next
    case False
    note commit = observe_commit_def MQTT_RELAY_QUEUE_CAPACITY_def Let_def
    let ?r = "mark_id (cx_recent cx) rid"
    let ?cx = "cx\<lparr>cx_queue := Some (q @ [item]), cx_recent := ?r,
        cx_counters := (cx_counters cx)\<lparr>rc_accepted := rc_accepted (cx_counters cx) + 1\<rparr>\<rparr>"
    have same: "accept_message item ?r (cx_last_notification_uptime_ms cx) cx = ?cx"
      using assms(5) by (simp add: accept_message_def queued_def)
    have noted: "accept_message item ?r u cx = ?cx\<lparr>cx_last_notification_uptime_ms := u\<rparr>" for u
      using assms(5) by (simp add: accept_message_def queued_def)
    note facts = d assms(3,5) False mark_id_eq(1) [OF assms(2), of rid]
    show ?thesis
    proof (cases "n_complete n \<and> n_session_id n \<noteq> 0 \<and> n_event_id n \<le> 1 \<and> n_event_flags n AND 4 = 0")
      case True
      with facts show ?thesis by (intro exI [of _ "of_nat (now div 1000)"]) (simp add: commit noted)
    next
      case no: False
      have "observe_commit n rid item now cx = Some (True, ?cx)" using facts no by (auto simp: commit)
      with same False show ?thesis by (intro exI [of _ "cx_last_notification_uptime_ms cx"]) simp
    qed
  qed
qed

lemma observe_commit_total:
  assumes "notification_ok cfg n" "cache_ok (cx_recent cx)" "cx_queue cx = Some q"
  shows "\<exists>ok cx'. observe_commit n rid item now cx = Some (ok, cx')"
proof (cases "online cx \<and> admitted n cx")
  case True
  then obtain u where "observe_commit n rid item now cx =
      Some (if 8 \<le> length q then (False, mqtt_relay_free_item item (drop_enqueue cx))
            else (True, accept_message item (mark_id (cx_recent cx) rid) u cx))"
    using observe_commit_eq [OF assms(1,2) _ _ assms(3)] by blast
  then show ?thesis by (cases "8 \<le> length q") auto
next
  case False
  with decide_admitted [OF assms(1,2)] show ?thesis by (auto simp: observe_commit_def)
qed

definition sample_online :: mqtt_relay_context where
  "sample_online = context_zero\<lparr>cx_queue := Some [], cx_accepting_observers := True, cx_wifi_connected := True,
     cx_mqtt_connected := True\<rparr>"

lemma sample_admitted: "admitted Relay_Policy.sample_notification sample_online" "online sample_online"
  by (simp_all add: admitted_def drop_reason_def sample_online_def context_zero_def online_def connectivity_of_def
      Relay_Policy.sample_notification_def notification_zero_def)

section \<open>No duplicates\<close>

lemma last8_recent: "length ys < 8 \<Longrightarrow> x \<in> set (last8 (last8 (xs @ [x]) @ ys))"
proof -
  assume l: "length ys < 8"
  have "drop (length xs) (xs @ x # ys) = x # ys" by simp
  moreover have "length (xs @ x # ys) - 8 \<le> length xs" using l by simp
  ultimately have "x \<in> set (drop (length (xs @ x # ys) - 8) (xs @ x # ys))"
    using set_drop_subset_set_drop [of "length (xs @ x # ys) - 8" "length xs" "xs @ x # ys"] by auto
  then show ?thesis by (simp add: last8_last8) (simp add: last8_def)
qed

text \<open>
  The same notification is not accepted twice. Once a message has entered the queue, a notification
  with the same identifier, which is the same event of the same notification with the same texts, is
  not accepted by any observer while fewer than 8 other notifications have been accepted since.
\<close>

theorem accepted_once:
  assumes ok: "notification_ok cfg n" "notification_ok cfg m" "cache_ok (cx_recent cx)"
    and rid: "cstr rid = id_text (cx_boot_nonce cx) n"
    and first: "observe_commit n rid item now cx = Some (True, cx')"
    and later: "cx_recent later = foldl mark_id (cx_recent cx') rids" "length rids < 8"
      "cx_boot_nonce later = cx_boot_nonce cx"
    and same: "id_text (cx_boot_nonce cx) m = id_text (cx_boot_nonce cx) n"
    and second: "observe_commit m rid2 item2 now2 later = Some (accepted, later')"
  shows "\<not> accepted"
proof
  assume a: accepted
  from first obtain u recent where cx': "cx' = accept_message item recent u cx"
      "relay_policy_mark_recent (Some (cx_recent cx)) (Some rid) = Some (Some recent)"
    by (cases rule: commit_cases) auto
  have r: "recent = mark_id (cx_recent cx) rid" using mark_id_eq(1) [OF ok(3)] cx'(2) by simp
  have c: "cx_recent cx' = mark_id (cx_recent cx) rid" using cx'(1) r by (simp add: accept_message_def)
  have cok: "cache_ok (cx_recent cx')" unfolding c by (rule mark_id_ok [OF ok(3)])
  then have lok: "cache_ok (cx_recent later)" unfolding later(1)
    by (induction rids rule: rev_induct) (simp_all add: mark_id_ok)
  have "take 32 (cstr rid) = id_text (cx_boot_nonce cx) n" using rid id_text_hex(1) [OF ok(1)] by simp
  moreover have "recent_list (cx_recent later) = last8 (last8 (recent_list (cx_recent cx) @ [take 32 (cstr rid)]) @
      map (\<lambda>r. take 32 (cstr r)) rids)"
    unfolding later(1) recent_list_marks [OF cok] unfolding c recent_list_mark [OF ok(3)] ..
  ultimately have "id_text (cx_boot_nonce cx) n \<in> set (recent_list (cx_recent later))"
    using last8_recent [of "map (\<lambda>r. take 32 (cstr r)) rids"] later(2) by simp
  then have "\<not> admitted m later" using same later(3) by (simp add: admitted_def)
  moreover have "admitted m later"
    using second a decide_admitted [OF ok(2) lok] by (cases rule: commit_cases) auto
  ultimately show False by blast
qed

theorem accepted_once_witness:
  "\<exists>rid cx' accepted later'. observe_commit Relay_Policy.sample_notification rid sample_item 0 sample_online = Some (True, cx') \<and>
     observe_commit Relay_Policy.sample_notification rid sample_item 1 cx' = Some (accepted, later') \<and> \<not> accepted"
proof -
  let ?n = Relay_Policy.sample_notification
  let ?rid = "id_text (cx_boot_nonce sample_online) ?n"
  note n = Relay_Policy.sample_notification_ok
  have c: "cache_ok (cx_recent sample_online)" by (simp add: sample_online_def context_zero_def)
  have q: "cx_queue sample_online = Some []" by (simp add: sample_online_def)
  have rid: "cstr ?rid = ?rid" using ascii_nonzero [OF id_text_hex(3) [OF n]] by (rule cstr_idem)
  obtain cx' u where first: "observe_commit ?n ?rid sample_item 0 sample_online = Some (True, cx')"
      "cx' = accept_message sample_item (mark_id (cx_recent sample_online) ?rid) u sample_online"
    using observe_commit_eq [OF n c sample_admitted(2,1) q, of ?rid sample_item 0] by auto
  have c': "cache_ok (cx_recent cx')" "cx_queue cx' = Some [sample_item]" "cx_boot_nonce cx' = cx_boot_nonce sample_online"
    using mark_id_ok [OF c] q by (simp_all add: first(2) accept_message_def queued_def)
  obtain accepted later' where second: "observe_commit ?n ?rid sample_item 1 cx' = Some (accepted, later')"
    using observe_commit_total [OF n c'(1,2)] by blast
  have "cx_recent cx' = foldl mark_id (cx_recent cx') []" "length ([] :: bytes list) < 8" by simp_all
  from accepted_once [OF n n c rid first(1) this c'(3) refl second] first(1) second show ?thesis by blast
qed

section \<open>The outcome of an observation\<close>

lemma payload_built:
  assumes "config_ok cfg" "notification_ok cfg n" "notification_numbers n" "APP_ID_MAX cfg \<le> APP_NAME_MAX cfg"
    and "chip_name target" "length (cstr d) \<le> 65535" "length (cstr r) \<le> 64" "plain (cstr r)" "ascii (cstr r)" "u < 2 ^ 64"
    and "malloc (2304 + payload_text_length n d r * 6) = Some block"
    and "2304 + payload_text_length n d r * 6 \<le> length block"
  shows "\<exists>p. mqtt_payload_build_notification malloc target cfg (Some n) (Some d) (Some r) u (Some out) =
        Some (ESP_OK, Some (Some p, length (cstr p))) \<and>
      valid_utf8 (cstr p) \<and>
      parse_json (cstr p) = Some (JObj (notification_json target (named n) d @ relayed_json target r u))"
proof -
  have name: "length (n_app_name n) = Suc (APP_NAME_MAX cfg)"
    using assms(2) by (simp add: notification_ok_def nul_buffer_def)
  from payload_build [of target n cfg d r u malloc block out, OF assms(5,3) shown_name_length [OF assms(1,2,4)] name
      payload_text_bound [OF assms(1,2,6,7)] assms(9-12)]
    relayed_message [OF assms(5,8)] relayed_encoding [OF assms(5,9)] show ?thesis by metis
qed

lemma strlcpy_cong: "cstr s = cstr t \<Longrightarrow> strlcpy dst s = strlcpy dst t"
  by (simp add: strlcpy_def)

lemma mark_id_cong: "cache_ok c \<Longrightarrow> cstr s = cstr t \<Longrightarrow> mark_id c s = mark_id c t"
  using strlcpy_cong [of s t] by (simp add: mark_id_eq)

text \<open>
  What happens to a notification the relay observes, when memory is available and no other task
  interferes. Offline it is dropped and counted so; what the policy refuses, a duplicate included, is
  dropped and counted so; a full queue frees the new message and counts it; otherwise the message is
  put at the end of the queue, its identifier is remembered, it is counted and the worker is notified.
  The message is for the notification topic, and its text is the JSON object of the notification with
  its identifier.
\<close>

theorem observe_notification_outcome:
  assumes cfg: "config_ok cfg" "notification_ok cfg n" "notification_numbers n" "APP_ID_MAX cfg \<le> APP_NAME_MAX cfg"
    and target: "chip_name target" "length (cstr d) \<le> 65535"
    and cx: "cache_ok (cx_recent cx)" "cx_queue cx = Some q"
    and w: "\<forall>c. rw_others w c = c" "\<forall>k. \<exists>block. rw_malloc w cx k = Some block \<and> k \<le> length block"
      "rw_new_item w cx = Some a" "rw_strdup w cx" "rw_now w cx div 1000 < 2 ^ 64"
  shows "\<exists>item uptime. mqtt_relay_observe_notification w target cfg (Some n) (Some d) cx = Some
      (if \<not> online cx then drop_offline cx
       else if \<not> admitted n cx then drop_policy cx
       else if 8 \<le> length q then mqtt_relay_free_item item (drop_enqueue cx)
       else mqtt_relay_notify_worker (accept_message item
         (mark_id (cx_recent cx) (id_text (cx_boot_nonce cx) n)) uptime cx)) \<and>
    it_address item = a \<and> cstr (it_topic item) = take 159 (cstr (tp_notification (cx_topics cx))) \<and>
    valid_utf8 (cstr (it_payload item)) \<and>
    parse_json (cstr (it_payload item)) = Some (JObj (notification_json target (named n) d @
      relayed_json target (id_text (cx_boot_nonce cx) n) (rw_now w cx div 1000)))"
proof -
  let ?id = "id_text (cx_boot_nonce cx) n" and ?now = "rw_now w cx div 1000"
  note hex = id_text_hex [OF cfg(2), of "cx_boot_nonce cx"]
  have idc: "cstr ?id = ?id" using ascii_nonzero [OF hex(3)] by (rule cstr_idem)
  have payload: "\<exists>p. mqtt_payload_build_notification (rw_malloc w cx) target cfg (Some n) (Some d) (Some rid) ?now
        (Some (None, 0)) = Some (ESP_OK, Some (Some p, length (cstr p))) \<and> valid_utf8 (cstr p) \<and>
      parse_json (cstr p) = Some (JObj (notification_json target (named n) d @ relayed_json target ?id ?now))"
    if rid: "cstr rid = ?id" for rid
  proof -
    obtain block where b: "rw_malloc w cx (2304 + payload_text_length n d rid * 6) = Some block"
        "2304 + payload_text_length n d rid * 6 \<le> length block" using w(2) by blast
    have j: "relayed_json target rid ?now = relayed_json target ?id ?now" using rid idc by (simp add: relayed_json_def)
    from payload_built [of cfg n target d rid ?now "rw_malloc w cx" block "(None, 0)", OF cfg target _ _ _ w(5) b]
      rid hex show ?thesis unfolding j by simp
  qed
  let ?topic = "local_copy MQTT_RELAY_TOPIC_MAX (tp_notification (cx_topics cx))"
  have nul: "0 \<notin> set (take 159 (cstr (tp_notification (cx_topics cx))))"
    using cstr_no_nul in_set_takeD by metis
  have topic: "cstr (cstr ?topic @ [0]) = take 159 (cstr (tp_notification (cx_topics cx)))"
    using cstr_strlcpy [of "replicate 160 0" "tp_notification (cx_topics cx)"] cstr_append_nul [OF nul, of "[]"]
    by (simp add: local_copy_def MQTT_RELAY_TOPIC_MAX_def PROVISION_MQTT_BASE_TOPIC_MAX_def)
  note admit = observe_admit_eq [OF cfg(2) cx(1)]
  show ?thesis
  proof (cases "online cx \<and> admitted n cx")
    case False
    obtain p where "valid_utf8 (cstr p)"
        "parse_json (cstr p) = Some (JObj (notification_json target (named n) d @ relayed_json target ?id ?now))"
      using payload [OF idc] by blast
    moreover have "mqtt_relay_observe_notification w target cfg (Some n) (Some d) cx =
        Some (if \<not> online cx then drop_offline cx else drop_policy cx)"
      using admit False by (auto simp: mqtt_relay_observe_notification_def)
    ultimately show ?thesis using False topic
      by (intro exI [of _ "\<lparr>it_address = a, it_topic = cstr ?topic @ [0], it_payload = p, it_payload_length = 0,
          it_msg_id = 0\<rparr>"]) auto
  next
    case True
    then obtain rid where rid: "observe_admit n cx = Some (Some (rid, ?topic), cx)" "cstr rid = ?id" using admit by auto
    obtain p where p: "mqtt_payload_build_notification (rw_malloc w cx) target cfg (Some n) (Some d) (Some rid) ?now
          (Some (None, 0)) = Some (ESP_OK, Some (Some p, length (cstr p)))" "valid_utf8 (cstr p)"
        "parse_json (cstr p) = Some (JObj (notification_json target (named n) d @ relayed_json target ?id ?now))"
      using payload [OF rid(2)] by blast
    define item where "item = \<lparr>it_address = a, it_topic = cstr ?topic @ [0], it_payload = p,
      it_payload_length = length (cstr p), it_msg_id = 0\<rparr>"
    obtain u where u: "observe_commit n rid item (rw_now w cx) cx =
        Some (if 8 \<le> length q then (False, mqtt_relay_free_item item (drop_enqueue cx))
              else (True, accept_message item (mark_id (cx_recent cx) rid) u cx))"
      using observe_commit_eq [OF cfg(2) cx(1) _ _ cx(2)] True by blast
    have m: "mark_id (cx_recent cx) rid = mark_id (cx_recent cx) ?id"
      using rid(2) idc by (intro mark_id_cong [OF cx(1)]) simp
    have "mqtt_relay_observe_notification w target cfg (Some n) (Some d) cx = Some
        (if 8 \<le> length q then mqtt_relay_free_item item (drop_enqueue cx)
         else mqtt_relay_notify_worker (accept_message item (mark_id (cx_recent cx) ?id) u cx))"
      using rid(1) p(1) u [unfolded item_def] w m
      by (simp add: mqtt_relay_observe_notification_def item_def)
    then show ?thesis using True p(2,3) topic
      by (intro exI [of _ item] exI [of _ u]) (simp add: item_def)
  qed
qed

definition sample_world :: relay_world where
  "sample_world = \<lparr>rw_others = \<lambda>c. c, rw_now = \<lambda>c. 5000000, rw_malloc = \<lambda>c k. Some (replicate k 0),
     rw_new_config = \<lambda>c. True, rw_new_item = \<lambda>c. Some 64, rw_strdup = \<lambda>c. True, rw_hook = None,
     rw_publish = \<lambda>client t p q r c. (1, c), rw_enqueue = \<lambda>client t p q r c. (1, c),
     rw_outbox_size = \<lambda>client c. 0, rw_subscribe = \<lambda>client t q c. (1, c),
     rw_client_init = \<lambda>settings c. Some 7, rw_client_register = \<lambda>client c. ESP_OK,
     rw_client_start = \<lambda>client c. (ESP_OK, c), rw_client_reconnect = \<lambda>client c. (ESP_OK, c),
     rw_client_stop = \<lambda>client c. (ESP_OK, c), rw_client_destroy = \<lambda>client c. c,
     rw_new_task = \<lambda>c. Some 3, rw_new_queue = \<lambda>c. True, rw_new_mutex = \<lambda>c. True,
     rw_new_lifecycle_mutex = \<lambda>c. True\<rparr>"

theorem observe_notification_outcome_witness:
  "\<exists>item uptime. mqtt_relay_observe_notification sample_world (cs ''esp32c3'') default_config
      (Some Relay_Policy.sample_notification) (Some (cs ''iPhone'' @ [0])) sample_online =
    Some (accept_message item (mark_id recent_cache_zero (id_text 0 Relay_Policy.sample_notification)) uptime sample_online) \<and>
    it_address item = 64"
proof -
  let ?n = Relay_Policy.sample_notification
  have num: "notification_numbers ?n"
    by (simp add: notification_numbers_def Relay_Policy.sample_notification_def notification_zero_def)
  have chip: "chip_name (cs ''esp32c3'')" by (simp add: chip_name_def)
  have len: "length (cstr (cs ''iPhone'' @ [0])) \<le> 65535" by simp
  have app: "APP_ID_MAX default_config \<le> APP_NAME_MAX default_config" by (simp add: default_config_def)
  have c: "cache_ok (cx_recent sample_online)" "cx_queue sample_online = Some []"
    by (simp_all add: sample_online_def context_zero_def)
  have w: "\<forall>c. rw_others sample_world c = c"
      "\<forall>k. \<exists>block. rw_malloc sample_world sample_online k = Some block \<and> k \<le> length block"
      "rw_new_item sample_world sample_online = Some 64" "rw_strdup sample_world sample_online"
      "rw_now sample_world sample_online div 1000 < 2 ^ 64"
    by (simp_all add: sample_world_def del: replicate_Suc)
  have z: "cx_boot_nonce sample_online = 0" "cx_recent sample_online = recent_cache_zero"
      "cx_worker_task (accept_message i r u sample_online) = None" for i r u
    by (simp_all add: sample_online_def context_zero_def accept_message_def)
  from observe_notification_outcome [OF default_config_ok Relay_Policy.sample_notification_ok num app chip len c w]
    sample_admitted show ?thesis by (auto simp: z mqtt_relay_notify_worker_def)
qed

end
