(* ===== verification/Mqtt_Lifecycle_Correct.thy ===== *)
theory Mqtt_Lifecycle_Correct
  imports Mqtt_Observer
begin

text \<open>
  The life cycle of the relay: its waiting loops end, commands come from the current client only, and a stop
  ends publishing until the relay is opened again.
\<close>

section \<open>Waiting\<close>

lemma wait_until_ends:
  "wait_until done others cx = Some cx' \<Longrightarrow> (\<forall>c. P c \<longrightarrow> P (others c)) \<longrightarrow> P cx \<longrightarrow> P cx' \<and> done cx'"
  by (erule wait_until.raw_induct [where P = "\<lambda>d f c c'. (\<forall>c. P c \<longrightarrow> P (f c)) \<longrightarrow> P c \<longrightarrow> P c' \<and> d c'", rotated])
    (simp split: if_splits, blast+)

lemma wait_until_invariant:
  "wait_until done others cx = Some cx' \<Longrightarrow> P cx \<Longrightarrow> (\<And>c. P c \<Longrightarrow> P (others c)) \<Longrightarrow> P cx' \<and> done cx'"
  using wait_until_ends [of _ others cx cx' P] by blast

lemma wait_until_terminates:
  assumes "\<And>c. \<not> done c \<Longrightarrow> m (others c) < (m c :: nat)"
  shows "\<exists>cx'. wait_until done others cx = Some cx'"
proof (induction "m cx" arbitrary: cx rule: less_induct)
  case less
  show ?case
  proof (cases "done cx")
    case True
    then show ?thesis by (subst wait_until.simps) simp
  next
    case False
    from less [OF assms [OF False]] False show ?thesis by (subst wait_until.simps) simp
  qed
qed

section \<open>Commands\<close>

definition current_client :: "esp_mqtt_event \<Rightarrow> mqtt_relay_context \<Rightarrow> bool" where
  "current_client e cx \<longleftrightarrow> mv_client e \<noteq> None \<and> mv_client e = cx_client cx"

text \<open>A whole, new message with this topic and this text.\<close>

definition command_message :: "esp_mqtt_event \<Rightarrow> bytes \<Rightarrow> bytes \<Rightarrow> bool" where
  "command_message e topic word \<longleftrightarrow> (\<exists>t d. mv_topic e = Some t \<and> mv_data e = Some d \<and>
     mv_topic_len e = int (length topic) \<and> take (length topic) t = topic \<and>
     mv_data_len e = int (length word) \<and> take (length word) d = word \<and>
     mv_total_data_len e = mv_data_len e \<and> mv_current_data_offset e = 0 \<and> \<not> mv_retain e)"

lemma exact_command:
  assumes "0 \<le> mv_topic_len e" "0 \<le> mv_data_len e" "0 \<le> mv_total_data_len e" "0 \<le> mv_current_data_offset e"
  shows "mqtt_relay_is_exact_command (Some topic) word (mv_topic e) (nat (mv_topic_len e)) (mv_data e)
    (nat (mv_data_len e)) (nat (mv_total_data_len e)) (nat (mv_current_data_offset e)) (mv_retain e) \<longleftrightarrow>
    command_message e (cstr topic) word"
  using assms
  by (auto simp: mqtt_relay_is_exact_command_def command_message_def nat_eq_iff eq_nat_nat_iff split: option.splits)

lemma command_lengths: "command_message e topic word \<Longrightarrow>
    0 \<le> mv_topic_len e \<and> 0 \<le> mv_data_len e \<and> 0 \<le> mv_total_data_len e \<and> 0 \<le> mv_current_data_offset e"
  by (auto simp: command_message_def)

lemma cstr_local_copy: "0 < n \<Longrightarrow> cstr (local_copy n t) = take (n - 1) (cstr t)"
  using cstr_strlcpy [of "replicate n 0" t] by (simp add: local_copy_def)

text \<open>
  C17: Commands. A message from the MQTT client makes the relay ask for an enrollment or a restart exactly
  when it comes from the current client while the relay accepts messages and may publish, and it is a
  whole message, not a retained one, with exactly the command topic and the command word; any other
  message changes nothing. No event of a client that is not the current one changes anything.
\<close>

theorem commands_guarded:
  "mqtt_relay_event_handler w MQTT_EVENT_DATA (Some e) cx = Some
     (if \<not> (current_client e cx \<and> cx_accepting_observers cx \<and> cx_publish_allowed cx) then cx
      else if command_message e (take 159 (cstr (tp_enroll_command (cx_topics cx)))) (cs ''ENROLL'')
      then mqtt_relay_emit_event MQTT_RELAY_EVENT_ENROLL_REQUEST cx
      else if command_message e (take 159 (cstr (tp_restart_command (cx_topics cx)))) (cs ''RESTART'')
      then mqtt_relay_emit_event MQTT_RELAY_EVENT_RESTART_REQUEST cx
      else cx) \<and>
   (current_client e cx \<or> (\<forall>event_id. mqtt_relay_event_handler w event_id (Some e) cx = Some cx))"
proof -
  have size: "MQTT_RELAY_TOPIC_MAX = 160" by (simp add: MQTT_RELAY_TOPIC_MAX_def PROVISION_MQTT_BASE_TOPIC_MAX_def)
  have topic: "cstr (local_copy MQTT_RELAY_TOPIC_MAX t) = take 159 (cstr t)" for t
    by (simp add: cstr_local_copy size)
  let ?en = "command_message e (take 159 (cstr (tp_enroll_command (cx_topics cx)))) (cs ''ENROLL'')"
  let ?re = "command_message e (take 159 (cstr (tp_restart_command (cx_topics cx)))) (cs ''RESTART'')"
  have data: "handle_data e cx = (if ?en then mqtt_relay_emit_event MQTT_RELAY_EVENT_ENROLL_REQUEST cx
      else if ?re then mqtt_relay_emit_event MQTT_RELAY_EVENT_RESTART_REQUEST cx else cx)"
  proof (cases "0 \<le> mv_topic_len e \<and> 0 \<le> mv_data_len e \<and> 0 \<le> mv_total_data_len e \<and> 0 \<le> mv_current_data_offset e")
    case True
    then show ?thesis
      using exact_command [of e "local_copy MQTT_RELAY_TOPIC_MAX (tp_enroll_command (cx_topics cx))" "cs ''ENROLL''"]
        exact_command [of e "local_copy MQTT_RELAY_TOPIC_MAX (tp_restart_command (cx_topics cx))" "cs ''RESTART''"]
      by (simp add: handle_data_def mqtt_relay_is_enroll_command_def mqtt_relay_is_restart_command_def topic
          not_less del: cs_Cons)
  next
    case False
    with command_lengths [of e] have "\<not> ?en" "\<not> ?re" by blast+
    with False show ?thesis by (auto simp: handle_data_def)
  qed
  have current: "mqtt_relay_event_is_current (Some e) MQTT_EVENT_DATA cx \<longleftrightarrow>
      current_client e cx \<and> cx_accepting_observers cx \<and> cx_publish_allowed cx"
    by (auto simp: mqtt_relay_event_is_current_def current_client_def)
  have "mqtt_relay_event_handler w event_id (Some e) cx = Some cx" if "\<not> current_client e cx" for event_id
    using that by (auto simp: mqtt_relay_event_handler_def mqtt_relay_event_is_current_def current_client_def)
  then have "current_client e cx \<or> (\<forall>event_id. mqtt_relay_event_handler w event_id (Some e) cx = Some cx)" by blast
  moreover have "mqtt_relay_event_handler w MQTT_EVENT_DATA (Some e) cx =
      Some (if mqtt_relay_event_is_current (Some e) MQTT_EVENT_DATA cx then handle_data e cx else cx)"
    by (simp add: mqtt_relay_event_handler_def)
  ultimately show ?thesis by (simp add: data current del: cs_Cons)
qed

section \<open>What the other tasks leave alone\<close>

text \<open>
  The operations of the life cycle hold a second lock. The other tasks, which do not, leave the client,
  the permissions, the settings and the topics as they are, and do not report a connection while
  messages are not accepted.
\<close>

definition undisturbed :: "mqtt_relay_context \<Rightarrow> mqtt_relay_context \<Rightarrow> bool" where
  "undisturbed cx cx' \<longleftrightarrow> cx_client cx' = cx_client cx \<and> cx_accepting_observers cx' = cx_accepting_observers cx \<and>
     cx_publish_allowed cx' = cx_publish_allowed cx \<and> cx_config cx' = cx_config cx \<and> cx_topics cx' = cx_topics cx \<and>
     (cx_accepting_observers cx \<or> cx_mqtt_connected cx \<or> \<not> cx_mqtt_connected cx')"

definition lifecycle_rely :: "relay_world \<Rightarrow> bool" where
  "lifecycle_rely w \<longleftrightarrow> (\<forall>cx. undisturbed cx (rw_others w cx)) \<and>
     (\<forall>client t p q r cx. undisturbed cx (snd (rw_publish w client t p q r cx))) \<and>
     (\<forall>client cx. undisturbed cx (snd (rw_client_start w client cx))) \<and>
     (\<forall>client cx. undisturbed cx (snd (rw_client_stop w client cx))) \<and>
     (\<forall>client cx. undisturbed cx (rw_client_destroy w client cx))"

lemma undisturbed_refl: "undisturbed cx cx"
  by (auto simp: undisturbed_def)

lemma undisturbed_trans: "undisturbed a b \<Longrightarrow> undisturbed b c \<Longrightarrow> undisturbed a c"
  unfolding undisturbed_def by metis

lemma undisturbed_wait:
  assumes "lifecycle_rely w" "wait_until f (rw_others w) cx = Some cx'" "undisturbed a cx"
  shows "undisturbed a cx' \<and> f cx'"
  by (rule wait_until_invariant [OF assms(2), of "undisturbed a"])
    (use assms(1,3) undisturbed_trans in \<open>auto simp: lifecycle_rely_def\<close>)

lemma free_items_fields:
  "cx_client (free_items is cx) = cx_client cx" "cx_accepting_observers (free_items is cx) = cx_accepting_observers cx"
  "cx_publish_allowed (free_items is cx) = cx_publish_allowed cx" "cx_config (free_items is cx) = cx_config cx"
  "cx_topics (free_items is cx) = cx_topics cx" "cx_mqtt_connected (free_items is cx) = cx_mqtt_connected cx"
  "cx_queue (free_items is cx) = cx_queue cx" "cx_recent (free_items is cx) = cx_recent cx"
  "cx_worker_task (free_items is cx) = cx_worker_task cx"
  by (simp_all add: free_items_eq)

lemma undisturbed_free:
  "undisturbed cx (mqtt_relay_free_pending_locked cx)" "undisturbed cx (mqtt_relay_free_queue_locked cx)"
  by (auto simp: undisturbed_def mqtt_relay_free_pending_locked_def mqtt_relay_free_queue_locked_def
      free_items_fields split: option.splits)

lemma undisturbed_perform: "undisturbed cx (perform e cx)"
  by (auto simp: undisturbed_def perform_def)

text \<open>That the tasks of the relay keep to it.\<close>

lemma tasks_undisturbed:
  "drain_take cx = Some (item, cx') \<Longrightarrow> undisturbed cx cx'"
  "undisturbed cx (drain_settle item msg_id cx)"
  "observe_admit n cx = Some (r, cx') \<Longrightarrow> undisturbed cx cx'"
  "observe_commit n rid item now cx = Some (ok, cx') \<Longrightarrow> undisturbed cx cx'"
  "begin_publish cx = Some (client, cx') \<Longrightarrow> undisturbed cx cx'"
  "undisturbed cx (end_publish cx)"
  "\<not> cx_accepting_observers cx \<Longrightarrow> mqtt_relay_event_handler w event_id event cx = Some cx' \<Longrightarrow> undisturbed cx cx'"
proof -
  show "drain_take cx = Some (item, cx') \<Longrightarrow> undisturbed cx cx'"
    by (auto simp: drain_take_def undisturbed_def split: option.splits list.splits if_splits)
  show "undisturbed cx (drain_settle item msg_id cx)"
    by (auto simp: drain_settle_def undisturbed_def mqtt_relay_free_item_def perform_def
        mqtt_relay_track_pending_locked_def Let_def)
  show "observe_admit n cx = Some (r, cx') \<Longrightarrow> undisturbed cx cx'"
    by (auto simp: observe_admit_def undisturbed_def drop_offline_def drop_policy_def
        split: if_splits option.splits bind_splits esp_err.splits)
  show "observe_commit n rid item now cx = Some (ok, cx') \<Longrightarrow> undisturbed cx cx'"
    by (erule commit_cases) (auto simp: undisturbed_def accept_message_def mqtt_relay_free_item_def perform_def
        drop_offline_def drop_policy_def drop_enqueue_def Let_def)
  show "begin_publish cx = Some (client, cx') \<Longrightarrow> undisturbed cx cx'"
    by (auto simp: begin_publish_def undisturbed_def split: option.splits if_splits)
  show "undisturbed cx (end_publish cx)" by (auto simp: end_publish_def undisturbed_def)
  show "\<not> cx_accepting_observers cx \<Longrightarrow> mqtt_relay_event_handler w event_id event cx = Some cx' \<Longrightarrow> undisturbed cx cx'"
    by (cases event_id)
      (auto simp: mqtt_relay_event_handler_def mqtt_relay_event_is_current_def undisturbed_refl split: option.splits if_splits)
qed

section \<open>Stopping\<close>

lemma disconnect_fields:
  "cx_client (mqtt_relay_handle_disconnect_locked cx) = cx_client cx"
  "cx_accepting_observers (mqtt_relay_handle_disconnect_locked cx) = cx_accepting_observers cx"
  "cx_publish_allowed (mqtt_relay_handle_disconnect_locked cx) = cx_publish_allowed cx"
  "cx_config (mqtt_relay_handle_disconnect_locked cx) = cx_config cx"
  "cx_topics (mqtt_relay_handle_disconnect_locked cx) = cx_topics cx"
  "cx_mqtt_connected (mqtt_relay_handle_disconnect_locked cx) = False"
  by (simp_all add: mqtt_relay_handle_disconnect_locked_def mqtt_relay_free_pending_locked_def
      mqtt_relay_free_queue_locked_def mqtt_relay_clear_retained_wait_locked_def free_items_fields split: option.splits)

lemma undisturbed_disconnect: "undisturbed cx (mqtt_relay_handle_disconnect_locked cx)"
  by (simp add: undisturbed_def disconnect_fields)

lemma undisturbed_publish_raw:
  assumes "lifecycle_rely w" shows "undisturbed cx (snd (mqtt_relay_publish_raw w t p q r cx))"
proof (cases "rw_hook w = None \<and> begin_publish cx \<noteq> None")
  case True
  then obtain client c where b: "begin_publish cx = Some (client, c)" by auto
  let ?e = "perform (Publish client (cstr t) (cstr p) q r) c"
  have "undisturbed cx (snd (rw_publish w client (cstr t) (cstr p) q r ?e))"
    using tasks_undisturbed(5) [OF b] undisturbed_perform assms
    unfolding lifecycle_rely_def by (metis undisturbed_trans)
  then show ?thesis using True b tasks_undisturbed(6) undisturbed_trans
    by (simp add: mqtt_relay_publish_raw_def split: prod.splits)
next
  case False
  then show ?thesis by (auto simp: mqtt_relay_publish_raw_def undisturbed_refl split: option.splits)
qed

lemma stop_undisturbed:
  assumes "lifecycle_rely w" "mqtt_relay_stop w cx = Some (err, cx')"
  shows "undisturbed (cx\<lparr>cx_publish_allowed := False\<rparr>) cx'"
proof -
  let ?d = "mqtt_relay_handle_disconnect_locked cx"
  obtain a where a: "mqtt_relay_wait_worker_idle w ?d = Some a" using assms(2)
    by (auto simp: mqtt_relay_stop_def Let_def split: bind_splits)
  have ua: "undisturbed cx a"
    using undisturbed_wait [OF assms(1) a [unfolded mqtt_relay_wait_worker_idle_def] undisturbed_disconnect] by blast
  define b where "b = (if cx_mqtt_connected cx
      then snd (mqtt_relay_publish_raw w (local_copy MQTT_RELAY_TOPIC_MAX (tp_availability (cx_topics cx))) (cs ''offline'')
        MQTT_RELAY_RETAINED_QOS MQTT_RELAY_RETAINED_RETAIN a) else a)"
  have "undisturbed a b" using undisturbed_publish_raw [OF assms(1)] undisturbed_refl by (simp add: b_def del: cs_Cons)
  with ua have ub: "undisturbed cx b" by (rule undisturbed_trans)
  then have uc: "undisturbed (cx\<lparr>cx_publish_allowed := False\<rparr>) (b\<lparr>cx_publish_allowed := False\<rparr>)"
    by (auto simp: undisturbed_def)
  obtain d where d: "mqtt_relay_wait_publish_idle w (b\<lparr>cx_publish_allowed := False\<rparr>) = Some d"
      "Some (err, cx') = Some (case cx_client d of None \<Rightarrow> (ESP_OK, d) | Some client \<Rightarrow> rw_client_stop w client (perform (ClientStop client) d))"
    using assms(2) a by (auto simp: mqtt_relay_stop_def Let_def b_def split: bind_splits)
  have ud: "undisturbed (cx\<lparr>cx_publish_allowed := False\<rparr>) d"
    using undisturbed_wait [OF assms(1) d(1) [unfolded mqtt_relay_wait_publish_idle_def] uc] by blast
  show ?thesis
  proof (cases "cx_client d")
    case None
    with d(2) ud show ?thesis by simp
  next
    case (Some client)
    then have "cx' = snd (rw_client_stop w client (perform (ClientStop client) d))" using d(2) by (metis option.inject option.simps(5) snd_conv)
    moreover have "undisturbed d (snd (rw_client_stop w client (perform (ClientStop client) d)))"
      using undisturbed_perform assms(1) unfolding lifecycle_rely_def by (metis undisturbed_trans)
    ultimately show ?thesis using ud undisturbed_trans by blast
  qed
qed

text \<open>
  Every operation and task of the relay but those that open it: the start, a reconnection, new settings
  and the initialization. \<open>pause\<close> is what the other tasks do in between.
\<close>

inductive relay_operation :: "relay_world \<Rightarrow> mqtt_relay_context \<Rightarrow> mqtt_relay_context \<Rightarrow> bool" for w where
  event: "mqtt_relay_event_handler w event_id event cx = Some cx' \<Longrightarrow> relay_operation w cx cx'"
| observe: "mqtt_relay_observe_notification w target cfg n device_name cx = Some cx' \<Longrightarrow> relay_operation w cx cx'"
| test: "mqtt_relay_publish_test_notification w target cfg device_name cx = Some (err, cx') \<Longrightarrow> relay_operation w cx cx'"
| worker: "mqtt_relay_worker_turn w cx = Some (running, cx') \<Longrightarrow> relay_operation w cx cx'"
| wifi_status: "mqtt_relay_update_wifi_status w status cx = Some (err, cx') \<Longrightarrow> relay_operation w cx cx'"
| ble_status: "mqtt_relay_update_ble_status w connected bonded cx = Some (err, cx') \<Longrightarrow> relay_operation w cx cx'"
| diagnostics: "mqtt_relay_update_diagnostics w report cx = Some (err, cx') \<Longrightarrow> relay_operation w cx cx'"
| refresh: "mqtt_relay_refresh_state w cx = Some (err, cx') \<Longrightarrow> relay_operation w cx cx'"
| callback: "mqtt_relay_register_event_callback f cx = (err, cx') \<Longrightarrow> relay_operation w cx cx'"
| wifi: "relay_operation w cx (mqtt_relay_set_wifi_connected connected cx)"
| stop: "mqtt_relay_stop w cx = Some (err, cx') \<Longrightarrow> relay_operation w cx cx'"
| deinit: "mqtt_relay_deinit w cx = Some (err, cx') \<Longrightarrow> relay_operation w cx cx'"
| pause: "relay_operation w cx (rw_others w cx)"

text \<open>Without the permission nothing reaches the client, and no section gives the permission.\<close>

lemma blocked_enqueue:
  "\<not> cx_publish_allowed cx \<Longrightarrow> snd (mqtt_relay_enqueue_raw w t p q r cx) = cx"
  by (simp add: mqtt_relay_enqueue_raw_def begin_enqueue_def begin_publish_def split: option.split)

lemma undisturbed_allowed: "undisturbed cx cx' \<Longrightarrow> cx_publish_allowed cx' = cx_publish_allowed cx"
  by (simp add: undisturbed_def)

definition stays_closed :: "(mqtt_relay_context \<Rightarrow> ('r \<times> mqtt_relay_context) option) \<Rightarrow> bool" where
  "stays_closed a \<longleftrightarrow> (\<forall>cx r cx'. \<not> cx_publish_allowed cx \<longrightarrow> a cx = Some (r, cx') \<longrightarrow> \<not> cx_publish_allowed cx')"

lemma outbox_closed:
  assumes "lifecycle_rely w" shows "\<not> cx_publish_allowed cx \<Longrightarrow> \<not> cx_publish_allowed (snd (mqtt_relay_wait_outbox_empty w cx))"
proof -
  have "\<not> cx_publish_allowed cx \<Longrightarrow> snd (outbox_loop w n cx) = cx" for n
    by (subst outbox_loop.simps) (simp split: option.split)
  then show "\<not> cx_publish_allowed cx \<Longrightarrow> \<not> cx_publish_allowed (snd (mqtt_relay_wait_outbox_empty w cx))"
    by (simp add: mqtt_relay_wait_outbox_empty_def)
qed

lemma once_closed:
  assumes "lifecycle_rely w"
  shows "\<not> cx_publish_allowed cx \<Longrightarrow> \<not> cx_publish_allowed (snd (mqtt_relay_publish_retained_once w t p cx))"
    "\<not> cx_publish_allowed cx \<Longrightarrow> \<not> cx_publish_allowed (snd (mqtt_relay_publish_discovery_once w t p cx))"
  using outbox_closed [OF assms] blocked_enqueue
  by (simp_all add: mqtt_relay_publish_retained_once_def mqtt_relay_publish_discovery_once_def
      MQTT_RELAY_RETAINED_QOS_def Let_def split_beta)

lemma stays_closedI:
  "(\<And>cx r cx'. \<not> cx_publish_allowed cx \<Longrightarrow> a cx = Some (r, cx') \<Longrightarrow> \<not> cx_publish_allowed cx') \<Longrightarrow> stays_closed a"
  unfolding stays_closed_def by blast

lemma stays_closedD: "stays_closed a \<Longrightarrow> a cx = Some (r, cx') \<Longrightarrow> \<not> cx_publish_allowed cx \<Longrightarrow> \<not> cx_publish_allowed cx'"
  unfolding stays_closed_def by blast

lemma closed_then:
  assumes "stays_closed a" "stays_closed b" shows "stays_closed (then_publish a b)"
proof (rule stays_closedI)
  fix cx r cx'
  assume n: "\<not> cx_publish_allowed cx" and r: "then_publish a b cx = Some (r, cx')"
  then obtain ok c where c: "a cx = Some (ok, c)" by (auto simp: then_publish_def split: bind_splits)
  note k = stays_closedD [OF assms(1) c n]
  show "\<not> cx_publish_allowed cx'"
  proof (cases ok)
    case True
    with r c have "b c = Some (r, cx')" by (simp add: then_publish_def)
    from stays_closedD [OF assms(2) this k] show ?thesis .
  next
    case False
    with r c k show ?thesis by (simp add: then_publish_def)
  qed
qed

lemma publish_each_closed: "list_all stays_closed as \<Longrightarrow> stays_closed (publish_each as)"
proof (induction "as")
  case Nil
  show ?case by (rule stays_closedI) simp
next
  case (Cons a as)
  then have "stays_closed (then_publish a (publish_each as))" by (intro closed_then) simp_all
  moreover have "publish_each (a # as) = then_publish a (publish_each as)" by (rule ext) simp
  ultimately show ?case by simp
qed

lemma total_closed:
  "(\<And>cx. \<not> cx_publish_allowed cx \<Longrightarrow> \<not> cx_publish_allowed (snd (f cx))) \<Longrightarrow> stays_closed (\<lambda>cx. Some (f cx))"
  by (rule stays_closedI) (metis option.inject snd_conv)

lemma send_discovery_closed:
  assumes "lifecycle_rely w" shows "stays_closed (send_discovery w topic payload)"
proof -
  have "stays_closed (\<lambda>cx. Some (mqtt_relay_publish_discovery_once w t p cx))" for t p
    using once_closed(2) [OF assms] by (rule total_closed)
  then show ?thesis
    by (cases topic; cases payload) (auto simp: send_discovery_def stays_closed_def split: if_splits)
qed

lemma plan_closed: "lifecycle_rely w \<Longrightarrow> stays_closed (publish_plan w plan)"
  unfolding publish_plan_def by (rule publish_each_closed) (auto simp: list_all_iff send_discovery_closed)

lemma send_status_closed:
  assumes "lifecycle_rely w" shows "stays_closed (send_status w topic payload)"
proof -
  have "stays_closed (\<lambda>cx. Some (mqtt_relay_publish_retained_once w t p cx))" for t p
    using once_closed(1) [OF assms] by (rule total_closed)
  then show ?thesis by (cases payload) (auto simp: send_status_def stays_closed_def split: if_splits)
qed

lemma retained_status_closed:
  assumes "lifecycle_rely w" "\<not> cx_publish_allowed cx" "mqtt_relay_publish_retained_status w cx = Some cx'"
  shows "\<not> cx_publish_allowed cx'"
proof (cases "rw_new_config w cx \<and> rw_malloc w cx MQTT_RELAY_DISCOVERY_PAYLOAD_MAX \<noteq> None \<and>
    rw_malloc w cx MQTT_RELAY_STATE_PAYLOAD_MAX \<noteq> None")
  case False
  with assms(2,3) show ?thesis
    by (auto simp: mqtt_relay_publish_retained_status_def split: option.splits bool.splits)
next
  case True
  then obtain b block where m: "rw_malloc w cx MQTT_RELAY_DISCOVERY_PAYLOAD_MAX = Some b"
    "rw_malloc w cx MQTT_RELAY_STATE_PAYLOAD_MAX = Some block" by blast
  obtain t payload topic state plan plan' where r:
    "do { (ok, c) \<leftarrow> then_publish (\<lambda>cx. Some (mqtt_relay_publish_retained_once w t payload cx)) (send_status w topic state) cx;
          if \<not> ok \<or> cx_discovery_attempted_this_boot c then Some c
          else do { (ok, c) \<leftarrow> publish_plan w plan c;
                    if \<not> ok then Some c
                    else do { (_, c) \<leftarrow> publish_plan w plan' (c\<lparr>cx_discovery_attempted_this_boot := True\<rparr>); Some c } } } = Some cx'"
    using assms(3) m True unfolding mqtt_relay_publish_retained_status_def by (simp add: Let_def)
  have first: "stays_closed (then_publish (\<lambda>cx. Some (mqtt_relay_publish_retained_once w t payload cx)) (send_status w topic state))"
    by (intro closed_then total_closed once_closed(1) send_status_closed assms(1))
  obtain ok c where c: "then_publish (\<lambda>cx. Some (mqtt_relay_publish_retained_once w t payload cx)) (send_status w topic state) cx = Some (ok, c)"
    using r by (auto split: bind_splits)
  note nc = stays_closedD [OF first c assms(2)]
  show ?thesis
  proof (cases "\<not> ok \<or> cx_discovery_attempted_this_boot c")
    case True
    with r c nc show ?thesis by auto
  next
    case False
    then obtain ok2 d where d: "publish_plan w plan c = Some (ok2, d)" using r c by (auto split: bind_splits)
    note nd = stays_closedD [OF plan_closed [OF assms(1)] d nc]
    show ?thesis
    proof (cases ok2)
      case True
      then obtain ok3 e where "publish_plan w plan' (d\<lparr>cx_discovery_attempted_this_boot := True\<rparr>) = Some (ok3, e)" "cx' = e"
        using r c d False by (auto split: bind_splits)
      with stays_closedD [OF plan_closed [OF assms(1)], of plan' "d\<lparr>cx_discovery_attempted_this_boot := True\<rparr>" ok3 e] nd
      show ?thesis by simp
    next
      case refused: False
      with r c d False nd show ?thesis by simp
    qed
  qed
qed


lemma turn_closed:
  assumes "\<not> cx_publish_allowed cx" "drain_turn w cx = Some cx'" shows "\<not> cx_publish_allowed cx'"
proof -
  obtain item c where c: "drain_take cx = Some (item, c)"
    using assms(2) by (cases "drain_take cx") (auto simp: drain_turn_def)
  have nc: "\<not> cx_publish_allowed c" using undisturbed_allowed [OF tasks_undisturbed(1) [OF c]] assms(1) by simp
  have "cx' = drain_settle item (fst (mqtt_relay_enqueue_raw w (it_topic item) (it_payload item)
      MQTT_RELAY_NOTIFICATION_QOS MQTT_RELAY_NOTIFICATION_RETAIN c)) c"
    using assms(2) c blocked_enqueue [OF nc] by (auto simp: drain_turn_def split: prod.splits) (metis snd_conv)
  then show ?thesis using undisturbed_allowed [OF tasks_undisturbed(2)] nc by simp
qed

lemma drain_closed:
  "mqtt_relay_drain_queue w cx = Some cx' \<Longrightarrow> \<not> cx_publish_allowed cx \<longrightarrow> \<not> cx_publish_allowed cx'"
proof (erule mqtt_relay_drain_queue.raw_induct [where P = "\<lambda>w c c'. \<not> cx_publish_allowed c \<longrightarrow> \<not> cx_publish_allowed c'", rotated])
  fix loop w c c'
  assume hyp: "\<And>w c c'. loop w c = Some c' \<Longrightarrow> \<not> cx_publish_allowed c \<longrightarrow> \<not> cx_publish_allowed c'"
    and r: "(case drain_turn w c of None \<Rightarrow> Some c | Some c \<Rightarrow> loop w c) = Some c'"
  show "\<not> cx_publish_allowed c \<longrightarrow> \<not> cx_publish_allowed c'"
  proof (cases "drain_turn w c")
    case None
    with r show ?thesis by simp
  next
    case (Some d)
    with r have "loop w d = Some c'" by simp
    from hyp [OF this] turn_closed [OF _ Some] show ?thesis by blast
  qed
qed

lemma worker_closed:
  assumes "lifecycle_rely w" "\<not> cx_publish_allowed cx" "mqtt_relay_worker_turn w cx = Some (running, cx')"
  shows "\<not> cx_publish_allowed cx'"
proof (cases "cx_worker_running cx")
  case True
  define first where "first = (if cx_retained_refresh_pending cx \<and> cx_mqtt_connected cx
      then map_option (\<lambda>cx. cx\<lparr>cx_worker_busy := False\<rparr>) (mqtt_relay_publish_retained_status w
        (cx\<lparr>cx_retained_refresh_pending := False, cx_worker_busy := True\<rparr>))
      else Some cx)"
  have run: "do { cx \<leftarrow> first; cx \<leftarrow> mqtt_relay_drain_queue w cx; Some (True, cx) } = Some (running, cx')"
    using assms(3) True by (simp add: mqtt_relay_worker_turn_def first_def Let_def)
  then obtain c where c: "first = Some c" by (cases first) auto
  have d: "mqtt_relay_drain_queue w c = Some cx'" using run c by (cases "mqtt_relay_drain_queue w c") auto
  have "\<not> cx_publish_allowed c"
  proof (cases "cx_retained_refresh_pending cx \<and> cx_mqtt_connected cx")
    case True
    then obtain e where e: "mqtt_relay_publish_retained_status w
        (cx\<lparr>cx_retained_refresh_pending := False, cx_worker_busy := True\<rparr>) = Some e" "c = e\<lparr>cx_worker_busy := False\<rparr>"
      using c by (auto simp: first_def)
    from retained_status_closed [OF assms(1) _ e(1)] assms(2) e(2) show ?thesis by simp
  next
    case False
    with c assms(2) show ?thesis by (auto simp: first_def)
  qed
  with drain_closed [OF d] show ?thesis by blast
next
  case False
  with assms(2,3) show ?thesis by (auto simp: mqtt_relay_worker_turn_def)
qed

lemma snapshot_closed:
  assumes "\<not> cx_publish_allowed cx" "mqtt_relay_publish_state_snapshot w cx = Some (err, cx')"
  shows "\<not> cx_publish_allowed cx'"
proof -
  have "cx' = cx"
    using assms blocked_enqueue [OF assms(1)]
    by (auto simp: mqtt_relay_publish_state_snapshot_def Let_def split: if_splits option.splits bind_splits prod.splits)
      (metis snd_conv)+
  with assms(1) show ?thesis by simp
qed

lemma pause_closed: "lifecycle_rely w \<Longrightarrow> cx_publish_allowed (rw_others w cx) = cx_publish_allowed cx"
  using undisturbed_allowed by (auto simp: lifecycle_rely_def)

lemma drop_notify_allowed [simp]:
  "cx_publish_allowed (drop_enqueue cx) = cx_publish_allowed cx"
  "cx_publish_allowed (mqtt_relay_notify_worker cx) = cx_publish_allowed cx"
  "cx_publish_allowed (mqtt_relay_emit_event e cx) = cx_publish_allowed cx"
  by (simp_all add: drop_enqueue_def mqtt_relay_notify_worker_def mqtt_relay_emit_event_def perform_def split: option.split)

lemma observe_closed:
  assumes "lifecycle_rely w" "\<not> cx_publish_allowed cx"
    and r: "mqtt_relay_observe_notification w target cfg n device_name cx = Some cx'"
  shows "\<not> cx_publish_allowed cx'"
proof (cases "n = None \<or> device_name = None")
  case True
  with r assms(2) show ?thesis by (auto simp: mqtt_relay_observe_notification_def split: option.splits)
next
  case False
  then obtain m d where n: "n = Some m" "device_name = Some d" by (cases n; cases device_name) auto
  obtain admitted c where c: "observe_admit m cx = Some (admitted, c)"
    using r n by (auto simp: mqtt_relay_observe_notification_def split: bind_splits)
  have nc: "\<not> cx_publish_allowed c" using undisturbed_allowed [OF tasks_undisturbed(3) [OF c]] assms(2) by simp
  have commit: "cx_publish_allowed d' = cx_publish_allowed d" if "observe_commit m rid item now d = Some (ok, d')" for d d' rid item now ok
    using undisturbed_allowed [OF tasks_undisturbed(4) [OF that]] .
  show ?thesis
  proof (cases admitted)
    case None
    with r n c nc show ?thesis by (simp add: mqtt_relay_observe_notification_def)
  next
    case (Some a)
    with r n c nc show ?thesis
      by (cases a) (auto simp: mqtt_relay_observe_notification_def Let_def pause_closed [OF assms(1)] commit
          split: bind_splits esp_err.splits option.splits prod.splits bool.splits if_splits)
  qed
qed

lemma event_closed:
  assumes "\<not> cx_publish_allowed cx" "mqtt_relay_event_handler w event_id event cx = Some cx'"
  shows "\<not> cx_publish_allowed cx'"
proof (cases event)
  case None
  with assms show ?thesis by (simp add: mqtt_relay_event_handler_def)
next
  case (Some e)
  with assms show ?thesis
    by (cases event_id)
      (auto simp: mqtt_relay_event_handler_def mqtt_relay_event_is_current_def disconnect_fields
        mqtt_relay_capture_error_locked_def mqtt_relay_note_local_error_locked_def Let_def split: option.splits if_splits)
qed

lemma operation_closed:
  assumes "relay_operation w cx cx'" "lifecycle_rely w" "\<not> cx_publish_allowed cx"
  shows "\<not> cx_publish_allowed cx'"
  using assms(1)
proof cases
  case (test target cfg device_name err)
  let ?c = "cx\<lparr>cx_test_sequence := cx_test_sequence cx + 1\<rparr>"
  have "cx' = cx \<or> cx' = ?c \<or> (\<exists>n. mqtt_relay_observe_notification w target cfg n device_name ?c = Some cx')"
  proof (cases device_name)
    case None
    with test show ?thesis by (simp add: mqtt_relay_publish_test_notification_def)
  next
    case (Some d)
    show ?thesis
    proof (cases "d ! 0 = 0 \<or> \<not> online cx")
      case True
      have "mqtt_relay_publish_test_notification w target cfg (Some d) cx =
          (if d ! 0 = 0 then Some (ESP_ERR_INVALID_ARG, cx) else Some (ESP_ERR_INVALID_STATE, ?c))"
        unfolding mqtt_relay_publish_test_notification_def Let_def using True by (simp only: option.case if_True if_False not_not cong: if_cong) auto
      with test [unfolded Some] have "cx' = cx \<or> cx' = ?c" by (auto split: if_splits)
      then show ?thesis by blast
    next
      case False
      define n where "n = test_notification cfg (rw_now w ?c) (cx_test_sequence cx + 1)"
      have run: "do { n \<leftarrow> n; c \<leftarrow> mqtt_relay_observe_notification w target cfg (Some n) device_name ?c;
          Some (if rc_accepted (mqtt_relay_get_counters c) > rc_accepted (mqtt_relay_get_counters ?c) then ESP_OK
                else if rc_dropped_offline (mqtt_relay_get_counters c) > rc_dropped_offline (mqtt_relay_get_counters ?c)
                then ESP_ERR_INVALID_STATE else ESP_FAIL, c) } = Some (err, cx')"
        using test Some False by (simp add: mqtt_relay_publish_test_notification_def Let_def n_def)
      then obtain x where x: "n = Some x" by (cases n) auto
      then have "mqtt_relay_observe_notification w target cfg (Some x) device_name ?c = Some cx'"
        using run by (cases "mqtt_relay_observe_notification w target cfg (Some x) device_name ?c") auto
      then show ?thesis by blast
    qed
  qed
  moreover have "\<not> cx_publish_allowed ?c" using assms(3) by simp
  ultimately show ?thesis using assms(3) observe_closed [OF assms(2)] by metis
next
  case (wifi_status status err)
  then show ?thesis
    using assms(3) snapshot_closed [of "cx\<lparr>cx_wifi_status := the status\<rparr>" w err cx']
    by (auto simp: mqtt_relay_update_wifi_status_def split: option.splits if_splits)
next
  case (ble_status connected bonded err)
  then show ?thesis
    using assms(3) snapshot_closed [of "cx\<lparr>cx_ble_connected := connected, cx_ble_bonded := bonded\<rparr>" w err cx']
    by (auto simp: mqtt_relay_update_ble_status_def Let_def split: if_splits)
next
  case (diagnostics report err)
  then show ?thesis
    using assms(3) snapshot_closed [of "cx\<lparr>cx_diagnostics := the report\<rparr>" w err cx']
    by (auto simp: mqtt_relay_update_diagnostics_def split: option.splits if_splits)
next
  case (refresh err)
  with assms(3) show ?thesis using snapshot_closed by (auto simp: mqtt_relay_refresh_state_def)
next
  case (stop err)
  from undisturbed_allowed [OF stop_undisturbed [OF assms(2) this]] show ?thesis by simp
next
  case (deinit err)
  then show ?thesis by (auto simp: mqtt_relay_deinit_def context_zero_def Let_def split: bind_splits)
next
  case (event event_id event)
  from event_closed [OF assms(3) this] show ?thesis .
next
  case (observe target cfg n device_name)
  from observe_closed [OF assms(2,3) this] show ?thesis .
next
  case (worker running)
  from worker_closed [OF assms(2,3) this] show ?thesis .
next
  case (callback f err)
  then have "cx' = cx\<lparr>cx_event_callback := f\<rparr>" by (simp add: mqtt_relay_register_event_callback_def)
  with assms(3) show ?thesis by simp
next
  case (wifi connected)
  with assms(3) show ?thesis by (simp add: mqtt_relay_set_wifi_connected_def)
next
  case pause
  with assms(3) pause_closed [OF assms(2)] show ?thesis by metis
qed

text \<open>With the progress of the other tasks, a stop returns.\<close>

lemma idle_returns:
  assumes "\<And>c. cx_worker_busy c \<or> cx_publish_in_flight c > 0 \<Longrightarrow> m (rw_others w c) < (m c :: nat)"
  shows "\<exists>c. mqtt_relay_wait_worker_idle w cx = Some c" "\<exists>c. mqtt_relay_wait_publish_idle w cx = Some c"
  using wait_until_terminates [of "\<lambda>c. \<not> (cx_worker_busy c \<or> cx_publish_in_flight c > 0)" m "rw_others w" cx]
    wait_until_terminates [of "\<lambda>c. cx_publish_in_flight c = 0" m "rw_others w" cx] assms
  by (auto simp: mqtt_relay_wait_worker_idle_def mqtt_relay_wait_publish_idle_def word_neq_0_conv)

lemma stop_returns:
  assumes progress: "\<And>c. cx_worker_busy c \<or> cx_publish_in_flight c > 0 \<Longrightarrow> m (rw_others w c) < (m c :: nat)"
  shows "\<exists>err cx'. mqtt_relay_stop w cx = Some (err, cx')"
proof -
  obtain a where a: "mqtt_relay_wait_worker_idle w (mqtt_relay_handle_disconnect_locked cx) = Some a"
    using idle_returns(1) [of m w, OF progress] by blast
  have idle: "mqtt_relay_wait_publish_idle w b = None \<longleftrightarrow> False" for b
    using idle_returns(2) [of m w b, OF progress] by auto
  have "mqtt_relay_stop w cx \<noteq> None" using a by (auto simp: mqtt_relay_stop_def Let_def idle split: bind_splits)
  then show ?thesis by fastforce
qed

text \<open>
  C16: A stop ends, and it ends publishing until the relay is opened again. When every pause lets the other
  tasks make progress, as some number that decreases shows, the stop returns; when the other tasks
  respect the lock of the life cycle (\<open>lifecycle_rely\<close>), the client and the settings are then as before,
  and no publication can begin, at the return or after any sequence of events, notifications, turns of
  the worker, reports and other operations, another stop and the end included. Only a start, a
  reconnection, new settings or an initialization open the relay again.
\<close>

theorem stop_ends_publishing:
  assumes rely: "lifecycle_rely w"
    and progress: "\<And>c. cx_worker_busy c \<or> cx_publish_in_flight c > 0 \<Longrightarrow> m (rw_others w c) < (m c :: nat)"
  shows "\<exists>err cx'. mqtt_relay_stop w cx = Some (err, cx') \<and>
    cx_client cx' = cx_client cx \<and> cx_config cx' = cx_config cx \<and> cx_topics cx' = cx_topics cx \<and>
    (\<forall>later. (relay_operation w)\<^sup>*\<^sup>* cx' later \<longrightarrow> begin_publish later = None \<and> begin_enqueue later = None)"
proof -
  obtain err cx' where s: "mqtt_relay_stop w cx = Some (err, cx')" using stop_returns progress by blast
  note u = stop_undisturbed [OF rely s]
  have "\<not> cx_publish_allowed later" if "(relay_operation w)\<^sup>*\<^sup>* cx' later" for later
    using that
  proof (induction rule: rtranclp_induct)
    case base
    from undisturbed_allowed [OF u] show ?case by simp
  next
    case (step b c)
    from operation_closed [OF step(2) rely step.IH] show ?case .
  qed
  moreover have "begin_publish c = None \<and> begin_enqueue c = None" if "\<not> cx_publish_allowed c" for c
    using that by (simp add: begin_publish_def begin_enqueue_def split: option.split)
  moreover have "cx_client cx' = cx_client cx" "cx_config cx' = cx_config cx" "cx_topics cx' = cx_topics cx"
    using u by (simp_all add: undisturbed_def)
  ultimately show ?thesis using s by blast
qed

section \<open>An example\<close>

definition finishing_world :: relay_world where
  "finishing_world = sample_world\<lparr>rw_others := \<lambda>c. c\<lparr>cx_worker_busy := False, cx_publish_in_flight := 0\<rparr>\<rparr>"

lemma sample_world_rely: "lifecycle_rely sample_world" "lifecycle_rely finishing_world"
  by (auto simp: lifecycle_rely_def sample_world_def finishing_world_def undisturbed_def)

theorem stop_ends_publishing_witness:
  "\<exists>err cx'. mqtt_relay_stop finishing_world (sample_online\<lparr>cx_client := Some 7, cx_publish_allowed := True,
       cx_worker_busy := True, cx_publish_in_flight := 1\<rparr>) = Some (err, cx') \<and>
    cx_client cx' = Some 7 \<and> begin_publish (mqtt_relay_set_wifi_connected True cx') = None"
proof -
  let ?cx = "sample_online\<lparr>cx_client := Some 7, cx_publish_allowed := True, cx_worker_busy := True, cx_publish_in_flight := 1\<rparr>"
  define m :: "mqtt_relay_context \<Rightarrow> nat" where "m = (\<lambda>c. if cx_worker_busy c \<or> cx_publish_in_flight c > 0 then 1 else 0 :: nat)"
  have p: "m (rw_others finishing_world c) < m c" if "cx_worker_busy c \<or> cx_publish_in_flight c > 0" for c
    using that by (simp add: m_def finishing_world_def)
  obtain err cx' where s: "mqtt_relay_stop finishing_world ?cx = Some (err, cx')" "cx_client cx' = cx_client ?cx"
      "\<forall>later. (relay_operation finishing_world)\<^sup>*\<^sup>* cx' later \<longrightarrow> begin_publish later = None \<and> begin_enqueue later = None"
    using stop_ends_publishing [of _ m, OF sample_world_rely(2) p, of ?cx] by blast
  have "(relay_operation finishing_world)\<^sup>*\<^sup>* cx' (mqtt_relay_set_wifi_connected True cx')"
    by (intro r_into_rtranclp relay_operation.wifi)
  with s show ?thesis by auto
qed

end
