(* ===== verification/Mqtt_Worker_Correct.thy ===== *)
theory Mqtt_Worker_Correct
  imports Mqtt_Observer
begin

text \<open>
  The worker of the relay: it empties the queue in order and ends, and it announces the device once
  after a boot.
\<close>

section \<open>Draining the queue\<close>

lemma take_item_none: "(\<And>i. i \<in> set items \<Longrightarrow> it_msg_id i \<noteq> msg_id) \<Longrightarrow> take_item msg_id items = None"
  by (induction items) auto

lemma enqueue_raw_queue:
  assumes "\<And>client t p q r c. length (queued (snd (rw_enqueue w client t p q r c))) \<le> length (queued c)"
  shows "length (queued (snd (mqtt_relay_enqueue_raw w t p q r cx))) \<le> length (queued cx)"
proof (cases "rw_hook w = None \<and> begin_enqueue cx \<noteq> None")
  case True
  then obtain client c where b: "begin_enqueue cx = Some (client, c)" by auto
  let ?e = "perform (Enqueue client (cstr t) (cstr p) q r) c"
  have "queued (end_publish c') = queued c'" for c' by (simp add: end_publish_def queued_def)
  moreover have "queued ?e = queued cx"
    using b by (auto simp: begin_enqueue_def begin_publish_def queued_def perform_def split: option.splits if_splits)
  moreover have "length (queued (snd (rw_enqueue w client (cstr t) (cstr p) q r ?e))) \<le> length (queued ?e)" by (rule assms)
  ultimately show ?thesis using True b by (auto simp: mqtt_relay_enqueue_raw_def split: prod.splits)
next
  case False
  then show ?thesis by (auto simp: mqtt_relay_enqueue_raw_def split: option.splits)
qed

lemma drain_settle_queue: "queued (drain_settle item msg_id cx) = queued cx"
  by (simp add: drain_settle_def Let_def queued_def mqtt_relay_free_item_def perform_def mqtt_relay_track_pending_locked_def)

lemma drain_turn_shorter:
  assumes "\<And>client t p q r c. length (queued (snd (rw_enqueue w client t p q r c))) \<le> length (queued c)"
    and "drain_turn w cx = Some cx'"
  shows "length (queued cx') < length (queued cx)"
proof -
  obtain item c where c: "drain_take cx = Some (item, c)" "cx' = drain_settle item
      (fst (mqtt_relay_enqueue_raw w (it_topic item) (it_payload item) MQTT_RELAY_NOTIFICATION_QOS
        MQTT_RELAY_NOTIFICATION_RETAIN c))
      (snd (mqtt_relay_enqueue_raw w (it_topic item) (it_payload item) MQTT_RELAY_NOTIFICATION_QOS
        MQTT_RELAY_NOTIFICATION_RETAIN c))"
    using assms(2) by (auto simp: drain_turn_def split: option.splits prod.splits)
  have "length (queued cx) = Suc (length (queued c))"
    using c(1) by (auto simp: drain_take_def queued_def split: option.splits list.splits if_splits)
  with enqueue_raw_queue [OF assms(1), of "it_topic item" "it_payload item" MQTT_RELAY_NOTIFICATION_QOS
      MQTT_RELAY_NOTIFICATION_RETAIN c] show ?thesis
    by (simp add: c(2) drain_settle_queue)
qed

text \<open>
  The worker comes to an end: when the queue does not grow while a message is handed to the client,
  the loop over the queue returns, and then the queue is empty or the connection is lost.
\<close>

theorem drain_queue_terminates:
  assumes "\<And>client t p q r c. length (queued (snd (rw_enqueue w client t p q r c))) \<le> length (queued c)"
  shows "\<exists>cx'. mqtt_relay_drain_queue w cx = Some cx' \<and> (queued cx' = [] \<or> \<not> cx_mqtt_connected cx')"
proof (induction "length (queued cx)" arbitrary: cx rule: less_induct)
  case less
  show ?case
  proof (cases "drain_turn w cx")
    case None
    then have "drain_take cx = None" by (auto simp: drain_turn_def split: option.splits prod.splits)
    then have "queued cx = [] \<or> \<not> cx_mqtt_connected cx"
      by (auto simp: drain_take_def queued_def split: option.splits list.splits if_splits)
    with None show ?thesis by (subst mqtt_relay_drain_queue.simps) simp
  next
    case (Some cx')
    from less [OF drain_turn_shorter [OF assms Some]] Some show ?thesis
      by (subst mqtt_relay_drain_queue.simps) simp
  qed
qed

theorem drain_queue_terminates_witness:
  "\<exists>cx'. mqtt_relay_drain_queue sample_world (sample_online\<lparr>cx_queue := Some [sample_item]\<rparr>) = Some cx' \<and>
     (queued cx' = [] \<or> \<not> cx_mqtt_connected cx')"
  by (rule drain_queue_terminates) (simp add: sample_world_def)









section \<open>An early acknowledgement\<close>

text \<open>
  C20: An acknowledgement that comes before the worker has noted the number of the message is lost: the
  message waits among the pending ones for an acknowledgement that was already given, it is not freed
  and not counted as acknowledged. For retained messages the code keeps early acknowledgements; here
  it does not, and the message stays allocated until the connection ends.
\<close>

theorem early_acknowledgement_lost:
  assumes "drain_take cx = Some (item, c1)" "msg_id > 0" "\<forall>i \<in> set (cx_pending cx). it_msg_id i \<noteq> msg_id"
    and "mqtt_relay_handle_published_locked msg_id c1 = Some c2"
  shows "cx_pending (drain_settle item msg_id c2) = item\<lparr>it_msg_id := msg_id\<rparr> # cx_pending cx \<and>
    freed (drain_settle item msg_id c2) = freed cx \<and>
    rc_published_ack (cx_counters (drain_settle item msg_id c2)) = rc_published_ack (cx_counters cx)"
proof -
  have c1: "cx_pending c1 = cx_pending cx" "cx_mqtt_connected c1" "freed c1 = freed cx" "cx_counters c1 = cx_counters cx"
    using assms(1) by (auto simp: drain_take_def freed_def split: option.splits list.splits if_splits)
  have "take_item msg_id (cx_pending c1) = None"
    using assms(3) c1(1) by (auto intro: take_item_none)
  then have "note_retained_ack msg_id c1 = Some c2"
    using assms(4) by (simp add: mqtt_relay_handle_published_locked_def mqtt_relay_take_pending_locked_def)
  then have "cx_pending c2 = cx_pending cx" "cx_mqtt_connected c2" "freed c2 = freed cx" "cx_counters c2 = cx_counters cx"
    using c1 by (auto simp: note_retained_ack_def freed_def bind_eq_Some_conv split: if_splits)
  then show ?thesis using assms(2) by (simp add: drain_settle_def Let_def mqtt_relay_track_pending_locked_def freed_def)
qed

theorem early_acknowledgement_lost_witness:
  "\<exists>c1 c2. drain_take (sample_online\<lparr>cx_queue := Some [sample_item]\<rparr>) = Some (sample_item, c1) \<and>
     mqtt_relay_handle_published_locked 5 c1 = Some c2 \<and>
     cx_pending (drain_settle sample_item 5 c2) = [sample_item\<lparr>it_msg_id := 5\<rparr>]"
proof -
  let ?cx = "sample_online\<lparr>cx_queue := Some [sample_item]\<rparr>"
  let ?c1 = "?cx\<lparr>cx_queue := Some [], cx_worker_busy := True\<rparr>"
  have t: "drain_take ?cx = Some (sample_item, ?c1)" by (simp add: drain_take_def sample_online_def)
  have p: "cx_pending ?cx = []" by (simp add: sample_online_def context_zero_def)
  have h: "mqtt_relay_handle_published_locked 5 ?c1 = Some ?c1"
    by (simp add: mqtt_relay_handle_published_locked_def mqtt_relay_take_pending_locked_def note_retained_ack_def
        sample_online_def context_zero_def)
  have five: "(0::int) < 5" and none: "\<forall>i \<in> set (cx_pending ?cx). it_msg_id i \<noteq> 5" by (simp_all add: p)
  from early_acknowledgement_lost [OF t five none h] t h p show ?thesis by auto
qed

section \<open>The messages after a connection\<close>
































end
