(* ===== verification/Client_Context.thy ===== *)
theory Client_Context
  imports Ancs_State Ble_Enroll App_Data_Parser Request_Queue App_Resolver
begin

text \<open>
  The state of the Bluetooth client, \<^verbatim>\<open>components/ancs_client/ancs_client.c\<close>, and the operations its worker, the
  callbacks of the Bluetooth stack and the timers share.
\<close>

section \<open>Data\<close>

text \<open>The build options of the component (\<^verbatim>\<open>components/ancs_client/Kconfig\<close>), beside those of the protocol.\<close>

record client_config =
  PROTOCOL :: ancs_config
  REQUEST_TIMEOUT_MS :: int
  WORK_QUEUE_LENGTH :: nat
  MAX_FRAGMENT_SIZE :: nat
  CACHE_CAPACITY :: nat
  DUPLICATE_WINDOW_MS :: int
  ENROLL_WINDOW_MS :: int
  ENROLL_BOOT_HOLD_MS :: int
  ENROLL_BUTTON_DEBOUNCE_MS :: int

definition default_client :: client_config where
  "default_client = \<lparr>PROTOCOL = default_config, REQUEST_TIMEOUT_MS = 3000, WORK_QUEUE_LENGTH = 24,
     MAX_FRAGMENT_SIZE = 512, CACHE_CAPACITY = 4, DUPLICATE_WINDOW_MS = 500, ENROLL_WINDOW_MS = 120000,
     ENROLL_BOOT_HOLD_MS = 3000, ENROLL_BUTTON_DEBOUNCE_MS = 20\<rparr>"

definition client_config_ok :: "client_config \<Rightarrow> bool" where
  "client_config_ok cfg \<longleftrightarrow> config_ok (PROTOCOL cfg) \<and>
     1000 \<le> REQUEST_TIMEOUT_MS cfg \<and> REQUEST_TIMEOUT_MS cfg \<le> 30000 \<and>
     8 \<le> WORK_QUEUE_LENGTH cfg \<and> WORK_QUEUE_LENGTH cfg \<le> 64 \<and>
     64 \<le> MAX_FRAGMENT_SIZE cfg \<and> MAX_FRAGMENT_SIZE cfg \<le> 1024 \<and>
     1 \<le> CACHE_CAPACITY cfg \<and> CACHE_CAPACITY cfg \<le> 8 \<and>
     100 \<le> DUPLICATE_WINDOW_MS cfg \<and> DUPLICATE_WINDOW_MS cfg \<le> 5000 \<and>
     10000 \<le> ENROLL_WINDOW_MS cfg \<and> ENROLL_WINDOW_MS cfg \<le> 600000 \<and>
     500 \<le> ENROLL_BOOT_HOLD_MS cfg \<and> ENROLL_BOOT_HOLD_MS cfg \<le> 30000 \<and>
     5 \<le> ENROLL_BUTTON_DEBOUNCE_MS cfg \<and> ENROLL_BUTTON_DEBOUNCE_MS cfg \<le> 250"

lemma default_client_ok [simp]: "client_config_ok default_client"
  by (simp add: client_config_ok_def default_client_def)

definition CONTROL_REQUEST_MAX :: "client_config \<Rightarrow> nat" where
  "CONTROL_REQUEST_MAX cfg = APP_ID_MAX (PROTOCOL cfg) + 3"

definition ANCS_AUTH_TIMEOUT_MS :: int where "ANCS_AUTH_TIMEOUT_MS = 30000"
definition ANCS_DISCOVERY_TIMEOUT_MS :: int where "ANCS_DISCOVERY_TIMEOUT_MS = 15000"
definition ANCS_SUBSCRIBE_TIMEOUT_MS :: int where "ANCS_SUBSCRIBE_TIMEOUT_MS = 10000"
definition ANCS_PREPARE_TIMEOUT_MS :: int where "ANCS_PREPARE_TIMEOUT_MS = 90000"
definition ANCS_DISCOVERY_RETRIES :: u8 where "ANCS_DISCOVERY_RETRIES = 2"
definition ADVERTISING_BACKOFF_MAX_MS :: nat where "ADVERTISING_BACKOFF_MAX_MS = 4000"
definition AUTH_FAILURE_REPAIR_THRESHOLD :: u8 where "AUTH_FAILURE_REPAIR_THRESHOLD = 3"
definition AUTH_FAILURE_WINDOW_MS :: int where "AUTH_FAILURE_WINDOW_MS = 120000"
definition INVALID_HANDLE :: u16 where "INVALID_HANDLE = 0"
definition ESP_GATT_IF_NONE :: u8 where "ESP_GATT_IF_NONE = 0xFF"
definition ADV_DATA_PENDING :: u8 where "ADV_DATA_PENDING = push_bit 0 1"
definition SCAN_RESPONSE_PENDING :: u8 where "SCAN_RESPONSE_PENDING = push_bit 1 1"

text \<open>The work the callbacks leave to the worker; a fragment is on the heap and the item has its pointer.\<close>

datatype work_data =
    WORK_NOTIFICATION_EVENT ancs_notification_event
  | WORK_DATA_FRAGMENT "bytes option"
  | WORK_CONTROL_WRITE_RESULT int
  | WORK_SESSION_RESET

record work_item =
  wi_generation :: u32
  wi_data :: work_data

datatype active_request_kind = ACTIVE_REQUEST_NOTIFICATION_ATTRIBUTES | ACTIVE_REQUEST_APP_ATTRIBUTES

record cache_entry =
  ce_used :: bool
  ce_age :: u32
  ce_notification :: ancs_notification

datatype client_timer = ADVERTISING_RETRY_TIMER | DISCOVERY_RETRY_TIMER | ENROLL_TIMER | BUTTON_TIMER

text \<open>
  \<open>client_context_t\<close>. The work queue is the list of its items, the next one first; a timer is there or not.
  Times are milliseconds since the boot.
\<close>

record client_context =
  cl_state :: ancs_client_state
  cl_initialized :: bool
  cl_gattc_if :: u8
  cl_conn_id :: u16
  cl_remote_bda :: bytes
  cl_remote_addr_type :: nat
  cl_device_name :: bytes
  cl_connected :: bool
  cl_bonded :: bool
  cl_session_authenticated :: bool
  cl_link_encrypted :: bool
  cl_closing :: bool
  cl_close_attempts :: u8
  cl_close_retry_due_ms :: int
  cl_mtu_ready :: bool
  cl_discovery_in_progress :: bool
  cl_service_found :: bool
  cl_data_source_subscribed :: bool
  cl_notification_source_subscribed :: bool
  cl_ready :: bool
  cl_service_start_handle :: u16
  cl_service_end_handle :: u16
  cl_notification_source_handle :: u16
  cl_data_source_handle :: u16
  cl_control_point_handle :: u16
  cl_data_source_cccd_handle :: u16
  cl_notification_source_cccd_handle :: u16
  cl_session_id :: u32
  cl_generation :: u32
  cl_auth_error :: int
  cl_last_auth_error :: int
  cl_last_auth_error_at_ms :: u64
  cl_auth_failure_count :: u8
  cl_last_auth_failure_ms :: int
  cl_pairing_repair_required :: bool
  cl_bond_store_error :: esp_err
  cl_boot_bond_count :: int
  cl_last_stage_error :: esp_err
  cl_last_disconnect_reason :: int
  cl_stage_deadline_ms :: int
  cl_prepare_deadline_ms :: int
  cl_discovery_retry_due_ms :: int
  cl_discovery_retry_generation :: u32
  cl_pending_notify_handle :: u16
  cl_pending_notify_generation :: u32
  cl_advertising :: bool
  cl_advertising_starting :: bool
  cl_advertising_attempt :: u8
  cl_discovery_attempt :: u8
  cl_adv_config_pending :: u8
  cl_work_queue :: "work_item list option"
  cl_worker_task :: bool
  cl_timers :: "client_timer list"
  cl_replace_pending :: bool
  cl_reopen_after_disconnect :: bool
  cl_last_replace_error :: esp_err
  cl_boot_held_callback :: "nat option"
  cl_boot_held_callback_context :: nat

text \<open>The initial value of \<open>s_client\<close>, a static object.\<close>

definition client_boot :: client_context where
  "client_boot = \<lparr>cl_state = ANCS_STATE_BOOT, cl_initialized = False, cl_gattc_if = ESP_GATT_IF_NONE, cl_conn_id = 0,
     cl_remote_bda = replicate 6 0, cl_remote_addr_type = 0, cl_device_name = replicate 32 0,
     cl_connected = False, cl_bonded = False, cl_session_authenticated = False, cl_link_encrypted = False,
     cl_closing = False, cl_close_attempts = 0, cl_close_retry_due_ms = 0, cl_mtu_ready = False,
     cl_discovery_in_progress = False, cl_service_found = False, cl_data_source_subscribed = False,
     cl_notification_source_subscribed = False, cl_ready = False,
     cl_service_start_handle = 0, cl_service_end_handle = 0, cl_notification_source_handle = 0,
     cl_data_source_handle = 0, cl_control_point_handle = 0, cl_data_source_cccd_handle = 0,
     cl_notification_source_cccd_handle = 0, cl_session_id = 0, cl_generation = 0, cl_auth_error = 0,
     cl_last_auth_error = 0, cl_last_auth_error_at_ms = 0, cl_auth_failure_count = 0, cl_last_auth_failure_ms = 0,
     cl_pairing_repair_required = False, cl_bond_store_error = ESP_ERR_INVALID_STATE, cl_boot_bond_count = -1,
     cl_last_stage_error = ESP_OK, cl_last_disconnect_reason = 0, cl_stage_deadline_ms = 0,
     cl_prepare_deadline_ms = 0, cl_discovery_retry_due_ms = 0, cl_discovery_retry_generation = 0,
     cl_pending_notify_handle = 0, cl_pending_notify_generation = 0, cl_advertising = False,
     cl_advertising_starting = False, cl_advertising_attempt = 0, cl_discovery_attempt = 0,
     cl_adv_config_pending = 0, cl_work_queue = None, cl_worker_task = False, cl_timers = [],
     cl_replace_pending = False, cl_reopen_after_disconnect = False, cl_last_replace_error = ESP_OK,
     cl_boot_held_callback = None, cl_boot_held_callback_context = 0\<rparr>"

text \<open>What the tasks share: \<open>s_client\<close>, \<open>s_enroll\<close> and \<open>s_enroll_button\<close>, all behind one critical section.\<close>

record client_shared =
  sh_client :: client_context
  sh_enroll :: ble_enroll_state
  sh_button :: ble_enroll_button

text \<open>The calls of the set-up and of its undoing; the security parameters have the values the code gives them.\<close>

datatype security_param =
    SET_STATIC_PASSKEY u32 | AUTHEN_REQ_MODE | IOCAP_MODE | MAX_KEY_SIZE | ONLY_ACCEPT_SPECIFIED_SEC_AUTH
  | OOB_SUPPORT | SET_INIT_KEY | SET_RSP_KEY

datatype init_call =
    NvsFlashInit | DeviceCredentialsInit | ReadBaseMac | QueueCreate | TaskCreate | TimerCreate client_timer
  | GpioConfig | MemRelease | ControllerInit | ControllerEnable | BluedroidInit | BluedroidEnable | HidServerInit
  | RegisterGattcCallback | RegisterGapCallback | SetLocalMtu nat | SetSecurityParam security_param | AppRegister
  | TimerStartPeriodic client_timer nat
  | BluedroidDisable | BluedroidDeinit | ControllerDisable | ControllerDeinit | TimerDelete client_timer
  | TaskDelete | QueueDelete

text \<open>What a task asks of the Bluetooth stack and of the rest of the firmware, the newest first.\<close>

datatype client_effect =
    PublishNotification ancs_notification bytes
  | PublishState bytes u32 bool bool bool int
  | FreeFragment "bytes option"
  | WriteChar u8 u16 u16 bytes
  | WriteDescr u8 u16 u16 bytes
  | RegisterForNotify u8 bytes u16
  | SearchService u8 u16
  | EnhOpen u8 bytes
  | SendMtuRequest u8 u16
  | SetEncryption bytes
  | SecurityResponse bytes bool
  | ConfirmReply bytes bool
  | GapDisconnect bytes
  | StartAdvertising
  | StopAdvertising
  | ConfigAdvData bool
  | SetDeviceName bytes
  | ConfigLocalPrivacy
  | RemoveBond bytes
  | TimerStop client_timer
  | TimerStart client_timer nat
  | BootHeld nat nat
  | Initialize init_call

text \<open>A run of a task: the shared state as it sees it, the number of its steps so far, and what it asked for.\<close>

record client_task =
  ct_shared :: client_shared
  ct_turn :: nat
  ct_effects :: "client_effect list"

text \<open>
  What the client relies on, by the number of the step: the changes the other tasks made to the shared
  state, the clock, the answers of the Bluetooth stack, the store of bonds and the allocator. The
  stack's lists of characteristics and descriptors come with a status. The hardware address, the passkey of the
  device and the name of its family are there too.
\<close>

record gattc_char =
  gc_uuid :: bytes
  gc_handle :: u16
  gc_properties :: u8

record gattc_descr =
  gd_uuid16 :: "u16 option"
  gd_handle :: u16

record client_world =
  cw_others :: "nat \<Rightarrow> client_shared \<Rightarrow> client_shared"
  cw_now :: "nat \<Rightarrow> int"
  cw_answer :: "nat \<Rightarrow> esp_err"
  cw_alloc :: "nat \<Rightarrow> bool"
  cw_bond_num :: "nat \<Rightarrow> int"
  cw_bond_list :: "nat \<Rightarrow> esp_err \<times> bytes list"
  cw_hid_ready :: "nat \<Rightarrow> bool"
  cw_attr_count :: "nat \<Rightarrow> bool \<times> nat"
  cw_chars :: "nat \<Rightarrow> bool \<times> gattc_char list"
  cw_descrs :: "nat \<Rightarrow> bool \<times> gattc_descr list"
  cw_button_level :: "nat \<Rightarrow> bool"
  cw_base_mac :: "nat \<Rightarrow> bytes"
  cw_passkey :: u32
  cw_device_family :: bytes

section \<open>Steps of a task\<close>

text \<open>\<open>ask\<close> reads an answer of the world; \<open>acquire\<close> enters the critical section, after what the others did.\<close>

definition ask :: "(nat \<Rightarrow> 'b) \<Rightarrow> 'a client_task_scheme \<Rightarrow> 'b \<times> 'a client_task_scheme" where
  "ask f s = (f (ct_turn s), s\<lparr>ct_turn := ct_turn s + 1\<rparr>)"

definition acquire :: "client_world \<Rightarrow> 'a client_task_scheme \<Rightarrow> 'a client_task_scheme" where
  "acquire w s = s\<lparr>ct_shared := cw_others w (ct_turn s) (ct_shared s), ct_turn := ct_turn s + 1\<rparr>"

definition act :: "client_effect \<Rightarrow> 'a client_task_scheme \<Rightarrow> 'a client_task_scheme" where
  "act e s = s\<lparr>ct_effects := e # ct_effects s\<rparr>"

definition request ::
  "client_world \<Rightarrow> client_effect \<Rightarrow> 'a client_task_scheme \<Rightarrow> esp_err \<times> 'a client_task_scheme" where
  "request w e s = ask (cw_answer w) (act e s)"

definition now_ms :: "client_world \<Rightarrow> 'a client_task_scheme \<Rightarrow> int \<times> 'a client_task_scheme" where
  "now_ms w s = ask (cw_now w) s"

abbreviation client :: "'a client_task_scheme \<Rightarrow> client_context" where
  "client s \<equiv> sh_client (ct_shared s)"

abbreviation enroll :: "'a client_task_scheme \<Rightarrow> ble_enroll_state" where
  "enroll s \<equiv> sh_enroll (ct_shared s)"

definition set_client :: "(client_context \<Rightarrow> client_context) \<Rightarrow> 'a client_task_scheme \<Rightarrow> 'a client_task_scheme" where
  "set_client f s = s\<lparr>ct_shared := (ct_shared s)\<lparr>sh_client := f (client s)\<rparr>\<rparr>"

definition set_enroll ::
  "(ble_enroll_state option \<Rightarrow> ble_enroll_state option) \<Rightarrow> 'a client_task_scheme \<Rightarrow> 'a client_task_scheme" where
  "set_enroll f s = s\<lparr>ct_shared := (ct_shared s)\<lparr>sh_enroll :=
     (case f (Some (enroll s)) of None \<Rightarrow> enroll s | Some e \<Rightarrow> e)\<rparr>\<rparr>"

section \<open>Enrollment and bonds\<close>

definition enroll_window_active_now :: "client_world \<Rightarrow> 'a client_task_scheme \<Rightarrow> bool \<times> 'a client_task_scheme" where
  "enroll_window_active_now w s =
    (let (now, s) = now_ms w s; s = acquire w s in (ble_enroll_window_active (Some (enroll s)) now, s))"

definition enroll_should_advertise_now :: "client_world \<Rightarrow> 'a client_task_scheme \<Rightarrow> bool \<times> 'a client_task_scheme" where
  "enroll_should_advertise_now w s =
    (let (now, s) = now_ms w s;
         s = acquire w s;
         s = (if es_window_open (enroll s) \<and> \<not> ble_enroll_window_active (Some (enroll s)) now
              then set_enroll ble_enroll_close_window s else s)
     in (ble_enroll_should_advertise (Some (enroll s)) now, s))"

definition current_bond_count :: "client_world \<Rightarrow> 'a client_task_scheme \<Rightarrow> int \<times> 'a client_task_scheme" where
  "current_bond_count w s = ask (cw_bond_num w) s"

text \<open>The stack fills at most the entries the caller has room for.\<close>

definition read_bonds ::
  "client_world \<Rightarrow> int \<Rightarrow> 'a client_task_scheme \<Rightarrow> (esp_err \<times> bytes list) \<times> 'a client_task_scheme" where
  "read_bonds w bond_count s =
    (let ((err, bonds), s) = ask (cw_bond_list w) s in ((err, take (nat bond_count) bonds), s))"

definition bond_list_contains_peer ::
  "client_world \<Rightarrow> bytes option \<Rightarrow> 'a client_task_scheme \<Rightarrow> bool \<times> 'a client_task_scheme" where
  "bond_list_contains_peer w peer_addr s =
    (case peer_addr of
       None \<Rightarrow> (False, s)
     | Some peer \<Rightarrow>
         let (bond_count, s) = current_bond_count w s
         in if bond_count \<le> 0 then (False, s)
            else let (room, s) = ask (cw_alloc w) s
              in if \<not> room then (False, s)
                 else let ((err, bonds), s) = read_bonds w bond_count s
                   in (err = ESP_OK \<and> peer \<in> set bonds, s))"

definition connection_peer_allowed ::
  "client_world \<Rightarrow> bytes option \<Rightarrow> 'a client_task_scheme \<Rightarrow> bool \<times> 'a client_task_scheme" where
  "connection_peer_allowed w peer_addr s =
    (let (count, s) = current_bond_count w s
     in if count < 0 then (False, s)
        else if count > 0 then bond_list_contains_peer w peer_addr s
        else enroll_window_active_now w s)"

definition connection_event_matches ::
  "client_world \<Rightarrow> u16 \<Rightarrow> bytes option \<Rightarrow> 'a client_task_scheme \<Rightarrow> bool \<times> 'a client_task_scheme" where
  "connection_event_matches w conn_id peer_addr s =
    (case peer_addr of
       None \<Rightarrow> (False, s)
     | Some peer \<Rightarrow>
         let s = acquire w s
         in (cl_connected (client s) \<and> cl_conn_id (client s) = conn_id \<and> cl_remote_bda (client s) = peer, s))"

definition gatt_connection_matches ::
  "client_world \<Rightarrow> u16 \<Rightarrow> 'a client_task_scheme \<Rightarrow> bool \<times> 'a client_task_scheme" where
  "gatt_connection_matches w conn_id s =
    (let s = acquire w s
     in (cl_connected (client s) \<and> \<not> cl_closing (client s) \<and> cl_conn_id (client s) = conn_id, s))"

definition authentication_event_matches ::
  "client_world \<Rightarrow> bytes option \<Rightarrow> 'a client_task_scheme \<Rightarrow> bool \<times> 'a client_task_scheme" where
  "authentication_event_matches w peer_addr s =
    (case peer_addr of
       None \<Rightarrow> (False, s)
     | Some peer \<Rightarrow>
         let s = acquire w s
         in (cl_connected (client s) \<and> \<not> cl_closing (client s) \<and> \<not> cl_session_authenticated (client s) \<and>
             cl_remote_bda (client s) = peer, s))"

section \<open>Reading and publishing the state\<close>

definition current_generation :: "client_world \<Rightarrow> 'a client_task_scheme \<Rightarrow> u32 \<times> 'a client_task_scheme" where
  "current_generation w s = (let s = acquire w s in (cl_generation (client s), s))"

definition current_session_id :: "client_world \<Rightarrow> 'a client_task_scheme \<Rightarrow> u32 \<times> 'a client_task_scheme" where
  "current_session_id w s = (let s = acquire w s in (cl_session_id (client s), s))"

definition current_state :: "client_world \<Rightarrow> 'a client_task_scheme \<Rightarrow> ancs_client_state \<times> 'a client_task_scheme" where
  "current_state w s = (let s = acquire w s in (cl_state (client s), s))"

definition client_ready :: "client_world \<Rightarrow> 'a client_task_scheme \<Rightarrow> bool \<times> 'a client_task_scheme" where
  "client_ready w s = (let s = acquire w s in (cl_ready (client s), s))"

text \<open>The notification sink prints the notification and calls the observers; see \<open>Notification_Sink\<close>.\<close>

definition publish_notification :: "ancs_notification \<Rightarrow> 'a client_task_scheme \<Rightarrow> 'a client_task_scheme" where
  "publish_notification n s = act (PublishNotification n (cl_device_name (client s))) s"

definition publish_state :: "client_world \<Rightarrow> 'a client_task_scheme \<Rightarrow> 'a client_task_scheme" where
  "publish_state w s =
    (let s = acquire w s; c = client s
     in act (PublishState (ancs_client_state_name (cl_state c)) (cl_session_id c) (cl_bonded c)
          (cl_data_source_subscribed c) (cl_notification_source_subscribed c) (cl_auth_error c)) s)"

text \<open>The common part of \<open>set_state\<close> and \<open>transition\<close>: the new state is published when it differs.\<close>

definition move_state ::
  "client_world \<Rightarrow> (ancs_client_state \<Rightarrow> ancs_client_state) \<Rightarrow> 'a client_task_scheme \<Rightarrow> 'a client_task_scheme" where
  "move_state w f s =
    (let s = acquire w s;
         state = f (cl_state (client s));
         changed = (cl_state (client s) \<noteq> state);
         s = set_client (\<lambda>c. c\<lparr>cl_state := state\<rparr>) s
     in if \<not> changed then s else publish_state w s)"

definition set_state :: "client_world \<Rightarrow> ancs_client_state \<Rightarrow> 'a client_task_scheme \<Rightarrow> 'a client_task_scheme" where
  "set_state w state s = move_state w (\<lambda>_. state) s"

definition transition :: "client_world \<Rightarrow> ancs_client_signal \<Rightarrow> 'a client_task_scheme \<Rightarrow> 'a client_task_scheme" where
  "transition w signal s = move_state w (\<lambda>state. ancs_client_state_after state signal) s"

section \<open>Authentication failures and handles\<close>

definition clear_auth_failure_guard_locked :: "client_context \<Rightarrow> client_context" where
  "clear_auth_failure_guard_locked c = c\<lparr>cl_auth_error := 0, cl_auth_failure_count := 0,
     cl_last_auth_failure_ms := 0, cl_pairing_repair_required := False\<rparr>"

definition record_auth_failure_locked ::
  "int \<Rightarrow> bool \<Rightarrow> 'a client_task_scheme \<Rightarrow> bool \<times> 'a client_task_scheme" where
  "record_auth_failure_locked failure_at_ms missing_local_bond s =
    (let s = set_client (\<lambda>c. if cl_auth_failure_count c = 0 \<or> failure_at_ms < cl_last_auth_failure_ms c \<or>
               failure_at_ms - cl_last_auth_failure_ms c > AUTH_FAILURE_WINDOW_MS
             then c\<lparr>cl_auth_failure_count := 0\<rparr> else c) s;
         s = set_client (\<lambda>c. c\<lparr>cl_last_auth_failure_ms := failure_at_ms,
               cl_auth_failure_count := (if cl_auth_failure_count c < UINT8_MAX then cl_auth_failure_count c + 1
                                         else cl_auth_failure_count c)\<rparr>) s;
         s = (if missing_local_bond \<and> cl_auth_failure_count (client s) \<ge> AUTH_FAILURE_REPAIR_THRESHOLD
              then set_enroll ble_enroll_close_window (set_client (\<lambda>c. c\<lparr>cl_pairing_repair_required := True\<rparr>) s)
              else s)
     in (cl_pairing_repair_required (client s), s))"

definition invalidate_ancs_handles_locked :: "client_context \<Rightarrow> client_context" where
  "invalidate_ancs_handles_locked c = c\<lparr>cl_service_found := False, cl_discovery_in_progress := False,
     cl_ready := False, cl_data_source_subscribed := False, cl_notification_source_subscribed := False,
     cl_service_start_handle := INVALID_HANDLE, cl_service_end_handle := INVALID_HANDLE,
     cl_notification_source_handle := INVALID_HANDLE, cl_data_source_handle := INVALID_HANDLE,
     cl_control_point_handle := INVALID_HANDLE, cl_data_source_cccd_handle := INVALID_HANDLE,
     cl_notification_source_cccd_handle := INVALID_HANDLE, cl_pending_notify_handle := INVALID_HANDLE,
     cl_pending_notify_generation := 0\<rparr>"

definition invalidate_ancs_handles :: "client_world \<Rightarrow> 'a client_task_scheme \<Rightarrow> 'a client_task_scheme" where
  "invalidate_ancs_handles w s = set_client invalidate_ancs_handles_locked (acquire w s)"

section \<open>The work queue\<close>

definition free_work_item :: "work_item \<Rightarrow> 'a client_task_scheme \<Rightarrow> 'a client_task_scheme" where
  "free_work_item item s =
    (case wi_data item of WORK_DATA_FRAGMENT fragment \<Rightarrow> act (FreeFragment fragment) s | _ \<Rightarrow> s)"

definition enqueue_work ::
  "client_world \<Rightarrow> client_config \<Rightarrow> work_item \<Rightarrow> 'a client_task_scheme \<Rightarrow> bool \<times> 'a client_task_scheme" where
  "enqueue_work w cfg item s =
    (let s = acquire w s
     in case cl_work_queue (client s) of
          None \<Rightarrow> (False, s)
        | Some items \<Rightarrow>
            if length items \<ge> WORK_QUEUE_LENGTH cfg then (False, s)
            else (True, set_client (\<lambda>c. c\<lparr>cl_work_queue := Some (items @ [item])\<rparr>) s))"

end
