(* ===== verification/Client_Link.thy ===== *)
theory Client_Link
  imports Client_Context
begin

text \<open>
  The connection to the phone in \<^verbatim>\<open>components/ancs_client/ancs_client.c\<close>: advertising, the deadlines of the set-up
  of a connection, the discovery of the service and its subscriptions, the bonds and the enrollment.
\<close>

section \<open>Advertising\<close>

definition schedule_advertising_retry :: "client_world \<Rightarrow> 'a client_task_scheme \<Rightarrow> 'a client_task_scheme" where
  "schedule_advertising_retry w s =
    (let s = acquire w s; (now, s) = now_ms w s; c = client s
     in if cl_connected c \<or> cl_advertising c \<or> cl_advertising_starting c \<or>
           \<not> ble_enroll_should_advertise (Some (enroll s)) now
        then s
        else let shift = (if cl_advertising_attempt c < 4 then unat (cl_advertising_attempt c) else 4);
                 delay_ms = push_bit shift 250;
                 delay_ms = (if delay_ms > ADVERTISING_BACKOFF_MAX_MS then ADVERTISING_BACKOFF_MAX_MS else delay_ms);
                 s = (if cl_advertising_attempt c < UINT8_MAX
                      then set_client (\<lambda>c. c\<lparr>cl_advertising_attempt := cl_advertising_attempt c + 1\<rparr>) s else s);
                 s = act (TimerStop ADVERTISING_RETRY_TIMER) s
          in act (TimerStart ADVERTISING_RETRY_TIMER (delay_ms * 1000)) s)"

definition start_advertising :: "client_world \<Rightarrow> 'a client_task_scheme \<Rightarrow> 'a client_task_scheme" where
  "start_advertising w s =
    (let s = acquire w s; (now, s) = now_ms w s; c = client s
     in if cl_connected c \<or> cl_advertising c \<or> cl_advertising_starting c \<or> cl_adv_config_pending c \<noteq> 0 \<or>
           \<not> ble_enroll_should_advertise (Some (enroll s)) now
        then s
        else let (hid_ready, s) = ask (cw_hid_ready w) s
          in if \<not> hid_ready then schedule_advertising_retry w s
             else let s = set_client (\<lambda>c. c\<lparr>cl_advertising_starting := True\<rparr>) s;
                      (error, s) = request w StartAdvertising s
               in if error = ESP_OK then s
                  else schedule_advertising_retry w
                    (set_client (\<lambda>c. c\<lparr>cl_advertising_starting := False\<rparr>) (acquire w s)))"

definition stop_advertising :: "client_world \<Rightarrow> 'a client_task_scheme \<Rightarrow> 'a client_task_scheme" where
  "stop_advertising w s =
    (let s = acquire w s;
         active = (cl_advertising (client s) \<or> cl_advertising_starting (client s));
         s = set_client (\<lambda>c. c\<lparr>cl_advertising := False, cl_advertising_starting := False\<rparr>) s
     in if active then act StopAdvertising s else s)"

section \<open>Deadlines\<close>

definition enroll_timeout_callback :: "client_world \<Rightarrow> 'a client_task_scheme \<Rightarrow> 'a client_task_scheme" where
  "enroll_timeout_callback w s =
    (let (now, s) = now_ms w s;
         s = acquire w s;
         expired = (es_window_open (enroll s) \<and> \<not> ble_enroll_window_active (Some (enroll s)) now);
         s = (if expired then set_enroll ble_enroll_close_window s else s);
         has_bond = ble_enroll_has_bond (Some (enroll s))
     in if expired \<and> \<not> has_bond then stop_advertising w s else s)"

text \<open>The deadline of the stage, or of the whole set-up, of a connection that is not ready has passed.\<close>

definition deadline_passed :: "int \<Rightarrow> client_context \<Rightarrow> bool" where
  "deadline_passed now c \<longleftrightarrow>
     (cl_stage_deadline_ms c \<noteq> 0 \<and> now \<ge> cl_stage_deadline_ms c) \<or>
     (cl_prepare_deadline_ms c \<noteq> 0 \<and> now \<ge> cl_prepare_deadline_ms c)"

definition check_connection_deadline :: "client_world \<Rightarrow> 'a client_task_scheme \<Rightarrow> 'a client_task_scheme" where
  "check_connection_deadline w s =
    (let (now, s) = now_ms w s;
         s = acquire w s;
         expired = (cl_connected (client s) \<and> \<not> cl_ready (client s) \<and> \<not> cl_closing (client s) \<and>
                    deadline_passed now (client s));
         s = (if expired then set_client (\<lambda>c. c\<lparr>cl_closing := True, cl_ready := False,
                cl_last_stage_error := ESP_ERR_TIMEOUT, cl_discovery_retry_due_ms := 0\<rparr>) s else s);
         request_close = (cl_connected (client s) \<and> cl_closing (client s) \<and> cl_close_attempts (client s) < 3 \<and>
                          now \<ge> cl_close_retry_due_ms (client s));
         s = (if request_close then set_client (\<lambda>c. c\<lparr>cl_close_attempts := cl_close_attempts c + 1,
                cl_close_retry_due_ms := now + 3000\<rparr>) s else s);
         generation = cl_generation (client s);
         peer = cl_remote_bda (client s);
         s = (if expired then set_state w ANCS_STATE_RECOVERING s else s)
     in if \<not> request_close then s
        else let (error, s) = request w (GapDisconnect peer) s
          in if error = ESP_OK then s
             else let s = acquire w s
               in if cl_generation (client s) = generation
                  then set_client (\<lambda>c. c\<lparr>cl_last_stage_error := error\<rparr>) s else s)"

section \<open>Bonds and enrollment\<close>

text \<open>The bonded phone is the first one of the stack's list; a store that cannot be read changes nothing.\<close>

definition sync_existing_ble_bond :: "client_world \<Rightarrow> 'a client_task_scheme \<Rightarrow> int \<times> 'a client_task_scheme" where
  "sync_existing_ble_bond w s =
    (let (bond_count, s) = current_bond_count w s;
         ((error, bonds), s) =
           (if bond_count < 0 then ((ESP_FAIL, []), s)
            else if bond_count = 0 then ((ESP_OK, []), s)
            else let (room, s) = ask (cw_alloc w) s
              in if \<not> room then ((ESP_ERR_NO_MEM, []), s) else read_bonds w bond_count s);
         s = set_client (\<lambda>c. c\<lparr>cl_bond_store_error := error\<rparr>) (acquire w s);
         s = (if error \<noteq> ESP_OK then s
              else case bonds of
                bond # _ \<Rightarrow> set_client (\<lambda>c. c\<lparr>cl_bonded := True\<rparr>) (set_enroll (\<lambda>e. ble_enroll_note_bonded e (Some bond)) s)
              | [] \<Rightarrow> set_client (\<lambda>c. c\<lparr>cl_bonded := False\<rparr>) (set_enroll ble_enroll_clear_bond s))
     in (if error \<noteq> ESP_OK then -1 else int (length bonds), s))"

definition load_existing_ble_bond :: "client_world \<Rightarrow> 'a client_task_scheme \<Rightarrow> 'a client_task_scheme" where
  "load_existing_ble_bond w s =
    (let (count, s) = sync_existing_ble_bond w s; s = acquire w s
     in if \<not> cl_initialized (client s) then set_client (\<lambda>c. c\<lparr>cl_boot_bond_count := count\<rparr>) s else s)"

text \<open>Every bond is removed; the first error is reported.\<close>

fun remove_bonds :: "client_world \<Rightarrow> bytes list \<Rightarrow> esp_err \<Rightarrow> 'a client_task_scheme \<Rightarrow> esp_err \<times> 'a client_task_scheme" where
  "remove_bonds w [] error s = (error, s)"
| "remove_bonds w (bond # bonds) error s =
    (let (remove_error, s) = request w (RemoveBond bond) s
     in remove_bonds w bonds (if remove_error \<noteq> ESP_OK \<and> error = ESP_OK then remove_error else error) s)"

definition remove_all_ble_bonds :: "client_world \<Rightarrow> 'a client_task_scheme \<Rightarrow> esp_err \<times> 'a client_task_scheme" where
  "remove_all_ble_bonds w s =
    (let (bond_count, s) = current_bond_count w s
     in if bond_count < 0 then (ESP_FAIL, s)
        else if bond_count = 0
        then (ESP_OK, set_client (\<lambda>c. c\<lparr>cl_bonded := False\<rparr>) (set_enroll ble_enroll_clear_bond (acquire w s)))
        else let (room, s) = ask (cw_alloc w) s
          in if \<not> room then (ESP_ERR_NO_MEM, s)
             else let ((error, bonds), s) = read_bonds w bond_count s
               in if error \<noteq> ESP_OK then (error, s) else remove_bonds w bonds error s)"

definition ancs_client_request_enroll ::
  "client_world \<Rightarrow> client_config \<Rightarrow> 'a client_task_scheme \<Rightarrow> esp_err \<times> 'a client_task_scheme" where
  "ancs_client_request_enroll w cfg s =
    (let s = acquire w s; c = client s
     in if \<not> cl_initialized c \<or> ENROLL_TIMER \<notin> set (cl_timers c) \<or> cl_connected c \<or> cl_replace_pending c
        then (ESP_ERR_INVALID_STATE, s)
        else let (count, s) = sync_existing_ble_bond w s
          in if count < 0 then (ESP_FAIL, s)
             else if count > 0
             then (ESP_OK, start_advertising w (set_enroll ble_enroll_close_window (acquire w (act (TimerStop ENROLL_TIMER) s))))
             else let (now, s) = now_ms w s; s = acquire w s
               in if cl_connected (client s) \<or> cl_replace_pending (client s) then (ESP_ERR_INVALID_STATE, s)
                  else let s = set_client clear_auth_failure_guard_locked s;
                           error = snd (ble_enroll_open_window (Some (enroll s)) now);
                           s = set_enroll (\<lambda>e. fst (ble_enroll_open_window e now)) s
                    in if error \<noteq> ESP_OK then (error, s)
                       else let s = act (TimerStop ENROLL_TIMER) s;
                                (timer_error, s) = request w (TimerStart ENROLL_TIMER (nat (ENROLL_WINDOW_MS cfg) * 1000)) s
                         in if timer_error = ESP_OK then (ESP_OK, start_advertising w s)
                            else let s = acquire w s
                              in (timer_error,
                                  if es_window_deadline_ms (enroll s) = now + ENROLL_WINDOW_MS cfg
                                  then set_enroll ble_enroll_close_window s else s))"

definition open_replacement_window ::
  "client_world \<Rightarrow> client_config \<Rightarrow> 'a client_task_scheme \<Rightarrow> esp_err \<times> 'a client_task_scheme" where
  "open_replacement_window w cfg s =
    (let s = acquire w s;
         connected = cl_connected (client s);
         s = (if connected then set_client (\<lambda>c. c\<lparr>cl_reopen_after_disconnect := True\<rparr>) s else s)
     in if connected then (ESP_OK, s) else ancs_client_request_enroll w cfg s)"

definition enroll_button_callback :: "client_world \<Rightarrow> client_config \<Rightarrow> 'a client_task_scheme \<Rightarrow> 'a client_task_scheme" where
  "enroll_button_callback w cfg s =
    (let (pressed, s) = ask (cw_button_level w) s;
         s = acquire w s;
         (now, s) = now_ms w s;
         (button, should_open) = ble_enroll_button_update (Some (sh_button (ct_shared s))) pressed now;
         s = s\<lparr>ct_shared := (ct_shared s)\<lparr>sh_button := (case button of None \<Rightarrow> sh_button (ct_shared s) | Some b \<Rightarrow> b)\<rparr>\<rparr>;
         callback = cl_boot_held_callback (client s);
         context = cl_boot_held_callback_context (client s)
     in if \<not> should_open then s
        else let s = (case callback of None \<Rightarrow> s | Some f \<Rightarrow> act (BootHeld f context) s)
          in snd (ancs_client_request_enroll w cfg s))"

section \<open>Discovery\<close>

definition schedule_discovery_retry :: "client_world \<Rightarrow> 'a client_task_scheme \<Rightarrow> 'a client_task_scheme" where
  "schedule_discovery_retry w s =
    (let s = acquire w s; c = client s
     in if \<not> cl_connected c \<or> cl_closing c \<or> \<not> cl_session_authenticated c \<or> cl_discovery_in_progress c \<or>
           cl_discovery_retry_due_ms c \<noteq> 0
        then s
        else let s = set_client (\<lambda>c. c\<lparr>cl_last_stage_error := ESP_FAIL\<rparr>) s;
                 (now, s) = now_ms w s
          in if cl_discovery_attempt c \<ge> ANCS_DISCOVERY_RETRIES
             then set_client (\<lambda>c. c\<lparr>cl_stage_deadline_ms := now\<rparr>) s
             else let delay_ms = (if cl_discovery_attempt c = 0 then 2000 else 5000);
                      s = set_client (\<lambda>c. c\<lparr>cl_discovery_attempt := cl_discovery_attempt c + 1,
                            cl_discovery_retry_generation := cl_generation c,
                            cl_discovery_retry_due_ms := now + int delay_ms,
                            cl_stage_deadline_ms := now + int delay_ms + ANCS_DISCOVERY_TIMEOUT_MS\<rparr>) s;
                      s = act (TimerStop DISCOVERY_RETRY_TIMER) s
               in act (TimerStart DISCOVERY_RETRY_TIMER (delay_ms * 1000)) s)"

text \<open>A step of the set-up failed.\<close>

definition retry_later :: "client_world \<Rightarrow> 'a client_task_scheme \<Rightarrow> 'a client_task_scheme" where
  "retry_later w s = schedule_discovery_retry w (set_state w ANCS_STATE_RECOVERING s)"

definition start_discovery :: "client_world \<Rightarrow> 'a client_task_scheme \<Rightarrow> 'a client_task_scheme" where
  "start_discovery w s =
    (let s = acquire w s; c = client s
     in if \<not> cl_connected c \<or> cl_closing c \<or> \<not> cl_session_authenticated c \<or> \<not> cl_link_encrypted c \<or>
           \<not> cl_mtu_ready c \<or> cl_ready c \<or> cl_gattc_if c = ESP_GATT_IF_NONE \<or> cl_discovery_in_progress c
        then s
        else let (now, s) = now_ms w s;
                 s = set_client (\<lambda>c. c\<lparr>cl_ready := False, cl_data_source_subscribed := False,
                       cl_notification_source_subscribed := False, cl_notification_source_handle := INVALID_HANDLE,
                       cl_data_source_handle := INVALID_HANDLE, cl_control_point_handle := INVALID_HANDLE,
                       cl_data_source_cccd_handle := INVALID_HANDLE,
                       cl_notification_source_cccd_handle := INVALID_HANDLE, cl_service_found := False,
                       cl_discovery_in_progress := True, cl_discovery_retry_due_ms := 0,
                       cl_stage_deadline_ms := now + ANCS_DISCOVERY_TIMEOUT_MS\<rparr>) s;
                 s = transition w ANCS_SIGNAL_DISCOVERY_STARTED s;
                 (error, s) = request w (SearchService (cl_gattc_if c) (cl_conn_id c)) s
          in if error = ESP_OK then s
             else retry_later w (set_client (\<lambda>c. c\<lparr>cl_discovery_in_progress := False\<rparr>) (acquire w s)))"

definition discovery_retry_callback :: "client_world \<Rightarrow> 'a client_task_scheme \<Rightarrow> 'a client_task_scheme" where
  "discovery_retry_callback w s =
    (let (now, s) = now_ms w s;
         s = acquire w s;
         c = client s;
         current = (cl_connected c \<and> \<not> cl_closing c \<and> cl_discovery_retry_generation c = cl_generation c \<and>
                    cl_discovery_retry_due_ms c \<noteq> 0 \<and> now \<ge> cl_discovery_retry_due_ms c)
     in if current then start_discovery w (set_client (\<lambda>c. c\<lparr>cl_discovery_retry_due_ms := 0\<rparr>) s) else s)"

text \<open>The value of \<open>ESP_GATT_UUID_CHAR_CLIENT_CONFIG\<close>.\<close>

definition CLIENT_CONFIG_UUID :: u16 where "CLIENT_CONFIG_UUID = 0x2902"

definition write_cccd ::
  "client_world \<Rightarrow> u16 \<Rightarrow> 'a client_task_scheme \<Rightarrow> (esp_err \<times> u16) \<times> 'a client_task_scheme" where
  "write_cccd w saved_handle s =
    (let s = acquire w s;
         gattc_if = cl_gattc_if (client s);
         conn_id = cl_conn_id (client s);
         ((ok, count), s) = ask (cw_attr_count w) s
     in if \<not> ok \<or> count = 0 then ((ESP_ERR_NOT_FOUND, saved_handle), s)
        else let (room, s) = ask (cw_alloc w) s
          in if \<not> room then ((ESP_ERR_NO_MEM, saved_handle), s)
             else let ((ok, descriptors), s) = ask (cw_descrs w) s;
                      cccd_handle = (if \<not> ok then INVALID_HANDLE
                        else case List.find (\<lambda>d. gd_uuid16 d = Some CLIENT_CONFIG_UUID) (take count descriptors) of
                          None \<Rightarrow> INVALID_HANDLE | Some d \<Rightarrow> gd_handle d)
               in if cccd_handle = INVALID_HANDLE then ((ESP_ERR_NOT_FOUND, saved_handle), s)
                  else let (error, s) = request w (WriteDescr gattc_if conn_id cccd_handle [1, 0]) s
                    in ((error, cccd_handle), s))"

definition begin_data_source_subscription :: "client_world \<Rightarrow> 'a client_task_scheme \<Rightarrow> 'a client_task_scheme" where
  "begin_data_source_subscription w s =
    (let s = acquire w s; c = client s
     in if \<not> cl_connected c \<or> cl_closing c \<or> \<not> cl_session_authenticated c then s
        else let (now, s) = now_ms w s;
                 s = set_client (\<lambda>c. c\<lparr>cl_stage_deadline_ms := now + ANCS_SUBSCRIBE_TIMEOUT_MS,
                       cl_pending_notify_handle := cl_data_source_handle c,
                       cl_pending_notify_generation := cl_generation c\<rparr>) s;
                 s = transition w ANCS_SIGNAL_DATA_SUBSCRIBE_STARTED s;
                 (error, s) = request w (RegisterForNotify (cl_gattc_if c) (cl_remote_bda c) (cl_data_source_handle c)) s
          in if error = ESP_OK then s else retry_later w s)"

definition begin_notification_source_subscription :: "client_world \<Rightarrow> 'a client_task_scheme \<Rightarrow> 'a client_task_scheme" where
  "begin_notification_source_subscription w s =
    (let s = acquire w s; c = client s
     in if \<not> cl_connected c \<or> cl_closing c \<or> \<not> cl_session_authenticated c then s
        else let (now, s) = now_ms w s;
                 s = set_client (\<lambda>c. c\<lparr>cl_stage_deadline_ms := now + ANCS_SUBSCRIBE_TIMEOUT_MS,
                       cl_pending_notify_handle := cl_notification_source_handle c,
                       cl_pending_notify_generation := cl_generation c\<rparr>) s;
                 (error, s) = request w (RegisterForNotify (cl_gattc_if c) (cl_remote_bda c)
                       (cl_notification_source_handle c)) s
          in if error = ESP_OK then s else retry_later w s)"

definition ANCS_SERVICE_UUID :: bytes where
  "ANCS_SERVICE_UUID = [0xD0, 0x00, 0x2D, 0x12, 0x1E, 0x4B, 0x0F, 0xA4, 0x99, 0x4E, 0xCE, 0xB5, 0x31, 0xF4, 0x05, 0x79]"
definition NOTIFICATION_SOURCE_UUID :: bytes where
  "NOTIFICATION_SOURCE_UUID =
     [0xBD, 0x1D, 0xA2, 0x99, 0xE6, 0x25, 0x58, 0x8C, 0xD9, 0x42, 0x01, 0x63, 0x0D, 0x12, 0xBF, 0x9F]"
definition CONTROL_POINT_UUID :: bytes where
  "CONTROL_POINT_UUID = [0xD9, 0xD9, 0xAA, 0xFD, 0xBD, 0x9B, 0x21, 0x98, 0xA8, 0x49, 0xE1, 0x45, 0xF3, 0xD8, 0xD1, 0x69]"
definition DATA_SOURCE_UUID :: bytes where
  "DATA_SOURCE_UUID = [0xFB, 0x7B, 0x7C, 0xCE, 0x6A, 0xB3, 0x44, 0xBE, 0xB5, 0x4B, 0xD6, 0x24, 0xE9, 0xC6, 0xEA, 0x22]"

text \<open>A UUID is the list of its bytes, so its length is part of it.\<close>

definition uuid_equal :: "bytes option \<Rightarrow> bytes \<Rightarrow> bool" where
  "uuid_equal uuid expected = (uuid = Some expected)"

definition PROP_WRITE :: u8 where "PROP_WRITE = push_bit 3 1"
definition PROP_NOTIFY :: u8 where "PROP_NOTIFY = push_bit 4 1"

text \<open>The loop over the characteristics: the last one of each kind counts.\<close>

fun pick_handles :: "gattc_char list \<Rightarrow> u16 \<times> u16 \<times> u16 \<Rightarrow> u16 \<times> u16 \<times> u16" where
  "pick_handles [] handles = handles"
| "pick_handles (c # characteristics) (notification_source, data_source, control_point) =
    (if uuid_equal (Some (gc_uuid c)) NOTIFICATION_SOURCE_UUID \<and> gc_properties c AND PROP_NOTIFY \<noteq> 0
     then pick_handles characteristics (gc_handle c, data_source, control_point)
     else if uuid_equal (Some (gc_uuid c)) DATA_SOURCE_UUID \<and> gc_properties c AND PROP_NOTIFY \<noteq> 0
     then pick_handles characteristics (notification_source, gc_handle c, control_point)
     else if uuid_equal (Some (gc_uuid c)) CONTROL_POINT_UUID \<and> gc_properties c AND PROP_WRITE \<noteq> 0
     then pick_handles characteristics (notification_source, data_source, gc_handle c)
     else pick_handles characteristics (notification_source, data_source, control_point))"

definition discover_characteristics :: "client_world \<Rightarrow> 'a client_task_scheme \<Rightarrow> 'a client_task_scheme" where
  "discover_characteristics w s =
    (let s = acquire w s; c = client s
     in if \<not> (cl_connected c \<and> \<not> cl_closing c \<and> cl_session_authenticated c \<and> cl_service_found c \<and>
              cl_gattc_if c \<noteq> ESP_GATT_IF_NONE)
        then s
        else let ((ok, count), s) = ask (cw_attr_count w) s
          in if \<not> ok \<or> count = 0 then retry_later w s
             else let (room, s) = ask (cw_alloc w) s
               in if \<not> room then retry_later w s
                  else let ((ok, characteristics), s) = ask (cw_chars w) s;
                           (notification_source, data_source, control_point) =
                             (if ok then pick_handles (take count characteristics)
                                (INVALID_HANDLE, INVALID_HANDLE, INVALID_HANDLE)
                              else (INVALID_HANDLE, INVALID_HANDLE, INVALID_HANDLE))
                    in if notification_source = INVALID_HANDLE \<or> data_source = INVALID_HANDLE \<or>
                          control_point = INVALID_HANDLE
                       then retry_later w (invalidate_ancs_handles w s)
                       else let s = acquire w s
                         in if cl_connected (client s) \<and> cl_generation (client s) = cl_generation c \<and>
                               cl_service_start_handle (client s) = cl_service_start_handle c \<and>
                               cl_service_end_handle (client s) = cl_service_end_handle c
                            then begin_data_source_subscription w (set_client (\<lambda>c.
                              c\<lparr>cl_notification_source_handle := notification_source,
                                cl_data_source_handle := data_source,
                                cl_control_point_handle := control_point, cl_discovery_attempt := 0\<rparr>) s)
                            else s)"

section \<open>The session of a connection\<close>

definition reset_connection_session ::
  "client_world \<Rightarrow> client_config \<Rightarrow> 'a client_task_scheme \<Rightarrow> 'a client_task_scheme" where
  "reset_connection_session w cfg s =
    (let s = set_client (\<lambda>c. invalidate_ancs_handles_locked (c\<lparr>cl_connected := False, cl_bonded := False,
               cl_session_authenticated := False, cl_link_encrypted := False, cl_closing := False,
               cl_close_attempts := 0, cl_close_retry_due_ms := 0, cl_mtu_ready := False,
               cl_stage_deadline_ms := 0, cl_prepare_deadline_ms := 0, cl_discovery_retry_due_ms := 0,
               cl_discovery_attempt := 0, cl_generation := cl_generation c + 1\<rparr>)) (acquire w s)
     in snd (enqueue_work w cfg \<lparr>wi_generation = cl_generation (client s), wi_data = WORK_SESSION_RESET\<rparr> s))"

definition handle_service_changed ::
  "client_world \<Rightarrow> client_config \<Rightarrow> 'a client_task_scheme \<Rightarrow> 'a client_task_scheme" where
  "handle_service_changed w cfg s =
    (let s = acquire w s
     in if \<not> cl_connected (client s) \<or> cl_closing (client s) then s
        else let (now, s) = now_ms w s;
                 s = set_client (\<lambda>c. invalidate_ancs_handles_locked (c\<lparr>cl_prepare_deadline_ms := now + ANCS_PREPARE_TIMEOUT_MS,
                       cl_discovery_retry_due_ms := 0, cl_discovery_attempt := 0,
                       cl_generation := cl_generation c + 1\<rparr>)) s;
                 s = snd (enqueue_work w cfg \<lparr>wi_generation = cl_generation (client s), wi_data = WORK_SESSION_RESET\<rparr> s);
                 s = transition w ANCS_SIGNAL_SERVICE_CHANGED s
          in start_discovery w s)"

end
