(* ===== verification/Client_Worker.thy ===== *)
theory Client_Worker
  imports Client_Link
begin

text \<open>
  The worker task of \<^verbatim>\<open>components/ancs_client/ancs_client.c\<close>: it takes the events and fragments of the phone from
  the work queue, asks for the attributes of one notification at a time, then for the name of its
  application, and publishes the result.
\<close>

section \<open>The state of the worker\<close>

text \<open>
  \<open>worker_context_t\<close>; only the worker touches it. The parsers have a pointer to \<open>active_notification\<close>: it is
  there or not, and a parser is given the notification when it runs.
\<close>

record worker_context =
  wk_generation :: u32
  wk_pending :: ancs_request_queue
  wk_active :: bool
  wk_active_canceled :: bool
  wk_active_request_kind :: active_request_kind
  wk_attempt :: u8
  wk_deadline_ms :: int
  wk_active_event :: ancs_notification_event
  wk_active_notification :: ancs_notification
  wk_parser :: ancs_data_parser
  wk_app_parser :: ancs_app_data_parser
  wk_app_resolver :: ancs_app_resolver
  wk_last_event_valid :: bool
  wk_last_event :: ancs_notification_event
  wk_last_event_ms :: int
  wk_cache_age :: u32
  wk_cache :: "cache_entry list"

record client_worker = client_task +
  ct_worker :: worker_context

abbreviation wk :: "client_worker \<Rightarrow> worker_context" where "wk s \<equiv> ct_worker s"

definition set_worker :: "(worker_context \<Rightarrow> worker_context) \<Rightarrow> client_worker \<Rightarrow> client_worker" where
  "set_worker f s = s\<lparr>ct_worker := f (wk s)\<rparr>"

definition cache_zero :: "client_config \<Rightarrow> cache_entry list" where
  "cache_zero cfg = replicate (CACHE_CAPACITY cfg)
     \<lparr>ce_used = False, ce_age = 0, ce_notification = notification_zero (PROTOCOL cfg)\<rparr>"

definition worker_zero :: "client_config \<Rightarrow> worker_context" where
  "worker_zero cfg = \<lparr>wk_generation = 0, wk_pending = queue_zero (PROTOCOL cfg), wk_active = False,
     wk_active_canceled = False, wk_active_request_kind = ACTIVE_REQUEST_NOTIFICATION_ATTRIBUTES, wk_attempt = 0,
     wk_deadline_ms = 0, wk_active_event = zero_event, wk_active_notification = notification_zero (PROTOCOL cfg),
     wk_parser = parser_zero, wk_app_parser = app_parser_zero (PROTOCOL cfg),
     wk_app_resolver = resolver_zero (PROTOCOL cfg), wk_last_event_valid = False, wk_last_event = zero_event,
     wk_last_event_ms = 0, wk_cache_age = 0, wk_cache = cache_zero cfg\<rparr>"

definition reset_worker_session :: "client_config \<Rightarrow> u32 \<Rightarrow> worker_context \<Rightarrow> worker_context" where
  "reset_worker_session cfg generation k = k\<lparr>wk_generation := generation,
     wk_pending := (case ancs_request_queue_clear (PROTOCOL cfg) (Some (wk_pending k)) of
                      None \<Rightarrow> wk_pending k | Some q \<Rightarrow> q),
     wk_active := False, wk_active_canceled := False, wk_last_event_valid := False,
     wk_active_notification := notification_zero (PROTOCOL cfg), wk_parser := parser_zero,
     wk_app_parser := app_parser_zero (PROTOCOL cfg),
     wk_app_resolver := (case ancs_app_resolver_init (PROTOCOL cfg) (Some (wk_app_resolver k)) of
                           None \<Rightarrow> wk_app_resolver k | Some r \<Rightarrow> r),
     wk_cache_age := 0, wk_cache := cache_zero cfg\<rparr>"

section \<open>The cache of published notifications\<close>

definition cache_find :: "client_config \<Rightarrow> u32 \<Rightarrow> u32 \<Rightarrow> worker_context \<Rightarrow> nat option" where
  "cache_find cfg session_id uid k =
    List.find (\<lambda>index. ce_used (wk_cache k ! index) \<and>
        n_session_id (ce_notification (wk_cache k ! index)) = session_id \<and>
        n_uid (ce_notification (wk_cache k ! index)) = uid)
      [0..<CACHE_CAPACITY cfg]"

definition cache_target :: "client_config \<Rightarrow> ancs_notification \<Rightarrow> worker_context \<Rightarrow> nat" where
  "cache_target cfg n k =
    (case cache_find cfg (n_session_id n) (n_uid n) k of
       Some index \<Rightarrow> index
     | None \<Rightarrow>
         (case List.find (\<lambda>index. \<not> ce_used (wk_cache k ! index)) [0..<CACHE_CAPACITY cfg] of
            Some index \<Rightarrow> index
          | None \<Rightarrow> foldl (\<lambda>target index. if ce_age (wk_cache k ! index) < ce_age (wk_cache k ! target) then index else target)
                      0 [1..<CACHE_CAPACITY cfg]))"

definition cache_store :: "client_config \<Rightarrow> ancs_notification \<Rightarrow> worker_context \<Rightarrow> worker_context option" where
  "cache_store cfg n k = do {
     let age = wk_cache_age k + 1;
     cache \<leftarrow> store (wk_cache k) (cache_target cfg n k) \<lparr>ce_used = True, ce_age = age, ce_notification = n\<rparr>;
     Some (k\<lparr>wk_cache_age := age, wk_cache := cache\<rparr>)
   }"

text \<open>A notification that was removed is published with the texts it had, when they are still known.\<close>

definition removed_notification :: "ancs_notification_event \<Rightarrow> int \<Rightarrow> ancs_notification \<Rightarrow> ancs_notification" where
  "removed_notification event now n =
     n\<lparr>n_event_id := ev_event_id event, n_event_flags := ev_event_flags event,
       n_category_id := ev_category_id event, n_category_count := ev_category_count event,
       n_received_at_ms := now, n_complete := True, n_error_code := 0\<rparr>"

definition publish_removed ::
  "client_world \<Rightarrow> client_config \<Rightarrow> ancs_notification_event \<Rightarrow> client_worker \<Rightarrow> client_worker option" where
  "publish_removed w cfg event s =
    (let (session_id, s) = current_session_id w s
     in case cache_find cfg session_id (ev_uid event) (wk s) of
          Some index \<Rightarrow> do {
            cached \<leftarrow> load (wk_cache (wk s)) index;
            let s = set_worker (\<lambda>k. k\<lparr>wk_cache := (wk_cache k)[index := cached\<lparr>ce_used := False\<rparr>]\<rparr>) s;
            let (now, s) = now_ms w s;
            Some (publish_notification (removed_notification event now (ce_notification cached)) s)
          }
        | None \<Rightarrow> do {
            let (now, s) = now_ms w s;
            removed \<leftarrow> ancs_notification_init (PROTOCOL cfg) (Some (notification_zero (PROTOCOL cfg))) session_id (Some event) now;
            Some (publish_notification (removed\<lparr>n_complete := True\<rparr>) s)
          })"

section \<open>The end of a request\<close>

definition finish_canceled_request :: "client_worker \<Rightarrow> client_worker" where
  "finish_canceled_request s = set_worker (\<lambda>k. k\<lparr>wk_active := False, wk_active_canceled := False\<rparr>) s"

definition abandon_active_request :: "client_worker \<Rightarrow> client_worker" where
  "abandon_active_request s = set_worker (\<lambda>k. k\<lparr>wk_active := False, wk_active_canceled := False\<rparr>) s"

definition fail_active_request :: "int \<Rightarrow> client_worker \<Rightarrow> client_worker" where
  "fail_active_request error_code s =
    (let s = set_worker (\<lambda>k. k\<lparr>wk_active_notification :=
           (wk_active_notification k)\<lparr>n_complete := False, n_error_code := error_code\<rparr>\<rparr>) s;
         s = publish_notification (wk_active_notification (wk s)) s
     in set_worker (\<lambda>k. k\<lparr>wk_active := False, wk_active_canceled := False\<rparr>) s)"

definition finalize_active_notification :: "client_config \<Rightarrow> client_worker \<Rightarrow> client_worker option" where
  "finalize_active_notification cfg s = do {
     let s = publish_notification (wk_active_notification (wk s)) s;
     k \<leftarrow> cache_store cfg (wk_active_notification (wk s)) (wk s);
     Some (s\<lparr>ct_worker := k\<lparr>wk_active := False, wk_active_canceled := False\<rparr>\<rparr>)
   }"

definition recover_data_stream :: "client_world \<Rightarrow> 'a client_task_scheme \<Rightarrow> 'a client_task_scheme" where
  "recover_data_stream w s =
    (let s = set_client (\<lambda>c. c\<lparr>cl_ready := False\<rparr>) (acquire w s);
         connected = cl_connected (client s);
         remote_bda = cl_remote_bda (client s);
         s = set_state w ANCS_STATE_RECOVERING s
     in if connected then snd (request w (GapDisconnect remote_bda) s) else s)"

section \<open>Requests\<close>

definition build_request ::
  "client_config \<Rightarrow> worker_context \<Rightarrow> (ancs_protocol_error \<times> bytes option \<times> nat option) option" where
  "build_request cfg k =
    (let request = replicate (CONTROL_REQUEST_MAX cfg) 0
     in case wk_active_request_kind k of
          ACTIVE_REQUEST_NOTIFICATION_ATTRIBUTES \<Rightarrow>
            ancs_build_get_notification_attributes (PROTOCOL cfg) (ev_uid (wk_active_event k)) (Some request)
              (CONTROL_REQUEST_MAX cfg) (Some 0)
        | ACTIVE_REQUEST_APP_ATTRIBUTES \<Rightarrow>
            ancs_build_get_app_attributes (PROTOCOL cfg) (Some (n_app_id (wk_active_notification k))) (Some request)
              (CONTROL_REQUEST_MAX cfg) (Some 0))"

text \<open>The parser of the answer starts; the worker's notification is the one the parser points to.\<close>

definition start_answer ::
  "client_config \<Rightarrow> u32 \<Rightarrow> int \<Rightarrow> worker_context \<Rightarrow> worker_context option" where
  "start_answer cfg session_id now k =
    (case wk_active_request_kind k of
       ACTIVE_REQUEST_NOTIFICATION_ATTRIBUTES \<Rightarrow> do {
         n \<leftarrow> ancs_notification_init (PROTOCOL cfg) (Some (wk_active_notification k)) session_id (Some (wk_active_event k)) now;
         p \<leftarrow> ancs_data_parser_init (Some (wk_parser k)) (Some n) (ev_uid (wk_active_event k)) ANCS_ATTR_MASK_REQUIRED;
         n \<leftarrow> p_notification p;
         Some (k\<lparr>wk_parser := p, wk_active_notification := n\<rparr>)
       }
     | ACTIVE_REQUEST_APP_ATTRIBUTES \<Rightarrow> do {
         p \<leftarrow> ancs_app_data_parser_init (PROTOCOL cfg) (Some (wk_app_parser k)) (Some (wk_active_notification k));
         n \<leftarrow> a_notification p;
         Some (k\<lparr>wk_app_parser := p, wk_active_notification := n\<rparr>)
       })"

definition write_active_control_request ::
  "client_world \<Rightarrow> client_config \<Rightarrow> client_worker \<Rightarrow> (esp_err \<times> client_worker) option" where
  "write_active_control_request w cfg s = do {
     (protocol_error, command, request_length) \<leftarrow> build_request cfg (wk s);
     if protocol_error \<noteq> ANCS_PROTOCOL_OK then Some (ESP_ERR_INVALID_SIZE, s)
     else do {
       command \<leftarrow> command;
       request_length \<leftarrow> request_length;
       let s = acquire w s;
       let c = client s;
       if \<not> (cl_ready c \<and> cl_connected c \<and> cl_generation c = wk_generation (wk s) \<and>
             cl_gattc_if c \<noteq> ESP_GATT_IF_NONE \<and> cl_control_point_handle c \<noteq> INVALID_HANDLE)
       then Some (ESP_ERR_INVALID_STATE, s)
       else do {
         let (now, s) = (case wk_active_request_kind (wk s) of
               ACTIVE_REQUEST_NOTIFICATION_ATTRIBUTES \<Rightarrow> now_ms w s
             | ACTIVE_REQUEST_APP_ATTRIBUTES \<Rightarrow> (0, s));
         k \<leftarrow> start_answer cfg (cl_session_id c) now (wk s);
         let (error, s) = request w (WriteChar (cl_gattc_if c) (cl_conn_id c) (cl_control_point_handle c)
               (take request_length command)) (s\<lparr>ct_worker := k\<rparr>);
         if error \<noteq> ESP_OK then Some (error, s)
         else let (now, s) = now_ms w s
           in Some (ESP_OK, set_worker (\<lambda>k. k\<lparr>wk_deadline_ms := now + REQUEST_TIMEOUT_MS cfg\<rparr>) s)
       }
     }
   }"

text \<open>The request is given up: a notification without its application name is published without it.\<close>

definition finish_active ::
  "client_world \<Rightarrow> client_config \<Rightarrow> int \<Rightarrow> bool \<Rightarrow> client_worker \<Rightarrow> client_worker option" where
  "finish_active w cfg error_code recover_stream s =
    (case wk_active_request_kind (wk s) of
       ACTIVE_REQUEST_APP_ATTRIBUTES \<Rightarrow> do {
         (name, _) \<leftarrow> ancs_app_resolver_fail (Some (n_app_name (wk_active_notification (wk s))))
           (APP_NAME_MAX (PROTOCOL cfg) + 1);
         name \<leftarrow> name;
         let s = set_worker (\<lambda>k. k\<lparr>wk_active_notification := (wk_active_notification k)\<lparr>n_app_name := name\<rparr>\<rparr>) s;
         s \<leftarrow> (if wk_active_canceled (wk s) then Some (finish_canceled_request s)
              else finalize_active_notification cfg s);
         Some (if recover_stream then recover_data_stream w s else s)
       }
     | ACTIVE_REQUEST_NOTIFICATION_ATTRIBUTES \<Rightarrow>
         Some (recover_data_stream w (fail_active_request error_code s)))"

definition retry_or_finish_active ::
  "client_world \<Rightarrow> client_config \<Rightarrow> int \<Rightarrow> bool \<Rightarrow> client_worker \<Rightarrow> client_worker option" where
  "retry_or_finish_active w cfg error_code recover_stream s =
    (if \<not> wk_active (wk s) then Some s
     else let (ready, s) = client_ready w s
       in if \<not> ready then Some (abandon_active_request s)
          else if wk_attempt (wk s) < 1 then do {
            (retry_error, s) \<leftarrow> write_active_control_request w cfg
              (set_worker (\<lambda>k. k\<lparr>wk_attempt := wk_attempt k + 1\<rparr>) s);
            if retry_error = ESP_OK then Some s
            else if retry_error = ESP_ERR_INVALID_STATE then Some (abandon_active_request s)
            else finish_active w cfg error_code recover_stream s
          }
          else finish_active w cfg error_code recover_stream s)"

text \<open>The first write of a request, and what follows when it fails.\<close>

definition first_write :: "client_world \<Rightarrow> client_config \<Rightarrow> client_worker \<Rightarrow> client_worker option" where
  "first_write w cfg s = do {
     (error, s) \<leftarrow> write_active_control_request w cfg s;
     if error = ESP_ERR_INVALID_STATE then Some (abandon_active_request s)
     else if error \<noteq> ESP_OK then retry_or_finish_active w cfg (error_number ANCS_PROTOCOL_ERR_SEQUENCE) False s
     else Some s
   }"

definition begin_app_name_resolution :: "client_world \<Rightarrow> client_config \<Rightarrow> client_worker \<Rightarrow> client_worker option" where
  "begin_app_name_resolution w cfg s = do {
     (resolver, name, resolution) \<leftarrow> ancs_app_resolver_begin (PROTOCOL cfg) (Some (wk_app_resolver (wk s)))
       (Some (n_app_id (wk_active_notification (wk s)))) (Some (n_app_name (wk_active_notification (wk s))))
       (APP_NAME_MAX (PROTOCOL cfg) + 1);
     resolver \<leftarrow> resolver;
     name \<leftarrow> name;
     let s = set_worker (\<lambda>k. k\<lparr>wk_app_resolver := resolver,
           wk_active_notification := (wk_active_notification k)\<lparr>n_app_name := name\<rparr>\<rparr>) s;
     if resolution \<noteq> ANCS_APP_RESOLUTION_REQUEST_NATIVE then finalize_active_notification cfg s
     else first_write w cfg
       (set_worker (\<lambda>k. k\<lparr>wk_active_request_kind := ACTIVE_REQUEST_APP_ATTRIBUTES, wk_attempt := 0\<rparr>) s)
   }"

definition complete_app_name_resolution :: "client_config \<Rightarrow> client_worker \<Rightarrow> client_worker option" where
  "complete_app_name_resolution cfg s =
    (if n_app_name_truncated (wk_active_notification (wk s)) then finalize_active_notification cfg s
     else do {
       display_name \<leftarrow> memcpy (replicate (APP_NAME_MAX (PROTOCOL cfg) + 1) 0)
         (n_app_name (wk_active_notification (wk s))) (APP_NAME_MAX (PROTOCOL cfg) + 1);
       (resolver, name, _) \<leftarrow> ancs_app_resolver_complete (PROTOCOL cfg) (Some (wk_app_resolver (wk s)))
         (Some (n_app_id (wk_active_notification (wk s)))) (Some display_name)
         (Some (n_app_name (wk_active_notification (wk s)))) (APP_NAME_MAX (PROTOCOL cfg) + 1);
       resolver \<leftarrow> resolver;
       name \<leftarrow> name;
       finalize_active_notification cfg (set_worker (\<lambda>k. k\<lparr>wk_app_resolver := resolver,
         wk_active_notification := (wk_active_notification k)\<lparr>n_app_name := name\<rparr>\<rparr>) s)
     })"

definition start_next_request :: "client_world \<Rightarrow> client_config \<Rightarrow> client_worker \<Rightarrow> client_worker option" where
  "start_next_request w cfg s =
    (if wk_active (wk s) then Some s
     else let (ready, s) = client_ready w s
       in if \<not> ready then Some s
          else do {
            (pending, event, popped) \<leftarrow> ancs_request_queue_pop (PROTOCOL cfg) (Some (wk_pending (wk s)))
              (Some (wk_active_event (wk s)));
            pending \<leftarrow> pending;
            event \<leftarrow> event;
            let s = set_worker (\<lambda>k. k\<lparr>wk_pending := pending, wk_active_event := event\<rparr>) s;
            if \<not> popped then Some s
            else first_write w cfg (set_worker (\<lambda>k. k\<lparr>wk_active := True, wk_active_canceled := False,
              wk_active_request_kind := ACTIVE_REQUEST_NOTIFICATION_ATTRIBUTES, wk_attempt := 0\<rparr>) s)
          })"

section \<open>Work\<close>

definition duplicate_event ::
  "client_config \<Rightarrow> ancs_notification_event \<Rightarrow> int \<Rightarrow> worker_context \<Rightarrow> bool \<times> worker_context" where
  "duplicate_event cfg event timestamp k =
    (wk_last_event_valid k \<and> ev_event_id (wk_last_event k) = ev_event_id event \<and>
       ev_uid (wk_last_event k) = ev_uid event \<and> ev_event_flags (wk_last_event k) = ev_event_flags event \<and>
       ev_category_count (wk_last_event k) = ev_category_count event \<and>
       timestamp - wk_last_event_ms k \<le> DUPLICATE_WINDOW_MS cfg,
     k\<lparr>wk_last_event := event, wk_last_event_ms := timestamp, wk_last_event_valid := True\<rparr>)"

definition process_removed ::
  "client_world \<Rightarrow> client_config \<Rightarrow> ancs_notification_event \<Rightarrow> client_worker \<Rightarrow> client_worker option" where
  "process_removed w cfg event s = do {
     (pending, _) \<leftarrow> ancs_request_queue_cancel_uid (PROTOCOL cfg) (Some (wk_pending (wk s))) (ev_uid event);
     pending \<leftarrow> pending;
     let s = set_worker (\<lambda>k. k\<lparr>wk_pending := pending\<rparr>) s;
     let s = (if wk_active (wk s) \<and> ev_uid (wk_active_event (wk s)) = ev_uid event
              then set_worker (\<lambda>k. k\<lparr>wk_active_canceled := True\<rparr>) s else s);
     publish_removed w cfg event s
   }"

definition process_notification_event ::
  "client_world \<Rightarrow> client_config \<Rightarrow> ancs_notification_event \<Rightarrow> client_worker \<Rightarrow> client_worker option" where
  "process_notification_event w cfg event s =
    (let (timestamp, s) = now_ms w s;
         (duplicate, k) = duplicate_event cfg event timestamp (wk s);
         s = s\<lparr>ct_worker := k\<rparr>
     in if duplicate then Some s
        else if ev_event_id event = 2 then process_removed w cfg event s
        else do {
          (pending, pushed) \<leftarrow> ancs_request_queue_push (PROTOCOL cfg) (Some (wk_pending (wk s))) (Some event);
          pending \<leftarrow> pending;
          let s = set_worker (\<lambda>k. k\<lparr>wk_pending := pending\<rparr>) s;
          if pushed then Some s
          else do {
            let (session_id, s) = current_session_id w s;
            failed \<leftarrow> ancs_notification_init (PROTOCOL cfg) (Some (notification_zero (PROTOCOL cfg))) session_id
              (Some event) timestamp;
            Some (publish_notification (failed\<lparr>n_error_code := error_number ANCS_PROTOCOL_ERR_OVERFLOW\<rparr>) s)
          }
        })"

text \<open>A fragment goes to the parser of the active request, which works on the active notification.\<close>

definition feed_answer ::
  "client_config \<Rightarrow> bytes \<Rightarrow> worker_context \<Rightarrow> (ancs_parser_result \<times> int \<times> worker_context) option" where
  "feed_answer cfg fragment k =
    (let n = wk_active_notification k
     in case wk_active_request_kind k of
          ACTIVE_REQUEST_NOTIFICATION_ATTRIBUTES \<Rightarrow> do {
            (p, result) \<leftarrow> ancs_data_parser_feed (PROTOCOL cfg)
              (Some ((wk_parser k)\<lparr>p_notification := map_option (\<lambda>_. n) (p_notification (wk_parser k))\<rparr>))
              (Some fragment) (length fragment);
            p \<leftarrow> p;
            Some (result, error_number (p_error_code p), k\<lparr>wk_parser := p,
              wk_active_notification := (case p_notification p of None \<Rightarrow> n | Some n \<Rightarrow> n)\<rparr>)
          }
        | ACTIVE_REQUEST_APP_ATTRIBUTES \<Rightarrow> do {
            (p, result) \<leftarrow> ancs_app_data_parser_feed (PROTOCOL cfg)
              (Some ((wk_app_parser k)\<lparr>a_notification := map_option (\<lambda>_. n) (a_notification (wk_app_parser k))\<rparr>))
              (Some fragment) (length fragment);
            p \<leftarrow> p;
            Some (result, error_number (a_error_code p), k\<lparr>wk_app_parser := p,
              wk_active_notification := (case a_notification p of None \<Rightarrow> n | Some n \<Rightarrow> n)\<rparr>)
          })"

definition process_data_fragment ::
  "client_world \<Rightarrow> client_config \<Rightarrow> bytes option \<Rightarrow> client_worker \<Rightarrow> client_worker option" where
  "process_data_fragment w cfg fragment s =
    (case fragment of
       None \<Rightarrow> Some s
     | Some bs \<Rightarrow>
         if \<not> wk_active (wk s) then Some s
         else do {
           (result, error_code, k) \<leftarrow> feed_answer cfg bs (wk s);
           let s = s\<lparr>ct_worker := k\<rparr>;
           case result of
             ANCS_PARSER_COMPLETE \<Rightarrow>
               if wk_active_canceled (wk s) then Some (finish_canceled_request s)
               else if wk_active_request_kind (wk s) = ACTIVE_REQUEST_NOTIFICATION_ATTRIBUTES
               then begin_app_name_resolution w cfg s
               else complete_app_name_resolution cfg s
           | ANCS_PARSER_ERROR \<Rightarrow>
               if wk_active_canceled (wk s) then Some (finish_canceled_request s)
               else retry_or_finish_active w cfg error_code True s
           | _ \<Rightarrow> Some s
         })"

definition process_write_result ::
  "client_world \<Rightarrow> client_config \<Rightarrow> int \<Rightarrow> client_worker \<Rightarrow> client_worker option" where
  "process_write_result w cfg write_status s =
    (if write_status = 0 then Some s
     else if wk_active_canceled (wk s) then Some (finish_canceled_request s)
     else retry_or_finish_active w cfg write_status False s)"

definition process_work ::
  "client_world \<Rightarrow> client_config \<Rightarrow> work_item \<Rightarrow> client_worker \<Rightarrow> client_worker option" where
  "process_work w cfg item s =
    (case wi_data item of
       WORK_NOTIFICATION_EVENT event \<Rightarrow> process_notification_event w cfg event s
     | WORK_DATA_FRAGMENT fragment \<Rightarrow> process_data_fragment w cfg fragment s
     | WORK_CONTROL_WRITE_RESULT write_status \<Rightarrow> process_write_result w cfg write_status s
     | WORK_SESSION_RESET \<Rightarrow> Some (set_worker (reset_worker_session cfg (wi_generation item)) s))"

definition check_request_deadline :: "client_world \<Rightarrow> client_config \<Rightarrow> client_worker \<Rightarrow> client_worker option" where
  "check_request_deadline w cfg s =
    (if \<not> wk_active (wk s) then Some s
     else let (now, s) = now_ms w s
       in if now < wk_deadline_ms (wk s) then Some s
          else if wk_active_canceled (wk s) then Some (recover_data_stream w (finish_canceled_request s))
          else retry_or_finish_active w cfg (error_number ANCS_PROTOCOL_ERR_TIMEOUT) True s)"

section \<open>The loop\<close>

text \<open>
  One turn of \<open>worker_task\<close>. The queue is created before the task, so a missing one is not defined. An item of
  an earlier generation is freed, and the turn ends.
\<close>

definition receive_work :: "client_world \<Rightarrow> client_worker \<Rightarrow> (work_item option \<times> client_worker) option" where
  "receive_work w s =
    (let s = acquire w s
     in case cl_work_queue (client s) of
          None \<Rightarrow> None
        | Some [] \<Rightarrow> Some (None, s)
        | Some (item # items) \<Rightarrow> Some (Some item, set_client (\<lambda>c. c\<lparr>cl_work_queue := Some items\<rparr>) s))"

definition follow_generation :: "client_world \<Rightarrow> client_config \<Rightarrow> client_worker \<Rightarrow> client_worker" where
  "follow_generation w cfg s =
    (let (generation, s) = current_generation w s
     in if wk_generation (wk s) \<noteq> generation then set_worker (reset_worker_session cfg generation) s else s)"

definition finish_turn :: "client_world \<Rightarrow> client_config \<Rightarrow> client_worker \<Rightarrow> client_worker option" where
  "finish_turn w cfg s = do { s \<leftarrow> check_request_deadline w cfg s; start_next_request w cfg s }"

definition handle_item ::
  "client_world \<Rightarrow> client_config \<Rightarrow> work_item \<Rightarrow> client_worker \<Rightarrow> client_worker option" where
  "handle_item w cfg item s =
    (let (generation, s) = current_generation w s
     in if wi_generation item \<noteq> generation then Some (free_work_item item s)
        else do { s \<leftarrow> process_work w cfg item s; finish_turn w cfg (free_work_item item s) })"

definition worker_turn :: "client_world \<Rightarrow> client_config \<Rightarrow> client_worker \<Rightarrow> client_worker option" where
  "worker_turn w cfg s =
    (let s = check_connection_deadline w s;
         s = enroll_timeout_callback w s;
         s = follow_generation w cfg s
     in do {
       (item, s) \<leftarrow> receive_work w s;
       case item of None \<Rightarrow> finish_turn w cfg s | Some item \<Rightarrow> handle_item w cfg item s
     })"

definition worker_start :: "client_world \<Rightarrow> client_config \<Rightarrow> client_worker \<Rightarrow> client_worker" where
  "worker_start w cfg s =
    (let s = set_worker (\<lambda>k. k\<lparr>
           wk_pending := (case ancs_request_queue_init (PROTOCOL cfg) (Some (wk_pending k)) of
                            None \<Rightarrow> wk_pending k | Some q \<Rightarrow> q),
           wk_app_resolver := (case ancs_app_resolver_init (PROTOCOL cfg) (Some (wk_app_resolver k)) of
                                 None \<Rightarrow> wk_app_resolver k | Some r \<Rightarrow> r)\<rparr>) s;
         (generation, s) = current_generation w s
     in set_worker (\<lambda>k. k\<lparr>wk_generation := generation\<rparr>) s)"

text \<open>The first \<open>n\<close> turns of \<open>worker_task\<close>.\<close>

primrec worker_task :: "client_world \<Rightarrow> client_config \<Rightarrow> nat \<Rightarrow> client_worker \<Rightarrow> client_worker option" where
  "worker_task w cfg 0 s = Some (worker_start w cfg s)"
| "worker_task w cfg (Suc n) s = do { s \<leftarrow> worker_task w cfg n s; worker_turn w cfg s }"

end
