(* ===== verification/Client_Events.thy ===== *)
theory Client_Events
  imports Client_Link
begin

text \<open>
  The callbacks of the Bluetooth stack in \<^verbatim>\<open>components/ancs_client/ancs_client.c\<close>, and the operations of the client
  the rest of the firmware calls.
\<close>

section \<open>Events of the GAP\<close>

text \<open>Addresses are arrays of six bytes; a status is whether it is the one of success.\<close>

datatype gap_event =
    SET_LOCAL_PRIVACY_COMPLETE bool
  | ADV_DATA_SET_COMPLETE
  | SCAN_RSP_DATA_SET_COMPLETE
  | ADV_START_COMPLETE bool
  | SEC_REQ bytes
  | AUTH_CMPL bytes bool int
  | REMOVE_BOND_DEV_COMPLETE bool
  | UPDATE_CONN_PARAMS
  | NC_REQ bytes
  | PASSKEY_NOTIF
  | GAP_OTHER int

definition clear_pending :: "u8 \<Rightarrow> client_context \<Rightarrow> client_context" where
  "clear_pending bits c = c\<lparr>cl_adv_config_pending := cl_adv_config_pending c AND NOT bits\<rparr>"

text \<open>
  The own address type is the public one from the start and is never set to another, so the failure of
  the privacy set-up changes nothing.
\<close>

definition local_privacy_complete :: "client_world \<Rightarrow> 'a client_task_scheme \<Rightarrow> 'a client_task_scheme" where
  "local_privacy_complete w s =
    (let s = set_client (\<lambda>c. c\<lparr>cl_adv_config_pending := ADV_DATA_PENDING OR SCAN_RESPONSE_PENDING\<rparr>) (acquire w s);
         (error, s) = request w (ConfigAdvData False) s;
         s = (if error \<noteq> ESP_OK then set_client (clear_pending ADV_DATA_PENDING) (acquire w s) else s);
         (error, s) = request w (ConfigAdvData True) s;
         s = (if error \<noteq> ESP_OK then set_client (clear_pending SCAN_RESPONSE_PENDING) (acquire w s) else s)
     in start_advertising w s)"

definition adv_start_complete :: "client_world \<Rightarrow> bool \<Rightarrow> 'a client_task_scheme \<Rightarrow> 'a client_task_scheme" where
  "adv_start_complete w start_succeeded s =
    (let s = set_client (\<lambda>c. c\<lparr>cl_advertising_starting := False\<rparr>) (acquire w s);
         connected = cl_connected (client s);
         (now, s) = now_ms w s;
         allowed = ble_enroll_should_advertise (Some (enroll s)) now;
         stop_disallowed = (start_succeeded \<and> \<not> connected \<and> \<not> allowed);
         s = (if start_succeeded \<and> \<not> connected \<and> allowed
              then set_client (\<lambda>c. c\<lparr>cl_advertising := True, cl_advertising_attempt := 0\<rparr>) s
              else set_client (\<lambda>c. c\<lparr>cl_advertising := False\<rparr>) s)
     in if \<not> start_succeeded then schedule_advertising_retry w s
        else if connected \<or> stop_disallowed then act StopAdvertising s
        else let (state, s) = current_state w s
          in if state = ANCS_STATE_BOOT then transition w ANCS_SIGNAL_BOOT_COMPLETE s
             else set_state w ANCS_STATE_ADVERTISING s)"

definition security_request :: "client_world \<Rightarrow> bytes \<Rightarrow> 'a client_task_scheme \<Rightarrow> 'a client_task_scheme" where
  "security_request w peer s =
    (let (active_enroll, s) = enroll_window_active_now w s;
         (allowed, s) = (if active_enroll then (True, s) else bond_list_contains_peer w (Some peer) s);
         s = act (SecurityResponse peer allowed) s
     in if allowed then s else act (GapDisconnect peer) s)"

definition auth_succeeded :: "client_world \<Rightarrow> bytes \<Rightarrow> 'a client_task_scheme \<Rightarrow> 'a client_task_scheme" where
  "auth_succeeded w peer s =
    (let s = acquire w s;
         (now, s) = now_ms w s;
         s = set_client (\<lambda>c. clear_auth_failure_guard_locked (c\<lparr>cl_bonded := True, cl_session_authenticated := True,
               cl_link_encrypted := True, cl_stage_deadline_ms := now + ANCS_DISCOVERY_TIMEOUT_MS\<rparr>)) s;
         s = set_enroll (\<lambda>e. ble_enroll_note_bonded e (Some peer)) s;
         s = stop_advertising w (act (TimerStop ENROLL_TIMER) s);
         s = transition w ANCS_SIGNAL_BONDED s
     in start_discovery w s)"

definition auth_failed :: "client_world \<Rightarrow> bytes \<Rightarrow> int \<Rightarrow> 'a client_task_scheme \<Rightarrow> 'a client_task_scheme" where
  "auth_failed w peer fail_reason s =
    (let (failure_at_ms, s) = now_ms w s;
         (count, s) = current_bond_count w s;
         s = set_client (\<lambda>c. c\<lparr>cl_auth_error := fail_reason, cl_last_auth_error := fail_reason,
               cl_last_auth_error_at_ms := of_int failure_at_ms\<rparr>) (acquire w s);
         (repair_required, s) = record_auth_failure_locked failure_at_ms (count = 0) s;
         s = set_client (\<lambda>c. c\<lparr>cl_closing := True, cl_session_authenticated := False, cl_link_encrypted := False,
               cl_ready := False, cl_discovery_retry_due_ms := 0\<rparr>) (acquire w s);
         s = publish_state w (set_state w ANCS_STATE_RECOVERING s);
         s = act (GapDisconnect peer) s
     in if repair_required then stop_advertising w (act (TimerStop ENROLL_TIMER) s)
        else schedule_advertising_retry w s)"

definition bond_removed ::
  "client_world \<Rightarrow> client_config \<Rightarrow> bool \<Rightarrow> 'a client_task_scheme \<Rightarrow> 'a client_task_scheme" where
  "bond_removed w cfg succeeded s =
    (if \<not> succeeded
     then let s = set_client (\<lambda>c. c\<lparr>cl_replace_pending := False, cl_last_replace_error := ESP_FAIL\<rparr>) (acquire w s);
              (remaining, s) = sync_existing_ble_bond w s
       in if remaining > 0 then start_advertising w s else s
     else let (remaining, s) = sync_existing_ble_bond w s;
              s = acquire w s;
              should_open = (remaining = 0 \<and> cl_replace_pending (client s));
              s = (if remaining = 0
                   then set_client (\<lambda>c. c\<lparr>cl_replace_pending := False, cl_last_replace_error := ESP_OK\<rparr>) s else s)
       in if \<not> should_open then s
          else let (enroll_error, s) = open_replacement_window w cfg s
            in if enroll_error = ESP_OK then s
               else set_client (\<lambda>c. c\<lparr>cl_last_replace_error := enroll_error\<rparr>) (acquire w s))"

definition gap_event_handler ::
  "client_world \<Rightarrow> client_config \<Rightarrow> gap_event \<Rightarrow> 'a client_task_scheme \<Rightarrow> 'a client_task_scheme" where
  "gap_event_handler w cfg event s =
    (case event of
       SET_LOCAL_PRIVACY_COMPLETE _ \<Rightarrow> local_privacy_complete w s
     | ADV_DATA_SET_COMPLETE \<Rightarrow> start_advertising w (set_client (clear_pending ADV_DATA_PENDING) (acquire w s))
     | SCAN_RSP_DATA_SET_COMPLETE \<Rightarrow> start_advertising w (set_client (clear_pending SCAN_RESPONSE_PENDING) (acquire w s))
     | ADV_START_COMPLETE succeeded \<Rightarrow> adv_start_complete w succeeded s
     | SEC_REQ peer \<Rightarrow> security_request w peer s
     | AUTH_CMPL peer success fail_reason \<Rightarrow>
         let (matches, s) = authentication_event_matches w (Some peer) s
         in if \<not> matches then s
            else if success then auth_succeeded w peer s else auth_failed w peer fail_reason s
     | REMOVE_BOND_DEV_COMPLETE succeeded \<Rightarrow> bond_removed w cfg succeeded s
     | UPDATE_CONN_PARAMS \<Rightarrow> s
     | NC_REQ peer \<Rightarrow> act (ConfirmReply peer False) s
     | PASSKEY_NOTIF \<Rightarrow> s
     | GAP_OTHER _ \<Rightarrow> s)"

section \<open>Events of the GATT client\<close>

datatype gattc_event =
    REG bool int
  | CONNECT u16 bytes nat
  | OPEN u16 bytes bool
  | CFG_MTU u16 bool
  | SEARCH_RES u16 bytes u16 u16
  | SEARCH_CMPL u16 bool
  | REG_FOR_NOTIFY u16 bool
  | WRITE_DESCR u16 u16 bool
  | NOTIFY u16 u16 bytes
  | WRITE_CHAR u16 u16 int
  | SRVC_CHG bytes
  | DISCONNECT u16 bytes int
  | GATTC_OTHER int

text \<open>A new connection starts a new generation; one that is not allowed is closed.\<close>

definition fresh_connection :: "u16 \<Rightarrow> bytes \<Rightarrow> nat \<Rightarrow> int \<Rightarrow> int \<Rightarrow> client_context \<Rightarrow> client_context" where
  "fresh_connection conn_id peer addr_type prepare_now stage_now c =
    (invalidate_ancs_handles_locked (c\<lparr>cl_generation := cl_generation c + 1, cl_session_authenticated := False,
       cl_link_encrypted := False, cl_closing := False, cl_close_attempts := 0, cl_close_retry_due_ms := 0,
       cl_mtu_ready := False, cl_discovery_attempt := 0, cl_discovery_retry_due_ms := 0,
       cl_last_stage_error := ESP_OK, cl_prepare_deadline_ms := prepare_now + ANCS_PREPARE_TIMEOUT_MS,
       cl_stage_deadline_ms := stage_now + ANCS_AUTH_TIMEOUT_MS\<rparr>))
     \<lparr>cl_remote_bda := peer, cl_remote_addr_type := addr_type, cl_conn_id := conn_id, cl_connected := True,
      cl_advertising := False, cl_advertising_starting := False\<rparr>"

definition on_connect ::
  "client_world \<Rightarrow> u8 \<Rightarrow> u16 \<Rightarrow> bytes \<Rightarrow> nat \<Rightarrow> 'a client_task_scheme \<Rightarrow> 'a client_task_scheme" where
  "on_connect w gattc_if conn_id peer addr_type s =
    (let (allowed, s) = connection_peer_allowed w (Some peer) s
     in if \<not> allowed then act (GapDisconnect peer) s
        else let s = acquire w s
          in if cl_connected (client s) then s
             else let (prepare_now, s) = now_ms w s;
                      (stage_now, s) = now_ms w s;
                      s = set_client (fresh_connection conn_id peer addr_type prepare_now stage_now) s;
                      s = transition w ANCS_SIGNAL_CONNECTED s;
                      (error, s) = request w (EnhOpen gattc_if peer) s
               in if error = ESP_OK then s else act (GapDisconnect peer) s)"

definition on_open ::
  "client_world \<Rightarrow> u8 \<Rightarrow> u16 \<Rightarrow> bytes \<Rightarrow> bool \<Rightarrow> 'a client_task_scheme \<Rightarrow> 'a client_task_scheme" where
  "on_open w gattc_if conn_id peer succeeded s =
    (let (matches, s) = connection_event_matches w conn_id (Some peer) s
     in if \<not> matches then s
        else if \<not> succeeded then act (GapDisconnect peer) s
        else let s = set_client (\<lambda>c. c\<lparr>cl_conn_id := conn_id, cl_remote_bda := peer\<rparr>) (acquire w s);
                 s = transition w ANCS_SIGNAL_ENCRYPTION_STARTED s;
                 (error, s) = request w (SetEncryption peer) s;
                 s = (if error \<noteq> ESP_OK then act (GapDisconnect peer) s else s)
          in act (SendMtuRequest gattc_if conn_id) s)"

definition on_mtu :: "client_world \<Rightarrow> u16 \<Rightarrow> 'a client_task_scheme \<Rightarrow> 'a client_task_scheme" where
  "on_mtu w conn_id s =
    (let (matches, s) = gatt_connection_matches w conn_id s
     in if \<not> matches then s
        else start_discovery w (set_client (\<lambda>c. c\<lparr>cl_mtu_ready := True\<rparr>) (acquire w s)))"

definition on_search_result ::
  "client_world \<Rightarrow> u16 \<Rightarrow> bytes \<Rightarrow> u16 \<Rightarrow> u16 \<Rightarrow> 'a client_task_scheme \<Rightarrow> 'a client_task_scheme" where
  "on_search_result w conn_id uuid start_handle end_handle s =
    (let s = acquire w s
     in if \<not> cl_discovery_in_progress (client s) then s
        else let (matches, s) = gatt_connection_matches w conn_id s
          in if \<not> matches \<or> \<not> uuid_equal (Some uuid) ANCS_SERVICE_UUID then s
             else set_client (\<lambda>c. c\<lparr>cl_service_found := True, cl_service_start_handle := start_handle,
               cl_service_end_handle := end_handle\<rparr>) (acquire w s))"

definition on_search_complete :: "client_world \<Rightarrow> u16 \<Rightarrow> bool \<Rightarrow> 'a client_task_scheme \<Rightarrow> 'a client_task_scheme" where
  "on_search_complete w conn_id succeeded s =
    (let s = acquire w s
     in if \<not> cl_discovery_in_progress (client s) then s
        else let (matches, s) = gatt_connection_matches w conn_id s
          in if \<not> matches then s
             else let s = set_client (\<lambda>c. c\<lparr>cl_discovery_in_progress := False\<rparr>) (acquire w s)
               in if \<not> succeeded \<or> \<not> cl_service_found (client s) then retry_later w s
                  else discover_characteristics w s)"

text \<open>The registration the set-up waits for; the descriptor of its characteristic is written next.\<close>

definition on_notify_registered ::
  "client_world \<Rightarrow> u16 \<Rightarrow> bool \<Rightarrow> 'a client_task_scheme \<Rightarrow> 'a client_task_scheme" where
  "on_notify_registered w handle succeeded s =
    (let s = acquire w s; c = client s;
         expected = (cl_connected c \<and> \<not> cl_closing c \<and> cl_session_authenticated c \<and>
           cl_pending_notify_generation c = cl_generation c \<and> cl_pending_notify_handle c \<noteq> INVALID_HANDLE \<and>
           cl_pending_notify_handle c = handle);
         s = (if expected then set_client (\<lambda>c. c\<lparr>cl_pending_notify_handle := INVALID_HANDLE\<rparr>) s else s)
     in if \<not> expected then s
        else if \<not> succeeded then retry_later w s
        else let s = acquire w s;
                 data_source_handle = cl_data_source_handle (client s);
                 notification_source_handle = cl_notification_source_handle (client s)
          in if handle = data_source_handle
             then let ((error, cccd_handle), s) = write_cccd w INVALID_HANDLE s
               in if error \<noteq> ESP_OK then retry_later w s
                  else set_client (\<lambda>c. if cl_data_source_handle c = data_source_handle
                         then c\<lparr>cl_data_source_cccd_handle := cccd_handle\<rparr> else c) (acquire w s)
             else if handle = notification_source_handle
             then let ((error, cccd_handle), s) = write_cccd w INVALID_HANDLE s
               in if error \<noteq> ESP_OK then retry_later w s
                  else set_client (\<lambda>c. if cl_notification_source_handle c = notification_source_handle
                         then c\<lparr>cl_notification_source_cccd_handle := cccd_handle\<rparr> else c) (acquire w s)
             else s)"

definition descriptor_expected :: "u16 \<Rightarrow> client_context \<Rightarrow> bool" where
  "descriptor_expected handle c \<longleftrightarrow> cl_session_authenticated c \<and>
     (handle \<noteq> INVALID_HANDLE \<and> handle = cl_data_source_cccd_handle c \<and> \<not> cl_data_source_subscribed c \<or>
      handle \<noteq> INVALID_HANDLE \<and> handle = cl_notification_source_cccd_handle c \<and>
        cl_data_source_subscribed c \<and> \<not> cl_notification_source_subscribed c)"

text \<open>The second subscription is there: the client is ready when everything before it is still in place.\<close>

definition all_in_place :: "client_context \<Rightarrow> bool" where
  "all_in_place c \<longleftrightarrow> cl_connected c \<and> cl_session_authenticated c \<and> cl_link_encrypted c \<and>
     cl_service_found c \<and> cl_data_source_subscribed c"

definition subscriptions_done :: "client_world \<Rightarrow> 'a client_task_scheme \<Rightarrow> 'a client_task_scheme" where
  "subscriptions_done w s =
    (let s = set_client (\<lambda>c. c\<lparr>cl_notification_source_subscribed := True\<rparr>) (acquire w s);
         ready = all_in_place (client s);
         s = set_client (\<lambda>c. c\<lparr>cl_session_id := (if ready \<and> \<not> cl_ready c then cl_session_id c + 1 else cl_session_id c),
               cl_ready := ready, cl_stage_deadline_ms := 0, cl_discovery_retry_due_ms := 0,
               cl_last_stage_error := ESP_OK\<rparr>) s;
         s = transition w ANCS_SIGNAL_NOTIFICATION_SUBSCRIBED s
     in if ready then s else set_state w ANCS_STATE_RECOVERING s)"

definition on_descriptor_written ::
  "client_world \<Rightarrow> u16 \<Rightarrow> u16 \<Rightarrow> bool \<Rightarrow> 'a client_task_scheme \<Rightarrow> 'a client_task_scheme" where
  "on_descriptor_written w conn_id handle succeeded s =
    (let (matches, s) = gatt_connection_matches w conn_id s
     in if \<not> matches then s
        else let s = acquire w s
          in if \<not> descriptor_expected handle (client s) then s
             else if \<not> succeeded then retry_later w s
             else let s = acquire w s;
                      data_source_cccd_handle = cl_data_source_cccd_handle (client s);
                      notification_source_cccd_handle = cl_notification_source_cccd_handle (client s)
               in if handle = data_source_cccd_handle
                  then begin_notification_source_subscription w (transition w ANCS_SIGNAL_DATA_SUBSCRIBED
                    (set_client (\<lambda>c. c\<lparr>cl_data_source_subscribed := True\<rparr>) (acquire w s)))
                  else if handle = notification_source_cccd_handle then subscriptions_done w s
                  else s)"

text \<open>
  A frame of the phone goes to the worker. The length of a frame is that of its list of bytes; a frame
  that does not parse, or for which there is no room, is lost.
\<close>

definition on_notify ::
  "client_world \<Rightarrow> client_config \<Rightarrow> u16 \<Rightarrow> u16 \<Rightarrow> bytes \<Rightarrow> 'a client_task_scheme \<Rightarrow> 'a client_task_scheme" where
  "on_notify w cfg conn_id handle frame s =
    (let (matches, s) = gatt_connection_matches w conn_id s
     in if \<not> matches then s
        else let s = acquire w s;
                 notification_source_handle = cl_notification_source_handle (client s);
                 data_source_handle = cl_data_source_handle (client s)
          in if handle = notification_source_handle
             then (case ancs_parse_notification_source (Some frame) (length frame) (Some zero_event) of
                 (ANCS_PROTOCOL_OK, Some event) \<Rightarrow>
                   let (generation, s) = current_generation w s
                   in snd (enqueue_work w cfg \<lparr>wi_generation = generation, wi_data = WORK_NOTIFICATION_EVENT event\<rparr> s)
               | _ \<Rightarrow> s)
             else if handle = data_source_handle
             then (if length frame > MAX_FRAGMENT_SIZE cfg then s
                   else let (room, s) = ask (cw_alloc w) s
                     in if \<not> room then s
                        else let (generation, s) = current_generation w s;
                                 (queued, s) = enqueue_work w cfg
                                   \<lparr>wi_generation = generation, wi_data = WORK_DATA_FRAGMENT (Some frame)\<rparr> s
                          in if queued then s else act (FreeFragment (Some frame)) s)
             else s)"

definition on_char_written ::
  "client_world \<Rightarrow> client_config \<Rightarrow> u16 \<Rightarrow> u16 \<Rightarrow> int \<Rightarrow> 'a client_task_scheme \<Rightarrow> 'a client_task_scheme" where
  "on_char_written w cfg conn_id handle status s =
    (let (matches, s) = gatt_connection_matches w conn_id s
     in if \<not> matches then s
        else let s = acquire w s
          in if handle \<noteq> cl_control_point_handle (client s) then s
             else let (generation, s) = current_generation w s
               in snd (enqueue_work w cfg \<lparr>wi_generation = generation, wi_data = WORK_CONTROL_WRITE_RESULT status\<rparr> s))"

definition on_service_changed ::
  "client_world \<Rightarrow> client_config \<Rightarrow> bytes \<Rightarrow> 'a client_task_scheme \<Rightarrow> 'a client_task_scheme" where
  "on_service_changed w cfg peer s =
    (let s = acquire w s in if peer = cl_remote_bda (client s) then handle_service_changed w cfg s else s)"

definition on_disconnect ::
  "client_world \<Rightarrow> client_config \<Rightarrow> u16 \<Rightarrow> bytes \<Rightarrow> int \<Rightarrow> 'a client_task_scheme \<Rightarrow> 'a client_task_scheme" where
  "on_disconnect w cfg conn_id peer reason s =
    (let (matches, s) = connection_event_matches w conn_id (Some peer) s
     in if \<not> matches then s
        else let s = set_client (\<lambda>c. c\<lparr>cl_last_disconnect_reason := reason\<rparr>) (acquire w s);
                 s = reset_connection_session w cfg s;
                 s = acquire w (transition w ANCS_SIGNAL_DISCONNECTED s);
                 reopen = cl_reopen_after_disconnect (client s);
                 s = set_client (\<lambda>c. c\<lparr>cl_reopen_after_disconnect := False\<rparr>) s
          in if \<not> reopen then schedule_advertising_retry w s
             else let (error, s) = ancs_client_request_enroll w cfg s
               in set_client (\<lambda>c. c\<lparr>cl_last_replace_error := error\<rparr>) (acquire w s))"

text \<open>\<open>None\<close> is the restart of the chip by \<open>ESP_ERROR_CHECK\<close>.\<close>

definition on_register :: "client_world \<Rightarrow> u8 \<Rightarrow> 'a client_task_scheme \<Rightarrow> 'a client_task_scheme option" where
  "on_register w gattc_if s =
    (let s = set_client (\<lambda>c. c\<lparr>cl_gattc_if := gattc_if\<rparr>) (acquire w s);
         (error, s) = request w (SetDeviceName (cl_device_name (client s))) s
     in if error \<noteq> ESP_OK then None
        else let (error, s) = request w ConfigLocalPrivacy s
          in if error \<noteq> ESP_OK then None else Some s)"

definition handle_gattc_event ::
  "client_world \<Rightarrow> client_config \<Rightarrow> gattc_event \<Rightarrow> u8 \<Rightarrow> 'a client_task_scheme \<Rightarrow> 'a client_task_scheme option" where
  "handle_gattc_event w cfg event gattc_if s =
    (case event of
       REG _ _ \<Rightarrow> on_register w gattc_if s
     | CONNECT conn_id peer addr_type \<Rightarrow> Some (on_connect w gattc_if conn_id peer addr_type s)
     | OPEN conn_id peer succeeded \<Rightarrow> Some (on_open w gattc_if conn_id peer succeeded s)
     | CFG_MTU conn_id _ \<Rightarrow> Some (on_mtu w conn_id s)
     | SEARCH_RES conn_id uuid start_handle end_handle \<Rightarrow> Some (on_search_result w conn_id uuid start_handle end_handle s)
     | SEARCH_CMPL conn_id succeeded \<Rightarrow> Some (on_search_complete w conn_id succeeded s)
     | REG_FOR_NOTIFY handle succeeded \<Rightarrow> Some (on_notify_registered w handle succeeded s)
     | WRITE_DESCR conn_id handle succeeded \<Rightarrow> Some (on_descriptor_written w conn_id handle succeeded s)
     | NOTIFY conn_id handle frame \<Rightarrow> Some (on_notify w cfg conn_id handle frame s)
     | WRITE_CHAR conn_id handle status \<Rightarrow> Some (on_char_written w cfg conn_id handle status s)
     | SRVC_CHG peer \<Rightarrow> Some (on_service_changed w cfg peer s)
     | DISCONNECT conn_id peer reason \<Rightarrow> Some (on_disconnect w cfg conn_id peer reason s)
     | GATTC_OTHER _ \<Rightarrow> Some s)"

definition ANCS_APP_ID :: int where "ANCS_APP_ID = 0"

definition gattc_callback ::
  "client_world \<Rightarrow> client_config \<Rightarrow> gattc_event \<Rightarrow> u8 \<Rightarrow> 'a client_task_scheme \<Rightarrow> 'a client_task_scheme option" where
  "gattc_callback w cfg event gattc_if s =
    (let (registered, s) = (case event of
           REG succeeded app_id \<Rightarrow>
             if \<not> succeeded \<or> app_id \<noteq> ANCS_APP_ID then (False, s)
             else (True, set_client (\<lambda>c. c\<lparr>cl_gattc_if := gattc_if\<rparr>) (acquire w s))
         | _ \<Rightarrow> (True, s))
     in if \<not> registered then Some s
        else let s = acquire w s
          in if gattc_if = ESP_GATT_IF_NONE \<or> gattc_if = cl_gattc_if (client s)
             then handle_gattc_event w cfg event gattc_if s else Some s)"

end
