(* ===== verification/Client_Api.thy ===== *)
theory Client_Api
  imports Client_Link
begin

text \<open>
  The set-up of the Bluetooth client and the operations the rest of the firmware calls, in
  \<^verbatim>\<open>components/ancs_client/ancs_client.c\<close> and its header.
\<close>

section \<open>Set-up\<close>

record init_progress =
  controller_initialized :: bool
  controller_enabled :: bool
  bluedroid_initialized :: bool
  bluedroid_enabled :: bool

text \<open>
  A run of the set-up: the error so far, what of the Bluetooth stack is up, and the task. After an error nothing
  else is called, as after a \<open>goto init_failed\<close>.
\<close>

type_synonym 'a init_run = "esp_err \<times> init_progress \<times> 'a client_task_scheme"

definition attempt_call ::
  "client_world \<Rightarrow> init_call \<Rightarrow> (init_progress \<Rightarrow> init_progress) \<Rightarrow> (client_context \<Rightarrow> client_context) \<Rightarrow>
   'a init_run \<Rightarrow> 'a init_run" where
  "attempt_call w call up f run =
    (let (error, progress, s) = run
     in if error \<noteq> ESP_OK then run
        else let (error, s) = request w (Initialize call) s
          in if error \<noteq> ESP_OK then (error, progress, s) else (ESP_OK, up progress, set_client f s))"

text \<open>A queue or a task that cannot be made is an error of memory.\<close>

definition init_create ::
  "client_world \<Rightarrow> init_call \<Rightarrow> (client_context \<Rightarrow> client_context) \<Rightarrow> 'a init_run \<Rightarrow> 'a init_run" where
  "init_create w call f run =
    (let (error, progress, s) = run
     in if error \<noteq> ESP_OK then run
        else let (made, s) = request w (Initialize call) s
          in if made \<noteq> ESP_OK then (ESP_ERR_NO_MEM, progress, s) else (ESP_OK, progress, set_client f s))"

definition enroll_config :: "client_config \<Rightarrow> ble_enroll_config" where
  "enroll_config cfg = \<lparr>cfg_window_ms = of_int (ENROLL_WINDOW_MS cfg), cfg_boot_hold_ms = of_int (ENROLL_BOOT_HOLD_MS cfg),
     cfg_button_debounce_ms = of_int (ENROLL_BUTTON_DEBOUNCE_MS cfg)\<rparr>"

text \<open>\<open>%02X\<close> of a byte.\<close>

definition upper_digit :: "u8 \<Rightarrow> u8" where
  "upper_digit d = (if d < 10 then 48 + d else 55 + d)"

definition upper_hex :: "u8 \<Rightarrow> bytes" where
  "upper_hex b = [upper_digit (drop_bit 4 b), upper_digit (b AND 15)]"

definition device_name :: "client_world \<Rightarrow> bytes \<Rightarrow> bytes" where
  "device_name w mac = cs ''IOS-ANCS-'' @ cw_device_family w @ cs ''-'' @ upper_hex (mac ! 4) @ upper_hex (mac ! 5)"

text \<open>\<open>snprintf\<close> into the field; a name that does not fit is an error.\<close>

definition init_name :: "client_world \<Rightarrow> 'a init_run \<Rightarrow> 'a init_run" where
  "init_name w run =
    (let (error, progress, s) = run
     in if error \<noteq> ESP_OK then run
        else let (mac, s) = ask (cw_base_mac w) s;
                 name = device_name w mac;
                 s = set_client (\<lambda>c. c\<lparr>cl_device_name := strlcpy (cl_device_name c) (name @ [0])\<rparr>) s
          in if length name \<ge> length (cl_device_name (client s)) then (ESP_ERR_INVALID_SIZE, progress, s)
             else (ESP_OK, progress, s))"

definition init_load_bond :: "client_world \<Rightarrow> 'a init_run \<Rightarrow> 'a init_run" where
  "init_load_bond w run =
    (let (error, progress, s) = run
     in if error \<noteq> ESP_OK then run else (ESP_OK, progress, load_existing_ble_bond w s))"

definition security_params :: "client_world \<Rightarrow> security_param list" where
  "security_params w = [SET_STATIC_PASSKEY (cw_passkey w), AUTHEN_REQ_MODE, IOCAP_MODE, MAX_KEY_SIZE,
     ONLY_ACCEPT_SPECIFIED_SEC_AUTH, OOB_SUPPORT, SET_INIT_KEY, SET_RSP_KEY]"

definition configure_security :: "client_world \<Rightarrow> 'a init_run \<Rightarrow> 'a init_run" where
  "configure_security w run =
    (let (error, progress, s) = run
     in if error \<noteq> ESP_OK then run
        else if cw_passkey w < 100000 \<or> cw_passkey w > 999999 then (ESP_ERR_INVALID_STATE, progress, s)
        else foldl (\<lambda>run param. attempt_call w (SetSecurityParam param) id id run) run (security_params w))"

definition cleanup_timer :: "client_timer \<Rightarrow> 'a client_task_scheme \<Rightarrow> 'a client_task_scheme" where
  "cleanup_timer timer s =
    (if timer \<notin> set (cl_timers (client s)) then s
     else set_client (\<lambda>c. c\<lparr>cl_timers := removeAll timer (cl_timers c)\<rparr>)
       (act (Initialize (TimerDelete timer)) (act (TimerStop timer) s)))"

definition cleanup_init_resources ::
  "client_world \<Rightarrow> init_progress \<Rightarrow> 'a client_task_scheme \<Rightarrow> 'a client_task_scheme" where
  "cleanup_init_resources w progress s =
    (let s = (if bluedroid_enabled progress then act (Initialize BluedroidDisable) s else s);
         s = (if bluedroid_initialized progress then act (Initialize BluedroidDeinit) s else s);
         s = (if controller_enabled progress then act (Initialize ControllerDisable) s else s);
         s = (if controller_initialized progress then act (Initialize ControllerDeinit) s else s);
         s = cleanup_timer ADVERTISING_RETRY_TIMER (cleanup_timer DISCOVERY_RETRY_TIMER
               (cleanup_timer ENROLL_TIMER (cleanup_timer BUTTON_TIMER s)));
         s = (if cl_worker_task (client s)
              then set_client (\<lambda>c. c\<lparr>cl_worker_task := False\<rparr>) (act (Initialize TaskDelete) s) else s);
         s = (case cl_work_queue (client s) of
                None \<Rightarrow> s
              | Some items \<Rightarrow> set_client (\<lambda>c. c\<lparr>cl_work_queue := None\<rparr>)
                  (act (Initialize QueueDelete) (foldl (\<lambda>s item. free_work_item item s) s items)))
     in set_client (\<lambda>c. invalidate_ancs_handles_locked (c\<lparr>cl_initialized := False, cl_connected := False,
          cl_bonded := False, cl_advertising := False, cl_advertising_starting := False,
          cl_gattc_if := ESP_GATT_IF_NONE\<rparr>)) (acquire w s))"

definition add_timer :: "client_timer \<Rightarrow> client_context \<Rightarrow> client_context" where
  "add_timer timer c = c\<lparr>cl_timers := timer # cl_timers c\<rparr>"

text \<open>The memory, the worker and the timers first, then the stack, the profile, its callbacks and its security.\<close>

definition init_resources :: "client_world \<Rightarrow> 'a init_run \<Rightarrow> 'a init_run" where
  "init_resources w run =
    (let run = attempt_call w ReadBaseMac id id run;
         run = init_name w run;
         run = init_create w QueueCreate (\<lambda>c. c\<lparr>cl_work_queue := Some []\<rparr>) run;
         run = init_create w TaskCreate (\<lambda>c. c\<lparr>cl_worker_task := True\<rparr>) run;
         run = attempt_call w (TimerCreate ADVERTISING_RETRY_TIMER) id (add_timer ADVERTISING_RETRY_TIMER) run;
         run = attempt_call w (TimerCreate DISCOVERY_RETRY_TIMER) id (add_timer DISCOVERY_RETRY_TIMER) run;
         run = attempt_call w (TimerCreate ENROLL_TIMER) id (add_timer ENROLL_TIMER) run;
         run = attempt_call w (TimerCreate BUTTON_TIMER) id (add_timer BUTTON_TIMER) run
     in attempt_call w GpioConfig id id run)"

definition init_stack :: "client_world \<Rightarrow> client_config \<Rightarrow> 'a init_run \<Rightarrow> 'a init_run" where
  "init_stack w cfg run =
    (let run = attempt_call w MemRelease id id run;
         run = attempt_call w ControllerInit (\<lambda>p. p\<lparr>controller_initialized := True\<rparr>) id run;
         run = attempt_call w ControllerEnable (\<lambda>p. p\<lparr>controller_enabled := True\<rparr>) id run;
         run = attempt_call w BluedroidInit (\<lambda>p. p\<lparr>bluedroid_initialized := True\<rparr>) id run;
         run = attempt_call w BluedroidEnable (\<lambda>p. p\<lparr>bluedroid_enabled := True\<rparr>) id run;
         run = init_load_bond w run;
         run = attempt_call w HidServerInit id id run;
         run = attempt_call w RegisterGattcCallback id id run;
         run = attempt_call w RegisterGapCallback id id run;
         run = attempt_call w (SetLocalMtu 500) id id run;
         run = configure_security w run;
         run = attempt_call w AppRegister id id run
     in attempt_call w (TimerStartPeriodic BUTTON_TIMER (nat (ENROLL_BUTTON_DEBOUNCE_MS cfg) * 1000)) id id run)"

definition init_enrollment :: "client_config \<Rightarrow> 'a client_task_scheme \<Rightarrow> 'a client_task_scheme" where
  "init_enrollment cfg s =
    (let s = set_enroll (\<lambda>e. ble_enroll_init e (enroll_config cfg)) s
     in s\<lparr>ct_shared := (ct_shared s)\<lparr>sh_button :=
          (case ble_enroll_button_init (Some (sh_button (ct_shared s))) (enroll_config cfg) of
             None \<Rightarrow> sh_button (ct_shared s) | Some b \<Rightarrow> b)\<rparr>\<rparr>)"

text \<open>The store of the flash is opened first; its bonds are never erased.\<close>

definition init_storage :: "client_world \<Rightarrow> 'a client_task_scheme \<Rightarrow> 'a init_run" where
  "init_storage w s =
    (let (error, s) = request w (Initialize NvsFlashInit) s;
         progress = \<lparr>controller_initialized = False, controller_enabled = False, bluedroid_initialized = False,
           bluedroid_enabled = False\<rparr>
     in if error \<noteq> ESP_OK then (error, progress, set_client (\<lambda>c. c\<lparr>cl_bond_store_error := error\<rparr>) s)
        else attempt_call w DeviceCredentialsInit id id (ESP_OK, progress, s))"

definition ancs_client_init ::
  "client_world \<Rightarrow> client_config \<Rightarrow> 'a client_task_scheme \<Rightarrow> esp_err \<times> 'a client_task_scheme" where
  "ancs_client_init w cfg s =
    (let (error, progress, s) =
           init_stack w cfg (init_resources w (init_storage w (init_enrollment cfg (publish_state w s))))
     in if error = ESP_OK then (ESP_OK, set_client (\<lambda>c. c\<lparr>cl_initialized := True\<rparr>) (acquire w s))
        else (error, publish_state w (set_state w ANCS_STATE_RECOVERING (cleanup_init_resources w progress s))))"

section \<open>Operations\<close>

definition ancs_client_register_boot_held_callback ::
  "client_world \<Rightarrow> nat option \<Rightarrow> nat \<Rightarrow> 'a client_task_scheme \<Rightarrow> esp_err \<times> 'a client_task_scheme" where
  "ancs_client_register_boot_held_callback w callback context s =
    (ESP_OK, set_client (\<lambda>c. c\<lparr>cl_boot_held_callback := callback,
       cl_boot_held_callback_context := (if callback = None then 0 else context)\<rparr>) (acquire w s))"

text \<open>Every bond is removed and the phone that is connected is let go; the window opens when the last bond is gone.\<close>

definition replace_failed :: "client_world \<Rightarrow> esp_err \<Rightarrow> 'a client_task_scheme \<Rightarrow> 'a client_task_scheme" where
  "replace_failed w error s =
    (let s = set_client (\<lambda>c. c\<lparr>cl_replace_pending := False, cl_last_replace_error := error\<rparr>) (acquire w s);
         (remaining, s) = sync_existing_ble_bond w s
     in if remaining > 0 then start_advertising w s else s)"

definition ancs_client_replace_enrollment ::
  "client_world \<Rightarrow> client_config \<Rightarrow> bool \<Rightarrow> 'a client_task_scheme \<Rightarrow> esp_err \<times> 'a client_task_scheme" where
  "ancs_client_replace_enrollment w cfg confirmed s =
    (let s = acquire w s
     in if \<not> cl_initialized (client s) then (ESP_ERR_INVALID_STATE, s)
        else if \<not> confirmed
        then (ESP_ERR_INVALID_STATE, set_client (\<lambda>c. c\<lparr>cl_last_replace_error := ESP_ERR_INVALID_STATE\<rparr>) (acquire w s))
        else let s = set_client clear_auth_failure_guard_locked (acquire w s);
                 (bond_count, s) = current_bond_count w s;
                 s = set_client (\<lambda>c. c\<lparr>cl_last_replace_error := ESP_OK\<rparr>) (acquire w s)
          in if bond_count < 0 then (ESP_FAIL, s)
             else let s = set_client (\<lambda>c. c\<lparr>cl_replace_pending := (bond_count > 0)\<rparr>) (acquire w s);
                      s = (if cl_connected (client s) then act (GapDisconnect (cl_remote_bda (client s))) s else s);
                      (error, s) = remove_all_ble_bonds w (stop_advertising w s)
               in if error \<noteq> ESP_OK then (error, replace_failed w error s)
                  else let (remaining, s) = current_bond_count w s
                    in if remaining \<noteq> 0 then (ESP_OK, s)
                       else let s = set_client (\<lambda>c. c\<lparr>cl_replace_pending := False\<rparr>) (acquire w s);
                                (enroll_error, s) = open_replacement_window w cfg s
                         in (enroll_error, set_client (\<lambda>c. c\<lparr>cl_last_replace_error := enroll_error\<rparr>) (acquire w s)))"

definition ancs_client_ble_passkey :: "client_world \<Rightarrow> u32" where
  "ancs_client_ble_passkey w = cw_passkey w"

record enrollment_status =
  st_enroll_active :: bool
  st_replace_pending :: bool
  st_has_bond :: bool
  st_connected :: bool
  st_pairing_repair_required :: bool
  st_auth_failure_count :: u8
  st_auth_error :: int
  st_last_auth_error :: int
  st_last_auth_error_at_ms :: u64
  st_bond_count :: int
  st_last_replace_error :: esp_err
  st_bond_store_known :: bool
  st_bond_store_error :: esp_err
  st_boot_bond_count :: int
  st_session_authenticated :: bool
  st_link_encrypted :: bool
  st_ancs_service_found :: bool
  st_data_source_subscribed :: bool
  st_notification_source_subscribed :: bool
  st_ancs_ready :: bool
  st_enrollment_remaining_seconds :: u32
  st_last_stage_error :: esp_err
  st_last_disconnect_reason :: int
  st_state :: ancs_client_state
  st_generation :: u32

definition ancs_client_get_enrollment_status ::
  "client_world \<Rightarrow> 'a client_task_scheme \<Rightarrow> enrollment_status \<times> 'a client_task_scheme" where
  "ancs_client_get_enrollment_status w s =
    (let (now, s) = now_ms w s;
         s = acquire w s;
         initialized = cl_initialized (client s);
         (bond_count, s) = (if initialized then current_bond_count w s else (-1, s));
         s = acquire w s;
         c = client s;
         active = ble_enroll_window_active (Some (enroll s)) now
     in (\<lparr>st_enroll_active = active, st_replace_pending = cl_replace_pending c,
          st_has_bond = (bond_count > 0 \<or> ble_enroll_has_bond (Some (enroll s))), st_connected = cl_connected c,
          st_pairing_repair_required = cl_pairing_repair_required c, st_auth_failure_count = cl_auth_failure_count c,
          st_auth_error = cl_auth_error c, st_last_auth_error = cl_last_auth_error c,
          st_last_auth_error_at_ms = cl_last_auth_error_at_ms c, st_bond_count = bond_count,
          st_last_replace_error = cl_last_replace_error c,
          st_bond_store_known = (initialized \<and> bond_count \<ge> 0 \<and> cl_bond_store_error c = ESP_OK),
          st_bond_store_error = (if bond_count < 0 \<and> initialized then ESP_FAIL else cl_bond_store_error c),
          st_boot_bond_count = cl_boot_bond_count c, st_session_authenticated = cl_session_authenticated c,
          st_link_encrypted = cl_link_encrypted c, st_ancs_service_found = cl_service_found c,
          st_data_source_subscribed = cl_data_source_subscribed c,
          st_notification_source_subscribed = cl_notification_source_subscribed c,
          st_ancs_ready = (cl_connected c \<and> \<not> cl_closing c \<and> cl_session_authenticated c \<and> cl_link_encrypted c \<and>
            cl_service_found c \<and> cl_data_source_subscribed c \<and> cl_notification_source_subscribed c \<and> cl_ready c),
          st_enrollment_remaining_seconds =
            (if active then of_int ((es_window_deadline_ms (enroll s) - now + 999) div 1000) else 0),
          st_last_stage_error = cl_last_stage_error c, st_last_disconnect_reason = cl_last_disconnect_reason c,
          st_state = cl_state c, st_generation = cl_generation c\<rparr>, s))"

definition ancs_client_start_advertising ::
  "client_world \<Rightarrow> 'a client_task_scheme \<Rightarrow> esp_err \<times> 'a client_task_scheme" where
  "ancs_client_start_advertising w s =
    (let (allowed, s) = enroll_should_advertise_now w s
     in if \<not> allowed then (ESP_ERR_INVALID_STATE, s) else (ESP_OK, start_advertising w s))"

definition ancs_client_stop_advertising ::
  "client_world \<Rightarrow> 'a client_task_scheme \<Rightarrow> esp_err \<times> 'a client_task_scheme" where
  "ancs_client_stop_advertising w s = (ESP_OK, stop_advertising w s)"

definition ancs_client_set_pairing_allowed ::
  "client_world \<Rightarrow> client_config \<Rightarrow> bool \<Rightarrow> 'a client_task_scheme \<Rightarrow> 'a client_task_scheme" where
  "ancs_client_set_pairing_allowed w cfg allowed s =
    (if allowed then snd (ancs_client_request_enroll w cfg s)
     else let s = act (TimerStop ENROLL_TIMER) s;
              s = set_enroll ble_enroll_close_window (acquire w s);
              has_bond = ble_enroll_has_bond (Some (enroll s))
       in if \<not> has_bond then stop_advertising w s else s)"

definition ancs_client_enroll_active :: "client_world \<Rightarrow> 'a client_task_scheme \<Rightarrow> bool \<times> 'a client_task_scheme" where
  "ancs_client_enroll_active w s = enroll_window_active_now w s"

definition ancs_client_replace_pending :: "client_world \<Rightarrow> 'a client_task_scheme \<Rightarrow> bool \<times> 'a client_task_scheme" where
  "ancs_client_replace_pending w s = (let (status, s) = ancs_client_get_enrollment_status w s in (st_replace_pending status, s))"

definition ancs_client_last_replace_error :: "client_world \<Rightarrow> 'a client_task_scheme \<Rightarrow> esp_err \<times> 'a client_task_scheme" where
  "ancs_client_last_replace_error w s =
    (let (status, s) = ancs_client_get_enrollment_status w s in (st_last_replace_error status, s))"

definition ancs_client_bond_count :: "client_world \<Rightarrow> 'a client_task_scheme \<Rightarrow> int \<times> 'a client_task_scheme" where
  "ancs_client_bond_count w s = (let (status, s) = ancs_client_get_enrollment_status w s in (st_bond_count status, s))"

definition ancs_client_has_bond :: "client_world \<Rightarrow> 'a client_task_scheme \<Rightarrow> bool \<times> 'a client_task_scheme" where
  "ancs_client_has_bond w s = (let (status, s) = ancs_client_get_enrollment_status w s in (st_has_bond status, s))"

definition ancs_client_is_connected :: "client_world \<Rightarrow> 'a client_task_scheme \<Rightarrow> bool \<times> 'a client_task_scheme" where
  "ancs_client_is_connected w s = (let s = acquire w s in (cl_connected (client s), s))"

end
