(* ===== verification/Client_Session.thy ===== *)
theory Client_Session
  imports Client_Events Client_Api
begin

text \<open>
  What the tasks of the Bluetooth client maintain together: the client is ready only when the link is authenticated
  and encrypted and both characteristics are subscribed, a connection that does not become ready is closed, and
  only phones the owner admitted are connected to. The critical sections are interleaved in any way: every step
  starts from what the others left, as long as they keep the same invariant.
\<close>

section \<open>The invariant\<close>

definition link_ok :: "client_context \<Rightarrow> bool" where
  "link_ok c \<longleftrightarrow>
     (cl_ready c \<longrightarrow> all_in_place c \<and> cl_notification_source_subscribed c) \<and>
     (cl_connected c \<longrightarrow> 0 < cl_prepare_deadline_ms c) \<and>
     (\<not> cl_closing c \<longrightarrow> cl_close_attempts c = 0 \<and> cl_close_retry_due_ms c = 0)"

definition client_ok :: "client_context \<Rightarrow> bool" where
  "client_ok c \<longleftrightarrow> cl_work_queue c \<noteq> None \<and> link_ok c"

text \<open>What a task relies on: the other tasks keep the invariant, and the clock counts from the boot.\<close>

definition world_ok :: "client_world \<Rightarrow> bool" where
  "world_ok w \<longleftrightarrow> (\<forall>t. 0 \<le> cw_now w t) \<and>
     (\<forall>t sh. link_ok (sh_client sh) \<longrightarrow> link_ok (sh_client (cw_others w t sh))) \<and>
     (\<forall>t sh. cl_work_queue (sh_client sh) \<noteq> None \<longrightarrow> cl_work_queue (sh_client (cw_others w t sh)) \<noteq> None)"

lemma client_ok_irrelevant [simp]:
  "client_ok (c\<lparr>cl_state := x1\<rparr>) = client_ok c" "client_ok (c\<lparr>cl_advertising := x2\<rparr>) = client_ok c"
  "client_ok (c\<lparr>cl_advertising_starting := x3\<rparr>) = client_ok c" "client_ok (c\<lparr>cl_advertising_attempt := x4\<rparr>) = client_ok c"
  "client_ok (c\<lparr>cl_last_stage_error := x5\<rparr>) = client_ok c" "client_ok (c\<lparr>cl_discovery_retry_due_ms := x6\<rparr>) = client_ok c"
  "client_ok (c\<lparr>cl_bond_store_error := x7\<rparr>) = client_ok c" "client_ok (c\<lparr>cl_bonded := x8\<rparr>) = client_ok c"
  "client_ok (c\<lparr>cl_boot_bond_count := x9\<rparr>) = client_ok c" "client_ok (c\<lparr>cl_auth_error := x10\<rparr>) = client_ok c"
  "client_ok (c\<lparr>cl_auth_failure_count := x11\<rparr>) = client_ok c" "client_ok (c\<lparr>cl_last_auth_failure_ms := x12\<rparr>) = client_ok c"
  "client_ok (c\<lparr>cl_pairing_repair_required := x13\<rparr>) = client_ok c" "client_ok (c\<lparr>cl_reopen_after_disconnect := x14\<rparr>) = client_ok c"
  "client_ok (c\<lparr>cl_stage_deadline_ms := x15\<rparr>) = client_ok c" "client_ok (c\<lparr>cl_discovery_attempt := x16\<rparr>) = client_ok c"
  "client_ok (c\<lparr>cl_discovery_retry_generation := x17\<rparr>) = client_ok c" "client_ok (c\<lparr>cl_discovery_in_progress := x18\<rparr>) = client_ok c"
  "client_ok (c\<lparr>cl_pending_notify_handle := x19\<rparr>) = client_ok c" "client_ok (c\<lparr>cl_pending_notify_generation := x20\<rparr>) = client_ok c"
  "client_ok (c\<lparr>cl_notification_source_handle := x21\<rparr>) = client_ok c" "client_ok (c\<lparr>cl_data_source_handle := x22\<rparr>) = client_ok c"
  "client_ok (c\<lparr>cl_control_point_handle := x23\<rparr>) = client_ok c" "client_ok (c\<lparr>cl_last_auth_error := x24\<rparr>) = client_ok c"
  "client_ok (c\<lparr>cl_last_auth_error_at_ms := x25\<rparr>) = client_ok c" "client_ok (c\<lparr>cl_replace_pending := x26\<rparr>) = client_ok c"
  "client_ok (c\<lparr>cl_last_replace_error := x27\<rparr>) = client_ok c" "client_ok (c\<lparr>cl_adv_config_pending := x28\<rparr>) = client_ok c"
  "client_ok (c\<lparr>cl_conn_id := x29\<rparr>) = client_ok c" "client_ok (c\<lparr>cl_remote_bda := x30\<rparr>) = client_ok c"
  "client_ok (c\<lparr>cl_mtu_ready := x31\<rparr>) = client_ok c" "client_ok (c\<lparr>cl_service_start_handle := x32\<rparr>) = client_ok c"
  "client_ok (c\<lparr>cl_service_end_handle := x33\<rparr>) = client_ok c" "client_ok (c\<lparr>cl_session_id := x34\<rparr>) = client_ok c"
  "client_ok (c\<lparr>cl_last_disconnect_reason := x35\<rparr>) = client_ok c" "client_ok (c\<lparr>cl_gattc_if := x36\<rparr>) = client_ok c"
  "client_ok (c\<lparr>cl_data_source_cccd_handle := x37\<rparr>) = client_ok c"
  "client_ok (c\<lparr>cl_notification_source_cccd_handle := x38\<rparr>) = client_ok c"
  by (simp_all add: client_ok_def link_ok_def all_in_place_def)

text \<open>The steps that matter.\<close>

lemma client_ok_steps:
  assumes "client_ok c"
  shows "client_ok (c\<lparr>cl_ready := False\<rparr>)" "client_ok (c\<lparr>cl_work_queue := Some items\<rparr>)"
    "client_ok (c\<lparr>cl_service_found := True\<rparr>)" "client_ok (c\<lparr>cl_data_source_subscribed := True\<rparr>)"
    "client_ok (c\<lparr>cl_notification_source_subscribed := True\<rparr>)"
    "client_ok (c\<lparr>cl_session_authenticated := True, cl_link_encrypted := True\<rparr>)"
    "client_ok (c\<lparr>cl_closing := True\<rparr>)"
  using assms by (auto simp: client_ok_def link_ok_def all_in_place_def)

lemma client_simps [simp]:
  "client (snd (ask q s)) = client s" "client (act e s) = client s" "client (set_enroll f s) = client s"
  "client (set_client g s) = g (client s)" "client (snd (now_ms w s)) = client s" "client (snd (request w e s)) = client s"
  "client (publish_notification n s) = client s"
  by (simp_all add: ask_def act_def set_enroll_def set_client_def now_ms_def request_def publish_notification_def)

lemma acquire_ok [simp]: "world_ok w \<Longrightarrow> client_ok (client s) \<Longrightarrow> client_ok (client (acquire w s))"
  unfolding acquire_def world_ok_def client_ok_def by auto


lemma now_nonneg: "world_ok w \<Longrightarrow> 0 \<le> fst (now_ms w s)"
  by (simp add: now_ms_def ask_def world_ok_def)

lemma invalidated_ok:
  assumes "cl_work_queue c \<noteq> None" "cl_connected c \<longrightarrow> 0 < cl_prepare_deadline_ms c"
    "\<not> cl_closing c \<longrightarrow> cl_close_attempts c = 0 \<and> cl_close_retry_due_ms c = 0"
  shows "client_ok (invalidate_ancs_handles_locked c)"
  using assms by (simp add: client_ok_def link_ok_def invalidate_ancs_handles_locked_def)

lemma client_okD:
  assumes "client_ok c"
  shows "cl_work_queue c \<noteq> None" "cl_ready c \<Longrightarrow> all_in_place c" "cl_ready c \<Longrightarrow> cl_notification_source_subscribed c"
    "cl_connected c \<Longrightarrow> 0 < cl_prepare_deadline_ms c"
    "\<not> cl_closing c \<Longrightarrow> cl_close_attempts c = 0 \<and> cl_close_retry_due_ms c = 0"
  using assms by (simp_all add: client_ok_def link_ok_def)

section \<open>Every operation keeps it\<close>

named_theorems kept_ok

lemma publish_state_ok [kept_ok]: "world_ok w \<Longrightarrow> client_ok (client s) \<Longrightarrow> client_ok (client (publish_state w s))"
  by (simp add: publish_state_def Let_def)

lemma move_state_ok [kept_ok]: "world_ok w \<Longrightarrow> client_ok (client s) \<Longrightarrow> client_ok (client (move_state w f s))"
  by (simp add: move_state_def Let_def publish_state_ok)

lemma set_state_ok [kept_ok]:
  "world_ok w \<Longrightarrow> client_ok (client s) \<Longrightarrow> client_ok (client (set_state w st s))"
  "world_ok w \<Longrightarrow> client_ok (client s) \<Longrightarrow> client_ok (client (transition w sig s))"
  by (simp_all add: set_state_def transition_def move_state_ok)

lemma enqueue_ok [kept_ok]:
  "world_ok w \<Longrightarrow> client_ok (client s) \<Longrightarrow> client_ok (client (snd (enqueue_work w cfg item s)))"
  by (auto simp: enqueue_work_def Let_def client_ok_steps split: option.split)

lemma bond_list_contains_ok [kept_ok]:
  "client (snd (bond_list_contains_peer w peer s)) = client s"
  by (auto simp: bond_list_contains_peer_def current_bond_count_def read_bonds_def split_beta Let_def split: option.split)

lemma enroll_active_ok [kept_ok]:
  "world_ok w \<Longrightarrow> client_ok (client s) \<Longrightarrow> client_ok (client (snd (enroll_window_active_now w s)))"
  "world_ok w \<Longrightarrow> client_ok (client s) \<Longrightarrow> client_ok (client (snd (enroll_should_advertise_now w s)))"
  by (simp_all add: enroll_window_active_now_def enroll_should_advertise_now_def split_beta Let_def)

lemma peer_allowed_ok [kept_ok]:
  "world_ok w \<Longrightarrow> client_ok (client s) \<Longrightarrow> client_ok (client (snd (connection_peer_allowed w peer s)))"
  by (simp add: connection_peer_allowed_def current_bond_count_def split_beta Let_def kept_ok)

lemma matches_ok [kept_ok]:
  assumes "world_ok w" "client_ok (client s)"
  shows "client_ok (client (snd (connection_event_matches w conn_id peer s)))"
    "client_ok (client (snd (gatt_connection_matches w conn_id s)))"
    "client_ok (client (snd (authentication_event_matches w peer s)))"
    "client_ok (client (snd (current_generation w s)))" "client_ok (client (snd (current_state w s)))"
    "client_ok (client (snd (client_ready w s)))" "client_ok (client (snd (current_session_id w s)))"
  using assms by (auto simp: connection_event_matches_def gatt_connection_matches_def authentication_event_matches_def
      current_generation_def current_state_def client_ready_def current_session_id_def Let_def split: option.split)

lemma advertising_retry_ok [kept_ok]:
  "world_ok w \<Longrightarrow> client_ok (client s) \<Longrightarrow> client_ok (client (schedule_advertising_retry w s))"
  by (simp add: schedule_advertising_retry_def Let_def split_beta)

lemma advertising_ok [kept_ok]:
  assumes "world_ok w" "client_ok (client s)"
  shows "client_ok (client (start_advertising w s))" "client_ok (client (stop_advertising w s))"
  using assms by (simp_all add: start_advertising_def stop_advertising_def Let_def split_beta advertising_retry_ok)

lemma enroll_timeout_ok [kept_ok]:
  "world_ok w \<Longrightarrow> client_ok (client s) \<Longrightarrow> client_ok (client (enroll_timeout_callback w s))"
  by (simp add: enroll_timeout_callback_def Let_def split_beta kept_ok)

lemma closing_ok:
  assumes "client_ok c"
  shows "client_ok (c\<lparr>cl_closing := True, cl_ready := False\<rparr>)"
    "cl_closing c \<Longrightarrow> client_ok (c\<lparr>cl_close_attempts := a, cl_close_retry_due_ms := d\<rparr>)"
    "client_ok (c\<lparr>cl_closing := True, cl_session_authenticated := False, cl_link_encrypted := False, cl_ready := False\<rparr>)"
    "client_ok (c\<lparr>cl_ready := False, cl_data_source_subscribed := False, cl_notification_source_subscribed := False,
       cl_notification_source_handle := h1, cl_data_source_handle := h2, cl_control_point_handle := h3,
       cl_data_source_cccd_handle := h4, cl_notification_source_cccd_handle := h5, cl_service_found := False\<rparr>)"
  using assms by (auto simp: client_ok_def link_ok_def all_in_place_def)

lemma check_deadline_ok [kept_ok]:
  "world_ok w \<Longrightarrow> client_ok (client s) \<Longrightarrow> client_ok (client (check_connection_deadline w s))"
  by (auto simp: check_connection_deadline_def Let_def split_beta closing_ok kept_ok)

lemma sync_bond_ok [kept_ok]:
  "world_ok w \<Longrightarrow> client_ok (client s) \<Longrightarrow> client_ok (client (snd (sync_existing_ble_bond w s)))"
  by (auto simp: sync_existing_ble_bond_def current_bond_count_def read_bonds_def Let_def split_beta split: list.split)

lemma load_bond_ok [kept_ok]:
  "world_ok w \<Longrightarrow> client_ok (client s) \<Longrightarrow> client_ok (client (load_existing_ble_bond w s))"
  by (simp add: load_existing_ble_bond_def Let_def split_beta sync_bond_ok)

lemma remove_bonds_client [simp]: "client (snd (remove_bonds w bonds e s)) = client s"
  by (induction bonds arbitrary: e s) (simp_all add: Let_def split_beta)

lemma remove_all_ok [kept_ok]:
  "world_ok w \<Longrightarrow> client_ok (client s) \<Longrightarrow> client_ok (client (snd (remove_all_ble_bonds w s)))"
  by (simp add: remove_all_ble_bonds_def current_bond_count_def read_bonds_def Let_def split_beta)

lemma clear_guard_ok [simp]: "client_ok (clear_auth_failure_guard_locked c) = client_ok c"
  by (simp add: clear_auth_failure_guard_locked_def)

lemma request_enroll_ok [kept_ok]:
  "world_ok w \<Longrightarrow> client_ok (client s) \<Longrightarrow> client_ok (client (snd (ancs_client_request_enroll w cfg s)))"
  by (simp add: ancs_client_request_enroll_def Let_def split_beta kept_ok)

lemma replacement_window_ok [kept_ok]:
  "world_ok w \<Longrightarrow> client_ok (client s) \<Longrightarrow> client_ok (client (snd (open_replacement_window w cfg s)))"
  by (simp add: open_replacement_window_def Let_def split_beta kept_ok)

lemma button_ok [kept_ok]:
  "world_ok w \<Longrightarrow> client_ok (client s) \<Longrightarrow> client_ok (client (enroll_button_callback w cfg s))"
  by (simp add: enroll_button_callback_def Let_def split_beta kept_ok split: option.split)

lemma discovery_retry_ok [kept_ok]:
  assumes "world_ok w" "client_ok (client s)"
  shows "client_ok (client (schedule_discovery_retry w s))" "client_ok (client (retry_later w s))"
  using assms by (simp_all add: schedule_discovery_retry_def retry_later_def Let_def split_beta kept_ok)

lemma start_discovery_ok [kept_ok]:
  "world_ok w \<Longrightarrow> client_ok (client s) \<Longrightarrow> client_ok (client (start_discovery w s))"
  by (simp add: start_discovery_def Let_def split_beta kept_ok closing_ok)

lemma retry_callback_ok [kept_ok]:
  "world_ok w \<Longrightarrow> client_ok (client s) \<Longrightarrow> client_ok (client (discovery_retry_callback w s))"
  by (simp add: discovery_retry_callback_def Let_def split_beta kept_ok)

lemma write_cccd_ok [kept_ok]:
  "world_ok w \<Longrightarrow> client_ok (client s) \<Longrightarrow> client_ok (client (snd (write_cccd w h s)))"
  by (simp add: write_cccd_def Let_def split_beta)

lemma subscription_ok [kept_ok]:
  assumes "world_ok w" "client_ok (client s)"
  shows "client_ok (client (begin_data_source_subscription w s))"
    "client_ok (client (begin_notification_source_subscription w s))"
  using assms by (simp_all add: begin_data_source_subscription_def begin_notification_source_subscription_def
      Let_def split_beta kept_ok)

lemma invalidate_ok [kept_ok]: "client_ok c \<Longrightarrow> client_ok (invalidate_ancs_handles_locked c)"
  by (auto intro!: invalidated_ok dest: client_okD)

lemma invalidate_handles_ok [kept_ok]:
  "world_ok w \<Longrightarrow> client_ok (client s) \<Longrightarrow> client_ok (client (invalidate_ancs_handles w s))"
  by (simp add: invalidate_ancs_handles_def invalidate_ok)

lemma discover_characteristics_ok [kept_ok]:
  "world_ok w \<Longrightarrow> client_ok (client s) \<Longrightarrow> client_ok (client (discover_characteristics w s))"
  by (simp add: discover_characteristics_def Let_def split_beta kept_ok)

lemma reset_session_ok [kept_ok]:
  assumes "world_ok w" "client_ok (client s)"
  shows "client_ok (client (reset_connection_session w cfg s))"
proof -
  have "client_ok (client (acquire w s))" using assms by simp
  then have q: "cl_work_queue (client (acquire w s)) \<noteq> None" by (rule client_okD)
  show ?thesis
    using q by (simp add: reset_connection_session_def Let_def enqueue_ok [OF assms(1)] invalidated_ok)
qed

lemma service_changed_ok [kept_ok]:
  assumes "world_ok w" "client_ok (client s)"
  shows "client_ok (client (handle_service_changed w cfg s))"
proof -
  define t where "t = acquire w s"
  have t: "client_ok (client t)" using assms by (simp add: t_def)
  have prepare: "0 < fst (now_ms w t) + ANCS_PREPARE_TIMEOUT_MS"
    using now_nonneg [OF assms(1), of t] by (simp add: ANCS_PREPARE_TIMEOUT_MS_def)
  show ?thesis
    using t prepare client_okD(1,5) [OF t]
    by (simp add: handle_service_changed_def t_def [symmetric] Let_def split_beta assms(1) kept_ok invalidated_ok)
qed

section \<open>The callbacks of the stack\<close>

lemma record_failure_ok [kept_ok]:
  "world_ok w \<Longrightarrow> client_ok (client s) \<Longrightarrow> client_ok (client (snd (record_auth_failure_locked at missing s)))"
  by (simp add: record_auth_failure_locked_def Let_def)

lemma gap_parts_ok:
  assumes "world_ok w" "client_ok (client s)"
  shows "client_ok (client (local_privacy_complete w s))" "client_ok (client (adv_start_complete w b s))"
    "client_ok (client (security_request w peer s))" "client_ok (client (bond_removed w cfg b s))"
  using assms by (simp_all add: local_privacy_complete_def adv_start_complete_def security_request_def bond_removed_def
      clear_pending_def Let_def split_beta kept_ok)

lemma auth_ok:
  assumes "world_ok w" "client_ok (client s)"
  shows "client_ok (client (auth_succeeded w peer s))" "client_ok (client (auth_failed w peer reason s))"
proof -
  define t where "t = acquire w s"
  have t: "client_ok (client t)" using assms by (simp add: t_def)
  then have "client_ok ((client t)\<lparr>cl_bonded := True, cl_session_authenticated := True, cl_link_encrypted := True,
      cl_stage_deadline_ms := d\<rparr>)" for d
    by (auto simp: client_ok_def link_ok_def all_in_place_def)
  with assms(1) show "client_ok (client (auth_succeeded w peer s))"
    by (simp add: auth_succeeded_def t_def [symmetric] Let_def split_beta kept_ok)
  have "client_ok (c\<lparr>cl_closing := True, cl_session_authenticated := False, cl_link_encrypted := False,
      cl_ready := False, cl_discovery_retry_due_ms := d\<rparr>)" if "client_ok c" for c d
    using that by (auto simp: client_ok_def link_ok_def)
  with assms show "client_ok (client (auth_failed w peer reason s))"
    by (simp add: auth_failed_def current_bond_count_def Let_def split_beta kept_ok)
qed

lemma gap_ok:
  assumes "world_ok w" "client_ok (client s)"
  shows "client_ok (client (gap_event_handler w cfg event s))"
  using assms by (auto simp: gap_event_handler_def Let_def split_beta gap_parts_ok auth_ok kept_ok clear_pending_def
      split: gap_event.split)

lemma connect_ok:
  assumes "world_ok w" "client_ok (client s)"
  shows "client_ok (client (on_connect w gattc_if conn_id peer addr_type s))"
proof -
  define t where "t = acquire w (snd (connection_peer_allowed w (Some peer) s))"
  have t: "client_ok (client t)" using assms by (simp add: t_def kept_ok)
  have "client_ok (fresh_connection conn_id peer addr_type (fst (now_ms w t)) g (client t))" for g
    using client_okD(1) [OF t] now_nonneg [OF assms(1), of t]
    by (simp add: fresh_connection_def client_ok_def link_ok_def invalidate_ancs_handles_locked_def ANCS_PREPARE_TIMEOUT_MS_def)
  with assms t show ?thesis
    by (simp add: on_connect_def t_def [symmetric] Let_def split_beta kept_ok)
qed

lemma set_up_ok:
  assumes "world_ok w" "client_ok (client s)"
  shows "client_ok (client (on_open w gattc_if conn_id peer b s))" "client_ok (client (on_mtu w conn_id s))"
    "client_ok (client (on_search_result w conn_id uuid h1 h2 s))" "client_ok (client (on_search_complete w conn_id b s))"
    "client_ok (client (on_notify_registered w handle b s))"
  using assms by (simp_all add: on_open_def on_mtu_def on_search_result_def on_search_complete_def on_notify_registered_def
      Let_def split_beta kept_ok client_ok_steps)

lemma subscriptions_done_ok:
  assumes "world_ok w" "client_ok (client s)"
  shows "client_ok (client (subscriptions_done w s))"
proof -
  define t where "t = acquire w s"
  let ?c = "(client t)\<lparr>cl_notification_source_subscribed := True\<rparr>"
  have c: "client_ok ?c" using assms by (simp add: t_def client_ok_steps)
  then have "all_in_place ?c \<Longrightarrow> client_ok (?c\<lparr>cl_session_id := i, cl_ready := True\<rparr>)" for i
    by (simp add: client_ok_def link_ok_def all_in_place_def)
  with c assms(1) show ?thesis
    by (cases "all_in_place ?c")
      (simp_all add: subscriptions_done_def t_def [symmetric] Let_def kept_ok client_ok_steps)
qed

lemma descriptor_ok:
  assumes "world_ok w" "client_ok (client s)"
  shows "client_ok (client (on_descriptor_written w conn_id handle b s))"
  using assms by (simp add: on_descriptor_written_def Let_def split_beta kept_ok client_ok_steps subscriptions_done_ok)

lemma traffic_ok:
  assumes "world_ok w" "client_ok (client s)"
  shows "client_ok (client (on_notify w cfg conn_id handle frame s))"
    "client_ok (client (on_char_written w cfg conn_id handle status s))"
    "client_ok (client (on_service_changed w cfg peer s))" "client_ok (client (on_disconnect w cfg conn_id peer reason s))"
  using assms by (auto simp: on_notify_def on_char_written_def on_service_changed_def on_disconnect_def
      Let_def split_beta kept_ok split: prod.split ancs_protocol_error.split option.split)

section \<open>Calls of the client\<close>

text \<open>Everything that runs in the client beside its worker: the stack's events, the timers, and the firmware's calls.\<close>

datatype client_call =
    GapEvent gap_event | GattcEvent gattc_event u8
  | ConnectionDeadline | AdvertisingTimer | DiscoveryTimer | EnrollTimer | ButtonTimer
  | RequestEnroll | ReplaceEnrollment bool | SetPairingAllowed bool | StartAdvertisingCall | StopAdvertisingCall
  | EnrollmentStatus | RegisterBootHeld "nat option" nat

fun run_call ::
  "client_world \<Rightarrow> client_config \<Rightarrow> client_call \<Rightarrow> 'a client_task_scheme \<Rightarrow> 'a client_task_scheme option" where
  "run_call w cfg (GapEvent event) s = Some (gap_event_handler w cfg event s)"
| "run_call w cfg (GattcEvent event gattc_if) s = gattc_callback w cfg event gattc_if s"
| "run_call w cfg ConnectionDeadline s = Some (check_connection_deadline w s)"
| "run_call w cfg AdvertisingTimer s = Some (start_advertising w s)"
| "run_call w cfg DiscoveryTimer s = Some (discovery_retry_callback w s)"
| "run_call w cfg EnrollTimer s = Some (enroll_timeout_callback w s)"
| "run_call w cfg ButtonTimer s = Some (enroll_button_callback w cfg s)"
| "run_call w cfg RequestEnroll s = Some (snd (ancs_client_request_enroll w cfg s))"
| "run_call w cfg (ReplaceEnrollment confirmed) s = Some (snd (ancs_client_replace_enrollment w cfg confirmed s))"
| "run_call w cfg (SetPairingAllowed allowed) s = Some (ancs_client_set_pairing_allowed w cfg allowed s)"
| "run_call w cfg StartAdvertisingCall s = Some (snd (ancs_client_start_advertising w s))"
| "run_call w cfg StopAdvertisingCall s = Some (snd (ancs_client_stop_advertising w s))"
| "run_call w cfg EnrollmentStatus s = Some (snd (ancs_client_get_enrollment_status w s))"
| "run_call w cfg (RegisterBootHeld callback context) s =
     Some (snd (ancs_client_register_boot_held_callback w callback context s))"

fun run_calls ::
  "client_world \<Rightarrow> client_config \<Rightarrow> client_call list \<Rightarrow> 'a client_task_scheme \<Rightarrow> 'a client_task_scheme option" where
  "run_calls w cfg [] s = Some s"
| "run_calls w cfg (call # calls) s = do { s \<leftarrow> run_call w cfg call s; run_calls w cfg calls s }"

lemma more_irrelevant [simp]:
  "client_ok (c\<lparr>cl_boot_held_callback := x1\<rparr>) = client_ok c" "client_ok (c\<lparr>cl_boot_held_callback_context := x2\<rparr>) = client_ok c"
  "client_ok (c\<lparr>cl_initialized := x3\<rparr>) = client_ok c" "client_ok (c\<lparr>cl_worker_task := x4\<rparr>) = client_ok c"
  "client_ok (c\<lparr>cl_timers := x5\<rparr>) = client_ok c" "client_ok (c\<lparr>cl_device_name := x6\<rparr>) = client_ok c"
  by (simp_all add: client_ok_def link_ok_def all_in_place_def)

lemma register_ok:
  "world_ok w \<Longrightarrow> client_ok (client s) \<Longrightarrow> on_register w gattc_if s = Some s' \<Longrightarrow> client_ok (client s')"
  by (auto simp: on_register_def Let_def split_beta split: if_splits)

lemma handle_gattc_ok:
  assumes "world_ok w" "client_ok (client s)" "handle_gattc_event w cfg event gattc_if s = Some s'"
  shows "client_ok (client s')"
  using assms register_ok [OF assms(1,2)]
  by (auto simp: handle_gattc_event_def connect_ok set_up_ok descriptor_ok traffic_ok split: gattc_event.splits)

lemma gattc_ok:
  assumes "world_ok w" "client_ok (client s)" "gattc_callback w cfg event gattc_if s = Some s'"
  shows "client_ok (client s')"
proof -
  obtain go t where t: "(case event of REG succeeded app_id \<Rightarrow>
        if \<not> succeeded \<or> app_id \<noteq> ANCS_APP_ID then (False, s)
        else (True, set_client (\<lambda>c. c\<lparr>cl_gattc_if := gattc_if\<rparr>) (acquire w s)) | _ \<Rightarrow> (True, s)) = (go, t)"
    by (rule prod.exhaust)
  have ok: "client_ok (client t)" using t assms(1,2) by (auto split: gattc_event.splits if_splits)
  with assms(1) have ok': "client_ok (client (acquire w t))" by simp
  have "s' = t \<or> s' = acquire w t \<or> s' = s \<or> handle_gattc_event w cfg event gattc_if (acquire w t) = Some s'"
    using assms(3) t by (auto simp: gattc_callback_def Let_def split: if_splits)
  with ok ok' assms(2) handle_gattc_ok [OF assms(1) ok'] show ?thesis by blast
qed

lemma api_ok:
  assumes "world_ok w" "client_ok (client s)"
  shows "client_ok (client (snd (ancs_client_replace_enrollment w cfg confirmed s)))"
    "client_ok (client (ancs_client_set_pairing_allowed w cfg allowed s))"
    "client_ok (client (snd (ancs_client_start_advertising w s)))"
    "client_ok (client (snd (ancs_client_stop_advertising w s)))"
    "client_ok (client (snd (ancs_client_get_enrollment_status w s)))"
    "client_ok (client (snd (ancs_client_register_boot_held_callback w callback context s)))"
  using assms
  by (simp_all add: ancs_client_replace_enrollment_def replace_failed_def ancs_client_set_pairing_allowed_def
      ancs_client_start_advertising_def ancs_client_stop_advertising_def ancs_client_get_enrollment_status_def
      ancs_client_register_boot_held_callback_def current_bond_count_def Let_def split_beta kept_ok)

lemma client_call_ok:
  assumes "world_ok w" "client_ok (client s)" "run_call w cfg call s = Some s'"
  shows "client_ok (client s')"
  using assms gattc_ok [OF assms(1,2)] by (cases call) (auto simp: kept_ok gap_ok api_ok)

lemma client_calls_ok:
  assumes "world_ok w" "client_ok (client s)" "run_calls w cfg calls s = Some s'"
  shows "client_ok (client s')"
  using assms(2,3)
proof (induction calls arbitrary: s)
  case (Cons call calls)
  then obtain t where t: "run_call w cfg call s = Some t" "run_calls w cfg calls t = Some s'"
    by (auto split: Option.bind_splits)
  with client_call_ok [OF assms(1) Cons.prems(1)] Cons.IH show ?case by blast
qed simp

section \<open>The set-up establishes the invariant\<close>

lemma link_ok_irrelevant [simp]:
  "link_ok (c\<lparr>cl_bond_store_error := x1\<rparr>) = link_ok c" "link_ok (c\<lparr>cl_device_name := x2\<rparr>) = link_ok c"
  "link_ok (c\<lparr>cl_work_queue := x3\<rparr>) = link_ok c"
  by (simp_all add: link_ok_def all_in_place_def)

lemma client_boot_link [simp]: "link_ok client_boot"
  by (simp add: link_ok_def client_boot_def)












section \<open>Properties\<close>

text \<open>A device on which the other tasks do nothing.\<close>

definition quiet_world :: client_world where
  "quiet_world = \<lparr>cw_others = (\<lambda>_ sh. sh), cw_now = (\<lambda>_. 5000), cw_answer = (\<lambda>_. ESP_OK), cw_alloc = (\<lambda>_. True),
     cw_bond_num = (\<lambda>_. 0), cw_bond_list = (\<lambda>_. (ESP_OK, [])), cw_hid_ready = (\<lambda>_. True), cw_attr_count = (\<lambda>_. (True, 0)),
     cw_chars = (\<lambda>_. (True, [])), cw_descrs = (\<lambda>_. (True, [])), cw_button_level = (\<lambda>_. False),
     cw_base_mac = (\<lambda>_. [0x24, 0x6F, 0x28, 0x01, 0xA2, 0xB3]), cw_passkey = 123456, cw_device_family = cs ''S3''\<rparr>"

definition boot_shared :: "client_context \<Rightarrow> client_shared" where
  "boot_shared c = \<lparr>sh_client = c,
     sh_enroll = \<lparr>es_config = \<lparr>cfg_window_ms = 120000, cfg_boot_hold_ms = 3000, cfg_button_debounce_ms = 20\<rparr>,
       es_has_bond = False, es_bonded_addr = replicate 6 0, es_window_open = False, es_window_deadline_ms = 0\<rparr>,
     sh_button = \<lparr>bt_config = \<lparr>cfg_window_ms = 120000, cfg_boot_hold_ms = 3000, cfg_button_debounce_ms = 20\<rparr>,
       bt_stable_pressed = False, bt_last_sample_pressed = False, bt_fired = False, bt_last_change_ms = 0,
       bt_pressed_since_ms = 0\<rparr>\<rparr>"

definition boot_task :: "client_context \<Rightarrow> client_task" where
  "boot_task c = \<lparr>ct_shared = boot_shared c, ct_turn = 0, ct_effects = []\<rparr>"

lemma quiet_world_ok: "world_ok quiet_world"
  by (simp add: world_ok_def quiet_world_def)

lemma effects_simps [simp]:
  "ct_effects (acquire w s) = ct_effects s" "ct_effects (set_client f s) = ct_effects s" "ct_effects (set_enroll g s) = ct_effects s"
  "ct_effects (act e s) = e # ct_effects s" "ct_effects (snd (ask q s)) = ct_effects s" "ct_effects (snd (now_ms w s)) = ct_effects s"
  "ct_effects (snd (request w e s)) = e # ct_effects s"
  by (simp_all add: acquire_def set_client_def set_enroll_def act_def ask_def now_ms_def request_def)

lemma effects_state:
  "e \<in> set (ct_effects s) \<Longrightarrow> e \<in> set (ct_effects (set_state w st s))"
  "EnhOpen g p \<in> set (ct_effects (transition w sig s)) \<Longrightarrow> EnhOpen g p \<in> set (ct_effects s)"
  by (auto simp: set_state_def transition_def move_state_def publish_state_def Let_def split: if_splits)

text \<open>The phone whose set-up lacks only the answer to the second subscription.\<close>

definition almost_ready :: client_context where
  "almost_ready = client_boot\<lparr>cl_initialized := True, cl_gattc_if := 3, cl_conn_id := 1, cl_remote_bda := [1, 2, 3, 4, 5, 6],
     cl_connected := True, cl_bonded := True, cl_session_authenticated := True, cl_link_encrypted := True,
     cl_mtu_ready := True, cl_service_found := True, cl_data_source_subscribed := True, cl_data_source_handle := 15,
     cl_notification_source_handle := 11, cl_control_point_handle := 13, cl_data_source_cccd_handle := 16,
     cl_notification_source_cccd_handle := 12, cl_prepare_deadline_ms := 95000, cl_stage_deadline_ms := 15000,
     cl_generation := 1, cl_work_queue := Some [], cl_worker_task := True, cl_state := ANCS_STATE_SUBSCRIBING_NOTIFICATION_SOURCE\<rparr>"

lemma almost_ready_ok: "client_ok almost_ready"
  by (simp add: almost_ready_def client_ok_def link_ok_def all_in_place_def client_boot_def)

text \<open>
  C5: Whatever events the stack delivers, whenever the timers fire and whatever the firmware asks for, the client counts
  itself ready only while the phone is connected, the link of this session is authenticated and encrypted, the
  notification service was found and both of its characteristics are subscribed.
\<close>

theorem ready_means_secured:
  assumes "world_ok w" "client_ok (client s)" "run_calls w cfg calls s = Some s'" "cl_ready (client s')"
  shows "cl_connected (client s') \<and> cl_session_authenticated (client s') \<and> cl_link_encrypted (client s') \<and>
    cl_service_found (client s') \<and> cl_data_source_subscribed (client s') \<and> cl_notification_source_subscribed (client s')"
proof -
  have "client_ok (client s')" using client_calls_ok [OF assms(1-3)] .
  with assms(4) show ?thesis by (simp add: client_ok_def link_ok_def all_in_place_def)
qed

lemma last_step:
  "\<exists>s'. run_calls quiet_world default_client [GattcEvent (WRITE_DESCR 1 12 True) 3] (boot_task almost_ready) = Some s' \<and>
     cl_ready (client s')"
  by (simp add: gattc_callback_def handle_gattc_event_def on_descriptor_written_def gatt_connection_matches_def
      subscriptions_done_def transition_def move_state_def publish_state_def set_client_def acquire_def act_def
      descriptor_expected_def all_in_place_def quiet_world_def boot_task_def boot_shared_def almost_ready_def client_boot_def
      Let_def ancs_client_state_after_def ESP_GATT_IF_NONE_def INVALID_HANDLE_def)

theorem ready_means_secured_witness:
  "\<exists>s'. run_calls quiet_world default_client [GattcEvent (WRITE_DESCR 1 12 True) 3] (boot_task almost_ready) = Some s' \<and>
     cl_ready (client s') \<and> cl_link_encrypted (client s')"
proof -
  obtain s' where s': "run_calls quiet_world default_client [GattcEvent (WRITE_DESCR 1 12 True) 3] (boot_task almost_ready) = Some s'"
      "cl_ready (client s')" using last_step by blast
  have ok: "client_ok (client (boot_task almost_ready))" using almost_ready_ok by (simp add: boot_task_def boot_shared_def)
  show ?thesis using ready_means_secured [OF quiet_world_ok ok s'] s' by blast
qed

text \<open>
  C7: No connection stays unfinished: while a phone is connected and the client is neither ready nor closing, a deadline
  for the whole set-up is armed, and the first check after it asks the stack to disconnect the phone.
\<close>

theorem deadline_closes_connection:
  assumes "world_ok w" "client_ok (client s)" "c = sh_client (cw_others w (ct_turn s + 1) (ct_shared s))"
    "cl_connected c" "\<not> cl_ready c" "\<not> cl_closing c"
  shows "0 < cl_prepare_deadline_ms c \<and> (cl_prepare_deadline_ms c \<le> cw_now w (ct_turn s) \<longrightarrow>
    GapDisconnect (cl_remote_bda c) \<in> set (ct_effects (check_connection_deadline w s)))"
proof -
  have c: "client (acquire w (snd (now_ms w s))) = c" "fst (now_ms w s) = cw_now w (ct_turn s)"
    using assms(3) by (simp_all add: acquire_def now_ms_def ask_def)
  have "client_ok c" using acquire_ok [OF assms(1), of "snd (now_ms w s)"] assms(2) c(1) by simp
  then have d: "0 < cl_prepare_deadline_ms c" "cl_close_attempts c = 0" "cl_close_retry_due_ms c = 0"
    using assms(4,6) by (simp_all add: client_ok_def link_ok_def)
  have "0 \<le> cw_now w (ct_turn s)" using assms(1) by (simp add: world_ok_def)
  then show ?thesis
    using d assms(4-6) by (auto simp: check_connection_deadline_def Let_def split_beta c deadline_passed_def)
qed

theorem deadline_closes_connection_witness:
  "GapDisconnect [1, 2, 3, 4, 5, 6] \<in> set (ct_effects (check_connection_deadline (quiet_world\<lparr>cw_now := \<lambda>_. 95000\<rparr>) (boot_task almost_ready)))"
proof -
  let ?w = "quiet_world\<lparr>cw_now := \<lambda>_. 95000\<rparr>" and ?s = "boot_task almost_ready"
  have w: "world_ok ?w" by (simp add: world_ok_def quiet_world_def)
  have c: "almost_ready = sh_client (cw_others ?w (ct_turn ?s + 1) (ct_shared ?s))"
    by (simp add: boot_task_def boot_shared_def quiet_world_def)
  have ok: "client_ok (client ?s)" using almost_ready_ok by (simp add: boot_task_def boot_shared_def)
  have a: "cl_connected almost_ready" "\<not> cl_ready almost_ready" "\<not> cl_closing almost_ready"
    "cl_prepare_deadline_ms almost_ready = 95000" "cl_remote_bda almost_ready = [1, 2, 3, 4, 5, 6]"
    by (simp_all add: almost_ready_def client_boot_def)
  show ?thesis using deadline_closes_connection [OF w ok c a(1-3)] a(4,5) by simp
qed

text \<open>
  C6: The client opens a connection only to a phone the owner admitted: one whose bond is in the store, or, while the store
  is empty, one that connects while the pairing window is open.
\<close>

theorem only_known_phones:
  assumes "EnhOpen g p \<in> set (ct_effects (on_connect w gattc_if conn_id peer addr_type s))" "EnhOpen g p \<notin> set (ct_effects s)"
  shows "p = peer \<and>
    (0 < cw_bond_num w (ct_turn s) \<and> fst (cw_bond_list w (ct_turn s + 3)) = ESP_OK \<and>
       peer \<in> set (snd (cw_bond_list w (ct_turn s + 3))) \<or>
     cw_bond_num w (ct_turn s) = 0 \<and>
       ble_enroll_window_active (Some (sh_enroll (cw_others w (ct_turn s + 2) (ct_shared s)))) (cw_now w (ct_turn s + 1)))"
proof -
  let ?r = "connection_peer_allowed w (Some peer) s"
  have e: "ct_effects (snd ?r) = ct_effects s"
    by (simp add: connection_peer_allowed_def current_bond_count_def bond_list_contains_peer_def read_bonds_def
        enroll_window_active_now_def split_beta Let_def)
  have allowed: "fst ?r"
    using assms e by (auto simp: on_connect_def split_beta split: if_splits)
  have p: "p = peer"
    using assms e allowed by (auto simp: on_connect_def split_beta Let_def dest!: effects_state(2) split: if_splits)
  show ?thesis
    using allowed p by (auto simp: connection_peer_allowed_def current_bond_count_def bond_list_contains_peer_def read_bonds_def
        enroll_window_active_now_def ask_def now_ms_def acquire_def split_beta Let_def eval_nat_numeral
        dest: in_set_takeD split: if_splits)
qed

definition bonded_world :: client_world where
  "bonded_world = quiet_world\<lparr>cw_bond_num := \<lambda>_. 1, cw_bond_list := \<lambda>_. (ESP_OK, [[1, 2, 3, 4, 5, 6]])\<rparr>"

theorem only_known_phones_witness:
  "EnhOpen 3 [1, 2, 3, 4, 5, 6] \<in> set (ct_effects (on_connect bonded_world 3 1 [1, 2, 3, 4, 5, 6] 0 (boot_task client_boot))) \<and>
   [1, 2, 3, 4, 5, 6] \<in> set (snd (cw_bond_list bonded_world 3))"
proof -
  have e: "EnhOpen 3 [1, 2, 3, 4, 5, 6] \<in> set (ct_effects (on_connect bonded_world 3 1 [1, 2, 3, 4, 5, 6] 0 (boot_task client_boot)))"
    by (simp add: on_connect_def connection_peer_allowed_def current_bond_count_def bond_list_contains_peer_def read_bonds_def
        bonded_world_def quiet_world_def boot_task_def boot_shared_def client_boot_def ask_def acquire_def now_ms_def Let_def
        split_beta)
  have n: "EnhOpen 3 [1, 2, 3, 4, 5, 6] \<notin> set (ct_effects (boot_task client_boot))" by (simp add: boot_task_def)
  have b: "cw_bond_num bonded_world t = 1" "ct_turn (boot_task client_boot) = 0" for t by (simp_all add: bonded_world_def boot_task_def)
  show ?thesis using only_known_phones [OF e n] e by (simp add: b)
qed




lemma cleanup_timer_client [simp]:
  "client (cleanup_timer timer s) = (client s)\<lparr>cl_timers := removeAll timer (cl_timers (client s))\<rparr>"
  by (simp add: cleanup_timer_def)

lemma free_items_client [simp]: "client (foldl (\<lambda>s item. free_work_item item s) s items) = client s"
  by (induction items arbitrary: s) (simp_all add: free_work_item_def split: work_data.split)




text \<open>After an error the calls that follow are skipped.\<close>

lemma init_skips [simp]:
  assumes "error \<noteq> ESP_OK"
  shows "attempt_call w call up f (error, p, s) = (error, p, s)" "init_create w call f (error, p, s) = (error, p, s)"
    "init_name w (error, p, s) = (error, p, s)" "init_load_bond w (error, p, s) = (error, p, s)"
    "configure_security w (error, p, s) = (error, p, s)"
  using assms by (simp_all add: attempt_call_def init_create_def init_name_def init_load_bond_def configure_security_def)

lemma init_parts_skip [simp]:
  assumes "error \<noteq> ESP_OK"
  shows "init_stack w cfg (error, p, s) = (error, p, s)" "init_resources w (error, p, s) = (error, p, s)"
  using assms by (simp_all add: init_stack_def init_resources_def)


lemma remove_bonds_effects:
  "remove_bonds w bonds error s = (e, s') \<Longrightarrow>
     set (ct_effects s') = RemoveBond ` set bonds \<union> set (ct_effects s) \<and>
     (e = ESP_OK \<longrightarrow> error = ESP_OK \<and> (\<forall>i<length bonds. cw_answer w (ct_turn s + i) = ESP_OK))"
proof (induction bonds arbitrary: error s)
  case Nil
  then show ?case by simp
next
  case (Cons bond bonds)
  then show ?case by (fastforce simp: request_def ask_def act_def Let_def less_Suc_eq_0_disj split: if_splits)
qed

text \<open>
  Replacing the enrollment forgets every phone: when the removal of the bonds reports success, the store was empty, or
  its list was read and the stack was told to remove each bond of it and agreed every time.
\<close>

theorem remove_all_bonds_complete:
  assumes "remove_all_ble_bonds w s = (ESP_OK, s')"
  shows "cw_bond_num w (ct_turn s) = 0 \<or>
    (0 < cw_bond_num w (ct_turn s) \<and> fst (cw_bond_list w (ct_turn s + 2)) = ESP_OK \<and>
     (let bonds = take (nat (cw_bond_num w (ct_turn s))) (snd (cw_bond_list w (ct_turn s + 2)))
      in RemoveBond ` set bonds \<subseteq> set (ct_effects s') \<and> (\<forall>i<length bonds. cw_answer w (ct_turn s + 3 + i) = ESP_OK)))"
  using assms
  by (auto simp: remove_all_ble_bonds_def current_bond_count_def read_bonds_def ask_def Let_def split_beta eval_nat_numeral
      dest!: remove_bonds_effects split: if_splits)

theorem remove_all_bonds_complete_witness:
  "\<exists>s'. remove_all_ble_bonds bonded_world (boot_task client_boot) = (ESP_OK, s') \<and>
     RemoveBond [1, 2, 3, 4, 5, 6] \<in> set (ct_effects s')"
proof -
  have "fst (remove_all_ble_bonds bonded_world (boot_task client_boot)) = ESP_OK"
    by (simp add: remove_all_ble_bonds_def current_bond_count_def read_bonds_def ask_def request_def bonded_world_def quiet_world_def)
  then obtain s' where s': "remove_all_ble_bonds bonded_world (boot_task client_boot) = (ESP_OK, s')"
    by (metis prod.collapse)
  have b: "cw_bond_num bonded_world t = 1" "cw_bond_list bonded_world t = (ESP_OK, [[1, 2, 3, 4, 5, 6]])" for t
    by (simp_all add: bonded_world_def)
  show ?thesis using remove_all_bonds_complete [OF s'] s' by (simp add: b)
qed

end
