(* ===== verification/Client_Request_Correct.thy ===== *)
theory Client_Request_Correct
  imports Client_Worker Client_Session
begin

text \<open>
  A request of the worker of the Bluetooth client, from its first write to its end: the parts of it stay within their
  buffers, and it ends with at most one notification, the one it is about.
\<close>

section \<open>Steps that leave the worker alone\<close>

definition published :: "'a client_task_scheme \<Rightarrow> ancs_notification list" where
  "published s = List.map_filter (\<lambda>e. case e of PublishNotification n _ \<Rightarrow> Some n | _ \<Rightarrow> None) (ct_effects s)"

lemma published_simps [simp]:
  "published (acquire w s) = published s"
  "published (set_client f s) = published s"
  "published (set_enroll g s) = published s"
  "published (s\<lparr>ct_turn := t\<rparr>) = published s"
  "published (s\<lparr>ct_shared := sh\<rparr>) = published s"
  "published (publish_notification n s) = n # published s"
  "published (act e s) = (case e of PublishNotification n _ \<Rightarrow> n # published s | _ \<Rightarrow> published s)"
  by (auto simp: published_def acquire_def set_client_def set_enroll_def act_def publish_notification_def
      map_filter_simps split: client_effect.split)

lemma published_worker [simp]:
  "published (s\<lparr>ct_worker := k\<rparr>) = published s" "published (set_worker g s) = published s"
  by (simp_all add: published_def set_worker_def)

lemma worker_simps [simp]:
  "wk (acquire w s) = wk s" "wk (set_client f s) = wk s" "wk (set_enroll g s) = wk s" "wk (act e s) = wk s"
  "wk (publish_notification n s) = wk s" "wk (set_worker h s) = h (wk s)"
  "wk (snd (ask q s)) = wk s" "published (snd (ask q s)) = published s"
  "wk (snd (now_ms w s)) = wk s" "published (snd (now_ms w s)) = published s"
  by (simp_all add: acquire_def set_client_def set_enroll_def act_def publish_notification_def set_worker_def
      ask_def now_ms_def published_def)

lemma request_simps [simp]:
  "wk (snd (request w e s)) = wk s"
  "published (snd (request w e s)) = (case e of PublishNotification n _ \<Rightarrow> n # published s | _ \<Rightarrow> published s)"
  by (simp_all add: request_def ask_def)

lemma publish_state_simps [simp]:
  "wk (publish_state w s) = wk s" "published (publish_state w s) = published s"
  by (simp_all add: publish_state_def Let_def)

lemma move_state_simps [simp]:
  "wk (move_state w f s) = wk s" "published (move_state w f s) = published s"
  "wk (set_state w st s) = wk s" "published (set_state w st s) = published s"
  by (simp_all add: move_state_def set_state_def Let_def)

lemma recover_simps [simp]:
  "wk (recover_data_stream w s) = wk s" "published (recover_data_stream w s) = published s"
  by (simp_all add: recover_data_stream_def Let_def)

section \<open>What the worker maintains\<close>

definition about :: "ancs_notification_event \<Rightarrow> ancs_notification \<Rightarrow> bool" where
  "about e n \<longleftrightarrow> n_uid n = ev_uid e \<and> n_event_id n = ev_event_id e \<and> n_event_flags n = ev_event_flags e \<and>
     n_category_id n = ev_category_id e \<and> n_category_count n = ev_category_count e"

definition resolver_shape :: "ancs_config \<Rightarrow> ancs_app_resolver \<Rightarrow> bool" where
  "resolver_shape cfg r \<longleftrightarrow> length (r_entries r) = APP_CACHE_CAPACITY cfg \<and> (\<forall>e \<in> set (r_entries r). entry_ok cfg e)"

definition buffers_ok :: "client_config \<Rightarrow> worker_context \<Rightarrow> bool" where
  "buffers_ok cfg k \<longleftrightarrow> queue_ok (PROTOCOL cfg) (wk_pending k) \<and>
     notification_ok (PROTOCOL cfg) (wk_active_notification k) \<and> length (wk_cache k) = CACHE_CAPACITY cfg \<and>
     resolver_shape (PROTOCOL cfg) (wk_app_resolver k)"

definition answer_ok :: "client_config \<Rightarrow> worker_context \<Rightarrow> bool" where
  "answer_ok cfg k \<longleftrightarrow> about (wk_active_event k) (wk_active_notification k) \<and>
     (case wk_active_request_kind k of
        ACTIVE_REQUEST_NOTIFICATION_ATTRIBUTES \<Rightarrow> p_notification (wk_parser k) \<noteq> None \<and>
          parser_ok (PROTOCOL cfg) ((wk_parser k)\<lparr>p_notification := Some (wk_active_notification k)\<rparr>)
      | ACTIVE_REQUEST_APP_ATTRIBUTES \<Rightarrow> a_notification (wk_app_parser k) \<noteq> None \<and>
          app_parser_ok (PROTOCOL cfg) ((wk_app_parser k)\<lparr>a_notification := Some (wk_active_notification k)\<rparr>) \<and>
          n_complete (wk_active_notification k))"

definition worker_ok :: "client_config \<Rightarrow> worker_context \<Rightarrow> bool" where
  "worker_ok cfg k \<longleftrightarrow> buffers_ok cfg k \<and> (wk_active k \<longrightarrow> answer_ok cfg k)"

text \<open>Nothing but the display name differs.\<close>

definition same_but_name :: "ancs_notification \<Rightarrow> ancs_notification \<Rightarrow> bool" where
  "same_but_name a b \<longleftrightarrow> a\<lparr>n_app_name := [], n_app_name_truncated := False\<rparr> = b\<lparr>n_app_name := [], n_app_name_truncated := False\<rparr>"

lemma same_but_name_refl [simp]: "same_but_name n n" by (simp add: same_but_name_def)

lemma same_but_name_trans: "same_but_name a b \<Longrightarrow> same_but_name b c \<Longrightarrow> same_but_name a c"
  by (simp add: same_but_name_def)

lemma same_but_name_update [simp]:
  "same_but_name (a\<lparr>n_app_name := x\<rparr>) b = same_but_name a b"
  "same_but_name a (b\<lparr>n_app_name := x\<rparr>) = same_but_name a b"
  "same_but_name a (b\<lparr>n_app_name := x, n_app_name_truncated := t\<rparr>) = same_but_name a b"
  by (simp_all add: same_but_name_def)

lemma same_but_nameD:
  assumes "same_but_name a b"
  shows "n_complete b = n_complete a" "about e b = about e a"
proof -
  let ?f = "\<lambda>n. n\<lparr>n_app_name := [], n_app_name_truncated := False\<rparr>"
  have e: "?f a = ?f b" using assms by (simp add: same_but_name_def)
  have c: "n_complete (?f n) = n_complete n" "about e (?f n) = about e n" for n by (simp_all add: about_def)
  from c(1) [of a] c(1) [of b] e show "n_complete b = n_complete a" by simp
  from c(2) [of a] c(2) [of b] e show "about e b = about e a" by simp
qed

section \<open>The parsers keep the identity of the notification\<close>

definition header :: "ancs_notification \<Rightarrow> u32 \<times> u8 \<times> u8 \<times> u8 \<times> u8" where
  "header n = (n_uid n, n_event_id n, n_event_flags n, n_category_id n, n_category_count n)"

lemma about_header: "about e n \<longleftrightarrow> header n = (ev_uid e, ev_event_id e, ev_event_flags e, ev_category_id e, ev_category_count e)"
  by (simp add: about_def header_def)

lemma header_simps [simp]:
  "header (field_set f v n) = header n"
  "header (n\<lparr>n_complete := c\<rparr>) = header n" "header (n\<lparr>n_error_code := x\<rparr>) = header n"
  "header (n\<lparr>n_app_name := y\<rparr>) = header n"
  by (cases f; simp add: header_def)+

lemma header_truncated: "field_set_truncated f = Some g \<Longrightarrow> header (g n) = header n"
  by (cases f) (auto simp: header_def)

lemma parser_fail_header: "map_option header (p_notification (fst (parser_fail p e))) = map_option header (p_notification p)"
  by (simp add: parser_fail_def option.map_comp comp_def)

lemma finish_attribute_header:
  assumes "finish_attribute cfg p = Some (p', r)"
  shows "map_option header (p_notification p') = map_option header (p_notification p)"
proof -
  have fail: "parser_fail q e = (p', r) \<Longrightarrow> map_option header (p_notification p') = map_option header (p_notification q)" for q e
    using parser_fail_header [of q e] by simp
  show ?thesis
    using assms
    by (auto simp: finish_attribute_def Let_def header_truncated dest!: fail
        split: option.splits if_splits Option.bind_splits)
qed

lemma data_parser_step_header:
  assumes "data_parser_step cfg p b = Some (p', r)"
  shows "map_option header (p_notification p') = map_option header (p_notification p)"
proof -
  have fail: "parser_fail q e = (p', r) \<Longrightarrow> map_option header (p_notification p') = map_option header (p_notification q)" for q e
    using parser_fail_header [of q e] by simp
  show ?thesis
    using assms
    by (auto simp: data_parser_step_def Let_def dest!: fail finish_attribute_header
        split: parser_state.splits option.splits if_splits Option.bind_splits)
qed

lemma data_parser_feed_header:
  assumes "parser_ok cfg p" "p_notification p = Some n"
  shows "\<exists>p' r n'. data_parser_feed cfg p bs = Some (p', r) \<and> parser_ok cfg p' \<and> p_notification p' = Some n' \<and>
    header n' = header n \<and> (r = ANCS_PARSER_COMPLETE \<longleftrightarrow> p_state p' = PARSER_STATE_COMPLETE)"
proof -
  define I where "I = (\<lambda>p. parser_ok cfg p \<and> map_option header (p_notification p) = Some (header n))"
  have "\<exists>p' r. data_parser_feed cfg p bs = Some (p', r) \<and> I p' \<and> (r = ANCS_PARSER_COMPLETE \<longleftrightarrow> p_state p' = PARSER_STATE_COMPLETE)"
  proof (rule data_fragments.feed_inv [where I = I])
    fix p b assume i: "I p" and s: "p_state p \<noteq> PARSER_STATE_COMPLETE" "p_state p \<noteq> PARSER_STATE_ERROR"
    then obtain p' r where "data_parser_step cfg p b = Some (p', r)" "parser_ok cfg p'"
      using data_parser_step_ok [of cfg p b] by (auto simp: I_def)
    with i data_parser_step_header show "\<exists>p' r. data_parser_step cfg p b = Some (p', r) \<and> I p'"
      by (fastforce simp: I_def)
  next
    fix p assume "I p"
    then have "\<forall>n. p_notification p = Some n \<longrightarrow> notification_ok cfg n" by (simp add: I_def parser_ok_def)
    with \<open>I p\<close> show "I (fst (parser_fail p ANCS_PROTOCOL_ERR_SEQUENCE))"
      unfolding I_def parser_fail_header by (blast intro: parser_fail_ok)
  qed (use assms in \<open>simp add: I_def\<close>)
  then show ?thesis by (auto simp: I_def)
qed

lemma app_parser_fail_same:
  "a_notification p = Some n \<Longrightarrow> \<exists>n'. a_notification (fst (app_parser_fail p e)) = Some n' \<and> same_but_name n n'"
  by (simp add: app_parser_fail_def)

lemma finish_app_attribute_same:
  assumes "finish_app_attribute cfg p = Some (p', r)" "a_notification p = Some n"
  shows "\<exists>n'. a_notification p' = Some n' \<and> same_but_name n n'"
proof -
  have fail: "app_parser_fail p e = (p', r) \<Longrightarrow> \<exists>n'. a_notification p' = Some n' \<and> same_but_name n n'" for e
    using app_parser_fail_same [OF assms(2), of e] by simp
  show ?thesis
    using assms by (auto simp: finish_app_attribute_def Let_def dest!: fail split: if_splits Option.bind_splits)
qed

lemma app_data_parser_step_same:
  assumes "app_data_parser_step cfg p b = Some (p', r)" "a_notification p = Some n"
  shows "\<exists>n'. a_notification p' = Some n' \<and> same_but_name n n'"
proof -
  have fail: "app_parser_fail q e = (p', r) \<Longrightarrow> a_notification q = Some n \<Longrightarrow>
      \<exists>n'. a_notification p' = Some n' \<and> same_but_name n n'" for e q
    using app_parser_fail_same [of q n e] by simp
  show ?thesis
  proof (cases "a_state p")
    case APP_PARSER_STATE_ATTRIBUTE_LENGTH
    with assms show ?thesis
      by (auto simp: app_data_parser_step_def Let_def dest!: finish_app_attribute_same split: if_splits)
  next
    case APP_PARSER_STATE_ATTRIBUTE_VALUE
    with assms show ?thesis
      by (auto simp: app_data_parser_step_def Let_def dest!: finish_app_attribute_same split: if_splits Option.bind_splits
          intro: same_but_name_trans [of _ "n\<lparr>n_app_name := _\<rparr>"])
  next
    case APP_PARSER_STATE_APP_ID
    with assms show ?thesis
      by (auto simp: app_data_parser_step_def Let_def dest!: fail split: if_splits Option.bind_splits)
  qed (use assms in \<open>auto simp: app_data_parser_step_def dest!: fail split: if_splits\<close>)
qed

lemma app_data_parser_feed_same:
  assumes "app_parser_ok cfg p" "a_notification p = Some n"
  shows "\<exists>p' r n'. app_data_parser_feed cfg p bs = Some (p', r) \<and> app_parser_ok cfg p' \<and>
    a_notification p' = Some n' \<and> same_but_name n n'"
proof -
  define I where "I = (\<lambda>p. app_parser_ok cfg p \<and> (\<exists>n'. a_notification p = Some n' \<and> same_but_name n n'))"
  have "\<exists>p' r. app_data_parser_feed cfg p bs = Some (p', r) \<and> I p' \<and> (r = ANCS_PARSER_COMPLETE \<longleftrightarrow> a_state p' = APP_PARSER_STATE_COMPLETE)"
  proof (rule app_fragments.feed_inv [where I = I])
    fix p b assume i: "I p" and s: "a_state p \<noteq> APP_PARSER_STATE_COMPLETE" "a_state p \<noteq> APP_PARSER_STATE_ERROR"
    then obtain p' r where "app_data_parser_step cfg p b = Some (p', r)" "app_parser_ok cfg p'"
      using app_data_parser_step_ok [of cfg p b] by (auto simp: I_def)
    with i show "\<exists>p' r. app_data_parser_step cfg p b = Some (p', r) \<and> I p'"
      unfolding I_def by (meson app_data_parser_step_same same_but_name_trans)
  next
    fix p assume "I p"
    then show "I (fst (app_parser_fail p ANCS_PROTOCOL_ERR_SEQUENCE))"
      using app_parser_fail_ok app_parser_fail_same unfolding I_def by (meson same_but_name_trans)
  qed (use assms in \<open>auto simp: I_def\<close>)
  then show ?thesis by (auto simp: I_def)
qed

section \<open>The parts of a request\<close>

lemma notification_ok_lengths:
  assumes "notification_ok cfg n"
  shows "length (n_app_id n) = APP_ID_MAX cfg + 1" "length (n_app_name n) = APP_NAME_MAX cfg + 1"
    "terminated (n_app_id n)" "terminated (n_app_name n)"
  using assms unfolding notification_ok_def by (auto intro: nul_buffer_terminated simp: nul_buffer_def)

lemma notification_ok_name [simp]:
  "notification_ok cfg n \<Longrightarrow> nul_buffer (APP_NAME_MAX cfg) v \<Longrightarrow> notification_ok cfg (n\<lparr>n_app_name := v\<rparr>)"
  by (rule notification_ok_app_name)

lemma build_request_total:
  assumes "client_config_ok cfg" "notification_ok (PROTOCOL cfg) (wk_active_notification k)"
  shows "\<exists>err command n. build_request cfg k = Some (err, Some command, Some n) \<and>
    (wk_active_request_kind k = ACTIVE_REQUEST_APP_ATTRIBUTES \<longrightarrow> err = ANCS_PROTOCOL_OK \<longrightarrow>
       cstr (n_app_id (wk_active_notification k)) \<noteq> []) \<and>
    (wk_active_request_kind k = ACTIVE_REQUEST_NOTIFICATION_ATTRIBUTES \<longrightarrow> err = ANCS_PROTOCOL_OK)"
proof -
  have max: "32 \<le> APP_ID_MAX (PROTOCOL cfg)" using assms(1) by (simp add: client_config_ok_def config_ok_def)
  note len = notification_ok_lengths [OF assms(2)]
  have "length (cstr (n_app_id (wk_active_notification k))) < length (n_app_id (wk_active_notification k))"
    using len(3) by (rule length_cstr_less)
  with len(1) max show ?thesis
    by (cases "wk_active_request_kind k")
      (auto simp: build_request_def ancs_build_get_notification_attributes_def get_notification_attributes_array_def
        ancs_build_get_app_attributes_def CONTROL_REQUEST_MAX_def memcpy0_def Let_def strnlen_eq)
qed

lemma start_answer_total:
  assumes "buffers_ok cfg k"
    and app: "wk_active_request_kind k = ACTIVE_REQUEST_APP_ATTRIBUTES \<Longrightarrow>
      cstr (n_app_id (wk_active_notification k)) \<noteq> [] \<and> about (wk_active_event k) (wk_active_notification k) \<and>
      n_complete (wk_active_notification k)"
  shows "\<exists>n p a. start_answer cfg session_id now k =
      Some (k\<lparr>wk_active_notification := n, wk_parser := p, wk_app_parser := a\<rparr>) \<and>
    buffers_ok cfg (k\<lparr>wk_active_notification := n, wk_parser := p, wk_app_parser := a\<rparr>) \<and>
    answer_ok cfg (k\<lparr>wk_active_notification := n, wk_parser := p, wk_app_parser := a\<rparr>) \<and>
    (wk_active_request_kind k = ACTIVE_REQUEST_APP_ATTRIBUTES \<longrightarrow> same_but_name (wk_active_notification k) n)"
proof (cases "wk_active_request_kind k")
  case ACTIVE_REQUEST_NOTIFICATION_ATTRIBUTES
  let ?c = "PROTOCOL cfg"
  obtain n where n: "ancs_notification_init ?c (Some (wk_active_notification k)) session_id (Some (wk_active_event k)) now = Some n"
    by (simp add: ancs_notification_init_def Let_def)
  note ok = notification_init_ok [OF n]
  have nc: "\<not> n_complete n" and ab: "about (wk_active_event k) n"
    using n by (auto simp: ancs_notification_init_def Let_def notification_zero_def about_def)
  have m: "ANCS_ATTR_MASK_REQUIRED AND ANCS_ATTR_MASK_REQUIRED \<noteq> 0" by (simp add: ANCS_ATTR_MASK_REQUIRED_def)
  obtain p where p: "ancs_data_parser_init (Some (wk_parser k)) (Some n) (ev_uid (wk_active_event k)) ANCS_ATTR_MASK_REQUIRED = Some p"
      "p_notification p = Some n"
    using m by (simp add: ancs_data_parser_init_def Let_def parser_zero_def)
  have "parser_ok ?c (p\<lparr>p_notification := Some n\<rparr>)" using parser_init_ok [OF ok nc p(1)] p(2) by (cases p) simp
  then show ?thesis
    using n p assms(1) ok ab ACTIVE_REQUEST_NOTIFICATION_ATTRIBUTES
    by (intro exI [of _ n] exI [of _ p] exI [of _ "wk_app_parser k"])
      (simp add: start_answer_def buffers_ok_def answer_ok_def)
next
  case ACTIVE_REQUEST_APP_ATTRIBUTES
  let ?c = "PROTOCOL cfg" and ?n = "wk_active_notification k"
  have ok: "notification_ok ?c ?n" using assms(1) by (simp add: buffers_ok_def)
  note app' = app [OF ACTIVE_REQUEST_APP_ATTRIBUTES]
  obtain p where p: "ancs_app_data_parser_init ?c (Some (wk_app_parser k)) (Some ?n) = Some p"
    by (cases "n_app_id ?n ! 0 = 0") (auto simp: ancs_app_data_parser_init_def Let_def split_beta)
  have e: "cstr (n_app_id ?n) \<noteq> []" using app' by blast
  let ?m = "?n\<lparr>n_app_name := (n_app_name ?n)[0 := 0], n_app_name_truncated := False\<rparr>"
  have started: "a_notification p = Some ?m" using app_parser_started [OF ok e p] by simp
  have "app_parser_ok ?c (p\<lparr>a_notification := Some ?m\<rparr>)" using app_parser_init_ok [OF ok e p] started by (cases p) simp
  moreover have "notification_ok ?c ?m"
    using ok by (intro notification_ok_app_name(1) nul_buffer_update_zero) (simp_all add: notification_ok_def)
  moreover have "same_but_name ?n ?m" by simp
  ultimately show ?thesis
    using p started assms(1) app' ACTIVE_REQUEST_APP_ATTRIBUTES same_but_nameD [of ?n ?m]
    by (intro exI [of _ ?m] exI [of _ "wk_parser k"] exI [of _ p])
      (simp add: start_answer_def buffers_ok_def answer_ok_def)
qed

text \<open>What a write leaves as it was.\<close>

definition same_request :: "worker_context \<Rightarrow> worker_context \<Rightarrow> bool" where
  "same_request k k' \<longleftrightarrow> wk_active k' = wk_active k \<and> wk_active_canceled k' = wk_active_canceled k \<and>
     wk_active_request_kind k' = wk_active_request_kind k \<and> wk_active_event k' = wk_active_event k \<and>
     wk_attempt k' = wk_attempt k"

text \<open>The answer of an application, when it is asked for, is about a complete notification.\<close>

definition name_asked :: "worker_context \<Rightarrow> bool" where
  "name_asked k \<longleftrightarrow> (wk_active_request_kind k = ACTIVE_REQUEST_APP_ATTRIBUTES \<longrightarrow>
     about (wk_active_event k) (wk_active_notification k) \<and> n_complete (wk_active_notification k))"

definition kept_texts :: "worker_context \<Rightarrow> worker_context \<Rightarrow> bool" where
  "kept_texts k k' \<longleftrightarrow> (wk_active_request_kind k = ACTIVE_REQUEST_APP_ATTRIBUTES \<longrightarrow>
     same_but_name (wk_active_notification k) (wk_active_notification k'))"

lemma answer_ok_name_asked: "answer_ok cfg k \<Longrightarrow> name_asked k"
  by (auto simp: answer_ok_def name_asked_def)

lemma write_request:
  assumes "client_config_ok cfg" "buffers_ok cfg (wk s)" "name_asked (wk s)"
  shows "\<exists>err s'. write_active_control_request w cfg s = Some (err, s') \<and> buffers_ok cfg (wk s') \<and>
    same_request (wk s) (wk s') \<and> published s' = published s \<and> name_asked (wk s') \<and> kept_texts (wk s) (wk s') \<and>
    (err = ESP_OK \<longrightarrow> answer_ok cfg (wk s')) \<and>
    (wk_active_request_kind (wk s) = ACTIVE_REQUEST_NOTIFICATION_ATTRIBUTES \<longrightarrow> err \<noteq> ESP_ERR_INVALID_STATE \<longrightarrow>
       about (wk_active_event (wk s')) (wk_active_notification (wk s')))"
proof -
  have ok: "notification_ok (PROTOCOL cfg) (wk_active_notification (wk s))" using assms(2) by (simp add: buffers_ok_def)
  obtain err command n where b: "build_request cfg (wk s) = Some (err, Some command, Some n)"
      "wk_active_request_kind (wk s) = ACTIVE_REQUEST_APP_ATTRIBUTES \<longrightarrow> err = ANCS_PROTOCOL_OK \<longrightarrow>
       cstr (n_app_id (wk_active_notification (wk s))) \<noteq> []"
      "wk_active_request_kind (wk s) = ACTIVE_REQUEST_NOTIFICATION_ATTRIBUTES \<longrightarrow> err = ANCS_PROTOCOL_OK"
    using build_request_total [OF assms(1) ok] by blast
  define s1 where "s1 = acquire w s"
  define ns where "ns = (case wk_active_request_kind (wk s) of
      ACTIVE_REQUEST_NOTIFICATION_ATTRIBUTES \<Rightarrow> now_ms w s1 | ACTIVE_REQUEST_APP_ATTRIBUTES \<Rightarrow> (0, s1))"
  have ns: "wk (snd ns) = wk s" "published (snd ns) = published s" "wk s1 = wk s"
    by (simp_all add: ns_def s1_def split: active_request_kind.split)
  note refl = assms(2,3) same_request_def kept_texts_def
  show ?thesis
  proof (cases "err = ANCS_PROTOCOL_OK \<and> cl_ready (client s1) \<and> cl_connected (client s1) \<and>
      cl_generation (client s1) = wk_generation (wk s) \<and> cl_gattc_if (client s1) \<noteq> ESP_GATT_IF_NONE \<and>
      cl_control_point_handle (client s1) \<noteq> INVALID_HANDLE")
    case False
    then have "\<exists>e s'. write_active_control_request w cfg s = Some (e, s') \<and> (s' = s1 \<and> e = ESP_ERR_INVALID_STATE \<or>
        s' = s \<and> e = ESP_ERR_INVALID_SIZE \<and> err \<noteq> ANCS_PROTOCOL_OK)"
      by (auto simp: write_active_control_request_def b(1) s1_def)
    with refl b(3) show ?thesis by (auto simp: s1_def)
  next
    case True
    obtain m p a where k: "start_answer cfg (cl_session_id (client s1)) (fst ns) (wk s) =
          Some ((wk s)\<lparr>wk_active_notification := m, wk_parser := p, wk_app_parser := a\<rparr>)"
        "buffers_ok cfg ((wk s)\<lparr>wk_active_notification := m, wk_parser := p, wk_app_parser := a\<rparr>)"
        "answer_ok cfg ((wk s)\<lparr>wk_active_notification := m, wk_parser := p, wk_app_parser := a\<rparr>)"
        "wk_active_request_kind (wk s) = ACTIVE_REQUEST_APP_ATTRIBUTES \<longrightarrow> same_but_name (wk_active_notification (wk s)) m"
      using start_answer_total [OF assms(2), of "cl_session_id (client s1)" "fst ns"] b(2) True assms(3)
      by (auto simp: name_asked_def)
    define k' where "k' = (wk s)\<lparr>wk_active_notification := m, wk_parser := p, wk_app_parser := a\<rparr>"
    note k = k [folded k'_def]
    have same: "same_request (wk s) k'" "kept_texts (wk s) k'" "name_asked k'" "about (wk_active_event k') (wk_active_notification k')"
      using k(4) answer_ok_name_asked [OF k(3)] k(3)
      by (simp_all add: same_request_def kept_texts_def k'_def answer_ok_def)
    have deadline: "buffers_ok cfg (k'\<lparr>wk_deadline_ms := d\<rparr>)" "answer_ok cfg (k'\<lparr>wk_deadline_ms := d\<rparr>)"
      "same_request (wk s) (k'\<lparr>wk_deadline_ms := d\<rparr>)" "kept_texts (wk s) (k'\<lparr>wk_deadline_ms := d\<rparr>)"
      "name_asked (k'\<lparr>wk_deadline_ms := d\<rparr>)" for d
      using k(2,3) same by (cases "wk_active_request_kind (wk s)";
        simp add: buffers_ok_def answer_ok_def same_request_def kept_texts_def name_asked_def)+
    define r where "r = request w (WriteChar (cl_gattc_if (client s1)) (cl_conn_id (client s1))
        (cl_control_point_handle (client s1)) (take n command)) ((snd ns)\<lparr>ct_worker := k'\<rparr>)"
    have r: "wk (snd r) = k'" "published (snd r) = published s" by (simp_all add: r_def ns)
    have ns_eq: "(case wk_active_request_kind (wk s) of ACTIVE_REQUEST_NOTIFICATION_ATTRIBUTES \<Rightarrow> now_ms w (acquire w s)
        | ACTIVE_REQUEST_APP_ATTRIBUTES \<Rightarrow> (0, acquire w s)) = ns"
      by (simp only: ns_def s1_def)
    have run: "write_active_control_request w cfg s = Some (if fst r \<noteq> ESP_OK then (fst r, snd r)
        else (ESP_OK, set_worker (\<lambda>k. k\<lparr>wk_deadline_ms := fst (now_ms w (snd r)) + REQUEST_TIMEOUT_MS cfg\<rparr>) (snd (now_ms w (snd r)))))"
      using True k(1) unfolding write_active_control_request_def b(1) Let_def
      by (simp add: ns_eq s1_def [symmetric] r_def [symmetric] ns split_beta)
    obtain e s3 where e: "r = (e, s3)" by (cases r)
    show ?thesis
      unfolding run using r k(2,3) same deadline by (cases "e = ESP_OK") (simp_all add: e)
  qed
qed

section \<open>The cache of names and of notifications\<close>

lemma cstr_short_terminated: "length (cstr buf) < length buf \<Longrightarrow> terminated buf"
  unfolding terminated_def by (induction buf) (auto split: if_splits)

lemma copy_output_total:
  assumes "nul_buffer m out" "terminated src"
  shows "\<exists>out' copied. copy_output (Some src) (Some out) (m + 1) = Some (Some out', copied) \<and> nul_buffer m out'"
proof (cases "length (cstr src) \<ge> m + 1")
  case True
  then show ?thesis using assms nul_buffer_update_zero [of m out 0] by (auto simp: copy_output_def nul_buffer_def)
next
  case False
  then have "memcpy out src (length (cstr src) + 1) = Some (cstr src @ 0 # drop (Suc (length (cstr src))) out)"
    using assms memcpy_string [of src out] by (simp add: nul_buffer_def)
  moreover have "nul_buffer m (cstr src @ 0 # drop (Suc (length (cstr src))) out)"
    using False assms(1) by (auto simp: nul_buffer_def nth_append nth_Cons' not_le)
  ultimately show ?thesis using False by (intro exI [of _ "cstr src @ 0 # drop (Suc (length (cstr src))) out"] exI [of _ True])
    (simp add: copy_output_def)
qed

lemma resolver_begin_total:
  assumes "resolver_shape cfg r" "nul_buffer (APP_NAME_MAX cfg) out"
  shows "\<exists>r' out' res. ancs_app_resolver_begin cfg (Some r) (Some app) (Some out) (APP_NAME_MAX cfg + 1) =
    Some (Some r', Some out', res) \<and> resolver_shape cfg r' \<and> nul_buffer (APP_NAME_MAX cfg) out' \<and>
    (res = ANCS_APP_RESOLUTION_REQUEST_NATIVE \<longrightarrow> r' = r)"
proof -
  have c: "clear_output (Some out) (APP_NAME_MAX cfg + 1) = Some (Some (out[0 := 0]))"
    using assms(2) by (simp add: clear_output_def nul_buffer_def)
  have o: "nul_buffer (APP_NAME_MAX cfg) (out[0 := 0])" using assms(2) by (rule nul_buffer_update_zero)
  show ?thesis
  proof (cases "bounded_text (Some app) (APP_ID_MAX cfg)")
    case None
    with assms c o show ?thesis by (simp add: ancs_app_resolver_begin_def)
  next
    case (Some l)
    show ?thesis
    proof (cases "find_entry cfg r app")
      case None
      with Some assms c o show ?thesis by (simp add: ancs_app_resolver_begin_def)
    next
      case e: (Some i)
      then have i: "i < length (r_entries r)" "e_used (r_entries r ! i)"
        using assms(1) by (auto simp: find_entry_def find_Some_iff resolver_shape_def)
      then have ok: "entry_ok cfg (r_entries r ! i)" using assms(1) by (auto simp: resolver_shape_def)
      with i obtain out' copied where copy: "copy_output (Some (e_display_name (r_entries r ! i))) (Some (out[0 := 0]))
          (APP_NAME_MAX cfg + 1) = Some (Some out', copied)" "nul_buffer (APP_NAME_MAX cfg) out'"
        using copy_output_total [OF o, of "e_display_name (r_entries r ! i)"] by (auto simp: entry_ok_def)
      have "resolver_shape cfg (r\<lparr>r_age := a, r_entries := (r_entries r)[i := (r_entries r ! i)\<lparr>e_age := a\<rparr>]\<rparr>)" for a
        using assms(1) ok set_update_subset_insert [of "r_entries r" i]
        by (fastforce simp: resolver_shape_def entry_ok_def)
      with Some e i copy assms c show ?thesis by (cases copied) (simp_all add: ancs_app_resolver_begin_def)
    qed
  qed
qed

lemma replacement_entry_bound_shape:
  assumes "length (r_entries r) = APP_CACHE_CAPACITY cfg" "0 < APP_CACHE_CAPACITY cfg"
  shows "replacement_entry cfg r app < length (r_entries r)"
proof -
  obtain n where n: "APP_CACHE_CAPACITY cfg = Suc n" using assms by (cases "APP_CACHE_CAPACITY cfg") auto
  show ?thesis
    using assms argmin_fold [of "\<lambda>i. e_age (r_entries r ! i)" n] n
    by (auto simp: replacement_entry_def find_entry_def find_Some_iff find_None_iff simp del: upt_Suc split: option.split)
qed

lemma resolver_complete_total:
  assumes "resolver_shape cfg r" "nul_buffer (APP_NAME_MAX cfg) out" "0 < APP_CACHE_CAPACITY cfg"
    "length app = APP_ID_MAX cfg + 1" "length name = APP_NAME_MAX cfg + 1"
  shows "\<exists>r' out' res. ancs_app_resolver_complete cfg (Some r) (Some app) (Some name) (Some out) (APP_NAME_MAX cfg + 1) =
    Some (Some r', Some out', res) \<and> resolver_shape cfg r' \<and> nul_buffer (APP_NAME_MAX cfg) out'"
proof -
  have c: "clear_output (Some out) (APP_NAME_MAX cfg + 1) = Some (Some (out[0 := 0]))"
    using assms(2) by (simp add: clear_output_def nul_buffer_def)
  have o: "nul_buffer (APP_NAME_MAX cfg) (out[0 := 0])" using assms(2) by (rule nul_buffer_update_zero)
  show ?thesis
  proof (cases "text_fits app (APP_ID_MAX cfg) \<and> text_fits name (APP_NAME_MAX cfg)")
    case False
    with assms c o show ?thesis
      by (auto simp: ancs_app_resolver_complete_def bounded_text_eq)
  next
    case True
    then have lens: "length (cstr app) \<le> APP_ID_MAX cfg" "length (cstr name) \<le> APP_NAME_MAX cfg"
      by (simp_all add: text_fits_def)
    then have trm: "terminated app" "terminated name"
      using assms(4,5) cstr_short_terminated by simp_all
    obtain out' copied where copy: "copy_output (Some name) (Some (out[0 := 0])) (APP_NAME_MAX cfg + 1) = Some (Some out', copied)"
        "nul_buffer (APP_NAME_MAX cfg) out'"
      using copy_output_total [OF o trm(2)] by blast
    let ?i = "replacement_entry cfg r app"
    have i: "?i < length (r_entries r)"
      using assms(1,3) by (intro replacement_entry_bound_shape) (simp_all add: resolver_shape_def)
    then have e: "entry_ok cfg (r_entries r ! ?i)" using assms(1) by (auto simp: resolver_shape_def)
    note a = memcpy_string [OF trm(1), of "e_app_id (r_entries r ! ?i)"]
    note b = memcpy_string [OF trm(2), of "e_display_name (r_entries r ! ?i)"]
    let ?e = "(r_entries r ! ?i)\<lparr>e_used := True, e_age := r_age r + 1,
        e_app_id := cstr app @ 0 # drop (Suc (length (cstr app))) (e_app_id (r_entries r ! ?i)),
        e_display_name := cstr name @ 0 # drop (Suc (length (cstr name))) (e_display_name (r_entries r ! ?i))\<rparr>"
    have "entry_ok cfg ?e" using e lens by (auto simp: entry_ok_def terminated_def)
    then have "resolver_shape cfg (r\<lparr>r_age := r_age r + 1, r_entries := (r_entries r)[?i := ?e]\<rparr>)"
      using assms(1) set_update_subset_insert [of "r_entries r" ?i] by (fastforce simp: resolver_shape_def)
    with True i e lens copy a b assms c show ?thesis
      by (cases copied) (simp_all add: ancs_app_resolver_complete_def bounded_text_eq entry_ok_def Let_def)
  qed
qed

lemma cache_target_bound:
  assumes "0 < CACHE_CAPACITY cfg"
  shows "cache_target cfg n k < CACHE_CAPACITY cfg"
proof -
  obtain m where m: "CACHE_CAPACITY cfg = Suc m" using assms by (cases "CACHE_CAPACITY cfg") auto
  show ?thesis
    using argmin_fold [of "\<lambda>i. ce_age (wk_cache k ! i)" m] m
    by (auto simp: cache_target_def cache_find_def find_Some_iff simp del: upt_Suc split: option.split)
qed

lemma cache_store_total:
  assumes "client_config_ok cfg" "buffers_ok cfg k"
  shows "\<exists>age cache. cache_store cfg n k = Some (k\<lparr>wk_cache_age := age, wk_cache := cache\<rparr>) \<and> length cache = CACHE_CAPACITY cfg"
  using assms cache_target_bound [of cfg n k]
  by (intro exI [of _ "wk_cache_age k + 1"]
      exI [of _ "(wk_cache k)[cache_target cfg n k := \<lparr>ce_used = True, ce_age = wk_cache_age k + 1, ce_notification = n\<rparr>]"])
    (simp add: cache_store_def buffers_ok_def client_config_ok_def Let_def)

section \<open>The end of a request\<close>

text \<open>
  From a request the worker pursues, an operation leads to the same request, in the same phase or the next one, with
  nothing published, or to its end with at most one notification, which is the one the request is about. After the
  attributes are complete only the name of the application can differ.
\<close>

definition same_phase :: "worker_context \<Rightarrow> worker_context \<Rightarrow> bool" where
  "same_phase k k' \<longleftrightarrow> wk_active_event k' = wk_active_event k \<and>
     (wk_active_request_kind k = ACTIVE_REQUEST_APP_ATTRIBUTES \<longrightarrow>
        wk_active_request_kind k' = ACTIVE_REQUEST_APP_ATTRIBUTES \<and>
        same_but_name (wk_active_notification k) (wk_active_notification k'))"

definition request_continues :: "client_worker \<Rightarrow> client_worker \<Rightarrow> bool" where
  "request_continues s s' \<longleftrightarrow> wk_active (wk s') \<and> wk_active_canceled (wk s') = wk_active_canceled (wk s) \<and>
     same_phase (wk s) (wk s') \<and> published s' = published s"

definition published_at_most :: "worker_context \<Rightarrow> ancs_notification list \<Rightarrow> ancs_notification list \<Rightarrow> bool" where
  "published_at_most k ns ns' \<longleftrightarrow> ns' = ns \<or>
     (\<exists>n. ns' = n # ns \<and> about (wk_active_event k) n \<and>
        (wk_active_request_kind k = ACTIVE_REQUEST_APP_ATTRIBUTES \<longrightarrow> same_but_name (wk_active_notification k) n))"

definition request_ends :: "client_worker \<Rightarrow> client_worker \<Rightarrow> bool" where
  "request_ends s s' \<longleftrightarrow> \<not> wk_active (wk s') \<and> published_at_most (wk s) (published s) (published s') \<and>
     (wk_active_canceled (wk s) \<longrightarrow> published s' = published s)"

definition request_outcome :: "client_config \<Rightarrow> client_worker \<Rightarrow> client_worker \<Rightarrow> bool" where
  "request_outcome cfg s s' \<longleftrightarrow> worker_ok cfg (wk s') \<and> (request_continues s s' \<or> request_ends s s')"

definition pursued :: "client_config \<Rightarrow> worker_context \<Rightarrow> bool" where
  "pursued cfg k \<longleftrightarrow> buffers_ok cfg k \<and> about (wk_active_event k) (wk_active_notification k) \<and> name_asked k"

lemma same_phase_refl [simp]: "same_phase k k"
  by (simp add: same_phase_def)

lemma same_phase_trans: "same_phase k k1 \<Longrightarrow> same_phase k1 k2 \<Longrightarrow> same_phase k k2"
  by (auto simp: same_phase_def intro: same_but_name_trans)

lemma same_phase_request: "same_request k k' \<Longrightarrow> kept_texts k k' \<Longrightarrow> same_phase k k'"
  by (simp add: same_phase_def same_request_def kept_texts_def)

lemma request_outcome_trans:
  assumes "same_phase (wk s) (wk s1)" "wk_active_canceled (wk s1) = wk_active_canceled (wk s)" "published s1 = published s"
    "request_outcome cfg s1 s'"
  shows "request_outcome cfg s s'"
proof -
  have e: "wk_active_event (wk s1) = wk_active_event (wk s)" using assms(1) by (simp add: same_phase_def)
  have p: "published_at_most (wk s) ns ns'" if "published_at_most (wk s1) ns ns'" for ns ns'
    using that assms(1) same_but_name_trans unfolding published_at_most_def same_phase_def by metis
  from assms(4) have w: "worker_ok cfg (wk s')" by (simp add: request_outcome_def)
  from assms(4) consider "request_continues s1 s'" | "request_ends s1 s'" by (auto simp: request_outcome_def)
  then show ?thesis
  proof cases
    case 1
    with assms(2,3) w same_phase_trans [OF assms(1), of "wk s'"] show ?thesis
      by (simp add: request_outcome_def request_continues_def)
  next
    case 2
    with assms(2,3) w p [of "published s1" "published s'"] show ?thesis
      by (simp add: request_outcome_def request_ends_def)
  qed
qed

lemma pursued_request:
  assumes "pursued cfg k" "same_request k k'" "kept_texts k k'" "buffers_ok cfg k'" "name_asked k'"
    "wk_active_request_kind k = ACTIVE_REQUEST_NOTIFICATION_ATTRIBUTES \<Longrightarrow> about (wk_active_event k') (wk_active_notification k')"
  shows "pursued cfg k'"
  using assms by (cases "wk_active_request_kind k") (auto simp: pursued_def same_request_def kept_texts_def name_asked_def)

lemma answer_pursued: "buffers_ok cfg k \<Longrightarrow> answer_ok cfg k \<Longrightarrow> pursued cfg k"
  using answer_ok_name_asked [of cfg k] by (simp add: pursued_def answer_ok_def)

lemma abandon_outcome:
  assumes "buffers_ok cfg (wk s)"
  shows "request_outcome cfg s (abandon_active_request s)" "request_outcome cfg s (finish_canceled_request s)"
  using assms by (simp_all add: request_outcome_def request_ends_def published_at_most_def worker_ok_def buffers_ok_def
      abandon_active_request_def finish_canceled_request_def)

lemma recover_outcome: "request_outcome cfg s (recover_data_stream w s') = request_outcome cfg s s'"
  by (simp add: request_outcome_def request_continues_def request_ends_def)

lemma fail_active_outcome:
  assumes "pursued cfg (wk s)" "\<not> wk_active_canceled (wk s)" "wk_active_request_kind (wk s) = ACTIVE_REQUEST_NOTIFICATION_ATTRIBUTES"
  shows "request_outcome cfg s (fail_active_request code s)"
  using assms by (simp add: request_outcome_def request_ends_def published_at_most_def pursued_def worker_ok_def buffers_ok_def
      fail_active_request_def Let_def about_def notification_ok_def)

lemma finalize_outcome:
  assumes "client_config_ok cfg" "pursued cfg (wk s)" "\<not> wk_active_canceled (wk s)"
  shows "\<exists>s'. finalize_active_notification cfg s = Some s' \<and> request_outcome cfg s s'"
proof -
  obtain age cache where c: "cache_store cfg (wk_active_notification (wk s)) (wk s) =
      Some ((wk s)\<lparr>wk_cache_age := age, wk_cache := cache\<rparr>)" "length cache = CACHE_CAPACITY cfg"
    using cache_store_total [OF assms(1), of "wk s" "wk_active_notification (wk s)"] assms(2) unfolding pursued_def by blast
  show ?thesis
    using assms(2,3) c(2) by (simp add: finalize_active_notification_def c(1) request_outcome_def request_ends_def
        published_at_most_def pursued_def worker_ok_def buffers_ok_def)
qed

text \<open>A new name for the application leaves the request what it is.\<close>

lemma pursued_named:
  assumes "pursued cfg k" "nul_buffer (APP_NAME_MAX (PROTOCOL cfg)) name"
  shows "pursued cfg (k\<lparr>wk_active_notification := (wk_active_notification k)\<lparr>n_app_name := name\<rparr>\<rparr>)"
    "resolver_shape (PROTOCOL cfg) r \<Longrightarrow>
     pursued cfg (k\<lparr>wk_app_resolver := r, wk_active_notification := (wk_active_notification k)\<lparr>n_app_name := name\<rparr>\<rparr>)"
  using assms by (simp_all add: pursued_def buffers_ok_def about_def name_asked_def)

lemma finish_active_outcome:
  assumes "client_config_ok cfg" "pursued cfg (wk s)" "\<not> wk_active_canceled (wk s)"
  shows "\<exists>s'. finish_active w cfg code recover s = Some s' \<and> request_outcome cfg s s'"
proof (cases "wk_active_request_kind (wk s)")
  case ACTIVE_REQUEST_NOTIFICATION_ATTRIBUTES
  with fail_active_outcome [OF assms(2,3)] show ?thesis by (simp add: finish_active_def recover_outcome)
next
  case ACTIVE_REQUEST_APP_ATTRIBUTES
  let ?n = "wk_active_notification (wk s)"
  have nul: "nul_buffer (APP_NAME_MAX (PROTOCOL cfg)) (n_app_name ?n)"
    using assms(2) notification_ok_app_name(3) by (auto simp: pursued_def buffers_ok_def)
  then have c: "ancs_app_resolver_fail (Some (n_app_name ?n)) (Suc (APP_NAME_MAX (PROTOCOL cfg))) =
      Some (Some ((n_app_name ?n)[0 := 0]), ANCS_APP_RESOLUTION_USE_FALLBACK)"
    by (simp add: ancs_app_resolver_fail_def clear_output_def nul_buffer_def)
  define s1 where "s1 = set_worker (\<lambda>k. k\<lparr>wk_active_notification := (wk_active_notification k)\<lparr>n_app_name := (n_app_name ?n)[0 := 0]\<rparr>\<rparr>) s"
  have s1: "pursued cfg (wk s1)" "same_phase (wk s) (wk s1)" "\<not> wk_active_canceled (wk s1)" "published s1 = published s"
    using pursued_named(1) [OF assms(2) nul_buffer_update_zero [OF nul]] assms(3)
    by (simp_all add: s1_def same_phase_def)
  obtain s' where "finalize_active_notification cfg s1 = Some s'" "request_outcome cfg s1 s'"
    using finalize_outcome [OF assms(1) s1(1,3)] by blast
  with s1 assms(3) request_outcome_trans [of s s1] show ?thesis
    by (simp add: finish_active_def ACTIVE_REQUEST_APP_ATTRIBUTES c s1_def [symmetric] recover_outcome)
qed

lemma pursued_kind [simp]:
  "pursued cfg (k\<lparr>wk_attempt := a\<rparr>) = pursued cfg k" "same_phase k (k\<lparr>wk_attempt := a\<rparr>)"
  "name_asked (k\<lparr>wk_attempt := a\<rparr>) = name_asked k" "buffers_ok cfg (k\<lparr>wk_attempt := a\<rparr>) = buffers_ok cfg k"
  by (simp_all add: pursued_def same_phase_def name_asked_def buffers_ok_def)

lemma written_outcome:
  assumes "same_request (wk s) (wk s')" "kept_texts (wk s) (wk s')" "published s' = published s" "buffers_ok cfg (wk s')"
    "answer_ok cfg (wk s')" "wk_active (wk s)"
  shows "request_outcome cfg s s'"
  using assms same_phase_request [OF assms(1,2)]
  by (simp add: request_outcome_def request_continues_def worker_ok_def same_request_def)

text \<open>A write of the request, and what follows: the answer is awaited, the request is dropped, or \<open>f\<close> takes over.\<close>

lemma write_outcome:
  assumes "client_config_ok cfg" "buffers_ok cfg (wk s)" "name_asked (wk s)" "wk_active (wk s)" "\<not> wk_active_canceled (wk s)"
    and f: "\<And>t. pursued cfg (wk t) \<Longrightarrow> wk_active (wk t) \<Longrightarrow> \<not> wk_active_canceled (wk t) \<Longrightarrow> \<exists>s'. f t = Some s' \<and> request_outcome cfg t s'"
  shows "\<exists>err t s'. write_active_control_request w cfg s = Some (err, t) \<and> request_outcome cfg s s' \<and>
    (if err = ESP_OK then s' = t else if err = ESP_ERR_INVALID_STATE then s' = abandon_active_request t else f t = Some s')"
proof -
  obtain err t where wr: "write_active_control_request w cfg s = Some (err, t)" "buffers_ok cfg (wk t)"
      "same_request (wk s) (wk t)" "published t = published s" "name_asked (wk t)" "kept_texts (wk s) (wk t)"
      "err = ESP_OK \<longrightarrow> answer_ok cfg (wk t)"
      "wk_active_request_kind (wk s) = ACTIVE_REQUEST_NOTIFICATION_ATTRIBUTES \<longrightarrow> err \<noteq> ESP_ERR_INVALID_STATE \<longrightarrow>
         about (wk_active_event (wk t)) (wk_active_notification (wk t))"
    using write_request [OF assms(1-3), of w] by blast
  have t: "wk_active (wk t)" "\<not> wk_active_canceled (wk t)" "wk_active_request_kind (wk t) = wk_active_request_kind (wk s)"
    using wr(3) assms(4,5) by (simp_all add: same_request_def)
  note to_s = request_outcome_trans [OF same_phase_request [OF wr(3,6)] _ wr(4), of cfg]
  consider "err = ESP_OK" | "err = ESP_ERR_INVALID_STATE" | "err \<noteq> ESP_OK" "err \<noteq> ESP_ERR_INVALID_STATE" by blast
  then show ?thesis
  proof cases
    case 1
    with wr(1,7) written_outcome [OF wr(3,6,4,2) _ assms(4)] show ?thesis by simp
  next
    case 2
    with wr(1) to_s [OF _ abandon_outcome(1) [OF wr(2)]] t assms(5) show ?thesis by auto
  next
    case 3
    then have "pursued cfg (wk t)"
      using wr(2,5,8) t(3) by (cases "wk_active_request_kind (wk s)") (auto simp: pursued_def name_asked_def)
    then obtain s' where "f t = Some s'" "request_outcome cfg t s'" using f t(1,2) by blast
    with 3 wr(1) to_s t assms(5) show ?thesis by auto
  qed
qed

lemma retry_outcome:
  assumes "client_config_ok cfg" "buffers_ok cfg (wk s)"
    "wk_active (wk s) \<Longrightarrow> pursued cfg (wk s) \<and> \<not> wk_active_canceled (wk s)"
  shows "\<exists>s'. retry_or_finish_active w cfg code recover s = Some s' \<and> request_outcome cfg s s'"
proof (cases "wk_active (wk s)")
  case False
  with assms(2) show ?thesis
    by (simp add: retry_or_finish_active_def request_outcome_def request_ends_def published_at_most_def worker_ok_def)
next
  case active: True
  define s1 where "s1 = snd (client_ready w s)"
  have s1: "wk s1 = wk s" "published s1 = published s" "pursued cfg (wk s1)" "\<not> wk_active_canceled (wk s1)"
    using assms(3) active by (simp_all add: s1_def client_ready_def Let_def)
  note from_s1 = request_outcome_trans [of s s1, OF _ _ s1(2), unfolded s1(1), OF same_phase_refl refl]
  show ?thesis
  proof (cases "fst (client_ready w s)")
    case False
    with active abandon_outcome(1) [of cfg s1] assms(2) s1(1) from_s1 show ?thesis
      by (auto simp: retry_or_finish_active_def split_beta s1_def [symmetric])
  next
    case ready: True
    show ?thesis
    proof (cases "wk_attempt (wk s) < 1")
      case False
      obtain s' where "finish_active w cfg code recover s1 = Some s'" "request_outcome cfg s1 s'"
        using finish_active_outcome [OF assms(1) s1(3,4)] by blast
      with False active ready from_s1 show ?thesis
        by (auto simp: retry_or_finish_active_def split_beta s1_def [symmetric] s1(1))
    next
      case True
      define s2 where "s2 = set_worker (\<lambda>k. k\<lparr>wk_attempt := wk_attempt k + 1\<rparr>) s1"
      have s2: "pursued cfg (wk s2)" "same_phase (wk s1) (wk s2)" "published s2 = published s1" "\<not> wk_active_canceled (wk s2)"
        "wk_active (wk s2)"
        using s1 active by (simp_all add: s2_def)
      have fin: "\<exists>s'. finish_active w cfg code recover t = Some s' \<and> request_outcome cfg t s'"
        if "pursued cfg (wk t)" "\<not> wk_active_canceled (wk t)" for t
        using finish_active_outcome [OF assms(1) that] .
      have b2: "buffers_ok cfg (wk s2)" "name_asked (wk s2)" using s2(1) by (simp_all add: pursued_def)
      obtain err t s' where "write_active_control_request w cfg s2 = Some (err, t)" "request_outcome cfg s2 s'"
          "if err = ESP_OK then s' = t else if err = ESP_ERR_INVALID_STATE then s' = abandon_active_request t
           else finish_active w cfg code recover t = Some s'"
        using write_outcome [OF assms(1) b2 s2(5,4) fin, where w = w] by blast
      moreover have "request_outcome cfg s s'"
        using request_outcome_trans [of s s2, OF _ _ _ calculation(2)] s1 s2 by simp
      ultimately show ?thesis
        using active ready True
        by (auto simp: retry_or_finish_active_def split_beta s1_def [symmetric] s1(1) s2_def [symmetric] split: if_splits)
    qed
  qed
qed

lemma first_write_outcome:
  assumes "client_config_ok cfg" "buffers_ok cfg (wk s)" "name_asked (wk s)" "wk_active (wk s)" "\<not> wk_active_canceled (wk s)"
  shows "\<exists>s'. first_write w cfg s = Some s' \<and> request_outcome cfg s s'"
proof -
  have retry: "\<exists>s'. retry_or_finish_active w cfg (error_number ANCS_PROTOCOL_ERR_SEQUENCE) False t = Some s' \<and> request_outcome cfg t s'"
    if "pursued cfg (wk t)" "\<not> wk_active_canceled (wk t)" for t
    using retry_outcome [OF assms(1)] that by (auto simp: pursued_def)
  obtain err t s' where "write_active_control_request w cfg s = Some (err, t)" "request_outcome cfg s s'"
      "if err = ESP_OK then s' = t else if err = ESP_ERR_INVALID_STATE then s' = abandon_active_request t
       else retry_or_finish_active w cfg (error_number ANCS_PROTOCOL_ERR_SEQUENCE) False t = Some s'"
    using write_outcome [OF assms retry, where w = w] by blast
  then show ?thesis by (auto simp: first_write_def split: if_splits)
qed

section \<open>The name of the application\<close>

lemma pursued_name_buffer:
  "pursued cfg k \<Longrightarrow> nul_buffer (APP_NAME_MAX (PROTOCOL cfg)) (n_app_name (wk_active_notification k))"
  "pursued cfg k \<Longrightarrow> resolver_shape (PROTOCOL cfg) (wk_app_resolver k)"
  by (simp_all add: pursued_def buffers_ok_def notification_ok_def)

lemma begin_resolution_outcome:
  assumes "client_config_ok cfg" "pursued cfg (wk s)" "wk_active (wk s)" "\<not> wk_active_canceled (wk s)"
    "wk_active_request_kind (wk s) = ACTIVE_REQUEST_NOTIFICATION_ATTRIBUTES" "n_complete (wk_active_notification (wk s))"
  shows "\<exists>s'. begin_app_name_resolution w cfg s = Some s' \<and> request_outcome cfg s s'"
proof -
  let ?n = "wk_active_notification (wk s)"
  obtain r name res where starts: "ancs_app_resolver_begin (PROTOCOL cfg) (Some (wk_app_resolver (wk s))) (Some (n_app_id ?n))
        (Some (n_app_name ?n)) (APP_NAME_MAX (PROTOCOL cfg) + 1) = Some (Some r, Some name, res)"
      "resolver_shape (PROTOCOL cfg) r" "nul_buffer (APP_NAME_MAX (PROTOCOL cfg)) name"
    using resolver_begin_total [OF pursued_name_buffer(2,1) [OF assms(2)]] by blast
  define s1 where "s1 = set_worker (\<lambda>k. k\<lparr>wk_app_resolver := r,
      wk_active_notification := (wk_active_notification k)\<lparr>n_app_name := name\<rparr>\<rparr>) s"
  have s1: "pursued cfg (wk s1)" "same_phase (wk s) (wk s1)" "\<not> wk_active_canceled (wk s1)" "published s1 = published s"
      "wk_active (wk s1)" "n_complete (wk_active_notification (wk s1))"
    using pursued_named(2) [OF assms(2) starts(3,2)] assms(3-6) by (simp_all add: s1_def same_phase_def)
  note to_s = request_outcome_trans [OF s1(2) _ s1(4)]
  show ?thesis
  proof (cases "res = ANCS_APP_RESOLUTION_REQUEST_NATIVE")
    case False
    obtain s' where "finalize_active_notification cfg s1 = Some s'" "request_outcome cfg s1 s'"
      using finalize_outcome [OF assms(1) s1(1,3)] by blast
    with False starts(1) to_s s1(3) assms(4) show ?thesis
      unfolding begin_app_name_resolution_def by (auto simp: s1_def)
  next
    case True
    define s2 where "s2 = set_worker (\<lambda>k. k\<lparr>wk_active_request_kind := ACTIVE_REQUEST_APP_ATTRIBUTES, wk_attempt := 0\<rparr>) s1"
    have k2: "buffers_ok cfg (wk s2)" "name_asked (wk s2)" "wk_active (wk s2)" "\<not> wk_active_canceled (wk s2)"
      using s1 by (simp_all add: s2_def pursued_def buffers_ok_def name_asked_def)
    have k2': "same_phase (wk s) (wk s2)" "published s2 = published s"
      using s1(2,4) assms(5) by (simp_all add: s2_def same_phase_def)
    obtain s' where "first_write w cfg s2 = Some s'" "request_outcome cfg s2 s'"
      using first_write_outcome [OF assms(1) k2] by blast
    with request_outcome_trans [OF k2'(1) _ k2'(2)] k2(4) True starts(1) assms(4) show ?thesis
      unfolding begin_app_name_resolution_def by (auto simp: s2_def s1_def)
  qed
qed

lemma complete_resolution_outcome:
  assumes "client_config_ok cfg" "pursued cfg (wk s)" "\<not> wk_active_canceled (wk s)"
  shows "\<exists>s'. complete_app_name_resolution cfg s = Some s' \<and> request_outcome cfg s s'"
proof (cases "n_app_name_truncated (wk_active_notification (wk s))")
  case True
  with finalize_outcome [OF assms] show ?thesis by (simp add: complete_app_name_resolution_def)
next
  case False
  let ?n = "wk_active_notification (wk s)"
  have len: "length (n_app_id ?n) = APP_ID_MAX (PROTOCOL cfg) + 1" "length (n_app_name ?n) = APP_NAME_MAX (PROTOCOL cfg) + 1"
    using assms(2) notification_ok_lengths unfolding pursued_def buffers_ok_def by blast+
  have m: "memcpy (replicate (APP_NAME_MAX (PROTOCOL cfg) + 1) 0) (n_app_name ?n) (APP_NAME_MAX (PROTOCOL cfg) + 1) = Some (n_app_name ?n)"
    using len(2) by (simp add: memcpy_def)
  have cap: "0 < APP_CACHE_CAPACITY (PROTOCOL cfg)" using assms(1) by (simp add: client_config_ok_def config_ok_def)
  obtain r name res where c: "ancs_app_resolver_complete (PROTOCOL cfg) (Some (wk_app_resolver (wk s))) (Some (n_app_id ?n))
        (Some (n_app_name ?n)) (Some (n_app_name ?n)) (APP_NAME_MAX (PROTOCOL cfg) + 1) = Some (Some r, Some name, res)"
      "resolver_shape (PROTOCOL cfg) r" "nul_buffer (APP_NAME_MAX (PROTOCOL cfg)) name"
    using resolver_complete_total [OF pursued_name_buffer(2,1) [OF assms(2)] cap len] by blast
  define s1 where "s1 = set_worker (\<lambda>k. k\<lparr>wk_app_resolver := r,
      wk_active_notification := (wk_active_notification k)\<lparr>n_app_name := name\<rparr>\<rparr>) s"
  have s1: "pursued cfg (wk s1)" "same_phase (wk s) (wk s1)" "\<not> wk_active_canceled (wk s1)" "published s1 = published s"
    using pursued_named(2) [OF assms(2) c(3,2)] assms(3) by (simp_all add: s1_def same_phase_def)
  obtain s' where "finalize_active_notification cfg s1 = Some s'" "request_outcome cfg s1 s'"
    using finalize_outcome [OF assms(1) s1(1,3)] by blast
  with False m c(1) request_outcome_trans [OF s1(2) _ s1(4)] s1(3) assms(3) show ?thesis
    unfolding complete_app_name_resolution_def by (auto simp: s1_def)
qed

section \<open>The answer of the phone\<close>

lemma feed_answer_total:
  assumes "buffers_ok cfg k" "answer_ok cfg k"
  shows "\<exists>r code k'. feed_answer cfg bs k = Some (r, code, k') \<and> buffers_ok cfg k' \<and> answer_ok cfg k' \<and>
    same_request k k' \<and> kept_texts k k' \<and> (r = ANCS_PARSER_COMPLETE \<longrightarrow> n_complete (wk_active_notification k'))"
proof (cases "wk_active_request_kind k")
  case ACTIVE_REQUEST_NOTIFICATION_ATTRIBUTES
  let ?n = "wk_active_notification k"
  let ?p = "(wk_parser k)\<lparr>p_notification := Some ?n\<rparr>"
  have p: "parser_ok (PROTOCOL cfg) ?p" "map_option (\<lambda>_. ?n) (p_notification (wk_parser k)) = Some ?n" "about (wk_active_event k) ?n"
    using assms(2) ACTIVE_REQUEST_NOTIFICATION_ATTRIBUTES by (auto simp: answer_ok_def)
  obtain p' r n' where f: "data_parser_feed (PROTOCOL cfg) ?p bs = Some (p', r)" "parser_ok (PROTOCOL cfg) p'"
      "p_notification p' = Some n'" "header n' = header ?n" "r = ANCS_PARSER_COMPLETE \<longleftrightarrow> p_state p' = PARSER_STATE_COMPLETE"
    using data_parser_feed_header [OF p(1), of ?n bs] by auto
  have same: "p'\<lparr>p_notification := Some n'\<rparr> = p'" using f(3) by (cases p') simp
  have n': "notification_ok (PROTOCOL cfg) n'" "n_complete n' \<longleftrightarrow> p_state p' = PARSER_STATE_COMPLETE"
    using f(2,3) by (auto simp: parser_ok_def)
  have "about (wk_active_event k) n'" using p(3) f(4) by (simp add: about_header)
  moreover have "feed_answer cfg bs k = Some (r, error_number (p_error_code p'), k\<lparr>wk_parser := p', wk_active_notification := n'\<rparr>)"
    using ACTIVE_REQUEST_NOTIFICATION_ATTRIBUTES f(1,3) p(2)
    by (auto simp: feed_answer_def ancs_data_parser_feed_def Let_def)
  ultimately show ?thesis
    using assms(1) f n' ACTIVE_REQUEST_NOTIFICATION_ATTRIBUTES
    by (simp add: buffers_ok_def answer_ok_def same_request_def kept_texts_def same)
next
  case ACTIVE_REQUEST_APP_ATTRIBUTES
  let ?n = "wk_active_notification k"
  let ?p = "(wk_app_parser k)\<lparr>a_notification := Some ?n\<rparr>"
  have p: "app_parser_ok (PROTOCOL cfg) ?p" "map_option (\<lambda>_. ?n) (a_notification (wk_app_parser k)) = Some ?n"
      "about (wk_active_event k) ?n" "n_complete ?n"
    using assms(2) ACTIVE_REQUEST_APP_ATTRIBUTES by (auto simp: answer_ok_def)
  obtain p' r n' where f: "app_data_parser_feed (PROTOCOL cfg) ?p bs = Some (p', r)" "app_parser_ok (PROTOCOL cfg) p'"
      "a_notification p' = Some n'" "same_but_name ?n n'"
    using app_data_parser_feed_same [OF p(1), of ?n bs] by auto
  have same: "p'\<lparr>a_notification := Some n'\<rparr> = p'" using f(3) by (cases p') simp
  have "notification_ok (PROTOCOL cfg) n'" using f(2,3) by (auto simp: app_parser_ok_def)
  moreover have "feed_answer cfg bs k = Some (r, error_number (a_error_code p'), k\<lparr>wk_app_parser := p', wk_active_notification := n'\<rparr>)"
    using ACTIVE_REQUEST_APP_ATTRIBUTES f(1,3) p(2)
    by (auto simp: feed_answer_def ancs_app_data_parser_feed_def Let_def)
  ultimately show ?thesis
    using assms(1) f p(3,4) same_but_nameD [OF f(4)] ACTIVE_REQUEST_APP_ATTRIBUTES
    by (simp add: buffers_ok_def answer_ok_def same_request_def kept_texts_def same)
qed

lemma data_fragment_outcome:
  assumes "client_config_ok cfg" "worker_ok cfg (wk s)" "wk_active (wk s)"
  shows "\<exists>s'. process_data_fragment w cfg fragment s = Some s' \<and> request_outcome cfg s s'"
proof (cases fragment)
  case None
  with assms show ?thesis by (simp add: process_data_fragment_def request_outcome_def request_continues_def)
next
  case (Some bs)
  have ok: "buffers_ok cfg (wk s)" "answer_ok cfg (wk s)" using assms(2,3) by (simp_all add: worker_ok_def)
  obtain r code k' where f: "feed_answer cfg bs (wk s) = Some (r, code, k')" "buffers_ok cfg k'" "answer_ok cfg k'"
      "same_request (wk s) k'" "kept_texts (wk s) k'" "r = ANCS_PARSER_COMPLETE \<longrightarrow> n_complete (wk_active_notification k')"
    using feed_answer_total [OF ok] by blast
  define s1 where "s1 = s\<lparr>ct_worker := k'\<rparr>"
  have k: "wk s1 = k'" "published s1 = published s" by (simp_all add: s1_def)
  have c: "wk_active_canceled k' = wk_active_canceled (wk s)" "wk_active k'" using f(4) assms(3) by (simp_all add: same_request_def)
  have to_s: "request_outcome cfg s s'" if "request_outcome cfg s1 s'" for s'
    using request_outcome_trans [OF _ _ _ that, of s] same_phase_request [OF f(4,5)] c(1) k by simp
  have p: "pursued cfg (wk s1)" "buffers_ok cfg (wk s1)" "wk_active (wk s1)" using answer_pursued [OF f(2,3)] f(2) c k by simp_all
  have goes_on: "request_outcome cfg s s1"
    using written_outcome [of s s1, OF _ _ k(2)] f k(1) assms(3) by simp
  note unf = process_data_fragment_def Some f(1) s1_def [symmetric]
  show ?thesis
  proof (cases "(r = ANCS_PARSER_COMPLETE \<or> r = ANCS_PARSER_ERROR) \<and> wk_active_canceled k'")
    case True
    with to_s [OF abandon_outcome(2) [OF p(2)]] assms(3) k(1) show ?thesis by (auto simp: unf)
  next
    case False
    show ?thesis
    proof (cases r)
      case ANCS_PARSER_COMPLETE
      with False have nc: "\<not> wk_active_canceled (wk s1)" "n_complete (wk_active_notification (wk s1))" using k(1) f(6) by auto
      then show ?thesis
        using ANCS_PARSER_COMPLETE assms(3) to_s begin_resolution_outcome [OF assms(1) p(1,3) nc(1) _ nc(2), of w]
          complete_resolution_outcome [OF assms(1) p(1) nc(1)]
        by (cases "wk_active_request_kind (wk s1)") (auto simp: unf k(1))
    next
      case ANCS_PARSER_ERROR
      with False have nc: "\<not> wk_active_canceled (wk s1)" using k(1) by auto
      with ANCS_PARSER_ERROR assms(3) to_s retry_outcome [OF assms(1) p(2), of w code True] p(1) show ?thesis
        by (auto simp: unf k(1))
    qed (use assms(3) goes_on in \<open>auto simp: unf\<close>)
  qed
qed

lemma write_result_outcome:
  assumes "client_config_ok cfg" "worker_ok cfg (wk s)" "wk_active (wk s)"
  shows "\<exists>s'. process_write_result w cfg status s = Some s' \<and> request_outcome cfg s s'"
proof -
  have ok: "buffers_ok cfg (wk s)" "pursued cfg (wk s)" using assms(2,3) answer_pursued by (auto simp: worker_ok_def)
  show ?thesis
    using assms(2,3) abandon_outcome(2) [OF ok(1)] retry_outcome [OF assms(1) ok(1), of w status False] ok(2)
    by (auto simp: process_write_result_def request_outcome_def request_continues_def)
qed

lemma deadline_outcome:
  assumes "client_config_ok cfg" "worker_ok cfg (wk s)" "wk_active (wk s)"
  shows "\<exists>s'. check_request_deadline w cfg s = Some s' \<and> request_outcome cfg s s'"
proof -
  define s1 where "s1 = snd (now_ms w s)"
  have s1: "wk s1 = wk s" "published s1 = published s" by (simp_all add: s1_def)
  have ok: "buffers_ok cfg (wk s1)" "pursued cfg (wk s1)" using assms(2,3) answer_pursued s1 by (auto simp: worker_ok_def)
  have to_s: "request_outcome cfg s s'" if "request_outcome cfg s1 s'" for s'
    using request_outcome_trans [OF _ _ _ that, of s] s1 by simp
  have goes_on: "request_outcome cfg s s1" using assms(2,3) s1 by (simp add: request_outcome_def request_continues_def)
  note unf = check_request_deadline_def split_beta s1_def [symmetric] s1(1)
  show ?thesis
  proof (cases "wk_active_canceled (wk s)")
    case True
    with to_s [OF abandon_outcome(2) [OF ok(1)]] goes_on assms(3) show ?thesis by (auto simp: unf recover_outcome)
  next
    case False
    then obtain s' where "retry_or_finish_active w cfg (error_number ANCS_PROTOCOL_ERR_TIMEOUT) True s1 = Some s'"
        "request_outcome cfg s1 s'"
      using retry_outcome [OF assms(1) ok(1)] ok(2) s1(1) by metis
    with to_s False goes_on assms(3) show ?thesis by (auto simp: unf)
  qed
qed

end
