(* ===== verification/Client_Worker_Correct.thy ===== *)
theory Client_Worker_Correct
  imports Client_Request_Correct
begin

text \<open>
  The worker of the Bluetooth client as a whole: it never leaves a buffer, whatever the phone sends and the other
  tasks do, a phone that does not answer cannot hold it, and a removal is announced with the texts that were shown.
\<close>

section \<open>The worker keeps what the tasks share\<close>

lemma client_worker [simp]: "client (set_worker f s) = client s" "client (s\<lparr>ct_worker := k\<rparr>) = client s"
  by (simp_all add: set_worker_def)

lemma recover_ok [kept_ok]:
  "world_ok w \<Longrightarrow> client_ok (client s) \<Longrightarrow> client_ok (client (recover_data_stream w s))"
  by (simp add: recover_data_stream_def Let_def split_beta kept_ok client_ok_steps)

lemma end_client [simp]:
  "client (finish_canceled_request s) = client s" "client (abandon_active_request s) = client s"
  "client (fail_active_request code s) = client s" "client (free_work_item item s) = client s"
  "finalize_active_notification cfg s = Some s' \<Longrightarrow> client s' = client s"
  by (auto simp: finish_canceled_request_def abandon_active_request_def fail_active_request_def free_work_item_def Let_def
      finalize_active_notification_def split: work_data.split Option.bind_splits)

lemma requestD: "request w e s = (err, s') \<Longrightarrow> client s' = client s"
  using client_simps(6) [of w e s] by simp

lemma write_request_ok:
  assumes "write_active_control_request w cfg s = Some (err, s')" "world_ok w" "client_ok (client s)"
  shows "client_ok (client s')"
  using assms by (auto simp: write_active_control_request_def Let_def split_beta dest!: requestD
      split: Option.bind_splits if_splits active_request_kind.splits)

lemma finish_active_ok:
  assumes "finish_active w cfg code recover s = Some s'" "world_ok w" "client_ok (client s)"
  shows "client_ok (client s')"
  using assms by (auto simp: finish_active_def Let_def split_beta kept_ok
      split: Option.bind_splits if_splits active_request_kind.splits)

lemma retry_ok:
  assumes "retry_or_finish_active w cfg code recover s = Some s'" "world_ok w" "client_ok (client s)"
  shows "client_ok (client s')"
proof -
  have r: "client_ok (client (snd (client_ready w s)))" using assms(2,3) by (rule kept_ok)
  show ?thesis
    using assms r write_request_ok [OF _ assms(2)] finish_active_ok [OF _ assms(2)]
    by (auto simp: retry_or_finish_active_def split_beta split: Option.bind_splits if_splits)
qed

lemma first_write_ok:
  assumes "first_write w cfg s = Some s'" "world_ok w" "client_ok (client s)"
  shows "client_ok (client s')"
  using assms write_request_ok [OF _ assms(2,3)] retry_ok [OF _ assms(2)]
  by (auto simp: first_write_def split_beta split: Option.bind_splits if_splits)

lemma resolution_ok:
  assumes "world_ok w" "client_ok (client s)"
  shows "begin_app_name_resolution w cfg s = Some s' \<Longrightarrow> client_ok (client s')"
    "complete_app_name_resolution cfg s = Some s' \<Longrightarrow> client_ok (client s')"
  using assms first_write_ok [OF _ assms(1)]
  by (auto simp: begin_app_name_resolution_def complete_app_name_resolution_def Let_def split_beta
      split: Option.bind_splits if_splits)

lemma start_next_ok:
  assumes "start_next_request w cfg s = Some s'" "world_ok w" "client_ok (client s)"
  shows "client_ok (client s')"
proof -
  have r: "client_ok (client (snd (client_ready w s)))" using assms(2,3) by (rule kept_ok)
  show ?thesis
    using assms r first_write_ok [OF _ assms(2)]
    by (auto simp: start_next_request_def Let_def split_beta split: Option.bind_splits if_splits)
qed

lemma publish_removed_ok:
  assumes "publish_removed w cfg event s = Some s'" "world_ok w" "client_ok (client s)"
  shows "client_ok (client s')"
proof -
  have r: "client_ok (client (snd (current_session_id w s)))" using assms(2,3) by (rule kept_ok)
  show ?thesis
    using assms r
    by (auto simp: publish_removed_def Let_def split_beta split: Option.bind_splits if_splits option.splits)
qed

lemma notification_event_ok:
  assumes "process_notification_event w cfg event s = Some s'" "world_ok w" "client_ok (client s)"
  shows "client_ok (client s')"
proof -
  have r: "client_ok (client (snd (current_session_id w t)))" if "client_ok (client t)" for t :: client_worker
    using assms(2) that by (rule kept_ok)
  show ?thesis
    using assms r publish_removed_ok [OF _ assms(2)]
    by (auto simp: process_notification_event_def process_removed_def Let_def split_beta
        split: Option.bind_splits if_splits)
qed

lemma data_fragment_ok:
  assumes "process_data_fragment w cfg fragment s = Some s'" "world_ok w" "client_ok (client s)"
  shows "client_ok (client s')"
proof (cases "fragment = None \<or> \<not> wk_active (wk s)")
  case True
  with assms show ?thesis by (auto simp: process_data_fragment_def split: option.splits)
next
  case False
  then obtain bs r code k where f: "fragment = Some bs" "feed_answer cfg bs (wk s) = Some (r, code, k)"
    using assms(1) by (auto simp: process_data_fragment_def split: Option.bind_splits)
  have c: "client_ok (client (s\<lparr>ct_worker := k\<rparr>))" using assms(3) by simp
  show ?thesis
    using assms(1,3) False f retry_ok [OF _ assms(2) c] resolution_ok [OF assms(2) c]
    by (cases r) (auto simp: process_data_fragment_def Let_def split: if_splits)
qed

lemma process_work_ok:
  assumes "process_work w cfg item s = Some s'" "world_ok w" "client_ok (client s)"
  shows "client_ok (client s')"
proof (cases "wi_data item")
  case (WORK_CONTROL_WRITE_RESULT status)
  with assms retry_ok [OF _ assms(2,3)] show ?thesis
    by (auto simp: process_work_def process_write_result_def split: if_splits)
qed (use assms notification_event_ok data_fragment_ok in \<open>auto simp: process_work_def\<close>)

lemma check_deadline_turn_ok:
  assumes "check_request_deadline w cfg s = Some s'" "world_ok w" "client_ok (client s)"
  shows "client_ok (client s')"
  using assms retry_ok [OF _ assms(2)]
  by (auto simp: check_request_deadline_def Let_def split_beta kept_ok split: if_splits)

lemma finish_turn_ok:
  assumes "finish_turn w cfg s = Some s'" "world_ok w" "client_ok (client s)"
  shows "client_ok (client s')"
  using assms check_deadline_turn_ok [OF _ assms(2)] start_next_ok [OF _ assms(2)]
  by (auto simp: finish_turn_def split: Option.bind_splits)

lemma worker_turn_ok:
  assumes "worker_turn w cfg s = Some s'" "world_ok w" "client_ok (client s)"
  shows "client_ok (client s')"
proof -
  define t where "t = follow_generation w cfg (enroll_timeout_callback w (check_connection_deadline w s))"
  have t: "client_ok (client t)"
    using assms(2,3) by (simp add: t_def follow_generation_def Let_def split_beta kept_ok)
  have generation: "client_ok (client (snd (current_generation w u)))" if "client_ok (client u)" for u :: client_worker
    using assms(2) that by (rule kept_ok)
  show ?thesis
    using assms(1) t generation finish_turn_ok [OF _ assms(2)] process_work_ok [OF _ assms(2)] assms(2)
    unfolding worker_turn_def Let_def t_def [symmetric]
    by (auto simp: receive_work_def handle_item_def Let_def split_beta client_ok_steps
        split: Option.bind_splits option.splits list.splits if_splits)
qed

section \<open>A turn of the worker\<close>

lemma worker_pending [simp]:
  assumes "worker_ok cfg k" "queue_ok (PROTOCOL cfg) q"
  shows "worker_ok cfg (k\<lparr>wk_pending := q\<rparr>)"
  using assms by (cases "wk_active_request_kind k") (auto simp: worker_ok_def buffers_ok_def answer_ok_def)

lemma worker_other [simp]:
  "worker_ok cfg (k\<lparr>wk_last_event := e, wk_last_event_ms := t, wk_last_event_valid := v\<rparr>) = worker_ok cfg k"
  "worker_ok cfg (k\<lparr>wk_active_canceled := b\<rparr>) = worker_ok cfg k" "worker_ok cfg (k\<lparr>wk_generation := g\<rparr>) = worker_ok cfg k"
  "length cache = CACHE_CAPACITY cfg \<Longrightarrow> worker_ok cfg k \<Longrightarrow> worker_ok cfg (k\<lparr>wk_cache := cache\<rparr>)"
  by (cases "wk_active_request_kind k"; auto simp: worker_ok_def buffers_ok_def answer_ok_def)+

lemma config_capacities:
  assumes "client_config_ok cfg"
  shows "0 < REQUEST_QUEUE_CAPACITY (PROTOCOL cfg)" "0 < APP_CACHE_CAPACITY (PROTOCOL cfg)" "0 < CACHE_CAPACITY cfg"
  using assms by (simp_all add: client_config_ok_def config_ok_def)

lemma resolver_zero_shape: "resolver_shape cfg (resolver_zero cfg)"
  by (auto simp: resolver_shape_def resolver_zero_def entry_ok_def in_set_replicate)

lemma reset_worker_ok: "client_config_ok cfg \<Longrightarrow> worker_ok cfg (reset_worker_session cfg g k)"
  using config_capacities [of cfg] resolver_zero_shape [of "PROTOCOL cfg"]
  by (simp add: reset_worker_session_def worker_ok_def buffers_ok_def ancs_request_queue_clear_def
      ancs_request_queue_init_def ancs_app_resolver_init_def cache_zero_def)

lemma cancel_uid_total:
  assumes "queue_ok cfg q"
  shows "\<exists>q' b. ancs_request_queue_cancel_uid cfg (Some q) uid = Some (Some q', b) \<and> queue_ok cfg q'"
  using assms cancel_loop_safe [of "q_items q" cfg 0 "[0..<q_count q]" uid "q_head q" False]
  by (auto simp: ancs_request_queue_cancel_uid_def queue_ok_def)

lemma queue_push_total:
  assumes "queue_ok cfg q"
  shows "\<exists>q' b. ancs_request_queue_push cfg (Some q) (Some event) = Some (Some q', b) \<and> queue_ok cfg q'"
  using assms by (cases "q_count q < REQUEST_QUEUE_CAPACITY cfg") (auto simp: ancs_request_queue_push_def queue_ok_def Let_def)

lemma queue_pop_total:
  assumes "queue_ok cfg q"
  shows "\<exists>q' e' b. ancs_request_queue_pop cfg (Some q) (Some e) = Some (Some q', Some e', b) \<and> queue_ok cfg q'"
  using assms by (cases "q_count q = 0") (auto simp: ancs_request_queue_pop_def queue_ok_def Let_def)

lemma notification_init_Some: "\<exists>n. ancs_notification_init cfg (Some n0) session_id (Some event) now = Some n"
  by (simp add: ancs_notification_init_def Let_def)

lemma publish_removed_total:
  assumes "worker_ok cfg (wk s)"
  shows "\<exists>s'. publish_removed w cfg event s = Some s' \<and> worker_ok cfg (wk s')"
proof -
  define t where "t = snd (current_session_id w s)"
  define session_id where "session_id = fst (current_session_id w s)"
  have t: "worker_ok cfg (wk t)" "length (wk_cache (wk t)) = CACHE_CAPACITY cfg"
    using assms by (simp_all add: t_def current_session_id_def Let_def worker_ok_def buffers_ok_def)
  show ?thesis
  proof (cases "cache_find cfg session_id (ev_uid event) (wk t)")
    case None
    obtain n where "ancs_notification_init (PROTOCOL cfg) (Some (notification_zero (PROTOCOL cfg))) session_id (Some event)
        (fst (now_ms w t)) = Some n" using notification_init_Some by blast
    with None t(1) show ?thesis
      by (simp add: publish_removed_def split_beta t_def [symmetric] session_id_def [symmetric])
  next
    case (Some i)
    then have "i < length (wk_cache (wk t))" using t(2) by (auto simp: cache_find_def find_Some_iff)
    with Some t show ?thesis
      by (simp add: publish_removed_def split_beta t_def [symmetric] session_id_def [symmetric] Let_def)
  qed
qed

lemma notification_event_total:
  assumes "worker_ok cfg (wk s)"
  shows "\<exists>s'. process_notification_event w cfg event s = Some s' \<and> worker_ok cfg (wk s')"
proof -
  define t where "t = snd (now_ms w s)"
  define d where "d = duplicate_event cfg event (fst (now_ms w s)) (wk t)"
  define u where "u = t\<lparr>ct_worker := snd d\<rparr>"
  have u: "worker_ok cfg (wk u)" using assms by (simp add: u_def d_def t_def duplicate_event_def)
  then have q: "queue_ok (PROTOCOL cfg) (wk_pending (wk u))" by (simp add: worker_ok_def buffers_ok_def)
  obtain q1 b where c: "ancs_request_queue_cancel_uid (PROTOCOL cfg) (Some (wk_pending (wk u))) (ev_uid event) = Some (Some q1, b)"
      "queue_ok (PROTOCOL cfg) q1" using cancel_uid_total [OF q] by blast
  have removed: "\<exists>s'. process_removed w cfg event u = Some s' \<and> worker_ok cfg (wk s')"
    using u c by (auto simp: process_removed_def Let_def intro!: publish_removed_total)
  obtain q2 p where pushed: "ancs_request_queue_push (PROTOCOL cfg) (Some (wk_pending (wk u))) (Some event) = Some (Some q2, p)"
      "queue_ok (PROTOCOL cfg) q2"
    using queue_push_total [OF q] by blast
  obtain n where "ancs_notification_init (PROTOCOL cfg) (Some (notification_zero (PROTOCOL cfg)))
      (fst (current_session_id w (set_worker (\<lambda>k. k\<lparr>wk_pending := q2\<rparr>) u))) (Some event) (fst (now_ms w s)) = Some n"
    using notification_init_Some by blast
  with u removed pushed show ?thesis
    unfolding process_notification_event_def
    by (auto simp: split_beta t_def [symmetric] d_def [symmetric] u_def [symmetric] current_session_id_def Let_def)
qed

lemma process_work_total:
  assumes "client_config_ok cfg" "worker_ok cfg (wk s)"
  shows "\<exists>s'. process_work w cfg item s = Some s' \<and> worker_ok cfg (wk s')"
proof (cases "wi_data item")
  case (WORK_NOTIFICATION_EVENT event)
  with notification_event_total [OF assms(2)] show ?thesis by (simp add: process_work_def)
next
  case (WORK_DATA_FRAGMENT fragment)
  show ?thesis
  proof (cases "wk_active (wk s)")
    case True
    with WORK_DATA_FRAGMENT data_fragment_outcome [OF assms True, of w fragment] show ?thesis
      by (auto simp: process_work_def request_outcome_def)
  next
    case False
    with WORK_DATA_FRAGMENT assms(2) show ?thesis
      by (simp add: process_work_def process_data_fragment_def split: option.split)
  qed
next
  case (WORK_CONTROL_WRITE_RESULT status)
  show ?thesis
  proof (cases "wk_active (wk s)")
    case True
    with WORK_CONTROL_WRITE_RESULT write_result_outcome [OF assms True, of w status] show ?thesis
      by (auto simp: process_work_def request_outcome_def)
  next
    case False
    with WORK_CONTROL_WRITE_RESULT assms(2) abandon_outcome(2) [of cfg s] show ?thesis
      by (auto simp: process_work_def process_write_result_def retry_or_finish_active_def worker_ok_def request_outcome_def)
  qed
next
  case WORK_SESSION_RESET
  with reset_worker_ok [OF assms(1)] show ?thesis by (simp add: process_work_def)
qed

lemma start_next_total:
  assumes "client_config_ok cfg" "worker_ok cfg (wk s)"
  shows "\<exists>s'. start_next_request w cfg s = Some s' \<and> worker_ok cfg (wk s')"
proof -
  define t where "t = snd (client_ready w s)"
  have t: "wk t = wk s" by (simp add: t_def client_ready_def Let_def)
  have q: "queue_ok (PROTOCOL cfg) (wk_pending (wk s))" using assms(2) by (simp add: worker_ok_def buffers_ok_def)
  obtain q1 e p where pop: "ancs_request_queue_pop (PROTOCOL cfg) (Some (wk_pending (wk s))) (Some (wk_active_event (wk s))) =
        Some (Some q1, Some e, p)" "queue_ok (PROTOCOL cfg) q1"
    using queue_pop_total [OF q] by blast
  define u where "u = set_worker (\<lambda>k. k\<lparr>wk_active := True, wk_active_canceled := False,
      wk_active_request_kind := ACTIVE_REQUEST_NOTIFICATION_ATTRIBUTES, wk_attempt := 0\<rparr>)
      (set_worker (\<lambda>k. k\<lparr>wk_pending := q1, wk_active_event := e\<rparr>) t)"
  have u: "buffers_ok cfg (wk u)" "name_asked (wk u)" "wk_active (wk u)" "\<not> wk_active_canceled (wk u)"
    using assms(2) pop(2) by (simp_all add: u_def t worker_ok_def buffers_ok_def name_asked_def)
  obtain s' where s': "first_write w cfg u = Some s'" "request_outcome cfg u s'"
    using first_write_outcome [OF assms(1) u] by blast
  have idle: "worker_ok cfg ((wk s)\<lparr>wk_pending := q1, wk_active_event := e\<rparr>)" if "\<not> wk_active (wk s)"
    using assms(2) pop(2) that by (simp add: worker_ok_def buffers_ok_def)
  show ?thesis
    using assms(2) idle pop(1) s'
    by (cases p) (auto simp: start_next_request_def split_beta t_def [symmetric] t u_def [symmetric] request_outcome_def Let_def)
qed

lemma finish_turn_total:
  assumes "client_config_ok cfg" "worker_ok cfg (wk s)"
  shows "\<exists>s'. finish_turn w cfg s = Some s' \<and> worker_ok cfg (wk s')"
proof -
  have "\<exists>s1. check_request_deadline w cfg s = Some s1 \<and> worker_ok cfg (wk s1)"
  proof (cases "wk_active (wk s)")
    case True
    with deadline_outcome [OF assms True, of w] show ?thesis by (auto simp: request_outcome_def)
  next
    case False
    with assms(2) show ?thesis by (simp add: check_request_deadline_def)
  qed
  with start_next_total [OF assms(1)] show ?thesis by (auto simp: finish_turn_def)
qed

lemma stop_worker [simp]: "wk (stop_advertising w s) = wk s" "wk (enroll_timeout_callback w s) = wk s"
  by (simp_all add: stop_advertising_def enroll_timeout_callback_def Let_def split_beta)

lemma deadline_worker [simp]: "wk (check_connection_deadline w s) = wk s"
  by (simp add: check_connection_deadline_def Let_def split_beta if_distrib [of ct_worker] cong: if_cong split del: if_split)

lemma item_worker [simp]: "wk (free_work_item item s) = wk s" "wk (snd (current_generation w s)) = wk s"
  by (simp_all add: current_generation_def free_work_item_def Let_def split: work_data.split)

lemma worker_turn_total:
  assumes "client_config_ok cfg" "worker_ok cfg (wk s)" "world_ok w" "client_ok (client s)"
  shows "\<exists>s'. worker_turn w cfg s = Some s' \<and> worker_ok cfg (wk s')"
proof -
  define t where "t = follow_generation w cfg (enroll_timeout_callback w (check_connection_deadline w s))"
  have t: "client_ok (client t)" "worker_ok cfg (wk t)"
    using assms reset_worker_ok [OF assms(1)] by (simp_all add: t_def follow_generation_def Let_def split_beta kept_ok)
  have "cl_work_queue (client (acquire w t)) \<noteq> None" using acquire_ok [OF assms(3) t(1)] by (rule client_okD)
  then obtain item u where r: "receive_work w t = Some (item, u)" "wk u = wk t"
    by (cases "the (cl_work_queue (client (acquire w t)))") (auto simp: receive_work_def Let_def)
  show ?thesis
  proof (cases item)
    case None
    with r t(2) finish_turn_total [OF assms(1), of u w] show ?thesis
      unfolding worker_turn_def Let_def t_def [symmetric] by simp
  next
    case (Some i)
    define v where "v = snd (current_generation w u)"
    have v: "worker_ok cfg (wk v)" using t(2) r(2) by (simp add: v_def)
    obtain x where x: "process_work w cfg i v = Some x" "worker_ok cfg (wk x)"
      using process_work_total [OF assms(1) v] by blast
    obtain y where "finish_turn w cfg (free_work_item i x) = Some y" "worker_ok cfg (wk y)"
      using finish_turn_total [OF assms(1), of "free_work_item i x" w] x(2) by auto
    with x v have "\<exists>s'. handle_item w cfg i u = Some s' \<and> worker_ok cfg (wk s')"
      by (auto simp: handle_item_def split_beta v_def [symmetric])
    with r(1) Some show ?thesis unfolding worker_turn_def Let_def t_def [symmetric] by simp
  qed
qed

section \<open>Properties\<close>

text \<open>A worker that waits for an answer of the phone, on a device where the other tasks do nothing.\<close>

definition busy_worker :: worker_context where
  "busy_worker = (worker_zero default_client)\<lparr>wk_active := True,
     wk_parser := parser_zero\<lparr>p_notification := Some (notification_zero default_config)\<rparr>\<rparr>"

lemma worker_zero_ok: "client_config_ok cfg \<Longrightarrow> worker_ok cfg (worker_zero cfg)"
  using config_capacities [of cfg] resolver_zero_shape [of "PROTOCOL cfg"]
  by (simp add: worker_zero_def worker_ok_def buffers_ok_def cache_zero_def)

lemma busy_worker_ok: "worker_ok default_client busy_worker" "wk_active busy_worker" "wk_deadline_ms busy_worker = 0"
proof -
  have p: "PROTOCOL default_client = default_config" by (simp add: default_client_def)
  have z: "worker_ok default_client (worker_zero default_client)" by (simp add: worker_zero_ok)
  have "parser_ok default_config (parser_zero\<lparr>p_notification := Some (notification_zero default_config)\<rparr>)"
    by (simp add: parser_ok_def parser_zero_def) (simp add: notification_zero_def)
  moreover have "about zero_event (notification_zero default_config)"
    by (simp add: about_def zero_event_def notification_zero_def)
  ultimately show "worker_ok default_client busy_worker"
    using z by (simp add: busy_worker_def worker_ok_def answer_ok_def buffers_ok_def worker_zero_def p)
qed (simp_all add: busy_worker_def worker_zero_def)

text \<open>
  C3: The worker of the client runs for ever: whatever events and fragments the phone sends, and whatever the callbacks do
  to the shared state in between, no turn leaves a buffer or follows a missing pointer, and after every turn the
  queue of requests, the notification, the parsers, the cache and the table of names are well formed.
\<close>

theorem worker_never_faults:
  assumes "client_config_ok cfg" "world_ok w" "client_ok (client s)" "wk s = worker_zero cfg"
  shows "\<exists>s'. worker_task w cfg n s = Some s' \<and> worker_ok cfg (wk s') \<and> client_ok (client s')"
proof (induction n)
  case 0
  have "client_ok (client (snd (current_generation w t)))" if "client_ok (client t)" for t :: client_worker
    using assms(2) that by (rule kept_ok)
  then show ?case
    using assms config_capacities [OF assms(1)] resolver_zero_shape worker_zero_ok [OF assms(1)]
    by (simp add: worker_start_def Let_def split_beta ancs_request_queue_init_def ancs_app_resolver_init_def
        worker_zero_def worker_ok_def buffers_ok_def)
next
  case (Suc n)
  then obtain s1 where "worker_task w cfg n s = Some s1" "worker_ok cfg (wk s1)" "client_ok (client s1)" by blast
  with worker_turn_total [OF assms(1) _ assms(2), of s1] worker_turn_ok [OF _ assms(2)] show ?case by fastforce
qed

definition worker_with :: "worker_context \<Rightarrow> client_worker" where
  "worker_with k = \<lparr>ct_shared = boot_shared almost_ready, ct_turn = 0, ct_effects = [], ct_worker = k\<rparr>"

lemma worker_with_simps [simp]:
  "wk (worker_with k) = k" "client (worker_with k) = almost_ready" "published (worker_with k) = []" "ct_turn (worker_with k) = 0"
  by (simp_all add: worker_with_def boot_shared_def published_def map_filter_simps)

theorem worker_never_faults_witness:
  "\<exists>s'. worker_task quiet_world default_client 1000 (worker_with (worker_zero default_client)) = Some s'"
  using worker_never_faults [OF default_client_ok quiet_world_ok, of "worker_with (worker_zero default_client)" 1000] almost_ready_ok
  by auto

text \<open>
  C4: A request ends with its own notification or with none: whenever the worker handles a fragment of the answer, the result
  of a write or a deadline, it pursues the same request with nothing published, or the request is over and at most
  one notification was published, which carries the identity of the event the request is about; nothing is
  published for a request that was canceled, and once the attributes are complete only the name can differ.
\<close>

theorem request_ends_with_its_notification:
  assumes "client_config_ok cfg" "worker_ok cfg (wk s)" "wk_active (wk s)"
    "handler \<in> {process_data_fragment w cfg fragment, process_write_result w cfg status, check_request_deadline w cfg}"
  shows "\<exists>s'. handler s = Some s' \<and> worker_ok cfg (wk s') \<and> (request_continues s s' \<or> request_ends s s')"
  using assms(4) data_fragment_outcome [OF assms(1-3)] write_result_outcome [OF assms(1-3)] deadline_outcome [OF assms(1-3)]
  unfolding request_outcome_def by blast

theorem request_ends_with_its_notification_witness:
  "\<exists>s'. process_data_fragment quiet_world default_client (Some [0, 1, 2]) (worker_with busy_worker) = Some s' \<and>
     (request_continues (worker_with busy_worker) s' \<or> request_ends (worker_with busy_worker) s')"
proof -
  have w: "worker_ok default_client (wk (worker_with busy_worker))" "wk_active (wk (worker_with busy_worker))"
    using busy_worker_ok by simp_all
  show ?thesis
    using request_ends_with_its_notification [OF default_client_ok w, where handler = "process_data_fragment quiet_world default_client (Some [0, 1, 2])"
      and w = quiet_world and fragment = "Some [0, 1, 2]"] by blast
qed

lemma over [simp]:
  "\<not> wk_active (wk (finish_canceled_request s))" "\<not> wk_active (wk (abandon_active_request s))"
  "\<not> wk_active (wk (fail_active_request code s))"
  by (simp_all add: finish_canceled_request_def abandon_active_request_def fail_active_request_def Let_def)

lemma finalize_inactive: "finalize_active_notification cfg s = Some s' \<Longrightarrow> \<not> wk_active (wk s')"
  by (cases "cache_store cfg (wk_active_notification (wk s)) (wk s)") (auto simp: finalize_active_notification_def)

lemma finish_active_inactive:
  assumes "finish_active w cfg code recover s = Some s'"
  shows "\<not> wk_active (wk s')"
proof (cases "wk_active_request_kind (wk s)")
  case ACTIVE_REQUEST_APP_ATTRIBUTES
  with assms show ?thesis
    by (auto simp: finish_active_def Let_def split: Option.bind_splits if_splits) (drule finalize_inactive; simp)+
qed (use assms in \<open>auto simp: finish_active_def\<close>)

lemma retry_attempt:
  assumes "client_config_ok cfg" "buffers_ok cfg (wk s)" "name_asked (wk s)"
    "retry_or_finish_active w cfg code recover s = Some s'" "wk_active (wk s')"
  shows "wk_attempt (wk s) < 1 \<and> wk_attempt (wk s') = wk_attempt (wk s) + 1"
proof -
  have act: "wk_active (wk s)" using assms(4,5) by (cases "wk_active (wk s)") (simp_all add: retry_or_finish_active_def)
  define t where "t = snd (client_ready w s)"
  have t: "wk t = wk s" by (simp add: t_def client_ready_def Let_def)
  define u where "u = set_worker (\<lambda>k. k\<lparr>wk_attempt := wk_attempt k + 1\<rparr>) t"
  have u: "buffers_ok cfg (wk u)" "name_asked (wk u)" "wk_attempt (wk u) = wk_attempt (wk s) + 1"
    using assms(2,3) by (simp_all add: u_def t)
  obtain err v where v: "write_active_control_request w cfg u = Some (err, v)" "same_request (wk u) (wk v)"
    using write_request [OF assms(1) u(1,2), of w] by blast
  with assms(4,5) act u(3) finish_active_inactive show ?thesis
    by (auto simp: retry_or_finish_active_def split_beta t_def [symmetric] t u_def [symmetric] same_request_def
        split: if_splits)
qed

text \<open>
  C8: A phone that does not answer cannot hold the worker: after two consecutive passes of the deadline of one request the request is over, with
  at most the one notification it was about.
\<close>

theorem silent_phone_times_out:
  assumes "client_config_ok cfg" "worker_ok cfg (wk s)" "wk_active (wk s)" "wk_deadline_ms (wk s) \<le> cw_now w (ct_turn s)"
  shows "\<exists>s1. check_request_deadline w cfg s = Some s1 \<and>
    (\<not> wk_active (wk s1) \<or> (wk_deadline_ms (wk s1) \<le> cw_now w (ct_turn s1) \<longrightarrow>
      (\<exists>s2. check_request_deadline w cfg s1 = Some s2 \<and> \<not> wk_active (wk s2) \<and>
        published_at_most (wk s) (published s) (published s2))))"
proof -
  have due: "check_request_deadline w cfg t = (if wk_active_canceled (wk t) then
        Some (recover_data_stream w (finish_canceled_request (snd (now_ms w t))))
      else retry_or_finish_active w cfg (error_number ANCS_PROTOCOL_ERR_TIMEOUT) True (snd (now_ms w t)))"
    if "wk_active (wk t)" "wk_deadline_ms (wk t) \<le> cw_now w (ct_turn t)" for t
    using that by (simp add: check_request_deadline_def now_ms_def ask_def)
  have more: "wk_attempt (wk t) < 1 \<and> wk_attempt (wk t') = 1"
    if "check_request_deadline w cfg t = Some t'" "worker_ok cfg (wk t)" "wk_active (wk t)" "wk_active (wk t')"
      "wk_deadline_ms (wk t) \<le> cw_now w (ct_turn t)" for t t'
  proof -
    have "retry_or_finish_active w cfg (error_number ANCS_PROTOCOL_ERR_TIMEOUT) True (snd (now_ms w t)) = Some t'"
      using due [OF that(3,5)] that(1,4) by (auto simp: finish_canceled_request_def split: if_splits)
    moreover have "buffers_ok cfg (wk (snd (now_ms w t)))" "name_asked (wk (snd (now_ms w t)))"
      using that(2,3) answer_ok_name_asked by (auto simp: worker_ok_def)
    ultimately have "wk_attempt (wk t) < 1 \<and> wk_attempt (wk t') = wk_attempt (wk t) + 1"
      using retry_attempt [OF assms(1) _ _ _ that(4)] by fastforce
    then show ?thesis by (metis add_0 word_less_1)
  qed
  obtain s1 where s1: "check_request_deadline w cfg s = Some s1" "request_outcome cfg s s1"
    using deadline_outcome [OF assms(1-3)] by blast
  show ?thesis
  proof (cases "wk_active (wk s1) \<and> wk_deadline_ms (wk s1) \<le> cw_now w (ct_turn s1)")
    case False
    with s1(1) show ?thesis by auto
  next
    case True
    then have c: "request_continues s s1" "worker_ok cfg (wk s1)"
      using s1(2) by (auto simp: request_outcome_def request_ends_def)
    obtain s2 where s2: "check_request_deadline w cfg s1 = Some s2" "request_outcome cfg s1 s2"
      using deadline_outcome [OF assms(1) c(2)] True by blast
    have "request_outcome cfg s s2"
      using request_outcome_trans [OF _ _ _ s2(2), of s] c(1) by (simp add: request_continues_def)
    moreover have "\<not> wk_active (wk s2)"
      using more [OF s1(1) assms(2,3) _ assms(4)] more [OF s2(1) c(2)] True by auto
    ultimately show ?thesis using s1(1) s2(1) by (auto simp: request_outcome_def request_continues_def request_ends_def)
  qed
qed

theorem silent_phone_times_out_witness:
  "\<exists>s1. check_request_deadline quiet_world default_client (worker_with busy_worker) = Some s1 \<and>
    (\<not> wk_active (wk s1) \<or> (wk_deadline_ms (wk s1) \<le> cw_now quiet_world (ct_turn s1) \<longrightarrow>
      (\<exists>s2. check_request_deadline quiet_world default_client s1 = Some s2 \<and> \<not> wk_active (wk s2) \<and>
        published_at_most busy_worker [] (published s2))))"
proof -
  have w: "worker_ok default_client (wk (worker_with busy_worker))" "wk_active (wk (worker_with busy_worker))"
    using busy_worker_ok by simp_all
  have d: "wk_deadline_ms (wk (worker_with busy_worker)) \<le> cw_now quiet_world (ct_turn (worker_with busy_worker))"
    using busy_worker_ok(3) by (simp add: quiet_world_def)
  show ?thesis using silent_phone_times_out [OF default_client_ok w d] by simp
qed






end
