(* ===== verification/Wifi_Context.thy ===== *)
theory Wifi_Context
  imports Provision_Config Provisioning_Retry Provisioning_State Captive_Dns
begin

text \<open>
  The state of \<^verbatim>\<open>components/provisioning/provisioning_runtime.c\<close> and \<^verbatim>\<open>captive_dns.c\<close>, which run the access point
  and the station of the gateway, and the steps their tasks share: the Wi-Fi mutex, the critical sections,
  the queue of events.
\<close>

section \<open>Data\<close>

definition PROVISIONING_AP_CHANNEL :: nat where "PROVISIONING_AP_CHANNEL = 6"
definition PROVISIONING_AP_MAX_CLIENTS :: nat where "PROVISIONING_AP_MAX_CLIENTS = 2"
definition PROVISIONING_STA_FAILURE_RETRY_COUNT :: nat where "PROVISIONING_STA_FAILURE_RETRY_COUNT = 5"
definition PROVISIONING_STA_MIN_RSSI :: int where "PROVISIONING_STA_MIN_RSSI = -90"
definition PROVISIONING_WIFI_MODE_RETRY_COUNT :: nat where "PROVISIONING_WIFI_MODE_RETRY_COUNT = 6"
definition PROVISIONING_WIFI_MODE_RETRY_DELAY_MS :: nat where "PROVISIONING_WIFI_MODE_RETRY_DELAY_MS = 100"
definition PROVISIONING_EVENT_QUEUE_LEN :: nat where "PROVISIONING_EVENT_QUEUE_LEN = 8"
definition PROVISIONING_RUNTIME_SCAN_MAX_APS :: nat where "PROVISIONING_RUNTIME_SCAN_MAX_APS = 20"

definition PROVISIONING_RUNTIME_AP_SSID_PREFIX :: bytes where
  "PROVISIONING_RUNTIME_AP_SSID_PREFIX = cs ''IOS-ANCS-SETUP-''"
definition PROVISIONING_RUNTIME_AP_PASSWORD_PREFIX :: bytes where
  "PROVISIONING_RUNTIME_AP_PASSWORD_PREFIX = cs ''ancs-''"
definition PROVISIONING_RUNTIME_CAPTIVE_URI :: bytes where
  "PROVISIONING_RUNTIME_CAPTIVE_URI = cs ''http://192.168.4.1''"

text \<open>The sizes of \<open>s_ap_ssid\<close> and \<open>s_ap_password\<close>: the prefix with its NUL and twelve more.\<close>

definition AP_SSID_SIZE :: nat where "AP_SSID_SIZE = length PROVISIONING_RUNTIME_AP_SSID_PREFIX + 1 + 12"
definition AP_PASSWORD_SIZE :: nat where "AP_PASSWORD_SIZE = length PROVISIONING_RUNTIME_AP_PASSWORD_PREFIX + 1 + 12"

text \<open>Error codes and reasons of the Wi-Fi driver.\<close>

definition ESP_ERR_WIFI_CONN :: esp_err where "ESP_ERR_WIFI_CONN = ESP_ERR_OTHER 0x3007"
definition ESP_ERR_WIFI_NOT_CONNECT :: esp_err where "ESP_ERR_WIFI_NOT_CONNECT = ESP_ERR_OTHER 0x300F"
definition ESP_ERR_WIFI_STOP_STATE :: esp_err where "ESP_ERR_WIFI_STOP_STATE = ESP_ERR_OTHER 0x3014"
definition WIFI_REASON_4WAY_HANDSHAKE_TIMEOUT :: u32 where "WIFI_REASON_4WAY_HANDSHAKE_TIMEOUT = 15"
definition WIFI_REASON_AUTH_FAIL :: u32 where "WIFI_REASON_AUTH_FAIL = 202"
definition WIFI_REASON_HANDSHAKE_TIMEOUT :: u32 where "WIFI_REASON_HANDSHAKE_TIMEOUT = 204"

datatype wifi_mode = WIFI_MODE_NULL | WIFI_MODE_STA | WIFI_MODE_AP | WIFI_MODE_APSTA

datatype wifi_interface = WIFI_IF_STA | WIFI_IF_AP

record wifi_ap_record =
  ar_ssid :: bytes
  ar_rssi :: int
  ar_authmode :: nat

text \<open>What the code sets of \<open>wifi_config_t\<close>, for the access point and for the station.\<close>

record ap_profile =
  ap_ssid :: bytes
  ap_password :: bytes
  ap_ssid_len :: nat
  ap_channel :: nat
  ap_max_connection :: nat

record sta_profile =
  sta_ssid :: bytes
  sta_password :: bytes
  sta_min_rssi :: int
  sta_failure_retry_cnt :: nat

record runtime_event =
  re_event :: provisioning_event
  re_generation :: u32

record captive_dns_handle =
  dns_started :: bool
  dns_task :: bool
  dns_sock :: int
  dns_ap_netif :: bool

text \<open>The static variables of the two files; a handle of ESP-IDF is there or not.\<close>

record wifi_runtime =
  wr_initialized :: bool
  wr_event_loop_ready :: bool
  wr_wifi_started :: bool
  wr_ap_started :: bool
  wr_sta_started :: bool
  wr_sta_connecting :: bool
  wr_sta_has_ip :: bool
  wr_sta_interface_ready :: bool
  wr_sta_stop_pending :: bool
  wr_automatic_recovery_ap :: bool
  wr_retry :: provisioning_retry
  wr_expected_ssid :: bytes
  wr_last_connect_error :: esp_err
  wr_last_disconnect_reason :: u32
  wr_last_disconnect_rssi :: int
  wr_wifi_handler :: bool
  wr_ip_handler :: bool
  wr_ap_netif :: bool
  wr_sta_netif :: bool
  wr_mutex :: bool
  wr_event_queue :: "runtime_event list option"
  wr_event_task :: bool
  wr_timeout_task :: bool
  wr_event_overflow_count :: u32
  wr_next_generation :: u32
  wr_active_generation :: u32
  wr_callback :: "nat option"
  wr_callback_context :: nat
  wr_ap_ssid :: bytes
  wr_ap_password :: bytes
  wr_dns :: captive_dns_handle

definition dns_zero :: captive_dns_handle where
  "dns_zero = \<lparr>dns_started = False, dns_task = False, dns_sock = 0, dns_ap_netif = False\<rparr>"

definition wifi_boot :: wifi_runtime where
  "wifi_boot = \<lparr>wr_initialized = False, wr_event_loop_ready = False, wr_wifi_started = False, wr_ap_started = False,
     wr_sta_started = False, wr_sta_connecting = False, wr_sta_has_ip = False, wr_sta_interface_ready = False,
     wr_sta_stop_pending = False, wr_automatic_recovery_ap = False, wr_retry = retry_zero,
     wr_expected_ssid = replicate 33 0, wr_last_connect_error = ESP_OK, wr_last_disconnect_reason = 0,
     wr_last_disconnect_rssi = 0, wr_wifi_handler = False, wr_ip_handler = False, wr_ap_netif = False,
     wr_sta_netif = False, wr_mutex = False, wr_event_queue = None, wr_event_task = False, wr_timeout_task = False,
     wr_event_overflow_count = 0, wr_next_generation = 0, wr_active_generation = 0, wr_callback = None,
     wr_callback_context = 0, wr_ap_ssid = replicate AP_SSID_SIZE 0, wr_ap_password = replicate AP_PASSWORD_SIZE 0,
     wr_dns = dns_zero\<rparr>"

text \<open>What the set-up creates, in its order, and what is asked of the driver and of the system, the newest first.\<close>

datatype runtime_resource =
    EVENT_QUEUE | EVENT_TASK | TIMEOUT_TASK | AP_NETIF | STA_NETIF | WIFI_MUTEX | WIFI_DRIVER
  | WIFI_HANDLER | IP_HANDLER

datatype wifi_effect =
    NetifInit
  | EventLoopCreate
  | Create runtime_resource
  | Destroy runtime_resource
  | SetMode wifi_mode
  | WifiStart
  | SetProtocol wifi_interface
  | SetBandwidth wifi_interface
  | SetApProfile ap_profile
  | SetStaProfile sta_profile
  | SetPowerSave
  | WifiConnect
  | WifiDisconnect
  | DhcpsStop
  | DhcpsStart
  | SetApAddress
  | DhcpsOfferDns
  | SetApDns
  | DhcpsCaptiveUri bytes
  | GetMode
  | ScanStart
  | ScanCount
  | ScanRecords nat
  | ScanClear
  | NotifyTimeoutTask u32
  | RunCallback nat runtime_event nat
  | TaskDelay nat
  | DnsSocket
  | DnsBind
  | DnsTaskCreate
  | DnsShutdown int
  | DnsClose int
  | DnsReply nat bytes

text \<open>
  A run of a task: the static variables as it sees them, the number of its steps, what it asked for, and
  whether it holds the Wi-Fi mutex.
\<close>

record wifi_task =
  wt_shared :: wifi_runtime
  wt_turn :: nat
  wt_effects :: "wifi_effect list"
  wt_holds :: bool

text \<open>
  What the code relies on, by the number of the step: what the other tasks did meanwhile (the flag says
  whether this task holds the mutex), the answers of ESP-IDF, the clock, the random numbers, the access point and
  the address of the station, the hardware address, the results of a scan, the frames for the name server with
  the number of their sender, and the bytes of the gateway's address.
\<close>

datatype dns_frame = DNS_FRAME nat bytes | DNS_TIMEOUT | DNS_FAILED

record wifi_world =
  ww_others :: "nat \<Rightarrow> bool \<Rightarrow> wifi_runtime \<Rightarrow> wifi_runtime"
  ww_answer :: "nat \<Rightarrow> esp_err"
  ww_clock :: "nat \<Rightarrow> u64"
  ww_random :: "nat \<Rightarrow> u32"
  ww_ap_info :: "nat \<Rightarrow> esp_err \<times> wifi_ap_record"
  ww_ip_info :: "nat \<Rightarrow> esp_err \<times> u32"
  ww_ip_text :: "nat \<Rightarrow> bytes option"
  ww_mac :: "nat \<Rightarrow> esp_err \<times> bytes"
  ww_mode :: "nat \<Rightarrow> wifi_mode"
  ww_scan_count :: "nat \<Rightarrow> u16"
  ww_scan_records :: "nat \<Rightarrow> wifi_ap_record list"
  ww_socket :: "nat \<Rightarrow> int"
  ww_frame :: "nat \<Rightarrow> dns_frame"
  ww_gateway :: "nat \<Rightarrow> bytes option"

section \<open>Steps of a task\<close>

definition consult :: "(nat \<Rightarrow> 'b) \<Rightarrow> wifi_task \<Rightarrow> 'b \<times> wifi_task" where
  "consult f s = (f (wt_turn s), s\<lparr>wt_turn := wt_turn s + 1\<rparr>)"

definition emit :: "wifi_effect \<Rightarrow> wifi_task \<Rightarrow> wifi_task" where
  "emit e s = s\<lparr>wt_effects := e # wt_effects s\<rparr>"

definition issue :: "wifi_world \<Rightarrow> wifi_effect \<Rightarrow> wifi_task \<Rightarrow> esp_err \<times> wifi_task" where
  "issue w e s = consult (ww_answer w) (emit e s)"

text \<open>Calls one after the other, up to the first error.\<close>

fun issue_all :: "wifi_world \<Rightarrow> wifi_effect list \<Rightarrow> wifi_task \<Rightarrow> esp_err \<times> wifi_task" where
  "issue_all w [] s = (ESP_OK, s)"
| "issue_all w (e # es) s =
    (let (err, s) = issue w e s in if err \<noteq> ESP_OK then (err, s) else issue_all w es s)"

text \<open>\<open>lock_state\<close> enters the critical section, after what the other tasks did.\<close>

definition lock_state :: "wifi_world \<Rightarrow> wifi_task \<Rightarrow> wifi_task" where
  "lock_state w s = s\<lparr>wt_shared := ww_others w (wt_turn s) (wt_holds s) (wt_shared s), wt_turn := wt_turn s + 1\<rparr>"

text \<open>A read outside the critical section sees what the others did up to then, too.\<close>

abbreviation look :: "wifi_world \<Rightarrow> wifi_task \<Rightarrow> wifi_task" where
  "look \<equiv> lock_state"

abbreviation rt :: "wifi_task \<Rightarrow> wifi_runtime" where
  "rt s \<equiv> wt_shared s"

definition set_rt :: "(wifi_runtime \<Rightarrow> wifi_runtime) \<Rightarrow> wifi_task \<Rightarrow> wifi_task" where
  "set_rt f s = s\<lparr>wt_shared := f (wt_shared s)\<rparr>"

text \<open>
  The Wi-Fi mutex. A task that takes it while it holds it waits for itself for ever, which is \<open>None\<close>; otherwise
  the other tasks run until it is free.
\<close>

definition lock_wifi_operation :: "wifi_world \<Rightarrow> wifi_task \<Rightarrow> (esp_err \<times> wifi_task) option" where
  "lock_wifi_operation w s =
    (if \<not> wr_mutex (rt s) then Some (ESP_ERR_INVALID_STATE, s)
     else if wt_holds s then None
     else Some (ESP_OK, (lock_state w s)\<lparr>wt_holds := True\<rparr>))"

definition unlock_wifi_operation :: "wifi_task \<Rightarrow> wifi_task" where
  "unlock_wifi_operation s = (if wr_mutex (rt s) then s\<lparr>wt_holds := False\<rparr> else s)"

section \<open>Events for the application\<close>

definition dispatch_event_with_generation ::
  "wifi_world \<Rightarrow> provisioning_event \<Rightarrow> u32 \<Rightarrow> wifi_task \<Rightarrow> wifi_task" where
  "dispatch_event_with_generation w event generation s =
    (let s = lock_state w s
     in case wr_event_queue (rt s) of
          None \<Rightarrow> s
        | Some events \<Rightarrow>
            if length events < PROVISIONING_EVENT_QUEUE_LEN
            then set_rt (\<lambda>r. r\<lparr>wr_event_queue := Some (events @ [\<lparr>re_event = event, re_generation = generation\<rparr>])\<rparr>) s
            else set_rt (\<lambda>r. r\<lparr>wr_event_overflow_count := wr_event_overflow_count r + 1\<rparr>) (lock_state w s))"

definition dispatch_event :: "wifi_world \<Rightarrow> provisioning_event \<Rightarrow> wifi_task \<Rightarrow> wifi_task" where
  "dispatch_event w event s = dispatch_event_with_generation w event 0 s"

text \<open>One turn of \<open>event_callback_task\<close>: nothing while the queue is empty.\<close>

definition event_callback_turn :: "wifi_world \<Rightarrow> wifi_task \<Rightarrow> wifi_task" where
  "event_callback_turn w s =
    (let s = lock_state w s
     in case wr_event_queue (rt s) of
          Some (event # events) \<Rightarrow>
            let s = set_rt (\<lambda>r. r\<lparr>wr_event_queue := Some events\<rparr>) s;
                s = lock_state w s
            in (case wr_callback (rt s) of
                  None \<Rightarrow> s
                | Some f \<Rightarrow> emit (RunCallback f event (wr_callback_context (rt s))) s)
        | _ \<Rightarrow> s)"

definition schedule_wifi_timeout :: "u32 \<Rightarrow> wifi_task \<Rightarrow> wifi_task" where
  "schedule_wifi_timeout attempt_generation s =
    (if wr_timeout_task (rt s) then emit (NotifyTimeoutTask attempt_generation) s else s)"

definition cancel_wifi_timeout :: "wifi_task \<Rightarrow> wifi_task" where
  "cancel_wifi_timeout s = schedule_wifi_timeout 0 s"

end
