(* ===== verification/Captive_Dns_Task.thy ===== *)
theory Captive_Dns_Task
  imports Wifi_Context
begin

text \<open>
  The name server of the captive portal as a task, in \<^verbatim>\<open>components/provisioning/captive_dns.c\<close>: its start, its
  stop, which waits for the task to end, and its turns. The socket is a parameter.
\<close>

abbreviation dns :: "wifi_task \<Rightarrow> captive_dns_handle" where
  "dns s \<equiv> wr_dns (rt s)"

definition set_dns :: "(captive_dns_handle \<Rightarrow> captive_dns_handle) \<Rightarrow> wifi_task \<Rightarrow> wifi_task" where
  "set_dns f s = set_rt (\<lambda>r. r\<lparr>wr_dns := f (wr_dns r)\<rparr>) s"

definition DNS_REQUEST_SIZE :: nat where "DNS_REQUEST_SIZE = 128"
definition DNS_MAX_LEN :: nat where "DNS_MAX_LEN = 256"

text \<open>The wait for the task to end; \<open>None\<close> when it never does.\<close>

partial_function (option) wait_dns_task :: "wifi_world \<Rightarrow> wifi_task \<Rightarrow> wifi_task option" where
  "wait_dns_task w s =
    (let s = look w s in if dns_task (dns s) then wait_dns_task w (emit (TaskDelay 20) s) else Some s)"

definition provisioning_captive_dns_start :: "wifi_world \<Rightarrow> bool \<Rightarrow> wifi_task \<Rightarrow> (esp_err \<times> wifi_task) option" where
  "provisioning_captive_dns_start w ap_netif s =
    (if \<not> ap_netif then Some (ESP_ERR_INVALID_ARG, s)
     else let s = look w s
       in if dns_started (dns s) then Some (ESP_OK, s)
          else do {
            s \<leftarrow> wait_dns_task w s;
            let s = set_dns (\<lambda>_. dns_zero) s;
            let (sock, s) = consult (ww_socket w) (emit DnsSocket s);
            if sock < 0 then Some (ESP_FAIL, s)
            else let (err, s) = issue w DnsBind s
              in if err \<noteq> ESP_OK then Some (ESP_FAIL, emit (DnsClose sock) s)
                 else let s = set_dns (\<lambda>d. d\<lparr>dns_started := True, dns_sock := sock, dns_ap_netif := ap_netif\<rparr>) s;
                          (made, s) = issue w DnsTaskCreate s
                   in if made \<noteq> ESP_OK then Some (ESP_ERR_NO_MEM, set_dns (\<lambda>_. dns_zero) (emit (DnsClose sock) s))
                      else Some (ESP_OK, set_dns (\<lambda>d. d\<lparr>dns_task := True\<rparr>) s)
          })"

definition provisioning_captive_dns_stop :: "wifi_world \<Rightarrow> wifi_task \<Rightarrow> (esp_err \<times> wifi_task) option" where
  "provisioning_captive_dns_stop w s =
    (let s = look w s
     in if \<not> dns_started (dns s) then Some (ESP_OK, s)
        else do {
          let s = set_dns (\<lambda>d. d\<lparr>dns_started := False\<rparr>) s;
          let s = (if dns_sock (dns s) \<ge> 0 then emit (DnsShutdown (dns_sock (dns s))) s else s);
          s \<leftarrow> wait_dns_task w s;
          Some (ESP_OK, s)
        })"

text \<open>
  A turn of the loop: whether it goes on, and the task. A frame longer than the buffer is cut by
  \<open>recvfrom\<close>. After a failure of the socket the loop ends, at once or at its condition.
\<close>

definition captive_dns_turn :: "wifi_world \<Rightarrow> wifi_task \<Rightarrow> (bool \<times> wifi_task) option" where
  "captive_dns_turn w s =
    (let s = look w s
     in if \<not> dns_started (dns s) then Some (False, s)
        else let (frame, s) = consult (ww_frame w) s
          in case frame of
               DNS_TIMEOUT \<Rightarrow> Some (True, s)
             | DNS_FAILED \<Rightarrow> let s = look w s in Some (\<not> dns_started (dns s), s)
             | DNS_FRAME sender request \<Rightarrow>
                 let (gateway, s) = consult (ww_gateway w) s
                 in case gateway of
                      None \<Rightarrow> Some (True, s)
                    | Some ip \<Rightarrow> do {
                        (reply_size, reply) \<leftarrow> build_wildcard_reply (take DNS_REQUEST_SIZE request) DNS_MAX_LEN ip;
                        Some (True, if reply_size > 0 then emit (DnsReply sender (take (nat reply_size) reply)) s else s)
                      })"

definition captive_dns_exit :: "int \<Rightarrow> wifi_task \<Rightarrow> wifi_task" where
  "captive_dns_exit sock s =
    set_dns (\<lambda>d. d\<lparr>dns_sock := -1, dns_started := False, dns_task := False\<rparr>)
      (emit (DnsClose sock) (emit (DnsShutdown sock) s))"

text \<open>The first \<open>n\<close> turns of the task, or its end.\<close>

primrec captive_dns_task :: "wifi_world \<Rightarrow> int \<Rightarrow> nat \<Rightarrow> wifi_task \<Rightarrow> wifi_task option" where
  "captive_dns_task w sock 0 s = Some s"
| "captive_dns_task w sock (Suc n) s = do {
     (go_on, s) \<leftarrow> captive_dns_turn w s;
     if go_on then captive_dns_task w sock n s else Some (captive_dns_exit sock s)
   }"

end
