(* ===== verification/Wifi_Runtime.thy ===== *)
theory Wifi_Runtime
  imports Captive_Dns_Task
begin

text \<open>
  The operations of \<^verbatim>\<open>components/provisioning/provisioning_runtime.c\<close>: the set-up of the Wi-Fi driver, the access
  point, the station with its retries, and the scan.
\<close>

section \<open>The task of the retries\<close>

text \<open>The station has an address in the network it is configured for; the tests end at the first that fails.\<close>

definition current_station_has_ip :: "wifi_world \<Rightarrow> wifi_task \<Rightarrow> bool \<times> wifi_task" where
  "current_station_has_ip w s =
    (let s = look w s
     in if \<not> wr_sta_netif (rt s) then (False, s)
        else let ((err, ap), s) = consult (ww_ap_info w) s
          in if err \<noteq> ESP_OK \<or> \<not> strncmp_equal (ar_ssid ap) (wr_expected_ssid (rt s)) 33 then (False, s)
             else let ((err, addr), s) = consult (ww_ip_info w) s in (err = ESP_OK \<and> addr \<noteq> 0, s))"

definition has_action :: "u32 \<Rightarrow> u32 \<Rightarrow> bool" where
  "has_action actions action \<longleftrightarrow> actions AND action \<noteq> 0"

text \<open>The parts of a turn: the decision, an attempt that took too long, and a new attempt.\<close>

definition poll_station :: "u64 \<Rightarrow> u32 \<Rightarrow> wifi_task \<Rightarrow> u32 \<times> wifi_task" where
  "poll_station now random_value s =
    (if wr_sta_started (rt s) \<and> wr_sta_interface_ready (rt s) \<and> \<not> wr_sta_stop_pending (rt s)
     then let (retry, actions) = provisioning_retry_poll (wr_retry (rt s)) now random_value
       in (actions, set_rt (\<lambda>r. r\<lparr>wr_retry := retry, wr_sta_connecting := rt_in_flight retry\<rparr>) s)
     else (0, s))"

definition abort_attempt :: "wifi_world \<Rightarrow> u64 \<Rightarrow> u32 \<Rightarrow> u32 \<Rightarrow> wifi_task \<Rightarrow> u32 \<times> wifi_task" where
  "abort_attempt w now generation actions s =
    (if \<not> has_action actions PROVISION_RETRY_ABORT then (actions, s)
     else let (has_ip, s) = current_station_has_ip w s
       in if has_ip
          then let s = set_rt (\<lambda>r. r\<lparr>wr_retry := provisioning_retry_connected (wr_retry r) now,
                     wr_sta_has_ip := True, wr_sta_connecting := False\<rparr>) (lock_state w s)
            in (0, dispatch_event_with_generation w PROVISION_EVENT_WIFI_CONNECTED generation s)
          else (actions, snd (issue w WifiDisconnect s)))"

definition start_attempt :: "wifi_world \<Rightarrow> u64 \<Rightarrow> u32 \<Rightarrow> u32 \<Rightarrow> wifi_task \<Rightarrow> wifi_task" where
  "start_attempt w now random_value actions s =
    (if \<not> has_action actions PROVISION_RETRY_CONNECT then s
     else let (err, s) = issue w WifiConnect s
       in set_rt (\<lambda>r. let r = r\<lparr>wr_last_connect_error := err\<rparr>
            in if err \<noteq> ESP_OK \<and> err \<noteq> ESP_ERR_WIFI_CONN
               then let retry = provisioning_retry_failed (wr_retry r) now False random_value
                 in r\<lparr>wr_retry := retry, wr_sta_connecting := rt_in_flight retry\<rparr>
               else r) (lock_state w s))"

text \<open>One turn of \<open>wifi_timeout_task\<close>, after its wait for a notification or 250 ms.\<close>

definition wifi_timeout_turn :: "wifi_world \<Rightarrow> wifi_task \<Rightarrow> wifi_task option" where
  "wifi_timeout_turn w s =
    (let s = look w s
     in if \<not> wr_initialized (rt s) then Some s
        else do {
          (err, s) \<leftarrow> lock_wifi_operation w s;
          if err \<noteq> ESP_OK then Some s
          else let (now, s) = consult (ww_clock w) s;
                   (random_value, s) = consult (ww_random w) s;
                   s = lock_state w s;
                   generation = wr_active_generation (rt s);
                   (actions, s) = poll_station now random_value s;
                   (actions, s) = abort_attempt w now generation actions s;
                   s = unlock_wifi_operation (start_attempt w now random_value actions s)
            in Some (if has_action actions PROVISION_RETRY_OPEN_AP
                     then dispatch_event_with_generation w PROVISION_EVENT_WIFI_TIMEOUT generation s else s)
        })"

section \<open>Events of the driver\<close>

text \<open>The reason and the signal of a disconnection come with a record, which may be missing.\<close>

datatype driver_event =
    WIFI_EVENT_STA_START
  | WIFI_EVENT_STA_STOP
  | WIFI_EVENT_STA_DISCONNECTED "(u32 \<times> int) option"
  | IP_EVENT_STA_GOT_IP "bool option"
  | DRIVER_EVENT_OTHER int

definition authentication_failure :: "u32 \<Rightarrow> bool" where
  "authentication_failure reason \<longleftrightarrow> reason = WIFI_REASON_AUTH_FAIL \<or>
     reason = WIFI_REASON_4WAY_HANDSHAKE_TIMEOUT \<or> reason = WIFI_REASON_HANDSHAKE_TIMEOUT"

definition station_disconnected ::
  "wifi_world \<Rightarrow> (u32 \<times> int) option \<Rightarrow> u64 \<Rightarrow> wifi_task \<Rightarrow> bool \<times> u32 \<times> wifi_task" where
  "station_disconnected w disconnected now s =
    (let reason = (case disconnected of None \<Rightarrow> 0 | Some (reason, _) \<Rightarrow> reason);
         rssi = (case disconnected of None \<Rightarrow> 0 | Some (_, rssi) \<Rightarrow> rssi);
         (live_ip, s) = current_station_has_ip w s;
         s = lock_state w s;
         r = rt s;
         generation = wr_active_generation r
     in if wr_sta_started r \<and> \<not> wr_sta_stop_pending r \<and> \<not> live_ip \<and>
           (rt_in_flight (wr_retry r) \<or> rt_online (wr_retry r))
        then let retry = provisioning_retry_failed (wr_retry r) now (authentication_failure reason) 0
          in (wr_sta_has_ip r, generation, set_rt (\<lambda>r. r\<lparr>wr_sta_has_ip := False, wr_last_disconnect_reason := reason,
                wr_last_disconnect_rssi := rssi, wr_retry := retry, wr_sta_connecting := rt_in_flight retry\<rparr>) s)
        else (False, generation, s))"

definition station_got_ip ::
  "wifi_world \<Rightarrow> bool option \<Rightarrow> u64 \<Rightarrow> wifi_task \<Rightarrow> bool \<times> u32 \<times> wifi_task" where
  "station_got_ip w ip_event now s =
    (let (live_ip, s) = (if ip_event = Some True then current_station_has_ip w s else (False, s));
         s = lock_state w s;
         r = rt s;
         generation = wr_active_generation r
     in if wr_sta_started r \<and> wr_sta_interface_ready r \<and> \<not> wr_sta_stop_pending r \<and>
           provisioning_retry_matches (wr_retry r) generation \<and> live_ip
        then (True, generation, set_rt (\<lambda>r. r\<lparr>wr_retry := provisioning_retry_connected (wr_retry r) now,
                wr_sta_connecting := False, wr_sta_has_ip := True, wr_last_connect_error := ESP_OK\<rparr>) s)
        else (False, generation, s))"

definition wifi_event_handler :: "wifi_world \<Rightarrow> driver_event \<Rightarrow> wifi_task \<Rightarrow> wifi_task option" where
  "wifi_event_handler w event s = do {
     (err, s) \<leftarrow> lock_wifi_operation w s;
     if err \<noteq> ESP_OK then Some s
     else let (now, s) = consult (ww_clock w) s;
              (notify, generation, publish, s) =
                (case event of
                   WIFI_EVENT_STA_START \<Rightarrow> (False, 0, PROVISION_EVENT_BOOT_NO_CONFIG,
                     set_rt (\<lambda>r. r\<lparr>wr_sta_interface_ready := \<not> wr_sta_stop_pending r\<rparr>) (lock_state w s))
                 | WIFI_EVENT_STA_STOP \<Rightarrow> (False, 0, PROVISION_EVENT_BOOT_NO_CONFIG,
                     set_rt (\<lambda>r. r\<lparr>wr_sta_interface_ready := False, wr_sta_stop_pending := False\<rparr>) (lock_state w s))
                 | WIFI_EVENT_STA_DISCONNECTED disconnected \<Rightarrow>
                     let (notify, generation, s) = station_disconnected w disconnected now s
                     in (notify, generation, PROVISION_EVENT_WIFI_DISCONNECTED, s)
                 | IP_EVENT_STA_GOT_IP ip_event \<Rightarrow>
                     let (notify, generation, s) = station_got_ip w ip_event now s
                     in (notify, generation, PROVISION_EVENT_WIFI_CONNECTED, s)
                 | DRIVER_EVENT_OTHER _ \<Rightarrow> (False, 0, PROVISION_EVENT_BOOT_NO_CONFIG, s));
              s = cancel_wifi_timeout (unlock_wifi_operation s)
       in Some (if notify then dispatch_event_with_generation w publish generation s else s)
   }"

section \<open>Set-up\<close>

definition create_default_event_loop_once :: "wifi_world \<Rightarrow> wifi_task \<Rightarrow> esp_err \<times> wifi_task" where
  "create_default_event_loop_once w s =
    (let (err, s) = issue w EventLoopCreate s
     in if err = ESP_ERR_INVALID_STATE then (ESP_OK, set_rt (\<lambda>r. r\<lparr>wr_event_loop_ready := True\<rparr>) s)
        else if err = ESP_OK then (ESP_OK, set_rt (\<lambda>r. r\<lparr>wr_event_loop_ready := True\<rparr>) s)
        else (err, s))"

definition hex_digit_upper :: "u8 \<Rightarrow> u8" where
  "hex_digit_upper d = (if d < 10 then 48 + d else 55 + d)"

definition hex2_upper :: "u8 \<Rightarrow> bytes" where
  "hex2_upper b = [hex_digit_upper (drop_bit 4 b), hex_digit_upper (b AND 15)]"

text \<open>\<open>snprintf\<close> to the front of a buffer.\<close>

definition print_text :: "bytes \<Rightarrow> bytes \<Rightarrow> bytes" where
  "print_text buf txt = strlcpy buf (txt @ [0])"

definition make_ap_identity :: "wifi_world \<Rightarrow> wifi_task \<Rightarrow> esp_err \<times> wifi_task" where
  "make_ap_identity w s =
    (if nonempty (wr_ap_ssid (rt s)) then (ESP_OK, s)
     else let ((err, mac), s) = consult (ww_mac w) s
       in if err \<noteq> ESP_OK then (err, s)
          else
              let ssid_suffix = hex2_upper (mac ! 3) @ hex2_upper (mac ! 4) @ hex2_upper (mac ! 5);
                  password_suffix = hex2 (mac ! 3) @ hex2 (mac ! 4) @ hex2 (mac ! 5)
              in (ESP_OK, set_rt (\<lambda>r. r\<lparr>
                   wr_ap_ssid := print_text (wr_ap_ssid r) (PROVISIONING_RUNTIME_AP_SSID_PREFIX @ ssid_suffix),
                   wr_ap_password := print_text (wr_ap_password r)
                     (PROVISIONING_RUNTIME_AP_PASSWORD_PREFIX @ password_suffix)\<rparr>) s))"

definition fill_ap_config :: "wifi_runtime \<Rightarrow> ap_profile" where
  "fill_ap_config r = \<lparr>ap_ssid = strlcpy (replicate 32 0) (wr_ap_ssid r),
     ap_password = strlcpy (replicate 64 0) (wr_ap_password r), ap_ssid_len = length (cstr (wr_ap_ssid r)),
     ap_channel = PROVISIONING_AP_CHANNEL, ap_max_connection = PROVISIONING_AP_MAX_CLIENTS\<rparr>"

definition configure_ap_profile_before_wifi_start :: "wifi_world \<Rightarrow> wifi_task \<Rightarrow> esp_err \<times> wifi_task" where
  "configure_ap_profile_before_wifi_start w s =
    (let (err, s) = make_ap_identity w s
     in if err \<noteq> ESP_OK then (err, s)
        else issue_all w [SetMode WIFI_MODE_APSTA, SetProtocol WIFI_IF_AP, SetBandwidth WIFI_IF_AP,
          SetApProfile (fill_ap_config (rt s)), SetMode WIFI_MODE_NULL] s)"

definition configure_ap_ip_and_dhcp :: "wifi_world \<Rightarrow> wifi_task \<Rightarrow> esp_err \<times> wifi_task" where
  "configure_ap_ip_and_dhcp w s =
    (if \<not> wr_ap_netif (rt s) then (ESP_ERR_INVALID_STATE, s)
     else issue_all w [SetApAddress, DhcpsOfferDns, SetApDns, DhcpsCaptiveUri PROVISIONING_RUNTIME_CAPTIVE_URI, DhcpsStart]
       (snd (issue w DhcpsStop s)))"

text \<open>
  The set-up: the error so far, what is created, and the task. After an error nothing else is created; a
  resource that cannot be made is the error given with it, and the handlers and the driver report their own.
\<close>

type_synonym setup_run = "esp_err \<times> runtime_resource list \<times> wifi_task"

definition set_resource :: "runtime_resource \<Rightarrow> bool \<Rightarrow> wifi_runtime \<Rightarrow> wifi_runtime" where
  "set_resource resource there r =
    (case resource of
       EVENT_QUEUE \<Rightarrow> r\<lparr>wr_event_queue := (if there then Some [] else None)\<rparr>
     | EVENT_TASK \<Rightarrow> r\<lparr>wr_event_task := there\<rparr>
     | TIMEOUT_TASK \<Rightarrow> r\<lparr>wr_timeout_task := there\<rparr>
     | AP_NETIF \<Rightarrow> r\<lparr>wr_ap_netif := there\<rparr>
     | STA_NETIF \<Rightarrow> r\<lparr>wr_sta_netif := there\<rparr>
     | WIFI_MUTEX \<Rightarrow> r\<lparr>wr_mutex := there\<rparr>
     | WIFI_DRIVER \<Rightarrow> r
     | WIFI_HANDLER \<Rightarrow> r\<lparr>wr_wifi_handler := there\<rparr>
     | IP_HANDLER \<Rightarrow> r\<lparr>wr_ip_handler := there\<rparr>)"

definition create_resource :: "wifi_world \<Rightarrow> runtime_resource \<Rightarrow> esp_err option \<Rightarrow> setup_run \<Rightarrow> setup_run" where
  "create_resource w resource failure run =
    (let (err, made, s) = run
     in if err \<noteq> ESP_OK then run
        else let (err, s) = issue w (Create resource) s
          in if err \<noteq> ESP_OK then (case failure of None \<Rightarrow> err | Some e \<Rightarrow> e, made, s)
             else (ESP_OK, resource # made, set_rt (set_resource resource True) s))"

definition setup_step :: "(wifi_task \<Rightarrow> esp_err \<times> wifi_task) \<Rightarrow> setup_run \<Rightarrow> setup_run" where
  "setup_step step run =
    (let (err, made, s) = run in if err \<noteq> ESP_OK then run else let (err, s) = step s in (err, made, s))"

definition destroy_resource :: "runtime_resource \<Rightarrow> runtime_resource list \<Rightarrow> wifi_task \<Rightarrow> wifi_task" where
  "destroy_resource resource made s =
    (if resource \<in> set made then set_rt (set_resource resource False) (emit (Destroy resource) s) else s)"

text \<open>The state after a set-up that failed; the identity of the access point and the callback stay.\<close>

definition reset_runtime :: "wifi_runtime \<Rightarrow> wifi_runtime" where
  "reset_runtime r = r\<lparr>wr_initialized := False, wr_event_loop_ready := False, wr_wifi_started := False,
     wr_ap_started := False, wr_sta_started := False, wr_sta_connecting := False, wr_sta_has_ip := False,
     wr_event_overflow_count := 0, wr_sta_interface_ready := False, wr_sta_stop_pending := False,
     wr_automatic_recovery_ap := False, wr_expected_ssid := (wr_expected_ssid r)[0 := 0],
     wr_retry := provisioning_retry_stop, wr_active_generation := 0\<rparr>"

definition init_failed :: "runtime_resource list \<Rightarrow> wifi_task \<Rightarrow> wifi_task" where
  "init_failed made s =
    set_rt reset_runtime (foldl (\<lambda>s resource. destroy_resource resource made s) s
      [IP_HANDLER, WIFI_HANDLER, WIFI_DRIVER, STA_NETIF, AP_NETIF, WIFI_MUTEX, TIMEOUT_TASK, EVENT_TASK, EVENT_QUEUE])"

text \<open>The caller is none of the two tasks the set-up creates.\<close>

definition ensure_runtime_ready :: "wifi_world \<Rightarrow> wifi_task \<Rightarrow> esp_err \<times> wifi_task" where
  "ensure_runtime_ready w s =
    (let s = look w s
     in if wr_initialized (rt s) then (ESP_OK, s)
        else let run = setup_step (issue w NetifInit) (ESP_OK, [], s);
                 run = setup_step (create_default_event_loop_once w) run;
                 run = create_resource w EVENT_QUEUE (Some ESP_ERR_NO_MEM) run;
                 run = create_resource w EVENT_TASK (Some ESP_ERR_NO_MEM) run;
                 run = create_resource w TIMEOUT_TASK (Some ESP_ERR_NO_MEM) run;
                 run = create_resource w AP_NETIF (Some ESP_FAIL) run;
                 run = create_resource w STA_NETIF (Some ESP_FAIL) run;
                 run = create_resource w WIFI_MUTEX (Some ESP_ERR_NO_MEM) run;
                 run = create_resource w WIFI_DRIVER None run;
                 run = setup_step (configure_ap_profile_before_wifi_start w) run;
                 run = create_resource w WIFI_HANDLER None run;
                 (err, made, s) = create_resource w IP_HANDLER None run
          in if err = ESP_OK then (ESP_OK, set_rt (\<lambda>r. r\<lparr>wr_initialized := True\<rparr>) s)
             else (err, init_failed made s))"

definition ensure_wifi_started_unlocked :: "wifi_world \<Rightarrow> wifi_task \<Rightarrow> esp_err \<times> wifi_task" where
  "ensure_wifi_started_unlocked w s =
    (if wr_wifi_started (rt s) then (ESP_OK, s)
     else let (err, s) = issue_all w [SetMode WIFI_MODE_NULL, WifiStart] s
       in if err \<noteq> ESP_OK then (err, s) else (ESP_OK, set_rt (\<lambda>r. r\<lparr>wr_wifi_started := True\<rparr>) s))"

section \<open>The mode of the driver\<close>

definition mode_of_flags :: "bool \<Rightarrow> bool \<Rightarrow> wifi_mode" where
  "mode_of_flags ap_started sta_started =
    (if ap_started \<and> sta_started then WIFI_MODE_APSTA else if ap_started then WIFI_MODE_AP
     else if sta_started then WIFI_MODE_STA else WIFI_MODE_NULL)"

definition select_wifi_mode_from_flags :: "wifi_world \<Rightarrow> wifi_task \<Rightarrow> wifi_mode \<times> wifi_task" where
  "select_wifi_mode_from_flags w s =
    (let s = lock_state w s in (mode_of_flags (wr_ap_started (rt s)) (wr_sta_started (rt s)), s))"

text \<open>The loop of the attempts, with those that are left; there is no delay after the last.\<close>

fun set_wifi_mode_attempts :: "wifi_world \<Rightarrow> wifi_mode \<Rightarrow> nat \<Rightarrow> esp_err \<Rightarrow> wifi_task \<Rightarrow> esp_err \<times> wifi_task" where
  "set_wifi_mode_attempts w mode 0 err s = (err, s)"
| "set_wifi_mode_attempts w mode (Suc attempts) _ s =
    (let (err, s) = issue w (SetMode mode) s
     in if err \<noteq> ESP_ERR_WIFI_STOP_STATE then (err, s)
        else set_wifi_mode_attempts w mode attempts err
          (if 0 < attempts then look w (emit (TaskDelay PROVISIONING_WIFI_MODE_RETRY_DELAY_MS) s) else s))"

definition set_wifi_mode_with_retry :: "wifi_world \<Rightarrow> wifi_mode \<Rightarrow> wifi_task \<Rightarrow> esp_err \<times> wifi_task" where
  "set_wifi_mode_with_retry w mode s = set_wifi_mode_attempts w mode PROVISIONING_WIFI_MODE_RETRY_COUNT ESP_OK s"

definition apply_wifi_mode_unlocked :: "wifi_world \<Rightarrow> wifi_task \<Rightarrow> esp_err \<times> wifi_task" where
  "apply_wifi_mode_unlocked w s = (let (mode, s) = select_wifi_mode_from_flags w s in set_wifi_mode_with_retry w mode s)"

definition apply_wifi_mode :: "wifi_world \<Rightarrow> wifi_task \<Rightarrow> (esp_err \<times> wifi_task) option" where
  "apply_wifi_mode w s = do {
     (err, s) \<leftarrow> lock_wifi_operation w s;
     if err \<noteq> ESP_OK then Some (err, s)
     else let (err, s) = apply_wifi_mode_unlocked w s in Some (err, unlock_wifi_operation s)
   }"

end
