(* ===== verification/Wifi_Api.thy ===== *)
theory Wifi_Api
  imports Wifi_Runtime
begin

text \<open>
  The operations of \<^verbatim>\<open>components/provisioning/include/provisioning_runtime.h\<close>. Each takes the Wi-Fi mutex once
  and gives it back on every path; \<open>None\<close> is a wait without an end.
\<close>

section \<open>The access point\<close>

definition provisioning_runtime_start_ap :: "wifi_world \<Rightarrow> wifi_task \<Rightarrow> (esp_err \<times> wifi_task) option" where
  "provisioning_runtime_start_ap w s =
    (let (err, s) = ensure_runtime_ready w s
     in if err \<noteq> ESP_OK then Some (err, s)
        else do {
          (err, s) \<leftarrow> lock_wifi_operation w s;
          if err \<noteq> ESP_OK then Some (err, s)
          else let (err, s) = ensure_wifi_started_unlocked w s
            in if err \<noteq> ESP_OK then Some (err, unlock_wifi_operation s)
               else let s = lock_state w s
                 in if wr_ap_started (rt s) then Some (ESP_OK, unlock_wifi_operation s)
                    else let s = set_rt (\<lambda>r. r\<lparr>wr_ap_started := True\<rparr>) (lock_state w s);
                             (err, s) = apply_wifi_mode_unlocked w s
                      in if err \<noteq> ESP_OK
                         then Some (err, unlock_wifi_operation (set_rt (\<lambda>r. r\<lparr>wr_ap_started := False\<rparr>) (lock_state w s)))
                         else let (err, s) = configure_ap_ip_and_dhcp w s
                           in if err \<noteq> ESP_OK
                              then Some (err, unlock_wifi_operation (snd (apply_wifi_mode_unlocked w
                                (set_rt (\<lambda>r. r\<lparr>wr_ap_started := False\<rparr>) (lock_state w s)))))
                              else do {
                                (err, s) \<leftarrow> provisioning_captive_dns_start w (wr_ap_netif (rt s)) s;
                                if err \<noteq> ESP_OK
                                then Some (err, unlock_wifi_operation (snd (apply_wifi_mode_unlocked w
                                  (set_rt (\<lambda>r. r\<lparr>wr_ap_started := False\<rparr>) (lock_state w s)))))
                                else Some (ESP_OK, unlock_wifi_operation s)
                              }
        })"

definition provisioning_runtime_stop_ap :: "wifi_world \<Rightarrow> wifi_task \<Rightarrow> (esp_err \<times> wifi_task) option" where
  "provisioning_runtime_stop_ap w s = do {
     (err, s) \<leftarrow> lock_wifi_operation w s;
     if err \<noteq> ESP_OK then Some (err, s)
     else let s = lock_state w s
       in if \<not> wr_ap_started (rt s) then Some (ESP_OK, unlock_wifi_operation s)
          else do {
            (err, s) \<leftarrow> provisioning_captive_dns_stop w s;
            if err \<noteq> ESP_OK then Some (err, unlock_wifi_operation s)
            else let s = set_rt (\<lambda>r. r\<lparr>wr_ap_started := False, wr_automatic_recovery_ap := False\<rparr>) (lock_state w s);
                     (err, s) = apply_wifi_mode_unlocked w s
              in Some (err, unlock_wifi_operation s)
          }
   }"

section \<open>The station\<close>

text \<open>Zero is no generation; it is left out when the counter wraps around.\<close>

definition next_sta_attempt_generation :: "wifi_runtime \<Rightarrow> u32 \<times> wifi_runtime" where
  "next_sta_attempt_generation r =
    (let generation = wr_next_generation r + 1;
         generation = (if generation = 0 then generation + 1 else generation)
     in (generation, r\<lparr>wr_next_generation := generation\<rparr>))"

text \<open>The profile of the driver has 32 bytes for the name of the network and 64 for its password.\<close>

definition station_profile :: "provision_config \<Rightarrow> sta_profile" where
  "station_profile config = \<lparr>sta_ssid = strlcpy (replicate 32 0) (wifi_ssid config),
     sta_password = strlcpy (replicate 64 0) (wifi_password config), sta_min_rssi = PROVISIONING_STA_MIN_RSSI,
     sta_failure_retry_cnt = PROVISIONING_STA_FAILURE_RETRY_COUNT\<rparr>"

definition station_started :: "u64 \<Rightarrow> provision_config \<Rightarrow> wifi_runtime \<Rightarrow> wifi_runtime" where
  "station_started now config r =
    (let (generation, r) = next_sta_attempt_generation r
     in r\<lparr>wr_sta_started := True, wr_sta_connecting := False, wr_sta_has_ip := False,
          wr_active_generation := generation, wr_retry := provisioning_retry_start generation now,
          wr_expected_ssid := strlcpy (wr_expected_ssid r) (wifi_ssid config),
          wr_last_disconnect_reason := 0, wr_last_disconnect_rssi := 0\<rparr>)"

definition station_stopped :: "wifi_runtime \<Rightarrow> wifi_runtime" where
  "station_stopped r = r\<lparr>wr_retry := provisioning_retry_stop, wr_sta_started := False, wr_sta_connecting := False,
     wr_sta_has_ip := False, wr_active_generation := 0\<rparr>"

definition provisioning_runtime_start_sta ::
  "wifi_world \<Rightarrow> provision_config option \<Rightarrow> wifi_task \<Rightarrow> (esp_err \<times> wifi_task) option" where
  "provisioning_runtime_start_sta w config s =
    (case config of
       None \<Rightarrow> Some (ESP_ERR_INVALID_ARG, s)
     | Some c \<Rightarrow>
         if provision_config_validate config \<noteq> PROVISION_CONFIG_OK then Some (ESP_ERR_INVALID_ARG, s)
         else let (err, s) = ensure_runtime_ready w s
           in if err \<noteq> ESP_OK then Some (err, s)
              else do {
                (err, s) \<leftarrow> lock_wifi_operation w s;
                if err \<noteq> ESP_OK then Some (err, s)
                else let (err, s) = ensure_wifi_started_unlocked w s
                  in if err \<noteq> ESP_OK then Some (err, unlock_wifi_operation s)
                     else let s = lock_state w s
                       in if wr_sta_started (rt s) then Some (ESP_ERR_INVALID_STATE, unlock_wifi_operation s)
                          else let s = lock_state w s;
                                   (now, s) = consult (ww_clock w) s;
                                   s = set_rt (station_started now c) s;
                                   attempt_generation = wr_active_generation (rt s);
                                   (err, s) = apply_wifi_mode_unlocked w s;
                                   (err, s) = (if err \<noteq> ESP_OK then (err, s)
                                     else issue_all w [SetPowerSave, SetProtocol WIFI_IF_STA, SetBandwidth WIFI_IF_STA,
                                       SetStaProfile (station_profile c)] s)
                            in if err \<noteq> ESP_OK
                               then Some (err, unlock_wifi_operation (snd (apply_wifi_mode_unlocked w
                                 (set_rt station_stopped (lock_state w s)))))
                               else Some (ESP_OK, unlock_wifi_operation (schedule_wifi_timeout attempt_generation s))
              })"

definition provisioning_runtime_stop_sta :: "wifi_world \<Rightarrow> wifi_task \<Rightarrow> (esp_err \<times> wifi_task) option" where
  "provisioning_runtime_stop_sta w s = do {
     (err, s) \<leftarrow> lock_wifi_operation w s;
     if err \<noteq> ESP_OK then Some (err, s)
     else let s = lock_state w s;
              sta_started = wr_sta_started (rt s);
              s = set_rt (\<lambda>r. (station_stopped r)\<lparr>wr_sta_interface_ready := False,
                    wr_sta_stop_pending := (if sta_started then True else wr_sta_stop_pending r)\<rparr>) s
       in if \<not> sta_started then Some (ESP_OK, unlock_wifi_operation s)
          else let s = cancel_wifi_timeout s;
                   (err, s) = issue w WifiDisconnect s;
                   err = (if err = ESP_ERR_WIFI_NOT_CONNECT then ESP_OK else err);
                   (mode_err, s) = apply_wifi_mode_unlocked w s
            in Some (if err = ESP_OK then mode_err else err, unlock_wifi_operation s)
   }"

definition provisioning_runtime_pause_retries :: "wifi_world \<Rightarrow> wifi_task \<Rightarrow> (esp_err \<times> wifi_task) option" where
  "provisioning_runtime_pause_retries w s = do {
     (err, s) \<leftarrow> lock_wifi_operation w s;
     if err \<noteq> ESP_OK then Some (err, s)
     else let s = lock_state w s;
              connecting = rt_in_flight (wr_retry (rt s));
              s = set_rt (\<lambda>r. r\<lparr>wr_retry := (provisioning_retry_pause (wr_retry r))\<lparr>rt_in_flight := False\<rparr>,
                    wr_sta_connecting := False\<rparr>) s;
              s = (if connecting then snd (issue w WifiDisconnect s) else s)
       in Some (ESP_OK, cancel_wifi_timeout (unlock_wifi_operation s))
   }"

definition provisioning_runtime_enter_stable_recovery ::
  "wifi_world \<Rightarrow> wifi_task \<Rightarrow> (esp_err \<times> wifi_task) option" where
  "provisioning_runtime_enter_stable_recovery w s = do {
     (err, s) \<leftarrow> provisioning_runtime_start_ap w s;
     Some (err, if err = ESP_OK then set_rt (\<lambda>r. r\<lparr>wr_automatic_recovery_ap := True\<rparr>) (lock_state w s) else s)
   }"

definition provisioning_runtime_init ::
  "wifi_world \<Rightarrow> provision_config option \<Rightarrow> nat option \<Rightarrow> nat \<Rightarrow> wifi_task \<Rightarrow> (esp_err \<times> wifi_task) option" where
  "provisioning_runtime_init w config callback context s =
    (let (err, s) = ensure_runtime_ready w s
     in if err \<noteq> ESP_OK then Some (err, s)
        else let s = set_rt (\<lambda>r. r\<lparr>wr_callback := callback, wr_callback_context := context\<rparr>) (lock_state w s)
          in if provision_config_validate config = PROVISION_CONFIG_OK
             then do {
               (err, s) \<leftarrow> provisioning_runtime_start_sta w config s;
               Some (err, if err \<noteq> ESP_OK then s else dispatch_event w PROVISION_EVENT_BOOT_VALID_CONFIG s)
             }
             else do {
               (err, s) \<leftarrow> provisioning_runtime_start_ap w s;
               Some (err, if err \<noteq> ESP_OK then s else dispatch_event w PROVISION_EVENT_BOOT_NO_CONFIG s)
             })"

section \<open>The scan\<close>

definition finish_scan_restore_if_needed ::
  "wifi_world \<Rightarrow> bool \<Rightarrow> esp_err \<Rightarrow> wifi_task \<Rightarrow> esp_err \<times> wifi_task" where
  "finish_scan_restore_if_needed w restore_ap_only primary_err s =
    (if \<not> restore_ap_only then (primary_err, s)
     else let (restore_err, s) = apply_wifi_mode_unlocked w s
       in (if primary_err \<noteq> ESP_OK then primary_err else restore_err, s))"

definition UINT16_LIMIT :: nat where "UINT16_LIMIT = 65535"

text \<open>The scan itself, in the mode it needs: its records, at most as many as the caller has room for.\<close>

definition scan_networks ::
  "wifi_world \<Rightarrow> bool \<Rightarrow> nat \<Rightarrow> wifi_task \<Rightarrow> esp_err \<times> wifi_ap_record list option \<times> wifi_task" where
  "scan_networks w restore_ap_only capacity s =
    (let (err, s) = issue w ScanStart s
     in if err \<noteq> ESP_OK then let (err, s) = finish_scan_restore_if_needed w restore_ap_only err s in (err, None, s)
        else let (err, s) = issue w ScanCount s; (ap_count, s) = consult (ww_scan_count w) s
          in if err \<noteq> ESP_OK
             then let (err, s) = finish_scan_restore_if_needed w restore_ap_only err (emit ScanClear s) in (err, None, s)
             else let requested = (if capacity > UINT16_LIMIT then UINT16_LIMIT else capacity);
                      requested = (if requested > PROVISIONING_RUNTIME_SCAN_MAX_APS
                                   then PROVISIONING_RUNTIME_SCAN_MAX_APS else requested);
                      requested = (if requested > unat ap_count then unat ap_count else requested)
               in if requested = 0
                  then let (err, s) = finish_scan_restore_if_needed w restore_ap_only ESP_OK (emit ScanClear s)
                    in (err, Some [], s)
                  else let (err, s) = issue w (ScanRecords requested) s; (records, s) = consult (ww_scan_records w) s
                    in if err \<noteq> ESP_OK
                       then let (err, s) = finish_scan_restore_if_needed w restore_ap_only err (emit ScanClear s)
                         in (err, None, s)
                       else let (err, s) = finish_scan_restore_if_needed w restore_ap_only ESP_OK (emit ScanClear s)
                         in (err, Some (take requested records), s))"

text \<open>
  The capacity is the count of the caller, or nothing when a pointer is missing. The records are those
  written to the caller's buffer, when the count was.
\<close>

definition provisioning_runtime_scan ::
  "wifi_world \<Rightarrow> nat option \<Rightarrow> wifi_task \<Rightarrow> (esp_err \<times> wifi_ap_record list option \<times> wifi_task) option" where
  "provisioning_runtime_scan w capacity s =
    (case capacity of
       None \<Rightarrow> Some (ESP_ERR_INVALID_ARG, None, s)
     | Some capacity \<Rightarrow>
         if capacity = 0 then Some (ESP_ERR_INVALID_ARG, None, s)
         else let (err, s) = ensure_runtime_ready w s
           in if err \<noteq> ESP_OK then Some (err, None, s)
              else do {
                (err, s) \<leftarrow> lock_wifi_operation w s;
                if err \<noteq> ESP_OK then Some (err, None, s)
                else let (err, s) = ensure_wifi_started_unlocked w s
                  in if err \<noteq> ESP_OK then Some (err, None, unlock_wifi_operation s)
                     else let s = lock_state w s
                       in if wr_sta_connecting (rt s) then Some (ESP_ERR_INVALID_STATE, None, unlock_wifi_operation s)
                          else let (err, s) = issue w GetMode s; (original_mode, s) = consult (ww_mode w) s
                            in if err \<noteq> ESP_OK then Some (err, None, unlock_wifi_operation s)
                               else let restore_ap_only = (original_mode = WIFI_MODE_AP);
                                        (err, s) = (if restore_ap_only then issue w (SetMode WIFI_MODE_APSTA) s else (ESP_OK, s))
                                 in if err \<noteq> ESP_OK then Some (err, None, unlock_wifi_operation s)
                                    else let (err, records, s) = scan_networks w restore_ap_only capacity s
                                      in Some (err, records, unlock_wifi_operation s)
              })"

section \<open>Events of the MQTT client, and the status\<close>

definition provisioning_runtime_notify_mqtt_failed :: "wifi_world \<Rightarrow> wifi_task \<Rightarrow> esp_err \<times> wifi_task" where
  "provisioning_runtime_notify_mqtt_failed w s = (ESP_OK, dispatch_event w PROVISION_EVENT_MQTT_FAILED s)"

definition provisioning_runtime_notify_mqtt_connected :: "wifi_world \<Rightarrow> wifi_task \<Rightarrow> esp_err \<times> wifi_task" where
  "provisioning_runtime_notify_mqtt_connected w s = (ESP_OK, dispatch_event w PROVISION_EVENT_MQTT_CONNECTED s)"

record runtime_status =
  ru_initialized :: bool
  ru_ap_started :: bool
  ru_sta_started :: bool
  ru_sta_connecting :: bool
  ru_sta_has_ip :: bool
  ru_retry_paused :: bool
  ru_automatic_recovery_ap :: bool
  ru_automatic_recovery_due :: bool
  ru_retry_attempts :: u32
  ru_retry_in_ms :: u32
  ru_last_connect_error :: esp_err
  ru_last_disconnect_reason :: u32
  ru_last_disconnect_rssi :: int
  ru_event_overflow_count :: u32
  ru_sta_attempt_generation :: u32
  ru_ap_ssid :: bytes

definition provisioning_runtime_get_status :: "wifi_world \<Rightarrow> wifi_task \<Rightarrow> runtime_status \<times> wifi_task" where
  "provisioning_runtime_get_status w s =
    (let s = lock_state w s; (now, s) = consult (ww_clock w) s; r = rt s; retry = wr_retry r
     in (\<lparr>ru_initialized = (wr_initialized r \<and> wr_event_loop_ready r), ru_ap_started = wr_ap_started r,
          ru_sta_started = wr_sta_started r, ru_sta_connecting = wr_sta_connecting r,
          ru_sta_has_ip = wr_sta_has_ip r, ru_retry_paused = rt_paused retry,
          ru_automatic_recovery_ap = (wr_automatic_recovery_ap r \<and> wr_ap_started r),
          ru_automatic_recovery_due = (rt_enabled retry \<and> \<not> rt_paused retry \<and> \<not> rt_online retry \<and>
            rt_recovery_announced retry),
          ru_retry_attempts = rt_attempts retry, ru_retry_in_ms = provisioning_retry_remaining_ms retry now,
          ru_last_connect_error = wr_last_connect_error r, ru_last_disconnect_reason = wr_last_disconnect_reason r,
          ru_last_disconnect_rssi = wr_last_disconnect_rssi r, ru_event_overflow_count = wr_event_overflow_count r,
          ru_sta_attempt_generation = wr_active_generation r,
          ru_ap_ssid = strlcpy (replicate AP_SSID_SIZE 0) (wr_ap_ssid r)\<rparr>, s))"

record wifi_snapshot =
  wn_connected :: bool
  wn_ssid :: bytes
  wn_ip :: bytes
  wn_rssi :: int

definition snapshot_zero :: wifi_snapshot where
  "snapshot_zero = \<lparr>wn_connected = False, wn_ssid = replicate (PROVISION_WIFI_SSID_MAX + 1) 0, wn_ip = replicate 16 0,
     wn_rssi = 0\<rparr>"

text \<open>An address that cannot be printed leaves the snapshot as it is then.\<close>

definition provisioning_runtime_get_wifi_snapshot ::
  "wifi_world \<Rightarrow> wifi_task \<Rightarrow> (esp_err \<times> wifi_snapshot) \<times> wifi_task" where
  "provisioning_runtime_get_wifi_snapshot w s =
    (let s = lock_state w s
     in if \<not> wr_sta_has_ip (rt s) then ((ESP_OK, snapshot_zero), s)
        else if \<not> wr_sta_netif (rt s) then ((ESP_ERR_INVALID_STATE, snapshot_zero), s)
        else let ((err, ap), s) = consult (ww_ap_info w) s
          in if err \<noteq> ESP_OK then ((err, snapshot_zero), s)
             else let ((err, addr), s) = consult (ww_ip_info w) s
               in if err \<noteq> ESP_OK then ((err, snapshot_zero), s)
                  else let (ip, s) = consult (ww_ip_text w) s
                    in case ip of
                         None \<Rightarrow> ((ESP_FAIL, snapshot_zero), s)
                       | Some txt \<Rightarrow> ((ESP_OK, \<lparr>wn_connected = True, wn_ssid = strlcpy (wn_ssid snapshot_zero) (ar_ssid ap),
                           wn_ip = strlcpy (wn_ip snapshot_zero) (txt @ [0]), wn_rssi = ar_rssi ap\<rparr>), s))"

end
