(* ===== verification/Wifi_Runtime_Correct.thy ===== *)
theory Wifi_Runtime_Correct
  imports Wifi_Api
begin

text \<open>
  What the Wi-Fi runtime maintains: the flags of the station follow from its retry state, whatever the driver
  reports and whatever the application asks for, and every operation gives the Wi-Fi mutex back.
\<close>

section \<open>The invariant\<close>

definition station_ok :: "wifi_runtime \<Rightarrow> bool" where
  "station_ok r \<longleftrightarrow>
     wr_sta_started r = rt_enabled (wr_retry r) \<and> wr_active_generation r = rt_generation (wr_retry r) \<and>
     (wr_sta_started r \<longleftrightarrow> wr_active_generation r \<noteq> 0) \<and>
     wr_sta_connecting r = rt_in_flight (wr_retry r) \<and>
     (rt_in_flight (wr_retry r) \<longrightarrow> rt_enabled (wr_retry r) \<and> \<not> rt_online (wr_retry r)) \<and>
     (wr_sta_has_ip r \<longrightarrow> rt_enabled (wr_retry r) \<and> rt_online (wr_retry r))"

definition queue_ok :: "wifi_runtime \<Rightarrow> bool" where
  "queue_ok r \<longleftrightarrow> (case wr_event_queue r of None \<Rightarrow> True | Some es \<Rightarrow> length es \<le> PROVISIONING_EVENT_QUEUE_LEN)"

definition wifi_ok :: "wifi_runtime \<Rightarrow> bool" where
  "wifi_ok r \<longleftrightarrow> station_ok r \<and> queue_ok r \<and> length (wr_expected_ssid r) = PROVISION_WIFI_SSID_MAX + 1"

text \<open>What the Wi-Fi mutex protects.\<close>

definition protected :: "wifi_runtime \<Rightarrow> provisioning_retry \<times> u32 \<times> bool list \<times> bytes" where
  "protected r = (wr_retry r, wr_active_generation r,
     [wr_sta_started r, wr_sta_connecting r, wr_sta_has_ip r, wr_sta_interface_ready r, wr_sta_stop_pending r,
      wr_ap_started r, wr_wifi_started r], wr_expected_ssid r)"

text \<open>
  What a task relies on: the others keep the invariant and do not delete the mutex, and what it protects is
  theirs only while this task does not hold it.
\<close>

definition wifi_world_ok :: "wifi_world \<Rightarrow> bool" where
  "wifi_world_ok w \<longleftrightarrow> (\<forall>t h r. wifi_ok r \<longrightarrow> wifi_ok (ww_others w t h r)) \<and>
     (\<forall>t h r. wr_mutex r \<longrightarrow> wr_mutex (ww_others w t h r)) \<and>
     (\<forall>t r. protected (ww_others w t True r) = protected r)"

lemma rt_steps [simp]:
  "rt (snd (consult q s)) = rt s" "rt (emit e s) = rt s" "rt (snd (issue w e s)) = rt s" "rt (set_rt f s) = f (rt s)"
  "rt (schedule_wifi_timeout g s) = rt s" "rt (cancel_wifi_timeout s) = rt s" "rt (unlock_wifi_operation s) = rt s"
  by (simp_all add: consult_def emit_def issue_def set_rt_def schedule_wifi_timeout_def cancel_wifi_timeout_def
      unlock_wifi_operation_def)

lemma holds_steps [simp]:
  "wt_holds (snd (consult q s)) = wt_holds s" "wt_holds (emit e s) = wt_holds s" "wt_holds (snd (issue w e s)) = wt_holds s"
  "wt_holds (set_rt f s) = wt_holds s" "wt_holds (lock_state w s) = wt_holds s"
  "wt_holds (schedule_wifi_timeout g s) = wt_holds s" "wt_holds (cancel_wifi_timeout s) = wt_holds s"
  by (simp_all add: consult_def emit_def issue_def set_rt_def lock_state_def schedule_wifi_timeout_def cancel_wifi_timeout_def)

lemma issue_all_rt [simp]: "rt (snd (issue_all w es s)) = rt s" "wt_holds (snd (issue_all w es s)) = wt_holds s"
  by (induction es arbitrary: s) (simp_all add: split_beta Let_def)

lemma lock_state_ok [simp]:
  assumes "wifi_world_ok w"
  shows "wifi_ok (rt s) \<Longrightarrow> wifi_ok (rt (lock_state w s))" "wr_mutex (rt s) \<Longrightarrow> wr_mutex (rt (lock_state w s))"
  using assms by (simp_all add: lock_state_def wifi_world_ok_def)

lemma lock_state_protected:
  assumes "wifi_world_ok w" "wt_holds s"
  shows "protected (rt (lock_state w s)) = protected (rt s)"
  using assms by (simp add: lock_state_def wifi_world_ok_def)

lemma protectedD:
  assumes "protected r' = protected r"
  shows "wr_retry r' = wr_retry r" "wr_active_generation r' = wr_active_generation r" "wr_sta_started r' = wr_sta_started r"
    "wr_sta_connecting r' = wr_sta_connecting r" "wr_sta_has_ip r' = wr_sta_has_ip r"
    "wr_sta_interface_ready r' = wr_sta_interface_ready r" "wr_sta_stop_pending r' = wr_sta_stop_pending r"
    "wr_ap_started r' = wr_ap_started r" "wr_wifi_started r' = wr_wifi_started r" "wr_expected_ssid r' = wr_expected_ssid r"
  using assms by (simp_all add: protected_def)

lemmas locked_read = protectedD [OF lock_state_protected]

text \<open>A task that holds the mutex.\<close>

definition locked :: "wifi_task \<Rightarrow> bool" where
  "locked s \<longleftrightarrow> wifi_ok (rt s) \<and> wr_mutex (rt s) \<and> wt_holds s"

text \<open>Outside an operation.\<close>

definition idle :: "wifi_task \<Rightarrow> bool" where
  "idle s \<longleftrightarrow> wifi_ok (rt s) \<and> \<not> wt_holds s"

named_theorems locked_intros

lemma locked_simple [locked_intros]:
  "locked s \<Longrightarrow> locked (snd (consult q s))" "locked s \<Longrightarrow> locked (emit e s)" "locked s \<Longrightarrow> locked (snd (issue w e s))"
  "locked s \<Longrightarrow> locked (snd (issue_all w es s))" "locked s \<Longrightarrow> locked (schedule_wifi_timeout g s)"
  "locked s \<Longrightarrow> locked (cancel_wifi_timeout s)"
  "wifi_world_ok w \<Longrightarrow> locked s \<Longrightarrow> locked (lock_state w s)"
  by (simp_all add: locked_def)

lemma idle_simple [locked_intros]:
  "idle s \<Longrightarrow> idle (snd (consult q s))" "idle s \<Longrightarrow> idle (emit e s)" "idle s \<Longrightarrow> idle (snd (issue w e s))"
  "idle s \<Longrightarrow> idle (snd (issue_all w es s))" "idle s \<Longrightarrow> idle (schedule_wifi_timeout g s)"
  "idle s \<Longrightarrow> idle (cancel_wifi_timeout s)"
  "wifi_world_ok w \<Longrightarrow> idle s \<Longrightarrow> idle (lock_state w s)"
  by (simp_all add: idle_def)

lemma locked_set_rt:
  assumes "locked s" "wifi_ok (f (rt s))" "wr_mutex (f (rt s)) = wr_mutex (rt s)"
  shows "locked (set_rt f s)"
  using assms by (simp add: locked_def)

lemma idle_set_rt: "idle s \<Longrightarrow> wifi_ok (f (rt s)) \<Longrightarrow> idle (set_rt f s)"
  by (simp add: idle_def)

lemma unlock_idle [locked_intros]: "locked s \<Longrightarrow> idle (unlock_wifi_operation s)"
  by (simp add: locked_def idle_def unlock_wifi_operation_def)

lemma lock_cases:
  assumes "wifi_world_ok w" "idle s" "lock_wifi_operation w s = Some (err, s')"
  obtains "err \<noteq> ESP_OK" "s' = s" | "err = ESP_OK" "locked s'"
  using assms by (auto simp: lock_wifi_operation_def idle_def locked_def split: if_splits)

lemma wifi_ok_irrelevant [simp]:
  "wifi_ok (r\<lparr>wr_initialized := b\<rparr>) = wifi_ok r" "wifi_ok (r\<lparr>wr_event_loop_ready := b\<rparr>) = wifi_ok r"
  "wifi_ok (r\<lparr>wr_wifi_started := b\<rparr>) = wifi_ok r" "wifi_ok (r\<lparr>wr_ap_started := b\<rparr>) = wifi_ok r"
  "wifi_ok (r\<lparr>wr_sta_interface_ready := b\<rparr>) = wifi_ok r" "wifi_ok (r\<lparr>wr_sta_stop_pending := b\<rparr>) = wifi_ok r"
  "wifi_ok (r\<lparr>wr_automatic_recovery_ap := b\<rparr>) = wifi_ok r" "wifi_ok (r\<lparr>wr_last_connect_error := e\<rparr>) = wifi_ok r"
  "wifi_ok (r\<lparr>wr_event_overflow_count := c\<rparr>) = wifi_ok r" "wifi_ok (r\<lparr>wr_callback := f\<rparr>) = wifi_ok r"
  "wifi_ok (r\<lparr>wr_callback_context := n\<rparr>) = wifi_ok r" "wifi_ok (r\<lparr>wr_ap_ssid := bs\<rparr>) = wifi_ok r"
  "wifi_ok (r\<lparr>wr_ap_password := bs\<rparr>) = wifi_ok r" "wifi_ok (r\<lparr>wr_dns := d\<rparr>) = wifi_ok r"
  "wifi_ok (r\<lparr>wr_wifi_handler := b\<rparr>) = wifi_ok r" "wifi_ok (r\<lparr>wr_ip_handler := b\<rparr>) = wifi_ok r"
  "wifi_ok (r\<lparr>wr_ap_netif := b\<rparr>) = wifi_ok r" "wifi_ok (r\<lparr>wr_sta_netif := b\<rparr>) = wifi_ok r"
  "wifi_ok (r\<lparr>wr_mutex := b\<rparr>) = wifi_ok r" "wifi_ok (r\<lparr>wr_event_task := b\<rparr>) = wifi_ok r"
  "wifi_ok (r\<lparr>wr_timeout_task := b\<rparr>) = wifi_ok r" "wifi_ok (r\<lparr>wr_last_disconnect_reason := c\<rparr>) = wifi_ok r"
  "wifi_ok (r\<lparr>wr_last_disconnect_rssi := i\<rparr>) = wifi_ok r"
  "wifi_ok (r\<lparr>wr_next_generation := c\<rparr>) = wifi_ok r"
  by (simp_all add: wifi_ok_def station_ok_def queue_ok_def)

section \<open>The retry state\<close>

lemma retry_failed_facts:
  "rt_enabled (provisioning_retry_failed r t auth x) = rt_enabled r"
  "rt_generation (provisioning_retry_failed r t auth x) = rt_generation r"
  "rt_in_flight (provisioning_retry_failed r t auth x) \<Longrightarrow> rt_in_flight r"
  "rt_online (provisioning_retry_failed r t auth x) \<Longrightarrow> rt_online r"
  by (simp_all add: provisioning_retry_failed_def Let_def split: if_splits)

lemma retry_connected_facts:
  "rt_enabled (provisioning_retry_connected r t) = rt_enabled r"
  "rt_generation (provisioning_retry_connected r t) = rt_generation r"
  "rt_enabled r \<Longrightarrow> \<not> rt_paused r \<Longrightarrow> rt_online (provisioning_retry_connected r t) \<and> \<not> rt_in_flight (provisioning_retry_connected r t)"
  by (simp_all add: provisioning_retry_connected_def)

lemma retry_poll_facts:
  "rt_enabled (fst (provisioning_retry_poll r t x)) = rt_enabled r"
  "rt_generation (fst (provisioning_retry_poll r t x)) = rt_generation r"
  "rt_online (fst (provisioning_retry_poll r t x)) = rt_online r"
  "rt_paused (fst (provisioning_retry_poll r t x)) = rt_paused r"
  "rt_in_flight (fst (provisioning_retry_poll r t x)) \<Longrightarrow> rt_in_flight r \<or> rt_enabled r \<and> \<not> rt_online r"
  by (auto simp: provisioning_retry_poll_def poll_announce_def poll_expire_def poll_launch_def provisioning_retry_failed_def
      Let_def split: if_splits)

lemma station_ok_failed:
  assumes "station_ok r" "b \<longrightarrow> wr_sta_has_ip r \<and> rt_online (provisioning_retry_failed (wr_retry r) t auth x)"
  shows "station_ok (r\<lparr>wr_sta_has_ip := b, wr_retry := provisioning_retry_failed (wr_retry r) t auth x,
    wr_sta_connecting := rt_in_flight (provisioning_retry_failed (wr_retry r) t auth x)\<rparr>)"
  using assms retry_failed_facts [of "wr_retry r" t auth x] by (auto simp: station_ok_def)

lemma wifi_ok_failed:
  assumes "wifi_ok r" "b \<longrightarrow> wr_sta_has_ip r \<and> rt_online (provisioning_retry_failed (wr_retry r) t auth x)"
  shows "wifi_ok (r\<lparr>wr_sta_has_ip := b, wr_retry := provisioning_retry_failed (wr_retry r) t auth x,
    wr_sta_connecting := rt_in_flight (provisioning_retry_failed (wr_retry r) t auth x)\<rparr>)"
  using assms station_ok_failed by (simp add: wifi_ok_def queue_ok_def)

lemma wifi_ok_failed_offline:
  "wifi_ok r \<Longrightarrow> \<not> wr_sta_has_ip r \<Longrightarrow> wifi_ok (r\<lparr>wr_retry := provisioning_retry_failed (wr_retry r) t auth x,
    wr_sta_connecting := rt_in_flight (provisioning_retry_failed (wr_retry r) t auth x)\<rparr>)"
  using retry_failed_facts [of "wr_retry r" t auth x] by (auto simp: wifi_ok_def station_ok_def queue_ok_def)

lemma wifi_ok_connected:
  assumes "wifi_ok r" "wr_sta_started r" "\<not> rt_paused (wr_retry r)"
  shows "wifi_ok (r\<lparr>wr_retry := provisioning_retry_connected (wr_retry r) t, wr_sta_has_ip := True, wr_sta_connecting := False\<rparr>)"
  using assms retry_connected_facts [of "wr_retry r" t] by (auto simp: wifi_ok_def station_ok_def queue_ok_def)

lemma wifi_ok_polled:
  assumes "wifi_ok r"
  shows "wifi_ok (r\<lparr>wr_retry := fst (provisioning_retry_poll (wr_retry r) t x),
    wr_sta_connecting := rt_in_flight (fst (provisioning_retry_poll (wr_retry r) t x))\<rparr>)"
  using assms retry_poll_facts [of "wr_retry r" t x] by (auto simp: wifi_ok_def station_ok_def queue_ok_def)

lemma wifi_ok_stopped [simp]: "wifi_ok r \<Longrightarrow> wifi_ok (station_stopped r)"
  by (simp add: station_stopped_def provisioning_retry_stop_def retry_zero_def wifi_ok_def station_ok_def queue_ok_def)

lemma next_generation_nonzero: "fst (next_sta_attempt_generation r) \<noteq> 0"
  by (simp add: next_sta_attempt_generation_def Let_def)

lemma wifi_ok_started [simp]: "wifi_ok r \<Longrightarrow> wifi_ok (station_started now c r)"
  using next_generation_nonzero [of r]
  by (simp add: station_started_def split_beta provisioning_retry_start_def retry_zero_def wifi_ok_def station_ok_def queue_ok_def)
    (simp add: next_sta_attempt_generation_def Let_def)

lemma wifi_ok_paused:
  "wifi_ok r \<Longrightarrow> wifi_ok (r\<lparr>wr_retry := (provisioning_retry_pause (wr_retry r))\<lparr>rt_in_flight := False\<rparr>, wr_sta_connecting := False\<rparr>)"
  by (auto simp: provisioning_retry_pause_def wifi_ok_def station_ok_def queue_ok_def)

lemma wifi_ok_queue [simp]:
  "wifi_ok (r\<lparr>wr_event_queue := q\<rparr>) \<longleftrightarrow>
     station_ok r \<and> length (wr_expected_ssid r) = PROVISION_WIFI_SSID_MAX + 1 \<and> (case q of None \<Rightarrow> True | Some es \<Rightarrow> length es \<le> PROVISIONING_EVENT_QUEUE_LEN)"
  by (auto simp: wifi_ok_def queue_ok_def station_ok_def)

section \<open>Every operation keeps it\<close>

lemma station_started_mutex [simp]: "wr_mutex (station_started now c r) = wr_mutex r" "wr_mutex (station_stopped r) = wr_mutex r"
  by (simp_all add: station_started_def next_sta_attempt_generation_def Let_def station_stopped_def)

lemma queue_changed:
  assumes "length q \<le> PROVISIONING_EVENT_QUEUE_LEN"
  shows "idle s \<Longrightarrow> idle (set_rt (\<lambda>r. r\<lparr>wr_event_queue := Some q\<rparr>) s)"
    "locked s \<Longrightarrow> locked (set_rt (\<lambda>r. r\<lparr>wr_event_queue := Some q\<rparr>) s)"
  using assms by (simp_all add: idle_def locked_def wifi_ok_def [of "rt s"])

lemma overflow_counted [locked_intros]:
  "idle s \<Longrightarrow> idle (set_rt (\<lambda>r. r\<lparr>wr_event_overflow_count := c r\<rparr>) s)"
  "locked s \<Longrightarrow> locked (set_rt (\<lambda>r. r\<lparr>wr_event_overflow_count := c r\<rparr>) s)"
  by (simp_all add: idle_def locked_def)

lemma dispatch_idle [locked_intros]:
  assumes "wifi_world_ok w" "idle s"
  shows "idle (dispatch_event_with_generation w event g s)" "idle (dispatch_event w event s)"
  using assms by (auto simp: dispatch_event_def dispatch_event_with_generation_def Let_def
      intro!: locked_intros queue_changed(1) split: option.split)

lemma dispatch_locked [locked_intros]:
  assumes "wifi_world_ok w" "locked s"
  shows "locked (dispatch_event_with_generation w event g s)"
  using assms by (auto simp: dispatch_event_with_generation_def Let_def
      intro!: locked_intros queue_changed(2) split: option.split)

lemma callback_idle [locked_intros]:
  assumes "wifi_world_ok w" "idle s"
  shows "idle (event_callback_turn w s)"
proof -
  have i: "idle (lock_state w s)" using assms by (rule locked_intros)
  have "length events \<le> PROVISIONING_EVENT_QUEUE_LEN" if "wr_event_queue (rt (lock_state w s)) = Some (e # events)" for e events
    using i that by (simp add: idle_def wifi_ok_def queue_ok_def)
  then have "idle (lock_state w (set_rt (\<lambda>r. r\<lparr>wr_event_queue := Some events\<rparr>) (lock_state w s)))"
    if "wr_event_queue (rt (lock_state w s)) = Some (e # events)" for e events
    using that i assms(1) by (blast intro: locked_intros(14) queue_changed(1))
  then show ?thesis
    using i by (auto simp: event_callback_turn_def Let_def idle_def split: option.split list.split)
qed

lemma has_ip_locked [locked_intros]:
  assumes "wifi_world_ok w" "locked s"
  shows "locked (snd (current_station_has_ip w s))"
  using assms by (auto simp: current_station_has_ip_def Let_def split_beta intro: locked_intros)

lemma poll_locked [locked_intros]: "locked s \<Longrightarrow> locked (snd (poll_station now x s))"
  by (auto simp: poll_station_def split_beta Let_def intro!: locked_set_rt wifi_ok_polled simp: locked_def)

lemma has_ip_protected:
  assumes "wifi_world_ok w" "wt_holds s"
  shows "protected (rt (snd (current_station_has_ip w s))) = protected (rt s)"
  using lock_state_protected [OF assms] by (simp add: current_station_has_ip_def Let_def split_beta)

lemma poll_asks:
  assumes "has_action (fst (poll_station now x s)) action"
  shows "wr_sta_started (rt (snd (poll_station now x s))) \<and> \<not> rt_paused (wr_retry (rt (snd (poll_station now x s))))"
proof -
  have "wr_sta_started (rt s)" "has_action (snd (provisioning_retry_poll (wr_retry (rt s)) now x)) action"
    "rt (snd (poll_station now x s)) = (rt s)\<lparr>wr_retry := fst (provisioning_retry_poll (wr_retry (rt s)) now x),
       wr_sta_connecting := rt_in_flight (fst (provisioning_retry_poll (wr_retry (rt s)) now x))\<rparr>"
    using assms by (auto simp: poll_station_def split_beta has_action_def split: if_splits)
  moreover from this(2) have "\<not> rt_paused (wr_retry (rt s))"
    by (auto simp: has_action_def provisioning_retry_poll_def split: if_splits)
  ultimately show ?thesis by (simp add: retry_poll_facts)
qed

lemma abort_locked:
  assumes w: "wifi_world_ok w" and s: "locked s"
    and asks: "has_action actions PROVISION_RETRY_ABORT \<Longrightarrow> wr_sta_started (rt s) \<and> \<not> rt_paused (wr_retry (rt s))"
  shows "locked (snd (abort_attempt w now g actions s))"
proof (cases "has_action actions PROVISION_RETRY_ABORT")
  case True
  let ?t = "snd (current_station_has_ip w s)"
  have t: "locked ?t" "locked (lock_state w ?t)" using w s by (blast intro: locked_intros)+
  have h: "wt_holds s" "wt_holds ?t" using s t(1) by (simp_all add: locked_def)
  have p: "protected (rt (lock_state w ?t)) = protected (rt s)"
    using lock_state_protected [OF w h(2)] has_ip_protected [OF w h(1)] by simp
  have "wifi_ok ((rt (lock_state w ?t))\<lparr>wr_retry := provisioning_retry_connected (wr_retry (rt (lock_state w ?t))) now,
      wr_sta_has_ip := True, wr_sta_connecting := False\<rparr>)"
    using asks [OF True] t(2) by (intro wifi_ok_connected) (simp_all add: locked_def protectedD [OF p])
  then show ?thesis
    using True t by (auto simp: abort_attempt_def split_beta Let_def intro!: locked_intros locked_set_rt w)
qed (simp add: abort_attempt_def s)

lemma abort_outcome:
  assumes "wifi_world_ok w" "wt_holds s"
  shows "fst (abort_attempt w now g actions s) = 0 \<or>
    fst (abort_attempt w now g actions s) = actions \<and> protected (rt (snd (abort_attempt w now g actions s))) = protected (rt s)"
proof (cases "has_action actions PROVISION_RETRY_ABORT \<and> fst (current_station_has_ip w s)")
  case True
  then have "fst (abort_attempt w now g actions s) = 0" unfolding abort_attempt_def by (simp add: split_beta Let_def)
  then show ?thesis ..
next
  case False
  then have "abort_attempt w now g actions s = (actions, s) \<or>
      abort_attempt w now g actions s = (actions, snd (issue w WifiDisconnect (snd (current_station_has_ip w s))))"
    unfolding abort_attempt_def by (auto simp: split_beta Let_def)
  then show ?thesis using has_ip_protected [OF assms] by (elim disjE) simp_all
qed

lemma start_locked:
  assumes w: "wifi_world_ok w" and s: "locked s"
    and asks: "has_action actions PROVISION_RETRY_CONNECT \<Longrightarrow> rt_in_flight (wr_retry (rt s))"
  shows "locked (start_attempt w now x actions s)"
proof (cases "has_action actions PROVISION_RETRY_CONNECT")
  case True
  let ?t = "lock_state w (snd (issue w WifiConnect s))"
  have l: "locked ?t" using w s by (blast intro: locked_intros)
  have h: "wt_holds (snd (issue w WifiConnect s))" using s by (simp add: locked_def)
  let ?failed = "\<lambda>e. (rt ?t)\<lparr>wr_last_connect_error := e, wr_retry := provisioning_retry_failed (wr_retry (rt ?t)) now False x,
      wr_sta_connecting := rt_in_flight (provisioning_retry_failed (wr_retry (rt ?t)) now False x)\<rparr>"
  have "rt_in_flight (wr_retry (rt ?t))" using asks [OF True] locked_read(1) [OF w h] by simp
  with l have "\<not> wr_sta_has_ip (rt ?t)" by (auto simp: locked_def wifi_ok_def station_ok_def)
  then have "wifi_ok (?failed e)" for e
    using wifi_ok_failed_offline [of "(rt ?t)\<lparr>wr_last_connect_error := e\<rparr>" now False x] l by (simp add: locked_def)
  with l True show ?thesis
    by (auto simp: start_attempt_def split_beta Let_def intro!: locked_set_rt simp: locked_def)
qed (simp add: start_attempt_def s)

lemma poll_connects:
  assumes "has_action (fst (poll_station now x s)) PROVISION_RETRY_CONNECT"
  shows "rt_in_flight (wr_retry (rt (snd (poll_station now x s))))"
  using assms connect_starts_attempt [of "wr_retry (rt s)" now x]
  by (auto simp: poll_station_def split_beta has_action_def connects_def split: if_splits)

text \<open>A turn of the timeout task, from the poll on.\<close>

lemma attempts_locked:
  fixes now :: u64 and x g :: u32
  assumes w: "wifi_world_ok w" and s: "locked s"
  defines "p \<equiv> poll_station now x s"
  defines "a \<equiv> abort_attempt w now g (fst p) (snd p)"
  shows "locked (start_attempt w now x (fst a) (snd a))"
proof -
  have p: "locked (snd p)" unfolding p_def using s by (rule locked_intros)
  then have h: "wt_holds (snd p)" by (simp add: locked_def)
  have a: "locked (snd a)" unfolding a_def
    using poll_asks [of now x s] by (intro abort_locked [OF w p]) (simp add: p_def)
  have "rt_in_flight (wr_retry (rt (snd a)))" if "has_action (fst a) PROVISION_RETRY_CONNECT"
  proof -
    from that have "fst a \<noteq> 0" by (auto simp: has_action_def)
    with abort_outcome [OF w h, of now g "fst p"] have "fst a = fst p" "protected (rt (snd a)) = protected (rt (snd p))"
      by (simp_all add: a_def)
    with that poll_connects [of now x s] protectedD(1) [OF this(2)] show ?thesis by (simp add: p_def)
  qed
  then show ?thesis by (rule start_locked [OF w a])
qed

lemma timeout_turn_idle:
  assumes w: "wifi_world_ok w" and s: "idle s" and turn: "wifi_timeout_turn w s = Some s'"
  shows "idle s'"
proof -
  have l: "idle (lock_state w s)" using w s by (rule locked_intros)
  show ?thesis
  proof (cases "wr_initialized (rt (lock_state w s))")
    case True
    then obtain err t where t: "lock_wifi_operation w (lock_state w s) = Some (err, t)"
      using turn by (auto simp: wifi_timeout_turn_def Let_def split: bind_splits)
    show ?thesis
    proof (rule lock_cases [OF w l t])
      assume "err \<noteq> ESP_OK" "t = lock_state w s"
      with turn True t l show ?thesis by (simp add: wifi_timeout_turn_def Let_def)
    next
      assume err: "err = ESP_OK" and t': "locked t"
      let ?u = "lock_state w (snd (consult (ww_random w) (snd (consult (ww_clock w) t))))"
      have u: "locked ?u" using w t' by (blast intro: locked_intros)
      from turn True t err show ?thesis
        by (auto simp: wifi_timeout_turn_def Let_def split_beta intro!: locked_intros(15) dispatch_idle(1) unlock_idle attempts_locked [OF w u] w)
    qed
  qed (use turn l in \<open>simp add: wifi_timeout_turn_def Let_def\<close>)
qed

lemma disconnected_locked [locked_intros]:
  assumes w: "wifi_world_ok w" and s: "locked s"
  shows "locked (snd (snd (station_disconnected w d now s)))"
proof -
  have l: "locked (lock_state w (snd (current_station_has_ip w s)))" using w s by (blast intro: locked_intros)
  have "wifi_ok (r\<lparr>wr_sta_has_ip := False, wr_last_disconnect_reason := a, wr_last_disconnect_rssi := b,
      wr_retry := provisioning_retry_failed (wr_retry r) now auth 0,
      wr_sta_connecting := rt_in_flight (provisioning_retry_failed (wr_retry r) now auth 0)\<rparr>)" if "wifi_ok r" for r a b auth
    using retry_failed_facts [of "wr_retry r" now auth 0] that by (auto simp: wifi_ok_def station_ok_def queue_ok_def)
  with l show ?thesis
    by (simp add: station_disconnected_def split_beta Let_def locked_def)
qed

lemma got_ip_locked [locked_intros]:
  assumes w: "wifi_world_ok w" and s: "locked s"
  shows "locked (snd (snd (station_got_ip w e now s)))"
proof -
  let ?t = "if e = Some True then snd (current_station_has_ip w s) else s"
  have l: "locked (lock_state w ?t)" using w s by (auto intro: locked_intros)
  have "wifi_ok (r\<lparr>wr_retry := provisioning_retry_connected (wr_retry r) now, wr_sta_connecting := False, wr_sta_has_ip := True,
      wr_last_connect_error := ESP_OK\<rparr>)" if "wifi_ok r" "wr_sta_started r" "provisioning_retry_matches (wr_retry r) g" for r g
    using retry_connected_facts [of "wr_retry r" now] that
    by (auto simp: provisioning_retry_matches_def wifi_ok_def station_ok_def queue_ok_def)
  with l show ?thesis
    by (auto simp: station_got_ip_def split_beta Let_def locked_def)
qed

lemma wifi_event_idle:
  assumes w: "wifi_world_ok w" and s: "idle s" and h: "wifi_event_handler w event s = Some s'"
  shows "idle s'"
proof -
  obtain err t where t: "lock_wifi_operation w s = Some (err, t)"
    using h by (auto simp: wifi_event_handler_def split: bind_splits)
  show ?thesis
  proof (rule lock_cases [OF w s t])
    assume "err \<noteq> ESP_OK" "t = s"
    with h t s show ?thesis by (simp add: wifi_event_handler_def)
  next
    assume err: "err = ESP_OK" and t': "locked t"
    let ?u = "snd (consult (ww_clock w) t)"
    have u: "locked ?u" "locked (lock_state w ?u)" using w t' by (blast intro: locked_intros)+
    show ?thesis
    proof (cases event)
      case WIFI_EVENT_STA_START
      have "locked (set_rt (\<lambda>r. r\<lparr>wr_sta_interface_ready := \<not> wr_sta_stop_pending r\<rparr>) (lock_state w ?u))"
        using u(2) by (rule locked_set_rt) (use u(2) in \<open>simp_all add: locked_def\<close>)
      with h t err WIFI_EVENT_STA_START show ?thesis
        by (auto simp: wifi_event_handler_def split_beta Let_def intro!: locked_intros)
    next
      case WIFI_EVENT_STA_STOP
      have "locked (set_rt (\<lambda>r. r\<lparr>wr_sta_interface_ready := False, wr_sta_stop_pending := False\<rparr>) (lock_state w ?u))"
        using u(2) by (rule locked_set_rt) (use u(2) in \<open>simp_all add: locked_def\<close>)
      with h t err WIFI_EVENT_STA_STOP show ?thesis
        by (auto simp: wifi_event_handler_def split_beta Let_def intro!: locked_intros)
    qed (use h t err u w in \<open>auto simp: wifi_event_handler_def split_beta Let_def intro!: locked_intros\<close>)
  qed
qed

section \<open>Set-up, modes, access point and station\<close>

lemma set_resource_ok [simp]: "wifi_ok r \<Longrightarrow> wifi_ok (set_resource resource there r)"
  by (cases resource) (auto simp: set_resource_def wifi_ok_def station_ok_def queue_ok_def)

lemma reset_runtime_ok [simp]: "wifi_ok r \<Longrightarrow> wifi_ok (reset_runtime r)"
  by (simp add: reset_runtime_def provisioning_retry_stop_def retry_zero_def wifi_ok_def station_ok_def queue_ok_def)

lemma identity_idle: "idle s \<Longrightarrow> idle (snd (make_ap_identity w s))"
  by (auto simp: make_ap_identity_def split_beta Let_def intro!: locked_intros idle_set_rt simp: idle_def)

lemma setup_idle:
  "idle (snd (snd run)) \<Longrightarrow> idle (snd (snd (create_resource w resource failure run)))"
  "idle (snd (snd run)) \<Longrightarrow> (\<And>s. idle s \<Longrightarrow> idle (snd (step s))) \<Longrightarrow> idle (snd (snd (setup_step step run)))"
  by (auto simp: create_resource_def setup_step_def split_beta Let_def idle_def)

lemma destroy_idle: "idle s \<Longrightarrow> idle (destroy_resource resource made s)"
  by (simp add: destroy_resource_def idle_def)

lemma init_failed_idle:
  assumes "idle s"
  shows "idle (init_failed made s)"
proof -
  have "idle (foldl (\<lambda>s resource. destroy_resource resource made s) s resources)" for resources
    using assms by (induction resources arbitrary: s) (simp_all add: destroy_idle)
  note this [of "[IP_HANDLER, WIFI_HANDLER, WIFI_DRIVER, STA_NETIF, AP_NETIF, WIFI_MUTEX, TIMEOUT_TASK, EVENT_TASK, EVENT_QUEUE]"]
  then show ?thesis unfolding init_failed_def
    by (intro idle_set_rt reset_runtime_ok) (simp_all only: idle_def simp_thms)
qed

lemma profile_idle: "idle s \<Longrightarrow> idle (snd (configure_ap_profile_before_wifi_start w s))"
  using identity_idle [of s w] by (simp add: configure_ap_profile_before_wifi_start_def split_beta Let_def idle_def)

lemma event_loop_idle: "idle s \<Longrightarrow> idle (snd (create_default_event_loop_once w s))"
  by (simp add: create_default_event_loop_once_def split_beta Let_def idle_def)

text \<open>The twelve steps of the set-up.\<close>

definition setup_steps :: "wifi_world \<Rightarrow> wifi_task \<Rightarrow> setup_run" where
  "setup_steps w s = create_resource w IP_HANDLER None (create_resource w WIFI_HANDLER None
     (setup_step (configure_ap_profile_before_wifi_start w) (create_resource w WIFI_DRIVER None
     (create_resource w WIFI_MUTEX (Some ESP_ERR_NO_MEM) (create_resource w STA_NETIF (Some ESP_FAIL)
     (create_resource w AP_NETIF (Some ESP_FAIL) (create_resource w TIMEOUT_TASK (Some ESP_ERR_NO_MEM)
     (create_resource w EVENT_TASK (Some ESP_ERR_NO_MEM) (create_resource w EVENT_QUEUE (Some ESP_ERR_NO_MEM)
     (setup_step (create_default_event_loop_once w) (setup_step (issue w NetifInit) (ESP_OK, [], s))))))))))))"

lemma ensure_eq:
  "ensure_runtime_ready w s = (let s = look w s
     in if wr_initialized (rt s) then (ESP_OK, s)
        else let (err, made, s) = setup_steps w s
          in if err = ESP_OK then (ESP_OK, set_rt (\<lambda>r. r\<lparr>wr_initialized := True\<rparr>) s) else (err, init_failed made s))"
  unfolding ensure_runtime_ready_def setup_steps_def Let_def ..

lemma ensure_idle:
  assumes w: "wifi_world_ok w" and s: "idle s"
  shows "idle (snd (ensure_runtime_ready w s))"
proof -
  have l: "idle (lock_state w s)" using w s by (rule locked_intros)
  then have "idle (snd (snd (ESP_OK, [], lock_state w s)))" by simp
  then have "idle (snd (snd (setup_steps w (lock_state w s))))"
    unfolding setup_steps_def by (intro setup_idle profile_idle event_loop_idle locked_intros(10))
  moreover have "idle (set_rt (\<lambda>r. r\<lparr>wr_initialized := True\<rparr>) t)" if "idle t" for t using that by (simp add: idle_def)
  ultimately show ?thesis using l by (simp add: ensure_eq Let_def split_beta init_failed_idle)
qed

lemma wifi_started_locked [locked_intros]:
  assumes "locked s"
  shows "locked (snd (ensure_wifi_started_unlocked w s))"
  using locked_simple(4) [OF assms, of w "[SetMode WIFI_MODE_NULL, WifiStart]"] assms
  by (auto simp: ensure_wifi_started_unlocked_def split_beta Let_def locked_def)

lemma mode_attempts_locked:
  assumes "wifi_world_ok w"
  shows "locked s \<Longrightarrow> locked (snd (set_wifi_mode_attempts w mode n err s))"
proof (induction n arbitrary: err s)
  case (Suc n)
  let ?t = "snd (issue w (SetMode mode) s)"
  have t: "locked ?t" using Suc.prems by (rule locked_intros)
  then have "locked (if 0 < n then look w (emit (TaskDelay PROVISIONING_WIFI_MODE_RETRY_DELAY_MS) ?t) else ?t)"
    using assms by (auto intro: locked_simple)
  from Suc.IH [OF this] t show ?case by (simp add: split_beta Let_def)
qed simp

lemma mode_locked [locked_intros]:
  assumes "wifi_world_ok w" "locked s"
  shows "locked (snd (apply_wifi_mode_unlocked w s))"
  using mode_attempts_locked [OF assms(1) locked_simple(7) [OF assms]]
  by (simp add: apply_wifi_mode_unlocked_def set_wifi_mode_with_retry_def select_wifi_mode_from_flags_def split_beta Let_def)

lemma dhcp_locked [locked_intros]: "locked s \<Longrightarrow> locked (snd (configure_ap_ip_and_dhcp w s))"
  by (simp add: configure_ap_ip_and_dhcp_def locked_intros del: issue_all.simps)

text \<open>A wait keeps what every pause keeps.\<close>

lemma wait_dns_keeps:
  assumes "\<And>s. P s \<Longrightarrow> P (look w s)" "\<And>s. P s \<Longrightarrow> P (emit (TaskDelay 20) s)"
  shows "wait_dns_task w s = Some s' \<Longrightarrow> P s \<Longrightarrow> P s'"
proof -
  have "v = w \<longrightarrow> P s \<longrightarrow> P s'" if "wait_dns_task v s = Some s'" for v
    using _ that
  proof (rule wait_dns_task.raw_induct [where P = "\<lambda>v s s'. v = w \<longrightarrow> P s \<longrightarrow> P s'"])
    fix wait v s s'
    assume IH: "\<And>v s s'. wait v s = Some s' \<Longrightarrow> v = w \<longrightarrow> P s \<longrightarrow> P s'"
      and turn: "(let s = look v s in if dns_task (dns s) then wait v (emit (TaskDelay 20) s) else Some s) = Some s'"
    show "v = w \<longrightarrow> P s \<longrightarrow> P s'"
      using turn IH [of w "emit (TaskDelay 20) (look w s)" s'] assms(1) [of s] assms(2) [of "look w s"]
      by (auto simp: Let_def split: if_splits)
  qed
  then show "wait_dns_task w s = Some s' \<Longrightarrow> P s \<Longrightarrow> P s'" by blast
qed

lemma wait_dns_locked:
  assumes "wifi_world_ok w" "wait_dns_task w s = Some s'" "locked s"
  shows "locked s'"
  by (rule wait_dns_keeps [where P = locked, OF locked_simple(7) [OF assms(1)] locked_simple(2) assms(2,3)])

lemma set_dns_locked [locked_intros]: "locked s \<Longrightarrow> locked (set_dns f s)"
  by (simp add: set_dns_def locked_def)

lemma dns_start_locked:
  assumes w: "wifi_world_ok w" and s: "locked s" and r: "provisioning_captive_dns_start w netif s = Some (err, s')"
  shows "locked s'"
proof (cases "\<not> netif \<or> dns_started (dns (look w s))")
  case True
  then show ?thesis using r locked_simple(7) [OF w s] s by (auto simp: provisioning_captive_dns_start_def Let_def split: if_splits)
next
  case False
  then obtain t where t: "wait_dns_task w (look w s) = Some t"
    using r by (auto simp: provisioning_captive_dns_start_def Let_def split: bind_splits)
  have "locked t" using wait_dns_locked [OF w t locked_simple(7) [OF w s]] .
  with False r t show ?thesis
    by (auto simp: provisioning_captive_dns_start_def split_beta Let_def intro!: set_dns_locked locked_simple(1-3) split: if_splits)
qed

lemma dns_stop_locked:
  assumes w: "wifi_world_ok w" and s: "locked s" and r: "provisioning_captive_dns_stop w s = Some (err, s')"
  shows "locked s'"
proof -
  have l: "locked (set_dns (\<lambda>d. d\<lparr>dns_started := False\<rparr>) (look w s))" using w s by (blast intro: locked_intros)
  then have "locked (emit e (set_dns (\<lambda>d. d\<lparr>dns_started := False\<rparr>) (look w s)))" for e by (rule locked_intros)
  then show ?thesis
    using r l wait_dns_locked [OF w] s w
    by (auto simp: provisioning_captive_dns_stop_def Let_def intro: locked_intros split: if_splits bind_splits)
qed

section \<open>The operations of the header\<close>

lemma start_ap_idle:
  assumes w: "wifi_world_ok w" and s: "idle s" and r: "provisioning_runtime_start_ap w s = Some (err, s')"
  shows "idle s'"
proof (cases "fst (ensure_runtime_ready w s) = ESP_OK")
  case True
  let ?t = "snd (ensure_runtime_ready w s)"
  have t: "idle ?t" using w s by (rule ensure_idle)
  obtain e u where u: "lock_wifi_operation w ?t = Some (e, u)"
    using r True by (auto simp: provisioning_runtime_start_ap_def split_beta Let_def split: bind_splits)
  show ?thesis
  proof (rule lock_cases [OF w t u])
    assume "e \<noteq> ESP_OK" "u = ?t"
    with r True u t show ?thesis by (auto simp: provisioning_runtime_start_ap_def split_beta Let_def)
  next
    assume e: "e = ESP_OK" and u': "locked u"
    have ap: "locked (set_rt (\<lambda>r. r\<lparr>wr_ap_started := b\<rparr>) v)" if "locked v" for b v using that by (simp add: locked_def)
    from r True u e u' show ?thesis
      by (auto simp: provisioning_runtime_start_ap_def split_beta Let_def
          intro!: unlock_idle mode_locked [OF w] ap locked_simple(7) [OF w] dhcp_locked wifi_started_locked
          dest!: dns_start_locked [OF w, rotated] split: if_splits bind_splits)
  qed
next
  case False
  with r ensure_idle [OF w s] show ?thesis by (auto simp: provisioning_runtime_start_ap_def split_beta Let_def)
qed

text \<open>An operation that starts with the mutex: nothing without it, or the body in its possession.\<close>

lemma under_mutex:
  assumes w: "wifi_world_ok w" and s: "idle s"
    and r: "do { (err, t) \<leftarrow> lock_wifi_operation w s; if err \<noteq> ESP_OK then fail err t else body t } = Some result"
    and fail: "\<And>err. fail err s = Some result \<Longrightarrow> idle (out result)"
    and body: "\<And>t. locked t \<Longrightarrow> body t = Some result \<Longrightarrow> idle (out result)"
  shows "idle (out result)"
proof -
  obtain e t where t: "lock_wifi_operation w s = Some (e, t)" using r by (auto split: bind_splits)
  show ?thesis
    by (rule lock_cases [OF w s t]) (use r t fail body in \<open>auto split: if_splits\<close>)
qed

lemma stop_ap_idle:
  assumes w: "wifi_world_ok w" and s: "idle s" and r: "provisioning_runtime_stop_ap w s = Some (err, s')"
  shows "idle s'"
proof -
  have off: "locked (set_rt (\<lambda>r. r\<lparr>wr_ap_started := False, wr_automatic_recovery_ap := False\<rparr>) v)" if "locked v" for v
    using that by (simp add: locked_def)
  have "idle (snd (err, s'))"
    using r unfolding provisioning_runtime_stop_ap_def
  proof (rule under_mutex [OF w s])
    fix t
    assume t: "locked t"
      and body: "(let s = lock_state w t
         in if \<not> wr_ap_started (rt s) then Some (ESP_OK, unlock_wifi_operation s)
            else do {
              (err, s) \<leftarrow> provisioning_captive_dns_stop w s;
              if err \<noteq> ESP_OK then Some (err, unlock_wifi_operation s)
              else let s = set_rt (\<lambda>r. r\<lparr>wr_ap_started := False, wr_automatic_recovery_ap := False\<rparr>) (lock_state w s);
                       (err, s) = apply_wifi_mode_unlocked w s
                in Some (err, unlock_wifi_operation s)
            }) = Some (err, s')"
    have l: "locked (lock_state w t)" using w t by (rule locked_intros)
    show "idle (snd (err, s'))"
      using body l by (auto simp: split_beta Let_def intro!: unlock_idle mode_locked [OF w] off locked_simple(7) [OF w]
          dest!: dns_stop_locked [OF w l] split: if_splits bind_splits)
  qed (use s in auto)
  then show ?thesis by simp
qed

lemma start_sta_idle:
  assumes w: "wifi_world_ok w" and s: "idle s" and r: "provisioning_runtime_start_sta w config s = Some (err, s')"
  shows "idle s'"
proof (cases "config = None \<or> provision_config_validate config \<noteq> PROVISION_CONFIG_OK \<or> fst (ensure_runtime_ready w s) \<noteq> ESP_OK")
  case True
  with r s ensure_idle [OF w s] show ?thesis
    by (auto simp: provisioning_runtime_start_sta_def split_beta Let_def split: option.splits if_splits)
next
  case False
  then obtain c where c: "config = Some c" "provision_config_validate (Some c) = PROVISION_CONFIG_OK"
    "fst (ensure_runtime_ready w s) = ESP_OK" by auto
  let ?t = "snd (ensure_runtime_ready w s)"
  have t: "idle ?t" using w s by (rule ensure_idle)
  obtain e u where u: "lock_wifi_operation w ?t = Some (e, u)"
    using r c by (auto simp: provisioning_runtime_start_sta_def split_beta Let_def split: bind_splits)
  show ?thesis
  proof (rule lock_cases [OF w t u])
    assume "e \<noteq> ESP_OK" "u = ?t"
    with r c u t show ?thesis by (auto simp: provisioning_runtime_start_sta_def split_beta Let_def)
  next
    assume e: "e = ESP_OK" and u': "locked u"
    have on: "locked (set_rt (station_started now c) v)" "locked (set_rt station_stopped v)" if "locked v" for v now
      using that by (simp_all add: locked_def)
    from r c u e u' show ?thesis
      by (auto simp: provisioning_runtime_start_sta_def split_beta Let_def simp del: issue_all.simps
          intro!: unlock_idle mode_locked [OF w] on locked_simple(1-6) locked_simple(7) [OF w] wifi_started_locked
          split: if_splits)
  qed
qed

lemma stop_sta_idle:
  assumes w: "wifi_world_ok w" and s: "idle s" and r: "provisioning_runtime_stop_sta w s = Some (err, s')"
  shows "idle s'"
proof -
  obtain e t where t: "lock_wifi_operation w s = Some (e, t)"
    using r by (auto simp: provisioning_runtime_stop_sta_def split: bind_splits)
  show ?thesis
  proof (rule lock_cases [OF w s t])
    assume "e = ESP_OK" "locked t"
    have off: "locked (set_rt (\<lambda>r. (station_stopped r)\<lparr>wr_sta_interface_ready := False, wr_sta_stop_pending := b r\<rparr>) v)"
      if "locked v" for v b
      using that by (simp add: locked_def)
    show ?thesis
      using r t \<open>e = ESP_OK\<close> \<open>locked t\<close>
      by (auto simp: provisioning_runtime_stop_sta_def split_beta Let_def
          intro!: unlock_idle mode_locked [OF w] off locked_simple(1-6) locked_simple(7) [OF w] split: if_splits)
  qed (use r t s in \<open>auto simp: provisioning_runtime_stop_sta_def\<close>)
qed

lemma pause_idle:
  assumes w: "wifi_world_ok w" and s: "idle s" and r: "provisioning_runtime_pause_retries w s = Some (err, s')"
  shows "idle s'"
proof -
  obtain e t where t: "lock_wifi_operation w s = Some (e, t)"
    using r by (auto simp: provisioning_runtime_pause_retries_def split: bind_splits)
  show ?thesis
  proof (rule lock_cases [OF w s t])
    assume "e = ESP_OK" "locked t"
    have off: "locked (set_rt (\<lambda>r. r\<lparr>wr_retry := (provisioning_retry_pause (wr_retry r))\<lparr>rt_in_flight := False\<rparr>,
        wr_sta_connecting := False\<rparr>) v)" if "locked v" for v
      using that wifi_ok_paused by (simp add: locked_def)
    show ?thesis
      using r t \<open>e = ESP_OK\<close> \<open>locked t\<close>
      by (auto simp: provisioning_runtime_pause_retries_def split_beta Let_def
          intro!: idle_simple(6) unlock_idle off locked_simple(1-6) locked_simple(7) [OF w] split: if_splits)
  qed (use r t s in \<open>auto simp: provisioning_runtime_pause_retries_def\<close>)
qed

lemma recovery_idle:
  assumes w: "wifi_world_ok w" and s: "idle s" and r: "provisioning_runtime_enter_stable_recovery w s = Some (err, s')"
  shows "idle s'"
proof -
  obtain t where t: "provisioning_runtime_start_ap w s = Some (err, t)"
      "s' = (if err = ESP_OK then set_rt (\<lambda>r. r\<lparr>wr_automatic_recovery_ap := True\<rparr>) (lock_state w t) else t)"
    using r by (auto simp: provisioning_runtime_enter_stable_recovery_def split: bind_splits)
  then show ?thesis using start_ap_idle [OF w s t(1)] w by (auto simp: idle_def)
qed

lemma init_idle:
  assumes w: "wifi_world_ok w" and s: "idle s" and r: "provisioning_runtime_init w config f c s = Some (err, s')"
  shows "idle s'"
proof (cases "fst (ensure_runtime_ready w s) = ESP_OK")
  case True
  let ?t = "set_rt (\<lambda>r. r\<lparr>wr_callback := f, wr_callback_context := c\<rparr>) (lock_state w (snd (ensure_runtime_ready w s)))"
  have t: "idle ?t" using w ensure_idle [OF w s] by (simp add: idle_def)
  from r True show ?thesis
    by (auto simp: provisioning_runtime_init_def split_beta Let_def intro!: dispatch_idle(2) [OF w]
        dest!: start_sta_idle [OF w t] start_ap_idle [OF w t] split: if_splits bind_splits)
next
  case False
  with r ensure_idle [OF w s] show ?thesis by (auto simp: provisioning_runtime_init_def split_beta Let_def)
qed

lemma restore_locked [locked_intros]:
  "wifi_world_ok w \<Longrightarrow> locked s \<Longrightarrow> locked (snd (finish_scan_restore_if_needed w restore err s))"
  by (simp add: finish_scan_restore_if_needed_def split_beta Let_def mode_locked)

lemma scan_locked [locked_intros]:
  assumes "wifi_world_ok w" "locked s"
  shows "locked (snd (snd (scan_networks w restore capacity s)))"
  using assms unfolding scan_networks_def split_beta Let_def
  by (auto intro!: restore_locked locked_simple(1-3))

lemma scan_idle:
  assumes w: "wifi_world_ok w" and s: "idle s" and r: "provisioning_runtime_scan w capacity s = Some (err, records, s')"
  shows "idle s'"
proof (cases "capacity = None \<or> capacity = Some 0 \<or> fst (ensure_runtime_ready w s) \<noteq> ESP_OK")
  case True
  with r s ensure_idle [OF w s] show ?thesis
    by (auto simp: provisioning_runtime_scan_def split_beta Let_def split: option.splits if_splits)
next
  case False
  then obtain n where c: "capacity = Some n" "n \<noteq> 0" "fst (ensure_runtime_ready w s) = ESP_OK" by auto
  let ?t = "snd (ensure_runtime_ready w s)"
  have t: "idle ?t" using w s by (rule ensure_idle)
  obtain e u where u: "lock_wifi_operation w ?t = Some (e, u)"
    using r c by (auto simp: provisioning_runtime_scan_def split_beta Let_def split: bind_splits)
  show ?thesis
  proof (rule lock_cases [OF w t u])
    assume "e \<noteq> ESP_OK" "u = ?t"
    with r c u t show ?thesis by (auto simp: provisioning_runtime_scan_def split_beta Let_def)
  next
    assume e: "e = ESP_OK" and u': "locked u"
    from r c u e u' show ?thesis
      by (auto simp: provisioning_runtime_scan_def split_beta Let_def
          intro!: unlock_idle scan_locked [OF w] locked_simple(1-6) locked_simple(7) [OF w] wifi_started_locked split: if_splits)
  qed
qed

lemma dns_idle:
  assumes w: "wifi_world_ok w" and s: "idle s"
  shows "captive_dns_turn w s = Some (go_on, s') \<Longrightarrow> idle s'" "idle (captive_dns_exit sock s)"
  using w s idle_simple by (auto simp: captive_dns_turn_def captive_dns_exit_def set_dns_def split_beta Let_def idle_def
      split: if_splits dns_frame.splits option.splits bind_splits)

section \<open>Runs\<close>

text \<open>What the tasks, the driver and the application do with the runtime.\<close>

datatype wifi_call =
    RuntimeInit "provision_config option" "nat option" nat
  | StartAp
  | StopAp
  | StartSta "provision_config option"
  | StopSta
  | PauseRetries
  | EnterStableRecovery
  | Scan "nat option"
  | NotifyMqttFailed
  | NotifyMqttConnected
  | DriverEvent driver_event
  | TimeoutTurn
  | CallbackTurn
  | DnsTask int nat

fun run_wifi_call :: "wifi_world \<Rightarrow> wifi_call \<Rightarrow> wifi_task \<Rightarrow> wifi_task option" where
  "run_wifi_call w (RuntimeInit config f c) s = map_option snd (provisioning_runtime_init w config f c s)"
| "run_wifi_call w StartAp s = map_option snd (provisioning_runtime_start_ap w s)"
| "run_wifi_call w StopAp s = map_option snd (provisioning_runtime_stop_ap w s)"
| "run_wifi_call w (StartSta config) s = map_option snd (provisioning_runtime_start_sta w config s)"
| "run_wifi_call w StopSta s = map_option snd (provisioning_runtime_stop_sta w s)"
| "run_wifi_call w PauseRetries s = map_option snd (provisioning_runtime_pause_retries w s)"
| "run_wifi_call w EnterStableRecovery s = map_option snd (provisioning_runtime_enter_stable_recovery w s)"
| "run_wifi_call w (Scan capacity) s = map_option (snd \<circ> snd) (provisioning_runtime_scan w capacity s)"
| "run_wifi_call w NotifyMqttFailed s = Some (snd (provisioning_runtime_notify_mqtt_failed w s))"
| "run_wifi_call w NotifyMqttConnected s = Some (snd (provisioning_runtime_notify_mqtt_connected w s))"
| "run_wifi_call w (DriverEvent event) s = wifi_event_handler w event s"
| "run_wifi_call w TimeoutTurn s = wifi_timeout_turn w s"
| "run_wifi_call w CallbackTurn s = Some (event_callback_turn w s)"
| "run_wifi_call w (DnsTask sock n) s = captive_dns_task w sock n s"

fun run_wifi_calls :: "wifi_world \<Rightarrow> wifi_call list \<Rightarrow> wifi_task \<Rightarrow> wifi_task option" where
  "run_wifi_calls w [] s = Some s"
| "run_wifi_calls w (c # calls) s = do { s \<leftarrow> run_wifi_call w c s; run_wifi_calls w calls s }"

lemma dns_task_idle:
  assumes "wifi_world_ok w"
  shows "captive_dns_task w sock n s = Some s' \<Longrightarrow> idle s \<Longrightarrow> idle s'"
  using dns_idle [OF assms] by (induction n arbitrary: s) (auto split: bind_splits if_splits)

lemma wifi_call_idle:
  assumes w: "wifi_world_ok w" and s: "idle s" and r: "run_wifi_call w c s = Some s'"
  shows "idle s'"
  using r init_idle [OF w s] start_ap_idle [OF w s] stop_ap_idle [OF w s] start_sta_idle [OF w s] stop_sta_idle [OF w s]
    pause_idle [OF w s] recovery_idle [OF w s] scan_idle [OF w s] wifi_event_idle [OF w s] timeout_turn_idle [OF w s]
    callback_idle [OF w s] dispatch_idle(2) [OF w s] dns_task_idle [OF w _ s]
  by (cases c) (auto simp: provisioning_runtime_notify_mqtt_failed_def provisioning_runtime_notify_mqtt_connected_def)

lemma wifi_calls_idle:
  assumes "wifi_world_ok w"
  shows "run_wifi_calls w calls s = Some s' \<Longrightarrow> idle s \<Longrightarrow> idle s'"
  by (induction calls arbitrary: s) (auto split: bind_splits dest: wifi_call_idle [OF assms])

section \<open>Every operation returns\<close>

text \<open>
  While this task waits with the mutex for a name server that was told to stop, no other task starts it again, and
  its task comes closer to its end.
\<close>

definition dns_ends :: "wifi_world \<Rightarrow> (wifi_runtime \<Rightarrow> nat) \<Rightarrow> bool" where
  "dns_ends w m \<longleftrightarrow> (\<forall>t r. \<not> dns_started (wr_dns r) \<longrightarrow> \<not> dns_started (wr_dns (ww_others w t True r)) \<and>
     (dns_task (wr_dns (ww_others w t True r)) \<longrightarrow> m (ww_others w t True r) < m r))"

definition gateway_ok :: "wifi_world \<Rightarrow> bool" where
  "gateway_ok w \<longleftrightarrow> (\<forall>t ip. ww_gateway w t = Some ip \<longrightarrow> length ip = 4)"

lemma wait_returns:
  assumes "dns_ends w m"
  shows "wt_holds s \<Longrightarrow> \<not> dns_started (dns s) \<Longrightarrow> \<exists>s'. wait_dns_task w s = Some s'"
proof (induction "m (rt s)" arbitrary: s rule: less_induct)
  case less
  have l: "\<not> dns_started (dns (look w s))" "dns_task (dns (look w s)) \<Longrightarrow> m (rt (look w s)) < m (rt s)"
    using assms less.prems by (simp_all add: dns_ends_def lock_state_def)
  show ?case
  proof (cases "dns_task (dns (look w s))")
    case True
    with less.hyps [of "emit (TaskDelay 20) (look w s)"] less.prems l
    show ?thesis by (subst wait_dns_task.simps) (simp add: Let_def)
  next
    case False
    then show ?thesis by (subst wait_dns_task.simps) (simp add: Let_def)
  qed
qed

lemma dns_start_returns:
  assumes "dns_ends w m" "wt_holds s"
  shows "\<exists>err s'. provisioning_captive_dns_start w netif s = Some (err, s')"
  using wait_returns [OF assms(1), of "look w s"] assms(2)
  by (cases "dns_started (dns (look w s))") (auto simp: provisioning_captive_dns_start_def Let_def split_beta)

lemma dns_stop_returns:
  assumes "dns_ends w m" "wt_holds s"
  shows "\<exists>err s'. provisioning_captive_dns_stop w s = Some (err, s')"
proof -
  let ?t = "set_dns (\<lambda>d. d\<lparr>dns_started := False\<rparr>) (look w s)"
  have r: "\<exists>s'. wait_dns_task w ?t = Some s'" "\<exists>s'. wait_dns_task w (emit e ?t) = Some s'" for e
    using assms(2) by (auto intro!: wait_returns [OF assms(1)] simp: set_dns_def)
  show ?thesis
    using r(1) r(2) [of "DnsShutdown (dns_sock (dns ?t))"]
    by (auto simp: provisioning_captive_dns_stop_def Let_def)
qed

lemma lock_returns: "idle s \<Longrightarrow> \<exists>err t. lock_wifi_operation w s = Some (err, t)"
  by (simp add: lock_wifi_operation_def idle_def)

lemma locked_holds: "locked s \<Longrightarrow> wt_holds s"
  by (simp add: locked_def)

lemma start_ap_returns:
  assumes w: "wifi_world_ok w" and d: "dns_ends w m" and s: "idle s"
  shows "\<exists>err s'. provisioning_runtime_start_ap w s = Some (err, s')"
proof -
  let ?t = "snd (ensure_runtime_ready w s)"
  have t: "idle ?t" using w s by (rule ensure_idle)
  obtain e u where u: "lock_wifi_operation w ?t = Some (e, u)" using lock_returns [OF t] by blast
  show ?thesis
  proof (rule lock_cases [OF w t u])
    assume "e = ESP_OK" and u': "locked u"
    have on: "locked (set_rt (\<lambda>r. r\<lparr>wr_ap_started := True\<rparr>) v)" if "locked v" for v using that by (simp add: locked_def)
    let ?v = "snd (configure_ap_ip_and_dhcp w (snd (apply_wifi_mode_unlocked w (set_rt (\<lambda>r. r\<lparr>wr_ap_started := True\<rparr>)
        (lock_state w (lock_state w (snd (ensure_wifi_started_unlocked w u))))))))"
    have "wt_holds ?v"
      using u' by (intro locked_holds dhcp_locked mode_locked [OF w] on locked_simple(7) [OF w] wifi_started_locked)
    then obtain err v where "provisioning_captive_dns_start w (wr_ap_netif (rt ?v)) ?v = Some (err, v)"
      using dns_start_returns [OF d] by blast
    with u \<open>e = ESP_OK\<close> show ?thesis
      by (simp add: provisioning_runtime_start_ap_def split_beta Let_def)
  qed (use u in \<open>auto simp: provisioning_runtime_start_ap_def split_beta Let_def\<close>)
qed

lemma stop_ap_returns:
  assumes w: "wifi_world_ok w" and d: "dns_ends w m" and s: "idle s"
  shows "\<exists>err s'. provisioning_runtime_stop_ap w s = Some (err, s')"
proof -
  obtain e u where u: "lock_wifi_operation w s = Some (e, u)" using lock_returns [OF s] by blast
  show ?thesis
  proof (rule lock_cases [OF w s u])
    assume "e = ESP_OK" and u': "locked u"
    then have "wt_holds (lock_state w u)" by (simp add: locked_def)
    from dns_stop_returns [OF d this] u \<open>e = ESP_OK\<close> show ?thesis
      by (auto simp: provisioning_runtime_stop_ap_def split_beta Let_def)
  qed (use u in \<open>auto simp: provisioning_runtime_stop_ap_def\<close>)
qed

lemma start_sta_returns:
  assumes "wifi_world_ok w" "idle s"
  shows "\<exists>err s'. provisioning_runtime_start_sta w config s = Some (err, s')"
proof -
  obtain e u where "lock_wifi_operation w (snd (ensure_runtime_ready w s)) = Some (e, u)"
    using lock_returns [OF ensure_idle [OF assms]] by blast
  then show ?thesis by (auto simp: provisioning_runtime_start_sta_def split_beta Let_def split: option.split)
qed

lemma scan_returns:
  assumes "wifi_world_ok w" "idle s"
  shows "\<exists>result. provisioning_runtime_scan w capacity s = Some result"
proof -
  obtain e u where "lock_wifi_operation w (snd (ensure_runtime_ready w s)) = Some (e, u)"
    using lock_returns [OF ensure_idle [OF assms]] by blast
  then show ?thesis by (auto simp: provisioning_runtime_scan_def split_beta Let_def split: option.split)
qed

lemma init_returns:
  assumes w: "wifi_world_ok w" and d: "dns_ends w m" and s: "idle s"
  shows "\<exists>err s'. provisioning_runtime_init w config f c s = Some (err, s')"
proof -
  let ?t = "set_rt (\<lambda>r. r\<lparr>wr_callback := f, wr_callback_context := c\<rparr>) (lock_state w (snd (ensure_runtime_ready w s)))"
  have t: "idle ?t" using w ensure_idle [OF w s] by (simp add: idle_def)
  show ?thesis
    using start_sta_returns [OF w t, of config] start_ap_returns [OF w d t]
    by (auto simp: provisioning_runtime_init_def split_beta Let_def)
qed

lemma dns_turn_returns:
  assumes "gateway_ok w"
  shows "\<exists>result. captive_dns_turn w s = Some result"
proof -
  have r: "\<exists>n reply. build_wildcard_reply request DNS_MAX_LEN ip = Some (n, reply)" if "ww_gateway w t = Some ip" for t ip request
    using build_wildcard_reply_safe [of ip request DNS_MAX_LEN] assms that by (auto simp: gateway_ok_def)
  obtain frame s\<^sub>1 where f: "consult (ww_frame w) (look w s) = (frame, s\<^sub>1)" by fastforce
  show ?thesis
  proof (cases frame)
    case (DNS_FRAME sender request)
    obtain gateway s\<^sub>2 where g: "consult (ww_gateway w) s\<^sub>1 = (gateway, s\<^sub>2)" by fastforce
    show ?thesis
    proof (cases gateway)
      case (Some ip)
      with g have "ww_gateway w (wt_turn s\<^sub>1) = Some ip" by (simp add: consult_def)
      from r [OF this, of "take DNS_REQUEST_SIZE request"] f g DNS_FRAME Some show ?thesis
        by (auto simp: captive_dns_turn_def Let_def)
    qed (use f g DNS_FRAME in \<open>auto simp: captive_dns_turn_def Let_def\<close>)
  qed (use f in \<open>auto simp: captive_dns_turn_def Let_def\<close>)
qed

lemma dns_task_returns:
  assumes "gateway_ok w"
  shows "\<exists>s'. captive_dns_task w sock n s = Some s'"
proof (induction n arbitrary: s)
  case (Suc n)
  then show ?case using dns_turn_returns [OF assms, of s] by auto
qed simp

lemma wifi_call_returns:
  assumes w: "wifi_world_ok w" and d: "dns_ends w m" and g: "gateway_ok w" and s: "idle s"
  shows "\<exists>s'. run_wifi_call w c s = Some s'"
proof -
  obtain e u where u: "lock_wifi_operation w s = Some (e, u)" using lock_returns [OF s] by blast
  obtain e' u' where u': "lock_wifi_operation w (look w s) = Some (e', u')"
    using lock_returns [OF idle_simple(7) [OF w s]] by blast
  show ?thesis
proof (cases c)
  case TimeoutTurn
  then show ?thesis using u' by (auto simp: wifi_timeout_turn_def split_beta Let_def)
next
  case (DriverEvent event)
  then show ?thesis using u by (auto simp: wifi_event_handler_def split_beta Let_def)
next
  case EnterStableRecovery
  then show ?thesis using start_ap_returns [OF w d s] by (auto simp: provisioning_runtime_enter_stable_recovery_def)
next
  case StopSta
  then show ?thesis using u by (auto simp: provisioning_runtime_stop_sta_def split_beta Let_def)
next
  case PauseRetries
  then show ?thesis using u by (auto simp: provisioning_runtime_pause_retries_def split_beta Let_def)
next
  case (RuntimeInit config f cx)
  then show ?thesis using init_returns [OF w d s, of config f cx] by auto
next
  case (StartSta config)
  then show ?thesis using start_sta_returns [OF w s, of config] by auto
next
  case (Scan capacity)
  then show ?thesis using scan_returns [OF w s, of capacity] by auto
next
  case (DnsTask sock n)
  then show ?thesis using dns_task_returns [OF g, of sock n s] by simp
qed (use start_ap_returns [OF w d s] stop_ap_returns [OF w d s] in auto)
qed

end
