(* ===== verification/Wifi_Station_Correct.thy ===== *)
theory Wifi_Station_Correct
  imports Wifi_Runtime_Correct
begin

text \<open>
  The properties of the Wi-Fi runtime: what its status says, that its operations end, what a started station
  is, and what becomes of a name that fills its field.
\<close>

section \<open>A world without other tasks\<close>

definition quiet_air :: wifi_world where
  "quiet_air = \<lparr>ww_others = (\<lambda>_ _ r. r), ww_answer = (\<lambda>_. ESP_OK), ww_clock = (\<lambda>_. 5000), ww_random = (\<lambda>_. 7),
     ww_ap_info = (\<lambda>_. (ESP_OK, \<lparr>ar_ssid = cs ''home'' @ replicate 29 0, ar_rssi = -50, ar_authmode = 3\<rparr>)),
     ww_ip_info = (\<lambda>_. (ESP_OK, 0x0A00000A)), ww_ip_text = (\<lambda>_. Some (cs ''10.0.0.10'')),
     ww_mac = (\<lambda>_. (ESP_OK, [1, 2, 3, 4, 5, 6])), ww_mode = (\<lambda>_. WIFI_MODE_STA), ww_scan_count = (\<lambda>_. 0),
     ww_scan_records = (\<lambda>_. []), ww_socket = (\<lambda>_. 3), ww_frame = (\<lambda>_. DNS_TIMEOUT), ww_gateway = (\<lambda>_. None)\<rparr>"

definition boot_air :: wifi_task where
  "boot_air = \<lparr>wt_shared = wifi_boot, wt_turn = 0, wt_effects = [], wt_holds = False\<rparr>"

lemma quiet_air_ok: "wifi_world_ok quiet_air" "gateway_ok quiet_air"
  by (simp_all add: wifi_world_ok_def gateway_ok_def quiet_air_def)

lemma boot_air_idle: "idle boot_air"
  by (simp add: idle_def boot_air_def wifi_boot_def wifi_ok_def station_ok_def queue_ok_def retry_zero_def
      PROVISION_WIFI_SSID_MAX_def)

section \<open>The status\<close>

definition status_ok :: "runtime_status \<Rightarrow> bool" where
  "status_ok st \<longleftrightarrow> (ru_sta_has_ip st \<longrightarrow> ru_sta_started st \<and> \<not> ru_sta_connecting st) \<and>
     (ru_sta_connecting st \<longrightarrow> ru_sta_started st) \<and> (ru_sta_started st \<longleftrightarrow> ru_sta_attempt_generation st \<noteq> 0) \<and>
     (ru_sta_has_ip st \<longrightarrow> \<not> ru_automatic_recovery_due st)"

lemma status_consistent_now:
  assumes "wifi_world_ok w" "idle s"
  shows "status_ok (fst (provisioning_runtime_get_status w s))"
proof -
  have "idle (lock_state w s)" using assms by (rule idle_simple(7))
  then show ?thesis
    by (auto simp: status_ok_def provisioning_runtime_get_status_def split_beta Let_def idle_def wifi_ok_def station_ok_def)
qed

text \<open>
  C23: Whatever the application, the driver and the tasks do with the runtime from the boot on, in any order, its status is
  consistent: a station with an address is started and not connecting, one that connects is started, a
  generation is there exactly while the station is, and no recovery is due while there is an address.
\<close>

theorem status_stays_consistent:
  assumes "wifi_world_ok w" and "idle s" and "run_wifi_calls w calls s = Some s'"
  shows "status_ok (fst (provisioning_runtime_get_status w s'))"
  using assms(1) wifi_calls_idle [OF assms(1,3,2)] by (rule status_consistent_now)

section \<open>Operations end\<close>

text \<open>
  C22: Every operation of the runtime, every event of the driver and every turn of its tasks returns and leaves the Wi-Fi
  mutex free and the invariant in place, when the other tasks do what they promise and a name server that was
  told to stop comes to its end.
\<close>

theorem operations_return_the_mutex:
  assumes "wifi_world_ok w" and "dns_ends w m" and "gateway_ok w" and "idle s"
  shows "\<exists>s'. run_wifi_call w c s = Some s' \<and> wifi_ok (rt s') \<and> \<not> wt_holds s'"
  using wifi_call_returns [OF assms, of c] wifi_call_idle [OF assms(1,4)] by (auto simp: idle_def)

section \<open>A started station\<close>

lemma issue_all_done:
  "fst (issue_all w es s) = ESP_OK \<Longrightarrow> set es \<subseteq> set (wt_effects (snd (issue_all w es s)))"
proof -
  have grows: "set (wt_effects s) \<subseteq> set (wt_effects (snd (issue_all w es s)))" for es s
  proof (induction es arbitrary: s)
    case (Cons e es)
    from Cons [of "snd (issue w e s)"] show ?case
      by (auto simp: split_beta Let_def issue_def emit_def consult_def)
  qed simp
  show "fst (issue_all w es s) = ESP_OK \<Longrightarrow> ?thesis"
  proof (induction es arbitrary: s)
    case (Cons e es)
    with grows [of "snd (issue w e s)" es] show ?case
      by (auto simp: split_beta Let_def issue_def emit_def consult_def split: if_splits)
  qed simp
qed

lemma mode_attempts_protected:
  assumes "wifi_world_ok w"
  shows "wt_holds s \<Longrightarrow> protected (rt (snd (set_wifi_mode_attempts w mode n err s))) = protected (rt s)"
proof (induction n arbitrary: err s)
  case (Suc n)
  let ?t = "snd (issue w (SetMode mode) s)"
  let ?u = "if 0 < n then look w (emit (TaskDelay PROVISIONING_WIFI_MODE_RETRY_DELAY_MS) ?t) else ?t"
  have "wt_holds ?u" "protected (rt ?u) = protected (rt s)"
    using Suc.prems lock_state_protected [OF assms, of "emit (TaskDelay PROVISIONING_WIFI_MODE_RETRY_DELAY_MS) ?t"]
    by simp_all
  with Suc.IH [of ?u] show ?case by (cases "n = 0") (simp_all add: split_beta Let_def)
qed simp

lemma mode_protected:
  assumes "wifi_world_ok w" "wt_holds s"
  shows "protected (rt (snd (apply_wifi_mode_unlocked w s))) = protected (rt s)"
  using mode_attempts_protected [OF assms(1), of "lock_state w s"] lock_state_protected [OF assms] assms(2)
  by (simp add: apply_wifi_mode_unlocked_def set_wifi_mode_with_retry_def select_wifi_mode_from_flags_def split_beta Let_def)

lemma effects_unlock [simp]: "wt_effects (unlock_wifi_operation s) = wt_effects s"
  by (simp add: unlock_wifi_operation_def)

lemma effects_schedule: "set (wt_effects s) \<subseteq> set (wt_effects (schedule_wifi_timeout g s))"
  by (auto simp: schedule_wifi_timeout_def emit_def)

text \<open>What a successful start leaves.\<close>

definition station_up :: "provision_config \<Rightarrow> wifi_task \<Rightarrow> bool" where
  "station_up c s \<longleftrightarrow> SetStaProfile (station_profile c) \<in> set (wt_effects s) \<and> wr_sta_started (rt s) \<and>
     \<not> wr_sta_has_ip (rt s) \<and> wr_active_generation (rt s) \<noteq> 0 \<and> rt_enabled (wr_retry (rt s)) \<and>
     \<not> rt_paused (wr_retry (rt s)) \<and> length (wr_expected_ssid (rt s)) = PROVISION_WIFI_SSID_MAX + 1 \<and>
     cstr (wr_expected_ssid (rt s)) = take PROVISION_WIFI_SSID_MAX (cstr (wifi_ssid c))"

lemma station_started_facts:
  assumes "wifi_ok r"
  shows "wr_sta_started (station_started now c r)" "\<not> wr_sta_has_ip (station_started now c r)"
    "wr_active_generation (station_started now c r) \<noteq> 0" "rt_enabled (wr_retry (station_started now c r))"
    "\<not> rt_paused (wr_retry (station_started now c r))"
    "length (wr_expected_ssid (station_started now c r)) = PROVISION_WIFI_SSID_MAX + 1"
    "cstr (wr_expected_ssid (station_started now c r)) = take PROVISION_WIFI_SSID_MAX (cstr (wifi_ssid c))"
proof -
  have "wr_expected_ssid (snd (next_sta_attempt_generation r)) \<noteq> []" "length (wr_expected_ssid r) = PROVISION_WIFI_SSID_MAX + 1"
    using assms by (auto simp: wifi_ok_def next_sta_attempt_generation_def Let_def)
  then show "wr_sta_started (station_started now c r)" "\<not> wr_sta_has_ip (station_started now c r)"
    "wr_active_generation (station_started now c r) \<noteq> 0" "rt_enabled (wr_retry (station_started now c r))"
    "\<not> rt_paused (wr_retry (station_started now c r))"
    "length (wr_expected_ssid (station_started now c r)) = PROVISION_WIFI_SSID_MAX + 1"
    "cstr (wr_expected_ssid (station_started now c r)) = take PROVISION_WIFI_SSID_MAX (cstr (wifi_ssid c))"
    using next_generation_nonzero [of r]
    by (simp_all add: station_started_def split_beta provisioning_retry_start_def retry_zero_def cstr_strlcpy
        next_sta_attempt_generation_def Let_def)
qed

lemma start_sta_up:
  assumes w: "wifi_world_ok w" and s: "idle s"
    and r: "provisioning_runtime_start_sta w (Some c) s = Some (ESP_OK, s')"
  shows "station_up c s'"
proof -
  let ?t = "snd (ensure_runtime_ready w s)"
  have t: "idle ?t" using w s by (rule ensure_idle)
  obtain u where u: "lock_wifi_operation w ?t = Some (ESP_OK, u)"
    using r by (auto simp: provisioning_runtime_start_sta_def split_beta Let_def split: bind_splits if_splits)
  then have l: "locked u" using lock_cases [OF w t u] by auto
  define v where "v = lock_state w (lock_state w (snd (ensure_wifi_started_unlocked w u)))"
  define x where "x = set_rt (station_started (ww_clock w (wt_turn v)) c) (snd (consult (ww_clock w) v))"
  define es where "es = [SetPowerSave, SetProtocol WIFI_IF_STA, SetBandwidth WIFI_IF_STA, SetStaProfile (station_profile c)]"
  define y where "y = snd (issue_all w es (snd (apply_wifi_mode_unlocked w x)))"
  have v: "locked v" unfolding v_def using w l by (blast intro: wifi_started_locked locked_simple)
  then have ok: "wifi_ok (rt v)" by (simp add: locked_def)
  from v have x: "locked x" by (simp add: x_def locked_def)
  then have p: "protected (rt y) = protected (rt x)"
    using mode_protected [OF w] by (simp add: y_def locked_def)
  have "fst (issue_all w es (snd (apply_wifi_mode_unlocked w x))) = ESP_OK \<and>
      s' = unlock_wifi_operation (schedule_wifi_timeout (wr_active_generation (rt x)) y)"
    using r u unfolding y_def es_def
    by (auto simp: provisioning_runtime_start_sta_def split_beta Let_def consult_def x_def v_def simp del: issue_all.simps
        split: if_splits)
  moreover from this have "set es \<subseteq> set (wt_effects y)" unfolding y_def by (intro issue_all_done) simp
  ultimately have "SetStaProfile (station_profile c) \<in> set (wt_effects s')" "rt s' = rt y"
    using effects_schedule [of y "wr_active_generation (rt x)"] by (auto simp: es_def)
  with protectedD [OF p] station_started_facts [OF ok] show ?thesis by (simp add: station_up_def x_def)
qed

text \<open>
  A start of the station that succeeds leaves it started without an address, its retries enabled and not paused
  under a generation that is not zero; the driver was given the profile of the settings, and the name the runtime
  expects is the one of the settings.
\<close>

theorem start_sta_starts:
  assumes "wifi_world_ok w" and "idle s" and "provision_config_validate (Some c) = PROVISION_CONFIG_OK"
    and "provisioning_runtime_start_sta w (Some c) s = Some (ESP_OK, s')"
  shows "SetStaProfile (station_profile c) \<in> set (wt_effects s') \<and> wr_sta_started (rt s') \<and>
    \<not> wr_sta_has_ip (rt s') \<and> wr_active_generation (rt s') \<noteq> 0 \<and> rt_enabled (wr_retry (rt s')) \<and>
    \<not> rt_paused (wr_retry (rt s')) \<and> cstr (wr_expected_ssid (rt s')) = cstr (wifi_ssid c)"
proof -
  have "length (cstr (wifi_ssid c)) \<le> PROVISION_WIFI_SSID_MAX"
    using assms(3) by (auto simp: provision_config_validate_def string_field_present_def string_field_valid_def
        bounded_strlen_def strnlen_eq split: if_splits)
  then show ?thesis using start_sta_up [OF assms(1,2,4)] by (simp add: station_up_def)
qed

section \<open>A name that fills its field\<close>

lemma cstr_take_le: "length (cstr (take n bs)) \<le> length (cstr bs)"
  by (induction bs arbitrary: n) (auto simp: take_Cons')

text \<open>
  C25: A name of 32 bytes and a password of 64, which the settings may have, do not reach the driver in one piece.
  Whenever a start succeeds, the driver gets at most 31 bytes of the name and 63 of the password. With a
  name of 32 bytes the station then asks for a network with another name, and the check of a connection refuses
  every network that has the name of the profile; with a password of 64 bytes it asks with another password.
\<close>

theorem full_length_names_are_cut:
  assumes "wifi_world_ok w" and "idle s" and "provisioning_runtime_start_sta w (Some c) s = Some (ESP_OK, s')"
  shows "\<exists>p. SetStaProfile p \<in> set (wt_effects s') \<and> cstr (sta_ssid p) = take 31 (cstr (wifi_ssid c)) \<and>
    cstr (sta_password p) = take 63 (cstr (wifi_password c)) \<and>
    (length (cstr (wifi_ssid c)) = PROVISION_WIFI_SSID_MAX \<longrightarrow> cstr (sta_ssid p) \<noteq> cstr (wifi_ssid c) \<and>
      (\<forall>ap. cstr ap = cstr (sta_ssid p) \<longrightarrow> \<not> strncmp_equal ap (wr_expected_ssid (rt s')) 33)) \<and>
    (length (cstr (wifi_password c)) = PROVISION_WIFI_PASSWORD_MAX \<longrightarrow>
      cstr (sta_password p) \<noteq> cstr (wifi_password c))"
proof -
  let ?p = "station_profile c"
  have p: "cstr (sta_ssid ?p) = take 31 (cstr (wifi_ssid c))" "cstr (sta_password ?p) = take 63 (cstr (wifi_password c))"
    by (simp_all add: station_profile_def cstr_strlcpy)
  have e: "cstr (take 33 (wr_expected_ssid (rt s'))) = take 32 (cstr (wifi_ssid c))"
      "SetStaProfile ?p \<in> set (wt_effects s')"
    using start_sta_up [OF assms] by (simp_all add: station_up_def PROVISION_WIFI_SSID_MAX_def)
  have "\<not> strncmp_equal ap (wr_expected_ssid (rt s')) 33"
    if "length (cstr (wifi_ssid c)) = PROVISION_WIFI_SSID_MAX" "cstr ap = cstr (sta_ssid ?p)" for ap
  proof
    assume "strncmp_equal ap (wr_expected_ssid (rt s')) 33"
    then have "length (cstr (take 33 ap)) = PROVISION_WIFI_SSID_MAX"
      using e(1) that(1) by (simp add: strncmp_equal_def PROVISION_WIFI_SSID_MAX_def)
    with cstr_take_le [of 33 ap] that(2) p(1) show False by (simp add: PROVISION_WIFI_SSID_MAX_def)
  qed
  moreover have "take 31 xs \<noteq> xs" if "length xs = PROVISION_WIFI_SSID_MAX" for xs :: "u8 list"
    using that by (simp add: PROVISION_WIFI_SSID_MAX_def)
  moreover have "take 63 xs \<noteq> xs" if "length xs = PROVISION_WIFI_PASSWORD_MAX" for xs :: "u8 list"
    using that by (simp add: PROVISION_WIFI_PASSWORD_MAX_def)
  ultimately show ?thesis using e(2) unfolding p [symmetric] by (metis p)
qed

section \<open>The set-up\<close>

text \<open>Whether a resource is there, as far as a handle says it.\<close>

definition there :: "runtime_resource \<Rightarrow> wifi_runtime \<Rightarrow> bool" where
  "there resource r =
    (case resource of
       EVENT_QUEUE \<Rightarrow> wr_event_queue r \<noteq> None
     | EVENT_TASK \<Rightarrow> wr_event_task r
     | TIMEOUT_TASK \<Rightarrow> wr_timeout_task r
     | AP_NETIF \<Rightarrow> wr_ap_netif r
     | STA_NETIF \<Rightarrow> wr_sta_netif r
     | WIFI_MUTEX \<Rightarrow> wr_mutex r
     | WIFI_DRIVER \<Rightarrow> False
     | WIFI_HANDLER \<Rightarrow> wr_wifi_handler r
     | IP_HANDLER \<Rightarrow> wr_ip_handler r)"

lemma there_driver [simp]: "\<not> there WIFI_DRIVER r"
  by (simp add: there_def)

lemma there_set_resource [simp]:
  "there res (set_resource res' b r) = (if res = res' \<and> res \<noteq> WIFI_DRIVER then b else there res r)"
  by (cases res; cases res') (simp_all add: there_def set_resource_def)

text \<open>The handles are those of the list of what was made.\<close>

definition made_exactly :: "setup_run \<Rightarrow> bool" where
  "made_exactly run \<longleftrightarrow> (\<forall>res. there res (rt (snd (snd run))) \<longleftrightarrow> res \<in> set (fst (snd run)) - {WIFI_DRIVER})"

lemma create_exactly: "made_exactly run \<Longrightarrow> made_exactly (create_resource w resource failure run)"
  by (auto simp: made_exactly_def create_resource_def split_beta Let_def)

lemma step_exactly:
  assumes "made_exactly run" "\<And>s res. there res (rt (snd (step s))) = there res (rt s)"
  shows "made_exactly (setup_step step run)"
  using assms by (auto simp: made_exactly_def setup_step_def split_beta Let_def)

text \<open>Without an error, these were made.\<close>

definition makes :: "runtime_resource set \<Rightarrow> setup_run \<Rightarrow> bool" where
  "makes resources run \<longleftrightarrow> (fst run = ESP_OK \<longrightarrow> resources \<subseteq> set (fst (snd run)))"

lemma makes_steps:
  "makes resources run \<Longrightarrow> failure \<noteq> Some ESP_OK \<Longrightarrow> makes (insert resource resources) (create_resource w resource failure run)"
  "makes resources run \<Longrightarrow> makes resources (setup_step step run)"
  by (auto simp: makes_def create_resource_def setup_step_def split_beta Let_def split: option.splits)

lemma setup_steps_exactly:
  assumes "\<And>res. \<not> there res (rt s)"
  shows "made_exactly (setup_steps w s)"
proof -
  have "made_exactly (ESP_OK, [], s)" using assms by (simp add: made_exactly_def)
  moreover have "there res (rt (snd (create_default_event_loop_once w s))) = there res (rt s)"
    "there res (rt (snd (configure_ap_profile_before_wifi_start w s))) = there res (rt s)" for res s
    by (cases res; simp add: there_def create_default_event_loop_once_def configure_ap_profile_before_wifi_start_def
        make_ap_identity_def split_beta Let_def del: issue_all.simps)+
  ultimately show ?thesis
    unfolding setup_steps_def by (intro create_exactly step_exactly) simp_all
qed

lemma setup_steps_all:
  assumes "fst (setup_steps w s) = ESP_OK"
  shows "res \<in> set (fst (snd (setup_steps w s)))"
proof -
  have "makes {IP_HANDLER, WIFI_HANDLER, WIFI_DRIVER, WIFI_MUTEX, STA_NETIF, AP_NETIF, TIMEOUT_TASK, EVENT_TASK,
      EVENT_QUEUE} (setup_steps w s)"
    unfolding setup_steps_def by (intro makes_steps) (simp_all add: makes_def)
  with assms show ?thesis unfolding makes_def by (cases res) simp_all
qed

lemma destroy_there:
  "there res (rt (destroy_resource resource made s)) \<longleftrightarrow> there res (rt s) \<and> \<not> (res = resource \<and> res \<in> set made)"
  by (auto simp: destroy_resource_def)

lemma destroy_all_there:
  "there res (rt (foldl (\<lambda>s resource. destroy_resource resource made s) s resources)) \<longleftrightarrow>
   there res (rt s) \<and> \<not> (res \<in> set resources \<and> res \<in> set made)"
  by (induction resources arbitrary: s) (auto simp: destroy_there)

lemma reset_there [simp]: "there res (reset_runtime r) = there res r"
  by (cases res) (simp_all add: there_def reset_runtime_def)

text \<open>
  C24: The set-up is all or nothing: from a state in which nothing is there, it ends with every queue, task, interface,
  mutex and handler of the runtime and the runtime initialised, or with an error, none of them and the runtime
  not initialised.
\<close>

theorem setup_all_or_nothing:
  assumes "\<not> wr_initialized (rt (look w s))" and "\<And>resource. \<not> there resource (rt (look w s))"
  shows "if fst (ensure_runtime_ready w s) = ESP_OK
    then wr_initialized (rt (snd (ensure_runtime_ready w s))) \<and>
      (\<forall>resource. resource = WIFI_DRIVER \<or> there resource (rt (snd (ensure_runtime_ready w s))))
    else \<not> wr_initialized (rt (snd (ensure_runtime_ready w s))) \<and>
      (\<forall>resource. \<not> there resource (rt (snd (ensure_runtime_ready w s))))"
proof -
  obtain err made t where run: "setup_steps w (look w s) = (err, made, t)" by (cases "setup_steps w (look w s)")
  have made: "there res (rt t) \<longleftrightarrow> res \<in> set made - {WIFI_DRIVER}" for res
    using setup_steps_exactly [of "look w s" w] assms(2) by (simp add: made_exactly_def run)
  show ?thesis
  proof (cases "err = ESP_OK")
    case True
    have "res \<in> set made" for res using setup_steps_all [of w "look w s" res] run True by simp
    moreover have "there res (r\<lparr>wr_initialized := True\<rparr>) = there res r" for res r by (cases res) (simp_all add: there_def)
    ultimately show ?thesis using assms(1) True made by (auto simp: ensure_eq run Let_def)
  next
    case False
    have "\<not> there res (rt (init_failed made t))" for res
      using made [of res] by (cases res) (auto simp: init_failed_def destroy_all_there simp del: foldl.simps)
    moreover have "\<not> wr_initialized (rt (init_failed made t))" by (simp add: init_failed_def reset_runtime_def)
    ultimately show ?thesis using assms(1) False by (simp add: ensure_eq run Let_def)
  qed
qed

section \<open>Examples\<close>

text \<open>A runtime that is set up, in a world without other tasks.\<close>

definition ready_air :: wifi_task where
  "ready_air = boot_air\<lparr>wt_shared := wifi_boot\<lparr>wr_initialized := True, wr_mutex := True, wr_timeout_task := True\<rparr>\<rparr>"

definition long_name :: provision_config where
  "long_name = sample_config\<lparr>wifi_ssid := replicate 32 97 @ [0], wifi_password := replicate 64 98 @ [0]\<rparr>"

lemma ready_air_idle: "idle ready_air"
  using boot_air_idle by (simp add: ready_air_def idle_def boot_air_def)

text \<open>A world in which the name server ends at once.\<close>

definition ending_air :: wifi_world where
  "ending_air = quiet_air\<lparr>ww_others := \<lambda>_ _ r. r\<lparr>wr_dns := dns_zero\<rparr>\<rparr>"

lemma ending_air_ok: "wifi_world_ok ending_air" "dns_ends ending_air (\<lambda>_. 0)" "gateway_ok ending_air"
  by (simp_all add: wifi_world_ok_def dns_ends_def gateway_ok_def ending_air_def dns_zero_def protected_def quiet_air_def)

lemma long_name_valid: "provision_config_validate (Some long_name) = PROVISION_CONFIG_OK"
proof -
  have "config_sizes long_name" "config_valid long_name"
    using sample_config_sizes sample_config_valid
    by (simp_all add: config_sizes_def config_valid_def long_name_def terminated_def)
  then show ?thesis by (simp add: validate_OK_iff)
qed

lemma quiet_start:
  assumes "provision_config_validate (Some c) = PROVISION_CONFIG_OK"
  shows "\<exists>s'. provisioning_runtime_start_sta quiet_air (Some c) ready_air = Some (ESP_OK, s')"
  using assms
  by (simp add: provisioning_runtime_start_sta_def ensure_runtime_ready_def lock_state_def lock_wifi_operation_def
      ensure_wifi_started_unlocked_def apply_wifi_mode_unlocked_def select_wifi_mode_from_flags_def
      set_wifi_mode_with_retry_def PROVISIONING_WIFI_MODE_RETRY_COUNT_def numeral_eq_Suc issue_def consult_def emit_def
      set_rt_def ready_air_def boot_air_def wifi_boot_def quiet_air_def split_beta Let_def ESP_ERR_WIFI_STOP_STATE_def)

lemma sample_start: "\<exists>s'. provisioning_runtime_start_sta quiet_air (Some sample_config) ready_air = Some (ESP_OK, s')"
  by (rule quiet_start) (simp add: validate_OK_iff)

theorem start_sta_starts_witness:
  "\<exists>s'. provisioning_runtime_start_sta quiet_air (Some sample_config) ready_air = Some (ESP_OK, s') \<and>
     wr_sta_started (rt s') \<and> cstr (wr_expected_ssid (rt s')) = cs ''home''"
proof -
  have valid: "provision_config_validate (Some sample_config) = PROVISION_CONFIG_OK" by (simp add: validate_OK_iff)
  have name: "cstr (wifi_ssid sample_config) = cs ''home''" by (simp add: sample_config_def cstr_text_field)
  obtain s' where s': "provisioning_runtime_start_sta quiet_air (Some sample_config) ready_air = Some (ESP_OK, s')"
    using sample_start by blast
  from start_sta_starts [OF quiet_air_ok(1) ready_air_idle valid s'] s' name show ?thesis by auto
qed

theorem full_length_names_are_cut_witness:
  "\<exists>s' p. provisioning_runtime_start_sta quiet_air (Some long_name) ready_air = Some (ESP_OK, s') \<and>
     SetStaProfile p \<in> set (wt_effects s') \<and> cstr (sta_ssid p) = replicate 31 97 \<and>
     cstr (sta_password p) = replicate 63 98"
proof -
  have name: "cstr (wifi_ssid long_name) = replicate 32 97" "cstr (wifi_password long_name) = replicate 64 98"
    by (simp_all add: long_name_def)
  obtain s' where s': "provisioning_runtime_start_sta quiet_air (Some long_name) ready_air = Some (ESP_OK, s')"
    using quiet_start [OF long_name_valid] by blast
  from full_length_names_are_cut [OF quiet_air_ok(1) ready_air_idle s'] s' name show ?thesis by auto
qed

theorem status_stays_consistent_witness:
  "\<exists>s'. run_wifi_calls quiet_air [StartSta (Some sample_config)] ready_air = Some s' \<and>
     status_ok (fst (provisioning_runtime_get_status quiet_air s'))"
proof -
  obtain s' where s': "run_wifi_calls quiet_air [StartSta (Some sample_config)] ready_air = Some s'"
    using sample_start by auto
  from status_stays_consistent [OF quiet_air_ok(1) ready_air_idle s'] s' show ?thesis by blast
qed

theorem operations_return_the_mutex_witness:
  "\<exists>s'. run_wifi_call ending_air StopAp
      (ready_air\<lparr>wt_shared := (rt ready_air)\<lparr>wr_ap_started := True, wr_dns := dns_zero\<lparr>dns_started := True, dns_task := True\<rparr>\<rparr>\<rparr>) =
    Some s' \<and> \<not> wt_holds s'"
proof -
  have "idle (ready_air\<lparr>wt_shared := (rt ready_air)\<lparr>wr_ap_started := True, wr_dns := dns_zero\<lparr>dns_started := True, dns_task := True\<rparr>\<rparr>\<rparr>)"
    using ready_air_idle by (simp add: idle_def)
  from operations_return_the_mutex [OF ending_air_ok this, of StopAp] show ?thesis by blast
qed

theorem setup_all_or_nothing_witness:
  "\<not> there WIFI_MUTEX (rt (snd (ensure_runtime_ready (quiet_air\<lparr>ww_answer := \<lambda>t. if t < 7 then ESP_OK else ESP_FAIL\<rparr>) boot_air)))"
proof -
  let ?w = "quiet_air\<lparr>ww_answer := \<lambda>t. if t < 7 then ESP_OK else ESP_FAIL\<rparr>"
  have "rt (look ?w boot_air) = wifi_boot" by (simp add: lock_state_def quiet_air_def boot_air_def)
  moreover have "\<not> there resource wifi_boot" for resource by (cases resource) (simp_all add: there_def wifi_boot_def)
  moreover have "\<not> wr_initialized wifi_boot" by (simp add: wifi_boot_def)
  moreover have "fst (ensure_runtime_ready ?w boot_air) \<noteq> ESP_OK"
    by code_simp
  ultimately show ?thesis using setup_all_or_nothing [of ?w boot_air] by simp
qed

end
