(* ===== verification/Portal_Context.thy ===== *)
theory Portal_Context
  imports Complex_Main Provision_Store Json Wifi_Api
begin

text \<open>
  The state of the set-up portal, \<^verbatim>\<open>components/portal_http/portal_http.c\<close>, and what its handlers share: the
  answers, the guard of the access point, the body of a request and the fields of its JSON object.
\<close>

section \<open>Data\<close>

definition PORTAL_HTTP_MAX_POST_BODY :: nat where "PORTAL_HTTP_MAX_POST_BODY = 8192"
definition PORTAL_HTTP_JSON_TYPE :: string where "PORTAL_HTTP_JSON_TYPE = ''application/json''"
definition PORTAL_HTTP_REDIRECT_URI :: string where "PORTAL_HTTP_REDIRECT_URI = ''http://192.168.4.1''"
definition PORTAL_HTTP_AP_HOST :: bytes where "PORTAL_HTTP_AP_HOST = [192, 168, 4, 1]"
definition PORTAL_HTTP_SCAN_LIMIT :: nat where "PORTAL_HTTP_SCAN_LIMIT = PROVISIONING_RUNTIME_SCAN_MAX_APS"

definition PORTAL_HTTP_CONFIRM_REPLACE :: bytes where
  "PORTAL_HTTP_CONFIRM_REPLACE = cs ''REPLACE ENROLLMENT''"
definition PORTAL_HTTP_CONFIRM_RESET_PROVISIONING :: bytes where
  "PORTAL_HTTP_CONFIRM_RESET_PROVISIONING = cs ''RESET PROVISIONING''"
definition PORTAL_HTTP_CONFIRM_RESET_ALL_DATA :: bytes where
  "PORTAL_HTTP_CONFIRM_RESET_ALL_DATA = cs ''RESET ALL DATA''"

record portal_http_system_status =
  sy_mqtt_connected :: bool
  sy_mqtt_connecting :: bool
  sy_mqtt_retry_attempt :: u8
  sy_mqtt_retry_delay_ms :: u32
  sy_mqtt_error_type :: int
  sy_mqtt_last_esp_error :: int
  sy_mqtt_last_tls_error :: int
  sy_mqtt_last_socket_errno :: int
  sy_mqtt_connect_return_code :: int
  sy_mqtt_last_error_at_ms :: u64
  sy_ble_bonded :: bool
  sy_ble_connected :: bool
  sy_bond_store_known :: bool
  sy_stored_peer_count :: int
  sy_bond_store_error :: int
  sy_session_authenticated :: bool
  sy_link_encrypted :: bool
  sy_ancs_service_found :: bool
  sy_data_source_subscribed :: bool
  sy_notification_source_subscribed :: bool
  sy_ancs_ready :: bool
  sy_enrollment_remaining_seconds :: u32
  sy_enroll_window_open :: bool
  sy_ble_passkey :: u32
  sy_ble_pairing_repair_required :: bool
  sy_ble_auth_failure_count :: u8
  sy_ble_auth_error :: int
  sy_replace_pending :: bool
  sy_replace_failed :: bool
  sy_replace_error_code :: int
  sy_notifications_published :: u32
  sy_notifications_dropped :: u32
  sy_notifications_dropped_offline :: u32
  sy_notifications_dropped_enqueue :: u32
  sy_notifications_dropped_policy :: u32

definition system_status_zero :: portal_http_system_status where
  "system_status_zero = \<lparr>sy_mqtt_connected = False, sy_mqtt_connecting = False, sy_mqtt_retry_attempt = 0,
     sy_mqtt_retry_delay_ms = 0, sy_mqtt_error_type = 0, sy_mqtt_last_esp_error = 0, sy_mqtt_last_tls_error = 0,
     sy_mqtt_last_socket_errno = 0, sy_mqtt_connect_return_code = 0, sy_mqtt_last_error_at_ms = 0,
     sy_ble_bonded = False, sy_ble_connected = False, sy_bond_store_known = False, sy_stored_peer_count = 0,
     sy_bond_store_error = 0, sy_session_authenticated = False, sy_link_encrypted = False,
     sy_ancs_service_found = False, sy_data_source_subscribed = False, sy_notification_source_subscribed = False,
     sy_ancs_ready = False, sy_enrollment_remaining_seconds = 0, sy_enroll_window_open = False, sy_ble_passkey = 0,
     sy_ble_pairing_repair_required = False, sy_ble_auth_failure_count = 0, sy_ble_auth_error = 0,
     sy_replace_pending = False, sy_replace_failed = False, sy_replace_error_code = 0,
     sy_notifications_published = 0, sy_notifications_dropped = 0, sy_notifications_dropped_offline = 0,
     sy_notifications_dropped_enqueue = 0, sy_notifications_dropped_policy = 0\<rparr>"

text \<open>The functions of the application, of which each may be missing; their common argument does not matter here.\<close>

record portal_http_handlers =
  ph_status :: bool
  ph_mqtt_test :: bool
  ph_test_notification :: bool
  ph_reconnect :: bool
  ph_ble_enroll :: bool
  ph_ble_replace :: bool
  ph_restart :: bool
  ph_reset_provisioning :: bool
  ph_reset_all_data :: bool

definition no_handlers :: portal_http_handlers where
  "no_handlers = \<lparr>ph_status = False, ph_mqtt_test = False, ph_test_notification = False, ph_reconnect = False,
     ph_ble_enroll = False, ph_ble_replace = False, ph_restart = False, ph_reset_provisioning = False,
     ph_reset_all_data = False\<rparr>"

datatype portal_callback =
    STATUS
  | MQTT_TEST
  | TEST_NOTIFICATION
  | RECONNECT provision_config
  | BLE_ENROLL
  | BLE_REPLACE
  | RESTART
  | RESET_PROVISIONING
  | RESET_ALL_DATA

datatype http_method = HTTP_GET | HTTP_POST

datatype portal_handler =
    INDEX | CSS | JS | FAVICON | PROBE_REDIRECT | STATUS_GET | WIFI_SCAN_GET
  | CONFIG_POST | MQTT_TEST_POST | TEST_NOTIFICATION_POST | BLE_ENROLL_POST | BLE_REPLACE_POST
  | RESTART_POST | RESET_POST | NOT_FOUND

datatype portal_asset = PORTAL_HTML | PORTAL_CSS | PORTAL_JS

text \<open>What a handler does to the outside, the newest first.\<close>

datatype http_effect =
    SetStatus string
  | SetType string
  | SetHeader string string
  | SendText bytes
  | SendAsset portal_asset
  | SendNothing
  | Callback portal_callback
  | ServerStart
  | ServerStop
  | RegisterUri string http_method portal_handler
  | RegisterNotFound

text \<open>
  What the code reads of a tree of cJSON: a number comes as its \<open>valuedouble\<close> and its \<open>valueint\<close>, a text as the C
  string of its \<open>valuestring\<close>, which may be missing.
\<close>

datatype cjson =
    CJ_NULL
  | CJ_BOOL bool
  | CJ_NUMBER rat int
  | CJ_STRING "bytes option"
  | CJ_ARRAY
  | CJ_OBJECT "(bytes \<times> cjson) list"

text \<open>The address of the socket a request came to, with the length that was reported for it.\<close>

datatype local_address =
    LOCAL_UNKNOWN
  | LOCAL_IPV4 nat bytes
  | LOCAL_IPV6 nat bytes
  | LOCAL_OTHER int

record httpd_req =
  rq_content_len :: nat
  rq_socket :: int
  rq_local :: local_address

text \<open>
  What the code relies on, by the number of the step: the answers of the HTTP server, whether an allocation succeeds,
  the pieces in which the body arrives, the functions of the application with what they do to the store,
  the status they report; the reader of cJSON with the position where it stopped, its printer, the flash, its
  allocations, the Wi-Fi runtime and the name of the chip. During a request the store is the handler's.
\<close>

record 'n portal_world =
  pw_answer :: "nat \<Rightarrow> esp_err"
  pw_alloc :: "nat \<Rightarrow> bool"
  pw_recv :: "nat \<Rightarrow> bytes option"
  pw_callback :: "nat \<Rightarrow> portal_callback \<Rightarrow> 'n store_state \<Rightarrow> esp_err \<times> 'n store_state"
  pw_status :: "nat \<Rightarrow> portal_http_system_status"
  pw_parse :: "bytes \<Rightarrow> (cjson \<times> nat) option"
  pw_print :: "nat \<Rightarrow> json \<Rightarrow> bytes option"
  pw_nvs :: "'n nvs_api"
  pw_store_alloc :: "nat \<Rightarrow> nat \<Rightarrow> bool"
  pw_wifi :: wifi_world
  pw_target :: bytes
  pw_family :: bytes

text \<open>The static variables and the parts of the program the handlers reach.\<close>

record 'n portal_task =
  pt_server :: bool
  pt_handlers :: portal_http_handlers
  pt_store :: "'n store_state"
  pt_wifi :: wifi_task
  pt_turn :: nat
  pt_effects :: "http_effect list"

section \<open>Steps\<close>

definition reply :: "http_effect \<Rightarrow> 'n portal_task \<Rightarrow> 'n portal_task" where
  "reply e s = s\<lparr>pt_effects := e # pt_effects s\<rparr>"

definition query :: "(nat \<Rightarrow> 'b) \<Rightarrow> 'n portal_task \<Rightarrow> 'b \<times> 'n portal_task" where
  "query f s = (f (pt_turn s), s\<lparr>pt_turn := pt_turn s + 1\<rparr>)"

definition call_server :: "'n portal_world \<Rightarrow> http_effect \<Rightarrow> 'n portal_task \<Rightarrow> esp_err \<times> 'n portal_task" where
  "call_server w e s = query (pw_answer w) (reply e s)"

definition call_handler :: "'n portal_world \<Rightarrow> portal_callback \<Rightarrow> 'n portal_task \<Rightarrow> esp_err \<times> 'n portal_task" where
  "call_handler w f s =
    (let (err, store) = pw_callback w (pt_turn s) f (pt_store s)
     in (err, reply (Callback f) (s\<lparr>pt_turn := pt_turn s + 1, pt_store := store\<rparr>)))"

text \<open>Allocations one after the other, which all take place, and whether each gave memory.\<close>

fun allocate :: "'n portal_world \<Rightarrow> nat \<Rightarrow> 'n portal_task \<Rightarrow> bool \<times> 'n portal_task" where
  "allocate w 0 s = (True, s)"
| "allocate w (Suc n) s = (let (ok, s) = query (pw_alloc w) s; (oks, s) = allocate w n s in (ok \<and> oks, s))"

text \<open>Additions to a tree, up to the first without memory.\<close>

fun add_each :: "'n portal_world \<Rightarrow> nat \<Rightarrow> 'n portal_task \<Rightarrow> bool \<times> 'n portal_task" where
  "add_each w 0 s = (True, s)"
| "add_each w (Suc n) s = (let (ok, s) = query (pw_alloc w) s in if ok then add_each w n s else (False, s))"

definition load_config :: "'n portal_world \<Rightarrow> provision_config \<Rightarrow> 'n portal_task \<Rightarrow> (esp_err \<times> provision_config) \<times> 'n portal_task" where
  "load_config w buf s =
    (let (err, out, store) = provision_store_load (pw_nvs w) (pw_store_alloc w (pt_turn s)) (pt_store s) (Some buf)
     in ((err, case out of None \<Rightarrow> buf | Some c \<Rightarrow> c), s\<lparr>pt_store := store, pt_turn := pt_turn s + 1\<rparr>))"

definition save_config :: "'n portal_world \<Rightarrow> provision_config \<Rightarrow> 'n portal_task \<Rightarrow> esp_err \<times> 'n portal_task" where
  "save_config w c s =
    (let (err, store) = provision_store_save_atomic (pw_nvs w) (pw_store_alloc w (pt_turn s)) (pt_store s) (Some c)
     in (err, s\<lparr>pt_store := store, pt_turn := pt_turn s + 1\<rparr>))"

section \<open>Answers\<close>

definition send_json :: "'n portal_world \<Rightarrow> string \<Rightarrow> 'n portal_task \<Rightarrow> esp_err \<times> 'n portal_task" where
  "send_json w txt s = call_server w (SendText (cs txt))
     (reply (SetHeader ''Cache-Control'' ''no-store'') (reply (SetType PORTAL_HTTP_JSON_TYPE) s))"

definition error_body :: "string \<Rightarrow> bytes" where
  "error_body error =
    (let body = cs ''{\"ok\":false,\"error\":\"'' @ cs error @ cs ''\"}''
     in if 0 < length body \<and> length body < 128 then body else cs ''{\"ok\":false,\"error\":\"request failed\"}'')"

definition send_error_json :: "'n portal_world \<Rightarrow> string \<Rightarrow> string \<Rightarrow> 'n portal_task \<Rightarrow> esp_err \<times> 'n portal_task" where
  "send_error_json w status error s = call_server w (SendText (error_body error))
     (reply (SetHeader ''Cache-Control'' ''no-store'') (reply (SetType PORTAL_HTTP_JSON_TYPE) (reply (SetStatus status) s)))"

definition send_asset :: "'n portal_world \<Rightarrow> portal_asset \<Rightarrow> string \<Rightarrow> 'n portal_task \<Rightarrow> esp_err \<times> 'n portal_task" where
  "send_asset w asset content_type s = call_server w (SendAsset asset) (reply (SetType content_type) s)"

definition send_redirect :: "'n portal_world \<Rightarrow> 'n portal_task \<Rightarrow> esp_err \<times> 'n portal_task" where
  "send_redirect w s = call_server w (SendText [])
     (reply (SetHeader ''Location'' PORTAL_HTTP_REDIRECT_URI) (reply (SetStatus ''302 Found'') s))"

definition send_cjson :: "'n portal_world \<Rightarrow> json \<Rightarrow> 'n portal_task \<Rightarrow> esp_err \<times> 'n portal_task" where
  "send_cjson w tree s =
    (let (printed, s) = query (\<lambda>t. pw_print w t tree) s
     in case printed of
          None \<Rightarrow> send_error_json w ''500 Internal Server Error'' ''out of memory'' s
        | Some txt \<Rightarrow> call_server w (SendText txt) (reply (SetType PORTAL_HTTP_JSON_TYPE) s))"

section \<open>The guard of the access point\<close>

definition SOCKADDR_IN_SIZE :: nat where "SOCKADDR_IN_SIZE = 16"
definition SOCKADDR_IN6_SIZE :: nat where "SOCKADDR_IN6_SIZE = 28"

definition v4_mapped :: "bytes \<Rightarrow> bool" where
  "v4_mapped a \<longleftrightarrow> take 12 a = replicate 10 0 @ [0xFF, 0xFF]"

definition require_ap_local_request :: "httpd_req \<Rightarrow> esp_err" where
  "require_ap_local_request req =
    (if rq_socket req < 0 then ESP_FAIL
     else case rq_local req of
            LOCAL_UNKNOWN \<Rightarrow> ESP_FAIL
          | LOCAL_IPV4 len a \<Rightarrow>
              if len < SOCKADDR_IN_SIZE then ESP_ERR_INVALID_STATE
              else if a \<noteq> PORTAL_HTTP_AP_HOST then ESP_ERR_INVALID_STATE
              else ESP_OK
          | LOCAL_IPV6 len a \<Rightarrow>
              if len < SOCKADDR_IN6_SIZE then ESP_ERR_INVALID_STATE
              else if \<not> v4_mapped a then ESP_ERR_INVALID_STATE
              else if take 4 (drop 12 a) \<noteq> PORTAL_HTTP_AP_HOST then ESP_ERR_INVALID_STATE
              else ESP_OK
          | LOCAL_OTHER _ \<Rightarrow> ESP_ERR_INVALID_STATE)"

definition send_ap_guard_error :: "'n portal_world \<Rightarrow> esp_err \<Rightarrow> 'n portal_task \<Rightarrow> esp_err \<times> 'n portal_task" where
  "send_ap_guard_error w err s =
    (if err = ESP_ERR_INVALID_STATE then send_error_json w ''403 Forbidden'' ''AP interface required'' s
     else send_error_json w ''500 Internal Server Error'' ''AP interface check failed'' s)"

section \<open>The body of a request\<close>

definition skip_space_const :: "bytes \<Rightarrow> bytes" where
  "skip_space_const p = dropWhile (\<lambda>b. b = 32 \<or> b = 9 \<or> b = 13 \<or> b = 10) p"

text \<open>The body as it arrives; the server gives at most as many bytes as are asked for.\<close>

function receive_body :: "'n portal_world \<Rightarrow> nat \<Rightarrow> 'n portal_task \<Rightarrow> bytes option \<times> 'n portal_task" where
  "receive_body w wanted s =
    (if wanted = 0 then (Some [], s)
     else let (piece, s) = query (pw_recv w) s
       in case piece of
            None \<Rightarrow> (None, s)
          | Some bs \<Rightarrow>
              let bs = take wanted bs
              in if bs = [] then (None, s)
                 else let (rest, s) = receive_body w (wanted - length bs) s in (map_option (\<lambda>r. bs @ r) rest, s))"
  by pat_completeness auto
termination by (relation "measure (\<lambda>(_, wanted, _). wanted)") (auto simp: min_def)

declare receive_body.simps [simp del]

definition read_json_body :: "'n portal_world \<Rightarrow> httpd_req \<Rightarrow> 'n portal_task \<Rightarrow> (esp_err \<times> cjson) \<times> 'n portal_task" where
  "read_json_body w req s =
    (if rq_content_len req > PORTAL_HTTP_MAX_POST_BODY then ((ESP_ERR_INVALID_SIZE, CJ_NULL), s)
     else let (ok, s) = query (pw_alloc w) s
       in if \<not> ok then ((ESP_ERR_NO_MEM, CJ_NULL), s)
          else let (body, s) = receive_body w (rq_content_len req) s
            in case body of
                 None \<Rightarrow> ((ESP_FAIL, CJ_NULL), s)
               | Some body \<Rightarrow>
                   (case pw_parse w body of
                      None \<Rightarrow> ((ESP_ERR_INVALID_ARG, CJ_NULL), s)
                    | Some (json, parse_end) \<Rightarrow>
                        if skip_space_const (drop parse_end body) \<noteq> [] then ((ESP_ERR_INVALID_ARG, CJ_NULL), s)
                        else (case json of CJ_OBJECT _ \<Rightarrow> ((ESP_OK, json), s) | _ \<Rightarrow> ((ESP_ERR_INVALID_ARG, CJ_NULL), s))))"

section \<open>The fields of an object\<close>

definition get_item :: "cjson \<Rightarrow> string \<Rightarrow> cjson option" where
  "get_item json name = (case json of CJ_OBJECT members \<Rightarrow> map_of members (cs name) | _ \<Rightarrow> None)"

text \<open>The result is the buffer of \<open>out_size\<close> bytes, cleared before; nothing when the field is refused.\<close>

definition json_copy_string :: "cjson \<Rightarrow> string \<Rightarrow> nat \<Rightarrow> nat \<Rightarrow> bool \<Rightarrow> bytes option" where
  "json_copy_string json name out_size max_len required =
    (case get_item json name of
       None \<Rightarrow> if \<not> required then Some (replicate out_size 0) else None
     | Some (CJ_STRING (Some v)) \<Rightarrow>
         if length v > max_len \<or> required \<and> v = [] then None else Some (strlcpy (replicate out_size 0) v)
     | Some _ \<Rightarrow> None)"

definition json_u16 :: "cjson \<Rightarrow> string \<Rightarrow> u16 option" where
  "json_u16 json name =
    (case get_item json name of
       Some (CJ_NUMBER d i) \<Rightarrow>
         if d < 1 \<or> d > 65535 \<or> d \<noteq> of_int i then None else Some (word_of_int i)
     | _ \<Rightarrow> None)"

definition json_bool :: "cjson \<Rightarrow> string \<Rightarrow> bool option" where
  "json_bool json name = (case get_item json name of Some (CJ_BOOL b) \<Rightarrow> Some b | _ \<Rightarrow> None)"

definition parse_config_update :: "cjson \<Rightarrow> provision_config option" where
  "parse_config_update json = do {
     ssid \<leftarrow> json_copy_string json ''wifi_ssid'' 33 PROVISION_WIFI_SSID_MAX True;
     password \<leftarrow> json_copy_string json ''wifi_password'' 65 PROVISION_WIFI_PASSWORD_MAX False;
     host \<leftarrow> json_copy_string json ''mqtt_host'' 129 PROVISION_MQTT_HOST_MAX True;
     port \<leftarrow> json_u16 json ''mqtt_port'';
     username \<leftarrow> json_copy_string json ''mqtt_username'' 129 PROVISION_MQTT_USERNAME_MAX False;
     broker_password \<leftarrow> json_copy_string json ''mqtt_password'' 257 PROVISION_MQTT_PASSWORD_MAX False;
     tls \<leftarrow> json_bool json ''mqtt_tls'';
     ca \<leftarrow> json_copy_string json ''mqtt_ca'' 4097 PROVISION_MQTT_CA_MAX False;
     client_id \<leftarrow> json_copy_string json ''mqtt_client_id'' 65 PROVISION_MQTT_CLIENT_ID_MAX True;
     base_topic \<leftarrow> json_copy_string json ''mqtt_base_topic'' 129 PROVISION_MQTT_BASE_TOPIC_MAX True;
     Some \<lparr>schema_version = PROVISION_CONFIG_SCHEMA_VERSION, wifi_ssid = ssid, wifi_password = password,
       mqtt_host = host, mqtt_port = port, mqtt_username = username, mqtt_password = broker_password, mqtt_tls = tls,
       mqtt_ca = ca, mqtt_client_id = client_id, mqtt_base_topic = base_topic\<rparr>
   }"

definition item_is :: "cjson \<Rightarrow> string \<Rightarrow> bytes \<Rightarrow> bool" where
  "item_is json name literal \<longleftrightarrow> get_item json name = Some (CJ_STRING (Some literal))"

definition confirmation_matches :: "cjson \<Rightarrow> bytes \<Rightarrow> bool" where
  "confirmation_matches json literal \<longleftrightarrow> item_is json ''confirmation'' literal"

definition scope_is_all :: "cjson \<Rightarrow> bool" where
  "scope_is_all json \<longleftrightarrow> item_is json ''scope'' (cs ''all'')"

end
