(* ===== verification/Portal_Http.thy ===== *)
theory Portal_Http
  imports Portal_Context
begin

text \<open>
  The handlers of the set-up portal, its routes and its life, in \<^verbatim>\<open>components/portal_http/portal_http.c\<close>.
\<close>

section \<open>Pages\<close>

definition handle_index_get :: "'n portal_world \<Rightarrow> 'n portal_task \<Rightarrow> esp_err \<times> 'n portal_task" where
  "handle_index_get w s = send_asset w PORTAL_HTML ''text/html; charset=utf-8'' s"

definition handle_css_get :: "'n portal_world \<Rightarrow> 'n portal_task \<Rightarrow> esp_err \<times> 'n portal_task" where
  "handle_css_get w s = send_asset w PORTAL_CSS ''text/css; charset=utf-8'' s"

definition handle_js_get :: "'n portal_world \<Rightarrow> 'n portal_task \<Rightarrow> esp_err \<times> 'n portal_task" where
  "handle_js_get w s = send_asset w PORTAL_JS ''application/javascript; charset=utf-8'' s"

definition handle_favicon_get :: "'n portal_world \<Rightarrow> 'n portal_task \<Rightarrow> esp_err \<times> 'n portal_task" where
  "handle_favicon_get w s = call_server w SendNothing (reply (SetStatus ''204 No Content'') s)"

definition handle_probe_redirect :: "'n portal_world \<Rightarrow> 'n portal_task \<Rightarrow> esp_err \<times> 'n portal_task" where
  "handle_probe_redirect w s = send_redirect w s"

definition handle_not_found :: "'n portal_world \<Rightarrow> 'n portal_task \<Rightarrow> esp_err \<times> 'n portal_task" where
  "handle_not_found w s = send_redirect w s"

section \<open>The status\<close>

definition text_value :: "bytes \<Rightarrow> json" where
  "text_value buf = JStr (cstr buf)"

definition config_members :: "provision_config_status \<Rightarrow> (bytes \<times> json) list" where
  "config_members st =
    [(cs ''wifi_ssid'', text_value (st_wifi_ssid st)),
     (cs ''wifi_password_configured'', JBool (st_wifi_password_configured st)),
     (cs ''mqtt_host'', text_value (st_mqtt_host st)),
     (cs ''mqtt_port'', JNum (uint (st_mqtt_port st))),
     (cs ''mqtt_username'', text_value (st_mqtt_username st)),
     (cs ''mqtt_password_configured'', JBool (st_mqtt_password_configured st)),
     (cs ''mqtt_tls'', JBool (st_mqtt_tls st)),
     (cs ''mqtt_ca_configured'', JBool (st_mqtt_ca_configured st)),
     (cs ''mqtt_client_id'', text_value (st_mqtt_client_id st)),
     (cs ''mqtt_base_topic'', text_value (st_mqtt_base_topic st))]"

definition runtime_members :: "runtime_status \<Rightarrow> (bytes \<times> json) list" where
  "runtime_members st =
    [(cs ''ap_started'', JBool (ru_ap_started st)),
     (cs ''sta_started'', JBool (ru_sta_started st)),
     (cs ''sta_connecting'', JBool (ru_sta_connecting st)),
     (cs ''sta_has_ip'', JBool (ru_sta_has_ip st)),
     (cs ''retry_paused'', JBool (ru_retry_paused st)),
     (cs ''retry_attempts'', JNum (uint (ru_retry_attempts st))),
     (cs ''retry_in_ms'', JNum (uint (ru_retry_in_ms st))),
     (cs ''automatic_recovery_ap'', JBool (ru_automatic_recovery_ap st)),
     (cs ''last_wifi_disconnect_reason'', JNum (uint (ru_last_disconnect_reason st))),
     (cs ''last_wifi_disconnect_rssi'', JNum (ru_last_disconnect_rssi st)),
     (cs ''ap_ssid'', text_value (ru_ap_ssid st))]"

text \<open>A number is a \<open>double\<close> there, which holds every value below \<open>2\<^sup>5\<^sup>3\<close> exactly.\<close>

definition system_members :: "portal_http_system_status \<Rightarrow> (bytes \<times> json) list" where
  "system_members st =
    [(cs ''mqtt_connected'', JBool (sy_mqtt_connected st)),
     (cs ''mqtt_connecting'', JBool (sy_mqtt_connecting st)),
     (cs ''mqtt_retry_attempt'', JNum (uint (sy_mqtt_retry_attempt st))),
     (cs ''mqtt_retry_delay_ms'', JNum (uint (sy_mqtt_retry_delay_ms st))),
     (cs ''mqtt_error_type'', JNum (sy_mqtt_error_type st)),
     (cs ''mqtt_last_esp_error'', JNum (sy_mqtt_last_esp_error st)),
     (cs ''mqtt_last_tls_error'', JNum (sy_mqtt_last_tls_error st)),
     (cs ''mqtt_last_socket_errno'', JNum (sy_mqtt_last_socket_errno st)),
     (cs ''mqtt_connect_return_code'', JNum (sy_mqtt_connect_return_code st)),
     (cs ''mqtt_last_error_at_ms'', JNum (uint (sy_mqtt_last_error_at_ms st))),
     (cs ''ble_bonded'', JBool (sy_ble_bonded st)),
     (cs ''ble_connected'', JBool (sy_ble_connected st)),
     (cs ''bond_store_known'', JBool (sy_bond_store_known st)),
     (cs ''stored_peer_count'', JNum (sy_stored_peer_count st)),
     (cs ''bond_store_error'', JNum (sy_bond_store_error st)),
     (cs ''session_authenticated'', JBool (sy_session_authenticated st)),
     (cs ''link_encrypted'', JBool (sy_link_encrypted st)),
     (cs ''ancs_service_found'', JBool (sy_ancs_service_found st)),
     (cs ''data_source_subscribed'', JBool (sy_data_source_subscribed st)),
     (cs ''notification_source_subscribed'', JBool (sy_notification_source_subscribed st)),
     (cs ''ancs_ready'', JBool (sy_ancs_ready st)),
     (cs ''enrollment_remaining_seconds'', JNum (uint (sy_enrollment_remaining_seconds st))),
     (cs ''enroll_window_open'', JBool (sy_enroll_window_open st)),
     (cs ''ble_passkey'', JNum (uint (sy_ble_passkey st))),
     (cs ''ble_pairing_repair_required'', JBool (sy_ble_pairing_repair_required st)),
     (cs ''ble_auth_failure_count'', JNum (uint (sy_ble_auth_failure_count st))),
     (cs ''ble_auth_error'', JNum (sy_ble_auth_error st)),
     (cs ''replace_pending'', JBool (sy_replace_pending st)),
     (cs ''replace_failed'', JBool (sy_replace_failed st)),
     (cs ''replace_error_code'', JNum (sy_replace_error_code st)),
     (cs ''notifications_published'', JNum (uint (sy_notifications_published st))),
     (cs ''notifications_dropped'', JNum (uint (sy_notifications_dropped st))),
     (cs ''notifications_dropped_offline'', JNum (uint (sy_notifications_dropped_offline st))),
     (cs ''notifications_dropped_enqueue'', JNum (uint (sy_notifications_dropped_enqueue st))),
     (cs ''notifications_dropped_policy'', JNum (uint (sy_notifications_dropped_policy st)))]"

text \<open>The settings without their secrets, when they can be loaded.\<close>

definition redacted_config :: "'n portal_world \<Rightarrow> 'n portal_task \<Rightarrow> provision_config_status option \<times> 'n portal_task" where
  "redacted_config w s =
    (let ((err, config), s) = load_config w config_zero s
     in if err \<noteq> ESP_OK then (None, s)
        else case provision_config_redact_status (Some config) (Some status_zero) of
               (ESP_OK, Some redacted) \<Rightarrow> (Some redacted, s)
             | _ \<Rightarrow> (None, s))"

definition runtime_status_now :: "'n portal_world \<Rightarrow> 'n portal_task \<Rightarrow> runtime_status \<times> 'n portal_task" where
  "runtime_status_now w s =
    (let (st, wifi) = provisioning_runtime_get_status (pw_wifi w) (pt_wifi s) in (st, s\<lparr>pt_wifi := wifi\<rparr>))"

definition system_status_now :: "'n portal_world \<Rightarrow> 'n portal_task \<Rightarrow> portal_http_system_status \<times> 'n portal_task" where
  "system_status_now w s =
    (if ph_status (pt_handlers s)
     then let s = snd (call_handler w STATUS s) in query (pw_status w) s
     else (system_status_zero, s))"

text \<open>The tree, or nothing without memory; three of its members are objects that are added while they are empty.\<close>

definition build_status_response :: "'n portal_world \<Rightarrow> 'n portal_task \<Rightarrow> json option \<times> 'n portal_task" where
  "build_status_response w s =
    (let (ok, s) = allocate w 6 s
     in if \<not> ok then (None, s)
        else let (redacted, s) = redacted_config w s;
                 (runtime, s) = runtime_status_now w s;
                 (system, s) = system_status_now w s;
                 cfg = (case redacted of None \<Rightarrow> [] | Some st \<Rightarrow> config_members st);
                 runtime_json = runtime_members runtime;
                 system_json = system_members system;
                 (ok, s) = add_each w (6 + length cfg + length runtime_json + length system_json) s
          in if \<not> ok then (None, s)
             else (Some (JObj
               [(cs ''target'', JStr (pw_target w)), (cs ''device_family'', JStr (pw_family w)),
                (cs ''configured'', JBool (redacted \<noteq> None)), (cs ''config'', JObj cfg),
                (cs ''runtime'', JObj runtime_json), (cs ''system'', JObj system_json)]), s))"

definition handle_status_get :: "'n portal_world \<Rightarrow> 'n portal_task \<Rightarrow> esp_err \<times> 'n portal_task" where
  "handle_status_get w s =
    (let (tree, s) = build_status_response w s
     in case tree of
          None \<Rightarrow> send_error_json w ''500 Internal Server Error'' ''status unavailable'' s
        | Some tree \<Rightarrow> send_cjson w tree s)"

section \<open>The scan\<close>

definition ap_members :: "wifi_ap_record \<Rightarrow> (bytes \<times> json) list" where
  "ap_members ap = [(cs ''ssid'', text_value (ar_ssid ap)), (cs ''rssi'', JNum (ar_rssi ap)),
     (cs ''authmode'', JNum (int (ar_authmode ap)))]"

text \<open>Each network takes an object, its three members and its place in the array.\<close>

fun add_networks :: "'n portal_world \<Rightarrow> wifi_ap_record list \<Rightarrow> 'n portal_task \<Rightarrow> bool \<times> 'n portal_task" where
  "add_networks w [] s = (True, s)"
| "add_networks w (ap # aps) s =
    (let (ok, s) = add_each w 5 s in if ok then add_networks w aps s else (False, s))"

definition out_of_memory :: "'n portal_world \<Rightarrow> 'n portal_task \<Rightarrow> esp_err \<times> 'n portal_task" where
  "out_of_memory w s = send_error_json w ''500 Internal Server Error'' ''out of memory'' s"

definition handle_wifi_scan_get :: "'n portal_world \<Rightarrow> 'n portal_task \<Rightarrow> (esp_err \<times> 'n portal_task) option" where
  "handle_wifi_scan_get w s =
    (let (ok, s) = query (pw_alloc w) s
     in if \<not> ok then Some (out_of_memory w s)
        else do {
          (err, records, wifi) \<leftarrow> provisioning_runtime_scan (pw_wifi w) (Some PORTAL_HTTP_SCAN_LIMIT) (pt_wifi s);
          let s = s\<lparr>pt_wifi := wifi\<rparr>;
          if err \<noteq> ESP_OK then Some (send_error_json w ''400 Bad Request'' ''scan unavailable'' s)
          else let records = (case records of None \<Rightarrow> [] | Some rs \<Rightarrow> rs);
                   (ok, s) = allocate w 2 s
            in if \<not> ok then Some (out_of_memory w s)
               else let (ok, s) = add_each w 1 s
                 in if \<not> ok then Some (out_of_memory w s)
                    else let (ok, s) = add_networks w records s
                      in if \<not> ok then Some (out_of_memory w s)
                         else Some (send_cjson w (JObj [(cs ''aps'', JArr (map (\<lambda>ap. JObj (ap_members ap)) records))]) s)
        })"

section \<open>New settings\<close>

definition stored_mqtt_settings_verified :: "'n portal_world \<Rightarrow> provision_config \<Rightarrow> 'n portal_task \<Rightarrow> bool \<times> 'n portal_task" where
  "stored_mqtt_settings_verified w existing s =
    (let (err, marker, store) = provision_store_load_mqtt_verified (pw_nvs w) (pt_store s) (Some 0);
         marker = (case marker of None \<Rightarrow> 0 | Some m \<Rightarrow> m)
     in (err = ESP_OK \<and> marker \<noteq> 0 \<and> marker = provision_config_mqtt_fingerprint (Some existing),
         s\<lparr>pt_store := store\<rparr>))"

text \<open>The settings to save with the error so far, or nothing when the password has to be given.\<close>

definition merge_update :: "'n portal_world \<Rightarrow> provision_config \<Rightarrow> 'n portal_task \<Rightarrow>
    (esp_err \<times> provision_config) option \<times> 'n portal_task" where
  "merge_update w update s =
    (let ((err, existing), s) = load_config w config_zero s
     in if err = ESP_OK
        then let (verified, s) = stored_mqtt_settings_verified w existing s;
                 password_rule = provision_config_mqtt_password_rule (Some existing) (Some update) verified
          in if password_rule = PROVISION_MQTT_PASSWORD_REQUIRED then (None, s)
             else let (err, out) = provision_config_merge_preserving_secrets (Some existing) (Some update) (Some update);
                      update = (case out of None \<Rightarrow> update | Some u \<Rightarrow> u);
                      update = (if err = ESP_OK \<and> password_rule = PROVISION_MQTT_PASSWORD_DROP
                        then update\<lparr>mqtt_password := replicate (length (mqtt_password update)) 0\<rparr> else update)
               in (Some (err, update), s)
        else (Some (if provision_config_validate (Some update) = PROVISION_CONFIG_OK then ESP_OK else ESP_ERR_INVALID_ARG,
                update), s))"

definition save_and_check :: "'n portal_world \<Rightarrow> provision_config \<Rightarrow> 'n portal_task \<Rightarrow> esp_err \<times> 'n portal_task" where
  "save_and_check w update s =
    (let (err, s) = save_config w update s
     in if err \<noteq> ESP_OK then (err, s)
        else let ((err, existing), s) = load_config w config_zero s
          in (if err = ESP_OK \<and> update \<noteq> existing then ESP_ERR_INVALID_RESPONSE else err, s))"

definition apply_update :: "'n portal_world \<Rightarrow> provision_config \<Rightarrow> 'n portal_task \<Rightarrow> esp_err \<times> 'n portal_task" where
  "apply_update w update s =
    (let (merged, s) = merge_update w update s
     in case merged of
          None \<Rightarrow> send_error_json w ''400 Bad Request'' ''mqtt_password_required'' s
        | Some (err, update) \<Rightarrow>
            let (err, s) = (if err = ESP_OK then save_and_check w update s else (err, s))
            in if err \<noteq> ESP_OK then send_error_json w ''500 Internal Server Error'' ''save failed'' s
               else let (err, s) = call_handler w (RECONNECT update) s
                 in if err \<noteq> ESP_OK then send_json w ''{\"ok\":true,\"saved\":true,\"reconnect\":false}'' s
                    else send_json w ''{\"ok\":true,\"saved\":true,\"reconnect\":true}'' s)"

definition handle_config_post :: "'n portal_world \<Rightarrow> httpd_req \<Rightarrow> 'n portal_task \<Rightarrow> esp_err \<times> 'n portal_task" where
  "handle_config_post w req s =
    (let guard_err = require_ap_local_request req
     in if guard_err \<noteq> ESP_OK then send_ap_guard_error w guard_err s
        else if \<not> ph_reconnect (pt_handlers s)
        then send_error_json w ''503 Service Unavailable'' ''reconnect unavailable'' s
        else let ((err, json), s) = read_json_body w req s
          in if err \<noteq> ESP_OK then send_error_json w ''400 Bad Request'' ''invalid JSON'' s
             else let (ok, s) = allocate w 2 s
               in if \<not> ok then out_of_memory w s
                  else case parse_config_update json of
                         None \<Rightarrow> send_error_json w ''400 Bad Request'' ''invalid config'' s
                       | Some update \<Rightarrow> apply_update w update s)"

section \<open>Actions\<close>

text \<open>
  The beginning that the actions share: the guard, the function of the application, the body. \<open>action\<close> gets
  the JSON object.
\<close>

definition guarded_post :: "'n portal_world \<Rightarrow> httpd_req \<Rightarrow> bool \<Rightarrow> string \<Rightarrow>
    (cjson \<Rightarrow> 'n portal_task \<Rightarrow> esp_err \<times> 'n portal_task) \<Rightarrow> 'n portal_task \<Rightarrow> esp_err \<times> 'n portal_task" where
  "guarded_post w req available unavailable action s =
    (let guard_err = require_ap_local_request req
     in if guard_err \<noteq> ESP_OK then send_ap_guard_error w guard_err s
        else if \<not> available then send_error_json w ''503 Service Unavailable'' unavailable s
        else let ((err, json), s) = read_json_body w req s
          in if err \<noteq> ESP_OK then send_error_json w ''400 Bad Request'' ''invalid JSON'' s else action json s)"

definition handle_empty_action_post :: "'n portal_world \<Rightarrow> httpd_req \<Rightarrow> bool \<Rightarrow> portal_callback \<Rightarrow> string \<Rightarrow> string \<Rightarrow>
    'n portal_task \<Rightarrow> esp_err \<times> 'n portal_task" where
  "handle_empty_action_post w req available f unavailable failed s =
    guarded_post w req available unavailable (\<lambda>json s.
      let (err, s) = call_handler w f s
      in if err = ESP_OK then send_json w ''{\"ok\":true}'' s
         else send_error_json w ''500 Internal Server Error'' failed s) s"

definition handle_mqtt_test_post :: "'n portal_world \<Rightarrow> httpd_req \<Rightarrow> 'n portal_task \<Rightarrow> esp_err \<times> 'n portal_task" where
  "handle_mqtt_test_post w req s =
    handle_empty_action_post w req (ph_mqtt_test (pt_handlers s)) MQTT_TEST ''mqtt test unavailable'' ''mqtt test failed'' s"

definition handle_restart_post :: "'n portal_world \<Rightarrow> httpd_req \<Rightarrow> 'n portal_task \<Rightarrow> esp_err \<times> 'n portal_task" where
  "handle_restart_post w req s =
    handle_empty_action_post w req (ph_restart (pt_handlers s)) RESTART ''restart unavailable'' ''restart failed'' s"

definition handle_test_notification_post :: "'n portal_world \<Rightarrow> httpd_req \<Rightarrow> 'n portal_task \<Rightarrow> esp_err \<times> 'n portal_task" where
  "handle_test_notification_post w req s =
    guarded_post w req (ph_test_notification (pt_handlers s)) ''test notification unavailable'' (\<lambda>json s.
      let (err, s) = call_handler w TEST_NOTIFICATION s
      in if err = ESP_ERR_INVALID_STATE then send_error_json w ''409 Conflict'' ''mqtt broker is not connected'' s
         else if err = ESP_OK then send_json w ''{\"ok\":true,\"queued\":true}'' s
         else send_error_json w ''500 Internal Server Error'' ''test notification failed'' s) s"

definition handle_ble_enroll_post :: "'n portal_world \<Rightarrow> httpd_req \<Rightarrow> 'n portal_task \<Rightarrow> esp_err \<times> 'n portal_task" where
  "handle_ble_enroll_post w req s =
    guarded_post w req (ph_ble_enroll (pt_handlers s)) ''enrollment unavailable'' (\<lambda>json s.
      let (err, s) = call_handler w BLE_ENROLL s
      in if err = ESP_ERR_INVALID_STATE then send_error_json w ''409 Conflict'' ''enrollment is not ready'' s
         else if err = ESP_OK then send_json w ''{\"ok\":true,\"enroll_started\":true}'' s
         else send_error_json w ''500 Internal Server Error'' ''enrollment failed'' s) s"

definition handle_ble_replace_post :: "'n portal_world \<Rightarrow> httpd_req \<Rightarrow> 'n portal_task \<Rightarrow> esp_err \<times> 'n portal_task" where
  "handle_ble_replace_post w req s =
    guarded_post w req (ph_ble_replace (pt_handlers s)) ''replace unavailable'' (\<lambda>json s.
      if \<not> confirmation_matches json PORTAL_HTTP_CONFIRM_REPLACE
      then send_error_json w ''400 Bad Request'' ''confirmation required'' s
      else let (err, s) = call_handler w BLE_REPLACE s
        in if err = ESP_OK then send_json w ''{\"ok\":true,\"replace_requested\":true}'' s
           else send_error_json w ''500 Internal Server Error'' ''replace failed'' s) s"

definition reset_store :: "'n portal_world \<Rightarrow> 'n portal_task \<Rightarrow> esp_err \<times> 'n portal_task" where
  "reset_store w s = (let (err, store) = provision_store_reset (pw_nvs w) (pt_store s) in (err, s\<lparr>pt_store := store\<rparr>))"

definition handle_reset_post :: "'n portal_world \<Rightarrow> httpd_req \<Rightarrow> 'n portal_task \<Rightarrow> esp_err \<times> 'n portal_task" where
  "handle_reset_post w req s =
    guarded_post w req True [] (\<lambda>json s.
      let wants_all = scope_is_all json;
          confirmed = confirmation_matches json
            (if wants_all then PORTAL_HTTP_CONFIRM_RESET_ALL_DATA else PORTAL_HTTP_CONFIRM_RESET_PROVISIONING)
      in if \<not> confirmed then send_error_json w ''400 Bad Request'' ''confirmation required'' s
         else if wants_all \<and> \<not> ph_reset_all_data (pt_handlers s)
         then send_error_json w ''400 Bad Request'' ''all-data reset unavailable'' s
         else let (err, s) = (if wants_all then call_handler w RESET_ALL_DATA s
                    else if ph_reset_provisioning (pt_handlers s) then call_handler w RESET_PROVISIONING s
                    else reset_store w s)
           in if err = ESP_OK then send_json w ''{\"ok\":true,\"reset_requested\":true}'' s
              else send_error_json w ''500 Internal Server Error'' ''reset failed'' s) s"

section \<open>Routes\<close>

definition routes :: "(string \<times> http_method \<times> portal_handler) list" where
  "routes =
    [(''/'', HTTP_GET, INDEX), (''/portal.css'', HTTP_GET, CSS), (''/portal.js'', HTTP_GET, JS),
     (''/favicon.ico'', HTTP_GET, FAVICON), (''/api/status'', HTTP_GET, STATUS_GET),
     (''/api/wifi/scan'', HTTP_GET, WIFI_SCAN_GET), (''/api/config'', HTTP_POST, CONFIG_POST),
     (''/api/mqtt/test'', HTTP_POST, MQTT_TEST_POST), (''/api/notification/test'', HTTP_POST, TEST_NOTIFICATION_POST),
     (''/api/ble/enroll'', HTTP_POST, BLE_ENROLL_POST), (''/api/ble/replace'', HTTP_POST, BLE_REPLACE_POST),
     (''/api/restart'', HTTP_POST, RESTART_POST), (''/api/reset'', HTTP_POST, RESET_POST),
     (''/hotspot-detect.html'', HTTP_GET, PROBE_REDIRECT), (''/library/test/success.html'', HTTP_GET, PROBE_REDIRECT),
     (''/ncsi.txt'', HTTP_GET, PROBE_REDIRECT), (''/connecttest.txt'', HTTP_GET, PROBE_REDIRECT),
     (''/generate_204'', HTTP_GET, PROBE_REDIRECT), (''/gen_204'', HTTP_GET, PROBE_REDIRECT)]"

text \<open>What the server runs for a request; \<open>None\<close> is a wait without an end inside the scan.\<close>

fun run_handler :: "'n portal_world \<Rightarrow> portal_handler \<Rightarrow> httpd_req \<Rightarrow> 'n portal_task \<Rightarrow> (esp_err \<times> 'n portal_task) option" where
  "run_handler w INDEX req s = Some (handle_index_get w s)"
| "run_handler w CSS req s = Some (handle_css_get w s)"
| "run_handler w JS req s = Some (handle_js_get w s)"
| "run_handler w FAVICON req s = Some (handle_favicon_get w s)"
| "run_handler w PROBE_REDIRECT req s = Some (handle_probe_redirect w s)"
| "run_handler w STATUS_GET req s = Some (handle_status_get w s)"
| "run_handler w WIFI_SCAN_GET req s = handle_wifi_scan_get w s"
| "run_handler w CONFIG_POST req s = Some (handle_config_post w req s)"
| "run_handler w MQTT_TEST_POST req s = Some (handle_mqtt_test_post w req s)"
| "run_handler w TEST_NOTIFICATION_POST req s = Some (handle_test_notification_post w req s)"
| "run_handler w BLE_ENROLL_POST req s = Some (handle_ble_enroll_post w req s)"
| "run_handler w BLE_REPLACE_POST req s = Some (handle_ble_replace_post w req s)"
| "run_handler w RESTART_POST req s = Some (handle_restart_post w req s)"
| "run_handler w RESET_POST req s = Some (handle_reset_post w req s)"
| "run_handler w NOT_FOUND req s = Some (handle_not_found w s)"

fun register_each :: "'n portal_world \<Rightarrow> http_effect list \<Rightarrow> 'n portal_task \<Rightarrow> esp_err \<times> 'n portal_task" where
  "register_each w [] s = (ESP_OK, s)"
| "register_each w (e # es) s =
    (let (err, s) = call_server w e s in if err \<noteq> ESP_OK then (err, s) else register_each w es s)"

definition register_all_routes :: "'n portal_world \<Rightarrow> 'n portal_task \<Rightarrow> esp_err \<times> 'n portal_task" where
  "register_all_routes w s =
    register_each w (RegisterNotFound # map (\<lambda>(uri, method, handler). RegisterUri uri method handler) routes) s"

definition portal_http_init :: "'n portal_world \<Rightarrow> portal_http_handlers option \<Rightarrow> 'n portal_task \<Rightarrow> esp_err \<times> 'n portal_task" where
  "portal_http_init w handlers s =
    (if pt_server s then (ESP_OK, s)
     else let s = s\<lparr>pt_handlers := (case handlers of None \<Rightarrow> no_handlers | Some h \<Rightarrow> h)\<rparr>;
              (err, s) = call_server w ServerStart s
       in if err \<noteq> ESP_OK then (err, s)
          else let (err, s) = register_all_routes w s
            in if err \<noteq> ESP_OK then (err, (snd (call_server w ServerStop s))\<lparr>pt_server := False\<rparr>)
               else (ESP_OK, s\<lparr>pt_server := True\<rparr>))"

definition portal_http_stop :: "'n portal_world \<Rightarrow> 'n portal_task \<Rightarrow> esp_err \<times> 'n portal_task" where
  "portal_http_stop w s = (if \<not> pt_server s then (ESP_OK, s) else call_server w ServerStop (s\<lparr>pt_server := False\<rparr>))"

end
