(* ===== verification/Portal_Guard_Correct.thy ===== *)
theory Portal_Guard_Correct
  imports Portal_Http Provision_Store_Correct Wifi_Station_Correct
begin

text \<open>
  Who may change something over the portal: nothing happens for a request that did not come over the access
  point, and what cannot be undone is confirmed.
\<close>

section \<open>What a step leaves alone\<close>

fun callbacks :: "http_effect list \<Rightarrow> portal_callback list" where
  "callbacks [] = []"
| "callbacks (Callback f # es) = f # callbacks es"
| "callbacks (_ # es) = callbacks es"

lemma query_keeps [simp]:
  "pt_store (snd (query f s)) = pt_store s" "pt_handlers (snd (query f s)) = pt_handlers s"
  "pt_effects (snd (query f s)) = pt_effects s" "pt_server (snd (query f s)) = pt_server s"
  by (simp_all add: query_def)

lemma reply_keeps [simp]:
  "pt_store (reply e s) = pt_store s" "pt_handlers (reply e s) = pt_handlers s"
  "pt_effects (reply e s) = e # pt_effects s" "pt_server (reply e s) = pt_server s"
  by (simp_all add: reply_def)

lemma call_server_keeps [simp]:
  "pt_store (snd (call_server w e s)) = pt_store s" "pt_handlers (snd (call_server w e s)) = pt_handlers s"
  "pt_effects (snd (call_server w e s)) = e # pt_effects s" "pt_server (snd (call_server w e s)) = pt_server s"
  by (simp_all add: call_server_def)

lemma call_handler_keeps [simp]:
  "pt_handlers (snd (call_handler w f s)) = pt_handlers s" "pt_effects (snd (call_handler w f s)) = Callback f # pt_effects s"
  "pt_store (snd (call_handler w f s)) = snd (pw_callback w (pt_turn s) f (pt_store s))"
  "fst (call_handler w f s) = fst (pw_callback w (pt_turn s) f (pt_store s))"
  by (simp_all add: call_handler_def split_beta Let_def)

lemma allocations_keep [simp]:
  "pt_store (snd (allocate w n s)) = pt_store s" "pt_handlers (snd (allocate w n s)) = pt_handlers s"
  "pt_effects (snd (allocate w n s)) = pt_effects s"
  "pt_store (snd (add_each w n s)) = pt_store s" "pt_handlers (snd (add_each w n s)) = pt_handlers s"
  "pt_effects (snd (add_each w n s)) = pt_effects s"
  by (induction n arbitrary: s) (simp_all add: split_beta Let_def)

lemma add_networks_keep [simp]:
  "pt_store (snd (add_networks w aps s)) = pt_store s" "pt_effects (snd (add_networks w aps s)) = pt_effects s"
  by (induction aps arbitrary: s) (simp_all add: split_beta Let_def del: add_each.simps)

lemma receive_body_0: "receive_body w 0 s = (Some [], s)"
  by (simp add: receive_body.simps)

lemma receive_body_stop:
  assumes "n \<noteq> 0" "query (pw_recv w) s = (piece, t)" "\<And>bs. piece = Some bs \<Longrightarrow> take n bs = []"
  shows "receive_body w n s = (None, t)"
  using assms by (subst receive_body.simps) (auto simp: Let_def split: option.split)

lemma receive_body_more:
  assumes "n \<noteq> 0" "query (pw_recv w) s = (Some bs, t)" "take n bs \<noteq> []"
    and "receive_body w (n - length (take n bs)) t = (rest, u)"
  shows "receive_body w n s = (map_option (\<lambda>r. take n bs @ r) rest, u)"
proof -
  have "receive_body w n s = (let bs = take n bs in if bs = [] then (None, t)
      else let (rest, s) = receive_body w (n - length bs) t in (map_option (\<lambda>r. bs @ r) rest, s))"
    using assms(1,2) by (subst receive_body.simps) (simp only: Let_def prod.case option.case if_False)
  then show ?thesis using assms(3,4) by (simp only: Let_def prod.case if_False)
qed

lemma receive_body_cases:
  obtains "n = 0" "receive_body w n s = (Some [], s)"
  | piece t where "n \<noteq> 0" "query (pw_recv w) s = (piece, t)" "receive_body w n s = (None, t)"
  | bs t rest u where "n \<noteq> 0" "query (pw_recv w) s = (Some bs, t)" "take n bs \<noteq> []"
      "receive_body w (n - length (take n bs)) t = (rest, u)"
      "receive_body w n s = (map_option (\<lambda>r. take n bs @ r) rest, u)"
proof (cases "n = 0")
  case False
  obtain piece t where q: "query (pw_recv w) s = (piece, t)" by fastforce
  show thesis
  proof (cases "\<exists>bs. piece = Some bs \<and> take n bs \<noteq> []")
    case True
    then obtain bs where bs: "piece = Some bs" "take n bs \<noteq> []" by blast
    obtain rest u where "receive_body w (n - length (take n bs)) t = (rest, u)" by fastforce
    then show thesis using that(3) [OF False _ bs(2)] receive_body_more [OF False _ bs(2)] q bs(1) by blast
  next
    case none: False
    then have "receive_body w n s = (None, t)" by (intro receive_body_stop [OF False q]) blast
    then show thesis using that(2) [OF False q] by blast
  qed
next
  case True
  then show thesis using that(1) receive_body_0 [of w s] by blast
qed

lemma receive_body_keeps:
  "pt_store (snd (receive_body w n s)) = pt_store s \<and> pt_handlers (snd (receive_body w n s)) = pt_handlers s \<and>
   pt_effects (snd (receive_body w n s)) = pt_effects s"
proof (induction n arbitrary: s rule: less_induct)
  case (less n)
  show ?case
  proof (cases rule: receive_body_cases [of n w s])
    case (3 bs t rest u)
    have "n - length (take n bs) < n" using 3(1,3) by (cases n) auto
    from less.IH [OF this, of t] 3(2,4,5) query_keeps [of "pw_recv w" s] show ?thesis by simp
  qed (use query_keeps [of "pw_recv w" s] in simp_all)
qed

text \<open>The body fits its buffer, which has room for the length of the request and a NUL.\<close>

lemma receive_body_length: "fst (receive_body w n s) = Some body \<Longrightarrow> length body = n"
proof (induction n arbitrary: s body rule: less_induct)
  case (less n)
  show ?case
  proof (cases rule: receive_body_cases [of n w s])
    case (3 bs t rest u)
    have lt: "n - length (take n bs) < n" using 3(1,3) by (cases n) auto
    obtain r where r: "fst (receive_body w (n - length (take n bs)) t) = Some r" "body = take n bs @ r"
      using less.prems 3(4,5) by auto
    from less.IH [OF lt r(1)] r(2) show ?thesis by (simp add: min_def split: if_splits)
  qed (use less.prems in simp_all)
qed

lemma body_keeps [simp]:
  "pt_store (snd (read_json_body w req s)) = pt_store s" "pt_handlers (snd (read_json_body w req s)) = pt_handlers s"
  "pt_effects (snd (read_json_body w req s)) = pt_effects s"
  using receive_body_keeps [of w]
  by (auto simp: read_json_body_def split_beta Let_def split: option.splits cjson.splits)

text \<open>An answer changes nothing, and no answer is a call of the application.\<close>

lemma answers_keep [simp]:
  "pt_store (snd (send_json w txt s)) = pt_store s" "callbacks (pt_effects (snd (send_json w txt s))) = callbacks (pt_effects s)"
  "pt_store (snd (send_error_json w st e s)) = pt_store s"
  "callbacks (pt_effects (snd (send_error_json w st e s))) = callbacks (pt_effects s)"
  "pt_store (snd (send_ap_guard_error w err s)) = pt_store s"
  "callbacks (pt_effects (snd (send_ap_guard_error w err s))) = callbacks (pt_effects s)"
  "pt_store (snd (send_cjson w tree s)) = pt_store s"
  "callbacks (pt_effects (snd (send_cjson w tree s))) = callbacks (pt_effects s)"
  "pt_store (snd (out_of_memory w s)) = pt_store s"
  "callbacks (pt_effects (snd (out_of_memory w s))) = callbacks (pt_effects s)"
  by (auto simp: send_json_def send_error_json_def send_ap_guard_error_def send_cjson_def out_of_memory_def
      split_beta Let_def split: option.splits)

lemma store_calls_keep [simp]:
  "pt_effects (snd (load_config w buf s)) = pt_effects s" "pt_handlers (snd (load_config w buf s)) = pt_handlers s"
  "pt_effects (snd (save_config w c s)) = pt_effects s" "pt_effects (snd (reset_store w s)) = pt_effects s"
  "pt_effects (snd (stored_mqtt_settings_verified w c s)) = pt_effects s"
  by (simp_all add: load_config_def save_config_def reset_store_def stored_mqtt_settings_verified_def split_beta Let_def)

section \<open>Only over the access point\<close>

lemma guarded_out:
  assumes "require_ap_local_request req \<noteq> ESP_OK"
  shows "pt_store (snd (guarded_post w req available unavailable action s)) = pt_store s"
    "callbacks (pt_effects (snd (guarded_post w req available unavailable action s))) = callbacks (pt_effects s)"
  using assms by (simp_all add: guarded_post_def Let_def)

lemma redacted_keeps [simp]:
  "pt_effects (snd (redacted_config w s)) = pt_effects s" "pt_handlers (snd (redacted_config w s)) = pt_handlers s"
  "pt_store (snd (redacted_config w s)) = pt_store (snd (load_config w config_zero s))"
  by (auto simp: redacted_config_def split_beta Let_def split: prod.splits option.splits esp_err.splits)

lemma runtime_status_keeps [simp]:
  "pt_effects (snd (runtime_status_now w s)) = pt_effects s" "pt_handlers (snd (runtime_status_now w s)) = pt_handlers s"
  "pt_store (snd (runtime_status_now w s)) = pt_store s"
  by (simp_all add: runtime_status_now_def split_beta Let_def)

lemma status_callbacks:
  "set (callbacks (pt_effects (snd (handle_status_get w s)))) \<subseteq> insert STATUS (set (callbacks (pt_effects s)))"
  by (auto simp: handle_status_get_def build_status_response_def system_status_now_def split_beta Let_def
      simp del: allocate.simps add_each.simps split: option.splits)

text \<open>The address of the access point, as an IPv4 address or as one mapped into IPv6.\<close>

definition arrived_at_access_point :: "httpd_req \<Rightarrow> bool" where
  "arrived_at_access_point req \<longleftrightarrow>
     (case rq_local req of
        LOCAL_IPV4 _ a \<Rightarrow> a = [192, 168, 4, 1]
      | LOCAL_IPV6 _ a \<Rightarrow> take 16 a = [0, 0, 0, 0, 0, 0, 0, 0, 0, 0, 0xFF, 0xFF, 192, 168, 4, 1]
      | _ \<Rightarrow> False)"

lemma guard_checks_address:
  assumes "require_ap_local_request req = ESP_OK"
  shows "arrived_at_access_point req"
proof (cases "rq_local req")
  case (LOCAL_IPV6 len a)
  then have "take 12 a = replicate 10 0 @ [0xFF, 0xFF]" "take 4 (drop 12 a) = [192, 168, 4, 1]"
    using assms by (auto simp: require_ap_local_request_def v4_mapped_def PORTAL_HTTP_AP_HOST_def split: if_splits)
  moreover have "take 16 a = take 12 a @ take 4 (drop 12 a)" using take_add [of 12 4 a] by simp
  ultimately show ?thesis using LOCAL_IPV6 by (simp add: arrived_at_access_point_def numeral_eq_Suc)
qed (use assms in \<open>auto simp: require_ap_local_request_def arrived_at_access_point_def PORTAL_HTTP_AP_HOST_def split: if_splits\<close>)

text \<open>What the store keeps where it is only read: everything but the state of the flash driver, and every stored value.\<close>

definition only_read :: "('n \<Rightarrow> key_values) \<Rightarrow> 'n store_state \<Rightarrow> 'n store_state \<Rightarrow> bool" where
  "only_read kv st st' \<longleftrightarrow> st' = st\<lparr>flash := flash st'\<rparr> \<and> kv (flash st') = kv (flash st)"

lemma only_read_refl [simp]: "only_read kv st st"
  by (simp add: only_read_def)

lemma load_only_reads:
  assumes "nvs_spec (pw_nvs w) kv" "s_initialized (pt_store s)"
  shows "only_read kv (pt_store s) (pt_store (snd (load_config w buf s)))"
  using nvs_spec_simps(1) [OF assms(1)] assms(2)
  by (auto simp: load_config_def provision_store_load_def open_namespace_def only_read_def split_beta Let_def)

lemma status_only_reads:
  assumes "nvs_spec (pw_nvs w) kv" "s_initialized (pt_store s)"
    and status: "\<And>turn st. snd (pw_callback w turn STATUS st) = st"
  shows "only_read kv (pt_store s) (pt_store (snd (handle_status_get w s)))"
proof -
  define t where "t = snd (allocate w 6 s)"
  have t: "pt_store t = pt_store s" by (simp add: t_def)
  have "pt_store (snd (system_status_now w u)) = pt_store u" for u
    by (simp add: system_status_now_def status Let_def)
  then have "pt_store (snd (build_status_response w s)) = pt_store t \<or>
      pt_store (snd (build_status_response w s)) = pt_store (snd (load_config w config_zero t))"
    by (simp add: build_status_response_def t_def split_beta Let_def del: allocate.simps add_each.simps)
  moreover have "pt_store (snd (handle_status_get w s)) = pt_store (snd (build_status_response w s))"
    by (simp add: handle_status_get_def split_beta Let_def split: option.split)
  moreover have "only_read kv (pt_store t) (pt_store (snd (load_config w config_zero t)))"
    by (rule load_only_reads [OF assms(1)]) (simp add: t assms(2))
  ultimately show ?thesis by (auto simp: t)
qed

text \<open>
  C26: Nothing is changed or started over the portal by a request that did not arrive at the address of the access
  point. On every route but the page of the status, the store stays as it is and no function of the application
  is called. The page of the status loads the settings and asks the application for its status, and for nothing
  else; with a flash that behaves as described (\<open>nvs_spec\<close>), a store that was initialized and a status function that
  leaves the store alone, as \<open>portal_status\<close> in \<open>app_main.c\<close> does, it only reads: every stored value and every other part of
  the store stays as it is.
\<close>

theorem only_the_access_point_acts:
  assumes "\<not> arrived_at_access_point req" and "run_handler w handler req s = Some (err, s')"
  shows "if handler = STATUS_GET
    then set (callbacks (pt_effects s')) \<subseteq> insert STATUS (set (callbacks (pt_effects s))) \<and>
      (\<forall>kv. nvs_spec (pw_nvs w) kv \<and> s_initialized (pt_store s) \<and>
        (\<forall>turn st. snd (pw_callback w turn STATUS st) = st) \<longrightarrow> only_read kv (pt_store s) (pt_store s'))
    else pt_store s' = pt_store s \<and> callbacks (pt_effects s') = callbacks (pt_effects s)"
proof -
  have out: "require_ap_local_request req \<noteq> ESP_OK" using assms(1) guard_checks_address by blast
  show ?thesis
proof (cases handler)
  case STATUS_GET
  with assms(2) status_callbacks [of w s] status_only_reads [of w _ s] show ?thesis by auto
next
  case WIFI_SCAN_GET
  with assms(2) show ?thesis
    by (auto simp: handle_wifi_scan_get_def split_beta Let_def simp del: allocate.simps add_each.simps
        split: bind_splits if_splits prod.splits dest!: arg_cong [where f = snd])
next
  case CONFIG_POST
  with assms(2) out show ?thesis by (auto simp: handle_config_post_def Let_def dest!: arg_cong [where f = snd])
qed (use assms(2) out guarded_out [OF out, of w] in \<open>auto simp: handle_index_get_def handle_css_get_def handle_js_get_def
    handle_favicon_get_def handle_probe_redirect_def handle_not_found_def send_asset_def send_redirect_def
    handle_empty_action_post_def handle_mqtt_test_post_def handle_restart_post_def handle_test_notification_post_def
    handle_ble_enroll_post_def handle_ble_replace_post_def handle_reset_post_def dest!: arg_cong [where f = snd]\<close>)
qed

section \<open>What cannot be undone is confirmed\<close>

fun confirmation_of :: "portal_callback \<Rightarrow> bytes option" where
  "confirmation_of BLE_REPLACE = Some PORTAL_HTTP_CONFIRM_REPLACE"
| "confirmation_of RESET_PROVISIONING = Some PORTAL_HTTP_CONFIRM_RESET_PROVISIONING"
| "confirmation_of RESET_ALL_DATA = Some PORTAL_HTTP_CONFIRM_RESET_ALL_DATA"
| "confirmation_of _ = None"

text \<open>The request came over the access point, and its object has the text.\<close>

definition confirmed_by :: "'n portal_world \<Rightarrow> httpd_req \<Rightarrow> 'n portal_task \<Rightarrow> bytes \<Rightarrow> bool" where
  "confirmed_by w req s literal \<longleftrightarrow> require_ap_local_request req = ESP_OK \<and>
     (\<exists>json. fst (read_json_body w req s) = (ESP_OK, json) \<and> confirmation_matches json literal)"

lemma guarded_cases:
  assumes "guarded_post w req available unavailable action s = (err, s')"
  obtains "pt_store s' = pt_store s" "callbacks (pt_effects s') = callbacks (pt_effects s)"
  | json t where "require_ap_local_request req = ESP_OK" "read_json_body w req s = ((ESP_OK, json), t)"
      "action json t = (err, s')"
proof (cases "require_ap_local_request req = ESP_OK \<and> available \<and> fst (fst (read_json_body w req s)) = ESP_OK")
  case True
  obtain json t where "read_json_body w req s = ((ESP_OK, json), t)"
    using True by (cases "read_json_body w req s"; cases "fst (read_json_body w req s)") auto
  with assms True that(2) show thesis by (simp add: guarded_post_def Let_def)
next
  case False
  then have "pt_store (snd (guarded_post w req available unavailable action s)) = pt_store s \<and>
      callbacks (pt_effects (snd (guarded_post w req available unavailable action s))) = callbacks (pt_effects s)"
    by (auto simp: guarded_post_def Let_def split_beta)
  with assms that(1) show thesis by simp
qed

definition guarded_action :: "'n portal_world \<Rightarrow> httpd_req \<Rightarrow> 'n portal_task \<Rightarrow> 'n portal_task \<Rightarrow> bool" where
  "guarded_action w req s s' \<longleftrightarrow> callbacks (pt_effects s') = callbacks (pt_effects s) \<or>
     (\<exists>f. callbacks (pt_effects s') = f # callbacks (pt_effects s) \<and>
        (\<forall>literal. confirmation_of f = Some literal \<longrightarrow> confirmed_by w req s literal))"

lemma guarded_actionI:
  assumes "guarded_post w req available unavailable action s = (err, s')"
    and "\<And>json t. require_ap_local_request req = ESP_OK \<Longrightarrow> read_json_body w req s = ((ESP_OK, json), t) \<Longrightarrow>
      action json t = (err, s') \<Longrightarrow> callbacks (pt_effects t) = callbacks (pt_effects s) \<Longrightarrow> guarded_action w req s s'"
  shows "guarded_action w req s s'"
  using assms(1)
proof (cases rule: guarded_cases)
  case (2 json t)
  have "callbacks (pt_effects t) = callbacks (pt_effects s)" using body_keeps(3) [of w req s] 2(2) by simp
  with 2 show ?thesis by (intro assms(2))
qed (simp add: guarded_action_def)

text \<open>An action without a confirmation, and one with.\<close>

lemma plain_action:
  assumes "confirmation_of f = None" "callbacks (pt_effects t) = callbacks (pt_effects s)"
    "callbacks (pt_effects s') = callbacks (pt_effects (snd (call_handler w f t)))"
  shows "guarded_action w req s s'"
  using assms by (auto simp: guarded_action_def)

lemma confirmed_action:
  assumes "require_ap_local_request req = ESP_OK" "read_json_body w req s = ((ESP_OK, json), t)"
    "confirmation_of f = Some literal" "confirmation_matches json literal"
    "callbacks (pt_effects s') = f # callbacks (pt_effects s)"
  shows "guarded_action w req s s'"
  using assms by (auto simp: guarded_action_def confirmed_by_def)

lemma reset_guarded:
  assumes "handle_reset_post w req s = (err, s')"
  shows "guarded_action w req s s' \<and> (pt_store s' \<noteq> pt_store s \<longrightarrow>
    confirmed_by w req s PORTAL_HTTP_CONFIRM_RESET_ALL_DATA \<or> confirmed_by w req s PORTAL_HTTP_CONFIRM_RESET_PROVISIONING)"
  using assms unfolding handle_reset_post_def
proof (cases rule: guarded_cases)
  case (2 json t)
  have t: "callbacks (pt_effects t) = callbacks (pt_effects s)" "pt_store t = pt_store s"
    using body_keeps(1,3) [of w req s] 2(2) by simp_all
  let ?literal = "if scope_is_all json then PORTAL_HTTP_CONFIRM_RESET_ALL_DATA else PORTAL_HTTP_CONFIRM_RESET_PROVISIONING"
  show ?thesis
  proof (cases "confirmation_matches json ?literal")
    case True
    then have c: "confirmed_by w req s ?literal" using 2(1,2) by (simp add: confirmed_by_def)
    from 2(3) t True have "callbacks (pt_effects s') = callbacks (pt_effects s) \<or>
        scope_is_all json \<and> callbacks (pt_effects s') = RESET_ALL_DATA # callbacks (pt_effects s) \<or>
        \<not> scope_is_all json \<and> callbacks (pt_effects s') = RESET_PROVISIONING # callbacks (pt_effects s)"
      by (auto simp: Let_def split_beta dest!: arg_cong [where f = snd] split: if_splits)
    with c show ?thesis by (auto simp: guarded_action_def split: if_splits)
  next
    case False
    with 2(3) t show ?thesis by (auto simp: guarded_action_def Let_def dest!: arg_cong [where f = snd])
  qed
qed (simp add: guarded_action_def)

lemma status_guarded: "guarded_action w req s (snd (handle_status_get w s))"
  by (auto simp: guarded_action_def handle_status_get_def build_status_response_def system_status_now_def split_beta Let_def
      simp del: allocate.simps add_each.simps split: option.splits)

lemma save_and_check_effects [simp]: "pt_effects (snd (save_and_check w c s)) = pt_effects s"
  by (simp add: save_and_check_def split_beta Let_def)

lemma merge_update_effects [simp]: "pt_effects (snd (merge_update w c s)) = pt_effects s"
  by (simp add: merge_update_def split_beta Let_def)

lemma apply_update_callbacks:
  "callbacks (pt_effects (snd (apply_update w u s))) = callbacks (pt_effects s) \<or>
   (\<exists>c. callbacks (pt_effects (snd (apply_update w u s))) = RECONNECT c # callbacks (pt_effects s))"
  by (auto simp: apply_update_def split_beta Let_def split: option.split)

lemma config_guarded: "guarded_action w req s (snd (handle_config_post w req s))"
  using apply_update_callbacks [of w "the (parse_config_update (snd (fst (read_json_body w req s))))"
      "snd (allocate w 2 (snd (read_json_body w req s)))"]
  by (auto simp: guarded_action_def handle_config_post_def split_beta Let_def simp del: allocate.simps split: option.splits)

lemma scan_guarded:
  "handle_wifi_scan_get w s = Some (err, s') \<Longrightarrow> guarded_action w req s s'"
  by (auto simp: guarded_action_def handle_wifi_scan_get_def split_beta Let_def simp del: allocate.simps add_each.simps
      split: bind_splits if_splits prod.splits dest!: arg_cong [where f = snd])

lemma plain_guarded:
  assumes "confirmation_of f = None" "\<And>err s. callbacks (pt_effects (snd (answer err s))) = callbacks (pt_effects s)"
  shows "guarded_action w req s (snd (guarded_post w req available unavailable
    (\<lambda>json s. let (err, s) = call_handler w f s in answer err s) s))"
proof -
  obtain err s' where r: "guarded_post w req available unavailable
      (\<lambda>json s. let (err, s) = call_handler w f s in answer err s) s = (err, s')" by fastforce
  then have "guarded_action w req s s'"
  proof (rule guarded_actionI)
    fix json t
    assume t: "callbacks (pt_effects t) = callbacks (pt_effects s)"
      and "(let (err, s) = call_handler w f t in answer err s) = (err, s')"
    then have "s' = snd (answer (fst (call_handler w f t)) (snd (call_handler w f t)))"
      by (simp add: split_beta Let_def)
    then have "callbacks (pt_effects s') = callbacks (pt_effects (snd (call_handler w f t)))" using assms(2) by simp
    with t show "guarded_action w req s s'" using assms(1) by (intro plain_action)
  qed
  with r show ?thesis by simp
qed

lemma actions_guarded:
  "guarded_action w req s (snd (handle_empty_action_post w req available MQTT_TEST unavailable failed s))"
  "guarded_action w req s (snd (handle_empty_action_post w req available RESTART unavailable failed s))"
  "guarded_action w req s (snd (handle_test_notification_post w req s))"
  "guarded_action w req s (snd (handle_ble_enroll_post w req s))"
  unfolding handle_empty_action_post_def handle_test_notification_post_def handle_ble_enroll_post_def
  by (rule plain_guarded; simp)+

lemma replace_guarded:
  assumes "handle_ble_replace_post w req s = (err, s')"
  shows "guarded_action w req s s'"
  using assms unfolding handle_ble_replace_post_def
proof (rule guarded_actionI)
  fix json t
  assume a: "require_ap_local_request req = ESP_OK" "read_json_body w req s = ((ESP_OK, json), t)"
    "callbacks (pt_effects t) = callbacks (pt_effects s)"
    and r: "(if \<not> confirmation_matches json PORTAL_HTTP_CONFIRM_REPLACE
      then send_error_json w ''400 Bad Request'' ''confirmation required'' t
      else let (err, s) = call_handler w BLE_REPLACE t
        in if err = ESP_OK then send_json w ''{\"ok\":true,\"replace_requested\":true}'' s
           else send_error_json w ''500 Internal Server Error'' ''replace failed'' s) = (err, s')"
  show "guarded_action w req s s'"
  proof (cases "confirmation_matches json PORTAL_HTTP_CONFIRM_REPLACE")
    case True
    then show ?thesis
      by (rule confirmed_action [OF a(1,2), where f = BLE_REPLACE, rotated])
        (use r a(3) True in \<open>auto simp: split_beta Let_def dest!: arg_cong [where f = snd] split: if_splits\<close>)
  next
    case False
    with r a(3) show ?thesis by (auto simp: guarded_action_def dest!: arg_cong [where f = snd])
  qed
qed

lemma pages_guarded:
  "guarded_action w req s (snd (handle_index_get w s))" "guarded_action w req s (snd (handle_css_get w s))"
  "guarded_action w req s (snd (handle_js_get w s))" "guarded_action w req s (snd (handle_favicon_get w s))"
  "guarded_action w req s (snd (handle_probe_redirect w s))" "guarded_action w req s (snd (handle_not_found w s))"
  by (simp_all add: guarded_action_def handle_index_get_def handle_css_get_def handle_js_get_def handle_favicon_get_def
      handle_probe_redirect_def handle_not_found_def send_asset_def send_redirect_def)

text \<open>
  C27: Each request calls at most one function of the application. The replacement of the phone and both resets
  are called only for a request over the access point whose object has the matching confirmation, and
  without one a reset does not touch the store either.
\<close>

theorem destructive_actions_confirmed:
  assumes "run_handler w handler req s = Some (err, s')"
  shows "(callbacks (pt_effects s') = callbacks (pt_effects s) \<or>
      (\<exists>f. callbacks (pt_effects s') = f # callbacks (pt_effects s) \<and>
        (\<forall>literal. confirmation_of f = Some literal \<longrightarrow> confirmed_by w req s literal))) \<and>
    (handler = RESET_POST \<and> pt_store s' \<noteq> pt_store s \<longrightarrow>
      confirmed_by w req s PORTAL_HTTP_CONFIRM_RESET_ALL_DATA \<or> confirmed_by w req s PORTAL_HTTP_CONFIRM_RESET_PROVISIONING)"
  unfolding guarded_action_def [symmetric]
proof (cases "handler = RESET_POST")
  case True
  with assms show "guarded_action w req s s' \<and> (handler = RESET_POST \<and> pt_store s' \<noteq> pt_store s \<longrightarrow>
      confirmed_by w req s PORTAL_HTTP_CONFIRM_RESET_ALL_DATA \<or> confirmed_by w req s PORTAL_HTTP_CONFIRM_RESET_PROVISIONING)"
    using reset_guarded [of w req s err s'] by simp
next
  case False
  have "guarded_action w req s s'"
    using assms False pages_guarded [of w req s] status_guarded [of w req s] config_guarded [of w req s] scan_guarded
      actions_guarded [of w req s] replace_guarded [of w req s err s']
    by (cases handler) (auto simp: handle_mqtt_test_post_def handle_restart_post_def dest!: arg_cong [where f = snd])
  with False show "guarded_action w req s s' \<and> (handler = RESET_POST \<and> pt_store s' \<noteq> pt_store s \<longrightarrow>
      confirmed_by w req s PORTAL_HTTP_CONFIRM_RESET_ALL_DATA \<or> confirmed_by w req s PORTAL_HTTP_CONFIRM_RESET_PROVISIONING)"
    by simp
qed

section \<open>The life of the server\<close>

lemma register_each_done:
  "fst (register_each w es s) = ESP_OK \<Longrightarrow> set (pt_effects (snd (register_each w es s))) = set es \<union> set (pt_effects s)"
  by (induction es arbitrary: s) (auto simp: split_beta Let_def split: if_splits)

text \<open>
  A start ends with a server that knows every route, or with an error and none: one that was started and could
  not get its routes is stopped again.
\<close>

theorem portal_init_all_or_nothing:
  assumes "portal_http_init w handlers s = (err, s')" and "\<not> pt_server s"
  shows "if err = ESP_OK
    then pt_server s' \<and> (\<forall>(uri, method, handler) \<in> set routes. RegisterUri uri method handler \<in> set (pt_effects s'))
    else \<not> pt_server s' \<and> (hd (pt_effects s') = ServerStart \<or> hd (pt_effects s') = ServerStop)"
proof -
  let ?s = "s\<lparr>pt_handlers := (case handlers of None \<Rightarrow> no_handlers | Some h \<Rightarrow> h)\<rparr>"
  let ?es = "RegisterNotFound # map (\<lambda>(uri, method, handler). RegisterUri uri method handler) routes"
  obtain e t where t: "call_server w ServerStart ?s = (e, t)" by fastforce
  then have up: "pt_effects t = ServerStart # pt_effects s" "\<not> pt_server t"
    using call_server_keeps [of w ServerStart ?s] assms(2) by simp_all
  obtain e' u where u: "register_each w ?es t = (e', u)" by fastforce
  show ?thesis
  proof (cases "e = ESP_OK \<and> e' = ESP_OK")
    case True
    have sub: "set ?es \<subseteq> set (pt_effects u)"
      using register_each_done [of w ?es t] True unfolding u by (simp only: fst_conv snd_conv simp_thms Un_upper1)
    have "RegisterUri uri verb target \<in> set (pt_effects u)" if "(uri, verb, target) \<in> set routes" for uri verb target
      by (rule subsetD [OF sub]) (use that in force)
    moreover have "err = ESP_OK" "s' = u\<lparr>pt_server := True\<rparr>"
      using assms t u True by (auto simp: portal_http_init_def register_all_routes_def Let_def simp del: register_each.simps)
    ultimately show ?thesis by fastforce
  next
    case False
    then have "err \<noteq> ESP_OK \<and> (s' = t \<or> s' = (snd (call_server w ServerStop u))\<lparr>pt_server := False\<rparr>)"
      using assms t u by (auto simp: portal_http_init_def register_all_routes_def Let_def simp del: register_each.simps split: if_splits)
    then show ?thesis using up by auto
  qed
qed

section \<open>Examples\<close>

text \<open>A portal over an empty flash, whose application accepts everything and whose requests confirm a replacement.\<close>

definition quiet_portal :: "key_values portal_world" where
  "quiet_portal = \<lparr>pw_answer = (\<lambda>_. ESP_OK), pw_alloc = (\<lambda>_. True), pw_recv = (\<lambda>_. Some (cs ''{}'')),
     pw_callback = (\<lambda>_ _ store. (ESP_OK, store)), pw_status = (\<lambda>_. system_status_zero),
     pw_parse = (\<lambda>body. Some (CJ_OBJECT [(cs ''confirmation'', CJ_STRING (Some PORTAL_HTTP_CONFIRM_REPLACE))], length body)),
     pw_print = (\<lambda>_ _. Some []), pw_nvs = map_nvs, pw_store_alloc = (\<lambda>_ _. True), pw_wifi = quiet_air,
     pw_target = cs ''esp32'', pw_family = cs ''ESP32''\<rparr>"

definition all_handlers :: portal_http_handlers where
  "all_handlers = \<lparr>ph_status = True, ph_mqtt_test = True, ph_test_notification = True, ph_reconnect = True,
     ph_ble_enroll = True, ph_ble_replace = True, ph_restart = True, ph_reset_provisioning = True, ph_reset_all_data = True\<rparr>"

definition portal_start :: "key_values portal_task" where
  "portal_start = \<lparr>pt_server = True, pt_handlers = all_handlers, pt_store = store_start Map.empty, pt_wifi = ready_air,
     pt_turn = 0, pt_effects = []\<rparr>"

definition ap_request :: httpd_req where
  "ap_request = \<lparr>rq_content_len = 2, rq_socket = 4, rq_local = LOCAL_IPV4 16 [192, 168, 4, 1]\<rparr>"

definition home_request :: httpd_req where
  "home_request = ap_request\<lparr>rq_local := LOCAL_IPV4 16 [10, 0, 0, 10]\<rparr>"

theorem only_the_access_point_acts_witness:
  "(\<exists>err s'. run_handler quiet_portal RESET_POST home_request portal_start = Some (err, s') \<and>
     pt_store s' = pt_store portal_start \<and> callbacks (pt_effects s') = []) \<and>
   (\<exists>err s'. run_handler quiet_portal STATUS_GET home_request portal_start = Some (err, s') \<and>
     only_read (\<lambda>m. m) (pt_store portal_start) (pt_store s'))"
proof
  have out: "\<not> arrived_at_access_point home_request"
    by (simp add: arrived_at_access_point_def home_request_def ap_request_def)
  obtain err s' where r: "run_handler quiet_portal RESET_POST home_request portal_start = Some (err, s')" by fastforce
  from only_the_access_point_acts [OF out r] r
  show "\<exists>err s'. run_handler quiet_portal RESET_POST home_request portal_start = Some (err, s') \<and>
     pt_store s' = pt_store portal_start \<and> callbacks (pt_effects s') = []"
    by (simp add: portal_start_def)
  obtain err s' where g: "run_handler quiet_portal STATUS_GET home_request portal_start = Some (err, s')" by fastforce
  have "nvs_spec (pw_nvs quiet_portal) (\<lambda>m. m)" "s_initialized (pt_store portal_start)"
    "snd (pw_callback quiet_portal turn STATUS st) = st" for turn st
    using map_nvs_spec by (simp_all add: quiet_portal_def portal_start_def store_start_def)
  with only_the_access_point_acts [OF out g] g
  show "\<exists>err s'. run_handler quiet_portal STATUS_GET home_request portal_start = Some (err, s') \<and>
     only_read (\<lambda>m. m) (pt_store portal_start) (pt_store s')"
    by (metis (no_types, lifting))
qed

theorem destructive_actions_confirmed_witness:
  "\<exists>err s'. run_handler quiet_portal BLE_REPLACE_POST ap_request portal_start = Some (err, s') \<and>
     callbacks (pt_effects s') = [BLE_REPLACE] \<and> confirmed_by quiet_portal ap_request portal_start PORTAL_HTTP_CONFIRM_REPLACE"
proof -
  obtain err s' where r: "run_handler quiet_portal BLE_REPLACE_POST ap_request portal_start = Some (err, s')" by fastforce
  have "callbacks (pt_effects s') = [BLE_REPLACE]"
    using r by (auto simp: handle_ble_replace_post_def guarded_post_def require_ap_local_request_def ap_request_def
        SOCKADDR_IN_SIZE_def PORTAL_HTTP_AP_HOST_def portal_start_def all_handlers_def read_json_body_def quiet_portal_def
        PORTAL_HTTP_MAX_POST_BODY_def query_def receive_body.simps confirmation_matches_def item_is_def get_item_def
        skip_space_const_def call_handler_def send_json_def call_server_def reply_def)
  moreover from this destructive_actions_confirmed [OF r] have
    "confirmed_by quiet_portal ap_request portal_start PORTAL_HTTP_CONFIRM_REPLACE" by (auto simp: portal_start_def)
  ultimately show ?thesis using r by blast
qed

end
