(* ===== verification/Portal_Config_Correct.thy ===== *)
theory Portal_Config_Correct
  imports Portal_Guard_Correct
begin

text \<open>
  What becomes of new settings: the portal stores the merge of the update with the settings it has, hands the
  application exactly what it stored, and keeps the secrets out of the status and the password of
  proven settings with its server.
\<close>

section \<open>The store behind the portal\<close>

text \<open>What the portal relies on: what was saved is loaded, and a load changes nothing.\<close>

locale settings_store =
  fixes ready :: "'s \<Rightarrow> bool"
    and content :: "'s \<Rightarrow> 'c option"
    and rest :: "'s \<Rightarrow> 'r"
    and storable :: "'c \<Rightarrow> 's \<Rightarrow> bool"
    and load :: "'s \<Rightarrow> (esp_err \<times> 'c) \<times> 's"
    and save :: "'c \<Rightarrow> 's \<Rightarrow> esp_err \<times> 's"
  assumes load_content: "ready s \<Longrightarrow> load s = ((err, d), s') \<Longrightarrow> ready s' \<and> content s' = content s \<and> rest s' = rest s \<and>
      (case content s of None \<Rightarrow> err \<noteq> ESP_OK | Some c \<Rightarrow> err = ESP_OK \<and> d = c)"
    and save_content: "ready s \<Longrightarrow> storable c s \<Longrightarrow>
      \<exists>s'. save c s = (ESP_OK, s') \<and> ready s' \<and> content s' = Some c \<and> rest s' = rest s"
begin

lemma saved_is_loaded:
  assumes "ready s" "storable c s"
  obtains s' s'' where "save c s = (ESP_OK, s')" "load s' = ((ESP_OK, c), s'')" "ready s''" "content s'' = Some c"
    "rest s'' = rest s"
proof -
  obtain s' where s': "save c s = (ESP_OK, s')" "ready s'" "content s' = Some c" "rest s' = rest s"
    using save_content [OF assms] by blast
  obtain err d s'' where l: "load s' = ((err, d), s'')" by (metis prod.collapse)
  from load_content [OF s'(2) l] s' l that show thesis by auto
qed

end

definition storage_ok :: "'n portal_world \<Rightarrow> ('n \<Rightarrow> key_values) \<Rightarrow> bool" where
  "storage_ok w kv \<longleftrightarrow> nvs_spec (pw_nvs w) kv \<and> reliable (pw_nvs w) \<and> (\<forall>t k. pw_store_alloc w t k)"

definition store_ready :: "'n portal_task \<Rightarrow> bool" where
  "store_ready s \<longleftrightarrow> s_initialized (pt_store s) \<and> \<not> s_test_backend (pt_store s)"

definition contents :: "('n \<Rightarrow> key_values) \<Rightarrow> 'n portal_task \<Rightarrow> key_values" where
  "contents kv s = kv (flash (pt_store s))"

definition settings :: "('n \<Rightarrow> key_values) \<Rightarrow> 'n portal_task \<Rightarrow> provision_config option" where
  "settings kv s = stored_config (contents kv s)"

text \<open>Settings a save takes: valid ones of the current schema, while the generations last.\<close>

definition can_store :: "('n \<Rightarrow> key_values) \<Rightarrow> provision_config \<Rightarrow> 'n portal_task \<Rightarrow> bool" where
  "can_store kv c s \<longleftrightarrow> config_sizes c \<and> config_valid c \<and> schema_version c = 1 \<and>
     (\<forall>j d. stored (contents kv s) \<noteq> Some (j, d, UINT32_MAX))"

definition same_store :: "('n \<Rightarrow> key_values) \<Rightarrow> 'n portal_task \<Rightarrow> 'n portal_task \<Rightarrow> bool" where
  "same_store kv s s' \<longleftrightarrow> store_ready s' \<and> contents kv s' = contents kv s"

lemma reliable_opens: "reliable api \<Longrightarrow> opens api"
  by (simp add: reliable_def opens_def)

lemma open_ready:
  assumes "nvs_spec api kv" "reliable api" "s_initialized st"
  obtains n where "open_namespace api rw st = (ESP_OK, st\<lparr>flash := n\<rparr>)" "kv n = kv (flash st)"
proof -
  obtain n where n: "nvs_open_from_partition api rw (flash st) = (ESP_OK, n)"
    using reliable_step(4) [OF assms(2)] by blast
  have "kv n = kv (flash st)" using nvs_spec_simps(1) [OF assms(1), of rw "flash st"] n by simp
  with n assms(3) that show thesis by (simp add: open_namespace_def)
qed

lemma load_stored:
  assumes "nvs_spec api kv" "reliable api" "s_initialized st" "\<not> s_test_backend st" "\<And>k. mem k"
  obtains err d n where "provision_store_load api mem st (Some config_zero) = (err, Some d, st\<lparr>flash := n\<rparr>)"
    "kv n = kv (flash st)" "case stored_config (kv (flash st)) of None \<Rightarrow> err \<noteq> ESP_OK | Some c \<Rightarrow> err = ESP_OK \<and> d = c"
proof -
  have mem: "mem = (\<lambda>_. True)" using assms(5) by blast
  obtain n where n: "open_namespace api False st = (ESP_OK, st\<lparr>flash := n\<rparr>)" "kv n = kv (flash st)"
    using open_ready [OF assms(1-3)] by blast
  have "\<exists>err d. provision_store_load api mem st (Some config_zero) = (err, Some d, st\<lparr>flash := n\<rparr>)"
    using assms(4) n(1) by (simp add: provision_store_load_def mem Let_def split_beta)
  then obtain err d where l: "provision_store_load api mem st (Some config_zero) = (err, Some d, st\<lparr>flash := n\<rparr>)" by blast
  have "(if err = ESP_OK then Some d else None) = stored_config (kv (flash st))"
    using loads_stored [OF assms(1) reliable_opens [OF assms(2)] assms(3,4)] l
    by (simp add: loads_def mem stored_config_def)
  then show thesis by (intro that [OF l n(2)]) (cases "stored_config (kv (flash st))"; simp split: if_splits)
qed

lemma load_config_stored:
  assumes "storage_ok w kv" "store_ready s"
  obtains err d s' where "load_config w config_zero s = ((err, d), s')" "same_store kv s s'"
    "case settings kv s of None \<Rightarrow> err \<noteq> ESP_OK | Some c \<Rightarrow> err = ESP_OK \<and> d = c"
proof -
  have a: "nvs_spec (pw_nvs w) kv" "reliable (pw_nvs w)" "s_initialized (pt_store s)" "\<not> s_test_backend (pt_store s)"
    "\<And>k. pw_store_alloc w (pt_turn s) k"
    using assms by (simp_all add: storage_ok_def store_ready_def)
  show thesis
  proof (rule load_stored [OF a])
    fix err d n
    assume "provision_store_load (pw_nvs w) (pw_store_alloc w (pt_turn s)) (pt_store s) (Some config_zero) =
        (err, Some d, (pt_store s)\<lparr>flash := n\<rparr>)" "kv n = kv (flash (pt_store s))"
      "case stored_config (kv (flash (pt_store s))) of None \<Rightarrow> err \<noteq> ESP_OK | Some c \<Rightarrow> err = ESP_OK \<and> d = c"
    with a that show thesis
      by (simp add: load_config_def same_store_def store_ready_def contents_def settings_def)
  qed
qed

text \<open>A save writes its slot and the marker of the active one, nothing else.\<close>

lemma and_then_keeps:
  assumes "\<And>n n' err. f n = (err, n') \<Longrightarrow> kv n' k = kv n k" "and_then r f = (err, n')"
  shows "kv n' k = kv (snd r) k"
  using assms(2) by (cases r) (auto simp: and_then_def dest: assms(1) split: if_splits)

lemma save_keeps_others:
  assumes spec: "nvs_spec api kv" and c: "config_sizes c" and init: "s_initialized s"
    and k: "k \<noteq> PROVISION_SLOT_A" "k \<noteq> PROVISION_SLOT_B" "k \<noteq> PROVISION_ACTIVE_KEY"
    and save: "save_nvs_atomic api mem s c = (err, s')"
  shows "kv (flash s') k = kv (flash s) k"
proof -
  have act: "kv n' k = kv n k" if "set_active api j n = (e, n')" for j n e n'
    using set_active_kv [OF spec that] k by auto
  have slot: "slot_key i \<noteq> k" for i using k by (simp add: slot_key_def)
  have wr: "kv n' k = kv n k" if "write_slot api m live c n = (e, n')" for m live n e n'
    using write_slot_kv [OF spec c that] slot k by (metis fun_upd_other)
  obtain e n where n: "nvs_open_from_partition api True (flash s) = (e, n)" by fastforce
  have n': "kv n k = kv (flash s) k" using nvs_spec_simps(1) [OF spec, of True "flash s"] n by simp
  let ?best = "snd (read_best_nvs_slot api mem n)"
  let ?rep = "if needs_repair ?best then set_active api (best_slot ?best) n else (ESP_OK, n)"
  have rep: "kv (snd ?rep) k = kv n k"
    using act [of "best_slot ?best" n "fst ?rep" "snd ?rep"] by (cases "needs_repair ?best") simp_all
  let ?w = "write_slot api (\<lambda>k. mem (k + 4)) (if needs_repair ?best then live_of_best ?best else snd (select_live_slot ?best)) c"
  have "flash s' = n \<or> flash s' = snd (and_then ?rep ?w)"
    using save init n by (auto simp: save_nvs_atomic_def open_namespace_def Let_def split_beta split: if_splits)
  then show ?thesis
  proof
    assume f: "flash s' = snd (and_then ?rep ?w)"
    have "kv (snd (and_then ?rep ?w)) k = kv (snd ?rep) k"
      by (rule and_then_keeps [where f = ?w, OF _ prod.collapse [symmetric]]) (rule wr)
    with f rep n' show ?thesis by simp
  qed (simp add: n')
qed

lemma save_config_stores:
  assumes w: "storage_ok w kv" and s: "store_ready s" and c: "can_store kv c s"
  obtains s' where "save_config w c s = (ESP_OK, s')" "store_ready s'" "settings kv s' = Some c"
    "contents kv s' PROVISION_MQTT_VERIFIED_KEY = contents kv s PROVISION_MQTT_VERIFIED_KEY"
proof -
  have a: "nvs_spec (pw_nvs w) kv" "reliable (pw_nvs w)" "s_initialized (pt_store s)" "\<not> s_test_backend (pt_store s)"
    "\<And>k. pw_store_alloc w (pt_turn s) k" "config_sizes c" "config_valid c" "schema_version c = 1"
    "\<And>j d. stored (kv (flash (pt_store s))) \<noteq> Some (j, d, UINT32_MAX)"
    using assms by (auto simp: storage_ok_def store_ready_def can_store_def contents_def)
  define mem where "mem = (\<lambda>k. pw_store_alloc w (pt_turn s) (k + 1))"
  have mem: "mem k" for k using a(5) by (simp add: mem_def)
  obtain e st where "save_nvs_atomic (pw_nvs w) mem (pt_store s) c = (e, st)" by fastforce
  with save_nvs_reliable [where mem = mem, OF a(1-3,6,7) mem a(9)] have st: "save_nvs_atomic (pw_nvs w) mem (pt_store s) c = (ESP_OK, st)"
    by simp
  have "c\<lparr>schema_version := 1\<rparr> = c" using a(8) by simp
  then have "stored_config (kv (flash st)) = Some c" "s_initialized st" "\<not> s_test_backend st"
    using save_nvs_stored(1,3) [OF a(1,3,6) mem st] a(4) by simp_all
  moreover have "kv (flash st) PROVISION_MQTT_VERIFIED_KEY = kv (flash (pt_store s)) PROVISION_MQTT_VERIFIED_KEY"
    by (rule save_keeps_others [OF a(1,6,3) _ _ _ st]) (simp_all add: provision_keys)
  moreover have "provision_store_save_atomic (pw_nvs w) (pw_store_alloc w (pt_turn s)) (pt_store s) (Some c) = (ESP_OK, st)"
    using save_runs_nvs [of "pt_store s" "pw_store_alloc w (pt_turn s)" "pw_nvs w" c] a(4,5) st by (simp add: mem_def)
  ultimately show thesis
    using that by (simp add: save_config_def store_ready_def settings_def contents_def)
qed

interpretation portal_store: settings_store "\<lambda>s. storage_ok w kv \<and> store_ready s" "settings kv"
    "\<lambda>s. contents kv s PROVISION_MQTT_VERIFIED_KEY" "can_store kv" "load_config w config_zero" "save_config w" for w kv
proof unfold_locales
  fix s err d s'
  assume s: "storage_ok w kv \<and> store_ready s" and l: "load_config w config_zero s = ((err, d), s')"
  from load_config_stored [of w kv s] s l
  show "(storage_ok w kv \<and> store_ready s') \<and> settings kv s' = settings kv s \<and>
      contents kv s' PROVISION_MQTT_VERIFIED_KEY = contents kv s PROVISION_MQTT_VERIFIED_KEY \<and>
      (case settings kv s of None \<Rightarrow> err \<noteq> ESP_OK | Some c \<Rightarrow> err = ESP_OK \<and> d = c)"
    by (metis Pair_inject same_store_def settings_def)
next
  fix s c
  assume "storage_ok w kv \<and> store_ready s" "can_store kv c s"
  then show "\<exists>s'. save_config w c s = (ESP_OK, s') \<and> (storage_ok w kv \<and> store_ready s') \<and> settings kv s' = Some c \<and>
      contents kv s' PROVISION_MQTT_VERIFIED_KEY = contents kv s PROVISION_MQTT_VERIFIED_KEY"
    using save_config_stores by metis
qed

section \<open>What becomes of an update\<close>

text \<open>The contract of the settings page: what it stores for an update, from what is stored and whether that is proven.\<close>

datatype update_outcome = ACCEPTED provision_config | PASSWORD_NEEDED | REFUSED

definition merged_settings :: "provision_config option \<Rightarrow> bool \<Rightarrow> provision_config \<Rightarrow> update_outcome" where
  "merged_settings existing verified update =
    (case existing of
       None \<Rightarrow> if provision_config_validate (Some update) = PROVISION_CONFIG_OK then ACCEPTED update else REFUSED
     | Some e \<Rightarrow>
         let rule = provision_config_mqtt_password_rule (Some e) (Some update) verified; m = merge_secrets e update
         in if rule = PROVISION_MQTT_PASSWORD_REQUIRED then PASSWORD_NEEDED
            else if provision_config_validate (Some m) \<noteq> PROVISION_CONFIG_OK then REFUSED
            else ACCEPTED (if rule = PROVISION_MQTT_PASSWORD_DROP
              then m\<lparr>mqtt_password := replicate (length (mqtt_password m)) 0\<rparr> else m))"

text \<open>The marker of the settings that connected last is theirs.\<close>

definition marker :: "('n \<Rightarrow> key_values) \<Rightarrow> 'n portal_task \<Rightarrow> u32" where
  "marker kv s = (case contents kv s PROVISION_MQTT_VERIFIED_KEY of Some (Nvs_u32 m) \<Rightarrow> m | _ \<Rightarrow> 0)"

definition proven_settings :: "('n \<Rightarrow> key_values) \<Rightarrow> 'n portal_task \<Rightarrow> bool" where
  "proven_settings kv s \<longleftrightarrow> marker kv s \<noteq> 0 \<and> marker kv s = provision_config_mqtt_fingerprint (settings kv s)"

lemma verified_stored:
  assumes "storage_ok w kv" "store_ready s" "settings kv s' = Some e" "contents kv s' = contents kv s"
  obtains u where "stored_mqtt_settings_verified w e s = (proven_settings kv s', u)" "same_store kv s u"
proof -
  have a: "nvs_spec (pw_nvs w) kv" "reliable (pw_nvs w)" "s_initialized (pt_store s)" "\<not> s_test_backend (pt_store s)"
    using assms by (simp_all add: storage_ok_def store_ready_def)
  obtain n where n: "open_namespace (pw_nvs w) False (pt_store s) = (ESP_OK, (pt_store s)\<lparr>flash := n\<rparr>)"
    "kv n = kv (flash (pt_store s))"
    using open_ready [OF a(1-3)] by blast
  let ?r = "nvs_get_u32 (pw_nvs w) PROVISION_MQTT_VERIFIED_KEY n"
  have get: "case kv n PROVISION_MQTT_VERIFIED_KEY of Some (Nvs_u32 m) \<Rightarrow> ?r = (ESP_OK, m) | _ \<Rightarrow> fst ?r \<noteq> ESP_OK"
    using a(1) unfolding nvs_spec_def by blast
  have m: "marker kv s' = (case kv n PROVISION_MQTT_VERIFIED_KEY of Some (Nvs_u32 m) \<Rightarrow> m | _ \<Rightarrow> 0)"
    using assms(4) n(2) by (simp add: marker_def contents_def)
  let ?u = "s\<lparr>pt_store := (pt_store s)\<lparr>flash := n\<rparr>\<rparr>"
  have "stored_mqtt_settings_verified w e s = (proven_settings kv s', ?u)"
    using n(1) a(4) get m assms(3)
    by (auto simp: stored_mqtt_settings_verified_def provision_store_load_mqtt_verified_def proven_settings_def split_beta Let_def
        split: option.splits nvs_value.splits)
  then show thesis using that a n(2) by (simp add: same_store_def store_ready_def contents_def)
qed

lemma merge_update_stored:
  assumes w: "storage_ok w kv" and s: "store_ready s"
  obtains out s' where "merge_update w u s = (out, s')" "same_store kv s s'"
    "case merged_settings (settings kv s) (proven_settings kv s) u of
       PASSWORD_NEEDED \<Rightarrow> out = None | REFUSED \<Rightarrow> \<exists>err c. out = Some (err, c) \<and> err \<noteq> ESP_OK
     | ACCEPTED c \<Rightarrow> out = Some (ESP_OK, c)"
proof -
  obtain err e t where l: "load_config w config_zero s = ((err, e), t)" "same_store kv s t"
    "case settings kv s of None \<Rightarrow> err \<noteq> ESP_OK | Some c \<Rightarrow> err = ESP_OK \<and> e = c"
    using load_config_stored [OF w s] by blast
  show thesis
  proof (cases "settings kv s")
    case None
    with l that [of _ t] show thesis by (auto simp: merge_update_def merged_settings_def)
  next
    case (Some c)
    with l have e: "err = ESP_OK" "e = c" by simp_all
    have t: "store_ready t" "contents kv s = contents kv t" using l(2) by (simp_all add: same_store_def)
    obtain v where v: "stored_mqtt_settings_verified w c t = (proven_settings kv s, v)" "same_store kv t v"
      using verified_stored [OF w t(1) Some t(2)] by blast
    have "same_store kv s v" using l(2) v(2) by (simp add: same_store_def)
    moreover have "snd (merge_update w u s) = v"
      using l(1) e v(1) by (simp add: merge_update_def split_beta Let_def)
    moreover have "case merged_settings (settings kv s) (proven_settings kv s) u of
       PASSWORD_NEEDED \<Rightarrow> fst (merge_update w u s) = None
     | REFUSED \<Rightarrow> \<exists>err c. fst (merge_update w u s) = Some (err, c) \<and> err \<noteq> ESP_OK
     | ACCEPTED c \<Rightarrow> fst (merge_update w u s) = Some (ESP_OK, c)"
      using l(1) e v(1) Some
      by (simp add: merge_update_def merged_settings_def provision_config_merge_preserving_secrets_def Let_def)
    ultimately show thesis by (intro that [OF prod.collapse [symmetric]]) simp_all
  qed
qed

lemma merged_settings_can_be_stored:
  assumes u: "config_sizes u" "schema_version u = 1" and m: "merged_settings existing verified u = ACCEPTED c"
  shows "config_sizes c \<and> config_valid c \<and> schema_version c = 1"
proof (cases existing)
  case None
  with m u validate_OK_iff [OF u(1)] show ?thesis by (auto simp: merged_settings_def split: if_splits)
next
  case (Some e)
  let ?m = "merge_secrets e u"
  have sz: "config_sizes ?m" "schema_version ?m = 1" using merge_secrets_sizes [OF u(1)] u(2) by (simp_all add: merge_secrets_rest)
  have ok: "config_valid ?m" "c = ?m \<or> c = ?m\<lparr>mqtt_password := replicate (length (mqtt_password ?m)) 0\<rparr>"
    using m Some validate_OK_iff [OF sz(1)] by (auto simp: merged_settings_def Let_def split: if_splits)
  have "terminated (replicate (length (mqtt_password ?m)) (0 :: u8))" using sz(1) by (simp add: config_sizes_def terminated_def)
  with ok sz show ?thesis by (auto simp: config_valid_def config_sizes_def)
qed

lemma save_and_check_stores:
  assumes "storage_ok w kv" "store_ready s" "can_store kv c s"
  obtains s' where "save_and_check w c s = (ESP_OK, s')" "store_ready s'" "settings kv s' = Some c"
    "contents kv s' PROVISION_MQTT_VERIFIED_KEY = contents kv s PROVISION_MQTT_VERIFIED_KEY"
proof -
  obtain t u where "save_config w c s = (ESP_OK, t)" "load_config w config_zero t = ((ESP_OK, c), u)"
    "storage_ok w kv \<and> store_ready u" "settings kv u = Some c"
    "contents kv u PROVISION_MQTT_VERIFIED_KEY = contents kv s PROVISION_MQTT_VERIFIED_KEY"
    using portal_store.saved_is_loaded [of w kv s c] assms by blast
  with that show thesis by (simp add: save_and_check_def)
qed

lemma copied_length: "json_copy_string json name n limit required = Some v \<Longrightarrow> length v = n"
  by (auto simp: json_copy_string_def split: option.splits cjson.splits if_splits)

lemma parsed_update:
  assumes "parse_config_update json = Some u"
  shows "config_sizes u" "schema_version u = 1"
  using assms copied_length
  by (auto simp: parse_config_update_def config_sizes_def PROVISION_CONFIG_SCHEMA_VERSION_def split: bind_splits)

lemma apply_update_stored:
  assumes w: "storage_ok w kv" and s: "store_ready s" and u: "config_sizes u" "schema_version u = 1"
    and gen: "\<And>j d. stored (contents kv s) \<noteq> Some (j, d, UINT32_MAX)"
  shows "case merged_settings (settings kv s) (proven_settings kv s) u of
      ACCEPTED c \<Rightarrow> \<exists>v. store_ready v \<and> settings kv v = Some c \<and> marker kv v = marker kv s \<and>
        callbacks (pt_effects (snd (apply_update w u s))) = RECONNECT c # callbacks (pt_effects s) \<and>
        pt_store (snd (apply_update w u s)) = snd (pw_callback w (pt_turn v) (RECONNECT c) (pt_store v))
    | _ \<Rightarrow> callbacks (pt_effects (snd (apply_update w u s))) = callbacks (pt_effects s) \<and>
        same_store kv s (snd (apply_update w u s))"
proof -
  obtain out t where t: "merge_update w u s = (out, t)" "same_store kv s t"
    "case merged_settings (settings kv s) (proven_settings kv s) u of
       PASSWORD_NEEDED \<Rightarrow> out = None | REFUSED \<Rightarrow> \<exists>err c. out = Some (err, c) \<and> err \<noteq> ESP_OK
     | ACCEPTED c \<Rightarrow> out = Some (ESP_OK, c)"
    using merge_update_stored [OF w s] by blast
  have e: "pt_effects t = pt_effects s" using merge_update_effects [of w u s] t(1) by simp
  show ?thesis
  proof (cases "merged_settings (settings kv s) (proven_settings kv s) u")
    case (ACCEPTED c)
    have "can_store kv c t"
      using merged_settings_can_be_stored [OF u ACCEPTED] gen t(2) by (simp add: can_store_def same_store_def)
    moreover have "store_ready t" using t(2) by (simp add: same_store_def)
    ultimately obtain v where v: "save_and_check w c t = (ESP_OK, v)" "store_ready v" "settings kv v = Some c"
      "contents kv v PROVISION_MQTT_VERIFIED_KEY = contents kv t PROVISION_MQTT_VERIFIED_KEY"
      using save_and_check_stores [OF w] by blast
    have "pt_effects v = pt_effects s" using save_and_check_effects [of w c t] v(1) e by simp
    moreover have "marker kv v = marker kv s" using v(4) t(2) by (simp add: marker_def same_store_def)
    ultimately show ?thesis
      using t v ACCEPTED by (auto simp: apply_update_def split_beta Let_def intro!: exI [of _ v])
  qed (use t e in \<open>auto simp: apply_update_def split_beta Let_def same_store_def store_ready_def contents_def\<close>)
qed

lemma allocate_all: "(\<And>t. pw_alloc w t) \<Longrightarrow> fst (allocate w n s)"
  by (induction n arbitrary: s) (simp_all add: split_beta Let_def query_def)

text \<open>A request with new settings that reaches them.\<close>

definition settings_request :: "'n portal_world \<Rightarrow> httpd_req \<Rightarrow> 'n portal_task \<Rightarrow> provision_config \<Rightarrow> bool" where
  "settings_request w req s u \<longleftrightarrow> require_ap_local_request req = ESP_OK \<and> ph_reconnect (pt_handlers s) \<and>
     (\<forall>t. pw_alloc w t) \<and> (\<exists>json. fst (read_json_body w req s) = (ESP_OK, json) \<and> parse_config_update json = Some u)"

lemma settings_request_applies:
  assumes "settings_request w req s u"
  obtains t where "handle_config_post w req s = apply_update w u t" "pt_store t = pt_store s" "pt_effects t = pt_effects s"
    "config_sizes u" "schema_version u = 1"
proof -
  obtain json b where b: "read_json_body w req s = ((ESP_OK, json), b)" "parse_config_update json = Some u"
    using assms by (cases "read_json_body w req s") (auto simp: settings_request_def)
  let ?t = "snd (allocate w 2 b)"
  have "fst (allocate w 2 b)" using assms by (intro allocate_all) (simp add: settings_request_def)
  then have "handle_config_post w req s = apply_update w u ?t"
    using assms b by (simp add: handle_config_post_def settings_request_def split_beta Let_def del: allocate.simps)
  moreover have "pt_store ?t = pt_store s" "pt_effects ?t = pt_effects s"
    using body_keeps [of w req s] b(1) by simp_all
  ultimately show thesis using that parsed_update [OF b(2)] by blast
qed

lemma config_post_stored:
  assumes w: "storage_ok w kv" and s: "store_ready s" and r: "settings_request w req s u"
    and gen: "\<And>j d. stored (contents kv s) \<noteq> Some (j, d, UINT32_MAX)"
  shows "case merged_settings (settings kv s) (proven_settings kv s) u of
      ACCEPTED c \<Rightarrow> \<exists>v. settings kv v = Some c \<and>
        callbacks (pt_effects (snd (handle_config_post w req s))) = RECONNECT c # callbacks (pt_effects s) \<and>
        pt_store (snd (handle_config_post w req s)) = snd (pw_callback w (pt_turn v) (RECONNECT c) (pt_store v))
    | _ \<Rightarrow> callbacks (pt_effects (snd (handle_config_post w req s))) = callbacks (pt_effects s) \<and>
        contents kv (snd (handle_config_post w req s)) = contents kv s"
proof -
  obtain t where t: "handle_config_post w req s = apply_update w u t" "pt_store t = pt_store s" "pt_effects t = pt_effects s"
    "config_sizes u" "schema_version u = 1"
    using settings_request_applies [OF r] by blast
  have same: "contents kv t = contents kv s" "settings kv t = settings kv s" "proven_settings kv t = proven_settings kv s"
    "store_ready t"
    using t(2) s by (simp_all add: contents_def settings_def proven_settings_def marker_def store_ready_def)
  have "\<And>j d. stored (contents kv t) \<noteq> Some (j, d, UINT32_MAX)" using gen same(1) by simp
  from apply_update_stored [OF w same(4) t(4,5) this] show ?thesis
    unfolding t(1) same t(3) by (auto simp: same_store_def same split: update_outcome.splits)
qed

text \<open>
  C28: The settings page keeps its contract. For an update that is read over the access point, on a flash that works, it
  stores the merge the contract names and hands exactly the stored settings to the application, or, when the contract
  refuses the update or asks for the password, leaves the store as it was and calls nothing.
\<close>

theorem config_post_stores_the_merge:
  assumes "storage_ok w kv" and "store_ready s" and "settings_request w req s u"
    and "\<And>j d. stored (contents kv s) \<noteq> Some (j, d, UINT32_MAX)"
  shows "case merged_settings (settings kv s) (proven_settings kv s) u of
      ACCEPTED c \<Rightarrow> \<exists>v. settings kv v = Some c \<and>
        callbacks (pt_effects (snd (handle_config_post w req s))) = RECONNECT c # callbacks (pt_effects s) \<and>
        pt_store (snd (handle_config_post w req s)) = snd (pw_callback w (pt_turn v) (RECONNECT c) (pt_store v))
    | _ \<Rightarrow> callbacks (pt_effects (snd (handle_config_post w req s))) = callbacks (pt_effects s) \<and>
        contents kv (snd (handle_config_post w req s)) = contents kv s"
  using assms by (rule config_post_stored)

section \<open>The password and its server\<close>

lemma accepted_password:
  assumes u: "config_sizes u" and m: "merged_settings (Some e) True u = ACCEPTED c"
    and moved: "provision_config_mqtt_server_changed (Some e) (Some c)"
  shows "if nonempty (mqtt_password u) then mqtt_password c = mqtt_password u else \<not> nonempty (mqtt_password c)"
proof -
  let ?m = "merge_secrets e u"
  have rule: "provision_config_mqtt_server_changed (Some e) (Some c) = provision_config_mqtt_server_changed (Some e) (Some u)"
    using m by (auto simp: merged_settings_def provision_config_mqtt_server_changed_def merge_secrets_rest Let_def split: if_splits)
  have zero: "\<not> nonempty (replicate (length (mqtt_password ?m)) 0)"
    using merge_secrets_sizes [OF u, of e] by (simp add: config_sizes_def nonempty_def)
  have given: "mqtt_password ?m = mqtt_password u" if "nonempty (mqtt_password u)"
    using that by (simp add: merge_secrets_def Let_def)
  have blank: "\<not> nonempty (mqtt_password ?m)" if "\<not> nonempty (mqtt_password u)" "\<not> nonempty (mqtt_password e)"
  proof -
    have ne: "mqtt_password u \<noteq> []" using u by (auto simp: config_sizes_def)
    then have ne': "strlcpy (mqtt_password u) (mqtt_password e) \<noteq> []" by (metis length_0_conv strlcpy_length)
    have "cstr (mqtt_password e) = []" using that(2) nonempty_iff by (cases "mqtt_password e") auto
    then have "\<not> nonempty (strlcpy (mqtt_password u) (mqtt_password e))"
      using nonempty_iff [OF ne'] cstr_strlcpy [OF ne] by simp
    with that(1) show ?thesis by (simp add: merge_secrets_def Let_def)
  qed
  show ?thesis
    using m moved rule zero given blank
    by (auto simp: merged_settings_def Let_def provision_config_mqtt_password_rule_def split: if_splits)
qed

text \<open>
  C29: Settings that connected keep their password at its server. When an update moves proven settings to another
  server, what the application gets to connect with has the password the request brought, or, when the
  request brought none, no password: the stored one is not in it.
\<close>

theorem password_stays_with_its_server:
  assumes "storage_ok w kv" and "store_ready s" and "settings_request w req s u"
    and "\<And>j d. stored (contents kv s) \<noteq> Some (j, d, UINT32_MAX)"
    and "settings kv s = Some e" and "proven_settings kv s"
    and "callbacks (pt_effects (snd (handle_config_post w req s))) = RECONNECT c # callbacks (pt_effects s)"
    and "provision_config_mqtt_server_changed (Some e) (Some c)"
  shows "if nonempty (mqtt_password u) then mqtt_password c = mqtt_password u else \<not> nonempty (mqtt_password c)"
proof -
  have u: "config_sizes u" using settings_request_applies [OF assms(3)] by metis
  let ?after = "callbacks (pt_effects (snd (handle_config_post w req s)))" and ?m = "merged_settings (Some e) True u"
  have "case ?m of ACCEPTED d \<Rightarrow> ?after = RECONNECT d # callbacks (pt_effects s) | _ \<Rightarrow> ?after = callbacks (pt_effects s)"
    using config_post_stored [OF assms(1-4)] assms(5,6) by (cases ?m) (simp_all, metis)
  then have "?m = ACCEPTED c" unfolding assms(7) by (cases ?m) simp_all
  then show ?thesis by (rule accepted_password [OF u _ assms(8)])
qed

section \<open>The secrets and the status\<close>

text \<open>What of a task does not depend on the store, and steps that let nothing of the store into it.\<close>

definition view :: "'n portal_task \<Rightarrow> bool \<times> portal_http_handlers \<times> wifi_task \<times> nat \<times> http_effect list" where
  "view s = (pt_server s, pt_handlers s, pt_wifi s, pt_turn s, pt_effects s)"

definition blind :: "('n portal_task \<Rightarrow> 'b \<times> 'n portal_task) \<Rightarrow> bool" where
  "blind f \<longleftrightarrow> (\<forall>s s'. view s = view s' \<longrightarrow> fst (f s) = fst (f s') \<and> view (snd (f s)) = view (snd (f s')))"

lemma blindD: "blind f \<Longrightarrow> view s = view s' \<Longrightarrow> fst (f s) = fst (f s') \<and> view (snd (f s)) = view (snd (f s'))"
  unfolding blind_def by blast

lemma blind_return: "blind (\<lambda>s. (x, s))"
  by (simp add: blind_def)

lemma blind_bind:
  assumes "blind f" "\<And>x. blind (g x)"
  shows "blind (\<lambda>s. let (x, s) = f s in g x s)"
  unfolding blind_def
proof (intro allI impI)
  fix s s' :: "'a portal_task"
  assume "view s = view s'"
  from blindD [OF assms(1) this] blindD [OF assms(2), of "snd (f s)" "snd (f s')" "fst (f s)"]
  show "fst (let (x, s) = f s in g x s) = fst (let (x, s) = f s' in g x s) \<and>
      view (snd (let (x, s) = f s in g x s)) = view (snd (let (x, s) = f s' in g x s))"
    by (simp add: split_beta Let_def)
qed

lemma blind_if: "blind f \<Longrightarrow> blind g \<Longrightarrow> blind (\<lambda>s. if b then f s else g s)"
  by (cases b) simp_all

lemma blind_reply: "blind f \<Longrightarrow> blind (\<lambda>s. f (reply e s))"
  by (simp add: blind_def view_def reply_def)

lemma blind_query: "blind (query f)"
  by (simp add: blind_def view_def query_def)

lemma blind_call_server: "blind (call_server w e)"
  unfolding call_server_def by (rule blind_reply [OF blind_query])

lemma blind_allocate: "blind (allocate w n)"
proof (induction n)
  case (Suc n)
  then show ?case unfolding allocate.simps by (intro blind_bind blind_query blind_return)
qed (simp add: blind_return)

lemma blind_add_each: "blind (add_each w n)"
proof (induction n)
  case (Suc n)
  then show ?case unfolding add_each.simps by (intro blind_bind blind_if blind_query blind_return)
qed (simp add: blind_return)

lemma blind_runtime: "blind (runtime_status_now w)"
  by (simp add: blind_def view_def runtime_status_now_def split_beta Let_def)

lemma blind_system: "blind (system_status_now w)"
  by (simp add: blind_def view_def system_status_now_def call_handler_def query_def reply_def split_beta Let_def)

lemma blind_error: "blind (send_error_json w status error)"
  unfolding send_error_json_def by (intro blind_reply blind_call_server)

lemma blind_cjson: "blind (send_cjson w tree)"
proof -
  have "blind (\<lambda>s. case p of None \<Rightarrow> send_error_json w ''500 Internal Server Error'' ''out of memory'' s
      | Some txt \<Rightarrow> call_server w (SendText txt) (reply (SetType PORTAL_HTTP_JSON_TYPE) s))" for p
    by (cases p) (simp_all add: blind_error blind_reply blind_call_server)
  then show ?thesis unfolding send_cjson_def by (intro blind_bind blind_query)
qed

text \<open>The settings that the status shows: the same but for the secrets, of which it shows whether there is one.\<close>

definition same_but_secrets :: "provision_config \<Rightarrow> provision_config \<Rightarrow> bool" where
  "same_but_secrets c d \<longleftrightarrow>
     d = c\<lparr>wifi_password := wifi_password d, mqtt_password := mqtt_password d, mqtt_ca := mqtt_ca d,
       schema_version := schema_version d\<rparr> \<and>
     nonempty (wifi_password d) = nonempty (wifi_password c) \<and> nonempty (mqtt_password d) = nonempty (mqtt_password c) \<and>
     nonempty (mqtt_ca d) = nonempty (mqtt_ca c)"

lemma redact_hides:
  assumes "same_but_secrets c d"
  shows "provision_config_redact_status (Some d) out = provision_config_redact_status (Some c) out"
proof -
  note d = assms [unfolded same_but_secrets_def, THEN conjunct1]
  have "wifi_ssid d = wifi_ssid c" "mqtt_host d = mqtt_host c" "mqtt_port d = mqtt_port c"
    "mqtt_username d = mqtt_username c" "mqtt_tls d = mqtt_tls c" "mqtt_client_id d = mqtt_client_id c"
    "mqtt_base_topic d = mqtt_base_topic c"
    by (subst d, simp)+
  with assms [unfolded same_but_secrets_def, THEN conjunct2] show ?thesis
    by (simp add: provision_config_redact_status_def split: option.split)
qed

lemma load_config_view: "view s = view s' \<Longrightarrow> view (snd (load_config w buf s)) = view (snd (load_config w buf s'))"
  by (simp add: view_def load_config_def split_beta Let_def)

lemma redacted_snd: "snd (redacted_config w s) = snd (load_config w config_zero s)"
  by (auto simp: redacted_config_def split_beta Let_def split: prod.splits option.splits esp_err.splits)

lemma redacted_stored:
  assumes "storage_ok w kv" "store_ready s" "settings kv s = Some c"
  shows "fst (redacted_config w s) = snd (provision_config_redact_status (Some c) (Some status_zero))"
proof -
  obtain err d t where "load_config w config_zero s = ((err, d), t)"
    "case settings kv s of None \<Rightarrow> err \<noteq> ESP_OK | Some c \<Rightarrow> err = ESP_OK \<and> d = c"
    using load_config_stored [OF assms(1,2)] by blast
  with assms(3) show ?thesis by (simp add: redacted_config_def provision_config_redact_status_def)
qed

text \<open>The page after the settings are loaded.\<close>

definition page_of_status :: "'n portal_world \<Rightarrow> provision_config_status option \<Rightarrow> 'n portal_task \<Rightarrow> json option \<times> 'n portal_task" where
  "page_of_status w redacted s =
    (let (runtime, s) = runtime_status_now w s;
         (system, s) = system_status_now w s;
         cfg = (case redacted of None \<Rightarrow> [] | Some st \<Rightarrow> config_members st);
         (ok, s) = add_each w (6 + length cfg + length (runtime_members runtime) + length (system_members system)) s
     in if \<not> ok then (None, s)
        else (Some (JObj
          [(cs ''target'', JStr (pw_target w)), (cs ''device_family'', JStr (pw_family w)),
           (cs ''configured'', JBool (redacted \<noteq> None)), (cs ''config'', JObj cfg),
           (cs ''runtime'', JObj (runtime_members runtime)), (cs ''system'', JObj (system_members system))]), s))"

lemma blind_page: "blind (page_of_status w redacted)"
  unfolding page_of_status_def Let_def [of "case redacted of None \<Rightarrow> _ | Some st \<Rightarrow> _ st"]
  by (intro blind_bind blind_runtime blind_system blind_add_each blind_if blind_return)

lemma build_status_page:
  "build_status_response w s =
    (let (ok, s) = allocate w 6 s
     in if \<not> ok then (None, s) else let (redacted, s) = redacted_config w s in page_of_status w redacted s)"
  unfolding build_status_response_def page_of_status_def Let_def by (rule refl)

lemma blind_answer: "blind (\<lambda>s. case tree of
    None \<Rightarrow> send_error_json w ''500 Internal Server Error'' ''status unavailable'' s | Some tree \<Rightarrow> send_cjson w tree s)"
  by (cases tree) (simp_all add: blind_error blind_cjson)

text \<open>
  C30: The status page shows no secret. With the same portal over two stores whose settings differ in nothing but the two
  passwords and the certificate, and agree in which of these there are, the answer is the same, byte for
  byte, and so is everything else the page does to the outside.
\<close>

theorem status_hides_secrets:
  assumes "storage_ok w kv" and "store_ready s" and "settings kv s = Some c"
    and "store_ready (s\<lparr>pt_store := st\<rparr>)" and "settings kv (s\<lparr>pt_store := st\<rparr>) = Some d" and "same_but_secrets c d"
  shows "fst (handle_status_get w (s\<lparr>pt_store := st\<rparr>)) = fst (handle_status_get w s) \<and>
    pt_effects (snd (handle_status_get w (s\<lparr>pt_store := st\<rparr>))) = pt_effects (snd (handle_status_get w s))"
proof -
  let ?s = "s\<lparr>pt_store := st\<rparr>"
  let ?a = "allocate w 6 s" and ?a' = "allocate w 6 ?s"
  have v: "view ?s = view s" by (simp add: view_def)
  note a = blindD [OF blind_allocate v, of w 6]
  have "store_ready (snd ?a)" "settings kv (snd ?a) = Some c" "store_ready (snd ?a')" "settings kv (snd ?a') = Some d"
    using assms(2-5) by (simp_all add: store_ready_def settings_def contents_def del: allocate.simps)
  then have r: "fst (redacted_config w (snd ?a')) = fst (redacted_config w (snd ?a))"
    using redacted_stored [OF assms(1)] redact_hides [OF assms(6)] by metis
  have rv: "view (snd (redacted_config w (snd ?a'))) = view (snd (redacted_config w (snd ?a)))"
    unfolding redacted_snd by (rule load_config_view) (use a in blast)
  have b: "fst (build_status_response w ?s) = fst (build_status_response w s) \<and>
      view (snd (build_status_response w ?s)) = view (snd (build_status_response w s))"
    using a r blindD [OF blind_page rv, of w "fst (redacted_config w (snd ?a))"]
    by (simp add: build_status_page split_beta Let_def del: allocate.simps)
  have "fst (handle_status_get w ?s) = fst (handle_status_get w s) \<and>
      view (snd (handle_status_get w ?s)) = view (snd (handle_status_get w s))"
    using b blindD [OF blind_answer, of "snd (build_status_response w ?s)" "snd (build_status_response w s)"
        w "fst (build_status_response w s)"]
    by (simp add: handle_status_get_def split_beta Let_def)
  then show ?thesis by (simp add: view_def)
qed

section \<open>Examples\<close>

text \<open>A request that moves the settings to the server \<open>other\<close>, with neither a user nor a password.\<close>

definition moving_object :: cjson where
  "moving_object = CJ_OBJECT
    [(cs ''wifi_ssid'', CJ_STRING (Some (cs ''home''))), (cs ''mqtt_host'', CJ_STRING (Some (cs ''other''))),
     (cs ''mqtt_port'', CJ_NUMBER 1883 1883), (cs ''mqtt_tls'', CJ_BOOL False),
     (cs ''mqtt_client_id'', CJ_STRING (Some (cs ''esp32-1''))), (cs ''mqtt_base_topic'', CJ_STRING (Some (cs ''ancs'')))]"

definition moving_update :: provision_config where
  "moving_update = \<lparr>schema_version = 1, wifi_ssid = strlcpy (replicate 33 0) (cs ''home''),
     wifi_password = replicate 65 0, mqtt_host = strlcpy (replicate 129 0) (cs ''other''), mqtt_port = 1883,
     mqtt_username = replicate 129 0, mqtt_password = replicate 257 0, mqtt_tls = False, mqtt_ca = replicate 4097 0,
     mqtt_client_id = strlcpy (replicate 65 0) (cs ''esp32-1''), mqtt_base_topic = strlcpy (replicate 129 0) (cs ''ancs'')\<rparr>"

definition moving_portal :: "key_values portal_world" where
  "moving_portal = quiet_portal\<lparr>pw_parse := \<lambda>body. Some (moving_object, length body)\<rparr>"

definition portal_over :: "key_values \<Rightarrow> key_values portal_task" where
  "portal_over m = portal_start\<lparr>pt_store := store_start m\<rparr>"

lemma moving_parsed: "parse_config_update moving_object = Some moving_update"
  by (simp add: parse_config_update_def json_copy_string_def get_item_def moving_object_def json_u16_def json_bool_def
      moving_update_def provision_limits PROVISION_CONFIG_SCHEMA_VERSION_def)

lemma moving_request: "settings_request moving_portal ap_request (portal_over m) moving_update"
proof -
  have "fst (read_json_body moving_portal ap_request (portal_over m)) = (ESP_OK, moving_object)"
    by (simp add: read_json_body_def ap_request_def moving_portal_def quiet_portal_def PORTAL_HTTP_MAX_POST_BODY_def query_def
        receive_body.simps skip_space_const_def moving_object_def)
  then show ?thesis
    by (simp add: settings_request_def moving_parsed require_ap_local_request_def ap_request_def SOCKADDR_IN_SIZE_def
        PORTAL_HTTP_AP_HOST_def portal_over_def portal_start_def all_handlers_def moving_portal_def quiet_portal_def)
qed

lemma moving_storage: "storage_ok moving_portal (\<lambda>m. m)"
  by (simp add: storage_ok_def moving_portal_def quiet_portal_def map_nvs_spec map_nvs_ok)

lemma portal_over_simps:
  "store_ready (portal_over m)" "contents (\<lambda>m. m) (portal_over m) = m"
  "callbacks (pt_effects (portal_over m)) = []"
  by (simp_all add: portal_over_def portal_start_def store_ready_def store_start_def contents_def)

lemma moving_texts:
  "cstr (mqtt_host moving_update) = cs ''other''" "\<not> nonempty (mqtt_password moving_update)"
  "\<not> nonempty (mqtt_username moving_update)" "mqtt_port moving_update = 1883"
  by (simp_all add: moving_update_def cstr_strlcpy nonempty_def)

lemma moving_update_valid: "config_sizes moving_update" "config_valid moving_update"
proof -
  have z: "cstr (replicate n 0) = []" for n by (cases n) simp_all
  show "config_sizes moving_update" by (simp add: config_sizes_def moving_update_def)
  show "config_valid moving_update"
    by (simp add: config_valid_def moving_update_def cstr_strlcpy terminated_strlcpy z) (simp add: terminated_def)
qed

lemma moving_changes: "cstr (mqtt_host u) = cs ''other'' \<Longrightarrow> length (mqtt_host u) = 129 \<Longrightarrow>
    provision_config_mqtt_server_changed (Some sample_config) (Some u)"
  by (simp add: provision_config_mqtt_server_changed_def strncmp_equal_def sample_config_def cstr_text_field)

lemma moving_accepted:
  obtains c where "merged_settings (Some sample_config) True moving_update = ACCEPTED c" "mqtt_host c = mqtt_host moving_update"
proof -
  let ?m = "merge_secrets sample_config moving_update"
  note sz = moving_update_valid(1)
  have "\<not> mqtt_tls moving_update" "schema_version moving_update = 1" by (simp_all add: moving_update_def)
  then have "config_valid ?m"
    using moving_update_valid(2) by (simp add: config_valid_def merge_secrets_rest merge_secrets_terminated [OF sz])
  then have ok: "provision_config_validate (Some ?m) = PROVISION_CONFIG_OK"
    using validate_OK_iff [OF merge_secrets_sizes [OF sz]] by blast
  have "provision_config_mqtt_server_changed (Some sample_config) (Some moving_update)"
    by (rule moving_changes) (simp_all add: moving_texts, simp add: moving_update_def)
  then have "provision_config_mqtt_password_rule (Some sample_config) (Some moving_update) True = PROVISION_MQTT_PASSWORD_DROP"
    by (simp add: provision_config_mqtt_password_rule_def moving_texts) (simp add: sample_config_def text_field_def nonempty_def)
  with ok that show thesis by (simp add: merged_settings_def Let_def merge_secrets_rest)
qed

text \<open>A flash that holds settings, and the marker of a connection with them.\<close>

lemma flash_with:
  assumes "config_sizes c" "config_valid c" "schema_version c = 1"
  obtains m where "stored m = Some (0, c, 1)"
    "m PROVISION_MQTT_VERIFIED_KEY = Some (Nvs_u32 (provision_config_mqtt_fingerprint (Some c)))"
proof -
  obtain blob where b: "length (blob_bytes blob) = SLOT_BLOB_SIZE" "slot_read (blob_bytes blob) = Some (c, 1)"
    using slot_read_encoded(1) [OF assms(1,2), of 1 undefined] assms(3) by auto
  let ?m = "[PROVISION_SLOT_A \<mapsto> Nvs_blob (blob_bytes blob), PROVISION_ACTIVE_KEY \<mapsto> Nvs_u8 0,
      PROVISION_MQTT_VERIFIED_KEY \<mapsto> Nvs_u32 (provision_config_mqtt_fingerprint (Some c))]"
  have "kv_active ?m = Some 0" "kv_slot ?m 0 = Some (c, 1)"
    using b by (simp_all add: kv_active_def kv_slot_def slot_key_simps provision_keys)
  then show thesis by (intro that [of ?m] stored_active) simp_all
qed

theorem config_post_stores_the_merge_witness:
  "callbacks (pt_effects (snd (handle_config_post moving_portal ap_request (portal_over Map.empty)))) = [RECONNECT moving_update]"
proof -
  have "settings (\<lambda>m. m) (portal_over Map.empty) = None"
    by (simp add: settings_def portal_over_simps stored_config_def empty_store)
  then have "merged_settings (settings (\<lambda>m. m) (portal_over Map.empty)) proven moving_update = ACCEPTED moving_update" for proven
    using validate_OK_iff [OF moving_update_valid(1)] moving_update_valid(2) by (simp add: merged_settings_def)
  with config_post_stores_the_merge [OF moving_storage portal_over_simps(1) moving_request, of Map.empty]
  show ?thesis by (auto simp: portal_over_simps empty_store)
qed

theorem password_stays_with_its_server_witness:
  "\<exists>m c. settings (\<lambda>m. m) (portal_over m) = Some sample_config \<and>
     callbacks (pt_effects (snd (handle_config_post moving_portal ap_request (portal_over m)))) = [RECONNECT c] \<and>
     \<not> nonempty (mqtt_password c)"
proof -
  have v1: "schema_version sample_config = 1" by (simp add: sample_config_def)
  obtain m where m: "stored m = Some (0, sample_config, 1)"
    "m PROVISION_MQTT_VERIFIED_KEY = Some (Nvs_u32 (provision_config_mqtt_fingerprint (Some sample_config)))"
    using flash_with [OF sample_config_sizes sample_config_valid v1] by blast
  let ?s = "portal_over m" and ?r = "merge_secrets sample_config moving_update"
  have s: "settings (\<lambda>m. m) ?s = Some sample_config"
    by (simp add: settings_def portal_over_simps stored_config_def m(1))
  have "provision_config_mqtt_fingerprint (Some sample_config) \<noteq> 0"
    by (simp add: provision_config_mqtt_fingerprint_def mqtt_fingerprint_def Let_def)
  then have proven: "proven_settings (\<lambda>m. m) ?s"
    by (simp add: proven_settings_def marker_def portal_over_simps m(2) s)
  have gen: "\<And>j d. stored (contents (\<lambda>m. m) ?s) \<noteq> Some (j, d, UINT32_MAX)"
    by (simp add: portal_over_simps m(1))
  note post = config_post_stored [OF moving_storage portal_over_simps(1) moving_request gen]
  obtain c where c: "merged_settings (Some sample_config) True moving_update = ACCEPTED c" "mqtt_host c = mqtt_host moving_update"
    by (rule moving_accepted)
  from post c(1) have called: "callbacks (pt_effects (snd (handle_config_post moving_portal ap_request ?s))) =
      RECONNECT c # callbacks (pt_effects ?s)"
    by (auto simp: s proven)
  have "provision_config_mqtt_server_changed (Some sample_config) (Some c)"
    by (rule moving_changes) (simp_all add: c(2) moving_texts, simp add: moving_update_def)
  from password_stays_with_its_server [OF moving_storage portal_over_simps(1) moving_request gen s proven called this]
  show ?thesis using s called by (auto simp: moving_texts portal_over_simps)
qed

theorem status_hides_secrets_witness:
  "\<exists>m m'. settings (\<lambda>m. m) (portal_over m) = Some sample_config \<and>
     settings (\<lambda>m. m) (portal_over m') = Some (sample_config\<lparr>mqtt_password := text_field 257 (cs ''other'')\<rparr>) \<and>
     pt_effects (snd (handle_status_get quiet_portal (portal_over m'))) = pt_effects (snd (handle_status_get quiet_portal (portal_over m)))"
proof -
  let ?d = "sample_config\<lparr>mqtt_password := text_field 257 (cs ''other'')\<rparr>"
  have d: "config_sizes ?d" "config_valid ?d" "schema_version sample_config = 1" "schema_version ?d = 1"
    by (simp_all add: config_sizes_def config_valid_def sample_config_def terminated_text_field cstr_text_field)
  obtain m where m: "stored m = Some (0, sample_config, 1)"
    using flash_with [OF sample_config_sizes sample_config_valid d(3)] by blast
  obtain m' where m': "stored m' = Some (0, ?d, 1)" using flash_with [OF d(1,2,4)] by blast
  have s: "settings (\<lambda>m. m) (portal_over m) = Some sample_config" "settings (\<lambda>m. m) (portal_over m') = Some ?d"
    by (simp_all add: settings_def portal_over_simps stored_config_def m m')
  have over: "(portal_over m)\<lparr>pt_store := store_start m'\<rparr> = portal_over m'" by (simp add: portal_over_def)
  have ok: "storage_ok quiet_portal (\<lambda>m. m)" by (simp add: storage_ok_def quiet_portal_def map_nvs_spec map_nvs_ok)
  have "same_but_secrets sample_config ?d" by (simp add: same_but_secrets_def sample_config_def text_field_def nonempty_def)
  from status_hides_secrets [OF ok portal_over_simps(1) s(1), where st = "store_start m'", unfolded over, OF portal_over_simps(1) s(2) this]
  show ?thesis using s by blast
qed

end
