(* ===== verification/Device_Credentials.thy ===== *)
theory Device_Credentials
  imports Prelude
begin

text \<open>The passkey of the device, in \<^verbatim>\<open>components/device_credentials/device_credentials.c\<close>; the state is \<open>s_initialized\<close>.\<close>

definition DEVICE_CREDENTIALS_BLE_PASSKEY :: u32 where "DEVICE_CREDENTIALS_BLE_PASSKEY = 123456"

definition device_credentials_init :: "bool \<Rightarrow> esp_err \<times> bool" where
  "device_credentials_init s_initialized = (ESP_OK, True)"

definition device_credentials_ble_passkey :: "bool \<Rightarrow> u32" where
  "device_credentials_ble_passkey s_initialized = (if s_initialized then DEVICE_CREDENTIALS_BLE_PASSKEY else 0)"

text \<open>After the set-up the passkey is a number of six digits, as Bluetooth asks for; before, there is none.\<close>

theorem passkey_after_init:
  "100000 \<le> device_credentials_ble_passkey (snd (device_credentials_init s)) \<and>
   device_credentials_ble_passkey (snd (device_credentials_init s)) \<le> 999999 \<and> device_credentials_ble_passkey False = 0"
  by (simp add: device_credentials_init_def device_credentials_ble_passkey_def DEVICE_CREDENTIALS_BLE_PASSKEY_def)

end
