(* ===== verification/Spec2Isabelle.thy ===== *)
theory Spec2Isabelle
  imports Ancs_State Data_Parser_Correct App_Data_Parser Request_Queue App_Resolver Sha256 Relay_Policy
    Provision_Store_Correct Ble_Enroll Captive_Dns Provisioning_State Provisioning_Retry Mqtt_Topics Mqtt_State_Correct
    Mqtt_App_Name Notification_Messages Mqtt_Settings_Correct Mqtt_Worker_Correct
    Client_Worker_Correct Wifi_Station_Correct Portal_Config_Correct Device_Credentials
begin

text \<open>
  A verification library for HA-iOS-ANCS, the firmware of an ESP32 gateway that receives the
  notifications of an iPhone over Bluetooth (the Apple Notification Center Service, ANCS) and
  publishes them over MQTT for Home Assistant.

  \<^bold>\<open>The program.\<close> A notification travels through these parts. The Bluetooth client
  (\<^verbatim>\<open>components/ancs_client\<close>) keeps the connection to the phone; its state is the machine of
  \<^verbatim>\<open>components/ancs_state\<close>, and \<^verbatim>\<open>components/ble_enroll\<close> decides which phone may pair. The frames of the
  phone are decoded and the answers to its requests parsed, piece by piece, by
  \<^verbatim>\<open>components/ancs_protocol\<close>, which also keeps the queue of events whose attributes are still to be asked
  for; \<^verbatim>\<open>components/ancs_app_resolver\<close> remembers the names of applications. A complete notification goes
  to the observers of \<^verbatim>\<open>components/notification_sink\<close>: the serial console, and the MQTT relay
  \<^verbatim>\<open>components/mqtt_relay\<close>, which asks \<^verbatim>\<open>components/relay_policy\<close> whether it is to be published and under
  which identifier, builds its JSON text, queues it and hands it to the MQTT client from a worker task.
  Beside this path, \<^verbatim>\<open>components/provision_store\<close> keeps the settings in two flash slots, and
  \<^verbatim>\<open>components/provisioning\<close> decides when the set-up access point and the station run, when a connection is
  tried again, and answers the name queries of the captive portal.

  \<^bold>\<open>Shared theories.\<close> \<open>Prelude\<close> has the C types: \<open>uintN_t\<close> as words, a character buffer as the list of all its
  bytes, \<open>cstr\<close> for the C string in it, \<open>strlcpy\<close> and \<open>snprintf_at\<close> as they treat such buffers, and \<open>store\<close>,
  which is \<open>None\<close> outside the buffer: a result \<open>None\<close> of a model function is an access the C standard
  does not define, or a wait without an end, so that the statement that the result is \<open>Some\<close> is memory safety
  and termination. A NULL argument is
  \<open>None\<close>, an \<open>esp_err_t\<close> the datatype \<open>esp_err\<close>. \<open>Interfaces\<close> has the contracts several components share, as
  locales: a machine with an invariant, a machine that changes a part of its state only under
  certain events, a parser fed byte by byte (feeding in fragments is feeding at once), and a bounded
  first-in first-out store. \<open>Text_Sink\<close> has the contract of a bounded text writer, interpreted by the two
  JSON writers. \<open>Json\<close> has the reader of JSON the written texts are checked against.

  \<^bold>\<open>The components, in the order of the path.\<close>
  \<^item> \<open>Ancs_State\<close> (\<^verbatim>\<open>ancs_state.c\<close>): states, signals, the transition function and its names; readiness implies
    the whole handshake in its order.
  \<^item> \<open>Ancs_Protocol\<close>, \<open>Data_Parser\<close>, \<open>Data_Parser_Correct\<close>, \<open>App_Data_Parser\<close>, \<open>Request_Queue\<close>
    (\<^verbatim>\<open>ancs_protocol.c\<close>): the source frames, the notification record, the commands, the two streaming parsers
    (memory safety and a round trip with the format of the ANCS specification, in any
    fragmentation), and the ring buffer, which refines a bounded list, with its cancellation and
    the case in which that loses events.
  \<^item> \<open>App_Resolver\<close> (\<^verbatim>\<open>ancs_app_resolver.c\<close>): the name table refines a least-recently-used cache.
  \<^item> \<open>Ble_Enroll\<close> (\<^verbatim>\<open>ble_enroll.c\<close>): the enrollment window, the bonded address and the button.
  \<^item> \<open>Client_Context\<close>, \<open>Client_Link\<close>, \<open>Client_Events\<close>, \<open>Client_Api\<close>, \<open>Client_Worker\<close> (\<^verbatim>\<open>ancs_client.c\<close>): the Bluetooth
    client that joins these parts. Its shared state \<open>s_client\<close> is the record \<open>client_context\<close>; \<open>Client_Link\<close> has
    advertising, discovery, subscriptions, deadlines and bonds, \<open>Client_Events\<close> one definition per event of the
    Bluetooth stack, \<open>Client_Api\<close> the set-up and the calls of the header, \<open>Client_Worker\<close> the task with the
    requests to the phone and the cache. Every entry of the critical section (\<open>acquire\<close>) first lets the
    other tasks change the shared state. \<open>Client_Session\<close> has the invariant all of them keep (\<open>client_ok\<close>), over any
    sequence of events, timers and calls (\<open>run_calls\<close>), and its consequences: ready means secured, only
    known phones, no unfinished connection, the set-up. \<open>Client_Request_Correct\<close> has the life of a request,
    \<open>Client_Worker_Correct\<close> the turns of the worker: it never faults, a request ends with its own notification or
    none and at a deadline, and a removal repeats what was shown.
  \<^item> \<open>Notification_Sink\<close>, \<open>Utf8\<close>, \<open>Notification_Sink_Correct\<close>, \<open>Notification_Messages\<close>
    (\<^verbatim>\<open>notification_sink_serial.c\<close>): the JSON writer with its UTF-8 check, against the definition of UTF-8,
    and the messages, which are read back whatever bytes the texts hold.
  \<^item> \<open>Sha256\<close>, \<open>Relay_Policy\<close> (\<^verbatim>\<open>relay_policy.c\<close>): the streaming digest against FIPS 180-4, the identifiers, the
    ring of recent identifiers and the decision to publish.
  \<^item> \<open>Mqtt_Json\<close>, \<open>Mqtt_Discovery\<close>, \<open>Mqtt_Payloads\<close>, \<open>Mqtt_Payload_Bounds\<close>, \<open>Mqtt_Topics\<close>, \<open>Mqtt_State\<close>,
    \<open>Mqtt_State_Correct\<close> (\<^verbatim>\<open>mqtt_relay.c\<close>, the functions without state): topics, discovery payloads and the
    status message, as JSON values and with their bounds. \<open>Mqtt_App_Name\<close> (\<^verbatim>\<open>mqtt_app_name.c\<close>) and
    \<open>Mqtt_Notification\<close> (\<^verbatim>\<open>mqtt_payload.c\<close>): the message of a notification.
  \<^item> \<open>Mqtt_Context\<close>, \<open>Mqtt_Publish\<close>, \<open>Mqtt_Worker\<close>, \<open>Mqtt_Lifecycle\<close> (\<^verbatim>\<open>mqtt_relay.c\<close>, the state \<open>s_ctx\<close>): every
    operation on the state, one definition per function and one per locked section where a function
    leaves the lock in between. \<open>Mqtt_Delivery\<close> has the interleaving of the sections as a step relation
    and the account of every allocated message; \<open>Mqtt_Observer\<close> what becomes of a notification;
    \<open>Mqtt_Worker_Correct\<close> the order and the end of the worker's loop and the messages after a
    connection; \<open>Mqtt_Lifecycle_Correct\<close> the commands, the stop and the reconfiguration.
  \<^item> \<open>Provision_Config\<close>, \<open>Provision_Blob\<close>, \<open>Provision_Store\<close>, \<open>Provision_Store_Correct\<close> (\<^verbatim>\<open>provision_store.c\<close>,
    \<^verbatim>\<open>provision_policy.c\<close>): validation, merge and redaction of settings, the slot image with its checksum,
    and saving and loading over flash and over the test backend, with a failure at any operation.
  \<^item> \<open>Provisioning_State\<close>, \<open>Provisioning_Retry\<close> (\<^verbatim>\<open>provisioning_state.c\<close>, \<^verbatim>\<open>provisioning_retry.c\<close>): the reducer and
    the retry policy, over runs of events. \<open>Captive_Dns\<close>, \<open>Captive_Dns_Task\<close> (\<^verbatim>\<open>captive_dns.c\<close>): the reply to a query
    and the task of the name server.
  \<^item> \<open>Wifi_Context\<close>, \<open>Wifi_Runtime\<close>, \<open>Wifi_Api\<close> (\<^verbatim>\<open>provisioning_runtime.c\<close>): the access point and the station over the
    Wi-Fi driver. The static variables are the record \<open>wifi_runtime\<close>; \<open>Wifi_Runtime\<close> has the set-up, the task of the
    retries, the events of the driver and the mode, \<open>Wifi_Api\<close> the operations of the header. A task that
    waits for the Wi-Fi mutex while it holds it, or for a name server that never ends, is \<open>None\<close>.
    \<open>Wifi_Runtime_Correct\<close> has the invariant of the station's flags over any sequence of calls, events and turns
    (\<open>run_wifi_calls\<close>) and the end of every operation, \<open>Wifi_Station_Correct\<close> the status, the set-up that is
    all or nothing, the start of the station and what becomes of a name that fills its field.
  \<^item> \<open>Portal_Context\<close>, \<open>Portal_Http\<close> (\<^verbatim>\<open>portal_http.c\<close>): the set-up portal, one definition per handler over the record
    \<open>portal_task\<close>, which holds the server, the functions of the application that are there, the store of the
    settings and the Wi-Fi runtime. \<open>Portal_Guard_Correct\<close> shows that only requests over the access point change
    anything and that what cannot be undone is confirmed, \<open>Portal_Config_Correct\<close> what becomes of new settings:
    the contract of the settings page over the store, the password that stays with its server, and the status page,
    which does not depend on the secrets.
  \<^item> \<open>Device_Credentials\<close> (\<^verbatim>\<open>device_credentials.c\<close>): the passkey.

  \<^bold>\<open>What the model depends on.\<close> Code outside \<^verbatim>\<open>src\<close> is a parameter: the operations of flash (\<open>nvs_api\<close>, with
  their documented behaviour as the hypotheses \<open>reliable\<close> and \<open>opens\<close>), the allocator (\<open>malloc\<close>: a block of at
  least the size asked for, or nothing), the name of the chip, the sizes the build configures
  (\<open>ancs_config\<close>, \<open>client_config\<close>), for the MQTT relay \<open>relay_world\<close> (the MQTT client, the timer, the allocator,
  and what the other tasks do while a task is out of its lock), and for the Bluetooth client \<open>client_world\<close> (the
  answers of the stack, its store of bonds, the clock, the allocator and the other tasks, by the number of the
  step), for the Wi-Fi runtime \<open>wifi_world\<close>, likewise,
  and for the portal \<open>portal_world\<close> (the HTTP server, the reader and printer of cJSON, the allocator, the functions of
  the application). A call that blocks returns the state as the others left it; where a theorem needs that they respect
  the lock of the life cycle, keep the invariant, or make progress, it says so in a named hypothesis
  (\<open>lifecycle_rely\<close>, \<open>storage_ok\<close>, \<open>world_ok\<close>, \<open>wifi_world_ok\<close>, \<open>dns_ends\<close>, a decreasing number).

  \<^bold>\<open>Loops.\<close> Loops over lists are structural recursions, loops over an index are functions with a measure,
  the waits with a time limit count their turns (3000 turns of 10 ms), and the loops without a limit
  are partial functions whose end is a theorem: \<open>stop_ends_publishing\<close>, \<open>drain_queue_terminates\<close>,
  \<open>operations_return_the_mutex\<close>, and the
  padding loop of SHA-256 inside \<open>sha256_streaming\<close>. The endless loop of the client's worker is given by its
  number of turns, each of which ends; no fuel is used.

  \<^bold>\<open>Not modelled.\<close> Of \<^verbatim>\<open>mqtt_relay.c\<close> the hooks for tests on a host. The start-up in
  \<^verbatim>\<open>main\<close>, which joins the parts over ESP-IDF, and the vendored HID profile. The contents of the portal's pages. The log lines. Of \<^verbatim>\<open>ancs_client.c\<close> the contents of the advertising data.
\<close>

end
